(* ===== verification/Prelude.thy ===== *)
theory Prelude
  imports Main "HOL-Library.Word"
begin

text \<open>
  Shared vocabulary of the development: names for the machine integer types of
  the firmware, the wrap-safe time comparisons every component uses, the
  ternary-operator and out-of-range conventions, and the generic lemmas on
  lists and words that the component theories rely on.
\<close>

unbundle bit_operations_syntax

section \<open>Machine integers\<close>

text \<open>The fixed-width unsigned types of \<^verbatim>\<open>stdint.h\<close>; arithmetic on them wraps.\<close>

type_synonym u8 = "8 word"
type_synonym u16 = "16 word"
type_synonym u32 = "32 word"
type_synonym u64 = "64 word"

text \<open>
  The signed types are modelled as \<^typ>\<open>int\<close>: in C a signed overflow is undefined
  behaviour, so the components that compute with them prove that every
  intermediate value stays in range.
\<close>

definition INT32_MAX :: int where "INT32_MAX = 2147483647"
definition INT32_MIN :: int where "INT32_MIN = - 2147483648"

definition in_int32 :: "int \<Rightarrow> bool" where
  "in_int32 x \<longleftrightarrow> INT32_MIN \<le> x \<and> x \<le> INT32_MAX"

section \<open>Collections of facts\<close>

named_theorems array_simps \<open>lists used as fixed-size arrays\<close>
named_theorems word_facts \<open>facts about bytes and words shared by the components\<close>

section \<open>Lists as fixed-size arrays\<close>

lemma take_Suc_update [array_simps]:
  "n < length xs \<Longrightarrow> take (Suc n) (xs[n := x]) = take n xs @ [x]"
  by (simp add: take_Suc_conv_app_nth)

lemma take_le_update [array_simps]:
  "m \<le> n \<Longrightarrow> take m (xs[n := x]) = take m xs"
  by simp

lemma list_of_length_7:
  assumes "length xs = 7"
  shows "xs = [xs ! 0, xs ! 1, xs ! 2, xs ! 3, xs ! 4, xs ! 5, xs ! 6]"
  using assms
  by (auto simp: numeral_eq_Suc length_Suc_conv)

lemma list_of_length_8:
  assumes "length xs = 8"
  shows "xs = [xs ! 0, xs ! 1, xs ! 2, xs ! 3, xs ! 4, xs ! 5, xs ! 6, xs ! 7]"
  using assms
  by (auto simp: numeral_eq_Suc length_Suc_conv)

lemma take_append_update_middle:
  "length us = n \<Longrightarrow> take n ((us @ vs)[n := x]) = us"
  by simp

section \<open>Bytes of a word\<close>

definition lo8 :: "u16 \<Rightarrow> u8" where
  "lo8 w = ucast w"

definition hi8 :: "u16 \<Rightarrow> u8" where
  "hi8 w = ucast (drop_bit 8 w)"

definition be16 :: "u8 \<Rightarrow> u8 \<Rightarrow> u16" where
  "be16 h l = push_bit 8 (ucast h) OR ucast l"

lemma be16_hi8_lo8 [simp, word_facts]: "be16 (hi8 w) (lo8 w) = w"
  unfolding be16_def hi8_def lo8_def
  by (rule bit_word_eqI) (auto simp: bit_simps not_less)

lemma hi8_be16 [simp, word_facts]: "hi8 (be16 h l) = h"
  unfolding be16_def hi8_def
  by (rule bit_word_eqI) (auto simp: bit_simps dest: bit_imp_le_length)

lemma lo8_be16 [simp, word_facts]: "lo8 (be16 h l) = l"
  unfolding be16_def lo8_def
  by (rule bit_word_eqI) (auto simp: bit_simps)

lemma be16_inject [simp, word_facts]: "be16 h l = be16 h' l' \<longleftrightarrow> h = h' \<and> l = l'"
  by (metis hi8_be16 lo8_be16)

lemma xor_eq_zero_iff_word [word_facts]:
  fixes a b :: "'a::len word"
  shows "a XOR b = 0 \<longleftrightarrow> a = b"
  by (metis xor.left_neutral xor.right_neutral xor_self_eq xor.assoc)

lemma xor_cancel_left_word [word_facts]:
  fixes a b c :: "'a::len word"
  shows "a XOR b = a XOR c \<longleftrightarrow> b = c"
  by (metis xor.left_neutral xor.assoc xor_self_eq)

lemma xor_cancel_right_word [word_facts]:
  fixes a b c :: "'a::len word"
  shows "b XOR a = c XOR a \<longleftrightarrow> b = c"
  by (metis xor.commute xor_cancel_left_word)

lemma ucast_unat:
  fixes w :: "'a::len word"
  shows "(ucast w :: 'b::len word) = of_nat (unat w)"
  by simp

lemma unat_of_nat_u16: "n < 65536 \<Longrightarrow> unat (of_nat n :: u16) = n"
  by (simp add: unat_of_nat take_bit_nat_eq_self_iff)

lemma unat_of_nat_u32: "n < 4294967296 \<Longrightarrow> unat (of_nat n :: u32) = n"
  by (simp add: unat_of_nat take_bit_nat_eq_self_iff)

lemma unat_of_nat_u64: "n < 18446744073709551616 \<Longrightarrow> unat (of_nat n :: u64) = n"
  by (simp add: unat_of_nat take_bit_nat_eq_self_iff)

section \<open>Wrap-safe time\<close>

text \<open>
  The firmware compares 32-bit millisecond and microsecond stamps modulo
  \<open>2 ^ 32\<close>: \<open>(now - then) >= timeout\<close> in unsigned arithmetic for elapsed times,
  and \<open>(int32_t)(now - deadline) >= 0\<close> for deadlines.
\<close>

definition elapsed_ge :: "u32 \<Rightarrow> u32 \<Rightarrow> u32 \<Rightarrow> bool" where
  "elapsed_ge now since timeout \<longleftrightarrow> timeout \<le> now - since"

definition time_reached :: "u32 \<Rightarrow> u32 \<Rightarrow> bool" where
  "time_reached now deadline \<longleftrightarrow> 0 \<le> sint (now - deadline)"

lemma sint_nonneg_iff_unat: "0 \<le> sint (w :: u32) \<longleftrightarrow> unat w < 2 ^ 31"
proof -
  have "0 \<le> sint w \<longleftrightarrow> \<not> bit w 31"
    using bit_last_iff [of w] by (simp add: not_less)
  also have "\<dots> \<longleftrightarrow> uint w < 2 ^ 31"
  proof -
    have b: "bit w 31 \<longleftrightarrow> odd (uint w div 2 ^ 31)"
      using bit_uint_iff [of w 31] by (simp add: bit_iff_odd [of "uint w"])
    define u where "u = uint w"
    have range: "0 \<le> u" "u < 4294967296"
      using uint_bounded [of w] by (simp_all add: u_def)
    define q where "q = u div 2147483648"
    have q: "2147483648 * q \<le> u" "u < 2147483648 * q + 2147483648"
      unfolding q_def by linarith+
    then have "q = 0 \<or> q = 1" using range by linarith
    then have "\<not> odd q \<longleftrightarrow> u < 2147483648"
      using q by (elim disjE) simp_all
    then show ?thesis unfolding b by (simp add: u_def q_def)
  qed
  also have "\<dots> \<longleftrightarrow> unat w < 2 ^ 31"
    by (simp add: nat_less_iff flip: nat_uint_eq)
  finally show ?thesis .
qed

text \<open>
  Within half the counter range the comparison is exact: with a deadline \<open>d\<close>
  ticks after a start time, \<open>t\<close> ticks after the start, the deadline is reached
  exactly when \<open>d \<le> t\<close>, wherever the counter wraps.
\<close>

lemma time_reached_offset:
  fixes start :: u32
  assumes "t < 2 ^ 31" "d < 2 ^ 31"
  shows "time_reached (start + of_nat t) (start + of_nat d) \<longleftrightarrow> d \<le> t"
proof (cases "d \<le> t")
  case True
  then have "start + of_nat t - (start + of_nat d) = (of_nat (t - d) :: u32)"
    by (simp add: of_nat_diff)
  moreover have "unat (of_nat (t - d) :: u32) = t - d"
    using assms by (simp add: unat_of_nat take_bit_nat_eq_self_iff)
  ultimately show ?thesis
    using True assms by (simp add: time_reached_def sint_nonneg_iff_unat)
next
  case False
  then have eq: "start + of_nat t - (start + of_nat d) = - (of_nat (d - t) :: u32)"
    by (simp add: of_nat_diff)
  have pos: "0 < d - t" "d - t < 2 ^ 31" using False assms by auto
  have "of_nat (2 ^ 32 - (d - t)) = (of_nat (2 ^ 32) - of_nat (d - t) :: u32)"
    using pos by (intro of_nat_diff) simp
  then have "- (of_nat (d - t) :: u32) = of_nat (2 ^ 32 - (d - t))"
    by (simp del: of_nat_diff)
  then have "unat (- (of_nat (d - t) :: u32)) = 2 ^ 32 - (d - t)"
    using pos by (simp add: unat_of_nat take_bit_nat_eq_self_iff del: of_nat_diff)
  then show ?thesis
    using False pos by (simp add: time_reached_def eq sint_nonneg_iff_unat)
qed

lemma time_reached_self [simp]: "time_reached t t"
  by (simp add: time_reached_def)

section \<open>Short-circuit conditions\<close>

text \<open>
  The conditions of \<open>&&\<close> and \<open>||\<close> chains whose operands may change the state: they are
  evaluated in order, up to the first that decides.
\<close>

definition test :: "('s \<Rightarrow> bool) \<Rightarrow> 's \<Rightarrow> bool \<times> 's" where
  "test b w = (b w, w)"

definition not_q :: "('s \<Rightarrow> bool \<times> 's) \<Rightarrow> 's \<Rightarrow> bool \<times> 's" where
  "not_q q w = (case q w of (b, w') \<Rightarrow> (\<not> b, w'))"

fun all_of :: "('s \<Rightarrow> bool \<times> 's) list \<Rightarrow> 's \<Rightarrow> bool \<times> 's" where
  "all_of [] w = (True, w)"
| "all_of (q # qs) w = (case q w of (b, w') \<Rightarrow> if b then all_of qs w' else (False, w'))"

fun any_of :: "('s \<Rightarrow> bool \<times> 's) list \<Rightarrow> 's \<Rightarrow> bool \<times> 's" where
  "any_of [] w = (False, w)"
| "any_of (q # qs) w = (case q w of (b, w') \<Rightarrow> if b then (True, w') else any_of qs w')"

lemma test_simps [simp]: "fst (test b w) = b w" "snd (test b w) = w"
  by (simp_all add: test_def)

lemma not_q_simps [simp]: "fst (not_q q w) = (\<not> fst (q w))" "snd (not_q q w) = snd (q w)"
  by (simp_all add: not_q_def split: prod.splits)

lemma of_Cons [simp]:
  "all_of (q # qs) w = (if fst (q w) then all_of qs (snd (q w)) else (False, snd (q w)))"
  "any_of (q # qs) w = (if fst (q w) then (True, snd (q w)) else any_of qs (snd (q w)))"
  by (simp_all split: prod.splits)

declare all_of.simps(2) [simp del] any_of.simps(2) [simp del]

end
