(* ===== verification/Crc16.thy ===== *)
theory Crc16
  imports Prelude
begin

text \<open>
  The Modbus CRC of \<^verbatim>\<open>Protocol/Modbus/modbus_crc16.c\<close>: the bitwise loop of the
  code, and its algebra (the bit step is linear over exclusive or and
  injective), from which the residue and error-detection theorems follow.
\<close>

section \<open>The code\<close>

text \<open>One iteration of the inner \<open>for\<close> loop, and the loop over \<open>n\<close> bits.\<close>

definition crc_bit :: "u16 \<Rightarrow> u16" where
  "crc_bit crc = (if crc AND 0x0001 \<noteq> 0 then drop_bit 1 crc XOR 0xA001 else drop_bit 1 crc)"

primrec crc_bits :: "nat \<Rightarrow> u16 \<Rightarrow> u16" where
  "crc_bits 0 crc = crc"
| "crc_bits (Suc n) crc = crc_bits n (crc_bit crc)"

text \<open>The outer \<open>while (length-- > 0U)\<close> loop, reading \<open>*data++\<close>.\<close>

primrec crc_while :: "nat \<Rightarrow> u8 list \<Rightarrow> u16 \<Rightarrow> u16" where
  "crc_while 0 data crc = crc"
| "crc_while (Suc n) data crc = crc_while n (tl data) (crc_bits 8 (crc XOR ucast (hd data)))"

definition Modbus_Crc16 :: "u8 list option \<Rightarrow> nat \<Rightarrow> u16" where
  "Modbus_Crc16 data len =
    (case data of
       None \<Rightarrow> 0
     | Some bytes \<Rightarrow> if len = 0 then 0 else crc_while len bytes 0xFFFF)"

section \<open>The CRC as a fold\<close>

definition crc_byte :: "u16 \<Rightarrow> u8 \<Rightarrow> u16" where
  "crc_byte crc b = crc_bits 8 (crc XOR ucast b)"

lemma crc_while_foldl: "n \<le> length bs \<Longrightarrow> crc_while n bs crc = foldl crc_byte crc (take n bs)"
proof (induction n arbitrary: bs crc)
  case 0
  then show ?case by simp
next
  case (Suc n)
  then obtain b bs' where "bs = b # bs'" by (cases bs) auto
  with Suc show ?case by (simp add: crc_byte_def)
qed

lemma Modbus_Crc16_foldl:
  "bs \<noteq> [] \<Longrightarrow> Modbus_Crc16 (Some bs) (length bs) = foldl crc_byte 0xFFFF bs"
  by (simp add: Modbus_Crc16_def crc_while_foldl)

lemma Modbus_Crc16_prefix:
  "bs \<noteq> [] \<Longrightarrow> Modbus_Crc16 (Some (bs @ cs)) (length bs) = foldl crc_byte 0xFFFF bs"
  by (simp add: Modbus_Crc16_def crc_while_foldl)

section \<open>Linearity and injectivity of the bit step\<close>

lemma and_one_xor:
  fixes x y :: u16
  shows "(x XOR y) AND 1 = 0 \<longleftrightarrow> (x AND 1 = 0 \<longleftrightarrow> y AND 1 = 0)"
  by (simp add: and_one_eq mod_2_eq_odd even_xor_iff)

lemma crc_bit_xor: "crc_bit (x XOR y) = crc_bit x XOR crc_bit y"
  unfolding crc_bit_def
  by (simp add: and_one_xor drop_bit_xor xor.assoc xor.left_commute xor.commute)

lemma crc_bits_xor: "crc_bits n (x XOR y) = crc_bits n x XOR crc_bits n y"
  by (induction n arbitrary: x y) (simp_all add: crc_bit_xor)

lemma crc_bit_eq_zero: "crc_bit x = 0 \<longleftrightarrow> x = 0"
proof
  assume z: "crc_bit x = 0"
  show "x = 0"
  proof (cases "bit x 0")
    case True
    then have "drop_bit 1 x XOR 0xA001 = 0"
      using z by (simp add: crc_bit_def and_one_eq mod_2_eq_odd bit_0)
    then have "drop_bit 1 x = (0xA001 :: u16)" by (simp add: xor_eq_zero_iff_word)
    then have "bit (drop_bit 1 x) 15 = bit (0xA001 :: u16) 15" by simp
    then have "bit x 16" by (simp add: bit_simps)
    then show ?thesis using bit_imp_le_length [of x 16] by simp
  next
    case False
    then have d: "drop_bit 1 x = 0"
      using z by (simp add: crc_bit_def and_one_eq mod_2_eq_odd bit_0)
    show ?thesis
    proof (rule bit_word_eqI)
      fix n :: nat
      show "bit x n = bit 0 n"
      proof (cases n)
        case 0
        with False show ?thesis by simp
      next
        case (Suc m)
        have "bit (drop_bit 1 x) m = bit (0 :: u16) m" unfolding d ..
        then show ?thesis by (simp add: Suc bit_drop_bit_eq)
      qed
    qed
  qed
qed (simp add: crc_bit_def)

lemma crc_bits_eq_zero: "crc_bits n x = 0 \<longleftrightarrow> x = 0"
  by (induction n arbitrary: x) (simp_all add: crc_bit_eq_zero)

lemma crc_bits_inject: "crc_bits n x = crc_bits n y \<longleftrightarrow> x = y"
  by (metis crc_bits_xor crc_bits_eq_zero xor_eq_zero_iff_word)

lemma crc_bits_add: "crc_bits (m + n) x = crc_bits n (crc_bits m x)"
  by (induction m arbitrary: x) simp_all

lemma crc_bits_push: "crc_bits 8 (push_bit 8 (ucast (b :: u8))) = ucast b"
proof -
  have step: "crc_bit (push_bit (Suc k) (ucast b)) = push_bit k (ucast b :: u16)" if "k < 8" for k
  proof -
    have "push_bit (Suc k) (ucast b :: u16) AND 1 = 0"
      by (simp add: and_one_eq mod_2_eq_odd)
    moreover have "drop_bit 1 (push_bit (Suc k) (ucast b :: u16)) = push_bit k (ucast b)"
    proof (rule bit_word_eqI)
      fix n :: nat
      assume "n < LENGTH(16)"
      then show "bit (drop_bit 1 (push_bit (Suc k) (ucast b :: u16))) n = bit (push_bit k (ucast b :: u16)) n"
        using that bit_imp_le_length [of b "n - k"]
        by (simp add: bit_drop_bit_eq bit_push_bit_iff bit_ucast_iff del: push_bit_Suc) arith
    qed
    ultimately show ?thesis by (simp add: crc_bit_def)
  qed
  have "crc_bits k (push_bit k (ucast b)) = ucast b" if "k \<le> 8" for k
    using that by (induction k) (simp_all add: step del: push_bit_Suc)
  then show ?thesis by simp
qed

text \<open>Two consecutive bytes are sixteen shifts of the state xored with both.\<close>

lemma crc_byte_byte:
  "crc_byte (crc_byte crc b) c = crc_bits 16 (crc XOR be16 c b)"
proof -
  have dis: "push_bit 8 (ucast c :: u16) OR ucast b = push_bit 8 (ucast c) XOR ucast b"
    by (rule bit_word_eqI) (auto simp: bit_simps dest: bit_imp_le_length)
  have "crc_byte (crc_byte crc b) c
      = crc_bits 8 (crc_bits 8 (crc XOR ucast b) XOR crc_bits 8 (push_bit 8 (ucast c)))"
    by (simp only: crc_byte_def crc_bits_push)
  also have "\<dots> = crc_bits (8 + 8) (crc XOR be16 c b)"
    unfolding crc_bits_add be16_def dis
    by (simp only: crc_bits_xor [symmetric] xor.assoc xor.commute [of "ucast b"])
  finally show ?thesis by simp
qed

lemma crc_byte_own: "crc_byte (crc_byte c (lo8 c)) (hi8 c) = 0"
  by (simp add: crc_byte_byte crc_bits_eq_zero)

lemma crc_byte_inject_state: "crc_byte c b = crc_byte c' b \<longleftrightarrow> c = c'"
  by (simp add: crc_byte_def crc_bits_inject xor_cancel_right_word)

lemma foldl_crc_byte_inject_state: "foldl crc_byte c bs = foldl crc_byte c' bs \<longleftrightarrow> c = c'"
  by (induction bs arbitrary: c c') (simp_all add: crc_byte_inject_state)

section \<open>Properties\<close>

text \<open>A message followed by its own CRC, low byte first as the link sends it,
  has CRC zero: the receiver's check accepts exactly what the sender computed.\<close>

theorem crc16_residue:
  assumes "bs \<noteq> []"
  shows "(let c = Modbus_Crc16 (Some bs) (length bs);
              frame = bs @ [lo8 c, hi8 c]
          in Modbus_Crc16 (Some frame) (length frame) = 0)"
proof -
  let ?c = "foldl crc_byte 0xFFFF bs"
  have "Modbus_Crc16 (Some (bs @ [lo8 ?c, hi8 ?c])) (length (bs @ [lo8 ?c, hi8 ?c])) = 0"
    by (subst Modbus_Crc16_foldl) (simp_all add: crc_byte_own)
  then show ?thesis
    unfolding Let_def Modbus_Crc16_foldl [OF assms] .
qed

theorem crc16_residue_witness:
  "Modbus_Crc16 (Some [1, 6, 0, 0, 0, 100, lo8 (Modbus_Crc16 (Some [1, 6, 0, 0, 0, 100]) 6),
      hi8 (Modbus_Crc16 (Some [1, 6, 0, 0, 0, 100]) 6)]) 8 = 0"
  using crc16_residue [of "[1, 6, 0, 0, 0, 100]"] by (simp add: Let_def eval_nat_numeral)

text \<open>Every corruption confined to two adjacent bytes of a message (so every
  error burst of at most nine bits, wherever it lies, and every change of one
  byte) changes the CRC.\<close>

theorem crc16_detects_adjacent_bytes:
  assumes "(b, c) \<noteq> (b', c')"
  shows "Modbus_Crc16 (Some (us @ [b, c] @ vs)) (length (us @ [b, c] @ vs))
       \<noteq> Modbus_Crc16 (Some (us @ [b', c'] @ vs)) (length (us @ [b', c'] @ vs))"
proof -
  let ?f = "\<lambda>x y. us @ [x, y] @ vs"
  have "Modbus_Crc16 (Some (?f x y)) (length (?f x y)) = foldl crc_byte 0xFFFF (?f x y)"
    for x y by (rule Modbus_Crc16_foldl) simp
  moreover have "foldl crc_byte 0xFFFF (?f b c) \<noteq> foldl crc_byte 0xFFFF (?f b' c')"
    using assms
    by (auto simp: foldl_crc_byte_inject_state crc_byte_byte crc_bits_inject xor_cancel_left_word)
  ultimately show ?thesis by simp
qed

theorem crc16_detects_adjacent_bytes_witness:
  "Modbus_Crc16 (Some ([1] @ [6, 0] @ [1, 2])) (length ([1] @ [6, 0] @ [1, 2 :: u8]))
 \<noteq> Modbus_Crc16 (Some ([1] @ [6, 7] @ [1, 2])) (length ([1] @ [6, 7] @ [1, 2 :: u8]))"
  by (rule crc16_detects_adjacent_bytes) simp

end
