(* ===== verification/PressureFrame.thy ===== *)
theory PressureFrame
  imports Prelude
begin

text \<open>
  The pressure sensor's frame format: \<^verbatim>\<open>Protocol/PressureSensor/pressure_sensor_bcc.c\<close>
  (block check character) and \<^verbatim>\<open>pressure_sensor_decode_frame.c\<close> (validation and
  extraction), with the constants of \<^verbatim>\<open>pressure_sensor_protocol.h\<close>. A reference
  encoder states the format declaratively; the decoder is proved to accept
  exactly its images.
\<close>

section \<open>Constants and types\<close>

abbreviation (input) PRESSURE_SENSOR_FRAME_LENGTH :: nat where
  "PRESSURE_SENSOR_FRAME_LENGTH \<equiv> 7"

abbreviation (input) PRESSURE_SENSOR_FRAME_HEADER :: u8 where
  "PRESSURE_SENSOR_FRAME_HEADER \<equiv> 0xFD"

abbreviation (input) PRESSURE_SENSOR_FRAME_MARKER :: u8 where
  "PRESSURE_SENSOR_FRAME_MARKER \<equiv> 0xFE"

abbreviation (input) PRESSURE_SENSOR_FRAME_BCC_INDEX :: nat where
  "PRESSURE_SENSOR_FRAME_BCC_INDEX \<equiv> 5"

datatype PressureFrameResult =
    PRESSURE_FRAME_OK
  | PRESSURE_FRAME_INVALID_ARGUMENT
  | PRESSURE_FRAME_INVALID_LENGTH
  | PRESSURE_FRAME_INVALID_HEADER
  | PRESSURE_FRAME_INVALID_BCC
  | PRESSURE_FRAME_INVALID_MARKER

record PressureFrameData =
  pfd_raw_pressure_counts :: u16

section \<open>The code\<close>

text \<open>\<open>for (index = 0U; index < length; ++index) bcc ^= data[index];\<close>\<close>

function bcc_for :: "u8 list \<Rightarrow> nat \<Rightarrow> nat \<Rightarrow> u8 \<Rightarrow> u8" where
  "bcc_for data len index bcc =
    (if index < len then bcc_for data len (Suc index) (bcc XOR data ! index) else bcc)"
  by pat_completeness auto
termination by (relation "measure (\<lambda>(data, len, index, bcc). len - index)") auto

declare bcc_for.simps [simp del]

definition PressureSensor_CalculateBcc :: "u8 list option \<Rightarrow> nat \<Rightarrow> u8" where
  "PressureSensor_CalculateBcc data len =
    (case data of None \<Rightarrow> 0 | Some bytes \<Rightarrow> bcc_for bytes len 0 0)"

definition PressureSensor_DecodeFrame ::
  "u8 list option \<Rightarrow> nat \<Rightarrow> PressureFrameData option
    \<Rightarrow> PressureFrameResult \<times> PressureFrameData option" where
  "PressureSensor_DecodeFrame frame frame_length output =
    (case (frame, output) of
       (Some f, Some out) \<Rightarrow>
         (if frame_length \<noteq> PRESSURE_SENSOR_FRAME_LENGTH
          then (PRESSURE_FRAME_INVALID_LENGTH, output)
          else if f ! 0 \<noteq> PRESSURE_SENSOR_FRAME_HEADER
          then (PRESSURE_FRAME_INVALID_HEADER, output)
          else if f ! PRESSURE_SENSOR_FRAME_BCC_INDEX
                  \<noteq> PressureSensor_CalculateBcc frame PRESSURE_SENSOR_FRAME_BCC_INDEX
          then (PRESSURE_FRAME_INVALID_BCC, output)
          else if f ! 6 \<noteq> PRESSURE_SENSOR_FRAME_MARKER
          then (PRESSURE_FRAME_INVALID_MARKER, output)
          else
            (let raw_pressure_counts = ucast (f ! 1) OR push_bit 8 (ucast (f ! 2))
             in (PRESSURE_FRAME_OK,
                 Some (out\<lparr>pfd_raw_pressure_counts := raw_pressure_counts\<rparr>))))
     | _ \<Rightarrow> (PRESSURE_FRAME_INVALID_ARGUMENT, output))"

section \<open>The format, declaratively\<close>

text \<open>
  A frame carries the two bytes of the sample and two bytes the controller does
  not interpret.
\<close>

definition encode_frame :: "u16 \<Rightarrow> u8 \<Rightarrow> u8 \<Rightarrow> u8 list" where
  "encode_frame raw a b =
    [0xFD, lo8 raw, hi8 raw, a, b, 0xFD XOR lo8 raw XOR hi8 raw XOR a XOR b, 0xFE]"

definition valid_frame :: "u8 list \<Rightarrow> bool" where
  "valid_frame f \<longleftrightarrow>
    length f = 7 \<and> f ! 0 = 0xFD \<and> f ! 5 = f ! 0 XOR f ! 1 XOR f ! 2 XOR f ! 3 XOR f ! 4 \<and> f ! 6 = 0xFE"

definition frame_raw :: "u8 list \<Rightarrow> u16" where
  "frame_raw f = be16 (f ! 2) (f ! 1)"

lemma bcc_for_step: "index < len \<Longrightarrow> bcc_for data len index bcc = bcc_for data len (Suc index) (bcc XOR data ! index)"
  by (simp add: bcc_for.simps)

lemma bcc_for_done: "\<not> index < len \<Longrightarrow> bcc_for data len index bcc = bcc"
  by (simp add: bcc_for.simps)

lemma bcc_5: "PressureSensor_CalculateBcc (Some f) 5 = f ! 0 XOR f ! 1 XOR f ! 2 XOR f ! 3 XOR f ! 4"
proof -
  have "bcc_for f 5 0 0 = f ! 0 XOR f ! 1 XOR f ! 2 XOR f ! 3 XOR f ! Suc 3"
    by (simp add: bcc_for_step bcc_for_done numeral_2_eq_2 numeral_3_eq_3 xor.assoc)
  then show ?thesis by (simp add: PressureSensor_CalculateBcc_def)
qed

lemma decode_frame_cases:
  assumes "length f = 7"
  shows "PressureSensor_DecodeFrame (Some f) (length f) (Some out) =
    (if valid_frame f
     then (PRESSURE_FRAME_OK, Some (out\<lparr>pfd_raw_pressure_counts := frame_raw f\<rparr>))
     else (if f ! 0 \<noteq> 0xFD then PRESSURE_FRAME_INVALID_HEADER
           else if f ! 5 \<noteq> PressureSensor_CalculateBcc (Some f) 5 then PRESSURE_FRAME_INVALID_BCC
           else PRESSURE_FRAME_INVALID_MARKER, Some out))"
  using assms
  by (auto simp: PressureSensor_DecodeFrame_def valid_frame_def frame_raw_def be16_def bcc_5
      Let_def or.commute)

lemma valid_frame_encode [simp]: "valid_frame (encode_frame raw a b)"
  by (simp add: valid_frame_def encode_frame_def eval_nat_numeral)

lemma frame_raw_encode [simp]: "frame_raw (encode_frame raw a b) = raw"
  by (simp add: frame_raw_def encode_frame_def eval_nat_numeral)

lemma valid_frame_is_encoded:
  assumes "valid_frame f"
  shows "f = encode_frame (frame_raw f) (f ! 3) (f ! 4)"
proof -
  have "f = [f ! 0, f ! 1, f ! 2, f ! 3, f ! 4, f ! 5, f ! 6]"
    using assms by (intro list_of_length_7) (simp add: valid_frame_def)
  then show ?thesis
    using assms unfolding valid_frame_def encode_frame_def frame_raw_def
    by (metis hi8_be16 lo8_be16)
qed

lemma valid_frame_not_Nil: "valid_frame f \<Longrightarrow> f \<noteq> []"
  by (auto simp: valid_frame_def)

lemma valid_frame_hd: "valid_frame f \<Longrightarrow> hd f = 0xFD"
  by (simp add: valid_frame_def hd_conv_nth valid_frame_not_Nil flip: length_greater_0_conv)

lemma valid_frame_length: "valid_frame f \<Longrightarrow> length f = 7"
  by (simp add: valid_frame_def)

text \<open>Changing one byte of a valid frame leaves an invalid one.\<close>

lemma valid_frame_corrupt:
  assumes "valid_frame f" "i < 7" "x \<noteq> f ! i"
  shows "\<not> valid_frame (f[i := x])"
proof -
  have i: "i = 0 \<or> i = 1 \<or> i = 2 \<or> i = 3 \<or> i = 4 \<or> i = 5 \<or> i = 6"
    using assms by linarith
  have len: "length f = 7" using assms by (simp add: valid_frame_def)
  show ?thesis
    using i assms(1,3) unfolding valid_frame_def
    by (elim disjE) (auto simp: len xor_cancel_left_word xor_cancel_right_word)
qed

section \<open>Properties\<close>

text \<open>The decoder accepts exactly the frames of the sensor's format, and on them
  returns the sample the format encodes (round trip); on every other frame of the
  right length it reports an error and leaves the output untouched.\<close>

theorem decode_frame_roundtrip:
  assumes "length f = 7"
  shows "(case PressureSensor_DecodeFrame (Some f) (length f) (Some out) of
      (PRESSURE_FRAME_OK, out') \<Rightarrow>
        \<exists>raw a b. f = encode_frame raw a b \<and> out' = Some (out\<lparr>pfd_raw_pressure_counts := raw\<rparr>)
    | (_, out') \<Rightarrow> out' = Some out \<and> (\<forall>raw a b. f \<noteq> encode_frame raw a b))"
proof (cases "valid_frame f")
  case True
  then show ?thesis
    using valid_frame_is_encoded [OF True] by (auto simp: decode_frame_cases [OF assms])
next
  case False
  then have "\<forall>raw a b. f \<noteq> encode_frame raw a b" by auto
  with False show ?thesis
    by (auto simp: decode_frame_cases [OF assms] split: PressureFrameResult.splits)
qed

theorem decode_frame_roundtrip_witness:
  "PressureSensor_DecodeFrame (Some (encode_frame 0x1234 5 6)) (length (encode_frame 0x1234 5 6))
     (Some \<lparr>pfd_raw_pressure_counts = 0\<rparr>)
   = (PRESSURE_FRAME_OK, Some \<lparr>pfd_raw_pressure_counts = 0x1234\<rparr>)
   \<and> length (encode_frame 0x1234 5 6) = 7"
proof -
  have len: "length (encode_frame 0x1234 5 6) = 7" by (simp add: encode_frame_def)
  show ?thesis
    using decode_frame_roundtrip [OF len, of "\<lparr>pfd_raw_pressure_counts = 0\<rparr>"]
    by (simp add: decode_frame_cases [OF len, unfolded len] len)
qed

text \<open>A valid frame in which any single byte is altered, the header, the block
  check and the marker included, is never accepted.\<close>

theorem decode_frame_detects_corruption:
  assumes "fst (PressureSensor_DecodeFrame (Some f) (length f) (Some out)) = PRESSURE_FRAME_OK"
    and "length f = 7" and "i < length f" and "x \<noteq> f ! i"
  shows "fst (PressureSensor_DecodeFrame (Some (f[i := x])) (length f) (Some out))
           \<noteq> PRESSURE_FRAME_OK"
proof -
  have "valid_frame f"
    using assms(1) by (simp add: decode_frame_cases [OF assms(2)] split: if_splits)
  then have "\<not> valid_frame (f[i := x])"
    using assms by (intro valid_frame_corrupt) auto
  moreover have "length (f[i := x]) = 7" using assms by simp
  ultimately show ?thesis
    using decode_frame_cases [of "f[i := x]" out] by simp
qed

theorem decode_frame_detects_corruption_witness:
  "fst (PressureSensor_DecodeFrame (Some ([0xFD, 2, 1, 0, 0, 0xFE, 0xFE][1 := 3]))
     (length [0xFD, 2, 1, 0, 0, 0xFE, 0xFE :: u8]) (Some \<lparr>pfd_raw_pressure_counts = 0\<rparr>))
   \<noteq> PRESSURE_FRAME_OK"
  by (rule decode_frame_detects_corruption)
     (simp_all add: PressureSensor_DecodeFrame_def bcc_5 [of "[0xFD, 2, 1, 0, 0, 0xFE, 0xFE]"])

end
