(* ===== verification/PressureReceiver.thy ===== *)
theory PressureReceiver
  imports PressureFrame
begin

text \<open>
  The pressure stream receiver of \<^verbatim>\<open>Transport/Pressure/pressure_receiver.c\<close>: it
  assembles frames from the sensor's byte stream, publishes valid samples with a
  sequence number and resynchronises on errors. The incremental state machine is
  proved equivalent to a declarative left-to-right scan of the whole stream.
\<close>

section \<open>State\<close>

record PressureReceiverSnapshot =
  prs_raw_pressure_counts :: u16
  prs_last_valid_frame :: "u8 list"
  prs_sample_sequence :: u64
  prs_received_at_ms :: u32
  prs_valid_frame_count :: u32
  prs_invalid_header_count :: u32
  prs_invalid_bcc_count :: u32
  prs_invalid_marker_count :: u32
  prs_dropped_resync_byte_count :: u32
  prs_last_valid_frame_ms :: u32
  prs_frame_interval_min_ms :: u32
  prs_frame_interval_max_ms :: u32

record PressureReceiver =
  pr_frame :: "u8 list"
  pr_frame_length :: nat
  pr_snapshot :: PressureReceiverSnapshot

section \<open>Operations\<close>

definition PressureReceiver_PublishValidFrame ::
  "PressureReceiverSnapshot \<Rightarrow> PressureFrameData \<Rightarrow> u32 \<Rightarrow> PressureReceiverSnapshot" where
  "PressureReceiver_PublishValidFrame s frame_data received_at_ms =
    (let s1 =
       (if prs_valid_frame_count s \<noteq> 0
        then
          (let frame_interval_ms = received_at_ms - prs_last_valid_frame_ms s;
               sa = (if prs_frame_interval_min_ms s = 0
                        \<or> frame_interval_ms < prs_frame_interval_min_ms s
                     then s\<lparr>prs_frame_interval_min_ms := frame_interval_ms\<rparr> else s)
           in if frame_interval_ms > prs_frame_interval_max_ms sa
              then sa\<lparr>prs_frame_interval_max_ms := frame_interval_ms\<rparr> else sa)
        else s)
     in s1\<lparr>prs_raw_pressure_counts := pfd_raw_pressure_counts frame_data,
           prs_sample_sequence := prs_sample_sequence s1 + 1,
           prs_received_at_ms := received_at_ms,
           prs_valid_frame_count := prs_valid_frame_count s1 + 1,
           prs_last_valid_frame_ms := received_at_ms\<rparr>)"

definition PressureReceiver_CountFrameError ::
  "PressureReceiverSnapshot \<Rightarrow> PressureFrameResult \<Rightarrow> PressureReceiverSnapshot" where
  "PressureReceiver_CountFrameError s result =
    (if result = PRESSURE_FRAME_INVALID_BCC
     then s\<lparr>prs_invalid_bcc_count := prs_invalid_bcc_count s + 1\<rparr>
     else if result = PRESSURE_FRAME_INVALID_MARKER
     then s\<lparr>prs_invalid_marker_count := prs_invalid_marker_count s + 1\<rparr>
     else s)"

text \<open>The \<open>for\<close> loop that looks for the next header byte.\<close>

function next_header :: "u8 list \<Rightarrow> nat \<Rightarrow> nat \<Rightarrow> nat" where
  "next_header frame len header_index =
    (if header_index < len
     then if frame ! header_index = PRESSURE_SENSOR_FRAME_HEADER then header_index
          else next_header frame len (Suc header_index)
     else header_index)"
  by pat_completeness auto
termination by (relation "measure (\<lambda>(frame, len, i). len - i)") auto

declare next_header.simps [simp del]

text \<open>\<open>memmove(dst, &dst[from], count)\<close> within one array.\<close>

definition memmove_down :: "u8 list \<Rightarrow> nat \<Rightarrow> nat \<Rightarrow> u8 list" where
  "memmove_down a from count = take count (drop from a) @ drop count a"

definition PressureReceiver_Resynchronize :: "PressureReceiver \<Rightarrow> PressureReceiver" where
  "PressureReceiver_Resynchronize r =
    (let header_index = next_header (pr_frame r) (pr_frame_length r) 1;
         s = pr_snapshot r;
         r1 = r\<lparr>pr_snapshot := s\<lparr>prs_dropped_resync_byte_count :=
                 prs_dropped_resync_byte_count s + of_nat header_index\<rparr>\<rparr>
     in if header_index < pr_frame_length r1
        then
          (let n = pr_frame_length r1 - header_index
           in r1\<lparr>pr_frame_length := n, pr_frame := memmove_down (pr_frame r1) header_index n\<rparr>)
        else r1\<lparr>pr_frame_length := 0\<rparr>)"

definition PressureReceiver_Initialize :: "PressureReceiver \<Rightarrow> PressureReceiver" where
  "PressureReceiver_Initialize r =
    \<lparr>pr_frame = replicate PRESSURE_SENSOR_FRAME_LENGTH 0, pr_frame_length = 0,
     pr_snapshot =
       \<lparr>prs_raw_pressure_counts = 0,
        prs_last_valid_frame = replicate PRESSURE_SENSOR_FRAME_LENGTH 0,
        prs_sample_sequence = 0, prs_received_at_ms = 0, prs_valid_frame_count = 0,
        prs_invalid_header_count = 0, prs_invalid_bcc_count = 0, prs_invalid_marker_count = 0,
        prs_dropped_resync_byte_count = 0, prs_last_valid_frame_ms = 0,
        prs_frame_interval_min_ms = 0, prs_frame_interval_max_ms = 0\<rparr>\<rparr>"

text \<open>The body of the byte loop of \<open>PressureReceiver_ProcessBytes\<close>.\<close>

definition process_byte :: "u32 \<Rightarrow> PressureReceiver \<Rightarrow> u8 \<Rightarrow> PressureReceiver" where
  "process_byte received_at_ms r b =
    (if pr_frame_length r = 0 \<and> b \<noteq> PRESSURE_SENSOR_FRAME_HEADER
     then
       (let s = pr_snapshot r
        in r\<lparr>pr_snapshot := s\<lparr>prs_invalid_header_count := prs_invalid_header_count s + 1,
             prs_dropped_resync_byte_count := prs_dropped_resync_byte_count s + 1\<rparr>\<rparr>)
     else
       (let r1 = r\<lparr>pr_frame := (pr_frame r)[pr_frame_length r := b],
                   pr_frame_length := Suc (pr_frame_length r)\<rparr>
        in if pr_frame_length r1 = PRESSURE_SENSOR_FRAME_LENGTH
           then
             (case PressureSensor_DecodeFrame (Some (pr_frame r1)) (pr_frame_length r1)
                     (Some \<lparr>pfd_raw_pressure_counts = 0\<rparr>) of
                (PRESSURE_FRAME_OK, output) \<Rightarrow>
                  r1\<lparr>pr_snapshot := PressureReceiver_PublishValidFrame
                       ((pr_snapshot r1)\<lparr>prs_last_valid_frame :=
                          take PRESSURE_SENSOR_FRAME_LENGTH (pr_frame r1)\<rparr>)
                       (the output) received_at_ms,
                     pr_frame_length := 0\<rparr>
              | (result, _) \<Rightarrow>
                  PressureReceiver_Resynchronize
                    (r1\<lparr>pr_snapshot := PressureReceiver_CountFrameError (pr_snapshot r1) result\<rparr>))
           else r1))"

definition PressureReceiver_ProcessBytes ::
  "PressureReceiver \<Rightarrow> u8 list option \<Rightarrow> nat \<Rightarrow> u32 \<Rightarrow> PressureReceiver" where
  "PressureReceiver_ProcessBytes r bytes byte_count received_at_ms =
    (case bytes of
       None \<Rightarrow> r
     | Some bs \<Rightarrow> foldl (process_byte received_at_ms) r (take byte_count bs))"

definition PressureReceiver_GetSnapshot :: "PressureReceiver \<Rightarrow> PressureReceiverSnapshot" where
  "PressureReceiver_GetSnapshot r = pr_snapshot r"

section \<open>The receiver's specification\<close>

text \<open>
  A stream of bytes is cut into dropped bytes and accepted frames, from the left:
  a byte that is not a header is dropped; a header starts a frame if the next
  seven bytes form one, is dropped if they do not, and is kept when they have not
  all arrived.
\<close>

datatype segment = Dropped u8 | Accepted "u8 list"

primrec segment_bytes :: "segment \<Rightarrow> u8 list" where
  "segment_bytes (Dropped b) = [b]"
| "segment_bytes (Accepted f) = f"

function scan :: "u8 list \<Rightarrow> segment list \<times> u8 list" where
  "scan [] = ([], [])"
| "scan (b # bs) =
    (if b \<noteq> 0xFD then (case scan bs of (gs, rest) \<Rightarrow> (Dropped b # gs, rest))
     else if length (b # bs) < 7 then ([], b # bs)
     else if valid_frame (take 7 (b # bs))
     then (case scan (drop 7 (b # bs)) of (gs, rest) \<Rightarrow> (Accepted (take 7 (b # bs)) # gs, rest))
     else (case scan bs of (gs, rest) \<Rightarrow> (Dropped b # gs, rest)))"
  by pat_completeness auto
termination by (relation "measure length") auto

declare scan.simps(2) [simp del]

definition accepted_frames :: "segment list \<Rightarrow> u8 list list" where
  "accepted_frames gs = concat (map (\<lambda>g. case g of Dropped _ \<Rightarrow> [] | Accepted f \<Rightarrow> [f]) gs)"

definition dropped_bytes :: "segment list \<Rightarrow> u8 list" where
  "dropped_bytes gs = concat (map (\<lambda>g. case g of Dropped b \<Rightarrow> [b] | Accepted _ \<Rightarrow> []) gs)"

text \<open>The bytes of an unfinished frame, and the receiver's invariant.\<close>

definition pending :: "PressureReceiver \<Rightarrow> u8 list" where
  "pending r = take (pr_frame_length r) (pr_frame r)"

definition residual :: "u8 list \<Rightarrow> bool" where
  "residual p \<longleftrightarrow> length p < 7 \<and> (p \<noteq> [] \<longrightarrow> hd p = 0xFD)"

definition receiver_ok :: "PressureReceiver \<Rightarrow> bool" where
  "receiver_ok r \<longleftrightarrow> length (pr_frame r) = 7 \<and> pr_frame_length r < 7 \<and> residual (pending r)"

section \<open>The scan\<close>

lemma scan_drop: "b \<noteq> 0xFD \<Longrightarrow> scan (b # bs) = (case scan bs of (gs, rest) \<Rightarrow> (Dropped b # gs, rest))"
  by (simp add: scan.simps)

lemma scan_short: "hd p = 0xFD \<Longrightarrow> length p < 7 \<Longrightarrow> scan p = ([], p)"
  by (cases p) (simp_all add: scan.simps)

lemma scan_residual: "residual p \<Longrightarrow> scan p = ([], p)"
  by (cases "p = []") (auto simp: residual_def intro: scan_short)

lemma scan_accept:
  assumes "valid_frame f"
  shows "scan (f @ bs) = (case scan bs of (gs, rest) \<Rightarrow> (Accepted f # gs, rest))"
proof -
  obtain fs where f: "f = 0xFD # fs"
    using assms valid_frame_hd valid_frame_not_Nil by (metis list.exhaust_sel)
  then have "take 7 (0xFD # (fs @ bs)) = f" "drop 7 (0xFD # (fs @ bs)) = bs"
    using valid_frame_length [OF assms] by simp_all
  then show ?thesis
    using assms valid_frame_length [OF assms] f
    by (simp add: scan.simps(2) [of "0xFD" "fs @ bs"])
qed

lemma scan_reject:
  assumes "7 \<le> length (b # bs)" "\<not> valid_frame (take 7 (b # bs))"
  shows "scan (b # bs) = (case scan bs of (gs, rest) \<Rightarrow> (Dropped b # gs, rest))"
  using assms by (cases "b = 0xFD") (simp_all add: scan.simps)

lemma scan_cases [case_names empty drop short accept reject]:
  assumes "s = [] \<Longrightarrow> P"
    and "\<And>b bs. s = b # bs \<Longrightarrow> b \<noteq> 0xFD \<Longrightarrow> P"
    and "s \<noteq> [] \<Longrightarrow> hd s = 0xFD \<Longrightarrow> length s < 7 \<Longrightarrow> P"
    and "\<And>f bs. s = f @ bs \<Longrightarrow> valid_frame f \<Longrightarrow> P"
    and "\<And>bs. s = 0xFD # bs \<Longrightarrow> 7 \<le> length s \<Longrightarrow> \<not> valid_frame (take 7 s) \<Longrightarrow> P"
  shows P
proof (cases s)
  case Nil
  then show ?thesis by (rule assms(1))
next
  case (Cons b bs)
  show ?thesis
  proof (cases "b = 0xFD")
    case True
    show ?thesis
    proof (cases "length s < 7")
      case True
      with Cons \<open>b = 0xFD\<close> show ?thesis by (intro assms(3)) auto
    next
      case False
      show ?thesis
      proof (cases "valid_frame (take 7 s)")
        case True
        then show ?thesis by (intro assms(4) [of "take 7 s" "drop 7 s"]) auto
      next
        case False
        with Cons \<open>b = 0xFD\<close> \<open>\<not> length s < 7\<close> show ?thesis by (intro assms(5)) auto
      qed
    qed
  next
    case False
    with Cons show ?thesis by (rule assms(2))
  qed
qed

lemma scan_append:
  "scan (s @ t) =
    (case scan s of (gs, rest) \<Rightarrow> case scan (rest @ t) of (hs, rest') \<Rightarrow> (gs @ hs, rest'))"
proof (induction "length s" arbitrary: s rule: less_induct)
  case less
  show ?case
  proof (cases s rule: scan_cases)
    case empty
    then show ?thesis by simp
  next
    case (drop b bs)
    with less [of bs] show ?thesis by (simp add: scan_drop split: prod.splits)
  next
    case short
    then show ?thesis by (simp add: scan_short split: prod.splits)
  next
    case (accept f bs)
    then have "length bs < length s" by (simp add: valid_frame_length)
    with accept less [of bs] show ?thesis by (simp add: scan_accept split: prod.splits)
  next
    case (reject bs)
    then have "\<not> valid_frame (take 7 (0xFD # (bs @ t)))" "7 \<le> length (0xFD # (bs @ t))" by simp_all
    with reject less [of bs] show ?thesis
      by (simp add: scan_reject split: prod.splits)
  qed
qed

lemma scan_sound:
  "scan s = (gs, rest) \<Longrightarrow>
    concat (map segment_bytes gs) @ rest = s \<and> residual rest
    \<and> (\<forall>f. Accepted f \<in> set gs \<longrightarrow> valid_frame f)"
proof (induction "length s" arbitrary: s gs rule: less_induct)
  case less
  show ?case
  proof (cases s rule: scan_cases)
    case empty
    with less.prems show ?thesis by (auto simp: residual_def)
  next
    case (drop b bs)
    with less.prems obtain gs' where "scan bs = (gs', rest)" "gs = Dropped b # gs'"
      by (auto simp: scan_drop split: prod.splits)
    with less.hyps [of bs gs'] drop show ?thesis by auto
  next
    case short
    with less.prems show ?thesis by (auto simp: residual_def scan_short)
  next
    case (accept f bs)
    with less.prems obtain gs' where "scan bs = (gs', rest)" "gs = Accepted f # gs'"
      by (auto simp: scan_accept split: prod.splits)
    with less.hyps [of bs gs'] accept valid_frame_length [of f] show ?thesis by auto
  next
    case (reject bs)
    with less.prems obtain gs' where "scan bs = (gs', rest)" "gs = Dropped 0xFD # gs'"
      by (auto simp: scan_reject split: prod.splits)
    with less.hyps [of bs gs'] reject show ?thesis by auto
  qed
qed

text \<open>
  No frame is lost: a valid frame anywhere in the stream is accepted, unless it
  starts strictly inside an accepted frame or in the unfinished rest.
\<close>

definition frame_found :: "segment list \<Rightarrow> u8 list \<Rightarrow> u8 list \<Rightarrow> bool" where
  "frame_found gs pre f \<longleftrightarrow>
    (\<exists>as bs. gs = as @ Accepted f # bs \<and> concat (map segment_bytes as) = pre)"

definition inside_accepted :: "segment list \<Rightarrow> nat \<Rightarrow> bool" where
  "inside_accepted gs i \<longleftrightarrow>
    (\<exists>as g bs. gs = as @ Accepted g # bs
      \<and> length (concat (map segment_bytes as)) < i
      \<and> i < length (concat (map segment_bytes as)) + 7)"

lemma frame_found_Cons:
  "frame_found gs pre f \<Longrightarrow> frame_found (g # gs) (segment_bytes g @ pre) f"
  unfolding frame_found_def
  by (metis append_Cons concat.simps(2) list.simps(9))

lemma inside_accepted_Cons:
  "inside_accepted gs i \<Longrightarrow> inside_accepted (g # gs) (length (segment_bytes g) + i)"
  unfolding inside_accepted_def
  by (elim exE) (rule_tac x = "g # as" in exI, auto)

lemma inside_accepted_first:
  "0 < i \<Longrightarrow> i < 7 \<Longrightarrow> inside_accepted (Accepted f # gs) i"
  unfolding inside_accepted_def by (rule exI [of _ "[]"]) auto

lemma scan_complete:
  "scan (pre @ f @ post) = (gs, rest) \<Longrightarrow> valid_frame f \<Longrightarrow>
    frame_found gs pre f \<or> inside_accepted gs (length pre)"
proof (induction "length pre" arbitrary: pre gs rule: less_induct)
  case less
  show ?case
  proof (cases pre)
    case Nil
    with less.prems have "gs = Accepted f # fst (scan post)"
      by (auto simp: scan_accept split: prod.splits)
    then have "frame_found gs pre f"
      unfolding frame_found_def using Nil
      by (intro exI [of _ "[]"] exI [of _ "fst (scan post)"]) auto
    then show ?thesis ..
  next
    case (Cons b pre')
    have len: "length f = 7" using less.prems(2) by (rule valid_frame_length)
    have drop: ?thesis
      if "scan (pre @ f @ post) = (case scan (pre' @ f @ post) of (gs, rest) \<Rightarrow> (Dropped b # gs, rest))"
    proof -
      obtain gs' rest' where e: "scan (pre' @ f @ post) = (gs', rest')" by fastforce
      then have gs': "scan (pre' @ f @ post) = (gs', rest)" "gs = Dropped b # gs'"
        using that [unfolded e] less.prems(1) by simp_all
      then have "frame_found gs' pre' f \<or> inside_accepted gs' (length pre')"
        using less.hyps [of pre' gs'] less.prems(2) Cons by simp
      then show ?thesis
        using frame_found_Cons [of gs' pre' f "Dropped b"]
          inside_accepted_Cons [of gs' "length pre'" "Dropped b"] gs' Cons by auto
    qed
    show ?thesis
    proof (cases "pre @ f @ post" rule: scan_cases)
      case (accept g bs)
      then obtain gs' where gs': "scan bs = (gs', rest)" "gs = Accepted g # gs'"
        using less.prems(1) by (auto simp: scan_accept split: prod.splits)
      have glen: "length g = 7" using accept(2) by (rule valid_frame_length)
      show ?thesis
      proof (cases "length pre < 7")
        case True
        then show ?thesis
          using inside_accepted_first [of "length pre" g gs'] gs' Cons by simp
      next
        case False
        then have split: "pre = g @ drop 7 pre" "bs = drop 7 pre @ f @ post"
          using accept(1) glen
          by (metis append_eq_append_conv_if append_take_drop_id not_less,
              metis append_eq_append_conv_if not_less)
        then have "frame_found gs' (drop 7 pre) f \<or> inside_accepted gs' (length (drop 7 pre))"
          using less.hyps [of "drop 7 pre" gs'] less.prems(2) gs' False by simp
        then show ?thesis
          using frame_found_Cons [of gs' "drop 7 pre" f "Accepted g"]
            inside_accepted_Cons [of gs' "length (drop 7 pre)" "Accepted g"] gs' split(1) glen False
          by auto
      qed
    qed (use Cons len drop in \<open>auto simp: scan_drop scan_reject\<close>)
  qed
qed

section \<open>The code implements the scan\<close>

lemma next_header_eq:
  "i \<le> n \<Longrightarrow> n \<le> length f \<Longrightarrow>
    next_header f n i = i + length (takeWhile (\<lambda>b. b \<noteq> 0xFD) (drop i (take n f)))"
proof (induction "n - i" arbitrary: i)
  case 0
  then show ?case by (simp add: next_header.simps)
next
  case (Suc k)
  then have "drop i (take n f) = f ! i # drop (Suc i) (take n f)"
    by (simp flip: Cons_nth_drop_Suc)
  moreover have "i < n" using Suc by simp
  ultimately show ?case using Suc by (simp add: next_header.simps [of f n i])
qed

lemma scan_filter:
  "length q < 7 \<Longrightarrow>
    scan q = (map Dropped (takeWhile (\<lambda>b. b \<noteq> 0xFD) q), dropWhile (\<lambda>b. b \<noteq> 0xFD) q)"
  by (induction q) (simp_all add: scan_drop scan_short)

lemma accepted_frames_simps [simp]:
  "accepted_frames [] = []"
  "accepted_frames (Dropped b # gs) = accepted_frames gs"
  "accepted_frames (Accepted f # gs) = f # accepted_frames gs"
  "accepted_frames (gs @ hs) = accepted_frames gs @ accepted_frames hs"
  "accepted_frames (map Dropped bs) = []"
  by (simp_all add: accepted_frames_def comp_def)

lemma dropped_bytes_simps [simp]:
  "dropped_bytes [] = []"
  "dropped_bytes (Dropped b # gs) = b # dropped_bytes gs"
  "dropped_bytes (Accepted f # gs) = dropped_bytes gs"
  "dropped_bytes (gs @ hs) = dropped_bytes gs @ dropped_bytes hs"
  "dropped_bytes (map Dropped bs) = bs"
  by (simp_all add: dropped_bytes_def comp_def)

text \<open>What a run of segments does to the published snapshot.\<close>

definition published :: "u32 \<Rightarrow> segment list \<Rightarrow> PressureReceiverSnapshot \<Rightarrow> PressureReceiverSnapshot \<Rightarrow> bool" where
  "published t gs s s' \<longleftrightarrow>
    prs_sample_sequence s' = prs_sample_sequence s + of_nat (length (accepted_frames gs))
    \<and> prs_valid_frame_count s' = prs_valid_frame_count s + of_nat (length (accepted_frames gs))
    \<and> prs_dropped_resync_byte_count s'
        = prs_dropped_resync_byte_count s + of_nat (length (dropped_bytes gs))
    \<and> (if accepted_frames gs = []
       then prs_raw_pressure_counts s' = prs_raw_pressure_counts s
         \<and> prs_last_valid_frame s' = prs_last_valid_frame s
         \<and> prs_received_at_ms s' = prs_received_at_ms s
       else prs_raw_pressure_counts s' = frame_raw (last (accepted_frames gs))
         \<and> prs_last_valid_frame s' = last (accepted_frames gs)
         \<and> prs_received_at_ms s' = t)"

lemma published_append:
  "published t gs s s' \<Longrightarrow> published t hs s' s'' \<Longrightarrow> published t (gs @ hs) s s''"
  by (auto simp: published_def split: if_splits)

lemma published_Nil: "published t [] s s"
  by (simp add: published_def)

lemma published_publish:
  "valid_frame f \<Longrightarrow>
    published t [Accepted f] s
      (PressureReceiver_PublishValidFrame (s\<lparr>prs_last_valid_frame := f\<rparr>)
        \<lparr>pfd_raw_pressure_counts = frame_raw f\<rparr> t)"
  by (simp add: published_def PressureReceiver_PublishValidFrame_def Let_def)

lemma published_drop_one:
  "published t [Dropped b] s
    (s\<lparr>prs_invalid_header_count := n,
       prs_dropped_resync_byte_count := prs_dropped_resync_byte_count s + 1\<rparr>)"
  by (simp add: published_def)

lemma published_resync:
  "published t (map Dropped bs) s
    ((PressureReceiver_CountFrameError s e)\<lparr>prs_dropped_resync_byte_count :=
       prs_dropped_resync_byte_count (PressureReceiver_CountFrameError s e) + of_nat (length bs)\<rparr>)"
  by (simp add: published_def PressureReceiver_CountFrameError_def)

lemma resynchronize_implements_scan:
  assumes "length (pr_frame r) = 7" "pr_frame_length r = 7" "hd (pr_frame r) = 0xFD"
    "\<not> valid_frame (pr_frame r)"
  shows "receiver_ok (PressureReceiver_Resynchronize r)
    \<and> (\<exists>bs. scan (pr_frame r) = (map Dropped bs, pending (PressureReceiver_Resynchronize r))
        \<and> pr_snapshot (PressureReceiver_Resynchronize r)
          = (pr_snapshot r)\<lparr>prs_dropped_resync_byte_count :=
               prs_dropped_resync_byte_count (pr_snapshot r) + of_nat (length bs)\<rparr>)"
proof -
  obtain q where f: "pr_frame r = 0xFD # q"
    using assms by (metis list.exhaust_sel list.size(3) zero_neq_numeral)
  then have q: "length q = 6" using assms by simp
  let ?p = "\<lambda>b. b \<noteq> (0xFD :: u8)"
  let ?k = "length (takeWhile ?p q)"
  have dw: "dropWhile ?p q = drop ?k q" by (rule dropWhile_eq_drop)
  have h: "next_header (0xFD # q) 7 (Suc 0) = Suc ?k"
    using next_header_eq [of "Suc 0" 7 "0xFD # q"] q by simp
  have k: "?k \<le> 6" using length_takeWhile_le [of ?p q] q by simp
  have scan: "scan (pr_frame r) = (map Dropped (0xFD # takeWhile ?p q), dropWhile ?p q)"
    using assms f q by (simp add: scan_reject scan_filter)
  have pend: "pending (PressureReceiver_Resynchronize r) = dropWhile ?p q"
    unfolding PressureReceiver_Resynchronize_def pending_def memmove_down_def dw
    using f q k by (auto simp: Let_def assms(2) h)
  have "residual (dropWhile ?p q)"
    using scan_sound [OF scan] by simp
  moreover have "length (pr_frame (PressureReceiver_Resynchronize r)) = 7
      \<and> pr_frame_length (PressureReceiver_Resynchronize r) < 7"
    unfolding PressureReceiver_Resynchronize_def memmove_down_def
    using f q k by (auto simp: Let_def assms(2) h)
  moreover have "pr_snapshot (PressureReceiver_Resynchronize r)
      = (pr_snapshot r)\<lparr>prs_dropped_resync_byte_count :=
           prs_dropped_resync_byte_count (pr_snapshot r)
             + of_nat (length (0xFD # takeWhile ?p q))\<rparr>"
    unfolding PressureReceiver_Resynchronize_def by (simp add: Let_def assms(2) f h)
  ultimately show ?thesis
    unfolding receiver_ok_def pend using scan by blast
qed

lemma process_byte_implements_scan:
  assumes ok: "receiver_ok r"
  shows "receiver_ok (process_byte t r b)
    \<and> (\<exists>gs. scan (pending r @ [b]) = (gs, pending (process_byte t r b))
        \<and> published t gs (pr_snapshot r) (pr_snapshot (process_byte t r b)))"
proof (cases "pr_frame_length r = 0 \<and> b \<noteq> 0xFD")
  case True
  then have "scan (pending r @ [b]) = ([Dropped b], [])"
    by (simp add: pending_def scan_drop)
  with True ok show ?thesis
    by (auto simp: process_byte_def pending_def receiver_ok_def Let_def intro: published_drop_one)
next
  case False
  define r1 where "r1 = r\<lparr>pr_frame := (pr_frame r)[pr_frame_length r := b],
    pr_frame_length := Suc (pr_frame_length r)\<rparr>"
  have unf: "process_byte t r b =
      (if pr_frame_length r1 = 7
       then (case PressureSensor_DecodeFrame (Some (pr_frame r1)) (pr_frame_length r1)
                   (Some \<lparr>pfd_raw_pressure_counts = 0\<rparr>) of
               (PRESSURE_FRAME_OK, output) \<Rightarrow>
                 r1\<lparr>pr_snapshot := PressureReceiver_PublishValidFrame
                      ((pr_snapshot r1)\<lparr>prs_last_valid_frame := take 7 (pr_frame r1)\<rparr>)
                      (the output) t, pr_frame_length := 0\<rparr>
             | (result, _) \<Rightarrow>
                 PressureReceiver_Resynchronize
                   (r1\<lparr>pr_snapshot := PressureReceiver_CountFrameError (pr_snapshot r1) result\<rparr>))
       else r1)"
    unfolding process_byte_def Let_def r1_def by (rule if_not_P) (rule False)
  have n: "pr_frame_length r < length (pr_frame r)" "length (pr_frame r) = 7"
    using ok by (auto simp: receiver_ok_def)
  have pend1: "pending r1 = pending r @ [b]"
    using n by (simp add: r1_def pending_def take_Suc_update)
  have hd1: "hd (pending r1) = 0xFD"
  proof (cases "pending r")
    case Nil
    then have "pr_frame_length r = 0" using n by (auto simp: pending_def)
    with False Nil show ?thesis by (simp add: pend1)
  next
    case (Cons c cs)
    moreover have "residual (pending r)" using ok by (simp add: receiver_ok_def)
    ultimately show ?thesis by (simp add: pend1 residual_def)
  qed
  have snap1: "pr_snapshot r1 = pr_snapshot r" by (simp add: r1_def)
  have len1: "length (pr_frame r1) = 7" using n by (simp add: r1_def)
  show ?thesis
  proof (cases "pr_frame_length r1 = 7")
    case full: True
    then have p1: "pending r1 = pr_frame r1" using len1 by (simp add: pending_def)
    show ?thesis
    proof (cases "valid_frame (pr_frame r1)")
      case True
      have step: "process_byte t r b = r1\<lparr>pr_snapshot := PressureReceiver_PublishValidFrame
          ((pr_snapshot r1)\<lparr>prs_last_valid_frame := pr_frame r1\<rparr>)
          \<lparr>pfd_raw_pressure_counts = frame_raw (pr_frame r1)\<rparr> t, pr_frame_length := 0\<rparr>"
        using full len1 True decode_frame_cases [OF len1, unfolded len1]
        by (simp add: unf)
      have "scan (pending r @ [b]) = ([Accepted (pr_frame r1)], [])"
        using scan_accept [OF True, of "[]"] by (simp flip: pend1 add: p1)
      then show ?thesis
        using published_publish [OF True, of t "pr_snapshot r1"] len1
        by (auto simp: step receiver_ok_def residual_def pending_def snap1)
    next
      case invalid: False
      obtain e where e: "PressureSensor_DecodeFrame (Some (pr_frame r1)) 7
            (Some \<lparr>pfd_raw_pressure_counts = 0\<rparr>) = (e, Some \<lparr>pfd_raw_pressure_counts = 0\<rparr>)"
          "e \<noteq> PRESSURE_FRAME_OK"
        using invalid decode_frame_cases [OF len1, unfolded len1] by simp
      have step: "process_byte t r b = PressureReceiver_Resynchronize
          (r1\<lparr>pr_snapshot := PressureReceiver_CountFrameError (pr_snapshot r1) e\<rparr>)"
        using full e by (cases e) (simp_all add: unf)
      show ?thesis
        using resynchronize_implements_scan
            [of "r1\<lparr>pr_snapshot := PressureReceiver_CountFrameError (pr_snapshot r1) e\<rparr>"]
          len1 full hd1 invalid
        by (fastforce simp: step p1 snap1 intro: published_resync simp flip: pend1)
    qed
  next
    case partial: False
    have step: "process_byte t r b = r1"
      using partial by (simp add: unf)
    have l7: "pr_frame_length r1 < 7" using partial n by (simp add: r1_def)
    then have "residual (pending r1)"
      using hd1 by (auto simp: residual_def pending_def)
    then show ?thesis
      using len1 l7 published_Nil
      by (simp add: step receiver_ok_def scan_residual snap1 flip: pend1)
  qed
qed

lemma process_bytes_implements_scan:
  assumes "receiver_ok r"
  shows "receiver_ok (foldl (process_byte t) r bs)
    \<and> (\<exists>gs. scan (pending r @ bs) = (gs, pending (foldl (process_byte t) r bs))
        \<and> published t gs (pr_snapshot r) (pr_snapshot (foldl (process_byte t) r bs)))"
  using assms
proof (induction bs rule: rev_induct)
  case Nil
  then show ?case
    using published_Nil by (auto simp: receiver_ok_def scan_residual)
next
  case (snoc b bs)
  let ?r = "foldl (process_byte t) r bs"
  from snoc obtain gs where gs: "receiver_ok ?r" "scan (pending r @ bs) = (gs, pending ?r)"
      "published t gs (pr_snapshot r) (pr_snapshot ?r)"
    by blast
  obtain hs where hs: "receiver_ok (process_byte t ?r b)"
      "scan (pending ?r @ [b]) = (hs, pending (process_byte t ?r b))"
      "published t hs (pr_snapshot ?r) (pr_snapshot (process_byte t ?r b))"
    using process_byte_implements_scan [OF gs(1)] by blast
  have "scan (pending r @ bs @ [b]) = (gs @ hs, pending (process_byte t ?r b))"
    using scan_append [of "pending r @ bs" "[b]"] gs(2) hs(2) by simp
  with gs hs show ?case
    by (auto intro!: exI [of _ "gs @ hs"] published_append)
qed

lemma receiver_ok_initialize: "receiver_ok (PressureReceiver_Initialize r)"
  by (simp add: receiver_ok_def residual_def pending_def PressureReceiver_Initialize_def)

lemma pending_initialize: "pending (PressureReceiver_Initialize r) = []"
  by (simp add: pending_def PressureReceiver_Initialize_def)

lemma segments_length:
  "(\<And>f. Accepted f \<in> set gs \<Longrightarrow> valid_frame f) \<Longrightarrow>
    length (concat (map segment_bytes gs))
      = length (dropped_bytes gs) + 7 * length (accepted_frames gs)"
proof (induction gs)
  case Nil
  then show ?case by simp
next
  case (Cons g gs)
  have "length (concat (map segment_bytes gs))
      = length (dropped_bytes gs) + 7 * length (accepted_frames gs)"
    using Cons by simp
  moreover have "g = Accepted f \<Longrightarrow> length f = 7" for f
    using Cons.prems by (auto intro: valid_frame_length)
  ultimately show ?case by (cases g) auto
qed

lemma scan_clean:
  "(\<And>f. f \<in> set fs \<Longrightarrow> valid_frame f) \<Longrightarrow> scan (concat fs) = (map Accepted fs, [])"
  by (induction fs) (simp_all add: scan_accept)

lemma accepted_frames_map_Accepted [simp]: "accepted_frames (map Accepted fs) = fs"
  by (induction fs) simp_all

section \<open>Properties\<close>

text \<open>C31: The receiver implements the scan of the whole stream: whatever its state,
  after \<open>PressureReceiver_ProcessBytes\<close> the bytes it holds and the new bytes are
  exactly the dropped bytes and accepted frames of the scan followed by the bytes
  it still holds; the sequence number advances by the number of accepted frames
  (it is not advanced for anything else), the drop counter by the dropped bytes,
  and the published sample is the last accepted frame, or the old one when no
  frame was accepted. The receiver's invariant is kept.\<close>

theorem receiver_implements_scan:
  assumes "receiver_ok r"
  shows "\<exists>gs. let r' = PressureReceiver_ProcessBytes r (Some bs) (length bs) t in
      receiver_ok r' \<and> scan (pending r @ bs) = (gs, pending r')
      \<and> concat (map segment_bytes gs) @ pending r' = pending r @ bs
      \<and> (\<forall>f. f \<in> set (accepted_frames gs) \<longrightarrow> valid_frame f)
      \<and> published t gs (PressureReceiver_GetSnapshot r) (PressureReceiver_GetSnapshot r')"
proof -
  obtain gs where gs: "receiver_ok (foldl (process_byte t) r bs)"
      "scan (pending r @ bs) = (gs, pending (foldl (process_byte t) r bs))"
      "published t gs (pr_snapshot r) (pr_snapshot (foldl (process_byte t) r bs))"
    using process_bytes_implements_scan [OF assms] by blast
  have "f \<in> set (accepted_frames gs) \<Longrightarrow> Accepted f \<in> set gs" for f
    by (auto simp: accepted_frames_def split: segment.splits)
  with scan_sound [OF gs(2)] gs show ?thesis
    by (auto simp: PressureReceiver_ProcessBytes_def PressureReceiver_GetSnapshot_def Let_def)
qed

theorem receiver_implements_scan_witness:
  "\<exists>gs. let r' = PressureReceiver_ProcessBytes (PressureReceiver_Initialize undefined)
        (Some [0, 0xFD, 2, 1, 0, 0, 0xFE, 0xFE]) (length [0, 0xFD, 2, 1, 0, 0, 0xFE, 0xFE :: u8]) 9 in
      receiver_ok r'
      \<and> scan (pending (PressureReceiver_Initialize undefined)
          @ [0, 0xFD, 2, 1, 0, 0, 0xFE, 0xFE]) = (gs, pending r')
      \<and> concat (map segment_bytes gs) @ pending r'
          = pending (PressureReceiver_Initialize undefined) @ [0, 0xFD, 2, 1, 0, 0, 0xFE, 0xFE]
      \<and> (\<forall>f. f \<in> set (accepted_frames gs) \<longrightarrow> valid_frame f)
      \<and> published 9 gs (PressureReceiver_GetSnapshot (PressureReceiver_Initialize undefined))
          (PressureReceiver_GetSnapshot r')"
  by (rule receiver_implements_scan) (rule receiver_ok_initialize)

text \<open>C33: No frame is lost: when a valid frame occurs anywhere in the bytes handed to
  an initialised receiver, the scan it implements accepts it, unless the frame
  starts strictly inside a frame that was accepted before it.\<close>

theorem receiver_finds_every_frame:
  assumes "valid_frame f"
  shows "\<exists>gs. let r = PressureReceiver_Initialize r0;
               r' = PressureReceiver_ProcessBytes r (Some (pre @ f @ post))
                      (length (pre @ f @ post)) t
         in scan (pre @ f @ post) = (gs, pending r')
          \<and> prs_sample_sequence (PressureReceiver_GetSnapshot r')
              = of_nat (length (accepted_frames gs))
          \<and> (frame_found gs pre f \<or> inside_accepted gs (length pre))"
proof -
  let ?s = "pre @ f @ post"
  obtain gs where gs:
      "scan ?s = (gs, pending (foldl (process_byte t) (PressureReceiver_Initialize r0) ?s))"
      "published t gs (pr_snapshot (PressureReceiver_Initialize r0))
         (pr_snapshot (foldl (process_byte t) (PressureReceiver_Initialize r0) ?s))"
    using process_bytes_implements_scan [OF receiver_ok_initialize, of t r0 ?s]
    by (auto simp: pending_initialize simp del: foldl_append)
  then have "prs_sample_sequence
      (pr_snapshot (foldl (process_byte t) (PressureReceiver_Initialize r0) ?s))
      = of_nat (length (accepted_frames gs))"
    by (simp add: published_def PressureReceiver_Initialize_def del: foldl_append)
  with gs scan_complete [OF gs(1) assms] show ?thesis
    by (auto simp: PressureReceiver_ProcessBytes_def PressureReceiver_GetSnapshot_def Let_def
        simp del: foldl_append intro!: exI [of _ gs])
qed

theorem receiver_finds_every_frame_witness:
  "\<exists>gs. let r = PressureReceiver_Initialize undefined;
            r' = PressureReceiver_ProcessBytes r (Some ([0xFD] @ encode_frame 7 0 0 @ [1]))
                   (length ([0xFD] @ encode_frame 7 0 0 @ [1])) 5
         in scan ([0xFD] @ encode_frame 7 0 0 @ [1]) = (gs, pending r')
          \<and> prs_sample_sequence (PressureReceiver_GetSnapshot r')
              = of_nat (length (accepted_frames gs))
          \<and> (frame_found gs [0xFD] (encode_frame 7 0 0)
              \<or> inside_accepted gs (length [0xFD :: u8]))"
  by (rule receiver_finds_every_frame) simp

text \<open>Every byte is accounted for: over any run of the receiver, seven times the
  valid frame count plus the dropped byte count plus the bytes held advances by
  exactly the number of bytes received (in the 32-bit counters' arithmetic).\<close>

theorem receiver_counts_every_byte:
  assumes "receiver_ok r"
  shows "(let acc = (\<lambda>r. 7 * prs_valid_frame_count (PressureReceiver_GetSnapshot r)
                        + prs_dropped_resync_byte_count (PressureReceiver_GetSnapshot r)
                        + of_nat (pr_frame_length r))
          in acc (PressureReceiver_ProcessBytes r (Some bs) (length bs) t)
             = acc r + of_nat (length bs))"
proof -
  let ?r = "foldl (process_byte t) r bs"
  obtain gs where gs: "receiver_ok ?r" "scan (pending r @ bs) = (gs, pending ?r)"
      "published t gs (pr_snapshot r) (pr_snapshot ?r)"
    using process_bytes_implements_scan [OF assms] by blast
  have len: "length (pending x) = pr_frame_length x" if "receiver_ok x" for x
    using that by (simp add: pending_def receiver_ok_def)
  have "length (concat (map segment_bytes gs)) + length (pending ?r) = length (pending r @ bs)"
    using scan_sound [OF gs(2)] by (metis length_append)
  moreover have "length (concat (map segment_bytes gs))
      = length (dropped_bytes gs) + 7 * length (accepted_frames gs)"
    using scan_sound [OF gs(2)] by (intro segments_length) auto
  ultimately have "length (dropped_bytes gs) + 7 * length (accepted_frames gs) + pr_frame_length ?r
      = pr_frame_length r + length bs"
    using len [OF assms] len [OF gs(1)] by simp
  from arg_cong [OF this, of "of_nat :: nat \<Rightarrow> u32"] show ?thesis
    using gs(3)
    by (simp add: PressureReceiver_ProcessBytes_def PressureReceiver_GetSnapshot_def Let_def
        published_def algebra_simps)
qed

theorem receiver_counts_every_byte_witness:
  "(let acc = (\<lambda>r. 7 * prs_valid_frame_count (PressureReceiver_GetSnapshot r)
                   + prs_dropped_resync_byte_count (PressureReceiver_GetSnapshot r)
                   + of_nat (pr_frame_length r))
    in acc (PressureReceiver_ProcessBytes (PressureReceiver_Initialize undefined)
              (Some [1, 0xFD, 3]) (length [1, 0xFD, 3 :: u8]) 4)
       = acc (PressureReceiver_Initialize undefined) + of_nat (length [1, 0xFD, 3 :: u8]))"
  by (rule receiver_counts_every_byte) (rule receiver_ok_initialize)

text \<open>A clean stream is received completely: from a receiver that holds no partial
  frame, any number of back-to-back frames, cut into any two chunks, advances the
  sequence by their number, drops nothing and publishes the last one.\<close>

theorem receiver_clean_stream:
  assumes "receiver_ok r" "pending r = []" "\<forall>f \<in> set fs. valid_frame f" "fs \<noteq> []"
    and "xs @ ys = concat fs"
  shows "(let r1 = PressureReceiver_ProcessBytes r (Some xs) (length xs) t;
              r2 = PressureReceiver_ProcessBytes r1 (Some ys) (length ys) t;
              s = PressureReceiver_GetSnapshot r;
              s2 = PressureReceiver_GetSnapshot r2
          in pending r2 = []
           \<and> prs_sample_sequence s2 = prs_sample_sequence s + of_nat (length fs)
           \<and> prs_dropped_resync_byte_count s2 = prs_dropped_resync_byte_count s
           \<and> prs_raw_pressure_counts s2 = frame_raw (last fs)
           \<and> prs_received_at_ms s2 = t)"
proof -
  let ?r = "foldl (process_byte t) r (xs @ ys)"
  obtain gs where gs: "receiver_ok ?r" "scan (pending r @ (xs @ ys)) = (gs, pending ?r)"
      "published t gs (pr_snapshot r) (pr_snapshot ?r)"
    using process_bytes_implements_scan [OF assms(1)] by blast
  have "scan (pending r @ (xs @ ys)) = (map Accepted fs, [])"
    using assms by (simp add: scan_clean)
  with gs(2) have "gs = map Accepted fs" "pending ?r = []" by auto
  moreover have "dropped_bytes (map Accepted fs) = []" by (induction fs) simp_all
  ultimately show ?thesis
    using gs(3) assms(4)
    by (simp add: PressureReceiver_ProcessBytes_def PressureReceiver_GetSnapshot_def Let_def
        published_def)
qed

theorem receiver_clean_stream_witness:
  "(let r1 = PressureReceiver_ProcessBytes (PressureReceiver_Initialize undefined)
               (Some [0xFD, 2]) (length [0xFD, 2 :: u8]) 8;
        r2 = PressureReceiver_ProcessBytes r1
               (Some [1, 0, 0, 0xFE, 0xFE]) (length [1, 0, 0, 0xFE, 0xFE :: u8]) 8;
        s = PressureReceiver_GetSnapshot (PressureReceiver_Initialize undefined);
        s2 = PressureReceiver_GetSnapshot r2
    in pending r2 = []
     \<and> prs_sample_sequence s2
         = prs_sample_sequence s + of_nat (length [[0xFD, 2, 1, 0, 0, 0xFE, 0xFE :: u8]])
     \<and> prs_dropped_resync_byte_count s2 = prs_dropped_resync_byte_count s
     \<and> prs_raw_pressure_counts s2 = frame_raw (last [[0xFD, 2, 1, 0, 0, 0xFE, 0xFE]])
     \<and> prs_received_at_ms s2 = 8)"
  by (rule receiver_clean_stream)
     (simp_all add: receiver_ok_initialize pending_initialize valid_frame_def)

text \<open>The minimum frame interval is not a minimum: zero doubles as the unset value,
  so after two frames in the same millisecond (a true interval of zero) a later,
  longer interval overwrites the recorded minimum.\<close>

theorem receiver_interval_min_zero_is_lost:
  "(let publish = (\<lambda>s t. PressureReceiver_PublishValidFrame s \<lparr>pfd_raw_pressure_counts = 1\<rparr> t);
        s0 = pr_snapshot (PressureReceiver_Initialize undefined)
    in prs_frame_interval_min_ms (publish (publish s0 10) 10) = 0
     \<and> prs_frame_interval_min_ms (publish (publish (publish s0 10) 10) 60) = 50)"
  by (simp add: PressureReceiver_PublishValidFrame_def PressureReceiver_Initialize_def Let_def)

end
