(* ===== verification/UartIngress.thy ===== *)
theory UartIngress
  imports Prelude
begin

text \<open>
  The single-producer single-consumer byte ring between the RS-485 receive
  interrupt and the main loop: \<^verbatim>\<open>Transport/Modbus/modbus_uart_ingress.c\<close>. The
  sequential operations refine a bounded FIFO (locale \<open>bounded_fifo\<close>,
  interpreted on the ring); the concurrent use is a step relation in which each
  atomic load, store and byte access of the interrupt and of the main loop is
  one step, interleaved in any order.
\<close>

section \<open>State\<close>

abbreviation (input) MODBUS_UART_INGRESS_CAPACITY :: u32 where
  "MODBUS_UART_INGRESS_CAPACITY \<equiv> 64"

abbreviation (input) MODBUS_UART_EVENT_TX_COMPLETE :: u32 where
  "MODBUS_UART_EVENT_TX_COMPLETE \<equiv> 1"

abbreviation (input) MODBUS_UART_EVENT_ERROR :: u32 where
  "MODBUS_UART_EVENT_ERROR \<equiv> 2"

record ModbusUartIngressSnapshot =
  uis_rx_overflow_count :: u32
  uis_rx_rearm_count :: u32
  uis_rx_rearm_error_count :: u32

record ModbusUartIngress =
  ui_bytes :: "u8 list"
  ui_write_index :: u32
  ui_read_index :: u32
  ui_rx_overflow_count :: u32
  ui_rx_rearm_count :: u32
  ui_rx_rearm_error_count :: u32
  ui_event_flags :: u32

section \<open>Operations\<close>

definition ModbusUartIngress_Initialize :: "ModbusUartIngress \<Rightarrow> ModbusUartIngress" where
  "ModbusUartIngress_Initialize u =
    \<lparr>ui_bytes = replicate (unat MODBUS_UART_INGRESS_CAPACITY) 0,
     ui_write_index = 0, ui_read_index = 0, ui_rx_overflow_count = 0,
     ui_rx_rearm_count = 0, ui_rx_rearm_error_count = 0, ui_event_flags = 0\<rparr>"

definition ModbusUartIngress_PushFromIsr ::
  "ModbusUartIngress \<Rightarrow> u8 \<Rightarrow> bool \<times> ModbusUartIngress" where
  "ModbusUartIngress_PushFromIsr u byte =
    (let write_index = ui_write_index u;
         next_index = (write_index + 1) mod MODBUS_UART_INGRESS_CAPACITY
     in if next_index = ui_read_index u
        then (False, u\<lparr>ui_rx_overflow_count := ui_rx_overflow_count u + 1\<rparr>)
        else (True, u\<lparr>ui_bytes := (ui_bytes u)[unat write_index := byte],
                      ui_write_index := next_index\<rparr>))"

text \<open>
  The copy loop of \<open>ModbusUartIngress_DrainFromMain\<close>: the read index and count
  it ends with and the destination.
\<close>

function drain_while ::
  "u8 list \<Rightarrow> u32 \<Rightarrow> nat \<Rightarrow> u8 list \<Rightarrow> u32 \<Rightarrow> nat \<Rightarrow> u8 list \<times> u32 \<times> nat" where
  "drain_while bytes write_index capacity destination read_index count =
    (if read_index \<noteq> write_index \<and> count < capacity
     then drain_while bytes write_index capacity
            (destination[count := bytes ! unat read_index])
            ((read_index + 1) mod MODBUS_UART_INGRESS_CAPACITY) (Suc count)
     else (destination, read_index, count))"
  by pat_completeness auto
termination by (relation "measure (\<lambda>(b, w, cap, d, r, n). cap - n)") auto

declare drain_while.simps [simp del]

definition ModbusUartIngress_DrainFromMain ::
  "ModbusUartIngress \<Rightarrow> u8 list \<Rightarrow> nat \<Rightarrow> nat \<times> u8 list \<times> ModbusUartIngress" where
  "ModbusUartIngress_DrainFromMain u destination capacity =
    (if capacity = 0 then (0, destination, u)
     else
       (case drain_while (ui_bytes u) (ui_write_index u) capacity destination
               (ui_read_index u) 0 of
          (destination', read_index, count) \<Rightarrow>
            (count, destination', u\<lparr>ui_read_index := read_index\<rparr>)))"

definition ModbusUartIngress_RecordRearmFromIsr ::
  "ModbusUartIngress \<Rightarrow> bool \<Rightarrow> ModbusUartIngress" where
  "ModbusUartIngress_RecordRearmFromIsr u succeeded =
    (let u1 = u\<lparr>ui_rx_rearm_count := ui_rx_rearm_count u + 1\<rparr>
     in if \<not> succeeded
        then u1\<lparr>ui_rx_rearm_error_count := ui_rx_rearm_error_count u1 + 1\<rparr> else u1)"

definition ModbusUartIngress_SignalEventFromIsr ::
  "ModbusUartIngress \<Rightarrow> u32 \<Rightarrow> ModbusUartIngress" where
  "ModbusUartIngress_SignalEventFromIsr u event_flags =
    u\<lparr>ui_event_flags := ui_event_flags u OR event_flags\<rparr>"

definition ModbusUartIngress_TakeEventsFromMain ::
  "ModbusUartIngress \<Rightarrow> u32 \<times> ModbusUartIngress" where
  "ModbusUartIngress_TakeEventsFromMain u = (ui_event_flags u, u\<lparr>ui_event_flags := 0\<rparr>)"

definition ModbusUartIngress_ReadSnapshotFromMain ::
  "ModbusUartIngress \<Rightarrow> ModbusUartIngressSnapshot" where
  "ModbusUartIngress_ReadSnapshotFromMain u =
    \<lparr>uis_rx_overflow_count = ui_rx_overflow_count u,
     uis_rx_rearm_count = ui_rx_rearm_count u,
     uis_rx_rearm_error_count = ui_rx_rearm_error_count u\<rparr>"

section \<open>The ring as a queue\<close>

definition ring_len :: "nat \<Rightarrow> nat \<Rightarrow> nat" where
  "ring_len r w = (w + 64 - r) mod 64"

definition ring_contents :: "u8 list \<Rightarrow> nat \<Rightarrow> nat \<Rightarrow> u8 list" where
  "ring_contents bytes r w = map (\<lambda>i. bytes ! ((r + i) mod 64)) [0..<ring_len r w]"

lemma ring_len_cases:
  "r < 64 \<Longrightarrow> w < 64 \<Longrightarrow> ring_len r w = (if r \<le> w then w - r else w + 64 - r)"
  unfolding ring_len_def by (auto simp: le_mod_geq)

lemma ring_len_less: "ring_len r w < 64"
  by (simp add: ring_len_def)

lemma length_ring_contents [simp]: "length (ring_contents bytes r w) = ring_len r w"
  by (simp add: ring_contents_def)

lemma suc_mod_64: "i < 64 \<Longrightarrow> Suc i mod 64 = (if i = 63 then 0 else Suc i)"
  by auto

lemma ring_full_iff:
  "r < 64 \<Longrightarrow> w < 64 \<Longrightarrow> Suc w mod 64 = r \<longleftrightarrow> ring_len r w = 63"
  by (auto simp: ring_len_cases suc_mod_64 split: if_splits)

lemma ring_len_push:
  "r < 64 \<Longrightarrow> w < 64 \<Longrightarrow> ring_len r w < 63 \<Longrightarrow> ring_len r (Suc w mod 64) = Suc (ring_len r w)"
  by (auto simp: ring_len_cases suc_mod_64 split: if_splits)

lemma ring_len_zero: "r < 64 \<Longrightarrow> w < 64 \<Longrightarrow> ring_len r w = 0 \<longleftrightarrow> r = w"
  by (auto simp: ring_len_cases split: if_splits)

lemma ring_last_slot:
  "r < 64 \<Longrightarrow> w < 64 \<Longrightarrow> (r + ring_len r w) mod 64 = w"
  by (auto simp: ring_len_cases)

lemma ring_slot_distinct:
  assumes "r < 64" "w < 64" "i < ring_len r w"
  shows "(r + i) mod 64 \<noteq> w"
proof -
  have "(r + i) mod 64 = (if r + i < 64 then r + i else r + i - 64)"
    using assms ring_len_less [of r w] by (auto simp: le_mod_geq)
  with assms show ?thesis by (auto simp: ring_len_cases split: if_splits)
qed

lemma ring_contents_outside:
  assumes "r < 64" "w < 64"
  shows "ring_contents (bytes[w := b]) r w = ring_contents bytes r w"
  using ring_slot_distinct [OF assms] by (force simp: ring_contents_def nth_list_update)

lemma ring_contents_push:
  assumes "r < 64" "w < 64" "ring_len r w < 63" "length bytes = 64"
  shows "ring_contents (bytes[w := b]) r (Suc w mod 64) = ring_contents bytes r w @ [b]"
proof -
  have "ring_contents (bytes[w := b]) r (Suc w mod 64)
      = ring_contents (bytes[w := b]) r w @ [(bytes[w := b]) ! ((r + ring_len r w) mod 64)]"
    using assms by (simp add: ring_contents_def ring_len_push)
  then show ?thesis
    using assms by (simp add: ring_contents_outside ring_last_slot)
qed

lemma ring_contents_pop:
  assumes "r < 64" "w < 64" "r \<noteq> w"
  shows "ring_contents bytes r w = bytes ! r # ring_contents bytes (Suc r mod 64) w"
proof -
  have len: "ring_len r w = Suc (ring_len (Suc r mod 64) w)"
    using assms by (auto simp: ring_len_cases suc_mod_64 split: if_splits)
  have "[0..<Suc n] = 0 # map Suc [0..<n]" for n
    by (simp add: map_Suc_upt upt_conv_Cons del: upt_Suc)
  then show ?thesis
    using assms unfolding ring_contents_def len
    by (simp add: comp_def mod_Suc_eq mod_simps del: upt_Suc)
qed

lemma unat_suc_mod_64:
  fixes x :: u32
  assumes "unat x < 64"
  shows "unat ((x + 1) mod 64) = Suc (unat x) mod 64"
proof -
  have "unat (x + 1) = Suc (unat x)"
    using assms unat_add_lem [of x 1] by simp
  then show ?thesis by (simp add: unat_mod)
qed

section \<open>The interface: a bounded FIFO\<close>

text \<open>
  What the link layer relies on: \<open>push\<close> appends when there is room and refuses
  otherwise, \<open>drain\<close> removes from the front.
\<close>

datatype 'a fifo_op = Push 'a | Drain nat

fun fifo_run ::
  "('s \<Rightarrow> 'a \<Rightarrow> bool \<times> 's) \<Rightarrow> ('s \<Rightarrow> nat \<Rightarrow> 'a list \<times> 's) \<Rightarrow> 'a fifo_op list \<Rightarrow> 's
    \<Rightarrow> 'a list \<times> 'a list \<times> 's" where
  "fifo_run push drain [] s = ([], [], s)"
| "fifo_run push drain (Push a # ops) s =
    (case push s a of (stored, s1) \<Rightarrow>
       (case fifo_run push drain ops s1 of (accepted, delivered, s2) \<Rightarrow>
          (if stored then a # accepted else accepted, delivered, s2)))"
| "fifo_run push drain (Drain n # ops) s =
    (case drain s n of (out, s1) \<Rightarrow>
       (case fifo_run push drain ops s1 of (accepted, delivered, s2) \<Rightarrow>
          (accepted, out @ delivered, s2)))"

locale bounded_fifo =
  fixes push :: "'s \<Rightarrow> 'a \<Rightarrow> bool \<times> 's"
    and drain :: "'s \<Rightarrow> nat \<Rightarrow> 'a list \<times> 's"
    and queue :: "'s \<Rightarrow> 'a list"
    and ok :: "'s \<Rightarrow> bool"
    and cap :: nat
  assumes push_room: "ok s \<Longrightarrow> length (queue s) < cap \<Longrightarrow>
      fst (push s a) \<and> ok (snd (push s a)) \<and> queue (snd (push s a)) = queue s @ [a]"
    and push_full: "ok s \<Longrightarrow> \<not> length (queue s) < cap \<Longrightarrow>
      \<not> fst (push s a) \<and> ok (snd (push s a)) \<and> queue (snd (push s a)) = queue s"
    and drain_front: "ok s \<Longrightarrow>
      fst (drain s n) = take n (queue s) \<and> ok (snd (drain s n))
      \<and> queue (snd (drain s n)) = drop n (queue s)"
begin

lemma push_cases:
  assumes "ok s"
  shows "ok (snd (push s a))
    \<and> queue (snd (push s a)) = queue s @ (if fst (push s a) then [a] else [])"
  using push_room [OF assms] push_full [OF assms]
  by (cases "length (queue s) < cap") auto

lemma run_conserves:
  "ok s \<Longrightarrow> fifo_run push drain ops s = (accepted, delivered, s') \<Longrightarrow>
    ok s' \<and> delivered @ queue s' = queue s @ accepted"
proof (induction ops arbitrary: s accepted delivered)
  case Nil
  then show ?case by simp
next
  case (Cons op ops)
  show ?case
  proof (cases op)
    case (Push a)
    obtain acc where run: "fifo_run push drain ops (snd (push s a)) = (acc, delivered, s')"
        "accepted = (if fst (push s a) then a # acc else acc)"
      using Cons.prems Push by (auto split: prod.splits if_splits)
    then show ?thesis
      using Cons.IH [OF _ run(1)] push_cases [OF Cons.prems(1), of a] by auto
  next
    case (Drain n)
    obtain del where run: "fifo_run push drain ops (snd (drain s n)) = (accepted, del, s')"
        "delivered = fst (drain s n) @ del"
      using Cons.prems Drain by (auto split: prod.splits)
    have "take n (queue s) @ drop n (queue s) = queue s" by simp
    with run show ?thesis
      using Cons.IH [OF _ run(1)] drain_front [OF Cons.prems(1), of n]
      by (metis append.assoc)
  qed
qed

end

section \<open>The ring implements the FIFO\<close>

definition ingress_ok :: "ModbusUartIngress \<Rightarrow> bool" where
  "ingress_ok u \<longleftrightarrow> length (ui_bytes u) = 64
    \<and> unat (ui_write_index u) < 64 \<and> unat (ui_read_index u) < 64"

definition ingress_queue :: "ModbusUartIngress \<Rightarrow> u8 list" where
  "ingress_queue u = ring_contents (ui_bytes u) (unat (ui_read_index u)) (unat (ui_write_index u))"

text \<open>A drain into a buffer of \<open>n\<close> bytes, as the bytes it delivers.\<close>

definition ingress_drain :: "ModbusUartIngress \<Rightarrow> nat \<Rightarrow> u8 list \<times> ModbusUartIngress" where
  "ingress_drain u n =
    (case ModbusUartIngress_DrainFromMain u (replicate n 0) n of
       (count, destination, u') \<Rightarrow> (take count destination, u'))"

lemma drain_while_spec:
  assumes "unat r < 64" "unat w < 64" "count \<le> cap" "length dst = cap"
  shows "\<exists>dst' r' count'. drain_while bytes w cap dst r count = (dst', r', count')
    \<and> unat r' < 64 \<and> length dst' = cap
    \<and> take count' dst'
        = take count dst @ take (cap - count) (ring_contents bytes (unat r) (unat w))
    \<and> ring_contents bytes (unat r') (unat w)
        = drop (cap - count) (ring_contents bytes (unat r) (unat w))"
  using assms
proof (induction "cap - count" arbitrary: r count dst)
  case 0
  then have "drain_while bytes w cap dst r count = (dst, r, count)"
    by (subst drain_while.simps) simp
  with 0 show ?case by simp
next
  case (Suc k)
  show ?case
  proof (cases "r = w")
    case True
    then have "ring_contents bytes (unat r) (unat w) = []"
      using ring_len_zero [of "unat r" "unat w"] Suc.prems
      by (simp flip: length_0_conv)
    moreover have "drain_while bytes w cap dst r count = (dst, r, count)"
      using True by (subst drain_while.simps) simp
    ultimately show ?thesis using Suc.prems by simp
  next
    case False
    let ?r = "(r + 1) mod 64"
    let ?dst = "dst[count := bytes ! unat r]"
    have r: "unat ?r = Suc (unat r) mod 64" using Suc.prems by (simp add: unat_suc_mod_64)
    have pop: "ring_contents bytes (unat r) (unat w)
        = bytes ! unat r # ring_contents bytes (unat ?r) (unat w)"
      unfolding r using Suc.prems False by (intro ring_contents_pop) (auto simp: word_unat_eq_iff)
    have len: "cap - count = Suc (cap - Suc count)" using Suc.hyps(2) by simp
    then have k: "k = cap - Suc count" and le: "Suc count \<le> cap"
      using Suc.hyps(2) Suc.prems by simp_all
    obtain dst' r' count' where ih: "drain_while bytes w cap ?dst ?r (Suc count) = (dst', r', count')"
        "unat r' < 64" "length dst' = cap"
        "take count' dst'
          = take (Suc count) ?dst @ take (cap - Suc count) (ring_contents bytes (unat ?r) (unat w))"
        "ring_contents bytes (unat r') (unat w)
          = drop (cap - Suc count) (ring_contents bytes (unat ?r) (unat w))"
      using Suc.hyps(1) [OF k, of ?r ?dst] Suc.prems(2,4) r le by auto
    have "drain_while bytes w cap dst r count = (dst', r', count')"
      using ih(1) False le by (subst drain_while.simps) simp
    moreover have "take (Suc count) ?dst = take count dst @ [bytes ! unat r]"
      using Suc.prems len by (intro take_Suc_update) simp
    ultimately show ?thesis using ih by (simp add: pop len)
  qed
qed

lemma ingress_drain_spec:
  assumes "ingress_ok u"
  shows "fst (ingress_drain u n) = take n (ingress_queue u)
    \<and> ingress_ok (snd (ingress_drain u n))
    \<and> ingress_queue (snd (ingress_drain u n)) = drop n (ingress_queue u)"
proof -
  obtain dst' r' count' where
    "drain_while (ui_bytes u) (ui_write_index u) n (replicate n 0) (ui_read_index u) 0
      = (dst', r', count')" "unat r' < 64"
    "take count' dst' = take n (ingress_queue u)"
    "ring_contents (ui_bytes u) (unat r') (unat (ui_write_index u)) = drop n (ingress_queue u)"
    using drain_while_spec [of "ui_read_index u" "ui_write_index u" 0 n "replicate n 0" "ui_bytes u"]
      assms by (auto simp: ingress_ok_def ingress_queue_def)
  then show ?thesis
    using assms
    by (auto simp: ingress_drain_def ModbusUartIngress_DrainFromMain_def ingress_ok_def
        ingress_queue_def)
qed

lemma ingress_push_spec:
  assumes "ingress_ok u"
  shows "fst (ModbusUartIngress_PushFromIsr u b) = (length (ingress_queue u) < 63)
    \<and> ingress_ok (snd (ModbusUartIngress_PushFromIsr u b))
    \<and> ingress_queue (snd (ModbusUartIngress_PushFromIsr u b))
        = ingress_queue u @ (if length (ingress_queue u) < 63 then [b] else [])
    \<and> ui_rx_overflow_count (snd (ModbusUartIngress_PushFromIsr u b))
        = ui_rx_overflow_count u + (if length (ingress_queue u) < 63 then 0 else 1)"
proof -
  let ?r = "unat (ui_read_index u)" and ?w = "unat (ui_write_index u)"
  have idx: "?r < 64" "?w < 64" "length (ui_bytes u) = 64"
    using assms by (auto simp: ingress_ok_def)
  have full: "(ui_write_index u + 1) mod 64 = ui_read_index u \<longleftrightarrow> ring_len ?r ?w = 63"
    using idx by (simp add: word_unat_eq_iff unat_suc_mod_64 ring_full_iff)
  have le: "ring_len ?r ?w \<le> 63" using ring_len_less [of ?r ?w] by simp
  show ?thesis
    using idx le
    by (auto simp: ModbusUartIngress_PushFromIsr_def full ingress_ok_def ingress_queue_def
        unat_suc_mod_64 ring_contents_push Let_def)
qed

interpretation ingress: bounded_fifo ModbusUartIngress_PushFromIsr ingress_drain ingress_queue
  ingress_ok 63
  by unfold_locales (simp_all add: ingress_push_spec ingress_drain_spec)

lemma ingress_ok_initialize: "ingress_ok (ModbusUartIngress_Initialize u)"
  by (simp add: ingress_ok_def ModbusUartIngress_Initialize_def)

lemma ingress_queue_initialize: "ingress_queue (ModbusUartIngress_Initialize u) = []"
  by (simp add: ingress_queue_def ModbusUartIngress_Initialize_def ring_contents_def ring_len_def)

section \<open>Interrupt and main loop interleaved\<close>

text \<open>
  Program counters with the local variables: the receive interrupt inside
  \<open>PushFromIsr\<close> and the main loop inside \<open>DrainFromMain\<close>. The ghost fields list
  the bytes published by the producer and handed over by the consumer.
\<close>

datatype producer_pc =
    P_idle
  | P_loaded_write u8 u32
  | P_has_room u8 u32 u32
  | P_stored u8 u32

datatype consumer_pc =
    C_idle
  | C_loaded_read nat u32
  | C_copying nat u32 "u8 list" u32

record spsc =
  sp_ring :: ModbusUartIngress
  sp_producer :: producer_pc
  sp_consumer :: consumer_pc
  sp_accepted :: "u8 list"
  sp_delivered :: "u8 list"

inductive spsc_step :: "spsc \<Rightarrow> spsc \<Rightarrow> bool" where
  isr_load_write: "sp_producer s = P_idle \<Longrightarrow>
    spsc_step s (s\<lparr>sp_producer := P_loaded_write b (ui_write_index (sp_ring s))\<rparr>)"
| isr_full: "sp_producer s = P_loaded_write b w \<Longrightarrow>
    (w + 1) mod MODBUS_UART_INGRESS_CAPACITY = ui_read_index (sp_ring s) \<Longrightarrow>
    spsc_step s (s\<lparr>sp_producer := P_idle,
      sp_ring := (sp_ring s)\<lparr>ui_rx_overflow_count := ui_rx_overflow_count (sp_ring s) + 1\<rparr>\<rparr>)"
| isr_room: "sp_producer s = P_loaded_write b w \<Longrightarrow>
    (w + 1) mod MODBUS_UART_INGRESS_CAPACITY \<noteq> ui_read_index (sp_ring s) \<Longrightarrow>
    spsc_step s (s\<lparr>sp_producer := P_has_room b w ((w + 1) mod MODBUS_UART_INGRESS_CAPACITY)\<rparr>)"
| isr_store_byte: "sp_producer s = P_has_room b w n \<Longrightarrow>
    spsc_step s (s\<lparr>sp_producer := P_stored b n,
      sp_ring := (sp_ring s)\<lparr>ui_bytes := (ui_bytes (sp_ring s))[unat w := b]\<rparr>\<rparr>)"
| isr_store_write: "sp_producer s = P_stored b n \<Longrightarrow>
    spsc_step s (s\<lparr>sp_producer := P_idle, sp_ring := (sp_ring s)\<lparr>ui_write_index := n\<rparr>,
      sp_accepted := sp_accepted s @ [b]\<rparr>)"
| main_load_read: "sp_consumer s = C_idle \<Longrightarrow> capacity \<noteq> 0 \<Longrightarrow>
    spsc_step s (s\<lparr>sp_consumer := C_loaded_read capacity (ui_read_index (sp_ring s))\<rparr>)"
| main_load_write: "sp_consumer s = C_loaded_read capacity r \<Longrightarrow>
    spsc_step s (s\<lparr>sp_consumer := C_copying capacity (ui_write_index (sp_ring s)) [] r\<rparr>)"
| main_copy: "sp_consumer s = C_copying capacity w out r \<Longrightarrow> r \<noteq> w \<Longrightarrow> length out < capacity \<Longrightarrow>
    spsc_step s (s\<lparr>sp_consumer := C_copying capacity w (out @ [ui_bytes (sp_ring s) ! unat r])
      ((r + 1) mod MODBUS_UART_INGRESS_CAPACITY)\<rparr>)"
| main_store_read: "sp_consumer s = C_copying capacity w out r \<Longrightarrow>
    \<not> (r \<noteq> w \<and> length out < capacity) \<Longrightarrow>
    spsc_step s (s\<lparr>sp_consumer := C_idle, sp_ring := (sp_ring s)\<lparr>ui_read_index := r\<rparr>,
      sp_delivered := sp_delivered s @ out\<rparr>)"

inductive spsc_reachable :: "spsc \<Rightarrow> bool" where
  start: "spsc_reachable \<lparr>sp_ring = ModbusUartIngress_Initialize u, sp_producer = P_idle,
     sp_consumer = C_idle, sp_accepted = [], sp_delivered = []\<rparr>"
| step: "spsc_reachable s \<Longrightarrow> spsc_step s s' \<Longrightarrow> spsc_reachable s'"

lemma ring_contents_drop:
  "n \<le> ring_len r w \<Longrightarrow> r < 64 \<Longrightarrow> w < 64 \<Longrightarrow>
    ring_contents bytes ((r + n) mod 64) w = drop n (ring_contents bytes r w)"
proof (induction n arbitrary: r)
  case 0
  then show ?case by simp
next
  case (Suc n)
  then have rw: "r \<noteq> w" using ring_len_zero [of r w] by auto
  have pop: "ring_contents bytes r w = bytes ! r # ring_contents bytes (Suc r mod 64) w"
    using Suc.prems rw by (intro ring_contents_pop)
  have "ring_len r w = Suc (ring_len (Suc r mod 64) w)"
    using arg_cong [OF pop, of length] by simp
  with Suc.prems have "n \<le> ring_len (Suc r mod 64) w" by simp
  then have "ring_contents bytes ((Suc r mod 64 + n) mod 64) w
      = drop n (ring_contents bytes (Suc r mod 64) w)"
    using Suc.prems by (intro Suc.IH) auto
  then show ?case by (simp add: pop mod_simps)
qed

lemma ring_contents_nth:
  "i < ring_len r w \<Longrightarrow> ring_contents bytes r w ! i = bytes ! ((r + i) mod 64)"
  by (simp add: ring_contents_def)

definition producer_ok :: "ModbusUartIngress \<Rightarrow> producer_pc \<Rightarrow> bool" where
  "producer_ok u pc =
    (case pc of
       P_idle \<Rightarrow> True
     | P_loaded_write b w \<Rightarrow> w = ui_write_index u
     | P_has_room b w n \<Rightarrow> w = ui_write_index u \<and> n = (w + 1) mod 64
         \<and> length (ingress_queue u) < 63
     | P_stored b n \<Rightarrow> n = (ui_write_index u + 1) mod 64 \<and> length (ingress_queue u) < 63
         \<and> ui_bytes u ! unat (ui_write_index u) = b)"

definition consumer_ok :: "ModbusUartIngress \<Rightarrow> consumer_pc \<Rightarrow> bool" where
  "consumer_ok u pc =
    (case pc of
       C_idle \<Rightarrow> True
     | C_loaded_read capacity r \<Rightarrow> r = ui_read_index u
     | C_copying capacity w out r \<Rightarrow>
         unat r = (unat (ui_read_index u) + length out) mod 64
         \<and> out = take (length out) (ingress_queue u)
         \<and> (\<exists>k. length out \<le> k \<and> k \<le> length (ingress_queue u)
              \<and> unat w = (unat (ui_read_index u) + k) mod 64))"

definition spsc_inv :: "spsc \<Rightarrow> bool" where
  "spsc_inv s \<longleftrightarrow> ingress_ok (sp_ring s)
    \<and> sp_delivered s @ ingress_queue (sp_ring s) = sp_accepted s
    \<and> producer_ok (sp_ring s) (sp_producer s) \<and> consumer_ok (sp_ring s) (sp_consumer s)"

text \<open>The producer's steps.\<close>

lemma isr_room_full:
  assumes "ingress_ok u"
  shows "(ui_write_index u + 1) mod 64 = ui_read_index u \<longleftrightarrow> length (ingress_queue u) = 63"
  using assms
  by (simp add: ingress_ok_def ingress_queue_def word_unat_eq_iff unat_suc_mod_64 ring_full_iff)

lemma queue_length_le: "length (ingress_queue u) \<le> 63"
  using ring_len_less [of "unat (ui_read_index u)" "unat (ui_write_index u)"]
  by (simp add: ingress_queue_def)

lemma store_byte_queue:
  assumes "ingress_ok u"
  shows "ingress_queue (u\<lparr>ui_bytes := (ui_bytes u)[unat (ui_write_index u) := b]\<rparr>) = ingress_queue u"
  using assms by (simp add: ingress_ok_def ingress_queue_def ring_contents_outside)

lemma publish_queue:
  assumes "ingress_ok u" "length (ingress_queue u) < 63"
    "ui_bytes u ! unat (ui_write_index u) = b"
  shows "ingress_queue (u\<lparr>ui_write_index := (ui_write_index u + 1) mod 64\<rparr>) = ingress_queue u @ [b]"
proof -
  have "ui_bytes u = (ui_bytes u)[unat (ui_write_index u) := b]"
    using assms(3) by auto
  then show ?thesis
    using assms ring_contents_push [of "unat (ui_read_index u)" "unat (ui_write_index u)"
        "ui_bytes u" b]
    by (simp add: ingress_ok_def ingress_queue_def unat_suc_mod_64)
qed

lemma consumer_ok_mono:
  assumes "consumer_ok u pc" "ui_read_index u' = ui_read_index u"
    "ingress_queue u' = ingress_queue u @ bs"
  shows "consumer_ok u' pc"
  using assms by (cases pc) (auto simp: consumer_ok_def intro: trans_le_add1)

text \<open>The consumer's steps.\<close>

lemma copy_reads_queue:
  assumes "ingress_ok u" "consumer_ok u (C_copying cap w out r)" "r \<noteq> w"
  shows "length out < length (ingress_queue u)
    \<and> ui_bytes u ! unat r = ingress_queue u ! length out"
proof -
  obtain k where k: "length out \<le> k" "k \<le> length (ingress_queue u)"
      "unat w = (unat (ui_read_index u) + k) mod 64"
      "unat r = (unat (ui_read_index u) + length out) mod 64"
    using assms(2) by (auto simp: consumer_ok_def)
  then have "length out \<noteq> k" using assms(3) by (auto simp: word_unat_eq_iff)
  with k have "length out < length (ingress_queue u)" by simp
  then show ?thesis
    using k(4) by (simp add: ingress_queue_def ring_contents_nth)
qed

lemma copy_keeps_consumer_ok:
  assumes "ingress_ok u" "consumer_ok u (C_copying cap w out r)" "r \<noteq> w"
  shows "consumer_ok u (C_copying cap w (out @ [ui_bytes u ! unat r]) ((r + 1) mod 64))"
proof -
  note rd = copy_reads_queue [OF assms]
  obtain k where k: "length out \<le> k" "k \<le> length (ingress_queue u)"
      "unat w = (unat (ui_read_index u) + k) mod 64"
    and r: "unat r = (unat (ui_read_index u) + length out) mod 64"
    and out: "out = take (length out) (ingress_queue u)"
    using assms(2) by (auto simp: consumer_ok_def)
  have "length out \<noteq> k" using k r assms(3) by (auto simp: word_unat_eq_iff)
  with k have "Suc (length out) \<le> k" by simp
  moreover have "unat ((r + 1) mod 64) = (unat (ui_read_index u) + Suc (length out)) mod 64"
    using r by (simp add: unat_suc_mod_64 mod_Suc_eq)
  moreover have "out @ [ui_bytes u ! unat r] = take (Suc (length out)) (ingress_queue u)"
    using rd out by (metis take_Suc_conv_app_nth)
  ultimately show ?thesis
    using k by (auto simp: consumer_ok_def)
qed

lemma store_read_queue:
  assumes "ingress_ok u" "consumer_ok u (C_copying cap w out r)"
  shows "out @ ingress_queue (u\<lparr>ui_read_index := r\<rparr>) = ingress_queue u
    \<and> ingress_ok (u\<lparr>ui_read_index := r\<rparr>)"
proof -
  have r: "unat r = (unat (ui_read_index u) + length out) mod 64"
      and out: "out = take (length out) (ingress_queue u)"
      and le: "length out \<le> length (ingress_queue u)"
    using assms(2) by (auto simp: consumer_ok_def)
  have "ingress_queue (u\<lparr>ui_read_index := r\<rparr>) = drop (length out) (ingress_queue u)"
    using assms(1) r le by (simp add: ingress_queue_def ingress_ok_def ring_contents_drop)
  moreover have "unat r < 64" using r by simp
  then have "ingress_ok (u\<lparr>ui_read_index := r\<rparr>)" using assms(1) by (simp add: ingress_ok_def)
  moreover have "out @ drop (length out) (ingress_queue u) = ingress_queue u"
    using out by (metis append_take_drop_id)
  ultimately show ?thesis by simp
qed

lemma spsc_inv_step:
  assumes "spsc_step s s'" "spsc_inv s"
  shows "spsc_inv s'"
  using assms
proof (induction rule: spsc_step.induct)
  case (isr_full s b w)
  let ?u = "(sp_ring s)\<lparr>ui_rx_overflow_count := ui_rx_overflow_count (sp_ring s) + 1\<rparr>"
  have q: "ingress_queue ?u = ingress_queue (sp_ring s)" by (simp add: ingress_queue_def)
  have "consumer_ok (sp_ring s) (sp_consumer s)" using isr_full.prems by (simp add: spsc_inv_def)
  then have "consumer_ok ?u (sp_consumer s)"
    by (rule consumer_ok_mono [where bs = "[]"]) (simp_all add: q)
  then show ?case
    using isr_full.prems q by (simp add: spsc_inv_def producer_ok_def ingress_ok_def)
next
  case (isr_room s b w)
  then show ?case
    using isr_room_full [of "sp_ring s"] queue_length_le [of "sp_ring s"]
    by (auto simp: spsc_inv_def producer_ok_def)
next
  case (isr_store_byte s b w n)
  let ?u = "(sp_ring s)\<lparr>ui_bytes := (ui_bytes (sp_ring s))[unat w := b]\<rparr>"
  have ok: "ingress_ok (sp_ring s)" and w: "w = ui_write_index (sp_ring s)"
      "n = (w + 1) mod 64" "length (ingress_queue (sp_ring s)) < 63"
    using isr_store_byte by (auto simp: spsc_inv_def producer_ok_def)
  have q: "ingress_queue ?u = ingress_queue (sp_ring s)"
    unfolding w(1) by (rule store_byte_queue [OF ok])
  have "consumer_ok (sp_ring s) (sp_consumer s)"
    using isr_store_byte.prems by (simp add: spsc_inv_def)
  then have "consumer_ok ?u (sp_consumer s)"
    by (rule consumer_ok_mono [where bs = "[]"]) (simp_all add: q)
  then show ?case
    using isr_store_byte ok w q
    by (auto simp: spsc_inv_def producer_ok_def ingress_ok_def)
next
  case (isr_store_write s b n)
  have ok: "ingress_ok (sp_ring s)" and n: "n = (ui_write_index (sp_ring s) + 1) mod 64"
      "length (ingress_queue (sp_ring s)) < 63"
      "ui_bytes (sp_ring s) ! unat (ui_write_index (sp_ring s)) = b"
    using isr_store_write by (auto simp: spsc_inv_def producer_ok_def)
  let ?u = "(sp_ring s)\<lparr>ui_write_index := n\<rparr>"
  have q: "ingress_queue ?u = ingress_queue (sp_ring s) @ [b]"
    unfolding n(1) using publish_queue [OF ok n(2,3)] .
  have "consumer_ok (sp_ring s) (sp_consumer s)"
    using isr_store_write.prems by (simp add: spsc_inv_def)
  then have "consumer_ok ?u (sp_consumer s)"
    by (rule consumer_ok_mono [where bs = "[b]"]) (simp_all add: q)
  moreover have "ingress_ok ?u"
    using ok n(1) by (simp add: ingress_ok_def unat_suc_mod_64)
  moreover have "sp_delivered s @ ingress_queue ?u = sp_accepted s @ [b]"
    using isr_store_write q by (auto simp: spsc_inv_def)
  ultimately show ?case
    by (simp add: spsc_inv_def producer_ok_def)
next
  case (main_load_write s capacity r)
  let ?u = "sp_ring s"
  have u: "ingress_ok ?u" "r = ui_read_index ?u"
    using main_load_write by (auto simp: spsc_inv_def consumer_ok_def)
  have "unat (ui_write_index ?u)
      = (unat (ui_read_index ?u) + length (ingress_queue ?u)) mod 64"
    using u ring_last_slot [of "unat (ui_read_index ?u)" "unat (ui_write_index ?u)"]
    by (simp add: ingress_ok_def ingress_queue_def)
  then have "consumer_ok ?u (C_copying capacity (ui_write_index ?u) [] r)"
    using u unfolding consumer_ok_def ingress_ok_def by auto
  with main_load_write show ?case by (simp add: spsc_inv_def)
next
  case (main_copy s capacity w out r)
  then show ?case
    using copy_keeps_consumer_ok [of "sp_ring s" capacity w out r]
    by (simp add: spsc_inv_def)
next
  case (main_store_read s capacity w out r)
  let ?u = "(sp_ring s)\<lparr>ui_read_index := r\<rparr>"
  have ok: "ingress_ok (sp_ring s)" "consumer_ok (sp_ring s) (C_copying capacity w out r)"
    using main_store_read by (auto simp: spsc_inv_def)
  have q: "out @ ingress_queue ?u = ingress_queue (sp_ring s)" "ingress_ok ?u"
    using store_read_queue [OF ok] by auto
  then have "length (ingress_queue ?u) \<le> length (ingress_queue (sp_ring s))"
    by (metis le_add2 length_append)
  then have "producer_ok ?u (sp_producer s)"
    using main_store_read by (auto simp: spsc_inv_def producer_ok_def split: producer_pc.splits)
  then show ?case
    using main_store_read q by (auto simp: spsc_inv_def consumer_ok_def)
qed (simp_all add: spsc_inv_def producer_ok_def consumer_ok_def)

lemma spsc_inv_reachable: "spsc_reachable s \<Longrightarrow> spsc_inv s"
proof (induction rule: spsc_reachable.induct)
  case (start u)
  then show ?case
    by (simp add: spsc_inv_def ingress_ok_initialize ingress_queue_initialize producer_ok_def
        consumer_ok_def)
qed (rule spsc_inv_step)

section \<open>Properties\<close>

text \<open>Used one operation at a time, the ring is a bounded FIFO of 63 bytes: over any
  sequence of pushes and drains, the bytes delivered followed by the bytes still
  queued are the bytes queued before followed by the bytes accepted, in order;
  a byte is refused only when 63 are queued.\<close>

theorem ingress_fifo:
  assumes "ingress_ok u"
  shows "(case fifo_run ModbusUartIngress_PushFromIsr ingress_drain ops u of
            (accepted, delivered, u') \<Rightarrow>
              ingress_ok u' \<and> delivered @ ingress_queue u' = ingress_queue u @ accepted)
       \<and> (fst (ModbusUartIngress_PushFromIsr u b) \<longleftrightarrow> length (ingress_queue u) < 63)"
  using ingress.run_conserves [OF assms, of ops] ingress_push_spec [OF assms, of b]
  by (auto split: prod.splits)

theorem ingress_fifo_witness:
  "(case fifo_run ModbusUartIngress_PushFromIsr ingress_drain [Push 1, Push 2, Drain 1]
          (ModbusUartIngress_Initialize undefined) of
      (accepted, delivered, u') \<Rightarrow>
        ingress_ok u' \<and> delivered @ ingress_queue u'
          = ingress_queue (ModbusUartIngress_Initialize undefined) @ accepted)
   \<and> (fst (ModbusUartIngress_PushFromIsr (ModbusUartIngress_Initialize undefined) 3)
       \<longleftrightarrow> length (ingress_queue (ModbusUartIngress_Initialize undefined)) < 63)"
  by (rule ingress_fifo) (rule ingress_ok_initialize)

text \<open>C32: Under every interleaving of the receive interrupt's and the main loop's
  single accesses, no byte is lost, duplicated, reordered or read before it is
  written: the bytes handed to the main loop are a prefix of the bytes the
  interrupt published, the rest is the queue, and the bytes the main loop is
  copying are the front of that queue.\<close>

theorem spsc_every_interleaving:
  assumes "spsc_reachable s"
  shows "sp_delivered s @ ingress_queue (sp_ring s) = sp_accepted s
    \<and> length (ingress_queue (sp_ring s)) \<le> 63
    \<and> (\<forall>cap w out r. sp_consumer s = C_copying cap w out r \<longrightarrow>
         out = take (length out) (ingress_queue (sp_ring s)))"
  using spsc_inv_reachable [OF assms] queue_length_le [of "sp_ring s"]
  by (auto simp: spsc_inv_def consumer_ok_def)

theorem spsc_every_interleaving_witness:
  "\<exists>s :: spsc. sp_delivered s @ ingress_queue (sp_ring s) = sp_accepted s
    \<and> length (ingress_queue (sp_ring s)) \<le> 63 \<and> sp_consumer s = C_copying 4 0 [] 0"
proof -
  let ?s0 = "\<lparr>sp_ring = ModbusUartIngress_Initialize undefined, sp_producer = P_idle,
     sp_consumer = C_idle, sp_accepted = [], sp_delivered = []\<rparr>"
  let ?s1 = "?s0\<lparr>sp_consumer := C_loaded_read 4 (ui_read_index (sp_ring ?s0))\<rparr>"
  let ?s2 = "?s1\<lparr>sp_consumer := C_copying 4 (ui_write_index (sp_ring ?s1)) []
     (ui_read_index (sp_ring ?s0))\<rparr>"
  have "spsc_reachable ?s1"
    by (rule spsc_reachable.step [OF spsc_reachable.start main_load_read]) simp_all
  then have "spsc_reachable ?s2"
    by (rule spsc_reachable.step [OF _ main_load_write]) simp
  from spsc_every_interleaving [OF this] show ?thesis
    by (intro exI [of _ ?s2]) (simp add: ModbusUartIngress_Initialize_def)
qed

end
