(* ===== verification/MotorHw.thy ===== *)
theory MotorHw
  imports Prelude
begin

text \<open>
  The motor output registers and the unconditional disable sequences:
  \<^verbatim>\<open>Board/Motor/motor_hw_force_disable.c\<close>, \<^verbatim>\<open>motor_hw_early_force_disable.c\<close> and the
  constants of \<^verbatim>\<open>motor_hw_map.h\<close>. The shutdown pins PB1 and PB2 disable the motor
  driver when low; TIM2 and TIM3 channel 3 carry the two PWM legs.
\<close>

section \<open>Registers\<close>

text \<open>
  Only the registers the sequences touch. \<open>BSRR\<close> is write-only: it is modelled by
  its documented effect on the output latch \<open>ODR\<close>.
\<close>

record motor_hw =
  rcc_ahb1enr :: u32
  rcc_apb1enr :: u32
  gpiob_odr :: u32
  gpiob_pupdr :: u32
  gpiob_otyper :: u32
  gpiob_moder :: u32
  tim2_ccr3 :: u32
  tim3_ccr3 :: u32
  tim2_ccer :: u32
  tim3_ccer :: u32

abbreviation (input) RCC_AHB1ENR_GPIOBEN :: u32 where "RCC_AHB1ENR_GPIOBEN \<equiv> 0x2"
abbreviation (input) RCC_APB1ENR_TIM2EN :: u32 where "RCC_APB1ENR_TIM2EN \<equiv> 0x1"
abbreviation (input) RCC_APB1ENR_TIM3EN :: u32 where "RCC_APB1ENR_TIM3EN \<equiv> 0x2"
abbreviation (input) TIM_CCER_CC3E :: u32 where "TIM_CCER_CC3E \<equiv> 0x100"

abbreviation (input) MOTOR_HW_SD_GPIO_PIN_MASK :: u32 where
  "MOTOR_HW_SD_GPIO_PIN_MASK \<equiv> 0x6"
abbreviation (input) MOTOR_HW_SD_MODE_FIELD_MASK :: u32 where
  "MOTOR_HW_SD_MODE_FIELD_MASK \<equiv> 0x3C"
abbreviation (input) MOTOR_HW_SD_OUTPUT_MODE_BITS :: u32 where
  "MOTOR_HW_SD_OUTPUT_MODE_BITS \<equiv> 0x14"
abbreviation (input) MOTOR_HW_SD_PULLDOWN_BITS :: u32 where
  "MOTOR_HW_SD_PULLDOWN_BITS \<equiv> 0x28"

text \<open>A write to \<open>BSRR\<close>: the upper half resets latch bits, the lower half sets them.\<close>

definition write_bsrr :: "u32 \<Rightarrow> 'a motor_hw_scheme \<Rightarrow> 'a motor_hw_scheme" where
  "write_bsrr v h = h\<lparr>gpiob_odr := (gpiob_odr h AND NOT (drop_bit 16 v)) OR (v AND 0xFFFF)\<rparr>"

section \<open>The disable sequences\<close>

definition MotorHw_ForceDisableImmediate :: "'a motor_hw_scheme \<Rightarrow> 'a motor_hw_scheme" where
  "MotorHw_ForceDisableImmediate h =
    (let h = h\<lparr>rcc_ahb1enr := rcc_ahb1enr h OR RCC_AHB1ENR_GPIOBEN\<rparr>;
         h = write_bsrr (push_bit 16 MOTOR_HW_SD_GPIO_PIN_MASK) h;
         h = h\<lparr>gpiob_pupdr := (gpiob_pupdr h AND NOT MOTOR_HW_SD_MODE_FIELD_MASK)
                               OR MOTOR_HW_SD_PULLDOWN_BITS\<rparr>;
         h = h\<lparr>gpiob_otyper := gpiob_otyper h AND NOT MOTOR_HW_SD_GPIO_PIN_MASK\<rparr>;
         h = h\<lparr>gpiob_moder := (gpiob_moder h AND NOT MOTOR_HW_SD_MODE_FIELD_MASK)
                               OR MOTOR_HW_SD_OUTPUT_MODE_BITS\<rparr>;
         h = h\<lparr>rcc_apb1enr := rcc_apb1enr h OR (RCC_APB1ENR_TIM2EN OR RCC_APB1ENR_TIM3EN)\<rparr>;
         h = h\<lparr>tim2_ccr3 := 0\<rparr>;
         h = h\<lparr>tim3_ccr3 := 0\<rparr>;
         h = h\<lparr>tim2_ccer := tim2_ccer h AND NOT TIM_CCER_CC3E\<rparr>
     in h\<lparr>tim3_ccer := tim3_ccer h AND NOT TIM_CCER_CC3E\<rparr>)"

definition MotorHw_ForceDisable :: "'a motor_hw_scheme \<Rightarrow> 'a motor_hw_scheme" where
  "MotorHw_ForceDisable h = MotorHw_ForceDisableImmediate h"

definition MotorHw_EarlyForceDisable :: "'a motor_hw_scheme \<Rightarrow> 'a motor_hw_scheme" where
  "MotorHw_EarlyForceDisable h =
    (let h = h\<lparr>rcc_ahb1enr := rcc_ahb1enr h OR RCC_AHB1ENR_GPIOBEN\<rparr>;
         h = write_bsrr (push_bit 16 MOTOR_HW_SD_GPIO_PIN_MASK) h;
         h = h\<lparr>gpiob_pupdr := (gpiob_pupdr h AND NOT MOTOR_HW_SD_MODE_FIELD_MASK)
                               OR MOTOR_HW_SD_PULLDOWN_BITS\<rparr>;
         h = h\<lparr>gpiob_otyper := gpiob_otyper h AND NOT MOTOR_HW_SD_GPIO_PIN_MASK\<rparr>;
         h = h\<lparr>gpiob_moder := (gpiob_moder h AND NOT MOTOR_HW_SD_MODE_FIELD_MASK)
                               OR MOTOR_HW_SD_OUTPUT_MODE_BITS\<rparr>;
         h = h\<lparr>rcc_apb1enr := rcc_apb1enr h OR (RCC_APB1ENR_TIM2EN OR RCC_APB1ENR_TIM3EN)\<rparr>;
         h = h\<lparr>tim2_ccr3 := 0\<rparr>;
         h = h\<lparr>tim3_ccr3 := 0\<rparr>;
         h = h\<lparr>tim2_ccer := tim2_ccer h AND NOT TIM_CCER_CC3E\<rparr>
     in h\<lparr>tim3_ccer := tim3_ccer h AND NOT TIM_CCER_CC3E\<rparr>)"

section \<open>What disabled means\<close>

text \<open>
  The driver is shut down: both shutdown pins are push-pull outputs latched low,
  pulled down in case they float, and neither PWM leg drives its channel.
\<close>

definition hw_disabled :: "'a motor_hw_scheme \<Rightarrow> bool" where
  "hw_disabled h \<longleftrightarrow>
    gpiob_odr h AND 0x6 = 0 \<and> gpiob_otyper h AND 0x6 = 0
    \<and> gpiob_moder h AND 0x3C = 0x14 \<and> gpiob_pupdr h AND 0x3C = 0x28
    \<and> tim2_ccr3 h = 0 \<and> tim3_ccr3 h = 0
    \<and> tim2_ccer h AND 0x100 = 0 \<and> tim3_ccer h AND 0x100 = 0
    \<and> rcc_ahb1enr h AND 0x2 = 0x2 \<and> rcc_apb1enr h AND 0x3 = 0x3"

text \<open>The other pins of the port keep their configuration and level.\<close>

definition hw_other_pins_kept :: "'a motor_hw_scheme \<Rightarrow> 'a motor_hw_scheme \<Rightarrow> bool" where
  "hw_other_pins_kept h h' \<longleftrightarrow>
    gpiob_odr h' AND NOT 0x6 = gpiob_odr h AND NOT 0x6
    \<and> gpiob_otyper h' AND NOT 0x6 = gpiob_otyper h AND NOT 0x6
    \<and> gpiob_moder h' AND NOT 0x3C = gpiob_moder h AND NOT 0x3C
    \<and> gpiob_pupdr h' AND NOT 0x3C = gpiob_pupdr h AND NOT 0x3C
    \<and> tim2_ccer h' AND NOT 0x100 = tim2_ccer h AND NOT 0x100
    \<and> tim3_ccer h' AND NOT 0x100 = tim3_ccer h AND NOT 0x100"

lemma mask_set_field:
  fixes x m v :: u32
  assumes "v AND m = v"
  shows "((x AND NOT m) OR v) AND m = v" "((x AND NOT m) OR v) AND NOT m = x AND NOT m"
proof -
  have b: "bit v n \<Longrightarrow> bit m n" for n
    using assms by (metis bit_and_iff)
  show "((x AND NOT m) OR v) AND m = v" "((x AND NOT m) OR v) AND NOT m = x AND NOT m"
    by (auto intro!: bit_word_eqI simp: bit_simps dest: b)
qed

lemma mask_clear:
  fixes x m :: u32
  shows "(x AND NOT m) AND m = 0" "(x AND NOT m) AND NOT m = x AND NOT m"
  by (auto intro!: bit_word_eqI simp: bit_simps)

lemma mask_or_self:
  fixes x m :: u32
  shows "(x OR m) AND m = m"
  by (auto intro!: bit_word_eqI simp: bit_simps)

lemma ForceDisableImmediate_disables [simp]: "hw_disabled (MotorHw_ForceDisableImmediate h)"
  using mask_set_field [of "0x14" "0x3C" "gpiob_moder h"]
    mask_set_field [of "0x28" "0x3C" "gpiob_pupdr h"]
    mask_clear [of "gpiob_otyper h" "0x6"] mask_clear [of "gpiob_odr h" "0x6"]
    mask_clear [of "tim2_ccer h" "0x100"] mask_clear [of "tim3_ccer h" "0x100"]
    mask_or_self [of "rcc_ahb1enr h" "0x2"] mask_or_self [of "rcc_apb1enr h" "0x3"]
  by (simp add: hw_disabled_def MotorHw_ForceDisableImmediate_def write_bsrr_def Let_def)

lemma ForceDisableImmediate_keeps_pins:
  "hw_other_pins_kept h (MotorHw_ForceDisableImmediate h)"
  using mask_set_field [of "0x14" "0x3C" "gpiob_moder h"]
    mask_set_field [of "0x28" "0x3C" "gpiob_pupdr h"]
    mask_clear [of "gpiob_otyper h" "0x6"] mask_clear [of "gpiob_odr h" "0x6"]
    mask_clear [of "tim2_ccer h" "0x100"] mask_clear [of "tim3_ccer h" "0x100"]
  by (simp add: hw_other_pins_kept_def MotorHw_ForceDisableImmediate_def write_bsrr_def Let_def)

lemma EarlyForceDisable_eq: "MotorHw_EarlyForceDisable = MotorHw_ForceDisableImmediate"
  unfolding MotorHw_EarlyForceDisable_def MotorHw_ForceDisableImmediate_def fun_eq_iff by simp

text \<open>From any register contents the disable sequences leave the driver shut
  down (shutdown pins driven low as push-pull outputs with pull-down, both PWM legs
  at zero and disconnected, clocks on) and touch no other pin of the port; the
  reset-time sequence and the run-time one have the same effect.\<close>

theorem force_disable_shuts_down:
  "hw_disabled (MotorHw_ForceDisableImmediate h) \<and> hw_other_pins_kept h (MotorHw_ForceDisableImmediate h)
   \<and> MotorHw_EarlyForceDisable h = MotorHw_ForceDisableImmediate h
   \<and> MotorHw_ForceDisable h = MotorHw_ForceDisableImmediate h"
  by (simp add: ForceDisableImmediate_keeps_pins EarlyForceDisable_eq MotorHw_ForceDisable_def)

end
