(* ===== verification/MotorExecutor.thy ===== *)
theory MotorExecutor
  imports MotorHw
begin

text \<open>
  The motor executor's interface (\<^verbatim>\<open>Board/Motor/motor_executor.h\<close> and
  \<^verbatim>\<open>motor_plan_config.h\<close>): the types, the command planner, and the link-time
  choice of a backend as a record of operations. The locale \<open>motor_executor\<close>
  states what the application relies on; every backend interprets it.
\<close>

section \<open>Types\<close>

datatype MotorDirection = MOTOR_DIRECTION_PRESS | MOTOR_DIRECTION_RELEASE

datatype MotorResult =
    MOTOR_RESULT_OK
  | MOTOR_RESULT_INVALID
  | MOTOR_RESULT_BUSY
  | MOTOR_RESULT_TIMER_ERROR
  | MOTOR_RESULT_HARDWARE_ERROR

datatype MotorAction =
    MOTOR_ACTION_DISABLED
  | MOTOR_ACTION_PRESS_RUN
  | MOTOR_ACTION_RELEASE_RUN
  | MOTOR_ACTION_PRESS_PULSE
  | MOTOR_ACTION_RELEASE_PULSE
  | MOTOR_ACTION_CONTINUOUS
  | MOTOR_ACTION_BUILD_SEGMENT
  | MOTOR_ACTION_BUILD_BRAKE

datatype MotorCompletion =
    MOTOR_COMPLETION_NONE
  | MOTOR_COMPLETION_NORMAL
  | MOTOR_COMPLETION_BACKSTOP
  | MOTOR_COMPLETION_ERROR
  | MOTOR_COMPLETION_LEASE

text \<open>The failure stages of \<^verbatim>\<open>motor_diagnostics.h\<close>, by their numbers.\<close>

type_synonym MotorFailureStage = nat

abbreviation (input) MOTOR_FAILURE_STAGE_NONE :: MotorFailureStage where
  "MOTOR_FAILURE_STAGE_NONE \<equiv> 0"

record MotorExecutorSnapshot =
  mx_last_action :: MotorAction
  mx_direction :: MotorDirection
  mx_last_completion :: MotorCompletion
  mx_command_mv :: u32
  mx_requested_duration_ms :: u32
  mx_logical_deadline_ms :: u32
  mx_logical_backstop_ms :: u32
  mx_request_sequence :: u32
  mx_boost_started_ms :: u32
  mx_boost_deadline_ms :: u32
  mx_boost_planned_end_ms :: u32
  mx_planned_tim2_ccr3 :: u16
  mx_planned_tim3_ccr3 :: u16
  mx_logical_active :: bool
  mx_physical_output_locked :: bool
  mx_physical_output_disabled :: bool
  mx_last_failure_result :: MotorResult
  mx_last_failure_stage :: MotorFailureStage

text \<open>\<open>memset(&s_motor, 0, sizeof(s_motor))\<close>\<close>

definition zero_motor_snapshot :: MotorExecutorSnapshot where
  "zero_motor_snapshot =
    \<lparr>mx_last_action = MOTOR_ACTION_DISABLED, mx_direction = MOTOR_DIRECTION_PRESS,
     mx_last_completion = MOTOR_COMPLETION_NONE, mx_command_mv = 0,
     mx_requested_duration_ms = 0, mx_logical_deadline_ms = 0, mx_logical_backstop_ms = 0,
     mx_request_sequence = 0, mx_boost_started_ms = 0, mx_boost_deadline_ms = 0,
     mx_boost_planned_end_ms = 0, mx_planned_tim2_ccr3 = 0, mx_planned_tim3_ccr3 = 0,
     mx_logical_active = False, mx_physical_output_locked = False,
     mx_physical_output_disabled = False, mx_last_failure_result = MOTOR_RESULT_OK,
     mx_last_failure_stage = MOTOR_FAILURE_STAGE_NONE\<rparr>"

abbreviation (input) MOTOR_PLAN_PWM_PERIOD_COUNTS :: nat where
  "MOTOR_PLAN_PWM_PERIOD_COUNTS \<equiv> 4799"
abbreviation (input) MOTOR_PLAN_SUPPLY_REFERENCE_MV :: nat where
  "MOTOR_PLAN_SUPPLY_REFERENCE_MV \<equiv> 24000"

section \<open>A backend as a record of operations\<close>

text \<open>
  The application is linked with one backend; its operations are the fields, over
  the backend's own state. \<open>ex_GetSnapshot\<close> answers whether the returned pointer is
  not NULL, and \<open>ex_motor\<close> is what dereferencing it reads. \<open>ex_PlanCommand\<close> returns
  the two compare values with \<^const>\<open>MOTOR_RESULT_OK\<close>.
\<close>

record 'e executor =
  ex_Disable :: "'e \<Rightarrow> MotorResult \<times> 'e"
  ex_StartRun :: "MotorDirection \<Rightarrow> u32 \<Rightarrow> u32 \<Rightarrow> u32 \<Rightarrow> u32 \<Rightarrow> 'e \<Rightarrow> MotorResult \<times> 'e"
  ex_StartPulse :: "MotorDirection \<Rightarrow> u32 \<Rightarrow> u32 \<Rightarrow> u32 \<Rightarrow> u32 \<Rightarrow> 'e \<Rightarrow> MotorResult \<times> 'e"
  ex_Service :: "u32 \<Rightarrow> 'e \<Rightarrow> MotorResult \<times> 'e"
  ex_GuardOutput :: "'e \<Rightarrow> MotorResult \<times> 'e"
  ex_IsHealthy :: "'e \<Rightarrow> bool \<times> 'e"
  ex_ActiveRequestIsValid :: "'e \<Rightarrow> bool \<times> 'e"
  ex_OutputIsDisabled :: "'e \<Rightarrow> bool \<times> 'e"
  ex_GetSnapshot :: "'e \<Rightarrow> bool \<times> 'e"
  ex_motor :: "'e \<Rightarrow> MotorExecutorSnapshot"
  ex_PlanCommand :: "MotorDirection \<Rightarrow> u32 \<Rightarrow> MotorResult \<times> u16 \<times> u16"

section \<open>What the application relies on\<close>

text \<open>
  \<open>inv\<close> is the backend's own invariant and \<open>off\<close> its statement that the motor
  output is off with no request running. A query changes neither. A request is
  accepted only with a plannable command and a backstop beyond its duration, and
  then runs under a new sequence number. Nothing but a start leaves \<open>off\<close>.
\<close>

locale motor_executor =
  fixes ops :: "'e executor"
    and inv :: "'e \<Rightarrow> bool"
    and off :: "'e \<Rightarrow> bool"
  assumes disable_inv: "inv e \<Longrightarrow> inv (snd (ex_Disable ops e))"
    and disable_off: "inv e \<Longrightarrow> fst (ex_Disable ops e) = MOTOR_RESULT_OK \<Longrightarrow>
      off (snd (ex_Disable ops e))"
    and run_inv: "inv e \<Longrightarrow> inv (snd (ex_StartRun ops d mv dur bstop now e))"
    and run_accepts: "inv e \<Longrightarrow> fst (ex_StartRun ops d mv dur bstop now e) = MOTOR_RESULT_OK \<Longrightarrow>
      0 < mv \<and> unat mv \<le> 24000 \<and> 0 < dur \<and> dur < bstop
      \<and> mx_logical_active (ex_motor ops (snd (ex_StartRun ops d mv dur bstop now e)))
      \<and> mx_command_mv (ex_motor ops (snd (ex_StartRun ops d mv dur bstop now e))) = mv
      \<and> mx_direction (ex_motor ops (snd (ex_StartRun ops d mv dur bstop now e))) = d"
    and pulse_inv: "inv e \<Longrightarrow> inv (snd (ex_StartPulse ops d mv dur bstop now e))"
    and pulse_accepts: "inv e \<Longrightarrow> fst (ex_StartPulse ops d mv dur bstop now e) = MOTOR_RESULT_OK \<Longrightarrow>
      0 < mv \<and> unat mv \<le> 24000 \<and> 0 < dur \<and> dur < bstop
      \<and> mx_logical_active (ex_motor ops (snd (ex_StartPulse ops d mv dur bstop now e)))
      \<and> mx_command_mv (ex_motor ops (snd (ex_StartPulse ops d mv dur bstop now e))) = mv
      \<and> mx_direction (ex_motor ops (snd (ex_StartPulse ops d mv dur bstop now e))) = d"
    and service_inv: "inv e \<Longrightarrow> inv (snd (ex_Service ops now e))"
    and service_off: "inv e \<Longrightarrow> off e \<Longrightarrow> fst (ex_Service ops now e) = MOTOR_RESULT_OK \<Longrightarrow>
      off (snd (ex_Service ops now e))"
    and guard_inv: "inv e \<Longrightarrow> inv (snd (ex_GuardOutput ops e))"
    and guard_off: "inv e \<Longrightarrow> off e \<Longrightarrow> fst (ex_GuardOutput ops e) = MOTOR_RESULT_OK \<Longrightarrow>
      off (snd (ex_GuardOutput ops e))"
    and query_inv: "inv e \<Longrightarrow> inv (snd (ex_IsHealthy ops e)) \<and> inv (snd (ex_ActiveRequestIsValid ops e))
      \<and> inv (snd (ex_OutputIsDisabled ops e)) \<and> inv (snd (ex_GetSnapshot ops e))"
    and query_off: "inv e \<Longrightarrow> off e \<Longrightarrow>
      off (snd (ex_IsHealthy ops e)) \<and> off (snd (ex_ActiveRequestIsValid ops e))
      \<and> off (snd (ex_OutputIsDisabled ops e)) \<and> off (snd (ex_GetSnapshot ops e))"
    and idle_off: "inv e \<Longrightarrow> \<not> mx_logical_active (ex_motor ops e) \<Longrightarrow>
      fst (ex_OutputIsDisabled ops e) \<Longrightarrow> off (snd (ex_OutputIsDisabled ops e))"
    and off_idle: "inv e \<Longrightarrow> off e \<Longrightarrow> \<not> mx_logical_active (ex_motor ops e)"

section \<open>Runs of calls\<close>

datatype exec_request =
    Call_Disable
  | Call_StartRun MotorDirection u32 u32 u32 u32
  | Call_StartPulse MotorDirection u32 u32 u32 u32
  | Call_Service u32
  | Call_GuardOutput

fun executor_call :: "'e executor \<Rightarrow> exec_request \<Rightarrow> 'e \<Rightarrow> 'e" where
  "executor_call ops Call_Disable e = snd (ex_Disable ops e)"
| "executor_call ops (Call_StartRun d mv dur hard t) e = snd (ex_StartRun ops d mv dur hard t e)"
| "executor_call ops (Call_StartPulse d mv dur hard t) e
    = snd (ex_StartPulse ops d mv dur hard t e)"
| "executor_call ops (Call_Service t) e = snd (ex_Service ops t e)"
| "executor_call ops Call_GuardOutput e = snd (ex_GuardOutput ops e)"

definition executor_run :: "'e executor \<Rightarrow> exec_request list \<Rightarrow> 'e \<Rightarrow> 'e" where
  "executor_run ops calls e = foldl (\<lambda>e c. executor_call ops c e) e calls"

context motor_executor
begin

lemma call_inv: "inv e \<Longrightarrow> inv (executor_call ops c e)"
  by (cases c) (simp_all add: disable_inv run_inv pulse_inv service_inv guard_inv)

lemma run_calls_inv: "inv e \<Longrightarrow> inv (executor_run ops calls e)"
  unfolding executor_run_def by (induction calls arbitrary: e) (simp_all add: call_inv)

end

end
