(* ===== verification/MotorLocked.thy ===== *)
theory MotorLocked
  imports MotorExecutor
begin

text \<open>
  The default backend, \<^verbatim>\<open>Board/Motor/motor_executor_locked.c\<close>: requests are planned,
  timed and reported, and the driver is shut down at every call. The state is
  \<open>s_motor\<close> with the output registers.
\<close>

section \<open>State and operations\<close>

record locked_executor =
  lk_motor :: MotorExecutorSnapshot
  lk_hw :: motor_hw

definition lk_force_disable :: "locked_executor \<Rightarrow> locked_executor" where
  "lk_force_disable e = e\<lparr>lk_hw := MotorHw_ForceDisableImmediate (lk_hw e)\<rparr>"

definition MotorExecutor_DirectionIsValid :: "MotorDirection \<Rightarrow> bool" where
  "MotorExecutor_DirectionIsValid direction \<longleftrightarrow>
    direction = MOTOR_DIRECTION_PRESS \<or> direction = MOTOR_DIRECTION_RELEASE"

definition MotorExecutor_TimeReached :: "u32 \<Rightarrow> u32 \<Rightarrow> bool" where
  "MotorExecutor_TimeReached now_ms deadline_ms \<longleftrightarrow> time_reached now_ms deadline_ms"

text \<open>The products are 64-bit in the code; the plan is written back through non-NULL pointers.\<close>

definition MotorExecutor_PlanCommand :: "MotorDirection \<Rightarrow> u32 \<Rightarrow> MotorResult \<times> u16 \<times> u16" where
  "MotorExecutor_PlanCommand direction command_mv =
    (if \<not> MotorExecutor_DirectionIsValid direction \<or> command_mv = 0
        \<or> command_mv > of_nat MOTOR_PLAN_SUPPLY_REFERENCE_MV
     then (MOTOR_RESULT_INVALID, 0, 0)
     else
       (let duty = ucast
              ((ucast command_mv * of_nat MOTOR_PLAN_PWM_PERIOD_COUNTS
                + (of_nat MOTOR_PLAN_SUPPLY_REFERENCE_MV - 1 :: u64))
               div of_nat MOTOR_PLAN_SUPPLY_REFERENCE_MV) :: u32;
            duty = (if duty > of_nat MOTOR_PLAN_PWM_PERIOD_COUNTS
                    then of_nat MOTOR_PLAN_PWM_PERIOD_COUNTS else duty)
        in if direction = MOTOR_DIRECTION_PRESS
           then (MOTOR_RESULT_OK, 0, ucast duty)
           else (MOTOR_RESULT_OK, ucast duty, 0)))"

definition Locked_Start ::
  "MotorDirection \<Rightarrow> u32 \<Rightarrow> u32 \<Rightarrow> u32 \<Rightarrow> u32 \<Rightarrow> bool \<Rightarrow> locked_executor
    \<Rightarrow> MotorResult \<times> locked_executor" where
  "Locked_Start direction command_mv duration_ms backstop_ms now_ms pulse e =
    (let e = lk_force_disable e; s = lk_motor e
     in if mx_logical_active s then (MOTOR_RESULT_BUSY, e)
        else if duration_ms = 0 \<or> backstop_ms \<le> duration_ms then (MOTOR_RESULT_INVALID, e)
        else
          (case MotorExecutor_PlanCommand direction command_mv of
             (result, tim2_plan, tim3_plan) \<Rightarrow>
               if result \<noteq> MOTOR_RESULT_OK then (result, e)
               else
                 (MOTOR_RESULT_OK,
                  e\<lparr>lk_motor := s\<lparr>
                      mx_request_sequence := mx_request_sequence s + 1,
                      mx_direction := direction,
                      mx_last_action :=
                        (if direction = MOTOR_DIRECTION_PRESS
                         then (if pulse then MOTOR_ACTION_PRESS_PULSE else MOTOR_ACTION_PRESS_RUN)
                         else (if pulse then MOTOR_ACTION_RELEASE_PULSE
                               else MOTOR_ACTION_RELEASE_RUN)),
                      mx_last_completion := MOTOR_COMPLETION_NONE,
                      mx_command_mv := command_mv,
                      mx_requested_duration_ms := duration_ms,
                      mx_logical_deadline_ms := now_ms + duration_ms,
                      mx_logical_backstop_ms := now_ms + backstop_ms,
                      mx_planned_tim2_ccr3 := tim2_plan,
                      mx_planned_tim3_ccr3 := tim3_plan,
                      mx_logical_active := True,
                      mx_physical_output_locked := True,
                      mx_physical_output_disabled := True\<rparr>\<rparr>)))"

definition Locked_Initialize :: "locked_executor \<Rightarrow> MotorResult \<times> locked_executor" where
  "Locked_Initialize e =
    (let e = e\<lparr>lk_motor := zero_motor_snapshot\<lparr>
           mx_last_action := MOTOR_ACTION_DISABLED,
           mx_physical_output_locked := True,
           mx_physical_output_disabled := True,
           mx_last_failure_result := MOTOR_RESULT_OK,
           mx_last_failure_stage := MOTOR_FAILURE_STAGE_NONE\<rparr>\<rparr>
     in (MOTOR_RESULT_OK, lk_force_disable e))"

definition Locked_Disable :: "locked_executor \<Rightarrow> MotorResult \<times> locked_executor" where
  "Locked_Disable e =
    (let e = lk_force_disable e
     in (MOTOR_RESULT_OK,
         e\<lparr>lk_motor := (lk_motor e)\<lparr>
             mx_last_action := MOTOR_ACTION_DISABLED,
             mx_command_mv := 0,
             mx_requested_duration_ms := 0,
             mx_logical_deadline_ms := 0,
             mx_logical_backstop_ms := 0,
             mx_planned_tim2_ccr3 := 0,
             mx_planned_tim3_ccr3 := 0,
             mx_logical_active := False,
             mx_physical_output_locked := True,
             mx_physical_output_disabled := True\<rparr>\<rparr>))"

definition Locked_StartRun ::
  "MotorDirection \<Rightarrow> u32 \<Rightarrow> u32 \<Rightarrow> u32 \<Rightarrow> u32 \<Rightarrow> locked_executor
    \<Rightarrow> MotorResult \<times> locked_executor" where
  "Locked_StartRun direction command_mv stop_after_ms hard_stop_after_ms now_ms e =
    Locked_Start direction command_mv stop_after_ms hard_stop_after_ms now_ms False e"

definition Locked_StartPulse ::
  "MotorDirection \<Rightarrow> u32 \<Rightarrow> u32 \<Rightarrow> u32 \<Rightarrow> u32 \<Rightarrow> locked_executor
    \<Rightarrow> MotorResult \<times> locked_executor" where
  "Locked_StartPulse direction command_mv duration_ms backstop_ms now_ms e =
    Locked_Start direction command_mv duration_ms backstop_ms now_ms True e"

definition Locked_Service :: "u32 \<Rightarrow> locked_executor \<Rightarrow> MotorResult \<times> locked_executor" where
  "Locked_Service now_ms e =
    (let e = lk_force_disable e; s = lk_motor e
     in if \<not> mx_logical_active s then (MOTOR_RESULT_OK, e)
        else
          (let s = (if MotorExecutor_TimeReached now_ms (mx_logical_backstop_ms s)
                    then s\<lparr>mx_last_completion := MOTOR_COMPLETION_BACKSTOP,
                           mx_logical_active := False\<rparr>
                    else if MotorExecutor_TimeReached now_ms (mx_logical_deadline_ms s)
                    then s\<lparr>mx_last_completion := MOTOR_COMPLETION_NORMAL,
                           mx_logical_active := False\<rparr>
                    else s);
               s = (if \<not> mx_logical_active s
                    then s\<lparr>mx_planned_tim2_ccr3 := 0, mx_planned_tim3_ccr3 := 0,
                           mx_physical_output_disabled := True\<rparr>
                    else s)
           in (MOTOR_RESULT_OK, e\<lparr>lk_motor := s\<rparr>)))"

definition Locked_GuardOutput :: "locked_executor \<Rightarrow> MotorResult \<times> locked_executor" where
  "Locked_GuardOutput e =
    (let e = lk_force_disable e
     in (MOTOR_RESULT_OK,
         e\<lparr>lk_motor := (lk_motor e)\<lparr>mx_physical_output_locked := True,
                                    mx_physical_output_disabled := True\<rparr>\<rparr>))"

definition Locked_ActiveRequestIsValid :: "locked_executor \<Rightarrow> bool" where
  "Locked_ActiveRequestIsValid e \<longleftrightarrow>
    mx_logical_active (lk_motor e) \<and> mx_physical_output_locked (lk_motor e)
    \<and> mx_physical_output_disabled (lk_motor e)"

definition Locked_OutputIsDisabled :: "locked_executor \<Rightarrow> bool" where
  "Locked_OutputIsDisabled e \<longleftrightarrow> mx_physical_output_disabled (lk_motor e)"

definition Locked_IsHealthy :: "locked_executor \<Rightarrow> bool" where
  "Locked_IsHealthy e \<longleftrightarrow>
    mx_physical_output_locked (lk_motor e) \<and> mx_physical_output_disabled (lk_motor e)"

definition Locked_GetStatus :: "locked_executor \<Rightarrow> MotorExecutorSnapshot" where
  "Locked_GetStatus e = lk_motor e"

definition Locked_GetSnapshot :: "locked_executor \<Rightarrow> MotorExecutorSnapshot" where
  "Locked_GetSnapshot e = lk_motor e"

text \<open>The backend as linked into the default build.\<close>

definition locked_ops :: "locked_executor executor" where
  "locked_ops =
    \<lparr>ex_Disable = Locked_Disable, ex_StartRun = Locked_StartRun,
     ex_StartPulse = Locked_StartPulse, ex_Service = Locked_Service,
     ex_GuardOutput = Locked_GuardOutput,
     ex_IsHealthy = (\<lambda>e. (Locked_IsHealthy e, e)),
     ex_ActiveRequestIsValid = (\<lambda>e. (Locked_ActiveRequestIsValid e, e)),
     ex_OutputIsDisabled = (\<lambda>e. (Locked_OutputIsDisabled e, e)),
     ex_GetSnapshot = (\<lambda>e. (True, e)), ex_motor = Locked_GetSnapshot,
     ex_PlanCommand = MotorExecutor_PlanCommand\<rparr>"

section \<open>The invariant\<close>

text \<open>
  After initialisation: the registers are shut down, the flags say so, and a
  running request has a valid plan that ends before its backstop.
\<close>

definition locked_ok :: "locked_executor \<Rightarrow> bool" where
  "locked_ok e \<longleftrightarrow> hw_disabled (lk_hw e)
    \<and> mx_physical_output_locked (lk_motor e) \<and> mx_physical_output_disabled (lk_motor e)"

definition locked_off :: "locked_executor \<Rightarrow> bool" where
  "locked_off e \<longleftrightarrow> hw_disabled (lk_hw e) \<and> \<not> mx_logical_active (lk_motor e)
    \<and> mx_physical_output_disabled (lk_motor e)"

lemmas locked_defs = Locked_Disable_def Locked_StartRun_def Locked_StartPulse_def Locked_Start_def
  Locked_Service_def Locked_GuardOutput_def Locked_IsHealthy_def Locked_ActiveRequestIsValid_def
  Locked_OutputIsDisabled_def Locked_GetSnapshot_def lk_force_disable_def Let_def

lemma plan_command_ok:
  assumes "MotorExecutor_PlanCommand d mv = (MOTOR_RESULT_OK, t2, t3)"
  shows "0 < mv \<and> unat mv \<le> 24000"
proof -
  have "mv \<noteq> 0" "\<not> 24000 < mv"
    using assms by (auto simp: MotorExecutor_PlanCommand_def split: if_splits)
  then show ?thesis by (auto simp: word_less_nat_alt unat_gt_0)
qed

lemma start_inv: "locked_ok (snd (Locked_Start d mv dur bstop now pulse e)) \<longleftrightarrow>
    (mx_physical_output_locked (lk_motor e) \<and> mx_physical_output_disabled (lk_motor e)
     \<or> fst (Locked_Start d mv dur bstop now pulse e) = MOTOR_RESULT_OK)"
  by (auto simp: locked_ok_def Locked_Start_def lk_force_disable_def Let_def split: prod.splits)

lemma start_accepts:
  assumes "fst (Locked_Start d mv dur bstop now pulse e) = MOTOR_RESULT_OK"
  shows "0 < mv \<and> unat mv \<le> 24000 \<and> 0 < dur \<and> dur < bstop
    \<and> mx_logical_active (lk_motor (snd (Locked_Start d mv dur bstop now pulse e)))
    \<and> mx_command_mv (lk_motor (snd (Locked_Start d mv dur bstop now pulse e))) = mv
    \<and> mx_direction (lk_motor (snd (Locked_Start d mv dur bstop now pulse e))) = d"
  using assms
  by (auto simp: Locked_Start_def Let_def word_gt_0 not_le dest: plan_command_ok
      split: if_splits prod.splits)

interpretation locked: motor_executor locked_ops locked_ok locked_off
proof
  fix e :: locked_executor and d mv dur bstop t
  assume ok: "locked_ok e"
  show "locked_ok (snd (ex_StartRun locked_ops d mv dur bstop t e))"
    using ok by (simp add: locked_ops_def Locked_StartRun_def start_inv) (simp add: locked_ok_def)
  show "locked_ok (snd (ex_StartPulse locked_ops d mv dur bstop t e))"
    using ok by (simp add: locked_ops_def Locked_StartPulse_def start_inv) (simp add: locked_ok_def)
next
  fix e :: locked_executor and d mv dur bstop t
  assume "fst (ex_StartRun locked_ops d mv dur bstop t e) = MOTOR_RESULT_OK"
  then show "0 < mv \<and> unat mv \<le> 24000 \<and> 0 < dur \<and> dur < bstop
      \<and> mx_logical_active (ex_motor locked_ops (snd (ex_StartRun locked_ops d mv dur bstop t e)))
      \<and> mx_command_mv (ex_motor locked_ops (snd (ex_StartRun locked_ops d mv dur bstop t e))) = mv
      \<and> mx_direction (ex_motor locked_ops (snd (ex_StartRun locked_ops d mv dur bstop t e))) = d"
    using start_accepts [of d mv dur bstop t False e]
    by (simp add: locked_ops_def Locked_StartRun_def Locked_GetSnapshot_def)
next
  fix e :: locked_executor and d mv dur bstop t
  assume "fst (ex_StartPulse locked_ops d mv dur bstop t e) = MOTOR_RESULT_OK"
  then show "0 < mv \<and> unat mv \<le> 24000 \<and> 0 < dur \<and> dur < bstop
      \<and> mx_logical_active (ex_motor locked_ops (snd (ex_StartPulse locked_ops d mv dur bstop t e)))
      \<and> mx_command_mv (ex_motor locked_ops (snd (ex_StartPulse locked_ops d mv dur bstop t e))) = mv
      \<and> mx_direction (ex_motor locked_ops (snd (ex_StartPulse locked_ops d mv dur bstop t e))) = d"
    using start_accepts [of d mv dur bstop t True e]
    by (simp add: locked_ops_def Locked_StartPulse_def Locked_GetSnapshot_def)
qed (auto simp: locked_ops_def locked_ok_def locked_off_def locked_defs)

lemma locked_ok_initialize: "locked_ok (snd (Locked_Initialize e))"
  by (simp add: Locked_Initialize_def locked_ok_def lk_force_disable_def Let_def)

section \<open>The planner\<close>

definition plan_duty :: "nat \<Rightarrow> nat" where
  "plan_duty mv = (mv * 4799 + 23999) div 24000"

lemma plan_duty_bounds: "0 < mv \<Longrightarrow> mv \<le> 24000 \<Longrightarrow> 0 < plan_duty mv \<and> plan_duty mv \<le> 4799"
  unfolding plan_duty_def by (auto intro: div_le_mono [of _ "24000 * 4799 + 23999" 24000, simplified]
      simp: div_greater_zero_iff)

lemma plan_command_duty:
  assumes "0 < unat mv" "unat mv \<le> 24000"
  shows "MotorExecutor_PlanCommand d mv =
    (if d = MOTOR_DIRECTION_PRESS then (MOTOR_RESULT_OK, 0, of_nat (plan_duty (unat mv)))
     else (MOTOR_RESULT_OK, of_nat (plan_duty (unat mv)), 0))"
proof -
  let ?n = "unat mv"
  have u64: "unat ((ucast mv * 4799 + 23999 :: u64)) = ?n * 4799 + 23999"
  proof -
    have "(ucast mv * 4799 + 23999 :: u64) = of_nat (?n * 4799 + 23999)" by simp
    moreover have "?n * 4799 + 23999 < 18446744073709551616" using assms by simp
    ultimately show ?thesis by (simp only: unat_of_nat_u64)
  qed
  have duty: "(ucast ((ucast mv * 4799 + 23999 :: u64) div 24000) :: u32) = of_nat (plan_duty ?n)"
    unfolding ucast_unat [of "_ div _"] unat_div u64 plan_duty_def by simp
  have le: "plan_duty ?n \<le> 4799" using plan_duty_bounds assms by simp
  then have u: "unat (of_nat (plan_duty ?n) :: u32) = plan_duty ?n"
    by (simp add: unat_of_nat take_bit_nat_eq_self_iff)
  have "\<not> (of_nat (plan_duty ?n) :: u32) > 4799"
    using le by (simp add: word_less_nat_alt u)
  moreover have "(ucast (of_nat (plan_duty ?n) :: u32) :: u16) = of_nat (plan_duty ?n)"
    by (simp only: ucast_unat u)
  moreover have "mv \<noteq> 0" "\<not> mv > 24000" using assms by (auto simp: word_less_nat_alt)
  ultimately show ?thesis
    by (cases d) (simp_all add: MotorExecutor_PlanCommand_def MotorExecutor_DirectionIsValid_def duty)
qed

section \<open>Properties\<close>

text \<open>In the default build the motor output is never enabled: from any register
  contents, after initialisation and any sequence of executor calls with any
  arguments, the driver is shut down and the reported flags say so.\<close>

theorem locked_never_drives:
  "hw_disabled (lk_hw (executor_run locked_ops calls (snd (Locked_Initialize e))))
   \<and> fst (ex_OutputIsDisabled locked_ops (executor_run locked_ops calls (snd (Locked_Initialize e))))
   \<and> fst (ex_IsHealthy locked_ops (executor_run locked_ops calls (snd (Locked_Initialize e))))"
  using locked.run_calls_inv [OF locked_ok_initialize, of calls e]
  by (simp add: locked_ok_def locked_ops_def Locked_OutputIsDisabled_def Locked_IsHealthy_def)

text \<open>The planner accepts exactly the commands from 1 mV to the supply reference,
  and plans the least duty that reaches the command (the ceiling of
  \<open>mv * 4799 / 24000\<close>), at least 1 and at most the period, on exactly one of the two
  legs: TIM3 to press, TIM2 to release.\<close>

theorem plan_command_exclusive_duty:
  "(case MotorExecutor_PlanCommand d mv of (result, t2, t3) \<Rightarrow>
      if 1 \<le> unat mv \<and> unat mv \<le> 24000
      then result = MOTOR_RESULT_OK \<and>
           (let duty = unat (if d = MOTOR_DIRECTION_PRESS then t3 else t2);
                other = (if d = MOTOR_DIRECTION_PRESS then t2 else t3)
            in other = 0 \<and> 1 \<le> duty \<and> duty \<le> 4799
               \<and> unat mv * 4799 \<le> duty * 24000 \<and> (duty - 1) * 24000 < unat mv * 4799)
      else result = MOTOR_RESULT_INVALID)"
proof (cases "1 \<le> unat mv \<and> unat mv \<le> 24000")
  case True
  then have b: "0 < plan_duty (unat mv)" "plan_duty (unat mv) \<le> 4799"
    using plan_duty_bounds [of "unat mv"] by auto
  then have u: "unat (of_nat (plan_duty (unat mv)) :: u16) = plan_duty (unat mv)"
    by (simp add: unat_of_nat take_bit_nat_eq_self_iff)
  have "unat mv * 4799 \<le> plan_duty (unat mv) * 24000"
      "(plan_duty (unat mv) - 1) * 24000 < unat mv * 4799"
    unfolding plan_duty_def using True by linarith+
  then show ?thesis
    using True b by (simp add: plan_command_duty u Let_def)
next
  case False
  then have "mv = 0 \<or> mv > 24000"
    by (auto simp: word_less_nat_alt not_le unat_eq_0 dest: Suc_lessI)
  then show ?thesis
    using False by (auto simp: MotorExecutor_PlanCommand_def)
qed

text \<open>An accepted request ends in time, wherever the millisecond counter wraps:
  serviced \<open>k\<close> ms after its start it is still active while \<open>k\<close> is short of the duration,
  completes normally from the duration on, and is classified as a backstop from the
  backstop on, and the counters' wrap changes none of it.\<close>

theorem locked_request_timing:
  assumes "\<not> mx_logical_active (lk_motor e)"
    and "1 \<le> unat mv" "unat mv \<le> 24000" "0 < dur" "dur < hard" "hard < 2 ^ 31" "k < 2 ^ 31"
  shows "(case ex_StartPulse locked_ops d mv (of_nat dur) (of_nat hard) t e of (result, e1) \<Rightarrow>
     result = MOTOR_RESULT_OK \<and>
     (case ex_Service locked_ops (t + of_nat k) e1 of (result', e2) \<Rightarrow>
        result' = MOTOR_RESULT_OK
        \<and> (mx_logical_active (ex_motor locked_ops e2) \<longleftrightarrow> k < dur)
        \<and> mx_last_completion (ex_motor locked_ops e2)
            = (if k < dur then MOTOR_COMPLETION_NONE
               else if k < hard then MOTOR_COMPLETION_NORMAL else MOTOR_COMPLETION_BACKSTOP)))"
proof -
  have un: "unat (of_nat dur :: u32) = dur" "unat (of_nat hard :: u32) = hard"
    using assms by (simp_all add: unat_of_nat take_bit_nat_eq_self_iff)
  have d0: "(of_nat dur :: u32) \<noteq> 0" using un(1) assms(4) by (metis less_irrefl unat_0)
  have h: "\<not> (of_nat hard :: u32) \<le> of_nat dur" using un assms(5) by (simp add: word_le_nat_alt)
  have r: "time_reached (t + of_nat k) (t + of_nat hard) \<longleftrightarrow> hard \<le> k"
      "time_reached (t + of_nat k) (t + of_nat dur) \<longleftrightarrow> dur \<le> k"
    using assms by (simp_all add: time_reached_offset)
  show ?thesis
    using assms(1-3,5) d0 h
    by (auto simp: locked_ops_def locked_defs plan_command_duty MotorExecutor_TimeReached_def r
        split: if_splits)
qed

theorem locked_request_timing_witness:
  "(case ex_StartPulse locked_ops MOTOR_DIRECTION_PRESS 2000 (of_nat 20) (of_nat 50) 0xFFFFFFF0
          (snd (Locked_Initialize undefined)) of (result, e1) \<Rightarrow>
     result = MOTOR_RESULT_OK \<and>
     (case ex_Service locked_ops (0xFFFFFFF0 + of_nat 30) e1 of (result', e2) \<Rightarrow>
        result' = MOTOR_RESULT_OK
        \<and> (mx_logical_active (ex_motor locked_ops e2) \<longleftrightarrow> (30 :: nat) < 20)
        \<and> mx_last_completion (ex_motor locked_ops e2)
            = (if (30 :: nat) < 20 then MOTOR_COMPLETION_NONE
               else if (30 :: nat) < 50 then MOTOR_COMPLETION_NORMAL
               else MOTOR_COMPLETION_BACKSTOP)))"
  by (rule locked_request_timing)
     (simp_all add: Locked_Initialize_def lk_force_disable_def zero_motor_snapshot_def Let_def)

end
