(* ===== verification/Binary32.thy ===== *)
theory Binary32
  imports Prelude Complex_Main "HOL-Library.Log_Nat"
begin

text \<open>
  IEEE 754 single precision as the firmware uses it (C \<open>float\<close>): finite values as
  rationals, the infinities and one NaN, with every operation rounding once to
  nearest, ties to even, subnormals and overflow included. The sign of zero is
  not kept: no code modelled here can observe it.
\<close>

section \<open>Values and rounding\<close>

datatype f32 = F_NaN | F_PInf | F_NInf | Fin rat

definition pow2 :: "int \<Rightarrow> rat" where
  "pow2 e = (if 0 \<le> e then 2 ^ nat e else 1 / 2 ^ nat (- e))"

text \<open>The exponent \<open>e\<close> with \<open>2 ^ e \<le> a < 2 ^ (e + 1)\<close> of a positive rational.\<close>

definition exponent :: "rat \<Rightarrow> int" where
  "exponent a =
    (if 1 \<le> a then int (floorlog 2 (nat \<lfloor>a\<rfloor>)) - 1
     else - int (floorlog 2 (nat (\<lceil>1 / a\<rceil> - 1))))"

text \<open>Round to the nearest integer, ties to even.\<close>

definition round_half_even :: "rat \<Rightarrow> int" where
  "round_half_even x =
    (let n = \<lfloor>x\<rfloor>; r = x - of_int n
     in if r < 1 / 2 then n else if 1 / 2 < r then n + 1 else if even n then n else n + 1)"

definition ulp :: "rat \<Rightarrow> rat" where
  "ulp a = pow2 (max (exponent a - 23) (- 149))"

definition round_magnitude :: "rat \<Rightarrow> rat" where
  "round_magnitude a = of_int (round_half_even (a / ulp a)) * ulp a"

definition rnd :: "rat \<Rightarrow> f32" where
  "rnd q =
    (if q = 0 then Fin 0
     else
       (let m = round_magnitude \<bar>q\<bar>
        in if 2 ^ 128 \<le> m then (if 0 < q then F_PInf else F_NInf)
           else Fin (if 0 < q then m else - m)))"

section \<open>Operations\<close>

definition f32_isfinite :: "f32 \<Rightarrow> bool" where
  "f32_isfinite x \<longleftrightarrow> (case x of Fin _ \<Rightarrow> True | _ \<Rightarrow> False)"

fun f32_neg :: "f32 \<Rightarrow> f32" where
  "f32_neg F_NaN = F_NaN"
| "f32_neg F_PInf = F_NInf"
| "f32_neg F_NInf = F_PInf"
| "f32_neg (Fin a) = Fin (- a)"

fun f32_abs :: "f32 \<Rightarrow> f32" where
  "f32_abs F_NaN = F_NaN"
| "f32_abs F_PInf = F_PInf"
| "f32_abs F_NInf = F_PInf"
| "f32_abs (Fin a) = Fin \<bar>a\<bar>"

fun f32_add :: "f32 \<Rightarrow> f32 \<Rightarrow> f32" where
  "f32_add (Fin a) (Fin b) = rnd (a + b)"
| "f32_add F_NaN y = F_NaN"
| "f32_add x F_NaN = F_NaN"
| "f32_add F_PInf F_NInf = F_NaN"
| "f32_add F_NInf F_PInf = F_NaN"
| "f32_add F_PInf y = F_PInf"
| "f32_add F_NInf y = F_NInf"
| "f32_add x F_PInf = F_PInf"
| "f32_add x F_NInf = F_NInf"

definition f32_sub :: "f32 \<Rightarrow> f32 \<Rightarrow> f32" where
  "f32_sub x y = f32_add x (f32_neg y)"

text \<open>The product of an infinity with a value of sign \<open>s\<close>.\<close>

definition f32_inf_times :: "rat \<Rightarrow> f32" where
  "f32_inf_times s = (if s = 0 then F_NaN else if 0 < s then F_PInf else F_NInf)"

fun f32_sign :: "f32 \<Rightarrow> rat" where
  "f32_sign F_NaN = 0"
| "f32_sign F_PInf = 1"
| "f32_sign F_NInf = - 1"
| "f32_sign (Fin a) = sgn a"

fun f32_mul :: "f32 \<Rightarrow> f32 \<Rightarrow> f32" where
  "f32_mul (Fin a) (Fin b) = rnd (a * b)"
| "f32_mul F_NaN y = F_NaN"
| "f32_mul x F_NaN = F_NaN"
| "f32_mul x y = f32_inf_times (f32_sign x * f32_sign y)"

text \<open>Division by a non-zero finite constant, the only use in the code modelled here.\<close>

fun f32_div_const :: "f32 \<Rightarrow> rat \<Rightarrow> f32" where
  "f32_div_const (Fin a) c = rnd (a / c)"
| "f32_div_const F_NaN c = F_NaN"
| "f32_div_const x c = f32_inf_times (f32_sign x * sgn c)"

fun f32_lt :: "f32 \<Rightarrow> f32 \<Rightarrow> bool" where
  "f32_lt (Fin a) (Fin b) = (a < b)"
| "f32_lt F_NaN y = False"
| "f32_lt x F_NaN = False"
| "f32_lt F_NInf y = (y \<noteq> F_NInf)"
| "f32_lt x F_PInf = (x \<noteq> F_PInf)"
| "f32_lt F_PInf y = False"
| "f32_lt x F_NInf = False"

definition f32_eq :: "f32 \<Rightarrow> f32 \<Rightarrow> bool" where
  "f32_eq x y \<longleftrightarrow> x \<noteq> F_NaN \<and> x = y"

definition f32_le :: "f32 \<Rightarrow> f32 \<Rightarrow> bool" where
  "f32_le x y \<longleftrightarrow> f32_lt x y \<or> f32_eq x y"

definition f32_of_int :: "int \<Rightarrow> f32" where
  "f32_of_int n = rnd (of_int n)"

definition f32_of_u32 :: "u32 \<Rightarrow> f32" where
  "f32_of_u32 w = f32_of_int (uint w)"

text \<open>
  \<open>(uint32_t)x\<close> truncates; C leaves it undefined when the truncated value does not
  fit, which is the \<^const>\<open>None\<close> here.
\<close>

definition f32_to_u32 :: "f32 \<Rightarrow> u32 option" where
  "f32_to_u32 x =
    (case x of
       Fin q \<Rightarrow>
         (let n = (if 0 \<le> q then \<lfloor>q\<rfloor> else \<lceil>q\<rceil>)
          in if 0 \<le> n \<and> n < 2 ^ 32 then Some (of_int n) else None)
     | _ \<Rightarrow> None)"

section \<open>Facts about rounding\<close>

lemma f32_isfinite_Fin [simp]: "f32_isfinite (Fin a)"
  by (simp add: f32_isfinite_def)

lemma f32_isfinite_iff: "f32_isfinite x \<longleftrightarrow> (\<exists>a. x = Fin a)"
  by (cases x) (simp_all add: f32_isfinite_def)

lemma f32_le_Fin [simp]: "f32_le (Fin a) (Fin b) \<longleftrightarrow> a \<le> b"
  by (auto simp: f32_le_def f32_eq_def)

lemma f32_eq_Fin [simp]: "f32_eq (Fin a) (Fin b) \<longleftrightarrow> a = b"
  by (simp add: f32_eq_def)

lemma pow2_pos [simp]: "0 < pow2 e"
  by (simp add: pow2_def)

lemma round_half_even_error: "\<bar>of_int (round_half_even x) - x\<bar> \<le> 1 / 2"
proof -
  have "of_int \<lfloor>x\<rfloor> \<le> x" "x < of_int \<lfloor>x\<rfloor> + 1" by linarith+
  then show ?thesis
    by (auto simp: round_half_even_def Let_def abs_le_iff)
qed

lemma round_half_even_of_int [simp]: "round_half_even (of_int n) = n"
  by (simp add: round_half_even_def)

lemma ulp_pos [simp]: "0 < ulp a"
  by (simp add: ulp_def)

lemma ulp_nonzero [simp]: "ulp a \<noteq> 0"
  using ulp_pos [of a] by linarith

lemma round_magnitude_error: "\<bar>round_magnitude a - a\<bar> \<le> ulp a / 2"
proof -
  have pos: "0 < ulp a" by simp
  then have "round_magnitude a - a = (of_int (round_half_even (a / ulp a)) - a / ulp a) * ulp a"
    by (simp only: round_magnitude_def left_diff_distrib) simp
  then have "\<bar>round_magnitude a - a\<bar> = \<bar>of_int (round_half_even (a / ulp a)) - a / ulp a\<bar> * ulp a"
    using pos by (simp add: abs_mult less_imp_le)
  also have "\<dots> \<le> 1 / 2 * ulp a"
    using pos by (intro mult_right_mono round_half_even_error less_imp_le)
  finally show ?thesis by simp
qed

text \<open>The exponent brackets its argument: the rounding is the one of the standard.\<close>

lemma pow2_add1: "pow2 (e + 1) = 2 * pow2 e"
proof (cases "0 \<le> e")
  case True
  then show ?thesis by (simp add: pow2_def nat_add_distrib)
next
  case False
  show ?thesis
  proof (cases "e = - 1")
    case True
    then show ?thesis by (simp add: pow2_def)
  next
    case other: False
    with False have "nat (- e) = Suc (nat (- (e + 1)))" by simp
    with False other show ?thesis by (simp add: pow2_def)
  qed
qed

lemma exponent_bounds:
  assumes "0 < a"
  shows "pow2 (exponent a) \<le> a \<and> a < pow2 (exponent a + 1)"
proof (cases "1 \<le> a")
  case True
  let ?n = "nat \<lfloor>a\<rfloor>"
  have n: "0 < ?n" "of_nat ?n \<le> a" "a < of_nat ?n + 1"
    using True by (simp_all add: of_nat_nat le_floor_iff) linarith+
  have b: "2 ^ (floorlog 2 ?n - 1) \<le> ?n" "?n < 2 ^ floorlog 2 ?n"
    using floorlog_bounds [of ?n 2] n(1) by auto
  have pos: "0 < floorlog 2 ?n" using n(1) by (simp add: floorlog_def)
  have "(2 :: rat) ^ (floorlog 2 ?n - 1) \<le> a"
    using b(1) n(2) by (metis (mono_tags, lifting) numeral_power_le_of_nat_cancel_iff order_trans)
  moreover have "a < 2 ^ floorlog 2 ?n"
  proof -
    have "of_nat ?n + 1 \<le> (2 :: rat) ^ floorlog 2 ?n"
      using b(2) by (metis Suc_leI add.commute of_nat_Suc of_nat_le_numeral_power_cancel_iff)
    with n(3) show ?thesis by linarith
  qed
  moreover have "nat (int (floorlog 2 ?n) - 1) = floorlog 2 ?n - 1" by simp
  ultimately show ?thesis
    using True pos by (simp add: exponent_def pow2_def)
next
  case False
  let ?c = "nat (\<lceil>1 / a\<rceil> - 1)"
  have gt: "1 < 1 / a" using False assms by simp
  have c: "0 < ?c" "of_nat ?c < 1 / a" "1 / a \<le> of_nat ?c + 1"
    using gt by (simp_all add: of_nat_nat) linarith+
  have b: "2 ^ (floorlog 2 ?c - 1) \<le> ?c" "?c < 2 ^ floorlog 2 ?c"
    using floorlog_bounds [of ?c 2] c(1) by auto
  have pos: "0 < floorlog 2 ?c" using c(1) by (simp add: floorlog_def)
  have up: "(2 :: rat) ^ (floorlog 2 ?c - 1) < 1 / a"
    using b(1) c(2) by (metis (mono_tags, lifting) numeral_power_le_of_nat_cancel_iff order_le_less_trans)
  have "of_nat ?c + 1 \<le> (2 :: rat) ^ floorlog 2 ?c"
    using b(2) by (metis Suc_leI add.commute of_nat_Suc of_nat_le_numeral_power_cancel_iff)
  with c(3) have lo: "1 / a \<le> 2 ^ floorlog 2 ?c" by linarith
  have e: "exponent a = - int (floorlog 2 ?c)" using False by (simp add: exponent_def)
  have "pow2 (exponent a) = 1 / 2 ^ floorlog 2 ?c"
    using pos by (simp add: e pow2_def)
  moreover have "pow2 (exponent a + 1) = 1 / 2 ^ (floorlog 2 ?c - 1)"
  proof (cases "floorlog 2 ?c = 1")
    case True
    then show ?thesis by (simp add: e pow2_def)
  next
    case other: False
    then have "nat (- (- int (floorlog 2 ?c) + 1)) = floorlog 2 ?c - 1" by simp
    with other pos show ?thesis by (simp add: e pow2_def)
  qed
  moreover have "1 / 2 ^ floorlog 2 ?c \<le> a" using lo assms by (simp add: field_simps)
  moreover have "a < 1 / 2 ^ (floorlog 2 ?c - 1)" using up assms by (simp add: field_simps)
  ultimately show ?thesis by simp
qed

lemma exponent_less:
  assumes "0 < a" "a < 2 ^ k"
  shows "exponent a < int k"
proof (rule ccontr)
  assume "\<not> exponent a < int k"
  then have "k \<le> nat (exponent a)" "0 \<le> exponent a" by simp_all
  then have "(2 :: rat) ^ k \<le> pow2 (exponent a)"
    by (simp add: pow2_def power_increasing)
  with exponent_bounds [OF assms(1)] assms(2) show False by linarith
qed

lemma exponent_nonneg: "1 \<le> a \<Longrightarrow> 0 \<le> exponent a"
proof -
  assume "1 \<le> a"
  then have "0 < nat \<lfloor>a\<rfloor>" by (simp add: le_floor_iff)
  then have "0 < floorlog 2 (nat \<lfloor>a\<rfloor>)" by (simp add: floorlog_def)
  with \<open>1 \<le> a\<close> show ?thesis by (simp add: exponent_def)
qed

lemma pow2_mono: "e \<le> f \<Longrightarrow> pow2 e \<le> pow2 f"
proof (induction "nat (f - e)" arbitrary: f)
  case 0
  then show ?case by simp
next
  case (Suc n)
  then have "pow2 e \<le> pow2 (f - 1)" by (intro Suc.hyps(1)) auto
  moreover have "pow2 f = 2 * pow2 (f - 1)" using pow2_add1 [of "f - 1"] by simp
  ultimately show ?case using pow2_pos [of "f - 1"] by linarith
qed

text \<open>Integers of at most 24 bits are exact.\<close>

lemma rnd_of_int:
  assumes "\<bar>n\<bar> < 2 ^ 24"
  shows "rnd (of_int n) = Fin (of_int n)"
proof (cases "n = 0")
  case True
  then show ?thesis by (simp add: rnd_def)
next
  case False
  define a where "a = \<bar>of_int n :: rat\<bar>"
  have a: "a = of_int \<bar>n\<bar>" by (simp add: a_def)
  have "1 \<le> \<bar>n\<bar>" using False by simp
  then have a1: "1 \<le> a" unfolding a by (simp only: of_int_1_le_iff)
  have lt: "a < 2 ^ 24" unfolding a using assms
    by (metis of_int_less_iff of_int_numeral of_int_power)
  have e: "exponent a < 24" using exponent_less [of a 24] lt a1 by simp
  define k where "k = nat (- max (exponent a - 23) (- 149))"
  have u: "ulp a = 1 / 2 ^ k"
    using e exponent_nonneg [OF a1] by (auto simp: ulp_def pow2_def k_def max_def)
  have "a / ulp a = of_int (\<bar>n\<bar> * 2 ^ k)" unfolding u by (simp add: a)
  then have "round_magnitude a = of_int (\<bar>n\<bar> * 2 ^ k) * ulp a"
    by (simp only: round_magnitude_def round_half_even_of_int)
  then have m: "round_magnitude a = a" unfolding u by (simp add: a)
  moreover have "a < 2 ^ 128" using lt by (rule less_le_trans) simp
  ultimately show ?thesis
    using False unfolding rnd_def a_def [symmetric] by (auto simp: Let_def a_def)
qed

lemma f32_of_int_exact: "\<bar>n\<bar> < 2 ^ 24 \<Longrightarrow> f32_of_int n = Fin (of_int n)"
  by (simp add: f32_of_int_def rnd_of_int)

text \<open>Half an ulp, below \<open>2 ^ 15\<close>.\<close>

lemma rnd_close:
  assumes "0 < q" "q < 2 ^ 15"
  shows "\<exists>r. rnd q = Fin r \<and> \<bar>r - q\<bar> \<le> 1 / 1024"
proof -
  have "exponent q - 23 \<le> - 9" using exponent_less [OF assms] by simp
  then have "ulp q \<le> pow2 (- 9)" unfolding ulp_def by (intro pow2_mono) simp
  then have u: "ulp q \<le> 1 / 512" by (simp add: pow2_def)
  have m: "\<bar>round_magnitude q - q\<bar> \<le> 1 / 1024"
    using round_magnitude_error [of q] u by linarith
  moreover have "q < 32768" using assms(2) by simp
  ultimately have "round_magnitude q < 32769" by linarith
  also have "(32769 :: rat) < 2 ^ 128" by simp
  finally have "round_magnitude q < 2 ^ 128" .
  with m assms(1) show ?thesis by (simp add: rnd_def Let_def)
qed

end
