(* ===== verification/ForcePi.thy ===== *)
theory ForcePi
  imports Binary32
begin

text \<open>
  The proportional-integral force calculation of \<^verbatim>\<open>Application/force_pi.c\<close> in
  single precision: configuration checks, transactional initialisation and
  update, clamping and anti-windup. The state, configuration and snapshot are
  the objects behind the C pointers, which are not NULL.
\<close>

section \<open>State\<close>

record ForcePiConfig =
  fpc_kp_mv_per_unit :: f32
  fpc_ki_mv_per_unit_s :: f32
  fpc_output_min_mv :: f32
  fpc_output_max_mv :: f32
  fpc_integral_min_mv :: f32
  fpc_integral_max_mv :: f32
  fpc_maximum_dt_s :: f32

record ForcePiState =
  fps_initialized_config :: ForcePiConfig
  fps_integral_mv :: f32
  fps_initialized :: bool

record ForcePiSnapshot =
  fpn_target :: f32
  fpn_measurement :: f32
  fpn_error :: f32
  fpn_dt_s :: f32
  fpn_proportional_mv :: f32
  fpn_integral_mv :: f32
  fpn_unlimited_output_mv :: f32
  fpn_limited_output_mv :: f32
  fpn_saturated :: bool
  fpn_integration_allowed :: bool

definition zero_config :: ForcePiConfig where
  "zero_config =
    \<lparr>fpc_kp_mv_per_unit = Fin 0, fpc_ki_mv_per_unit_s = Fin 0, fpc_output_min_mv = Fin 0,
     fpc_output_max_mv = Fin 0, fpc_integral_min_mv = Fin 0, fpc_integral_max_mv = Fin 0,
     fpc_maximum_dt_s = Fin 0\<rparr>"

definition zero_state :: ForcePiState where
  "zero_state =
    \<lparr>fps_initialized_config = zero_config, fps_integral_mv = Fin 0, fps_initialized = False\<rparr>"

definition zero_snapshot :: ForcePiSnapshot where
  "zero_snapshot =
    \<lparr>fpn_target = Fin 0, fpn_measurement = Fin 0, fpn_error = Fin 0, fpn_dt_s = Fin 0,
     fpn_proportional_mv = Fin 0, fpn_integral_mv = Fin 0, fpn_unlimited_output_mv = Fin 0,
     fpn_limited_output_mv = Fin 0, fpn_saturated = False, fpn_integration_allowed = False\<rparr>"

section \<open>Operations\<close>

definition ForcePi_ConfigIsValid :: "ForcePiConfig \<Rightarrow> bool" where
  "ForcePi_ConfigIsValid c \<longleftrightarrow>
     f32_isfinite (fpc_kp_mv_per_unit c) \<and>
     f32_isfinite (fpc_ki_mv_per_unit_s c) \<and>
     f32_isfinite (fpc_output_min_mv c) \<and>
     f32_isfinite (fpc_output_max_mv c) \<and>
     f32_isfinite (fpc_integral_min_mv c) \<and>
     f32_isfinite (fpc_integral_max_mv c) \<and>
     f32_isfinite (fpc_maximum_dt_s c) \<and>
     f32_le (Fin 0) (fpc_kp_mv_per_unit c) \<and>
     f32_le (Fin 0) (fpc_ki_mv_per_unit_s c) \<and>
     f32_le (fpc_output_min_mv c) (fpc_output_max_mv c) \<and>
     f32_le (fpc_integral_min_mv c) (fpc_integral_max_mv c) \<and>
     f32_lt (Fin 0) (fpc_maximum_dt_s c)"

definition ForcePi_ConfigMatches :: "ForcePiConfig \<Rightarrow> ForcePiConfig \<Rightarrow> bool" where
  "ForcePi_ConfigMatches a b \<longleftrightarrow>
     f32_eq (fpc_kp_mv_per_unit a) (fpc_kp_mv_per_unit b) \<and>
     f32_eq (fpc_ki_mv_per_unit_s a) (fpc_ki_mv_per_unit_s b) \<and>
     f32_eq (fpc_output_min_mv a) (fpc_output_min_mv b) \<and>
     f32_eq (fpc_output_max_mv a) (fpc_output_max_mv b) \<and>
     f32_eq (fpc_integral_min_mv a) (fpc_integral_min_mv b) \<and>
     f32_eq (fpc_integral_max_mv a) (fpc_integral_max_mv b) \<and>
     f32_eq (fpc_maximum_dt_s a) (fpc_maximum_dt_s b)"

definition ForcePi_Clamp :: "f32 \<Rightarrow> f32 \<Rightarrow> f32 \<Rightarrow> f32" where
  "ForcePi_Clamp v lower upper =
    (if f32_lt v lower then lower else if f32_lt upper v then upper else v)"

definition ForcePi_Initialize :: "ForcePiState \<Rightarrow> ForcePiConfig \<Rightarrow> bool \<times> ForcePiState" where
  "ForcePi_Initialize state config =
    (if \<not> ForcePi_ConfigIsValid config then (False, state)
     else (True, zero_state\<lparr>fps_initialized_config := config, fps_initialized := True\<rparr>))"

definition ForcePi_Reset :: "ForcePiState \<Rightarrow> bool \<times> ForcePiState" where
  "ForcePi_Reset state =
    (if \<not> fps_initialized state \<or> \<not> ForcePi_ConfigIsValid (fps_initialized_config state)
     then (False, state)
     else (True, state\<lparr>fps_integral_mv := Fin 0\<rparr>))"

text \<open>
  The integral part of \<open>ForcePi_Update\<close>: \<^const>\<open>None\<close> where the code returns
  \<open>false\<close> because a value is not finite.
\<close>

definition force_pi_integral ::
  "ForcePiConfig \<Rightarrow> ForcePiState \<Rightarrow> f32 \<Rightarrow> f32 \<Rightarrow> f32 \<Rightarrow> bool \<Rightarrow> f32 option" where
  "force_pi_integral config state error proportional dt_s integration_allowed =
    (let integral = (if f32_eq (fpc_ki_mv_per_unit_s config) (Fin 0) then Fin 0
                     else fps_integral_mv state)
     in if integration_allowed \<and> f32_lt (Fin 0) (fpc_ki_mv_per_unit_s config)
        then
          (let delta = f32_mul (fpc_ki_mv_per_unit_s config) error
           in if \<not> f32_isfinite delta then None
              else
                (let delta = f32_mul delta dt_s;
                     candidate = f32_add integral delta
                 in if \<not> f32_isfinite delta \<or> \<not> f32_isfinite candidate then None
                    else
                      (let candidate = ForcePi_Clamp candidate (fpc_integral_min_mv config)
                                         (fpc_integral_max_mv config);
                           candidate_output = f32_add proportional candidate
                       in if \<not> f32_isfinite candidate_output then None
                          else if \<not> ((f32_lt (fpc_output_max_mv config) candidate_output
                                       \<and> f32_lt (Fin 0) error)
                                   \<or> (f32_lt candidate_output (fpc_output_min_mv config)
                                       \<and> f32_lt error (Fin 0)))
                          then Some candidate
                          else Some integral)))
        else Some integral)"

definition ForcePi_Update ::
  "ForcePiConfig \<Rightarrow> ForcePiState \<Rightarrow> f32 \<Rightarrow> f32 \<Rightarrow> f32 \<Rightarrow> bool
    \<Rightarrow> bool \<times> ForcePiState \<times> ForcePiSnapshot" where
  "ForcePi_Update config state target measurement dt_s integration_allowed =
    (if \<not> fps_initialized state \<or>
        \<not> ForcePi_ConfigIsValid config \<or>
        \<not> ForcePi_ConfigMatches config (fps_initialized_config state) \<or>
        \<not> f32_isfinite (fps_integral_mv state) \<or>
        \<not> f32_isfinite target \<or> \<not> f32_isfinite measurement \<or>
        \<not> f32_isfinite dt_s \<or> f32_lt dt_s (Fin 0) \<or>
        (f32_eq dt_s (Fin 0) \<and> integration_allowed) \<or>
        f32_lt (fpc_maximum_dt_s config) dt_s
     then (False, state, zero_snapshot)
     else
       (let error = f32_sub target measurement;
            proportional = f32_mul (fpc_kp_mv_per_unit config) error
        in if \<not> f32_isfinite error \<or> \<not> f32_isfinite proportional
           then (False, state, zero_snapshot)
           else
             (case force_pi_integral config state error proportional dt_s integration_allowed of
                None \<Rightarrow> (False, state, zero_snapshot)
              | Some integral \<Rightarrow>
                  (let unlimited = f32_add proportional integral
                   in if \<not> f32_isfinite unlimited then (False, state, zero_snapshot)
                      else
                        (let limited = ForcePi_Clamp unlimited (fpc_output_min_mv config)
                                         (fpc_output_max_mv config)
                         in (True, state\<lparr>fps_integral_mv := integral\<rparr>,
                             \<lparr>fpn_target = target, fpn_measurement = measurement,
                              fpn_error = error, fpn_dt_s = dt_s,
                              fpn_proportional_mv = proportional, fpn_integral_mv = integral,
                              fpn_unlimited_output_mv = unlimited,
                              fpn_limited_output_mv = limited,
                              fpn_saturated = (\<not> f32_eq limited unlimited),
                              fpn_integration_allowed = integration_allowed\<rparr>))))))"

section \<open>Lemmas\<close>

lemma config_valid_Fin:
  assumes "ForcePi_ConfigIsValid c"
  obtains kp ki omin omax imin imax dt where
    "fpc_kp_mv_per_unit c = Fin kp" "fpc_ki_mv_per_unit_s c = Fin ki"
    "fpc_output_min_mv c = Fin omin" "fpc_output_max_mv c = Fin omax"
    "fpc_integral_min_mv c = Fin imin" "fpc_integral_max_mv c = Fin imax"
    "fpc_maximum_dt_s c = Fin dt"
    "0 \<le> kp" "0 \<le> ki" "omin \<le> omax" "imin \<le> imax" "0 < dt"
  using assms unfolding ForcePi_ConfigIsValid_def f32_isfinite_iff by auto

lemma clamp_within:
  assumes "lo \<le> hi"
  shows "\<exists>r. ForcePi_Clamp (Fin v) (Fin lo) (Fin hi) = Fin r \<and> lo \<le> r \<and> r \<le> hi"
  using assms by (auto simp: ForcePi_Clamp_def)

lemma clamp_identity:
  "lo \<le> v \<Longrightarrow> v \<le> hi \<Longrightarrow> ForcePi_Clamp (Fin v) (Fin lo) (Fin hi) = Fin v"
  by (simp add: ForcePi_Clamp_def)

lemma update_failure:
  assumes "ForcePi_Update c s target m dt allowed = (False, s', n)"
  shows "s' = s \<and> n = zero_snapshot"
  using assms
  by (auto simp: ForcePi_Update_def Let_def split: if_splits option.splits)

text \<open>What a successful update computed.\<close>

lemma update_success:
  assumes "ForcePi_Update c s target m dt allowed = (True, s', n)"
  shows "ForcePi_ConfigIsValid c \<and> f32_isfinite (fps_integral_mv s)
    \<and> fpn_error n = f32_sub target m \<and> f32_isfinite (fpn_error n)
    \<and> fpn_proportional_mv n = f32_mul (fpc_kp_mv_per_unit c) (fpn_error n)
    \<and> f32_isfinite (fpn_proportional_mv n)
    \<and> force_pi_integral c s (fpn_error n) (fpn_proportional_mv n) dt allowed
        = Some (fpn_integral_mv n)
    \<and> fpn_unlimited_output_mv n = f32_add (fpn_proportional_mv n) (fpn_integral_mv n)
    \<and> f32_isfinite (fpn_unlimited_output_mv n)
    \<and> fpn_limited_output_mv n
        = ForcePi_Clamp (fpn_unlimited_output_mv n) (fpc_output_min_mv c) (fpc_output_max_mv c)
    \<and> fpn_saturated n = (\<not> f32_eq (fpn_limited_output_mv n) (fpn_unlimited_output_mv n))
    \<and> s' = s\<lparr>fps_integral_mv := fpn_integral_mv n\<rparr>"
  using assms
  by (auto simp: ForcePi_Update_def Let_def split: if_splits option.splits)

text \<open>The cases of the integral: kept, dropped (no integral gain), or a clamped increment.\<close>

lemma force_pi_integral_cases:
  assumes "force_pi_integral c s e p dt allowed = Some i"
    "ForcePi_ConfigIsValid c" "f32_isfinite (fps_integral_mv s)"
    "fpc_ki_mv_per_unit_s c = Fin ki"
  shows "(ki = 0 \<and> i = Fin 0) \<or> (0 < ki \<and> i = fps_integral_mv s) \<or>
    (0 < ki \<and> allowed \<and> f32_le (fpc_integral_min_mv c) i \<and> f32_le i (fpc_integral_max_mv c)
      \<and> \<not> (f32_lt (fpc_output_max_mv c) (f32_add p i) \<and> f32_lt (Fin 0) e)
      \<and> \<not> (f32_lt (f32_add p i) (fpc_output_min_mv c) \<and> f32_lt e (Fin 0)))"
proof -
  obtain ki' imin imax where c: "fpc_ki_mv_per_unit_s c = Fin ki'" "0 \<le> ki'"
      "fpc_integral_min_mv c = Fin imin" "fpc_integral_max_mv c = Fin imax" "imin \<le> imax"
    using assms(2) by (rule config_valid_Fin) blast
  have ki: "0 \<le> ki" using c assms(4) by simp
  have clamp: "f32_le (Fin imin) (ForcePi_Clamp v (Fin imin) (Fin imax))
      \<and> f32_le (ForcePi_Clamp v (Fin imin) (Fin imax)) (Fin imax)" if "f32_isfinite v" for v
    using that clamp_within [OF c(5)] unfolding f32_isfinite_iff by (metis f32_le_Fin)
  show ?thesis
    using assms(1) ki clamp unfolding force_pi_integral_def assms(4) c(3,4)
    by (auto simp: Let_def split: if_splits)
qed

lemma update_integral_cases:
  assumes "ForcePi_Update c s target m dt allowed = (True, s', n)"
  shows "fps_integral_mv s' = fpn_integral_mv n \<and> (\<exists>ki. fpc_ki_mv_per_unit_s c = Fin ki \<and>
     ((ki = 0 \<and> fpn_integral_mv n = Fin 0)
    \<or> (0 < ki \<and> fpn_integral_mv n = fps_integral_mv s)
    \<or> (0 < ki \<and> f32_le (fpc_integral_min_mv c) (fpn_integral_mv n)
       \<and> f32_le (fpn_integral_mv n) (fpc_integral_max_mv c)
       \<and> \<not> (f32_lt (fpc_output_max_mv c) (fpn_unlimited_output_mv n)
            \<and> f32_lt (Fin 0) (fpn_error n))
       \<and> \<not> (f32_lt (fpn_unlimited_output_mv n) (fpc_output_min_mv c)
            \<and> f32_lt (fpn_error n) (Fin 0)))))"
proof -
  note S = update_success [OF assms]
  obtain ki where ki: "fpc_ki_mv_per_unit_s c = Fin ki"
    using S config_valid_Fin by metis
  show ?thesis
    using S force_pi_integral_cases [of c s "fpn_error n" "fpn_proportional_mv n" dt allowed
        "fpn_integral_mv n" ki] ki by (metis (no_types, lifting) ForcePiState.select_convs(2)
        ForcePiState.surjective ForcePiState.update_convs(2))
qed

section \<open>Runs of updates\<close>

record pi_input =
  pin_target :: f32
  pin_measurement :: f32
  pin_dt_s :: f32
  pin_allowed :: bool

fun pi_run :: "ForcePiConfig \<Rightarrow> ForcePiState \<Rightarrow> pi_input list \<Rightarrow> ForcePiState" where
  "pi_run c s [] = s"
| "pi_run c s (x # xs) =
    (case ForcePi_Update c s (pin_target x) (pin_measurement x) (pin_dt_s x) (pin_allowed x) of
       (_, s', _) \<Rightarrow> pi_run c s' xs)"

definition pi_integral_ok :: "ForcePiConfig \<Rightarrow> ForcePiState \<Rightarrow> bool" where
  "pi_integral_ok c s \<longleftrightarrow> f32_isfinite (fps_integral_mv s)
    \<and> (f32_eq (fps_integral_mv s) (Fin 0)
       \<or> (f32_le (fpc_integral_min_mv c) (fps_integral_mv s)
          \<and> f32_le (fps_integral_mv s) (fpc_integral_max_mv c)))"

lemma pi_integral_ok_update:
  assumes "ForcePi_Update c s target m dt allowed = (ok, s', n)" "pi_integral_ok c s"
  shows "pi_integral_ok c s'"
proof (cases ok)
  case False
  with assms update_failure show ?thesis by (metis (full_types))
next
  case True
  with assms have up: "ForcePi_Update c s target m dt allowed = (True, s', n)" by simp
  note S = update_integral_cases [OF this]
  obtain imin imax where c: "fpc_integral_min_mv c = Fin imin" "fpc_integral_max_mv c = Fin imax"
    using update_success [OF up] config_valid_Fin by metis
  have "f32_isfinite i" if "f32_le (Fin imin) i" "f32_le i (Fin imax)" for i
    using that by (cases i) (auto simp: f32_le_def f32_eq_def)
  then show ?thesis
    using S assms(2) unfolding pi_integral_ok_def c by (metis f32_eq_Fin f32_isfinite_Fin)
qed

lemma pi_integral_ok_run:
  "pi_integral_ok c s \<Longrightarrow> pi_integral_ok c (pi_run c s xs)"
proof (induction xs arbitrary: s)
  case Nil
  then show ?case by simp
next
  case (Cons x xs)
  obtain ok s' n where
    "ForcePi_Update c s (pin_target x) (pin_measurement x) (pin_dt_s x) (pin_allowed x)
      = (ok, s', n)"
    using prod_cases3 by blast
  with Cons pi_integral_ok_update show ?case by fastforce
qed

section \<open>Properties\<close>

text \<open>The PI output is always within its limits, however the calculation
  rounds: an update either fails, leaving the state untouched and the snapshot
  zero, or publishes a finite suggestion between the output limits, which is the
  unlimited value whenever that value is within them.\<close>

theorem force_pi_output_bounded:
  "(case ForcePi_Update c s target m dt allowed of (ok, s', n) \<Rightarrow>
     if ok
     then (\<exists>omin omax u l. fpc_output_min_mv c = Fin omin \<and> fpc_output_max_mv c = Fin omax
             \<and> fpn_unlimited_output_mv n = Fin u \<and> fpn_limited_output_mv n = Fin l
             \<and> omin \<le> l \<and> l \<le> omax
             \<and> fpn_saturated n = (l \<noteq> u) \<and> fpn_saturated n = (u < omin \<or> omax < u)
             \<and> s' = s\<lparr>fps_integral_mv := fpn_integral_mv n\<rparr>)
     else s' = s \<and> n = zero_snapshot)"
proof (cases "ForcePi_Update c s target m dt allowed")
  case (fields ok s' n)
  show ?thesis
  proof (cases ok)
    case False
    with fields update_failure show ?thesis by fastforce
  next
    case True
    with fields have S: "ForcePi_Update c s target m dt allowed = (True, s', n)" by simp
    note S = update_success [OF this]
    obtain omin omax where c: "fpc_output_min_mv c = Fin omin" "fpc_output_max_mv c = Fin omax"
        "omin \<le> omax"
      using S config_valid_Fin by metis
    obtain u where u: "fpn_unlimited_output_mv n = Fin u"
      using S unfolding f32_isfinite_iff by blast
    have l: "fpn_limited_output_mv n = ForcePi_Clamp (Fin u) (Fin omin) (Fin omax)"
      and sat: "fpn_saturated n = (\<not> f32_eq (fpn_limited_output_mv n) (Fin u))"
      and s': "s' = s\<lparr>fps_integral_mv := fpn_integral_mv n\<rparr>"
      using S unfolding u c(1,2) by blast+
    obtain l where "fpn_limited_output_mv n = Fin l" "omin \<le> l" "l \<le> omax"
        "omin \<le> u \<and> u \<le> omax \<longleftrightarrow> l = u"
      using c(3) that unfolding l ForcePi_Clamp_def
      by (cases "u < omin"; cases "omax < u") auto
    then show ?thesis
      using fields True c u s' sat by auto
  qed
qed

text \<open>The integral never winds up: after \<open>ForcePi_Initialize\<close> and any sequence
  of updates, with any targets, measurements, time steps and freezes, the
  integral is zero or within its configured limits.\<close>

theorem force_pi_integral_bounded:
  assumes "ForcePi_Initialize s0 c = (True, s)"
  shows "(\<exists>i imin imax. fps_integral_mv (pi_run c s xs) = Fin i
    \<and> fpc_integral_min_mv c = Fin imin \<and> fpc_integral_max_mv c = Fin imax
    \<and> (i = 0 \<or> (imin \<le> i \<and> i \<le> imax)))"
proof -
  have valid: "ForcePi_ConfigIsValid c" and s: "fps_integral_mv s = Fin 0"
    using assms by (auto simp: ForcePi_Initialize_def zero_state_def split: if_splits)
  obtain imin imax where c: "fpc_integral_min_mv c = Fin imin" "fpc_integral_max_mv c = Fin imax"
    using valid config_valid_Fin by metis
  have "pi_integral_ok c s" by (simp add: pi_integral_ok_def s)
  from pi_integral_ok_run [OF this, of xs] show ?thesis
    unfolding pi_integral_ok_def f32_isfinite_iff by (auto simp: c)
qed

theorem force_pi_integral_bounded_witness:
  "\<exists>i imin imax.
     fps_integral_mv (pi_run
       (zero_config\<lparr>fpc_kp_mv_per_unit := Fin 8, fpc_ki_mv_per_unit_s := Fin 2,
          fpc_output_max_mv := Fin 100, fpc_integral_max_mv := Fin 5,
          fpc_maximum_dt_s := Fin 1\<rparr>)
       (zero_state\<lparr>fps_initialized_config := zero_config\<lparr>fpc_kp_mv_per_unit := Fin 8,
          fpc_ki_mv_per_unit_s := Fin 2, fpc_output_max_mv := Fin 100,
          fpc_integral_max_mv := Fin 5, fpc_maximum_dt_s := Fin 1\<rparr>, fps_initialized := True\<rparr>)
       [\<lparr>pin_target = Fin 20, pin_measurement = Fin 10, pin_dt_s = Fin 1, pin_allowed = True\<rparr>])
       = Fin i
     \<and> fpc_integral_min_mv (zero_config\<lparr>fpc_kp_mv_per_unit := Fin 8,
         fpc_ki_mv_per_unit_s := Fin 2, fpc_output_max_mv := Fin 100,
         fpc_integral_max_mv := Fin 5, fpc_maximum_dt_s := Fin 1\<rparr>) = Fin imin
     \<and> fpc_integral_max_mv (zero_config\<lparr>fpc_kp_mv_per_unit := Fin 8,
         fpc_ki_mv_per_unit_s := Fin 2, fpc_output_max_mv := Fin 100,
         fpc_integral_max_mv := Fin 5, fpc_maximum_dt_s := Fin 1\<rparr>) = Fin imax
     \<and> (i = 0 \<or> (imin \<le> i \<and> i \<le> imax))"
  by (rule force_pi_integral_bounded [of zero_state])
     (simp add: ForcePi_Initialize_def ForcePi_ConfigIsValid_def zero_config_def)

text \<open>Anti-windup: an update whose unlimited output is beyond a limit, with the
  error pushing further beyond it, never moves the integral; and with a zero
  integral gain the controller is strictly proportional.\<close>

theorem force_pi_anti_windup:
  assumes "ForcePi_Update c s target m dt allowed = (True, s', n)"
  shows "(f32_lt (Fin 0) (fpc_ki_mv_per_unit_s c) \<longrightarrow>
           (f32_lt (Fin 0) (fpn_error n)
              \<and> f32_lt (fpc_output_max_mv c) (fpn_unlimited_output_mv n)
            \<or> f32_lt (fpn_error n) (Fin 0)
              \<and> f32_lt (fpn_unlimited_output_mv n) (fpc_output_min_mv c)) \<longrightarrow>
           fps_integral_mv s' = fps_integral_mv s)
       \<and> (fpc_ki_mv_per_unit_s c = Fin 0 \<longrightarrow> fps_integral_mv s' = Fin 0)"
proof -
  show ?thesis
    using update_integral_cases [OF assms] by auto
qed

theorem force_pi_anti_windup_witness:
  "\<exists>c s s' n. ForcePi_Update c s (Fin 20) (Fin 10) (Fin 1) True = (True, s', n)
     \<and> f32_lt (Fin 0) (fpc_ki_mv_per_unit_s c) \<and> f32_lt (Fin 0) (fpn_error n)
     \<and> f32_lt (fpc_output_max_mv c) (fpn_unlimited_output_mv n)
     \<and> fps_integral_mv s' = fps_integral_mv s"
proof -
  let ?c = "zero_config\<lparr>fpc_kp_mv_per_unit := Fin 8, fpc_ki_mv_per_unit_s := Fin 2,
    fpc_output_max_mv := Fin 40, fpc_integral_max_mv := Fin 5, fpc_maximum_dt_s := Fin 1\<rparr>"
  let ?s = "zero_state\<lparr>fps_initialized_config := ?c, fps_initialized := True\<rparr>"
  have r: "rnd 10 = Fin 10" "rnd 80 = Fin 80" "rnd 20 = Fin 20" "rnd 85 = Fin 85"
    using rnd_of_int [of 10] rnd_of_int [of 80] rnd_of_int [of 20] rnd_of_int [of 85] by simp_all
  have up: "\<exists>s' n. ForcePi_Update ?c ?s (Fin 20) (Fin 10) (Fin 1) True = (True, s', n)
      \<and> fpn_error n = Fin 10 \<and> fpn_unlimited_output_mv n = Fin 80"
    by (simp add: ForcePi_Update_def ForcePi_ConfigIsValid_def ForcePi_ConfigMatches_def
        force_pi_integral_def ForcePi_Clamp_def zero_config_def zero_state_def f32_sub_def
        Let_def r)
  then obtain s' n where u: "ForcePi_Update ?c ?s (Fin 20) (Fin 10) (Fin 1) True = (True, s', n)"
      "fpn_error n = Fin 10" "fpn_unlimited_output_mv n = Fin 80"
    by blast
  have "fps_integral_mv s' = fps_integral_mv ?s"
    using force_pi_anti_windup [OF u(1)] u(2,3) by (simp add: zero_config_def)
  with u show ?thesis
    by (intro exI [of _ ?c] exI [of _ ?s] exI [of _ s'] exI [of _ n]) (simp add: zero_config_def)
qed

end
