(* ===== verification/BuildPolicy.thy ===== *)
theory BuildPolicy
  imports Prelude
begin

text \<open>
  The preprocessor policy of \<^verbatim>\<open>Application/motion_build_policy.h\<close>: which macro
  settings compile, and the flags they select. The other theories take the
  resulting policy as a parameter. One flag, \<open>FORCE_SERVO_ENABLED\<close>, selects between two
  programs, which have theories of their own, and \<open>BUILD_TO_TARGET\<close> a third, which is not
  modelled; an \<open>#if\<close> on another flag is an \<open>if\<close> on the policy.
\<close>

section \<open>Macros\<close>

text \<open>\<^const>\<open>None\<close> is an undefined macro. Names are without the \<open>SD700_\<close> prefix.\<close>

record macros =
  m_BUILD_TO_TARGET :: "int option"
  m_FORCE_CHARACTERIZATION :: "int option"
  m_FORCE_SERVO_ENABLED :: "int option"
  m_FORCE_SERVO_COMMISSIONING :: "int option"
  m_REAL_OUTPUT_ARMING_ENABLED :: "int option"
  m_AUTO_TARGET_ENABLED :: "int option"
  m_SCOPE_TEST_ACKNOWLEDGED :: "int option"
  m_REAL_BENCH_ACKNOWLEDGED :: "int option"
  m_MOTOR_REAL_HOST_TEST :: "int option"
  m_MOTOR_MODE_REAL_COMPILE_CHECK :: "int option"
  m_MOTOR_MODE_SCOPE_TEST :: "int option"
  m_MOTOR_MODE_REAL_BENCH :: "int option"
  m_STM32F411xE :: "int option"

definition defined :: "int option \<Rightarrow> bool" where
  "defined m \<longleftrightarrow> m \<noteq> None"

text \<open>\<open>#ifndef X / #define X 0 / #endif\<close>\<close>

definition default0 :: "int option \<Rightarrow> int" where
  "default0 m = (case m of None \<Rightarrow> 0 | Some v \<Rightarrow> v)"

definition zero_or_one :: "int \<Rightarrow> bool" where
  "zero_or_one v \<longleftrightarrow> v = 0 \<or> v = 1"

section \<open>The selected policy\<close>

datatype motor_mode =
    MODE_LOCKED
  | MODE_SCOPE_TEST
  | MODE_REAL_BENCH
  | MODE_REAL_COMPILE_CHECK

record build_policy =
  bp_mode :: motor_mode
  bp_auto_target :: bool
  bp_force_servo :: bool
  bp_commissioning :: bool
  bp_characterization :: bool
  bp_build_to_target :: bool

definition AUTO_TARGET_ENABLED :: "build_policy \<Rightarrow> bool" where
  "AUTO_TARGET_ENABLED p = bp_auto_target p"

definition DIRECT_COMMANDS_ENABLED :: "build_policy \<Rightarrow> bool" where
  "DIRECT_COMMANDS_ENABLED p =
    (case bp_mode p of MODE_SCOPE_TEST \<Rightarrow> True | MODE_REAL_BENCH \<Rightarrow> True | _ \<Rightarrow> False)"

definition DIRECT_PRESSURE_REQUIRED :: "build_policy \<Rightarrow> bool" where
  "DIRECT_PRESSURE_REQUIRED p = (case bp_mode p of MODE_REAL_BENCH \<Rightarrow> True | _ \<Rightarrow> False)"

definition AUTOMATIC_COMMANDS_ENABLED :: "build_policy \<Rightarrow> bool" where
  "AUTOMATIC_COMMANDS_ENABLED p =
    (case bp_mode p of
       MODE_SCOPE_TEST \<Rightarrow> False
     | MODE_REAL_BENCH \<Rightarrow> bp_auto_target p
     | MODE_REAL_COMPILE_CHECK \<Rightarrow> False
     | MODE_LOCKED \<Rightarrow> True)"

section \<open>The checks of the header, in its order\<close>

definition EXPLICIT_REAL_HOST_BUILD :: "macros \<Rightarrow> bool" where
  "EXPLICIT_REAL_HOST_BUILD m \<longleftrightarrow> m_MOTOR_REAL_HOST_TEST m = Some 1"

definition force_checks :: "macros \<Rightarrow> bool" where
  "force_checks m \<longleftrightarrow>
    (let btt = default0 (m_BUILD_TO_TARGET m);
         fc = default0 (m_FORCE_CHARACTERIZATION m);
         fse = default0 (m_FORCE_SERVO_ENABLED m);
         fsc = default0 (m_FORCE_SERVO_COMMISSIONING m)
     in zero_or_one btt
      \<and> (btt \<noteq> 0 \<longrightarrow> m_FORCE_CHARACTERIZATION m = Some 1)
      \<and> zero_or_one fc
      \<and> (fc \<noteq> 0 \<longrightarrow> m_FORCE_SERVO_COMMISSIONING m = Some 1
                   \<and> m_REAL_OUTPUT_ARMING_ENABLED m = Some 1)
      \<and> zero_or_one fsc
      \<and> (fsc \<noteq> 0 \<longrightarrow> fse \<noteq> 0 \<and> m_REAL_BENCH_ACKNOWLEDGED m = Some 1)
      \<and> zero_or_one fse
      \<and> (fse \<noteq> 0 \<longrightarrow> \<not> (defined (m_AUTO_TARGET_ENABLED m) \<and> default0 (m_AUTO_TARGET_ENABLED m) \<noteq> 0)
                    \<and> defined (m_MOTOR_MODE_REAL_BENCH m) \<and> default0 (m_MOTOR_MODE_REAL_BENCH m) \<noteq> 0))"

definition auto_target_checks :: "macros \<Rightarrow> bool" where
  "auto_target_checks m \<longleftrightarrow>
    (let ate = default0 (m_AUTO_TARGET_ENABLED m)
     in zero_or_one ate
      \<and> (ate \<noteq> 0 \<longrightarrow> defined (m_MOTOR_MODE_REAL_BENCH m)
                    \<and> m_REAL_BENCH_ACKNOWLEDGED m = Some 1
                    \<and> m_REAL_OUTPUT_ARMING_ENABLED m = Some 1))"

definition mode_checks :: "macros \<Rightarrow> bool" where
  "mode_checks m \<longleftrightarrow>
    (let sta = default0 (m_SCOPE_TEST_ACKNOWLEDGED m);
         rba = default0 (m_REAL_BENCH_ACKNOWLEDGED m)
     in zero_or_one sta \<and> zero_or_one rba
      \<and> (defined (m_MOTOR_REAL_HOST_TEST m) \<longrightarrow> zero_or_one (default0 (m_MOTOR_REAL_HOST_TEST m)))
      \<and> \<not> (EXPLICIT_REAL_HOST_BUILD m \<and> defined (m_STM32F411xE m))
      \<and> (defined (m_MOTOR_MODE_REAL_COMPILE_CHECK m) \<longrightarrow> m_MOTOR_MODE_REAL_COMPILE_CHECK m = Some 1)
      \<and> (defined (m_MOTOR_MODE_SCOPE_TEST m) \<longrightarrow> m_MOTOR_MODE_SCOPE_TEST m = Some 1)
      \<and> (defined (m_MOTOR_MODE_REAL_BENCH m) \<longrightarrow> m_MOTOR_MODE_REAL_BENCH m = Some 1)
      \<and> \<not> 1 < (of_bool (defined (m_MOTOR_MODE_REAL_COMPILE_CHECK m))
                + of_bool (defined (m_MOTOR_MODE_SCOPE_TEST m))
                + of_bool (defined (m_MOTOR_MODE_REAL_BENCH m)) :: nat)
      \<and> \<not> (sta = 1 \<and> \<not> defined (m_MOTOR_MODE_SCOPE_TEST m))
      \<and> \<not> (rba = 1 \<and> \<not> defined (m_MOTOR_MODE_REAL_BENCH m))
      \<and> \<not> (defined (m_MOTOR_MODE_SCOPE_TEST m) \<and> \<not> EXPLICIT_REAL_HOST_BUILD m \<and> sta \<noteq> 1)
      \<and> \<not> (defined (m_MOTOR_MODE_REAL_BENCH m) \<and> \<not> EXPLICIT_REAL_HOST_BUILD m \<and> rba \<noteq> 1))"

definition select_policy :: "macros \<Rightarrow> build_policy" where
  "select_policy m =
    \<lparr>bp_mode =
       (if defined (m_MOTOR_MODE_SCOPE_TEST m) then MODE_SCOPE_TEST
        else if defined (m_MOTOR_MODE_REAL_BENCH m) then MODE_REAL_BENCH
        else if defined (m_MOTOR_MODE_REAL_COMPILE_CHECK m) then MODE_REAL_COMPILE_CHECK
        else MODE_LOCKED),
     bp_auto_target = (default0 (m_AUTO_TARGET_ENABLED m) \<noteq> 0),
     bp_force_servo = (default0 (m_FORCE_SERVO_ENABLED m) \<noteq> 0),
     bp_commissioning = (default0 (m_FORCE_SERVO_COMMISSIONING m) \<noteq> 0),
     bp_characterization = (default0 (m_FORCE_CHARACTERIZATION m) \<noteq> 0),
     bp_build_to_target = (default0 (m_BUILD_TO_TARGET m) \<noteq> 0)\<rparr>"

definition preprocess :: "macros \<Rightarrow> build_policy option" where
  "preprocess m =
    (if force_checks m \<and> auto_target_checks m \<and> mode_checks m then Some (select_policy m) else None)"

text \<open>The consistency every accepted policy has, and which the other theories may use.\<close>

definition policy_ok :: "build_policy \<Rightarrow> bool" where
  "policy_ok p \<longleftrightarrow>
    (bp_auto_target p \<longrightarrow> bp_mode p = MODE_REAL_BENCH \<and> \<not> bp_force_servo p)
    \<and> (bp_force_servo p \<longrightarrow> bp_mode p = MODE_REAL_BENCH)
    \<and> (bp_commissioning p \<longrightarrow> bp_force_servo p)
    \<and> (bp_characterization p \<longrightarrow> bp_commissioning p)
    \<and> (bp_build_to_target p \<longrightarrow> bp_characterization p)"

text \<open>Every build the policy header accepts is consistent: the AutoTarget and
  ForceServo output owners exclude each other and both need the RealBench backend;
  automatic motion is compiled in only for the locked backend or with AutoTarget, the
  bench acknowledgement and the output arming all set; a target build with a motion
  backend carries that backend's acknowledgement; and the force-build options imply
  the ones they build on.\<close>

theorem accepted_policies_are_safe:
  assumes "preprocess m = Some p"
  shows "policy_ok p
    \<and> (AUTOMATIC_COMMANDS_ENABLED p \<longrightarrow> bp_mode p = MODE_LOCKED
        \<or> (AUTO_TARGET_ENABLED p \<and> m_REAL_BENCH_ACKNOWLEDGED m = Some 1
           \<and> m_REAL_OUTPUT_ARMING_ENABLED m = Some 1))
    \<and> (DIRECT_COMMANDS_ENABLED p \<and> defined (m_STM32F411xE m) \<longrightarrow>
        (bp_mode p = MODE_SCOPE_TEST \<and> m_SCOPE_TEST_ACKNOWLEDGED m = Some 1)
        \<or> (bp_mode p = MODE_REAL_BENCH \<and> m_REAL_BENCH_ACKNOWLEDGED m = Some 1
           \<and> DIRECT_PRESSURE_REQUIRED p))"
proof -
  have d: "default0 x = 1 \<longleftrightarrow> x = Some 1" for x
    by (cases x) (simp_all add: default0_def)
  have p: "p = select_policy m" and f: "force_checks m" and a: "auto_target_checks m"
      and c: "mode_checks m"
    using assms by (auto simp: preprocess_def split: if_splits)
  have dz: "default0 x \<noteq> 0 \<Longrightarrow> defined x" for x
    by (cases x) (simp_all add: default0_def defined_def)
  have dd: "default0 x = 1 \<Longrightarrow> defined x" for x using dz by simp
  have one: "default0 (Some 1) = 1" by (simp add: d)
  have bench: "bp_mode p = MODE_REAL_BENCH" if "defined (m_MOTOR_MODE_REAL_BENCH m)"
    using that c unfolding p mode_checks_def Let_def
    by (cases "defined (m_MOTOR_MODE_SCOPE_TEST m)") (simp_all add: select_policy_def)
  have "bp_auto_target p \<longrightarrow> bp_mode p = MODE_REAL_BENCH \<and> \<not> bp_force_servo p"
    using a f bench unfolding p auto_target_checks_def force_checks_def Let_def
    by (auto simp: select_policy_def dest: dz)
  moreover have "bp_force_servo p \<longrightarrow> bp_mode p = MODE_REAL_BENCH"
    using f bench unfolding p force_checks_def Let_def by (auto simp: select_policy_def)
  moreover have "bp_commissioning p \<longrightarrow> bp_force_servo p"
    using f unfolding p force_checks_def Let_def by (auto simp: select_policy_def)
  moreover have "bp_characterization p \<longrightarrow> bp_commissioning p"
    using f unfolding p force_checks_def Let_def by (auto simp: select_policy_def one)
  moreover have "bp_build_to_target p \<longrightarrow> bp_characterization p"
    using f unfolding p force_checks_def Let_def by (auto simp: select_policy_def one)
  ultimately have "policy_ok p" by (simp add: policy_ok_def)
  moreover have "AUTOMATIC_COMMANDS_ENABLED p \<longrightarrow> bp_mode p = MODE_LOCKED
      \<or> (AUTO_TARGET_ENABLED p \<and> m_REAL_BENCH_ACKNOWLEDGED m = Some 1
         \<and> m_REAL_OUTPUT_ARMING_ENABLED m = Some 1)"
    using a unfolding p auto_target_checks_def AUTO_TARGET_ENABLED_def
      AUTOMATIC_COMMANDS_ENABLED_def Let_def
    by (auto simp: select_policy_def)
  moreover have "DIRECT_COMMANDS_ENABLED p \<and> defined (m_STM32F411xE m) \<longrightarrow>
      (bp_mode p = MODE_SCOPE_TEST \<and> m_SCOPE_TEST_ACKNOWLEDGED m = Some 1)
      \<or> (bp_mode p = MODE_REAL_BENCH \<and> m_REAL_BENCH_ACKNOWLEDGED m = Some 1
         \<and> DIRECT_PRESSURE_REQUIRED p)"
  proof
    assume h: "DIRECT_COMMANDS_ENABLED p \<and> defined (m_STM32F411xE m)"
    have host: "\<not> EXPLICIT_REAL_HOST_BUILD m"
      using c h unfolding mode_checks_def Let_def by blast
    have sta: "m_SCOPE_TEST_ACKNOWLEDGED m = Some 1" if "defined (m_MOTOR_MODE_SCOPE_TEST m)"
      using c host that unfolding mode_checks_def Let_def d [symmetric] by blast
    have rba: "m_REAL_BENCH_ACKNOWLEDGED m = Some 1" if "defined (m_MOTOR_MODE_REAL_BENCH m)"
      using c host that unfolding mode_checks_def Let_def d [symmetric] by blast
    have "bp_mode p = MODE_SCOPE_TEST \<or> bp_mode p = MODE_REAL_BENCH"
      using h by (auto simp: DIRECT_COMMANDS_ENABLED_def split: motor_mode.splits)
    moreover have "defined (m_MOTOR_MODE_SCOPE_TEST m)" if "bp_mode p = MODE_SCOPE_TEST"
      using that unfolding p select_policy_def by (simp split: if_splits)
    moreover have "defined (m_MOTOR_MODE_REAL_BENCH m)" if "bp_mode p = MODE_REAL_BENCH"
      using that unfolding p select_policy_def by (simp split: if_splits)
    ultimately show "(bp_mode p = MODE_SCOPE_TEST \<and> m_SCOPE_TEST_ACKNOWLEDGED m = Some 1)
      \<or> (bp_mode p = MODE_REAL_BENCH \<and> m_REAL_BENCH_ACKNOWLEDGED m = Some 1
         \<and> DIRECT_PRESSURE_REQUIRED p)"
      using sta rba by (auto simp: DIRECT_PRESSURE_REQUIRED_def)
  qed
  ultimately show ?thesis by blast
qed

theorem accepted_policies_are_safe_witness:
  "\<exists>m p. preprocess m = Some p \<and> defined (m_STM32F411xE m) \<and> policy_ok p
     \<and> DIRECT_PRESSURE_REQUIRED p \<and> m_REAL_BENCH_ACKNOWLEDGED m = Some 1
     \<and> m_REAL_OUTPUT_ARMING_ENABLED m = Some 1"
proof -
  let ?m = "\<lparr>m_BUILD_TO_TARGET = None, m_FORCE_CHARACTERIZATION = None,
    m_FORCE_SERVO_ENABLED = None, m_FORCE_SERVO_COMMISSIONING = None,
    m_REAL_OUTPUT_ARMING_ENABLED = Some 1, m_AUTO_TARGET_ENABLED = Some 1,
    m_SCOPE_TEST_ACKNOWLEDGED = None, m_REAL_BENCH_ACKNOWLEDGED = Some 1,
    m_MOTOR_REAL_HOST_TEST = None, m_MOTOR_MODE_REAL_COMPILE_CHECK = None,
    m_MOTOR_MODE_SCOPE_TEST = None, m_MOTOR_MODE_REAL_BENCH = Some 1,
    m_STM32F411xE = Some 1\<rparr>"
  have pre: "preprocess ?m = Some (select_policy ?m)"
    by (simp add: preprocess_def force_checks_def auto_target_checks_def mode_checks_def
        zero_or_one_def default0_def defined_def EXPLICIT_REAL_HOST_BUILD_def)
  have "bp_mode (select_policy ?m) = MODE_REAL_BENCH"
    by (simp add: select_policy_def defined_def)
  with accepted_policies_are_safe [OF pre] pre show ?thesis
    by (intro exI [of _ ?m] exI [of _ "select_policy ?m"])
       (simp add: defined_def DIRECT_PRESSURE_REQUIRED_def)
qed

end
