(* ===== verification/MachineTypes.thy ===== *)
theory MachineTypes
  imports ForcePi MotorExecutor BuildPolicy
begin

text \<open>
  The data model of the application state machine: \<^verbatim>\<open>Application/machine.h\<close>, the
  diagnostics and constants of \<^verbatim>\<open>auto_target_config.h\<close>, \<^verbatim>\<open>bench_config.h\<close> and
  \<^verbatim>\<open>direct_pulse_config.h\<close>, and the profiles of \<^verbatim>\<open>bench_config.c\<close> and
  \<^verbatim>\<open>auto_target_config.c\<close>. A signed 32-bit quantity is an \<^typ>\<open>int\<close>.
\<close>

section \<open>Enumerations\<close>

datatype MachineState =
    BOOT_SAFE
  | IDLE
  | JOG_PRESS
  | JOG_RELEASE
  | AUTO_APPROACH
  | AUTO_SETTLE
  | AUTO_PULSE
  | AUTO_HOLD
  | COMPLETE
  | FAULT
  | DIRECT_PRESS_PULSE
  | DIRECT_RELEASE_PULSE
  | FORCE_APPROACH
  | FORCE_BUILD
  | FORCE_HOLD
  | FORCE_TAPER
  | FORCE_TARGET_REACHED_OFF

datatype MachineCommandType =
    CMD_AUTO_START
  | CMD_STOP
  | CMD_JOG_PRESS
  | CMD_JOG_RELEASE
  | CMD_JOG_STOP
  | CMD_FAULT_RESET
  | CMD_ACK_COMPLETE
  | CMD_SET_TARGET
  | CMD_DIRECT_PRESS_PULSE
  | CMD_DIRECT_RELEASE_PULSE
  | CMD_FORCE_START

datatype MachineFault =
    FAULT_NONE
  | FAULT_BOOT_FAULT
  | FAULT_PRESSURE_SENSOR_FAULT
  | FAULT_OVERPRESSURE
  | FAULT_OVERCURRENT
  | FAULT_MOTION_TIMEOUT
  | FAULT_MOTOR_FAULT
  | FAULT_INTERNAL_FAULT

datatype FaultDetail =
    FAULT_DETAIL_NONE
  | FAULT_DETAIL_BOOT_CONFIGURATION
  | FAULT_DETAIL_PRESSURE_TIMEOUT
  | FAULT_DETAIL_PRESSURE_INVALID
  | FAULT_DETAIL_PRESSURE_ORDER_LOST
  | FAULT_DETAIL_SETTLE_FEEDBACK_TIMEOUT
  | FAULT_DETAIL_APPROACH_TIMEOUT
  | FAULT_DETAIL_PULSE_TIMEOUT
  | FAULT_DETAIL_CYCLE_TIMEOUT
  | FAULT_DETAIL_MOTOR_REQUEST_REJECTED
  | FAULT_DETAIL_MOTOR_HARDWARE
  | FAULT_DETAIL_INTERNAL_STATE
  | FAULT_DETAIL_DIRECT_PULSE_TIMEOUT
  | FAULT_DETAIL_LEASE_EXPIRED
  | FAULT_DETAIL_CONTACT_LOST
  | FAULT_DETAIL_SESSION_TIMEOUT
  | FAULT_DETAIL_SATURATION_TIMEOUT
  | FAULT_DETAIL_TRACKING_TIMEOUT
  | FAULT_DETAIL_NUMERIC
  | FAULT_DETAIL_ASSIST_EXCESSIVE_RISE
  | FAULT_DETAIL_POST_ASSIST_EXCESSIVE_RISE
  | FAULT_DETAIL_BUILD_EXPOSURE
  | FAULT_DETAIL_BUILD_NO_RESPONSE
  | FAULT_DETAIL_BUILD_CUTOFF
  | FAULT_DETAIL_BUILD_RESPONSE

datatype MachineCommandResult =
    COMMAND_ACCEPTED
  | COMMAND_INVALID_VALUE
  | COMMAND_NOT_ALLOWED
  | COMMAND_BUSY
  | COMMAND_NOT_READY
  | COMMAND_WRONG_OWNER
  | COMMAND_UNSUPPORTED
  | COMMAND_EXECUTOR_FAILED

datatype MachineSettlePhase = SETTLE_WAIT_DELAY | SETTLE_WAIT_SAMPLE

datatype MachineApproachProfile = APPROACH_FIRST | APPROACH_RECONTACT

datatype MachineForcePiInhibitReason =
    FORCE_PI_INHIBIT_NONE
  | FORCE_PI_INHIBIT_WAITING
  | FORCE_PI_INHIBIT_BUSY
  | FORCE_PI_INHIBIT_WRONG_DIRECTION
  | FORCE_PI_INHIBIT_RELEASE_DISABLED
  | FORCE_PI_INHIBIT_BELOW_ONE_MV

datatype AutoApproachEndReason =
    AUTO_APPROACH_END_NONE
  | AUTO_APPROACH_END_RUNNING
  | AUTO_APPROACH_END_NORMAL
  | AUTO_APPROACH_END_CONTACT
  | AUTO_APPROACH_END_STOP
  | AUTO_APPROACH_END_BACKSTOP
  | AUTO_APPROACH_END_EXECUTOR_ERROR
  | AUTO_APPROACH_END_SAFETY_FAULT

section \<open>Records\<close>

record MachineCommand =
  cmd_type :: MachineCommandType
  cmd_target_pressure_units :: int

record MachineConfig =
  cf_maximum_target_pressure_units :: int
  cf_contact_threshold_units :: int
  cf_hold_enter_tolerance_units :: int
  cf_hold_exit_tolerance_units :: int
  cf_pressure_freshness_ms :: u32
  cf_settle_delay_ms :: u32
  cf_settle_feedback_timeout_ms :: u32
  cf_first_approach_command_mv :: u32
  cf_first_approach_duration_ms :: u32
  cf_first_approach_backstop_ms :: u32
  cf_recontact_command_mv :: u32
  cf_recontact_duration_ms :: u32
  cf_recontact_backstop_ms :: u32
  cf_pulse_command_mv :: u32
  cf_pulse_duration_ms :: u32
  cf_pulse_backstop_ms :: u32
  cf_automatic_cycle_timeout_ms :: u32
  cf_bench_release_correction_enabled :: bool
  cf_raw_overpressure_enabled :: bool
  cf_raw_overpressure_limit_counts :: u32

record MachinePressureSample =
  ps_sequence :: u64
  ps_received_at_ms :: u32
  ps_raw_pressure_counts :: u32
  ps_frame :: "u8 list"
  ps_control_pressure_units :: int
  ps_frame_valid :: bool
  ps_control_units_valid :: bool

text \<open>The anonymous struct \<open>press_feedback\<close> (AutoTarget builds only).\<close>

record PressFeedback =
  pf_boost_mv :: u32
  pf_low_response_count :: u32
  pf_band :: u32
  pf_request_sequence :: u32
  pf_command_mv :: u32
  pf_completed_at_ms :: u32
  pf_before_sequence :: u64
  pf_before_units :: int
  pf_observed_peak_units :: int
  pf_in_flight :: bool
  pf_feedback_pending :: bool

record MachineContext =
  mc_state :: MachineState
  mc_fault :: MachineFault
  mc_fault_detail :: FaultDetail
  mc_last_command_result :: MachineCommandResult
  mc_settle_phase :: MachineSettlePhase
  mc_approach_profile :: MachineApproachProfile
  mc_config :: MachineConfig
  mc_pressure :: MachinePressureSample
  mc_target_pressure_units :: int
  mc_settle_gate_sequence :: u64
  mc_motor_request_sequence :: u32
  mc_state_entered_ms :: u32
  mc_cycle_started_ms :: u32
  mc_target_valid :: bool
  mc_config_valid :: bool
  mc_settle_feedback_after_ms :: u32
  mc_auto_has_contacted :: bool
  mc_auto_approach_pending :: bool
  mc_diagnostic_request_sequence :: u32
  mc_diagnostic_request_at_ms :: u32
  mc_diagnostic_command_mv :: u32
  mc_diagnostic_duration_ms :: u32
  mc_diagnostic_direction :: MotorDirection
  mc_force_pi_config :: ForcePiConfig
  mc_force_pi_state :: ForcePiState
  mc_force_pi_snapshot :: ForcePiSnapshot
  mc_force_pi_enabled :: bool
  mc_force_pi_time_valid :: bool
  mc_force_pi_received_at_ms :: u32
  mc_force_pi_sample_sequence :: u64
  mc_force_pi_inhibit_reason :: MachineForcePiInhibitReason
  mc_force_pi_blocked_suggestion_mv :: f32
  mc_force_pi_requested_signed_mv :: int
  mc_press_feedback :: PressFeedback

record AutoPressDiagnostics =
  pd_request_count :: u32
  pd_normal_completion_count :: u32
  pd_request_sequence :: u32
  pd_requested_mv :: u32
  pd_base_mv :: u32
  pd_boost_mv :: u32
  pd_duration_ms :: u32
  pd_started_at_ms :: u32
  pd_completed_request_sequence :: u32
  pd_completed_mv :: u32
  pd_completed_at_ms :: u32
  pd_end_reason :: AutoApproachEndReason
  pd_before_units :: int
  pd_observed_peak_units :: int
  pd_after_units :: int
  pd_before_sequence :: u64
  pd_after_sequence :: u64
  pd_after_received_at_ms :: u32
  pd_feedback_valid :: bool
  pd_observed_off_fall :: bool
  pd_output_disabled_at_end :: bool

record AutoApproachDiagnostics =
  ad_pulse_count :: u32
  ad_request_sequence :: u32
  ad_requested_mv :: u32
  ad_requested_duration_ms :: u32
  ad_started_at_ms :: u32
  ad_ended_at_ms :: u32
  ad_end_reason :: AutoApproachEndReason
  ad_state_before :: MachineState
  ad_state_after :: MachineState
  ad_pressure_units :: int
  ad_sample_received_at_ms :: u32
  ad_sample_sequence :: u64
  ad_pressure_fresh :: bool
  ad_output_disabled_at_start :: bool
  ad_output_disabled_at_end :: bool
  ad_logical_active_at_end :: bool
  ad_contact_cycle_started_ms :: u32
  ad_contact_sample_sequence :: u64
  ad_contact_received_at_ms :: u32
  ad_contact_decided_at_ms :: u32
  ad_approach_timeout_decided_at_ms :: u32
  ad_timeout_cycle_started_ms :: u32
  ad_approach_timeout_committed :: bool
  ad_search_started_at_ms :: u32
  ad_search_elapsed_ms :: u32
  ad_search_active :: bool
  ad_first_contact_latched :: bool
  ad_first_contact_pulse_count :: u32
  ad_first_contact_pressure_units :: int
  ad_first_contact_received_at_ms :: u32
  ad_first_contact_decided_at_ms :: u32
  ad_first_contact_sample_sequence :: u64
  ad_press :: AutoPressDiagnostics

text \<open>
  What a call of the application can change: the machine, the linked executor and
  the global \<open>g_sd700_approach_diagnostics\<close>.
\<close>

record 'e world =
  w_ctx :: MachineContext
  w_exec :: 'e
  w_diag :: AutoApproachDiagnostics

end
