(* ===== verification/MachineConfigs.thy ===== *)
theory MachineConfigs
  imports MachineTypes
begin

text \<open>
  Constants and profiles: the AutoTarget limits of \<^verbatim>\<open>auto_target_config.h\<close>, the
  profiles of \<^verbatim>\<open>bench_config.c\<close> and \<^verbatim>\<open>auto_target_config.c\<close>, the direct-pulse
  constants, the raw-count conversion of \<^verbatim>\<open>pressure_control.c\<close> and the
  configuration check \<open>Machine_ConfigIsValid\<close> of \<^verbatim>\<open>machine.c\<close>.
\<close>

section \<open>Constants\<close>

abbreviation (input) AUTO_TARGET_MAX_TARGET_UNITS :: int where "AUTO_TARGET_MAX_TARGET_UNITS \<equiv> 275"
abbreviation (input) AUTO_TARGET_CONTACT_UNITS :: int where "AUTO_TARGET_CONTACT_UNITS \<equiv> 20"
abbreviation (input) AUTO_TARGET_HOLD_ENTER_UNITS :: int where "AUTO_TARGET_HOLD_ENTER_UNITS \<equiv> 5"
abbreviation (input) AUTO_TARGET_HOLD_EXIT_UNITS :: int where "AUTO_TARGET_HOLD_EXIT_UNITS \<equiv> 10"
abbreviation (input) AUTO_TARGET_RAW_ABORT_COUNTS :: u32 where "AUTO_TARGET_RAW_ABORT_COUNTS \<equiv> 325"
abbreviation (input) AUTO_TARGET_KP_MV_PER_UNIT :: rat where "AUTO_TARGET_KP_MV_PER_UNIT \<equiv> 8"
abbreviation (input) AUTO_TARGET_PI_PRESS_MAX_MV :: rat where "AUTO_TARGET_PI_PRESS_MAX_MV \<equiv> 1200"
abbreviation (input) AUTO_TARGET_PRESS_MAX_MV :: u32 where "AUTO_TARGET_PRESS_MAX_MV \<equiv> 5000"
abbreviation (input) AUTO_TARGET_RELEASE_MAX_MV :: rat where "AUTO_TARGET_RELEASE_MAX_MV \<equiv> 800"
abbreviation (input) AUTO_TARGET_PRESS_FINE_MIN_MV :: int where "AUTO_TARGET_PRESS_FINE_MIN_MV \<equiv> 400"
abbreviation (input) AUTO_TARGET_PRESS_FINE_MAX_MV :: int where "AUTO_TARGET_PRESS_FINE_MAX_MV \<equiv> 1000"
abbreviation (input) AUTO_TARGET_PRESS_MICRO_MIN_MV :: int where "AUTO_TARGET_PRESS_MICRO_MIN_MV \<equiv> 1000"
abbreviation (input) AUTO_TARGET_PRESS_MICRO_MAX_MV :: int where "AUTO_TARGET_PRESS_MICRO_MAX_MV \<equiv> 3000"
abbreviation (input) AUTO_TARGET_PRESS_MICRO_RAMP_UNITS :: int where
  "AUTO_TARGET_PRESS_MICRO_RAMP_UNITS \<equiv> 100"
abbreviation (input) AUTO_TARGET_PRESS_BOOST_STEP_MV :: u32 where "AUTO_TARGET_PRESS_BOOST_STEP_MV \<equiv> 300"
abbreviation (input) AUTO_TARGET_PRESS_FINE_BOOST_MAX_MV :: u32 where
  "AUTO_TARGET_PRESS_FINE_BOOST_MAX_MV \<equiv> 1000"
abbreviation (input) AUTO_TARGET_PRESS_MICRO_BOOST_MAX_MV :: u32 where
  "AUTO_TARGET_PRESS_MICRO_BOOST_MAX_MV \<equiv> 2000"
abbreviation (input) AUTO_TARGET_PRESS_LOW_RESPONSE_PAIRS :: u32 where
  "AUTO_TARGET_PRESS_LOW_RESPONSE_PAIRS \<equiv> 2"
abbreviation (input) AUTO_TARGET_PRESS_EFFECTIVE_RISE_UNITS :: int where
  "AUTO_TARGET_PRESS_EFFECTIVE_RISE_UNITS \<equiv> 2"
abbreviation (input) AUTO_TARGET_FIRST_COMMAND_MV :: u32 where "AUTO_TARGET_FIRST_COMMAND_MV \<equiv> 10000"
abbreviation (input) AUTO_TARGET_FIRST_DURATION_MS :: u32 where "AUTO_TARGET_FIRST_DURATION_MS \<equiv> 20"
abbreviation (input) AUTO_TARGET_FIRST_BACKSTOP_MS :: u32 where "AUTO_TARGET_FIRST_BACKSTOP_MS \<equiv> 50"
abbreviation (input) AUTO_TARGET_RECONTACT_COMMAND_MV :: u32 where
  "AUTO_TARGET_RECONTACT_COMMAND_MV \<equiv> 10000"
abbreviation (input) AUTO_TARGET_RECONTACT_DURATION_MS :: u32 where
  "AUTO_TARGET_RECONTACT_DURATION_MS \<equiv> 10"
abbreviation (input) AUTO_TARGET_RECONTACT_BACKSTOP_MS :: u32 where
  "AUTO_TARGET_RECONTACT_BACKSTOP_MS \<equiv> 40"
abbreviation (input) AUTO_TARGET_PULSE_DURATION_MS :: u32 where "AUTO_TARGET_PULSE_DURATION_MS \<equiv> 10"
abbreviation (input) AUTO_TARGET_PULSE_BACKSTOP_MS :: u32 where "AUTO_TARGET_PULSE_BACKSTOP_MS \<equiv> 40"
abbreviation (input) AUTO_TARGET_SETTLE_DELAY_MS :: u32 where "AUTO_TARGET_SETTLE_DELAY_MS \<equiv> 50"
abbreviation (input) AUTO_TARGET_FEEDBACK_TIMEOUT_MS :: u32 where "AUTO_TARGET_FEEDBACK_TIMEOUT_MS \<equiv> 250"
abbreviation (input) AUTO_TARGET_PRESSURE_FRESHNESS_MS :: u32 where
  "AUTO_TARGET_PRESSURE_FRESHNESS_MS \<equiv> 200"
abbreviation (input) AUTO_TARGET_CONVERGENCE_TIMEOUT_MS :: u32 where
  "AUTO_TARGET_CONVERGENCE_TIMEOUT_MS \<equiv> 30000"

abbreviation (input) SD700_DIRECT_PULSE_COMMAND_MV :: u32 where "SD700_DIRECT_PULSE_COMMAND_MV \<equiv> 10000"
abbreviation (input) SD700_DIRECT_PULSE_DURATION_MS :: u32 where "SD700_DIRECT_PULSE_DURATION_MS \<equiv> 100"
abbreviation (input) SD700_DIRECT_PULSE_BACKSTOP_MS :: u32 where "SD700_DIRECT_PULSE_BACKSTOP_MS \<equiv> 150"

text \<open>The build constants of \<^verbatim>\<open>bench_config.h\<close>.\<close>

abbreviation (input) SD700_PHYSICAL_MOTOR_OUTPUT_LOCKED :: bool where
  "SD700_PHYSICAL_MOTOR_OUTPUT_LOCKED \<equiv> True"
abbreviation (input) SD700_BENCH_RAW_COUNTS_CONTROL :: bool where
  "SD700_BENCH_RAW_COUNTS_CONTROL \<equiv> True"
abbreviation (input) SD700_BENCH_RELEASE_CORRECTION_ENABLED :: bool where
  "SD700_BENCH_RELEASE_CORRECTION_ENABLED \<equiv> True"

section \<open>Profiles\<close>

definition g_sd700_bench_machine_config :: MachineConfig where
  "g_sd700_bench_machine_config =
    \<lparr>cf_maximum_target_pressure_units = 60000, cf_contact_threshold_units = 100,
     cf_hold_enter_tolerance_units = 5, cf_hold_exit_tolerance_units = 10,
     cf_pressure_freshness_ms = 200, cf_settle_delay_ms = 10,
     cf_settle_feedback_timeout_ms = 200,
     cf_first_approach_command_mv = 6000, cf_first_approach_duration_ms = 250,
     cf_first_approach_backstop_ms = 300, cf_recontact_command_mv = 3000,
     cf_recontact_duration_ms = 100, cf_recontact_backstop_ms = 150,
     cf_pulse_command_mv = 2000, cf_pulse_duration_ms = 20, cf_pulse_backstop_ms = 50,
     cf_automatic_cycle_timeout_ms = 2000,
     cf_bench_release_correction_enabled = SD700_BENCH_RELEASE_CORRECTION_ENABLED,
     cf_raw_overpressure_enabled = False, cf_raw_overpressure_limit_counts = 0\<rparr>"

definition g_sd700_auto_target_machine_config :: MachineConfig where
  "g_sd700_auto_target_machine_config =
    \<lparr>cf_maximum_target_pressure_units = AUTO_TARGET_MAX_TARGET_UNITS,
     cf_contact_threshold_units = AUTO_TARGET_CONTACT_UNITS,
     cf_hold_enter_tolerance_units = AUTO_TARGET_HOLD_ENTER_UNITS,
     cf_hold_exit_tolerance_units = AUTO_TARGET_HOLD_EXIT_UNITS,
     cf_pressure_freshness_ms = AUTO_TARGET_PRESSURE_FRESHNESS_MS,
     cf_settle_delay_ms = AUTO_TARGET_SETTLE_DELAY_MS,
     cf_settle_feedback_timeout_ms = AUTO_TARGET_FEEDBACK_TIMEOUT_MS,
     cf_first_approach_command_mv = AUTO_TARGET_FIRST_COMMAND_MV,
     cf_first_approach_duration_ms = AUTO_TARGET_FIRST_DURATION_MS,
     cf_first_approach_backstop_ms = AUTO_TARGET_FIRST_BACKSTOP_MS,
     cf_recontact_command_mv = AUTO_TARGET_RECONTACT_COMMAND_MV,
     cf_recontact_duration_ms = AUTO_TARGET_RECONTACT_DURATION_MS,
     cf_recontact_backstop_ms = AUTO_TARGET_RECONTACT_BACKSTOP_MS,
     cf_pulse_command_mv = AUTO_TARGET_PRESS_MAX_MV,
     cf_pulse_duration_ms = AUTO_TARGET_PULSE_DURATION_MS,
     cf_pulse_backstop_ms = AUTO_TARGET_PULSE_BACKSTOP_MS,
     cf_automatic_cycle_timeout_ms = AUTO_TARGET_CONVERGENCE_TIMEOUT_MS,
     cf_bench_release_correction_enabled = True,
     cf_raw_overpressure_enabled = True,
     cf_raw_overpressure_limit_counts = AUTO_TARGET_RAW_ABORT_COUNTS\<rparr>"

definition g_sd700_auto_target_force_pi_config :: ForcePiConfig where
  "g_sd700_auto_target_force_pi_config =
    \<lparr>fpc_kp_mv_per_unit = Fin AUTO_TARGET_KP_MV_PER_UNIT, fpc_ki_mv_per_unit_s = Fin 0,
     fpc_output_min_mv = Fin (- AUTO_TARGET_RELEASE_MAX_MV),
     fpc_output_max_mv = Fin AUTO_TARGET_PI_PRESS_MAX_MV,
     fpc_integral_min_mv = Fin 0, fpc_integral_max_mv = Fin 0, fpc_maximum_dt_s = Fin 1\<rparr>"

section \<open>Conversion and the configuration check\<close>

text \<open>\<^verbatim>\<open>PressureControl_ConvertRawCounts\<close>: success and the converted value.\<close>

definition PressureControl_ConvertRawCounts :: "u16 \<Rightarrow> bool \<times> int" where
  "PressureControl_ConvertRawCounts raw_pressure_counts =
    (if SD700_BENCH_RAW_COUNTS_CONTROL then (True, uint raw_pressure_counts) else (False, 0))"

definition auto_target_config_rejected :: "MachineConfig \<Rightarrow> bool" where
  "auto_target_config_rejected c \<longleftrightarrow>
    \<not> cf_raw_overpressure_enabled c \<or>
    cf_raw_overpressure_limit_counts c > AUTO_TARGET_RAW_ABORT_COUNTS \<or>
    cf_maximum_target_pressure_units c + cf_hold_exit_tolerance_units c
      \<ge> uint (cf_raw_overpressure_limit_counts c) \<or>
    cf_maximum_target_pressure_units c > AUTO_TARGET_MAX_TARGET_UNITS \<or>
    cf_first_approach_command_mv c > AUTO_TARGET_FIRST_COMMAND_MV \<or>
    cf_first_approach_duration_ms c > AUTO_TARGET_FIRST_DURATION_MS \<or>
    cf_first_approach_backstop_ms c > AUTO_TARGET_FIRST_BACKSTOP_MS \<or>
    cf_recontact_command_mv c > AUTO_TARGET_RECONTACT_COMMAND_MV \<or>
    cf_recontact_duration_ms c > AUTO_TARGET_RECONTACT_DURATION_MS \<or>
    cf_recontact_backstop_ms c > AUTO_TARGET_RECONTACT_BACKSTOP_MS \<or>
    cf_pulse_command_mv c > AUTO_TARGET_PRESS_MAX_MV \<or>
    cf_pulse_duration_ms c > AUTO_TARGET_PULSE_DURATION_MS \<or>
    cf_pulse_backstop_ms c > AUTO_TARGET_PULSE_BACKSTOP_MS \<or>
    cf_automatic_cycle_timeout_ms c > AUTO_TARGET_CONVERGENCE_TIMEOUT_MS \<or>
    cf_pressure_freshness_ms c > AUTO_TARGET_PRESSURE_FRESHNESS_MS \<or>
    cf_settle_delay_ms c < AUTO_TARGET_SETTLE_DELAY_MS \<or>
    cf_settle_feedback_timeout_ms c > AUTO_TARGET_FEEDBACK_TIMEOUT_MS"

definition Machine_ConfigIsValid :: "build_policy \<Rightarrow> MachineConfig option \<Rightarrow> bool" where
  "Machine_ConfigIsValid p config =
    (case config of
       None \<Rightarrow> False
     | Some c \<Rightarrow>
         (if AUTO_TARGET_ENABLED p \<and> auto_target_config_rejected c then False
          else
            cf_maximum_target_pressure_units c > 0 \<and>
            cf_contact_threshold_units c \<ge> 0 \<and>
            cf_contact_threshold_units c < cf_maximum_target_pressure_units c \<and>
            cf_hold_enter_tolerance_units c \<ge> 0 \<and>
            cf_hold_exit_tolerance_units c > cf_hold_enter_tolerance_units c \<and>
            cf_maximum_target_pressure_units c \<le> INT32_MAX - cf_hold_exit_tolerance_units c \<and>
            cf_pressure_freshness_ms c > 0 \<and>
            cf_settle_delay_ms c > 0 \<and>
            cf_settle_feedback_timeout_ms c > 0 \<and>
            cf_first_approach_command_mv c > 0 \<and>
            cf_first_approach_duration_ms c > 0 \<and>
            cf_first_approach_backstop_ms c > cf_first_approach_duration_ms c \<and>
            cf_recontact_command_mv c > 0 \<and>
            cf_recontact_duration_ms c > 0 \<and>
            cf_recontact_backstop_ms c > cf_recontact_duration_ms c \<and>
            cf_pulse_command_mv c > 0 \<and>
            cf_pulse_duration_ms c > 0 \<and>
            cf_pulse_backstop_ms c > cf_pulse_duration_ms c \<and>
            cf_automatic_cycle_timeout_ms c > 0 \<and>
            (\<not> cf_raw_overpressure_enabled c \<or> cf_raw_overpressure_limit_counts c > 0)))"

text \<open>The profiles the firmware links are valid for the builds that link them: the
  bench profile for every build without AutoTarget, the AutoTarget profile for every
  build; and an AutoTarget build rejects the bench profile.\<close>

theorem linked_profiles_valid:
  "Machine_ConfigIsValid p (Some g_sd700_bench_machine_config) = (\<not> AUTO_TARGET_ENABLED p)
   \<and> Machine_ConfigIsValid p (Some g_sd700_auto_target_machine_config)
   \<and> ForcePi_ConfigIsValid g_sd700_auto_target_force_pi_config"
  by (simp add: Machine_ConfigIsValid_def g_sd700_bench_machine_config_def
      g_sd700_auto_target_machine_config_def auto_target_config_rejected_def INT32_MAX_def
      ForcePi_ConfigIsValid_def g_sd700_auto_target_force_pi_config_def)

end
