(* ===== verification/Machine.thy ===== *)
theory Machine
  imports MachineConfigs "HOL-Library.Signed_Division"
begin

text \<open>
  The application state machine, \<^verbatim>\<open>Application/machine.c\<close>, function by function in
  the order of its call graph, for every build without ForceServo (the file is empty when
  \<^verbatim>\<open>SD700_FORCE_SERVO_ENABLED\<close> is 1), its other flags in the policy \<open>p\<close>, and every
  executor backend \<open>ops\<close>. Every function takes the world (machine, executor, diagnostics) and
  returns it changed; \<open>context\<close>, \<open>config\<close> and \<open>sample\<close> are the objects behind
  non-NULL pointers, except where the code passes NULL on. Conditions that call
  the executor are evaluated in the code's order with short-circuiting
  (\<open>all_of\<close>, \<open>any_of\<close>). Results of expressions in \<open>int32_t\<close> and \<open>int64_t\<close> are
  mathematical integers; theory \<open>MachineRange\<close> bounds those of the control law.
\<close>

section \<open>Threading the world\<close>

definition ctx_upd :: "(MachineContext \<Rightarrow> MachineContext) \<Rightarrow> 'e world \<Rightarrow> 'e world" where
  "ctx_upd f w = w\<lparr>w_ctx := f (w_ctx w)\<rparr>"

definition diag_upd ::
  "(AutoApproachDiagnostics \<Rightarrow> AutoApproachDiagnostics) \<Rightarrow> 'e world \<Rightarrow> 'e world" where
  "diag_upd f w = w\<lparr>w_diag := f (w_diag w)\<rparr>"

definition press_upd :: "(AutoPressDiagnostics \<Rightarrow> AutoPressDiagnostics) \<Rightarrow> 'e world \<Rightarrow> 'e world" where
  "press_upd f w = diag_upd (\<lambda>d. d\<lparr>ad_press := f (ad_press d)\<rparr>) w"

definition pf_upd :: "(PressFeedback \<Rightarrow> PressFeedback) \<Rightarrow> 'e world \<Rightarrow> 'e world" where
  "pf_upd f w = ctx_upd (\<lambda>c. c\<lparr>mc_press_feedback := f (mc_press_feedback c)\<rparr>) w"

text \<open>A call of the executor, and the snapshot its pointer designates at the moment.\<close>

definition exec :: "('e \<Rightarrow> 'r \<times> 'e) \<Rightarrow> 'e world \<Rightarrow> 'r \<times> 'e world" where
  "exec f w = (case f (w_exec w) of (r, e) \<Rightarrow> (r, w\<lparr>w_exec := e\<rparr>))"

definition motor :: "'e executor \<Rightarrow> 'e world \<Rightarrow> MotorExecutorSnapshot" where
  "motor ops w = ex_motor ops (w_exec w)"

section \<open>Zeroed objects\<close>

definition zero_machine_config :: MachineConfig where
  "zero_machine_config =
    \<lparr>cf_maximum_target_pressure_units = 0, cf_contact_threshold_units = 0,
     cf_hold_enter_tolerance_units = 0, cf_hold_exit_tolerance_units = 0,
     cf_pressure_freshness_ms = 0, cf_settle_delay_ms = 0, cf_settle_feedback_timeout_ms = 0,
     cf_first_approach_command_mv = 0, cf_first_approach_duration_ms = 0,
     cf_first_approach_backstop_ms = 0, cf_recontact_command_mv = 0,
     cf_recontact_duration_ms = 0, cf_recontact_backstop_ms = 0, cf_pulse_command_mv = 0,
     cf_pulse_duration_ms = 0, cf_pulse_backstop_ms = 0, cf_automatic_cycle_timeout_ms = 0,
     cf_bench_release_correction_enabled = False, cf_raw_overpressure_enabled = False,
     cf_raw_overpressure_limit_counts = 0\<rparr>"

definition zero_sample :: MachinePressureSample where
  "zero_sample =
    \<lparr>ps_sequence = 0, ps_received_at_ms = 0, ps_raw_pressure_counts = 0,
     ps_frame = replicate 7 0, ps_control_pressure_units = 0, ps_frame_valid = False,
     ps_control_units_valid = False\<rparr>"

definition zero_press_feedback :: PressFeedback where
  "zero_press_feedback =
    \<lparr>pf_boost_mv = 0, pf_low_response_count = 0, pf_band = 0, pf_request_sequence = 0,
     pf_command_mv = 0, pf_completed_at_ms = 0, pf_before_sequence = 0, pf_before_units = 0,
     pf_observed_peak_units = 0, pf_in_flight = False, pf_feedback_pending = False\<rparr>"

definition zero_context :: MachineContext where
  "zero_context =
    \<lparr>mc_state = BOOT_SAFE, mc_fault = FAULT_NONE, mc_fault_detail = FAULT_DETAIL_NONE,
     mc_last_command_result = COMMAND_ACCEPTED, mc_settle_phase = SETTLE_WAIT_DELAY,
     mc_approach_profile = APPROACH_FIRST, mc_config = zero_machine_config,
     mc_pressure = zero_sample, mc_target_pressure_units = 0, mc_settle_gate_sequence = 0,
     mc_motor_request_sequence = 0, mc_state_entered_ms = 0, mc_cycle_started_ms = 0,
     mc_target_valid = False, mc_config_valid = False, mc_settle_feedback_after_ms = 0,
     mc_auto_has_contacted = False, mc_auto_approach_pending = False,
     mc_diagnostic_request_sequence = 0, mc_diagnostic_request_at_ms = 0,
     mc_diagnostic_command_mv = 0, mc_diagnostic_duration_ms = 0,
     mc_diagnostic_direction = MOTOR_DIRECTION_PRESS, mc_force_pi_config = zero_config,
     mc_force_pi_state = zero_state, mc_force_pi_snapshot = zero_snapshot,
     mc_force_pi_enabled = False, mc_force_pi_time_valid = False,
     mc_force_pi_received_at_ms = 0, mc_force_pi_sample_sequence = 0,
     mc_force_pi_inhibit_reason = FORCE_PI_INHIBIT_NONE,
     mc_force_pi_blocked_suggestion_mv = Fin 0, mc_force_pi_requested_signed_mv = 0,
     mc_press_feedback = zero_press_feedback\<rparr>"

definition zero_press_diagnostics :: AutoPressDiagnostics where
  "zero_press_diagnostics =
    \<lparr>pd_request_count = 0, pd_normal_completion_count = 0, pd_request_sequence = 0,
     pd_requested_mv = 0, pd_base_mv = 0, pd_boost_mv = 0, pd_duration_ms = 0,
     pd_started_at_ms = 0, pd_completed_request_sequence = 0, pd_completed_mv = 0,
     pd_completed_at_ms = 0, pd_end_reason = AUTO_APPROACH_END_NONE, pd_before_units = 0,
     pd_observed_peak_units = 0, pd_after_units = 0, pd_before_sequence = 0,
     pd_after_sequence = 0, pd_after_received_at_ms = 0, pd_feedback_valid = False,
     pd_observed_off_fall = False, pd_output_disabled_at_end = False\<rparr>"

definition zero_diagnostics :: AutoApproachDiagnostics where
  "zero_diagnostics =
    \<lparr>ad_pulse_count = 0, ad_request_sequence = 0, ad_requested_mv = 0,
     ad_requested_duration_ms = 0, ad_started_at_ms = 0, ad_ended_at_ms = 0,
     ad_end_reason = AUTO_APPROACH_END_NONE, ad_state_before = BOOT_SAFE,
     ad_state_after = BOOT_SAFE, ad_pressure_units = 0, ad_sample_received_at_ms = 0,
     ad_sample_sequence = 0, ad_pressure_fresh = False, ad_output_disabled_at_start = False,
     ad_output_disabled_at_end = False, ad_logical_active_at_end = False,
     ad_contact_cycle_started_ms = 0, ad_contact_sample_sequence = 0,
     ad_contact_received_at_ms = 0, ad_contact_decided_at_ms = 0,
     ad_approach_timeout_decided_at_ms = 0, ad_timeout_cycle_started_ms = 0,
     ad_approach_timeout_committed = False, ad_search_started_at_ms = 0,
     ad_search_elapsed_ms = 0, ad_search_active = False, ad_first_contact_latched = False,
     ad_first_contact_pulse_count = 0, ad_first_contact_pressure_units = 0,
     ad_first_contact_received_at_ms = 0, ad_first_contact_decided_at_ms = 0,
     ad_first_contact_sample_sequence = 0, ad_press = zero_press_diagnostics\<rparr>"

section \<open>State classes and freshness\<close>

definition Machine_StateIsAutomatic :: "MachineState \<Rightarrow> bool" where
  "Machine_StateIsAutomatic state \<longleftrightarrow>
    state = AUTO_APPROACH \<or> state = AUTO_SETTLE \<or> state = AUTO_PULSE \<or> state = AUTO_HOLD"

definition Machine_StateIsDirectPulse :: "MachineState \<Rightarrow> bool" where
  "Machine_StateIsDirectPulse state \<longleftrightarrow>
    state = DIRECT_PRESS_PULSE \<or> state = DIRECT_RELEASE_PULSE"

definition Machine_StateRequiresPressureSafety :: "build_policy \<Rightarrow> MachineState \<Rightarrow> bool" where
  "Machine_StateRequiresPressureSafety p state \<longleftrightarrow>
    (if Machine_StateIsAutomatic state then True
     else if DIRECT_PRESSURE_REQUIRED p then Machine_StateIsDirectPulse state
     else False)"

definition Machine_IsPressureFresh :: "MachineContext \<Rightarrow> u32 \<Rightarrow> bool" where
  "Machine_IsPressureFresh c now_ms \<longleftrightarrow>
    ps_frame_valid (mc_pressure c) \<and> ps_control_units_valid (mc_pressure c)
    \<and> now_ms - ps_received_at_ms (mc_pressure c) \<le> cf_pressure_freshness_ms (mc_config c)"

definition Machine_ClearTransientMotion :: "'e world \<Rightarrow> 'e world" where
  "Machine_ClearTransientMotion =
    ctx_upd (\<lambda>c. c\<lparr>mc_motor_request_sequence := 0, mc_settle_gate_sequence := 0,
      mc_settle_phase := SETTLE_WAIT_DELAY, mc_approach_profile := APPROACH_FIRST,
      mc_auto_has_contacted := False, mc_auto_approach_pending := False\<rparr>)"

section \<open>Press feedback (AutoTarget)\<close>

definition Machine_ResetPressFeedback :: "'e world \<Rightarrow> 'e world" where
  "Machine_ResetPressFeedback = ctx_upd (\<lambda>c. c\<lparr>mc_press_feedback := zero_press_feedback\<rparr>)"

definition Machine_RecordPressEnd ::
  "'e executor \<Rightarrow> AutoApproachEndReason \<Rightarrow> u32 \<Rightarrow> 'e world \<Rightarrow> 'e world" where
  "Machine_RecordPressEnd ops reason now_ms w =
    (let f = mc_press_feedback (w_ctx w)
     in if \<not> pf_in_flight f then w
        else
          (let w = press_upd (\<lambda>d. d\<lparr>pd_completed_request_sequence := pf_request_sequence f,
                 pd_completed_mv := pf_command_mv f, pd_completed_at_ms := now_ms,
                 pd_end_reason := reason, pd_before_units := pf_before_units f,
                 pd_before_sequence := pf_before_sequence f,
                 pd_observed_peak_units := pf_observed_peak_units f, pd_after_units := 0,
                 pd_after_sequence := 0, pd_after_received_at_ms := 0,
                 pd_feedback_valid := False, pd_observed_off_fall := False\<rparr>) w;
               (disabled, w) = exec (ex_OutputIsDisabled ops) w;
               w = press_upd (\<lambda>d. d\<lparr>pd_output_disabled_at_end := disabled\<rparr>) w;
               w = (if reason = AUTO_APPROACH_END_NORMAL
                    then press_upd (\<lambda>d. d\<lparr>pd_normal_completion_count :=
                           pd_normal_completion_count d + 1\<rparr>) w
                    else w)
           in pf_upd (\<lambda>f. f\<lparr>pf_in_flight := False\<rparr>) w))"

definition press_error :: "MachineContext \<Rightarrow> int" where
  "press_error c = mc_target_pressure_units c - ps_control_pressure_units (mc_pressure c)"

definition Machine_PressBand :: "MachineContext \<Rightarrow> u32" where
  "Machine_PressBand c =
    (if press_error c \<le> cf_hold_exit_tolerance_units (mc_config c) then 1
     else if press_error c \<le> 2 * cf_hold_exit_tolerance_units (mc_config c) then 2
     else 3)"

definition Machine_PressBoostLimit :: "MachineContext \<Rightarrow> u32" where
  "Machine_PressBoostLimit c =
    (let band = Machine_PressBand c
     in if band = 3 then AUTO_TARGET_PRESS_MICRO_BOOST_MAX_MV
        else if band = 2 then AUTO_TARGET_PRESS_FINE_BOOST_MAX_MV else 0)"

definition Machine_SelectPressBand :: "'e world \<Rightarrow> 'e world" where
  "Machine_SelectPressBand w =
    (let band = Machine_PressBand (w_ctx w);
         w = (if band \<noteq> pf_band (mc_press_feedback (w_ctx w)) \<or> band = 1
              then pf_upd (\<lambda>f. f\<lparr>pf_boost_mv := 0, pf_low_response_count := 0\<rparr>) w
              else w)
     in pf_upd (\<lambda>f. f\<lparr>pf_band := band\<rparr>) w)"

definition Machine_PressBaseMv :: "MachineContext \<Rightarrow> u32" where
  "Machine_PressBaseMv c =
    (let error = press_error c;
         enter = cf_hold_enter_tolerance_units (mc_config c);
         fine_top = 2 * cf_hold_exit_tolerance_units (mc_config c)
     in if error \<le> enter then 0
        else if error \<le> fine_top
        then of_int AUTO_TARGET_PRESS_FINE_MIN_MV
             + of_int (((error - enter)
                 * (AUTO_TARGET_PRESS_FINE_MAX_MV - AUTO_TARGET_PRESS_FINE_MIN_MV))
                 sdiv (fine_top - enter))
        else
          (let error = error - fine_top
           in if error \<ge> AUTO_TARGET_PRESS_MICRO_RAMP_UNITS
              then of_int AUTO_TARGET_PRESS_MICRO_MAX_MV
              else of_int AUTO_TARGET_PRESS_MICRO_MIN_MV
                   + of_int ((error
                       * (AUTO_TARGET_PRESS_MICRO_MAX_MV - AUTO_TARGET_PRESS_MICRO_MIN_MV))
                       sdiv AUTO_TARGET_PRESS_MICRO_RAMP_UNITS)))"

text \<open>The response classification at the end of \<open>Machine_ConsumePressFeedback\<close>.\<close>

definition press_response :: "int \<Rightarrow> 'e world \<Rightarrow> 'e world" where
  "press_response rise w =
    (if rise \<ge> AUTO_TARGET_PRESS_EFFECTIVE_RISE_UNITS \<or> Machine_PressBoostLimit (w_ctx w) = 0
     then
       (let limit = (if pf_band (mc_press_feedback (w_ctx w)) = 3
                     then Machine_PressBoostLimit (w_ctx w) else 0)
        in pf_upd (\<lambda>f. f\<lparr>pf_boost_mv := (if pf_boost_mv f > limit then limit else pf_boost_mv f),
                         pf_low_response_count := 0\<rparr>) w)
     else
       (let w = pf_upd (\<lambda>f. f\<lparr>pf_low_response_count := pf_low_response_count f + 1\<rparr>) w
        in if pf_low_response_count (mc_press_feedback (w_ctx w))
                \<ge> AUTO_TARGET_PRESS_LOW_RESPONSE_PAIRS
           then
             (let nxt = pf_boost_mv (mc_press_feedback (w_ctx w)) + AUTO_TARGET_PRESS_BOOST_STEP_MV;
                  limit = Machine_PressBoostLimit (w_ctx w)
              in pf_upd (\<lambda>f. f\<lparr>pf_boost_mv := (if nxt < limit then nxt else limit),
                               pf_low_response_count := 0\<rparr>) w)
           else w))"

definition Machine_ConsumePressFeedback :: "'e world \<Rightarrow> 'e world" where
  "Machine_ConsumePressFeedback w =
    (if \<not> pf_feedback_pending (mc_press_feedback (w_ctx w)) then w
     else
       (let w = pf_upd (\<lambda>f. f\<lparr>pf_feedback_pending := False\<rparr>) w;
            c = w_ctx w; f = mc_press_feedback c; s = mc_pressure c
        in if mc_diagnostic_request_sequence c \<noteq> pf_request_sequence f \<or>
              ps_sequence s \<le> pf_before_sequence f \<or>
              ps_received_at_ms s - pf_completed_at_ms f \<ge> 0x80000000
           then Machine_ResetPressFeedback w
           else
             (let w = press_upd (\<lambda>d. d\<lparr>pd_after_units := ps_control_pressure_units s,
                    pd_after_sequence := ps_sequence s,
                    pd_after_received_at_ms := ps_received_at_ms s,
                    pd_feedback_valid := True\<rparr>) w;
                  w = press_upd (\<lambda>d. d\<lparr>pd_observed_off_fall :=
                    (pd_observed_peak_units d - pd_before_units d
                        \<ge> AUTO_TARGET_PRESS_EFFECTIVE_RISE_UNITS
                     \<and> pd_observed_peak_units d - pd_after_units d
                        \<ge> AUTO_TARGET_PRESS_EFFECTIVE_RISE_UNITS)\<rparr>) w;
                  rise = pd_after_units (ad_press (w_diag w))
                         - pd_before_units (ad_press (w_diag w))
              in if ps_control_pressure_units s < cf_contact_threshold_units (mc_config c) \<or>
                    ps_control_pressure_units s
                      \<ge> mc_target_pressure_units c - cf_hold_enter_tolerance_units (mc_config c)
                 then Machine_ResetPressFeedback w
                 else if pf_band (mc_press_feedback (w_ctx w)) \<noteq> Machine_PressBand (w_ctx w)
                 then Machine_SelectPressBand w
                 else press_response rise (Machine_SelectPressBand w))))"

section \<open>Reset, diagnostics and faults\<close>

definition Machine_ResetForcePi :: "build_policy \<Rightarrow> 'e world \<Rightarrow> 'e world" where
  "Machine_ResetForcePi p w =
    (let w = (if AUTO_TARGET_ENABLED p then Machine_ResetPressFeedback w else w)
     in ctx_upd (\<lambda>c. c\<lparr>
          mc_force_pi_state :=
            (snd (ForcePi_Reset (mc_force_pi_state c)))\<lparr>fps_integral_mv := Fin 0\<rparr>,
          mc_force_pi_snapshot := zero_snapshot, mc_force_pi_time_valid := False,
          mc_force_pi_received_at_ms := 0, mc_force_pi_sample_sequence := 0,
          mc_force_pi_inhibit_reason := FORCE_PI_INHIBIT_NONE,
          mc_force_pi_blocked_suggestion_mv := Fin 0,
          mc_force_pi_requested_signed_mv := 0\<rparr>) w)"

definition Machine_UpdateApproachMeasurement :: "u32 \<Rightarrow> bool \<Rightarrow> 'e world \<Rightarrow> 'e world" where
  "Machine_UpdateApproachMeasurement now_ms finish w =
    (let c = w_ctx w
     in if \<not> ad_search_active (w_diag w) then w
        else
          diag_upd (\<lambda>d. d\<lparr>ad_search_elapsed_ms := now_ms - ad_search_started_at_ms d,
            ad_pressure_units := ps_control_pressure_units (mc_pressure c),
            ad_sample_received_at_ms := ps_received_at_ms (mc_pressure c),
            ad_sample_sequence := ps_sequence (mc_pressure c),
            ad_pressure_fresh := Machine_IsPressureFresh c now_ms,
            ad_search_active := (if finish then False else ad_search_active d)\<rparr>) w)"

definition Machine_RecordFirstContact :: "u32 \<Rightarrow> 'e world \<Rightarrow> 'e world" where
  "Machine_RecordFirstContact now_ms w =
    (let c = w_ctx w
     in if ad_first_contact_latched (w_diag w) then w
        else
          diag_upd (\<lambda>d. d\<lparr>
            ad_search_elapsed_ms :=
              (if ad_search_active d
               then ps_received_at_ms (mc_pressure c) - ad_search_started_at_ms d else 0),
            ad_search_active := False, ad_first_contact_latched := True,
            ad_first_contact_pulse_count := ad_pulse_count d,
            ad_first_contact_pressure_units := ps_control_pressure_units (mc_pressure c),
            ad_first_contact_received_at_ms := ps_received_at_ms (mc_pressure c),
            ad_first_contact_decided_at_ms := now_ms,
            ad_first_contact_sample_sequence := ps_sequence (mc_pressure c),
            ad_pressure_units := ps_control_pressure_units (mc_pressure c),
            ad_sample_received_at_ms := ps_received_at_ms (mc_pressure c),
            ad_sample_sequence := ps_sequence (mc_pressure c),
            ad_pressure_fresh := Machine_IsPressureFresh c now_ms\<rparr>) w)"

definition Machine_RecordApproachEnd ::
  "'e executor \<Rightarrow> AutoApproachEndReason \<Rightarrow> u32 \<Rightarrow> 'e world \<Rightarrow> 'e world" where
  "Machine_RecordApproachEnd ops reason now_ms w =
    (let (have, w) = exec (ex_GetSnapshot ops) w; m = motor ops w; c = w_ctx w
     in if ad_end_reason (w_diag w) \<noteq> AUTO_APPROACH_END_RUNNING then w
        else
          diag_upd (\<lambda>d. d\<lparr>ad_end_reason := reason, ad_ended_at_ms := now_ms,
            ad_state_after := mc_state c,
            ad_pressure_units := ps_control_pressure_units (mc_pressure c),
            ad_sample_received_at_ms := ps_received_at_ms (mc_pressure c),
            ad_sample_sequence := ps_sequence (mc_pressure c),
            ad_pressure_fresh := Machine_IsPressureFresh c now_ms,
            ad_output_disabled_at_end := (have \<and> mx_physical_output_disabled m),
            ad_logical_active_at_end := (have \<and> mx_logical_active m)\<rparr>) w)"

definition Machine_EnterFault ::
  "build_policy \<Rightarrow> 'e executor \<Rightarrow> MachineFault \<Rightarrow> FaultDetail \<Rightarrow> u32 \<Rightarrow> 'e world \<Rightarrow> 'e world" where
  "Machine_EnterFault p ops fault detail now_ms w =
    (let (approach_reason, w) =
       (if AUTO_TARGET_ENABLED p
        then
          (let (have, w) = exec (ex_GetSnapshot ops) w;
               approach_reason =
                 (if have \<and> mx_last_completion (motor ops w) = MOTOR_COMPLETION_BACKSTOP
                  then AUTO_APPROACH_END_BACKSTOP
                  else if fault = FAULT_MOTOR_FAULT then AUTO_APPROACH_END_EXECUTOR_ERROR
                  else AUTO_APPROACH_END_SAFETY_FAULT);
               w = (if fault = FAULT_MOTION_TIMEOUT \<and> detail = FAULT_DETAIL_APPROACH_TIMEOUT
                    then diag_upd (\<lambda>d. d\<lparr>ad_approach_timeout_decided_at_ms := now_ms,
                           ad_timeout_cycle_started_ms := mc_cycle_started_ms (w_ctx w),
                           ad_approach_timeout_committed := True\<rparr>) w
                    else w)
           in (approach_reason, w))
        else (AUTO_APPROACH_END_NONE, w));
       detail = (if fault = FAULT_MOTOR_FAULT \<and> detail = FAULT_DETAIL_NONE
                 then FAULT_DETAIL_MOTOR_HARDWARE else detail);
       (_, w) = exec (ex_Disable ops) w;
       w = (if AUTO_TARGET_ENABLED p
            then Machine_UpdateApproachMeasurement now_ms True
                   (Machine_RecordPressEnd ops approach_reason now_ms w)
            else w);
       w = Machine_ClearTransientMotion w;
       w = Machine_ResetForcePi p w;
       w = ctx_upd (\<lambda>c. c\<lparr>mc_fault := fault, mc_fault_detail := detail, mc_state := FAULT,
             mc_state_entered_ms := now_ms\<rparr>) w
     in if AUTO_TARGET_ENABLED p then Machine_RecordApproachEnd ops approach_reason now_ms w else w)"

section \<open>Motor requests\<close>

definition Machine_CaptureMotorRequest ::
  "build_policy \<Rightarrow> 'e executor \<Rightarrow> MotorResult \<Rightarrow> MachineState \<Rightarrow> u32 \<Rightarrow> 'e world
    \<Rightarrow> MachineCommandResult \<times> 'e world" where
  "Machine_CaptureMotorRequest p ops result next_state now_ms w =
    (if result \<noteq> MOTOR_RESULT_OK
     then (COMMAND_EXECUTOR_FAILED,
           Machine_EnterFault p ops FAULT_MOTOR_FAULT FAULT_DETAIL_MOTOR_REQUEST_REJECTED now_ms w)
     else
       (let (have, w) = exec (ex_GetSnapshot ops) w;
            (bad, w) = any_of [test (\<lambda>_. \<not> have), not_q (exec (ex_ActiveRequestIsValid ops))] w
        in if bad
           then (COMMAND_EXECUTOR_FAILED,
                 Machine_EnterFault p ops FAULT_MOTOR_FAULT FAULT_DETAIL_MOTOR_HARDWARE now_ms w)
           else
             (let m = motor ops w
              in (COMMAND_ACCEPTED,
                  ctx_upd (\<lambda>c. c\<lparr>mc_motor_request_sequence := mx_request_sequence m,
                    mc_diagnostic_request_sequence := mx_request_sequence m,
                    mc_diagnostic_request_at_ms := now_ms,
                    mc_diagnostic_command_mv := mx_command_mv m,
                    mc_diagnostic_duration_ms := mx_requested_duration_ms m,
                    mc_diagnostic_direction := mx_direction m,
                    mc_state := next_state, mc_state_entered_ms := now_ms\<rparr>) w))))"

definition Machine_StartApproach ::
  "build_policy \<Rightarrow> 'e executor \<Rightarrow> MachineApproachProfile \<Rightarrow> u32 \<Rightarrow> 'e world
    \<Rightarrow> MachineCommandResult \<times> 'e world" where
  "Machine_StartApproach p ops profile now_ms w =
    (let cf = mc_config (w_ctx w);
         (command_mv, duration_ms, backstop_ms) =
           (if profile = APPROACH_FIRST
            then (cf_first_approach_command_mv cf, cf_first_approach_duration_ms cf,
                  cf_first_approach_backstop_ms cf)
            else (cf_recontact_command_mv cf, cf_recontact_duration_ms cf,
                  cf_recontact_backstop_ms cf));
         w = ctx_upd (\<lambda>c. c\<lparr>mc_approach_profile := profile\<rparr>) w
     in if AUTO_TARGET_ENABLED p
        then
          (let w = ctx_upd (\<lambda>c. c\<lparr>mc_auto_approach_pending := True\<rparr>) w;
               (r, w) = exec (ex_StartPulse ops MOTOR_DIRECTION_PRESS command_mv duration_ms
                                backstop_ms now_ms) w;
               (result, w) = Machine_CaptureMotorRequest p ops r AUTO_APPROACH now_ms w
           in if result = COMMAND_ACCEPTED
              then
                (let c = w_ctx w;
                     w = diag_upd (\<lambda>d. d\<lparr>ad_pulse_count := ad_pulse_count d + 1,
                       ad_request_sequence := mc_motor_request_sequence c,
                       ad_requested_mv := command_mv, ad_requested_duration_ms := duration_ms,
                       ad_started_at_ms := now_ms, ad_ended_at_ms := 0,
                       ad_end_reason := AUTO_APPROACH_END_RUNNING,
                       ad_state_before := AUTO_APPROACH, ad_state_after := AUTO_APPROACH,
                       ad_pressure_units := ps_control_pressure_units (mc_pressure c),
                       ad_sample_received_at_ms := ps_received_at_ms (mc_pressure c),
                       ad_sample_sequence := ps_sequence (mc_pressure c),
                       ad_pressure_fresh := Machine_IsPressureFresh c now_ms\<rparr>) w;
                     (_, w) = exec (ex_GetSnapshot ops) w
                 in (result,
                     diag_upd (\<lambda>d. d\<lparr>
                       ad_output_disabled_at_start := mx_physical_output_disabled (motor ops w),
                       ad_output_disabled_at_end := False, ad_logical_active_at_end := True\<rparr>) w))
              else (result, w))
        else
          (let (r, w) = exec (ex_StartRun ops MOTOR_DIRECTION_PRESS command_mv duration_ms
                                backstop_ms now_ms) w
           in Machine_CaptureMotorRequest p ops r AUTO_APPROACH now_ms w))"

definition Machine_StartPulse ::
  "build_policy \<Rightarrow> 'e executor \<Rightarrow> MotorDirection \<Rightarrow> u32 \<Rightarrow> u32 \<Rightarrow> 'e world
    \<Rightarrow> MachineCommandResult \<times> 'e world" where
  "Machine_StartPulse p ops direction command_mv now_ms w =
    (let cf = mc_config (w_ctx w);
         (r, w) = exec (ex_StartPulse ops direction command_mv (cf_pulse_duration_ms cf)
                          (cf_pulse_backstop_ms cf) now_ms) w
     in Machine_CaptureMotorRequest p ops r AUTO_PULSE now_ms w)"

definition Machine_StartDirectPulse ::
  "build_policy \<Rightarrow> 'e executor \<Rightarrow> MotorDirection \<Rightarrow> u32 \<Rightarrow> 'e world
    \<Rightarrow> MachineCommandResult \<times> 'e world" where
  "Machine_StartDirectPulse p ops direction now_ms w =
    (let next_state = (if direction = MOTOR_DIRECTION_PRESS
                       then DIRECT_PRESS_PULSE else DIRECT_RELEASE_PULSE);
         (r, w) = exec (ex_StartPulse ops direction SD700_DIRECT_PULSE_COMMAND_MV
                          SD700_DIRECT_PULSE_DURATION_MS SD700_DIRECT_PULSE_BACKSTOP_MS now_ms) w
     in Machine_CaptureMotorRequest p ops r next_state now_ms w)"

definition Machine_DisableOrFault ::
  "build_policy \<Rightarrow> 'e executor \<Rightarrow> u32 \<Rightarrow> 'e world \<Rightarrow> bool \<times> 'e world" where
  "Machine_DisableOrFault p ops now_ms w =
    (let (ok, w) = all_of
           [\<lambda>w. (case exec (ex_Disable ops) w of (r, w') \<Rightarrow> (r = MOTOR_RESULT_OK, w')),
            exec (ex_OutputIsDisabled ops)] w
     in if ok then (True, ctx_upd (\<lambda>c. c\<lparr>mc_motor_request_sequence := 0\<rparr>) w)
        else (False,
              Machine_EnterFault p ops FAULT_MOTOR_FAULT FAULT_DETAIL_MOTOR_HARDWARE now_ms w))"

definition Machine_EnterSettle ::
  "build_policy \<Rightarrow> 'e executor \<Rightarrow> u32 \<Rightarrow> 'e world \<Rightarrow> bool \<times> 'e world" where
  "Machine_EnterSettle p ops now_ms w =
    (let (ok, w) = Machine_DisableOrFault p ops now_ms w
     in if \<not> ok then (False, w)
        else (True, ctx_upd (\<lambda>c. c\<lparr>mc_state := AUTO_SETTLE, mc_settle_phase := SETTLE_WAIT_DELAY,
               mc_settle_gate_sequence := ps_sequence (mc_pressure c),
               mc_settle_feedback_after_ms := now_ms + cf_settle_delay_ms (mc_config c),
               mc_state_entered_ms := now_ms\<rparr>) w))"

definition Machine_HasCurrentApproachContact :: "MachineContext \<Rightarrow> u32 \<Rightarrow> bool" where
  "Machine_HasCurrentApproachContact c now_ms \<longleftrightarrow>
    mc_auto_approach_pending c
    \<and> (mc_state c = AUTO_APPROACH \<or> mc_state c = AUTO_SETTLE)
    \<and> Machine_IsPressureFresh c now_ms
    \<and> ps_control_pressure_units (mc_pressure c) \<ge> cf_contact_threshold_units (mc_config c)
    \<and> now_ms - ps_received_at_ms (mc_pressure c) \<le> now_ms - mc_cycle_started_ms c"

section \<open>Motor completion\<close>

text \<open>The classification of a completed request, once the output is verified off.\<close>

definition motor_completion :: "build_policy \<Rightarrow> 'e executor \<Rightarrow> u32 \<Rightarrow> 'e world \<Rightarrow> 'e world" where
  "motor_completion p ops now_ms w =
    (let fault = (\<lambda>f d w. Machine_EnterFault p ops f d now_ms w);
         completion = mx_last_completion (motor ops w);
         state = mc_state (w_ctx w)
     in if completion = MOTOR_COMPLETION_ERROR
        then fault FAULT_MOTOR_FAULT FAULT_DETAIL_MOTOR_HARDWARE w
        else if Machine_StateIsDirectPulse state
        then
          (if completion = MOTOR_COMPLETION_NORMAL
           then ctx_upd (\<lambda>c. c\<lparr>mc_motor_request_sequence := 0, mc_state := IDLE,
                  mc_state_entered_ms := now_ms\<rparr>) w
           else if completion = MOTOR_COMPLETION_BACKSTOP
           then fault FAULT_MOTION_TIMEOUT FAULT_DETAIL_DIRECT_PULSE_TIMEOUT w
           else fault FAULT_MOTOR_FAULT FAULT_DETAIL_MOTOR_HARDWARE w)
        else if state = AUTO_APPROACH
        then
          (if AUTO_TARGET_ENABLED p \<and> completion = MOTOR_COMPLETION_NORMAL
           then
             (let (ok, w) = Machine_EnterSettle p ops now_ms w
              in if ok then Machine_RecordApproachEnd ops AUTO_APPROACH_END_NORMAL now_ms w else w)
           else if completion = MOTOR_COMPLETION_BACKSTOP
              \<or> (\<not> AUTO_TARGET_ENABLED p \<and> completion = MOTOR_COMPLETION_NORMAL)
           then fault FAULT_MOTION_TIMEOUT FAULT_DETAIL_APPROACH_TIMEOUT w
           else fault FAULT_MOTOR_FAULT FAULT_DETAIL_MOTOR_HARDWARE w)
        else if completion = MOTOR_COMPLETION_NORMAL
        then
          (let f = mc_press_feedback (w_ctx w);
               w = (if AUTO_TARGET_ENABLED p \<and> pf_in_flight f
                       \<and> pf_request_sequence f = mx_request_sequence (motor ops w)
                       \<and> mx_direction (motor ops w) = MOTOR_DIRECTION_PRESS
                    then pf_upd (\<lambda>f. f\<lparr>pf_completed_at_ms := now_ms, pf_feedback_pending := True\<rparr>)
                           (Machine_RecordPressEnd ops AUTO_APPROACH_END_NORMAL now_ms w)
                    else w)
           in snd (Machine_EnterSettle p ops now_ms w))
        else if completion = MOTOR_COMPLETION_BACKSTOP
        then fault FAULT_MOTION_TIMEOUT FAULT_DETAIL_PULSE_TIMEOUT w
        else fault FAULT_MOTOR_FAULT FAULT_DETAIL_MOTOR_HARDWARE w)"

definition Machine_HandleMotorService ::
  "build_policy \<Rightarrow> 'e executor \<Rightarrow> u32 \<Rightarrow> 'e world \<Rightarrow> 'e world" where
  "Machine_HandleMotorService p ops now_ms w =
    (let fault = (\<lambda>f d w. Machine_EnterFault p ops f d now_ms w)
     in if mc_state (w_ctx w) \<noteq> AUTO_APPROACH \<and> mc_state (w_ctx w) \<noteq> AUTO_PULSE
           \<and> \<not> Machine_StateIsDirectPulse (mc_state (w_ctx w))
        then w
        else
          (let (have, w) = exec (ex_GetSnapshot ops) w
           in if \<not> have then fault FAULT_MOTOR_FAULT FAULT_DETAIL_MOTOR_HARDWARE w
              else if mx_request_sequence (motor ops w) \<noteq> mc_motor_request_sequence (w_ctx w)
              then (if Machine_StateIsDirectPulse (mc_state (w_ctx w))
                    then fault FAULT_MOTOR_FAULT FAULT_DETAIL_MOTOR_HARDWARE w else w)
              else if mx_logical_active (motor ops w)
              then
                (let (valid, w) = exec (ex_ActiveRequestIsValid ops) w
                 in if \<not> valid then fault FAULT_MOTOR_FAULT FAULT_DETAIL_MOTOR_HARDWARE w else w)
              else
                (let (disabled, w) = exec (ex_OutputIsDisabled ops) w
                 in if \<not> disabled then fault FAULT_MOTOR_FAULT FAULT_DETAIL_MOTOR_HARDWARE w
                    else motor_completion p ops now_ms w)))"

end
