(* ===== verification/MachineControl.thy ===== *)
theory MachineControl
  imports Machine
begin

text \<open>
  The second half of \<^verbatim>\<open>Application/machine.c\<close>: contact handling, the force PI
  strategy, sample classification, and the public operations (commands, pressure
  samples, safety checks, ticks).
\<close>

section \<open>Contact and hold\<close>

text \<open>
  On the target the region runs with interrupts masked; the executor calls inside
  it therefore see no completion published between them.
\<close>

definition Machine_StopApproachOnContact ::
  "build_policy \<Rightarrow> 'e executor \<Rightarrow> u32 \<Rightarrow> 'e world \<Rightarrow> 'e world" where
  "Machine_StopApproachOnContact p ops now_ms w =
    (let (r, w) = exec (ex_Service ops now_ms) w
     in if r \<noteq> MOTOR_RESULT_OK
        then Machine_EnterFault p ops FAULT_MOTOR_FAULT FAULT_DETAIL_MOTOR_HARDWARE now_ms w
        else
          (let w = Machine_HandleMotorService p ops now_ms w;
               w = (if mc_state (w_ctx w) = AUTO_APPROACH
                    then
                      (let (ok, w) = Machine_EnterSettle p ops now_ms w
                       in if ok then Machine_RecordApproachEnd ops AUTO_APPROACH_END_CONTACT now_ms w
                          else w)
                    else w)
           in if mc_state (w_ctx w) = AUTO_SETTLE
              then
                (let w = diag_upd (\<lambda>d. d\<lparr>ad_contact_cycle_started_ms :=
                           mc_cycle_started_ms (w_ctx w)\<rparr>) w;
                     w = (if \<not> mc_auto_has_contacted (w_ctx w)
                          then ctx_upd (\<lambda>c. c\<lparr>mc_cycle_started_ms :=
                                 ps_received_at_ms (mc_pressure c)\<rparr>)
                               (Machine_RecordFirstContact now_ms w)
                          else w);
                     w = ctx_upd (\<lambda>c. c\<lparr>mc_auto_has_contacted := True,
                           mc_auto_approach_pending := False\<rparr>) w
                 in diag_upd (\<lambda>d. d\<lparr>
                      ad_contact_sample_sequence := ps_sequence (mc_pressure (w_ctx w)),
                      ad_contact_received_at_ms := ps_received_at_ms (mc_pressure (w_ctx w)),
                      ad_contact_decided_at_ms := now_ms\<rparr>) w)
              else w))"

definition Machine_EnterHold ::
  "build_policy \<Rightarrow> 'e executor \<Rightarrow> u32 \<Rightarrow> 'e world \<Rightarrow> bool \<times> 'e world" where
  "Machine_EnterHold p ops now_ms w =
    (let (ok, w) = Machine_DisableOrFault p ops now_ms w
     in if \<not> ok then (False, w)
        else
          (let w = (if AUTO_TARGET_ENABLED p then Machine_ResetPressFeedback w else w)
           in (True, ctx_upd (\<lambda>c. c\<lparr>mc_state := AUTO_HOLD, mc_state_entered_ms := now_ms,
                 mc_cycle_started_ms := 0\<rparr>) w)))"

section \<open>The force PI strategy\<close>

definition Machine_ForcePiMotorIdle :: "'e executor \<Rightarrow> 'e world \<Rightarrow> bool \<times> 'e world" where
  "Machine_ForcePiMotorIdle ops w =
    (let (have, w) = exec (ex_GetSnapshot ops) w
     in all_of [test (\<lambda>_. have), test (\<lambda>w. \<not> mx_logical_active (motor ops w)),
                exec (ex_IsHealthy ops), exec (ex_OutputIsDisabled ops)] w)"

definition Machine_ForcePiMagnitudeValid :: "'e executor \<Rightarrow> f32 \<Rightarrow> MotorDirection \<Rightarrow> bool" where
  "Machine_ForcePiMagnitudeValid ops magnitude direction \<longleftrightarrow>
    (if \<not> f32_isfinite magnitude \<or> f32_lt magnitude (Fin 0)
        \<or> f32_lt (Fin (of_nat MOTOR_PLAN_SUPPLY_REFERENCE_MV)) magnitude
     then False
     else if f32_lt magnitude (Fin 1) then True
     else
       (let rounded = the (f32_to_u32 (f32_add magnitude (Fin (1 / 2))))
        in fst (ex_PlanCommand ops direction rounded) = MOTOR_RESULT_OK))"

definition Machine_ConfigureForcePi ::
  "build_policy \<Rightarrow> 'e executor \<Rightarrow> ForcePiConfig option \<Rightarrow> 'e world
    \<Rightarrow> MachineCommandResult \<times> 'e world" where
  "Machine_ConfigureForcePi p ops config w =
    (if \<not> AUTOMATIC_COMMANDS_ENABLED p then (COMMAND_UNSUPPORTED, w)
     else
       (case config of
          None \<Rightarrow> (COMMAND_INVALID_VALUE, w)
        | Some config \<Rightarrow>
            (if mc_state (w_ctx w) \<noteq> IDLE then (COMMAND_NOT_ALLOWED, w)
             else
               (let (not_ready, w) = any_of [test (\<lambda>w. \<not> mc_config_valid (w_ctx w)),
                      not_q (Machine_ForcePiMotorIdle ops)] w
                in if not_ready then (COMMAND_NOT_READY, w)
                   else
                     (let (ok, nxt) = ForcePi_Initialize zero_state config
                      in if \<not> ok \<or>
                            f32_lt (Fin 0) (fpc_output_min_mv config) \<or>
                            f32_lt (fpc_output_max_mv config) (Fin 0) \<or>
                            \<not> Machine_ForcePiMagnitudeValid ops (f32_neg (fpc_output_min_mv config))
                                MOTOR_DIRECTION_RELEASE \<or>
                            \<not> Machine_ForcePiMagnitudeValid ops (fpc_output_max_mv config)
                                MOTOR_DIRECTION_PRESS
                         then (COMMAND_INVALID_VALUE, w)
                         else if AUTO_TARGET_ENABLED p \<and>
                            (\<not> f32_eq (fpc_ki_mv_per_unit_s config) (Fin 0) \<or>
                             \<not> f32_eq (fpc_integral_min_mv config) (Fin 0) \<or>
                             \<not> f32_eq (fpc_integral_max_mv config) (Fin 0) \<or>
                             f32_lt (f32_of_u32 (cf_pulse_command_mv (mc_config (w_ctx w))))
                               (fpc_output_max_mv config) \<or>
                             f32_lt (fpc_output_min_mv config) (Fin (- AUTO_TARGET_RELEASE_MAX_MV)))
                         then (COMMAND_INVALID_VALUE, w)
                         else
                           (let effective =
                                  (if \<not> cf_bench_release_correction_enabled (mc_config (w_ctx w))
                                   then config\<lparr>fpc_output_min_mv := Fin 0\<rparr> else config);
                                (ok, nxt) = ForcePi_Initialize nxt effective
                            in if \<not> ok then (COMMAND_INVALID_VALUE, w)
                               else
                                 (COMMAND_ACCEPTED,
                                  Machine_ResetForcePi p
                                    (ctx_upd (\<lambda>c. c\<lparr>mc_force_pi_config := effective,
                                       mc_force_pi_state := nxt,
                                       mc_force_pi_enabled := True\<rparr>) w))))))))"

definition Machine_ObserveForcePi ::
  "build_policy \<Rightarrow> 'e executor \<Rightarrow> u32 \<Rightarrow> 'e world \<Rightarrow> bool \<times> 'e world" where
  "Machine_ObserveForcePi p ops now_ms w =
    (let c = w_ctx w; cf = mc_config c; s = mc_pressure c;
         preview_state = mc_force_pi_state c;
         pressure = ps_control_pressure_units s;
         tolerance = (if mc_state c = AUTO_HOLD then cf_hold_exit_tolerance_units cf
                      else cf_hold_enter_tolerance_units cf);
         below = (pressure < mc_target_pressure_units c - tolerance);
         above = (pressure > mc_target_pressure_units c + tolerance);
         correction_ready =
           ((mc_state c = AUTO_HOLD
             \<or> (mc_state c = AUTO_SETTLE \<and> mc_settle_phase c = SETTLE_WAIT_SAMPLE
                \<and> ps_sequence s > mc_settle_gate_sequence c))
            \<and> pressure \<ge> cf_contact_threshold_units cf \<and> (below \<or> above));
         (idle, w) = Machine_ForcePiMotorIdle ops w;
         dt_s = (if mc_force_pi_time_valid c
                 then f32_div_const
                        (f32_of_u32 (ps_received_at_ms s - mc_force_pi_received_at_ms c)) 1000
                 else Fin 0);
         w = ctx_upd (\<lambda>c. c\<lparr>mc_force_pi_requested_signed_mv := 0,
               mc_force_pi_blocked_suggestion_mv := Fin 0,
               mc_force_pi_inhibit_reason := FORCE_PI_INHIBIT_WAITING\<rparr>) w;
         (ok, preview_state, preview) =
           ForcePi_Update (mc_force_pi_config c) preview_state
             (f32_of_int (mc_target_pressure_units c)) (f32_of_int pressure) dt_s False
     in if \<not> ok
        then (False, Machine_EnterFault p ops FAULT_INTERNAL_FAULT FAULT_DETAIL_INTERNAL_STATE
                       now_ms w)
        else
          (let wrong = (above \<and> f32_lt (Fin 0) (fpn_limited_output_mv preview))
                       \<or> (below \<and> f32_lt (fpn_limited_output_mv preview) (Fin 0));
               release_off = (above \<and> \<not> cf_bench_release_correction_enabled cf);
               integrate = correction_ready \<and> idle \<and> f32_lt (Fin 0) dt_s;
               integrate = (if correction_ready
                            then (if \<not> idle then False else if wrong then False
                                  else if release_off then False else integrate)
                            else integrate);
               w = (if correction_ready
                    then
                      (if \<not> idle
                       then ctx_upd (\<lambda>c. c\<lparr>mc_force_pi_inhibit_reason := FORCE_PI_INHIBIT_BUSY\<rparr>) w
                       else if wrong
                       then ctx_upd (\<lambda>c. c\<lparr>
                              mc_force_pi_inhibit_reason := FORCE_PI_INHIBIT_WRONG_DIRECTION,
                              mc_force_pi_blocked_suggestion_mv := fpn_limited_output_mv preview\<rparr>) w
                       else if release_off
                       then ctx_upd (\<lambda>c. c\<lparr>
                              mc_force_pi_inhibit_reason := FORCE_PI_INHIBIT_RELEASE_DISABLED,
                              mc_force_pi_blocked_suggestion_mv :=
                                fpn_unlimited_output_mv preview\<rparr>) w
                       else ctx_upd (\<lambda>c. c\<lparr>mc_force_pi_inhibit_reason := FORCE_PI_INHIBIT_NONE\<rparr>) w)
                    else w);
               (ok, st, snap) =
                 ForcePi_Update (mc_force_pi_config c) (mc_force_pi_state (w_ctx w))
                   (f32_of_int (mc_target_pressure_units c)) (f32_of_int pressure) dt_s integrate;
               w = ctx_upd (\<lambda>c. c\<lparr>mc_force_pi_state := st, mc_force_pi_snapshot := snap\<rparr>) w
           in if \<not> ok
              then (False, Machine_EnterFault p ops FAULT_INTERNAL_FAULT FAULT_DETAIL_INTERNAL_STATE
                             now_ms w)
              else
                (let limited = fpn_limited_output_mv snap;
                     w = (if correction_ready \<and> idle \<and> integrate
                             \<and> ((above \<and> f32_lt (Fin 0) limited)
                                \<or> (below \<and> f32_lt limited (Fin 0)))
                          then ctx_upd (\<lambda>c. c\<lparr>mc_force_pi_blocked_suggestion_mv := limited,
                                 mc_force_pi_inhibit_reason := FORCE_PI_INHIBIT_WRONG_DIRECTION,
                                 mc_force_pi_state := preview_state,
                                 mc_force_pi_snapshot := preview\<rparr>) w
                          else w)
                 in (True, ctx_upd (\<lambda>c. c\<lparr>mc_force_pi_time_valid := True,
                       mc_force_pi_received_at_ms := ps_received_at_ms s,
                       mc_force_pi_sample_sequence := ps_sequence s\<rparr>) w))))"

definition Machine_StartCorrection ::
  "build_policy \<Rightarrow> 'e executor \<Rightarrow> MotorDirection \<Rightarrow> u32 \<Rightarrow> 'e world
    \<Rightarrow> MachineCommandResult \<times> 'e world" where
  "Machine_StartCorrection p ops expected now_ms w =
    (let w = (if AUTO_TARGET_ENABLED p \<and> expected = MOTOR_DIRECTION_RELEASE
              then Machine_ResetPressFeedback w else w)
     in if \<not> mc_force_pi_enabled (w_ctx w)
        then Machine_StartPulse p ops expected (cf_pulse_command_mv (mc_config (w_ctx w))) now_ms w
        else
          (let suggestion = fpn_limited_output_mv (mc_force_pi_snapshot (w_ctx w));
               magnitude = f32_abs suggestion;
               reason = mc_force_pi_inhibit_reason (w_ctx w)
           in if \<not> Machine_ForcePiMagnitudeValid ops magnitude expected
              then (COMMAND_EXECUTOR_FAILED,
                    Machine_EnterFault p ops FAULT_INTERNAL_FAULT FAULT_DETAIL_INTERNAL_STATE
                      now_ms w)
              else if reason = FORCE_PI_INHIBIT_WRONG_DIRECTION
                   \<or> reason = FORCE_PI_INHIBIT_RELEASE_DISABLED
                   \<or> f32_lt magnitude (Fin 1)
              then
                (let w = (if reason = FORCE_PI_INHIBIT_NONE
                          then ctx_upd (\<lambda>c. c\<lparr>
                                 mc_force_pi_inhibit_reason := FORCE_PI_INHIBIT_BELOW_ONE_MV,
                                 mc_force_pi_blocked_suggestion_mv := suggestion\<rparr>) w
                          else w);
                     (ok, w) = Machine_EnterSettle p ops now_ms w
                 in (if ok then COMMAND_ACCEPTED else COMMAND_EXECUTOR_FAILED, w))
              else
                (let command_mv = the (f32_to_u32 (f32_add magnitude (Fin (1 / 2))));
                     mapped = AUTO_TARGET_ENABLED p \<and> expected = MOTOR_DIRECTION_PRESS
                              \<and> f32_lt (Fin 0) suggestion;
                     w = (if mapped then Machine_SelectPressBand w else w);
                     command_mv =
                       (if mapped
                        then
                          (let mv = Machine_PressBaseMv (w_ctx w)
                                    + pf_boost_mv (mc_press_feedback (w_ctx w))
                           in if mv > cf_pulse_command_mv (mc_config (w_ctx w))
                              then cf_pulse_command_mv (mc_config (w_ctx w)) else mv)
                        else command_mv);
                     (result, w) = Machine_StartPulse p ops
                       (if f32_lt (Fin 0) suggestion then MOTOR_DIRECTION_PRESS
                        else MOTOR_DIRECTION_RELEASE) command_mv now_ms w
                 in if result \<noteq> COMMAND_ACCEPTED then (result, w)
                    else
                      (let w = (if mapped
                         then
                           (let c = w_ctx w; s = mc_pressure c;
                                w = pf_upd (\<lambda>f. f\<lparr>pf_request_sequence := mc_motor_request_sequence c,
                                  pf_command_mv := command_mv,
                                  pf_before_units := ps_control_pressure_units s,
                                  pf_before_sequence := ps_sequence s,
                                  pf_observed_peak_units := ps_control_pressure_units s,
                                  pf_in_flight := True, pf_feedback_pending := False\<rparr>) w
                            in press_upd (\<lambda>d. d\<lparr>pd_request_count := pd_request_count d + 1,
                                 pd_request_sequence := mc_motor_request_sequence (w_ctx w),
                                 pd_requested_mv := command_mv,
                                 pd_base_mv := Machine_PressBaseMv (w_ctx w),
                                 pd_boost_mv := pf_boost_mv (mc_press_feedback (w_ctx w)),
                                 pd_duration_ms := cf_pulse_duration_ms (mc_config (w_ctx w)),
                                 pd_started_at_ms := now_ms\<rparr>) w)
                         else w)
                       in (result,
                           ctx_upd (\<lambda>c. c\<lparr>mc_force_pi_requested_signed_mv :=
                             (if f32_lt (Fin 0) suggestion then sint command_mv
                              else - sint command_mv)\<rparr>) w)))))"

section \<open>Classification of samples\<close>

definition set_result :: "MachineCommandResult \<times> 'e world \<Rightarrow> 'e world" where
  "set_result rw = (case rw of (r, w) \<Rightarrow> ctx_upd (\<lambda>c. c\<lparr>mc_last_command_result := r\<rparr>) w)"

definition Machine_ClassifySettledSample ::
  "build_policy \<Rightarrow> 'e executor \<Rightarrow> u32 \<Rightarrow> 'e world \<Rightarrow> 'e world" where
  "Machine_ClassifySettledSample p ops now_ms w =
    (let c = w_ctx w; cf = mc_config c;
         lower_enter = mc_target_pressure_units c - cf_hold_enter_tolerance_units cf;
         upper_enter = mc_target_pressure_units c + cf_hold_enter_tolerance_units cf;
         pressure = ps_control_pressure_units (mc_pressure c)
     in if pressure < cf_contact_threshold_units cf
        then
          (let w = (if AUTO_TARGET_ENABLED p then Machine_ResetPressFeedback w else w)
           in set_result (Machine_StartApproach p ops
                (if AUTO_TARGET_ENABLED p
                 then (if mc_auto_has_contacted (w_ctx w) then APPROACH_RECONTACT else APPROACH_FIRST)
                 else APPROACH_RECONTACT) now_ms w))
        else if pressure < lower_enter
        then set_result (Machine_StartCorrection p ops MOTOR_DIRECTION_PRESS now_ms w)
        else if pressure \<le> upper_enter
        then snd (Machine_EnterHold p ops now_ms w)
        else if cf_bench_release_correction_enabled cf \<or> mc_force_pi_enabled c
        then set_result (Machine_StartCorrection p ops MOTOR_DIRECTION_RELEASE now_ms w)
        else snd (Machine_EnterHold p ops now_ms w))"

definition Machine_ClassifyHoldSample ::
  "build_policy \<Rightarrow> 'e executor \<Rightarrow> u32 \<Rightarrow> 'e world \<Rightarrow> 'e world" where
  "Machine_ClassifyHoldSample p ops now_ms w =
    (let c = w_ctx w; cf = mc_config c;
         lower_exit = mc_target_pressure_units c - cf_hold_exit_tolerance_units cf;
         upper_exit = mc_target_pressure_units c + cf_hold_exit_tolerance_units cf;
         pressure = ps_control_pressure_units (mc_pressure c);
         restarted = ctx_upd (\<lambda>c. c\<lparr>mc_cycle_started_ms := now_ms\<rparr>) w
     in if pressure < cf_contact_threshold_units cf
        then set_result (Machine_StartApproach p ops APPROACH_RECONTACT now_ms restarted)
        else if pressure < lower_exit
        then set_result (Machine_StartCorrection p ops MOTOR_DIRECTION_PRESS now_ms restarted)
        else if pressure > upper_exit
             \<and> (cf_bench_release_correction_enabled cf \<or> mc_force_pi_enabled c)
        then set_result (Machine_StartCorrection p ops MOTOR_DIRECTION_RELEASE now_ms restarted)
        else snd (Machine_DisableOrFault p ops now_ms w))"

section \<open>Initialisation and boot\<close>

definition Machine_Initialize ::
  "build_policy \<Rightarrow> 'e executor \<Rightarrow> MachineConfig option \<Rightarrow> u32 \<Rightarrow> 'e world \<Rightarrow> 'e world" where
  "Machine_Initialize p ops config now_ms w =
    (let (disable_result, w) = exec (ex_Disable ops) w;
         w = ctx_upd (\<lambda>_. zero_context\<lparr>mc_state := BOOT_SAFE, mc_fault := FAULT_NONE,
               mc_fault_detail := FAULT_DETAIL_NONE,
               mc_last_command_result := COMMAND_NOT_ALLOWED, mc_state_entered_ms := now_ms,
               mc_config_valid := Machine_ConfigIsValid p config\<rparr>) w;
         w = (case config of None \<Rightarrow> w | Some cf \<Rightarrow> ctx_upd (\<lambda>c. c\<lparr>mc_config := cf\<rparr>) w)
     in if disable_result \<noteq> MOTOR_RESULT_OK
        then ctx_upd (\<lambda>c. c\<lparr>mc_state := FAULT, mc_fault := FAULT_MOTOR_FAULT,
               mc_fault_detail := FAULT_DETAIL_MOTOR_HARDWARE\<rparr>) w
        else w)"

definition Machine_CompleteBoot ::
  "build_policy \<Rightarrow> 'e executor \<Rightarrow> bool \<Rightarrow> u32 \<Rightarrow> 'e world \<Rightarrow> 'e world" where
  "Machine_CompleteBoot p ops boot_checks_passed now_ms w =
    (if mc_state (w_ctx w) \<noteq> BOOT_SAFE then w
     else
       (let (bad, w) = any_of [test (\<lambda>_. \<not> boot_checks_passed),
              test (\<lambda>w. \<not> mc_config_valid (w_ctx w)), not_q (exec (ex_IsHealthy ops))] w
        in if bad
           then Machine_EnterFault p ops FAULT_BOOT_FAULT FAULT_DETAIL_BOOT_CONFIGURATION now_ms w
           else
             (let (ok, w) = Machine_DisableOrFault p ops now_ms w
              in if \<not> ok then w
                 else ctx_upd (\<lambda>c. c\<lparr>mc_state := IDLE, mc_state_entered_ms := now_ms,
                        mc_fault := FAULT_NONE, mc_fault_detail := FAULT_DETAIL_NONE\<rparr>) w)))"

section \<open>Commands\<close>

definition Machine_Stop ::
  "build_policy \<Rightarrow> 'e executor \<Rightarrow> u32 \<Rightarrow> 'e world \<Rightarrow> MachineCommandResult \<times> 'e world" where
  "Machine_Stop p ops now_ms w =
    (let stopped_state = mc_state (w_ctx w);
         (ok, w) = Machine_DisableOrFault p ops now_ms w
     in if \<not> ok then (COMMAND_EXECUTOR_FAILED, w)
        else
          (let w = (if AUTO_TARGET_ENABLED p
                    then Machine_UpdateApproachMeasurement now_ms True
                           (Machine_RecordPressEnd ops AUTO_APPROACH_END_STOP now_ms w)
                    else w);
               w = Machine_ClearTransientMotion w;
               w = Machine_ResetForcePi p w;
               w = ctx_upd (\<lambda>c. c\<lparr>mc_cycle_started_ms := 0,
                     mc_state := (if stopped_state = FAULT then FAULT
                                  else if stopped_state = BOOT_SAFE then BOOT_SAFE else IDLE),
                     mc_state_entered_ms := now_ms\<rparr>) w;
               w = (if AUTO_TARGET_ENABLED p
                    then Machine_RecordApproachEnd ops AUTO_APPROACH_END_STOP now_ms w else w)
           in (COMMAND_ACCEPTED, w)))"

definition handle_set_target ::
  "build_policy \<Rightarrow> int \<Rightarrow> 'e world \<Rightarrow> MachineCommandResult \<times> 'e world" where
  "handle_set_target p target w =
    (let c = w_ctx w; cf = mc_config c
     in if mc_state c \<noteq> IDLE
        then ((if mc_state c = FAULT \<or> mc_state c = BOOT_SAFE then COMMAND_NOT_ALLOWED
               else COMMAND_BUSY), w)
        else if target < cf_contact_threshold_units cf
             \<or> target > cf_maximum_target_pressure_units cf
        then (COMMAND_INVALID_VALUE, w)
        else (COMMAND_ACCEPTED,
              Machine_ResetForcePi p
                (ctx_upd (\<lambda>c. c\<lparr>mc_target_pressure_units := target, mc_target_valid := True\<rparr>) w)))"

definition handle_direct_pulse ::
  "build_policy \<Rightarrow> 'e executor \<Rightarrow> MotorDirection \<Rightarrow> u32 \<Rightarrow> 'e world
    \<Rightarrow> MachineCommandResult \<times> 'e world" where
  "handle_direct_pulse p ops direction now_ms w =
    (if \<not> DIRECT_COMMANDS_ENABLED p then (COMMAND_UNSUPPORTED, w)
     else
       (let (have, w) = exec (ex_GetSnapshot ops) w; state = mc_state (w_ctx w)
        in if state \<noteq> IDLE
           then ((if state = FAULT \<or> state = BOOT_SAFE then COMMAND_NOT_ALLOWED else COMMAND_BUSY), w)
           else
             (let (not_ready, w) = any_of [test (\<lambda>w. \<not> mc_config_valid (w_ctx w)),
                    not_q (exec (ex_IsHealthy ops)), test (\<lambda>_. \<not> have),
                    test (\<lambda>w. mx_logical_active (motor ops w)),
                    test (\<lambda>w. \<not> mx_physical_output_disabled (motor ops w)),
                    not_q (exec (ex_OutputIsDisabled ops))] w
              in if not_ready then (COMMAND_NOT_READY, w)
                 else if DIRECT_PRESSURE_REQUIRED p \<and> \<not> Machine_IsPressureFresh (w_ctx w) now_ms
                 then (COMMAND_NOT_READY, w)
                 else Machine_StartDirectPulse p ops direction now_ms w)))"

definition handle_auto_start ::
  "build_policy \<Rightarrow> 'e executor \<Rightarrow> u32 \<Rightarrow> 'e world \<Rightarrow> MachineCommandResult \<times> 'e world" where
  "handle_auto_start p ops now_ms w =
    (let (have, w) = exec (ex_GetSnapshot ops) w; state = mc_state (w_ctx w)
     in if state \<noteq> IDLE
        then ((if state = FAULT then COMMAND_NOT_ALLOWED else COMMAND_BUSY), w)
        else
          (let (not_ready, w) = any_of [test (\<lambda>w. \<not> mc_target_valid (w_ctx w)),
                 test (\<lambda>w. \<not> mc_config_valid (w_ctx w)),
                 test (\<lambda>w. \<not> Machine_IsPressureFresh (w_ctx w) now_ms),
                 not_q (exec (ex_IsHealthy ops)), test (\<lambda>_. \<not> have),
                 test (\<lambda>w. mx_logical_active (motor ops w))] w
           in if not_ready then (COMMAND_NOT_READY, w)
              else
                (let (not_ready, w) =
                       (if AUTO_TARGET_ENABLED p
                        then any_of [test (\<lambda>w. \<not> mc_force_pi_enabled (w_ctx w)),
                               not_q (Machine_ForcePiMotorIdle ops)] w
                        else (False, w))
                 in if not_ready then (COMMAND_NOT_READY, w)
                    else if AUTO_TARGET_ENABLED p
                         \<and> ps_raw_pressure_counts (mc_pressure (w_ctx w))
                             \<ge> cf_raw_overpressure_limit_counts (mc_config (w_ctx w))
                    then (COMMAND_NOT_READY,
                          Machine_EnterFault p ops FAULT_OVERPRESSURE FAULT_DETAIL_NONE now_ms w)
                    else
                      (let w = Machine_ResetForcePi p w;
                           w = ctx_upd (\<lambda>c. c\<lparr>mc_cycle_started_ms := now_ms\<rparr>) w;
                           contacted = ps_control_pressure_units (mc_pressure (w_ctx w))
                                         \<ge> cf_contact_threshold_units (mc_config (w_ctx w));
                           w = (if AUTO_TARGET_ENABLED p
                                then diag_upd (\<lambda>_. zero_diagnostics\<lparr>
                                       ad_search_started_at_ms := now_ms,
                                       ad_search_active := \<not> contacted\<rparr>)
                                     (ctx_upd (\<lambda>c. c\<lparr>mc_auto_has_contacted := contacted,
                                        mc_auto_approach_pending := \<not> contacted\<rparr>) w)
                                else w)
                       in if \<not> contacted
                          then Machine_StartApproach p ops APPROACH_FIRST now_ms w
                          else
                            (let (ok, w) = Machine_EnterSettle p ops now_ms w
                             in if ok
                                then (COMMAND_ACCEPTED,
                                      if AUTO_TARGET_ENABLED p then Machine_RecordFirstContact now_ms w
                                      else w)
                                else (COMMAND_EXECUTOR_FAILED, w))))))"

definition Machine_HandleCommand ::
  "build_policy \<Rightarrow> 'e executor \<Rightarrow> MachineCommand \<Rightarrow> u32 \<Rightarrow> 'e world
    \<Rightarrow> MachineCommandResult \<times> 'e world" where
  "Machine_HandleCommand p ops command now_ms w =
    (let (result, w) =
       (case cmd_type command of
          CMD_STOP \<Rightarrow> Machine_Stop p ops now_ms w
        | CMD_SET_TARGET \<Rightarrow> handle_set_target p (cmd_target_pressure_units command) w
        | CMD_DIRECT_PRESS_PULSE \<Rightarrow> handle_direct_pulse p ops MOTOR_DIRECTION_PRESS now_ms w
        | CMD_DIRECT_RELEASE_PULSE \<Rightarrow> handle_direct_pulse p ops MOTOR_DIRECTION_RELEASE now_ms w
        | CMD_AUTO_START \<Rightarrow>
            (if \<not> AUTOMATIC_COMMANDS_ENABLED p then (COMMAND_UNSUPPORTED, w)
             else handle_auto_start p ops now_ms w)
        | _ \<Rightarrow> (COMMAND_UNSUPPORTED, w))
     in (result, ctx_upd (\<lambda>c. c\<lparr>mc_last_command_result := result\<rparr>) w))"

section \<open>Pressure safety and samples\<close>

definition Machine_CheckPressureSafety ::
  "build_policy \<Rightarrow> 'e executor \<Rightarrow> u32 \<Rightarrow> 'e world \<Rightarrow> 'e world" where
  "Machine_CheckPressureSafety p ops now_ms w =
    (if \<not> Machine_StateRequiresPressureSafety p (mc_state (w_ctx w)) then w
     else
       (let w = (if AUTO_TARGET_ENABLED p then Machine_UpdateApproachMeasurement now_ms False w else w);
            c = w_ctx w
        in if \<not> Machine_IsPressureFresh c now_ms
           then Machine_EnterFault p ops FAULT_PRESSURE_SENSOR_FAULT FAULT_DETAIL_PRESSURE_TIMEOUT
                  now_ms w
           else if Machine_StateIsDirectPulse (mc_state c) then w
           else if mc_state c \<noteq> AUTO_HOLD
                \<and> (AUTO_TARGET_ENABLED p \<longrightarrow> mc_auto_has_contacted c)
                \<and> now_ms - mc_cycle_started_ms c \<ge> cf_automatic_cycle_timeout_ms (mc_config c)
           then Machine_EnterFault p ops FAULT_MOTION_TIMEOUT FAULT_DETAIL_CYCLE_TIMEOUT now_ms w
           else
             (let w = (if mc_state c = AUTO_SETTLE \<and> mc_settle_phase c = SETTLE_WAIT_SAMPLE
                          \<and> now_ms - mc_state_entered_ms c
                              \<ge> cf_settle_feedback_timeout_ms (mc_config c)
                       then Machine_EnterFault p ops FAULT_PRESSURE_SENSOR_FAULT
                              FAULT_DETAIL_SETTLE_FEEDBACK_TIMEOUT now_ms w
                       else w)
              in if AUTO_TARGET_ENABLED p \<and> Machine_HasCurrentApproachContact (w_ctx w) now_ms
                 then Machine_StopApproachOnContact p ops now_ms w
                 else w)))"

text \<open>The dispatch at the end of \<open>Machine_HandlePressureSample\<close>.\<close>

definition dispatch_sample ::
  "build_policy \<Rightarrow> 'e executor \<Rightarrow> MachinePressureSample \<Rightarrow> u32 \<Rightarrow> 'e world \<Rightarrow> 'e world" where
  "dispatch_sample p ops sample now_ms w =
    (let c = w_ctx w;
         w = (if AUTO_TARGET_ENABLED p \<and> pf_in_flight (mc_press_feedback c)
                 \<and> mc_state c = AUTO_PULSE \<and> Machine_IsPressureFresh c now_ms
                 \<and> ps_control_pressure_units sample > pf_observed_peak_units (mc_press_feedback c)
              then pf_upd (\<lambda>f. f\<lparr>pf_observed_peak_units := ps_control_pressure_units sample\<rparr>) w
              else w);
         c = w_ctx w
     in if mc_state c = AUTO_APPROACH
           \<and> ps_control_pressure_units sample \<ge> cf_contact_threshold_units (mc_config c)
        then
          (if AUTO_TARGET_ENABLED p
           then (if Machine_HasCurrentApproachContact c now_ms
                 then Machine_StopApproachOnContact p ops now_ms w else w)
           else snd (Machine_EnterSettle p ops now_ms w))
        else if mc_state c = AUTO_SETTLE \<and> mc_settle_phase c = SETTLE_WAIT_SAMPLE
             \<and> ps_sequence sample > mc_settle_gate_sequence c
        then
          (let w = (if AUTO_TARGET_ENABLED p
                    then
                      (let w = Machine_ConsumePressFeedback w
                       in if ps_control_pressure_units sample
                               \<ge> cf_contact_threshold_units (mc_config (w_ctx w))
                          then ctx_upd (\<lambda>c. c\<lparr>mc_auto_has_contacted := True,
                                 mc_auto_approach_pending := False\<rparr>) w
                          else w)
                    else w)
           in Machine_ClassifySettledSample p ops now_ms w)
        else if mc_state c = AUTO_HOLD
        then Machine_ClassifyHoldSample p ops now_ms w
        else w)"

text \<open>The part between the overpressure check and the dispatch, with its early returns.\<close>

definition observe_and_dispatch ::
  "build_policy \<Rightarrow> 'e executor \<Rightarrow> MachinePressureSample \<Rightarrow> u32 \<Rightarrow> 'e world \<Rightarrow> 'e world" where
  "observe_and_dispatch p ops sample now_ms w =
    (if \<not> (mc_force_pi_enabled (w_ctx w) \<and> Machine_StateIsAutomatic (mc_state (w_ctx w)))
     then dispatch_sample p ops sample now_ms w
     else
       (let w = Machine_CheckPressureSafety p ops now_ms w;
            since = ps_received_at_ms sample - mc_settle_feedback_after_ms (w_ctx w)
        in if AUTO_TARGET_ENABLED p \<and> mc_state (w_ctx w) = AUTO_SETTLE
              \<and> (since = 0 \<or> since \<ge> 0x80000000)
           then w
           else if mc_state (w_ctx w) = FAULT then w
           else
             (let (ok, w) = Machine_ObserveForcePi p ops now_ms w
              in if \<not> ok then w
                 else if mc_state (w_ctx w) = AUTO_SETTLE \<or> mc_state (w_ctx w) = AUTO_HOLD
                 then
                   (let (idle, w) = Machine_ForcePiMotorIdle ops w
                    in if \<not> idle then w else dispatch_sample p ops sample now_ms w)
                 else dispatch_sample p ops sample now_ms w)))"

definition Machine_HandlePressureSample ::
  "build_policy \<Rightarrow> 'e executor \<Rightarrow> MachinePressureSample \<Rightarrow> u32 \<Rightarrow> 'e world \<Rightarrow> 'e world" where
  "Machine_HandlePressureSample p ops sample now_ms w =
    (let old = mc_pressure (w_ctx w); state = mc_state (w_ctx w);
         have_old = (ps_frame_valid old \<and> ps_control_units_valid old);
         guarded_fault = (\<lambda>detail w.
           if Machine_StateRequiresPressureSafety p state
           then Machine_EnterFault p ops FAULT_PRESSURE_SENSOR_FAULT detail now_ms w else w)
     in if \<not> ps_frame_valid sample \<or> \<not> ps_control_units_valid sample
        then guarded_fault FAULT_DETAIL_PRESSURE_INVALID
               (ctx_upd (\<lambda>c. c\<lparr>mc_pressure := sample\<rparr>) w)
        else if have_old \<and> ps_sequence sample \<le> ps_sequence old
        then (if ps_sequence sample < ps_sequence old
              then guarded_fault FAULT_DETAIL_PRESSURE_ORDER_LOST w else w)
        else if AUTO_TARGET_ENABLED p \<and> have_old
             \<and> ps_received_at_ms sample - ps_received_at_ms old \<ge> 0x80000000
        then guarded_fault FAULT_DETAIL_PRESSURE_ORDER_LOST w
        else
          (let w = ctx_upd (\<lambda>c. c\<lparr>mc_pressure := sample\<rparr>) w
           in if cf_raw_overpressure_enabled (mc_config (w_ctx w))
                 \<and> ps_raw_pressure_counts sample
                     \<ge> cf_raw_overpressure_limit_counts (mc_config (w_ctx w))
              then Machine_EnterFault p ops FAULT_OVERPRESSURE FAULT_DETAIL_NONE now_ms w
              else observe_and_dispatch p ops sample now_ms w))"

section \<open>Faults reported from outside, and the tick\<close>

definition Machine_ReportFault ::
  "build_policy \<Rightarrow> 'e executor \<Rightarrow> MachineFault \<Rightarrow> FaultDetail \<Rightarrow> u32 \<Rightarrow> 'e world \<Rightarrow> 'e world" where
  "Machine_ReportFault p ops fault detail now_ms w =
    (if fault = FAULT_NONE
     then Machine_EnterFault p ops FAULT_INTERNAL_FAULT FAULT_DETAIL_INTERNAL_STATE now_ms w
     else Machine_EnterFault p ops fault detail now_ms w)"

definition Machine_Tick ::
  "build_policy \<Rightarrow> 'e executor \<Rightarrow> u32 \<Rightarrow> 'e world \<Rightarrow> 'e world" where
  "Machine_Tick p ops now_ms w =
    (let c = w_ctx w
     in if mc_state c \<in> {BOOT_SAFE, IDLE, AUTO_APPROACH, AUTO_PULSE, AUTO_HOLD,
                        DIRECT_PRESS_PULSE, DIRECT_RELEASE_PULSE, FAULT}
        then w
        else if mc_state c = AUTO_SETTLE
        then
          (if mc_settle_phase c = SETTLE_WAIT_DELAY
              \<and> now_ms - mc_state_entered_ms c \<ge> cf_settle_delay_ms (mc_config c)
           then ctx_upd (\<lambda>c. c\<lparr>mc_settle_gate_sequence := ps_sequence (mc_pressure c),
                  mc_settle_feedback_after_ms :=
                    (if AUTO_TARGET_ENABLED p then now_ms else mc_settle_feedback_after_ms c),
                  mc_settle_phase := SETTLE_WAIT_SAMPLE, mc_state_entered_ms := now_ms\<rparr>) w
           else w)
        else Machine_EnterFault p ops FAULT_INTERNAL_FAULT FAULT_DETAIL_INTERNAL_STATE now_ms w)"

end
