(* ===== verification/MachineLemmas.thy ===== *)
theory MachineLemmas
  imports MachineControl
begin

text \<open>
  Lemmas on the state machine of \<open>Machine\<close> and \<open>MachineControl\<close>: how each function
  changes the context, what it needs of the executor's contract, and the
  invariant every operation keeps. The client lemmas are proved once, inside the
  locale \<open>motor_executor\<close>, for every backend and every value of the
  policy's other flags (the file is compiled without ForceServo only).
\<close>

section \<open>Reading the threaded world\<close>

lemma ctx_upd_simps [simp]:
  "w_ctx (ctx_upd f w) = f (w_ctx w)"
  "w_exec (ctx_upd f w) = w_exec w"
  "w_diag (ctx_upd f w) = w_diag w"
  by (simp_all add: ctx_upd_def)

lemma diag_upd_simps [simp]:
  "w_ctx (diag_upd g w) = w_ctx w"
  "w_exec (diag_upd g w) = w_exec w"
  "w_ctx (press_upd h w) = w_ctx w"
  "w_exec (press_upd h w) = w_exec w"
  by (simp_all add: diag_upd_def press_upd_def)

lemma pf_upd_simps [simp]:
  "w_ctx (pf_upd f w) = (w_ctx w)\<lparr>mc_press_feedback := f (mc_press_feedback (w_ctx w))\<rparr>"
  "w_exec (pf_upd f w) = w_exec w"
  by (simp_all add: pf_upd_def)

lemma exec_simps [simp]:
  "fst (exec f w) = fst (f (w_exec w))"
  "w_ctx (snd (exec f w)) = w_ctx w"
  "w_diag (snd (exec f w)) = w_diag w"
  "w_exec (snd (exec f w)) = snd (f (w_exec w))"
  by (simp_all add: exec_def split: prod.splits)

lemma exec_pair: "exec f w = (fst (f (w_exec w)), w\<lparr>w_exec := snd (f (w_exec w))\<rparr>)"
  by (simp add: exec_def split: prod.splits)

lemma motor_simps [simp]:
  "motor ops (ctx_upd f w) = motor ops w"
  "motor ops (diag_upd g w) = motor ops w"
  "motor ops (press_upd h w) = motor ops w"
  "motor ops (pf_upd k w) = motor ops w"
  by (simp_all add: motor_def)

section \<open>Functions that only change the context or the diagnostics\<close>

lemma ClearTransientMotion_simps [simp]:
  "w_exec (Machine_ClearTransientMotion w) = w_exec w"
  "w_ctx (Machine_ClearTransientMotion w) = (w_ctx w)\<lparr>mc_motor_request_sequence := 0,
     mc_settle_gate_sequence := 0, mc_settle_phase := SETTLE_WAIT_DELAY,
     mc_approach_profile := APPROACH_FIRST, mc_auto_has_contacted := False,
     mc_auto_approach_pending := False\<rparr>"
  by (simp_all add: Machine_ClearTransientMotion_def)

lemma ResetPressFeedback_simps [simp]:
  "w_exec (Machine_ResetPressFeedback w) = w_exec w"
  "w_ctx (Machine_ResetPressFeedback w) = (w_ctx w)\<lparr>mc_press_feedback := zero_press_feedback\<rparr>"
  by (simp_all add: Machine_ResetPressFeedback_def)

definition pi_reset_ctx :: "build_policy \<Rightarrow> MachineContext \<Rightarrow> MachineContext" where
  "pi_reset_ctx p c =
    c\<lparr>mc_press_feedback :=
        (if AUTO_TARGET_ENABLED p then zero_press_feedback else mc_press_feedback c),
      mc_force_pi_state := (snd (ForcePi_Reset (mc_force_pi_state c)))\<lparr>fps_integral_mv := Fin 0\<rparr>,
      mc_force_pi_snapshot := zero_snapshot, mc_force_pi_time_valid := False,
      mc_force_pi_received_at_ms := 0, mc_force_pi_sample_sequence := 0,
      mc_force_pi_inhibit_reason := FORCE_PI_INHIBIT_NONE,
      mc_force_pi_blocked_suggestion_mv := Fin 0, mc_force_pi_requested_signed_mv := 0\<rparr>"

lemma ResetForcePi_simps [simp]:
  "w_exec (Machine_ResetForcePi p w) = w_exec w"
  "w_ctx (Machine_ResetForcePi p w) = pi_reset_ctx p (w_ctx w)"
  by (simp_all add: Machine_ResetForcePi_def pi_reset_ctx_def Let_def)

lemma measurement_simps [simp]:
  "w_ctx (Machine_UpdateApproachMeasurement t finish w) = w_ctx w"
  "w_exec (Machine_UpdateApproachMeasurement t finish w) = w_exec w"
  "w_ctx (Machine_RecordFirstContact t w) = w_ctx w"
  "w_exec (Machine_RecordFirstContact t w) = w_exec w"
  by (simp_all add: Machine_UpdateApproachMeasurement_def Machine_RecordFirstContact_def Let_def)

lemma press_feedback_same: "\<exists>f. c = c\<lparr>mc_press_feedback := f\<rparr>"
  by (rule exI [of _ "mc_press_feedback c"]) simp

lemma SelectPressBand_ctx:
  "\<exists>f. w_ctx (Machine_SelectPressBand w) = (w_ctx w)\<lparr>mc_press_feedback := f\<rparr>"
  by (auto simp: Machine_SelectPressBand_def Let_def press_feedback_same)

lemma SelectPressBand_exec [simp]: "w_exec (Machine_SelectPressBand w) = w_exec w"
  by (simp add: Machine_SelectPressBand_def Let_def)

lemma press_response_ctx:
  "\<exists>f. w_ctx (press_response rise w) = (w_ctx w)\<lparr>mc_press_feedback := f\<rparr>"
  by (auto simp: press_response_def Let_def press_feedback_same)

lemma press_response_exec [simp]: "w_exec (press_response rise w) = w_exec w"
  by (simp add: press_response_def Let_def)

lemma ConsumePressFeedback_exec [simp]: "w_exec (Machine_ConsumePressFeedback w) = w_exec w"
  by (simp add: Machine_ConsumePressFeedback_def Let_def)

lemma ConsumePressFeedback_ctx:
  "\<exists>f. w_ctx (Machine_ConsumePressFeedback w) = (w_ctx w)\<lparr>mc_press_feedback := f\<rparr>"
proof -
  let ?P = "\<lambda>w'. \<exists>f. w_ctx w' = (w_ctx w)\<lparr>mc_press_feedback := f\<rparr>"
  have select: "?P (Machine_SelectPressBand v)" if "?P v" for v :: "'a world"
    using that SelectPressBand_ctx [of v] by force
  have respond: "?P (press_response r v)" if "?P v" for r and v :: "'a world"
    using that press_response_ctx [of r v] by force
  have id: "?P w" by (rule exI [of _ "mc_press_feedback (w_ctx w)"]) simp
  show ?thesis
    unfolding Machine_ConsumePressFeedback_def Let_def
    by (auto simp: id intro!: select respond)
qed

section \<open>Where a fault leaves the context\<close>

definition fault_ctx ::
  "build_policy \<Rightarrow> MachineFault \<Rightarrow> FaultDetail \<Rightarrow> u32 \<Rightarrow> MachineContext \<Rightarrow> MachineContext" where
  "fault_ctx p fault detail t c =
    (pi_reset_ctx p (c\<lparr>mc_motor_request_sequence := 0,
       mc_settle_gate_sequence := 0, mc_settle_phase := SETTLE_WAIT_DELAY,
       mc_approach_profile := APPROACH_FIRST, mc_auto_has_contacted := False,
       mc_auto_approach_pending := False\<rparr>))
    \<lparr>mc_fault := fault,
     mc_fault_detail := (if fault = FAULT_MOTOR_FAULT \<and> detail = FAULT_DETAIL_NONE
                         then FAULT_DETAIL_MOTOR_HARDWARE else detail),
     mc_state := FAULT, mc_state_entered_ms := t\<rparr>"

lemma RecordPressEnd_ctx:
  "w_ctx (Machine_RecordPressEnd ops reason t w)
    = (w_ctx w)\<lparr>mc_press_feedback := (mc_press_feedback (w_ctx w))\<lparr>pf_in_flight := False\<rparr>\<rparr>"
proof (cases "pf_in_flight (mc_press_feedback (w_ctx w))")
  case True
  then show ?thesis
    by (simp add: Machine_RecordPressEnd_def Let_def case_prod_beta)
next
  case False
  then have "(mc_press_feedback (w_ctx w))\<lparr>pf_in_flight := False\<rparr> = mc_press_feedback (w_ctx w)"
    by simp
  with False show ?thesis by (simp add: Machine_RecordPressEnd_def Let_def)
qed

lemma RecordApproachEnd_ctx [simp]: "w_ctx (Machine_RecordApproachEnd ops reason t w) = w_ctx w"
  by (simp add: Machine_RecordApproachEnd_def Let_def case_prod_beta)

lemma EnterFault_ctx [simp]:
  "w_ctx (Machine_EnterFault p ops fault detail t w) = fault_ctx p fault detail t (w_ctx w)"
  by (simp add: Machine_EnterFault_def fault_ctx_def pi_reset_ctx_def Let_def case_prod_beta
      RecordPressEnd_ctx)

section \<open>The invariant\<close>

text \<open>
  The PI strategy is configured within the supply reference, its state belongs to
  its configuration, and the last suggestion is within the output limits.
\<close>

definition pi_ok :: "MachineContext \<Rightarrow> bool" where
  "pi_ok c \<longleftrightarrow> (mc_force_pi_enabled c \<longrightarrow>
    ForcePi_ConfigIsValid (mc_force_pi_config c)
    \<and> fps_initialized (mc_force_pi_state c)
    \<and> fps_initialized_config (mc_force_pi_state c) = mc_force_pi_config c
    \<and> f32_isfinite (fps_integral_mv (mc_force_pi_state c))
    \<and> (\<exists>omin omax l. fpc_output_min_mv (mc_force_pi_config c) = Fin omin
         \<and> fpc_output_max_mv (mc_force_pi_config c) = Fin omax
         \<and> fpn_limited_output_mv (mc_force_pi_snapshot c) = Fin l
         \<and> - 24000 \<le> omin \<and> omin \<le> 0 \<and> 0 \<le> omax \<and> omax \<le> 24000
         \<and> omin \<le> l \<and> l \<le> omax))"

definition ctx_base :: "build_policy \<Rightarrow> MachineContext \<Rightarrow> bool" where
  "ctx_base p c \<longleftrightarrow>
    (mc_config_valid c \<longrightarrow> Machine_ConfigIsValid p (Some (mc_config c)))
    \<and> (mc_target_valid c \<longrightarrow>
         cf_contact_threshold_units (mc_config c) \<le> mc_target_pressure_units c
         \<and> mc_target_pressure_units c \<le> cf_maximum_target_pressure_units (mc_config c))
    \<and> pi_ok c"

text \<open>What a state requires; the states no operation enters are excluded.\<close>

definition state_ok :: "build_policy \<Rightarrow> MachineContext \<Rightarrow> MachineState \<Rightarrow> bool" where
  "state_ok p c s \<longleftrightarrow>
    s \<in> {BOOT_SAFE, IDLE, AUTO_APPROACH, AUTO_SETTLE, AUTO_PULSE, AUTO_HOLD, FAULT,
         DIRECT_PRESS_PULSE, DIRECT_RELEASE_PULSE}
    \<and> (s \<noteq> BOOT_SAFE \<and> s \<noteq> FAULT \<longrightarrow> mc_config_valid c)
    \<and> (Machine_StateIsAutomatic s \<longrightarrow> mc_target_valid c \<and> AUTOMATIC_COMMANDS_ENABLED p
         \<and> (AUTO_TARGET_ENABLED p \<longrightarrow> mc_force_pi_enabled c))
    \<and> (Machine_StateIsDirectPulse s \<longrightarrow> DIRECT_COMMANDS_ENABLED p)
    \<and> (s = FAULT \<longleftrightarrow> mc_fault c \<noteq> FAULT_NONE)"

definition output_off_state :: "MachineState \<Rightarrow> bool" where
  "output_off_state s \<longleftrightarrow> s = IDLE \<or> s = AUTO_SETTLE \<or> s = AUTO_HOLD"

definition machine_core :: "('e \<Rightarrow> bool) \<Rightarrow> build_policy \<Rightarrow> 'e world \<Rightarrow> bool" where
  "machine_core iv p w \<longleftrightarrow> iv (w_exec w) \<and> ctx_base p (w_ctx w)"

definition machine_ok ::
  "('e \<Rightarrow> bool) \<Rightarrow> ('e \<Rightarrow> bool) \<Rightarrow> build_policy \<Rightarrow> 'e world \<Rightarrow> bool" where
  "machine_ok iv off p w \<longleftrightarrow> machine_core iv p w
    \<and> state_ok p (w_ctx w) (mc_state (w_ctx w))
    \<and> (output_off_state (mc_state (w_ctx w)) \<longrightarrow> off (w_exec w))"

text \<open>
  The contexts a request, a settle phase and a hold leave behind.
\<close>

definition started_ctx ::
  "MotorExecutorSnapshot \<Rightarrow> MachineState \<Rightarrow> u32 \<Rightarrow> MachineContext \<Rightarrow> MachineContext" where
  "started_ctx m s t c =
    c\<lparr>mc_motor_request_sequence := mx_request_sequence m,
      mc_diagnostic_request_sequence := mx_request_sequence m,
      mc_diagnostic_request_at_ms := t,
      mc_diagnostic_command_mv := mx_command_mv m,
      mc_diagnostic_duration_ms := mx_requested_duration_ms m,
      mc_diagnostic_direction := mx_direction m,
      mc_state := s, mc_state_entered_ms := t\<rparr>"

definition settle_ctx :: "u32 \<Rightarrow> MachineContext \<Rightarrow> MachineContext" where
  "settle_ctx t c =
    c\<lparr>mc_motor_request_sequence := 0, mc_state := AUTO_SETTLE,
      mc_settle_phase := SETTLE_WAIT_DELAY,
      mc_settle_gate_sequence := ps_sequence (mc_pressure c),
      mc_settle_feedback_after_ms := t + cf_settle_delay_ms (mc_config c),
      mc_state_entered_ms := t\<rparr>"

subsection \<open>Contexts and the invariant\<close>

lemma ForcePi_Reset_keeps [simp]:
  "fps_initialized (snd (ForcePi_Reset s)) = fps_initialized s"
  "fps_initialized_config (snd (ForcePi_Reset s)) = fps_initialized_config s"
  by (simp_all add: ForcePi_Reset_def)

lemma pi_ok_reset [simp]: "pi_ok c \<Longrightarrow> pi_ok (pi_reset_ctx p c)"
  by (auto simp: pi_ok_def pi_reset_ctx_def zero_snapshot_def)

lemma pi_reset_ctx_fields [simp]:
  "mc_state (pi_reset_ctx p c) = mc_state c"
  "mc_fault (pi_reset_ctx p c) = mc_fault c"
  "mc_fault_detail (pi_reset_ctx p c) = mc_fault_detail c"
  "mc_config (pi_reset_ctx p c) = mc_config c"
  "mc_config_valid (pi_reset_ctx p c) = mc_config_valid c"
  "mc_pressure (pi_reset_ctx p c) = mc_pressure c"
  "mc_target_pressure_units (pi_reset_ctx p c) = mc_target_pressure_units c"
  "mc_target_valid (pi_reset_ctx p c) = mc_target_valid c"
  "mc_force_pi_enabled (pi_reset_ctx p c) = mc_force_pi_enabled c"
  "mc_force_pi_config (pi_reset_ctx p c) = mc_force_pi_config c"
  "mc_cycle_started_ms (pi_reset_ctx p c) = mc_cycle_started_ms c"
  "mc_motor_request_sequence (pi_reset_ctx p c) = mc_motor_request_sequence c"
  by (simp_all add: pi_reset_ctx_def)

lemma ctx_base_reset [simp]: "ctx_base p c \<Longrightarrow> ctx_base p (pi_reset_ctx p' c)"
  by (simp add: ctx_base_def)

text \<open>Updates of the fields the invariant does not read.\<close>

lemma pi_ok_frame [simp]:
  "pi_ok (c\<lparr>mc_state := s\<rparr>) = pi_ok c"
  "pi_ok (c\<lparr>mc_fault := f\<rparr>) = pi_ok c"
  "pi_ok (c\<lparr>mc_fault_detail := d\<rparr>) = pi_ok c"
  "pi_ok (c\<lparr>mc_last_command_result := r\<rparr>) = pi_ok c"
  "pi_ok (c\<lparr>mc_settle_phase := ph\<rparr>) = pi_ok c"
  "pi_ok (c\<lparr>mc_approach_profile := pr\<rparr>) = pi_ok c"
  "pi_ok (c\<lparr>mc_pressure := ps\<rparr>) = pi_ok c"
  "pi_ok (c\<lparr>mc_target_pressure_units := i\<rparr>) = pi_ok c"
  "pi_ok (c\<lparr>mc_target_valid := b\<rparr>) = pi_ok c"
  "pi_ok (c\<lparr>mc_settle_gate_sequence := q\<rparr>) = pi_ok c"
  "pi_ok (c\<lparr>mc_motor_request_sequence := w\<rparr>) = pi_ok c"
  "pi_ok (c\<lparr>mc_state_entered_ms := w\<rparr>) = pi_ok c"
  "pi_ok (c\<lparr>mc_cycle_started_ms := w\<rparr>) = pi_ok c"
  "pi_ok (c\<lparr>mc_settle_feedback_after_ms := w\<rparr>) = pi_ok c"
  "pi_ok (c\<lparr>mc_auto_has_contacted := b\<rparr>) = pi_ok c"
  "pi_ok (c\<lparr>mc_auto_approach_pending := b\<rparr>) = pi_ok c"
  "pi_ok (c\<lparr>mc_diagnostic_request_sequence := w\<rparr>) = pi_ok c"
  "pi_ok (c\<lparr>mc_diagnostic_request_at_ms := w\<rparr>) = pi_ok c"
  "pi_ok (c\<lparr>mc_diagnostic_command_mv := w\<rparr>) = pi_ok c"
  "pi_ok (c\<lparr>mc_diagnostic_duration_ms := w\<rparr>) = pi_ok c"
  "pi_ok (c\<lparr>mc_diagnostic_direction := dd\<rparr>) = pi_ok c"
  "pi_ok (c\<lparr>mc_force_pi_time_valid := b\<rparr>) = pi_ok c"
  "pi_ok (c\<lparr>mc_force_pi_received_at_ms := w\<rparr>) = pi_ok c"
  "pi_ok (c\<lparr>mc_force_pi_sample_sequence := q\<rparr>) = pi_ok c"
  "pi_ok (c\<lparr>mc_force_pi_inhibit_reason := ir\<rparr>) = pi_ok c"
  "pi_ok (c\<lparr>mc_force_pi_blocked_suggestion_mv := x\<rparr>) = pi_ok c"
  "pi_ok (c\<lparr>mc_force_pi_requested_signed_mv := i\<rparr>) = pi_ok c"
  "pi_ok (c\<lparr>mc_press_feedback := pf\<rparr>) = pi_ok c"
  by (simp_all add: pi_ok_def)

lemma ctx_base_frame [simp]:
  "ctx_base p (c\<lparr>mc_state := s\<rparr>) = ctx_base p c"
  "ctx_base p (c\<lparr>mc_fault := f\<rparr>) = ctx_base p c"
  "ctx_base p (c\<lparr>mc_fault_detail := d\<rparr>) = ctx_base p c"
  "ctx_base p (c\<lparr>mc_last_command_result := r\<rparr>) = ctx_base p c"
  "ctx_base p (c\<lparr>mc_settle_phase := ph\<rparr>) = ctx_base p c"
  "ctx_base p (c\<lparr>mc_approach_profile := pr\<rparr>) = ctx_base p c"
  "ctx_base p (c\<lparr>mc_pressure := ps\<rparr>) = ctx_base p c"
  "ctx_base p (c\<lparr>mc_settle_gate_sequence := q\<rparr>) = ctx_base p c"
  "ctx_base p (c\<lparr>mc_motor_request_sequence := w\<rparr>) = ctx_base p c"
  "ctx_base p (c\<lparr>mc_state_entered_ms := w\<rparr>) = ctx_base p c"
  "ctx_base p (c\<lparr>mc_cycle_started_ms := w\<rparr>) = ctx_base p c"
  "ctx_base p (c\<lparr>mc_settle_feedback_after_ms := w\<rparr>) = ctx_base p c"
  "ctx_base p (c\<lparr>mc_auto_has_contacted := b\<rparr>) = ctx_base p c"
  "ctx_base p (c\<lparr>mc_auto_approach_pending := b\<rparr>) = ctx_base p c"
  "ctx_base p (c\<lparr>mc_diagnostic_request_sequence := w\<rparr>) = ctx_base p c"
  "ctx_base p (c\<lparr>mc_diagnostic_request_at_ms := w\<rparr>) = ctx_base p c"
  "ctx_base p (c\<lparr>mc_diagnostic_command_mv := w\<rparr>) = ctx_base p c"
  "ctx_base p (c\<lparr>mc_diagnostic_duration_ms := w\<rparr>) = ctx_base p c"
  "ctx_base p (c\<lparr>mc_diagnostic_direction := dd\<rparr>) = ctx_base p c"
  "ctx_base p (c\<lparr>mc_force_pi_time_valid := b\<rparr>) = ctx_base p c"
  "ctx_base p (c\<lparr>mc_force_pi_received_at_ms := w\<rparr>) = ctx_base p c"
  "ctx_base p (c\<lparr>mc_force_pi_sample_sequence := q\<rparr>) = ctx_base p c"
  "ctx_base p (c\<lparr>mc_force_pi_inhibit_reason := ir\<rparr>) = ctx_base p c"
  "ctx_base p (c\<lparr>mc_force_pi_blocked_suggestion_mv := x\<rparr>) = ctx_base p c"
  "ctx_base p (c\<lparr>mc_force_pi_requested_signed_mv := i\<rparr>) = ctx_base p c"
  "ctx_base p (c\<lparr>mc_press_feedback := pf\<rparr>) = ctx_base p c"
  by (simp_all add: ctx_base_def)

lemma fault_ctx_fields [simp]:
  "mc_state (fault_ctx p f d t c) = FAULT"
  "mc_fault (fault_ctx p f d t c) = f"
  "mc_config (fault_ctx p f d t c) = mc_config c"
  "mc_config_valid (fault_ctx p f d t c) = mc_config_valid c"
  "mc_pressure (fault_ctx p f d t c) = mc_pressure c"
  "mc_target_pressure_units (fault_ctx p f d t c) = mc_target_pressure_units c"
  "mc_target_valid (fault_ctx p f d t c) = mc_target_valid c"
  "mc_force_pi_enabled (fault_ctx p f d t c) = mc_force_pi_enabled c"
  "mc_motor_request_sequence (fault_ctx p f d t c) = 0"
  by (simp_all add: fault_ctx_def)

lemma ctx_base_fault [simp]: "ctx_base p c \<Longrightarrow> ctx_base p (fault_ctx p f d t c)"
  by (simp add: fault_ctx_def)

lemma ctx_base_started [simp]: "ctx_base p (started_ctx m s t c) = ctx_base p c"
  by (simp add: started_ctx_def)

lemma ctx_base_settle [simp]: "ctx_base p (settle_ctx t c) = ctx_base p c"
  by (simp add: settle_ctx_def)

lemma state_ok_fault [simp]: "f \<noteq> FAULT_NONE \<Longrightarrow> state_ok p (fault_ctx p f d t c) FAULT"
  by (simp add: state_ok_def Machine_StateIsAutomatic_def Machine_StateIsDirectPulse_def)

text \<open>\<open>state_ok\<close> reads four fields.\<close>

lemma state_ok_cong:
  "mc_config_valid c' = mc_config_valid c \<Longrightarrow> mc_target_valid c' = mc_target_valid c \<Longrightarrow>
    mc_force_pi_enabled c' = mc_force_pi_enabled c \<Longrightarrow> mc_fault c' = mc_fault c \<Longrightarrow>
    state_ok p c' s = state_ok p c s"
  by (simp add: state_ok_def)

lemma state_ok_automatic:
  "state_ok p c s \<Longrightarrow> Machine_StateIsAutomatic s \<Longrightarrow> Machine_StateIsAutomatic s' \<Longrightarrow> state_ok p c s'"
  by (auto simp: state_ok_def Machine_StateIsAutomatic_def Machine_StateIsDirectPulse_def)

lemma automatic_states [simp]:
  "Machine_StateIsAutomatic AUTO_APPROACH" "Machine_StateIsAutomatic AUTO_SETTLE"
  "Machine_StateIsAutomatic AUTO_PULSE" "Machine_StateIsAutomatic AUTO_HOLD"
  "\<not> Machine_StateIsAutomatic FAULT" "\<not> Machine_StateIsAutomatic IDLE"
  "\<not> Machine_StateIsAutomatic BOOT_SAFE" "\<not> Machine_StateIsAutomatic DIRECT_PRESS_PULSE"
  "\<not> Machine_StateIsAutomatic DIRECT_RELEASE_PULSE"
  by (simp_all add: Machine_StateIsAutomatic_def)

lemma output_off_states [simp]:
  "output_off_state IDLE" "output_off_state AUTO_SETTLE" "output_off_state AUTO_HOLD"
  "\<not> output_off_state FAULT" "\<not> output_off_state AUTO_APPROACH" "\<not> output_off_state AUTO_PULSE"
  "\<not> output_off_state BOOT_SAFE" "\<not> output_off_state DIRECT_PRESS_PULSE"
  "\<not> output_off_state DIRECT_RELEASE_PULSE"
  by (simp_all add: output_off_state_def)

end
