(* ===== verification/MachineInv.thy ===== *)
theory MachineInv
  imports MachineLemmas
begin

text \<open>
  Every operation of the state machine keeps its invariant, whatever the backend
  and the build policy: proved in the context of the executor's contract.
\<close>

context motor_executor
begin

section \<open>The executor under the world\<close>

lemma exec_inv [simp]:
  "inv e \<Longrightarrow> inv (snd (ex_Disable ops e))"
  "inv e \<Longrightarrow> inv (snd (ex_StartRun ops d mv dur bstop t e))"
  "inv e \<Longrightarrow> inv (snd (ex_StartPulse ops d mv dur bstop t e))"
  "inv e \<Longrightarrow> inv (snd (ex_Service ops t e))"
  "inv e \<Longrightarrow> inv (snd (ex_GuardOutput ops e))"
  "inv e \<Longrightarrow> inv (snd (ex_IsHealthy ops e))"
  "inv e \<Longrightarrow> inv (snd (ex_ActiveRequestIsValid ops e))"
  "inv e \<Longrightarrow> inv (snd (ex_OutputIsDisabled ops e))"
  "inv e \<Longrightarrow> inv (snd (ex_GetSnapshot ops e))"
  by (simp_all add: disable_inv run_inv pulse_inv service_inv guard_inv query_inv)

lemma exec_off [simp]:
  "inv e \<Longrightarrow> off e \<Longrightarrow> off (snd (ex_IsHealthy ops e))"
  "inv e \<Longrightarrow> off e \<Longrightarrow> off (snd (ex_ActiveRequestIsValid ops e))"
  "inv e \<Longrightarrow> off e \<Longrightarrow> off (snd (ex_OutputIsDisabled ops e))"
  "inv e \<Longrightarrow> off e \<Longrightarrow> off (snd (ex_GetSnapshot ops e))"
  by (simp_all add: query_off)

lemma RecordPressEnd_exec [simp]:
  "inv (w_exec w) \<Longrightarrow> inv (w_exec (Machine_RecordPressEnd ops r t w))"
  "inv (w_exec w) \<Longrightarrow> off (w_exec w) \<Longrightarrow> off (w_exec (Machine_RecordPressEnd ops r t w))"
  by (simp_all add: Machine_RecordPressEnd_def Let_def case_prod_beta)

lemma RecordApproachEnd_exec [simp]:
  "inv (w_exec w) \<Longrightarrow> inv (w_exec (Machine_RecordApproachEnd ops r t w))"
  "inv (w_exec w) \<Longrightarrow> off (w_exec w) \<Longrightarrow> off (w_exec (Machine_RecordApproachEnd ops r t w))"
  by (simp_all add: Machine_RecordApproachEnd_def Let_def case_prod_beta)

lemma EnterFault_exec [simp]:
  "inv (w_exec w) \<Longrightarrow> inv (w_exec (Machine_EnterFault p ops f d t w))"
  by (simp add: Machine_EnterFault_def Let_def case_prod_beta)

lemma EnterFault_ok [simp]:
  "machine_core inv p w \<Longrightarrow> f \<noteq> FAULT_NONE \<Longrightarrow> machine_ok inv off p (Machine_EnterFault p ops f d t w)"
  by (simp add: machine_core_def machine_ok_def)

lemma RecordApproachEnd_ok [simp]:
  "machine_ok inv off p w \<Longrightarrow> machine_ok inv off p (Machine_RecordApproachEnd ops r t w)"
  by (simp add: machine_core_def machine_ok_def)

lemma core_exec [simp]:
  "machine_core inv p w \<Longrightarrow> machine_core inv p (snd (exec (ex_Disable ops) w))"
  "machine_core inv p w \<Longrightarrow> machine_core inv p (snd (exec (ex_StartRun ops d mv dur bstop t) w))"
  "machine_core inv p w \<Longrightarrow> machine_core inv p (snd (exec (ex_StartPulse ops d mv dur bstop t) w))"
  "machine_core inv p w \<Longrightarrow> machine_core inv p (snd (exec (ex_Service ops t) w))"
  "machine_core inv p w \<Longrightarrow> machine_core inv p (snd (exec (ex_GuardOutput ops) w))"
  "machine_core inv p w \<Longrightarrow> machine_core inv p (snd (exec (ex_IsHealthy ops) w))"
  "machine_core inv p w \<Longrightarrow> machine_core inv p (snd (exec (ex_ActiveRequestIsValid ops) w))"
  "machine_core inv p w \<Longrightarrow> machine_core inv p (snd (exec (ex_OutputIsDisabled ops) w))"
  "machine_core inv p w \<Longrightarrow> machine_core inv p (snd (exec (ex_GetSnapshot ops) w))"
  by (simp_all add: machine_core_def)

lemma ok_exec [simp]:
  "machine_ok inv off p w \<Longrightarrow> machine_ok inv off p (snd (exec (ex_IsHealthy ops) w))"
  "machine_ok inv off p w \<Longrightarrow> machine_ok inv off p (snd (exec (ex_ActiveRequestIsValid ops) w))"
  "machine_ok inv off p w \<Longrightarrow> machine_ok inv off p (snd (exec (ex_OutputIsDisabled ops) w))"
  "machine_ok inv off p w \<Longrightarrow> machine_ok inv off p (snd (exec (ex_GetSnapshot ops) w))"
  by (simp_all add: machine_core_def machine_ok_def)

lemma core_of_ok: "machine_ok inv off p w \<Longrightarrow> machine_core inv p w"
  by (simp add: machine_ok_def)

section \<open>Stopping\<close>

lemma DisableOrFault_cases:
  assumes "machine_core inv p w"
  obtains (ok) w' where "Machine_DisableOrFault p ops t w = (True, w')"
      "w_ctx w' = (w_ctx w)\<lparr>mc_motor_request_sequence := 0\<rparr>" "inv (w_exec w')" "off (w_exec w')"
    | (failed) w' where "Machine_DisableOrFault p ops t w = (False, w')"
      "machine_ok inv off p w'"
      "w_ctx w' = fault_ctx p FAULT_MOTOR_FAULT FAULT_DETAIL_MOTOR_HARDWARE t (w_ctx w)"
proof (cases "fst (Machine_DisableOrFault p ops t w)")
  case True
  let ?w = "snd (Machine_DisableOrFault p ops t w)"
  have i: "inv (w_exec w)" using assms by (simp add: machine_core_def)
  have d: "fst (ex_Disable ops (w_exec w)) = MOTOR_RESULT_OK"
    using True by (simp add: Machine_DisableOrFault_def Let_def case_prod_beta split: if_splits)
  have d2: "fst (ex_OutputIsDisabled ops (snd (ex_Disable ops (w_exec w))))"
    using True d by (simp add: Machine_DisableOrFault_def Let_def case_prod_beta split: if_splits)
  have "w_ctx ?w = (w_ctx w)\<lparr>mc_motor_request_sequence := 0\<rparr> \<and> inv (w_exec ?w) \<and> off (w_exec ?w)"
    using i d d2 disable_off [OF i d]
    by (simp add: Machine_DisableOrFault_def Let_def case_prod_beta)
  then show ?thesis using True ok [of ?w] by (metis prod.collapse)
next
  case False
  let ?w = "snd (Machine_DisableOrFault p ops t w)"
  have "machine_ok inv off p ?w
    \<and> w_ctx ?w = fault_ctx p FAULT_MOTOR_FAULT FAULT_DETAIL_MOTOR_HARDWARE t (w_ctx w)"
    using False assms
    by (simp add: Machine_DisableOrFault_def Let_def case_prod_beta machine_core_def machine_ok_def
        split: if_splits)
  then show ?thesis using False failed [of ?w] by (metis prod.collapse)
qed

lemma EnterSettle_cases:
  assumes "machine_core inv p w"
  obtains (ok) w' where "Machine_EnterSettle p ops t w = (True, w')"
      "w_ctx w' = settle_ctx t (w_ctx w)" "inv (w_exec w')" "off (w_exec w')"
    | (failed) w' where "Machine_EnterSettle p ops t w = (False, w')"
      "machine_ok inv off p w'"
      "w_ctx w' = fault_ctx p FAULT_MOTOR_FAULT FAULT_DETAIL_MOTOR_HARDWARE t (w_ctx w)"
  using assms
proof (cases rule: DisableOrFault_cases [where t = t])
  case (ok w')
  then show ?thesis
    using that(1) by (simp add: Machine_EnterSettle_def settle_ctx_def)
next
  case (failed w')
  then show ?thesis
    using that(2) by (simp add: Machine_EnterSettle_def)
qed

lemma state_ok_settle [simp]:
  "state_ok p (settle_ctx t c) s = state_ok p c s" "mc_state (settle_ctx t c) = AUTO_SETTLE"
  by (simp_all add: settle_ctx_def state_ok_def)

lemma state_ok_started [simp]:
  "state_ok p (started_ctx m s t c) s' = state_ok p c s'" "mc_state (started_ctx m s t c) = s"
  by (simp_all add: started_ctx_def state_ok_def)

lemma EnterSettle_ok:
  assumes "machine_core inv p w" "state_ok p (w_ctx w) AUTO_SETTLE"
  shows "machine_ok inv off p (snd (Machine_EnterSettle p ops t w))"
  using assms(1)
proof (cases rule: EnterSettle_cases [where t = t])
  case (ok w')
  then show ?thesis
    using assms by (simp add: machine_ok_def machine_core_def)
qed simp

lemma EnterHold_ok:
  assumes "machine_core inv p w" "state_ok p (w_ctx w) AUTO_HOLD"
  shows "machine_ok inv off p (snd (Machine_EnterHold p ops t w))"
  using assms(1)
proof (cases rule: DisableOrFault_cases [where t = t])
  case (ok w')
  have "state_ok p (c\<lparr>mc_motor_request_sequence := a, mc_press_feedback := b, mc_state := s,
      mc_state_entered_ms := x, mc_cycle_started_ms := y\<rparr>) AUTO_HOLD = state_ok p c AUTO_HOLD"
    "state_ok p (c\<lparr>mc_motor_request_sequence := a, mc_state := s,
      mc_state_entered_ms := x, mc_cycle_started_ms := y\<rparr>) AUTO_HOLD = state_ok p c AUTO_HOLD"
    for c a b s x y by (simp_all add: state_ok_def)
  with ok assms show ?thesis
    by (simp add: Machine_EnterHold_def machine_ok_def machine_core_def Let_def)
qed (simp add: Machine_EnterHold_def)

section \<open>Starting\<close>

lemma Capture_ok:
  assumes "machine_core inv p w" "state_ok p (w_ctx w) s" "\<not> output_off_state s"
  shows "machine_ok inv off p (snd (Machine_CaptureMotorRequest p ops r s t w))"
proof -
  have "machine_ok inv off p (ctx_upd (started_ctx m s t) v)"
    if "machine_core inv p v" "w_ctx v = w_ctx w" for m and v :: "'e world"
    using that assms by (simp add: machine_ok_def machine_core_def)
  then show ?thesis
    using assms
    by (simp add: Machine_CaptureMotorRequest_def Let_def case_prod_beta
        flip: started_ctx_def)
qed

lemma Capture_accepted:
  assumes "fst (Machine_CaptureMotorRequest p ops r s t w) = COMMAND_ACCEPTED"
  shows "r = MOTOR_RESULT_OK
    \<and> w_ctx (snd (Machine_CaptureMotorRequest p ops r s t w))
      = started_ctx (motor ops (snd (Machine_CaptureMotorRequest p ops r s t w))) s t (w_ctx w)"
  using assms
  by (simp add: Machine_CaptureMotorRequest_def Let_def case_prod_beta started_ctx_def
      split: if_splits)

lemma Capture_refused:
  assumes "fst (Machine_CaptureMotorRequest p ops r s t w) \<noteq> COMMAND_ACCEPTED"
  shows "\<exists>d. w_ctx (snd (Machine_CaptureMotorRequest p ops r s t w))
      = fault_ctx p FAULT_MOTOR_FAULT d t (w_ctx w)"
  using assms
  by (auto simp: Machine_CaptureMotorRequest_def Let_def case_prod_beta split: if_splits)

lemma StartPulse_ok:
  assumes "machine_core inv p w" "state_ok p (w_ctx w) AUTO_PULSE"
  shows "machine_ok inv off p (snd (Machine_StartPulse p ops d mv t w))"
  using assms by (simp add: Machine_StartPulse_def Let_def case_prod_beta Capture_ok)

lemma StartDirectPulse_ok:
  assumes "machine_core inv p w"
    "state_ok p (w_ctx w) (if d = MOTOR_DIRECTION_PRESS then DIRECT_PRESS_PULSE else DIRECT_RELEASE_PULSE)"
  shows "machine_ok inv off p (snd (Machine_StartDirectPulse p ops d t w))"
  using assms by (auto simp: Machine_StartDirectPulse_def Let_def case_prod_beta intro!: Capture_ok)

lemma core_ctx_upd:
  "machine_core inv p w \<Longrightarrow> ctx_base p (f (w_ctx w)) \<Longrightarrow> machine_core inv p (ctx_upd f w)"
  by (simp add: machine_core_def)

lemma StartApproach_ok:
  assumes "machine_core inv p w" "state_ok p (w_ctx w) AUTO_APPROACH"
  shows "machine_ok inv off p (snd (Machine_StartApproach p ops pr t w))"
proof -
  have st: "state_ok p (c\<lparr>mc_approach_profile := pr\<rparr>) AUTO_APPROACH = state_ok p c AUTO_APPROACH"
    "state_ok p (c\<lparr>mc_approach_profile := pr, mc_auto_approach_pending := True\<rparr>) AUTO_APPROACH
      = state_ok p c AUTO_APPROACH" for c
    by (simp_all add: state_ok_def)
  have cap: "machine_ok inv off p (snd (Machine_CaptureMotorRequest p ops r AUTO_APPROACH t v))"
    if "machine_core inv p v" "w_ctx v = (w_ctx w)\<lparr>mc_approach_profile := pr\<rparr>
      \<or> w_ctx v = (w_ctx w)\<lparr>mc_approach_profile := pr, mc_auto_approach_pending := True\<rparr>"
    for r and v :: "'e world"
  proof (rule Capture_ok)
    show "state_ok p (w_ctx v) AUTO_APPROACH"
      using that(2) assms(2) by (elim disjE) (simp_all only: st)
  qed (use that in simp_all)
  have diag: "machine_ok inv off p (diag_upd g (snd (exec (ex_GetSnapshot ops) (diag_upd h v))))"
    if "machine_ok inv off p v" for g h and v :: "'e world"
    using that by (simp add: machine_ok_def machine_core_def)
  show ?thesis
    using assms unfolding Machine_StartApproach_def Let_def case_prod_beta
    by (cases "AUTO_TARGET_ENABLED p") (auto intro!: cap diag core_ctx_upd simp: machine_core_def)
qed

section \<open>Motor completion and contact\<close>

lemma ok_ctx_upd:
  assumes "machine_ok inv off p w" "ctx_base p (f (w_ctx w))"
    "mc_state (f (w_ctx w)) = mc_state (w_ctx w)"
    "state_ok p (f (w_ctx w)) (mc_state (w_ctx w)) = state_ok p (w_ctx w) (mc_state (w_ctx w))"
  shows "machine_ok inv off p (ctx_upd f w)"
  using assms by (simp add: machine_ok_def machine_core_def)

lemma ok_diag_upd [simp]:
  "machine_ok inv off p (diag_upd g w) = machine_ok inv off p w"
  "machine_ok inv off p (press_upd h w) = machine_ok inv off p w"
  by (simp_all add: machine_ok_def machine_core_def)

lemma ok_pf_upd [simp]: "machine_ok inv off p (pf_upd g w) = machine_ok inv off p w"
proof -
  have "state_ok p (c\<lparr>mc_press_feedback := f\<rparr>) s = state_ok p c s" for c f s
    by (simp add: state_ok_def)
  then show ?thesis by (simp add: machine_ok_def machine_core_def)
qed

lemma core_pf_upd [simp]:
  "machine_core inv p (pf_upd g w) = machine_core inv p w"
  "machine_core inv p (diag_upd k w) = machine_core inv p w"
  "machine_core inv p (press_upd h w) = machine_core inv p w"
  by (simp_all add: machine_core_def)

lemma state_ok_pf [simp]: "state_ok p (c\<lparr>mc_press_feedback := f\<rparr>) s = state_ok p c s"
  by (simp add: state_ok_def)

lemma RecordPressEnd_core [simp]:
  "machine_core inv p w \<Longrightarrow> machine_core inv p (Machine_RecordPressEnd ops r t w)"
  by (simp add: machine_core_def RecordPressEnd_ctx)

lemma ok_state: "machine_ok inv off p w \<Longrightarrow> state_ok p (w_ctx w) (mc_state (w_ctx w))"
  by (simp add: machine_ok_def)

lemma ok_automatic:
  "machine_ok inv off p w \<Longrightarrow> Machine_StateIsAutomatic (mc_state (w_ctx w)) \<Longrightarrow>
    Machine_StateIsAutomatic s \<Longrightarrow> state_ok p (w_ctx w) s"
  using ok_state state_ok_automatic by blast

lemma ok_if:
  "(b \<Longrightarrow> machine_ok inv off p x) \<Longrightarrow> (\<not> b \<Longrightarrow> machine_ok inv off p y) \<Longrightarrow>
    machine_ok inv off p (if b then x else y)"
  by simp

lemma ok_snd_if:
  "(b \<Longrightarrow> machine_ok inv off p (snd x)) \<Longrightarrow> (\<not> b \<Longrightarrow> machine_ok inv off p (snd y)) \<Longrightarrow>
    machine_ok inv off p (snd (if b then x else y))"
  by simp

lemma direct_idle:
  assumes "machine_core inv p w" "state_ok p (w_ctx w) (mc_state (w_ctx w))"
    "Machine_StateIsDirectPulse (mc_state (w_ctx w))" "off (w_exec w)"
  shows "machine_ok inv off p (ctx_upd (\<lambda>c. c\<lparr>mc_motor_request_sequence := 0, mc_state := IDLE,
           mc_state_entered_ms := t\<rparr>) w)"
proof -
  have "state_ok p (w_ctx w) IDLE"
    using assms(2,3) by (auto simp: state_ok_def Machine_StateIsDirectPulse_def)
  then have "state_ok p ((w_ctx w)\<lparr>mc_motor_request_sequence := 0, mc_state := IDLE,
      mc_state_entered_ms := t\<rparr>) IDLE"
    by (simp add: state_ok_def)
  with assms show ?thesis
    by (simp add: machine_ok_def machine_core_def)
qed

lemma motor_completion_ok:
  assumes ok: "machine_ok inv off p w"
    and st: "mc_state (w_ctx w) = AUTO_APPROACH \<or> mc_state (w_ctx w) = AUTO_PULSE
      \<or> Machine_StateIsDirectPulse (mc_state (w_ctx w))"
    and off: "Machine_StateIsDirectPulse (mc_state (w_ctx w)) \<Longrightarrow> off (w_exec w)"
  shows "machine_ok inv off p (motor_completion p ops t w)"
proof -
  note core = core_of_ok [OF ok]
  have settle: "machine_ok inv off p (snd (Machine_EnterSettle p ops t v))"
    if "machine_core inv p v" "\<exists>f. w_ctx v = (w_ctx w)\<lparr>mc_press_feedback := f\<rparr>"
      "\<not> Machine_StateIsDirectPulse (mc_state (w_ctx w))" for v
    using that st ok_automatic [OF ok] by (auto intro!: EnterSettle_ok)
  have settle_w: "machine_ok inv off p (snd (Machine_EnterSettle p ops t w))"
    if "\<not> Machine_StateIsDirectPulse (mc_state (w_ctx w))"
    using settle [OF core press_feedback_same that] .
  have settle_press: "machine_ok inv off p (snd (Machine_EnterSettle p ops t
      (pf_upd g (Machine_RecordPressEnd ops r u w))))"
    if "\<not> Machine_StateIsDirectPulse (mc_state (w_ctx w))" for g r u
    using that core by (intro settle) (auto simp: RecordPressEnd_ctx)
  show ?thesis
    unfolding motor_completion_def Let_def case_prod_beta
    by (intro ok_if) (simp_all add: core settle_w settle_press direct_idle ok_state [OF ok] off)
qed

lemma HandleMotorService_ok [simp]:
  assumes ok: "machine_ok inv off p w"
  shows "machine_ok inv off p (Machine_HandleMotorService p ops t w)"
proof -
  define w1 where "w1 = snd (exec (ex_GetSnapshot ops) w)"
  define w2 where "w2 = snd (exec (ex_OutputIsDisabled ops) w1)"
  have ok1: "machine_ok inv off p w1" and c1: "w_ctx w1 = w_ctx w"
    using ok by (simp_all add: w1_def)
  have ok2: "machine_ok inv off p w2" and c2: "w_ctx w2 = w_ctx w"
    using ok1 c1 by (simp_all add: w2_def)
  have i1: "inv (w_exec w1)" using ok1 by (simp add: machine_ok_def machine_core_def)
  have fin: "machine_ok inv off p (motor_completion p ops t w2)"
    if "\<not> mx_logical_active (motor ops w1)" "fst (exec (ex_OutputIsDisabled ops) w1)"
      "\<not> (mc_state (w_ctx w) \<noteq> AUTO_APPROACH \<and> mc_state (w_ctx w) \<noteq> AUTO_PULSE
        \<and> \<not> Machine_StateIsDirectPulse (mc_state (w_ctx w)))"
  proof (rule motor_completion_ok [OF ok2])
    show "off (w_exec w2)"
      using idle_off [OF i1] that by (simp add: w2_def motor_def)
  qed (use that c2 in auto)
  show ?thesis
    unfolding Machine_HandleMotorService_def Let_def case_prod_beta w1_def [symmetric]
      w2_def [symmetric]
    by (intro ok_if) (simp_all add: ok ok1 core_of_ok [OF ok1] core_of_ok [OF ok2] fin)
qed

end

end
