(* ===== verification/MachineSafety.thy ===== *)
theory MachineSafety
  imports MachineInv
begin

text \<open>
  The public operations of the state machine keep its invariant: commands,
  pressure samples, safety checks, ticks, faults reported from outside. Proved in
  the context of the executor's contract, for the builds that have this machine (those
  without ForceServo).
\<close>

section \<open>The PI strategy's fields\<close>

lemma state_ok_frame [simp]:
  "state_ok p (c\<lparr>mc_state := s'\<rparr>) s = state_ok p c s"
  "state_ok p (c\<lparr>mc_state_entered_ms := t\<rparr>) s = state_ok p c s"
  "state_ok p (c\<lparr>mc_cycle_started_ms := t\<rparr>) s = state_ok p c s"
  "state_ok p (c\<lparr>mc_last_command_result := r\<rparr>) s = state_ok p c s"
  "state_ok p (c\<lparr>mc_pressure := ps\<rparr>) s = state_ok p c s"
  "state_ok p (c\<lparr>mc_settle_phase := ph\<rparr>) s = state_ok p c s"
  "state_ok p (c\<lparr>mc_settle_gate_sequence := q\<rparr>) s = state_ok p c s"
  "state_ok p (c\<lparr>mc_settle_feedback_after_ms := t\<rparr>) s = state_ok p c s"
  "state_ok p (c\<lparr>mc_motor_request_sequence := t\<rparr>) s = state_ok p c s"
  "state_ok p (c\<lparr>mc_approach_profile := pr\<rparr>) s = state_ok p c s"
  "state_ok p (c\<lparr>mc_auto_has_contacted := b\<rparr>) s = state_ok p c s"
  "state_ok p (c\<lparr>mc_auto_approach_pending := b\<rparr>) s = state_ok p c s"
  "state_ok p (c\<lparr>mc_fault_detail := d\<rparr>) s = state_ok p c s"
  "state_ok p (c\<lparr>mc_target_pressure_units := i\<rparr>) s = state_ok p c s"
  "state_ok p (c\<lparr>mc_force_pi_config := fc\<rparr>) s = state_ok p c s"
  "state_ok p (c\<lparr>mc_force_pi_state := fs\<rparr>) s = state_ok p c s"
  "state_ok p (c\<lparr>mc_force_pi_snapshot := fn\<rparr>) s = state_ok p c s"
  "state_ok p (c\<lparr>mc_force_pi_time_valid := b\<rparr>) s = state_ok p c s"
  "state_ok p (c\<lparr>mc_force_pi_received_at_ms := t\<rparr>) s = state_ok p c s"
  "state_ok p (c\<lparr>mc_force_pi_sample_sequence := q\<rparr>) s = state_ok p c s"
  "state_ok p (c\<lparr>mc_force_pi_inhibit_reason := ir\<rparr>) s = state_ok p c s"
  "state_ok p (c\<lparr>mc_force_pi_blocked_suggestion_mv := x\<rparr>) s = state_ok p c s"
  "state_ok p (c\<lparr>mc_force_pi_requested_signed_mv := i\<rparr>) s = state_ok p c s"
  by (simp_all add: state_ok_def)

lemma state_ok_reset [simp]: "state_ok p (pi_reset_ctx p' c) s = state_ok p c s"
  by (simp add: state_ok_def)

text \<open>An update of the strategy keeps its part of the invariant, whether it succeeds or not.\<close>

lemma f32_add_finite: "f32_isfinite (f32_add (Fin a) x) \<Longrightarrow> f32_isfinite x"
  by (cases x) (simp_all add: f32_isfinite_def)

definition pi_state_ok :: "ForcePiConfig \<Rightarrow> ForcePiState \<Rightarrow> bool" where
  "pi_state_ok c s \<longleftrightarrow> ForcePi_ConfigIsValid c \<and> fps_initialized s
    \<and> fps_initialized_config s = c \<and> f32_isfinite (fps_integral_mv s)"

definition pi_limits_ok :: "ForcePiConfig \<Rightarrow> f32 \<Rightarrow> bool" where
  "pi_limits_ok c x \<longleftrightarrow> (\<exists>omin omax l. fpc_output_min_mv c = Fin omin
     \<and> fpc_output_max_mv c = Fin omax \<and> x = Fin l
     \<and> - 24000 \<le> omin \<and> omin \<le> 0 \<and> 0 \<le> omax \<and> omax \<le> 24000
     \<and> omin \<le> l \<and> l \<le> omax)"

lemma pi_ok_split:
  "pi_ok c \<longleftrightarrow> (mc_force_pi_enabled c \<longrightarrow>
     pi_state_ok (mc_force_pi_config c) (mc_force_pi_state c)
     \<and> pi_limits_ok (mc_force_pi_config c) (fpn_limited_output_mv (mc_force_pi_snapshot c)))"
  by (auto simp: pi_ok_def pi_state_ok_def pi_limits_ok_def)

lemma pi_limits_zero: "pi_limits_ok c x \<Longrightarrow> pi_limits_ok c (fpn_limited_output_mv zero_snapshot)"
  by (auto simp: pi_limits_ok_def zero_snapshot_def)

lemma pi_update_keeps:
  assumes "ForcePi_Update c s t m dt a = (ok, s', n)" "pi_state_ok c s" "pi_limits_ok c x"
  shows "pi_state_ok c s' \<and> pi_limits_ok c (fpn_limited_output_mv n)"
proof (cases ok)
  case False
  then have "s' = s \<and> n = zero_snapshot"
    using update_failure assms(1) by (metis (full_types))
  then show ?thesis using assms(2,3) pi_limits_zero by blast
next
  case True
  with assms(1) have up: "ForcePi_Update c s t m dt a = (True, s', n)" by simp
  note S = update_success [OF up]
  obtain u where u: "fpn_unlimited_output_mv n = Fin u"
    using S unfolding f32_isfinite_iff by blast
  have "f32_isfinite (fpn_integral_mv n)"
    using S f32_add_finite unfolding f32_isfinite_iff by metis
  then have "pi_state_ok c s'" using S assms(2) by (simp add: pi_state_ok_def)
  moreover have "pi_limits_ok c (fpn_limited_output_mv n)"
  proof -
    obtain omin omax where o: "fpc_output_min_mv c = Fin omin" "fpc_output_max_mv c = Fin omax"
        "- 24000 \<le> omin" "omin \<le> 0" "0 \<le> omax" "omax \<le> 24000"
      using assms(3) unfolding pi_limits_ok_def by blast
    have "fpn_limited_output_mv n = ForcePi_Clamp (Fin u) (Fin omin) (Fin omax)"
      using S unfolding u o by blast
    moreover have "omin \<le> omax" using o by simp
    ultimately show ?thesis
      unfolding pi_limits_ok_def using o clamp_within [of omin omax u] by auto
  qed
  ultimately show ?thesis ..
qed

text \<open>Contexts that differ in the strategy's run-time fields only.\<close>

definition pi_frame :: "MachineContext \<Rightarrow> MachineContext \<Rightarrow> bool" where
  "pi_frame c c' \<longleftrightarrow>
    c' = c\<lparr>mc_force_pi_state := mc_force_pi_state c', mc_force_pi_snapshot := mc_force_pi_snapshot c',
           mc_force_pi_time_valid := mc_force_pi_time_valid c',
           mc_force_pi_received_at_ms := mc_force_pi_received_at_ms c',
           mc_force_pi_sample_sequence := mc_force_pi_sample_sequence c',
           mc_force_pi_inhibit_reason := mc_force_pi_inhibit_reason c',
           mc_force_pi_blocked_suggestion_mv := mc_force_pi_blocked_suggestion_mv c',
           mc_force_pi_requested_signed_mv := mc_force_pi_requested_signed_mv c'\<rparr>"

lemma pi_frame_refl [simp]: "pi_frame c c"
  by (simp add: pi_frame_def)

lemma pi_frame_step [simp]:
  assumes "pi_frame c c'"
  shows "pi_frame c (c'\<lparr>mc_force_pi_state := fs\<rparr>)"
    "pi_frame c (c'\<lparr>mc_force_pi_snapshot := fn\<rparr>)"
    "pi_frame c (c'\<lparr>mc_force_pi_time_valid := b\<rparr>)"
    "pi_frame c (c'\<lparr>mc_force_pi_received_at_ms := t\<rparr>)"
    "pi_frame c (c'\<lparr>mc_force_pi_sample_sequence := q\<rparr>)"
    "pi_frame c (c'\<lparr>mc_force_pi_inhibit_reason := ir\<rparr>)"
    "pi_frame c (c'\<lparr>mc_force_pi_blocked_suggestion_mv := x\<rparr>)"
    "pi_frame c (c'\<lparr>mc_force_pi_requested_signed_mv := i\<rparr>)"
  using assms unfolding pi_frame_def by (cases c; cases c'; simp)+

lemma pi_frame_fields:
  assumes "pi_frame c c'"
  shows "mc_state c' = mc_state c" "mc_fault c' = mc_fault c" "mc_config c' = mc_config c"
    "mc_config_valid c' = mc_config_valid c" "mc_target_valid c' = mc_target_valid c"
    "mc_target_pressure_units c' = mc_target_pressure_units c"
    "mc_force_pi_enabled c' = mc_force_pi_enabled c"
    "mc_force_pi_config c' = mc_force_pi_config c"
    "mc_pressure c' = mc_pressure c" "mc_press_feedback c' = mc_press_feedback c"
    "mc_settle_phase c' = mc_settle_phase c"
    "mc_settle_gate_sequence c' = mc_settle_gate_sequence c"
  using assms unfolding pi_frame_def by (cases c; cases c'; simp)+

lemma state_ok_pi_frame: "pi_frame c c' \<Longrightarrow> state_ok p c' s = state_ok p c s"
  by (intro state_ok_cong pi_frame_fields)

section \<open>What no motor or safety step changes\<close>

definition settings ::
  "MachineContext \<Rightarrow> MachineConfig \<times> bool \<times> int \<times> bool \<times> bool \<times> ForcePiConfig \<times> MachinePressureSample" where
  "settings c = (mc_config c, mc_config_valid c, mc_target_pressure_units c, mc_target_valid c,
     mc_force_pi_enabled c, mc_force_pi_config c, mc_pressure c)"

lemma settings_frame [simp]:
  "settings (fault_ctx p f d t c) = settings c"
  "settings (c\<lparr>mc_motor_request_sequence := x\<rparr>) = settings c"
  "settings (c\<lparr>mc_state := st\<rparr>) = settings c"
  "settings (c\<lparr>mc_state_entered_ms := x\<rparr>) = settings c"
  "settings (c\<lparr>mc_settle_phase := ph\<rparr>) = settings c"
  "settings (c\<lparr>mc_settle_gate_sequence := g\<rparr>) = settings c"
  "settings (c\<lparr>mc_settle_feedback_after_ms := x\<rparr>) = settings c"
  "settings (c\<lparr>mc_press_feedback := f'\<rparr>) = settings c"
  "settings (c\<lparr>mc_cycle_started_ms := x\<rparr>) = settings c"
  "settings (c\<lparr>mc_auto_has_contacted := b\<rparr>) = settings c"
  "settings (c\<lparr>mc_auto_approach_pending := b\<rparr>) = settings c"
  by (simp_all add: settings_def fault_ctx_def)

lemma DisableOrFault_settings [simp]:
  "settings (w_ctx (snd (Machine_DisableOrFault p ops t w))) = settings (w_ctx w)"
  by (simp add: Machine_DisableOrFault_def Let_def case_prod_beta)

lemma EnterSettle_settings [simp]:
  "settings (w_ctx (snd (Machine_EnterSettle p ops t w))) = settings (w_ctx w)"
  by (simp add: Machine_EnterSettle_def Let_def case_prod_beta)

lemma motor_completion_settings [simp]:
  "settings (w_ctx (motor_completion p ops t w)) = settings (w_ctx w)"
  by (simp add: motor_completion_def Let_def case_prod_beta RecordPressEnd_ctx)

lemma HandleMotorService_settings [simp]:
  "settings (w_ctx (Machine_HandleMotorService p ops t w)) = settings (w_ctx w)"
  by (simp add: Machine_HandleMotorService_def Let_def case_prod_beta)

lemma StopApproachOnContact_settings [simp]:
  "settings (w_ctx (Machine_StopApproachOnContact p ops t w)) = settings (w_ctx w)"
  by (simp add: Machine_StopApproachOnContact_def Let_def case_prod_beta)

lemma CheckPressureSafety_settings [simp]:
  "settings (w_ctx (Machine_CheckPressureSafety p ops t w)) = settings (w_ctx w)"
  by (simp add: Machine_CheckPressureSafety_def Let_def)

context motor_executor
begin

lemma MotorIdle_exec [simp]:
  "w_ctx (snd (Machine_ForcePiMotorIdle ops w)) = w_ctx w"
  "inv (w_exec w) \<Longrightarrow> inv (w_exec (snd (Machine_ForcePiMotorIdle ops w)))"
  "inv (w_exec w) \<Longrightarrow> off (w_exec w) \<Longrightarrow> off (w_exec (snd (Machine_ForcePiMotorIdle ops w)))"
  by (simp_all add: Machine_ForcePiMotorIdle_def Let_def case_prod_beta)

lemma MotorIdle_ok [simp]:
  "machine_ok inv off p w \<Longrightarrow> machine_ok inv off p (snd (Machine_ForcePiMotorIdle ops w))"
  "machine_core inv p w \<Longrightarrow> machine_core inv p (snd (Machine_ForcePiMotorIdle ops w))"
  by (simp_all add: machine_ok_def machine_core_def)

lemma ok_pi_frame:
  assumes "machine_ok inv off p w" "pi_frame (w_ctx w) (w_ctx w')" "pi_ok (w_ctx w')"
    "inv (w_exec w')" "off (w_exec w) \<Longrightarrow> off (w_exec w')"
  shows "machine_ok inv off p w'"
  using assms pi_frame_fields [OF assms(2)] state_ok_pi_frame [OF assms(2)]
  by (simp add: machine_ok_def machine_core_def ctx_base_def)

lemma ObserveForcePi_ok:
  assumes ok: "machine_ok inv off p w" and enabled: "mc_force_pi_enabled (w_ctx w)"
  shows "machine_ok inv off p (snd (Machine_ObserveForcePi p ops t w))
    \<and> (fst (Machine_ObserveForcePi p ops t w) \<longrightarrow>
        pi_frame (w_ctx w) (w_ctx (snd (Machine_ObserveForcePi p ops t w))))"
proof -
  let ?C = "mc_force_pi_config (w_ctx w)"
  define F where "F v \<longleftrightarrow> pi_frame (w_ctx w) (w_ctx v) \<and> inv (w_exec v)
      \<and> (off (w_exec w) \<longrightarrow> off (w_exec v))
      \<and> pi_state_ok ?C (mc_force_pi_state (w_ctx v))
      \<and> pi_limits_ok ?C (fpn_limited_output_mv (mc_force_pi_snapshot (w_ctx v)))" for v :: "'e world"
  define R where "R r \<longleftrightarrow> machine_ok inv off p (snd r)
      \<and> (fst r \<longrightarrow> pi_frame (w_ctx w) (w_ctx (snd r)))" for r :: "bool \<times> 'e world"
  have core: "inv (w_exec w)" "pi_ok (w_ctx w)"
    using ok by (simp_all add: machine_ok_def machine_core_def ctx_base_def)
  then have st: "pi_state_ok ?C (mc_force_pi_state (w_ctx w))"
      "pi_limits_ok ?C (fpn_limited_output_mv (mc_force_pi_snapshot (w_ctx w)))"
    using enabled by (simp_all add: pi_ok_split)
  have F_ok: "machine_ok inv off p v" if "F v" for v
    using ok_pi_frame [OF ok, of v] that pi_frame_fields [of "w_ctx w" "w_ctx v"]
    by (simp add: F_def pi_ok_split)
  have F_idle: "F (snd (Machine_ForcePiMotorIdle ops w))"
    using core st by (simp add: F_def)
  have R_True: "R (True, v)" if "F v" for v
    using that F_ok [OF that] by (simp add: R_def F_def)
  have R_False: "R (False, Machine_EnterFault p ops FAULT_INTERNAL_FAULT d t v)" if "F v" for d v
    using core_of_ok [OF F_ok [OF that]] by (simp add: R_def)
  have R_let: "R (Let x f)" if "\<And>y. y = x \<Longrightarrow> R (f y)" for x :: 'b and f using that by simp
  have R_case: "R (case x of (a, b) \<Rightarrow> f a b)" if "\<And>a b. x = (a, b) \<Longrightarrow> R (f a b)" for x :: "'b \<times> 'c" and f
    using that by (cases x) simp
  have R_if: "R (if b then x else y)" if "b \<Longrightarrow> R x" "\<not> b \<Longrightarrow> R y" for b x y using that by simp
  have F_upd: "F (ctx_upd (\<lambda>c. c\<lparr>mc_force_pi_state := s', mc_force_pi_snapshot := n\<rparr>) v)"
    if "F v" "ForcePi_Update c s m x dt a = (b, s', n)" "c = mc_force_pi_config (w_ctx w)"
      "s = mc_force_pi_state (w_ctx v)" for v :: "'e world" and c s m x dt a b s' n
    using that pi_update_keeps [OF that(2)] by (auto simp: F_def)
  have F_preview: "pi_state_ok ?C s' \<and> pi_limits_ok ?C (fpn_limited_output_mv n)"
    if "ForcePi_Update ?C (mc_force_pi_state (w_ctx w)) m x dt a = (b, s', n)" for m x dt a b s' n
    using that pi_update_keeps st by blast
  have "R (Machine_ObserveForcePi p ops t w)"
    unfolding Machine_ObserveForcePi_def
    apply (intro R_let R_case R_if)
    subgoal premises prems for y ya yb yc yd ye yf yg yh yi idle wa yj yk
    proof (rule R_False)
      have "F wa" using F_idle prems(10,11) by (metis snd_conv)
      then show "F yk" unfolding prems(13) by (simp add: F_def)
    qed
    subgoal premises prems for y ya yb yc yd ye yf yg yh yi idle wa yj yk yl ok b ps pv ym yn yo yp yq
        yr oka ba s' n ys
    proof (rule R_False)
      have "F wa" using F_idle prems(10,11) by (metis snd_conv)
      then have "F yk" unfolding prems(13) by (simp add: F_def)
      then have "F yq" unfolding prems(22) by (simp add: F_def)
      then show "F ys"
        unfolding prems(26) using prems(24) [unfolded prems(23,25)] by (rule F_upd) (simp_all add: prems(1))
    qed
    subgoal premises prems for y ya yb yc yd ye yf yg yh yi idle wa yj yk yl ok b ps pv ym yn yo yp yq
        yr oka ba s' n ys yt yu
    proof (rule R_True)
      have "F wa" using F_idle prems(10,11) by (metis snd_conv)
      then have "F yk" unfolding prems(13) by (simp add: F_def)
      then have "F yq" unfolding prems(22) by (simp add: F_def)
      then have "F ys"
        unfolding prems(26) using prems(24) [unfolded prems(23,25)] by (rule F_upd) (simp_all add: prems(1))
      moreover have "pi_state_ok ?C ps \<and> pi_limits_ok ?C (fpn_limited_output_mv pv)"
        using prems(15) [unfolded prems(14,16,1,4)] by (rule F_preview)
      ultimately have "F yu" unfolding prems(29) by (simp add: F_def)
      then show "F (ctx_upd (\<lambda>c. c\<lparr>mc_force_pi_time_valid := True,
          mc_force_pi_received_at_ms := ps_received_at_ms yb,
          mc_force_pi_sample_sequence := ps_sequence yb\<rparr>) yu)"
        by (simp add: F_def)
    qed
    done
  then show ?thesis by (simp add: R_def)
qed

section \<open>Contact\<close>

lemma ctx_upd_frame:
  assumes "machine_ok inv off p w"
    "ctx_base p (w_ctx w) \<Longrightarrow> ctx_base p (f (w_ctx w))"
    "mc_state (f (w_ctx w)) = mc_state (w_ctx w)"
    "state_ok p (f (w_ctx w)) (mc_state (w_ctx w)) = state_ok p (w_ctx w) (mc_state (w_ctx w))"
  shows "machine_ok inv off p (ctx_upd f w)"
  using assms by (intro ok_ctx_upd) (simp_all add: machine_ok_def machine_core_def)

lemma measurement_ok [simp]:
  "machine_ok inv off p (Machine_UpdateApproachMeasurement t b w) = machine_ok inv off p w"
  "machine_ok inv off p (Machine_RecordFirstContact t w) = machine_ok inv off p w"
  "machine_core inv p (Machine_UpdateApproachMeasurement t b w) = machine_core inv p w"
  "machine_core inv p (Machine_RecordFirstContact t w) = machine_core inv p w"
  by (simp_all add: machine_ok_def machine_core_def)

lemma Service_ok:
  assumes "machine_ok inv off p w" "fst (ex_Service ops t (w_exec w)) = MOTOR_RESULT_OK"
  shows "machine_ok inv off p (snd (exec (ex_Service ops t) w))"
  using assms service_off by (simp add: machine_ok_def machine_core_def)

lemma approach_settle_ok:
  assumes "machine_ok inv off p w" "mc_state (w_ctx w) = AUTO_APPROACH"
  shows "machine_ok inv off p (snd (Machine_EnterSettle p ops t w))"
  using assms ok_automatic [OF assms(1)] by (intro EnterSettle_ok core_of_ok [OF assms(1)]) simp

lemma StopApproachOnContact_ok [simp]:
  assumes "machine_ok inv off p w"
  shows "machine_ok inv off p (Machine_StopApproachOnContact p ops t w)"
proof (cases "fst (ex_Service ops t (w_exec w)) = MOTOR_RESULT_OK")
  case False
  then show ?thesis
    using core_of_ok [OF assms]
    by (simp add: Machine_StopApproachOnContact_def Let_def case_prod_beta)
next
  case True
  define w1 where "w1 = Machine_HandleMotorService p ops t (snd (exec (ex_Service ops t) w))"
  have ok1: "machine_ok inv off p w1" using Service_ok [OF assms True] by (simp add: w1_def)
  have up: "machine_ok inv off p (ctx_upd (\<lambda>c. c\<lparr>mc_auto_has_contacted := True,
      mc_auto_approach_pending := False\<rparr>) v)" if "machine_ok inv off p v" for v :: "'e world"
    using that by (intro ctx_upd_frame) simp_all
  have cyc: "machine_ok inv off p (ctx_upd (\<lambda>c. c\<lparr>mc_cycle_started_ms :=
      ps_received_at_ms (mc_pressure c)\<rparr>) v)" if "machine_ok inv off p v" for v :: "'e world"
    using that by (intro ctx_upd_frame) simp_all
  show ?thesis
    unfolding Machine_StopApproachOnContact_def
    using True by (simp add: Let_def case_prod_beta w1_def [symmetric] ok1 up cyc
        approach_settle_ok [OF ok1])
qed

section \<open>Corrections and classification\<close>

lemma StartCorrection_ok:
  assumes core: "machine_core inv p w" and st: "state_ok p (w_ctx w) AUTO_PULSE"
    "state_ok p (w_ctx w) AUTO_SETTLE"
  shows "machine_ok inv off p (snd (Machine_StartCorrection p ops d t w))"
proof -
  define C where "C v \<longleftrightarrow> machine_core inv p v \<and> state_ok p (w_ctx v) AUTO_PULSE
    \<and> state_ok p (w_ctx v) AUTO_SETTLE" for v :: "'e world"
  have C_press: "C (Machine_SelectPressBand v)" if "C v" for v
  proof -
    obtain f where "w_ctx (Machine_SelectPressBand v) = (w_ctx v)\<lparr>mc_press_feedback := f\<rparr>"
      using SelectPressBand_ctx by blast
    with that show ?thesis by (simp add: C_def machine_core_def)
  qed
  have C_reset: "C (Machine_ResetPressFeedback v)" if "C v" for v
    using that by (simp add: C_def machine_core_def)
  have C_inh: "C (ctx_upd (\<lambda>c. c\<lparr>mc_force_pi_inhibit_reason := r,
      mc_force_pi_blocked_suggestion_mv := x\<rparr>) v)" if "C v" for v r x
    using that by (simp add: C_def machine_core_def)
  have settle: "machine_ok inv off p (snd (Machine_EnterSettle p ops t v))" if "C v" for v
    using that by (intro EnterSettle_ok) (simp_all add: C_def)
  have pulse: "machine_ok inv off p (snd (Machine_StartPulse p ops d' mv t v))" if "C v" for v d' mv
    using that by (intro StartPulse_ok) (simp_all add: C_def)
  have fault: "machine_ok inv off p (Machine_EnterFault p ops FAULT_INTERNAL_FAULT x t v)"
    if "C v" for v x using that by (simp add: C_def)
  have req: "machine_ok inv off p (ctx_upd (\<lambda>c. c\<lparr>mc_force_pi_requested_signed_mv := i\<rparr>) v)"
    if "machine_ok inv off p v" for v i
    using that by (intro ctx_upd_frame) simp_all
  have w: "C w" using assms by (simp add: C_def)
  show ?thesis
    unfolding Machine_StartCorrection_def Let_def case_prod_beta
    by (intro ok_snd_if) (simp_all add: w C_press C_reset C_inh settle pulse fault req)
qed

lemma set_result_ok:
  "machine_ok inv off p (snd rw) \<Longrightarrow> machine_ok inv off p (set_result rw)"
  by (cases rw) (auto simp: set_result_def intro!: ctx_upd_frame)

lemma ClassifySettledSample_ok:
  assumes ok: "machine_ok inv off p w" and st: "Machine_StateIsAutomatic (mc_state (w_ctx w))"
  shows "machine_ok inv off p (Machine_ClassifySettledSample p ops t w)"
proof -
  note s = ok_automatic [OF ok st]
  note core = core_of_ok [OF ok]
  have corr: "machine_ok inv off p (set_result (Machine_StartCorrection p ops d t w))" for d
    by (intro set_result_ok StartCorrection_ok core s) simp_all
  have hold: "machine_ok inv off p (snd (Machine_EnterHold p ops t w))"
    by (intro EnterHold_ok core s) simp
  have appr: "machine_ok inv off p (set_result (Machine_StartApproach p ops pr t v))"
    if "v = w \<or> v = Machine_ResetPressFeedback w" for pr v
    using that core s
    by (intro set_result_ok StartApproach_ok) (auto simp: machine_core_def)
  show ?thesis
    unfolding Machine_ClassifySettledSample_def Let_def
    by (intro ok_if) (simp_all add: corr hold appr)
qed

lemma ClassifyHoldSample_ok:
  assumes ok: "machine_ok inv off p w" and st: "mc_state (w_ctx w) = AUTO_HOLD"
  shows "machine_ok inv off p (Machine_ClassifyHoldSample p ops t w)"
proof -
  note s = ok_automatic [OF ok, unfolded st, OF automatic_states(4)]
  note core = core_of_ok [OF ok]
  let ?r = "ctx_upd (\<lambda>c. c\<lparr>mc_cycle_started_ms := t\<rparr>) w"
  have r: "machine_core inv p ?r" "state_ok p (w_ctx ?r) x = state_ok p (w_ctx w) x" for x
    using core by (simp_all add: machine_core_def)
  have corr: "machine_ok inv off p (set_result (Machine_StartCorrection p ops d t ?r))" for d
    using s by (intro set_result_ok StartCorrection_ok r(1)) (simp_all add: r(2) del: ctx_upd_simps)
  have appr: "machine_ok inv off p (set_result (Machine_StartApproach p ops pr t ?r))" for pr
    using s by (intro set_result_ok StartApproach_ok r(1)) (simp_all add: r(2) del: ctx_upd_simps)
  have stay: "machine_ok inv off p (snd (Machine_DisableOrFault p ops t w))"
    using core
  proof (cases rule: DisableOrFault_cases [where t = t])
    case (ok w')
    then show ?thesis using core s st by (simp add: machine_ok_def machine_core_def)
  qed simp
  show ?thesis
    unfolding Machine_ClassifyHoldSample_def Let_def
    by (intro ok_if) (simp_all only: corr appr stay)
qed

section \<open>Pressure safety and samples\<close>

lemma CheckPressureSafety_ok [simp]:
  assumes "machine_ok inv off p w"
  shows "machine_ok inv off p (Machine_CheckPressureSafety p ops t w)"
proof -
  define v where "v = (if AUTO_TARGET_ENABLED p
      then Machine_UpdateApproachMeasurement t False w else w)"
  have ok: "machine_ok inv off p v" using assms by (simp add: v_def)
  show ?thesis
    unfolding Machine_CheckPressureSafety_def Let_def v_def [symmetric]
    using assms ok core_of_ok [OF ok] by (intro ok_if) (simp_all split: if_splits)
qed

lemma ConsumePressFeedback_ok:
  assumes "machine_ok inv off p w"
  shows "machine_ok inv off p (Machine_ConsumePressFeedback w)"
    "mc_state (w_ctx (Machine_ConsumePressFeedback w)) = mc_state (w_ctx w)"
proof -
  obtain f where "w_ctx (Machine_ConsumePressFeedback w) = (w_ctx w)\<lparr>mc_press_feedback := f\<rparr>"
    using ConsumePressFeedback_ctx by blast
  with assms show "machine_ok inv off p (Machine_ConsumePressFeedback w)"
    "mc_state (w_ctx (Machine_ConsumePressFeedback w)) = mc_state (w_ctx w)"
    by (simp_all add: machine_ok_def machine_core_def)
qed

lemma dispatch_sample_ok [simp]:
  assumes "machine_ok inv off p w"
  shows "machine_ok inv off p (dispatch_sample p ops s t w)"
proof -
  define v where "v = (let c = w_ctx w in if AUTO_TARGET_ENABLED p \<and> pf_in_flight (mc_press_feedback c)
                 \<and> mc_state c = AUTO_PULSE \<and> Machine_IsPressureFresh c t
                 \<and> ps_control_pressure_units s > pf_observed_peak_units (mc_press_feedback c)
              then pf_upd (\<lambda>f. f\<lparr>pf_observed_peak_units := ps_control_pressure_units s\<rparr>) w
              else w)"
  have ok: "machine_ok inv off p v" using assms by (simp add: v_def Let_def)
  have up: "machine_ok inv off p (ctx_upd (\<lambda>c. c\<lparr>mc_auto_has_contacted := True,
      mc_auto_approach_pending := False\<rparr>) x)" if "machine_ok inv off p x" for x :: "'e world"
    using that by (intro ctx_upd_frame) simp_all
  have classify: "machine_ok inv off p (Machine_ClassifySettledSample p ops t x)"
    if "machine_ok inv off p x" "mc_state (w_ctx x) = AUTO_SETTLE" for x
    using that by (intro ClassifySettledSample_ok) simp_all
  show ?thesis
    unfolding dispatch_sample_def Let_def v_def [unfolded Let_def, symmetric]
    using ok ConsumePressFeedback_ok [OF ok]
    by (intro ok_if)
      (auto simp: approach_settle_ok ClassifyHoldSample_ok intro!: classify up)
qed

lemma observe_and_dispatch_ok:
  assumes "machine_ok inv off p w"
  shows "machine_ok inv off p (observe_and_dispatch p ops s t w)"
proof -
  define v where "v = Machine_CheckPressureSafety p ops t w"
  have ok: "machine_ok inv off p v" using assms by (simp add: v_def)
  have en: "mc_force_pi_enabled (w_ctx v)" if "mc_force_pi_enabled (w_ctx w)"
    using that CheckPressureSafety_settings [of p ops t w] by (simp add: v_def settings_def)
  show ?thesis
    unfolding observe_and_dispatch_def Let_def v_def [symmetric] case_prod_beta
    using assms ok ObserveForcePi_ok [OF ok en]
    by (intro ok_if) auto
qed

lemma HandlePressureSample_ok [simp]:
  assumes "machine_ok inv off p w"
  shows "machine_ok inv off p (Machine_HandlePressureSample p ops s t w)"
proof -
  have ok: "machine_ok inv off p (ctx_upd (\<lambda>c. c\<lparr>mc_pressure := s\<rparr>) w)"
    using assms by (intro ctx_upd_frame) simp_all
  show ?thesis
    unfolding Machine_HandlePressureSample_def Let_def
    using core_of_ok [OF assms] core_of_ok [OF ok]
    by (intro ok_if) (simp_all add: assms ok observe_and_dispatch_ok [OF ok])
qed

section \<open>Faults, ticks, initialisation and boot\<close>

lemma ReportFault_ok:
  assumes "machine_ok inv off p w"
  shows "machine_ok inv off p (Machine_ReportFault p ops f d t w)"
  using core_of_ok [OF assms] by (simp add: Machine_ReportFault_def)

lemma Tick_ok:
  assumes "machine_ok inv off p w"
  shows "machine_ok inv off p (Machine_Tick p ops t w)"
proof -
  have "machine_ok inv off p (ctx_upd (\<lambda>c. c\<lparr>mc_settle_gate_sequence := a, mc_settle_feedback_after_ms := b,
      mc_settle_phase := ph, mc_state_entered_ms := d\<rparr>) w)" for a b ph d
    using assms by (intro ctx_upd_frame) simp_all
  moreover have "machine_ok inv off p (ctx_upd (\<lambda>c. c\<lparr>mc_settle_gate_sequence := g c,
      mc_settle_feedback_after_ms := h c, mc_settle_phase := ph, mc_state_entered_ms := d\<rparr>) w)"
    for g h ph d
    using assms by (intro ctx_upd_frame) simp_all
  ultimately show ?thesis
    using assms core_of_ok [OF assms] by (simp add: Machine_Tick_def Let_def)
qed

lemma Initialize_ok:
  assumes "inv (w_exec w)"
  shows "machine_ok inv off p (Machine_Initialize p ops cf t w)"
proof -
  have c: "ctx_base p (zero_context\<lparr>mc_state := s, mc_fault := f, mc_fault_detail := d,
      mc_last_command_result := r, mc_state_entered_ms := t, mc_config_valid := b, mc_config := g\<rparr>)"
    if "b = Machine_ConfigIsValid p (Some g)" for s f d r b g
    using that by (simp add: ctx_base_def pi_ok_def zero_context_def)
  have n: "\<not> Machine_ConfigIsValid p None" by (simp add: Machine_ConfigIsValid_def)
  show ?thesis
    using assms c n
    by (cases cf) (simp_all add: Machine_Initialize_def Let_def case_prod_beta machine_ok_def
        machine_core_def state_ok_def ctx_base_def pi_ok_def zero_context_def
        Machine_StateIsDirectPulse_def)
qed

lemma CompleteBoot_ok:
  assumes "machine_ok inv off p w"
  shows "machine_ok inv off p (Machine_CompleteBoot p ops b t w)"
proof -
  have h: "machine_core inv p (snd (exec (ex_IsHealthy ops) w))"
    using core_of_ok [OF assms] by simp
  have "machine_ok inv off p (let (ok, w) = Machine_DisableOrFault p ops t (snd (exec (ex_IsHealthy ops) w))
      in if \<not> ok then w
         else ctx_upd (\<lambda>c. c\<lparr>mc_state := IDLE, mc_state_entered_ms := t,
                mc_fault := FAULT_NONE, mc_fault_detail := FAULT_DETAIL_NONE\<rparr>) w)"
    if "mc_config_valid (w_ctx w)"
    using h
  proof (cases rule: DisableOrFault_cases [where t = t])
    case (ok w')
    then show ?thesis
      using that core_of_ok [OF assms]
      by (simp add: machine_ok_def machine_core_def state_ok_def Machine_StateIsDirectPulse_def)
  qed simp
  then show ?thesis
    unfolding Machine_CompleteBoot_def Let_def case_prod_beta
    by (intro ok_if) (use assms core_of_ok [OF assms] h in \<open>auto split: if_splits\<close>)
qed

end

end
