(* ===== verification/MachineCommands.thy ===== *)
theory MachineCommands
  imports MachineSafety
begin

text \<open>
  The commands of the state machine, the strategy's configuration, and every
  sequence of calls: each keeps the invariant, so every reachable world has it.
\<close>

context motor_executor
begin

section \<open>Commands\<close>

lemma ok_snd_let:
  "(\<And>y. y = x \<Longrightarrow> machine_ok inv off p (snd (f y))) \<Longrightarrow> machine_ok inv off p (snd (Let x f))"
  by simp

lemma ok_snd_case:
  "(\<And>a b. x = (a, b) \<Longrightarrow> machine_ok inv off p (snd (f a b))) \<Longrightarrow>
    machine_ok inv off p (snd (case x of (a, b) \<Rightarrow> f a b))"
  by (cases x) simp

lemma any_of_healthy [simp]:
  "machine_ok inv off p w \<Longrightarrow> machine_ok inv off p (snd (any_of [test a, test b, test c,
     not_q (exec (ex_IsHealthy ops)), test d, test e] w))"
  "machine_ok inv off p w \<Longrightarrow> machine_ok inv off p (snd (any_of [test a,
     not_q (exec (ex_IsHealthy ops)), test d, test e, test f,
     not_q (exec (ex_OutputIsDisabled ops))] w))"
  by simp_all

lemma Stop_ok:
  assumes "machine_ok inv off p w"
  shows "machine_ok inv off p (snd (Machine_Stop p ops t w))"
  using core_of_ok [OF assms]
proof (cases rule: DisableOrFault_cases [where t = t])
  case (failed w')
  then show ?thesis by (simp add: Machine_Stop_def)
next
  case (ok w')
  define v where "v = (if AUTO_TARGET_ENABLED p
      then Machine_UpdateApproachMeasurement t True
             (Machine_RecordPressEnd ops AUTO_APPROACH_END_STOP t w') else w')"
  have e: "inv (w_exec v)" "off (w_exec v)" using ok by (simp_all add: v_def)
  have c: "settings (w_ctx v) = settings (w_ctx w)" "mc_fault (w_ctx v) = mc_fault (w_ctx w)"
      "ctx_base p (w_ctx v)"
    using ok core_of_ok [OF assms] by (simp_all add: v_def RecordPressEnd_ctx machine_core_def)
  define s where "s = (if mc_state (w_ctx w) = FAULT then FAULT
      else if mc_state (w_ctx w) = BOOT_SAFE then BOOT_SAFE else IDLE)"
  have "state_ok p (w_ctx w) s"
    using ok_state [OF assms] by (auto simp: s_def state_ok_def Machine_StateIsDirectPulse_def)
  moreover have "state_ok p (w_ctx v) s = state_ok p (w_ctx w) s"
    using c(1,2) by (intro state_ok_cong) (simp_all add: settings_def)
  ultimately have st: "state_ok p (w_ctx v) s" by simp
  define u where "u = ctx_upd (\<lambda>c. c\<lparr>mc_cycle_started_ms := 0, mc_state := s,
      mc_state_entered_ms := t\<rparr>) (Machine_ResetForcePi p (Machine_ClearTransientMotion v))"
  have "machine_ok inv off p u"
    using e c(3) st by (simp add: u_def machine_ok_def machine_core_def)
  from this [unfolded u_def v_def] show ?thesis
    using ok by (simp add: Machine_Stop_def Let_def s_def [symmetric] split: if_splits)
qed

lemma set_target_ok:
  assumes "machine_ok inv off p w"
  shows "machine_ok inv off p (snd (handle_set_target p i w))"
proof -
  have "machine_ok inv off p (Machine_ResetForcePi p
      (ctx_upd (\<lambda>c. c\<lparr>mc_target_pressure_units := i, mc_target_valid := True\<rparr>) w))"
    if "mc_state (w_ctx w) = IDLE"
      "cf_contact_threshold_units (mc_config (w_ctx w)) \<le> i"
      "i \<le> cf_maximum_target_pressure_units (mc_config (w_ctx w))"
  proof -
    have "ctx_base p (w_ctx w)" using assms by (simp add: machine_ok_def machine_core_def)
    then have "ctx_base p ((w_ctx w)\<lparr>mc_target_pressure_units := i, mc_target_valid := True\<rparr>)"
      using that by (simp add: ctx_base_def)
    then show ?thesis
      using assms that by (simp add: machine_ok_def machine_core_def state_ok_def)
  qed
  then show ?thesis using assms by (simp add: handle_set_target_def Let_def not_less)
qed

lemma direct_pulse_ok:
  assumes "machine_ok inv off p w"
  shows "machine_ok inv off p (snd (handle_direct_pulse p ops d t w))"
proof -
  have start: "machine_ok inv off p (snd (Machine_StartDirectPulse p ops d t v))"
    if "machine_ok inv off p v" "mc_state (w_ctx v) = IDLE" "DIRECT_COMMANDS_ENABLED p" for v
    using that core_of_ok [OF that(1)] ok_state [OF that(1)]
    by (intro StartDirectPulse_ok) (auto simp: state_ok_def Machine_StateIsDirectPulse_def)
  show ?thesis
    unfolding handle_direct_pulse_def Let_def case_prod_beta
    using assms by (intro ok_snd_if) (simp_all add: start)
qed

lemma auto_start_ok:
  assumes ok: "machine_ok inv off p w" and en: "AUTOMATIC_COMMANDS_ENABLED p"
  shows "machine_ok inv off p (snd (handle_auto_start p ops t w))"
proof -
  define G where "G v \<longleftrightarrow> machine_ok inv off p v \<and> w_ctx v = w_ctx w" for v :: "'e world"
  have G_w: "G w" using ok by (simp add: G_def)
  have G_exec: "G (snd (exec (ex_GetSnapshot ops) v))" "G (snd (exec (ex_IsHealthy ops) v))"
      "G (snd (Machine_ForcePiMotorIdle ops v))"
    if "G v" for v using that by (simp_all add: G_def)
  have G_ok: "machine_ok inv off p v" if "G v" for v using that by (simp add: G_def)
  have fault: "machine_ok inv off p (Machine_EnterFault p ops FAULT_OVERPRESSURE d t v)" if "G v" for v d
    using that core_of_ok by (simp add: G_def)
  define start where "start v = (let w = Machine_ResetForcePi p v;
         w = ctx_upd (\<lambda>c. c\<lparr>mc_cycle_started_ms := t\<rparr>) w;
         contacted = ps_control_pressure_units (mc_pressure (w_ctx w))
                       \<ge> cf_contact_threshold_units (mc_config (w_ctx w));
         w = (if AUTO_TARGET_ENABLED p
              then diag_upd (\<lambda>_. zero_diagnostics\<lparr>
                     ad_search_started_at_ms := t,
                     ad_search_active := \<not> contacted\<rparr>)
                   (ctx_upd (\<lambda>c. c\<lparr>mc_auto_has_contacted := contacted,
                      mc_auto_approach_pending := \<not> contacted\<rparr>) w)
              else w)
     in if \<not> contacted
        then Machine_StartApproach p ops APPROACH_FIRST t w
        else
          (let (ok, w) = Machine_EnterSettle p ops t w
           in if ok
              then (COMMAND_ACCEPTED,
                    if AUTO_TARGET_ENABLED p then Machine_RecordFirstContact t w
                    else w)
              else (COMMAND_EXECUTOR_FAILED, w)))" for v :: "'e world"
  have start: "machine_ok inv off p (snd (start v))"
    if "G v" "mc_target_valid (w_ctx w)" "mc_config_valid (w_ctx w)" "mc_state (w_ctx w) = IDLE"
      "AUTO_TARGET_ENABLED p \<Longrightarrow> mc_force_pi_enabled (w_ctx w)" for v
  proof -
    have st: "state_ok p (w_ctx v) AUTO_APPROACH" "state_ok p (w_ctx v) AUTO_SETTLE"
      using that ok_state [OF ok] en
      by (simp_all add: G_def state_ok_def Machine_StateIsDirectPulse_def)
    have core: "machine_core inv p v" using that by (simp add: G_def core_of_ok)
    show ?thesis
      unfolding start_def Let_def case_prod_beta
      using core st
      by (intro ok_snd_if) (simp_all add: machine_core_def StartApproach_ok EnterSettle_ok)
  qed
  have snap: "G v'" if "y = exec (ex_GetSnapshot ops) w" "y = (b, v')" for y b v'
    using that G_exec(1) [OF G_w] by (metis snd_conv)
  have ready: "G v' \<and> (\<not> b \<longrightarrow> mc_target_valid (w_ctx w) \<and> mc_config_valid (w_ctx w))"
    if "y = any_of [test (\<lambda>w. \<not> mc_target_valid (w_ctx w)), test (\<lambda>w. \<not> mc_config_valid (w_ctx w)),
        test f, not_q (exec (ex_IsHealthy ops)), test g, test h] v" "y = (b, v')" "G v"
    for y b v v' f g h
    using that G_exec(2) [OF that(3)] by (auto simp: G_def split: if_splits)
  have pi_ready: "G v' \<and> (\<not> b \<longrightarrow> AUTO_TARGET_ENABLED p \<longrightarrow> mc_force_pi_enabled (w_ctx w))"
    if "y = (if AUTO_TARGET_ENABLED p then any_of [test (\<lambda>w. \<not> mc_force_pi_enabled (w_ctx w)),
        not_q (Machine_ForcePiMotorIdle ops)] v else (False, v))" "y = (b, v')" "G v"
    for y b v v'
    using that G_exec(3) [OF that(3)] by (auto simp: G_def split: if_splits)
  have idle: "mc_state (w_ctx w) = IDLE" if "y = mc_state (w_ctx v)" "\<not> y \<noteq> IDLE" "G v" for y v
    using that by (simp add: G_def)
  show ?thesis
    unfolding handle_auto_start_def start_def [symmetric]
    apply (intro ok_snd_let ok_snd_case ok_snd_if)
        apply (unfold snd_conv)
        apply (rule G_ok, erule (1) snap)
    subgoal premises prems
      using ready [OF prems(5,6) snap [OF prems(1,2)]] by (blast intro: G_ok)
    subgoal premises prems
      using pi_ready [OF prems(8,9)] ready [OF prems(5,6) snap [OF prems(1,2)]]
      by (blast intro: G_ok)
    subgoal premises prems
      using pi_ready [OF prems(8,9)] ready [OF prems(5,6) snap [OF prems(1,2)]]
      by (blast intro: fault)
    subgoal premises prems
      using pi_ready [OF prems(8,9)] ready [OF prems(5,6) snap [OF prems(1,2)]]
        idle [OF prems(3,4) snap [OF prems(1,2)]] prems(7,10)
      by (blast intro: start)
    done
qed

lemma HandleCommand_ok:
  assumes "machine_ok inv off p w"
  shows "machine_ok inv off p (snd (Machine_HandleCommand p ops cmd t w))"
proof -
  have noted: "machine_ok inv off p (ctx_upd (\<lambda>c. c\<lparr>mc_last_command_result := r\<rparr>) v)"
    if "machine_ok inv off p v" for r and v :: "'e world"
    using that by (intro ctx_upd_frame) simp_all
  show ?thesis
    unfolding Machine_HandleCommand_def Let_def case_prod_beta
    using assms
    by (cases "cmd_type cmd")
      (simp_all add: noted Stop_ok set_target_ok direct_pulse_ok auto_start_ok)
qed

section \<open>Configuring the strategy\<close>

lemma magnitude_bounds:
  assumes "Machine_ForcePiMagnitudeValid ops m d"
  shows "\<exists>a. m = Fin a \<and> 0 \<le> a \<and> a \<le> 24000"
  using assms unfolding Machine_ForcePiMagnitudeValid_def
  by (cases m) (auto simp: f32_isfinite_def split: if_splits)

lemma pi_initialize_ok:
  assumes "ForcePi_Initialize s c = (True, s')"
  shows "pi_state_ok c s'"
  using assms by (auto simp: ForcePi_Initialize_def pi_state_ok_def zero_state_def split: if_splits)

lemma configured_ok:
  assumes ok: "machine_ok inv off p w"
    and st: "pi_state_ok c s" and lim: "pi_limits_ok c (Fin 0)"
    and idle: "mc_state (w_ctx w) = IDLE"
  shows "machine_ok inv off p (Machine_ResetForcePi p (ctx_upd (\<lambda>x. x\<lparr>mc_force_pi_config := c,
    mc_force_pi_state := s, mc_force_pi_enabled := True\<rparr>) w))"
proof -
  let ?c = "(w_ctx w)\<lparr>mc_force_pi_config := c, mc_force_pi_state := s, mc_force_pi_enabled := True\<rparr>"
  have pi: "pi_ok (pi_reset_ctx p ?c)"
    using st lim by (simp add: pi_ok_split pi_reset_ctx_def pi_state_ok_def zero_snapshot_def)
  have base: "ctx_base p (w_ctx w)" using ok by (simp add: machine_ok_def machine_core_def)
  have "ctx_base p (pi_reset_ctx p ?c)"
    using base pi by (simp add: ctx_base_def)
  moreover have "state_ok p ?c IDLE"
    using ok_state [OF ok] idle by (simp add: state_ok_def)
  ultimately show ?thesis
    using ok idle by (simp add: machine_ok_def machine_core_def)
qed

lemma configured_limits:
  assumes "Machine_ForcePiMagnitudeValid ops (f32_neg (fpc_output_min_mv c)) MOTOR_DIRECTION_RELEASE"
    "Machine_ForcePiMagnitudeValid ops (fpc_output_max_mv c) MOTOR_DIRECTION_PRESS"
  shows "pi_limits_ok c (Fin 0)" "pi_limits_ok (c\<lparr>fpc_output_min_mv := Fin 0\<rparr>) (Fin 0)"
proof -
  obtain a where "f32_neg (fpc_output_min_mv c) = Fin a" "0 \<le> a" "a \<le> 24000"
    using magnitude_bounds [OF assms(1)] by blast
  then have "fpc_output_min_mv c = Fin (- a)" "0 \<le> a" "a \<le> 24000"
    by (cases "fpc_output_min_mv c"; simp; fastforce)+
  moreover obtain b where "fpc_output_max_mv c = Fin b" "0 \<le> b" "b \<le> 24000"
    using magnitude_bounds [OF assms(2)] by blast
  ultimately show "pi_limits_ok c (Fin 0)" "pi_limits_ok (c\<lparr>fpc_output_min_mv := Fin 0\<rparr>) (Fin 0)"
    by (simp_all add: pi_limits_ok_def)
qed

lemma ConfigureForcePi_ok:
  assumes ok: "machine_ok inv off p w"
  shows "machine_ok inv off p (snd (Machine_ConfigureForcePi p ops config w))"
proof (cases config)
  case None
  then show ?thesis using ok by (simp add: Machine_ConfigureForcePi_def)
next
  case (Some c)
  have ready: "machine_ok inv off p v' \<and> w_ctx v' = w_ctx w"
    if "y = any_of [test f, not_q (Machine_ForcePiMotorIdle ops)] w" "y = (b, v')" for y b v' f
    using that ok by (auto split: if_splits)
  have conf: "machine_ok inv off p (Machine_ResetForcePi p (ctx_upd (\<lambda>x. x\<lparr>mc_force_pi_config := e,
      mc_force_pi_state := s, mc_force_pi_enabled := True\<rparr>) v))"
    if "machine_ok inv off p v" "mc_state (w_ctx v) = IDLE" "ForcePi_Initialize s0 e = (b, s)" "b"
      "e = (if h then c\<lparr>fpc_output_min_mv := Fin 0\<rparr> else c)"
      "Machine_ForcePiMagnitudeValid ops (f32_neg (fpc_output_min_mv c)) MOTOR_DIRECTION_RELEASE"
      "Machine_ForcePiMagnitudeValid ops (fpc_output_max_mv c) MOTOR_DIRECTION_PRESS"
    for v e s0 s b h
    using that configured_limits [OF that(6,7)] pi_initialize_ok [of s0 e s]
    by (intro configured_ok) auto
  show ?thesis
    unfolding Machine_ConfigureForcePi_def Some option.case
    apply (intro ok_snd_let ok_snd_case ok_snd_if)
    apply (unfold snd_conv)
    subgoal using ok by simp
    subgoal using ok by simp
    subgoal premises prems using ready [OF prems(3,4)] by blast
    subgoal premises prems using ready [OF prems(3,4)] by blast
    subgoal premises prems using ready [OF prems(3,4)] by blast
    subgoal premises prems using ready [OF prems(3,4)] by blast
    subgoal premises prems for y nr v z b nxt e u b' s
    proof (rule conf [OF _ _ prems(12) [unfolded prems(11)] _ prems(10)])
      show "machine_ok inv off p v" "mc_state (w_ctx v) = IDLE"
        using ready [OF prems(3,4)] prems(2) by simp_all
    qed (use prems(8,13) in simp_all)
    done
qed

end

end
