(* ===== verification/Runtime.thy ===== *)
theory Runtime
  imports MachineCommands PressureReceiver
begin

text \<open>
  The runtime around the state machine, \<^verbatim>\<open>Application/runtime.c\<close>, and its part of the
  main loop of \<^verbatim>\<open>User/main.c\<close>: delivery of pressure samples, the safety service,
  the output guard, ticks. The reachable runtimes are those of any interleaving of
  these steps with commands. This is the runtime of the builds without ForceServo; the
  branches that the file has for the others are in theory \<open>ForceRun\<close>.
\<close>

section \<open>Operations\<close>

record 'e runtime =
  rt_world :: "'e world"
  rt_delivered_pressure_sequence :: u64

definition on_machine :: "('e world \<Rightarrow> 'e world) \<Rightarrow> 'e runtime \<Rightarrow> 'e runtime" where
  "on_machine f r = r\<lparr>rt_world := f (rt_world r)\<rparr>"

definition ApplicationRuntime_Initialize ::
  "build_policy \<Rightarrow> 'e executor \<Rightarrow> MachineConfig option \<Rightarrow> u32 \<Rightarrow> 'e runtime \<Rightarrow> 'e runtime" where
  "ApplicationRuntime_Initialize p ops config now_ms r =
    \<lparr>rt_world = Machine_Initialize p ops config now_ms (rt_world r),
     rt_delivered_pressure_sequence = 0\<rparr>"

definition ApplicationRuntime_CompleteBoot ::
  "build_policy \<Rightarrow> 'e executor \<Rightarrow> bool \<Rightarrow> u32 \<Rightarrow> 'e runtime \<Rightarrow> 'e runtime" where
  "ApplicationRuntime_CompleteBoot p ops boot_checks_passed now_ms =
    on_machine (\<lambda>w.
      (let w = Machine_CompleteBoot p ops boot_checks_passed now_ms w
       in if AUTO_TARGET_ENABLED p \<and> mc_state (w_ctx w) = IDLE
          then
            (let (result, w) = Machine_ConfigureForcePi p ops
                                 (Some g_sd700_auto_target_force_pi_config) w
             in if result \<noteq> COMMAND_ACCEPTED
                then Machine_ReportFault p ops FAULT_BOOT_FAULT FAULT_DETAIL_BOOT_CONFIGURATION
                       now_ms w
                else w)
          else w))"

definition delivered_sample :: "PressureReceiverSnapshot \<Rightarrow> MachinePressureSample" where
  "delivered_sample pressure =
    (let (valid, units) = PressureControl_ConvertRawCounts (prs_raw_pressure_counts pressure)
     in zero_sample\<lparr>ps_sequence := prs_sample_sequence pressure,
          ps_received_at_ms := prs_received_at_ms pressure,
          ps_raw_pressure_counts := ucast (prs_raw_pressure_counts pressure),
          ps_frame := prs_last_valid_frame pressure, ps_frame_valid := True,
          ps_control_units_valid := valid, ps_control_pressure_units := units\<rparr>)"

definition ApplicationRuntime_ServicePressure ::
  "build_policy \<Rightarrow> 'e executor \<Rightarrow> PressureReceiverSnapshot \<Rightarrow> u32 \<Rightarrow> 'e runtime
    \<Rightarrow> bool \<times> 'e runtime" where
  "ApplicationRuntime_ServicePressure p ops pressure now_ms r =
    (if prs_sample_sequence pressure = 0
        \<or> prs_sample_sequence pressure \<le> rt_delivered_pressure_sequence r
     then (False, r)
     else
       (True, on_machine (Machine_HandlePressureSample p ops (delivered_sample pressure) now_ms)
          (r\<lparr>rt_delivered_pressure_sequence := prs_sample_sequence pressure\<rparr>)))"

definition ApplicationRuntime_ServiceSafety ::
  "build_policy \<Rightarrow> 'e executor \<Rightarrow> u32 \<Rightarrow> 'e runtime \<Rightarrow> 'e runtime" where
  "ApplicationRuntime_ServiceSafety p ops now_ms =
    on_machine (\<lambda>w.
      (let w = Machine_CheckPressureSafety p ops now_ms w;
           (motor_result, w) = exec (ex_Service ops now_ms) w
       in if motor_result \<noteq> MOTOR_RESULT_OK
          then
            (let (_, w) = exec (ex_Disable ops) w
             in Machine_ReportFault p ops FAULT_MOTOR_FAULT FAULT_DETAIL_MOTOR_HARDWARE now_ms w)
          else Machine_HandleMotorService p ops now_ms w))"

definition ApplicationRuntime_Tick ::
  "build_policy \<Rightarrow> 'e executor \<Rightarrow> u32 \<Rightarrow> 'e runtime \<Rightarrow> 'e runtime" where
  "ApplicationRuntime_Tick p ops now_ms = on_machine (Machine_Tick p ops now_ms)"

text \<open>Step 5 of the main loop.\<close>

definition main_guard_output ::
  "build_policy \<Rightarrow> 'e executor \<Rightarrow> u32 \<Rightarrow> 'e runtime \<Rightarrow> 'e runtime" where
  "main_guard_output p ops now_ms =
    on_machine (\<lambda>w.
      (let (guard_result, w) = exec (ex_GuardOutput ops) w
       in if guard_result \<noteq> MOTOR_RESULT_OK
          then Machine_ReportFault p ops FAULT_MOTOR_FAULT FAULT_DETAIL_MOTOR_HARDWARE now_ms w
          else w))"

section \<open>Every interleaving of the steps\<close>

text \<open>
  The main loop fixes an order of these steps; nothing below depends on it. Times
  and commands are arbitrary.
\<close>

inductive rt_step :: "build_policy \<Rightarrow> 'e executor \<Rightarrow> 'e runtime \<Rightarrow> 'e runtime \<Rightarrow> bool"
  for p :: build_policy and ops :: "'e executor" where
  boot: "rt_step p ops r (ApplicationRuntime_CompleteBoot p ops b t r)"
| pressure: "rt_step p ops r (snd (ApplicationRuntime_ServicePressure p ops snap t r))"
| safety: "rt_step p ops r (ApplicationRuntime_ServiceSafety p ops t r)"
| guard: "rt_step p ops r (main_guard_output p ops t r)"
| command: "rt_step p ops r (on_machine (\<lambda>w. snd (Machine_HandleCommand p ops cmd t w)) r)"
| configure: "rt_step p ops r (on_machine (\<lambda>w. snd (Machine_ConfigureForcePi p ops config w)) r)"
| report: "rt_step p ops r (on_machine (Machine_ReportFault p ops f d t) r)"
| tick: "rt_step p ops r (ApplicationRuntime_Tick p ops t r)"

inductive_cases rt_stepE: "rt_step p ops r r'"

definition rt_ok ::
  "('e \<Rightarrow> bool) \<Rightarrow> ('e \<Rightarrow> bool) \<Rightarrow> build_policy \<Rightarrow> 'e runtime \<Rightarrow> bool" where
  "rt_ok iv off p r \<longleftrightarrow> machine_ok iv off p (rt_world r)"

lemma on_machine_simps [simp]:
  "rt_world (on_machine f r) = f (rt_world r)"
  "rt_delivered_pressure_sequence (on_machine f r) = rt_delivered_pressure_sequence r"
  by (simp_all add: on_machine_def)

context motor_executor
begin

lemma rt_Initialize_ok:
  "inv (w_exec (rt_world r)) \<Longrightarrow> rt_ok inv off p (ApplicationRuntime_Initialize p ops cf t r)"
  by (simp add: rt_ok_def ApplicationRuntime_Initialize_def Initialize_ok)

lemma rt_CompleteBoot_ok:
  "rt_ok inv off p r \<Longrightarrow> rt_ok inv off p (ApplicationRuntime_CompleteBoot p ops b t r)"
  by (auto simp: rt_ok_def ApplicationRuntime_CompleteBoot_def Let_def case_prod_beta
      CompleteBoot_ok ConfigureForcePi_ok intro!: ReportFault_ok)

lemma rt_ServiceSafety_ok:
  assumes "rt_ok inv off p r"
  shows "rt_ok inv off p (ApplicationRuntime_ServiceSafety p ops t r)"
proof -
  define w where "w = Machine_CheckPressureSafety p ops t (rt_world r)"
  have ok: "machine_ok inv off p w" using assms by (simp add: rt_ok_def w_def)
  show ?thesis
    unfolding rt_ok_def ApplicationRuntime_ServiceSafety_def Let_def case_prod_beta on_machine_simps
      w_def [symmetric]
    using Service_ok [OF ok] core_of_ok [OF ok]
    by (intro ok_if) (auto simp: Machine_ReportFault_def)
qed

lemma rt_guard_ok:
  assumes "rt_ok inv off p r"
  shows "rt_ok inv off p (main_guard_output p ops t r)"
proof -
  have ok: "machine_ok inv off p (rt_world r)" using assms by (simp add: rt_ok_def)
  then have "machine_ok inv off p (snd (exec (ex_GuardOutput ops) (rt_world r)))"
    if "fst (ex_GuardOutput ops (w_exec (rt_world r))) = MOTOR_RESULT_OK"
    using that guard_off by (simp add: machine_ok_def machine_core_def)
  then show ?thesis
    using core_of_ok [OF ok]
    by (simp add: rt_ok_def main_guard_output_def Let_def case_prod_beta Machine_ReportFault_def)
qed

lemma rt_step_ok:
  assumes "rt_step p ops r r'" "rt_ok inv off p r"
  shows "rt_ok inv off p r'"
  using assms
proof (cases rule: rt_step.cases)
  case (pressure snap t)
  then show ?thesis
    using assms(2) by (simp add: rt_ok_def ApplicationRuntime_ServicePressure_def)
next
  case (command cmd t)
  then show ?thesis using assms(2) HandleCommand_ok by (simp add: rt_ok_def)
next
  case (configure config)
  then show ?thesis using assms(2) ConfigureForcePi_ok by (simp add: rt_ok_def)
next
  case (report f d t)
  then show ?thesis using assms(2) ReportFault_ok by (simp add: rt_ok_def)
next
  case (tick t)
  then show ?thesis using assms(2) Tick_ok by (simp add: rt_ok_def ApplicationRuntime_Tick_def)
qed (simp_all add: rt_CompleteBoot_ok rt_ServiceSafety_ok rt_guard_ok)

lemma rt_reach_ok:
  assumes "(rt_step p ops)\<^sup>*\<^sup>* r r'" "rt_ok inv off p r"
  shows "rt_ok inv off p r'"
  using assms by (induction rule: rtranclp_induct) (auto intro: rt_step_ok)

end

end
