(* ===== verification/MachineProps.thy ===== *)
theory MachineProps
  imports Runtime MotorLocked
begin

text \<open>
  Properties of the application state machine and its runtime in the builds without
  ForceServo, whatever their other policy flags, and for every executor backend that keeps
  the contract. The witnesses run the
  locked backend with the linked profiles.
\<close>

section \<open>A concrete runtime\<close>

definition locked_policy :: build_policy where
  "locked_policy = \<lparr>bp_mode = MODE_LOCKED, bp_auto_target = False, bp_force_servo = False,
     bp_commissioning = False, bp_characterization = False, bp_build_to_target = False\<rparr>"

definition bench_policy :: build_policy where
  "bench_policy = \<lparr>bp_mode = MODE_REAL_BENCH, bp_auto_target = True, bp_force_servo = False,
     bp_commissioning = False, bp_characterization = False, bp_build_to_target = False\<rparr>"

definition locked_world :: "locked_executor world" where
  "locked_world = \<lparr>w_ctx = zero_context, w_exec = snd (Locked_Initialize undefined),
     w_diag = zero_diagnostics\<rparr>"

definition locked_runtime :: "locked_executor runtime" where
  "locked_runtime = \<lparr>rt_world = locked_world, rt_delivered_pressure_sequence = 0\<rparr>"

lemma locked_world_ok: "locked_ok (w_exec locked_world)"
  by (simp add: locked_world_def locked_ok_initialize)

lemmas locked_eval = locked_ops_def locked_defs locked_world_def locked_runtime_def
  Locked_Initialize_def Let_def exec_pair motor_def

lemma locked_boot_idle:
  "mc_state (w_ctx (rt_world (ApplicationRuntime_CompleteBoot locked_policy locked_ops True t'
     (ApplicationRuntime_Initialize locked_policy locked_ops (Some g_sd700_bench_machine_config) t
       locked_runtime)))) = IDLE"
proof -
  have "Machine_ConfigIsValid locked_policy (Some g_sd700_bench_machine_config)"
    by (simp add: Machine_ConfigIsValid_def g_sd700_bench_machine_config_def AUTO_TARGET_ENABLED_def
        locked_policy_def INT32_MAX_def)
  moreover have "\<not> AUTO_TARGET_ENABLED locked_policy"
    by (simp add: AUTO_TARGET_ENABLED_def locked_policy_def)
  ultimately show ?thesis
    by (simp add: ApplicationRuntime_CompleteBoot_def ApplicationRuntime_Initialize_def
        Machine_CompleteBoot_def Machine_Initialize_def Machine_DisableOrFault_def locked_eval)
qed

section \<open>Reachable runtimes\<close>

text \<open>C17: Whatever the order of boot, pressure samples, safety services, output guards,
  commands, reported faults and ticks, and whatever their times: the machine is in a
  state the code handles, in \<open>FAULT\<close> exactly when a fault is recorded, with the motor
  output off while idle, settling or holding, under automatic control only in a build
  that allows it with a target between the contact threshold and the maximum, and with
  a validated configuration outside boot and fault.\<close>

theorem reachable_runtime_is_safe:
  assumes "motor_executor ops iv off" "iv (w_exec (rt_world r0))"
    and "(rt_step p ops)\<^sup>*\<^sup>* (ApplicationRuntime_Initialize p ops cf t r0) r"
  shows "mc_state (w_ctx (rt_world r)) \<in> {BOOT_SAFE, IDLE, AUTO_APPROACH, AUTO_SETTLE, AUTO_PULSE,
      AUTO_HOLD, FAULT, DIRECT_PRESS_PULSE, DIRECT_RELEASE_PULSE}
    \<and> (mc_state (w_ctx (rt_world r)) = FAULT \<longleftrightarrow> mc_fault (w_ctx (rt_world r)) \<noteq> FAULT_NONE)
    \<and> (mc_state (w_ctx (rt_world r)) \<in> {IDLE, AUTO_SETTLE, AUTO_HOLD} \<longrightarrow> off (w_exec (rt_world r)))
    \<and> (Machine_StateIsAutomatic (mc_state (w_ctx (rt_world r))) \<longrightarrow>
         AUTOMATIC_COMMANDS_ENABLED p \<and> mc_target_valid (w_ctx (rt_world r))
         \<and> (AUTO_TARGET_ENABLED p \<longrightarrow> mc_force_pi_enabled (w_ctx (rt_world r))))
    \<and> (mc_target_valid (w_ctx (rt_world r)) \<longrightarrow>
         cf_contact_threshold_units (mc_config (w_ctx (rt_world r)))
           \<le> mc_target_pressure_units (w_ctx (rt_world r))
         \<and> mc_target_pressure_units (w_ctx (rt_world r))
           \<le> cf_maximum_target_pressure_units (mc_config (w_ctx (rt_world r))))
    \<and> (Machine_StateIsDirectPulse (mc_state (w_ctx (rt_world r))) \<longrightarrow> DIRECT_COMMANDS_ENABLED p)
    \<and> (mc_state (w_ctx (rt_world r)) \<notin> {BOOT_SAFE, FAULT} \<longrightarrow>
         Machine_ConfigIsValid p (Some (mc_config (w_ctx (rt_world r)))))"
proof -
  have ok: "machine_ok iv off p (rt_world r)"
    using motor_executor.rt_reach_ok [OF assms(1,3)]
      motor_executor.rt_Initialize_ok [OF assms(1,2)] by (simp add: rt_ok_def)
  then have st: "state_ok p (w_ctx (rt_world r)) (mc_state (w_ctx (rt_world r)))"
      and base: "ctx_base p (w_ctx (rt_world r))"
      and off: "output_off_state (mc_state (w_ctx (rt_world r))) \<longrightarrow> off (w_exec (rt_world r))"
    by (simp_all add: machine_ok_def machine_core_def)
  show ?thesis
    using st base off unfolding state_ok_def ctx_base_def output_off_state_def by blast
qed

theorem reachable_runtime_is_safe_witness:
  "let r = ApplicationRuntime_CompleteBoot locked_policy locked_ops True 5
       (ApplicationRuntime_Initialize locked_policy locked_ops (Some g_sd700_bench_machine_config) 1
         locked_runtime)
   in mc_state (w_ctx (rt_world r)) = IDLE \<and> locked_off (w_exec (rt_world r))"
proof -
  let ?i = "ApplicationRuntime_Initialize locked_policy locked_ops
    (Some g_sd700_bench_machine_config) 1 locked_runtime"
  let ?r = "ApplicationRuntime_CompleteBoot locked_policy locked_ops True 5 ?i"
  have "locked_ok (w_exec (rt_world locked_runtime))"
    by (simp add: locked_runtime_def locked_world_ok)
  note R = reachable_runtime_is_safe [OF locked.motor_executor_axioms this
      r_into_rtranclp [where r = "rt_step locked_policy locked_ops", OF rt_step.boot]]
  have "mc_state (w_ctx (rt_world ?r)) = IDLE"
    by (simp add: locked_boot_idle)
  moreover from this have "locked_off (w_exec (rt_world ?r))" using R by blast
  ultimately show ?thesis by (simp add: Let_def)
qed

section \<open>STOP\<close>

context motor_executor
begin

lemma DisableOrFault_off:
  assumes "inv (w_exec w)" "fst (Machine_DisableOrFault p ops t w)"
  shows "inv (w_exec (snd (Machine_DisableOrFault p ops t w)))
    \<and> off (w_exec (snd (Machine_DisableOrFault p ops t w)))
    \<and> w_ctx (snd (Machine_DisableOrFault p ops t w)) = (w_ctx w)\<lparr>mc_motor_request_sequence := 0\<rparr>"
  using assms disable_off [OF assms(1)]
  by (auto simp: Machine_DisableOrFault_def Let_def case_prod_beta split: if_splits)

lemma Stop_result:
  assumes "inv (w_exec w)"
  shows "mc_motor_request_sequence (w_ctx (snd (Machine_Stop p ops t w))) = 0
    \<and> (if fst (Machine_Stop p ops t w) = COMMAND_ACCEPTED
       then off (w_exec (snd (Machine_Stop p ops t w)))
         \<and> mc_state (w_ctx (snd (Machine_Stop p ops t w)))
             = (if mc_state (w_ctx w) = FAULT then FAULT
                else if mc_state (w_ctx w) = BOOT_SAFE then BOOT_SAFE else IDLE)
         \<and> mc_fault (w_ctx (snd (Machine_Stop p ops t w))) = mc_fault (w_ctx w)
       else fst (Machine_Stop p ops t w) = COMMAND_EXECUTOR_FAILED
         \<and> mc_state (w_ctx (snd (Machine_Stop p ops t w))) = FAULT
         \<and> mc_fault (w_ctx (snd (Machine_Stop p ops t w))) = FAULT_MOTOR_FAULT)"
proof (cases "fst (Machine_DisableOrFault p ops t w)")
  case True
  then show ?thesis
    using DisableOrFault_off [OF assms True]
    by (simp add: Machine_Stop_def Let_def case_prod_beta RecordPressEnd_ctx pi_reset_ctx_def)
next
  case False
  then have "w_ctx (snd (Machine_DisableOrFault p ops t w))
      = fault_ctx p FAULT_MOTOR_FAULT FAULT_DETAIL_MOTOR_HARDWARE t (w_ctx w)"
    by (auto simp: Machine_DisableOrFault_def Let_def case_prod_beta split: if_splits)
  with False show ?thesis by (simp add: Machine_Stop_def Let_def case_prod_beta)
qed

end

text \<open>C18: STOP always works or says so: in any state of the machine, after the command the
  result is either acceptance, with the motor output off and the machine idle (or still
  in \<open>FAULT\<close> or \<open>BOOT_SAFE\<close>, its recorded fault unchanged), or \<open>COMMAND_EXECUTOR_FAILED\<close>
  with the machine in \<open>FAULT\<close> for a motor fault; either way no request is pending.\<close>

theorem stop_turns_output_off:
  assumes "motor_executor ops iv off" "iv (w_exec w)"
  shows "(case Machine_HandleCommand p ops \<lparr>cmd_type = CMD_STOP, cmd_target_pressure_units = x\<rparr> t w
    of (result, w') \<Rightarrow>
      mc_last_command_result (w_ctx w') = result
      \<and> mc_motor_request_sequence (w_ctx w') = 0
      \<and> (if result = COMMAND_ACCEPTED
         then off (w_exec w')
           \<and> mc_state (w_ctx w') = (if mc_state (w_ctx w) = FAULT then FAULT
               else if mc_state (w_ctx w) = BOOT_SAFE then BOOT_SAFE else IDLE)
           \<and> mc_fault (w_ctx w') = mc_fault (w_ctx w)
         else result = COMMAND_EXECUTOR_FAILED
           \<and> mc_state (w_ctx w') = FAULT \<and> mc_fault (w_ctx w') = FAULT_MOTOR_FAULT))"
  using motor_executor.Stop_result [OF assms, of p t]
  by (simp add: Machine_HandleCommand_def Let_def case_prod_beta)

theorem stop_turns_output_off_witness:
  "(case Machine_HandleCommand locked_policy locked_ops
      \<lparr>cmd_type = CMD_STOP, cmd_target_pressure_units = 0\<rparr> 9 locked_world
    of (result, w') \<Rightarrow>
      mc_last_command_result (w_ctx w') = result
      \<and> mc_motor_request_sequence (w_ctx w') = 0
      \<and> (if result = COMMAND_ACCEPTED
         then locked_off (w_exec w')
           \<and> mc_state (w_ctx w') = (if mc_state (w_ctx locked_world) = FAULT then FAULT
               else if mc_state (w_ctx locked_world) = BOOT_SAFE then BOOT_SAFE else IDLE)
           \<and> mc_fault (w_ctx w') = mc_fault (w_ctx locked_world)
         else result = COMMAND_EXECUTOR_FAILED
           \<and> mc_state (w_ctx w') = FAULT \<and> mc_fault (w_ctx w') = FAULT_MOTOR_FAULT))"
  by (rule stop_turns_output_off [OF locked.motor_executor_axioms locked_world_ok])

section \<open>Faults are latched\<close>

lemma fault_no_service [simp]:
  "mc_state (w_ctx w) = FAULT \<Longrightarrow> Machine_HandleMotorService p ops t w = w"
  by (simp add: Machine_HandleMotorService_def Machine_StateIsDirectPulse_def)

lemma fault_no_safety [simp]:
  "mc_state (w_ctx w) = FAULT \<Longrightarrow> Machine_CheckPressureSafety p ops t w = w"
  by (simp add: Machine_CheckPressureSafety_def Machine_StateRequiresPressureSafety_def
      Machine_StateIsAutomatic_def Machine_StateIsDirectPulse_def)

lemma fault_dispatch:
  "mc_state (w_ctx w) = FAULT \<Longrightarrow> mc_state (w_ctx (dispatch_sample p ops s t w)) = FAULT"
  by (simp add: dispatch_sample_def Let_def)

lemma fault_sample:
  "mc_state (w_ctx w) = FAULT \<Longrightarrow> mc_state (w_ctx (Machine_HandlePressureSample p ops s t w)) = FAULT"
  by (simp add: Machine_HandlePressureSample_def observe_and_dispatch_def Let_def fault_dispatch)

lemma fault_DisableOrFault:
  "mc_state (w_ctx w) = FAULT \<Longrightarrow> mc_state (w_ctx (snd (Machine_DisableOrFault p ops t w))) = FAULT"
  by (simp add: Machine_DisableOrFault_def Let_def case_prod_beta)

lemma fault_command:
  assumes "mc_state (w_ctx w) = FAULT"
  shows "mc_state (w_ctx (snd (Machine_HandleCommand p ops cmd t w))) = FAULT"
  using assms fault_DisableOrFault [OF assms]
  by (cases "cmd_type cmd")
    (simp_all add: Machine_HandleCommand_def Machine_Stop_def handle_set_target_def
      handle_direct_pulse_def handle_auto_start_def Let_def case_prod_beta)

lemma fault_step:
  assumes "rt_step p ops r r'" "mc_state (w_ctx (rt_world r)) = FAULT"
  shows "mc_state (w_ctx (rt_world r')) = FAULT"
  using assms
  by (cases rule: rt_step.cases)
    (simp_all add: ApplicationRuntime_CompleteBoot_def Machine_CompleteBoot_def
      ApplicationRuntime_ServicePressure_def ApplicationRuntime_ServiceSafety_def
      main_guard_output_def ApplicationRuntime_Tick_def Machine_Tick_def Machine_ReportFault_def
      Machine_ConfigureForcePi_def fault_sample fault_command Let_def case_prod_beta
      split: option.splits)

text \<open>C22: In the builds whose application is \<^verbatim>\<open>machine.c\<close> (those without ForceServo) a fault is
  latched: no sequence of commands, samples, services, guards, ticks or boot completions,
  at any times and with any executor, leaves \<open>FAULT\<close>; only a new initialisation does. This
  includes \<open>CMD_FAULT_RESET\<close>, which is answered \<open>COMMAND_UNSUPPORTED\<close> in every state and
  changes nothing but the last result. The architecture documents describe a reset that
  leaves \<open>FAULT\<close> for \<open>BOOT_SAFE\<close> (\<^verbatim>\<open>02_SAFETY_AND_FAULTS.md\<close>, Fault reset and INV-12;
  \<^verbatim>\<open>04_HOST_TEST_PLAN.md\<close>, HST-24); \<^verbatim>\<open>machine.c\<close> does not implement it. The ForceServo
  machine has a reset, see theory \<open>ForceMachineProps\<close>.\<close>

theorem fault_is_latched:
  assumes "(rt_step p ops)\<^sup>*\<^sup>* r r'" "mc_state (w_ctx (rt_world r)) = FAULT"
  shows "mc_state (w_ctx (rt_world r')) = FAULT
    \<and> Machine_HandleCommand p ops \<lparr>cmd_type = CMD_FAULT_RESET, cmd_target_pressure_units = v\<rparr> t w
        = (COMMAND_UNSUPPORTED, w\<lparr>w_ctx := (w_ctx w)\<lparr>mc_last_command_result := COMMAND_UNSUPPORTED\<rparr>\<rparr>)"
proof
  show "mc_state (w_ctx (rt_world r')) = FAULT"
    using assms by (induction rule: rtranclp_induct) (auto intro: fault_step)
qed (simp add: Machine_HandleCommand_def ctx_upd_def)

theorem fault_is_latched_witness:
  "mc_state (w_ctx (rt_world
     (on_machine (\<lambda>w. snd (Machine_HandleCommand locked_policy locked_ops
          \<lparr>cmd_type = CMD_FAULT_RESET, cmd_target_pressure_units = 0\<rparr> 20 w))
       (on_machine (Machine_ReportFault locked_policy locked_ops FAULT_OVERCURRENT FAULT_DETAIL_NONE 10)
         locked_runtime)))) = FAULT"
  by (rule fault_is_latched [where p = locked_policy and ops = locked_ops, THEN conjunct1,
        OF r_into_rtranclp [where r = "rt_step locked_policy locked_ops", OF rt_step.command]])
     (simp add: Machine_ReportFault_def)

section \<open>Pressure samples and safety checks\<close>

text \<open>What a sample does before any control decision.\<close>

definition sample_accepted :: "build_policy \<Rightarrow> MachineContext \<Rightarrow> MachinePressureSample \<Rightarrow> bool" where
  "sample_accepted p c s \<longleftrightarrow> ps_frame_valid s \<and> ps_control_units_valid s
    \<and> (ps_frame_valid (mc_pressure c) \<and> ps_control_units_valid (mc_pressure c) \<longrightarrow>
         ps_sequence (mc_pressure c) < ps_sequence s
         \<and> (AUTO_TARGET_ENABLED p \<longrightarrow>
              ps_received_at_ms s - ps_received_at_ms (mc_pressure c) < 0x80000000))"

text \<open>C24: Pressure faults take effect in every state they guard: an accepted sample at or
  above the raw limit faults the machine for overpressure whatever its state; an
  invalid sample, or one that goes back in sequence (or, with AutoTarget, in time),
  faults every state that needs pressure and never reaches the controller; a repeated
  sequence changes nothing.\<close>

theorem sample_faults:
  "(let w' = Machine_HandlePressureSample p ops s t w; c = w_ctx w; c' = w_ctx w'
    in if sample_accepted p c s
       then (if cf_raw_overpressure_enabled (mc_config c)
                \<and> cf_raw_overpressure_limit_counts (mc_config c) \<le> ps_raw_pressure_counts s
             then mc_state c' = FAULT \<and> mc_fault c' = FAULT_OVERPRESSURE
               \<and> mc_motor_request_sequence c' = 0
             else w' = observe_and_dispatch p ops s t (ctx_upd (\<lambda>c. c\<lparr>mc_pressure := s\<rparr>) w))
       else if ps_frame_valid s \<and> ps_control_units_valid s
               \<and> ps_sequence s = ps_sequence (mc_pressure c)
       then w' = w
       else if Machine_StateRequiresPressureSafety p (mc_state c)
       then mc_state c' = FAULT \<and> mc_fault c' = FAULT_PRESSURE_SENSOR_FAULT
         \<and> mc_fault_detail c'
             = (if ps_frame_valid s \<and> ps_control_units_valid s then FAULT_DETAIL_PRESSURE_ORDER_LOST
                else FAULT_DETAIL_PRESSURE_INVALID)
       else w_exec w' = w_exec w \<and> mc_state c' = mc_state c)"
proof -
  define W where "W = Machine_HandlePressureSample p ops s t w"
  note W = W_def [unfolded Machine_HandlePressureSample_def Let_def]
  note acc = sample_accepted_def [of p "w_ctx w" s]
  consider (invalid) "\<not> (ps_frame_valid s \<and> ps_control_units_valid s)"
    | (stale) "ps_frame_valid s" "ps_control_units_valid s" "ps_frame_valid (mc_pressure (w_ctx w))"
        "ps_control_units_valid (mc_pressure (w_ctx w))"
        "ps_sequence s < ps_sequence (mc_pressure (w_ctx w))"
    | (again) "ps_frame_valid s" "ps_control_units_valid s" "ps_frame_valid (mc_pressure (w_ctx w))"
        "ps_control_units_valid (mc_pressure (w_ctx w))"
        "ps_sequence s = ps_sequence (mc_pressure (w_ctx w))"
    | (early) "ps_frame_valid s" "ps_control_units_valid s" "ps_frame_valid (mc_pressure (w_ctx w))"
        "ps_control_units_valid (mc_pressure (w_ctx w))"
        "ps_sequence (mc_pressure (w_ctx w)) < ps_sequence s" "AUTO_TARGET_ENABLED p"
        "0x80000000 \<le> ps_received_at_ms s - ps_received_at_ms (mc_pressure (w_ctx w))"
    | (accepted) "sample_accepted p (w_ctx w) s"
    unfolding acc by (metis linorder_less_linear not_less)
  then have "(let c = w_ctx w; c' = w_ctx W
    in if sample_accepted p c s
       then (if cf_raw_overpressure_enabled (mc_config c)
                \<and> cf_raw_overpressure_limit_counts (mc_config c) \<le> ps_raw_pressure_counts s
             then mc_state c' = FAULT \<and> mc_fault c' = FAULT_OVERPRESSURE
               \<and> mc_motor_request_sequence c' = 0
             else W = observe_and_dispatch p ops s t (ctx_upd (\<lambda>c. c\<lparr>mc_pressure := s\<rparr>) w))
       else if ps_frame_valid s \<and> ps_control_units_valid s
               \<and> ps_sequence s = ps_sequence (mc_pressure c)
       then W = w
       else if Machine_StateRequiresPressureSafety p (mc_state c)
       then mc_state c' = FAULT \<and> mc_fault c' = FAULT_PRESSURE_SENSOR_FAULT
         \<and> mc_fault_detail c'
             = (if ps_frame_valid s \<and> ps_control_units_valid s then FAULT_DETAIL_PRESSURE_ORDER_LOST
                else FAULT_DETAIL_PRESSURE_INVALID)
       else w_exec W = w_exec w \<and> mc_state c' = mc_state c)"
  proof cases
    case invalid
    then show ?thesis by (auto simp: W acc Let_def fault_ctx_def)
  next
    case stale
    from stale(5) have "ps_sequence s \<le> ps_sequence (mc_pressure (w_ctx w))"
        "ps_sequence s \<noteq> ps_sequence (mc_pressure (w_ctx w))"
        "\<not> ps_sequence (mc_pressure (w_ctx w)) < ps_sequence s"
      by auto
    with stale show ?thesis by (simp add: W acc Let_def fault_ctx_def)
  next
    case again
    then show ?thesis by (simp add: W acc Let_def)
  next
    case early
    from early(5,7) have "\<not> ps_sequence s \<le> ps_sequence (mc_pressure (w_ctx w))"
        "ps_sequence s \<noteq> ps_sequence (mc_pressure (w_ctx w))"
        "\<not> ps_received_at_ms s - ps_received_at_ms (mc_pressure (w_ctx w)) < 0x80000000"
      by auto
    with early show ?thesis by (simp add: W acc Let_def fault_ctx_def)
  next
    case accepted
    show ?thesis
    proof (cases "ps_frame_valid (mc_pressure (w_ctx w)) \<and> ps_control_units_valid (mc_pressure (w_ctx w))")
      case True
      with accepted have "\<not> ps_sequence s \<le> ps_sequence (mc_pressure (w_ctx w))"
          and time: "(AUTO_TARGET_ENABLED p
             \<and> 0x80000000 \<le> ps_received_at_ms s - ps_received_at_ms (mc_pressure (w_ctx w))) = False"
        by (auto simp: acc not_le)
      with True accepted acc show ?thesis by (simp add: W Let_def time)
    next
      case False
      with accepted acc show ?thesis by (auto simp: W Let_def)
    qed
  qed
  then show ?thesis by (simp only: W_def Let_def)
qed

end
