(* ===== verification/MachineTiming.thy ===== *)
theory MachineTiming
  imports MachineProps
begin

text \<open>
  Timed properties of the state machine: freshness of the pressure, the cycle
  timeout, the settle delay, and the admission of an automatic start.
\<close>

section \<open>Freshness\<close>

lemma settings_fresh:
  assumes "settings c' = settings c"
  shows "Machine_IsPressureFresh c' t = Machine_IsPressureFresh c t"
  using assms by (simp add: settings_def Machine_IsPressureFresh_def)

lemma requires_safety_fault [simp]: "\<not> Machine_StateRequiresPressureSafety p FAULT"
  by (simp add: Machine_StateRequiresPressureSafety_def Machine_StateIsDirectPulse_def)

lemma check_leaves_fresh:
  assumes "Machine_StateRequiresPressureSafety p (mc_state (w_ctx (Machine_CheckPressureSafety p ops t w)))"
  shows "Machine_IsPressureFresh (w_ctx (Machine_CheckPressureSafety p ops t w)) t"
proof -
  have "Machine_IsPressureFresh (w_ctx w) t"
  proof (rule ccontr)
    assume n: "\<not> Machine_IsPressureFresh (w_ctx w) t"
    show False
    proof (cases "Machine_StateRequiresPressureSafety p (mc_state (w_ctx w))")
      case True
      with n have "mc_state (w_ctx (Machine_CheckPressureSafety p ops t w)) = FAULT"
        by (simp add: Machine_CheckPressureSafety_def Let_def)
      with assms show False by simp
    next
      case False
      with assms show False by (simp add: Machine_CheckPressureSafety_def)
    qed
  qed
  then show ?thesis using settings_fresh [OF CheckPressureSafety_settings] by blast
qed

lemma settle_keeps_guard:
  "Machine_StateRequiresPressureSafety p (mc_state (w_ctx (snd (Machine_EnterSettle p ops t w)))) \<Longrightarrow>
    Machine_StateIsAutomatic (mc_state (w_ctx (snd (Machine_EnterSettle p ops t w))))"
  by (simp add: Machine_EnterSettle_def Machine_DisableOrFault_def Let_def case_prod_beta
      split: if_splits)

lemma service_keeps_guard:
  assumes "Machine_StateRequiresPressureSafety p (mc_state (w_ctx (Machine_HandleMotorService p ops t w)))"
  shows "Machine_StateRequiresPressureSafety p (mc_state (w_ctx w))"
proof (rule ccontr)
  assume n: "\<not> Machine_StateRequiresPressureSafety p (mc_state (w_ctx w))"
  then have "\<not> Machine_StateIsAutomatic (mc_state (w_ctx w))"
    by (auto simp: Machine_StateRequiresPressureSafety_def)
  then have a: "mc_state (w_ctx w) \<noteq> AUTO_APPROACH" "mc_state (w_ctx w) \<noteq> AUTO_PULSE"
    by auto
  have "\<not> Machine_StateRequiresPressureSafety p
      (mc_state (w_ctx (Machine_HandleMotorService p ops t w)))"
    using a n
    by (simp add: Machine_HandleMotorService_def motor_completion_def Let_def case_prod_beta)
      (simp add: Machine_StateRequiresPressureSafety_def Machine_StateIsDirectPulse_def)
  with assms show False by simp
qed

text \<open>The controller never runs on stale pressure: right after a safety service, if the
  machine is still in a state that needs pressure (automatic control; with the real
  backend also a direct pulse), its pressure is valid and no older than the freshness
  limit at the time of the service.\<close>

theorem safety_service_leaves_fresh:
  assumes "Machine_StateRequiresPressureSafety p
    (mc_state (w_ctx (rt_world (ApplicationRuntime_ServiceSafety p ops t r))))"
  shows "Machine_IsPressureFresh (w_ctx (rt_world (ApplicationRuntime_ServiceSafety p ops t r))) t"
proof -
  define w where "w = Machine_CheckPressureSafety p ops t (rt_world r)"
  define v where "v = snd (exec (ex_Service ops t) w)"
  have "rt_world (ApplicationRuntime_ServiceSafety p ops t r)
      = (if fst (ex_Service ops t (w_exec w)) = MOTOR_RESULT_OK
         then Machine_HandleMotorService p ops t v
         else Machine_ReportFault p ops FAULT_MOTOR_FAULT FAULT_DETAIL_MOTOR_HARDWARE t
                (snd (exec (ex_Disable ops) v)))"
    by (simp add: ApplicationRuntime_ServiceSafety_def Let_def case_prod_beta w_def v_def)
  then have r: "rt_world (ApplicationRuntime_ServiceSafety p ops t r) = Machine_HandleMotorService p ops t v"
    using assms by (auto simp: Machine_ReportFault_def split: if_splits)
  from assms have "Machine_StateRequiresPressureSafety p (mc_state (w_ctx v))"
    unfolding r by (rule service_keeps_guard)
  then have "Machine_IsPressureFresh (w_ctx v) t"
    using check_leaves_fresh by (simp add: v_def w_def)
  then show ?thesis
    unfolding r using settings_fresh [OF HandleMotorService_settings] by blast
qed

definition holding_runtime :: "u32 \<Rightarrow> locked_executor runtime" where
  "holding_runtime received = locked_runtime\<lparr>rt_world := locked_world\<lparr>w_ctx := zero_context\<lparr>
     mc_state := AUTO_HOLD, mc_config := g_sd700_bench_machine_config,
     mc_pressure := zero_sample\<lparr>ps_frame_valid := True, ps_control_units_valid := True,
       ps_received_at_ms := received\<rparr>\<rparr>\<rparr>\<rparr>"

lemma not_auto_target_locked [simp]: "\<not> AUTO_TARGET_ENABLED locked_policy"
  by (simp add: AUTO_TARGET_ENABLED_def locked_policy_def)

lemma holding_safety:
  "mc_state (w_ctx (rt_world (ApplicationRuntime_ServiceSafety locked_policy locked_ops 100
     (holding_runtime 60)))) = AUTO_HOLD"
  by (simp add: ApplicationRuntime_ServiceSafety_def holding_runtime_def Machine_CheckPressureSafety_def
      Machine_StateRequiresPressureSafety_def Machine_IsPressureFresh_def
      g_sd700_bench_machine_config_def Machine_StateIsDirectPulse_def
      Machine_HandleMotorService_def locked_eval)

theorem safety_service_leaves_fresh_witness:
  "Machine_IsPressureFresh (w_ctx (rt_world (ApplicationRuntime_ServiceSafety locked_policy locked_ops
     100 (holding_runtime 60)))) 100"
  by (rule safety_service_leaves_fresh)
    (simp add: holding_safety Machine_StateRequiresPressureSafety_def)

section \<open>Deadlines of automatic control\<close>

text \<open>C25: The safety check enforces every deadline, across wrap of the millisecond counter:
  pressure older than the freshness limit faults every guarded state; an automatic
  cycle that is not holding faults once it has run for its timeout (with AutoTarget,
  counted from the first contact); a settle phase that waits for a sample faults once
  it has waited for the feedback timeout.\<close>

theorem safety_check_enforces_deadlines:
  assumes "Machine_StateRequiresPressureSafety p (mc_state (w_ctx w))"
  shows "(let c = w_ctx w; c' = w_ctx (Machine_CheckPressureSafety p ops t w); cf = mc_config c
    in if \<not> Machine_IsPressureFresh c t
       then mc_state c' = FAULT \<and> mc_fault c' = FAULT_PRESSURE_SENSOR_FAULT
         \<and> mc_fault_detail c' = FAULT_DETAIL_PRESSURE_TIMEOUT
       else if Machine_StateIsDirectPulse (mc_state c) then c' = c
       else if mc_state c \<noteq> AUTO_HOLD \<and> (if AUTO_TARGET_ENABLED p then mc_auto_has_contacted c else True)
            \<and> cf_automatic_cycle_timeout_ms cf \<le> t - mc_cycle_started_ms c
       then mc_state c' = FAULT \<and> mc_fault c' = FAULT_MOTION_TIMEOUT
         \<and> mc_fault_detail c' = FAULT_DETAIL_CYCLE_TIMEOUT
       else if mc_state c = AUTO_SETTLE \<and> mc_settle_phase c = SETTLE_WAIT_SAMPLE
            \<and> cf_settle_feedback_timeout_ms cf \<le> t - mc_state_entered_ms c
       then mc_state c' = FAULT \<and> mc_fault c' = FAULT_PRESSURE_SENSOR_FAULT
         \<and> mc_fault_detail c' = FAULT_DETAIL_SETTLE_FEEDBACK_TIMEOUT
       else if AUTO_TARGET_ENABLED p then True else c' = c)"
proof -
  have contact: "\<not> Machine_HasCurrentApproachContact (fault_ctx p f d t' c) t" for f d t' c
    by (simp add: Machine_HasCurrentApproachContact_def)
  have detail: "mc_fault_detail (fault_ctx p f d t' c) = d" if "f \<noteq> FAULT_MOTOR_FAULT" for f d t' c
    using that by (simp add: fault_ctx_def)
  show ?thesis
    using assms by (auto simp: Machine_CheckPressureSafety_def Let_def contact detail)
qed

theorem safety_check_enforces_deadlines_witness:
  "mc_fault (w_ctx (Machine_CheckPressureSafety locked_policy locked_ops 20000
     (ctx_upd (\<lambda>c. c\<lparr>mc_state := AUTO_PULSE, mc_cycle_started_ms := 100,
        mc_config := g_sd700_bench_machine_config,
        mc_pressure := zero_sample\<lparr>ps_frame_valid := True, ps_control_units_valid := True,
          ps_received_at_ms := 19990\<rparr>\<rparr>) locked_world))) = FAULT_MOTION_TIMEOUT"
  using safety_check_enforces_deadlines [of locked_policy "ctx_upd (\<lambda>c. c\<lparr>mc_state := AUTO_PULSE,
        mc_cycle_started_ms := 100, mc_config := g_sd700_bench_machine_config,
        mc_pressure := zero_sample\<lparr>ps_frame_valid := True, ps_control_units_valid := True,
          ps_received_at_ms := 19990\<rparr>\<rparr>) locked_world" locked_ops 20000]
  by (simp add: Machine_StateRequiresPressureSafety_def Machine_IsPressureFresh_def Let_def
      g_sd700_bench_machine_config_def Machine_StateIsDirectPulse_def)

section \<open>The settle phase\<close>

lemma settle_contact:
  assumes "mc_state (w_ctx w) = AUTO_SETTLE"
  shows "mc_state (w_ctx (Machine_StopApproachOnContact p ops t w)) = FAULT
    \<or> (mc_state (w_ctx (Machine_StopApproachOnContact p ops t w)) = AUTO_SETTLE
      \<and> mc_settle_phase (w_ctx (Machine_StopApproachOnContact p ops t w)) = mc_settle_phase (w_ctx w)
      \<and> mc_settle_gate_sequence (w_ctx (Machine_StopApproachOnContact p ops t w))
          = mc_settle_gate_sequence (w_ctx w))"
  using assms
  by (simp add: Machine_StopApproachOnContact_def Machine_HandleMotorService_def
      Machine_StateIsDirectPulse_def Let_def case_prod_beta)

lemma settle_check:
  assumes "mc_state (w_ctx w) = AUTO_SETTLE"
  shows "mc_state (w_ctx (Machine_CheckPressureSafety p ops t w)) = FAULT
    \<or> (mc_state (w_ctx (Machine_CheckPressureSafety p ops t w)) = AUTO_SETTLE
      \<and> mc_settle_phase (w_ctx (Machine_CheckPressureSafety p ops t w)) = mc_settle_phase (w_ctx w)
      \<and> mc_settle_gate_sequence (w_ctx (Machine_CheckPressureSafety p ops t w))
          = mc_settle_gate_sequence (w_ctx w))"
proof -
  let ?v = "Machine_UpdateApproachMeasurement t False w"
  have "\<not> Machine_HasCurrentApproachContact (fault_ctx p f d t' c) t" for f d t' c
    by (simp add: Machine_HasCurrentApproachContact_def)
  then show ?thesis
    using assms settle_contact [of w p ops t] settle_contact [of ?v p ops t]
    by (simp add: Machine_CheckPressureSafety_def Let_def)
qed

definition gate_closed :: "MachineContext \<Rightarrow> MachinePressureSample \<Rightarrow> bool" where
  "gate_closed c s \<longleftrightarrow> mc_state c = AUTO_SETTLE
    \<and> (mc_settle_phase c = SETTLE_WAIT_DELAY \<or> ps_sequence s \<le> mc_settle_gate_sequence c)"

lemma gate_closed_dispatch:
  assumes "gate_closed (w_ctx w) s"
  shows "dispatch_sample p ops s t w = w"
  using assms by (auto simp: gate_closed_def dispatch_sample_def Let_def)

lemma gate_closed_check:
  assumes "gate_closed (w_ctx w) s"
  shows "mc_state (w_ctx (Machine_CheckPressureSafety p ops t w)) = FAULT
    \<or> gate_closed (w_ctx (Machine_CheckPressureSafety p ops t w)) s"
  using assms settle_check [of w p ops t] unfolding gate_closed_def by auto

lemma gate_closed_frame:
  "pi_frame c c' \<Longrightarrow> gate_closed c s \<Longrightarrow> gate_closed c' s"
  using pi_frame_fields [of c c'] by (simp add: gate_closed_def)

lemma settling_if:
  assumes "b \<Longrightarrow> mc_state (w_ctx x) \<in> {AUTO_SETTLE, FAULT}"
    "\<not> b \<Longrightarrow> mc_state (w_ctx y) \<in> {AUTO_SETTLE, FAULT}"
  shows "mc_state (w_ctx (if b then x else y)) \<in> {AUTO_SETTLE, FAULT}"
  using assms by simp

context motor_executor
begin

lemma observe_false_fault:
  assumes "\<not> fst (Machine_ObserveForcePi p ops t w)"
  shows "mc_state (w_ctx (snd (Machine_ObserveForcePi p ops t w))) = FAULT"
proof -
  define R where "R r \<longleftrightarrow> (\<not> fst r \<longrightarrow> mc_state (w_ctx (snd r)) = FAULT)" for r :: "bool \<times> 'e world"
  have R_let: "R (Let x f)" if "\<And>y. R (f y)" for x :: 'b and f using that by simp
  have R_case: "R (case x of (a, b) \<Rightarrow> f a b)" if "\<And>a b. R (f a b)" for x :: "'b \<times> 'c" and f
    using that by (cases x) simp
  have R_if: "R (if b then x else y)" if "R x" "R y" for b x y using that by simp
  have "R (Machine_ObserveForcePi p ops t w)"
    unfolding Machine_ObserveForcePi_def
    by (intro R_let R_case R_if) (simp_all add: R_def)
  with assms show ?thesis by (simp add: R_def)
qed

lemma gate_closed_observe:
  assumes "machine_ok inv off p w" "gate_closed (w_ctx w) s"
  shows "mc_state (w_ctx (observe_and_dispatch p ops s t w)) \<in> {AUTO_SETTLE, FAULT}"
proof (cases "mc_force_pi_enabled (w_ctx w)")
  case False
  then show ?thesis
    using assms by (simp add: observe_and_dispatch_def gate_closed_dispatch) (simp add: gate_closed_def)
next
  case True
  define v where "v = Machine_CheckPressureSafety p ops t w"
  have ok: "machine_ok inv off p v" using assms by (simp add: v_def)
  have en: "mc_force_pi_enabled (w_ctx v)"
    using True CheckPressureSafety_settings [of p ops t w] by (simp add: v_def settings_def)
  define u where "u = snd (Machine_ObserveForcePi p ops t v)"
  have v: "mc_state (w_ctx v) = FAULT \<or> gate_closed (w_ctx v) s"
    using gate_closed_check [OF assms(2)] by (simp add: v_def)
  have u: "mc_state (w_ctx u) = FAULT \<or> gate_closed (w_ctx u) s"
    if "gate_closed (w_ctx v) s"
    using that observe_false_fault [of p t v] ObserveForcePi_ok [OF ok en, of t]
      gate_closed_frame [of "w_ctx v" "w_ctx u" s]
    unfolding u_def by blast
  have d: "mc_state (w_ctx (dispatch_sample p ops s t x)) \<in> {AUTO_SETTLE, FAULT}"
    if "w_ctx x = w_ctx u" "mc_state (w_ctx u) = FAULT \<or> gate_closed (w_ctx u) s" for x
    using that gate_closed_dispatch [of x s p ops t] fault_dispatch [of x p ops s t]
    by (auto simp: gate_closed_def)
  have g: "mc_state (w_ctx x) \<in> {AUTO_SETTLE, FAULT}"
    if "w_ctx x = w_ctx u" "mc_state (w_ctx u) = FAULT \<or> gate_closed (w_ctx u) s" for x
    using that by (auto simp: gate_closed_def)
  have auto: "mc_state (w_ctx w) = AUTO_SETTLE" using assms(2) by (simp add: gate_closed_def)
  have vs: "mc_state (w_ctx v) \<in> {AUTO_SETTLE, FAULT}" using v by (auto simp: gate_closed_def)
  show ?thesis
  proof (cases "mc_state (w_ctx v) = FAULT")
    case True
    then show ?thesis
      using auto \<open>mc_force_pi_enabled (w_ctx w)\<close>
      by (simp add: observe_and_dispatch_def Let_def v_def [symmetric])
  next
    case False
    with v have gv: "gate_closed (w_ctx v) s" by simp
    show ?thesis
      unfolding observe_and_dispatch_def Let_def case_prod_beta v_def [symmetric] u_def [symmetric]
      by (intro settling_if d [OF _ u [OF gv]] g [OF _ u [OF gv]] vs)
        (simp_all add: auto \<open>mc_force_pi_enabled (w_ctx w)\<close>)
  qed
qed

lemma gate_closed_sample:
  assumes ok: "machine_ok inv off p w" and g: "gate_closed (w_ctx w) s"
  shows "mc_state (w_ctx (Machine_HandlePressureSample p ops s t w)) \<in> {AUTO_SETTLE, FAULT}"
proof -
  let ?v = "ctx_upd (\<lambda>c. c\<lparr>mc_pressure := s\<rparr>) w"
  have "machine_ok inv off p ?v" using ok by (intro ctx_upd_frame) simp_all
  moreover have "gate_closed (w_ctx ?v) s" using g by (simp add: gate_closed_def)
  ultimately have o: "mc_state (w_ctx (observe_and_dispatch p ops s t ?v)) \<in> {AUTO_SETTLE, FAULT}"
    by (rule gate_closed_observe)
  have st: "mc_state (w_ctx w) = AUTO_SETTLE" using g by (simp add: gate_closed_def)
  show ?thesis
    unfolding Machine_HandlePressureSample_def Let_def
    by (intro settling_if o) (simp_all add: st)
qed

end

text \<open>C23: After every motor pulse the controller waits: in the settle phase of any reachable
  runtime no pressure sample starts the motor (the machine stays settling with the
  output off, or faults) until a tick has seen the whole settle delay pass and, after
  it, a sample newer than the one in hand at that tick arrives.\<close>

theorem settle_waits_for_new_sample:
  assumes "motor_executor ops iv off" "iv (w_exec (rt_world r0))"
    and "(rt_step p ops)\<^sup>*\<^sup>* (ApplicationRuntime_Initialize p ops cf t0 r0) r"
    and "mc_state (w_ctx (rt_world r)) = AUTO_SETTLE"
  shows "(let w = rt_world r; c = w_ctx w; w' = Machine_HandlePressureSample p ops s t w;
      w'' = Machine_Tick p ops t w
    in (if mc_settle_phase c = SETTLE_WAIT_DELAY \<or> ps_sequence s \<le> mc_settle_gate_sequence c
        then mc_state (w_ctx w') = FAULT \<or> (mc_state (w_ctx w') = AUTO_SETTLE \<and> off (w_exec w'))
        else True)
      \<and> (if mc_settle_phase c = SETTLE_WAIT_DELAY
             \<and> cf_settle_delay_ms (mc_config c) \<le> t - mc_state_entered_ms c
         then mc_settle_phase (w_ctx w'') = SETTLE_WAIT_SAMPLE
           \<and> mc_settle_gate_sequence (w_ctx w'') = ps_sequence (mc_pressure c)
           \<and> w_exec w'' = w_exec w
         else w'' = w))"
proof -
  have ok: "machine_ok iv off p (rt_world r)"
    using motor_executor.rt_reach_ok [OF assms(1,3)]
      motor_executor.rt_Initialize_ok [OF assms(1,2)] by (simp add: rt_ok_def)
  have "mc_state (w_ctx (Machine_HandlePressureSample p ops s t (rt_world r))) \<in> {AUTO_SETTLE, FAULT}"
    if "mc_settle_phase (w_ctx (rt_world r)) = SETTLE_WAIT_DELAY
      \<or> ps_sequence s \<le> mc_settle_gate_sequence (w_ctx (rt_world r))"
    using that assms(4)
    by (intro motor_executor.gate_closed_sample [OF assms(1) ok]) (simp add: gate_closed_def)
  moreover have "off (w_exec (Machine_HandlePressureSample p ops s t (rt_world r)))"
    if "mc_state (w_ctx (Machine_HandlePressureSample p ops s t (rt_world r))) = AUTO_SETTLE"
    using that motor_executor.HandlePressureSample_ok [OF assms(1) ok, of s t]
    by (simp add: machine_ok_def)
  ultimately show ?thesis
    using assms(4) by (auto simp: Let_def Machine_Tick_def)
qed

subsection \<open>A run into the settle phase\<close>

definition contact_snapshot :: PressureReceiverSnapshot where
  "contact_snapshot = \<lparr>prs_raw_pressure_counts = 200, prs_last_valid_frame = replicate 7 0,
     prs_sample_sequence = 1, prs_received_at_ms = 90, prs_valid_frame_count = 1,
     prs_invalid_header_count = 0, prs_invalid_bcc_count = 0, prs_invalid_marker_count = 0,
     prs_dropped_resync_byte_count = 0, prs_last_valid_frame_ms = 90,
     prs_frame_interval_min_ms = 0, prs_frame_interval_max_ms = 0\<rparr>"

definition booted :: "locked_executor runtime" where
  "booted = ApplicationRuntime_CompleteBoot locked_policy locked_ops True 5
     (ApplicationRuntime_Initialize locked_policy locked_ops (Some g_sd700_bench_machine_config) 1
       locked_runtime)"

definition targeted :: "locked_executor runtime" where
  "targeted = on_machine (\<lambda>w. snd (Machine_HandleCommand locked_policy locked_ops
     \<lparr>cmd_type = CMD_SET_TARGET, cmd_target_pressure_units = 300\<rparr> 80 w)) booted"

definition sampled :: "locked_executor runtime" where
  "sampled = snd (ApplicationRuntime_ServicePressure locked_policy locked_ops contact_snapshot 95 targeted)"

definition settling :: "locked_executor runtime" where
  "settling = on_machine (\<lambda>w. snd (Machine_HandleCommand locked_policy locked_ops
     \<lparr>cmd_type = CMD_AUTO_START, cmd_target_pressure_units = 0\<rparr> 100 w)) sampled"

lemma locked_bench_valid [simp]: "Machine_ConfigIsValid locked_policy (Some g_sd700_bench_machine_config)"
  by (simp add: Machine_ConfigIsValid_def g_sd700_bench_machine_config_def INT32_MAX_def)

lemma booted_state:
  "mc_state (w_ctx (rt_world booted)) = IDLE \<and> mc_config_valid (w_ctx (rt_world booted))
   \<and> mc_config (w_ctx (rt_world booted)) = g_sd700_bench_machine_config
   \<and> mc_pressure (w_ctx (rt_world booted)) = zero_sample
   \<and> \<not> mc_force_pi_enabled (w_ctx (rt_world booted))
   \<and> rt_delivered_pressure_sequence booted = 0
   \<and> \<not> mx_logical_active (lk_motor (w_exec (rt_world booted)))
   \<and> mx_physical_output_disabled (lk_motor (w_exec (rt_world booted)))
   \<and> mx_physical_output_locked (lk_motor (w_exec (rt_world booted)))"
  by (simp add: booted_def ApplicationRuntime_CompleteBoot_def ApplicationRuntime_Initialize_def
      Machine_CompleteBoot_def Machine_Initialize_def Machine_DisableOrFault_def locked_eval
      zero_context_def zero_motor_snapshot_def lk_force_disable_def)

lemma targeted_state:
  "mc_state (w_ctx (rt_world targeted)) = IDLE \<and> mc_config_valid (w_ctx (rt_world targeted))
   \<and> mc_config (w_ctx (rt_world targeted)) = g_sd700_bench_machine_config
   \<and> mc_target_valid (w_ctx (rt_world targeted))
   \<and> mc_pressure (w_ctx (rt_world targeted)) = zero_sample
   \<and> \<not> mc_force_pi_enabled (w_ctx (rt_world targeted))
   \<and> rt_delivered_pressure_sequence targeted = 0
   \<and> \<not> mx_logical_active (lk_motor (w_exec (rt_world targeted)))
   \<and> mx_physical_output_disabled (lk_motor (w_exec (rt_world targeted)))
   \<and> mx_physical_output_locked (lk_motor (w_exec (rt_world targeted)))"
  using booted_state
  by (simp add: targeted_def Machine_HandleCommand_def handle_set_target_def Let_def
      g_sd700_bench_machine_config_def)

lemma sampled_state:
  "mc_state (w_ctx (rt_world sampled)) = IDLE \<and> mc_config_valid (w_ctx (rt_world sampled))
   \<and> mc_config (w_ctx (rt_world sampled)) = g_sd700_bench_machine_config
   \<and> mc_target_valid (w_ctx (rt_world sampled))
   \<and> mc_pressure (w_ctx (rt_world sampled)) = delivered_sample contact_snapshot
   \<and> \<not> mx_logical_active (lk_motor (w_exec (rt_world sampled)))
   \<and> mx_physical_output_disabled (lk_motor (w_exec (rt_world sampled)))
   \<and> mx_physical_output_locked (lk_motor (w_exec (rt_world sampled)))"
proof -
  have s: "sampled = on_machine (Machine_HandlePressureSample locked_policy locked_ops
      (delivered_sample contact_snapshot) 95) (targeted\<lparr>rt_delivered_pressure_sequence := 1\<rparr>)"
    using targeted_state
    by (simp add: sampled_def ApplicationRuntime_ServicePressure_def contact_snapshot_def)
  have d: "ps_frame_valid (delivered_sample contact_snapshot)"
      "ps_control_units_valid (delivered_sample contact_snapshot)"
    by (simp_all add: delivered_sample_def contact_snapshot_def PressureControl_ConvertRawCounts_def)
  show ?thesis
    unfolding s using targeted_state d
    by (simp add: Machine_HandlePressureSample_def observe_and_dispatch_def dispatch_sample_def
        zero_sample_def g_sd700_bench_machine_config_def Let_def)
qed

lemma delivered_contact:
  "delivered_sample contact_snapshot = zero_sample\<lparr>ps_sequence := 1, ps_received_at_ms := 90,
     ps_raw_pressure_counts := 200, ps_frame := replicate 7 0, ps_frame_valid := True,
     ps_control_units_valid := True, ps_control_pressure_units := 200\<rparr>"
  by (simp add: delivered_sample_def contact_snapshot_def PressureControl_ConvertRawCounts_def)

lemma settling_state:
  "mc_state (w_ctx (rt_world settling)) = AUTO_SETTLE"
  using sampled_state
  by (simp add: settling_def Machine_HandleCommand_def handle_auto_start_def delivered_contact
      AUTOMATIC_COMMANDS_ENABLED_def locked_policy_def [THEN arg_cong, of bp_mode]
      Machine_IsPressureFresh_def g_sd700_bench_machine_config_def Machine_EnterSettle_def
      Machine_DisableOrFault_def locked_ops_def locked_defs exec_pair motor_def)

lemma settling_reachable:
  "(rt_step locked_policy locked_ops)\<^sup>*\<^sup>* (ApplicationRuntime_Initialize locked_policy locked_ops
     (Some g_sd700_bench_machine_config) 1 locked_runtime) settling"
proof -
  have "rt_step locked_policy locked_ops (ApplicationRuntime_Initialize locked_policy locked_ops
      (Some g_sd700_bench_machine_config) 1 locked_runtime) booted"
    unfolding booted_def by (rule rt_step.boot)
  moreover have "rt_step locked_policy locked_ops booted targeted"
    unfolding targeted_def by (rule rt_step.command)
  moreover have "rt_step locked_policy locked_ops targeted sampled"
    unfolding sampled_def by (rule rt_step.pressure)
  moreover have "rt_step locked_policy locked_ops sampled settling"
    unfolding settling_def by (rule rt_step.command)
  ultimately show ?thesis by (meson rtranclp.rtrancl_into_rtrancl rtranclp.rtrancl_refl)
qed

theorem settle_waits_for_new_sample_witness:
  "mc_state (w_ctx (Machine_HandlePressureSample locked_policy locked_ops zero_sample 101
       (rt_world settling))) \<in> {AUTO_SETTLE, FAULT}"
proof -
  have "locked_ok (w_exec (rt_world locked_runtime))"
    by (simp add: locked_runtime_def locked_world_ok)
  from settle_waits_for_new_sample [OF locked.motor_executor_axioms this settling_reachable
      settling_state, of zero_sample 101]
  show ?thesis by (auto simp: Let_def zero_sample_def split: if_splits)
qed

section \<open>Admission of an automatic start\<close>

lemma Capture_cases:
  "(if fst (Machine_CaptureMotorRequest p ops r st t w) = COMMAND_ACCEPTED
    then mc_state (w_ctx (snd (Machine_CaptureMotorRequest p ops r st t w))) = st
      \<and> mc_cycle_started_ms (w_ctx (snd (Machine_CaptureMotorRequest p ops r st t w)))
          = mc_cycle_started_ms (w_ctx w)
    else mc_state (w_ctx (snd (Machine_CaptureMotorRequest p ops r st t w))) = FAULT)"
  by (simp add: Machine_CaptureMotorRequest_def Let_def case_prod_beta)

lemma StartApproach_cases:
  "(if fst (Machine_StartApproach p ops pr t w) = COMMAND_ACCEPTED
    then mc_state (w_ctx (snd (Machine_StartApproach p ops pr t w))) = AUTO_APPROACH
      \<and> mc_cycle_started_ms (w_ctx (snd (Machine_StartApproach p ops pr t w)))
          = mc_cycle_started_ms (w_ctx w)
    else mc_state (w_ctx (snd (Machine_StartApproach p ops pr t w))) = FAULT)"
proof -
  have C: "(if fst (Machine_CaptureMotorRequest p ops r AUTO_APPROACH t v) = COMMAND_ACCEPTED
      then mc_state (w_ctx (snd (Machine_CaptureMotorRequest p ops r AUTO_APPROACH t v))) = AUTO_APPROACH
        \<and> mc_cycle_started_ms (w_ctx (snd (Machine_CaptureMotorRequest p ops r AUTO_APPROACH t v)))
            = mc_cycle_started_ms (w_ctx w)
      else mc_state (w_ctx (snd (Machine_CaptureMotorRequest p ops r AUTO_APPROACH t v))) = FAULT)"
    if "mc_cycle_started_ms (w_ctx v) = mc_cycle_started_ms (w_ctx w)" for r v
    using Capture_cases [of p ops r AUTO_APPROACH t v] that by simp
  show ?thesis
    unfolding Machine_StartApproach_def Let_def case_prod_beta
    by (cases "AUTO_TARGET_ENABLED p") (use C in \<open>simp_all split: if_splits\<close>)
qed

lemma EnterSettle_result:
  "(if fst (Machine_EnterSettle p ops t w)
    then mc_state (w_ctx (snd (Machine_EnterSettle p ops t w))) = AUTO_SETTLE
      \<and> mc_cycle_started_ms (w_ctx (snd (Machine_EnterSettle p ops t w))) = mc_cycle_started_ms (w_ctx w)
    else mc_state (w_ctx (snd (Machine_EnterSettle p ops t w))) = FAULT)"
  by (simp add: Machine_EnterSettle_def Machine_DisableOrFault_def Let_def case_prod_beta)

definition auto_start_ready :: "build_policy \<Rightarrow> MachineContext \<Rightarrow> u32 \<Rightarrow> bool" where
  "auto_start_ready p c t \<longleftrightarrow> AUTOMATIC_COMMANDS_ENABLED p \<and> mc_state c = IDLE
    \<and> mc_target_valid c \<and> mc_config_valid c \<and> Machine_IsPressureFresh c t
    \<and> (AUTO_TARGET_ENABLED p \<longrightarrow> mc_force_pi_enabled c
        \<and> ps_raw_pressure_counts (mc_pressure c) < cf_raw_overpressure_limit_counts (mc_config c))"

text \<open>The executor's answers that admit a start: it has a snapshot, is healthy and runs nothing;
  with AutoTarget the PI controller's motor is idle as well, asked afresh and with the output
  disabled.\<close>

definition auto_motor_ready :: "build_policy \<Rightarrow> 'e executor \<Rightarrow> 'e \<Rightarrow> bool" where
  "auto_motor_ready p ops e \<longleftrightarrow>
    (let (snapshot, e) = ex_GetSnapshot ops e; (healthy, e) = ex_IsHealthy ops e
     in snapshot \<and> healthy \<and> \<not> mx_logical_active (ex_motor ops e)
       \<and> (AUTO_TARGET_ENABLED p \<longrightarrow>
            (let (snapshot, e) = ex_GetSnapshot ops e; idle = (\<not> mx_logical_active (ex_motor ops e));
                 (healthy, e) = ex_IsHealthy ops e; (disabled, e) = ex_OutputIsDisabled ops e
             in snapshot \<and> idle \<and> healthy \<and> disabled)))"

text \<open>C26: An automatic cycle starts only when everything is in place: if \<open>CMD_AUTO_START\<close> is
  accepted then the build allows it, the machine was idle, a target was set, the
  configuration is valid, the pressure is fresh, the executor is healthy and runs nothing,
  and with AutoTarget the strategy is configured, its motor idle with the output disabled,
  and the raw pressure below the limit; the cycle clock starts then, and
  the machine approaches when it is not in contact and settles when it is. If it is not
  accepted the machine stays where it was or is in \<open>FAULT\<close>.\<close>

theorem auto_start_admission:
  "(let (result, w') = Machine_HandleCommand p ops
        \<lparr>cmd_type = CMD_AUTO_START, cmd_target_pressure_units = x\<rparr> t w;
      c = w_ctx w; c' = w_ctx w'
    in if result = COMMAND_ACCEPTED
       then auto_start_ready p c t \<and> auto_motor_ready p ops (w_exec w) \<and> mc_cycle_started_ms c' = t
         \<and> mc_state c' = (if ps_control_pressure_units (mc_pressure c)
                               < cf_contact_threshold_units (mc_config c)
                          then AUTO_APPROACH else AUTO_SETTLE)
       else mc_state c' = mc_state c \<or> mc_state c' = FAULT)"
proof -
  define C where "C = w_ctx w"
  define E where "E = w_exec w"
  define R where "R r \<longleftrightarrow> (if fst r = COMMAND_ACCEPTED
     then auto_start_ready p C t \<and> auto_motor_ready p ops E \<and> mc_cycle_started_ms (w_ctx (snd r)) = t
       \<and> mc_state (w_ctx (snd r)) = (if ps_control_pressure_units (mc_pressure C)
                             < cf_contact_threshold_units (mc_config C)
                        then AUTO_APPROACH else AUTO_SETTLE)
     else mc_state (w_ctx (snd r)) = mc_state C \<or> mc_state (w_ctx (snd r)) = FAULT)"
    for r :: "MachineCommandResult \<times> 'a world"
  have R_let: "R (Let x f)" if "\<And>y. y = x \<Longrightarrow> R (f y)" for x :: 'b and f using that by simp
  have R_case: "R (case x of (a, b) \<Rightarrow> f a b)" if "\<And>a b. x = (a, b) \<Longrightarrow> R (f a b)"
    for x :: "'b \<times> 'c" and f using that by (cases x) simp
  have R_if: "R (if b then x else y)" if "b \<Longrightarrow> R x" "\<not> b \<Longrightarrow> R y" for b x y using that by simp
  have R_keep: "R (r, v)" if "r \<noteq> COMMAND_ACCEPTED" "w_ctx v = C" for r v
    using that by (simp add: R_def)
  have R_fault: "R (r, Machine_EnterFault p ops f d t v)" if "r \<noteq> COMMAND_ACCEPTED" for r f d v
    using that by (simp add: R_def)
  have R_start: "R (let w = Machine_ResetForcePi p v;
         w = ctx_upd (\<lambda>c. c\<lparr>mc_cycle_started_ms := t\<rparr>) w;
         contacted = ps_control_pressure_units (mc_pressure (w_ctx w))
                       \<ge> cf_contact_threshold_units (mc_config (w_ctx w));
         w = (if AUTO_TARGET_ENABLED p
              then diag_upd (\<lambda>_. zero_diagnostics\<lparr>
                     ad_search_started_at_ms := t,
                     ad_search_active := \<not> contacted\<rparr>)
                   (ctx_upd (\<lambda>c. c\<lparr>mc_auto_has_contacted := contacted,
                      mc_auto_approach_pending := \<not> contacted\<rparr>) w)
              else w)
     in if \<not> contacted
        then Machine_StartApproach p ops APPROACH_FIRST t w
        else
          (let (ok, w) = Machine_EnterSettle p ops t w
           in if ok
              then (COMMAND_ACCEPTED,
                    if AUTO_TARGET_ENABLED p then Machine_RecordFirstContact t w
                    else w)
              else (COMMAND_EXECUTOR_FAILED, w)))"
    if "w_ctx v = C" "auto_start_ready p C t" "auto_motor_ready p ops E" for v
    unfolding Let_def case_prod_beta R_def
    using that StartApproach_cases [of p ops APPROACH_FIRST t] EnterSettle_result [of p ops t]
    by (auto split: if_splits)
  have snap: "w_ctx v' = C" "b = fst (ex_GetSnapshot ops E)" "w_exec v' = snd (ex_GetSnapshot ops E)"
    if "y = exec (ex_GetSnapshot ops) w" "y = (b, v')" for y b v'
    using that by (auto simp: exec_pair C_def E_def)
  define E' where "E' = snd (ex_IsHealthy ops (snd (ex_GetSnapshot ops E)))"
  have ready: "w_ctx v' = C \<and> (\<not> b \<longrightarrow> mc_target_valid C \<and> mc_config_valid C
      \<and> Machine_IsPressureFresh C t \<and> hv \<and> fst (ex_IsHealthy ops (snd (ex_GetSnapshot ops E)))
      \<and> \<not> mx_logical_active (ex_motor ops E') \<and> w_exec v' = E')"
    if "y = any_of [test (\<lambda>w. \<not> mc_target_valid (w_ctx w)), test (\<lambda>w. \<not> mc_config_valid (w_ctx w)),
        test (\<lambda>w. \<not> Machine_IsPressureFresh (w_ctx w) t), not_q (exec (ex_IsHealthy ops)),
        test (\<lambda>_. \<not> hv), test (\<lambda>w. mx_logical_active (motor ops w))] v" "y = (b, v')" "w_ctx v = C"
      "w_exec v = snd (ex_GetSnapshot ops E)"
    for y b hv and v v' :: "'a world"
    using that by (auto simp: exec_pair E'_def motor_def split: if_splits)
  have pi_ready: "w_ctx v' = C \<and> (\<not> b \<longrightarrow> AUTO_TARGET_ENABLED p \<longrightarrow> mc_force_pi_enabled C
      \<and> fst (ex_GetSnapshot ops E') \<and> \<not> mx_logical_active (ex_motor ops (snd (ex_GetSnapshot ops E')))
      \<and> fst (ex_IsHealthy ops (snd (ex_GetSnapshot ops E')))
      \<and> fst (ex_OutputIsDisabled ops (snd (ex_IsHealthy ops (snd (ex_GetSnapshot ops E'))))))"
    if "y = (if AUTO_TARGET_ENABLED p then any_of [test (\<lambda>w. \<not> mc_force_pi_enabled (w_ctx w)),
        not_q (Machine_ForcePiMotorIdle ops)] v else (False, v))" "y = (b, v')" "w_ctx v = C" "\<not> b \<longrightarrow> w_exec v = E'"
    for y b and v v' :: "'a world"
    using that by (auto simp: Machine_ForcePiMotorIdle_def exec_pair motor_def Let_def case_prod_beta split: if_splits)
  have "R (handle_auto_start p ops t w)" if en: "AUTOMATIC_COMMANDS_ENABLED p"
    unfolding handle_auto_start_def
    apply (rule R_let, rule R_case, rule R_let, rule R_if)
    subgoal premises prems using snap [OF prems(1,2)] by (intro R_keep) auto
    apply (rule R_let, rule R_case, rule R_if)
    subgoal premises prems using ready [OF prems(5,6) snap(1,3) [OF prems(1,2)]] by (intro R_keep) auto
    apply (rule R_let, rule R_case, rule R_if)
    subgoal premises prems
      using pi_ready [OF prems(8,9)] ready [OF prems(5,6) snap(1,3) [OF prems(1,2)]] prems(7)
      by (intro R_keep) auto
    apply (rule R_if)
    subgoal by (rule R_fault) simp
    subgoal premises prems for y hv v st yb nr va yc nr' wb
    proof (rule R_start)
      note r = ready [OF prems(5,6) snap(1,3) [OF prems(1,2)]]
      then have r': "w_exec va = E'" using prems(7) by simp
      note q = pi_ready [OF prems(8,9) conjunct1 [OF r]]
      show "w_ctx wb = C" using q r' by blast
      show "auto_start_ready p C t"
        using r q r' prems(3,4,7,10,11) snap [OF prems(1,2)] en
        by (auto simp: auto_start_ready_def)
      show "auto_motor_ready p ops E"
        using r q r' prems(7,10) snap(2) [OF prems(1,2)]
        by (auto simp: auto_motor_ready_def E'_def case_prod_beta Let_def)
    qed
    done
  moreover have "R (COMMAND_UNSUPPORTED, w)" by (rule R_keep) (simp_all add: C_def)
  ultimately have "R (if \<not> AUTOMATIC_COMMANDS_ENABLED p then (COMMAND_UNSUPPORTED, w)
      else handle_auto_start p ops t w)"
    by (cases "AUTOMATIC_COMMANDS_ENABLED p") simp_all
  then show ?thesis
    by (cases "AUTOMATIC_COMMANDS_ENABLED p")
      (simp_all add: R_def C_def E_def Machine_HandleCommand_def Let_def case_prod_beta split: if_splits)
qed

end
