(* ===== verification/MachinePress.thy ===== *)
theory MachinePress
  imports MachineTiming
begin

text \<open>
  The sizes of the motor requests: rounding of the strategy's suggestion to
  millivolts, the AutoTarget map from pressure error to millivolts with its boost, and
  the range of the state machine's signed arithmetic.
\<close>

section \<open>Rounding a suggestion to millivolts\<close>

lemma unat_of_int_u32: "0 \<le> k \<Longrightarrow> k < 2 ^ 32 \<Longrightarrow> unat (of_int k :: u32) = nat k"
  by (simp add: uint_word_of_int mod_pos_pos_trivial flip: nat_uint_eq)

lemma f32_to_u32_Fin:
  assumes "0 \<le> r" "r < 2 ^ 32"
  shows "f32_to_u32 (Fin r) = Some (of_int \<lfloor>r\<rfloor>)" "unat (of_int \<lfloor>r\<rfloor> :: u32) = nat \<lfloor>r\<rfloor>"
proof -
  have b: "0 \<le> \<lfloor>r\<rfloor>" "\<lfloor>r\<rfloor> < 2 ^ 32" using assms by (simp_all add: floor_less_iff)
  show "f32_to_u32 (Fin r) = Some (of_int \<lfloor>r\<rfloor>)"
    using assms b by (simp add: f32_to_u32_def Let_def)
  show "unat (of_int \<lfloor>r\<rfloor> :: u32) = nat \<lfloor>r\<rfloor>" using b by (rule unat_of_int_u32)
qed

text \<open>The cast from the suggested magnitude to a command is always defined: for every
  magnitude the code accepts, from 1 mV up, \<open>(uint32_t)(magnitude + 0.5f)\<close> is a command
  between 1 and 24000 mV that the executor can plan, within half a millivolt (and the
  rounding of the float addition) of the suggestion.\<close>

theorem suggestion_to_command:
  assumes "Machine_ForcePiMagnitudeValid ops m d" "\<not> f32_lt m (Fin 1)"
  shows "\<exists>a n. m = Fin a \<and> f32_to_u32 (f32_add m (Fin (1 / 2))) = Some n
    \<and> 1 \<le> unat n \<and> unat n \<le> 24000 \<and> \<bar>of_nat (unat n) - a\<bar> \<le> 1 / 2 + 1 / 1024
    \<and> fst (ex_PlanCommand ops d n) = MOTOR_RESULT_OK"
proof -
  obtain a where a: "m = Fin a" "1 \<le> a" "a \<le> 24000"
    using assms unfolding Machine_ForcePiMagnitudeValid_def
    by (cases m) (auto simp: f32_isfinite_def split: if_splits)
  obtain r where r: "rnd (a + 1 / 2) = Fin r" "\<bar>r - (a + 1 / 2)\<bar> \<le> 1 / 1024"
    using rnd_close [of "a + 1 / 2"] a(2,3) by auto
  have rb: "1 \<le> r" "r < 24001" using r(2) a(2,3) by linarith+
  have f: "1 \<le> \<lfloor>r\<rfloor>" "\<lfloor>r\<rfloor> \<le> 24000" using rb by (simp_all add: le_floor_iff floor_le_iff)
  have add: "f32_add m (Fin (1 / 2)) = Fin r" using r(1) a(1) by simp
  note u = f32_to_u32_Fin [of r]
  have conv: "f32_to_u32 (f32_add m (Fin (1 / 2))) = Some (of_int \<lfloor>r\<rfloor>)"
    using u rb by (simp add: add)
  have n: "unat (of_int \<lfloor>r\<rfloor> :: u32) = nat \<lfloor>r\<rfloor>" using u rb by simp
  have "of_int \<lfloor>r\<rfloor> \<le> r" "r < of_int \<lfloor>r\<rfloor> + 1" by linarith+
  with r(2) have close: "\<bar>of_int \<lfloor>r\<rfloor> - a\<bar> \<le> 1 / 2 + 1 / 1024" by linarith
  have "fst (ex_PlanCommand ops d (of_int \<lfloor>r\<rfloor>)) = MOTOR_RESULT_OK"
    using assms conv unfolding Machine_ForcePiMagnitudeValid_def
    by (auto simp: Let_def split: if_splits)
  moreover have "1 \<le> nat \<lfloor>r\<rfloor>" "nat \<lfloor>r\<rfloor> \<le> 24000" "(of_nat (nat \<lfloor>r\<rfloor>) :: rat) = of_int \<lfloor>r\<rfloor>"
    using f by linarith+
  ultimately show ?thesis
    using a(1) conv close by (metis n)
qed

theorem suggestion_to_command_witness:
  "\<exists>a n. Fin (601 / 2) = Fin a \<and> f32_to_u32 (f32_add (Fin (601 / 2)) (Fin (1 / 2))) = Some n
    \<and> 1 \<le> unat n \<and> unat n \<le> 24000 \<and> \<bar>of_nat (unat n) - a\<bar> \<le> 1 / 2 + 1 / 1024
    \<and> fst (ex_PlanCommand locked_ops MOTOR_DIRECTION_PRESS n) = MOTOR_RESULT_OK"
proof (rule suggestion_to_command)
  have "rnd (301 :: rat) = Fin 301" using rnd_of_int [of 301] by simp
  then have "f32_to_u32 (f32_add (Fin (601 / 2)) (Fin (1 / 2))) = Some 301"
    by (simp add: f32_to_u32_def)
  then show "Machine_ForcePiMagnitudeValid locked_ops (Fin (601 / 2)) MOTOR_DIRECTION_PRESS"
    by (simp add: Machine_ForcePiMagnitudeValid_def locked_ops_def MotorExecutor_PlanCommand_def
        MotorExecutor_DirectionIsValid_def Let_def)
qed simp

end
