(* ===== verification/MachineRange.thy ===== *)
theory MachineRange
  imports MachinePress
begin

text \<open>
  The range of the state machine's pressure arithmetic. The model computes with unbounded
  integers where the code has \<^verbatim>\<open>int32_t\<close>; here the delivered pressure is bounded in every
  reachable runtime, and with it the target, the tolerances' ends, the pressure error and the
  press map of \<^verbatim>\<open>machine.c\<close>. The rises and peaks of the press diagnostics and the casts of a
  command's target are not covered.
\<close>

section \<open>The delivered pressure\<close>

definition pressure_in_range :: "MachineContext \<Rightarrow> bool" where
  "pressure_in_range c \<longleftrightarrow> 0 \<le> ps_control_pressure_units (mc_pressure c)
    \<and> ps_control_pressure_units (mc_pressure c) \<le> 65535"

abbreviation pressure_of :: "'e world \<Rightarrow> MachinePressureSample" where
  "pressure_of w \<equiv> mc_pressure (w_ctx w)"

lemma press_band_pressure [simp]:
  "pressure_of (Machine_SelectPressBand w) = pressure_of w"
  "pressure_of (Machine_ConsumePressFeedback w) = pressure_of w"
proof -
  obtain f where "w_ctx (Machine_SelectPressBand w) = (w_ctx w)\<lparr>mc_press_feedback := f\<rparr>"
    using SelectPressBand_ctx by blast
  then show "pressure_of (Machine_SelectPressBand w) = pressure_of w" by simp
  obtain g where "w_ctx (Machine_ConsumePressFeedback w) = (w_ctx w)\<lparr>mc_press_feedback := g\<rparr>"
    using ConsumePressFeedback_ctx by blast
  then show "pressure_of (Machine_ConsumePressFeedback w) = pressure_of w" by simp
qed

lemma settings_pressure: "settings c = settings c' \<Longrightarrow> mc_pressure c = mc_pressure c'"
  by (simp add: settings_def)

lemma safety_pressure [simp]:
  "pressure_of (snd (Machine_DisableOrFault p ops t w)) = pressure_of w"
  "pressure_of (snd (Machine_EnterSettle p ops t w)) = pressure_of w"
  "pressure_of (Machine_HandleMotorService p ops t w) = pressure_of w"
  "pressure_of (Machine_CheckPressureSafety p ops t w) = pressure_of w"
  "pressure_of (Machine_StopApproachOnContact p ops t w) = pressure_of w"
  by (rule settings_pressure, simp)+

lemma start_pressure [simp]:
  "pressure_of (snd (Machine_CaptureMotorRequest p ops r s t w)) = pressure_of w"
  "pressure_of (snd (Machine_StartPulse p ops d mv t w)) = pressure_of w"
  "pressure_of (snd (Machine_StartDirectPulse p ops d t w)) = pressure_of w"
  "pressure_of (snd (Machine_EnterHold p ops t w)) = pressure_of w"
proof -
  show *: "pressure_of (snd (Machine_CaptureMotorRequest p ops r s t w)) = pressure_of w" for r s w
    by (simp add: Machine_CaptureMotorRequest_def Let_def case_prod_beta)
  show "pressure_of (snd (Machine_StartPulse p ops d mv t w)) = pressure_of w"
    "pressure_of (snd (Machine_StartDirectPulse p ops d t w)) = pressure_of w"
    by (simp_all add: Machine_StartPulse_def Machine_StartDirectPulse_def Let_def case_prod_beta *)
  show "pressure_of (snd (Machine_EnterHold p ops t w)) = pressure_of w"
    by (simp add: Machine_EnterHold_def Let_def case_prod_beta)
qed

lemma approach_pressure [simp]:
  "pressure_of (snd (Machine_StartApproach p ops pr t w)) = pressure_of w"
  by (simp add: Machine_StartApproach_def Let_def case_prod_beta)

lemma correction_pressure [simp]:
  "pressure_of (snd (Machine_StartCorrection p ops d t w)) = pressure_of w"
proof -
  have if_pressure: "pressure_of (snd (if b then x else y)) = v" if "pressure_of (snd x) = v" "pressure_of (snd y) = v"
    for b v and x y :: "'z \<times> 'a world" using that by simp
  show ?thesis
    unfolding Machine_StartCorrection_def Let_def case_prod_beta
    by (intro if_pressure) simp_all
qed

lemma motor_idle_ctx [simp]: "w_ctx (snd (Machine_ForcePiMotorIdle ops w)) = w_ctx w"
  by (simp add: Machine_ForcePiMotorIdle_def Let_def case_prod_beta)

definition has_pressure :: "MachinePressureSample \<Rightarrow> 'e world \<Rightarrow> bool" where
  "has_pressure s w \<longleftrightarrow> pressure_of w = s"

lemma observe_pressure [simp]:
  "pressure_of (snd (Machine_ObserveForcePi p ops t w)) = pressure_of w"
proof -
  let ?s = "pressure_of w"
  have up: "has_pressure ?s (ctx_upd f v)" if "has_pressure ?s v" "\<And>c. mc_pressure (f c) = mc_pressure c"
    for f and v :: "'a world" using that by (simp add: has_pressure_def)
  have fault: "has_pressure ?s (Machine_EnterFault p ops f d t v)" if "has_pressure ?s v"
    for f d and v :: "'a world" using that by (simp add: has_pressure_def)
  have if_pressure: "has_pressure ?s (snd (if b then x else y))" if "has_pressure ?s (snd x)" "has_pressure ?s (snd y)"
    for b and x y :: "bool \<times> 'a world" using that by simp
  have "has_pressure ?s (snd (Machine_ForcePiMotorIdle ops w))" by (simp add: has_pressure_def)
  then have "has_pressure ?s (snd (Machine_ObserveForcePi p ops t w))"
    unfolding Machine_ObserveForcePi_def Let_def case_prod_beta
    by (intro if_pressure) (simp_all add: up fault)
  then show ?thesis by (simp add: has_pressure_def)
qed

lemma set_result_pressure [simp]: "pressure_of (set_result rw) = pressure_of (snd rw)"
  by (simp add: set_result_def case_prod_beta)

lemma classify_pressure [simp]:
  "pressure_of (Machine_ClassifySettledSample p ops t w) = pressure_of w"
  "pressure_of (Machine_ClassifyHoldSample p ops t w) = pressure_of w"
  by (simp_all add: Machine_ClassifySettledSample_def Machine_ClassifyHoldSample_def Let_def)

lemma sample_pressure:
  "pressure_of (dispatch_sample p ops s t w) = pressure_of w"
  "pressure_of (observe_and_dispatch p ops s t w) = pressure_of w"
  "pressure_of (Machine_HandlePressureSample p ops s t w) \<in> {s, pressure_of w}"
proof -
  show d: "pressure_of (dispatch_sample p ops s t w) = pressure_of w" for w
    by (simp add: dispatch_sample_def Let_def)
  show o: "pressure_of (observe_and_dispatch p ops s t w) = pressure_of w" for w
    by (simp add: observe_and_dispatch_def Let_def case_prod_beta d)
  show "pressure_of (Machine_HandlePressureSample p ops s t w) \<in> {s, pressure_of w}"
    by (simp add: Machine_HandlePressureSample_def Let_def o)
qed

lemma command_pressure [simp]:
  "pressure_of (snd (Machine_HandleCommand p ops cmd t w)) = pressure_of w"
proof -
  have stop: "pressure_of (snd (Machine_Stop p ops t w)) = pressure_of w"
    by (simp add: Machine_Stop_def Let_def case_prod_beta RecordPressEnd_ctx)
  have target: "pressure_of (snd (handle_set_target p i w)) = pressure_of w" for i
    by (simp add: handle_set_target_def Let_def)
  have bind: "pressure_of (snd (case x of (a, b) \<Rightarrow> f a b)) = v"
    if "pressure_of (snd x) = v" "\<And>a b. pressure_of b = v \<Longrightarrow> pressure_of (snd (f a b)) = v"
    for v and x :: "bool \<times> 'a world" and f :: "bool \<Rightarrow> 'a world \<Rightarrow> MachineCommandResult \<times> 'a world"
    using that by (cases x) simp
  have if_pressure: "pressure_of (snd (if b then x else y)) = v" if "pressure_of (snd x) = v" "pressure_of (snd y) = v"
    for b v and x y :: "MachineCommandResult \<times> 'a world" using that by simp
  have pulse: "pressure_of (snd (handle_direct_pulse p ops d t w)) = pressure_of w" for d
    unfolding handle_direct_pulse_def Let_def by (intro bind if_pressure) simp_all
  have auto: "pressure_of (snd (handle_auto_start p ops t w)) = pressure_of w"
    unfolding handle_auto_start_def Let_def by (intro bind if_pressure) simp_all
  show ?thesis
    unfolding Machine_HandleCommand_def Let_def case_prod_beta
    by (cases "cmd_type cmd") (simp_all add: stop target pulse auto)
qed

lemma boot_pressure [simp]:
  "pressure_of (snd (Machine_ConfigureForcePi p ops cf w)) = pressure_of w"
  "pressure_of (Machine_CompleteBoot p ops b t w) = pressure_of w"
proof -
  show "pressure_of (snd (Machine_ConfigureForcePi p ops cf w)) = pressure_of w"
    by (cases cf) (simp_all add: Machine_ConfigureForcePi_def Let_def case_prod_beta)
  show "pressure_of (Machine_CompleteBoot p ops b t w) = pressure_of w"
    by (simp add: Machine_CompleteBoot_def Let_def case_prod_beta)
qed

lemma delivered_in_range:
  "0 \<le> ps_control_pressure_units (delivered_sample s)" "ps_control_pressure_units (delivered_sample s) \<le> 65535"
proof -
  have "uint (prs_raw_pressure_counts s) < 2 ^ 16" using uint_lt2p [of "prs_raw_pressure_counts s"] by simp
  then show "0 \<le> ps_control_pressure_units (delivered_sample s)"
    "ps_control_pressure_units (delivered_sample s) \<le> 65535"
    by (simp_all add: delivered_sample_def PressureControl_ConvertRawCounts_def)
qed

lemma pressure_in_range_step:
  assumes "rt_step p ops r r'" "pressure_in_range (w_ctx (rt_world r))"
  shows "pressure_in_range (w_ctx (rt_world r'))"
  using assms
proof (cases rule: rt_step.cases)
  case (pressure snap t)
  then show ?thesis
    using assms(2) sample_pressure(3) [of p ops "delivered_sample snap" t "rt_world r"]
    by (auto simp: ApplicationRuntime_ServicePressure_def pressure_in_range_def delivered_in_range)
qed (simp_all add: pressure_in_range_def ApplicationRuntime_CompleteBoot_def ApplicationRuntime_ServiceSafety_def
    main_guard_output_def ApplicationRuntime_Tick_def Machine_Tick_def Machine_ReportFault_def Let_def case_prod_beta)

lemma pressure_in_range_reachable:
  assumes "(rt_step p ops)\<^sup>*\<^sup>* (ApplicationRuntime_Initialize p ops cf t r0) r"
  shows "pressure_in_range (w_ctx (rt_world r))"
  using assms
proof (induction rule: rtranclp_induct)
  case base
  show ?case
    by (cases cf) (simp_all add: ApplicationRuntime_Initialize_def Machine_Initialize_def Let_def case_prod_beta
        pressure_in_range_def zero_context_def zero_sample_def)
qed (rule pressure_in_range_step)

section \<open>The control arithmetic\<close>

lemma valid_config_bounds:
  assumes "Machine_ConfigIsValid p (Some c)"
  shows "0 \<le> cf_contact_threshold_units c" "0 \<le> cf_hold_enter_tolerance_units c"
    "cf_hold_enter_tolerance_units c < cf_hold_exit_tolerance_units c"
    "0 < cf_maximum_target_pressure_units c"
    "cf_maximum_target_pressure_units c + cf_hold_exit_tolerance_units c \<le> INT32_MAX"
    "AUTO_TARGET_ENABLED p \<Longrightarrow> cf_maximum_target_pressure_units c + cf_hold_exit_tolerance_units c < 325"
proof -
  show "AUTO_TARGET_ENABLED p \<Longrightarrow> cf_maximum_target_pressure_units c + cf_hold_exit_tolerance_units c < 325"
  proof -
    assume "AUTO_TARGET_ENABLED p"
    then have "\<not> auto_target_config_rejected c"
      using assms by (cases "auto_target_config_rejected c") (simp_all add: Machine_ConfigIsValid_def)
    then have l: "cf_maximum_target_pressure_units c + cf_hold_exit_tolerance_units c
        < uint (cf_raw_overpressure_limit_counts c)" "cf_raw_overpressure_limit_counts c \<le> 325"
      by (simp_all add: auto_target_config_rejected_def not_less not_le)
    then have "uint (cf_raw_overpressure_limit_counts c) \<le> 325" by (simp add: word_le_def)
    then show ?thesis using l(1) by simp
  qed
qed (use assms in \<open>auto simp: Machine_ConfigIsValid_def split: if_splits\<close>)

lemma sdiv_ramp:
  assumes "0 \<le> a" "a \<le> b" "0 < b" "0 \<le> (k :: int)"
  shows "0 \<le> (a * k) sdiv b" "(a * k) sdiv b \<le> k"
proof -
  have s: "(a * k) sdiv b = (a * k) div b"
    using assms by (simp add: signed_divide_int_def sgn_mult sgn_if zero_less_mult_iff)
  show "0 \<le> (a * k) sdiv b" using assms by (simp add: s pos_imp_zdiv_nonneg_iff)
  have "a * k \<le> b * k" using assms by (intro mult_right_mono)
  then have "(a * k) div b \<le> (b * k) div b" using assms by (intro zdiv_mono1) auto
  then show "(a * k) sdiv b \<le> k" using assms by (simp add: s)
qed

lemma PressBase_bound:
  assumes "0 \<le> cf_hold_enter_tolerance_units (mc_config c)"
    "cf_hold_enter_tolerance_units (mc_config c) < cf_hold_exit_tolerance_units (mc_config c)"
  shows "unat (Machine_PressBaseMv c) \<le> 3000"
proof -
  define e where "e = press_error c"
  define en where "en = cf_hold_enter_tolerance_units (mc_config c)"
  define ex where "ex = cf_hold_exit_tolerance_units (mc_config c)"
  have mv: "unat (of_int k + of_int l :: u32) \<le> 3000" if "0 \<le> k + l" "k + l \<le> 3000" for k l
    using that unat_of_int_u32 [of "k + l"] by simp
  have base: "Machine_PressBaseMv c = (if e \<le> en then 0
      else if e \<le> 2 * ex then of_int 400 + of_int ((e - en) * (1000 - 400) sdiv (2 * ex - en))
      else if e - 2 * ex \<ge> 100 then of_int 3000
      else of_int 1000 + of_int ((e - 2 * ex) * (3000 - 1000) sdiv 100))"
    by (simp only: Machine_PressBaseMv_def Let_def e_def en_def ex_def)
  consider "e \<le> en" | "en < e" "e \<le> 2 * ex" | "en < e" "2 * ex < e" "100 \<le> e - 2 * ex"
    | "en < e" "2 * ex < e" "e - 2 * ex < 100" by linarith
  then show ?thesis
  proof cases
    case 2
    have "0 \<le> (e - en) * 600 sdiv (2 * ex - en)" "(e - en) * 600 sdiv (2 * ex - en) \<le> 600"
      using sdiv_ramp [of "e - en" "2 * ex - en" 600] 2 assms by (simp_all add: en_def ex_def)
    then show ?thesis using mv [of 400 "(e - en) * 600 sdiv (2 * ex - en)"] 2 by (simp add: base)
  next
    case 4
    have "0 \<le> (e - 2 * ex) * 2000 sdiv 100" "(e - 2 * ex) * 2000 sdiv 100 \<le> 2000"
      using sdiv_ramp [of "e - 2 * ex" 100 2000] 4 by simp_all
    then show ?thesis using mv [of 1000 "(e - 2 * ex) * 2000 sdiv 100"] 4 by (simp add: base)
  qed (simp_all add: base)
qed

text \<open>The terms of the control law: in every reachable runtime under automatic control the target, the pressure, the target less or plus
  either tolerance, and the pressure error fit an \<^verbatim>\<open>int32_t\<close>; in an AutoTarget build so
  do twice the exit tolerance and the products of the two ramps of the press map, which
  the code computes in 64 bits, and the base command of that map is at most 3000 mV.\<close>

lemma control_terms_fit_int32:
  assumes "motor_executor ops iv off" "iv (w_exec (rt_world r0))"
    and "(rt_step p ops)\<^sup>*\<^sup>* (ApplicationRuntime_Initialize p ops cf t r0) r"
    and "Machine_StateIsAutomatic (mc_state (w_ctx (rt_world r)))"
  shows "(let c = w_ctx (rt_world r); g = mc_config c; target = mc_target_pressure_units c;
      enter = cf_hold_enter_tolerance_units g; exit = cf_hold_exit_tolerance_units g;
      error = press_error c
    in in_int32 target \<and> in_int32 (ps_control_pressure_units (mc_pressure c))
      \<and> in_int32 (target - enter) \<and> in_int32 (target + enter)
      \<and> in_int32 (target - exit) \<and> in_int32 (target + exit) \<and> in_int32 error
      \<and> (AUTO_TARGET_ENABLED p \<longrightarrow> in_int32 (2 * exit)
          \<and> (enter < error \<and> error \<le> 2 * exit \<longrightarrow> 0 < 2 * exit - enter
              \<and> in_int32 ((error - enter) * (AUTO_TARGET_PRESS_FINE_MAX_MV - AUTO_TARGET_PRESS_FINE_MIN_MV)))
          \<and> (2 * exit < error \<and> error - 2 * exit < AUTO_TARGET_PRESS_MICRO_RAMP_UNITS \<longrightarrow>
              in_int32 ((error - 2 * exit) * (AUTO_TARGET_PRESS_MICRO_MAX_MV - AUTO_TARGET_PRESS_MICRO_MIN_MV)))
          \<and> unat (Machine_PressBaseMv c) \<le> 3000))"
proof -
  let ?c = "w_ctx (rt_world r)"
  define T where "T = mc_target_pressure_units ?c"
  define P where "P = ps_control_pressure_units (mc_pressure ?c)"
  define en where "en = cf_hold_enter_tolerance_units (mc_config ?c)"
  define ex where "ex = cf_hold_exit_tolerance_units (mc_config ?c)"
  have "rt_ok iv off p (ApplicationRuntime_Initialize p ops cf t r0)"
    by (rule motor_executor.rt_Initialize_ok [OF assms(1,2)])
  then have m: "machine_ok iv off p (rt_world r)"
    using motor_executor.rt_reach_ok [OF assms(1,3)] by (simp add: rt_ok_def)
  then have st: "state_ok p ?c (mc_state ?c)" and base: "ctx_base p ?c"
    by (simp_all add: machine_ok_def machine_core_def)
  have "mc_state ?c \<noteq> BOOT_SAFE" "mc_state ?c \<noteq> FAULT"
    using assms(4) by (auto simp: Machine_StateIsAutomatic_def)
  then have valid: "Machine_ConfigIsValid p (Some (mc_config ?c))" and target: "mc_target_valid ?c"
    using st base assms(4) by (simp_all add: state_ok_def ctx_base_def)
  have Tb: "0 \<le> T" "T \<le> cf_maximum_target_pressure_units (mc_config ?c)"
    using base target valid_config_bounds(1) [OF valid] by (simp_all add: ctx_base_def T_def)
  have Pb: "0 \<le> P" "P \<le> 65535"
    using pressure_in_range_reachable [OF assms(3)] by (simp_all add: pressure_in_range_def P_def)
  note b = valid_config_bounds [OF valid, folded en_def ex_def]
  have error: "press_error ?c = T - P" by (simp add: press_error_def T_def P_def)
  have ints: "INT32_MAX = 2147483647" "INT32_MIN = - 2147483648" by (simp_all add: INT32_MAX_def INT32_MIN_def)
  have plain: "in_int32 T" "in_int32 P" "in_int32 (T - en)" "in_int32 (T + en)" "in_int32 (T - ex)"
    "in_int32 (T + ex)" "in_int32 (T - P)"
    unfolding in_int32_def using Tb Pb b(2-5) ints by linarith+
  have auto: "in_int32 (2 * ex)
      \<and> (en < T - P \<and> T - P \<le> 2 * ex \<longrightarrow> 0 < 2 * ex - en \<and> in_int32 ((T - P - en) * 600))
      \<and> (2 * ex < T - P \<and> T - P - 2 * ex < 100 \<longrightarrow> in_int32 ((T - P - 2 * ex) * 2000))
      \<and> unat (Machine_PressBaseMv ?c) \<le> 3000" if "AUTO_TARGET_ENABLED p"
  proof (intro conjI impI)
    note bs = b(2,3,4) b(6) [OF that] Tb Pb ints
    show "in_int32 (2 * ex)" "unat (Machine_PressBaseMv ?c) \<le> 3000"
      unfolding in_int32_def using bs PressBase_bound [of ?c] by (linarith, simp add: en_def ex_def)
    assume "en < T - P \<and> T - P \<le> 2 * ex"
    then show "0 < 2 * ex - en" using bs by linarith
    have "0 \<le> T - P - en" "T - P - en \<le> 325" using bs \<open>en < T - P \<and> T - P \<le> 2 * ex\<close> by linarith+
    then show "in_int32 ((T - P - en) * 600)" by (simp add: in_int32_def ints)
  next
    assume "2 * ex < T - P \<and> T - P - 2 * ex < 100"
    then show "in_int32 ((T - P - 2 * ex) * 2000)"
      by (simp add: in_int32_def ints)
  qed
  show ?thesis
    using plain auto by (simp add: error Let_def flip: T_def P_def en_def ex_def)
qed

end
