(* ===== verification/ModbusMap.thy ===== *)
theory ModbusMap
  imports MachineProps
begin

text \<open>
  What the Modbus registers and coils mean: \<^verbatim>\<open>Protocol/Modbus/modbus_register_map.h\<close>,
  \<^verbatim>\<open>modbus_protocol_constants.h\<close> and \<^verbatim>\<open>Transport/Modbus/modbus_semantic_map.c\<close>
  (builds without ForceServo). A write becomes a command of the state machine, a read
  shows its context and the motor snapshot.
\<close>

section \<open>Protocol constants\<close>

abbreviation (input) MODBUS_FUNCTION_READ_HOLDING_REGISTERS :: u8 where
  "MODBUS_FUNCTION_READ_HOLDING_REGISTERS \<equiv> 3"
abbreviation (input) MODBUS_FUNCTION_READ_INPUT_REGISTERS :: u8 where
  "MODBUS_FUNCTION_READ_INPUT_REGISTERS \<equiv> 4"
abbreviation (input) MODBUS_FUNCTION_WRITE_SINGLE_COIL :: u8 where
  "MODBUS_FUNCTION_WRITE_SINGLE_COIL \<equiv> 5"
abbreviation (input) MODBUS_FUNCTION_WRITE_SINGLE_REGISTER :: u8 where
  "MODBUS_FUNCTION_WRITE_SINGLE_REGISTER \<equiv> 6"

abbreviation (input) MODBUS_SINGLE_COIL_ON :: u16 where "MODBUS_SINGLE_COIL_ON \<equiv> 0xFF00"
abbreviation (input) MODBUS_SINGLE_COIL_OFF :: u16 where "MODBUS_SINGLE_COIL_OFF \<equiv> 0"
abbreviation (input) MODBUS_SENSOR_DISCONNECTED :: u16 where
  "MODBUS_SENSOR_DISCONNECTED \<equiv> 0xFFFF"
abbreviation (input) MODBUS_AUTO_TARGET_CAPABILITY_V1 :: u16 where
  "MODBUS_AUTO_TARGET_CAPABILITY_V1 \<equiv> 0xA701"

abbreviation (input) MODBUS_COIL_AUTO_PRESSURE :: u16 where "MODBUS_COIL_AUTO_PRESSURE \<equiv> 1"
abbreviation (input) MODBUS_COIL_DIRECT_RELEASE_PULSE :: u16 where
  "MODBUS_COIL_DIRECT_RELEASE_PULSE \<equiv> 2"
abbreviation (input) MODBUS_COIL_DIRECT_PRESS_PULSE :: u16 where
  "MODBUS_COIL_DIRECT_PRESS_PULSE \<equiv> 3"
abbreviation (input) MODBUS_HOLDING_TARGET_PRESSURE :: u16 where
  "MODBUS_HOLDING_TARGET_PRESSURE \<equiv> 0"

section \<open>The numbers of the enumerations\<close>

primrec MachineState_code :: "MachineState \<Rightarrow> u16" where
  "MachineState_code BOOT_SAFE = 0"
| "MachineState_code IDLE = 1"
| "MachineState_code JOG_PRESS = 2"
| "MachineState_code JOG_RELEASE = 3"
| "MachineState_code AUTO_APPROACH = 4"
| "MachineState_code AUTO_SETTLE = 5"
| "MachineState_code AUTO_PULSE = 6"
| "MachineState_code AUTO_HOLD = 7"
| "MachineState_code COMPLETE = 8"
| "MachineState_code FAULT = 9"
| "MachineState_code DIRECT_PRESS_PULSE = 10"
| "MachineState_code DIRECT_RELEASE_PULSE = 11"
| "MachineState_code FORCE_APPROACH = 12"
| "MachineState_code FORCE_BUILD = 13"
| "MachineState_code FORCE_HOLD = 14"
| "MachineState_code FORCE_TAPER = 15"
| "MachineState_code FORCE_TARGET_REACHED_OFF = 16"

primrec MachineFault_code :: "MachineFault \<Rightarrow> u16" where
  "MachineFault_code FAULT_NONE = 0"
| "MachineFault_code FAULT_BOOT_FAULT = 1"
| "MachineFault_code FAULT_PRESSURE_SENSOR_FAULT = 2"
| "MachineFault_code FAULT_OVERPRESSURE = 3"
| "MachineFault_code FAULT_OVERCURRENT = 4"
| "MachineFault_code FAULT_MOTION_TIMEOUT = 5"
| "MachineFault_code FAULT_MOTOR_FAULT = 6"
| "MachineFault_code FAULT_INTERNAL_FAULT = 7"

primrec FaultDetail_code :: "FaultDetail \<Rightarrow> u16" where
  "FaultDetail_code FAULT_DETAIL_NONE = 0"
| "FaultDetail_code FAULT_DETAIL_BOOT_CONFIGURATION = 1"
| "FaultDetail_code FAULT_DETAIL_PRESSURE_TIMEOUT = 2"
| "FaultDetail_code FAULT_DETAIL_PRESSURE_INVALID = 3"
| "FaultDetail_code FAULT_DETAIL_PRESSURE_ORDER_LOST = 4"
| "FaultDetail_code FAULT_DETAIL_SETTLE_FEEDBACK_TIMEOUT = 5"
| "FaultDetail_code FAULT_DETAIL_APPROACH_TIMEOUT = 6"
| "FaultDetail_code FAULT_DETAIL_PULSE_TIMEOUT = 7"
| "FaultDetail_code FAULT_DETAIL_CYCLE_TIMEOUT = 8"
| "FaultDetail_code FAULT_DETAIL_MOTOR_REQUEST_REJECTED = 9"
| "FaultDetail_code FAULT_DETAIL_MOTOR_HARDWARE = 10"
| "FaultDetail_code FAULT_DETAIL_INTERNAL_STATE = 11"
| "FaultDetail_code FAULT_DETAIL_DIRECT_PULSE_TIMEOUT = 12"
| "FaultDetail_code FAULT_DETAIL_LEASE_EXPIRED = 13"
| "FaultDetail_code FAULT_DETAIL_CONTACT_LOST = 14"
| "FaultDetail_code FAULT_DETAIL_SESSION_TIMEOUT = 15"
| "FaultDetail_code FAULT_DETAIL_SATURATION_TIMEOUT = 16"
| "FaultDetail_code FAULT_DETAIL_TRACKING_TIMEOUT = 17"
| "FaultDetail_code FAULT_DETAIL_NUMERIC = 18"
| "FaultDetail_code FAULT_DETAIL_ASSIST_EXCESSIVE_RISE = 19"
| "FaultDetail_code FAULT_DETAIL_POST_ASSIST_EXCESSIVE_RISE = 20"
| "FaultDetail_code FAULT_DETAIL_BUILD_EXPOSURE = 21"
| "FaultDetail_code FAULT_DETAIL_BUILD_NO_RESPONSE = 22"
| "FaultDetail_code FAULT_DETAIL_BUILD_CUTOFF = 23"
| "FaultDetail_code FAULT_DETAIL_BUILD_RESPONSE = 24"

primrec MachineCommandResult_code :: "MachineCommandResult \<Rightarrow> u16" where
  "MachineCommandResult_code COMMAND_ACCEPTED = 0"
| "MachineCommandResult_code COMMAND_INVALID_VALUE = 1"
| "MachineCommandResult_code COMMAND_NOT_ALLOWED = 2"
| "MachineCommandResult_code COMMAND_BUSY = 3"
| "MachineCommandResult_code COMMAND_NOT_READY = 4"
| "MachineCommandResult_code COMMAND_WRONG_OWNER = 5"
| "MachineCommandResult_code COMMAND_UNSUPPORTED = 6"
| "MachineCommandResult_code COMMAND_EXECUTOR_FAILED = 7"

primrec MotorDirection_code :: "MotorDirection \<Rightarrow> u16" where
  "MotorDirection_code MOTOR_DIRECTION_PRESS = 0"
| "MotorDirection_code MOTOR_DIRECTION_RELEASE = 1"

primrec MotorAction_code :: "MotorAction \<Rightarrow> u16" where
  "MotorAction_code MOTOR_ACTION_DISABLED = 0"
| "MotorAction_code MOTOR_ACTION_PRESS_RUN = 1"
| "MotorAction_code MOTOR_ACTION_RELEASE_RUN = 2"
| "MotorAction_code MOTOR_ACTION_PRESS_PULSE = 3"
| "MotorAction_code MOTOR_ACTION_RELEASE_PULSE = 4"
| "MotorAction_code MOTOR_ACTION_CONTINUOUS = 5"
| "MotorAction_code MOTOR_ACTION_BUILD_SEGMENT = 6"
| "MotorAction_code MOTOR_ACTION_BUILD_BRAKE = 7"

primrec MotorResult_code :: "MotorResult \<Rightarrow> u16" where
  "MotorResult_code MOTOR_RESULT_OK = 0"
| "MotorResult_code MOTOR_RESULT_INVALID = 1"
| "MotorResult_code MOTOR_RESULT_BUSY = 2"
| "MotorResult_code MOTOR_RESULT_TIMER_ERROR = 3"
| "MotorResult_code MOTOR_RESULT_HARDWARE_ERROR = 4"

section \<open>Operations\<close>

definition ModbusSemantic_SaturateToU16 :: "u32 \<Rightarrow> u16" where
  "ModbusSemantic_SaturateToU16 value = (if value > 0xFFFF then 0xFFFF else ucast value)"

definition ModbusSemantic_ApplyWrite ::
  "build_policy \<Rightarrow> 'e executor \<Rightarrow> u8 \<Rightarrow> u16 \<Rightarrow> u16 \<Rightarrow> u32 \<Rightarrow> 'e world
    \<Rightarrow> MachineCommandResult \<times> 'e world" where
  "ModbusSemantic_ApplyWrite p ops function address value now_ms w =
    (let command = \<lparr>cmd_type = CMD_STOP, cmd_target_pressure_units = 0\<rparr>
     in if function = MODBUS_FUNCTION_WRITE_SINGLE_REGISTER
          \<and> address = MODBUS_HOLDING_TARGET_PRESSURE
        then Machine_HandleCommand p ops
               (command\<lparr>cmd_type := CMD_SET_TARGET, cmd_target_pressure_units := uint value\<rparr>)
               now_ms w
        else if function = MODBUS_FUNCTION_WRITE_SINGLE_COIL \<and> address = MODBUS_COIL_AUTO_PRESSURE
        then (if value = MODBUS_SINGLE_COIL_ON
              then Machine_HandleCommand p ops (command\<lparr>cmd_type := CMD_AUTO_START\<rparr>) now_ms w
              else if value = MODBUS_SINGLE_COIL_OFF
              then Machine_HandleCommand p ops (command\<lparr>cmd_type := CMD_STOP\<rparr>) now_ms w
              else (COMMAND_INVALID_VALUE, w))
        else if function = MODBUS_FUNCTION_WRITE_SINGLE_COIL
          \<and> (address = MODBUS_COIL_DIRECT_PRESS_PULSE \<or> address = MODBUS_COIL_DIRECT_RELEASE_PULSE)
        then (if value \<noteq> MODBUS_SINGLE_COIL_ON then (COMMAND_INVALID_VALUE, w)
              else Machine_HandleCommand p ops
                     (command\<lparr>cmd_type := (if address = MODBUS_COIL_DIRECT_PRESS_PULSE
                        then CMD_DIRECT_PRESS_PULSE else CMD_DIRECT_RELEASE_PULSE)\<rparr>) now_ms w)
        else (COMMAND_UNSUPPORTED, w))"

text \<open>A read returns \<^const>\<open>None\<close> for \<open>false\<close> and the value stored through the pointer otherwise.\<close>

definition ModbusSemantic_ReadHolding :: "MachineContext \<Rightarrow> u16 \<Rightarrow> u16 option" where
  "ModbusSemantic_ReadHolding c address =
    (if address \<noteq> MODBUS_HOLDING_TARGET_PRESSURE then None
     else Some (if mc_target_valid c then of_int (mc_target_pressure_units c) else 0))"

definition status_flags :: "MachineContext \<Rightarrow> MotorExecutorSnapshot \<Rightarrow> u32 \<Rightarrow> u16" where
  "status_flags c m now_ms =
    (let flags = 0;
         flags = (if Machine_IsPressureFresh c now_ms then flags OR push_bit 0 1 else flags);
         flags = (if mc_target_valid c then flags OR push_bit 1 1 else flags);
         flags = (if mx_logical_active m then flags OR push_bit 2 1 else flags);
         flags = (if mx_physical_output_locked m then flags OR push_bit 3 1 else flags);
         flags = (if mx_physical_output_disabled m then flags OR push_bit 4 1 else flags);
         flags = flags OR push_bit 5 1;
         flags = (if cf_bench_release_correction_enabled (mc_config c)
                  then flags OR push_bit 6 1 else flags)
     in flags)"

definition read_register ::
  "build_policy \<Rightarrow> MachineContext \<Rightarrow> MotorExecutorSnapshot \<Rightarrow> u16 \<Rightarrow> u32 \<Rightarrow> u16 option" where
  "read_register p c m address now_ms =
    (if address = 0x00 then
       Some (if ps_frame_valid (mc_pressure c) \<and> ps_control_units_valid (mc_pressure c)
               \<and> ps_control_pressure_units (mc_pressure c) \<ge> 0
               \<and> ps_control_pressure_units (mc_pressure c) \<le> 0xFFFF
             then of_int (ps_control_pressure_units (mc_pressure c))
             else MODBUS_SENSOR_DISCONNECTED)
     else if address = 0x01 then
       Some (if ps_frame_valid (mc_pressure c)
             then ModbusSemantic_SaturateToU16 (ps_raw_pressure_counts (mc_pressure c))
             else MODBUS_SENSOR_DISCONNECTED)
     else if address = 0x02 then Some (MachineState_code (mc_state c))
     else if address = 0x03 then Some (MachineFault_code (mc_fault c))
     else if address = 0x04 then Some (FaultDetail_code (mc_fault_detail c))
     else if address = 0x05 then Some (MachineCommandResult_code (mc_last_command_result c))
     else if address = 0x06 then Some (MotorAction_code (mx_last_action m))
     else if address = 0x07 then Some (ModbusSemantic_SaturateToU16 (mx_command_mv m))
     else if address = 0x08 then Some (mx_planned_tim2_ccr3 m)
     else if address = 0x09 then Some (mx_planned_tim3_ccr3 m)
     else if address = 0x0A then Some (status_flags c m now_ms)
     else if address = 0x12 then Some (MotorResult_code (mx_last_failure_result m))
     else if address = 0x13 then Some (of_nat (mx_last_failure_stage m))
     else if address = 0x18 then Some (ucast (drop_bit 16 (ps_received_at_ms (mc_pressure c))))
     else if address = 0x19 then Some (ucast (ps_received_at_ms (mc_pressure c)))
     else if address = 0x1A then Some (MotorDirection_code (mc_diagnostic_direction c))
     else if address = 0x1B then Some (ModbusSemantic_SaturateToU16 (mc_diagnostic_command_mv c))
     else if address = 0x1C then Some (ModbusSemantic_SaturateToU16 (mc_diagnostic_duration_ms c))
     else if address = 0x1D then Some (ucast (drop_bit 16 (mc_diagnostic_request_sequence c)))
     else if address = 0x1E then Some (ucast (mc_diagnostic_request_sequence c))
     else if address = 0x1F then Some (ucast (drop_bit 16 (mc_diagnostic_request_at_ms c)))
     else if address = 0x20 then Some (ucast (mc_diagnostic_request_at_ms c))
     else if address = 0x21 then
       Some (if mc_target_valid c then of_int (mc_target_pressure_units c) else 0)
     else if address = 0x22 then
       Some (if AUTO_TARGET_ENABLED p then MODBUS_AUTO_TARGET_CAPABILITY_V1 else 0)
     else if address = 0x23 then Some (ucast (drop_bit 16 now_ms))
     else if address = 0x24 then Some (ucast now_ms)
     else None)"

definition ModbusSemantic_ReadInput ::
  "build_policy \<Rightarrow> 'e executor \<Rightarrow> u16 \<Rightarrow> u32 \<Rightarrow> 'e world \<Rightarrow> u16 option \<times> 'e world" where
  "ModbusSemantic_ReadInput p ops address now_ms w =
    (let (have, w) = exec (ex_GetSnapshot ops) w; c = w_ctx w
     in if \<not> have then (None, w)
        else if address \<ge> 0x0B \<and> address \<le> 0x11
        then (Some (ucast (ps_frame (mc_pressure c) ! unat (address - 0x0B))), w)
        else if address \<ge> 0x14 \<and> address \<le> 0x17
        then (Some (ucast (drop_bit (16 * unat (0x17 - address)) (ps_sequence (mc_pressure c)))), w)
        else (read_register p c (motor ops w) address now_ms, w))"

section \<open>The address space\<close>

lemma ReadHolding_cases:
  "ModbusSemantic_ReadHolding c a =
    (if a = 0 then Some (if mc_target_valid c then of_int (mc_target_pressure_units c) else 0) else None)"
  by (simp add: ModbusSemantic_ReadHolding_def)

lemma read_register_None:
  "read_register p c m a t = None \<longleftrightarrow> unat a \<notin> {0..0x0A} \<union> {0x12, 0x13} \<union> {0x18..0x24}"
proof -
  have "a = of_nat (unat a)" by simp
  moreover have "read_register p c m (of_nat n) t \<noteq> None"
    if "n \<in> {0..0x0A} \<union> {0x12, 0x13} \<union> {0x18..0x24}" for n
  proof -
    have "n \<in> set [0,1,2,3,4,5,6,7,8,9,10,18,19,24,25,26,27,28,29,30,31,32,33,34,35,36]"
      using that by simp arith
    then show ?thesis by (auto simp: read_register_def)
  qed
  moreover have "read_register p c m a t = None"
    if "unat a \<notin> {0..0x0A} \<union> {0x12, 0x13} \<union> {0x18..0x24}"
    using that unfolding read_register_def by (auto split: if_splits)
  ultimately show ?thesis by metis
qed

lemma ReadInput_value:
  "fst (ModbusSemantic_ReadInput p ops a t w) =
    (let c = w_ctx w; m = ex_motor ops (snd (ex_GetSnapshot ops (w_exec w)))
     in if \<not> fst (ex_GetSnapshot ops (w_exec w)) then None
        else if a \<ge> 0x0B \<and> a \<le> 0x11 then Some (ucast (ps_frame (mc_pressure c) ! unat (a - 0x0B)))
        else if a \<ge> 0x14 \<and> a \<le> 0x17
        then Some (ucast (drop_bit (16 * unat (0x17 - a)) (ps_sequence (mc_pressure c))))
        else read_register p c m a t)"
  by (simp add: ModbusSemantic_ReadInput_def Let_def exec_def motor_def case_prod_beta)

lemma ReadInput_world:
  "snd (ModbusSemantic_ReadInput p ops a t w) = snd (exec (ex_GetSnapshot ops) w)"
  by (simp add: ModbusSemantic_ReadInput_def Let_def case_prod_beta)

text \<open>The readable address space is exactly the documented one: input registers 0 to 36
  without a gap (when the motor snapshot is available) and the one holding register 0.\<close>

theorem readable_addresses:
  "(fst (ModbusSemantic_ReadInput p ops a t w) \<noteq> None
      \<longleftrightarrow> fst (ex_GetSnapshot ops (w_exec w)) \<and> unat a < 0x25)
   \<and> (ModbusSemantic_ReadHolding c a \<noteq> None \<longleftrightarrow> a = 0)"
proof -
  have r: "read_register p c' m a t \<noteq> None
      \<longleftrightarrow> unat a \<le> 10 \<or> unat a = 18 \<or> unat a = 19 \<or> 24 \<le> unat a \<and> unat a \<le> 36" for c' m
    by (simp add: read_register_None del: not_None_eq) blast
  have "ModbusSemantic_ReadHolding c a \<noteq> None \<longleftrightarrow> a = 0" by (simp add: ReadHolding_cases)
  moreover have "fst (ModbusSemantic_ReadInput p ops a t w) \<noteq> None
      \<longleftrightarrow> fst (ex_GetSnapshot ops (w_exec w)) \<and> unat a < 0x25"
    unfolding ReadInput_value Let_def
    by (simp add: r word_le_nat_alt del: not_None_eq) arith
  ultimately show ?thesis by blast
qed

section \<open>Values over several registers\<close>

definition input_words ::
  "build_policy \<Rightarrow> 'e executor \<Rightarrow> u16 \<Rightarrow> nat \<Rightarrow> u32 \<Rightarrow> 'e world \<Rightarrow> u16 option list" where
  "input_words p ops a n now_ms w =
    map (\<lambda>i. fst (ModbusSemantic_ReadInput p ops (a + of_nat i) now_ms w)) [0..<n]"

definition from_words :: "u16 option list \<Rightarrow> nat" where
  "from_words = foldl (\<lambda>acc v. acc * 65536 + unat (the v)) 0"

lemma unat_low16: "unat (ucast (w :: 'a::len word) :: u16) = unat w mod 65536"
  by (simp add: unsigned_ucast_eq take_bit_eq_mod)

lemma unat_high16:
  fixes x :: "'a::len word"
  shows "unat (ucast (drop_bit n x) :: u16) = unat x div 2 ^ n mod 65536"
  unfolding unat_low16 unat_drop_bit_eq by (simp only: drop_bit_eq_div)

lemma from_words_32:
  "from_words [Some (ucast (drop_bit 16 (x :: u32))), Some (ucast x)] = unat x"
proof -
  have "unat x < 4294967296" using unsigned_less [of x, where 'a = nat] by simp
  then have "unat x div 65536 mod 65536 = unat x div 65536" by simp
  then show ?thesis 
    by (simp only: from_words_def foldl_Cons foldl_Nil option.sel unat_high16) (simp add: unat_low16)
qed

lemma from_words_64:
  "from_words [Some (ucast (drop_bit 48 (x :: u64))), Some (ucast (drop_bit 32 x)),
      Some (ucast (drop_bit 16 x)), Some (ucast x)] = unat x"
proof -
  define n where "n = unat x"
  have "n < 18446744073709551616" using unsigned_less [of x, where 'a = nat] by (simp add: n_def)
  then have top: "n div 281474976710656 mod 65536 = n div 281474976710656" by simp
  moreover have "n div 281474976710656 = n div 4294967296 div 65536"
    "n div 4294967296 = n div 65536 div 65536" by (simp_all add: div_mult2_eq [symmetric])
  ultimately have "((n div 281474976710656 mod 65536 * 65536 + n div 4294967296 mod 65536) * 65536
      + n div 65536 mod 65536) * 65536 + n mod 65536 = n"
    by (simp only: div_mult_mod_eq)
  with top show ?thesis
    by (simp only: from_words_def foldl_Cons foldl_Nil option.sel unat_high16 n_def) (simp add: unat_low16)
qed

text \<open>A client that reads the registers of a multiword value, high word first, gets
  the value back exactly: the 64-bit sample sequence, and the 32-bit reception time,
  request sequence, request time and device time.\<close>

theorem multiword_registers_decode:
  assumes "fst (ex_GetSnapshot ops (w_exec w))"
  shows "from_words (input_words p ops 0x14 4 t w) = unat (ps_sequence (mc_pressure (w_ctx w)))
    \<and> from_words (input_words p ops 0x18 2 t w) = unat (ps_received_at_ms (mc_pressure (w_ctx w)))
    \<and> from_words (input_words p ops 0x1D 2 t w) = unat (mc_diagnostic_request_sequence (w_ctx w))
    \<and> from_words (input_words p ops 0x1F 2 t w) = unat (mc_diagnostic_request_at_ms (w_ctx w))
    \<and> from_words (input_words p ops 0x23 2 t w) = unat t"
  using assms
  by (simp add: input_words_def ReadInput_value Let_def read_register_def upt_rec
      from_words_32 from_words_64 word_le_nat_alt)

theorem multiword_registers_decode_witness:
  "from_words (input_words locked_policy locked_ops 0x14 4 70000
      (ctx_upd (\<lambda>c. c\<lparr>mc_pressure := zero_sample\<lparr>ps_sequence := 0x0001000200030004\<rparr>\<rparr>) locked_world))
    = 0x0001000200030004"
  using multiword_registers_decode [of locked_ops
    "ctx_upd (\<lambda>c. c\<lparr>mc_pressure := zero_sample\<lparr>ps_sequence := 0x0001000200030004\<rparr>\<rparr>) locked_world"
    locked_policy 70000]
  by (simp add: locked_eval ctx_upd_def)

text \<open>C40: Writing the target register and reading it back: an accepted write of \<open>v\<close> makes
  the holding register and its input copy read \<open>v\<close> and marks the target valid in the
  status flags; any other answer leaves the world as it was, but for the recorded
  result.\<close>

theorem target_register_roundtrip:
  "(case ModbusSemantic_ApplyWrite p ops 6 0 v t w of (result, w') \<Rightarrow>
      if result = COMMAND_ACCEPTED
      then ModbusSemantic_ReadHolding (w_ctx w') 0 = Some v
        \<and> read_register p (w_ctx w') m 0x21 t' = Some v
        \<and> bit (status_flags (w_ctx w') m t') 1
      else w' = ctx_upd (\<lambda>c. c\<lparr>mc_last_command_result := result\<rparr>) w)"
  by (auto simp: ModbusSemantic_ApplyWrite_def Machine_HandleCommand_def handle_set_target_def Let_def
      ModbusSemantic_ReadHolding_def read_register_def status_flags_def Machine_ResetForcePi_def
      ctx_upd_def bit_simps split: if_splits)

end
