(* ===== verification/ModbusServer.thy ===== *)
theory ModbusServer
  imports ModbusMap Crc16
begin

text \<open>
  The Modbus RTU server of \<^verbatim>\<open>Transport/Modbus/modbus_rtu_server.c\<close>: extraction of
  requests from the byte stream with resynchronisation, the queue of normal requests,
  the STOP latch that overtakes it, and the responses with their priority slot. This
  theory holds the code; \<open>ModbusStream\<close> and \<open>ModbusReply\<close> hold what is proved of it.
  The write requests are processed as in the builds without ForceServo; theory
  \<open>ForceServer\<close> has \<^verbatim>\<open>ModbusRtuServer_ProcessWrite\<close> as the others build it.
\<close>

section \<open>State\<close>

abbreviation (input) MODBUS_RTU_RX_BUFFER_CAPACITY :: nat where
  "MODBUS_RTU_RX_BUFFER_CAPACITY \<equiv> 32"
abbreviation (input) MODBUS_RTU_RESPONSE_CAPACITY :: nat where
  "MODBUS_RTU_RESPONSE_CAPACITY \<equiv> 32"
abbreviation (input) MODBUS_RTU_REQUEST_QUEUE_CAPACITY :: nat where
  "MODBUS_RTU_REQUEST_QUEUE_CAPACITY \<equiv> 4"
abbreviation (input) MODBUS_RTU_REQUEST_LENGTH :: nat where
  "MODBUS_RTU_REQUEST_LENGTH \<equiv> 8"
abbreviation (input) MODBUS_LEGACY_DEFAULT_STATION_ID :: u8 where
  "MODBUS_LEGACY_DEFAULT_STATION_ID \<equiv> 1"

record ModbusRtuServerSnapshot =
  ms_valid_request_count :: u32
  ms_invalid_crc_count :: u32
  ms_wrong_station_count :: u32
  ms_dropped_resync_byte_count :: u32
  ms_exception_response_count :: u32
  ms_normal_queue_full_drop_count :: u32
  ms_duplicate_stop_count :: u32
  ms_normal_discarded_by_stop_count :: u32
  ms_dropped_stop_response_count :: u32

text \<open>\<open>srv_machine\<close> says whether the pointer to the state machine is set.\<close>

record ModbusRtuServer =
  srv_machine :: bool
  srv_rx_buffer :: "u8 list"
  srv_rx_length :: nat
  srv_request_queue :: "u8 list list"
  srv_request_count :: nat
  srv_stop_request :: "u8 list"
  srv_stop_latched :: bool
  srv_active_request :: "u8 list"
  srv_response :: "u8 list"
  srv_response_length :: nat
  srv_response_pending :: bool
  srv_priority_response :: "u8 list"
  srv_priority_response_length :: nat
  srv_priority_response_pending :: bool
  srv_snapshot :: ModbusRtuServerSnapshot

definition count_up ::
  "(ModbusRtuServerSnapshot \<Rightarrow> ModbusRtuServerSnapshot) \<Rightarrow> ModbusRtuServer \<Rightarrow> ModbusRtuServer" where
  "count_up f s = s\<lparr>srv_snapshot := f (srv_snapshot s)\<rparr>"

text \<open>\<open>memcpy(destination, source, n)\<close> and the overlapping \<open>memmove\<close> to the front.\<close>

definition memcpy :: "u8 list \<Rightarrow> u8 list \<Rightarrow> nat \<Rightarrow> u8 list" where
  "memcpy destination source n = take n source @ drop n destination"

definition memmove_front :: "u8 list \<Rightarrow> nat \<Rightarrow> nat \<Rightarrow> u8 list" where
  "memmove_front buffer start n = take n (drop start buffer) @ drop n buffer"

section \<open>Bytes and frames\<close>

definition ModbusRtuServer_ReadU16 :: "u8 list \<Rightarrow> nat \<Rightarrow> u16" where
  "ModbusRtuServer_ReadU16 bytes i = push_bit 8 (ucast (bytes ! i)) OR ucast (bytes ! (i + 1))"

definition ModbusRtuServer_AppendCrc :: "u8 list \<Rightarrow> nat \<Rightarrow> u8 list" where
  "ModbusRtuServer_AppendCrc frame data_length =
    (let crc = Modbus_Crc16 (Some frame) data_length;
         frame = frame[data_length := ucast (crc AND 0xFF)]
     in frame[data_length + 1 := ucast (drop_bit 8 crc)])"

definition ModbusRtuServer_DropFront :: "ModbusRtuServer \<Rightarrow> nat \<Rightarrow> ModbusRtuServer" where
  "ModbusRtuServer_DropFront s byte_count =
    (if byte_count < srv_rx_length s
     then (let len = srv_rx_length s - byte_count
           in s\<lparr>srv_rx_length := len,
                srv_rx_buffer := memmove_front (srv_rx_buffer s) byte_count len\<rparr>)
     else s\<lparr>srv_rx_length := 0\<rparr>)"

definition ModbusRtuServer_FirstFrameCrcIsValid :: "ModbusRtuServer \<Rightarrow> bool" where
  "ModbusRtuServer_FirstFrameCrcIsValid s =
    (let expected = Modbus_Crc16 (Some (srv_rx_buffer s)) 6;
         received = ucast (srv_rx_buffer s ! 6) OR push_bit 8 (ucast (srv_rx_buffer s ! 7))
     in expected = received)"

definition ModbusRtuServer_RequestIsStop :: "u8 list \<Rightarrow> bool" where
  "ModbusRtuServer_RequestIsStop request \<longleftrightarrow>
    request ! 1 = MODBUS_FUNCTION_WRITE_SINGLE_COIL
    \<and> ModbusRtuServer_ReadU16 request 2 = MODBUS_COIL_AUTO_PRESSURE
    \<and> ModbusRtuServer_ReadU16 request 4 = MODBUS_SINGLE_COIL_OFF"

section \<open>Extraction of requests\<close>

text \<open>The three branches of the loop body.\<close>

definition extract_bad_crc :: "ModbusRtuServer \<Rightarrow> ModbusRtuServer" where
  "extract_bad_crc s =
    (let s = (if srv_rx_buffer s ! 0 = MODBUS_LEGACY_DEFAULT_STATION_ID
              then count_up (\<lambda>m. m\<lparr>ms_invalid_crc_count := ms_invalid_crc_count m + 1\<rparr>) s else s);
         s = count_up (\<lambda>m. m\<lparr>ms_dropped_resync_byte_count := ms_dropped_resync_byte_count m + 1\<rparr>) s
     in ModbusRtuServer_DropFront s 1)"

definition extract_wrong_station :: "ModbusRtuServer \<Rightarrow> ModbusRtuServer" where
  "extract_wrong_station s =
    (let s = count_up (\<lambda>m. m\<lparr>ms_wrong_station_count := ms_wrong_station_count m + 1\<rparr>) s;
         s = count_up (\<lambda>m. m\<lparr>ms_dropped_resync_byte_count :=
               ms_dropped_resync_byte_count m + of_nat MODBUS_RTU_REQUEST_LENGTH\<rparr>) s
     in ModbusRtuServer_DropFront s MODBUS_RTU_REQUEST_LENGTH)"

definition extract_valid :: "ModbusRtuServer \<Rightarrow> ModbusRtuServer" where
  "extract_valid s =
    (let s = count_up (\<lambda>m. m\<lparr>ms_valid_request_count := ms_valid_request_count m + 1\<rparr>) s;
         s = (if ModbusRtuServer_RequestIsStop (srv_rx_buffer s)
              then (if \<not> srv_stop_latched s
                    then s\<lparr>srv_stop_request := memcpy (srv_stop_request s) (srv_rx_buffer s)
                             MODBUS_RTU_REQUEST_LENGTH,
                           srv_stop_latched := True\<rparr>
                    else count_up (\<lambda>m. m\<lparr>ms_duplicate_stop_count := ms_duplicate_stop_count m + 1\<rparr>) s)
              else if srv_request_count s < MODBUS_RTU_REQUEST_QUEUE_CAPACITY
              then s\<lparr>srv_request_queue := (srv_request_queue s)[srv_request_count s :=
                       memcpy (srv_request_queue s ! srv_request_count s) (srv_rx_buffer s)
                         MODBUS_RTU_REQUEST_LENGTH],
                     srv_request_count := srv_request_count s + 1\<rparr>
              else count_up (\<lambda>m. m\<lparr>ms_normal_queue_full_drop_count :=
                       ms_normal_queue_full_drop_count m + 1\<rparr>) s)
     in ModbusRtuServer_DropFront s MODBUS_RTU_REQUEST_LENGTH)"

definition extract_step :: "ModbusRtuServer \<Rightarrow> ModbusRtuServer" where
  "extract_step s =
    (if \<not> ModbusRtuServer_FirstFrameCrcIsValid s then extract_bad_crc s
     else if srv_rx_buffer s ! 0 \<noteq> MODBUS_LEGACY_DEFAULT_STATION_ID then extract_wrong_station s
     else extract_valid s)"

lemma count_up_simps [simp]:
  "srv_machine (count_up f s) = srv_machine s"
  "srv_rx_buffer (count_up f s) = srv_rx_buffer s"
  "srv_rx_length (count_up f s) = srv_rx_length s"
  "srv_request_queue (count_up f s) = srv_request_queue s"
  "srv_request_count (count_up f s) = srv_request_count s"
  "srv_stop_request (count_up f s) = srv_stop_request s"
  "srv_stop_latched (count_up f s) = srv_stop_latched s"
  "srv_active_request (count_up f s) = srv_active_request s"
  "srv_response (count_up f s) = srv_response s"
  "srv_response_length (count_up f s) = srv_response_length s"
  "srv_response_pending (count_up f s) = srv_response_pending s"
  "srv_priority_response (count_up f s) = srv_priority_response s"
  "srv_priority_response_length (count_up f s) = srv_priority_response_length s"
  "srv_priority_response_pending (count_up f s) = srv_priority_response_pending s"
  "srv_snapshot (count_up f s) = f (srv_snapshot s)"
  by (simp_all add: count_up_def)

lemma DropFront_length [simp]:
  "srv_rx_length (ModbusRtuServer_DropFront s n) = srv_rx_length s - n"
  by (simp add: ModbusRtuServer_DropFront_def Let_def)

lemmas extract_defs = extract_step_def extract_bad_crc_def extract_wrong_station_def extract_valid_def

lemma extract_step_length: "srv_rx_length s \<ge> 8 \<Longrightarrow> srv_rx_length (extract_step s) < srv_rx_length s"
  by (simp add: extract_defs Let_def)

text \<open>The loop: every turn drops at least one byte.\<close>

function ModbusRtuServer_TryExtractRequest :: "ModbusRtuServer \<Rightarrow> ModbusRtuServer" where
  "ModbusRtuServer_TryExtractRequest s =
    (if srv_rx_length s \<ge> MODBUS_RTU_REQUEST_LENGTH
     then ModbusRtuServer_TryExtractRequest (extract_step s) else s)"
  by pat_completeness auto
termination
  by (relation "measure srv_rx_length") (auto intro: extract_step_length)

declare ModbusRtuServer_TryExtractRequest.simps [simp del]

section \<open>Responses\<close>

definition ModbusRtuServer_MapCommandError :: "MachineCommandResult \<Rightarrow> u8" where
  "ModbusRtuServer_MapCommandError result =
    (if result = COMMAND_INVALID_VALUE then 0x03
     else if result = COMMAND_UNSUPPORTED then 0x02
     else 0x04)"

definition ModbusRtuServer_PromotePriorityResponse :: "ModbusRtuServer \<Rightarrow> ModbusRtuServer" where
  "ModbusRtuServer_PromotePriorityResponse s =
    (if \<not> srv_response_pending s \<and> srv_priority_response_pending s
     then s\<lparr>srv_response := memcpy (srv_response s) (srv_priority_response s)
              (srv_priority_response_length s),
            srv_response_length := srv_priority_response_length s,
            srv_response_pending := True,
            srv_priority_response_length := 0,
            srv_priority_response_pending := False\<rparr>
     else s)"

definition ModbusRtuServer_QueueStopResponse ::
  "ModbusRtuServer \<Rightarrow> u8 list \<Rightarrow> MachineCommandResult \<Rightarrow> ModbusRtuServer" where
  "ModbusRtuServer_QueueStopResponse s request result =
    (if srv_priority_response_pending s
     then count_up (\<lambda>m. m\<lparr>ms_dropped_stop_response_count := ms_dropped_stop_response_count m + 1\<rparr>) s
     else
       (let s = (if result = COMMAND_ACCEPTED
             then s\<lparr>srv_priority_response := memcpy (srv_priority_response s) request
                      MODBUS_RTU_REQUEST_LENGTH,
                    srv_priority_response_length := MODBUS_RTU_REQUEST_LENGTH\<rparr>
             else
               (let r = (srv_priority_response s)[0 := MODBUS_LEGACY_DEFAULT_STATION_ID];
                    r = r[1 := MODBUS_FUNCTION_WRITE_SINGLE_COIL OR 0x80];
                    r = r[2 := ModbusRtuServer_MapCommandError result]
                in count_up
                     (\<lambda>m. m\<lparr>ms_exception_response_count := ms_exception_response_count m + 1\<rparr>)
                     (s\<lparr>srv_priority_response := ModbusRtuServer_AppendCrc r 3,
                        srv_priority_response_length := 5\<rparr>)))
        in ModbusRtuServer_PromotePriorityResponse (s\<lparr>srv_priority_response_pending := True\<rparr>)))"

definition ModbusRtuServer_BuildException :: "ModbusRtuServer \<Rightarrow> u8 \<Rightarrow> u8 \<Rightarrow> ModbusRtuServer" where
  "ModbusRtuServer_BuildException s function exception =
    (let r = (srv_response s)[0 := MODBUS_LEGACY_DEFAULT_STATION_ID];
         r = r[1 := function OR 0x80];
         r = r[2 := exception]
     in count_up (\<lambda>m. m\<lparr>ms_exception_response_count := ms_exception_response_count m + 1\<rparr>)
          (s\<lparr>srv_response := ModbusRtuServer_AppendCrc r 3,
             srv_response_length := 5, srv_response_pending := True\<rparr>))"

definition ModbusRtuServer_BuildWriteEcho :: "ModbusRtuServer \<Rightarrow> ModbusRtuServer" where
  "ModbusRtuServer_BuildWriteEcho s =
    s\<lparr>srv_response := memcpy (srv_response s) (srv_active_request s) MODBUS_RTU_REQUEST_LENGTH,
      srv_response_length := MODBUS_RTU_REQUEST_LENGTH, srv_response_pending := True\<rparr>"

definition ModbusRtuServer_ProcessWrite ::
  "build_policy \<Rightarrow> 'e executor \<Rightarrow> u32 \<Rightarrow> ModbusRtuServer \<Rightarrow> 'e world
    \<Rightarrow> ModbusRtuServer \<times> 'e world" where
  "ModbusRtuServer_ProcessWrite p ops now_ms s w =
    (let function = srv_active_request s ! 1;
         address = ModbusRtuServer_ReadU16 (srv_active_request s) 2;
         value = ModbusRtuServer_ReadU16 (srv_active_request s) 4
     in if function = MODBUS_FUNCTION_WRITE_SINGLE_REGISTER
             \<and> address \<noteq> MODBUS_HOLDING_TARGET_PRESSURE
          \<or> function = MODBUS_FUNCTION_WRITE_SINGLE_COIL \<and> address \<noteq> MODBUS_COIL_AUTO_PRESSURE
             \<and> address \<noteq> MODBUS_COIL_DIRECT_RELEASE_PULSE \<and> address \<noteq> MODBUS_COIL_DIRECT_PRESS_PULSE
        then (ModbusRtuServer_BuildException s function 0x02, w)
        else
          (let (result, w) = ModbusSemantic_ApplyWrite p ops function address value now_ms w
           in if result = COMMAND_ACCEPTED then (ModbusRtuServer_BuildWriteEcho s, w)
              else (ModbusRtuServer_BuildException s function
                      (ModbusRtuServer_MapCommandError result), w)))"

text \<open>The read of one register, and the loop over the quantity from \<open>index\<close> on.\<close>

definition read_candidate ::
  "build_policy \<Rightarrow> 'e executor \<Rightarrow> u8 \<Rightarrow> u32 \<Rightarrow> u32 \<Rightarrow> 'e world \<Rightarrow> u16 option \<times> 'e world" where
  "read_candidate p ops function candidate now_ms w =
    (if candidate > 0xFFFF then (None, w)
     else if function = MODBUS_FUNCTION_READ_HOLDING_REGISTERS
     then (ModbusSemantic_ReadHolding (w_ctx w) (ucast candidate), w)
     else ModbusSemantic_ReadInput p ops (ucast candidate) now_ms w)"

function read_loop ::
  "build_policy \<Rightarrow> 'e executor \<Rightarrow> u8 \<Rightarrow> u16 \<Rightarrow> u16 \<Rightarrow> u32 \<Rightarrow> u16 \<Rightarrow> u8 list \<Rightarrow> 'e world
    \<Rightarrow> bool \<times> u8 list \<times> 'e world" where
  "read_loop p ops function address quantity now_ms index response w =
    (if index < quantity
     then (case read_candidate p ops function (ucast address + ucast index) now_ms w of
             (None, w) \<Rightarrow> (False, response, w)
           | (Some value, w) \<Rightarrow>
               read_loop p ops function address quantity now_ms (index + 1)
                 ((response[3 + unat index * 2 := ucast (drop_bit 8 value)])
                    [4 + unat index * 2 := ucast (value AND 0xFF)]) w)
     else (True, response, w))"
  by pat_completeness auto
termination
proof (relation "measure (\<lambda>(p, ops, f, a, q, t, i, r, w). unat q - unat i)", goal_cases)
  case (2 p ops f a q t i r w z w' v)
  then have "unat i < unat q" by (simp add: word_less_nat_alt)
  moreover have "unat q < 65536" using unsigned_less [of q, where 'a = nat] by simp
  ultimately have "unat (i + 1) = unat i + 1" by (simp add: unat_word_ariths)
  then show ?case using \<open>unat i < unat q\<close> by simp
qed simp

declare read_loop.simps [simp del]

definition ModbusRtuServer_ProcessRead ::
  "build_policy \<Rightarrow> 'e executor \<Rightarrow> u32 \<Rightarrow> ModbusRtuServer \<Rightarrow> 'e world
    \<Rightarrow> ModbusRtuServer \<times> 'e world" where
  "ModbusRtuServer_ProcessRead p ops now_ms s w =
    (let function = srv_active_request s ! 1;
         address = ModbusRtuServer_ReadU16 (srv_active_request s) 2;
         quantity = ModbusRtuServer_ReadU16 (srv_active_request s) 4
     in if quantity = 0 \<or> quantity > 11 then (ModbusRtuServer_BuildException s function 0x03, w)
        else
          (let (found, response, w) =
                 read_loop p ops function address quantity now_ms 0 (srv_response s) w;
               s = s\<lparr>srv_response := response\<rparr>
           in if \<not> found then (ModbusRtuServer_BuildException s function 0x02, w)
              else
                (let r = (srv_response s)[0 := MODBUS_LEGACY_DEFAULT_STATION_ID];
                     r = r[1 := function];
                     r = r[2 := ucast (quantity * 2)];
                     len = 3 + unat quantity * 2 + 2
                 in (s\<lparr>srv_response := ModbusRtuServer_AppendCrc r (len - 2),
                       srv_response_length := len, srv_response_pending := True\<rparr>, w))))"

section \<open>The interface\<close>

definition zero_server_snapshot :: ModbusRtuServerSnapshot where
  "zero_server_snapshot =
    \<lparr>ms_valid_request_count = 0, ms_invalid_crc_count = 0, ms_wrong_station_count = 0,
     ms_dropped_resync_byte_count = 0, ms_exception_response_count = 0,
     ms_normal_queue_full_drop_count = 0, ms_duplicate_stop_count = 0,
     ms_normal_discarded_by_stop_count = 0, ms_dropped_stop_response_count = 0\<rparr>"

definition ModbusRtuServer_Initialize :: "bool \<Rightarrow> ModbusRtuServer" where
  "ModbusRtuServer_Initialize machine =
    \<lparr>srv_machine = machine, srv_rx_buffer = replicate MODBUS_RTU_RX_BUFFER_CAPACITY 0,
     srv_rx_length = 0,
     srv_request_queue = replicate MODBUS_RTU_REQUEST_QUEUE_CAPACITY (replicate 8 0),
     srv_request_count = 0, srv_stop_request = replicate 8 0, srv_stop_latched = False,
     srv_active_request = replicate 8 0,
     srv_response = replicate MODBUS_RTU_RESPONSE_CAPACITY 0, srv_response_length = 0,
     srv_response_pending = False,
     srv_priority_response = replicate MODBUS_RTU_RESPONSE_CAPACITY 0,
     srv_priority_response_length = 0, srv_priority_response_pending = False,
     srv_snapshot = zero_server_snapshot\<rparr>"

definition server_process_byte :: "u8 \<Rightarrow> ModbusRtuServer \<Rightarrow> ModbusRtuServer" where
  "server_process_byte b s =
    (let s = (if srv_rx_length s = MODBUS_RTU_RX_BUFFER_CAPACITY
              then ModbusRtuServer_DropFront
                     (count_up (\<lambda>m. m\<lparr>ms_dropped_resync_byte_count :=
                        ms_dropped_resync_byte_count m + 1\<rparr>) s) 1
              else s);
         s = s\<lparr>srv_rx_buffer := (srv_rx_buffer s)[srv_rx_length s := b],
               srv_rx_length := srv_rx_length s + 1\<rparr>
     in ModbusRtuServer_TryExtractRequest s)"

definition ModbusRtuServer_ProcessBytes ::
  "ModbusRtuServer \<Rightarrow> u8 list option \<Rightarrow> nat \<Rightarrow> ModbusRtuServer" where
  "ModbusRtuServer_ProcessBytes s bytes byte_count =
    (case bytes of
       None \<Rightarrow> s
     | Some bs \<Rightarrow> fold server_process_byte (take byte_count bs) s)"

definition ModbusRtuServer_HasPendingRequest :: "ModbusRtuServer \<Rightarrow> bool \<times> ModbusRtuServer" where
  "ModbusRtuServer_HasPendingRequest s =
    (let s = ModbusRtuServer_TryExtractRequest s in (srv_request_count s \<noteq> 0, s))"

definition ModbusRtuServer_PendingIsStop :: "ModbusRtuServer \<Rightarrow> bool \<times> ModbusRtuServer" where
  "ModbusRtuServer_PendingIsStop s =
    (let s = ModbusRtuServer_TryExtractRequest s in (srv_stop_latched s, s))"

definition ModbusRtuServer_TakeStop ::
  "build_policy \<Rightarrow> 'e executor \<Rightarrow> u32 \<Rightarrow> ModbusRtuServer \<Rightarrow> 'e world
    \<Rightarrow> bool \<times> ModbusRtuServer \<times> 'e world" where
  "ModbusRtuServer_TakeStop p ops now_ms s w =
    (if \<not> srv_machine s then (False, s, w)
     else
       (let s = ModbusRtuServer_TryExtractRequest s
        in if \<not> srv_stop_latched s then (False, s, w)
           else
             (let request = srv_stop_request s;
                  s = s\<lparr>srv_stop_latched := False\<rparr>;
                  (result, w) = ModbusSemantic_ApplyWrite p ops (request ! 1)
                     (ModbusRtuServer_ReadU16 request 2) (ModbusRtuServer_ReadU16 request 4) now_ms w;
                  s = count_up (\<lambda>m. m\<lparr>ms_normal_discarded_by_stop_count :=
                     ms_normal_discarded_by_stop_count m + of_nat (srv_request_count s)\<rparr>) s;
                  s = s\<lparr>srv_request_count := 0\<rparr>
              in (True, ModbusRtuServer_QueueStopResponse s request result, w))))"

text \<open>The \<open>for\<close> loop that moves the queued requests one place forward.\<close>

definition shift_queue :: "nat \<Rightarrow> u8 list list \<Rightarrow> u8 list list" where
  "shift_queue count queue =
    fold (\<lambda>index queue. queue[index - 1 :=
            memcpy (queue ! (index - 1)) (queue ! index) MODBUS_RTU_REQUEST_LENGTH])
      [1..<count] queue"

definition ModbusRtuServer_ProcessPending ::
  "build_policy \<Rightarrow> 'e executor \<Rightarrow> u32 \<Rightarrow> ModbusRtuServer \<Rightarrow> 'e world
    \<Rightarrow> bool \<times> ModbusRtuServer \<times> 'e world" where
  "ModbusRtuServer_ProcessPending p ops now_ms s w =
    (if \<not> srv_machine s then (False, s, w)
     else
       (let (is_stop, s) = ModbusRtuServer_PendingIsStop s
        in if is_stop \<or> srv_response_pending s then (False, s, w)
           else
             (let (have_request, s) = ModbusRtuServer_HasPendingRequest s
              in if \<not> have_request then (False, s, w)
                 else
                   (let s = s\<lparr>srv_active_request := memcpy (srv_active_request s)
                               (srv_request_queue s ! 0) MODBUS_RTU_REQUEST_LENGTH\<rparr>;
                        s = s\<lparr>srv_request_queue :=
                               shift_queue (srv_request_count s) (srv_request_queue s)\<rparr>;
                        s = s\<lparr>srv_request_count := srv_request_count s - 1\<rparr>;
                        function = srv_active_request s ! 1;
                        (s, w) =
                          (if function = MODBUS_FUNCTION_READ_HOLDING_REGISTERS
                              \<or> function = MODBUS_FUNCTION_READ_INPUT_REGISTERS
                           then ModbusRtuServer_ProcessRead p ops now_ms s w
                           else if function = MODBUS_FUNCTION_WRITE_SINGLE_COIL
                              \<or> function = MODBUS_FUNCTION_WRITE_SINGLE_REGISTER
                           then ModbusRtuServer_ProcessWrite p ops now_ms s w
                           else (ModbusRtuServer_BuildException s function 0x01, w))
                    in (True, ModbusRtuServer_TryExtractRequest s, w)))))"

text \<open>The response and its length, with the pointer of the code as the list it points to.\<close>

definition ModbusRtuServer_GetResponse :: "ModbusRtuServer \<Rightarrow> (u8 list \<times> nat) option" where
  "ModbusRtuServer_GetResponse s =
    (if \<not> srv_response_pending s then None else Some (srv_response s, srv_response_length s))"

definition ModbusRtuServer_CompleteResponse :: "ModbusRtuServer \<Rightarrow> ModbusRtuServer" where
  "ModbusRtuServer_CompleteResponse s =
    (let s = s\<lparr>srv_response_pending := False, srv_response_length := 0\<rparr>;
         s = ModbusRtuServer_PromotePriorityResponse s
     in ModbusRtuServer_TryExtractRequest s)"

definition ModbusRtuServer_GetSnapshot :: "ModbusRtuServer \<Rightarrow> ModbusRtuServerSnapshot" where
  "ModbusRtuServer_GetSnapshot s = srv_snapshot s"

end
