(* ===== verification/ModbusStream.thy ===== *)
theory ModbusStream
  imports ModbusServer
begin

text \<open>
  The receive side of the Modbus server as a stream parser. The byte-at-a-time code
  with its buffer, queue slots and flags is a refinement of a parser on lists: whatever
  the chunks the bytes arrive in, the requests found, their order, the STOP latch and
  the counters are those of parsing the whole stream at once.
\<close>

section \<open>The specification\<close>

text \<open>The first six bytes have the CRC that the next two carry, low byte first.\<close>

definition frame_crc :: "u8 list \<Rightarrow> bool" where
  "frame_crc bs \<longleftrightarrow> foldl crc_byte 0xFFFF (take 6 bs) = be16 (bs ! 7) (bs ! 6)"

datatype rx_event =
    Noise bool
  | Foreign
  | Request "u8 list"

function parse :: "u8 list \<Rightarrow> rx_event list \<times> u8 list" where
  "parse bs =
    (if length bs < 8 then ([], bs)
     else if \<not> frame_crc bs
     then (case parse (tl bs) of (es, rest) \<Rightarrow> (Noise (bs ! 0 = 1) # es, rest))
     else if bs ! 0 \<noteq> 1 then (case parse (drop 8 bs) of (es, rest) \<Rightarrow> (Foreign # es, rest))
     else (case parse (drop 8 bs) of (es, rest) \<Rightarrow> (Request (take 8 bs) # es, rest)))"
  by pat_completeness auto
termination by (relation "measure length") auto

declare parse.simps [simp del]

record rx_view =
  rv_pending :: "u8 list"
  rv_queue :: "u8 list list"
  rv_stop :: "u8 list option"
  rv_stats :: ModbusRtuServerSnapshot

definition rx_view_of :: "ModbusRtuServer \<Rightarrow> rx_view" where
  "rx_view_of s =
    \<lparr>rv_pending = take (srv_rx_length s) (srv_rx_buffer s),
     rv_queue = take (srv_request_count s) (srv_request_queue s),
     rv_stop = (if srv_stop_latched s then Some (srv_stop_request s) else None),
     rv_stats = srv_snapshot s\<rparr>"

fun deliver :: "rx_event \<Rightarrow> rx_view \<Rightarrow> rx_view" where
  "deliver (Noise addressed) v =
    v\<lparr>rv_stats := (rv_stats v)
       \<lparr>ms_invalid_crc_count := ms_invalid_crc_count (rv_stats v) + (if addressed then 1 else 0),
        ms_dropped_resync_byte_count := ms_dropped_resync_byte_count (rv_stats v) + 1\<rparr>\<rparr>"
| "deliver Foreign v =
    v\<lparr>rv_stats := (rv_stats v)
       \<lparr>ms_wrong_station_count := ms_wrong_station_count (rv_stats v) + 1,
        ms_dropped_resync_byte_count := ms_dropped_resync_byte_count (rv_stats v) + 8\<rparr>\<rparr>"
| "deliver (Request r) v =
    (let st = (rv_stats v)\<lparr>ms_valid_request_count := ms_valid_request_count (rv_stats v) + 1\<rparr>
     in if ModbusRtuServer_RequestIsStop r
        then (case rv_stop v of
                None \<Rightarrow> v\<lparr>rv_stop := Some r, rv_stats := st\<rparr>
              | Some _ \<Rightarrow> v\<lparr>rv_stats := st\<lparr>ms_duplicate_stop_count := ms_duplicate_stop_count st + 1\<rparr>\<rparr>)
        else if length (rv_queue v) < 4 then v\<lparr>rv_queue := rv_queue v @ [r], rv_stats := st\<rparr>
        else v\<lparr>rv_stats :=
               st\<lparr>ms_normal_queue_full_drop_count := ms_normal_queue_full_drop_count st + 1\<rparr>\<rparr>)"

definition receive :: "u8 list \<Rightarrow> rx_view \<Rightarrow> rx_view" where
  "receive bs v =
    (case parse (rv_pending v @ bs) of
       (es, rest) \<Rightarrow> (fold deliver es v)\<lparr>rv_pending := rest\<rparr>)"

section \<open>The shape of the server's buffers\<close>

definition buffers_ok :: "ModbusRtuServer \<Rightarrow> bool" where
  "buffers_ok s \<longleftrightarrow> length (srv_rx_buffer s) = 32 \<and> srv_rx_length s \<le> 32
    \<and> length (srv_request_queue s) = 4 \<and> (\<forall>q\<in>set (srv_request_queue s). length q = 8)
    \<and> srv_request_count s \<le> 4 \<and> length (srv_stop_request s) = 8
    \<and> length (srv_active_request s) = 8
    \<and> length (srv_response s) = 32 \<and> length (srv_priority_response s) = 32"

lemma length_memcpy [simp]:
  "n \<le> length src \<Longrightarrow> n \<le> length dst \<Longrightarrow> length (memcpy dst src n) = length dst"
  by (simp add: memcpy_def)

lemma memcpy_whole: "length dst = n \<Longrightarrow> memcpy dst src n = take n src"
  by (simp add: memcpy_def)

lemma DropFront_buffer:
  assumes "length (srv_rx_buffer s) = 32" "srv_rx_length s \<le> 32"
  shows "length (srv_rx_buffer (ModbusRtuServer_DropFront s n)) = 32"
    and "take (srv_rx_length s - n) (srv_rx_buffer (ModbusRtuServer_DropFront s n))
      = drop n (take (srv_rx_length s) (srv_rx_buffer s))"
  using assms
  by (auto simp: ModbusRtuServer_DropFront_def memmove_front_def Let_def min_def drop_take)

lemma DropFront_simps [simp]:
  "srv_machine (ModbusRtuServer_DropFront s n) = srv_machine s"
  "srv_request_queue (ModbusRtuServer_DropFront s n) = srv_request_queue s"
  "srv_request_count (ModbusRtuServer_DropFront s n) = srv_request_count s"
  "srv_stop_request (ModbusRtuServer_DropFront s n) = srv_stop_request s"
  "srv_stop_latched (ModbusRtuServer_DropFront s n) = srv_stop_latched s"
  "srv_active_request (ModbusRtuServer_DropFront s n) = srv_active_request s"
  "srv_response (ModbusRtuServer_DropFront s n) = srv_response s"
  "srv_response_length (ModbusRtuServer_DropFront s n) = srv_response_length s"
  "srv_response_pending (ModbusRtuServer_DropFront s n) = srv_response_pending s"
  "srv_priority_response (ModbusRtuServer_DropFront s n) = srv_priority_response s"
  "srv_priority_response_length (ModbusRtuServer_DropFront s n) = srv_priority_response_length s"
  "srv_priority_response_pending (ModbusRtuServer_DropFront s n) = srv_priority_response_pending s"
  "srv_snapshot (ModbusRtuServer_DropFront s n) = srv_snapshot s"
  by (simp_all add: ModbusRtuServer_DropFront_def Let_def)

lemma server_Initialize_ok:
  "buffers_ok (ModbusRtuServer_Initialize m)" "srv_rx_length (ModbusRtuServer_Initialize m) < 8"
  "srv_rx_length (ModbusRtuServer_Initialize m) = 0"
  "srv_request_count (ModbusRtuServer_Initialize m) = 0"
  "\<not> srv_stop_latched (ModbusRtuServer_Initialize m)"
  "srv_snapshot (ModbusRtuServer_Initialize m) = zero_server_snapshot"
  by (simp_all add: ModbusRtuServer_Initialize_def buffers_ok_def)

lemma DropFront_view:
  "length (srv_rx_buffer s) = 32 \<Longrightarrow> srv_rx_length s \<le> 32 \<Longrightarrow>
    rx_view_of (ModbusRtuServer_DropFront s n)
      = (rx_view_of s)\<lparr>rv_pending := drop n (take (srv_rx_length s) (srv_rx_buffer s))\<rparr>"
  by (simp add: rx_view_of_def DropFront_buffer)

lemma FirstFrame_iff:
  assumes "length (srv_rx_buffer s) = 32" "8 \<le> srv_rx_length s"
  shows "ModbusRtuServer_FirstFrameCrcIsValid s
    \<longleftrightarrow> frame_crc (take (srv_rx_length s) (srv_rx_buffer s))"
  using assms
  by (simp add: ModbusRtuServer_FirstFrameCrcIsValid_def frame_crc_def Modbus_Crc16_def
      crc_while_foldl be16_def or.commute min_def)

lemma RequestIsStop_take:
  "8 \<le> n \<Longrightarrow> ModbusRtuServer_RequestIsStop (take n bs) = ModbusRtuServer_RequestIsStop bs"
  by (simp add: ModbusRtuServer_RequestIsStop_def ModbusRtuServer_ReadU16_def)

definition first_event :: "u8 list \<Rightarrow> rx_event" where
  "first_event bs = (if \<not> frame_crc bs then Noise (bs ! 0 = 1)
     else if bs ! 0 \<noteq> 1 then Foreign else Request (take 8 bs))"

definition event_length :: "rx_event \<Rightarrow> nat" where
  "event_length e = (case e of Noise _ \<Rightarrow> 1 | _ \<Rightarrow> 8)"

lemma parse_step:
  "8 \<le> length bs \<Longrightarrow> parse bs =
    (case parse (drop (event_length (first_event bs)) bs) of (es, rest) \<Rightarrow> (first_event bs # es, rest))"
  by (subst parse.simps) (simp add: first_event_def event_length_def drop_Suc)

lemma parse_short: "length bs < 8 \<Longrightarrow> parse bs = ([], bs)"
  by (subst parse.simps) simp

lemma extract_step_refines:
  assumes "buffers_ok s" "8 \<le> srv_rx_length s"
  defines "bs \<equiv> take (srv_rx_length s) (srv_rx_buffer s)"
  shows "buffers_ok (extract_step s)"
    and "rx_view_of (extract_step s)
      = (deliver (first_event bs) (rx_view_of s))\<lparr>rv_pending := drop (event_length (first_event bs)) bs\<rparr>"
proof -
  have b: "length (srv_rx_buffer s) = 32" "srv_rx_length s \<le> 32" "length (srv_request_queue s) = 4"
    "srv_request_count s \<le> 4" "length (srv_stop_request s) = 8"
    "\<And>i. i < 4 \<Longrightarrow> length (srv_request_queue s ! i) = 8"
    using assms(1) by (auto simp: buffers_ok_def)
  note ff = FirstFrame_iff [OF b(1) assms(2), folded bs_def]
  have hd: "bs ! 0 = srv_rx_buffer s ! 0" using assms(2) by (simp add: bs_def)
  have t8: "take 8 bs = take 8 (srv_rx_buffer s)" using assms(2) by (simp add: bs_def min_def)
  have stop: "ModbusRtuServer_RequestIsStop (take 8 (srv_rx_buffer s))
      = ModbusRtuServer_RequestIsStop (srv_rx_buffer s)" by (simp add: RequestIsStop_take)
  show "buffers_ok (extract_step s)"
    using assms(1,2)
    by (auto simp: extract_defs Let_def buffers_ok_def DropFront_buffer(1) dest!: set_update_subset_insert [THEN subsetD])
  let ?drop = "\<lambda>n. drop n (take (srv_rx_length s) (srv_rx_buffer s))"
  show "rx_view_of (extract_step s)
      = (deliver (first_event bs) (rx_view_of s))\<lparr>rv_pending := drop (event_length (first_event bs)) bs\<rparr>"
  proof (cases "frame_crc bs")
    case False
    then have "extract_step s = extract_bad_crc s" "first_event bs = Noise (srv_rx_buffer s ! 0 = 1)"
      by (simp_all add: extract_step_def ff first_event_def hd)
    then show ?thesis
      using b by (simp add: extract_bad_crc_def DropFront_view Let_def event_length_def bs_def)
        (simp add: rx_view_of_def count_up_def)
  next
    case crc: True
    show ?thesis
    proof (cases "srv_rx_buffer s ! 0 = 1")
      case False
      with crc have "extract_step s = extract_wrong_station s" "first_event bs = Foreign"
        by (simp_all add: extract_step_def ff first_event_def hd)
      then show ?thesis
        using b by (simp add: extract_wrong_station_def DropFront_view Let_def event_length_def bs_def)
          (simp add: rx_view_of_def count_up_def)
    next
      case True
      with crc have "extract_step s = extract_valid s"
        "first_event bs = Request (take 8 (srv_rx_buffer s))"
        by (simp_all add: extract_step_def ff first_event_def hd t8)
      then show ?thesis
        using b by (simp add: extract_valid_def DropFront_view Let_def event_length_def bs_def stop)
          (simp add: rx_view_of_def count_up_def memcpy_whole take_Suc_update)
    qed
  qed
qed

section \<open>Refinement\<close>

lemma deliver_pending [simp]: "rv_pending (deliver e v) = rv_pending v"
  by (cases e) (simp_all add: Let_def split: option.splits)

lemma deliver_frame: "deliver e (v\<lparr>rv_pending := x\<rparr>) = (deliver e v)\<lparr>rv_pending := x\<rparr>"
  by (cases e) (simp_all add: Let_def split: option.splits)

lemma deliver_all_frame: "fold deliver es (v\<lparr>rv_pending := x\<rparr>) = (fold deliver es v)\<lparr>rv_pending := x\<rparr>"
  by (induction es arbitrary: v) (simp_all add: deliver_frame)

lemma rx_view_pending: "rv_pending (rx_view_of s) = take (srv_rx_length s) (srv_rx_buffer s)"
  by (simp add: rx_view_of_def)

lemma receive_Nil_short: "length (rv_pending v) < 8 \<Longrightarrow> receive [] v = v"
  by (simp add: receive_def parse_short)

lemma TryExtract_refines:
  assumes "buffers_ok s"
  shows "buffers_ok (ModbusRtuServer_TryExtractRequest s)
    \<and> srv_rx_length (ModbusRtuServer_TryExtractRequest s) < 8
    \<and> rx_view_of (ModbusRtuServer_TryExtractRequest s) = receive [] (rx_view_of s)"
  using assms
proof (induction s rule: ModbusRtuServer_TryExtractRequest.induct)
  case (1 s)
  show ?case
  proof (cases "8 \<le> srv_rx_length s")
    case False
    then show ?thesis
      using 1(2)
      by (simp add: ModbusRtuServer_TryExtractRequest.simps [of s] receive_Nil_short rx_view_pending)
  next
    case True
    define bs where "bs = take (srv_rx_length s) (srv_rx_buffer s)"
    define e where "e = first_event bs"
    have len: "8 \<le> length bs" using 1(2) True by (simp add: bs_def buffers_ok_def)
    note step = extract_step_refines [OF 1(2) True, folded bs_def, folded e_def]
    have "receive [] (rx_view_of (extract_step s)) = receive [] (rx_view_of s)"
      using parse_step [OF len, folded e_def]
      by (simp add: step(2) receive_def deliver_all_frame rx_view_pending bs_def [symmetric]
          split: prod.splits)
    then show ?thesis
      using 1(1) [OF True step(1)] True by (simp add: ModbusRtuServer_TryExtractRequest.simps [of s])
  qed
qed

text \<open>Parsing is incremental: a prefix can be parsed first.\<close>

lemma first_event_append: "8 \<le> length bs \<Longrightarrow> first_event (bs @ cs) = first_event bs"
  by (cases "bs = []") (simp_all add: first_event_def frame_crc_def nth_append)

lemma event_length_le: "event_length e \<le> 8"
  by (cases e) (simp_all add: event_length_def)

lemma parse_append:
  "parse (bs @ cs) = (case parse bs of (es, rest) \<Rightarrow>
      (case parse (rest @ cs) of (es', rest') \<Rightarrow> (es @ es', rest')))"
proof (induction bs rule: parse.induct)
  case (1 bs)
  show ?case
  proof (cases "8 \<le> length bs")
    case False
    then show ?thesis by (simp add: parse_short)
  next
    case True
    define e where "e = first_event bs"
    have IH: "parse (drop (event_length e) bs @ cs)
        = (case parse (drop (event_length e) bs) of (es, rest) \<Rightarrow>
            (case parse (rest @ cs) of (es', rest') \<Rightarrow> (es @ es', rest')))"
      using 1 True
      by (auto simp: e_def first_event_def event_length_def drop_Suc)
    have "parse (bs @ cs) = (case parse (drop (event_length e) bs @ cs) of (es, rest) \<Rightarrow> (e # es, rest))"
      using parse_step [of "bs @ cs"] True event_length_le [of e]
      by (simp add: first_event_append e_def)
    then show ?thesis
      using parse_step [OF True, folded e_def] by (simp add: IH split: prod.splits)
  qed
qed

lemma parse_rest_short: "length (snd (parse bs)) < 8"
proof (induction bs rule: parse.induct)
  case (1 bs)
  then show ?case
    using parse_step [of bs]
    by (cases "8 \<le> length bs")
      (auto simp: parse_short first_event_def event_length_def drop_Suc split: prod.splits if_splits)
qed

lemma receive_append: "receive (bs @ cs) v = receive cs (receive bs v)"
  using parse_append [of "rv_pending v @ bs" cs]
  by (simp add: receive_def deliver_all_frame split: prod.splits)

lemma receive_pending_short: "length (rv_pending (receive bs v)) < 8"
  using parse_rest_short [of "rv_pending v @ bs"] by (simp add: receive_def case_prod_beta)

lemma server_byte_refines:
  assumes "buffers_ok s" "srv_rx_length s < 8"
  shows "buffers_ok (server_process_byte b s) \<and> srv_rx_length (server_process_byte b s) < 8
    \<and> rx_view_of (server_process_byte b s) = receive [b] (rx_view_of s)"
proof -
  define s' where "s' = s\<lparr>srv_rx_buffer := (srv_rx_buffer s)[srv_rx_length s := b],
     srv_rx_length := srv_rx_length s + 1\<rparr>"
  have s': "server_process_byte b s = ModbusRtuServer_TryExtractRequest s'"
    using assms(2) by (simp add: server_process_byte_def s'_def)
  have ok: "buffers_ok s'" using assms by (simp add: buffers_ok_def s'_def)
  have "rx_view_of s' = (rx_view_of s)\<lparr>rv_pending := rv_pending (rx_view_of s) @ [b]\<rparr>"
    using assms by (simp add: rx_view_of_def s'_def buffers_ok_def take_Suc_update)
  then have "receive [] (rx_view_of s') = receive [b] (rx_view_of s)"
    by (simp add: receive_def deliver_all_frame split: prod.splits)
  then show ?thesis using TryExtract_refines [OF ok] by (simp add: s')
qed

lemma server_bytes_refine:
  assumes "buffers_ok s" "srv_rx_length s < 8"
  shows "buffers_ok (fold server_process_byte bs s) \<and> srv_rx_length (fold server_process_byte bs s) < 8
    \<and> rx_view_of (fold server_process_byte bs s) = receive bs (rx_view_of s)"
  using assms
proof (induction bs arbitrary: s)
  case Nil
  then show ?case by (simp add: receive_Nil_short rx_view_pending)
next
  case (Cons b bs)
  then show ?case
    using server_byte_refines [OF Cons.prems, of b] receive_append [of "[b]" bs "rx_view_of s"]
    by simp
qed

section \<open>What reception leaves alone\<close>

definition same_reply :: "ModbusRtuServer \<Rightarrow> ModbusRtuServer \<Rightarrow> bool" where
  "same_reply s s' \<longleftrightarrow> srv_machine s' = srv_machine s
    \<and> srv_active_request s' = srv_active_request s \<and> srv_response s' = srv_response s
    \<and> srv_response_length s' = srv_response_length s
    \<and> srv_response_pending s' = srv_response_pending s
    \<and> srv_priority_response s' = srv_priority_response s
    \<and> srv_priority_response_length s' = srv_priority_response_length s
    \<and> srv_priority_response_pending s' = srv_priority_response_pending s"

lemma same_reply_extract_step: "same_reply s (extract_step s)"
  by (simp add: extract_defs Let_def same_reply_def)

lemma same_reply_trans: "same_reply s s' \<Longrightarrow> same_reply s' s'' \<Longrightarrow> same_reply s s''"
  by (simp add: same_reply_def)

lemma same_reply_refl [simp]: "same_reply s s"
  by (simp add: same_reply_def)

lemma same_reply_TryExtract: "same_reply s (ModbusRtuServer_TryExtractRequest s)"
proof (induction s rule: ModbusRtuServer_TryExtractRequest.induct)
  case (1 s)
  then show ?case
    using same_reply_extract_step [of s]
    by (subst ModbusRtuServer_TryExtractRequest.simps) (auto intro: same_reply_trans)
qed

lemma same_reply_byte: "same_reply s (server_process_byte b s)"
  unfolding server_process_byte_def Let_def
  by (rule same_reply_trans [OF _ same_reply_TryExtract]) (simp add: same_reply_def)

lemma same_reply_bytes: "same_reply s (fold server_process_byte bs s)"
  by (induction bs arbitrary: s) (auto intro: same_reply_trans same_reply_byte)

lemma TryExtract_idle:
  "srv_rx_length s < 8 \<Longrightarrow> ModbusRtuServer_TryExtractRequest s = s"
  by (subst ModbusRtuServer_TryExtractRequest.simps) simp

section \<open>Properties\<close>

text \<open>C28: The receive side refines the stream parser: for any bytes in any chunks, the bytes
  still pending, the queue of normal requests in order, the latched STOP and all
  counters are those of the parser run on the pending bytes and the new ones; the
  buffers keep their sizes, fewer than eight bytes stay pending (so the 32-byte buffer
  never overflows), and responses are not touched.\<close>

theorem server_refines_parser:
  assumes "buffers_ok s" "srv_rx_length s < 8"
  shows "(case ModbusRtuServer_ProcessBytes (ModbusRtuServer_ProcessBytes s (Some bs) (length bs))
            (Some cs) (length cs) of s' \<Rightarrow>
      rx_view_of s' = receive (bs @ cs) (rx_view_of s)
      \<and> buffers_ok s' \<and> srv_rx_length s' < 8 \<and> same_reply s s')"
  using server_bytes_refine [OF assms, of "bs @ cs"] same_reply_bytes [of s "bs @ cs"]
  by (simp add: ModbusRtuServer_ProcessBytes_def)

theorem server_refines_parser_witness:
  "rx_view_of (ModbusRtuServer_ProcessBytes
      (ModbusRtuServer_ProcessBytes (ModbusRtuServer_Initialize True) (Some [1, 5, 0]) 3)
      (Some [1, 0, 0]) 3)
    = receive [1, 5, 0, 1, 0, 0] (rx_view_of (ModbusRtuServer_Initialize True))"
proof -
  from server_refines_parser [OF server_Initialize_ok(1,2) [of True], of "[1, 5, 0]" "[1, 0, 0]"] show ?thesis
    by (simp add: eval_nat_numeral)
qed

text \<open>The counters an event moves, by which every byte and every request is accounted for.\<close>

definition bytes_counted :: "ModbusRtuServerSnapshot \<Rightarrow> u32" where
  "bytes_counted m = 8 * ms_valid_request_count m + ms_dropped_resync_byte_count m"

definition requests_counted :: "rx_view \<Rightarrow> u32" where
  "requests_counted v = of_nat (length (rv_queue v)) + (if rv_stop v = None then 0 else 1)
    + ms_duplicate_stop_count (rv_stats v) + ms_normal_queue_full_drop_count (rv_stats v)"

lemma deliver_bytes:
  "bytes_counted (rv_stats (deliver e v)) = bytes_counted (rv_stats v) + of_nat (event_length e)"
  by (cases e) (simp_all add: bytes_counted_def event_length_def Let_def split: option.splits)

lemma deliver_requests:
  "requests_counted (deliver e v) - ms_valid_request_count (rv_stats (deliver e v))
    = requests_counted v - ms_valid_request_count (rv_stats v)"
  by (cases e) (simp_all add: requests_counted_def Let_def split: option.splits)

lemma deliver_all_bytes:
  "bytes_counted (rv_stats (fold deliver es v))
    = bytes_counted (rv_stats v) + of_nat (sum_list (map event_length es))"
  by (induction es arbitrary: v) (simp_all add: deliver_bytes)

lemma deliver_all_requests:
  "requests_counted (fold deliver es v) - ms_valid_request_count (rv_stats (fold deliver es v))
    = requests_counted v - ms_valid_request_count (rv_stats v)"
  by (induction es arbitrary: v) (simp_all add: deliver_requests)

lemma parse_lengths:
  "sum_list (map event_length (fst (parse bs))) + length (snd (parse bs)) = length bs"
proof (induction bs rule: parse.induct)
  case (1 bs)
  then show ?case
    using parse_step [of bs]
    by (cases "8 \<le> length bs")
      (auto simp: parse_short first_event_def event_length_def drop_Suc split: prod.splits if_splits)
qed

lemma receive_accounts:
  "bytes_counted (rv_stats (receive bs v)) + of_nat (length (rv_pending (receive bs v)))
      = bytes_counted (rv_stats v) + of_nat (length (rv_pending v) + length bs)"
  "requests_counted (receive bs v) - ms_valid_request_count (rv_stats (receive bs v))
      = requests_counted v - ms_valid_request_count (rv_stats v)"
proof -
  obtain es rest where p: "parse (rv_pending v @ bs) = (es, rest)" by (rule prod.exhaust)
  have "sum_list (map event_length es) + length rest = length (rv_pending v) + length bs"
    using parse_lengths [of "rv_pending v @ bs"] p by simp
  then have "(of_nat (sum_list (map event_length es)) + of_nat (length rest) :: u32)
      = of_nat (length (rv_pending v) + length bs)"
    by (metis of_nat_add)
  then show "bytes_counted (rv_stats (receive bs v)) + of_nat (length (rv_pending (receive bs v)))
      = bytes_counted (rv_stats v) + of_nat (length (rv_pending v) + length bs)"
    by (simp add: receive_def p deliver_all_bytes algebra_simps)
  show "requests_counted (receive bs v) - ms_valid_request_count (rv_stats (receive bs v))
      = requests_counted v - ms_valid_request_count (rv_stats v)"
    using deliver_all_requests [of es v] by (simp add: receive_def p requests_counted_def)
qed

text \<open>C29: Nothing received vanishes: modulo the width of the counters, every byte is part of
  a valid request, counted as dropped or still pending, and every valid request is in
  the queue, latched as STOP, counted as a duplicate STOP or counted as dropped on a full
  queue.\<close>

theorem reception_accounts_for_everything:
  assumes "buffers_ok s" "srv_rx_length s < 8"
    "s' = ModbusRtuServer_ProcessBytes s (Some bs) (length bs)"
  shows "8 * (ms_valid_request_count (srv_snapshot s') - ms_valid_request_count (srv_snapshot s))
      + (ms_dropped_resync_byte_count (srv_snapshot s') - ms_dropped_resync_byte_count (srv_snapshot s))
      + of_nat (srv_rx_length s') = of_nat (srv_rx_length s + length bs)
    \<and> requests_counted (rx_view_of s') - requests_counted (rx_view_of s)
      = ms_valid_request_count (srv_snapshot s') - ms_valid_request_count (srv_snapshot s)"
proof -
  have r: "buffers_ok s'" "rx_view_of s' = receive bs (rx_view_of s)"
    using server_bytes_refine [OF assms(1,2), of bs]
    by (simp_all add: assms(3) ModbusRtuServer_ProcessBytes_def)
  have len: "length (rv_pending (rx_view_of x)) = srv_rx_length x" if "buffers_ok x" for x
    using that by (simp add: rx_view_of_def buffers_ok_def)
  have st: "rv_stats (rx_view_of x) = srv_snapshot x" for x by (simp add: rx_view_of_def)
  note acc = receive_accounts [where bs = bs and v = "rx_view_of s", folded r(2),
      unfolded len [OF r(1)] len [OF assms(1)] st]
  show ?thesis
    using acc(1) acc(2) by (simp add: bytes_counted_def algebra_simps)
qed

theorem reception_accounts_for_everything_witness:
  "\<exists>s'. s' = ModbusRtuServer_ProcessBytes (ModbusRtuServer_Initialize True) (Some [1, 5, 0]) 3
    \<and> 8 * ms_valid_request_count (srv_snapshot s') + ms_dropped_resync_byte_count (srv_snapshot s')
      + of_nat (srv_rx_length s') = 3"
proof -
  from reception_accounts_for_everything [OF server_Initialize_ok(1,2) [of True] refl, of "[1, 5, 0]"]
  show ?thesis
    by (simp add: server_Initialize_ok zero_server_snapshot_def eval_nat_numeral)
qed

lemma parse_noise:
  assumes "\<forall>i<length noise. \<not> frame_crc (drop i (noise @ frame))" "8 \<le> length frame"
  shows "\<exists>es. fst (parse (noise @ frame)) = map Noise es @ fst (parse frame)
    \<and> snd (parse (noise @ frame)) = snd (parse frame)"
  using assms
proof (induction noise)
  case Nil
  then show ?case by (intro exI [of _ "[]"]) simp
next
  case (Cons b noise)
  have "\<not> frame_crc (b # noise @ frame)" using Cons.prems(1) by force
  moreover have "\<forall>i<length noise. \<not> frame_crc (drop i (noise @ frame))"
    using Cons.prems(1) by force
  then obtain es where "fst (parse (noise @ frame)) = map Noise es @ fst (parse frame)"
    "snd (parse (noise @ frame)) = snd (parse frame)"
    using Cons.IH Cons.prems(2) by blast
  ultimately show ?case
    using parse_step [of "b # noise @ frame"] Cons.prems(2)
    by (intro exI [of _ "(b = 1) # es"])
      (simp add: first_event_def event_length_def split: prod.splits)
qed

lemma deliver_noise: "rv_queue (fold deliver (map Noise es) v) = rv_queue v
    \<and> rv_stop (fold deliver (map Noise es) v) = rv_stop v"
  by (induction es arbitrary: v) simp_all

lemma parse_frame:
  "length r = 8 \<Longrightarrow> frame_crc r \<Longrightarrow> r ! 0 = 1 \<Longrightarrow> parse r = ([Request r], [])"
  using parse_step [of r] by (simp add: first_event_def event_length_def parse_short)

text \<open>C30: Resynchronisation never costs a STOP: whatever is pending and whatever noise comes
  first, as long as no window of eight bytes before the frame happens to carry a matching
  CRC, a STOP frame for this station is latched with its last byte, and the
  queue of normal requests is unchanged.\<close>

theorem stop_frame_is_latched:
  assumes "buffers_ok s" "srv_rx_length s < 8"
    and "length stop = 8" "frame_crc stop" "stop ! 0 = 1" "ModbusRtuServer_RequestIsStop stop"
    and "\<forall>i < srv_rx_length s + length noise.
      \<not> frame_crc (drop i (take (srv_rx_length s) (srv_rx_buffer s) @ noise @ stop))"
  shows "(case ModbusRtuServer_ProcessBytes s (Some (noise @ stop)) (length (noise @ stop)) of s' \<Rightarrow>
      srv_stop_latched s' \<and> (\<not> srv_stop_latched s \<longrightarrow> srv_stop_request s' = stop)
      \<and> srv_rx_length s' = 0
      \<and> take (srv_request_count s') (srv_request_queue s')
        = take (srv_request_count s) (srv_request_queue s))"
proof -
  define s' where "s' = ModbusRtuServer_ProcessBytes s (Some (noise @ stop)) (length (noise @ stop))"
  have ok: "buffers_ok s'" and view: "rx_view_of s' = receive (noise @ stop) (rx_view_of s)"
    using server_bytes_refine [OF assms(1,2), of "noise @ stop"]
    by (simp_all add: s'_def ModbusRtuServer_ProcessBytes_def)
  define pre where "pre = rv_pending (rx_view_of s) @ noise"
  have pre: "\<forall>i<length pre. \<not> frame_crc (drop i (pre @ stop))"
    using assms(1,7) by (simp add: pre_def rx_view_pending buffers_ok_def)
  obtain es where es: "parse (pre @ stop) = (map Noise es @ [Request stop], [])"
    using parse_noise [OF pre] parse_frame [OF assms(3-5)] assms(3) by (metis fst_conv prod.collapse snd_conv order_refl)
  have "receive (noise @ stop) (rx_view_of s)
      = (deliver (Request stop) (fold deliver (map Noise es) (rx_view_of s)))\<lparr>rv_pending := []\<rparr>"
    using es by (simp add: receive_def pre_def)
  with view assms(6) deliver_noise [of es "rx_view_of s"]
  have "rv_stop (rx_view_of s') = (case rv_stop (rx_view_of s) of None \<Rightarrow> Some stop | Some r \<Rightarrow> Some r)"
    "rv_queue (rx_view_of s') = rv_queue (rx_view_of s)" "rv_pending (rx_view_of s') = []"
    by (simp_all add: Let_def split: option.splits)
  then show ?thesis
    unfolding s'_def [symmetric]
    using ok by (auto simp: rx_view_of_def buffers_ok_def split: if_splits)
qed

definition stop_frame :: "u8 list" where
  "stop_frame = [0x01, 0x05, 0x00, 0x01, 0x00, 0x00, 0x9C, 0x0A]"

lemma stop_frame_valid: "frame_crc stop_frame" "\<not> frame_crc (0 # stop_frame)"
  by code_simp+

theorem stop_frame_is_latched_witness:
  "(case ModbusRtuServer_ProcessBytes (ModbusRtuServer_Initialize True) (Some ([0] @ stop_frame))
        (length ([0] @ stop_frame)) of s' \<Rightarrow>
      srv_stop_latched s' \<and> srv_stop_request s' = stop_frame \<and> srv_rx_length s' = 0)"
proof -
  have "ModbusRtuServer_RequestIsStop stop_frame"
    by (simp add: ModbusRtuServer_RequestIsStop_def ModbusRtuServer_ReadU16_def stop_frame_def)
  with stop_frame_is_latched [OF server_Initialize_ok(1,2) [of True], of stop_frame "[0]"] stop_frame_valid
  show ?thesis by (simp add: server_Initialize_ok stop_frame_def)
qed

text \<open>C38: The extraction loop ends: on any buffer of \<open>n\<close> bytes it makes at most \<open>n - 7\<close> turns,
  stops at the first turn that leaves less than a frame, and its result is that of
  those turns; on a server between two bytes, which holds at most 7, a received byte
  costs at most one turn.\<close>

theorem extraction_terminates:
  "\<exists>n \<le> srv_rx_length s - 7. ModbusRtuServer_TryExtractRequest s = (extract_step ^^ n) s
    \<and> srv_rx_length ((extract_step ^^ n) s) < 8
    \<and> (\<forall>m<n. 8 \<le> srv_rx_length ((extract_step ^^ m) s))
    \<and> (srv_rx_length s \<le> 8 \<longrightarrow> n \<le> 1)"
proof (induction s rule: ModbusRtuServer_TryExtractRequest.induct)
  case (1 s)
  show ?case
  proof (cases "8 \<le> srv_rx_length s")
    case False
    then show ?thesis by (intro exI [of _ 0]) (simp add: ModbusRtuServer_TryExtractRequest.simps [of s])
  next
    case True
    then obtain n where n: "n \<le> srv_rx_length (extract_step s) - 7"
      "ModbusRtuServer_TryExtractRequest (extract_step s) = (extract_step ^^ n) (extract_step s)"
      "srv_rx_length ((extract_step ^^ n) (extract_step s)) < 8"
      "\<forall>m<n. 8 \<le> srv_rx_length ((extract_step ^^ m) (extract_step s))"
      using 1 by auto
    have less: "srv_rx_length (extract_step s) < srv_rx_length s" by (rule extract_step_length [OF True])
    have turns: "\<forall>m<Suc n. 8 \<le> srv_rx_length ((extract_step ^^ m) s)"
    proof (intro allI impI)
      fix m assume "m < Suc n"
      then show "8 \<le> srv_rx_length ((extract_step ^^ m) s)"
        using n(4) True by (cases m) (simp_all add: funpow_Suc_right del: funpow.simps)
    qed
    show ?thesis
      using n(1-3) less turns True
      by (intro exI [of _ "Suc n"])
        (auto simp: ModbusRtuServer_TryExtractRequest.simps [of s] funpow_Suc_right simp del: funpow.simps)
  qed
qed

theorem extraction_terminates_witness:
  "\<exists>n \<le> 1. ModbusRtuServer_TryExtractRequest ((ModbusRtuServer_Initialize True)\<lparr>srv_rx_length := 8\<rparr>)
    = (extract_step ^^ n) ((ModbusRtuServer_Initialize True)\<lparr>srv_rx_length := 8\<rparr>)"
  using extraction_terminates [of "(ModbusRtuServer_Initialize True)\<lparr>srv_rx_length := 8\<rparr>"] by auto

end
