(* ===== verification/ModbusPriority.thy ===== *)
theory ModbusPriority
  imports ModbusReply
begin

text \<open>
  The Modbus server as a whole: its invariant and that every operation keeps it and
  the state machine's, the reply to the front request, and the priority of STOP.
\<close>

section \<open>Good requests and sendable replies\<close>

definition good_request :: "u8 list \<Rightarrow> bool" where
  "good_request r \<longleftrightarrow> length r = 8 \<and> r ! 0 = 1 \<and> frame_crc r"

definition sendable :: "u8 list \<Rightarrow> bool" where
  "sendable bs \<longleftrightarrow> 5 \<le> length bs \<and> length bs \<le> 27 \<and> bs ! 0 = 1
    \<and> bs = crc_frame (take (length bs - 2) bs)"

lemma crc_frame_sendable:
  assumes "3 \<le> length body" "length body \<le> 25" "body ! 0 = 1"
  shows "sendable (crc_frame body)"
proof -
  have "take (length body) (crc_frame body) = body" by (simp add: crc_frame_def Let_def)
  moreover have "crc_frame body ! 0 = body ! 0"
    using assms(1) by (cases body) (simp_all add: crc_frame_def Let_def)
  ultimately show ?thesis using assms by (simp add: sendable_def)
qed

lemma exception_sendable: "sendable (exception_frame f e)"
  by (simp add: exception_frame_def crc_frame_sendable)

lemma read_frame_sendable: "length vs \<le> 11 \<Longrightarrow> sendable (read_frame f vs)"
  unfolding read_frame_def by (rule crc_frame_sendable) simp_all

lemma good_request_sendable: "good_request r \<Longrightarrow> sendable r"
  using frame_crc_iff [of r] by (simp add: good_request_def sendable_def)

lemma reply_sendable:
  assumes "good_request r"
  shows "sendable (fst (reply p ops r t w))"
proof -
  define f where "f = r ! Suc 0"
  define q where "q = be16 (r ! 4) (r ! 5)"
  define as where "as = map (\<lambda>i. ucast (be16 (r ! 2) (r ! 3)) + of_nat i :: u32) [0..<unat q]"
  have "sendable (case fst (read_registers p ops g as t w) of
      None \<Rightarrow> exception_frame f 2 | Some vs \<Rightarrow> read_frame f vs)" if "\<not> q > 11" for g
  proof (cases "read_registers p ops g as t w")
    case (Pair v w')
    show ?thesis
    proof (cases v)
      case (Some vs)
      then show ?thesis
        using read_registers_length [OF Pair [unfolded Some]] that read_frame_sendable [of vs f]
        unfolding Pair Some by (simp add: as_def word_le_nat_alt not_less)
    qed (simp add: Pair exception_sendable)
  qed
  then have regs: "sendable (read_frame f vs)"
    if "\<not> q > 11" "fst (read_registers p ops g as t w) = Some vs" for g vs
    using that by (metis option.simps(5))
  show ?thesis
    using good_request_sendable [OF assms] regs
    by (auto simp: reply_def Let_def exception_sendable case_prod_beta f_def [symmetric]
        q_def [symmetric] as_def [symmetric] split: option.splits)
qed

section \<open>The invariant of the server\<close>

definition view_ok :: "rx_view \<Rightarrow> bool" where
  "view_ok v \<longleftrightarrow> (\<forall>r\<in>set (rv_queue v). good_request r \<and> \<not> ModbusRtuServer_RequestIsStop r)
    \<and> (\<forall>r. rv_stop v = Some r \<longrightarrow> good_request r \<and> ModbusRtuServer_RequestIsStop r)"

definition replies_ok :: "ModbusRtuServer \<Rightarrow> bool" where
  "replies_ok s \<longleftrightarrow>
    (srv_response_pending s \<longrightarrow>
       srv_response_length s \<le> 32 \<and> sendable (take (srv_response_length s) (srv_response s)))
    \<and> (srv_priority_response_pending s \<longrightarrow>
       srv_response_pending s \<and> srv_priority_response_length s \<le> 32
       \<and> sendable (take (srv_priority_response_length s) (srv_priority_response s)))"

definition server_ok :: "ModbusRtuServer \<Rightarrow> bool" where
  "server_ok s \<longleftrightarrow> buffers_ok s \<and> srv_rx_length s < 8 \<and> view_ok (rx_view_of s) \<and> replies_ok s"

lemma server_ok_Initialize: "server_ok (ModbusRtuServer_Initialize m)"
  by (simp add: server_ok_def server_Initialize_ok view_ok_def rx_view_of_def replies_ok_def)
    (simp add: ModbusRtuServer_Initialize_def)

lemma deliver_view_ok:
  "view_ok v \<Longrightarrow> (\<And>r. e = Request r \<Longrightarrow> good_request r) \<Longrightarrow> view_ok (deliver e v)"
  by (cases e) (auto simp: view_ok_def Let_def split: option.splits)

lemma deliver_all_view_ok:
  "view_ok v \<Longrightarrow> (\<And>r. Request r \<in> set es \<Longrightarrow> good_request r) \<Longrightarrow> view_ok (fold deliver es v)"
proof (induction es arbitrary: v)
  case (Cons e es)
  have "view_ok (deliver e v)" using Cons.prems by (intro deliver_view_ok) auto
  then show ?case using Cons by simp
qed simp

lemma parse_good: "Request r \<in> set (fst (parse bs)) \<Longrightarrow> good_request r"
proof (induction bs rule: parse.induct)
  case (1 bs)
  show ?case
  proof (cases "8 \<le> length bs")
    case False
    then show ?thesis using 1 by (simp add: parse_short)
  next
    case True
    have good: "good_request (take 8 bs)" if "frame_crc bs" "bs ! 0 = 1"
      using that True by (simp add: good_request_def frame_crc_def min_def)
    show ?thesis
      using 1 parse_step [OF True] True good
      by (auto simp: first_event_def event_length_def drop_Suc split: prod.splits if_splits)
  qed
qed

lemma receive_view_ok: "view_ok v \<Longrightarrow> view_ok (receive bs v)"
  using parse_good [of _ "rv_pending v @ bs"] deliver_all_view_ok [of v "fst (parse (rv_pending v @ bs))"]
  by (auto simp: receive_def view_ok_def case_prod_beta)

lemma replies_same: "same_reply s s' \<Longrightarrow> replies_ok s' = replies_ok s"
  by (simp add: same_reply_def replies_ok_def)

lemma server_ok_ProcessBytes:
  assumes "server_ok s"
  shows "server_ok (ModbusRtuServer_ProcessBytes s bytes n)"
proof (cases bytes)
  case None
  then show ?thesis using assms by (simp add: ModbusRtuServer_ProcessBytes_def)
next
  case (Some bs)
  then show ?thesis
    using assms server_bytes_refine [of s "take n bs"]
      replies_same [OF same_reply_bytes [of s "take n bs"]] receive_view_ok
    by (simp add: ModbusRtuServer_ProcessBytes_def server_ok_def)
qed

lemma server_ok_idle: "server_ok s \<Longrightarrow> ModbusRtuServer_TryExtractRequest s = s"
  by (simp add: server_ok_def TryExtract_idle)

lemma server_ok_queries:
  "server_ok s \<Longrightarrow> ModbusRtuServer_HasPendingRequest s = (srv_request_count s \<noteq> 0, s)"
  "server_ok s \<Longrightarrow> ModbusRtuServer_PendingIsStop s = (srv_stop_latched s, s)"
  by (simp_all add: ModbusRtuServer_HasPendingRequest_def ModbusRtuServer_PendingIsStop_def server_ok_idle)

lemma take_memcpy: "n \<le> length src \<Longrightarrow> take n (memcpy dst src n) = take n src"
  by (simp add: memcpy_def)

lemma server_ok_CompleteResponse:
  assumes "server_ok s"
  shows "server_ok (ModbusRtuServer_CompleteResponse s)"
proof -
  define s' where "s' = ModbusRtuServer_PromotePriorityResponse
    (s\<lparr>srv_response_pending := False, srv_response_length := 0\<rparr>)"
  have "server_ok s'"
    using assms
    by (auto simp: server_ok_def s'_def ModbusRtuServer_PromotePriorityResponse_def buffers_ok_def
        rx_view_of_def replies_ok_def take_memcpy)
  then show ?thesis
    using server_ok_idle [of s'] by (simp add: ModbusRtuServer_CompleteResponse_def s'_def)
qed

lemma server_ok_answers:
  assumes "server_ok s" "answers s bs s'" "sendable bs"
  shows "server_ok s'"
proof -
  have len: "srv_response_length s' \<le> 32"
    using assms(2,3) by (simp add: answers_def reply_ready_def sendable_def)
  have "rv_queue (rx_view_of s') = rv_queue (rx_view_of s)" "rv_stop (rx_view_of s') = rv_stop (rx_view_of s)"
    using assms(2) by (simp_all add: answers_def same_rx_def rx_view_of_def)
  then show ?thesis
    using assms len
    by (auto simp: server_ok_def answers_def same_rx_def reply_ready_def buffers_ok_def view_ok_def
        replies_ok_def)
qed

section \<open>Taking the front request\<close>

lemma shift_queue_spec:
  assumes "n \<le> length q" "0 < n" "\<forall>r\<in>set q. length r = 8"
  shows "shift_queue n q = drop 1 (take n q) @ drop (n - 1) q"
  using assms
proof (induction n)
  case 0
  then show ?case by simp
next
  case (Suc n)
  show ?case
  proof (cases "n = 0")
    case True
    then show ?thesis using Suc.prems by (simp add: shift_queue_def take_Suc)
  next
    case False
    define q' where "q' = shift_queue n q"
    have q': "q' = drop 1 (take n q) @ drop (n - 1) q"
      using Suc False by (simp add: q'_def)
    have upt: "[1..<Suc n] = [1..<n] @ [n]" using False by simp
    have step: "shift_queue (Suc n) q = q'[n - 1 := memcpy (q' ! (n - 1)) (q' ! n) 8]"
      using False by (simp add: shift_queue_def upt q'_def Suc_le_eq)
    have nth: "q' ! n = q ! n" "q' ! (n - 1) = q ! (n - 1)"
      using Suc.prems False by (auto simp: q' nth_append)
    have "length (q ! n) = 8" "length (q ! (n - 1)) = 8" using Suc.prems False by auto
    then have "memcpy (q' ! (n - 1)) (q' ! n) 8 = q ! n" unfolding nth by (simp add: memcpy_whole)
    moreover have "drop (n - 1) q = q ! (n - 1) # drop n q" "drop n q = q ! n # drop (Suc n) q"
      using Suc.prems False Cons_nth_drop_Suc [of "n - 1" q] Cons_nth_drop_Suc [of n q] by simp_all
    ultimately have "shift_queue (Suc n) q = drop 1 (take n q) @ q ! n # drop n q"
      using Suc.prems False
      by (simp add: step q' list_update_append)
    moreover have "drop 1 (take (Suc n) q) = drop 1 (take n q) @ [q ! n]"
      using Suc.prems False by (simp add: take_Suc_conv_app_nth)
    ultimately show ?thesis by simp
  qed
qed

lemma tl_subset: "set (tl xs) \<subseteq> set xs"
  by (cases xs) auto

definition take_front :: "ModbusRtuServer \<Rightarrow> ModbusRtuServer" where
  "take_front s = s\<lparr>srv_active_request := srv_request_queue s ! 0,
     srv_request_queue := shift_queue (srv_request_count s) (srv_request_queue s),
     srv_request_count := srv_request_count s - 1\<rparr>"

lemma take_front_spec:
  assumes "server_ok s" "srv_request_count s \<noteq> 0"
  shows "server_ok (take_front s)"
    and "rx_view_of (take_front s) = (rx_view_of s)\<lparr>rv_queue := tl (rv_queue (rx_view_of s))\<rparr>"
    and "good_request (srv_active_request (take_front s))"
proof -
  define q where "q = srv_request_queue s"
  define n where "n = srv_request_count s"
  have b: "length q = 4" "\<forall>r\<in>set q. length r = 8" "n \<le> 4" "0 < n"
    using assms by (simp_all add: server_ok_def buffers_ok_def q_def n_def)
  have sh: "shift_queue n q = drop 1 (take n q) @ drop (n - 1) q"
    using b by (intro shift_queue_spec) simp_all
  have tl: "take (n - 1) (shift_queue n q) = tl (take n q)"
    using b by (simp add: sh drop_Suc min_def)
  have len: "length (shift_queue n q) = 4" using b by (simp add: sh)
  have elems: "set (shift_queue n q) \<subseteq> set q"
    by (auto simp: sh dest: in_set_dropD in_set_takeD)
  show view: "rx_view_of (take_front s) = (rx_view_of s)\<lparr>rv_queue := tl (rv_queue (rx_view_of s))\<rparr>"
    using tl by (simp add: rx_view_of_def take_front_def q_def n_def)
  have front: "q ! 0 \<in> set (take n q)"
    using b nth_mem [of 0 "take n q"] by simp
  then show "good_request (srv_active_request (take_front s))"
    using assms(1) by (auto simp: server_ok_def view_ok_def rx_view_of_def take_front_def q_def n_def)
  have "length (q ! 0) = 8" using b by auto
  then have "buffers_ok (take_front s)"
    using assms(1) b len elems
    by (auto simp: server_ok_def buffers_ok_def take_front_def q_def n_def)
  moreover have "view_ok (rx_view_of (take_front s))"
    using assms(1) tl_subset [of "rv_queue (rx_view_of s)"] by (auto simp: server_ok_def view view_ok_def)
  ultimately show "server_ok (take_front s)"
    using assms(1) by (simp add: server_ok_def replies_ok_def take_front_def)
qed

lemma ProcessPending_refuses:
  assumes "server_ok s" "srv_stop_latched s \<or> srv_response_pending s \<or> srv_request_count s = 0"
  shows "ModbusRtuServer_ProcessPending p ops t s w = (False, s, w)"
  using assms by (auto simp: ModbusRtuServer_ProcessPending_def Let_def server_ok_queries)

lemma ProcessPending_answers:
  assumes "server_ok s" "srv_machine s" "\<not> srv_stop_latched s" "\<not> srv_response_pending s"
    "srv_request_count s \<noteq> 0"
  defines "r \<equiv> srv_request_queue s ! 0"
  shows "\<exists>s'. ModbusRtuServer_ProcessPending p ops t s w = (True, s', snd (reply p ops r t w))
    \<and> answers (take_front s) (fst (reply p ops r t w)) s' \<and> server_ok s'"
proof -
  define s1 where "s1 = take_front s"
  have act: "srv_active_request s1 = r" by (simp add: s1_def take_front_def r_def)
  note front = take_front_spec [OF assms(1,5), folded s1_def, unfolded act]
  have len: "length (srv_response s1) = 32" "length (srv_active_request s1) = 8"
    using front(1) by (simp_all add: server_ok_def buffers_ok_def)
  have "length (srv_active_request s) = 8" "length r = 8"
    using assms(1) front(3) by (simp_all add: server_ok_def buffers_ok_def good_request_def)
  then have copy: "memcpy (srv_active_request s) r 8 = r" by (simp add: memcpy_def)
  define res where "res =
    (if r ! 1 = 3 \<or> r ! 1 = 4 then ModbusRtuServer_ProcessRead p ops t s1 w
     else if r ! 1 = 5 \<or> r ! 1 = 6 then ModbusRtuServer_ProcessWrite p ops t s1 w
     else (ModbusRtuServer_BuildException s1 (r ! 1) 1, w))"
  have "answers s1 (fst (reply p ops r t w)) (fst res) \<and> snd res = snd (reply p ops r t w)"
    using ProcessRead_answers [OF len(1), of p ops t w] ProcessWrite_answers [OF len, of p ops t w]
      BuildException_answers [OF len(1), of "r ! 1" 1]
    by (auto simp: res_def act case_prod_beta reply_def Let_def)
  then obtain s2 where s2: "res = (s2, snd (reply p ops r t w))" "answers s1 (fst (reply p ops r t w)) s2"
    by (metis prod.collapse)
  have ok: "server_ok s2"
    by (rule server_ok_answers [OF front(1) s2(2) reply_sendable [OF front(3)]])
  have s1: "s1 = s\<lparr>srv_active_request := r,
      srv_request_queue := shift_queue (srv_request_count s) (srv_request_queue s),
      srv_request_count := srv_request_count s - 1\<rparr>"
    by (simp add: s1_def take_front_def r_def)
  have "ModbusRtuServer_ProcessPending p ops t s w
      = (case res of (s, w) \<Rightarrow> (True, ModbusRtuServer_TryExtractRequest s, w))"
    using assms(2-5)
    by (simp add: ModbusRtuServer_ProcessPending_def Let_def server_ok_queries [OF assms(1)]
        copy res_def s1 flip: r_def)
  then show ?thesis
    using s2 ok server_ok_idle [OF ok] by (simp add: s1_def)
qed

section \<open>STOP first\<close>

lemma stop_applies:
  assumes "ModbusRtuServer_RequestIsStop r"
  shows "ModbusSemantic_ApplyWrite p ops (r ! 1) (ModbusRtuServer_ReadU16 r 2)
      (ModbusRtuServer_ReadU16 r 4) t w
    = Machine_HandleCommand p ops \<lparr>cmd_type = CMD_STOP, cmd_target_pressure_units = 0\<rparr> t w"
  using assms by (simp add: ModbusRtuServer_RequestIsStop_def ModbusSemantic_ApplyWrite_def Let_def)

definition stop_reply :: "u8 list \<Rightarrow> MachineCommandResult \<Rightarrow> u8 list" where
  "stop_reply r result = (if result = COMMAND_ACCEPTED then r
     else exception_frame 5 (ModbusRtuServer_MapCommandError result))"

lemma stop_reply_sendable: "good_request r \<Longrightarrow> sendable (stop_reply r result)"
  by (simp add: stop_reply_def good_request_sendable exception_sendable)

lemma exception_frame_5: "exception_frame 5 e = crc_frame [1, 5 OR 0x80, e]"
  by (simp add: exception_frame_def)

lemma QueueStopResponse_spec:
  assumes "server_ok s" "good_request r"
  shows "server_ok (ModbusRtuServer_QueueStopResponse s r result)"
    and "rx_view_of (ModbusRtuServer_QueueStopResponse s r result)
      = (rx_view_of s)\<lparr>rv_stats := srv_snapshot (ModbusRtuServer_QueueStopResponse s r result)\<rparr>"
    and "\<not> srv_response_pending s \<Longrightarrow> reply_ready (ModbusRtuServer_QueueStopResponse s r result) (stop_reply r result)"
    and "srv_response_pending s \<Longrightarrow>
      srv_response (ModbusRtuServer_QueueStopResponse s r result) = srv_response s
      \<and> srv_response_length (ModbusRtuServer_QueueStopResponse s r result) = srv_response_length s
      \<and> srv_priority_response_pending (ModbusRtuServer_QueueStopResponse s r result)"
proof -
  have b: "length (srv_priority_response s) = 32" "length (srv_response s) = 32" "length r = 8"
    using assms by (simp_all add: server_ok_def buffers_ok_def good_request_def)
  define n where "n = (if result = COMMAND_ACCEPTED then 8 else 5 :: nat)"
  obtain pr st where s1: "length pr = 32" "take n pr = stop_reply r result"
    "srv_priority_response_pending s \<or> ModbusRtuServer_QueueStopResponse s r result
      = ModbusRtuServer_PromotePriorityResponse (s\<lparr>srv_priority_response := pr,
          srv_priority_response_length := n, srv_snapshot := st, srv_priority_response_pending := True\<rparr>)"
  proof (cases "result = COMMAND_ACCEPTED")
    case True
    then show thesis
      using that [of "memcpy (srv_priority_response s) r 8" "srv_snapshot s"] b
      by (simp add: n_def stop_reply_def ModbusRtuServer_QueueStopResponse_def take_memcpy)
  next
    case False
    then show thesis
      using that [of "ModbusRtuServer_AppendCrc ((srv_priority_response s)[0 := 1, Suc 0 := 5 OR 0x80,
          2 := ModbusRtuServer_MapCommandError result]) 3"
          "(srv_snapshot s)\<lparr>ms_exception_response_count := ms_exception_response_count (srv_snapshot s) + 1\<rparr>"]
        exception_take [of "srv_priority_response s"] b
      by (simp add: n_def stop_reply_def exception_frame_5 ModbusRtuServer_QueueStopResponse_def Let_def count_up_def)
  qed
  have send: "sendable (stop_reply r result)" by (rule stop_reply_sendable [OF assms(2)])
  have n: "n \<le> 8" by (simp add: n_def)
  have len: "length (stop_reply r result) = n" using s1(1,2) n by (metis length_take min.absorb2 order_trans numeral_le_iff semiring_norm(68,71,73) )
  let ?s' = "ModbusRtuServer_QueueStopResponse s r result"
  have full: "?s' = count_up (\<lambda>m. m\<lparr>ms_dropped_stop_response_count := ms_dropped_stop_response_count m + 1\<rparr>) s"
    if "srv_priority_response_pending s"
    using that by (simp add: ModbusRtuServer_QueueStopResponse_def)
  have pend: "srv_priority_response_pending s \<Longrightarrow> srv_response_pending s"
    using assms(1) by (simp add: server_ok_def replies_ok_def)
  show "server_ok ?s'"
    using assms(1) s1 send n b full
    by (cases "srv_priority_response_pending s")
      (auto simp: server_ok_def buffers_ok_def replies_ok_def rx_view_of_def view_ok_def
        ModbusRtuServer_PromotePriorityResponse_def take_memcpy)
  show "rx_view_of ?s' = (rx_view_of s)\<lparr>rv_stats := srv_snapshot ?s'\<rparr>"
    using s1(3) full
    by (cases "srv_priority_response_pending s")
      (auto simp: rx_view_of_def ModbusRtuServer_PromotePriorityResponse_def)
  show "reply_ready ?s' (stop_reply r result)" if "\<not> srv_response_pending s"
    using s1 that pend len b n
    by (auto simp: reply_ready_def ModbusRtuServer_PromotePriorityResponse_def take_memcpy)
  show "srv_response ?s' = srv_response s \<and> srv_response_length ?s' = srv_response_length s
      \<and> srv_priority_response_pending ?s'" if "srv_response_pending s"
    using s1(3) full that
    by (cases "srv_priority_response_pending s")
      (auto simp: ModbusRtuServer_PromotePriorityResponse_def)
qed

lemma TakeStop_refuses:
  "server_ok s \<Longrightarrow> \<not> srv_machine s \<or> \<not> srv_stop_latched s \<Longrightarrow>
    ModbusRtuServer_TakeStop p ops t s w = (False, s, w)"
  by (auto simp: ModbusRtuServer_TakeStop_def Let_def server_ok_idle)

lemma TakeStop_spec:
  fixes w :: "'e world"
  assumes "server_ok s" "srv_machine s" "srv_stop_latched s"
    and r: "r = srv_stop_request s" and stop: "stop = Machine_HandleCommand p ops \<lparr>cmd_type = CMD_STOP, cmd_target_pressure_units = 0\<rparr> t w"
  shows "\<exists>s'. ModbusRtuServer_TakeStop p ops t s w = (True, s', snd stop) \<and> server_ok s'
    \<and> rv_queue (rx_view_of s') = [] \<and> rv_stop (rx_view_of s') = None
    \<and> rv_pending (rx_view_of s') = rv_pending (rx_view_of s)
    \<and> (if srv_response_pending s
       then srv_response s' = srv_response s \<and> srv_response_length s' = srv_response_length s
         \<and> srv_priority_response_pending s'
       else reply_ready s' (stop_reply r (fst stop)))"
proof -
  define s1 where "s1 = s\<lparr>srv_stop_latched := False,
    srv_snapshot := (srv_snapshot s)\<lparr>ms_normal_discarded_by_stop_count :=
      ms_normal_discarded_by_stop_count (srv_snapshot s) + of_nat (srv_request_count s)\<rparr>,
    srv_request_count := 0\<rparr>"
  have r': "good_request r" "ModbusRtuServer_RequestIsStop r"
    using assms(1,3) by (simp_all add: server_ok_def view_ok_def rx_view_of_def r)
  have ok: "server_ok s1"
    using assms(1) by (auto simp: server_ok_def s1_def buffers_ok_def rx_view_of_def view_ok_def replies_ok_def)
  have view: "rx_view_of s1 = (rx_view_of s)\<lparr>rv_queue := [], rv_stop := None, rv_stats := srv_snapshot s1\<rparr>"
    by (simp add: rx_view_of_def s1_def)
  define s' where "s' = ModbusRtuServer_QueueStopResponse s1 r (fst stop)"
  have take: "ModbusRtuServer_TakeStop p ops t s w = (True, s', snd stop)"
    using assms(2,3) stop_applies [OF r'(2), of p ops t w]
    by (simp add: ModbusRtuServer_TakeStop_def Let_def server_ok_idle [OF assms(1)] case_prod_beta
        count_up_def s'_def s1_def stop flip: r)
  note Q = QueueStopResponse_spec [OF ok r'(1), of "fst stop", folded s'_def]
  have "srv_response_pending s1 = srv_response_pending s" "srv_response s1 = srv_response s"
    "srv_response_length s1 = srv_response_length s" by (simp_all add: s1_def)
  then show ?thesis
    using take Q by (simp add: view)
qed

section \<open>The state machine behind the server\<close>

context motor_executor
begin

lemma ApplyWrite_ok:
  "machine_ok inv off p w \<Longrightarrow> machine_ok inv off p (snd (ModbusSemantic_ApplyWrite p ops f a v t w))"
  by (simp add: ModbusSemantic_ApplyWrite_def Let_def HandleCommand_ok)

lemma read_candidate_ok:
  "machine_ok inv off p w \<Longrightarrow> machine_ok inv off p (snd (read_candidate p ops f a t w))"
  by (simp add: read_candidate_def ReadInput_world)

lemma read_registers_ok:
  "machine_ok inv off p w \<Longrightarrow> machine_ok inv off p (snd (read_registers p ops f as t w))"
proof (induction as arbitrary: w)
  case (Cons a as)
  have "machine_ok inv off p (snd (read_candidate p ops f a t w))"
    by (rule read_candidate_ok [OF Cons.prems])
  with Cons.IH show ?case by (simp add: case_prod_beta split: option.split)
qed simp

lemma reply_ok: "machine_ok inv off p w \<Longrightarrow> machine_ok inv off p (snd (reply p ops r t w))"
  using read_registers_ok [of p w] ApplyWrite_ok [of p w]
  by (auto simp: reply_def Let_def case_prod_beta split: option.splits)

lemma ProcessPending_ok:
  assumes "server_ok s" "machine_ok inv off p w"
  shows "(case ModbusRtuServer_ProcessPending p ops t s w of (b, s', w') \<Rightarrow>
    server_ok s' \<and> machine_ok inv off p w')"
proof (cases "srv_machine s \<and> \<not> srv_stop_latched s \<and> \<not> srv_response_pending s \<and> srv_request_count s \<noteq> 0")
  case True
  then show ?thesis
    using ProcessPending_answers [OF assms(1), of p ops t w] reply_ok [OF assms(2)] by auto
next
  case False
  have "ModbusRtuServer_ProcessPending p ops t s w = (False, s, w)" if "\<not> srv_machine s"
    using that by (simp add: ModbusRtuServer_ProcessPending_def)
  then show ?thesis
    using False assms ProcessPending_refuses [OF assms(1), of p ops t w] by auto
qed

lemma TakeStop_ok:
  assumes "server_ok s" "machine_ok inv off p w"
  shows "(case ModbusRtuServer_TakeStop p ops t s w of (b, s', w') \<Rightarrow>
    server_ok s' \<and> machine_ok inv off p w')"
proof (cases "srv_machine s \<and> srv_stop_latched s")
  case True
  then show ?thesis
    using TakeStop_spec [OF assms(1) _ _ refl refl, of p ops t w] HandleCommand_ok [OF assms(2)] by fastforce
next
  case False
  then show ?thesis using TakeStop_refuses [OF assms(1), of p ops t w] assms by auto
qed

end

section \<open>Properties\<close>

text \<open>C27: The reply to the front request is the specified one: when no STOP is latched and no
  response is outstanding, processing takes the oldest request off the queue and the
  response buffer holds exactly the frame of the specification - the registers read in
  order, the echo of an accepted write, or the exception of the branch that failed - with
  the state machine changed as the specification says and nothing else touched.\<close>

theorem front_request_is_answered:
  assumes "server_ok s" "srv_machine s" "\<not> srv_stop_latched s" "\<not> srv_response_pending s"
    "srv_request_count s \<noteq> 0"
  shows "(case ModbusRtuServer_ProcessPending p ops t s w of (processed, s', w') \<Rightarrow>
    processed
    \<and> ModbusRtuServer_GetResponse s' \<noteq> None
    \<and> take (srv_response_length s') (srv_response s') = fst (reply p ops (srv_request_queue s ! 0) t w)
    \<and> w' = snd (reply p ops (srv_request_queue s ! 0) t w)
    \<and> take (srv_request_count s') (srv_request_queue s')
      = tl (take (srv_request_count s) (srv_request_queue s))
    \<and> \<not> srv_stop_latched s')"
proof -
  obtain s' where s': "ModbusRtuServer_ProcessPending p ops t s w
      = (True, s', snd (reply p ops (srv_request_queue s ! 0) t w))"
    "answers (take_front s) (fst (reply p ops (srv_request_queue s ! 0) t w)) s'"
    using ProcessPending_answers [OF assms] by blast
  have "rv_queue (rx_view_of (take_front s)) = tl (rv_queue (rx_view_of s))"
    using take_front_spec(2) [OF assms(1,5)] by simp
  then have "take (srv_request_count s') (srv_request_queue s')
      = tl (take (srv_request_count s) (srv_request_queue s))"
    using s'(2) by (simp add: answers_def same_rx_def rx_view_of_def)
  moreover have "\<not> srv_stop_latched s'"
    using s'(2) assms(3) by (simp add: answers_def same_rx_def take_front_def)
  moreover have "srv_response_pending s'" "take (srv_response_length s') (srv_response s')
      = fst (reply p ops (srv_request_queue s ! 0) t w)"
    using s'(2) unfolding answers_def reply_ready_def by blast+
  ultimately show ?thesis
    using s'(1) by (simp add: ModbusRtuServer_GetResponse_def)
qed

text \<open>C21: STOP overtakes everything: while a STOP is latched no normal request is processed;
  taking it applies STOP to the state machine at once, discards every queued normal
  request, and leaves the motor output off unless the reply reports a failed device; the
  reply is the echo of the STOP frame or the device-failure exception, ready at once when
  no response is outstanding and otherwise held behind the outstanding one.\<close>

theorem stop_overtakes_requests:
  assumes "motor_executor ops iv off" "iv (w_exec w)"
    and "server_ok s" "srv_machine s" "srv_stop_latched s"
  shows "ModbusRtuServer_ProcessPending p ops t s w = (False, s, w)
    \<and> (case ModbusRtuServer_TakeStop p ops t s w of (taken, s', w') \<Rightarrow>
      taken \<and> \<not> srv_stop_latched s' \<and> srv_request_count s' = 0
      \<and> mc_motor_request_sequence (w_ctx w') = 0
      \<and> (if mc_last_command_result (w_ctx w') = COMMAND_ACCEPTED then off (w_exec w')
         else mc_last_command_result (w_ctx w') = COMMAND_EXECUTOR_FAILED
           \<and> mc_state (w_ctx w') = FAULT)
      \<and> (if srv_response_pending s
         then ModbusRtuServer_GetResponse s' = ModbusRtuServer_GetResponse s
           \<and> srv_priority_response_pending s'
         else take (srv_response_length s') (srv_response s')
             = (if mc_last_command_result (w_ctx w') = COMMAND_ACCEPTED then srv_stop_request s
                else exception_frame 5 4)))"
proof -
  define stop where "stop = Machine_HandleCommand p ops
    \<lparr>cmd_type = CMD_STOP, cmd_target_pressure_units = 0\<rparr> t w"
  obtain s' where s': "ModbusRtuServer_TakeStop p ops t s w = (True, s', snd stop)" "server_ok s'"
      "rv_queue (rx_view_of s') = []" "rv_stop (rx_view_of s') = None"
      "if srv_response_pending s
       then srv_response s' = srv_response s \<and> srv_response_length s' = srv_response_length s
         \<and> srv_priority_response_pending s'
       else reply_ready s' (stop_reply (srv_stop_request s) (fst stop))"
    using TakeStop_spec [OF assms(3-5) refl stop_def] by blast
  have none: "\<not> srv_stop_latched s'" using s'(4) by (simp add: rx_view_of_def split: if_splits)
  have empty: "srv_request_count s' = 0"
    using s'(2,3) by (auto simp: server_ok_def buffers_ok_def rx_view_of_def)
  have pend: "srv_response_pending s'" if "srv_response_pending s"
    using s'(2,5) that by (simp add: server_ok_def replies_ok_def)
  have res: "mc_last_command_result (w_ctx (snd stop)) = fst stop"
    "mc_motor_request_sequence (w_ctx (snd stop)) = 0"
    "if fst stop = COMMAND_ACCEPTED then off (w_exec (snd stop))
     else fst stop = COMMAND_EXECUTOR_FAILED \<and> mc_state (w_ctx (snd stop)) = FAULT"
    using motor_executor.Stop_result [OF assms(1,2), of p t]
    by (auto simp: stop_def Machine_HandleCommand_def Let_def case_prod_beta)
  show ?thesis
    using s' none empty pend res ProcessPending_refuses [OF assms(3), of p ops t w] assms(5)
    by (auto simp: reply_ready_def stop_reply_def ModbusRtuServer_MapCommandError_def
        ModbusRtuServer_GetResponse_def split: if_splits)
qed

text \<open>A server that has received a read of input register 2, for the examples.\<close>

definition read_state_frame :: "u8 list" where
  "read_state_frame = [0x01, 0x04, 0x00, 0x02, 0x00, 0x01, 0x90, 0x0A]"

definition receiving :: "u8 list \<Rightarrow> ModbusRtuServer" where
  "receiving bs = ModbusRtuServer_ProcessBytes (ModbusRtuServer_Initialize True) (Some bs) (length bs)"

lemma receiving_ok: "server_ok (receiving bs)" "srv_machine (receiving bs)"
  "\<not> srv_response_pending (receiving bs)" "\<not> srv_priority_response_pending (receiving bs)"
proof -
  have "same_reply (ModbusRtuServer_Initialize True) (receiving bs)"
    using same_reply_bytes [of "ModbusRtuServer_Initialize True" bs]
    by (simp add: receiving_def ModbusRtuServer_ProcessBytes_def)
  then show "srv_machine (receiving bs)" "\<not> srv_response_pending (receiving bs)"
    "\<not> srv_priority_response_pending (receiving bs)"
    by (simp_all add: same_reply_def ModbusRtuServer_Initialize_def)
  show "server_ok (receiving bs)"
    unfolding receiving_def by (rule server_ok_ProcessBytes [OF server_ok_Initialize])
qed

lemma receiving_frame:
  assumes "good_request r"
  shows "rx_view_of (receiving r)
    = (deliver (Request r) (rx_view_of (ModbusRtuServer_Initialize True)))\<lparr>rv_pending := []\<rparr>"
proof -
  have "rx_view_of (receiving r) = receive r (rx_view_of (ModbusRtuServer_Initialize True))"
    using server_bytes_refine [OF server_Initialize_ok(1,2), of r True]
    by (simp add: receiving_def ModbusRtuServer_ProcessBytes_def)
  moreover have "rv_pending (rx_view_of (ModbusRtuServer_Initialize True)) = []"
    by (simp add: rx_view_pending server_Initialize_ok)
  ultimately show ?thesis
    using parse_frame [of r] assms by (simp add: receive_def good_request_def)
qed

lemma receiving_read_state:
  "good_request read_state_frame" "srv_request_count (receiving read_state_frame) = 1"
  "srv_request_queue (receiving read_state_frame) ! 0 = read_state_frame"
  "\<not> srv_stop_latched (receiving read_state_frame)"
proof -
  have "frame_crc read_state_frame" by code_simp
  then show g: "good_request read_state_frame" by (simp add: good_request_def read_state_frame_def)
  have stop: "\<not> ModbusRtuServer_RequestIsStop read_state_frame"
    by (simp add: ModbusRtuServer_RequestIsStop_def read_state_frame_def)
  let ?s = "receiving read_state_frame"
  have b: "length (srv_request_queue ?s) = 4" "srv_request_count ?s \<le> 4"
    using receiving_ok(1) [of read_state_frame] by (simp_all add: server_ok_def buffers_ok_def)
  have q: "take (srv_request_count ?s) (srv_request_queue ?s) = [read_state_frame]"
    and "\<not> srv_stop_latched ?s"
    using receiving_frame [OF g] stop
    by (simp_all add: rx_view_of_def server_Initialize_ok Let_def split: if_splits)
  then show "\<not> srv_stop_latched ?s" by simp
  have "min 4 (srv_request_count ?s) = 1" using arg_cong [OF q, of length] b by simp
  then show n: "srv_request_count ?s = 1" using b by (simp add: min_def split: if_splits)
  then show "srv_request_queue ?s ! 0 = read_state_frame" using q b by (cases "srv_request_queue ?s") simp_all
qed

theorem front_request_is_answered_witness:
  "take (srv_response_length (fst (snd (ModbusRtuServer_ProcessPending locked_policy locked_ops 7
        (receiving read_state_frame) locked_world))))
      (srv_response (fst (snd (ModbusRtuServer_ProcessPending locked_policy locked_ops 7
        (receiving read_state_frame) locked_world))))
    = read_frame 4 [0]"
proof -
  have "fst (ModbusSemantic_ReadInput locked_policy locked_ops 2 7 locked_world) = Some 0"
    unfolding ReadInput_value
    by (simp add: read_register_def locked_eval zero_context_def word_le_nat_alt)
  then obtain w' where "read_candidate locked_policy locked_ops 4 2 7 locked_world = (Some 0, w')"
    by (cases "read_candidate locked_policy locked_ops 4 2 7 locked_world")
      (simp add: read_candidate_def)
  then have "fst (reply locked_policy locked_ops read_state_frame 7 locked_world) = read_frame 4 [0]"
    by (simp add: reply_def read_state_frame_def be16_def upt_rec)
  then show ?thesis
    using front_request_is_answered [OF receiving_ok(1,2) receiving_read_state(4) receiving_ok(3),
      of locked_policy locked_ops 7 locked_world]
    by (simp add: receiving_read_state case_prod_beta)
qed

lemma receiving_stop: "srv_stop_latched (receiving stop_frame)" "srv_stop_request (receiving stop_frame) = stop_frame"
proof -
  have "ModbusRtuServer_RequestIsStop stop_frame"
    by (simp add: ModbusRtuServer_RequestIsStop_def ModbusRtuServer_ReadU16_def stop_frame_def)
  moreover have "good_request stop_frame"
    using stop_frame_valid by (simp add: good_request_def stop_frame_def)
  ultimately have "rv_stop (rx_view_of (receiving stop_frame)) = Some stop_frame"
    using receiving_frame [of stop_frame] by (simp add: rx_view_of_def server_Initialize_ok Let_def)
  then show "srv_stop_latched (receiving stop_frame)" "srv_stop_request (receiving stop_frame) = stop_frame"
    by (simp_all add: rx_view_of_def split: if_splits)
qed

theorem stop_overtakes_requests_witness:
  "(case ModbusRtuServer_TakeStop locked_policy locked_ops 7 (receiving stop_frame) locked_world
    of (taken, s', w') \<Rightarrow> taken \<and> srv_request_count s' = 0
      \<and> (mc_last_command_result (w_ctx w') = COMMAND_ACCEPTED
          \<longrightarrow> take (srv_response_length s') (srv_response s') = stop_frame))"
  using stop_overtakes_requests [OF locked.motor_executor_axioms locked_world_ok receiving_ok(1,2)
      receiving_stop(1), of locked_policy 7] receiving_stop(2) receiving_ok(3) [of stop_frame]
  by (auto split: if_splits)

end
