(* ===== verification/ModbusLink.thy ===== *)
theory ModbusLink
  imports ModbusPriority
begin

text \<open>
  The half-duplex link of \<^verbatim>\<open>Transport/Modbus/modbus_rtu_link.c\<close>: it enables the RS-485
  driver around each transmission. What it needs of the two functions the board registers
  is the locale \<open>rs485_driver\<close>, which \<open>ModbusUart2\<close> interprets.
\<close>

section \<open>Code\<close>

text \<open>The pointers are kept as whether they are set; the callbacks are an argument.\<close>

record ModbusRtuLink =
  rl_server :: bool
  rl_set_driver_enable :: bool
  rl_start_transmit :: bool
  rl_transmit_active :: bool

record 'io link_callbacks =
  cb_set_driver_enable :: "bool \<Rightarrow> 'io \<Rightarrow> 'io"
  cb_start_transmit :: "u8 list \<Rightarrow> nat \<Rightarrow> 'io \<Rightarrow> bool \<times> 'io"

definition ModbusRtuLink_Initialize ::
  "'io link_callbacks \<Rightarrow> bool \<Rightarrow> bool \<Rightarrow> bool \<Rightarrow> 'io \<Rightarrow> ModbusRtuLink \<times> 'io" where
  "ModbusRtuLink_Initialize cb server set_driver_enable start_transmit io =
    (let l = \<lparr>rl_server = server, rl_set_driver_enable = set_driver_enable,
              rl_start_transmit = start_transmit, rl_transmit_active = False\<rparr>
     in (l, if set_driver_enable then cb_set_driver_enable cb False io else io))"

definition ModbusRtuLink_Service ::
  "'io link_callbacks \<Rightarrow> ModbusRtuLink \<Rightarrow> ModbusRtuServer \<Rightarrow> 'io \<Rightarrow> bool \<times> ModbusRtuLink \<times> 'io" where
  "ModbusRtuLink_Service cb l s io =
    (if \<not> rl_server l \<or> \<not> rl_set_driver_enable l \<or> \<not> rl_start_transmit l \<or> rl_transmit_active l
     then (False, l, io)
     else
       (case ModbusRtuServer_GetResponse s of
          None \<Rightarrow> (False, l, io)
        | Some (response, response_length) \<Rightarrow>
            (let io = cb_set_driver_enable cb True io;
                 (started, io) = cb_start_transmit cb response response_length io
             in if \<not> started then (False, l, cb_set_driver_enable cb False io)
                else (True, l\<lparr>rl_transmit_active := True\<rparr>, io))))"

definition ModbusRtuLink_OnTransmitComplete ::
  "'io link_callbacks \<Rightarrow> ModbusRtuLink \<Rightarrow> ModbusRtuServer \<Rightarrow> 'io
    \<Rightarrow> ModbusRtuLink \<times> ModbusRtuServer \<times> 'io" where
  "ModbusRtuLink_OnTransmitComplete cb l s io =
    (if \<not> rl_set_driver_enable l then (l, s, io)
     else
       (let io = cb_set_driver_enable cb False io
        in if \<not> rl_transmit_active l then (l, s, io)
           else (l\<lparr>rl_transmit_active := False\<rparr>, ModbusRtuServer_CompleteResponse s, io)))"

definition ModbusRtuLink_OnError ::
  "'io link_callbacks \<Rightarrow> ModbusRtuLink \<Rightarrow> ModbusRtuServer \<Rightarrow> 'io
    \<Rightarrow> ModbusRtuLink \<times> ModbusRtuServer \<times> 'io" where
  "ModbusRtuLink_OnError cb l s io =
    (if \<not> rl_set_driver_enable l then (l, s, io)
     else
       (let io = cb_set_driver_enable cb False io
        in if rl_transmit_active l
           then (l\<lparr>rl_transmit_active := False\<rparr>, ModbusRtuServer_CompleteResponse s, io)
           else (l, s, io)))"

section \<open>What the link needs of the board\<close>

text \<open>
  \<open>driving io\<close> says that the driver of the bus is enabled. Only the first callback moves
  it.
\<close>

locale rs485_driver =
  fixes cb :: "'io link_callbacks"
    and driving :: "'io \<Rightarrow> bool"
  assumes set_driver: "driving (cb_set_driver_enable cb on io) \<longleftrightarrow> on"
    and start_driver: "driving (snd (cb_start_transmit cb bytes n io)) \<longleftrightarrow> driving io"
begin

text \<open>The bus is driven only during a transmission, and only with an outstanding response.\<close>

definition link_ok :: "ModbusRtuLink \<Rightarrow> ModbusRtuServer \<Rightarrow> 'io \<Rightarrow> bool" where
  "link_ok l s io \<longleftrightarrow> (driving io \<longrightarrow> rl_transmit_active l)
    \<and> (rl_transmit_active l \<longrightarrow> srv_response_pending s)"

lemma link_Initialize_ok:
  "link_ok (fst (ModbusRtuLink_Initialize cb sv True st io)) s (snd (ModbusRtuLink_Initialize cb sv True st io))"
  by (simp add: link_ok_def ModbusRtuLink_Initialize_def set_driver)

lemma link_Service_ok:
  assumes "link_ok l s io"
  shows "(case ModbusRtuLink_Service cb l s io of (started, l', io') \<Rightarrow>
    link_ok l' s io' \<and> rl_set_driver_enable l' = rl_set_driver_enable l
    \<and> (started \<longrightarrow> rl_transmit_active l' \<and> driving io'))"
  using assms
  by (auto simp: link_ok_def ModbusRtuLink_Service_def Let_def set_driver start_driver case_prod_beta
      ModbusRtuServer_GetResponse_def split: option.splits)

lemma link_events_ok:
  assumes "rl_set_driver_enable l" "link_ok l s io"
  shows "(case ModbusRtuLink_OnTransmitComplete cb l s io of (l', s', io') \<Rightarrow>
      link_ok l' s' io' \<and> rl_set_driver_enable l' \<and> \<not> rl_transmit_active l' \<and> \<not> driving io')"
    and "(case ModbusRtuLink_OnError cb l s io of (l', s', io') \<Rightarrow>
      link_ok l' s' io' \<and> rl_set_driver_enable l' \<and> \<not> rl_transmit_active l' \<and> \<not> driving io')"
  using assms
  by (auto simp: link_ok_def ModbusRtuLink_OnTransmitComplete_def ModbusRtuLink_OnError_def Let_def
      set_driver split: prod.splits if_splits)

text \<open>The two ends of a transmission do the same.\<close>

lemma events_agree: "ModbusRtuLink_OnError cb l s io = ModbusRtuLink_OnTransmitComplete cb l s io"
  by (simp add: ModbusRtuLink_OnError_def ModbusRtuLink_OnTransmitComplete_def Let_def)

end

lemma link_events_server:
  "server_ok s \<Longrightarrow> server_ok (fst (snd (ModbusRtuLink_OnTransmitComplete cb l s io)))"
  "server_ok s \<Longrightarrow> server_ok (fst (snd (ModbusRtuLink_OnError cb l s io)))"
  by (simp_all add: ModbusRtuLink_OnTransmitComplete_def ModbusRtuLink_OnError_def Let_def
      server_ok_CompleteResponse)

end
