(* ===== verification/ModbusUart2.thy ===== *)
theory ModbusUart2
  imports ModbusLink UartIngress
begin

text \<open>
  The board's Modbus port, \<^verbatim>\<open>Board/RS485/modbus_uart2.c\<close>: the callbacks of the link, the
  work of the main loop on the port, and the three interrupt callbacks. The vendor's UART
  driver is an argument (\<open>uart_hal\<close>) about which nothing is assumed.
\<close>

section \<open>State\<close>

text \<open>The driver's functions on a handle; \<open>True\<close> is \<open>HAL_OK\<close>.\<close>

record 'h uart_hal =
  hal_Init :: "'h \<Rightarrow> bool \<times> 'h"
  hal_DeInit :: "'h \<Rightarrow> bool \<times> 'h"
  hal_AbortReceive :: "'h \<Rightarrow> bool \<times> 'h"
  hal_Transmit_IT :: "u8 list \<Rightarrow> 'h \<Rightarrow> bool \<times> 'h"
  hal_Receive_IT :: "'h \<Rightarrow> bool \<times> 'h"

datatype uart_instance = USART2 | USART6 | USART_OTHER

text \<open>\<open>u2_de\<close> is the level of the driver enable pin, \<open>u2_irq\<close> the interrupt's enable.\<close>

record 'h uart2 =
  u2_uart :: 'h
  u2_rx_byte :: u8
  u2_server :: ModbusRtuServer
  u2_link :: ModbusRtuLink
  u2_ingress :: ModbusUartIngress
  u2_de :: bool
  u2_irq :: bool

definition on_uart :: "('h \<Rightarrow> bool \<times> 'h) \<Rightarrow> 'h uart2 \<Rightarrow> bool \<times> 'h uart2" where
  "on_uart f u = (case f (u2_uart u) of (ok, h) \<Rightarrow> (ok, u\<lparr>u2_uart := h\<rparr>))"

definition record_rearm :: "'h uart_hal \<Rightarrow> 'h uart2 \<Rightarrow> 'h uart2" where
  "record_rearm hal u =
    (let (ok, u) = on_uart (hal_Receive_IT hal) u
     in u\<lparr>u2_ingress := ModbusUartIngress_RecordRearmFromIsr (u2_ingress u) ok\<rparr>)"

section \<open>Critical sections and callbacks of the link\<close>

definition ModbusUart2_EnterMainTransferCritical :: "'h uart2 \<Rightarrow> bool \<times> 'h uart2" where
  "ModbusUart2_EnterMainTransferCritical u = (u2_irq u, u\<lparr>u2_irq := False\<rparr>)"

definition ModbusUart2_LeaveMainTransferCritical :: "bool \<Rightarrow> 'h uart2 \<Rightarrow> 'h uart2" where
  "ModbusUart2_LeaveMainTransferCritical irq_was_enabled u =
    (if irq_was_enabled then u\<lparr>u2_irq := True\<rparr> else u)"

definition ModbusUart2_SetDriverEnable :: "bool \<Rightarrow> 'h uart2 \<Rightarrow> 'h uart2" where
  "ModbusUart2_SetDriverEnable transmit u = u\<lparr>u2_de := transmit\<rparr>"

definition ModbusUart2_StartTransmit ::
  "'h uart_hal \<Rightarrow> u8 list \<Rightarrow> nat \<Rightarrow> 'h uart2 \<Rightarrow> bool \<times> 'h uart2" where
  "ModbusUart2_StartTransmit hal bytes byte_count u =
    (if byte_count = 0 \<or> byte_count > 0xFFFF then (False, u)
     else
       (let (aborted, u) = on_uart (hal_AbortReceive hal) u
        in if \<not> aborted then (False, u)
           else
             (let (transmit_status, u) = on_uart (hal_Transmit_IT hal (take byte_count bytes)) u
              in if \<not> transmit_status then (False, record_rearm hal u) else (True, u))))"

definition uart2_callbacks :: "'h uart_hal \<Rightarrow> 'h uart2 link_callbacks" where
  "uart2_callbacks hal = \<lparr>cb_set_driver_enable = ModbusUart2_SetDriverEnable,
     cb_start_transmit = ModbusUart2_StartTransmit hal\<rparr>"

section \<open>Main loop operations\<close>

definition ModbusUart2_ConfigurePins :: "'h uart2 \<Rightarrow> 'h uart2" where
  "ModbusUart2_ConfigurePins u = u\<lparr>u2_de := False\<rparr>"

definition ModbusUart2_Initialize :: "'h uart_hal \<Rightarrow> bool \<Rightarrow> 'h uart2 \<Rightarrow> bool \<times> 'h uart2" where
  "ModbusUart2_Initialize hal machine u =
    (if \<not> machine then (False, u)
     else
       (let u = u\<lparr>u2_server := ModbusRtuServer_Initialize machine\<rparr>;
            u = u\<lparr>u2_ingress := ModbusUartIngress_Initialize (u2_ingress u)\<rparr>;
            u = ModbusUart2_ConfigurePins u;
            (l, u) = ModbusRtuLink_Initialize (uart2_callbacks hal) True True True u;
            u = u\<lparr>u2_link := l\<rparr>;
            (ok, u) = on_uart (hal_Init hal) u
        in if \<not> ok then (False, u)
           else
             (let u = u\<lparr>u2_irq := True\<rparr>;
                  (ok, u) = on_uart (hal_Receive_IT hal) u
              in if \<not> ok then (False, u\<lparr>u2_irq := False\<rparr>) else (True, u))))"

definition ModbusUart2_ServiceMain :: "'h uart_hal \<Rightarrow> 'h uart2 \<Rightarrow> 'h uart2" where
  "ModbusUart2_ServiceMain hal u =
    (let (irq_was_enabled, u) = ModbusUart2_EnterMainTransferCritical u;
         (byte_count, bytes, ingress) =
            ModbusUartIngress_DrainFromMain (u2_ingress u) (replicate 63 0) 63;
         (events, ingress) = ModbusUartIngress_TakeEventsFromMain ingress;
         u = u\<lparr>u2_ingress := ingress\<rparr>;
         u = ModbusUart2_LeaveMainTransferCritical irq_was_enabled u;
         u = (if byte_count \<noteq> 0
              then u\<lparr>u2_server := ModbusRtuServer_ProcessBytes (u2_server u) (Some bytes) byte_count\<rparr>
              else u)
     in if events AND MODBUS_UART_EVENT_ERROR \<noteq> 0
        then (case ModbusRtuLink_OnError (uart2_callbacks hal) (u2_link u) (u2_server u) u of
                (l, s, u) \<Rightarrow> u\<lparr>u2_link := l, u2_server := s\<rparr>)
        else if events AND MODBUS_UART_EVENT_TX_COMPLETE \<noteq> 0
        then (case ModbusRtuLink_OnTransmitComplete (uart2_callbacks hal) (u2_link u) (u2_server u) u of
                (l, s, u) \<Rightarrow> u\<lparr>u2_link := l, u2_server := s\<rparr>)
        else u)"

definition ModbusUart2_HasPendingStop :: "'h uart2 \<Rightarrow> bool \<times> 'h uart2" where
  "ModbusUart2_HasPendingStop u =
    (case ModbusRtuServer_PendingIsStop (u2_server u) of (b, s) \<Rightarrow> (b, u\<lparr>u2_server := s\<rparr>))"

definition ModbusUart2_ProcessPendingStop ::
  "build_policy \<Rightarrow> 'e executor \<Rightarrow> u32 \<Rightarrow> 'h uart2 \<Rightarrow> 'e world \<Rightarrow> bool \<times> 'h uart2 \<times> 'e world" where
  "ModbusUart2_ProcessPendingStop p ops now_ms u w =
    (case ModbusRtuServer_TakeStop p ops now_ms (u2_server u) w of
       (b, s, w) \<Rightarrow> (b, u\<lparr>u2_server := s\<rparr>, w))"

definition ModbusUart2_ProcessOneNormalRequest ::
  "build_policy \<Rightarrow> 'e executor \<Rightarrow> u32 \<Rightarrow> 'h uart2 \<Rightarrow> 'e world \<Rightarrow> bool \<times> 'h uart2 \<times> 'e world" where
  "ModbusUart2_ProcessOneNormalRequest p ops now_ms u w =
    (let (have_request, s) = ModbusRtuServer_HasPendingRequest (u2_server u);
         u = u\<lparr>u2_server := s\<rparr>
     in if \<not> have_request then (False, u, w)
        else
          (let (is_stop, s) = ModbusRtuServer_PendingIsStop (u2_server u);
               u = u\<lparr>u2_server := s\<rparr>
           in if is_stop then (False, u, w)
              else (case ModbusRtuServer_ProcessPending p ops now_ms (u2_server u) w of
                      (b, s, w) \<Rightarrow> (b, u\<lparr>u2_server := s\<rparr>, w))))"

definition ModbusUart2_ServiceTransmit :: "'h uart_hal \<Rightarrow> 'h uart2 \<Rightarrow> 'h uart2" where
  "ModbusUart2_ServiceTransmit hal u =
    (case ModbusRtuLink_Service (uart2_callbacks hal) (u2_link u) (u2_server u) u of
       (_, l, u) \<Rightarrow> u\<lparr>u2_link := l\<rparr>)"

definition ModbusUart2_ReadIngressSnapshot ::
  "'h uart2 \<Rightarrow> ModbusUartIngressSnapshot \<times> 'h uart2" where
  "ModbusUart2_ReadIngressSnapshot u =
    (let (irq_was_enabled, u) = ModbusUart2_EnterMainTransferCritical u;
         snapshot = ModbusUartIngress_ReadSnapshotFromMain (u2_ingress u)
     in (snapshot, ModbusUart2_LeaveMainTransferCritical irq_was_enabled u))"

definition ModbusUart2_GetSnapshot :: "'h uart2 \<Rightarrow> ModbusRtuServerSnapshot" where
  "ModbusUart2_GetSnapshot u = ModbusRtuServer_GetSnapshot (u2_server u)"

section \<open>Interrupt callbacks\<close>

text \<open>\<open>uart\<close> is the instance of the handle the driver passes, \<^const>\<open>None\<close> for a null handle.\<close>

definition ModbusUart2_HandleRxComplete ::
  "'h uart_hal \<Rightarrow> uart_instance option \<Rightarrow> 'h uart2 \<Rightarrow> bool \<times> 'h uart2" where
  "ModbusUart2_HandleRxComplete hal uart u =
    (if uart \<noteq> Some USART2 then (False, u)
     else (True, record_rearm hal
             (u\<lparr>u2_ingress := snd (ModbusUartIngress_PushFromIsr (u2_ingress u) (u2_rx_byte u))\<rparr>)))"

definition ModbusUart2_HandleTxComplete ::
  "'h uart_hal \<Rightarrow> uart_instance option \<Rightarrow> 'h uart2 \<Rightarrow> bool \<times> 'h uart2" where
  "ModbusUart2_HandleTxComplete hal uart u =
    (if uart \<noteq> Some USART2 then (False, u)
     else (True, record_rearm hal
             (u\<lparr>u2_de := False,
                u2_ingress := ModbusUartIngress_SignalEventFromIsr (u2_ingress u)
                                MODBUS_UART_EVENT_TX_COMPLETE\<rparr>)))"

definition ModbusUart2_HandleError ::
  "'h uart_hal \<Rightarrow> uart_instance option \<Rightarrow> 'h uart2 \<Rightarrow> bool \<times> 'h uart2" where
  "ModbusUart2_HandleError hal uart u =
    (if uart \<noteq> Some USART2 then (False, u)
     else (True, record_rearm hal
             (u\<lparr>u2_de := False,
                u2_ingress := ModbusUartIngress_SignalEventFromIsr (u2_ingress u)
                                MODBUS_UART_EVENT_ERROR\<rparr>)))"

section \<open>The board's callbacks keep the link's contract\<close>

lemma on_uart_simps [simp]:
  "u2_de (snd (on_uart f u)) = u2_de u" "u2_irq (snd (on_uart f u)) = u2_irq u"
  "u2_server (snd (on_uart f u)) = u2_server u" "u2_link (snd (on_uart f u)) = u2_link u"
  "u2_ingress (snd (on_uart f u)) = u2_ingress u" "u2_rx_byte (snd (on_uart f u)) = u2_rx_byte u"
  by (simp_all add: on_uart_def case_prod_beta)

lemma record_rearm_simps [simp]:
  "u2_de (record_rearm hal u) = u2_de u" "u2_irq (record_rearm hal u) = u2_irq u"
  "u2_server (record_rearm hal u) = u2_server u" "u2_link (record_rearm hal u) = u2_link u"
  "ui_bytes (u2_ingress (record_rearm hal u)) = ui_bytes (u2_ingress u)"
  "ui_write_index (u2_ingress (record_rearm hal u)) = ui_write_index (u2_ingress u)"
  "ui_read_index (u2_ingress (record_rearm hal u)) = ui_read_index (u2_ingress u)"
  "ui_event_flags (u2_ingress (record_rearm hal u)) = ui_event_flags (u2_ingress u)"
  by (simp_all add: record_rearm_def Let_def case_prod_beta ModbusUartIngress_RecordRearmFromIsr_def)

lemma start_transmit_simps [simp]:
  "u2_de (snd (ModbusUart2_StartTransmit hal bs n u)) = u2_de u"
  "u2_irq (snd (ModbusUart2_StartTransmit hal bs n u)) = u2_irq u"
  "u2_server (snd (ModbusUart2_StartTransmit hal bs n u)) = u2_server u"
  "u2_link (snd (ModbusUart2_StartTransmit hal bs n u)) = u2_link u"
  "ui_bytes (u2_ingress (snd (ModbusUart2_StartTransmit hal bs n u))) = ui_bytes (u2_ingress u)"
  "ui_write_index (u2_ingress (snd (ModbusUart2_StartTransmit hal bs n u))) = ui_write_index (u2_ingress u)"
  "ui_read_index (u2_ingress (snd (ModbusUart2_StartTransmit hal bs n u))) = ui_read_index (u2_ingress u)"
  by (simp_all add: ModbusUart2_StartTransmit_def Let_def case_prod_beta)

lemma set_driver_simps [simp]:
  "u2_de (ModbusUart2_SetDriverEnable b u) = b"
  "u2_irq (ModbusUart2_SetDriverEnable b u) = u2_irq u"
  "u2_server (ModbusUart2_SetDriverEnable b u) = u2_server u"
  "u2_link (ModbusUart2_SetDriverEnable b u) = u2_link u"
  "u2_ingress (ModbusUart2_SetDriverEnable b u) = u2_ingress u"
  by (simp_all add: ModbusUart2_SetDriverEnable_def)

interpretation uart2_driver: rs485_driver "uart2_callbacks hal" u2_de
  for hal :: "'h uart_hal"
  by unfold_locales (simp_all add: uart2_callbacks_def)

section \<open>The invariant of the port\<close>

definition uart2_ok :: "'h uart2 \<Rightarrow> bool" where
  "uart2_ok u \<longleftrightarrow> server_ok (u2_server u) \<and> srv_machine (u2_server u) \<and> ingress_ok (u2_ingress u)
    \<and> rl_server (u2_link u) \<and> rl_set_driver_enable (u2_link u) \<and> rl_start_transmit (u2_link u)
    \<and> (u2_de u \<longrightarrow> rl_transmit_active (u2_link u))
    \<and> (rl_transmit_active (u2_link u) \<longrightarrow> srv_response_pending (u2_server u))"

lemma ingress_ok_cong:
  "ui_bytes u = ui_bytes v \<Longrightarrow> ui_write_index u = ui_write_index v \<Longrightarrow> ui_read_index u = ui_read_index v
    \<Longrightarrow> ingress_ok u = ingress_ok v"
  by (simp add: ingress_ok_def)

lemma uart2_Initialize_ok:
  "fst (ModbusUart2_Initialize hal m u) \<Longrightarrow> uart2_ok (snd (ModbusUart2_Initialize hal m u))
    \<and> u2_irq (snd (ModbusUart2_Initialize hal m u))"
  by (auto simp: ModbusUart2_Initialize_def Let_def case_prod_beta uart2_ok_def
      ModbusRtuLink_Initialize_def uart2_callbacks_def ModbusUart2_ConfigurePins_def
      server_ok_Initialize ingress_ok_initialize split: if_splits)
    (simp_all add: ModbusRtuServer_Initialize_def)

lemma uart2_isr_ok:
  assumes "uart2_ok u"
  shows "uart2_ok (snd (ModbusUart2_HandleRxComplete hal uart u))"
    and "uart2_ok (snd (ModbusUart2_HandleTxComplete hal uart u))"
    and "uart2_ok (snd (ModbusUart2_HandleError hal uart u))"
proof -
  have rearm: "ingress_ok (u2_ingress (record_rearm hal v)) = ingress_ok (u2_ingress v)" for v
    by (rule ingress_ok_cong) simp_all
  have signal: "ingress_ok (ModbusUartIngress_SignalEventFromIsr i e) = ingress_ok i" for i e
    by (rule ingress_ok_cong) (simp_all add: ModbusUartIngress_SignalEventFromIsr_def)
  have push: "ingress_ok (snd (ModbusUartIngress_PushFromIsr (u2_ingress u) b))" for b
    using assms ingress_push_spec [of "u2_ingress u" b] by (auto simp: uart2_ok_def split: prod.splits)
  show "uart2_ok (snd (ModbusUart2_HandleRxComplete hal uart u))"
    "uart2_ok (snd (ModbusUart2_HandleTxComplete hal uart u))"
    "uart2_ok (snd (ModbusUart2_HandleError hal uart u))"
    using assms push
    by (simp_all add: uart2_ok_def ModbusUart2_HandleRxComplete_def ModbusUart2_HandleTxComplete_def
        ModbusUart2_HandleError_def rearm signal)
qed

text \<open>What the main loop's service does: the queued bytes go to the server, then the events.\<close>

definition after_bytes :: "'h uart2 \<Rightarrow> 'h uart2" where
  "after_bytes u = u\<lparr>
     u2_ingress := (snd (ingress_drain (u2_ingress u) 63))\<lparr>ui_event_flags := 0\<rparr>,
     u2_server := fold server_process_byte (ingress_queue (u2_ingress u)) (u2_server u)\<rparr>"

lemma drain_all:
  assumes "ingress_ok i"
  shows "(case ModbusUartIngress_DrainFromMain i (replicate 63 0) 63 of (n, bytes, i') \<Rightarrow>
    take n bytes = ingress_queue i \<and> i' = snd (ingress_drain i 63)
    \<and> ui_event_flags i' = ui_event_flags i)"
  using ingress_drain_spec [OF assms, of 63] queue_length_le [of i]
  by (auto simp: ingress_drain_def ModbusUartIngress_DrainFromMain_def split: prod.splits)

lemma ServiceMain_split:
  assumes "ingress_ok (u2_ingress u)"
  shows "ModbusUart2_ServiceMain hal u =
    (let v = after_bytes u; e = ui_event_flags (u2_ingress u)
     in if e AND 2 \<noteq> 0 \<or> e AND 1 \<noteq> 0
        then (case ModbusRtuLink_OnTransmitComplete (uart2_callbacks hal) (u2_link v) (u2_server v) v of
                (l, s, w) \<Rightarrow> w\<lparr>u2_link := l, u2_server := s\<rparr>)
        else v)"
proof -
  obtain n bytes i' where d: "ModbusUartIngress_DrainFromMain (u2_ingress u) (replicate 63 0) 63 = (n, bytes, i')"
    by (metis prod_cases3)
  then have sp: "take n bytes = ingress_queue (u2_ingress u)" "i' = snd (ingress_drain (u2_ingress u) 63)"
    "ui_event_flags i' = ui_event_flags (u2_ingress u)"
    using drain_all [OF assms] by auto
  have irq: "(if u2_irq u then u\<lparr>u2_irq := False, u2_ingress := x, u2_irq := True\<rparr>
      else u\<lparr>u2_irq := False, u2_ingress := x\<rparr>) = u\<lparr>u2_ingress := x\<rparr>" for x
    by (cases u) simp
  have pb: "ModbusRtuServer_ProcessBytes x (Some bytes) n
      = fold server_process_byte (ingress_queue (u2_ingress u)) x" for x
    using sp(1) by (simp add: ModbusRtuServer_ProcessBytes_def)
  have none: "n = 0 \<Longrightarrow> ingress_queue (u2_ingress u) = []" using sp(1) by simp
  have keep: "u\<lparr>u2_ingress := x, u2_server := u2_server u\<rparr> = u\<lparr>u2_ingress := x\<rparr>" for x
    by (cases u) simp
  show ?thesis
    using sp(3) none
    by (cases "n = 0")
      (simp_all add: ModbusUart2_ServiceMain_def ModbusUart2_EnterMainTransferCritical_def
        ModbusUart2_LeaveMainTransferCritical_def d Let_def ModbusUartIngress_TakeEventsFromMain_def
        irq pb keep after_bytes_def sp(2) uart2_driver.events_agree)
qed

lemma after_bytes_ok:
  assumes "uart2_ok u"
  shows "uart2_ok (after_bytes u)" "u2_link (after_bytes u) = u2_link u" "u2_de (after_bytes u) = u2_de u"
    "u2_irq (after_bytes u) = u2_irq u" "same_reply (u2_server u) (u2_server (after_bytes u))"
    "ingress_queue (u2_ingress (after_bytes u)) = []"
proof -
  have i: "ingress_ok (u2_ingress u)" using assms by (simp add: uart2_ok_def)
  have drained: "ingress_ok ((snd (ingress_drain (u2_ingress u) 63))\<lparr>ui_event_flags := 0\<rparr>)"
    using ingress_drain_spec [OF i, of 63] ingress_ok_cong
      [of "(snd (ingress_drain (u2_ingress u) 63))\<lparr>ui_event_flags := 0\<rparr>" "snd (ingress_drain (u2_ingress u) 63)"]
    by simp
  have "server_ok (fold server_process_byte bs (u2_server u))" for bs
    using server_ok_ProcessBytes [of "u2_server u" "Some bs" "length bs"] assms
    by (simp add: uart2_ok_def ModbusRtuServer_ProcessBytes_def)
  moreover show same: "same_reply (u2_server u) (u2_server (after_bytes u))"
    using same_reply_bytes [of "u2_server u"] by (simp add: after_bytes_def)
  ultimately show "uart2_ok (after_bytes u)"
    using assms drained by (simp add: uart2_ok_def after_bytes_def same_reply_def)
  show "ingress_queue (u2_ingress (after_bytes u)) = []"
    using ingress_drain_spec [OF i, of 63] queue_length_le [of "u2_ingress u"]
    by (simp add: after_bytes_def ingress_queue_def)
qed (simp_all add: after_bytes_def)

lemma ServiceMain_ok:
  assumes "uart2_ok u"
  shows "uart2_ok (ModbusUart2_ServiceMain hal u)"
    and "u2_irq (ModbusUart2_ServiceMain hal u) = u2_irq u"
    and "srv_stop_latched (u2_server (ModbusUart2_ServiceMain hal u))
      = srv_stop_latched (u2_server (after_bytes u))"
proof -
  define v where "v = after_bytes u"
  have ok: "uart2_ok v" using after_bytes_ok(1) [OF assms] by (simp add: v_def)
  have i: "ingress_ok (u2_ingress u)" using assms by (simp add: uart2_ok_def)
  have complete: "srv_stop_latched (ModbusRtuServer_CompleteResponse (u2_server v)) = srv_stop_latched (u2_server v)
      \<and> srv_machine (ModbusRtuServer_CompleteResponse (u2_server v)) = srv_machine (u2_server v)"
  proof -
    have "server_ok (ModbusRtuServer_CompleteResponse (u2_server v))"
      using ok by (simp add: uart2_ok_def server_ok_CompleteResponse)
    have "srv_rx_length (ModbusRtuServer_PromotePriorityResponse
        (u2_server v\<lparr>srv_response_pending := False, srv_response_length := 0\<rparr>)) < 8"
      using ok by (simp add: uart2_ok_def server_ok_def ModbusRtuServer_PromotePriorityResponse_def)
    then show ?thesis
      by (simp add: ModbusRtuServer_CompleteResponse_def Let_def TryExtract_idle)
        (simp add: ModbusRtuServer_PromotePriorityResponse_def)
  qed
  define r where "r = ModbusRtuLink_OnTransmitComplete (uart2_callbacks hal) (u2_link v) (u2_server v) v"
  have R: "server_ok (fst (snd r))" "rl_set_driver_enable (fst r)" "\<not> rl_transmit_active (fst r)"
    "\<not> u2_de (snd (snd r))" "u2_ingress (snd (snd r)) = u2_ingress v" "u2_irq (snd (snd r)) = u2_irq v"
    "rl_server (fst r)" "rl_start_transmit (fst r)" "srv_machine (fst (snd r))"
    "srv_stop_latched (fst (snd r)) = srv_stop_latched (u2_server v)"
    using ok complete
    by (simp_all add: r_def ModbusRtuLink_OnTransmitComplete_def Let_def uart2_ok_def
        uart2_callbacks_def server_ok_CompleteResponse)
  have main: "ModbusUart2_ServiceMain hal u = (if ui_event_flags (u2_ingress u) AND 2 \<noteq> 0
      \<or> ui_event_flags (u2_ingress u) AND 1 \<noteq> 0
      then (snd (snd r))\<lparr>u2_link := fst r, u2_server := fst (snd r)\<rparr> else v)"
    by (simp add: ServiceMain_split [OF i] Let_def v_def r_def case_prod_beta)
  show "uart2_ok (ModbusUart2_ServiceMain hal u)"
    using ok R by (simp add: main uart2_ok_def)
  show "u2_irq (ModbusUart2_ServiceMain hal u) = u2_irq u"
    using R after_bytes_ok(4) [OF assms] by (simp add: main v_def)
  show "srv_stop_latched (u2_server (ModbusUart2_ServiceMain hal u))
      = srv_stop_latched (u2_server (after_bytes u))"
    using R by (simp add: main v_def)
qed

lemma ServiceTransmit_ok:
  assumes "uart2_ok u"
  shows "uart2_ok (ModbusUart2_ServiceTransmit hal u)"
    and "u2_irq (ModbusUart2_ServiceTransmit hal u) = u2_irq u"
    and "u2_server (ModbusUart2_ServiceTransmit hal u) = u2_server u"
proof -
  have cong: "ingress_ok (u2_ingress (snd (ModbusUart2_StartTransmit hal bs n v))) = ingress_ok (u2_ingress v)"
    for bs n and v :: "'a uart2" by (rule ingress_ok_cong) simp_all
  show "uart2_ok (ModbusUart2_ServiceTransmit hal u)"
    "u2_irq (ModbusUart2_ServiceTransmit hal u) = u2_irq u"
    "u2_server (ModbusUart2_ServiceTransmit hal u) = u2_server u"
    using assms
    by (auto simp: ModbusUart2_ServiceTransmit_def ModbusRtuLink_Service_def uart2_callbacks_def Let_def
        case_prod_beta uart2_ok_def cong ModbusRtuServer_GetResponse_def split: option.splits)
qed

text \<open>While a response is outstanding no request changes the buffer it is sent from.\<close>

definition same_response :: "ModbusRtuServer \<Rightarrow> ModbusRtuServer \<Rightarrow> bool" where
  "same_response s s' \<longleftrightarrow> (srv_response_pending s \<longrightarrow> srv_response_pending s'
    \<and> srv_response s' = srv_response s \<and> srv_response_length s' = srv_response_length s)"

lemma TakeStop_same_response:
  assumes "server_ok s"
  shows "same_response s (fst (snd (ModbusRtuServer_TakeStop p ops t s w)))
    \<and> server_ok (fst (snd (ModbusRtuServer_TakeStop p ops t s w)))
    \<and> srv_machine (fst (snd (ModbusRtuServer_TakeStop p ops t s w))) = srv_machine s"
proof (cases "srv_machine s \<and> srv_stop_latched s")
  case False
  then show ?thesis using TakeStop_refuses [OF assms, of p ops t w] assms by (auto simp: same_response_def)
next
  case True
  then have set: "srv_machine s" by simp
  have m: "srv_machine (fst (snd (ModbusRtuServer_TakeStop p ops t s w))) = srv_machine s"
    by (simp add: ModbusRtuServer_TakeStop_def server_ok_idle [OF assms] Let_def case_prod_beta
        ModbusRtuServer_QueueStopResponse_def ModbusRtuServer_PromotePriorityResponse_def)
  obtain s' where "fst (snd (ModbusRtuServer_TakeStop p ops t s w)) = s'" "server_ok s'"
    "srv_response_pending s \<longrightarrow> srv_response s' = srv_response s
      \<and> srv_response_length s' = srv_response_length s \<and> srv_priority_response_pending s'"
    using TakeStop_spec [OF assms _ _ refl refl, of p ops t w] True by (auto split: if_splits)
  then show ?thesis
    using m by (simp add: same_response_def server_ok_def replies_ok_def)
qed

lemma ProcessPending_same_response:
  assumes "server_ok s"
  shows "same_response s (fst (snd (ModbusRtuServer_ProcessPending p ops t s w)))
    \<and> server_ok (fst (snd (ModbusRtuServer_ProcessPending p ops t s w)))
    \<and> srv_machine (fst (snd (ModbusRtuServer_ProcessPending p ops t s w))) = srv_machine s"
proof (cases "srv_machine s \<and> \<not> srv_stop_latched s \<and> \<not> srv_response_pending s \<and> srv_request_count s \<noteq> 0")
  case False
  have "ModbusRtuServer_ProcessPending p ops t s w = (False, s, w)" if "\<not> srv_machine s"
    using that by (simp add: ModbusRtuServer_ProcessPending_def)
  then show ?thesis
    using False ProcessPending_refuses [OF assms, of p ops t w] assms by (auto simp: same_response_def)
next
  case True
  then show ?thesis
    using ProcessPending_answers [OF assms, of p ops t w]
    by (auto simp: same_response_def answers_def same_rx_def take_front_def)
qed

lemma requests_keep_port:
  assumes "uart2_ok u"
  shows "uart2_ok (fst (snd (ModbusUart2_ProcessPendingStop p ops t u w)))"
    and "uart2_ok (fst (snd (ModbusUart2_ProcessOneNormalRequest p ops t u w)))"
    and "same_response (u2_server u) (u2_server (fst (snd (ModbusUart2_ProcessPendingStop p ops t u w))))"
    and "same_response (u2_server u) (u2_server (fst (snd (ModbusUart2_ProcessOneNormalRequest p ops t u w))))"
    and "u2_irq (fst (snd (ModbusUart2_ProcessPendingStop p ops t u w))) = u2_irq u"
    and "u2_irq (fst (snd (ModbusUart2_ProcessOneNormalRequest p ops t u w))) = u2_irq u"
proof -
  have s: "server_ok (u2_server u)" using assms by (simp add: uart2_ok_def)
  note T = TakeStop_same_response [OF s, of p ops t w] and P = ProcessPending_same_response [OF s, of p ops t w]
  have one: "ModbusUart2_ProcessOneNormalRequest p ops t u w =
    (if srv_request_count (u2_server u) = 0 \<or> srv_stop_latched (u2_server u) then (False, u, w)
     else (case ModbusRtuServer_ProcessPending p ops t (u2_server u) w of (b, s, w) \<Rightarrow> (b, u\<lparr>u2_server := s\<rparr>, w)))"
    by (simp add: ModbusUart2_ProcessOneNormalRequest_def server_ok_queries [OF s] Let_def)
  show "uart2_ok (fst (snd (ModbusUart2_ProcessPendingStop p ops t u w)))"
    "uart2_ok (fst (snd (ModbusUart2_ProcessOneNormalRequest p ops t u w)))"
    using assms T P
    by (auto simp: ModbusUart2_ProcessPendingStop_def one uart2_ok_def case_prod_beta same_response_def)
  show "same_response (u2_server u) (u2_server (fst (snd (ModbusUart2_ProcessPendingStop p ops t u w))))"
    "same_response (u2_server u) (u2_server (fst (snd (ModbusUart2_ProcessOneNormalRequest p ops t u w))))"
    "u2_irq (fst (snd (ModbusUart2_ProcessPendingStop p ops t u w))) = u2_irq u"
    "u2_irq (fst (snd (ModbusUart2_ProcessOneNormalRequest p ops t u w))) = u2_irq u"
    using T P by (auto simp: ModbusUart2_ProcessPendingStop_def one case_prod_beta same_response_def)
qed

end
