(* ===== verification/PressureUart6.thy ===== *)
theory PressureUart6
  imports ModbusUart2 PressureReceiver
begin

text \<open>
  The pressure sensor's port, \<^verbatim>\<open>Board/RS485/pressure_uart6.c\<close>: one byte per interrupt
  into the stream receiver, re-arming of the reception, error counting, and the copy of
  the receiver's snapshot that the main loop takes with interrupts masked.
\<close>

section \<open>State\<close>

record PressureUart6Diagnostics =
  pd6_rx_complete_count :: u32
  pd6_error_count :: u32
  pd6_overrun_error_count :: u32
  pd6_frame_error_count :: u32
  pd6_noise_error_count :: u32
  pd6_parity_error_count :: u32
  pd6_abort_failure_count :: u32
  pd6_rearm_failure_count :: u32
  pd6_last_error_code :: u32
  pd6_last_rx_state :: u32

definition zero_uart6_diagnostics :: PressureUart6Diagnostics where
  "zero_uart6_diagnostics =
    \<lparr>pd6_rx_complete_count = 0, pd6_error_count = 0, pd6_overrun_error_count = 0,
     pd6_frame_error_count = 0, pd6_noise_error_count = 0, pd6_parity_error_count = 0,
     pd6_abort_failure_count = 0, pd6_rearm_failure_count = 0, pd6_last_error_code = 0,
     pd6_last_rx_state = 0\<rparr>"

record 'h uart6 =
  u6_uart :: 'h
  u6_rx_byte :: u8
  u6_receiver :: PressureReceiver
  u6_diag :: PressureUart6Diagnostics
  u6_de :: bool
  u6_irq :: bool

text \<open>The fields of the driver's handle that the error callback reads.\<close>

record uart_handle =
  uh_instance :: uart_instance
  uh_ErrorCode :: u32
  uh_RxState :: u32

definition on_uart6 :: "('h \<Rightarrow> bool \<times> 'h) \<Rightarrow> 'h uart6 \<Rightarrow> bool \<times> 'h uart6" where
  "on_uart6 f u = (case f (u6_uart u) of (ok, h) \<Rightarrow> (ok, u\<lparr>u6_uart := h\<rparr>))"

definition diag6 ::
  "(PressureUart6Diagnostics \<Rightarrow> PressureUart6Diagnostics) \<Rightarrow> 'h uart6 \<Rightarrow> 'h uart6" where
  "diag6 f u = u\<lparr>u6_diag := f (u6_diag u)\<rparr>"

section \<open>Operations\<close>

definition PressureUart6_ArmReceive :: "'h uart_hal \<Rightarrow> bool \<Rightarrow> 'h uart6 \<Rightarrow> bool \<times> 'h uart6" where
  "PressureUart6_ArmReceive hal reset_receive_state u =
    (let u = (if reset_receive_state
              then (let (aborted, u) = on_uart6 (hal_AbortReceive hal) u
                    in if \<not> aborted
                       then diag6 (\<lambda>d. d\<lparr>pd6_abort_failure_count := pd6_abort_failure_count d + 1\<rparr>) u
                       else u)
              else u);
         (armed, u) = on_uart6 (hal_Receive_IT hal) u
     in if \<not> armed
        then (False, diag6 (\<lambda>d. d\<lparr>pd6_rearm_failure_count := pd6_rearm_failure_count d + 1\<rparr>) u)
        else (True, u))"

definition PressureUart6_ConfigurePins :: "'h uart6 \<Rightarrow> 'h uart6" where
  "PressureUart6_ConfigurePins u = u\<lparr>u6_de := False\<rparr>"

definition PressureUart6_Initialize :: "'h uart_hal \<Rightarrow> 'h uart6 \<Rightarrow> bool \<times> 'h uart6" where
  "PressureUart6_Initialize hal u =
    (let u = u\<lparr>u6_diag := zero_uart6_diagnostics\<rparr>;
         u = u\<lparr>u6_receiver := PressureReceiver_Initialize (u6_receiver u)\<rparr>;
         u = PressureUart6_ConfigurePins u;
         (ok, u) = on_uart6 (hal_Init hal) u
     in if \<not> ok then (False, u)
        else
          (let u = u\<lparr>u6_irq := True\<rparr>;
               (armed, u) = PressureUart6_ArmReceive hal False u
           in if \<not> armed then (False, u\<lparr>u6_irq := False\<rparr>) else (True, u)))"

definition PressureUart6_Reinitialize :: "'h uart_hal \<Rightarrow> 'h uart6 \<Rightarrow> bool \<times> 'h uart6" where
  "PressureUart6_Reinitialize hal u =
    (let u = u\<lparr>u6_irq := False\<rparr>;
         (_, u) = on_uart6 (hal_AbortReceive hal) u;
         (ok, u) = on_uart6 (hal_DeInit hal) u
     in if \<not> ok then (False, u)
        else
          (let (ok, u) = on_uart6 (hal_Init hal) u
           in if \<not> ok then (False, u)
              else
                (let u = u\<lparr>u6_receiver := PressureReceiver_Initialize (u6_receiver u)\<rparr>;
                     u = u\<lparr>u6_irq := True\<rparr>
                 in PressureUart6_ArmReceive hal False u)))"

definition PressureUart6_GetSnapshot :: "'h uart6 \<Rightarrow> PressureReceiverSnapshot" where
  "PressureUart6_GetSnapshot u = PressureReceiver_GetSnapshot (u6_receiver u)"

text \<open>The copy runs with interrupts masked, so it is one step.\<close>

definition PressureUart6_ReadSnapshot :: "'h uart6 \<Rightarrow> PressureReceiverSnapshot" where
  "PressureUart6_ReadSnapshot u = PressureReceiver_GetSnapshot (u6_receiver u)"

definition PressureUart6_HandleRxComplete ::
  "'h uart_hal \<Rightarrow> uart_handle option \<Rightarrow> u32 \<Rightarrow> 'h uart6 \<Rightarrow> bool \<times> 'h uart6" where
  "PressureUart6_HandleRxComplete hal uart tick u =
    (if map_option uh_instance uart \<noteq> Some USART6 then (False, u)
     else
       (let u = diag6 (\<lambda>d. d\<lparr>pd6_rx_complete_count := pd6_rx_complete_count d + 1\<rparr>) u;
            u = u\<lparr>u6_receiver :=
                  PressureReceiver_ProcessBytes (u6_receiver u) (Some [u6_rx_byte u]) 1 tick\<rparr>;
            (armed, u) = PressureUart6_ArmReceive hal False u
        in (True, if \<not> armed then snd (PressureUart6_ArmReceive hal True u) else u)))"

definition PressureUart6_HandleError ::
  "'h uart_hal \<Rightarrow> uart_handle option \<Rightarrow> 'h uart6 \<Rightarrow> bool \<times> 'h uart6" where
  "PressureUart6_HandleError hal uart u =
    (case uart of
       None \<Rightarrow> (False, u)
     | Some h \<Rightarrow>
         (if uh_instance h \<noteq> USART6 then (False, u)
          else
            (let u = diag6 (\<lambda>d. d\<lparr>pd6_error_count := pd6_error_count d + 1,
                       pd6_last_error_code := uh_ErrorCode h, pd6_last_rx_state := uh_RxState h\<rparr>) u;
                 u = (if uh_ErrorCode h AND 8 \<noteq> 0
                      then diag6 (\<lambda>d. d\<lparr>pd6_overrun_error_count := pd6_overrun_error_count d + 1\<rparr>) u else u);
                 u = (if uh_ErrorCode h AND 4 \<noteq> 0
                      then diag6 (\<lambda>d. d\<lparr>pd6_frame_error_count := pd6_frame_error_count d + 1\<rparr>) u else u);
                 u = (if uh_ErrorCode h AND 2 \<noteq> 0
                      then diag6 (\<lambda>d. d\<lparr>pd6_noise_error_count := pd6_noise_error_count d + 1\<rparr>) u else u);
                 u = (if uh_ErrorCode h AND 1 \<noteq> 0
                      then diag6 (\<lambda>d. d\<lparr>pd6_parity_error_count := pd6_parity_error_count d + 1\<rparr>) u else u)
             in (True, snd (PressureUart6_ArmReceive hal True u)))))"

section \<open>The receiver behind the port\<close>

lemma on_uart6_simps [simp]:
  "u6_receiver (snd (on_uart6 f u)) = u6_receiver u" "u6_irq (snd (on_uart6 f u)) = u6_irq u"
  "u6_de (snd (on_uart6 f u)) = u6_de u" "u6_receiver (diag6 g u) = u6_receiver u"
  "u6_irq (diag6 g u) = u6_irq u" "u6_de (diag6 g u) = u6_de u"
  by (simp_all add: on_uart6_def diag6_def case_prod_beta)

lemma ArmReceive_simps [simp]:
  "u6_receiver (snd (PressureUart6_ArmReceive hal b u)) = u6_receiver u"
  "u6_irq (snd (PressureUart6_ArmReceive hal b u)) = u6_irq u"
  "u6_de (snd (PressureUart6_ArmReceive hal b u)) = u6_de u"
  by (simp_all add: PressureUart6_ArmReceive_def Let_def case_prod_beta)

lemma uart6_receiver_ok:
  assumes "receiver_ok (u6_receiver u)"
  shows "receiver_ok (u6_receiver (snd (PressureUart6_HandleRxComplete hal uart t u)))"
    and "receiver_ok (u6_receiver (snd (PressureUart6_HandleError hal uart' u)))"
proof -
  have "receiver_ok (foldl (process_byte t) (u6_receiver u) [u6_rx_byte u])"
    using process_bytes_implements_scan [OF assms] by blast
  then show "receiver_ok (u6_receiver (snd (PressureUart6_HandleRxComplete hal uart t u)))"
    using assms
    by (simp add: PressureUart6_HandleRxComplete_def Let_def case_prod_beta
        PressureReceiver_ProcessBytes_def diag6_def)
  show "receiver_ok (u6_receiver (snd (PressureUart6_HandleError hal uart' u)))"
    using assms by (simp add: PressureUart6_HandleError_def Let_def split: option.split)
qed

lemma uart6_Initialize_ok:
  "fst (PressureUart6_Initialize hal u) \<Longrightarrow> receiver_ok (u6_receiver (snd (PressureUart6_Initialize hal u)))"
  "fst (PressureUart6_Reinitialize hal u) \<Longrightarrow> receiver_ok (u6_receiver (snd (PressureUart6_Reinitialize hal u)))"
  by (auto simp: PressureUart6_Initialize_def PressureUart6_Reinitialize_def Let_def case_prod_beta
      PressureUart6_ConfigurePins_def receiver_ok_initialize split: if_splits)

end
