(* ===== verification/MainLoop.thy ===== *)
theory MainLoop
  imports MachineTiming PressureUart6
begin

text \<open>
  The whole firmware without ForceServo: the boot sequence and the main loop of
  \<^verbatim>\<open>User/main.c\<close> with the interrupt callbacks of \<^verbatim>\<open>User/stm32f4xx_it.c\<close>. The main loop's
  calls are atomic with respect to the interrupts (the data they share is the ingress
  ring, covered access by access in \<open>UartIngress\<close>, and the receiver's snapshot, copied with
  interrupts masked); between any two of them any number of interrupts may run.
\<close>

section \<open>State and interrupts\<close>

record ('e, 'h) firmware =
  fw_runtime :: "'e runtime"
  fw_uart2 :: "'h uart2"
  fw_uart6 :: "'h uart6"

definition on_uart2 :: "('h uart2 \<Rightarrow> 'h uart2) \<Rightarrow> ('e, 'h) firmware \<Rightarrow> ('e, 'h) firmware" where
  "on_uart2 g f = f\<lparr>fw_uart2 := g (fw_uart2 f)\<rparr>"

definition on_fw_uart6 :: "('h uart6 \<Rightarrow> 'h uart6) \<Rightarrow> ('e, 'h) firmware \<Rightarrow> ('e, 'h) firmware" where
  "on_fw_uart6 g f = f\<lparr>fw_uart6 := g (fw_uart6 f)\<rparr>"

definition on_runtime :: "('e runtime \<Rightarrow> 'e runtime) \<Rightarrow> ('e, 'h) firmware \<Rightarrow> ('e, 'h) firmware" where
  "on_runtime g f = f\<lparr>fw_runtime := g (fw_runtime f)\<rparr>"

text \<open>The callbacks of the vendor's driver: each port is asked in turn.\<close>

definition HAL_UART_RxCpltCallback ::
  "'h uart_hal \<Rightarrow> uart_handle option \<Rightarrow> u32 \<Rightarrow> ('e, 'h) firmware \<Rightarrow> ('e, 'h) firmware" where
  "HAL_UART_RxCpltCallback hal uart tick f =
    (let (handled, u6) = PressureUart6_HandleRxComplete hal uart tick (fw_uart6 f);
         f = f\<lparr>fw_uart6 := u6\<rparr>
     in if \<not> handled
        then on_uart2 (\<lambda>u. snd (ModbusUart2_HandleRxComplete hal (map_option uh_instance uart) u)) f
        else f)"

definition HAL_UART_TxCpltCallback ::
  "'h uart_hal \<Rightarrow> uart_handle option \<Rightarrow> ('e, 'h) firmware \<Rightarrow> ('e, 'h) firmware" where
  "HAL_UART_TxCpltCallback hal uart =
    on_uart2 (\<lambda>u. snd (ModbusUart2_HandleTxComplete hal (map_option uh_instance uart) u))"

definition HAL_UART_ErrorCallback ::
  "'h uart_hal \<Rightarrow> uart_handle option \<Rightarrow> ('e, 'h) firmware \<Rightarrow> ('e, 'h) firmware" where
  "HAL_UART_ErrorCallback hal uart f =
    (let (handled, u6) = PressureUart6_HandleError hal uart (fw_uart6 f);
         f = f\<lparr>fw_uart6 := u6\<rparr>
     in if \<not> handled
        then on_uart2 (\<lambda>u. snd (ModbusUart2_HandleError hal (map_option uh_instance uart) u)) f
        else f)"

text \<open>
  An interrupt: the driver stores the received byte and the state of its handle before it
  calls back; \<open>motor_irq\<close> are the interrupts of the motor backend.
\<close>

inductive isr :: "'h uart_hal \<Rightarrow> ('e \<Rightarrow> 'e \<Rightarrow> bool) \<Rightarrow> ('e, 'h) firmware \<Rightarrow> ('e, 'h) firmware \<Rightarrow> bool"
  for hal :: "'h uart_hal" and motor_irq :: "'e \<Rightarrow> 'e \<Rightarrow> bool" where
  rx: "isr hal motor_irq f (HAL_UART_RxCpltCallback hal uart tick
         (on_fw_uart6 (\<lambda>u. u\<lparr>u6_rx_byte := b6, u6_uart := h6\<rparr>)
           (on_uart2 (\<lambda>u. u\<lparr>u2_rx_byte := b2, u2_uart := h2\<rparr>) f)))"
| tx: "isr hal motor_irq f (HAL_UART_TxCpltCallback hal uart (on_uart2 (\<lambda>u. u\<lparr>u2_uart := h2\<rparr>) f))"
| error: "isr hal motor_irq f (HAL_UART_ErrorCallback hal uart
         (on_fw_uart6 (\<lambda>u. u\<lparr>u6_uart := h6\<rparr>) (on_uart2 (\<lambda>u. u\<lparr>u2_uart := h2\<rparr>) f)))"
| motor: "motor_irq (w_exec (rt_world (fw_runtime f))) e \<Longrightarrow>
    isr hal motor_irq f (on_runtime (on_machine (\<lambda>w. w\<lparr>w_exec := e\<rparr>)) f)"

section \<open>The main loop\<close>

definition main_pressure ::
  "build_policy \<Rightarrow> 'e executor \<Rightarrow> u32 \<Rightarrow> ('e, 'h) firmware \<Rightarrow> ('e, 'h) firmware" where
  "main_pressure p ops now_ms f =
    on_runtime (\<lambda>r. snd (ApplicationRuntime_ServicePressure p ops
      (PressureUart6_ReadSnapshot (fw_uart6 f)) now_ms r)) f"

definition main_pending_stop ::
  "build_policy \<Rightarrow> 'e executor \<Rightarrow> u32 \<Rightarrow> ('e, 'h) firmware \<Rightarrow> bool \<times> ('e, 'h) firmware" where
  "main_pending_stop p ops now_ms f =
    (case ModbusUart2_ProcessPendingStop p ops now_ms (fw_uart2 f) (rt_world (fw_runtime f)) of
       (stop_processed, u, w) \<Rightarrow>
         (stop_processed, on_runtime (on_machine (\<lambda>_. w)) (f\<lparr>fw_uart2 := u\<rparr>)))"

definition main_normal_request ::
  "build_policy \<Rightarrow> 'e executor \<Rightarrow> u32 \<Rightarrow> ('e, 'h) firmware \<Rightarrow> ('e, 'h) firmware" where
  "main_normal_request p ops now_ms f =
    (case ModbusUart2_ProcessOneNormalRequest p ops now_ms (fw_uart2 f) (rt_world (fw_runtime f)) of
       (_, u, w) \<Rightarrow> on_runtime (on_machine (\<lambda>_. w)) (f\<lparr>fw_uart2 := u\<rparr>))"

definition main_requests ::
  "build_policy \<Rightarrow> 'e executor \<Rightarrow> u32 \<Rightarrow> ('e, 'h) firmware \<Rightarrow> ('e, 'h) firmware" where
  "main_requests p ops now_ms f =
    (let (stop_processed, f) = main_pending_stop p ops now_ms f
     in if \<not> stop_processed then main_normal_request p ops now_ms f else f)"

text \<open>
  One pass of the loop, as the list of its calls; \<open>t1\<close> is the tick read again for an
  AutoTarget build.
\<close>

definition main_calls ::
  "build_policy \<Rightarrow> 'e executor \<Rightarrow> 'h uart_hal \<Rightarrow> u32 \<Rightarrow> u32
    \<Rightarrow> (('e, 'h) firmware \<Rightarrow> ('e, 'h) firmware) list" where
  "main_calls p ops hal t0 t1 =
    (let now_ms = (if AUTO_TARGET_ENABLED p then t1 else t0)
     in [main_pressure p ops now_ms,
         on_runtime (ApplicationRuntime_ServiceSafety p ops now_ms),
         on_runtime (main_guard_output p ops now_ms),
         on_uart2 (ModbusUart2_ServiceMain hal),
         main_requests p ops now_ms,
         on_runtime (ApplicationRuntime_Tick p ops now_ms),
         on_uart2 (ModbusUart2_ServiceTransmit hal)])"

text \<open>A run of the calls with interrupts before, between and after them.\<close>

inductive pass ::
  "'h uart_hal \<Rightarrow> ('e \<Rightarrow> 'e \<Rightarrow> bool) \<Rightarrow> (('e, 'h) firmware \<Rightarrow> ('e, 'h) firmware) list
    \<Rightarrow> ('e, 'h) firmware \<Rightarrow> ('e, 'h) firmware \<Rightarrow> bool"
  for hal :: "'h uart_hal" and motor_irq :: "'e \<Rightarrow> 'e \<Rightarrow> bool" where
  finish: "(isr hal motor_irq)\<^sup>*\<^sup>* f f' \<Longrightarrow> pass hal motor_irq [] f f'"
| call: "(isr hal motor_irq)\<^sup>*\<^sup>* f f' \<Longrightarrow> pass hal motor_irq gs (g f') f''
    \<Longrightarrow> pass hal motor_irq (g # gs) f f''"

inductive_cases pass_NilE: "pass hal motor_irq [] f f'"
inductive_cases pass_ConsE: "pass hal motor_irq (g # gs) f f'"

inductive loop_reach ::
  "build_policy \<Rightarrow> 'e executor \<Rightarrow> 'h uart_hal \<Rightarrow> ('e \<Rightarrow> 'e \<Rightarrow> bool)
    \<Rightarrow> ('e, 'h) firmware \<Rightarrow> ('e, 'h) firmware \<Rightarrow> bool"
  for p :: build_policy and ops :: "'e executor" and hal :: "'h uart_hal"
    and motor_irq :: "'e \<Rightarrow> 'e \<Rightarrow> bool" where
  start: "loop_reach p ops hal motor_irq f f"
| interrupt: "loop_reach p ops hal motor_irq f f' \<Longrightarrow> isr hal motor_irq f' f''
    \<Longrightarrow> loop_reach p ops hal motor_irq f f''"
| call: "loop_reach p ops hal motor_irq f f' \<Longrightarrow> g \<in> set (main_calls p ops hal t0 t1)
    \<Longrightarrow> loop_reach p ops hal motor_irq f (g f')"

section \<open>Boot\<close>

datatype ('e, 'h) boot_result =
    Safe_idle "('e, 'h) firmware"
  | Running "('e, 'h) firmware"

text \<open>
  \<open>clock_ok\<close> is the answer of the clock setup, \<open>init\<close> the initialisation of the linked
  motor backend; \<open>t0\<close> and \<open>t1\<close> are the two ticks read. Not part of the definition: the early
  disable and \<^verbatim>\<open>HAL_Init\<close> before the clock setup, and \<^verbatim>\<open>SafeBoot_Initialize\<close> between it and the
  motor backend's initialisation. They act on the registers of the motor's pins and timers,
  which theory \<open>SafeBoot\<close> models; here the boot starts in any state \<open>f\<close>.
\<close>

definition main_boot ::
  "build_policy \<Rightarrow> 'e executor \<Rightarrow> ('e \<Rightarrow> MotorResult \<times> 'e) \<Rightarrow> 'h uart_hal \<Rightarrow> bool \<Rightarrow> u32 \<Rightarrow> u32
    \<Rightarrow> ('e, 'h) firmware \<Rightarrow> ('e, 'h) boot_result" where
  "main_boot p ops init hal clock_ok t0 t1 f =
    (if \<not> clock_ok then Safe_idle f
     else
       (let (motor_result, e) = init (w_exec (rt_world (fw_runtime f)));
            f = on_runtime (on_machine (\<lambda>w. w\<lparr>w_exec := e\<rparr>)) f
        in if motor_result \<noteq> MOTOR_RESULT_OK then Safe_idle f
           else
             (let config = (if AUTO_TARGET_ENABLED p then g_sd700_auto_target_machine_config
                            else g_sd700_bench_machine_config);
                  f = on_runtime (ApplicationRuntime_Initialize p ops (Some config) t0) f;
                  (ok, u6) = PressureUart6_Initialize hal (fw_uart6 f);
                  f = f\<lparr>fw_uart6 := u6\<rparr>
              in if \<not> ok then Safe_idle f
                 else
                   (let (ok, u6) = PressureUart6_Reinitialize hal (fw_uart6 f);
                        f = f\<lparr>fw_uart6 := u6\<rparr>
                    in if \<not> ok then Safe_idle f
                       else
                         (let (ok, u2) = ModbusUart2_Initialize hal True (fw_uart2 f);
                              f = f\<lparr>fw_uart2 := u2\<rparr>
                          in if \<not> ok then Safe_idle f
                             else
                               (let f = on_runtime (ApplicationRuntime_CompleteBoot p ops True t1) f
                                in if mc_state (w_ctx (rt_world (fw_runtime f))) \<noteq> IDLE
                                   then Safe_idle f else Running f))))))"

section \<open>The firmware's invariant\<close>

definition firmware_ok ::
  "('e \<Rightarrow> bool) \<Rightarrow> ('e \<Rightarrow> bool) \<Rightarrow> build_policy \<Rightarrow> ('e, 'h) firmware \<Rightarrow> bool" where
  "firmware_ok iv off p f \<longleftrightarrow> rt_ok iv off p (fw_runtime f) \<and> uart2_ok (fw_uart2 f)
    \<and> receiver_ok (u6_receiver (fw_uart6 f))"

lemma firmware_simps [simp]:
  "fw_runtime (on_uart2 a f) = fw_runtime f" "fw_uart2 (on_uart2 a f) = a (fw_uart2 f)"
  "fw_uart6 (on_uart2 a f) = fw_uart6 f"
  "fw_runtime (on_fw_uart6 b f) = fw_runtime f" "fw_uart2 (on_fw_uart6 b f) = fw_uart2 f"
  "fw_uart6 (on_fw_uart6 b f) = b (fw_uart6 f)"
  "fw_runtime (on_runtime c f) = c (fw_runtime f)" "fw_uart2 (on_runtime c f) = fw_uart2 f"
  "fw_uart6 (on_runtime c f) = fw_uart6 f"
  by (simp_all add: on_uart2_def on_fw_uart6_def on_runtime_def)

text \<open>What the motor backend's interrupts must keep.\<close>

locale firmware_motor = motor_executor ops inv off
  for ops :: "'e executor" and inv off +
  fixes motor_irq :: "'e \<Rightarrow> 'e \<Rightarrow> bool"
  assumes irq_inv: "inv e \<Longrightarrow> motor_irq e e' \<Longrightarrow> inv e'"
    and irq_off: "inv e \<Longrightarrow> off e \<Longrightarrow> motor_irq e e' \<Longrightarrow> off e'"
begin

lemma isr_runtime:
  assumes "isr hal motor_irq f f'" "rt_ok inv off p (fw_runtime f)"
  shows "rt_ok inv off p (fw_runtime f')
    \<and> w_ctx (rt_world (fw_runtime f')) = w_ctx (rt_world (fw_runtime f))
    \<and> (off (w_exec (rt_world (fw_runtime f))) \<longrightarrow> off (w_exec (rt_world (fw_runtime f'))))"
  using assms
proof (cases rule: isr.cases)
  case (motor e)
  have "inv (w_exec (rt_world (fw_runtime f)))"
    using assms(2) by (simp add: rt_ok_def machine_ok_def machine_core_def)
  then show ?thesis
    using assms(2) motor irq_inv irq_off
    by (auto simp: rt_ok_def machine_ok_def machine_core_def)
qed (auto simp: HAL_UART_RxCpltCallback_def HAL_UART_TxCpltCallback_def HAL_UART_ErrorCallback_def
    Let_def case_prod_beta)

lemma uart2_ok_driver: "uart2_ok (u\<lparr>u2_uart := h\<rparr>) = uart2_ok u" "uart2_ok (u\<lparr>u2_rx_byte := b\<rparr>) = uart2_ok u"
  by (simp_all add: uart2_ok_def)

lemma isr_ok:
  assumes "isr hal motor_irq f f'" "firmware_ok inv off p f"
  shows "firmware_ok inv off p f'"
proof -
  have "uart2_ok (fw_uart2 f') \<and> receiver_ok (u6_receiver (fw_uart6 f'))"
    using assms(1)
  proof (cases rule: isr.cases)
    case (rx uart tick h6 b6 h2 b2)
    then show ?thesis
      using assms(2) uart6_receiver_ok(1) [of "(fw_uart6 f)\<lparr>u6_rx_byte := b6, u6_uart := h6\<rparr>" hal uart tick]
        uart2_isr_ok(1) [of "(fw_uart2 f)\<lparr>u2_rx_byte := b2, u2_uart := h2\<rparr>" hal]
      by (auto simp: HAL_UART_RxCpltCallback_def Let_def case_prod_beta firmware_ok_def uart2_ok_driver)
  next
    case (tx uart h2)
    then show ?thesis
      using assms(2) uart2_isr_ok(2) [of "(fw_uart2 f)\<lparr>u2_uart := h2\<rparr>" hal]
      by (auto simp: HAL_UART_TxCpltCallback_def firmware_ok_def uart2_ok_driver)
  next
    case (error uart h6 h2)
    then show ?thesis
      using assms(2) uart6_receiver_ok(2) [of "(fw_uart6 f)\<lparr>u6_uart := h6\<rparr>" hal uart]
        uart2_isr_ok(3) [of "(fw_uart2 f)\<lparr>u2_uart := h2\<rparr>" hal]
      by (auto simp: HAL_UART_ErrorCallback_def Let_def case_prod_beta firmware_ok_def uart2_ok_driver)
  next
    case (motor e)
    then show ?thesis using assms(2) by (simp add: firmware_ok_def)
  qed
  then show ?thesis
    using isr_runtime [OF assms(1), of p] assms(2) by (simp add: firmware_ok_def)
qed

lemma isrs_ok: "(isr hal motor_irq)\<^sup>*\<^sup>* f f' \<Longrightarrow> firmware_ok inv off p f \<Longrightarrow> firmware_ok inv off p f'"
  by (induction rule: rtranclp_induct) (auto intro: isr_ok)

lemma isrs_runtime:
  assumes "(isr hal motor_irq)\<^sup>*\<^sup>* f f'" "firmware_ok inv off p f"
  shows "w_ctx (rt_world (fw_runtime f')) = w_ctx (rt_world (fw_runtime f))
    \<and> (off (w_exec (rt_world (fw_runtime f))) \<longrightarrow> off (w_exec (rt_world (fw_runtime f'))))"
  using assms(1)
proof (induction rule: rtranclp_induct)
  case (step g h)
  have "firmware_ok inv off p g" by (rule isrs_ok [OF step.hyps(1) assms(2)])
  then show ?case using isr_runtime [OF step.hyps(2), of p] step.IH by (simp add: firmware_ok_def)
qed simp

lemma runtime_call_ok:
  assumes "firmware_ok inv off p f" "rt_step p ops (fw_runtime f) (g (fw_runtime f))"
  shows "firmware_ok inv off p (on_runtime g f)"
  using assms(1) rt_step_ok [OF assms(2)] by (simp add: firmware_ok_def)

lemma pending_stop_ok:
  assumes "firmware_ok inv off p f"
  shows "firmware_ok inv off p (snd (main_pending_stop p ops t f))"
proof -
  have u: "uart2_ok (fw_uart2 f)" "server_ok (u2_server (fw_uart2 f))"
    "machine_ok inv off p (rt_world (fw_runtime f))"
    using assms by (simp_all add: firmware_ok_def rt_ok_def uart2_ok_def)
  show ?thesis
    using assms requests_keep_port(1) [OF u(1), of p ops t "rt_world (fw_runtime f)"]
      TakeStop_ok [OF u(2,3), of t]
    by (auto simp: main_pending_stop_def ModbusUart2_ProcessPendingStop_def firmware_ok_def rt_ok_def
        on_runtime_def split: prod.splits)
qed

lemma normal_request_ok:
  assumes "firmware_ok inv off p f"
  shows "firmware_ok inv off p (main_normal_request p ops t f)"
proof -
  have u: "uart2_ok (fw_uart2 f)" "server_ok (u2_server (fw_uart2 f))"
    "machine_ok inv off p (rt_world (fw_runtime f))"
    using assms by (simp_all add: firmware_ok_def rt_ok_def uart2_ok_def)
  have "machine_ok inv off p (snd (snd (ModbusUart2_ProcessOneNormalRequest p ops t (fw_uart2 f)
      (rt_world (fw_runtime f)))))"
    using u(3) ProcessPending_ok [OF u(2,3), of t]
    by (auto simp: ModbusUart2_ProcessOneNormalRequest_def server_ok_queries [OF u(2)] Let_def
        split: prod.splits)
  then show ?thesis
    using assms requests_keep_port(2) [OF u(1), of p ops t "rt_world (fw_runtime f)"]
    by (simp add: main_normal_request_def firmware_ok_def rt_ok_def on_runtime_def case_prod_beta)
qed

lemma main_call_ok:
  assumes "g \<in> set (main_calls p ops hal t0 t1)" "firmware_ok inv off p f"
  shows "firmware_ok inv off p (g f)"
proof -
  let ?t = "if AUTO_TARGET_ENABLED p then t1 else t0"
  have main: "uart2_ok (ModbusUart2_ServiceMain hal (fw_uart2 f))"
    "uart2_ok (ModbusUart2_ServiceTransmit hal (fw_uart2 f))"
    using assms(2) by (simp_all add: firmware_ok_def ServiceMain_ok ServiceTransmit_ok)
  have "firmware_ok inv off p (main_pressure p ops ?t f)"
    unfolding main_pressure_def using assms(2) by (rule runtime_call_ok) (rule rt_step.pressure)
  moreover have "firmware_ok inv off p (on_runtime (ApplicationRuntime_ServiceSafety p ops ?t) f)"
    using assms(2) by (rule runtime_call_ok) (rule rt_step.safety)
  moreover have "firmware_ok inv off p (on_runtime (main_guard_output p ops ?t) f)"
    using assms(2) by (rule runtime_call_ok) (rule rt_step.guard)
  moreover have "firmware_ok inv off p (on_runtime (ApplicationRuntime_Tick p ops ?t) f)"
    using assms(2) by (rule runtime_call_ok) (rule rt_step.tick)
  moreover have "firmware_ok inv off p (main_requests p ops t f)" for t
    using pending_stop_ok [OF assms(2), of t] normal_request_ok [OF pending_stop_ok [OF assms(2), of t], of t]
    by (simp add: main_requests_def Let_def case_prod_beta)
  ultimately show ?thesis
    using assms main by (auto simp: main_calls_def Let_def firmware_ok_def)
qed

lemma loop_reach_ok:
  "loop_reach p ops hal motor_irq f f' \<Longrightarrow> firmware_ok inv off p f \<Longrightarrow> firmware_ok inv off p f'"
  by (induction rule: loop_reach.induct) (auto intro: isr_ok main_call_ok)

lemma boot_delivers_none [simp]:
  "rt_delivered_pressure_sequence (ApplicationRuntime_CompleteBoot p ops b t r)
    = rt_delivered_pressure_sequence r"
  "rt_delivered_pressure_sequence (ApplicationRuntime_Initialize p ops cf t r) = 0"
  by (simp_all add: ApplicationRuntime_CompleteBoot_def ApplicationRuntime_Initialize_def)

lemma uart2_boots:
  "fst (ModbusUart2_Initialize hal m u) \<Longrightarrow> \<not> u2_de (snd (ModbusUart2_Initialize hal m u))
    \<and> ingress_queue (u2_ingress (snd (ModbusUart2_Initialize hal m u))) = []
    \<and> ModbusRtuServer_GetResponse (u2_server (snd (ModbusUart2_Initialize hal m u))) = None"
proof -
  have "ModbusRtuServer_GetResponse (ModbusRtuServer_Initialize m) = None" for m
    by (simp add: ModbusRtuServer_Initialize_def ModbusRtuServer_GetResponse_def)
  then show "fst (ModbusUart2_Initialize hal m u) \<Longrightarrow> ?thesis"
    by (auto simp: ModbusUart2_Initialize_def Let_def case_prod_beta ModbusRtuLink_Initialize_def
        uart2_callbacks_def ModbusUart2_ConfigurePins_def ingress_queue_initialize split: if_splits)
qed

lemma boot_ok:
  assumes "\<And>e. fst (init e) = MOTOR_RESULT_OK \<Longrightarrow> inv (snd (init e))"
    and "main_boot p ops init hal clock_ok t0 t1 f = Running f'"
  shows "firmware_ok inv off p f' \<and> mc_state (w_ctx (rt_world (fw_runtime f'))) = IDLE
    \<and> u2_irq (fw_uart2 f') \<and> \<not> u2_de (fw_uart2 f')
    \<and> ingress_queue (u2_ingress (fw_uart2 f')) = []
    \<and> ModbusRtuServer_GetResponse (u2_server (fw_uart2 f')) = None
    \<and> rt_delivered_pressure_sequence (fw_runtime f') = 0
    \<and> clock_ok \<and> fst (init (w_exec (rt_world (fw_runtime f)))) = MOTOR_RESULT_OK"
  using assms(2)
  by (auto simp: main_boot_def Let_def case_prod_beta firmware_ok_def
      intro!: rt_CompleteBoot_ok rt_Initialize_ok assms(1) uart6_Initialize_ok
      dest: uart2_Initialize_ok uart2_boots uart6_Initialize_ok(2) split: if_splits)

section \<open>STOP through the whole firmware\<close>

lemma isr_server: "isr hal motor_irq f f' \<Longrightarrow> u2_server (fw_uart2 f') = u2_server (fw_uart2 f)"
  by (induction rule: isr.induct)
    (auto simp: HAL_UART_RxCpltCallback_def HAL_UART_TxCpltCallback_def HAL_UART_ErrorCallback_def
      ModbusUart2_HandleRxComplete_def ModbusUart2_HandleTxComplete_def ModbusUart2_HandleError_def
      Let_def case_prod_beta)

lemma isrs_server: "(isr hal motor_irq)\<^sup>*\<^sup>* f f' \<Longrightarrow> u2_server (fw_uart2 f') = u2_server (fw_uart2 f)"
  by (induction rule: rtranclp_induct) (auto dest: isr_server)

end

text \<open>
  The bytes received so far, in the ring and in the server's buffer, contain a STOP by the
  parser's specification (or one is latched already).
\<close>

definition stop_arrived :: "('e, 'h) firmware \<Rightarrow> bool" where
  "stop_arrived f \<longleftrightarrow>
    rv_stop (receive (ingress_queue (u2_ingress (fw_uart2 f))) (rx_view_of (u2_server (fw_uart2 f)))) \<noteq> None"

lemma deliver_keeps_stop: "rv_stop v \<noteq> None \<Longrightarrow> rv_stop (deliver e v) \<noteq> None"
  by (cases e) (auto simp: Let_def split: option.splits)

lemma receive_keeps_stop: "rv_stop v \<noteq> None \<Longrightarrow> rv_stop (receive bs v) \<noteq> None"
proof -
  have "rv_stop v \<noteq> None \<Longrightarrow> rv_stop (fold deliver es v) \<noteq> None" for es
    by (induction es arbitrary: v) (simp_all add: deliver_keeps_stop del: not_None_eq)
  then show "rv_stop v \<noteq> None \<Longrightarrow> rv_stop (receive bs v) \<noteq> None"
    by (simp add: receive_def case_prod_beta del: not_None_eq)
qed

lemma stop_arrived_extend:
  assumes "stop_arrived f" "u2_server (fw_uart2 f') = u2_server (fw_uart2 f)"
    "ingress_queue (u2_ingress (fw_uart2 f')) = ingress_queue (u2_ingress (fw_uart2 f)) @ later"
  shows "stop_arrived f'"
  using assms receive_keeps_stop
  by (simp add: stop_arrived_def receive_append del: not_None_eq)

lemma ingress_queue_cong:
  "ui_bytes u = ui_bytes v \<Longrightarrow> ui_write_index u = ui_write_index v \<Longrightarrow> ui_read_index u = ui_read_index v
    \<Longrightarrow> ingress_queue u = ingress_queue v"
  by (simp add: ingress_queue_def)

definition stopped :: "('e \<Rightarrow> bool) \<Rightarrow> 'e world \<Rightarrow> bool" where
  "stopped off w \<longleftrightarrow> mc_state (w_ctx w) \<in> {IDLE, BOOT_SAFE, FAULT}
    \<and> mc_motor_request_sequence (w_ctx w) = 0
    \<and> (off (w_exec w)
       \<or> mc_state (w_ctx w) = FAULT \<and> mc_last_command_result (w_ctx w) = COMMAND_EXECUTOR_FAILED)"

context firmware_motor
begin

lemma isr_stop_arrived:
  assumes "isr hal motor_irq f f'" "firmware_ok inv off p f" "stop_arrived f"
  shows "stop_arrived f'"
proof -
  have i: "ingress_ok (u2_ingress (fw_uart2 f))" using assms(2) by (simp add: firmware_ok_def uart2_ok_def)
  have rearm: "ingress_queue (u2_ingress (record_rearm hal v)) = ingress_queue (u2_ingress v)" for v
    by (rule ingress_queue_cong) simp_all
  have signal: "ingress_queue (ModbusUartIngress_SignalEventFromIsr j e) = ingress_queue j" for j e
    by (rule ingress_queue_cong) (simp_all add: ModbusUartIngress_SignalEventFromIsr_def)
  have push: "\<exists>later. ingress_queue (snd (ModbusUartIngress_PushFromIsr (u2_ingress (fw_uart2 f)) b))
      = ingress_queue (u2_ingress (fw_uart2 f)) @ later" for b
    using ingress_push_spec [OF i, of b] by auto
  have "\<exists>later. ingress_queue (u2_ingress (fw_uart2 f')) = ingress_queue (u2_ingress (fw_uart2 f)) @ later"
    using assms(1) push
    by (cases rule: isr.cases)
      (auto simp: HAL_UART_RxCpltCallback_def HAL_UART_TxCpltCallback_def HAL_UART_ErrorCallback_def
        ModbusUart2_HandleRxComplete_def ModbusUart2_HandleTxComplete_def ModbusUart2_HandleError_def
        Let_def case_prod_beta rearm signal)
  then show ?thesis using stop_arrived_extend [OF assms(3) isr_server [OF assms(1)]] by blast
qed

lemma isrs_stop_arrived:
  assumes "(isr hal motor_irq)\<^sup>*\<^sup>* f f'" "firmware_ok inv off p f" "stop_arrived f"
  shows "stop_arrived f'"
  using assms(1)
proof (induction rule: rtranclp_induct)
  case (step g h)
  then show ?case using isr_stop_arrived isrs_ok [OF step.hyps(1) assms(2)] by blast
qed (rule assms(3))

lemma ServiceMain_latches:
  assumes "firmware_ok inv off p f" "stop_arrived f"
  shows "srv_stop_latched (u2_server (ModbusUart2_ServiceMain hal (fw_uart2 f)))"
proof -
  let ?u = "fw_uart2 f"
  have u: "uart2_ok ?u" using assms(1) by (simp add: firmware_ok_def)
  then have "buffers_ok (u2_server ?u)" "srv_rx_length (u2_server ?u) < 8"
    by (simp_all add: uart2_ok_def server_ok_def)
  from server_bytes_refine [OF this, of "ingress_queue (u2_ingress ?u)"]
  have "rx_view_of (u2_server (after_bytes ?u))
      = receive (ingress_queue (u2_ingress ?u)) (rx_view_of (u2_server ?u))"
    by (simp add: after_bytes_def)
  then have "rv_stop (rx_view_of (u2_server (after_bytes ?u))) \<noteq> None"
    using assms(2) unfolding stop_arrived_def by simp
  then have "srv_stop_latched (u2_server (after_bytes ?u))"
    by (simp add: rx_view_of_def split: if_splits)
  then show ?thesis by (simp add: ServiceMain_ok(3) [OF u])
qed

lemma requests_stop:
  assumes "firmware_ok inv off p f" "srv_stop_latched (u2_server (fw_uart2 f))"
  shows "stopped off (rt_world (fw_runtime (main_requests p ops t f)))"
proof -
  let ?w = "rt_world (fw_runtime f)"
  define stop where "stop = Machine_HandleCommand p ops
    \<lparr>cmd_type = CMD_STOP, cmd_target_pressure_units = 0\<rparr> t ?w"
  have ok: "machine_ok inv off p ?w" and i: "inv (w_exec ?w)"
    using assms(1) by (simp_all add: firmware_ok_def rt_ok_def machine_ok_def machine_core_def)
  have s: "server_ok (u2_server (fw_uart2 f))" "srv_machine (u2_server (fw_uart2 f))"
    using assms(1) by (simp_all add: firmware_ok_def uart2_ok_def)
  have "rt_world (fw_runtime (main_requests p ops t f)) = snd stop"
    using TakeStop_spec [OF s assms(2) refl stop_def]
    by (auto simp: main_requests_def main_pending_stop_def ModbusUart2_ProcessPendingStop_def)
  moreover have "stopped off (snd stop)"
    using Stop_result [OF i, of p t]
    by (auto simp: stopped_def stop_def Machine_HandleCommand_def Let_def case_prod_beta split: if_splits)
  ultimately show ?thesis by simp
qed

lemma stopped_tick: "stopped off w \<Longrightarrow> stopped off (Machine_Tick p ops t w)"
  by (auto simp: stopped_def Machine_Tick_def Let_def)

lemma stopped_isrs:
  assumes "(isr hal motor_irq)\<^sup>*\<^sup>* f f'" "firmware_ok inv off p f" "stopped off (rt_world (fw_runtime f))"
  shows "stopped off (rt_world (fw_runtime f'))"
  using isrs_runtime [OF assms(1,2)] assms(3) by (auto simp: stopped_def)

lemma pass_stops:
  fixes f :: "('e, 'h) firmware"
  assumes "pass hal motor_irq (main_calls p ops hal t0 t1) f f'" "firmware_ok inv off p f" "stop_arrived f"
  shows "firmware_ok inv off p f' \<and> stopped off (rt_world (fw_runtime f'))"
proof -
  define t where "t = (if AUTO_TARGET_ENABLED p then t1 else t0)"
  have calls: "main_calls p ops hal t0 t1 = [main_pressure p ops t,
      on_runtime (ApplicationRuntime_ServiceSafety p ops t), on_runtime (main_guard_output p ops t),
      on_uart2 (ModbusUart2_ServiceMain hal), main_requests p ops t,
      on_runtime (ApplicationRuntime_Tick p ops t), on_uart2 (ModbusUart2_ServiceTransmit hal)]"
    by (simp add: main_calls_def Let_def t_def)
  have ok: "firmware_ok inv off p (g h)" if "g \<in> set (main_calls p ops hal t0 t1)" "firmware_ok inv off p h" for g h
    by (rule main_call_ok [OF that])
  have early: "stop_arrived (on_runtime r h) = stop_arrived h" "stop_arrived (main_pressure p ops t h) = stop_arrived h"
    for h :: "('e, 'h) firmware" and r
    by (simp_all add: stop_arrived_def main_pressure_def)
  obtain f1 f2 f3 f4 f5 f6 f7 where run:
    "(isr hal motor_irq)\<^sup>*\<^sup>* f f1" "(isr hal motor_irq)\<^sup>*\<^sup>* (main_pressure p ops t f1) f2"
    "(isr hal motor_irq)\<^sup>*\<^sup>* (on_runtime (ApplicationRuntime_ServiceSafety p ops t) f2) f3"
    "(isr hal motor_irq)\<^sup>*\<^sup>* (on_runtime (main_guard_output p ops t) f3) f4"
    "(isr hal motor_irq)\<^sup>*\<^sup>* (on_uart2 (ModbusUart2_ServiceMain hal) f4) f5"
    "(isr hal motor_irq)\<^sup>*\<^sup>* (main_requests p ops t f5) f6"
    "(isr hal motor_irq)\<^sup>*\<^sup>* (on_runtime (ApplicationRuntime_Tick p ops t) f6) f7"
    "(isr hal motor_irq)\<^sup>*\<^sup>* (on_uart2 (ModbusUart2_ServiceTransmit hal) f7) f'"
    using assms(1) unfolding calls by (elim pass_ConsE pass_NilE) blast
  have ok1: "firmware_ok inv off p f1" and a1: "stop_arrived f1"
    using isrs_ok [OF run(1) assms(2)] isrs_stop_arrived [OF run(1) assms(2,3)] .
  have k1: "firmware_ok inv off p (main_pressure p ops t f1)" by (rule ok [OF _ ok1]) (simp add: calls)
  have ok2: "firmware_ok inv off p f2" and a2: "stop_arrived f2"
    using isrs_ok [OF run(2) k1] isrs_stop_arrived [OF run(2) k1] a1 by (simp_all add: early)
  have k2: "firmware_ok inv off p (on_runtime (ApplicationRuntime_ServiceSafety p ops t) f2)"
    by (rule ok [OF _ ok2]) (simp add: calls)
  have ok3: "firmware_ok inv off p f3" and a3: "stop_arrived f3"
    using isrs_ok [OF run(3) k2] isrs_stop_arrived [OF run(3) k2] a2 by (simp_all add: early)
  have k3: "firmware_ok inv off p (on_runtime (main_guard_output p ops t) f3)"
    by (rule ok [OF _ ok3]) (simp add: calls)
  have ok4: "firmware_ok inv off p f4" and a4: "stop_arrived f4"
    using isrs_ok [OF run(4) k3] isrs_stop_arrived [OF run(4) k3] a3 by (simp_all add: early)
  have k4: "firmware_ok inv off p (on_uart2 (ModbusUart2_ServiceMain hal) f4)"
    by (rule ok [OF _ ok4]) (simp add: calls)
  have ok5: "firmware_ok inv off p f5" by (rule isrs_ok [OF run(5) k4])
  have "srv_stop_latched (u2_server (fw_uart2 f5))"
    using isrs_server [OF run(5)] ServiceMain_latches [OF ok4 a4] by simp
  then have s5: "stopped off (rt_world (fw_runtime (main_requests p ops t f5)))"
    by (rule requests_stop [OF ok5])
  have k5: "firmware_ok inv off p (main_requests p ops t f5)" by (rule ok [OF _ ok5]) (simp add: calls)
  have ok6: "firmware_ok inv off p f6" and s6: "stopped off (rt_world (fw_runtime f6))"
    using isrs_ok [OF run(6) k5] stopped_isrs [OF run(6) k5 s5] .
  have k6: "firmware_ok inv off p (on_runtime (ApplicationRuntime_Tick p ops t) f6)"
    by (rule ok [OF _ ok6]) (simp add: calls)
  have "stopped off (rt_world (fw_runtime (on_runtime (ApplicationRuntime_Tick p ops t) f6)))"
    using stopped_tick [OF s6] by (simp add: ApplicationRuntime_Tick_def)
  then have ok7: "firmware_ok inv off p f7" and s7: "stopped off (rt_world (fw_runtime f7))"
    using isrs_ok [OF run(7) k6] stopped_isrs [OF run(7) k6] by blast+
  have k7: "firmware_ok inv off p (on_uart2 (ModbusUart2_ServiceTransmit hal) f7)"
    by (rule ok [OF _ ok7]) (simp add: calls)
  show ?thesis
    using isrs_ok [OF run(8) k7] stopped_isrs [OF run(8) k7] s7 by simp
qed

end

section \<open>A driver that always succeeds\<close>

definition ready_hal :: "unit uart_hal" where
  "ready_hal = \<lparr>hal_Init = Pair True, hal_DeInit = Pair True, hal_AbortReceive = Pair True,
     hal_Transmit_IT = (\<lambda>_. Pair True), hal_Receive_IT = Pair True\<rparr>"

lemma ready_hal_simps:
  "fst (PressureUart6_Initialize ready_hal u6)" "fst (PressureUart6_Reinitialize ready_hal u6)"
  "fst (ModbusUart2_Initialize ready_hal True u2)"
  "u2_server (snd (ModbusUart2_Initialize ready_hal True u2)) = ModbusRtuServer_Initialize True"
  "u2_ingress (snd (ModbusUart2_Initialize ready_hal True u2)) = ModbusUartIngress_Initialize (u2_ingress u2)"
  by (simp_all add: PressureUart6_Initialize_def PressureUart6_Reinitialize_def ModbusUart2_Initialize_def
      PressureUart6_ArmReceive_def Let_def case_prod_beta ready_hal_def on_uart6_def on_uart_def
      ModbusRtuLink_Initialize_def uart2_callbacks_def ModbusUart2_SetDriverEnable_def
      ModbusUart2_ConfigurePins_def)

text \<open>Bytes that arrive one by one, on a driver that always succeeds.\<close>

definition listening :: "u8 list \<Rightarrow> ('e, unit) firmware \<Rightarrow> bool" where
  "listening q f \<longleftrightarrow> ingress_queue (u2_ingress (fw_uart2 f)) = q
    \<and> ui_event_flags (u2_ingress (fw_uart2 f)) = 0
    \<and> u2_server (fw_uart2 f) = ModbusRtuServer_Initialize True
    \<and> \<not> rl_transmit_active (u2_link (fw_uart2 f))"

context firmware_motor
begin

lemma receive_byte:
  assumes "firmware_ok inv off p f" "listening q f" "length q < 63"
  shows "\<exists>f'. isr ready_hal motor_irq f f' \<and> listening (q @ [b]) f'"
proof -
  define f1 where "f1 = on_fw_uart6 (\<lambda>u. u\<lparr>u6_rx_byte := 0, u6_uart := ()\<rparr>)
      (on_uart2 (\<lambda>u. u\<lparr>u2_rx_byte := b, u2_uart := ()\<rparr>) f)"
  define h where "h = Some \<lparr>uh_instance = USART2, uh_ErrorCode = 0, uh_RxState = 0\<rparr>"
  have "isr ready_hal motor_irq f (HAL_UART_RxCpltCallback ready_hal h 0 f1)"
    unfolding f1_def by (rule isr.rx)
  moreover have "listening (q @ [b]) (HAL_UART_RxCpltCallback ready_hal h 0 f1)"
  proof -
    have i: "ingress_ok (u2_ingress (fw_uart2 f))"
      using assms(1) by (simp add: firmware_ok_def uart2_ok_def)
    have rearm: "ingress_queue (u2_ingress (record_rearm ready_hal v)) = ingress_queue (u2_ingress v)" for v
      by (rule ingress_queue_cong) simp_all
    have flags: "ui_event_flags (snd (ModbusUartIngress_PushFromIsr j c)) = ui_event_flags j" for j c
      by (simp add: ModbusUartIngress_PushFromIsr_def Let_def)
    show ?thesis
      using assms(2,3) ingress_push_spec [OF i, of b]
      by (simp add: HAL_UART_RxCpltCallback_def PressureUart6_HandleRxComplete_def h_def f1_def listening_def
          ModbusUart2_HandleRxComplete_def rearm flags)
  qed
  ultimately show ?thesis by blast
qed

lemma receive_bytes:
  assumes "loop_reach p ops ready_hal motor_irq f0 f"
    "firmware_ok inv off p f0" "listening q f" "length q + length bs \<le> 63"
  shows "\<exists>f'. loop_reach p ops ready_hal motor_irq f0 f' \<and> listening (q @ bs) f'"
  using assms(1,3,4)
proof (induction bs arbitrary: f q)
  case (Cons b bs)
  have "firmware_ok inv off p f"
    by (rule loop_reach_ok [OF Cons.prems(1) assms(2)])
  then obtain f1 where f1: "isr ready_hal motor_irq f f1" "listening (q @ [b]) f1"
    using receive_byte [of p f q b] Cons.prems by auto
  have "loop_reach p ops ready_hal motor_irq f0 f1"
    by (rule loop_reach.interrupt [OF Cons.prems(1) f1(1)])
  then show ?case using Cons.IH [OF _ f1(2)] Cons.prems(3) by simp
qed auto

end

section \<open>The locked firmware\<close>

interpretation locked_fw: firmware_motor locked_ops locked_ok locked_off "\<lambda>_ _. False"
  by unfold_locales simp_all

definition reset_firmware :: "(locked_executor, unit) firmware" where
  "reset_firmware = \<lparr>fw_runtime = locked_runtime\<lparr>rt_world := locked_world\<lparr>w_exec := undefined\<rparr>\<rparr>,
     fw_uart2 = undefined, fw_uart6 = undefined\<rparr>"

lemma locked_boots:
  "\<exists>f. main_boot locked_policy locked_ops Locked_Initialize ready_hal True 1 5 reset_firmware = Running f
    \<and> ingress_queue (u2_ingress (fw_uart2 f)) = [] \<and> u2_server (fw_uart2 f) = ModbusRtuServer_Initialize True
    \<and> ui_event_flags (u2_ingress (fw_uart2 f)) = 0"
proof -
  have init: "fst (Locked_Initialize e) = MOTOR_RESULT_OK" for e
    by (simp add: Locked_Initialize_def Let_def)
  have world: "on_machine (\<lambda>w. w\<lparr>w_exec := snd (Locked_Initialize (w_exec (rt_world
      (fw_runtime reset_firmware))))\<rparr>) (fw_runtime reset_firmware) = locked_runtime"
    by (simp add: reset_firmware_def locked_runtime_def locked_world_def on_machine_def)
  have auto: "\<not> AUTO_TARGET_ENABLED locked_policy" by (simp add: AUTO_TARGET_ENABLED_def locked_policy_def)
  show ?thesis
    by (simp add: main_boot_def Let_def case_prod_beta init world auto ready_hal_simps
        locked_boot_idle ingress_queue_initialize)
      (simp add: ModbusUartIngress_Initialize_def)
qed

section \<open>Properties\<close>

lemma sendable_body:
  assumes "sendable bs"
  shows "\<exists>body. bs = crc_frame body \<and> body ! 0 = 1"
proof (intro exI conjI)
  show "bs = crc_frame (take (length bs - 2) bs)" using assms unfolding sendable_def by blast
  show "take (length bs - 2) bs ! 0 = 1" using assms by (simp add: sendable_def)
qed

text \<open>C20: The boot sequence ends in the main loop or in the safe idle loop, and in the main
  loop only with everything in order: the machine idle with no fault, a validated
  profile and the motor output off, the Modbus port listening with its driver off, no
  request pending and no sample delivered.\<close>

theorem boot_reaches_safe_loop:
  assumes "motor_executor ops iv off" "\<forall>e. fst (init e) = MOTOR_RESULT_OK \<longrightarrow> iv (snd (init e))"
    and "main_boot p ops init hal clock_ok t0 t1 f = Running f'"
  shows "clock_ok \<and> fst (init (w_exec (rt_world (fw_runtime f)))) = MOTOR_RESULT_OK
    \<and> mc_state (w_ctx (rt_world (fw_runtime f'))) = IDLE
    \<and> mc_fault (w_ctx (rt_world (fw_runtime f'))) = FAULT_NONE
    \<and> off (w_exec (rt_world (fw_runtime f')))
    \<and> Machine_ConfigIsValid p (Some (mc_config (w_ctx (rt_world (fw_runtime f')))))
    \<and> rt_delivered_pressure_sequence (fw_runtime f') = 0
    \<and> u2_irq (fw_uart2 f') \<and> \<not> u2_de (fw_uart2 f')
    \<and> ingress_queue (u2_ingress (fw_uart2 f')) = []
    \<and> ModbusRtuServer_GetResponse (u2_server (fw_uart2 f')) = None"
proof -
  have "firmware_motor ops iv off (\<lambda>_ _. False)"
    using assms(1) by (intro firmware_motor.intro firmware_motor_axioms.intro) simp_all
  from firmware_motor.boot_ok [OF this _ assms(3)] assms(2)
  have B: "firmware_ok iv off p f'" "mc_state (w_ctx (rt_world (fw_runtime f'))) = IDLE"
    "u2_irq (fw_uart2 f')" "\<not> u2_de (fw_uart2 f')" "ingress_queue (u2_ingress (fw_uart2 f')) = []"
    "ModbusRtuServer_GetResponse (u2_server (fw_uart2 f')) = None"
    "rt_delivered_pressure_sequence (fw_runtime f') = 0"
    "clock_ok" "fst (init (w_exec (rt_world (fw_runtime f)))) = MOTOR_RESULT_OK"
    by blast+
  have "machine_ok iv off p (rt_world (fw_runtime f'))"
    using B(1) by (simp add: firmware_ok_def rt_ok_def)
  with B show ?thesis
    by (simp add: machine_ok_def machine_core_def ctx_base_def state_ok_def output_off_state_def)
qed

theorem boot_reaches_safe_loop_witness:
  "\<exists>f'. main_boot locked_policy locked_ops Locked_Initialize ready_hal True 1 5 reset_firmware = Running f'
    \<and> mc_state (w_ctx (rt_world (fw_runtime f'))) = IDLE \<and> locked_off (w_exec (rt_world (fw_runtime f')))
    \<and> \<not> u2_de (fw_uart2 f')"
proof -
  obtain f' where f': "main_boot locked_policy locked_ops Locked_Initialize ready_hal True 1 5 reset_firmware
      = Running f'" using locked_boots by blast
  show ?thesis
    using boot_reaches_safe_loop [OF locked.motor_executor_axioms _ f'] f' locked_ok_initialize by blast
qed

text \<open>C6: In the running firmware, whatever the interrupts between the calls of the main loop,
  their bytes and their times: the machine is in \<open>FAULT\<close> exactly with a recorded fault and
  has its motor output off while idle, settling or holding; the RS-485 driver is on only
  during a transmission; what is transmitted is a response of this station with a valid
  CRC, inside its 32-byte buffer; and no receive buffer or queue exceeds its size.\<close>

theorem running_firmware_is_safe:
  assumes "firmware_motor ops iv off motor_irq"
    and "\<forall>e. fst (init e) = MOTOR_RESULT_OK \<longrightarrow> iv (snd (init e))"
    and "main_boot p ops init hal clock_ok t0 t1 r = Running f0"
    and "loop_reach p ops hal motor_irq f0 f"
  shows "(mc_state (w_ctx (rt_world (fw_runtime f))) = FAULT
      \<longleftrightarrow> mc_fault (w_ctx (rt_world (fw_runtime f))) \<noteq> FAULT_NONE)
    \<and> (mc_state (w_ctx (rt_world (fw_runtime f))) \<in> {IDLE, AUTO_SETTLE, AUTO_HOLD} \<longrightarrow>
        off (w_exec (rt_world (fw_runtime f))))
    \<and> (u2_de (fw_uart2 f) \<longrightarrow> rl_transmit_active (u2_link (fw_uart2 f)))
    \<and> (rl_transmit_active (u2_link (fw_uart2 f)) \<longrightarrow>
        (\<exists>bytes n body. ModbusRtuServer_GetResponse (u2_server (fw_uart2 f)) = Some (bytes, n)
          \<and> n \<le> length bytes \<and> length bytes = 32 \<and> take n bytes = crc_frame body \<and> body ! 0 = 1))
    \<and> srv_rx_length (u2_server (fw_uart2 f)) < 8
    \<and> srv_request_count (u2_server (fw_uart2 f)) \<le> 4
    \<and> pr_frame_length (u6_receiver (fw_uart6 f)) < 7"
proof -
  have ok: "firmware_ok iv off p f"
    using firmware_motor.boot_ok [OF assms(1) _ assms(3)] assms(2) firmware_motor.loop_reach_ok [OF assms(1) assms(4)] by blast
  have m: "machine_ok iv off p (rt_world (fw_runtime f))" and u: "uart2_ok (fw_uart2 f)"
    and s: "server_ok (u2_server (fw_uart2 f))"
    using ok by (simp_all add: firmware_ok_def rt_ok_def uart2_ok_def)
  have frame: "\<exists>bytes n body. ModbusRtuServer_GetResponse (u2_server (fw_uart2 f)) = Some (bytes, n)
      \<and> n \<le> length bytes \<and> length bytes = 32 \<and> take n bytes = crc_frame body \<and> body ! 0 = 1"
    if "rl_transmit_active (u2_link (fw_uart2 f))"
  proof -
    let ?s = "u2_server (fw_uart2 f)" and ?n = "srv_response_length (u2_server (fw_uart2 f))"
    have p: "srv_response_pending ?s" using that u by (simp add: uart2_ok_def)
    have b: "?n \<le> 32" "length (srv_response ?s) = 32" "sendable (take ?n (srv_response ?s))"
      using s p by (simp_all add: server_ok_def replies_ok_def buffers_ok_def)
    obtain body where "take ?n (srv_response ?s) = crc_frame body" "body ! 0 = 1"
      using sendable_body [OF b(3)] by blast
    then show ?thesis using p b by (auto simp: ModbusRtuServer_GetResponse_def)
  qed
  have "receiver_ok (u6_receiver (fw_uart6 f))" using ok by (simp add: firmware_ok_def)
  then show ?thesis
    using m u s frame
    by (auto simp: machine_ok_def state_ok_def output_off_state_def uart2_ok_def server_ok_def
        buffers_ok_def receiver_ok_def)
qed

theorem running_firmware_is_safe_witness:
  "\<exists>f0. main_boot locked_policy locked_ops Locked_Initialize ready_hal True 1 5 reset_firmware = Running f0
    \<and> (mc_state (w_ctx (rt_world (fw_runtime (HAL_UART_TxCpltCallback ready_hal None f0)))) = FAULT
      \<longleftrightarrow> mc_fault (w_ctx (rt_world (fw_runtime (HAL_UART_TxCpltCallback ready_hal None f0)))) \<noteq> FAULT_NONE)"
proof -
  obtain f0 where f0: "main_boot locked_policy locked_ops Locked_Initialize ready_hal True 1 5 reset_firmware
      = Running f0" using locked_boots by blast
  have same: "on_uart2 (\<lambda>u. u\<lparr>u2_uart := ()\<rparr>) f0 = f0" by (simp add: on_uart2_def)
  have "loop_reach locked_policy locked_ops ready_hal (\<lambda>_ _. False) f0 (HAL_UART_TxCpltCallback ready_hal None f0)"
    using loop_reach.interrupt [OF loop_reach.start isr.tx [of ready_hal "\<lambda>_ _. False" f0 None "()"]]
    unfolding same .
  then show ?thesis
    using running_firmware_is_safe [OF locked_fw.firmware_motor_axioms _ f0] f0 locked_ok_initialize by blast
qed

text \<open>C19: The bytes being sent do not change under the sender: while a transmission is active,
  no interrupt and no call of the main loop alters the response or its length, until the
  end of that transmission.\<close>

theorem outstanding_response_is_stable:
  assumes "firmware_motor ops iv off motor_irq"
    and "\<forall>e. fst (init e) = MOTOR_RESULT_OK \<longrightarrow> iv (snd (init e))"
    and "main_boot p ops init hal clock_ok t0 t1 r = Running f0"
    and "loop_reach p ops hal motor_irq f0 f"
    and "isr hal motor_irq f f' \<or> (\<exists>g t t'. g \<in> set (main_calls p ops hal t t') \<and> f' = g f)"
    and "rl_transmit_active (u2_link (fw_uart2 f))" "rl_transmit_active (u2_link (fw_uart2 f'))"
  shows "ModbusRtuServer_GetResponse (u2_server (fw_uart2 f'))
    = ModbusRtuServer_GetResponse (u2_server (fw_uart2 f))"
proof -
  have ok: "firmware_ok iv off p f"
    using firmware_motor.boot_ok [OF assms(1) _ assms(3)] assms(2) firmware_motor.loop_reach_ok [OF assms(1) assms(4)] by blast
  then have u: "uart2_ok (fw_uart2 f)" by (simp add: firmware_ok_def)
  then have pend: "srv_response_pending (u2_server (fw_uart2 f))"
    using assms(6) by (simp add: uart2_ok_def)
  have i: "ingress_ok (u2_ingress (fw_uart2 f))" using u by (simp add: uart2_ok_def)
  have "same_response (u2_server (fw_uart2 f)) (u2_server (fw_uart2 f'))"
  proof (rule disjE [OF assms(5)])
    assume "isr hal motor_irq f f'"
    then show ?thesis using firmware_motor.isr_server [OF assms(1), of hal f f'] by (simp add: same_response_def)
  next
    assume "\<exists>g t t'. g \<in> set (main_calls p ops hal t t') \<and> f' = g f"
    then obtain g t t' where g: "g \<in> set (main_calls p ops hal t t')" "f' = g f" by blast
    have trans: "same_response a b \<Longrightarrow> same_response b c \<Longrightarrow> same_response a c" for a b c
      by (auto simp: same_response_def)
    have stop: "same_response (u2_server (fw_uart2 h)) (u2_server (fw_uart2 (snd (main_pending_stop p ops n h))))"
      "same_response (u2_server (fw_uart2 h)) (u2_server (fw_uart2 (main_normal_request p ops n h)))"
      if "firmware_ok iv off p h" for h n
      using that requests_keep_port(3,4) [of "fw_uart2 h" p ops n "rt_world (fw_runtime h)"]
      by (simp_all add: main_pending_stop_def main_normal_request_def firmware_ok_def case_prod_beta on_runtime_def)
    have reqs: "same_response (u2_server (fw_uart2 f)) (u2_server (fw_uart2 (main_requests p ops n f)))" for n
      using stop(1) [OF ok] trans [OF stop(1) [OF ok] stop(2) [OF firmware_motor.pending_stop_ok [OF assms(1) ok]]]
      by (simp add: main_requests_def Let_def case_prod_beta)
    have main: "same_response (u2_server (fw_uart2 f)) (u2_server (ModbusUart2_ServiceMain hal (fw_uart2 f)))"
      if "rl_transmit_active (u2_link (ModbusUart2_ServiceMain hal (fw_uart2 f)))"
      using that after_bytes_ok(5) [OF u] after_bytes_ok(1) [OF u]
      by (auto simp: ServiceMain_split [OF i] Let_def ModbusRtuLink_OnTransmitComplete_def uart2_ok_def
          case_prod_beta same_response_def same_reply_def split: if_splits)
    show ?thesis
      using g assms(7) reqs main ServiceTransmit_ok(3) [OF u]
      by (auto simp: main_calls_def Let_def main_pressure_def same_response_def)
  qed
  then show ?thesis using pend by (simp add: same_response_def ModbusRtuServer_GetResponse_def)
qed

section \<open>A run of the locked firmware\<close>

lemma locked_listens:
  assumes "length bs \<le> 63"
  shows "\<exists>f0 f. main_boot locked_policy locked_ops Locked_Initialize ready_hal True 1 5 reset_firmware = Running f0
    \<and> firmware_ok locked_ok locked_off locked_policy f0
    \<and> loop_reach locked_policy locked_ops ready_hal (\<lambda>_ _. False) f0 f \<and> listening bs f"
proof -
  obtain f0 where f0: "main_boot locked_policy locked_ops Locked_Initialize ready_hal True 1 5 reset_firmware = Running f0"
    "ingress_queue (u2_ingress (fw_uart2 f0)) = []" "u2_server (fw_uart2 f0) = ModbusRtuServer_Initialize True"
    "ui_event_flags (u2_ingress (fw_uart2 f0)) = 0"
    using locked_boots by blast
  have ok: "firmware_ok locked_ok locked_off locked_policy f0"
    using locked_fw.boot_ok [OF _ f0(1)] locked_ok_initialize by blast
  have "\<not> srv_response_pending (u2_server (fw_uart2 f0))"
    using f0(3) by (simp add: ModbusRtuServer_Initialize_def)
  then have "listening [] f0"
    using f0 ok by (auto simp: listening_def firmware_ok_def uart2_ok_def)
  then show ?thesis
    using locked_fw.receive_bytes [OF loop_reach.start ok, of "[]" bs] assms f0(1) ok by auto
qed

lemma locked_sends:
  "\<exists>f0 f. main_boot locked_policy locked_ops Locked_Initialize ready_hal True 1 5 reset_firmware = Running f0
    \<and> loop_reach locked_policy locked_ops ready_hal (\<lambda>_ _. False) f0 f
    \<and> rl_transmit_active (u2_link (fw_uart2 f))"
proof -
  let ?reach = "loop_reach locked_policy locked_ops ready_hal (\<lambda>_ _. False)"
  have "length read_state_frame \<le> 63" by (simp add: read_state_frame_def)
  from locked_listens [OF this] obtain f0 f1 where f1:
    "main_boot locked_policy locked_ops Locked_Initialize ready_hal True 1 5 reset_firmware = Running f0"
    "firmware_ok locked_ok locked_off locked_policy f0" "?reach f0 f1" "listening read_state_frame f1" by blast
  have no_auto: "\<not> AUTO_TARGET_ENABLED locked_policy" by (simp add: AUTO_TARGET_ENABLED_def locked_policy_def)
  have calls: "on_uart2 (ModbusUart2_ServiceMain ready_hal) \<in> set (main_calls locked_policy locked_ops ready_hal 7 7)"
    "main_requests locked_policy locked_ops 7 \<in> set (main_calls locked_policy locked_ops ready_hal 7 7)"
    "on_uart2 (ModbusUart2_ServiceTransmit ready_hal) \<in> set (main_calls locked_policy locked_ops ready_hal 7 7)"
    by (simp_all add: main_calls_def Let_def no_auto)
  define f2 where "f2 = on_uart2 (ModbusUart2_ServiceMain ready_hal) f1"
  define f3 where "f3 = main_requests locked_policy locked_ops 7 f2"
  define f4 where "f4 = on_uart2 (ModbusUart2_ServiceTransmit ready_hal) f3"
  have r2: "?reach f0 f2" unfolding f2_def by (rule loop_reach.call [OF f1(3) calls(1)])
  have r3: "?reach f0 f3" unfolding f3_def by (rule loop_reach.call [OF r2 calls(2)])
  have r4: "?reach f0 f4" unfolding f4_def by (rule loop_reach.call [OF r3 calls(3)])
  have i: "ingress_ok (u2_ingress (fw_uart2 f1))"
    using locked_fw.loop_reach_ok [OF f1(3,2)] by (simp add: firmware_ok_def uart2_ok_def)
  have s2: "u2_server (fw_uart2 f2) = receiving read_state_frame" "\<not> rl_transmit_active (u2_link (fw_uart2 f2))"
    using f1(4)
    by (simp_all add: f2_def ServiceMain_split [OF i] Let_def listening_def after_bytes_def receiving_def
        ModbusRtuServer_ProcessBytes_def)
  let ?w = "rt_world (fw_runtime f2)"
  obtain s3 where s3: "ModbusRtuServer_ProcessPending locked_policy locked_ops 7 (receiving read_state_frame) ?w
      = (True, s3, snd (reply locked_policy locked_ops read_state_frame 7 ?w))"
    "answers (take_front (receiving read_state_frame)) (fst (reply locked_policy locked_ops read_state_frame 7 ?w)) s3"
    using ProcessPending_answers [OF receiving_ok(1,2) receiving_read_state(4) receiving_ok(3)]
      receiving_read_state(2,3) by (metis One_nat_def nat.distinct(2))
  have "u2_server (fw_uart2 f3) = s3" "u2_link (fw_uart2 f3) = u2_link (fw_uart2 f2)"
    using s2 s3(1) receiving_read_state
    by (simp_all add: f3_def main_requests_def main_pending_stop_def main_normal_request_def Let_def
        ModbusUart2_ProcessPendingStop_def ModbusUart2_ProcessOneNormalRequest_def on_runtime_def
        TakeStop_refuses [OF receiving_ok(1)] server_ok_queries [OF receiving_ok(1)])
  moreover have "5 \<le> length (fst (reply locked_policy locked_ops read_state_frame 7 ?w))"
    "length (fst (reply locked_policy locked_ops read_state_frame 7 ?w)) \<le> 27"
    using reply_sendable [OF receiving_read_state(1)] unfolding sendable_def by blast+
  moreover have "rl_server (u2_link (fw_uart2 f3)) \<and> rl_set_driver_enable (u2_link (fw_uart2 f3))
      \<and> rl_start_transmit (u2_link (fw_uart2 f3))"
    using locked_fw.loop_reach_ok [OF r3 f1(2)] by (simp add: firmware_ok_def uart2_ok_def)
  ultimately have "rl_transmit_active (u2_link (fw_uart2 f4))"
    using s2(2) s3(2)
    by (auto simp: f4_def ModbusUart2_ServiceTransmit_def ModbusRtuLink_Service_def
        ModbusRtuServer_GetResponse_def answers_def reply_ready_def uart2_callbacks_def Let_def
        ModbusUart2_StartTransmit_def ready_hal_def on_uart_def)
  with r4 f1(1) show ?thesis by blast
qed

theorem outstanding_response_is_stable_witness:
  "\<exists>f. rl_transmit_active (u2_link (fw_uart2 f))
    \<and> ModbusRtuServer_GetResponse (u2_server (fw_uart2
        (on_runtime (ApplicationRuntime_Tick locked_policy locked_ops 7) f)))
      = ModbusRtuServer_GetResponse (u2_server (fw_uart2 (f :: (locked_executor, unit) firmware)))"
proof -
  obtain f0 f where f: "main_boot locked_policy locked_ops Locked_Initialize ready_hal True 1 5 reset_firmware
      = Running f0" "loop_reach locked_policy locked_ops ready_hal (\<lambda>_ _. False) f0 f"
    "rl_transmit_active (u2_link (fw_uart2 f))"
    using locked_sends by blast
  have "on_runtime (ApplicationRuntime_Tick locked_policy locked_ops 7)
      \<in> set (main_calls locked_policy locked_ops ready_hal 7 7)"
    by (simp add: main_calls_def Let_def)
  then show ?thesis
    using outstanding_response_is_stable [OF locked_fw.firmware_motor_axioms _ f(1,2) _ f(3),
        of "on_runtime (ApplicationRuntime_Tick locked_policy locked_ops 7) f"]
      f(3) locked_ok_initialize by (intro exI [of _ f] conjI) auto
qed

text \<open>C5: A STOP takes effect within one pass of the main loop: if the bytes that have arrived
  (in the ring or in the server's buffer) contain a STOP request, then after one pass, with
  any interrupts before, between and after its calls, the machine is idle, in boot or in
  \<open>FAULT\<close>, has no pending motor request, and the motor output is off - or the machine is
  in \<open>FAULT\<close> because the motor backend failed to turn it off.\<close>

theorem stop_within_one_pass:
  assumes "firmware_motor ops iv off motor_irq"
    and "\<forall>e. fst (init e) = MOTOR_RESULT_OK \<longrightarrow> iv (snd (init e))"
    and "main_boot p ops init hal clock_ok t0 t1 r = Running f0"
    and "loop_reach p ops hal motor_irq f0 f" "stop_arrived f"
    and "pass hal motor_irq (main_calls p ops hal t t') f f'"
  shows "mc_state (w_ctx (rt_world (fw_runtime f'))) \<in> {IDLE, BOOT_SAFE, FAULT}
    \<and> mc_motor_request_sequence (w_ctx (rt_world (fw_runtime f'))) = 0
    \<and> (off (w_exec (rt_world (fw_runtime f')))
       \<or> mc_state (w_ctx (rt_world (fw_runtime f'))) = FAULT
         \<and> mc_last_command_result (w_ctx (rt_world (fw_runtime f'))) = COMMAND_EXECUTOR_FAILED)"
proof -
  have "firmware_ok iv off p f"
    using firmware_motor.boot_ok [OF assms(1) _ assms(3)] assms(2) firmware_motor.loop_reach_ok [OF assms(1) assms(4)] by blast
  from firmware_motor.pass_stops [OF assms(1) assms(6) this assms(5)] show ?thesis by (simp add: stopped_def)
qed

lemma pass_exists: "\<exists>f'. pass hal motor_irq gs f f'"
  by (induction gs arbitrary: f) (blast intro: pass.intros)+

lemma listening_stop:
  assumes "listening stop_frame f"
  shows "stop_arrived f"
proof -
  have "rx_view_of (receiving stop_frame) = receive stop_frame (rx_view_of (ModbusRtuServer_Initialize True))"
    using server_bytes_refine [OF server_Initialize_ok(1,2), of stop_frame True]
    by (simp add: receiving_def ModbusRtuServer_ProcessBytes_def)
  moreover have "rv_stop (rx_view_of (receiving stop_frame)) \<noteq> None"
    using receiving_stop(1) by (simp add: rx_view_of_def)
  ultimately show ?thesis using assms by (simp add: stop_arrived_def listening_def)
qed

theorem stop_within_one_pass_witness:
  "\<exists>f f'. stop_arrived f \<and> pass ready_hal (\<lambda>_ _. False) (main_calls locked_policy locked_ops ready_hal 7 7) f f'
    \<and> mc_motor_request_sequence (w_ctx (rt_world (fw_runtime f'))) = 0"
proof -
  have "length stop_frame \<le> 63" by (simp add: stop_frame_def)
  from locked_listens [OF this] obtain f0 f where f:
    "main_boot locked_policy locked_ops Locked_Initialize ready_hal True 1 5 reset_firmware = Running f0"
    "loop_reach locked_policy locked_ops ready_hal (\<lambda>_ _. False) f0 f" "listening stop_frame f" by blast
  have arrived: "stop_arrived f" by (rule listening_stop [OF f(3)])
  obtain f' where p: "pass ready_hal (\<lambda>_ _. False) (main_calls locked_policy locked_ops ready_hal 7 7) f f'"
    using pass_exists by blast
  from stop_within_one_pass [OF locked_fw.firmware_motor_axioms _ f(1,2) arrived p] locked_ok_initialize
  have "mc_motor_request_sequence (w_ctx (rt_world (fw_runtime f'))) = 0" by blast
  then show ?thesis using arrived p by blast
qed

end
