(* ===== verification/MachineFaultOff.thy ===== *)
theory MachineFaultOff
  imports MachineProps MotorLocked
begin

text \<open>
  What a backend whose stop cannot fail adds to the state machine: a fault turns the motor
  output off, whatever raised it, and it stays off. The contract extends
  \<open>motor_executor\<close>; the locked backend and the real one (theory \<open>RealFirmware\<close>) provide it.
\<close>

locale reliable_motor = motor_executor ops inv off
  for ops :: "'e executor" and inv off +
  assumes disable_works: "inv e \<Longrightarrow> fst (ex_Disable ops e) = MOTOR_RESULT_OK"
    and off_reported: "inv e \<Longrightarrow> off e \<Longrightarrow> fst (ex_OutputIsDisabled ops e)"
    and service_keeps_off: "inv e \<Longrightarrow> off e \<Longrightarrow> off (snd (ex_Service ops t e))"
    and guard_keeps_off: "inv e \<Longrightarrow> off e \<Longrightarrow> off (snd (ex_GuardOutput ops e))"

definition fault_off :: "('e \<Rightarrow> bool) \<Rightarrow> ('e \<Rightarrow> bool) \<Rightarrow> 'e world \<Rightarrow> bool" where
  "fault_off iv off w \<longleftrightarrow> iv (w_exec w) \<and> (mc_state (w_ctx w) = FAULT \<longrightarrow> off (w_exec w))"

lemma fault_off_upd [simp]:
  "fault_off iv off (diag_upd g w) = fault_off iv off w"
  "fault_off iv off (press_upd h w) = fault_off iv off w"
  "fault_off iv off (pf_upd k w) = fault_off iv off w"
  "fault_off iv off (Machine_UpdateApproachMeasurement t b w) = fault_off iv off w"
  "fault_off iv off (Machine_RecordFirstContact t w) = fault_off iv off w"
  "fault_off iv off (Machine_ResetPressFeedback w) = fault_off iv off w"
  "fault_off iv off (Machine_ClearTransientMotion w) = fault_off iv off w"
  "fault_off iv off (Machine_ResetForcePi p w) = fault_off iv off w"
  by (simp_all add: fault_off_def)

lemma fault_off_ctx:
  "mc_state (f (w_ctx w)) \<noteq> FAULT \<or> mc_state (f (w_ctx w)) = mc_state (w_ctx w) \<Longrightarrow>
    fault_off iv off w \<Longrightarrow> fault_off iv off (ctx_upd f w)"
  by (auto simp: fault_off_def)

lemma fault_off_press [simp]:
  "fault_off iv off (Machine_SelectPressBand w) = fault_off iv off w"
  "fault_off iv off (Machine_ConsumePressFeedback w) = fault_off iv off w"
proof -
  obtain f where "w_ctx (Machine_SelectPressBand w) = (w_ctx w)\<lparr>mc_press_feedback := f\<rparr>"
    using SelectPressBand_ctx by blast
  then show "fault_off iv off (Machine_SelectPressBand w) = fault_off iv off w"
    by (simp add: fault_off_def)
  obtain g where "w_ctx (Machine_ConsumePressFeedback w) = (w_ctx w)\<lparr>mc_press_feedback := g\<rparr>"
    using ConsumePressFeedback_ctx by blast
  then show "fault_off iv off (Machine_ConsumePressFeedback w) = fault_off iv off w"
    by (simp add: fault_off_def)
qed

lemma fo_if:
  "(b \<Longrightarrow> fault_off iv off x) \<Longrightarrow> (\<not> b \<Longrightarrow> fault_off iv off y) \<Longrightarrow> fault_off iv off (if b then x else y)"
  by simp

lemma fo_snd_if:
  "(b \<Longrightarrow> fault_off iv off (snd x)) \<Longrightarrow> (\<not> b \<Longrightarrow> fault_off iv off (snd y)) \<Longrightarrow>
    fault_off iv off (snd (if b then x else y))"
  by simp

lemma fo_bind:
  "fault_off iv off (snd x) \<Longrightarrow> (\<And>a b. fault_off iv off b \<Longrightarrow> fault_off iv off (snd (f a b))) \<Longrightarrow>
    fault_off iv off (snd (case x of (a, b) \<Rightarrow> f a b))"
  by (cases x) simp

context reliable_motor
begin

section \<open>Entering a fault\<close>

lemma fo_query [simp]:
  "fault_off inv off w \<Longrightarrow> fault_off inv off (snd (exec (ex_IsHealthy ops) w))"
  "fault_off inv off w \<Longrightarrow> fault_off inv off (snd (exec (ex_ActiveRequestIsValid ops) w))"
  "fault_off inv off w \<Longrightarrow> fault_off inv off (snd (exec (ex_OutputIsDisabled ops) w))"
  "fault_off inv off w \<Longrightarrow> fault_off inv off (snd (exec (ex_GetSnapshot ops) w))"
  "fault_off inv off w \<Longrightarrow> fault_off inv off (snd (exec (ex_Service ops t) w))"
  "fault_off inv off w \<Longrightarrow> fault_off inv off (snd (exec (ex_GuardOutput ops) w))"
  "fault_off inv off w \<Longrightarrow> fault_off inv off (snd (Machine_ForcePiMotorIdle ops w))"
  by (auto simp: fault_off_def service_keeps_off guard_keeps_off)

lemma fo_inv: "fault_off inv off w \<Longrightarrow> inv (w_exec w)"
  by (simp add: fault_off_def)

lemma EnterFault_off:
  "inv (w_exec w) \<Longrightarrow> off (w_exec (Machine_EnterFault p ops f d t w))"
  by (simp add: Machine_EnterFault_def Let_def case_prod_beta disable_off disable_works)

lemma fo_EnterFault [simp]:
  "inv (w_exec w) \<Longrightarrow> fault_off inv off (Machine_EnterFault p ops f d t w)"
  by (simp add: fault_off_def EnterFault_off)

lemma DisableOrFault_works:
  assumes "inv (w_exec w)"
  shows "fst (Machine_DisableOrFault p ops t w)"
    "w_ctx (snd (Machine_DisableOrFault p ops t w)) = (w_ctx w)\<lparr>mc_motor_request_sequence := 0\<rparr>"
    "inv (w_exec (snd (Machine_DisableOrFault p ops t w)))"
    "off (w_exec (snd (Machine_DisableOrFault p ops t w)))"
proof -
  show f: "fst (Machine_DisableOrFault p ops t w)"
    using assms
    by (simp add: Machine_DisableOrFault_def Let_def case_prod_beta disable_works off_reported
        disable_off disable_inv)
  show "w_ctx (snd (Machine_DisableOrFault p ops t w)) = (w_ctx w)\<lparr>mc_motor_request_sequence := 0\<rparr>"
    "inv (w_exec (snd (Machine_DisableOrFault p ops t w)))"
    "off (w_exec (snd (Machine_DisableOrFault p ops t w)))"
    using DisableOrFault_off [OF assms f] by simp_all
qed

lemma fo_stops [simp]:
  assumes "inv (w_exec w)"
  shows "fault_off inv off (snd (Machine_DisableOrFault p ops t w))"
    "fault_off inv off (snd (Machine_EnterSettle p ops t w))"
    "fault_off inv off (snd (Machine_EnterHold p ops t w))"
  using DisableOrFault_works [OF assms]
  by (simp_all add: fault_off_def Machine_EnterSettle_def Machine_EnterHold_def Let_def case_prod_beta)

lemma fo_RecordPressEnd [simp]:
  "fault_off inv off w \<Longrightarrow> fault_off inv off (Machine_RecordPressEnd ops r t w)"
  "fault_off inv off w \<Longrightarrow> fault_off inv off (Machine_RecordApproachEnd ops r t w)"
  by (auto simp: fault_off_def RecordPressEnd_ctx)

section \<open>Starting\<close>

lemma fo_Capture [simp]:
  assumes "inv (w_exec w)" "s \<noteq> FAULT"
  shows "fault_off inv off (snd (Machine_CaptureMotorRequest p ops r s t w))"
  using assms
  by (auto simp: Machine_CaptureMotorRequest_def Let_def case_prod_beta fault_off_def EnterFault_off)

lemma fo_starts [simp]:
  assumes "inv (w_exec w)"
  shows "fault_off inv off (snd (Machine_StartPulse p ops d mv t w))"
    "fault_off inv off (snd (Machine_StartDirectPulse p ops d t w))"
    "fault_off inv off (snd (Machine_StartApproach p ops pr t w))"
  using assms
  by (auto simp: Machine_StartPulse_def Machine_StartDirectPulse_def Machine_StartApproach_def
      Let_def case_prod_beta)

lemma fo_StartCorrection [simp]:
  assumes "fault_off inv off w"
  shows "fault_off inv off (snd (Machine_StartCorrection p ops d t w))"
proof -
  note i = fo_inv [OF assms]
  have pulse: "fault_off inv off (ctx_upd (\<lambda>c. c\<lparr>mc_force_pi_requested_signed_mv := x\<rparr>) v)"
    if "fault_off inv off v" for x v
    using that by (intro fault_off_ctx) simp_all
  show ?thesis
    unfolding Machine_StartCorrection_def Let_def case_prod_beta
    by (intro fo_snd_if) (simp_all add: i pulse)
qed

section \<open>Service and samples\<close>

lemma fo_motor_completion [simp]:
  assumes "fault_off inv off w"
  shows "fault_off inv off (motor_completion p ops t w)"
proof -
  have idle: "fault_off inv off (ctx_upd (\<lambda>c. c\<lparr>mc_motor_request_sequence := 0, mc_state := IDLE,
      mc_state_entered_ms := t\<rparr>) w)"
    using assms by (intro fault_off_ctx) simp_all
  have "fault_off inv off (Machine_RecordPressEnd ops r t w)" for r using assms by simp
  from fo_inv [OF this] show ?thesis
    unfolding motor_completion_def Let_def case_prod_beta
    by (intro fo_if) (simp_all add: idle fo_inv [OF assms])
qed

lemma fo_HandleMotorService [simp]:
  assumes "fault_off inv off w"
  shows "fault_off inv off (Machine_HandleMotorService p ops t w)"
proof -
  note s = fo_query(4) [OF assms]
  note o = fo_query(2,3) [OF s]
  show ?thesis
    unfolding Machine_HandleMotorService_def Let_def case_prod_beta
    by (intro fo_if) (simp_all add: assms s o fo_inv [OF s] fo_inv [OF o(1)] fo_inv [OF o(2)]
        del: exec_simps(4))
qed

lemma fo_StopApproachOnContact [simp]:
  assumes "fault_off inv off w"
  shows "fault_off inv off (Machine_StopApproachOnContact p ops t w)"
proof -
  define w0 where "w0 = snd (exec (ex_Service ops t) w)"
  define w1 where "w1 = Machine_HandleMotorService p ops t w0"
  have w0: "fault_off inv off w0" using assms by (simp add: w0_def del: exec_simps)
  have w1: "fault_off inv off w1" using w0 by (simp add: w1_def)
  define w2 where "w2 = (if mc_state (w_ctx w1) = AUTO_APPROACH
      then (let (ok, w) = Machine_EnterSettle p ops t w1
            in if ok then Machine_RecordApproachEnd ops AUTO_APPROACH_END_CONTACT t w else w)
      else w1)"
  have w2: "fault_off inv off w2"
    using w1 fo_inv [OF w1] by (simp add: w2_def Let_def case_prod_beta)
  have up: "fault_off inv off (ctx_upd (\<lambda>c. c\<lparr>mc_auto_has_contacted := True,
      mc_auto_approach_pending := False\<rparr>) v)"
    "fault_off inv off (ctx_upd (\<lambda>c. c\<lparr>mc_cycle_started_ms := ps_received_at_ms (mc_pressure c)\<rparr>) v)"
    if "fault_off inv off v" for v
    using that by (auto intro!: fault_off_ctx)
  show ?thesis
    unfolding Machine_StopApproachOnContact_def Let_def case_prod_beta w0_def [symmetric]
      w1_def [symmetric] w2_def [unfolded Let_def case_prod_beta, symmetric]
    by (intro fo_if) (simp_all add: fo_inv [OF w0] w2 up)
qed

lemma fo_set_result [simp]: "fault_off inv off (snd rw) \<Longrightarrow> fault_off inv off (set_result rw)"
  by (cases rw) (auto simp: set_result_def intro!: fault_off_ctx)

lemma fo_classify [simp]:
  assumes "fault_off inv off w"
  shows "fault_off inv off (Machine_ClassifySettledSample p ops t w)"
    "fault_off inv off (Machine_ClassifyHoldSample p ops t w)"
proof -
  note i = fo_inv [OF assms]
  have r: "fault_off inv off (ctx_upd (\<lambda>c. c\<lparr>mc_cycle_started_ms := t\<rparr>) w)"
    using assms by (intro fault_off_ctx) simp_all
  show "fault_off inv off (Machine_ClassifySettledSample p ops t w)"
    unfolding Machine_ClassifySettledSample_def Let_def by (intro fo_if) (simp_all add: assms i)
  show "fault_off inv off (Machine_ClassifyHoldSample p ops t w)"
    unfolding Machine_ClassifyHoldSample_def Let_def
    by (intro fo_if) (simp_all add: i r)
qed

lemma fo_CheckPressureSafety [simp]:
  assumes "fault_off inv off w"
  shows "fault_off inv off (Machine_CheckPressureSafety p ops t w)"
  unfolding Machine_CheckPressureSafety_def Let_def
  by (intro fo_if) (simp_all add: assms fo_inv [OF assms])

lemma fo_ObserveForcePi [simp]:
  assumes "fault_off inv off w"
  shows "fault_off inv off (snd (Machine_ObserveForcePi p ops t w))"
proof -
  have up: "fault_off inv off (ctx_upd f v)" if "fault_off inv off v" "\<And>c. mc_state (f c) = mc_state c" for f v
    using that by (intro fault_off_ctx) simp_all
  have idle: "fault_off inv off (snd (Machine_ForcePiMotorIdle ops w))" using assms by simp
  have R_let: "fault_off inv off (snd (Let x f))" if "\<And>y. y = x \<Longrightarrow> fault_off inv off (snd (f y))"
    for x :: 'b and f :: "'b \<Rightarrow> bool \<times> 'e world" using that by simp
  show ?thesis
    unfolding Machine_ObserveForcePi_def Let_def case_prod_beta
    by (intro fo_snd_if) (simp_all add: up idle fo_inv [OF idle] fo_inv [OF assms])
qed

lemma fo_dispatch [simp]:
  assumes "fault_off inv off w"
  shows "fault_off inv off (dispatch_sample p ops s t w)"
proof -
  have up: "fault_off inv off (ctx_upd (\<lambda>c. c\<lparr>mc_auto_has_contacted := True,
      mc_auto_approach_pending := False\<rparr>) v)" if "fault_off inv off v" for v
    using that by (intro fault_off_ctx) simp_all
  define v where "v = (let c = w_ctx w in if AUTO_TARGET_ENABLED p \<and> pf_in_flight (mc_press_feedback c)
                 \<and> mc_state c = AUTO_PULSE \<and> Machine_IsPressureFresh c t
                 \<and> ps_control_pressure_units s > pf_observed_peak_units (mc_press_feedback c)
              then pf_upd (\<lambda>f. f\<lparr>pf_observed_peak_units := ps_control_pressure_units s\<rparr>) w
              else w)"
  have v: "fault_off inv off v" using assms by (simp add: v_def Let_def)
  show ?thesis
    unfolding dispatch_sample_def Let_def v_def [unfolded Let_def, symmetric]
    by (intro fo_if) (simp_all add: v up fo_inv [OF v])
qed

lemma fo_HandlePressureSample [simp]:
  assumes "fault_off inv off w"
  shows "fault_off inv off (Machine_HandlePressureSample p ops s t w)"
proof -
  have pr: "fault_off inv off (ctx_upd (\<lambda>c. c\<lparr>mc_pressure := s\<rparr>) w)"
    using assms by (intro fault_off_ctx) simp_all
  have obs: "fault_off inv off (observe_and_dispatch p ops s t v)" if "fault_off inv off v" for v
    unfolding observe_and_dispatch_def Let_def case_prod_beta
    by (intro fo_if) (simp_all add: that)
  show ?thesis
    unfolding Machine_HandlePressureSample_def Let_def
    by (intro fo_if) (simp_all add: assms pr obs fo_inv [OF assms])
qed

section \<open>Commands, boot and the runtime\<close>

lemma Stop_works:
  assumes "inv (w_exec w)"
  shows "fst (Machine_Stop p ops t w) = COMMAND_ACCEPTED" "off (w_exec (snd (Machine_Stop p ops t w)))"
    "inv (w_exec (snd (Machine_Stop p ops t w)))"
proof -
  note d = DisableOrFault_works [OF assms]
  show "fst (Machine_Stop p ops t w) = COMMAND_ACCEPTED"
    using d by (simp add: Machine_Stop_def Let_def case_prod_beta)
  then show "off (w_exec (snd (Machine_Stop p ops t w)))"
    using Stop_result [OF assms, of p t] by simp
  show "inv (w_exec (snd (Machine_Stop p ops t w)))"
    using d by (simp add: Machine_Stop_def Let_def case_prod_beta)
qed

lemma fo_any_of [simp]:
  "fault_off inv off w \<Longrightarrow> fault_off inv off (snd (any_of [test a, test b, test c,
     not_q (exec (ex_IsHealthy ops)), test d, test e] w))"
  "fault_off inv off w \<Longrightarrow> fault_off inv off (snd (any_of [test a,
     not_q (exec (ex_IsHealthy ops)), test d, test e, test f,
     not_q (exec (ex_OutputIsDisabled ops))] w))"
  "fault_off inv off w \<Longrightarrow> fault_off inv off (snd (any_of [test a, test b,
     not_q (exec (ex_IsHealthy ops))] w))"
  "fault_off inv off w \<Longrightarrow> fault_off inv off (snd (any_of [test a, not_q (Machine_ForcePiMotorIdle ops)] w))"
  by (simp_all add: del: exec_simps(4))

lemma fo_HandleCommand [simp]:
  assumes "fault_off inv off w"
  shows "fault_off inv off (snd (Machine_HandleCommand p ops cmd t w))"
proof -
  have noted: "fault_off inv off (ctx_upd (\<lambda>c. c\<lparr>mc_last_command_result := r\<rparr>) v)"
    and cyc: "fault_off inv off (ctx_upd (\<lambda>c. c\<lparr>mc_cycle_started_ms := t\<rparr>) v)"
    and con: "fault_off inv off (ctx_upd (\<lambda>c. c\<lparr>mc_auto_has_contacted := x, mc_auto_approach_pending := y\<rparr>) v)"
    if "fault_off inv off v" for r x y v
    using that by (auto intro!: fault_off_ctx)
  have target: "fault_off inv off (ctx_upd (\<lambda>c. c\<lparr>mc_target_pressure_units := i, mc_target_valid := True\<rparr>) w)"
    for i using assms by (intro fault_off_ctx) simp_all
  have stop: "fault_off inv off (snd (Machine_Stop p ops t w))"
    using Stop_works [OF fo_inv [OF assms]] by (simp add: fault_off_def)
  have set_target: "fault_off inv off (snd (handle_set_target p i w))" for i
    unfolding handle_set_target_def Let_def by (intro fo_snd_if) (simp_all add: assms target)
  have direct: "fault_off inv off (snd (handle_direct_pulse p ops d t w))" for d
    unfolding handle_direct_pulse_def Let_def
    by (intro fo_snd_if fo_bind) (simp_all add: assms fo_inv)
  have auto: "fault_off inv off (snd (handle_auto_start p ops t w))"
    unfolding handle_auto_start_def Let_def
    by (intro fo_snd_if fo_bind)
      (simp_all add: assms fo_inv cyc con fo_inv [OF cyc] fo_inv [OF con])
  show ?thesis
    unfolding Machine_HandleCommand_def Let_def case_prod_beta
    by (cases "cmd_type cmd") (simp_all add: assms noted stop set_target direct auto)
qed

lemma fo_ConfigureForcePi [simp]:
  assumes "fault_off inv off w"
  shows "fault_off inv off (snd (Machine_ConfigureForcePi p ops cf w))"
proof -
  have up: "fault_off inv off (ctx_upd (\<lambda>c. c\<lparr>mc_force_pi_config := a, mc_force_pi_state := b,
      mc_force_pi_enabled := True\<rparr>) v)" if "fault_off inv off v" for a b v
    using that by (intro fault_off_ctx) simp_all
  have idle: "fault_off inv off (snd (any_of [test (\<lambda>w. \<not> mc_config_valid (w_ctx w)),
      not_q (Machine_ForcePiMotorIdle ops)] w))" using assms by simp
  show ?thesis
    unfolding Machine_ConfigureForcePi_def Let_def case_prod_beta
    by (cases cf) (use idle assms up [OF idle] in \<open>simp_all split: if_splits\<close>)
qed

lemma fo_boot [simp]:
  "inv (w_exec w) \<Longrightarrow> fault_off inv off (Machine_Initialize p ops cf t w)"
  "fault_off inv off w \<Longrightarrow> fault_off inv off (Machine_CompleteBoot p ops b t w)"
proof -
  show "fault_off inv off (Machine_Initialize p ops cf t w)" if "inv (w_exec w)"
    using that
    by (cases cf) (simp_all add: Machine_Initialize_def Let_def case_prod_beta fault_off_def disable_works)
  assume w: "fault_off inv off w"
  define y where "y = any_of [test (\<lambda>_. \<not> b), test (\<lambda>w. \<not> mc_config_valid (w_ctx w)),
      not_q (exec (ex_IsHealthy ops))] w"
  have y: "fault_off inv off (snd y)" unfolding y_def using w by simp
  have idle: "fault_off inv off (ctx_upd (\<lambda>c. c\<lparr>mc_state := IDLE, mc_state_entered_ms := t,
      mc_fault := FAULT_NONE, mc_fault_detail := FAULT_DETAIL_NONE\<rparr>) v)" if "fault_off inv off v" for v
    using that by (intro fault_off_ctx) simp_all
  show "fault_off inv off (Machine_CompleteBoot p ops b t w)"
    unfolding Machine_CompleteBoot_def Let_def case_prod_beta y_def [symmetric]
    by (intro fo_if) (simp_all add: w idle fo_inv [OF y])
qed

lemma fo_rt_step:
  assumes "rt_step p ops r r'" "fault_off inv off (rt_world r)"
  shows "fault_off inv off (rt_world r')"
  using assms(1)
proof (cases rule: rt_step.cases)
  case (boot b t)
  define v where "v = Machine_CompleteBoot p ops b t (rt_world r)"
  have v: "fault_off inv off v" using assms(2) by (simp add: v_def)
  have c: "fault_off inv off (snd (Machine_ConfigureForcePi p ops (Some g_sd700_auto_target_force_pi_config) v))"
    using v by simp
  show ?thesis
    unfolding boot ApplicationRuntime_CompleteBoot_def on_machine_simps v_def [symmetric]
    using v fo_inv [OF c] c by (simp add: Let_def case_prod_beta Machine_ReportFault_def)
next
  case (pressure snap t)
  then show ?thesis using assms(2) by (simp add: ApplicationRuntime_ServicePressure_def)
next
  case (safety t)
  define v where "v = snd (exec (ex_Service ops t) (Machine_CheckPressureSafety p ops t (rt_world r)))"
  have v: "fault_off inv off v" unfolding v_def by (intro fo_query fo_CheckPressureSafety assms(2))
  show ?thesis
    unfolding safety ApplicationRuntime_ServiceSafety_def on_machine_simps
    using v fo_inv [OF v]
    by (simp add: Let_def case_prod_beta Machine_ReportFault_def flip: v_def)
next
  case (guard t)
  have "fault_off inv off (snd (exec (ex_GuardOutput ops) (rt_world r)))" using assms(2) by simp
  with fo_inv [OF this] show ?thesis
    by (simp add: guard main_guard_output_def Let_def case_prod_beta Machine_ReportFault_def)
next
  case (tick t)
  have "fault_off inv off (ctx_upd f (rt_world r))"
    if "\<And>c. mc_state (f c) = mc_state c" for f using assms(2) that by (intro fault_off_ctx) simp_all
  then show ?thesis
    using assms(2) fo_inv [OF assms(2)]
    by (simp add: tick ApplicationRuntime_Tick_def Machine_Tick_def Let_def)
qed (use assms(2) fo_inv [OF assms(2)] in \<open>simp_all add: Machine_ReportFault_def\<close>)

end

section \<open>The locked backend\<close>

interpretation locked_reliable: reliable_motor locked_ops locked_ok locked_off
  by unfold_locales (auto simp: locked_ops_def locked_ok_def locked_off_def locked_defs)

end
