(* ===== verification/MotorHwReal.thy ===== *)
theory MotorHwReal
  imports MotorExecutor BuildPolicy
begin

text \<open>
  The output stage of the real motor backend, \<^verbatim>\<open>Board/Motor/motor_hw_real.c\<close> with
  \<^verbatim>\<open>motor_real_gate.c\<close>: the two PWM timers and the shutdown pins, started in steps that are
  each read back. The vendor's timer driver is the argument \<open>real_board\<close>: its calls may
  do anything to the registers of the timer they are given.
\<close>

section \<open>Registers\<close>

record 'h real_regs = motor_hw +
  rcc_cfgr :: u32
  gpiob_ospeedr :: u32
  gpiob_afr :: "u32 list"
  tim2_cr1 :: u32
  tim2_sr :: u32
  tim2_cnt :: u32
  tim2_psc :: u32
  tim2_arr :: u32
  tim2_ccmr2 :: u32
  tim3_cr1 :: u32
  tim3_sr :: u32
  tim3_cnt :: u32
  tim3_psc :: u32
  tim3_arr :: u32
  tim3_ccmr2 :: u32
  hr_tim2 :: 'h
  hr_tim3 :: 'h
  hr_initialized :: bool
  hr_last_failure_stage :: MotorFailureStage

abbreviation (input) TIM_CR1_CEN :: u32 where "TIM_CR1_CEN \<equiv> 0x1"
abbreviation (input) TIM_SR_UIF :: u32 where "TIM_SR_UIF \<equiv> 0x1"
abbreviation (input) TIM_CCER_CC3P :: u32 where "TIM_CCER_CC3P \<equiv> 0x200"
abbreviation (input) TIM_CCMR2_OC3M :: u32 where "TIM_CCMR2_OC3M \<equiv> 0x70"
abbreviation (input) TIM_CCMR2_OC3FE :: u32 where "TIM_CCMR2_OC3FE \<equiv> 0x4"
abbreviation (input) TIM_OCMODE_PWM1 :: u32 where "TIM_OCMODE_PWM1 \<equiv> 0x60"
abbreviation (input) TIM_CHANNEL_3 :: nat where "TIM_CHANNEL_3 \<equiv> 8"
abbreviation (input) RCC_CFGR_PPRE1 :: u32 where "RCC_CFGR_PPRE1 \<equiv> 0x1C00"
abbreviation (input) MOTOR_HW_PWM_PRESCALER :: u32 where "MOTOR_HW_PWM_PRESCALER \<equiv> 0"
abbreviation (input) MOTOR_HW_PWM_PERIOD_COUNTS :: u32 where "MOTOR_HW_PWM_PERIOD_COUNTS \<equiv> 4799"
abbreviation (input) MOTOR_HW_PWM_FREQUENCY_HZ :: u32 where "MOTOR_HW_PWM_FREQUENCY_HZ \<equiv> 20000"

section \<open>The vendor's driver\<close>

datatype pwm_timer = TIM2 | TIM3

text \<open>The registers of one timer that a call of the driver may change.\<close>

record tim_regs =
  tr_CR1 :: u32
  tr_SR :: u32
  tr_CNT :: u32
  tr_PSC :: u32
  tr_ARR :: u32
  tr_CCMR2 :: u32
  tr_CCER :: u32
  tr_CCR3 :: u32

record tim_base_init =
  tb_Instance :: pwm_timer
  tb_Prescaler :: u32
  tb_CounterMode :: u32
  tb_Period :: u32
  tb_ClockDivision :: u32
  tb_AutoReloadPreload :: u32

record tim_oc_init =
  oc_OCMode :: u32
  oc_Pulse :: u32
  oc_OCPolarity :: u32
  oc_OCFastMode :: u32

text \<open>
  The calls answer whether they returned \<open>HAL_OK\<close>; \<open>rb_GetPCLK1Freq\<close> reads the clock tree,
  \<open>rb_arming_enabled\<close> is \<open>SD700_REAL_OUTPUT_ARMING_ENABLED\<close>.
\<close>

record 'h real_board =
  rb_policy :: build_policy
  rb_arming_enabled :: bool
  rb_GetPCLK1Freq :: "u32 \<Rightarrow> u32"
  rb_PWM_Init :: "tim_base_init \<Rightarrow> tim_regs \<Rightarrow> bool \<times> 'h \<times> tim_regs"
  rb_PWM_ConfigChannel :: "tim_oc_init \<Rightarrow> nat \<Rightarrow> 'h \<Rightarrow> tim_regs \<Rightarrow> bool \<times> 'h \<times> tim_regs"
  rb_PWM_Stop :: "nat \<Rightarrow> 'h \<Rightarrow> tim_regs \<Rightarrow> bool \<times> 'h \<times> tim_regs"
  rb_PWM_Start :: "nat \<Rightarrow> 'h \<Rightarrow> tim_regs \<Rightarrow> bool \<times> 'h \<times> tim_regs"

definition read_tim :: "pwm_timer \<Rightarrow> ('h, 'a) real_regs_scheme \<Rightarrow> tim_regs" where
  "read_tim t s =
    (case t of
       TIM2 \<Rightarrow> \<lparr>tr_CR1 = tim2_cr1 s, tr_SR = tim2_sr s, tr_CNT = tim2_cnt s, tr_PSC = tim2_psc s,
               tr_ARR = tim2_arr s, tr_CCMR2 = tim2_ccmr2 s, tr_CCER = tim2_ccer s,
               tr_CCR3 = tim2_ccr3 s\<rparr>
     | TIM3 \<Rightarrow> \<lparr>tr_CR1 = tim3_cr1 s, tr_SR = tim3_sr s, tr_CNT = tim3_cnt s, tr_PSC = tim3_psc s,
               tr_ARR = tim3_arr s, tr_CCMR2 = tim3_ccmr2 s, tr_CCER = tim3_ccer s,
               tr_CCR3 = tim3_ccr3 s\<rparr>)"

definition write_tim ::
  "pwm_timer \<Rightarrow> tim_regs \<Rightarrow> ('h, 'a) real_regs_scheme \<Rightarrow> ('h, 'a) real_regs_scheme" where
  "write_tim t r s =
    (case t of
       TIM2 \<Rightarrow> s\<lparr>tim2_cr1 := tr_CR1 r, tim2_sr := tr_SR r, tim2_cnt := tr_CNT r,
                 tim2_psc := tr_PSC r, tim2_arr := tr_ARR r, tim2_ccmr2 := tr_CCMR2 r,
                 tim2_ccer := tr_CCER r, tim2_ccr3 := tr_CCR3 r\<rparr>
     | TIM3 \<Rightarrow> s\<lparr>tim3_cr1 := tr_CR1 r, tim3_sr := tr_SR r, tim3_cnt := tr_CNT r,
                 tim3_psc := tr_PSC r, tim3_arr := tr_ARR r, tim3_ccmr2 := tr_CCMR2 r,
                 tim3_ccer := tr_CCER r, tim3_ccr3 := tr_CCR3 r\<rparr>)"

definition hal_call ::
  "pwm_timer \<Rightarrow> ('h \<Rightarrow> tim_regs \<Rightarrow> bool \<times> 'h \<times> tim_regs) \<Rightarrow> ('h, 'a) real_regs_scheme
    \<Rightarrow> bool \<times> ('h, 'a) real_regs_scheme" where
  "hal_call t f s =
    (case f (case t of TIM2 \<Rightarrow> hr_tim2 s | TIM3 \<Rightarrow> hr_tim3 s) (read_tim t s) of
       (ok, h, r) \<Rightarrow>
         (ok, write_tim t r (case t of TIM2 \<Rightarrow> s\<lparr>hr_tim2 := h\<rparr> | TIM3 \<Rightarrow> s\<lparr>hr_tim3 := h\<rparr>)))"

text \<open>Flags of \<open>SR\<close> are cleared by writing 0 and kept by writing 1.\<close>

definition write_tim_sr ::
  "pwm_timer \<Rightarrow> u32 \<Rightarrow> ('h, 'a) real_regs_scheme \<Rightarrow> ('h, 'a) real_regs_scheme" where
  "write_tim_sr t v s =
    (case t of TIM2 \<Rightarrow> s\<lparr>tim2_sr := tim2_sr s AND v\<rparr> | TIM3 \<Rightarrow> s\<lparr>tim3_sr := tim3_sr s AND v\<rparr>)"

text \<open>
  \<open>EGR = UG\<close> restarts the counter and, without \<open>URS\<close>, raises the update flag.
\<close>

definition update_event :: "pwm_timer \<Rightarrow> ('h, 'a) real_regs_scheme \<Rightarrow> ('h, 'a) real_regs_scheme" where
  "update_event t s =
    (case t of
       TIM2 \<Rightarrow> s\<lparr>tim2_cnt := 0,
                 tim2_sr := (if tim2_cr1 s AND 0x4 = 0 then tim2_sr s OR TIM_SR_UIF else tim2_sr s)\<rparr>
     | TIM3 \<Rightarrow> s\<lparr>tim3_cnt := 0,
                 tim3_sr := (if tim3_cr1 s AND 0x4 = 0 then tim3_sr s OR TIM_SR_UIF else tim3_sr s)\<rparr>)"

section \<open>Configuration\<close>

definition MotorHwReal_OutputArmingAllowed :: "'h real_board \<Rightarrow> bool" where
  "MotorHwReal_OutputArmingAllowed b \<longleftrightarrow>
    rb_arming_enabled b \<and> (\<not> bp_force_servo (rb_policy b) \<or> bp_commissioning (rb_policy b))"

definition MotorHwReal_TimerClockHz :: "'h real_board \<Rightarrow> ('h, 'a) real_regs_scheme \<Rightarrow> u32" where
  "MotorHwReal_TimerClockHz b s =
    (let clock_hz = rb_GetPCLK1Freq b (rcc_cfgr s)
     in if rcc_cfgr s AND RCC_CFGR_PPRE1 \<noteq> 0 then clock_hz * 2 else clock_hz)"

definition MotorHwReal_ConfigureShutdownPins ::
  "('h, 'a) real_regs_scheme \<Rightarrow> ('h, 'a) real_regs_scheme" where
  "MotorHwReal_ConfigureShutdownPins s =
    (let s = write_bsrr (push_bit 16 MOTOR_HW_SD_GPIO_PIN_MASK) s;
         s = s\<lparr>gpiob_otyper := gpiob_otyper s AND NOT MOTOR_HW_SD_GPIO_PIN_MASK\<rparr>;
         s = s\<lparr>gpiob_ospeedr := gpiob_ospeedr s OR MOTOR_HW_SD_MODE_FIELD_MASK\<rparr>;
         s = s\<lparr>gpiob_pupdr := (gpiob_pupdr s AND NOT MOTOR_HW_SD_MODE_FIELD_MASK)
                               OR MOTOR_HW_SD_PULLDOWN_BITS\<rparr>
     in s\<lparr>gpiob_moder := (gpiob_moder s AND NOT MOTOR_HW_SD_MODE_FIELD_MASK)
                               OR MOTOR_HW_SD_OUTPUT_MODE_BITS\<rparr>)"

definition MotorHwReal_ConfigureAlternatePin ::
  "nat \<Rightarrow> u32 \<Rightarrow> ('h, 'a) real_regs_scheme \<Rightarrow> ('h, 'a) real_regs_scheme" where
  "MotorHwReal_ConfigureAlternatePin pin_number alternate s =
    (let mode_shift = pin_number * 2; afr_index = pin_number div 8;
         afr_shift = (pin_number mod 8) * 4; mode_mask = push_bit mode_shift 3;
         s = s\<lparr>gpiob_moder := (gpiob_moder s AND NOT mode_mask) OR push_bit mode_shift 2\<rparr>;
         s = s\<lparr>gpiob_otyper := gpiob_otyper s AND NOT (push_bit pin_number 1)\<rparr>;
         s = s\<lparr>gpiob_ospeedr := (gpiob_ospeedr s AND NOT mode_mask) OR push_bit mode_shift 3\<rparr>;
         s = s\<lparr>gpiob_pupdr := gpiob_pupdr s AND NOT mode_mask\<rparr>
     in s\<lparr>gpiob_afr := (gpiob_afr s)[afr_index :=
           (gpiob_afr s ! afr_index AND NOT (push_bit afr_shift 0xF)) OR push_bit afr_shift alternate]\<rparr>)"

definition MotorHwReal_ConfigurePwmTimer ::
  "'h real_board \<Rightarrow> pwm_timer \<Rightarrow> MotorFailureStage \<Rightarrow> MotorFailureStage
    \<Rightarrow> ('h, 'a) real_regs_scheme \<Rightarrow> bool \<times> ('h, 'a) real_regs_scheme" where
  "MotorHwReal_ConfigurePwmTimer b t init_stage channel_stage s =
    (let base = \<lparr>tb_Instance = t, tb_Prescaler = MOTOR_HW_PWM_PRESCALER, tb_CounterMode = 0,
                tb_Period = MOTOR_HW_PWM_PERIOD_COUNTS, tb_ClockDivision = 0,
                tb_AutoReloadPreload = 0\<rparr>;
         channel = \<lparr>oc_OCMode = TIM_OCMODE_PWM1, oc_Pulse = 0, oc_OCPolarity = 0, oc_OCFastMode = 0\<rparr>;
         (ok, s) = hal_call t (\<lambda>_. rb_PWM_Init b base) s
     in if \<not> ok then (False, s\<lparr>hr_last_failure_stage := init_stage\<rparr>)
        else
          (let (ok, s) = hal_call t (rb_PWM_ConfigChannel b channel TIM_CHANNEL_3) s
           in if \<not> ok then (False, s\<lparr>hr_last_failure_stage := channel_stage\<rparr>) else (True, s)))"

definition MotorHwReal_PwmConfigurationIsValid ::
  "'h real_board \<Rightarrow> ('h, 'a) real_regs_scheme \<Rightarrow> bool" where
  "MotorHwReal_PwmConfigurationIsValid b s \<longleftrightarrow>
    (let required_clock_hz = MOTOR_HW_PWM_FREQUENCY_HZ * (MOTOR_HW_PWM_PERIOD_COUNTS + 1)
           * (MOTOR_HW_PWM_PRESCALER + 1)
     in MotorHwReal_TimerClockHz b s = required_clock_hz
      \<and> tim2_psc s = MOTOR_HW_PWM_PRESCALER \<and> tim3_psc s = MOTOR_HW_PWM_PRESCALER
      \<and> tim2_arr s = MOTOR_HW_PWM_PERIOD_COUNTS \<and> tim3_arr s = MOTOR_HW_PWM_PERIOD_COUNTS
      \<and> tim2_ccmr2 s AND TIM_CCMR2_OC3M = TIM_OCMODE_PWM1
      \<and> tim3_ccmr2 s AND TIM_CCMR2_OC3M = TIM_OCMODE_PWM1
      \<and> tim2_ccer s AND TIM_CCER_CC3P = 0 \<and> tim3_ccer s AND TIM_CCER_CC3P = 0
      \<and> tim2_ccmr2 s AND TIM_CCMR2_OC3FE = 0 \<and> tim3_ccmr2 s AND TIM_CCMR2_OC3FE = 0)"

section \<open>Off\<close>

definition MotorHwReal_DisableImmediate ::
  "('h, 'a) real_regs_scheme \<Rightarrow> ('h, 'a) real_regs_scheme" where
  "MotorHwReal_DisableImmediate s =
    (let s = MotorHw_ForceDisableImmediate s;
         s = s\<lparr>tim2_cr1 := tim2_cr1 s AND NOT TIM_CR1_CEN\<rparr>;
         s = s\<lparr>tim3_cr1 := tim3_cr1 s AND NOT TIM_CR1_CEN\<rparr>
     in write_tim_sr TIM3 0 (write_tim_sr TIM2 0 s))"

definition MotorHwReal_IsDisabled :: "('h, 'a) real_regs_scheme \<Rightarrow> bool" where
  "MotorHwReal_IsDisabled s \<longleftrightarrow>
    gpiob_odr s AND MOTOR_HW_SD_GPIO_PIN_MASK = 0 \<and> tim2_ccr3 s = 0 \<and> tim3_ccr3 s = 0
    \<and> tim2_ccer s AND TIM_CCER_CC3E = 0 \<and> tim3_ccer s AND TIM_CCER_CC3E = 0
    \<and> tim2_cr1 s AND TIM_CR1_CEN = 0 \<and> tim3_cr1 s AND TIM_CR1_CEN = 0"

text \<open>The failing part of the initialisation: the outputs are disabled again.\<close>

definition fail_init ::
  "MotorFailureStage \<Rightarrow> ('h, 'a) real_regs_scheme \<Rightarrow> bool \<times> ('h, 'a) real_regs_scheme" where
  "fail_init stage s = (False, MotorHwReal_DisableImmediate (s\<lparr>hr_last_failure_stage := stage\<rparr>))"

definition MotorHwReal_InitializeDisabled ::
  "'h real_board \<Rightarrow> ('h, 'a) real_regs_scheme \<Rightarrow> bool \<times> ('h, 'a) real_regs_scheme" where
  "MotorHwReal_InitializeDisabled b s =
    (let s = s\<lparr>hr_last_failure_stage := MOTOR_FAILURE_STAGE_NONE, hr_initialized := False\<rparr>;
         s = s\<lparr>rcc_ahb1enr := rcc_ahb1enr s OR RCC_AHB1ENR_GPIOBEN\<rparr>;
         s = s\<lparr>rcc_apb1enr := rcc_apb1enr s OR (RCC_APB1ENR_TIM2EN OR RCC_APB1ENR_TIM3EN)\<rparr>;
         s = MotorHwReal_DisableImmediate s;
         s = MotorHwReal_ConfigureShutdownPins s;
         s = MotorHwReal_ConfigureAlternatePin 10 1 s;
         s = MotorHwReal_ConfigureAlternatePin 0 2 s;
         (ok, s) = MotorHwReal_ConfigurePwmTimer b TIM2 1 2 s
     in if \<not> ok then (False, MotorHwReal_DisableImmediate s)
        else
          (let (ok, s) = MotorHwReal_ConfigurePwmTimer b TIM3 3 4 s
           in if \<not> ok then (False, MotorHwReal_DisableImmediate s)
              else
                (let s = MotorHwReal_DisableImmediate s
                 in if \<not> MotorHwReal_PwmConfigurationIsValid b s then fail_init 5 s
                    else if \<not> MotorHwReal_IsDisabled s then fail_init 6 s
                    else (True, s\<lparr>hr_initialized := True\<rparr>))))"

section \<open>On\<close>

definition MotorHwReal_FailApply ::
  "MotorFailureStage \<Rightarrow> ('h, 'a) real_regs_scheme \<Rightarrow> bool \<times> ('h, 'a) real_regs_scheme" where
  "MotorHwReal_FailApply stage s =
    (False, MotorHwReal_DisableImmediate (s\<lparr>hr_last_failure_stage := stage\<rparr>))"

definition MotorHwReal_ZeroCompareCommitIsValid :: "('h, 'a) real_regs_scheme \<Rightarrow> bool" where
  "MotorHwReal_ZeroCompareCommitIsValid s \<longleftrightarrow>
    gpiob_odr s AND MOTOR_HW_SD_GPIO_PIN_MASK = 0 \<and> tim2_ccr3 s = 0 \<and> tim3_ccr3 s = 0
    \<and> tim2_cnt s = 0 \<and> tim3_cnt s = 0
    \<and> tim2_ccer s AND TIM_CCER_CC3E = 0 \<and> tim3_ccer s AND TIM_CCER_CC3E = 0
    \<and> tim2_cr1 s AND TIM_CR1_CEN = 0 \<and> tim3_cr1 s AND TIM_CR1_CEN = 0"

definition MotorHwReal_ZeroCarriersAreRunning :: "('h, 'a) real_regs_scheme \<Rightarrow> bool" where
  "MotorHwReal_ZeroCarriersAreRunning s \<longleftrightarrow>
    gpiob_odr s AND MOTOR_HW_SD_GPIO_PIN_MASK = 0 \<and> tim2_ccr3 s = 0 \<and> tim3_ccr3 s = 0
    \<and> tim2_ccer s AND TIM_CCER_CC3E \<noteq> 0 \<and> tim3_ccer s AND TIM_CCER_CC3E \<noteq> 0
    \<and> tim2_cr1 s AND TIM_CR1_CEN \<noteq> 0 \<and> tim3_cr1 s AND TIM_CR1_CEN \<noteq> 0"

definition MotorHwReal_ActiveCompareIsValid ::
  "bool \<Rightarrow> u16 \<Rightarrow> ('h, 'a) real_regs_scheme \<Rightarrow> bool" where
  "MotorHwReal_ActiveCompareIsValid press duty_counts s \<longleftrightarrow>
    gpiob_odr s AND MOTOR_HW_SD_GPIO_PIN_MASK = MOTOR_HW_SD_GPIO_PIN_MASK
    \<and> tim2_ccer s AND TIM_CCER_CC3E \<noteq> 0 \<and> tim3_ccer s AND TIM_CCER_CC3E \<noteq> 0
    \<and> tim2_cr1 s AND TIM_CR1_CEN \<noteq> 0 \<and> tim3_cr1 s AND TIM_CR1_CEN \<noteq> 0
    \<and> tim2_ccr3 s = (if press then 0 else ucast duty_counts)
    \<and> tim3_ccr3 s = (if press then ucast duty_counts else 0)
    \<and> \<not> (tim2_ccr3 s \<noteq> 0 \<and> tim3_ccr3 s \<noteq> 0)"

text \<open>
  The start of the output, in the order of the code: both compares zeroed and committed, the
  carriers started on zero duty, the driver enabled, and last the one compare of the
  direction. Every step is read back before the next.
\<close>

definition apply_compare ::
  "bool \<Rightarrow> u16 \<Rightarrow> ('h, 'a) real_regs_scheme \<Rightarrow> bool \<times> ('h, 'a) real_regs_scheme" where
  "apply_compare press duty_counts s =
    (let s = s\<lparr>tim2_cnt := 0, tim3_cnt := 0\<rparr>;
         s = write_tim_sr TIM3 (NOT TIM_SR_UIF) (write_tim_sr TIM2 (NOT TIM_SR_UIF) s);
         s = write_bsrr MOTOR_HW_SD_GPIO_PIN_MASK s
     in if gpiob_odr s AND MOTOR_HW_SD_GPIO_PIN_MASK \<noteq> MOTOR_HW_SD_GPIO_PIN_MASK
        then MotorHwReal_FailApply 49 s
        else
          (let s = (if press then s\<lparr>tim2_ccr3 := 0, tim3_ccr3 := ucast duty_counts\<rparr>
                    else s\<lparr>tim2_ccr3 := ucast duty_counts, tim3_ccr3 := 0\<rparr>)
           in if \<not> MotorHwReal_ActiveCompareIsValid press duty_counts s
              then MotorHwReal_FailApply 50 s else (True, s)))"

definition apply_carriers ::
  "'h real_board \<Rightarrow> bool \<Rightarrow> u16 \<Rightarrow> ('h, 'a) real_regs_scheme \<Rightarrow> bool \<times> ('h, 'a) real_regs_scheme" where
  "apply_carriers b press duty_counts s =
    (let (ok, s) = hal_call TIM2 (rb_PWM_Start b TIM_CHANNEL_3) s
     in if \<not> ok then MotorHwReal_FailApply 46 s
        else
          (let (ok, s) = hal_call TIM3 (rb_PWM_Start b TIM_CHANNEL_3) s
           in if \<not> ok then MotorHwReal_FailApply 47 s
              else if \<not> MotorHwReal_ZeroCarriersAreRunning s then MotorHwReal_FailApply 48 s
              else apply_compare press duty_counts s))"

definition MotorHwReal_Apply ::
  "'h real_board \<Rightarrow> bool \<Rightarrow> u16 \<Rightarrow> ('h, 'a) real_regs_scheme \<Rightarrow> bool \<times> ('h, 'a) real_regs_scheme" where
  "MotorHwReal_Apply b press duty_counts s =
    (let s = s\<lparr>hr_last_failure_stage := MOTOR_FAILURE_STAGE_NONE\<rparr>;
         s = MotorHwReal_DisableImmediate s
     in if \<not> hr_initialized s then MotorHwReal_FailApply 7 s
        else if duty_counts = 0 \<or> ucast duty_counts > MOTOR_HW_PWM_PERIOD_COUNTS
        then MotorHwReal_FailApply 8 s
        else if \<not> MotorHwReal_OutputArmingAllowed b then MotorHwReal_FailApply 9 s
        else
          (let (tim2_stop_ok, s) = hal_call TIM2 (rb_PWM_Stop b TIM_CHANNEL_3) s;
               (tim3_stop_ok, s) = hal_call TIM3 (rb_PWM_Stop b TIM_CHANNEL_3) s
           in if \<not> tim2_stop_ok \<or> \<not> tim3_stop_ok
              then MotorHwReal_FailApply (if \<not> tim2_stop_ok then 10 else 11) s
              else
                (let s = s\<lparr>tim2_ccr3 := 0, tim3_ccr3 := 0\<rparr>;
                     s = s\<lparr>tim2_cnt := 0, tim3_cnt := 0\<rparr>;
                     s = update_event TIM3 (update_event TIM2 s);
                     s = write_tim_sr TIM3 0 (write_tim_sr TIM2 0 s)
                 in if \<not> MotorHwReal_ZeroCompareCommitIsValid s then MotorHwReal_FailApply 45 s
                    else apply_carriers b press duty_counts s)))"

definition MotorHwReal_ApplyPress ::
  "'h real_board \<Rightarrow> u16 \<Rightarrow> ('h, 'a) real_regs_scheme \<Rightarrow> bool \<times> ('h, 'a) real_regs_scheme" where
  "MotorHwReal_ApplyPress b duty_counts = MotorHwReal_Apply b True duty_counts"

definition MotorHwReal_ApplyRelease ::
  "'h real_board \<Rightarrow> u16 \<Rightarrow> ('h, 'a) real_regs_scheme \<Rightarrow> bool \<times> ('h, 'a) real_regs_scheme" where
  "MotorHwReal_ApplyRelease b duty_counts = MotorHwReal_Apply b False duty_counts"

definition MotorHwReal_GetLastFailureStage :: "('h, 'a) real_regs_scheme \<Rightarrow> MotorFailureStage" where
  "MotorHwReal_GetLastFailureStage s = hr_last_failure_stage s"

section \<open>Changes while on\<close>

definition MotorHwReal_Update ::
  "'h real_board \<Rightarrow> bool \<Rightarrow> u16 \<Rightarrow> ('h, 'a) real_regs_scheme \<Rightarrow> bool \<times> ('h, 'a) real_regs_scheme" where
  "MotorHwReal_Update b press duty_counts s =
    (let previous = (ucast (if press then tim3_ccr3 s else tim2_ccr3 s) :: u16)
     in if \<not> hr_initialized s \<or> \<not> MotorHwReal_OutputArmingAllowed b \<or> previous = 0
          \<or> duty_counts = 0 \<or> ucast duty_counts > MOTOR_HW_PWM_PERIOD_COUNTS
          \<or> \<not> MotorHwReal_PwmConfigurationIsValid b s
          \<or> \<not> MotorHwReal_ActiveCompareIsValid press previous s
        then MotorHwReal_FailApply 50 s
        else
          (let s = (if press then s\<lparr>tim3_ccr3 := ucast duty_counts\<rparr>
                    else s\<lparr>tim2_ccr3 := ucast duty_counts\<rparr>)
           in if \<not> MotorHwReal_ActiveCompareIsValid press duty_counts s
              then MotorHwReal_FailApply 50 s else (True, s)))"

definition MotorHwReal_MatchesPlan ::
  "'h real_board \<Rightarrow> u16 \<Rightarrow> u16 \<Rightarrow> ('h, 'a) real_regs_scheme \<Rightarrow> bool" where
  "MotorHwReal_MatchesPlan b t2 t3 s \<longleftrightarrow>
    (if t2 = 0 \<and> t3 = 0 then MotorHwReal_IsDisabled s
     else if t2 \<noteq> 0 \<and> t3 \<noteq> 0 then False
     else MotorHwReal_PwmConfigurationIsValid b s
       \<and> MotorHwReal_ActiveCompareIsValid (t3 \<noteq> 0) (if t3 \<noteq> 0 then t3 else t2) s)"

definition MotorHwReal_IsBraking :: "'h real_board \<Rightarrow> ('h, 'a) real_regs_scheme \<Rightarrow> bool" where
  "MotorHwReal_IsBraking b s \<longleftrightarrow> hr_initialized s \<and> MotorHwReal_PwmConfigurationIsValid b s
    \<and> MotorHwReal_ActiveCompareIsValid True 0 s"

definition MotorHwReal_BuildBrake ::
  "'h real_board \<Rightarrow> ('h, 'a) real_regs_scheme \<Rightarrow> bool \<times> ('h, 'a) real_regs_scheme" where
  "MotorHwReal_BuildBrake b s =
    (if \<not> hr_initialized s \<or> \<not> MotorHwReal_OutputArmingAllowed b
        \<or> \<not> MotorHwReal_PwmConfigurationIsValid b s
        \<or> \<not> MotorHwReal_ActiveCompareIsValid True (ucast (tim3_ccr3 s)) s
     then MotorHwReal_FailApply 50 s
     else
       (let s = s\<lparr>tim2_ccr3 := 0, tim3_ccr3 := 0\<rparr>
        in if MotorHwReal_IsBraking b s then (True, s) else MotorHwReal_FailApply 50 s))"

definition MotorHwReal_BuildFromBrake ::
  "'h real_board \<Rightarrow> u16 \<Rightarrow> ('h, 'a) real_regs_scheme \<Rightarrow> bool \<times> ('h, 'a) real_regs_scheme" where
  "MotorHwReal_BuildFromBrake b duty_counts s =
    (if \<not> MotorHwReal_IsBraking b s \<or> \<not> MotorHwReal_OutputArmingAllowed b \<or> duty_counts = 0
        \<or> ucast duty_counts > MOTOR_HW_PWM_PERIOD_COUNTS
     then MotorHwReal_FailApply 50 s
     else
       (let s = s\<lparr>tim3_ccr3 := ucast duty_counts\<rparr>
        in if MotorHwReal_ActiveCompareIsValid True duty_counts s then (True, s)
           else MotorHwReal_FailApply 50 s))"

section \<open>What the operations guarantee\<close>

text \<open>The configuration of the shutdown pins and the clocks, which no operation undoes.\<close>

definition pins_ok :: "('h, 'a) real_regs_scheme \<Rightarrow> bool" where
  "pins_ok s \<longleftrightarrow> gpiob_otyper s AND 0x6 = 0 \<and> gpiob_moder s AND 0x3C = 0x14
    \<and> gpiob_pupdr s AND 0x3C = 0x28 \<and> rcc_ahb1enr s AND 0x2 = 0x2 \<and> rcc_apb1enr s AND 0x3 = 0x3"

lemma disabled_shut_down: "pins_ok s \<Longrightarrow> MotorHwReal_IsDisabled s \<Longrightarrow> hw_disabled s"
  by (simp add: pins_ok_def MotorHwReal_IsDisabled_def hw_disabled_def)

lemma DisableImmediate_hw [simp]:
  "MotorHwReal_IsDisabled (MotorHwReal_DisableImmediate s)" "pins_ok (MotorHwReal_DisableImmediate s)"
proof -
  have "hw_disabled (MotorHw_ForceDisableImmediate s)" by simp
  moreover have "(x AND - 2) AND 1 = 0" for x :: u32 using mask_clear(1) [of x 1] by simp
  ultimately show "MotorHwReal_IsDisabled (MotorHwReal_DisableImmediate s)"
    "pins_ok (MotorHwReal_DisableImmediate s)"
    by (simp_all add: MotorHwReal_IsDisabled_def MotorHwReal_DisableImmediate_def pins_ok_def
        hw_disabled_def Let_def write_tim_sr_def)
qed

lemma hal_call_keeps [simp]:
  "pins_ok (snd (hal_call t f s)) = pins_ok s"
  "real_regs.more (snd (hal_call t f s)) = real_regs.more s"
  "hr_initialized (snd (hal_call t f s)) = hr_initialized s"
  "gpiob_odr (snd (hal_call t f s)) = gpiob_odr s"
  by (cases t; simp add: hal_call_def write_tim_def pins_ok_def split: prod.split)+

lemma DisableImmediate_keeps [simp]:
  "real_regs.more (MotorHwReal_DisableImmediate s) = real_regs.more s"
  "hr_initialized (MotorHwReal_DisableImmediate s) = hr_initialized s"
  by (simp_all add: MotorHwReal_DisableImmediate_def MotorHw_ForceDisableImmediate_def write_bsrr_def
      write_tim_sr_def Let_def)

lemma pins_ok_simps [simp]:
  "pins_ok (s\<lparr>hr_last_failure_stage := n\<rparr>) = pins_ok s" "pins_ok (s\<lparr>hr_initialized := i\<rparr>) = pins_ok s"
  "pins_ok (s\<lparr>tim2_ccr3 := a\<rparr>) = pins_ok s" "pins_ok (s\<lparr>tim3_ccr3 := a\<rparr>) = pins_ok s"
  "pins_ok (s\<lparr>tim2_cnt := a\<rparr>) = pins_ok s" "pins_ok (s\<lparr>tim3_cnt := a\<rparr>) = pins_ok s"
  "pins_ok (write_tim_sr t a s) = pins_ok s" "pins_ok (update_event t s) = pins_ok s"
  "pins_ok (write_bsrr a s) = pins_ok s"
  by (simp_all add: pins_ok_def write_tim_sr_def update_event_def write_bsrr_def split: pwm_timer.split)

lemma more_simps [simp]:
  "real_regs.more (write_tim_sr t a s) = real_regs.more s"
  "real_regs.more (update_event t s) = real_regs.more s" "real_regs.more (write_bsrr a s) = real_regs.more s"
  by (simp_all add: write_tim_sr_def update_event_def write_bsrr_def split: pwm_timer.split)

lemma FailApply_spec [simp]:
  "fst (MotorHwReal_FailApply n s) = False" "MotorHwReal_IsDisabled (snd (MotorHwReal_FailApply n s))"
  "pins_ok (snd (MotorHwReal_FailApply n s))"
  "real_regs.more (snd (MotorHwReal_FailApply n s)) = real_regs.more s"
  by (simp_all add: MotorHwReal_FailApply_def)

text \<open>
  A start that succeeds leaves exactly the asked compare on the asked leg; one that fails, at
  any step, leaves the output off.
\<close>

definition applied ::
  "bool \<Rightarrow> u16 \<Rightarrow> ('h, 'a) real_regs_scheme \<Rightarrow> bool \<times> ('h, 'a) real_regs_scheme \<Rightarrow> bool" where
  "applied press duty s r \<longleftrightarrow> pins_ok (snd r) \<and> real_regs.more (snd r) = real_regs.more s
    \<and> (if fst r then MotorHwReal_ActiveCompareIsValid press duty (snd r)
       else MotorHwReal_IsDisabled (snd r))"

lemma applied_fail: "real_regs.more s' = real_regs.more s \<Longrightarrow> applied press duty s (MotorHwReal_FailApply n s')"
  by (simp add: applied_def)

lemma apply_compare_spec:
  assumes "pins_ok s"
  shows "applied press duty s (apply_compare press duty s)"
  unfolding apply_compare_def Let_def using assms
  by (auto intro!: applied_fail) (simp_all add: applied_def)

lemma apply_carriers_spec:
  assumes "pins_ok s"
  shows "applied press duty s (apply_carriers b press duty s)"
proof -
  have trans: "applied press duty s' r \<Longrightarrow> real_regs.more s' = real_regs.more s \<Longrightarrow> applied press duty s r"
    for s' r by (simp add: applied_def)
  show ?thesis
    unfolding apply_carriers_def Let_def case_prod_beta
    using assms by (auto intro!: applied_fail intro: trans [OF apply_compare_spec])
qed

lemma Apply_spec: "applied press duty s (MotorHwReal_Apply b press duty s)"
proof -
  have trans: "applied press duty s' r \<Longrightarrow> real_regs.more s' = real_regs.more s \<Longrightarrow> applied press duty s r"
    for s' r by (simp add: applied_def)
  show ?thesis
    unfolding MotorHwReal_Apply_def Let_def case_prod_beta
    by (auto intro!: applied_fail intro: trans [OF apply_carriers_spec])
qed

lemma Apply_accepts:
  assumes "fst (MotorHwReal_Apply b press duty s)"
  shows "MotorHwReal_OutputArmingAllowed b \<and> 0 < duty \<and> ucast duty \<le> MOTOR_HW_PWM_PERIOD_COUNTS"
  using assms by (auto simp: MotorHwReal_Apply_def Let_def case_prod_beta word_gt_0 not_less split: if_splits)

lemma active_not_disabled:
  "MotorHwReal_ActiveCompareIsValid press duty s \<Longrightarrow> \<not> MotorHwReal_IsDisabled s"
  by (auto simp: MotorHwReal_ActiveCompareIsValid_def MotorHwReal_IsDisabled_def)

lemma ConfigurePwmTimer_keeps [simp]:
  "pins_ok (snd (MotorHwReal_ConfigurePwmTimer b t i c s)) = pins_ok s"
  "real_regs.more (snd (MotorHwReal_ConfigurePwmTimer b t i c s)) = real_regs.more s"
  by (simp_all add: MotorHwReal_ConfigurePwmTimer_def Let_def case_prod_beta)

lemma pin_config_more [simp]:
  "real_regs.more (MotorHwReal_ConfigureShutdownPins s) = real_regs.more s"
  "real_regs.more (MotorHwReal_ConfigureAlternatePin n a s) = real_regs.more s"
  by (simp_all add: MotorHwReal_ConfigureShutdownPins_def MotorHwReal_ConfigureAlternatePin_def Let_def
      write_bsrr_def)

lemma InitializeDisabled_spec:
  "MotorHwReal_IsDisabled (snd (MotorHwReal_InitializeDisabled b s))"
  "pins_ok (snd (MotorHwReal_InitializeDisabled b s))"
  "real_regs.more (snd (MotorHwReal_InitializeDisabled b s)) = real_regs.more s"
proof -
  have off: "MotorHwReal_IsDisabled (s\<lparr>hr_initialized := i\<rparr>) = MotorHwReal_IsDisabled s" for s i
    by (simp add: MotorHwReal_IsDisabled_def)
  show "MotorHwReal_IsDisabled (snd (MotorHwReal_InitializeDisabled b s))"
    "pins_ok (snd (MotorHwReal_InitializeDisabled b s))"
    "real_regs.more (snd (MotorHwReal_InitializeDisabled b s)) = real_regs.more s"
    by (simp_all add: MotorHwReal_InitializeDisabled_def fail_init_def off Let_def case_prod_beta)
qed

end
