(* ===== verification/MotorStopTimer.thy ===== *)
theory MotorStopTimer
  imports MotorHwReal
begin

text \<open>
  The independent stop timer, \<^verbatim>\<open>Board/Motor/motor_stop_timer_tim5.c\<close>: TIM5 counts in 0.1 ms
  ticks; its first compare ends a request normally, its overflow is the backstop, and
  both interrupt. The handler the code registers acts on the whole state of the backend,
  so it is an argument here and the state may be extended.

  \<open>tm_schedule\<close> is what the timer's hardware will do, one entry per point at which it is
  observed: the flags it raises (\<open>UIF\<close>, \<open>CC1IF\<close>, \<open>CC1OF\<close>) and the count it has reached. No
  theorem assumes anything about it, so that every theorem covers every timing.
\<close>

section \<open>State\<close>

datatype MotorStopTimerEvent =
    MOTOR_STOP_TIMER_NORMAL
  | MOTOR_STOP_TIMER_BACKSTOP
  | MOTOR_STOP_TIMER_ERROR

record 'h stop_timer = "'h real_regs" +
  tim5_cr1 :: u32
  tim5_cr2 :: u32
  tim5_smcr :: u32
  tim5_dier :: u32
  tim5_sr :: u32
  tim5_cnt :: u32
  tim5_psc :: u32
  tim5_arr :: u32
  tim5_ccmr1 :: u32
  tim5_ccer :: u32
  tim5_ccr1 :: u32
  tim5_irq_enabled :: bool
  st_handler :: bool
  st_prescaler :: u32
  st_initialized :: bool
  st_armed :: bool
  st_healthy :: bool
  st_last_failure_stage :: MotorFailureStage
  tm_schedule :: "(u32 \<times> u32) list"

abbreviation (input) TIM_CR1_URS :: u32 where "TIM_CR1_URS \<equiv> 0x4"
abbreviation (input) TIM_CR1_OPM :: u32 where "TIM_CR1_OPM \<equiv> 0x8"
abbreviation (input) TIM_SR_CC1IF :: u32 where "TIM_SR_CC1IF \<equiv> 0x2"
abbreviation (input) TIM_SR_CC1OF :: u32 where "TIM_SR_CC1OF \<equiv> 0x200"
abbreviation (input) TIM_DIER_UIE :: u32 where "TIM_DIER_UIE \<equiv> 0x1"
abbreviation (input) TIM_DIER_CC1IE :: u32 where "TIM_DIER_CC1IE \<equiv> 0x2"
abbreviation (input) RCC_APB1ENR_TIM5EN :: u32 where "RCC_APB1ENR_TIM5EN \<equiv> 0x8"
abbreviation (input) MOTOR_STOP_TIMER_TICKS_PER_MS :: nat where "MOTOR_STOP_TIMER_TICKS_PER_MS \<equiv> 10"
abbreviation (input) MOTOR_STOP_TIMER_TICK_HZ :: u32 where "MOTOR_STOP_TIMER_TICK_HZ \<equiv> 10000"
abbreviation (input) UINT32_MAX :: u64 where "UINT32_MAX \<equiv> 0xFFFFFFFF"

type_synonym ('h, 'a) timer_handler =
  "MotorStopTimerEvent \<Rightarrow> ('h, 'a) stop_timer_scheme \<Rightarrow> ('h, 'a) stop_timer_scheme"

section \<open>The timer's hardware\<close>

text \<open>
  A running timer raises flags and counts; in one-pulse mode an update stops it. Flags it
  raised before stay raised.
\<close>

definition timer_hw :: "('h, 'a) stop_timer_scheme \<Rightarrow> ('h, 'a) stop_timer_scheme" where
  "timer_hw s =
    (case tm_schedule s of
       [] \<Rightarrow> s
     | (flags, count) # rest \<Rightarrow>
         (let s = s\<lparr>tm_schedule := rest\<rparr>
          in if tim5_cr1 s AND TIM_CR1_CEN = 0 then s
             else
               (let s = s\<lparr>tim5_sr := tim5_sr s OR (flags AND 0x203), tim5_cnt := count\<rparr>
                in if flags AND TIM_SR_UIF \<noteq> 0 \<and> tim5_cr1 s AND TIM_CR1_OPM \<noteq> 0
                   then s\<lparr>tim5_cr1 := tim5_cr1 s AND NOT TIM_CR1_CEN\<rparr> else s)))"

text \<open>\<open>EGR = UG\<close>: \<open>URS\<close> is set whenever the code does it, so that no flag is raised.\<close>

definition tim5_update_event :: "('h, 'a) stop_timer_scheme \<Rightarrow> ('h, 'a) stop_timer_scheme" where
  "tim5_update_event s = s\<lparr>tim5_cnt := 0,
     tim5_sr := (if tim5_cr1 s AND TIM_CR1_URS = 0 then tim5_sr s OR TIM_SR_UIF else tim5_sr s)\<rparr>"

section \<open>Operations\<close>

definition MotorStopTimer_InputClockHz :: "'h real_board \<Rightarrow> ('h, 'a) stop_timer_scheme \<Rightarrow> u32" where
  "MotorStopTimer_InputClockHz b s =
    (let clock_hz = rb_GetPCLK1Freq b (rcc_cfgr s)
     in if rcc_cfgr s AND RCC_CFGR_PPRE1 \<noteq> 0 then clock_hz * 2 else clock_hz)"

text \<open>
  The pending bit of the interrupt controller follows the timer's flags, which are cleared
  with it.
\<close>

definition MotorStopTimer_Cancel :: "('h, 'a) stop_timer_scheme \<Rightarrow> ('h, 'a) stop_timer_scheme" where
  "MotorStopTimer_Cancel s =
    (let s = s\<lparr>tim5_dier := 0\<rparr>;
         s = s\<lparr>tim5_cr1 := tim5_cr1 s AND NOT TIM_CR1_CEN\<rparr>;
         s = s\<lparr>tim5_sr := 0, tim5_cnt := 0\<rparr>
     in s\<lparr>st_armed := False, tim5_irq_enabled := False\<rparr>)"

definition MotorStopTimer_Initialize ::
  "'h real_board \<Rightarrow> bool \<Rightarrow> ('h, 'a) stop_timer_scheme \<Rightarrow> bool \<times> ('h, 'a) stop_timer_scheme" where
  "MotorStopTimer_Initialize b handler s =
    (let s = s\<lparr>st_last_failure_stage := MOTOR_FAILURE_STAGE_NONE, st_handler := handler,
               st_initialized := False, st_armed := False, st_healthy := False\<rparr>
     in if \<not> handler then (False, s\<lparr>st_last_failure_stage := 17\<rparr>)
        else
          (let s = s\<lparr>rcc_apb1enr := rcc_apb1enr s OR RCC_APB1ENR_TIM5EN\<rparr>;
               s = MotorStopTimer_Cancel s;
               timer_clock_hz = MotorStopTimer_InputClockHz b s
           in if timer_clock_hz = 0 \<or> timer_clock_hz mod MOTOR_STOP_TIMER_TICK_HZ \<noteq> 0
                \<or> timer_clock_hz div MOTOR_STOP_TIMER_TICK_HZ = 0
                \<or> timer_clock_hz div MOTOR_STOP_TIMER_TICK_HZ > 65536
              then (False, s\<lparr>st_last_failure_stage := 18\<rparr>)
              else
                (let s = s\<lparr>st_prescaler := timer_clock_hz div MOTOR_STOP_TIMER_TICK_HZ - 1\<rparr>;
                     s = s\<lparr>tim5_cr1 := TIM_CR1_OPM OR TIM_CR1_URS, tim5_cr2 := 0, tim5_smcr := 0,
                           tim5_ccmr1 := 0, tim5_ccer := 0, tim5_psc := st_prescaler s,
                           tim5_arr := 0xFFFFFFFF, tim5_ccr1 := 0\<rparr>;
                     s = tim5_update_event s;
                     s = s\<lparr>tim5_sr := 0\<rparr>
                 in (True, s\<lparr>st_initialized := True, st_healthy := True\<rparr>))))"

definition MotorStopTimer_Arm ::
  "u32 \<Rightarrow> u32 \<Rightarrow> ('h, 'a) stop_timer_scheme \<Rightarrow> bool \<times> ('h, 'a) stop_timer_scheme" where
  "MotorStopTimer_Arm normal_duration_ms backstop_ms s =
    (let s = s\<lparr>st_last_failure_stage := MOTOR_FAILURE_STAGE_NONE\<rparr>;
         s = MotorStopTimer_Cancel s
     in if \<not> st_initialized s \<or> \<not> st_healthy s \<or> normal_duration_ms = 0
          \<or> backstop_ms \<le> normal_duration_ms
        then (False, s\<lparr>st_last_failure_stage := 19\<rparr>)
        else
          (let normal_ticks = (ucast normal_duration_ms :: u64) * of_nat MOTOR_STOP_TIMER_TICKS_PER_MS;
               backstop_ticks = (ucast backstop_ms :: u64) * of_nat MOTOR_STOP_TIMER_TICKS_PER_MS
           in if normal_ticks > UINT32_MAX \<or> backstop_ticks > UINT32_MAX
              then (False, s\<lparr>st_last_failure_stage := 20\<rparr>)
              else
                (let s = s\<lparr>tim5_cr1 := TIM_CR1_OPM OR TIM_CR1_URS, tim5_psc := st_prescaler s,
                           tim5_arr := ucast backstop_ticks - 1, tim5_ccr1 := ucast normal_ticks,
                           tim5_cnt := 0\<rparr>;
                     s = tim5_update_event s;
                     s = s\<lparr>tim5_sr := 0, tim5_dier := TIM_DIER_CC1IE OR TIM_DIER_UIE\<rparr>;
                     s = s\<lparr>st_armed := True\<rparr>;
                     s = s\<lparr>tim5_cr1 := tim5_cr1 s OR TIM_CR1_CEN\<rparr>;
                     s = timer_hw s
                 in if tim5_cr1 s AND TIM_CR1_CEN = 0
                    then (False, MotorStopTimer_Cancel
                                   (s\<lparr>st_last_failure_stage := 21, st_healthy := False\<rparr>))
                    else (True, s))))"

definition MotorStopTimer_IsArmed :: "('h, 'a) stop_timer_scheme \<Rightarrow> bool" where
  "MotorStopTimer_IsArmed s \<longleftrightarrow> st_armed s \<and> tim5_cr1 s AND TIM_CR1_CEN \<noteq> 0"

definition MotorStopTimer_IsHealthy :: "('h, 'a) stop_timer_scheme \<Rightarrow> bool" where
  "MotorStopTimer_IsHealthy s \<longleftrightarrow> st_initialized s \<and> st_healthy s"

definition MotorStopTimer_GetLastFailureStage :: "('h, 'a) stop_timer_scheme \<Rightarrow> MotorFailureStage" where
  "MotorStopTimer_GetLastFailureStage s = st_last_failure_stage s"

definition MotorStopTimer_IrqHandler ::
  "('h, 'a) timer_handler \<Rightarrow> ('h, 'a) stop_timer_scheme \<Rightarrow> ('h, 'a) stop_timer_scheme" where
  "MotorStopTimer_IrqHandler handler s =
    (let status = tim5_sr s
     in if \<not> st_handler s
        then MotorStopTimer_Cancel (s\<lparr>st_last_failure_stage := 27, st_healthy := False\<rparr>)
        else if \<not> st_armed s
        then MotorStopTimer_Cancel
               (handler MOTOR_STOP_TIMER_ERROR (s\<lparr>st_last_failure_stage := 24, st_healthy := False\<rparr>))
        else
          (let (event, s) =
             (if status AND TIM_SR_CC1OF \<noteq> 0
              then (MOTOR_STOP_TIMER_ERROR, s\<lparr>st_last_failure_stage := 25, st_healthy := False\<rparr>)
              else if status AND TIM_SR_UIF \<noteq> 0 then (MOTOR_STOP_TIMER_BACKSTOP, s)
              else if status AND TIM_SR_CC1IF \<noteq> 0 then (MOTOR_STOP_TIMER_NORMAL, s)
              else (MOTOR_STOP_TIMER_ERROR, s\<lparr>st_last_failure_stage := 26, st_healthy := False\<rparr>))
           in MotorStopTimer_Cancel (handler event s)))"

definition MotorStopTimer_CommitArm ::
  "('h, 'a) timer_handler \<Rightarrow> ('h, 'a) stop_timer_scheme \<Rightarrow> bool \<times> ('h, 'a) stop_timer_scheme" where
  "MotorStopTimer_CommitArm handler s =
    (let s = s\<lparr>st_last_failure_stage := MOTOR_FAILURE_STAGE_NONE\<rparr>
     in if \<not> st_armed s \<or> \<not> st_healthy s then (False, s\<lparr>st_last_failure_stage := 22\<rparr>)
        else
          (let s = timer_hw s;
               status = tim5_sr s
           in if status AND (TIM_SR_UIF OR TIM_SR_CC1IF OR TIM_SR_CC1OF) \<noteq> 0
              then (False, (MotorStopTimer_IrqHandler handler (s\<lparr>st_last_failure_stage := 23\<rparr>))
                             \<lparr>st_last_failure_stage := 23\<rparr>)
              else (True, s\<lparr>tim5_irq_enabled := True\<rparr>)))"

section \<open>The lease of the continuous mode\<close>

definition MOTOR_STOP_MAX_LEASE_MS :: "build_policy \<Rightarrow> u32" where
  "MOTOR_STOP_MAX_LEASE_MS p = (if bp_commissioning p then 130 else 100)"

definition MotorStopTimer_ArmLease ::
  "build_policy \<Rightarrow> ('h, 'a) timer_handler \<Rightarrow> u32 \<Rightarrow> ('h, 'a) stop_timer_scheme
    \<Rightarrow> bool \<times> ('h, 'a) stop_timer_scheme" where
  "MotorStopTimer_ArmLease p handler remaining_ms s =
    (if \<not> st_initialized s \<or> \<not> st_healthy s \<or> st_armed s \<or> remaining_ms \<le> 1
        \<or> remaining_ms > MOTOR_STOP_MAX_LEASE_MS p
     then (False, s)
     else
       (let s = MotorStopTimer_Cancel s;
            s = s\<lparr>tim5_cr1 := TIM_CR1_URS, tim5_psc := st_prescaler s, tim5_arr := 0xFFFFFFFF,
                  tim5_ccr1 := (remaining_ms - 1) * of_nat MOTOR_STOP_TIMER_TICKS_PER_MS,
                  tim5_cnt := 0\<rparr>;
            s = tim5_update_event s;
            s = s\<lparr>tim5_sr := 0, tim5_dier := TIM_DIER_CC1IE OR TIM_DIER_UIE\<rparr>;
            s = s\<lparr>st_armed := True\<rparr>;
            s = s\<lparr>tim5_cr1 := tim5_cr1 s OR TIM_CR1_CEN\<rparr>
        in MotorStopTimer_CommitArm handler s))"

text \<open>The hardware is observed before the count is read and before the flags are.\<close>

definition MotorStopTimer_RenewLease ::
  "build_policy \<Rightarrow> ('h, 'a) timer_handler \<Rightarrow> u32 \<Rightarrow> ('h, 'a) stop_timer_scheme
    \<Rightarrow> bool \<times> ('h, 'a) stop_timer_scheme" where
  "MotorStopTimer_RenewLease p handler remaining_ms s =
    (let s = timer_hw s;
         counter = tim5_cnt s; old_deadline = tim5_ccr1 s
     in if \<not> MotorStopTimer_IsArmed s \<or> \<not> st_healthy s \<or> remaining_ms \<le> 1
          \<or> remaining_ms > MOTOR_STOP_MAX_LEASE_MS p
        then (False, s)
        else
          (let s = timer_hw s
           in if tim5_sr s AND (TIM_SR_UIF OR TIM_SR_CC1IF OR TIM_SR_CC1OF) \<noteq> 0
              then (False, MotorStopTimer_IrqHandler handler s)
              else if time_reached counter old_deadline
              then (False, MotorStopTimer_Cancel (handler MOTOR_STOP_TIMER_NORMAL s))
              else MotorStopTimer_CommitArm handler
                     (s\<lparr>tim5_ccr1 := counter + (remaining_ms - 1) * of_nat MOTOR_STOP_TIMER_TICKS_PER_MS\<rparr>)))"

section \<open>The interrupt\<close>

text \<open>
  The timer's interrupt is taken when it is enabled in the controller and an enabled flag
  is raised. \<open>poll\<close> is a point of the main program at which the hardware has moved on and
  the interrupt, if there is one, is served.
\<close>

definition tim5_irq_line :: "('h, 'a) stop_timer_scheme \<Rightarrow> bool" where
  "tim5_irq_line s \<longleftrightarrow> tim5_irq_enabled s \<and> tim5_sr s AND tim5_dier s AND 0x3 \<noteq> 0"

definition poll ::
  "('h, 'a) timer_handler \<Rightarrow> ('h, 'a) stop_timer_scheme \<Rightarrow> ('h, 'a) stop_timer_scheme" where
  "poll handler s =
    (let s = timer_hw s in if tim5_irq_line s then MotorStopTimer_IrqHandler handler s else s)"

section \<open>What the timer guarantees its client\<close>

lemma same_more:
  assumes "real_regs.more s = real_regs.more s'"
  shows "tim5_cr1 s = tim5_cr1 s'" "tim5_dier s = tim5_dier s'" "tim5_sr s = tim5_sr s'"
    "tim5_cnt s = tim5_cnt s'" "tim5_arr s = tim5_arr s'" "tim5_ccr1 s = tim5_ccr1 s'"
    "tim5_irq_enabled s = tim5_irq_enabled s'" "st_handler s = st_handler s'"
    "st_initialized s = st_initialized s'" "st_armed s = st_armed s'" "st_healthy s = st_healthy s'"
    "tm_schedule s = tm_schedule s'" "stop_timer.more s = stop_timer.more s'"
    "st_last_failure_stage s = st_last_failure_stage s'"
  using assms by (cases s; cases s'; simp)+

lemmas DisableImmediate_timer [simp] = same_more [OF DisableImmediate_keeps(1)]

lemma Cancel_simps [simp]:
  "\<not> st_armed (MotorStopTimer_Cancel s)" "\<not> tim5_irq_enabled (MotorStopTimer_Cancel s)"
  "st_handler (MotorStopTimer_Cancel s) = st_handler s"
  "st_initialized (MotorStopTimer_Cancel s) = st_initialized s"
  "st_healthy (MotorStopTimer_Cancel s) = st_healthy s"
  "stop_timer.more (MotorStopTimer_Cancel s) = stop_timer.more s"
  "pins_ok (MotorStopTimer_Cancel s) = pins_ok s"
  "MotorHwReal_IsDisabled (MotorStopTimer_Cancel s) = MotorHwReal_IsDisabled s"
  "\<not> MotorStopTimer_IsArmed (MotorStopTimer_Cancel s)"
  by (simp_all add: MotorStopTimer_Cancel_def MotorStopTimer_IsArmed_def pins_ok_def
      MotorHwReal_IsDisabled_def Let_def)

lemma timer_hw_simps [simp]:
  "st_armed (timer_hw s) = st_armed s" "tim5_irq_enabled (timer_hw s) = tim5_irq_enabled s"
  "st_handler (timer_hw s) = st_handler s" "st_initialized (timer_hw s) = st_initialized s"
  "st_healthy (timer_hw s) = st_healthy s" "stop_timer.more (timer_hw s) = stop_timer.more s"
  "pins_ok (timer_hw s) = pins_ok s" "MotorHwReal_IsDisabled (timer_hw s) = MotorHwReal_IsDisabled s"
  "MotorHwReal_ActiveCompareIsValid press duty (timer_hw s) = MotorHwReal_ActiveCompareIsValid press duty s"
  "tim5_dier (timer_hw s) = tim5_dier s" "tim5_arr (timer_hw s) = tim5_arr s"
  "tim5_ccr1 (timer_hw s) = tim5_ccr1 s"
  "tim5_cr1 (timer_hw s) AND TIM_CR1_OPM = tim5_cr1 s AND TIM_CR1_OPM"
proof -
  have "(x AND - 2) AND 8 = x AND 8" for x :: u32
    by (simp add: and.assoc)
  then show "tim5_cr1 (timer_hw s) AND TIM_CR1_OPM = tim5_cr1 s AND TIM_CR1_OPM"
    by (simp add: timer_hw_def Let_def split: list.split)
qed (simp_all add: timer_hw_def pins_ok_def MotorHwReal_IsDisabled_def
    MotorHwReal_ActiveCompareIsValid_def Let_def split: list.split)

lemma output_static [simp]:
  "pins_ok (s\<lparr>tim5_irq_enabled := i\<rparr>) = pins_ok s" "pins_ok (s\<lparr>st_last_failure_stage := n\<rparr>) = pins_ok s"
  "MotorHwReal_ActiveCompareIsValid press duty (s\<lparr>tim5_irq_enabled := i\<rparr>)
    = MotorHwReal_ActiveCompareIsValid press duty s"
  "MotorHwReal_ActiveCompareIsValid press duty (s\<lparr>st_last_failure_stage := n\<rparr>)
    = MotorHwReal_ActiveCompareIsValid press duty s"
  by (simp_all add: pins_ok_def MotorHwReal_ActiveCompareIsValid_def)

text \<open>A timer that has raised no flag is still running.\<close>

lemma timer_hw_running:
  assumes "tim5_sr (timer_hw s) AND 3 = 0" "tim5_cr1 s AND TIM_CR1_CEN \<noteq> 0"
  shows "tim5_cr1 (timer_hw s) AND TIM_CR1_CEN \<noteq> 0"
proof -
  have "flags AND 1 = 0" if "(x OR (flags AND 0x203)) AND 3 = 0" for x flags :: u32
  proof -
    have "bit ((x OR (flags AND 0x203)) AND 3) 0 \<longleftrightarrow> bit x 0 \<or> bit flags 0"
      by (simp add: bit_simps)
    then have "\<not> bit flags 0" using that by simp
    then show ?thesis by (simp add: and_one_eq bit_0 even_iff_mod_2_eq_zero)
  qed
  then show ?thesis
    using assms by (auto simp: timer_hw_def Let_def split: list.splits)
qed

lemma timer_hw_quiet_line:
  assumes "\<not> tim5_irq_line (timer_hw s)" "tim5_irq_enabled s" "tim5_dier s = 3"
  shows "tim5_sr (timer_hw s) AND 3 = 0"
  using assms by (simp add: tim5_irq_line_def and.assoc)

text \<open>
  The contract of the handler: after it the output is off, and cancelling the timer does
  not change that. The client gets: an interrupt ends with the output off, the timer
  disarmed and its interrupt disabled.
\<close>

locale stop_handler =
  fixes handler :: "('h, 'a) timer_handler"
    and off :: "('h, 'a) stop_timer_scheme \<Rightarrow> bool"
  assumes handler_off: "off (handler event s)"
    and cancel_off: "off (MotorStopTimer_Cancel s) = off s"
begin

lemma IrqHandler_off: "st_handler s \<Longrightarrow> off (MotorStopTimer_IrqHandler handler s)"
  by (simp add: MotorStopTimer_IrqHandler_def Let_def cancel_off handler_off split: prod.split)

lemma IrqHandler_disarms:
  "\<not> st_armed (MotorStopTimer_IrqHandler handler s) \<and> \<not> tim5_irq_enabled (MotorStopTimer_IrqHandler handler s)"
  by (simp add: MotorStopTimer_IrqHandler_def Let_def split: prod.split)

lemma poll_cases:
  obtains (quiet) "\<not> tim5_irq_line (timer_hw s)" "poll handler s = timer_hw s"
  | (interrupt) "tim5_irq_enabled s" "poll handler s = MotorStopTimer_IrqHandler handler (timer_hw s)"
proof (cases "tim5_irq_line (timer_hw s)")
  case True
  then show thesis using interrupt by (simp add: poll_def Let_def tim5_irq_line_def)
qed (simp add: quiet poll_def Let_def)

end

end
