(* ===== verification/MotorReal.thy ===== *)
theory MotorReal
  imports MotorStopTimer
begin

text \<open>
  The real motor backend without ForceServo, \<^verbatim>\<open>Board/Motor/motor_executor_real.c\<close>: a request
  is planned, the stop timer armed, the output started and verified, and the timer's
  interrupt enabled; the interrupt turns the output off and leaves one event that
  \<open>MotorExecutor_Service\<close> publishes. \<open>rx_poll\<close> marks the points between two accesses to what
  the interrupt shares with the main program; disabling the output and cancelling the
  timer are single steps, since the interrupt does both itself.
\<close>

section \<open>State\<close>

record 'h real_motor = "'h stop_timer" +
  rx_motor :: MotorExecutorSnapshot
  rx_initialized :: bool
  rx_pending_completion_event :: MotorStopTimerEvent
  rx_completion_event_pending :: bool

definition MotorExecutor_ClearFailure :: "('h, 'a) real_motor_scheme \<Rightarrow> ('h, 'a) real_motor_scheme" where
  "MotorExecutor_ClearFailure e = e\<lparr>rx_motor := (rx_motor e)\<lparr>
     mx_last_failure_result := MOTOR_RESULT_OK,
     mx_last_failure_stage := MOTOR_FAILURE_STAGE_NONE\<rparr>\<rparr>"

definition MotorExecutor_LatchFailure ::
  "MotorResult \<Rightarrow> MotorFailureStage \<Rightarrow> MotorFailureStage \<Rightarrow> ('h, 'a) real_motor_scheme \<Rightarrow> ('h, 'a) real_motor_scheme" where
  "MotorExecutor_LatchFailure result specific_stage fallback_stage e =
    (if result \<noteq> MOTOR_RESULT_TIMER_ERROR \<and> result \<noteq> MOTOR_RESULT_HARDWARE_ERROR then e
     else if mx_last_failure_result (rx_motor e) \<noteq> MOTOR_RESULT_OK then e
     else
       (let stage = (if specific_stage \<noteq> MOTOR_FAILURE_STAGE_NONE then specific_stage
                     else fallback_stage);
            stage = (if stage = MOTOR_FAILURE_STAGE_NONE then 44 else stage)
        in e\<lparr>rx_motor := (rx_motor e)\<lparr>mx_last_failure_result := result,
                                       mx_last_failure_stage := stage\<rparr>\<rparr>))"

definition Real_DirectionIsValid :: "MotorDirection \<Rightarrow> bool" where
  "Real_DirectionIsValid direction \<longleftrightarrow>
    direction = MOTOR_DIRECTION_PRESS \<or> direction = MOTOR_DIRECTION_RELEASE"

definition Real_TimeReached :: "u32 \<Rightarrow> u32 \<Rightarrow> bool" where
  "Real_TimeReached now_ms deadline_ms \<longleftrightarrow> 0 \<le> sint (now_ms - deadline_ms)"

definition MotorExecutor_SetPhysicalStatus :: "'h real_board \<Rightarrow> ('h, 'a) real_motor_scheme \<Rightarrow> ('h, 'a) real_motor_scheme" where
  "MotorExecutor_SetPhysicalStatus b e = e\<lparr>rx_motor := (rx_motor e)\<lparr>
     mx_physical_output_locked := \<not> MotorHwReal_OutputArmingAllowed b,
     mx_physical_output_disabled := MotorHwReal_IsDisabled e\<rparr>\<rparr>"

definition MotorExecutor_ClearActivePlan :: "('h, 'a) real_motor_scheme \<Rightarrow> ('h, 'a) real_motor_scheme" where
  "MotorExecutor_ClearActivePlan e = e\<lparr>rx_motor := (rx_motor e)\<lparr>
     mx_planned_tim2_ccr3 := 0, mx_planned_tim3_ccr3 := 0, mx_logical_active := False\<rparr>\<rparr>"

definition MotorExecutor_ClearPendingCompletion :: "('h, 'a) real_motor_scheme \<Rightarrow> ('h, 'a) real_motor_scheme" where
  "MotorExecutor_ClearPendingCompletion e =
    e\<lparr>rx_completion_event_pending := False, rx_pending_completion_event := MOTOR_STOP_TIMER_ERROR\<rparr>"

definition MotorExecutor_LatchCompletion ::
  "MotorStopTimerEvent \<Rightarrow> ('h, 'a) real_motor_scheme \<Rightarrow> ('h, 'a) real_motor_scheme" where
  "MotorExecutor_LatchCompletion event e =
    e\<lparr>rx_pending_completion_event := event, rx_completion_event_pending := True\<rparr>"

definition MotorExecutor_TakeCompletion ::
  "('h, 'a) real_motor_scheme \<Rightarrow> MotorStopTimerEvent option \<times> ('h, 'a) real_motor_scheme" where
  "MotorExecutor_TakeCompletion e =
    (if \<not> rx_completion_event_pending e then (None, e)
     else (Some (rx_pending_completion_event e), e\<lparr>rx_completion_event_pending := False\<rparr>))"

definition MotorExecutor_MapCompletion :: "MotorStopTimerEvent \<Rightarrow> MotorCompletion" where
  "MotorExecutor_MapCompletion event =
    (if event = MOTOR_STOP_TIMER_NORMAL then MOTOR_COMPLETION_NORMAL
     else if event = MOTOR_STOP_TIMER_BACKSTOP then MOTOR_COMPLETION_BACKSTOP
     else MOTOR_COMPLETION_ERROR)"

text \<open>The handler the timer calls: off, timer cancelled, event latched.\<close>

definition MotorExecutor_StopTimerExpiredFromIsr ::
  "MotorStopTimerEvent \<Rightarrow> 'h real_motor \<Rightarrow> 'h real_motor" where
  "MotorExecutor_StopTimerExpiredFromIsr event e =
    MotorExecutor_LatchCompletion event (MotorStopTimer_Cancel (MotorHwReal_DisableImmediate e))"

abbreviation rx_poll :: "'h real_motor \<Rightarrow> 'h real_motor" where
  "rx_poll \<equiv> poll MotorExecutor_StopTimerExpiredFromIsr"

definition set_completion :: "MotorCompletion \<Rightarrow> ('h, 'a) real_motor_scheme \<Rightarrow> ('h, 'a) real_motor_scheme" where
  "set_completion c e = e\<lparr>rx_motor := (rx_motor e)\<lparr>mx_last_completion := c\<rparr>\<rparr>"

text \<open>\<open>publish_result\<close> is the part before the completion is recorded.\<close>

definition publish_result ::
  "'h real_board \<Rightarrow> MotorStopTimerEvent \<Rightarrow> ('h, 'a) real_motor_scheme
    \<Rightarrow> MotorResult \<times> MotorStopTimerEvent \<times> ('h, 'a) real_motor_scheme" where
  "publish_result b event e =
    (let e = MotorExecutor_SetPhysicalStatus b e
     in if \<not> mx_physical_output_disabled (rx_motor e)
        then
          (let e = MotorHwReal_DisableImmediate e;
               e = MotorExecutor_SetPhysicalStatus b e
           in (MOTOR_RESULT_HARDWARE_ERROR, MOTOR_STOP_TIMER_ERROR,
               MotorExecutor_LatchFailure MOTOR_RESULT_HARDWARE_ERROR
                 (MotorHwReal_GetLastFailureStage e) 34 e))
        else if event = MOTOR_STOP_TIMER_ERROR
        then (MOTOR_RESULT_TIMER_ERROR, event,
              MotorExecutor_LatchFailure MOTOR_RESULT_TIMER_ERROR
                (MotorStopTimer_GetLastFailureStage e) 44 e)
        else (MOTOR_RESULT_OK, event, e))"

definition MotorExecutor_PublishCompletion ::
  "'h real_board \<Rightarrow> MotorStopTimerEvent \<Rightarrow> 'h real_motor \<Rightarrow> MotorResult \<times> 'h real_motor" where
  "MotorExecutor_PublishCompletion b event e =
    (let (result, event, e) = publish_result b event e;
         e = set_completion (MotorExecutor_MapCompletion event) e
     in (result, MotorExecutor_ClearActivePlan e))"

definition Real_PlanCommand :: "MotorDirection \<Rightarrow> u32 \<Rightarrow> MotorResult \<times> u16 \<times> u16" where
  "Real_PlanCommand direction command_mv =
    (if \<not> Real_DirectionIsValid direction \<or> command_mv = 0
        \<or> command_mv > of_nat MOTOR_PLAN_SUPPLY_REFERENCE_MV
     then (MOTOR_RESULT_INVALID, 0, 0)
     else
       (let duty = ucast
              ((ucast command_mv * of_nat MOTOR_PLAN_PWM_PERIOD_COUNTS
                + (of_nat MOTOR_PLAN_SUPPLY_REFERENCE_MV - 1 :: u64))
               div of_nat MOTOR_PLAN_SUPPLY_REFERENCE_MV) :: u32;
            duty = (if duty > of_nat MOTOR_PLAN_PWM_PERIOD_COUNTS
                    then of_nat MOTOR_PLAN_PWM_PERIOD_COUNTS else duty)
        in if direction = MOTOR_DIRECTION_PRESS
           then (MOTOR_RESULT_OK, 0, ucast duty)
           else (MOTOR_RESULT_OK, ucast duty, 0)))"

section \<open>Initialisation and stop\<close>

definition Real_Initialize :: "'h real_board \<Rightarrow> ('h, 'a) real_motor_scheme \<Rightarrow> MotorResult \<times> ('h, 'a) real_motor_scheme" where
  "Real_Initialize b e =
    (let e = MotorHwReal_DisableImmediate e;
         e = e\<lparr>rx_motor := zero_motor_snapshot, rx_initialized := False\<rparr>;
         e = MotorExecutor_ClearPendingCompletion e;
         e = e\<lparr>rx_motor := (rx_motor e)\<lparr>mx_last_action := MOTOR_ACTION_DISABLED\<rparr>\<rparr>;
         e = MotorExecutor_ClearFailure e;
         e = MotorExecutor_SetPhysicalStatus b e;
         (ok, e) = MotorHwReal_InitializeDisabled b e
     in if \<not> ok
        then
          (let e = MotorHwReal_DisableImmediate e;
               e = MotorExecutor_SetPhysicalStatus b e
           in (MOTOR_RESULT_HARDWARE_ERROR,
               MotorExecutor_LatchFailure MOTOR_RESULT_HARDWARE_ERROR
                 (MotorHwReal_GetLastFailureStage e) 44 e))
        else
          (let (ok, e) = MotorStopTimer_Initialize b True e
           in if \<not> ok
              then
                (let e = MotorHwReal_DisableImmediate e;
                     e = MotorExecutor_SetPhysicalStatus b e
                 in (MOTOR_RESULT_TIMER_ERROR,
                     MotorExecutor_LatchFailure MOTOR_RESULT_TIMER_ERROR
                       (MotorStopTimer_GetLastFailureStage e) 44 e))
              else
                (let e = e\<lparr>rx_initialized := True\<rparr>;
                     e = MotorExecutor_SetPhysicalStatus b e
                 in if \<not> mx_physical_output_disabled (rx_motor e)
                    then (MOTOR_RESULT_HARDWARE_ERROR,
                          MotorExecutor_LatchFailure MOTOR_RESULT_HARDWARE_ERROR 0 28 e)
                    else (MOTOR_RESULT_OK, e))))"

text \<open>After the output is off and the timer cancelled.\<close>

definition disable_finish ::
  "'h real_board \<Rightarrow> ('h, 'a) real_motor_scheme \<Rightarrow> MotorResult \<times> ('h, 'a) real_motor_scheme" where
  "disable_finish b e =
    (let e = MotorExecutor_ClearPendingCompletion e;
         e = e\<lparr>rx_motor := (rx_motor e)\<lparr>mx_last_action := MOTOR_ACTION_DISABLED, mx_command_mv := 0,
               mx_requested_duration_ms := 0, mx_logical_deadline_ms := 0,
               mx_logical_backstop_ms := 0\<rparr>\<rparr>;
         e = MotorExecutor_ClearActivePlan e;
         e = MotorExecutor_SetPhysicalStatus b e;
         output_disabled = mx_physical_output_disabled (rx_motor e);
         timer_armed = MotorStopTimer_IsArmed e
     in if \<not> output_disabled
        then
          (let e = MotorExecutor_LatchFailure MOTOR_RESULT_HARDWARE_ERROR 0 42 e;
               e = MotorHwReal_DisableImmediate e
           in (MOTOR_RESULT_HARDWARE_ERROR, MotorExecutor_SetPhysicalStatus b e))
        else if timer_armed
        then
          (let e = MotorExecutor_LatchFailure MOTOR_RESULT_TIMER_ERROR 0 43 e
           in (MOTOR_RESULT_TIMER_ERROR, MotorStopTimer_Cancel e))
        else (MOTOR_RESULT_OK, e))"

definition Real_Disable :: "'h real_board \<Rightarrow> 'h real_motor \<Rightarrow> MotorResult \<times> 'h real_motor" where
  "Real_Disable b e =
    (let e = MotorHwReal_DisableImmediate (rx_poll e);
         e = MotorStopTimer_Cancel (rx_poll e)
     in disable_finish b e)"

section \<open>Service\<close>

text \<open>
  The service and the guard are the same code in the builds with and without ForceServo,
  but for the interrupt's handler, the completion recorded and one condition. These are
  the first arguments here: \<open>pl\<close> is the interrupt, \<open>pub\<close> publishes an event, \<open>dropped\<close> says that
  the output of the active request is unexpectedly off, \<open>valid\<close> checks the active request.

  \<open>if (MotorExecutor_TakeCompletion(&event)) return MotorExecutor_PublishCompletion(event);\<close>
  before every decision; \<open>timer_abort\<close> is the repeated tail of the failing branches.
\<close>

type_synonym ('h, 'a) publisher =
  "MotorStopTimerEvent \<Rightarrow> ('h, 'a) real_motor_scheme \<Rightarrow> MotorResult \<times> ('h, 'a) real_motor_scheme"

type_synonym ('h, 'a) motor_step = "('h, 'a) real_motor_scheme \<Rightarrow> ('h, 'a) real_motor_scheme"

type_synonym ('h, 'a) motor_call =
  "('h, 'a) real_motor_scheme \<Rightarrow> MotorResult \<times> ('h, 'a) real_motor_scheme"

definition or_publish ::
  "('h, 'a) motor_step \<Rightarrow> ('h, 'a) publisher \<Rightarrow> ('h, 'a) motor_call \<Rightarrow> ('h, 'a) motor_call" where
  "or_publish pl pub k e =
    (case MotorExecutor_TakeCompletion (pl e) of
       (Some event, e) \<Rightarrow> pub event e
     | (None, e) \<Rightarrow> k e)"

definition timer_abort ::
  "('h, 'a) publisher \<Rightarrow> MotorResult \<Rightarrow> MotorFailureStage \<Rightarrow> MotorFailureStage
    \<Rightarrow> ('h, 'a) motor_call" where
  "timer_abort pub result specific fallback e =
    (let e = MotorExecutor_LatchFailure result specific fallback e;
         e = MotorStopTimer_Cancel (MotorHwReal_DisableImmediate e)
     in pub MOTOR_STOP_TIMER_ERROR e)"

definition service_idle ::
  "('h, 'a) motor_step \<Rightarrow> ('h, 'a) publisher \<Rightarrow> 'h real_board \<Rightarrow> ('h, 'a) motor_call" where
  "service_idle pl pub b e =
    (if \<not> mx_physical_output_disabled (rx_motor e)
     then
       (let e = MotorStopTimer_Cancel (MotorHwReal_DisableImmediate e);
            e = MotorExecutor_SetPhysicalStatus b e;
            e = set_completion MOTOR_COMPLETION_ERROR e
        in (MOTOR_RESULT_HARDWARE_ERROR,
            MotorExecutor_LatchFailure MOTOR_RESULT_HARDWARE_ERROR 0 40 e))
     else
       (let e = pl e
        in if MotorStopTimer_IsArmed e
           then
             (let e = MotorStopTimer_Cancel (MotorHwReal_DisableImmediate e);
                  e = set_completion MOTOR_COMPLETION_ERROR e
              in (MOTOR_RESULT_TIMER_ERROR,
                  MotorExecutor_LatchFailure MOTOR_RESULT_TIMER_ERROR 0 41 e))
           else
             (let e = pl e
              in if \<not> MotorStopTimer_IsHealthy e
                 then or_publish pl pub (\<lambda>e. (MOTOR_RESULT_TIMER_ERROR,
                        MotorExecutor_LatchFailure MOTOR_RESULT_TIMER_ERROR
                          (MotorStopTimer_GetLastFailureStage e) 35 e)) e
                 else (MOTOR_RESULT_OK, e))))"

definition service_active ::
  "('h, 'a) motor_step \<Rightarrow> ('h, 'a) publisher \<Rightarrow> (('h, 'a) real_motor_scheme \<Rightarrow> bool) \<Rightarrow> u32
    \<Rightarrow> ('h, 'a) motor_call" where
  "service_active pl pub dropped now_ms e =
    (let e = pl e
     in if \<not> MotorStopTimer_IsHealthy e
        then or_publish pl pub (\<lambda>e. timer_abort pub MOTOR_RESULT_TIMER_ERROR
               (MotorStopTimer_GetLastFailureStage e) 35 e) e
        else
          (let e = pl e
           in if \<not> MotorStopTimer_IsArmed e
              then or_publish pl pub (timer_abort pub MOTOR_RESULT_TIMER_ERROR 0 36) e
              else if Real_TimeReached now_ms (mx_logical_backstop_ms (rx_motor e))
              then or_publish pl pub (timer_abort pub MOTOR_RESULT_TIMER_ERROR 0 37) e
              else if dropped e
              then or_publish pl pub (\<lambda>e. (MOTOR_RESULT_HARDWARE_ERROR,
                     snd (timer_abort pub MOTOR_RESULT_HARDWARE_ERROR 0 38 e))) e
              else (MOTOR_RESULT_OK, e)))"

definition motor_service ::
  "('h, 'a) motor_step \<Rightarrow> ('h, 'a) publisher \<Rightarrow> (('h, 'a) real_motor_scheme \<Rightarrow> bool)
    \<Rightarrow> 'h real_board \<Rightarrow> u32 \<Rightarrow> ('h, 'a) motor_call" where
  "motor_service pl pub dropped b now_ms =
    or_publish pl pub (\<lambda>e.
      or_publish pl pub (\<lambda>e.
        if \<not> mx_logical_active (rx_motor e) then service_idle pl pub b e
        else service_active pl pub dropped now_ms e)
      (MotorExecutor_SetPhysicalStatus b (pl e)))"

definition Real_Service ::
  "'h real_board \<Rightarrow> u32 \<Rightarrow> 'h real_motor \<Rightarrow> MotorResult \<times> 'h real_motor" where
  "Real_Service b = motor_service rx_poll (MotorExecutor_PublishCompletion b)
     (\<lambda>e. mx_physical_output_disabled (rx_motor e)) b"

section \<open>Start\<close>

definition MotorExecutor_FailStart ::
  "'h real_board \<Rightarrow> MotorResult \<Rightarrow> ('h, 'a) real_motor_scheme \<Rightarrow> MotorResult \<times> ('h, 'a) real_motor_scheme" where
  "MotorExecutor_FailStart b result e =
    (let e = MotorHwReal_DisableImmediate e;
         e = MotorStopTimer_Cancel e;
         e = MotorExecutor_ClearPendingCompletion e;
         e = MotorExecutor_ClearActivePlan e
     in (result, MotorExecutor_SetPhysicalStatus b e))"

text \<open>The last part: the timer's interrupt is enabled and the result checked.\<close>

definition start_commit ::
  "'h real_board \<Rightarrow> u32 \<Rightarrow> 'h real_motor \<Rightarrow> MotorResult \<times> 'h real_motor" where
  "start_commit b now_ms e =
    (let (ok, e) = MotorStopTimer_CommitArm MotorExecutor_StopTimerExpiredFromIsr e
     in if \<not> ok
        then
          (let e = MotorExecutor_LatchFailure MOTOR_RESULT_TIMER_ERROR
                     (MotorStopTimer_GetLastFailureStage e) 33 e
           in if rx_completion_event_pending e
              then (MOTOR_RESULT_TIMER_ERROR, snd (Real_Service b now_ms e))
              else MotorExecutor_FailStart b MOTOR_RESULT_TIMER_ERROR e)
        else
          (let e = rx_poll e
           in if \<not> mx_logical_active (rx_motor e)
              then (MOTOR_RESULT_TIMER_ERROR,
                    MotorExecutor_LatchFailure MOTOR_RESULT_TIMER_ERROR
                      (MotorStopTimer_GetLastFailureStage e) 33 e)
              else (MOTOR_RESULT_OK, e)))"

definition start_output ::
  "'h real_board \<Rightarrow> MotorDirection \<Rightarrow> u16 \<Rightarrow> u16 \<Rightarrow> u32 \<Rightarrow> 'h real_motor
    \<Rightarrow> MotorResult \<times> 'h real_motor" where
  "start_output b direction tim2_plan tim3_plan now_ms e =
    (let (ok, e) = (if direction = MOTOR_DIRECTION_PRESS then MotorHwReal_ApplyPress b tim3_plan e
                    else MotorHwReal_ApplyRelease b tim2_plan e);
         e = MotorExecutor_SetPhysicalStatus b e
     in if \<not> ok \<or> mx_physical_output_disabled (rx_motor e)
        then MotorExecutor_FailStart b MOTOR_RESULT_HARDWARE_ERROR
               (MotorExecutor_LatchFailure MOTOR_RESULT_HARDWARE_ERROR
                  (MotorHwReal_GetLastFailureStage e) 32 e)
        else start_commit b now_ms e)"

definition Real_Start ::
  "'h real_board \<Rightarrow> MotorDirection \<Rightarrow> u32 \<Rightarrow> u32 \<Rightarrow> u32 \<Rightarrow> u32 \<Rightarrow> bool \<Rightarrow> 'h real_motor
    \<Rightarrow> MotorResult \<times> 'h real_motor" where
  "Real_Start b direction command_mv duration_ms backstop_ms now_ms pulse e =
    (if mx_logical_active (rx_motor e) then (MOTOR_RESULT_BUSY, e)
     else if duration_ms = 0 \<or> backstop_ms \<le> duration_ms then (MOTOR_RESULT_INVALID, e)
     else
       (let (result, tim2_plan, tim3_plan) = Real_PlanCommand direction command_mv
        in if result \<noteq> MOTOR_RESULT_OK then (result, e)
           else
             (let e = MotorExecutor_ClearFailure e;
                  e = MotorHwReal_DisableImmediate (rx_poll e);
                  e = MotorStopTimer_Cancel (rx_poll e);
                  e = MotorExecutor_SetPhysicalStatus b e
              in if \<not> rx_initialized e \<or> \<not> mx_physical_output_disabled (rx_motor e)
                 then MotorExecutor_FailStart b MOTOR_RESULT_HARDWARE_ERROR
                        (MotorExecutor_LatchFailure MOTOR_RESULT_HARDWARE_ERROR 0 29 e)
                 else if \<not> MotorHwReal_OutputArmingAllowed b
                 then MotorExecutor_FailStart b MOTOR_RESULT_HARDWARE_ERROR
                        (MotorExecutor_LatchFailure MOTOR_RESULT_HARDWARE_ERROR 0 30 e)
                 else
                   (let m = rx_motor e;
                        e = e\<lparr>rx_motor := m\<lparr>
                              mx_request_sequence := mx_request_sequence m + 1,
                              mx_direction := direction,
                              mx_last_action :=
                                (if direction = MOTOR_DIRECTION_PRESS
                                 then (if pulse then MOTOR_ACTION_PRESS_PULSE else MOTOR_ACTION_PRESS_RUN)
                                 else (if pulse then MOTOR_ACTION_RELEASE_PULSE
                                       else MOTOR_ACTION_RELEASE_RUN)),
                              mx_last_completion := MOTOR_COMPLETION_NONE,
                              mx_command_mv := command_mv,
                              mx_requested_duration_ms := duration_ms,
                              mx_logical_deadline_ms := now_ms + duration_ms,
                              mx_logical_backstop_ms := now_ms + backstop_ms,
                              mx_planned_tim2_ccr3 := tim2_plan,
                              mx_planned_tim3_ccr3 := tim3_plan,
                              mx_logical_active := True\<rparr>\<rparr>;
                        e = MotorExecutor_ClearPendingCompletion e;
                        (ok, e) = MotorStopTimer_Arm duration_ms backstop_ms e
                    in if \<not> ok
                       then MotorExecutor_FailStart b MOTOR_RESULT_TIMER_ERROR
                              (MotorExecutor_LatchFailure MOTOR_RESULT_TIMER_ERROR
                                 (MotorStopTimer_GetLastFailureStage e) 31 e)
                       else start_output b direction tim2_plan tim3_plan now_ms e))))"

definition Real_StartRun ::
  "'h real_board \<Rightarrow> MotorDirection \<Rightarrow> u32 \<Rightarrow> u32 \<Rightarrow> u32 \<Rightarrow> u32 \<Rightarrow> 'h real_motor
    \<Rightarrow> MotorResult \<times> 'h real_motor" where
  "Real_StartRun b direction command_mv stop_after_ms hard_stop_after_ms now_ms =
    Real_Start b direction command_mv stop_after_ms hard_stop_after_ms now_ms False"

definition Real_StartPulse ::
  "'h real_board \<Rightarrow> MotorDirection \<Rightarrow> u32 \<Rightarrow> u32 \<Rightarrow> u32 \<Rightarrow> u32 \<Rightarrow> 'h real_motor
    \<Rightarrow> MotorResult \<times> 'h real_motor" where
  "Real_StartPulse b direction command_mv duration_ms backstop_ms now_ms =
    Real_Start b direction command_mv duration_ms backstop_ms now_ms True"

section \<open>Guard and queries\<close>

definition MotorExecutor_GuardPendingCompletion ::
  "'h real_board \<Rightarrow> ('h, 'a) real_motor_scheme \<Rightarrow> MotorResult \<times> ('h, 'a) real_motor_scheme" where
  "MotorExecutor_GuardPendingCompletion b e =
    (let e = MotorStopTimer_Cancel (MotorHwReal_DisableImmediate e);
         e = MotorExecutor_SetPhysicalStatus b e
     in if \<not> mx_physical_output_disabled (rx_motor e)
        then (MOTOR_RESULT_HARDWARE_ERROR,
              MotorExecutor_LatchFailure MOTOR_RESULT_HARDWARE_ERROR 0 40 e)
        else if MotorStopTimer_IsArmed e
        then (MOTOR_RESULT_TIMER_ERROR, MotorExecutor_LatchFailure MOTOR_RESULT_TIMER_ERROR 0 41 e)
        else (MOTOR_RESULT_OK, e))"

text \<open>The conditions of an \<open>&&\<close> chain, with the interrupt between them.\<close>

definition polled ::
  "('h, 'a) motor_step \<Rightarrow> (('h, 'a) real_motor_scheme \<Rightarrow> bool) \<Rightarrow> ('h, 'a) real_motor_scheme
    \<Rightarrow> bool \<times> ('h, 'a) real_motor_scheme" where
  "polled pl q e = (let e = pl e in (q e, e))"

definition active_request_valid ::
  "('h, 'a) motor_step \<Rightarrow> 'h real_board \<Rightarrow> ('h, 'a) real_motor_scheme
    \<Rightarrow> bool \<times> ('h, 'a) real_motor_scheme" where
  "active_request_valid pl b e =
    (let e = MotorExecutor_SetPhysicalStatus b (pl e)
     in if \<not> mx_logical_active (rx_motor e) then (False, e)
        else
          (let (ok, e) = all_of [polled pl (\<lambda>e. \<not> rx_completion_event_pending e),
                 polled pl (\<lambda>e. \<not> mx_physical_output_locked (rx_motor e)),
                 polled pl (\<lambda>e. \<not> mx_physical_output_disabled (rx_motor e)),
                 polled pl MotorStopTimer_IsArmed, polled pl MotorStopTimer_IsHealthy,
                 polled pl (\<lambda>e. \<not> rx_completion_event_pending e)] e
           in if ok then (True, e)
              else
                (let e = pl e
                 in if rx_completion_event_pending e
                    then
                      (let e = MotorExecutor_SetPhysicalStatus b e
                       in (mx_physical_output_disabled (rx_motor e) \<and> \<not> MotorStopTimer_IsArmed e, e))
                    else (False, e))))"

definition Real_ActiveRequestIsValid :: "'h real_board \<Rightarrow> 'h real_motor \<Rightarrow> bool \<times> 'h real_motor" where
  "Real_ActiveRequestIsValid = active_request_valid rx_poll"

text \<open>\<open>guard_next\<close> is the repeated check for an event that arrived meanwhile.\<close>

definition guard_next ::
  "('h, 'a) motor_step \<Rightarrow> 'h real_board \<Rightarrow> ('h, 'a) motor_call \<Rightarrow> ('h, 'a) motor_call" where
  "guard_next pl b k e =
    (let e = pl e
     in if rx_completion_event_pending e then MotorExecutor_GuardPendingCompletion b e else k e)"

definition guard_active ::
  "('h, 'a) motor_step \<Rightarrow> (('h, 'a) real_motor_scheme \<Rightarrow> bool \<times> ('h, 'a) real_motor_scheme)
    \<Rightarrow> 'h real_board \<Rightarrow> ('h, 'a) motor_call" where
  "guard_active pl valid b e =
    (let (ok, e) = valid e
     in if ok then guard_next pl b (\<lambda>e. (MOTOR_RESULT_OK, e)) e
        else guard_next pl b (\<lambda>e.
          (let e = MotorStopTimer_Cancel (pl (MotorHwReal_DisableImmediate e));
               e = MotorExecutor_SetPhysicalStatus b e
           in guard_next pl b (\<lambda>e. (MOTOR_RESULT_HARDWARE_ERROR,
                MotorExecutor_LatchFailure MOTOR_RESULT_HARDWARE_ERROR 0 39 e)) e)) e)"

definition guard_idle ::
  "('h, 'a) motor_step \<Rightarrow> 'h real_board \<Rightarrow> ('h, 'a) motor_call" where
  "guard_idle pl b e =
    (let physical_was_active = (\<not> mx_physical_output_disabled (rx_motor e));
         timer_was_armed = MotorStopTimer_IsArmed e;
         e = MotorHwReal_DisableImmediate e;
         e = pl e;
         e = (if \<not> mx_logical_active (rx_motor e) then MotorStopTimer_Cancel e else e);
         e = MotorExecutor_SetPhysicalStatus b e
     in guard_next pl b (\<lambda>e.
          if \<not> mx_physical_output_disabled (rx_motor e)
          then (MOTOR_RESULT_HARDWARE_ERROR,
                MotorExecutor_LatchFailure MOTOR_RESULT_HARDWARE_ERROR 0 40 e)
          else if physical_was_active
          then (MOTOR_RESULT_HARDWARE_ERROR,
                MotorExecutor_LatchFailure MOTOR_RESULT_HARDWARE_ERROR 0 40 e)
          else if timer_was_armed
          then (MOTOR_RESULT_TIMER_ERROR,
                MotorExecutor_LatchFailure MOTOR_RESULT_TIMER_ERROR 0 41 e)
          else (MOTOR_RESULT_OK, e)) e)"

definition motor_guard ::
  "('h, 'a) motor_step \<Rightarrow> (('h, 'a) real_motor_scheme \<Rightarrow> bool \<times> ('h, 'a) real_motor_scheme)
    \<Rightarrow> 'h real_board \<Rightarrow> ('h, 'a) motor_call" where
  "motor_guard pl valid b =
    guard_next pl b (\<lambda>e.
      guard_next pl b (\<lambda>e.
        if mx_logical_active (rx_motor e) then guard_active pl valid b e else guard_idle pl b (pl e))
      (MotorExecutor_SetPhysicalStatus b e))"

definition Real_GuardOutput :: "'h real_board \<Rightarrow> 'h real_motor \<Rightarrow> MotorResult \<times> 'h real_motor" where
  "Real_GuardOutput b = motor_guard rx_poll (Real_ActiveRequestIsValid b) b"

definition output_is_disabled ::
  "('h, 'a) motor_step \<Rightarrow> 'h real_board \<Rightarrow> ('h, 'a) real_motor_scheme
    \<Rightarrow> bool \<times> ('h, 'a) real_motor_scheme" where
  "output_is_disabled pl b e =
    (let e = MotorExecutor_SetPhysicalStatus b (pl e)
     in (mx_physical_output_disabled (rx_motor e), e))"

definition is_healthy ::
  "('h, 'a) motor_step \<Rightarrow> (('h, 'a) real_motor_scheme \<Rightarrow> bool \<times> ('h, 'a) real_motor_scheme)
    \<Rightarrow> 'h real_board \<Rightarrow> ('h, 'a) real_motor_scheme \<Rightarrow> bool \<times> ('h, 'a) real_motor_scheme" where
  "is_healthy pl valid b e =
    (let e = MotorExecutor_SetPhysicalStatus b (pl e);
         e = pl e
     in if \<not> rx_initialized e \<or> \<not> MotorStopTimer_IsHealthy e then (False, e)
        else if mx_logical_active (rx_motor e) then valid e
        else (mx_physical_output_disabled (rx_motor e) \<and> \<not> MotorStopTimer_IsArmed e, e))"

definition Real_OutputIsDisabled :: "'h real_board \<Rightarrow> 'h real_motor \<Rightarrow> bool \<times> 'h real_motor" where
  "Real_OutputIsDisabled = output_is_disabled rx_poll"

definition Real_IsHealthy :: "'h real_board \<Rightarrow> 'h real_motor \<Rightarrow> bool \<times> 'h real_motor" where
  "Real_IsHealthy b = is_healthy rx_poll (Real_ActiveRequestIsValid b) b"

definition Real_GetStatus :: "'h real_board \<Rightarrow> 'h real_motor \<Rightarrow> bool \<times> 'h real_motor" where
  "Real_GetStatus b e = (True, MotorExecutor_SetPhysicalStatus b (rx_poll e))"

definition Real_GetSnapshot :: "'h real_board \<Rightarrow> 'h real_motor \<Rightarrow> bool \<times> 'h real_motor" where
  "Real_GetSnapshot b e = (True, MotorExecutor_SetPhysicalStatus b (rx_poll e))"

text \<open>The backend as linked into a target build with real output.\<close>

definition real_ops :: "'h real_board \<Rightarrow> 'h real_motor executor" where
  "real_ops b =
    \<lparr>ex_Disable = Real_Disable b, ex_StartRun = Real_StartRun b, ex_StartPulse = Real_StartPulse b,
     ex_Service = Real_Service b, ex_GuardOutput = Real_GuardOutput b,
     ex_IsHealthy = Real_IsHealthy b, ex_ActiveRequestIsValid = Real_ActiveRequestIsValid b,
     ex_OutputIsDisabled = Real_OutputIsDisabled b, ex_GetSnapshot = Real_GetSnapshot b,
     ex_motor = rx_motor, ex_PlanCommand = Real_PlanCommand\<rparr>"

text \<open>
  Between two calls of the main program: whatever the timer's hardware does next, and its
  interrupt.
\<close>

definition real_irq :: "'h real_motor \<Rightarrow> 'h real_motor \<Rightarrow> bool" where
  "real_irq e e' \<longleftrightarrow> (\<exists>future. e' = rx_poll (e\<lparr>tm_schedule := future\<rparr>))"

end
