(* ===== verification/MotorCore.thy ===== *)
theory MotorCore
  imports MotorReal
begin

text \<open>
  What the real backend guarantees with and without the continuous mode: the states in which its output is off,
  what the stop timer's interrupt does to them, and the service, the guard and the queries,
  proved once for every interrupt handler and every way of publishing an event.
\<close>

section \<open>Off\<close>

text \<open>The states of a call between turning the output off and cancelling the timer.\<close>

definition low :: "('h, 'a) stop_timer_scheme \<Rightarrow> bool" where
  "low e \<longleftrightarrow> pins_ok e \<and> MotorHwReal_IsDisabled e
    \<and> (st_initialized e \<longrightarrow> st_handler e) \<and> (st_armed e \<longrightarrow> st_handler e)
    \<and> (tim5_irq_enabled e \<longrightarrow> st_armed e)"

definition quiet :: "('h, 'a) stop_timer_scheme \<Rightarrow> bool" where
  "quiet e \<longleftrightarrow> low e \<and> \<not> st_armed e"

section \<open>Frames\<close>

lemma rx_same:
  assumes "stop_timer.more (e :: ('h, 'a) real_motor_scheme) = stop_timer.more e'"
  shows "rx_motor e = rx_motor e'" "rx_initialized e = rx_initialized e'"
    "rx_pending_completion_event e = rx_pending_completion_event e'"
    "rx_completion_event_pending e = rx_completion_event_pending e'"
    "real_motor.more e = real_motor.more e'"
  using assms by (cases e; cases e'; simp)+

lemmas Cancel_rx [simp] = rx_same [OF Cancel_simps(6)]
lemmas timer_hw_rx [simp] = rx_same [OF timer_hw_simps(6)]
lemmas Disable_rx [simp] = rx_same [OF DisableImmediate_timer(13)]

lemma low_simps [simp]:
  "low (e\<lparr>rx_motor := m\<rparr>) = low e" "low (e\<lparr>rx_initialized := i\<rparr>) = low e"
  "low (e\<lparr>rx_completion_event_pending := p\<rparr>) = low e" "low (e\<lparr>rx_pending_completion_event := v\<rparr>) = low e"
  "low (e\<lparr>st_last_failure_stage := n\<rparr>) = low e"
  by (simp_all add: low_def pins_ok_def MotorHwReal_IsDisabled_def)

lemma quiet_simps [simp]:
  "quiet (e\<lparr>rx_motor := m\<rparr>) = quiet e" "quiet (e\<lparr>rx_initialized := i\<rparr>) = quiet e"
  "quiet (e\<lparr>rx_completion_event_pending := p\<rparr>) = quiet e"
  "quiet (e\<lparr>rx_pending_completion_event := v\<rparr>) = quiet e"
  by (simp_all add: quiet_def)

lemma quiet_bookkeeping [simp]:
  "quiet (MotorExecutor_LatchFailure r s f e) = quiet e" "quiet (MotorExecutor_ClearFailure e) = quiet e"
  "quiet (MotorExecutor_SetPhysicalStatus b e) = quiet e" "quiet (MotorExecutor_ClearActivePlan e) = quiet e"
  "quiet (MotorExecutor_ClearPendingCompletion e) = quiet e" "quiet (MotorExecutor_LatchCompletion v e) = quiet e"
  "quiet (set_completion c e) = quiet e" "quiet (snd (MotorExecutor_TakeCompletion e)) = quiet e"
  by (simp_all add: MotorExecutor_LatchFailure_def MotorExecutor_ClearFailure_def
      MotorExecutor_SetPhysicalStatus_def MotorExecutor_ClearActivePlan_def
      MotorExecutor_ClearPendingCompletion_def MotorExecutor_LatchCompletion_def set_completion_def
      MotorExecutor_TakeCompletion_def Let_def)

text \<open>Turning the output off and cancelling the timer is quiet from every state.\<close>

definition wired :: "('h, 'a) stop_timer_scheme \<Rightarrow> bool" where
  "wired e \<longleftrightarrow> (st_initialized e \<longrightarrow> st_handler e) \<and> (st_armed e \<longrightarrow> st_handler e)
    \<and> (tim5_irq_enabled e \<longrightarrow> st_armed e)"

lemma wired_bookkeeping [simp]:
  "wired (MotorExecutor_LatchFailure r s f e) = wired e" "wired (MotorExecutor_ClearFailure e) = wired e"
  "wired (MotorExecutor_SetPhysicalStatus b e) = wired e"
  "wired (MotorHwReal_DisableImmediate e) = wired e" "wired (MotorStopTimer_Cancel e) \<longleftrightarrow> (st_initialized e \<longrightarrow> st_handler e)"
  by (simp_all add: wired_def MotorExecutor_LatchFailure_def MotorExecutor_ClearFailure_def
      MotorExecutor_SetPhysicalStatus_def Let_def)

lemma low_DisableImmediate [simp]: "low (MotorHwReal_DisableImmediate e) = wired e"
  by (simp add: low_def wired_def)

lemma low_Cancel: "low e \<Longrightarrow> quiet (MotorStopTimer_Cancel e)"
  by (simp add: low_def quiet_def)

lemma quiet_Cancel_Disable [simp]:
  "quiet (MotorStopTimer_Cancel (MotorHwReal_DisableImmediate e)) \<longleftrightarrow> (st_initialized e \<longrightarrow> st_handler e)"
  by (simp add: low_def quiet_def)

abbreviation idle :: "('h, 'a) real_motor_scheme \<Rightarrow> bool" where
  "idle e \<equiv> quiet e \<and> \<not> mx_logical_active (rx_motor e)"

lemma quiet_wired: "quiet e \<Longrightarrow> wired e \<and> \<not> st_armed e"
  by (auto simp: quiet_def low_def wired_def)

lemma quiet_Disable [simp]: "quiet (MotorHwReal_DisableImmediate e) \<longleftrightarrow> wired e \<and> \<not> st_armed e"
  by (simp add: quiet_def)

lemma active_simps [simp]:
  "mx_logical_active (rx_motor (MotorExecutor_LatchFailure r s f e)) = mx_logical_active (rx_motor e)"
  "mx_logical_active (rx_motor (MotorExecutor_ClearFailure e)) = mx_logical_active (rx_motor e)"
  "mx_logical_active (rx_motor (MotorExecutor_SetPhysicalStatus b e)) = mx_logical_active (rx_motor e)"
  "mx_logical_active (rx_motor (MotorExecutor_ClearPendingCompletion e)) = mx_logical_active (rx_motor e)"
  "mx_logical_active (rx_motor (set_completion c e)) = mx_logical_active (rx_motor e)"
  "\<not> mx_logical_active (rx_motor (MotorExecutor_ClearActivePlan e))"
  by (simp_all add: MotorExecutor_LatchFailure_def MotorExecutor_ClearFailure_def
      MotorExecutor_SetPhysicalStatus_def MotorExecutor_ClearActivePlan_def
      MotorExecutor_ClearPendingCompletion_def set_completion_def Let_def)

lemma publish_result_quiet:
  assumes "quiet e"
  shows "quiet (snd (snd (publish_result b event e)))"
  using assms quiet_wired [of "MotorExecutor_SetPhysicalStatus b e"]
  by (simp add: publish_result_def Let_def)

lemma GuardPending_quiet:
  assumes "wired e"
  shows "quiet (snd (MotorExecutor_GuardPendingCompletion b e))"
    "mx_logical_active (rx_motor (snd (MotorExecutor_GuardPendingCompletion b e)))
      = mx_logical_active (rx_motor e)"
  using assms by (simp_all add: MotorExecutor_GuardPendingCompletion_def Let_def wired_def)

section \<open>The interrupt\<close>

lemma wired_timer_hw [simp]: "wired (timer_hw e) = wired e"
  by (simp add: wired_def)

lemma low_timer_hw [simp]: "low (timer_hw e) = low e"
  by (simp add: low_def)

text \<open>
  A handler turns the output off and latches an event, and leaves the request and the
  registration of the handler alone.
\<close>

locale motor_interrupt =
  fixes handler :: "MotorStopTimerEvent \<Rightarrow> ('h, 'a) motor_step"
  assumes expires: "MotorHwReal_IsDisabled (handler ev e) \<and> pins_ok (handler ev e)
      \<and> rx_completion_event_pending (handler ev e)"
    and keeps: "rx_motor (handler ev e) = rx_motor e \<and> rx_initialized (handler ev e) = rx_initialized e
      \<and> st_handler (handler ev e) = st_handler e \<and> st_initialized (handler ev e) = st_initialized e"

sublocale motor_interrupt \<subseteq> stop_handler handler
  "\<lambda>e. MotorHwReal_IsDisabled e \<and> pins_ok e \<and> rx_completion_event_pending e"
  by unfold_locales (simp_all add: expires)

context motor_interrupt
begin

lemma IrqHandler_keeps [simp]:
  "rx_motor (MotorStopTimer_IrqHandler handler e) = rx_motor e"
  "rx_initialized (MotorStopTimer_IrqHandler handler e) = rx_initialized e"
  "st_handler (MotorStopTimer_IrqHandler handler e) = st_handler e"
  "st_initialized (MotorStopTimer_IrqHandler handler e) = st_initialized e"
  by (auto simp: MotorStopTimer_IrqHandler_def keeps Let_def)

lemma IrqHandler_quiet:
  assumes "wired e" "st_handler e"
  shows "quiet (MotorStopTimer_IrqHandler handler e)"
    "rx_completion_event_pending (MotorStopTimer_IrqHandler handler e)"
  using IrqHandler_off [OF assms(2)] IrqHandler_disarms [of e] assms
  by (simp_all add: quiet_def low_def)

lemma poll_keeps [simp]:
  "rx_motor (poll handler e) = rx_motor e" "rx_initialized (poll handler e) = rx_initialized e"
  "st_handler (poll handler e) = st_handler e" "st_initialized (poll handler e) = st_initialized e"
  by (simp_all add: poll_def Let_def)

lemma low_poll: "low e \<Longrightarrow> low (poll handler e)"
proof (cases rule: poll_cases [of e])
  case interrupt
  assume "low e"
  then have "wired e" "st_handler e" using interrupt(1) by (auto simp: low_def wired_def)
  then show ?thesis using IrqHandler_quiet [of "timer_hw e"] interrupt(2) by (simp add: quiet_def)
qed simp

lemma quiet_poll [simp]: "quiet e \<Longrightarrow> quiet (poll handler e)"
  using low_poll [of e]
  by (cases rule: poll_cases [of e]) (auto simp: quiet_def low_def)

lemma wired_poll [simp]: "wired e \<Longrightarrow> wired (poll handler e)"
  using IrqHandler_quiet [of "timer_hw e"]
  by (cases rule: poll_cases [of e]) (auto simp: quiet_def low_def wired_def)

text \<open>Turning the output off and cancelling the timer, with the interrupt in between.\<close>

lemma quiet_off_cancel: "wired e \<Longrightarrow> quiet (MotorStopTimer_Cancel (poll handler (MotorHwReal_DisableImmediate e)))"
  by (rule low_Cancel [OF low_poll]) simp

end

section \<open>Service, guard and queries\<close>

text \<open>
  \<open>ok\<close> is the backend's invariant: it holds while the output is off, implies that an event is
  pending or no request active only then, and is kept by the interrupt and by refreshing the
  status; publishing an event ends the request.
\<close>

locale motor_core = motor_interrupt handler
  for handler :: "MotorStopTimerEvent \<Rightarrow> ('h, 'a) motor_step" +
  fixes b :: "'h real_board"
    and pub :: "('h, 'a) publisher"
    and valid :: "('h, 'a) real_motor_scheme \<Rightarrow> bool \<times> ('h, 'a) real_motor_scheme"
    and ok :: "('h, 'a) real_motor_scheme \<Rightarrow> bool"
  assumes poll_ok: "ok e \<Longrightarrow> ok (poll handler e)"
    and quiet_ok: "quiet e \<Longrightarrow> ok e"
    and ok_wired: "ok e \<Longrightarrow> wired e"
    and pending_quiet: "ok e \<Longrightarrow> rx_completion_event_pending e \<Longrightarrow> quiet e"
    and inactive_quiet: "ok e \<Longrightarrow> \<not> mx_logical_active (rx_motor e) \<Longrightarrow> quiet e"
    and status_ok [simp]: "ok (MotorExecutor_SetPhysicalStatus b e) = ok e"
    and pub_idle: "quiet e \<Longrightarrow> idle (snd (pub ev e))"
    and valid_ok: "ok e \<Longrightarrow> ok (snd (valid e))"
    and valid_idle: "idle e \<Longrightarrow> idle (snd (valid e))"
begin

lemma timer_abort_idle: "wired e \<Longrightarrow> idle (snd (timer_abort pub r s f e))"
  unfolding timer_abort_def Let_def
  by (rule pub_idle) (simp add: wired_def MotorExecutor_LatchFailure_def Let_def)

text \<open>
  What a chain of \<open>or_publish\<close> steps establishes: an event that arrives is published from a
  quiet state, and otherwise the rest runs from a state with the same request.
\<close>

lemma or_publish_rule:
  assumes "ok e" and "\<And>ev e'. quiet e' \<Longrightarrow> P (snd (pub ev e'))"
    and "\<And>e'. ok e' \<Longrightarrow> rx_motor e' = rx_motor e \<Longrightarrow> (quiet e \<Longrightarrow> quiet e') \<Longrightarrow> P (snd (k e'))"
  shows "P (snd (or_publish (poll handler) pub k e))"
proof (cases "rx_completion_event_pending (poll handler e)")
  case True
  then have "quiet (poll handler e)" using pending_quiet [OF poll_ok [OF assms(1)]] by simp
  then show ?thesis
    using True by (simp add: or_publish_def MotorExecutor_TakeCompletion_def assms(2))
next
  case False
  then show ?thesis
    using assms(3) [of "poll handler e"] poll_ok [OF assms(1)]
    by (simp add: or_publish_def MotorExecutor_TakeCompletion_def)
qed

lemma service_idle_idle: "idle e \<Longrightarrow> idle (snd (service_idle (poll handler) pub b e))"
proof -
  assume i: "idle e"
  have w: "st_initialized e' \<longrightarrow> st_handler e'" if "quiet e'" for e' :: "('h, 'a) real_motor_scheme"
    using quiet_wired [OF that] by (simp add: wired_def)
  have "idle (snd (or_publish (poll handler) pub (\<lambda>e. (MOTOR_RESULT_TIMER_ERROR,
      MotorExecutor_LatchFailure MOTOR_RESULT_TIMER_ERROR (MotorStopTimer_GetLastFailureStage e) 35 e)) e'))"
    if "idle e'" for e'
    by (rule or_publish_rule) (use that in \<open>auto simp: quiet_ok pub_idle\<close>)
  then show ?thesis
    using i w [of e] w [of "poll handler e"] by (simp add: service_idle_def Let_def)
qed

lemma service_active_ok:
  assumes "ok e"
  shows "ok (snd (service_active (poll handler) pub dropped t e))"
proof -
  have abort: "ok (snd (or_publish (poll handler) pub k e'))"
    if "ok e'" "\<And>e'. wired e' \<Longrightarrow> idle (snd (k e'))" for k e'
    by (rule or_publish_rule) (use that in \<open>auto simp: quiet_ok pub_idle dest: ok_wired\<close>)
  show ?thesis
    unfolding service_active_def Let_def
    by (auto intro!: abort poll_ok assms simp: timer_abort_idle)
qed

lemma pub_ok: "quiet e \<Longrightarrow> ok (snd (pub ev e))"
  by (rule quiet_ok) (simp add: pub_idle)

lemma Service_ok:
  assumes "ok e"
  shows "ok (snd (motor_service (poll handler) pub dropped b t e))"
proof -
  have inner: "ok (snd (if \<not> mx_logical_active (rx_motor e') then service_idle (poll handler) pub b e'
      else service_active (poll handler) pub dropped t e'))" if "ok e'" for e'
    using service_active_ok [OF that] service_idle_idle [of e'] inactive_quiet [OF that]
    by (simp add: quiet_ok)
  show ?thesis
    unfolding motor_service_def
  proof (rule or_publish_rule [where P = ok, OF assms pub_ok], assumption)
    fix e' assume e': "ok e'"
    show "ok (snd (or_publish (poll handler) pub (\<lambda>e. if \<not> mx_logical_active (rx_motor e)
        then service_idle (poll handler) pub b e else service_active (poll handler) pub dropped t e)
        (MotorExecutor_SetPhysicalStatus b (poll handler e'))))"
      by (rule or_publish_rule [where P = ok, OF _ pub_ok inner]) (simp_all add: poll_ok e')
  qed
qed

lemma Service_idle:
  assumes "idle e"
  shows "idle (snd (motor_service (poll handler) pub dropped b t e))"
proof -
  have inner: "idle (snd (if \<not> mx_logical_active (rx_motor e') then service_idle (poll handler) pub b e'
      else service_active (poll handler) pub dropped t e'))" if "idle e'" for e'
    using service_idle_idle [OF that] that by simp
  have step: "idle (snd (or_publish (poll handler) pub k e'))"
    if "idle e'" "\<And>e'. idle e' \<Longrightarrow> idle (snd (k e'))" for k e'
    by (rule or_publish_rule [where P = idle])
      (use that in \<open>auto intro: quiet_ok dest: pub_idle\<close>)
  show ?thesis
    unfolding motor_service_def
    by (intro step assms inner) simp_all
qed

lemma guard_next_ok:
  assumes "ok e" "\<And>e'. ok e' \<Longrightarrow> rx_motor e' = rx_motor e \<Longrightarrow> ok (snd (k e'))"
  shows "ok (snd (guard_next (poll handler) b k e))"
  using assms(2) [of "poll handler e"] poll_ok [OF assms(1)] GuardPending_quiet(1) [of "poll handler e" b]
    ok_wired [of "poll handler e"]
  by (simp add: guard_next_def Let_def quiet_ok)

lemma guard_next_idle:
  assumes "idle e" "\<And>e'. idle e' \<Longrightarrow> idle (snd (k e'))"
  shows "idle (snd (guard_next (poll handler) b k e))"
  using assms(2) [of "poll handler e"] assms(1) GuardPending_quiet [of "poll handler e" b]
    quiet_wired [of "poll handler e"]
  by (auto simp: guard_next_def Let_def)

lemma guard_idle_idle:
  assumes "idle e"
  shows "idle (snd (guard_idle (poll handler) b e))"
  unfolding guard_idle_def Let_def
  by (rule guard_next_idle)
    (use assms quiet_off_cancel [of e] quiet_wired [of e] in \<open>simp_all\<close>)

lemma guard_active_idle:
  assumes "idle e"
  shows "idle (snd (guard_active (poll handler) valid b e))"
proof -
  have "idle (snd (guard_next (poll handler) b (\<lambda>e. (MOTOR_RESULT_HARDWARE_ERROR,
      MotorExecutor_LatchFailure MOTOR_RESULT_HARDWARE_ERROR 0 39 e)) e'))" if "idle e'" for e'
    by (rule guard_next_idle [OF that]) simp
  then show ?thesis
    unfolding guard_active_def Let_def case_prod_beta
    using valid_idle [OF assms]
    by (auto intro!: guard_next_idle simp: quiet_off_cancel quiet_wired)
qed

lemma Guard_idle:
  assumes "idle e"
  shows "idle (snd (motor_guard (poll handler) valid b e))"
  unfolding motor_guard_def
  by (rule guard_next_idle [OF assms], rule guard_next_idle) (simp_all add: guard_idle_idle)

lemma Guard_ok:
  assumes "ok e"
  shows "ok (snd (motor_guard (poll handler) valid b e))"
proof -
  have invalid: "ok (snd (guard_next (poll handler) b (\<lambda>e. (MOTOR_RESULT_HARDWARE_ERROR,
      MotorExecutor_LatchFailure MOTOR_RESULT_HARDWARE_ERROR 0 39 e)) e'))" if "quiet e'" for e'
    using GuardPending_quiet(1) [of "poll handler e'" b] quiet_wired [of "poll handler e'"] that
    by (simp add: guard_next_def Let_def quiet_ok)
  have ga: "ok (snd (guard_active (poll handler) valid b e'))" if "ok e'" for e'
    unfolding guard_active_def Let_def case_prod_beta
    using valid_ok [OF that] by (auto intro!: guard_next_ok invalid simp: quiet_off_cancel ok_wired)
  have gi: "ok (snd (guard_idle (poll handler) b (poll handler e')))"
    if "ok e'" "\<not> mx_logical_active (rx_motor e')" for e'
    using guard_idle_idle [of "poll handler e'"] inactive_quiet [OF that] that(2) by (simp add: quiet_ok)
  show ?thesis
    unfolding motor_guard_def
    by (rule guard_next_ok [OF assms], rule guard_next_ok) (simp_all add: ga gi)
qed

end

text \<open>What the interrupt and the refreshed status flags keep, every query keeps.\<close>

lemma active_request_valid_keeps:
  assumes "P e" "\<And>e. P e \<Longrightarrow> P (pl e)" "\<And>e. P e \<Longrightarrow> P (MotorExecutor_SetPhysicalStatus b e)"
  shows "P (snd (active_request_valid pl b e))"
  using assms(1) by (simp add: active_request_valid_def Let_def case_prod_beta polled_def assms(2,3))

lemma query_keeps:
  assumes "P e" "\<And>e. P e \<Longrightarrow> P (pl e)" "\<And>e. P e \<Longrightarrow> P (MotorExecutor_SetPhysicalStatus b e)"
    and "\<And>e. P e \<Longrightarrow> P (snd (valid e))"
  shows "P (snd (output_is_disabled pl b e))" "P (snd (is_healthy pl valid b e))"
  using assms(1) by (simp_all add: output_is_disabled_def is_healthy_def Let_def assms(2-4))

end
