(* ===== verification/MotorRealSafety.thy ===== *)
theory MotorRealSafety
  imports MotorCore
begin

text \<open>
  The real backend's invariant: its output is either shut down, with the timer disarmed, or
  driving exactly the planned request under a running stop timer that will end it. Every
  operation keeps it, at any timing of the timer's interrupt.
\<close>

section \<open>The invariant\<close>

text \<open>The timer set for a request, before its interrupt is enabled.\<close>

definition armed_for :: "nat \<Rightarrow> nat \<Rightarrow> 'h real_motor \<Rightarrow> bool" where
  "armed_for dur bstop e \<longleftrightarrow> st_armed e \<and> st_handler e \<and> tim5_dier e = 3
    \<and> tim5_cr1 e AND TIM_CR1_CEN \<noteq> 0 \<and> tim5_cr1 e AND TIM_CR1_OPM \<noteq> 0
    \<and> unat (tim5_ccr1 e) = 10 * dur \<and> unat (tim5_arr e) + 1 = 10 * bstop \<and> dur < bstop"

definition output_matches :: "'h real_board \<Rightarrow> 'h real_motor \<Rightarrow> bool" where
  "output_matches b e \<longleftrightarrow> pins_ok e \<and> MotorHwReal_OutputArmingAllowed b
    \<and> (let m = rx_motor e; press = (mx_direction m = MOTOR_DIRECTION_PRESS)
       in mx_logical_active m
        \<and> Real_PlanCommand (mx_direction m) (mx_command_mv m)
            = (MOTOR_RESULT_OK, mx_planned_tim2_ccr3 m, mx_planned_tim3_ccr3 m)
        \<and> MotorHwReal_ActiveCompareIsValid press
            (if press then mx_planned_tim3_ccr3 m else mx_planned_tim2_ccr3 m) e)"

definition request_timed :: "'h real_motor \<Rightarrow> bool" where
  "request_timed e \<longleftrightarrow>
    (let m = rx_motor e
     in armed_for (unat (mx_requested_duration_ms m))
          (unat (mx_logical_backstop_ms m - mx_logical_deadline_ms m + mx_requested_duration_ms m)) e)"

definition driving :: "'h real_board \<Rightarrow> 'h real_motor \<Rightarrow> bool" where
  "driving b e \<longleftrightarrow> output_matches b e \<and> request_timed e \<and> tim5_irq_enabled e
    \<and> tim5_sr e AND 3 = 0 \<and> \<not> rx_completion_event_pending e"

definition real_ok :: "'h real_board \<Rightarrow> 'h real_motor \<Rightarrow> bool" where
  "real_ok b e \<longleftrightarrow> quiet e \<or> driving b e"

definition real_off :: "'h real_motor \<Rightarrow> bool" where
  "real_off e \<longleftrightarrow> hw_disabled e \<and> MotorHwReal_IsDisabled e \<and> \<not> mx_logical_active (rx_motor e)"

lemmas real_defs = real_ok_def quiet_def low_def driving_def output_matches_def request_timed_def armed_for_def

lemma quiet_off: "quiet e \<Longrightarrow> real_off e \<longleftrightarrow> \<not> mx_logical_active (rx_motor e)"
  by (auto simp: quiet_def low_def real_off_def disabled_shut_down)

lemma driving_on: "driving b e \<Longrightarrow> \<not> MotorHwReal_IsDisabled e \<and> mx_logical_active (rx_motor e)"
  by (auto simp: driving_def output_matches_def Let_def dest: active_not_disabled)

lemma real_ok_wired: "real_ok b e \<Longrightarrow> wired e"
  by (auto simp: real_defs wired_def Let_def)

section \<open>The interrupt\<close>

interpretation real_handler: motor_interrupt MotorExecutor_StopTimerExpiredFromIsr
  by unfold_locales
    (simp_all add: MotorExecutor_StopTimerExpiredFromIsr_def MotorExecutor_LatchCompletion_def
      MotorHwReal_IsDisabled_def [of "_\<lparr>rx_pending_completion_event := _, rx_completion_event_pending := _\<rparr>"]
      pins_ok_def [of "_\<lparr>rx_pending_completion_event := _, rx_completion_event_pending := _\<rparr>"]
      flip: MotorHwReal_IsDisabled_def pins_ok_def)

lemmas IrqHandler_keeps [simp] = real_handler.IrqHandler_keeps
lemmas IrqHandler_quiet = real_handler.IrqHandler_quiet
lemmas rx_poll_keeps [simp] = real_handler.poll_keeps
lemmas low_poll = real_handler.low_poll
lemmas quiet_poll [simp] = real_handler.quiet_poll
lemmas wired_poll [simp] = real_handler.wired_poll

text \<open>An interrupt while driving ends in the quiet state with its event latched.\<close>

lemma driving_poll:
  assumes "driving b e"
  shows "driving b (rx_poll e) \<or> quiet (rx_poll e) \<and> rx_completion_event_pending (rx_poll e)"
proof (cases rule: real_handler.poll_cases [of e])
  case quiet
  then show ?thesis
    using assms timer_hw_quiet_line [OF quiet(1)] timer_hw_running [of e]
    by (auto simp: driving_def output_matches_def request_timed_def armed_for_def Let_def)
next
  case interrupt
  have "wired e" "st_handler e"
    using assms real_ok_wired [of b e] by (auto simp: driving_def request_timed_def armed_for_def Let_def real_ok_def)
  then show ?thesis using IrqHandler_quiet [of "timer_hw e"] interrupt(2) by simp
qed

lemma real_ok_poll: "real_ok b e \<Longrightarrow> real_ok b (rx_poll e)"
  using driving_poll [of b e] by (auto simp: real_ok_def)

section \<open>The operations\<close>

lemma real_ok_inactive: "real_ok b e \<Longrightarrow> \<not> mx_logical_active (rx_motor e) \<Longrightarrow> quiet e"
  by (auto simp: real_ok_def dest: driving_on)

lemma quiet_ok: "quiet e \<Longrightarrow> real_ok b e"
  by (simp add: real_ok_def)

lemma PublishCompletion_idle: "quiet e \<Longrightarrow> idle (snd (MotorExecutor_PublishCompletion b event e))"
  using publish_result_quiet [of e b event]
  by (simp add: MotorExecutor_PublishCompletion_def Let_def case_prod_beta)

lemma SetPhysicalStatus_ok [simp]: "real_ok b (MotorExecutor_SetPhysicalStatus b e) = real_ok b e"
  by (simp add: real_ok_def) (simp add: real_defs MotorExecutor_SetPhysicalStatus_def Let_def
      MotorHwReal_ActiveCompareIsValid_def pins_ok_def)

lemma Real_ActiveRequestIsValid_keeps:
  assumes "P e" "\<And>e. P e \<Longrightarrow> P (rx_poll e)" "\<And>e. P e \<Longrightarrow> P (MotorExecutor_SetPhysicalStatus b e)"
  shows "P (snd (Real_ActiveRequestIsValid b e))"
  unfolding Real_ActiveRequestIsValid_def by (rule active_request_valid_keeps [of P, OF assms])

interpretation real_core: motor_core MotorExecutor_StopTimerExpiredFromIsr b
    "MotorExecutor_PublishCompletion b" "Real_ActiveRequestIsValid b" "real_ok b"
  for b :: "'h real_board"
proof unfold_locales
  fix e :: "'h real_motor"
  show "real_ok b e \<Longrightarrow> rx_completion_event_pending e \<Longrightarrow> quiet e"
    by (auto simp: real_ok_def driving_def)
  show "real_ok b e \<Longrightarrow> real_ok b (snd (Real_ActiveRequestIsValid b e))"
    by (rule Real_ActiveRequestIsValid_keeps [of "real_ok b"]) (simp_all add: real_ok_poll)
  show "idle e \<Longrightarrow> idle (snd (Real_ActiveRequestIsValid b e))"
    by (rule Real_ActiveRequestIsValid_keeps [of idle]) simp_all
qed (simp_all add: real_ok_poll quiet_ok real_ok_wired real_ok_inactive PublishCompletion_idle)

lemma Real_Service_ok: "real_ok b e \<Longrightarrow> real_ok b (snd (Real_Service b t e))"
  unfolding Real_Service_def by (rule real_core.Service_ok)

lemma Real_Service_idle: "idle e \<Longrightarrow> idle (snd (Real_Service b t e))"
  unfolding Real_Service_def by (rule real_core.Service_idle)

lemma Real_Guard_ok: "real_ok b e \<Longrightarrow> real_ok b (snd (Real_GuardOutput b e))"
  unfolding Real_GuardOutput_def by (rule real_core.Guard_ok)

lemma Real_Guard_idle: "idle e \<Longrightarrow> idle (snd (Real_GuardOutput b e))"
  unfolding Real_GuardOutput_def by (rule real_core.Guard_idle)

lemma Disable_spec:
  assumes "wired e"
  shows "fst (Real_Disable b e) = MOTOR_RESULT_OK \<and> idle (snd (Real_Disable b e))
    \<and> \<not> rx_completion_event_pending (snd (Real_Disable b e))"
proof -
  let ?e = "MotorStopTimer_Cancel (rx_poll (MotorHwReal_DisableImmediate (rx_poll e)))"
  have q: "quiet ?e" by (rule low_Cancel [OF low_poll]) (simp add: assms)
  then have "MotorHwReal_IsDisabled ?e" "\<not> MotorStopTimer_IsArmed ?e"
    by (simp_all add: quiet_def low_def MotorStopTimer_IsArmed_def)
  with q show ?thesis
    by (simp add: Real_Disable_def Let_def MotorExecutor_SetPhysicalStatus_def
        MotorExecutor_ClearActivePlan_def MotorExecutor_ClearPendingCompletion_def
        MotorHwReal_IsDisabled_def MotorStopTimer_IsArmed_def disable_finish_def)
qed

section \<open>Start\<close>

lemma FailStart_idle:
  assumes "st_initialized e \<longrightarrow> st_handler e"
  shows "idle (snd (MotorExecutor_FailStart b r e)) \<and> fst (MotorExecutor_FailStart b r e) = r"
  using assms by (simp add: MotorExecutor_FailStart_def Let_def)

lemma bookkeeping_timer [simp]:
  "st_initialized (MotorExecutor_LatchFailure r s f e) = st_initialized e"
  "st_handler (MotorExecutor_LatchFailure r s f e) = st_handler e"
  "st_initialized (MotorExecutor_SetPhysicalStatus b e) = st_initialized e"
  "st_handler (MotorExecutor_SetPhysicalStatus b e) = st_handler e"
  by (simp_all add: MotorExecutor_LatchFailure_def MotorExecutor_SetPhysicalStatus_def Let_def)

text \<open>The products in the timer's ticks do not wrap once their range is checked.\<close>

lemma ticks_exact:
  fixes x :: u32
  assumes "\<not> (ucast x :: u64) * 10 > UINT32_MAX"
  shows "unat (ucast ((ucast x :: u64) * 10) :: u32) = 10 * unat x"
proof -
  have lt: "unat x < 2 ^ 32" using unsigned_less [of x] by simp
  have u: "unat ((ucast x :: u64) * 10) = unat x * 10"
  proof -
    have "(ucast x * 10 :: u64) = of_nat (unat x * 10)" by simp
    moreover have "unat x * 10 < 18446744073709551616" using lt by simp
    ultimately show ?thesis by (simp only: unat_of_nat_u64)
  qed
  then have "unat x * 10 < 4294967296" using assms by (simp add: not_less word_le_nat_alt)
  then have "take_bit 32 (unat x * 10) = unat x * 10" by (simp add: take_bit_nat_eq_self_iff)
  then show ?thesis by (simp add: unsigned_ucast_eq u)
qed

lemma Arm_spec:
  assumes "wired e"
  shows "rx_motor (snd (MotorStopTimer_Arm dur bstop e)) = rx_motor e"
    "rx_completion_event_pending (snd (MotorStopTimer_Arm dur bstop e)) = rx_completion_event_pending e"
    "st_initialized (snd (MotorStopTimer_Arm dur bstop e)) \<longrightarrow> st_handler (snd (MotorStopTimer_Arm dur bstop e))"
    "fst (MotorStopTimer_Arm dur bstop e) \<Longrightarrow>
      armed_for (unat dur) (unat bstop) (snd (MotorStopTimer_Arm dur bstop e))
      \<and> \<not> tim5_irq_enabled (snd (MotorStopTimer_Arm dur bstop e))"
proof -
  define n :: u64 where "n = ucast dur * 10"
  define h :: u64 where "h = ucast bstop * 10"
  define e0 where "e0 = MotorStopTimer_Cancel (e\<lparr>st_last_failure_stage := MOTOR_FAILURE_STAGE_NONE\<rparr>)"
  have w: "st_initialized e0 \<longrightarrow> st_handler e0" "rx_motor e0 = rx_motor e" "\<not> tim5_irq_enabled e0"
    "rx_completion_event_pending e0 = rx_completion_event_pending e"
    using assms by (simp_all add: e0_def wired_def)
  define e1 where "e1 = tim5_update_event (e0\<lparr>tim5_cr1 := TIM_CR1_OPM OR TIM_CR1_URS,
      tim5_psc := st_prescaler e0, tim5_arr := ucast h - 1, tim5_ccr1 := ucast n, tim5_cnt := 0\<rparr>)"
  define e2 where "e2 = timer_hw (e1\<lparr>tim5_sr := 0, tim5_dier := TIM_DIER_CC1IE OR TIM_DIER_UIE,
      st_armed := True, tim5_cr1 := tim5_cr1 e1 OR TIM_CR1_CEN\<rparr>)"
  have e1: "rx_motor e1 = rx_motor e" "st_initialized e1 \<longrightarrow> st_handler e1" "\<not> tim5_irq_enabled e1"
      "rx_completion_event_pending e1 = rx_completion_event_pending e" "tim5_cr1 e1 = 0xC"
      "tim5_arr e1 = ucast h - 1" "tim5_ccr1 e1 = ucast n" "st_handler e1 = st_handler e0"
    using w by (simp_all add: e1_def tim5_update_event_def)
  have arm: "MotorStopTimer_Arm dur bstop e =
    (if \<not> st_initialized e0 \<or> \<not> st_healthy e0 \<or> dur = 0 \<or> bstop \<le> dur
     then (False, e0\<lparr>st_last_failure_stage := 19\<rparr>)
     else if n > UINT32_MAX \<or> h > UINT32_MAX then (False, e0\<lparr>st_last_failure_stage := 20\<rparr>)
     else if tim5_cr1 e2 AND TIM_CR1_CEN = 0
     then (False, MotorStopTimer_Cancel (e2\<lparr>st_last_failure_stage := 21, st_healthy := False\<rparr>))
     else (True, e2))"
    by (simp add: MotorStopTimer_Arm_def Let_def e0_def e1_def e2_def n_def h_def)
  have e2: "rx_motor e2 = rx_motor e" "st_initialized e2 \<longrightarrow> st_handler e2" "\<not> tim5_irq_enabled e2"
      "rx_completion_event_pending e2 = rx_completion_event_pending e" "st_armed e2"
      "tim5_dier e2 = 3" "tim5_arr e2 = ucast h - 1" "tim5_ccr1 e2 = ucast n" "st_handler e2 = st_handler e0"
      "tim5_cr1 e2 AND TIM_CR1_OPM \<noteq> 0"
    using e1 by (simp_all add: e2_def)
  show "rx_motor (snd (MotorStopTimer_Arm dur bstop e)) = rx_motor e"
    "rx_completion_event_pending (snd (MotorStopTimer_Arm dur bstop e)) = rx_completion_event_pending e"
    "st_initialized (snd (MotorStopTimer_Arm dur bstop e)) \<longrightarrow> st_handler (snd (MotorStopTimer_Arm dur bstop e))"
    using w e2 by (simp_all add: arm)
  assume ok: "fst (MotorStopTimer_Arm dur bstop e)"
  then have c: "st_initialized e0" "dur \<noteq> 0" "\<not> bstop \<le> dur" "\<not> n > UINT32_MAX" "\<not> h > UINT32_MAX"
      "tim5_cr1 e2 AND TIM_CR1_CEN \<noteq> 0" "snd (MotorStopTimer_Arm dur bstop e) = e2"
    by (auto simp: arm split: if_splits)
  have nat: "unat dur < unat bstop" using c(3) by (simp add: word_le_nat_alt)
  have "unat (ucast h :: u32) = 10 * unat bstop" "unat (ucast n :: u32) = 10 * unat dur"
    using ticks_exact [of bstop] ticks_exact [of dur] c(4,5) by (simp_all add: n_def h_def)
  moreover from this nat have "unat (ucast h - 1 :: u32) + 1 = 10 * unat bstop"
    by (subst unat_sub) (simp_all add: word_le_nat_alt)
  ultimately show "armed_for (unat dur) (unat bstop) (snd (MotorStopTimer_Arm dur bstop e))
      \<and> \<not> tim5_irq_enabled (snd (MotorStopTimer_Arm dur bstop e))"
    using c w e2 nat by (simp add: armed_for_def)
qed

lemma CommitArm_spec:
  assumes "output_matches b e" "request_timed e" "wired e" "\<not> rx_completion_event_pending e"
  shows "(if fst (MotorStopTimer_CommitArm MotorExecutor_StopTimerExpiredFromIsr e)
      then driving b (snd (MotorStopTimer_CommitArm MotorExecutor_StopTimerExpiredFromIsr e))
      else if rx_completion_event_pending (snd (MotorStopTimer_CommitArm MotorExecutor_StopTimerExpiredFromIsr e))
      then quiet (snd (MotorStopTimer_CommitArm MotorExecutor_StopTimerExpiredFromIsr e))
      else st_handler (snd (MotorStopTimer_CommitArm MotorExecutor_StopTimerExpiredFromIsr e)))"
    "rx_motor (snd (MotorStopTimer_CommitArm MotorExecutor_StopTimerExpiredFromIsr e)) = rx_motor e"
proof -
  define e1 where "e1 = timer_hw (e\<lparr>st_last_failure_stage := MOTOR_FAILURE_STAGE_NONE\<rparr>)"
  have t: "st_handler e" "st_armed e" "tim5_cr1 e AND TIM_CR1_CEN \<noteq> 0" "tim5_dier e = 3"
    using assms(2) by (auto simp: request_timed_def armed_for_def Let_def)
  have commit: "MotorStopTimer_CommitArm MotorExecutor_StopTimerExpiredFromIsr e =
    (if \<not> st_armed e \<or> \<not> st_healthy e
     then (False, e\<lparr>st_last_failure_stage := 22\<rparr>)
     else if tim5_sr e1 AND 0x203 \<noteq> 0
     then (False, (MotorStopTimer_IrqHandler MotorExecutor_StopTimerExpiredFromIsr
                     (e1\<lparr>st_last_failure_stage := 23\<rparr>))\<lparr>st_last_failure_stage := 23\<rparr>)
     else (True, e1\<lparr>tim5_irq_enabled := True\<rparr>))"
    by (simp add: MotorStopTimer_CommitArm_def Let_def e1_def)
  show "rx_motor (snd (MotorStopTimer_CommitArm MotorExecutor_StopTimerExpiredFromIsr e)) = rx_motor e"
    by (simp add: commit) (simp add: e1_def)
  have run: "driving b (e1\<lparr>tim5_irq_enabled := True\<rparr>)" if "tim5_sr e1 AND 0x203 = 0"
  proof -
    have "tim5_sr e1 AND 3 = (tim5_sr e1 AND 0x203) AND 3" by (simp add: and.assoc)
    then have sr: "tim5_sr e1 AND 3 = 0" by (simp only: that) simp
    then show ?thesis
      using assms t timer_hw_running [of "e\<lparr>st_last_failure_stage := MOTOR_FAILURE_STAGE_NONE\<rparr>"]
      by (simp add: driving_def output_matches_def request_timed_def armed_for_def e1_def Let_def)
  qed
  have irq: "quiet (MotorStopTimer_IrqHandler MotorExecutor_StopTimerExpiredFromIsr
        (e1\<lparr>st_last_failure_stage := 23\<rparr>))"
      "rx_completion_event_pending (MotorStopTimer_IrqHandler MotorExecutor_StopTimerExpiredFromIsr
        (e1\<lparr>st_last_failure_stage := 23\<rparr>))"
    by (rule IrqHandler_quiet; use assms(3) t(1) in \<open>simp add: e1_def wired_def\<close>)+
  then show "(if fst (MotorStopTimer_CommitArm MotorExecutor_StopTimerExpiredFromIsr e)
      then driving b (snd (MotorStopTimer_CommitArm MotorExecutor_StopTimerExpiredFromIsr e))
      else if rx_completion_event_pending (snd (MotorStopTimer_CommitArm MotorExecutor_StopTimerExpiredFromIsr e))
      then quiet (snd (MotorStopTimer_CommitArm MotorExecutor_StopTimerExpiredFromIsr e))
      else st_handler (snd (MotorStopTimer_CommitArm MotorExecutor_StopTimerExpiredFromIsr e)))"
    using run assms(4) t by (simp add: commit quiet_def)
qed

lemma start_commit_spec:
  assumes "output_matches b e" "request_timed e" "wired e" "\<not> rx_completion_event_pending e"
  shows "real_ok b (snd (start_commit b t e))"
    "fst (start_commit b t e) = MOTOR_RESULT_OK \<Longrightarrow> rx_motor (snd (start_commit b t e)) = rx_motor e"
    "fst (start_commit b t e) \<noteq> MOTOR_RESULT_OK \<Longrightarrow> idle (snd (start_commit b t e))"
proof -
  let ?c = "MotorStopTimer_CommitArm MotorExecutor_StopTimerExpiredFromIsr e"
  let ?l = "MotorExecutor_LatchFailure MOTOR_RESULT_TIMER_ERROR
      (MotorStopTimer_GetLastFailureStage (snd ?c)) 33 (snd ?c)"
  have pend: "rx_completion_event_pending ?l = rx_completion_event_pending (snd ?c)"
    by (simp add: MotorExecutor_LatchFailure_def Let_def)
  note c = CommitArm_spec [OF assms]
  have drive: "real_ok b (rx_poll (snd ?c))" if "fst ?c"
    using c(1) that by (intro real_ok_poll) (simp add: real_ok_def)
  have active: "mx_logical_active (rx_motor e)" using assms(1) by (simp add: output_matches_def Let_def)
  have fail: "idle (snd (MotorExecutor_FailStart b MOTOR_RESULT_TIMER_ERROR ?l))"
      "fst (MotorExecutor_FailStart b MOTOR_RESULT_TIMER_ERROR ?l) = MOTOR_RESULT_TIMER_ERROR"
    if "\<not> fst ?c" "\<not> rx_completion_event_pending (snd ?c)"
    using c(1) that FailStart_idle [of ?l] by simp_all
  have serve: "real_ok b (snd (Real_Service b t ?l))" if "\<not> fst ?c" "rx_completion_event_pending (snd ?c)"
    using c(1) that by (intro Real_Service_ok quiet_ok) simp
  have published: "idle (snd (Real_Service b t ?l))" if "\<not> fst ?c" "rx_completion_event_pending (snd ?c)"
  proof -
    have "quiet ?l" using c(1) that by simp
    moreover have "rx_completion_event_pending (rx_poll ?l)"
      using pend that(2) \<open>quiet ?l\<close> by (auto simp: poll_def timer_hw_rx(4) tim5_irq_line_def Let_def quiet_def low_def)
    ultimately show ?thesis
      using PublishCompletion_idle [of "(rx_poll ?l)\<lparr>rx_completion_event_pending := False\<rparr>" b]
      by (simp add: Real_Service_def motor_service_def or_publish_def MotorExecutor_TakeCompletion_def)
  qed
  show "idle (snd (start_commit b t e))" if "fst (start_commit b t e) \<noteq> MOTOR_RESULT_OK"
    using that fail published active c(2)
    by (auto simp: start_commit_def Let_def case_prod_beta pend split: if_splits)
  show "real_ok b (snd (start_commit b t e))"
    using drive fail serve active c(2)
    by (simp add: start_commit_def Let_def case_prod_beta pend quiet_ok)
  show "rx_motor (snd (start_commit b t e)) = rx_motor e" if "fst (start_commit b t e) = MOTOR_RESULT_OK"
    using that fail active c(2)
    by (auto simp: start_commit_def Let_def case_prod_beta pend split: if_splits)
qed

lemma SetPhysicalStatus_static:
  "pins_ok (MotorExecutor_SetPhysicalStatus b e) = pins_ok e"
  "MotorHwReal_ActiveCompareIsValid press duty (MotorExecutor_SetPhysicalStatus b e)
    = MotorHwReal_ActiveCompareIsValid press duty e"
  by (simp_all add: MotorExecutor_SetPhysicalStatus_def pins_ok_def MotorHwReal_ActiveCompareIsValid_def)

lemma applied_keeps:
  assumes "applied press duty e r"
  shows "rx_motor (snd r) = rx_motor e" "wired (snd r) = wired e" "request_timed (snd r) = request_timed e"
    "rx_completion_event_pending (snd r) = rx_completion_event_pending e"
proof -
  have m: "real_regs.more (snd r) = real_regs.more e" using assms by (simp add: applied_def)
  show "rx_motor (snd r) = rx_motor e" "wired (snd r) = wired e" "request_timed (snd r) = request_timed e"
    "rx_completion_event_pending (snd r) = rx_completion_event_pending e"
    using same_more [OF m] rx_same [OF same_more(13) [OF m]]
    by (simp_all add: wired_def request_timed_def armed_for_def)
qed

lemma start_output_spec:
  assumes "request_timed e" "wired e" "\<not> rx_completion_event_pending e" "mx_logical_active (rx_motor e)"
    and "mx_direction (rx_motor e) = d" "mx_planned_tim2_ccr3 (rx_motor e) = t2"
    and "mx_planned_tim3_ccr3 (rx_motor e) = t3"
    and "Real_PlanCommand d (mx_command_mv (rx_motor e)) = (MOTOR_RESULT_OK, t2, t3)"
  shows "real_ok b (snd (start_output b d t2 t3 t e))"
    "fst (start_output b d t2 t3 t e) = MOTOR_RESULT_OK \<Longrightarrow>
      mx_logical_active (rx_motor (snd (start_output b d t2 t3 t e)))
      \<and> mx_command_mv (rx_motor (snd (start_output b d t2 t3 t e))) = mx_command_mv (rx_motor e)
      \<and> mx_direction (rx_motor (snd (start_output b d t2 t3 t e))) = d"
    "fst (start_output b d t2 t3 t e) \<noteq> MOTOR_RESULT_OK \<Longrightarrow> idle (snd (start_output b d t2 t3 t e))"
proof -
  define press where "press = (d = MOTOR_DIRECTION_PRESS)"
  define duty where "duty = (if press then t3 else t2)"
  define r where "r = MotorHwReal_Apply b press duty e"
  define e1 where "e1 = MotorExecutor_SetPhysicalStatus b (snd r)"
  have eq: "start_output b d t2 t3 t e =
    (if \<not> fst r \<or> mx_physical_output_disabled (rx_motor e1)
     then MotorExecutor_FailStart b MOTOR_RESULT_HARDWARE_ERROR
            (MotorExecutor_LatchFailure MOTOR_RESULT_HARDWARE_ERROR (MotorHwReal_GetLastFailureStage e1) 32 e1)
     else start_commit b t e1)"
    by (cases "d = MOTOR_DIRECTION_PRESS"; auto simp: start_output_def MotorHwReal_ApplyPress_def
        MotorHwReal_ApplyRelease_def r_def press_def duty_def e1_def Let_def case_prod_beta)
  have r: "applied press duty e r" unfolding r_def by (rule Apply_spec)
  note k = applied_keeps [OF r]
  have e1: "rx_motor e1 = (rx_motor e)\<lparr>mx_physical_output_locked := \<not> MotorHwReal_OutputArmingAllowed b,
      mx_physical_output_disabled := MotorHwReal_IsDisabled (snd r)\<rparr>" "wired e1"
    using k assms(2) by (simp_all add: e1_def) (simp add: MotorExecutor_SetPhysicalStatus_def)
  have timed: "request_timed e1" "\<not> rx_completion_event_pending e1"
    using k assms(1,3) by (simp_all add: e1_def MotorExecutor_SetPhysicalStatus_def request_timed_def armed_for_def Let_def)
  have fail: "idle (snd (MotorExecutor_FailStart b MOTOR_RESULT_HARDWARE_ERROR
      (MotorExecutor_LatchFailure MOTOR_RESULT_HARDWARE_ERROR (MotorHwReal_GetLastFailureStage e1) 32 e1)))"
    using FailStart_idle [of "MotorExecutor_LatchFailure MOTOR_RESULT_HARDWARE_ERROR
        (MotorHwReal_GetLastFailureStage e1) 32 e1" b] e1(2) by (simp add: wired_def)
  have fst_fail: "fst (MotorExecutor_FailStart b MOTOR_RESULT_HARDWARE_ERROR e') = MOTOR_RESULT_HARDWARE_ERROR" for e'
    by (simp add: MotorExecutor_FailStart_def Let_def)
  have out: "output_matches b e1" if "fst r"
  proof -
    have "pins_ok e1" "MotorHwReal_ActiveCompareIsValid press duty e1"
      using r that by (simp_all add: applied_def e1_def SetPhysicalStatus_static)
    moreover have "MotorHwReal_OutputArmingAllowed b"
      using Apply_accepts that by (auto simp: r_def)
    ultimately show ?thesis
      using assms(4-8)
      by (cases "d = MOTOR_DIRECTION_PRESS") (simp_all add: output_matches_def e1(1) Let_def press_def duty_def)
  qed
  note c = start_commit_spec [OF out timed(1) e1(2) timed(2), of t]
  show "idle (snd (start_output b d t2 t3 t e))" if "fst (start_output b d t2 t3 t e) \<noteq> MOTOR_RESULT_OK"
    using that fail c(3) by (auto simp: eq split: if_splits)
  show "real_ok b (snd (start_output b d t2 t3 t e))"
    using fail c(1) by (simp add: eq quiet_ok)
  show "mx_logical_active (rx_motor (snd (start_output b d t2 t3 t e)))
      \<and> mx_command_mv (rx_motor (snd (start_output b d t2 t3 t e))) = mx_command_mv (rx_motor e)
      \<and> mx_direction (rx_motor (snd (start_output b d t2 t3 t e))) = d"
    if "fst (start_output b d t2 t3 t e) = MOTOR_RESULT_OK"
    using that c(2) assms(4,5) by (auto simp: eq fst_fail e1(1) split: if_splits)
qed

lemma PlanCommand_accepts:
  assumes "Real_PlanCommand d mv = (MOTOR_RESULT_OK, t2, t3)"
  shows "0 < mv \<and> unat mv \<le> 24000"
  using assms by (auto simp: Real_PlanCommand_def word_gt_0 not_less word_le_nat_alt split: if_splits)

text \<open>The request as \<open>Real_Start\<close> records it before anything moves.\<close>

definition requested ::
  "MotorDirection \<Rightarrow> u32 \<Rightarrow> u32 \<Rightarrow> u32 \<Rightarrow> u32 \<Rightarrow> bool \<Rightarrow> u16 \<Rightarrow> u16 \<Rightarrow> 'h real_motor \<Rightarrow> 'h real_motor" where
  "requested d mv dur bstop t pulse t2 t3 e =
    (let m = rx_motor e
     in MotorExecutor_ClearPendingCompletion (e\<lparr>rx_motor := m\<lparr>
          mx_request_sequence := mx_request_sequence m + 1, mx_direction := d,
          mx_last_action :=
            (if d = MOTOR_DIRECTION_PRESS
             then (if pulse then MOTOR_ACTION_PRESS_PULSE else MOTOR_ACTION_PRESS_RUN)
             else (if pulse then MOTOR_ACTION_RELEASE_PULSE else MOTOR_ACTION_RELEASE_RUN)),
          mx_last_completion := MOTOR_COMPLETION_NONE, mx_command_mv := mv,
          mx_requested_duration_ms := dur, mx_logical_deadline_ms := t + dur,
          mx_logical_backstop_ms := t + bstop, mx_planned_tim2_ccr3 := t2,
          mx_planned_tim3_ccr3 := t3, mx_logical_active := True\<rparr>\<rparr>))"

lemma requested_simps [simp]:
  "quiet (requested d mv dur bstop t pulse t2 t3 e) = quiet e"
  "\<not> rx_completion_event_pending (requested d mv dur bstop t pulse t2 t3 e)"
  by (simp_all add: requested_def Let_def) (simp add: MotorExecutor_ClearPendingCompletion_def)

lemma start_armed_spec:
  assumes "quiet e" "Real_PlanCommand d mv = (MOTOR_RESULT_OK, t2, t3)"
    and e1_def: "e1 = requested d mv dur bstop t pulse t2 t3 e"
    and "fst (MotorStopTimer_Arm dur bstop e1)"
  shows "real_ok b (snd (start_output b d t2 t3 t (snd (MotorStopTimer_Arm dur bstop e1))))"
    "fst (start_output b d t2 t3 t (snd (MotorStopTimer_Arm dur bstop e1))) = MOTOR_RESULT_OK \<Longrightarrow>
      mx_logical_active (rx_motor (snd (start_output b d t2 t3 t (snd (MotorStopTimer_Arm dur bstop e1)))))
      \<and> mx_command_mv (rx_motor (snd (start_output b d t2 t3 t (snd (MotorStopTimer_Arm dur bstop e1))))) = mv
      \<and> mx_direction (rx_motor (snd (start_output b d t2 t3 t (snd (MotorStopTimer_Arm dur bstop e1))))) = d"
    "fst (start_output b d t2 t3 t (snd (MotorStopTimer_Arm dur bstop e1))) \<noteq> MOTOR_RESULT_OK \<Longrightarrow>
      idle (snd (start_output b d t2 t3 t (snd (MotorStopTimer_Arm dur bstop e1))))"
proof -
  let ?a = "snd (MotorStopTimer_Arm dur bstop e1)"
  have w: "wired e1" using assms(1) quiet_wired [of e1] by (simp add: e1_def)
  note a = Arm_spec [OF w, of dur bstop]
  have m: "mx_logical_active (rx_motor ?a)" "mx_direction (rx_motor ?a) = d" "mx_command_mv (rx_motor ?a) = mv"
      "mx_planned_tim2_ccr3 (rx_motor ?a) = t2" "mx_planned_tim3_ccr3 (rx_motor ?a) = t3"
      "mx_requested_duration_ms (rx_motor ?a) = dur" "mx_logical_deadline_ms (rx_motor ?a) = t + dur"
      "mx_logical_backstop_ms (rx_motor ?a) = t + bstop"
    by (simp_all add: a(1)) (simp_all add: e1_def requested_def MotorExecutor_ClearPendingCompletion_def Let_def)
  have timed: "request_timed ?a"
    using a(4) [OF assms(4)] m by (simp add: request_timed_def)
  have w2: "wired ?a" using a(3) a(4) [OF assms(4)] by (simp add: wired_def armed_for_def)
  have p: "\<not> rx_completion_event_pending ?a" by (simp only: a(2)) (simp add: e1_def)
  note s = start_output_spec [OF timed w2 p m(1,2,4,5), of b t] assms(2) m(3)
  show "real_ok b (snd (start_output b d t2 t3 t ?a))" using s by simp
  show "idle (snd (start_output b d t2 t3 t ?a))" if "fst (start_output b d t2 t3 t ?a) \<noteq> MOTOR_RESULT_OK"
    using s(3) that assms(2) m(3) by simp
  show "mx_logical_active (rx_motor (snd (start_output b d t2 t3 t ?a)))
      \<and> mx_command_mv (rx_motor (snd (start_output b d t2 t3 t ?a))) = mv
      \<and> mx_direction (rx_motor (snd (start_output b d t2 t3 t ?a))) = d"
    if "fst (start_output b d t2 t3 t ?a) = MOTOR_RESULT_OK"
    using s that by simp
qed

definition break_before_make :: "'h real_board \<Rightarrow> 'h real_motor \<Rightarrow> 'h real_motor" where
  "break_before_make b e = MotorExecutor_SetPhysicalStatus b (MotorStopTimer_Cancel (rx_poll
     (MotorHwReal_DisableImmediate (rx_poll (MotorExecutor_ClearFailure e)))))"

lemma Real_Start_split:
  assumes "Real_PlanCommand d mv = (r, t2, t3)"
  shows "Real_Start b d mv dur bstop t pulse e =
    (let e0 = break_before_make b e; a = MotorStopTimer_Arm dur bstop (requested d mv dur bstop t pulse t2 t3 e0)
     in if mx_logical_active (rx_motor e) then (MOTOR_RESULT_BUSY, e)
        else if dur = 0 \<or> bstop \<le> dur then (MOTOR_RESULT_INVALID, e)
        else if r \<noteq> MOTOR_RESULT_OK then (r, e)
        else if \<not> rx_initialized e0 \<or> \<not> mx_physical_output_disabled (rx_motor e0)
        then MotorExecutor_FailStart b MOTOR_RESULT_HARDWARE_ERROR
               (MotorExecutor_LatchFailure MOTOR_RESULT_HARDWARE_ERROR 0 29 e0)
        else if \<not> MotorHwReal_OutputArmingAllowed b
        then MotorExecutor_FailStart b MOTOR_RESULT_HARDWARE_ERROR
               (MotorExecutor_LatchFailure MOTOR_RESULT_HARDWARE_ERROR 0 30 e0)
        else if \<not> fst a
        then MotorExecutor_FailStart b MOTOR_RESULT_TIMER_ERROR
               (MotorExecutor_LatchFailure MOTOR_RESULT_TIMER_ERROR
                  (MotorStopTimer_GetLastFailureStage (snd a)) 31 (snd a))
        else start_output b d t2 t3 t (snd a))"
  by (simp add: Real_Start_def assms break_before_make_def requested_def Let_def case_prod_beta)

lemma Real_Start_spec:
  assumes "real_ok b e"
  shows "real_ok b (snd (Real_Start b d mv dur bstop t pulse e))"
    "fst (Real_Start b d mv dur bstop t pulse e) = MOTOR_RESULT_OK \<Longrightarrow>
      0 < mv \<and> unat mv \<le> 24000 \<and> 0 < dur \<and> dur < bstop
      \<and> mx_logical_active (rx_motor (snd (Real_Start b d mv dur bstop t pulse e)))
      \<and> mx_command_mv (rx_motor (snd (Real_Start b d mv dur bstop t pulse e))) = mv
      \<and> mx_direction (rx_motor (snd (Real_Start b d mv dur bstop t pulse e))) = d"
    "fst (Real_Start b d mv dur bstop t pulse e) \<noteq> MOTOR_RESULT_OK \<Longrightarrow>
      idle (snd (Real_Start b d mv dur bstop t pulse e))
      \<or> fst (Real_Start b d mv dur bstop t pulse e) = MOTOR_RESULT_BUSY
        \<and> snd (Real_Start b d mv dur bstop t pulse e) = e"
proof -
  obtain r t2 t3 where plan: "Real_PlanCommand d mv = (r, t2, t3)" by (cases "Real_PlanCommand d mv")
  define e0 where "e0 = break_before_make b e"
  define e1 where "e1 = requested d mv dur bstop t pulse t2 t3 e0"
  define a where "a = MotorStopTimer_Arm dur bstop e1"
  have w: "wired (MotorExecutor_ClearFailure e)" using real_ok_wired [OF assms] by simp
  have q: "quiet e0"
    unfolding e0_def break_before_make_def by (simp, rule low_Cancel [OF low_poll]) (simp add: wired_poll [OF w])
  note start = Real_Start_split [OF plan, of b dur bstop t pulse e, unfolded Let_def,
      folded e0_def, folded e1_def, folded a_def]
  have "wired e1" using q quiet_wired [of e1] by (simp add: e1_def)
  then have init: "st_initialized e0 \<longrightarrow> st_handler e0" "st_initialized (snd a) \<longrightarrow> st_handler (snd a)"
    using quiet_wired [OF q] Arm_spec(3) [of e1 dur bstop] unfolding a_def by (simp_all add: wired_def)
  have fail: "idle (snd (MotorExecutor_FailStart b res (MotorExecutor_LatchFailure r1 s1 f1 e')))
      \<and> fst (MotorExecutor_FailStart b res (MotorExecutor_LatchFailure r1 s1 f1 e')) = res"
    if "st_initialized e' \<longrightarrow> st_handler e'" for res r1 s1 f1 e'
    using FailStart_idle [of "MotorExecutor_LatchFailure r1 s1 f1 e'" b res] that by simp
  note ok = start_armed_spec [OF q _ e1_def, of b, folded a_def]
  have refuse: "idle e" if "\<not> mx_logical_active (rx_motor e)" using real_ok_inactive [OF assms that] that by simp
  show "idle (snd (Real_Start b d mv dur bstop t pulse e))
      \<or> fst (Real_Start b d mv dur bstop t pulse e) = MOTOR_RESULT_BUSY
        \<and> snd (Real_Start b d mv dur bstop t pulse e) = e"
    if "fst (Real_Start b d mv dur bstop t pulse e) \<noteq> MOTOR_RESULT_OK"
    using that refuse fail [OF init(1)] fail [OF init(2)] ok(3) plan
    by (auto simp: start split: if_splits)
  show "real_ok b (snd (Real_Start b d mv dur bstop t pulse e))"
    using assms fail [OF init(1)] fail [OF init(2)] ok(1) plan
    by (simp add: start quiet_ok)
  show "0 < mv \<and> unat mv \<le> 24000 \<and> 0 < dur \<and> dur < bstop
      \<and> mx_logical_active (rx_motor (snd (Real_Start b d mv dur bstop t pulse e)))
      \<and> mx_command_mv (rx_motor (snd (Real_Start b d mv dur bstop t pulse e))) = mv
      \<and> mx_direction (rx_motor (snd (Real_Start b d mv dur bstop t pulse e))) = d"
    if "fst (Real_Start b d mv dur bstop t pulse e) = MOTOR_RESULT_OK"
    using that fail [OF init(1)] fail [OF init(2)] ok(2) plan PlanCommand_accepts [of d mv t2 t3]
    by (auto simp: start not_le word_gt_0 split: if_splits)
qed

section \<open>Queries\<close>

lemma real_query_keeps:
  assumes "P e" "\<And>e. P e \<Longrightarrow> P (rx_poll e)" "\<And>e. P e \<Longrightarrow> P (MotorExecutor_SetPhysicalStatus b e)"
  shows "P (snd (Real_ActiveRequestIsValid b e))" "P (snd (Real_OutputIsDisabled b e))"
    "P (snd (Real_IsHealthy b e))" "P (snd (Real_GetSnapshot b e))"
  using Real_ActiveRequestIsValid_keeps [of P, OF _ assms(2,3)]
    query_keeps [of P e rx_poll b "Real_ActiveRequestIsValid b"] assms
  by (simp_all add: Real_OutputIsDisabled_def Real_IsHealthy_def Real_GetSnapshot_def)

lemma queries_ok:
  assumes "real_ok b e"
  shows "real_ok b (snd (Real_ActiveRequestIsValid b e))" "real_ok b (snd (Real_OutputIsDisabled b e))"
    "real_ok b (snd (Real_IsHealthy b e))" "real_ok b (snd (Real_GetSnapshot b e))"
  by (rule real_query_keeps [of "real_ok b"]; simp add: assms real_ok_poll)+

lemma queries_idle:
  assumes "idle e"
  shows "idle (snd (Real_ActiveRequestIsValid b e))" "idle (snd (Real_OutputIsDisabled b e))"
    "idle (snd (Real_IsHealthy b e))" "idle (snd (Real_GetSnapshot b e))"
  by (rule real_query_keeps [of idle]; simp add: assms)+

section \<open>The contract\<close>

lemma real_off_iff: "real_ok b e \<Longrightarrow> real_off e \<longleftrightarrow> idle e"
  using driving_on [of b e] quiet_off [of e] by (auto simp: real_ok_def real_off_def)

interpretation real: motor_executor "real_ops b" "real_ok b" real_off
  for b :: "'h real_board"
proof
  fix e :: "'h real_motor" and d mv dur bstop t
  assume ok: "real_ok b e"
  note w = real_ok_wired [OF ok] and off = real_off_iff [OF ok]
  have idle: "real_off e'" if "idle e'" for e' :: "'h real_motor" using quiet_off [of e'] that by simp
  show "real_ok b (snd (ex_Disable (real_ops b) e))"
    using Disable_spec [OF w, of b] by (simp add: real_ops_def quiet_ok)
  show "real_off (snd (ex_Disable (real_ops b) e))"
    using Disable_spec [OF w, of b] by (simp add: real_ops_def idle)
  show "real_ok b (snd (ex_StartRun (real_ops b) d mv dur bstop t e))"
    "real_ok b (snd (ex_StartPulse (real_ops b) d mv dur bstop t e))"
    using Real_Start_spec(1) [OF ok] by (simp_all add: real_ops_def Real_StartRun_def Real_StartPulse_def)
  show "real_ok b (snd (ex_Service (real_ops b) t e))" by (simp add: real_ops_def Real_Service_ok ok)
  show "real_ok b (snd (ex_GuardOutput (real_ops b) e))" by (simp add: real_ops_def Real_Guard_ok ok)
  show "real_ok b (snd (ex_IsHealthy (real_ops b) e)) \<and> real_ok b (snd (ex_ActiveRequestIsValid (real_ops b) e))
      \<and> real_ok b (snd (ex_OutputIsDisabled (real_ops b) e)) \<and> real_ok b (snd (ex_GetSnapshot (real_ops b) e))"
    using queries_ok [OF ok] by (simp add: real_ops_def)
  show "0 < mv \<and> unat mv \<le> 24000 \<and> 0 < dur \<and> dur < bstop
      \<and> mx_logical_active (ex_motor (real_ops b) (snd (ex_StartRun (real_ops b) d mv dur bstop t e)))
      \<and> mx_command_mv (ex_motor (real_ops b) (snd (ex_StartRun (real_ops b) d mv dur bstop t e))) = mv
      \<and> mx_direction (ex_motor (real_ops b) (snd (ex_StartRun (real_ops b) d mv dur bstop t e))) = d"
    if "fst (ex_StartRun (real_ops b) d mv dur bstop t e) = MOTOR_RESULT_OK"
    using Real_Start_spec(2) [OF ok] that by (simp add: real_ops_def Real_StartRun_def)
  show "0 < mv \<and> unat mv \<le> 24000 \<and> 0 < dur \<and> dur < bstop
      \<and> mx_logical_active (ex_motor (real_ops b) (snd (ex_StartPulse (real_ops b) d mv dur bstop t e)))
      \<and> mx_command_mv (ex_motor (real_ops b) (snd (ex_StartPulse (real_ops b) d mv dur bstop t e))) = mv
      \<and> mx_direction (ex_motor (real_ops b) (snd (ex_StartPulse (real_ops b) d mv dur bstop t e))) = d"
    if "fst (ex_StartPulse (real_ops b) d mv dur bstop t e) = MOTOR_RESULT_OK"
    using Real_Start_spec(2) [OF ok] that by (simp add: real_ops_def Real_StartPulse_def)
  show "real_off (snd (ex_Service (real_ops b) t e))" "real_off (snd (ex_GuardOutput (real_ops b) e))"
    "real_off (snd (ex_IsHealthy (real_ops b) e)) \<and> real_off (snd (ex_ActiveRequestIsValid (real_ops b) e))
      \<and> real_off (snd (ex_OutputIsDisabled (real_ops b) e)) \<and> real_off (snd (ex_GetSnapshot (real_ops b) e))"
    if "real_off e"
    using that off Real_Service_idle [of e b t] Real_Guard_idle [of e b] queries_idle [of e b]
    by (simp_all add: real_ops_def idle)
  show "real_off (snd (ex_OutputIsDisabled (real_ops b) e))" if "\<not> mx_logical_active (ex_motor (real_ops b) e)"
    using real_ok_inactive [OF ok] that queries_idle(2) [of e b] by (simp add: real_ops_def idle)
  show "\<not> mx_logical_active (ex_motor (real_ops b) e)" if "real_off e"
    using that by (simp add: real_ops_def real_off_def)
qed

end
