(* ===== verification/MotorRealProps.thy ===== *)
theory MotorRealProps
  imports MotorRealSafety
begin

text \<open>
  The properties of the real backend, over every run of it: any sequence of calls with any
  arguments after a successful initialisation, with the timer's hardware and interrupt
  acting between them and inside them at any time.
\<close>

section \<open>Runs\<close>

inductive real_run :: "'h real_board \<Rightarrow> 'h real_motor \<Rightarrow> bool" for b :: "'h real_board" where
  initialized: "Real_Initialize b e = (MOTOR_RESULT_OK, e') \<Longrightarrow> real_run b e'"
| call: "real_run b e \<Longrightarrow> real_run b (executor_call (real_ops b) c e)"
| interrupt: "real_run b e \<Longrightarrow> real_irq e e' \<Longrightarrow> real_run b e'"

lemma Timer_Initialize_spec:
  assumes "fst (MotorStopTimer_Initialize b True e)"
  shows "wired (snd (MotorStopTimer_Initialize b True e))"
    "\<not> st_armed (snd (MotorStopTimer_Initialize b True e))"
  using assms
  by (auto simp: MotorStopTimer_Initialize_def tim5_update_event_def wired_def Let_def split: if_splits)

lemma Timer_Initialize_hw:
  "MotorHwReal_IsDisabled (snd (MotorStopTimer_Initialize b h e)) = MotorHwReal_IsDisabled e"
  "pins_ok e \<Longrightarrow> pins_ok (snd (MotorStopTimer_Initialize b h e))"
proof -
  have apb: "(x OR 8) AND 3 = x AND 3" for x :: u32
    by (simp add: bit.conj_disj_distrib2)
  show "MotorHwReal_IsDisabled (snd (MotorStopTimer_Initialize b h e)) = MotorHwReal_IsDisabled e"
    "pins_ok e \<Longrightarrow> pins_ok (snd (MotorStopTimer_Initialize b h e))"
    by (simp_all add: MotorStopTimer_Initialize_def tim5_update_event_def Let_def
        MotorStopTimer_Cancel_def MotorHwReal_IsDisabled_def pins_ok_def apb)
qed

lemma Initialize_quiet:
  assumes "fst (Real_Initialize b e) = MOTOR_RESULT_OK"
  shows "idle (snd (Real_Initialize b e))"
proof -
  define e0 where "e0 = MotorExecutor_SetPhysicalStatus b (MotorExecutor_ClearFailure
      ((MotorExecutor_ClearPendingCompletion ((MotorHwReal_DisableImmediate e)
         \<lparr>rx_motor := zero_motor_snapshot, rx_initialized := False\<rparr>))
       \<lparr>rx_motor := zero_motor_snapshot\<lparr>mx_last_action := MOTOR_ACTION_DISABLED\<rparr>\<rparr>))"
  define i where "i = MotorHwReal_InitializeDisabled b e0"
  define s where "s = MotorStopTimer_Initialize b True (snd i)"
  have eq: "snd (Real_Initialize b e) = MotorExecutor_SetPhysicalStatus b ((snd s)\<lparr>rx_initialized := True\<rparr>)
      \<and> fst s"
    using assms
    by (auto simp: Real_Initialize_def Let_def case_prod_beta s_def i_def e0_def
        MotorExecutor_ClearPendingCompletion_def split: if_splits)
  note hw = InitializeDisabled_spec [of b e0, folded i_def]
  have m: "\<not> mx_logical_active (rx_motor e0)"
    by (simp add: e0_def) (simp add: zero_motor_snapshot_def)
  have more: "stop_timer.more (snd (MotorStopTimer_Initialize b h x)) = stop_timer.more x" for h x
    by (simp add: MotorStopTimer_Initialize_def tim5_update_event_def Let_def)
  have "rx_motor (snd s) = rx_motor (snd i)" unfolding s_def by (rule rx_same(1) [OF more])
  then have "rx_motor (snd s) = rx_motor e0"
    using rx_same(1) [OF same_more(13) [OF hw(3)]] by simp
  moreover have "quiet (snd s)"
    using eq Timer_Initialize_spec [of b "snd i"] Timer_Initialize_hw(1) [of b True "snd i"]
      Timer_Initialize_hw(2) [of "snd i" b True] hw
    by (simp add: quiet_def low_def wired_def s_def)
  ultimately show ?thesis using eq m by simp
qed

lemma real_run_ok: "real_run b e \<Longrightarrow> real_ok b e"
proof (induction rule: real_run.induct)
  case (initialized e e')
  then show ?case using Initialize_quiet [of b e] by (simp add: quiet_ok)
next
  case (call e c)
  then show ?case by (simp add: real.call_inv)
next
  case (interrupt e e')
  have "real_ok b (e\<lparr>tm_schedule := future\<rparr>)" for future
    using interrupt.IH
    by (simp add: real_defs pins_ok_def MotorHwReal_IsDisabled_def Let_def MotorHwReal_ActiveCompareIsValid_def)
  then show ?case using interrupt.hyps(2) real_ok_poll by (auto simp: real_irq_def)
qed

section \<open>Properties\<close>

text \<open>C7: The real motor output is never on by accident: at every moment of every run the driver
  is shut down with its stop timer disarmed, or a request is active and armed output is
  allowed, the driver is enabled with exactly the compare planned for that request on
  the one leg of its direction, and the stop timer is counting with its interrupt
  enabled and no event missed, its compare at the request's duration and its overflow at
  the request's backstop (in ticks of 0.1 ms).\<close>

theorem real_output_only_under_timer:
  assumes "real_run b e"
  shows "hw_disabled e \<and> \<not> st_armed e \<or>
    (let m = rx_motor e in
      mx_logical_active m \<and> MotorHwReal_OutputArmingAllowed b
      \<and> 1 \<le> unat (mx_command_mv m) \<and> unat (mx_command_mv m) \<le> 24000
      \<and> gpiob_odr e AND 6 = 6
      \<and> (case Real_PlanCommand (mx_direction m) (mx_command_mv m) of (r, t2, t3) \<Rightarrow>
          r = MOTOR_RESULT_OK \<and> tim2_ccr3 e = ucast t2 \<and> tim3_ccr3 e = ucast t3
          \<and> (t2 = 0 \<or> t3 = 0))
      \<and> tim5_cr1 e AND 1 = 1 \<and> tim5_irq_enabled e \<and> tim5_dier e = 3 \<and> tim5_sr e AND 3 = 0
      \<and> unat (tim5_ccr1 e) = 10 * unat (mx_requested_duration_ms m)
      \<and> unat (tim5_arr e) + 1
          = 10 * unat (mx_logical_backstop_ms m - mx_logical_deadline_ms m + mx_requested_duration_ms m))"
proof -
  consider "quiet e" | "driving b e" using real_run_ok [OF assms] by (auto simp: real_ok_def)
  then show ?thesis
  proof cases
    case 1
    then show ?thesis by (simp add: quiet_def low_def disabled_shut_down)
  next
    case 2
    let ?m = "rx_motor e"
    have plan: "Real_PlanCommand (mx_direction ?m) (mx_command_mv ?m)
        = (MOTOR_RESULT_OK, mx_planned_tim2_ccr3 ?m, mx_planned_tim3_ccr3 ?m)"
      using 2 by (simp add: driving_def output_matches_def Let_def)
    have leg: "if mx_direction ?m = MOTOR_DIRECTION_PRESS then mx_planned_tim2_ccr3 ?m = 0
        else mx_planned_tim3_ccr3 ?m = 0"
      using plan by (auto simp: Real_PlanCommand_def Let_def split: if_splits)
    have one: "x AND 1 = 1" if "x AND 1 \<noteq> 0" for x :: u32
      using that by (auto simp: and_one_eq)
    show ?thesis
      using 2 leg PlanCommand_accepts [OF plan]
      by (auto simp: driving_def output_matches_def request_timed_def armed_for_def Let_def plan
          MotorHwReal_ActiveCompareIsValid_def word_gt_0 unat_gt_0 Suc_le_eq intro!: one split: if_splits)
  qed
qed

text \<open>C8: The stop timer ends every request by itself: whenever the output is on and the timer
  raises its compare or overflow flag, the interrupt shuts the driver down and disarms
  the timer in that instant, without the main program; the next service publishes
  exactly that event once, as a normal completion, as a backstop, or as a timer error if
  a compare was lost, and ends the request.\<close>

theorem real_timer_ends_request:
  assumes "real_run b e" "\<not> hw_disabled e" "flags AND 3 \<noteq> 0"
  shows "(let e1 = rx_poll (e\<lparr>tm_schedule := [(flags, count)]\<rparr>);
      lost = ((tim5_sr e OR flags) AND 0x200 \<noteq> 0)
    in hw_disabled e1 \<and> \<not> st_armed e1 \<and> rx_motor e1 = rx_motor e
      \<and> (case Real_Service b t e1 of (result, e2) \<Rightarrow>
          hw_disabled e2 \<and> \<not> mx_logical_active (rx_motor e2) \<and> \<not> rx_completion_event_pending e2
          \<and> result = (if lost then MOTOR_RESULT_TIMER_ERROR else MOTOR_RESULT_OK)
          \<and> mx_last_completion (rx_motor e2)
            = (if lost then MOTOR_COMPLETION_ERROR
               else if flags AND 1 \<noteq> 0 then MOTOR_COMPLETION_BACKSTOP else MOTOR_COMPLETION_NORMAL)))"
proof -
  have drv: "driving b e"
    using real_run_ok [OF assms(1)] assms(2) by (auto simp: real_ok_def quiet_def low_def disabled_shut_down)
  define h where "h = timer_hw (e\<lparr>tm_schedule := [(flags, count)]\<rparr>)"
  define sr where "sr = tim5_sr e"
  have t: "tim5_irq_enabled e" "tim5_dier e = 3" "st_handler e" "st_armed e" "tim5_cr1 e AND 1 \<noteq> 0"
      "sr AND 3 = 0"
    using drv by (auto simp: driving_def request_timed_def armed_for_def Let_def sr_def)
  have h: "tim5_irq_enabled h" "tim5_dier h = 3" "st_handler h" "st_armed h" "rx_motor h = rx_motor e"
      "tim5_sr h = sr OR (flags AND 0x203)" "tm_schedule h = []" "wired h"
    using t by (simp_all add: h_def wired_def sr_def) (simp_all add: timer_hw_def Let_def)
  have sr1: "sr AND 1 = 0"
  proof -
    have "sr AND 1 = (sr AND 3) AND 1" by (simp add: and.assoc)
    then show ?thesis using t(6) by simp
  qed
  have flag_bits: "tim5_sr h AND 3 = flags AND 3" "tim5_sr h AND 0x200 = (sr OR flags) AND 0x200"
      "tim5_sr h AND 1 = flags AND 1"
    using t(6) sr1 by (simp_all add: h bit.conj_disj_distrib2 and.assoc)
  define ev where "ev = (if (sr OR flags) AND 0x200 \<noteq> 0 then MOTOR_STOP_TIMER_ERROR
      else if flags AND 1 \<noteq> 0 then MOTOR_STOP_TIMER_BACKSTOP else MOTOR_STOP_TIMER_NORMAL)"
  define e1 where "e1 = MotorStopTimer_IrqHandler MotorExecutor_StopTimerExpiredFromIsr h"
  have e1: "rx_poll (e\<lparr>tm_schedule := [(flags, count)]\<rparr>) = e1"
    using h flag_bits assms(3) by (simp add: poll_def tim5_irq_line_def e1_def Let_def flip: h_def)
  have cc: "tim5_sr h AND 2 \<noteq> 0" if "flags AND 1 = 0"
  proof -
    have "flags AND 3 = (flags AND 1) OR (flags AND 2)" by (simp flip: bit.conj_disj_distrib)
    moreover have "sr AND 2 = (sr AND 3) AND 2" by (simp add: and.assoc)
    ultimately show ?thesis using assms(3) that t(6) by (simp add: h bit.conj_disj_distrib2 and.assoc)
  qed
  have ev: "rx_pending_completion_event e1 = ev" "tm_schedule e1 = []"
    using h flag_bits cc
    by (simp_all add: e1_def MotorStopTimer_IrqHandler_def MotorExecutor_StopTimerExpiredFromIsr_def
        MotorExecutor_LatchCompletion_def MotorStopTimer_Cancel_def ev_def Let_def)
  have q: "quiet e1" "rx_completion_event_pending e1" "rx_motor e1 = rx_motor e"
    using IrqHandler_quiet [OF h(8,3)] h(5) by (simp_all add: e1_def)
  have "rx_poll e1 = e1"
    using ev(2) q(1) by (auto simp: poll_def tim5_irq_line_def timer_hw_def Let_def quiet_def low_def)
  then have svc: "Real_Service b t e1 = MotorExecutor_PublishCompletion b ev (e1\<lparr>rx_completion_event_pending := False\<rparr>)"
    using q(2) ev(1) by (simp add: Real_Service_def motor_service_def or_publish_def MotorExecutor_TakeCompletion_def)
  define e2 where "e2 = snd (Real_Service b t e1)"
  have "idle e2"
    unfolding e2_def svc by (rule PublishCompletion_idle) (simp add: q(1))
  moreover have "MotorHwReal_IsDisabled (e1\<lparr>rx_completion_event_pending := False\<rparr>)"
    using q(1) by (simp add: quiet_def low_def MotorHwReal_IsDisabled_def)
  then have "Real_Service b t e1 = (if ev = MOTOR_STOP_TIMER_ERROR then MOTOR_RESULT_TIMER_ERROR else MOTOR_RESULT_OK, e2)
      \<and> \<not> rx_completion_event_pending e2 \<and> mx_last_completion (rx_motor e2) = MotorExecutor_MapCompletion ev"
    unfolding e2_def svc
    by (simp add: MotorExecutor_PublishCompletion_def publish_result_def MotorExecutor_SetPhysicalStatus_def
        MotorExecutor_ClearActivePlan_def set_completion_def MotorExecutor_LatchFailure_def Let_def)
  ultimately show ?thesis
    using q quiet_off [of e2]
    by (simp add: e1 Let_def quiet_def low_def disabled_shut_down real_off_def)
      (simp add: ev_def sr_def MotorExecutor_MapCompletion_def)
qed


section \<open>A board\<close>

text \<open>
  A driver that does what its documentation says, on a 96 MHz timer clock: the
  initialisation programs period, prescaler and PWM mode, a start enables channel and
  counter, a stop disables them.
\<close>

definition bench_board :: "unit real_board" where
  "bench_board = \<lparr>
     rb_policy = \<lparr>bp_mode = MODE_REAL_BENCH, bp_auto_target = False, bp_force_servo = False,
                  bp_commissioning = False, bp_characterization = False, bp_build_to_target = False\<rparr>,
     rb_arming_enabled = True,
     rb_GetPCLK1Freq = (\<lambda>cfgr. if cfgr AND 0x1C00 \<noteq> 0 then 48000000 else 96000000),
     rb_PWM_Init = (\<lambda>i r. (True, (), r\<lparr>tr_PSC := tb_Prescaler i, tr_ARR := tb_Period i\<rparr>)),
     rb_PWM_ConfigChannel = (\<lambda>c _ _ r. (True, (), r\<lparr>tr_CCMR2 := oc_OCMode c, tr_CCR3 := oc_Pulse c,
       tr_CCER := 0\<rparr>)),
     rb_PWM_Stop = (\<lambda>_ _ r. (True, (), r\<lparr>tr_CCER := 0, tr_CR1 := 0\<rparr>)),
     rb_PWM_Start = (\<lambda>_ _ r. (True, (), r\<lparr>tr_CCER := 0x100, tr_CR1 := 1\<rparr>))\<rparr>"

text \<open>The same board in a build of another policy\<close>

abbreviation bench :: "build_policy \<Rightarrow> unit real_board" where
  "bench p \<equiv> bench_board\<lparr>rb_policy := p\<rparr>"

lemma bench_same: "bench (rb_policy bench_board) = bench_board"
  by simp

lemma bench_apply:
  assumes "hr_initialized e" "0 < duty" "duty \<le> 4799" "MotorHwReal_OutputArmingAllowed (bench p)"
  shows "fst (MotorHwReal_Apply (bench p) press duty e)"
proof -
  define e1 where "e1 = MotorHwReal_DisableImmediate (e\<lparr>hr_last_failure_stage := 0\<rparr>)"
  have off: "MotorHwReal_IsDisabled e1" "hr_initialized e1" using assms(1) by (simp_all add: e1_def)
  have odr: "((x AND - 1) OR 6) AND 6 = 6" "(x AND 6 = 0) \<Longrightarrow> ((x OR 6) AND 6 :: u32) = 6" for x :: u32
    by (simp_all add: bit.conj_disj_distrib2)
  have "unat (ucast duty :: u32) = unat duty"
  proof -
    have "unat duty < 2 ^ 32" using assms(3) by (simp add: word_le_nat_alt)
    then show ?thesis by (simp only: unsigned_ucast_eq) (simp add: take_bit_nat_eq_self_iff)
  qed
  then have duty: "duty \<noteq> 0" "\<not> (ucast duty :: u32) > 4799"
    using assms(2,3) by (auto simp: not_less word_le_nat_alt)
  show ?thesis
    using off duty assms(1,4)
    by (simp add: MotorHwReal_Apply_def bench_board_def Let_def
        case_prod_beta hal_call_def read_tim_def write_tim_def update_event_def write_tim_sr_def
        MotorHwReal_ZeroCompareCommitIsValid_def MotorHwReal_IsDisabled_def apply_carriers_def
        MotorHwReal_ZeroCarriersAreRunning_def apply_compare_def write_bsrr_def odr
        MotorHwReal_ActiveCompareIsValid_def flip: e1_def)
qed

lemma bench_config:
  assumes "tim2_psc e = 0" "tim3_psc e = 0" "tim2_arr e = 4799" "tim3_arr e = 4799"
    "tim2_ccmr2 e = 0x60" "tim3_ccmr2 e = 0x60" "tim2_ccer e = 0" "tim3_ccer e = 0"
  shows "MotorHwReal_PwmConfigurationIsValid (bench p) (MotorHwReal_DisableImmediate e)"
  using assms
  by (simp add: MotorHwReal_PwmConfigurationIsValid_def MotorHwReal_TimerClockHz_def bench_board_def
      MotorHwReal_DisableImmediate_def MotorHw_ForceDisableImmediate_def write_bsrr_def write_tim_sr_def Let_def)

lemma bench_hw_initializes:
  "fst (MotorHwReal_InitializeDisabled (bench p) e)
   \<and> hr_initialized (snd (MotorHwReal_InitializeDisabled (bench p) e))"
proof -
  define e0 where "e0 = MotorHwReal_ConfigureAlternatePin 0 2 (MotorHwReal_ConfigureAlternatePin 10 1
      (MotorHwReal_ConfigureShutdownPins (MotorHwReal_DisableImmediate
        (e\<lparr>hr_last_failure_stage := 0, hr_initialized := False, rcc_ahb1enr := rcc_ahb1enr e OR 2,
           rcc_apb1enr := rcc_apb1enr e OR 3\<rparr>))))"
  define e1 where "e1 = snd (MotorHwReal_ConfigurePwmTimer (bench p) TIM2 (Suc 0) 2 e0)"
  define e2 where "e2 = snd (MotorHwReal_ConfigurePwmTimer (bench p) TIM3 3 4 e1)"
  have ok: "fst (MotorHwReal_ConfigurePwmTimer (bench p) t i c s)" for t i c and s :: "(unit, 'a) real_regs_scheme"
    by (simp add: MotorHwReal_ConfigurePwmTimer_def bench_board_def hal_call_def Let_def case_prod_beta)
  have "tim2_psc e2 = 0" "tim3_psc e2 = 0" "tim2_arr e2 = 4799" "tim3_arr e2 = 4799"
    "tim2_ccmr2 e2 = 0x60" "tim3_ccmr2 e2 = 0x60" "tim2_ccer e2 = 0" "tim3_ccer e2 = 0"
    by (simp_all add: e2_def e1_def MotorHwReal_ConfigurePwmTimer_def bench_board_def hal_call_def
        read_tim_def write_tim_def Let_def case_prod_beta)
  then have "MotorHwReal_PwmConfigurationIsValid (bench p) (MotorHwReal_DisableImmediate e2)"
    by (rule bench_config)
  then show ?thesis
    using ok [of TIM2 "Suc 0" 2 e0] ok [of TIM3 3 4 e1]
    by (simp add: MotorHwReal_InitializeDisabled_def case_prod_beta Let_def flip: e0_def e1_def e2_def)
qed

lemma bench_timer_initializes:
  "fst (MotorStopTimer_Initialize (bench p) True e)
   \<and> st_initialized (snd (MotorStopTimer_Initialize (bench p) True e))
   \<and> st_healthy (snd (MotorStopTimer_Initialize (bench p) True e))
   \<and> st_handler (snd (MotorStopTimer_Initialize (bench p) True e))
   \<and> tm_schedule (snd (MotorStopTimer_Initialize (bench p) True e)) = tm_schedule e
   \<and> hr_initialized (snd (MotorStopTimer_Initialize (bench p) True e)) = hr_initialized e"
  by (simp add: MotorStopTimer_Initialize_def MotorStopTimer_InputClockHz_def bench_board_def
      tim5_update_event_def MotorStopTimer_Cancel_def Let_def)

definition reset_motor :: "unit real_motor" where
  "reset_motor = \<lparr>rcc_ahb1enr = 0, rcc_apb1enr = 0, gpiob_odr = 0, gpiob_pupdr = 0x100,
     gpiob_otyper = 0, gpiob_moder = 0x280, tim2_ccr3 = 0, tim3_ccr3 = 0, tim2_ccer = 0, tim3_ccer = 0,
     rcc_cfgr = 0, gpiob_ospeedr = 0, gpiob_afr = [0, 0],
     tim2_cr1 = 0, tim2_sr = 0, tim2_cnt = 0, tim2_psc = 0, tim2_arr = 0, tim2_ccmr2 = 0,
     tim3_cr1 = 0, tim3_sr = 0, tim3_cnt = 0, tim3_psc = 0, tim3_arr = 0, tim3_ccmr2 = 0,
     hr_tim2 = (), hr_tim3 = (), hr_initialized = False, hr_last_failure_stage = 0,
     tim5_cr1 = 0, tim5_cr2 = 0, tim5_smcr = 0, tim5_dier = 0, tim5_sr = 0, tim5_cnt = 0,
     tim5_psc = 0, tim5_arr = 0, tim5_ccmr1 = 0, tim5_ccer = 0, tim5_ccr1 = 0,
     tim5_irq_enabled = False, st_handler = False, st_prescaler = 0, st_initialized = False,
     st_armed = False, st_healthy = False, st_last_failure_stage = 0, tm_schedule = [],
     rx_motor = zero_motor_snapshot, rx_initialized = False,
     rx_pending_completion_event = MOTOR_STOP_TIMER_ERROR, rx_completion_event_pending = False\<rparr>"

text \<open>A backend that is initialised and idle, with an undisturbed future.\<close>

definition ready :: "('h, 'a) real_motor_scheme \<Rightarrow> bool" where
  "ready e \<longleftrightarrow> idle e \<and> rx_initialized e \<and> hr_initialized e \<and> st_initialized e \<and> st_healthy e
    \<and> tm_schedule e = []"

lemma bench_initializes:
  assumes "tm_schedule e = []"
  shows "fst (Real_Initialize (bench p) e) = MOTOR_RESULT_OK" "ready (snd (Real_Initialize (bench p) e))"
proof -
  define e0 where "e0 = MotorExecutor_SetPhysicalStatus (bench p) (MotorExecutor_ClearFailure
      ((MotorExecutor_ClearPendingCompletion ((MotorHwReal_DisableImmediate e)
         \<lparr>rx_motor := zero_motor_snapshot, rx_initialized := False\<rparr>))
       \<lparr>rx_motor := zero_motor_snapshot\<lparr>mx_last_action := MOTOR_ACTION_DISABLED\<rparr>\<rparr>))"
  define i where "i = snd (MotorHwReal_InitializeDisabled (bench p) e0)"
  define s where "s = snd (MotorStopTimer_Initialize (bench p) True i)"
  have ok: "fst (MotorHwReal_InitializeDisabled (bench p) e0)" "hr_initialized i"
      "fst (MotorStopTimer_Initialize (bench p) True i)" "st_initialized s" "st_healthy s"
      "tm_schedule s = tm_schedule i" "hr_initialized s = hr_initialized i"
    using bench_hw_initializes [of p e0] bench_timer_initializes [of p i] by (simp_all add: i_def s_def)
  have "tm_schedule i = tm_schedule e0" unfolding i_def by (rule same_more [OF InitializeDisabled_spec(3)])
  moreover have "tm_schedule e0 = []"
    using assms by (simp add: e0_def MotorExecutor_SetPhysicalStatus_def MotorExecutor_ClearFailure_def
        MotorExecutor_ClearPendingCompletion_def)
  moreover have off: "MotorHwReal_IsDisabled (s\<lparr>rx_initialized := True\<rparr>)"
    using InitializeDisabled_spec(1) [of "bench p" e0] Timer_Initialize_hw(1) [of "bench p" True i]
    by (simp add: i_def s_def MotorHwReal_IsDisabled_def)
  moreover have eq: "Real_Initialize (bench p) e =
      (let e' = MotorExecutor_SetPhysicalStatus (bench p) (s\<lparr>rx_initialized := True\<rparr>)
       in if \<not> mx_physical_output_disabled (rx_motor e')
          then (MOTOR_RESULT_HARDWARE_ERROR, MotorExecutor_LatchFailure MOTOR_RESULT_HARDWARE_ERROR 0 28 e')
          else (MOTOR_RESULT_OK, e'))"
    using ok(1,3)
    by (simp add: Real_Initialize_def Let_def case_prod_beta i_def s_def e0_def
        MotorExecutor_ClearPendingCompletion_def)
  ultimately show fst: "fst (Real_Initialize (bench p) e) = MOTOR_RESULT_OK"
    by (simp add: MotorExecutor_SetPhysicalStatus_def)
  show "ready (snd (Real_Initialize (bench p) e))"
    using Initialize_quiet [OF fst] ok off \<open>tm_schedule i = tm_schedule e0\<close> \<open>tm_schedule e0 = []\<close>
    unfolding ready_def by (simp add: eq Let_def MotorExecutor_SetPhysicalStatus_def)
qed

lemma poll_undisturbed: "tm_schedule e = [] \<Longrightarrow> \<not> tim5_irq_enabled e \<Longrightarrow> rx_poll e = e"
  by (simp add: poll_def timer_hw_def tim5_irq_line_def Let_def)

lemma arm_undisturbed:
  assumes "st_initialized e" "st_healthy e" "tm_schedule e = []"
  shows "fst (MotorStopTimer_Arm 20 50 e)" "tm_schedule (snd (MotorStopTimer_Arm 20 50 e)) = []"
    "st_healthy (snd (MotorStopTimer_Arm 20 50 e))" "tim5_sr (snd (MotorStopTimer_Arm 20 50 e)) = 0"
    "hr_initialized (snd (MotorStopTimer_Arm 20 50 e)) = hr_initialized e"
proof -
  have [simp]: "timer_hw s = s" if "tm_schedule s = []" for s :: "('a, 'b) stop_timer_scheme"
    using that by (simp add: timer_hw_def)
  show "fst (MotorStopTimer_Arm 20 50 e)" "tm_schedule (snd (MotorStopTimer_Arm 20 50 e)) = []"
    "st_healthy (snd (MotorStopTimer_Arm 20 50 e))" "tim5_sr (snd (MotorStopTimer_Arm 20 50 e)) = 0"
    "hr_initialized (snd (MotorStopTimer_Arm 20 50 e)) = hr_initialized e"
    using assms by (simp_all add: MotorStopTimer_Arm_def MotorStopTimer_Cancel_def tim5_update_event_def Let_def)
qed

lemma bench_drives:
  assumes "ready e"
  shows "driving bench_board (snd (Real_StartPulse bench_board MOTOR_DIRECTION_PRESS 10000 20 50 7 e))"
proof -
  have plan: "Real_PlanCommand MOTOR_DIRECTION_PRESS 10000 = (MOTOR_RESULT_OK, 0, 2000)"
    by (simp add: Real_PlanCommand_def Real_DirectionIsValid_def)
  define e0 where "e0 = break_before_make bench_board e"
  define e1 where "e1 = requested MOTOR_DIRECTION_PRESS 10000 20 50 7 True 0 2000 e0"
  define a where "a = MotorStopTimer_Arm 20 50 e1"
  define r where "r = MotorHwReal_Apply bench_board True 2000 (snd a)"
  define e3 where "e3 = MotorExecutor_SetPhysicalStatus bench_board (snd r)"
  have e: "\<not> tim5_irq_enabled e" "tm_schedule e = []" "\<not> mx_logical_active (rx_motor e)"
    using assms by (auto simp: ready_def quiet_def low_def)
  define c where "c = MotorExecutor_ClearFailure e"
  have c: "rx_poll c = c" "rx_poll (MotorHwReal_DisableImmediate c) = MotorHwReal_DisableImmediate c"
    using e by (simp_all add: poll_undisturbed c_def MotorExecutor_ClearFailure_def)
  have e0: "e0 = MotorExecutor_SetPhysicalStatus bench_board (MotorStopTimer_Cancel (MotorHwReal_DisableImmediate c))"
    by (simp only: e0_def break_before_make_def c flip: c_def)
  have e0s: "rx_initialized e0" "hr_initialized e0" "st_initialized e0" "st_healthy e0" "tm_schedule e0 = []"
    "mx_physical_output_disabled (rx_motor e0)"
    using assms by (simp_all add: e0 ready_def MotorExecutor_SetPhysicalStatus_def)
      (simp_all add: c_def MotorExecutor_ClearFailure_def MotorStopTimer_Cancel_def)
  have e1s: "hr_initialized e1" "st_initialized e1" "st_healthy e1" "tm_schedule e1 = []"
    using e0s by (simp_all add: e1_def requested_def MotorExecutor_ClearPendingCompletion_def Let_def)
  note arm = arm_undisturbed [OF e1s(2,3,4), folded a_def]
  have arming: "MotorHwReal_OutputArmingAllowed bench_board"
    by (simp add: MotorHwReal_OutputArmingAllowed_def bench_board_def)
  have fr: "fst r" unfolding r_def
    by (subst bench_same [symmetric], rule bench_apply) (use arming in \<open>simp_all add: arm e1s word_le_nat_alt\<close>)
  have ap: "applied True 2000 (snd a) r" unfolding r_def by (rule Apply_spec)
  then have on: "MotorHwReal_ActiveCompareIsValid True 2000 e3"
    and more: "real_regs.more (snd r) = real_regs.more (snd a)"
    using fr by (simp_all add: applied_def e3_def SetPhysicalStatus_static)
  have pd: "\<not> mx_physical_output_disabled (rx_motor e3)"
    using active_not_disabled [OF on]
    by (simp add: e3_def MotorExecutor_SetPhysicalStatus_def MotorHwReal_IsDisabled_def)
  have st: "quiet e0" by (simp add: e0) (use assms in \<open>simp add: ready_def c_def MotorExecutor_ClearFailure_def quiet_def low_def\<close>)
  have "wired e1" using st quiet_wired [of e1] by (simp add: e1_def)
  note as = Arm_spec [OF this, of 20 50, folded a_def]
  have armed: "st_armed e3" "st_healthy e3" "tm_schedule e3 = []" "tim5_sr e3 = 0" "mx_logical_active (rx_motor e3)"
    using as(1) as(4) [OF arm(1)] arm same_more [OF more] rx_same [OF same_more(13) [OF more]]
    by (simp_all add: e3_def MotorExecutor_SetPhysicalStatus_def armed_for_def)
      (simp add: e1_def requested_def MotorExecutor_ClearPendingCompletion_def Let_def)
  have commit: "MotorStopTimer_CommitArm MotorExecutor_StopTimerExpiredFromIsr e3
      = (True, e3\<lparr>st_last_failure_stage := 0, tim5_irq_enabled := True\<rparr>)"
    using armed by (simp add: MotorStopTimer_CommitArm_def timer_hw_def Let_def)
  have quietly: "rx_poll (e3\<lparr>st_last_failure_stage := 0, tim5_irq_enabled := True\<rparr>)
      = e3\<lparr>st_last_failure_stage := 0, tim5_irq_enabled := True\<rparr>"
    using armed by (simp add: poll_def timer_hw_def tim5_irq_line_def Let_def)
  have "Real_StartPulse bench_board MOTOR_DIRECTION_PRESS 10000 20 50 7 e
      = start_output bench_board MOTOR_DIRECTION_PRESS 0 2000 7 (snd a)"
    using e e0s arm(1) arming
    by (simp add: Real_StartPulse_def Real_Start_split [OF plan] Let_def flip: e0_def)
      (simp add: a_def e1_def)
  also have "\<dots> = start_commit bench_board 7 e3"
    using fr pd by (simp add: start_output_def MotorHwReal_ApplyPress_def Let_def case_prod_beta flip: r_def e3_def)
  also have "\<dots> = (MOTOR_RESULT_OK, e3\<lparr>st_last_failure_stage := 0, tim5_irq_enabled := True\<rparr>)"
    using armed by (simp add: start_commit_def commit quietly)
  finally have run: "Real_StartPulse bench_board MOTOR_DIRECTION_PRESS 10000 20 50 7 e
      = (MOTOR_RESULT_OK, e3\<lparr>st_last_failure_stage := 0, tim5_irq_enabled := True\<rparr>)" .
  have "\<not> MotorHwReal_IsDisabled (snd (Real_StartPulse bench_board MOTOR_DIRECTION_PRESS 10000 20 50 7 e))"
    using on by (simp add: run) (simp add: MotorHwReal_IsDisabled_def MotorHwReal_ActiveCompareIsValid_def)
  moreover have "real_ok bench_board (snd (Real_StartPulse bench_board MOTOR_DIRECTION_PRESS 10000 20 50 7 e))"
    using Real_Start_spec(1) [of bench_board e] assms by (simp add: Real_StartPulse_def ready_def quiet_ok)
  ultimately show ?thesis by (auto simp: real_ok_def quiet_def low_def)
qed

lemma bench_start_drives:
  "\<exists>e. real_run bench_board e \<and> \<not> mx_logical_active (rx_motor e)
    \<and> driving bench_board (snd (Real_StartPulse bench_board MOTOR_DIRECTION_PRESS 10000 20 50 7 e))"
proof -
  let ?e = "snd (Real_Initialize bench_board reset_motor)"
  have s: "tm_schedule reset_motor = []" by (simp add: reset_motor_def)
  have i: "ready ?e"
    using bench_initializes(2) [OF s, of "rb_policy bench_board"] by (simp add: bench_same)
  have "real_run bench_board ?e"
    using real_run.initialized [of bench_board reset_motor ?e] bench_initializes(1) [OF s, of "rb_policy bench_board"]
    by (simp add: bench_same) (metis prod.collapse)
  moreover have "\<not> mx_logical_active (rx_motor ?e)" using i by (simp add: ready_def quiet_def low_def)
  ultimately show ?thesis using bench_drives [OF i] by blast
qed

lemma bench_run_drives: "\<exists>e. real_run bench_board e \<and> driving bench_board e \<and> \<not> hw_disabled e"
proof -
  obtain e where "real_run bench_board e"
    "driving bench_board (snd (Real_StartPulse bench_board MOTOR_DIRECTION_PRESS 10000 20 50 7 e))"
    using bench_start_drives by blast
  then have r: "real_run bench_board (executor_call (real_ops bench_board)
      (Call_StartPulse MOTOR_DIRECTION_PRESS 10000 20 50 7) e)"
    by (blast intro: real_run.call)
  have d: "driving bench_board (snd (Real_StartPulse bench_board MOTOR_DIRECTION_PRESS 10000 20 50 7 e))"
    by fact
  have on: "\<not> hw_disabled e" if "driving bench_board e" for e :: "unit real_motor"
  proof -
    have "gpiob_odr e AND 6 = 6"
      using that by (simp add: driving_def output_matches_def MotorHwReal_ActiveCompareIsValid_def Let_def)
    then show ?thesis by (simp add: hw_disabled_def)
  qed
  show ?thesis using r d on by (auto simp: real_ops_def)
qed

theorem real_output_only_under_timer_witness:
  "\<exists>e :: unit real_motor. real_run bench_board e \<and> \<not> hw_disabled e \<and> mx_logical_active (rx_motor e)
    \<and> tim5_irq_enabled e \<and> unat (tim5_ccr1 e) = 10 * unat (mx_requested_duration_ms (rx_motor e))"
proof -
  obtain e :: "unit real_motor" where e: "real_run bench_board e" "\<not> hw_disabled e"
    using bench_run_drives by blast
  then show ?thesis using real_output_only_under_timer [OF e(1)] by (auto simp: Let_def)
qed

theorem real_timer_ends_request_witness:
  "\<exists>e :: unit real_motor. real_run bench_board e \<and> \<not> hw_disabled e
    \<and> hw_disabled (rx_poll (e\<lparr>tm_schedule := [(2, 200)]\<rparr>))"
proof -
  obtain e :: "unit real_motor" where e: "real_run bench_board e" "\<not> hw_disabled e"
    using bench_run_drives by blast
  then show ?thesis using real_timer_ends_request [OF e, of 2 200] by (auto simp: Let_def)
qed


end
