(* ===== verification/RealFirmware.thy ===== *)
theory RealFirmware
  imports MainLoop MachineFaultOff MotorRealProps
begin

text \<open>
  The firmware linked with the real motor backend: boot, main loop, the interrupts of the two
  ports and of the stop timer. The backend's contract gives what the state machine
  alone cannot: a fault and a STOP reach the driver's pins.
\<close>

section \<open>A firmware on a reliable backend\<close>

locale reliable_firmware = firmware_motor ops inv off motor_irq + reliable_motor ops inv off
  for ops :: "'e executor" and inv off motor_irq
begin

lemma fo_reply:
  assumes "fault_off inv off w"
  shows "fault_off inv off (snd (reply p ops r t w))"
proof -
  have candidate: "fault_off inv off (snd (read_candidate p ops f a t v))"
    if "fault_off inv off v" for f a v
    using that by (simp add: read_candidate_def ReadInput_world)
  have registers: "fault_off inv off (snd (read_registers p ops f as t v))"
    if "fault_off inv off v" for f as v
    using that
  proof (induction as arbitrary: v)
    case (Cons a as)
    with Cons.IH [OF candidate [OF Cons.prems, of f a]] candidate [OF Cons.prems, of f a]
    show ?case by (simp add: case_prod_beta split: option.split)
  qed simp
  have writes: "fault_off inv off (snd (ModbusSemantic_ApplyWrite p ops f a v t w))" for f a v
    using assms by (simp add: ModbusSemantic_ApplyWrite_def Let_def)
  show ?thesis
    using assms registers [OF assms] writes
    by (auto simp: reply_def Let_def case_prod_beta split: option.splits)
qed

lemma fo_pending_stop:
  assumes "firmware_ok inv off p f" "fault_off inv off (rt_world (fw_runtime f))"
  shows "fault_off inv off (rt_world (fw_runtime (snd (main_pending_stop p ops t f))))"
proof -
  let ?s = "u2_server (fw_uart2 f)" and ?w = "rt_world (fw_runtime f)"
  have s: "server_ok ?s" "srv_machine ?s" using assms(1) by (simp_all add: firmware_ok_def uart2_ok_def)
  have "fault_off inv off (snd (snd (ModbusRtuServer_TakeStop p ops t ?s ?w)))"
    using TakeStop_refuses [OF s(1), of p ops t ?w] TakeStop_spec [OF s _ refl refl, of p ops t ?w]
      assms(2) fo_HandleCommand [OF assms(2)]
    by (cases "srv_stop_latched ?s") fastforce+
  then show ?thesis
    by (simp add: main_pending_stop_def ModbusUart2_ProcessPendingStop_def case_prod_beta on_runtime_def)
qed

lemma fo_normal_request:
  assumes "firmware_ok inv off p f" "fault_off inv off (rt_world (fw_runtime f))"
  shows "fault_off inv off (rt_world (fw_runtime (main_normal_request p ops t f)))"
proof -
  let ?s = "u2_server (fw_uart2 f)" and ?w = "rt_world (fw_runtime f)"
  have s: "server_ok ?s" "srv_machine ?s" using assms(1) by (simp_all add: firmware_ok_def uart2_ok_def)
  have "fault_off inv off (snd (snd (ModbusRtuServer_ProcessPending p ops t ?s ?w)))"
  proof (cases "\<not> srv_stop_latched ?s \<and> \<not> srv_response_pending ?s \<and> srv_request_count ?s \<noteq> 0")
    case True
    then show ?thesis using ProcessPending_answers [OF s(1), of p ops t ?w] s(2) fo_reply [OF assms(2)] by auto
  next
    case False
    then show ?thesis using ProcessPending_refuses [OF s(1), of p ops t ?w] assms(2) by auto
  qed
  then show ?thesis
    using assms(2)
    by (auto simp: main_normal_request_def ModbusUart2_ProcessOneNormalRequest_def Let_def case_prod_beta
        on_runtime_def server_ok_queries [OF s(1)])
qed

lemma fo_main_call:
  assumes "g \<in> set (main_calls p ops hal t0 t1)" "firmware_ok inv off p f"
    "fault_off inv off (rt_world (fw_runtime f))"
  shows "fault_off inv off (rt_world (fw_runtime (g f)))"
proof -
  let ?t = "if AUTO_TARGET_ENABLED p then t1 else t0"
  note step = fo_rt_step [OF _ assms(3)]
  have reqs: "fault_off inv off (rt_world (fw_runtime (main_requests p ops t f)))" for t
    using fo_pending_stop [OF assms(2,3)] fo_normal_request [OF pending_stop_ok [OF assms(2)] fo_pending_stop [OF assms(2,3)]]
    by (simp add: main_requests_def Let_def case_prod_beta)
  have "fault_off inv off (rt_world (fw_runtime (main_pressure p ops ?t f)))"
    unfolding main_pressure_def firmware_simps by (rule step) (rule rt_step.pressure)
  moreover have "fault_off inv off (rt_world (ApplicationRuntime_ServiceSafety p ops ?t (fw_runtime f)))"
    by (rule step) (rule rt_step.safety)
  moreover have "fault_off inv off (rt_world (main_guard_output p ops ?t (fw_runtime f)))"
    by (rule step) (rule rt_step.guard)
  moreover have "fault_off inv off (rt_world (ApplicationRuntime_Tick p ops ?t (fw_runtime f)))"
    by (rule step) (rule rt_step.tick)
  ultimately show ?thesis using assms(1,3) reqs by (auto simp: main_calls_def Let_def)
qed

lemma fo_isr:
  assumes "isr hal motor_irq f f'" "fault_off inv off (rt_world (fw_runtime f))"
  shows "fault_off inv off (rt_world (fw_runtime f'))"
  using assms irq_inv irq_off
  by (cases rule: isr.cases)
    (auto simp: HAL_UART_RxCpltCallback_def HAL_UART_TxCpltCallback_def HAL_UART_ErrorCallback_def
      Let_def case_prod_beta fault_off_def)

lemma fo_loop:
  "loop_reach p ops hal motor_irq f f' \<Longrightarrow> firmware_ok inv off p f \<Longrightarrow>
    fault_off inv off (rt_world (fw_runtime f)) \<Longrightarrow> fault_off inv off (rt_world (fw_runtime f'))"
proof (induction rule: loop_reach.induct)
  case (interrupt f f' f'')
  then show ?case using fo_isr by blast
next
  case (call f f' g t0 t1)
  then show ?case using fo_main_call loop_reach_ok [OF call.hyps(1)] by blast
qed

lemma fo_booted:
  assumes "main_boot p ops init hal clock_ok t0 t1 f = Running f'"
    "\<And>e. fst (init e) = MOTOR_RESULT_OK \<Longrightarrow> inv (snd (init e))"
  shows "fault_off inv off (rt_world (fw_runtime f'))"
proof -
  have "firmware_ok inv off p f'" "mc_state (w_ctx (rt_world (fw_runtime f'))) = IDLE"
    using boot_ok [OF assms(2,1)] by simp_all
  then show ?thesis by (simp add: fault_off_def firmware_ok_def rt_ok_def machine_ok_def machine_core_def)
qed

lemma pass_reach:
  assumes "pass hal motor_irq gs f f'" "set gs \<subseteq> set (main_calls p ops hal t0 t1)"
    "loop_reach p ops hal motor_irq f0 f"
  shows "loop_reach p ops hal motor_irq f0 f'"
proof -
  have isrs: "loop_reach p ops hal motor_irq f0 h'"
    if "(isr hal motor_irq)\<^sup>*\<^sup>* h h'" "loop_reach p ops hal motor_irq f0 h" for h h'
    using that by (induction rule: rtranclp_induct) (auto intro: loop_reach.interrupt)
  show ?thesis
    using assms
  proof (induction gs f f' rule: pass.induct)
    case (call f f' gs g f'')
    then show ?case using isrs loop_reach.call [of p ops hal motor_irq f0 f' g t0 t1] by auto
  qed (auto intro: isrs)
qed

end

section \<open>The real backend\<close>

lemma real_ok_future: "real_ok b (e\<lparr>tm_schedule := future\<rparr>) = real_ok b e"
  by (simp add: real_defs pins_ok_def MotorHwReal_IsDisabled_def Let_def MotorHwReal_ActiveCompareIsValid_def)

interpretation real_fw: reliable_firmware "real_ops b" "real_ok b" real_off real_irq
  for b :: "'h real_board"
proof
  fix e e' :: "'h real_motor" and t
  assume ok: "real_ok b e"
  note w = real_ok_wired [OF ok] and off = real_off_iff [OF ok]
  have idle: "real_off e'" if "idle e'" for e' :: "'h real_motor" using quiet_off [of e'] that by simp
  show inv: "real_ok b e'" if "real_irq e e'"
    using that ok by (auto simp: real_irq_def real_ok_future intro!: real_ok_poll)
  show "real_off e'" if o: "real_off e" and i: "real_irq e e'"
  proof -
    obtain future where e': "e' = rx_poll (e\<lparr>tm_schedule := future\<rparr>)" using i by (auto simp: real_irq_def)
    have "idle e" using o off by simp
    then have "idle (e\<lparr>tm_schedule := future\<rparr>)" by (auto simp: quiet_def low_def pins_ok_def MotorHwReal_IsDisabled_def)
    then have "idle e'" unfolding e' by simp
    then show ?thesis by (rule idle)
  qed
  show "fst (ex_Disable (real_ops b) e) = MOTOR_RESULT_OK"
    using Disable_spec [OF w, of b] by (simp add: real_ops_def)
  show "fst (ex_OutputIsDisabled (real_ops b) e)" if "real_off e"
  proof -
    have "quiet (rx_poll e)" using that off by simp
    then show ?thesis
      by (simp add: real_ops_def Real_OutputIsDisabled_def output_is_disabled_def Let_def MotorExecutor_SetPhysicalStatus_def
          quiet_def low_def)
  qed
  show "real_off (snd (ex_Service (real_ops b) t e))" "real_off (snd (ex_GuardOutput (real_ops b) e))"
    if "real_off e"
    using that off Real_Service_idle [of e b t] Real_Guard_idle [of e b] by (simp_all add: real_ops_def idle)
qed

section \<open>Properties\<close>

text \<open>C2: On the real backend a fault turns the motor off: in the running firmware, after any
  calls and any interrupts of the ports and of the stop timer, also inside the calls, the
  driver is shut down with no request active whenever the machine is idle, settling,
  holding or in \<open>FAULT\<close>; and while the output is on, a request is active in a build
  that allows armed output, with the stop timer running and its interrupt enabled.\<close>

theorem real_output_off_in_fault:
  assumes "main_boot (rb_policy b) (real_ops b) (Real_Initialize b) hal clock_ok t0 t1 r = Running f0"
    and "loop_reach (rb_policy b) (real_ops b) hal real_irq f0 f"
  shows "(let c = w_ctx (rt_world (fw_runtime f)); e = w_exec (rt_world (fw_runtime f)) in
    (mc_state c \<in> {IDLE, AUTO_SETTLE, AUTO_HOLD, FAULT} \<longrightarrow>
      hw_disabled e \<and> \<not> mx_logical_active (rx_motor e))
    \<and> (\<not> hw_disabled e \<longrightarrow> mx_logical_active (rx_motor e) \<and> MotorHwReal_OutputArmingAllowed b
        \<and> tim5_cr1 e AND 1 \<noteq> 0 \<and> tim5_irq_enabled e))"
proof -
  let ?e = "w_exec (rt_world (fw_runtime f))"
  have boots: "real_ok b (snd (Real_Initialize b e))" if "fst (Real_Initialize b e) = MOTOR_RESULT_OK" for e
    using Initialize_quiet [OF that] by (simp add: quiet_ok)
  have f0: "firmware_ok (real_ok b) real_off (rb_policy b) f0"
    using real_fw.boot_ok [OF boots assms(1)] by simp
  have "fault_off (real_ok b) real_off (rt_world (fw_runtime f))"
    by (rule real_fw.fo_loop [OF assms(2) f0 real_fw.fo_booted [OF assms(1) boots]])
  moreover have m: "machine_ok (real_ok b) real_off (rb_policy b) (rt_world (fw_runtime f))"
    using real_fw.loop_reach_ok [OF assms(2) f0] by (simp add: firmware_ok_def rt_ok_def)
  moreover have "mx_logical_active (rx_motor ?e) \<and> MotorHwReal_OutputArmingAllowed b
      \<and> tim5_cr1 ?e AND 1 \<noteq> 0 \<and> tim5_irq_enabled ?e" if "\<not> hw_disabled ?e"
  proof -
    have "driving b ?e"
      using m that by (auto simp: machine_ok_def machine_core_def real_ok_def quiet_def low_def disabled_shut_down)
    then show ?thesis
      by (simp add: driving_def output_matches_def request_timed_def armed_for_def Let_def)
  qed
  ultimately show ?thesis
    by (auto simp: Let_def fault_off_def machine_ok_def output_off_state_def real_off_def)
qed

text \<open>C1: On the real backend a STOP always works within one pass: if a STOP request is among
  the bytes that have arrived, then after one pass of the main loop, whatever the
  interrupts and the motor's state, the driver is shut down, no request is active and
  the machine is idle or in \<open>FAULT\<close> - the backend cannot refuse.\<close>

theorem real_stop_within_one_pass:
  assumes "main_boot (rb_policy b) (real_ops b) (Real_Initialize b) hal clock_ok t0 t1 r = Running f0"
    and "loop_reach (rb_policy b) (real_ops b) hal real_irq f0 f" "stop_arrived f"
    and "pass hal real_irq (main_calls (rb_policy b) (real_ops b) hal t t') f f'"
  shows "mc_state (w_ctx (rt_world (fw_runtime f'))) \<in> {IDLE, BOOT_SAFE, FAULT}
    \<and> mc_motor_request_sequence (w_ctx (rt_world (fw_runtime f'))) = 0
    \<and> hw_disabled (w_exec (rt_world (fw_runtime f')))
    \<and> \<not> mx_logical_active (rx_motor (w_exec (rt_world (fw_runtime f'))))"
proof -
  have boots: "real_ok b (snd (Real_Initialize b e))" if "fst (Real_Initialize b e) = MOTOR_RESULT_OK" for e
    using Initialize_quiet [OF that] by (simp add: quiet_ok)
  have f0: "firmware_ok (real_ok b) real_off (rb_policy b) f0"
    using real_fw.boot_ok [OF boots assms(1)] by simp
  have "loop_reach (rb_policy b) (real_ops b) hal real_irq f0 f'"
    by (rule real_fw.pass_reach [OF assms(4) subset_refl assms(2)])
  then have "fault_off (real_ok b) real_off (rt_world (fw_runtime f'))"
    by (rule real_fw.fo_loop [OF _ f0 real_fw.fo_booted [OF assms(1) boots]])
  moreover have "stopped real_off (rt_world (fw_runtime f'))"
    using real_fw.pass_stops [OF assms(4) real_fw.loop_reach_ok [OF assms(2) f0] assms(3)] by simp
  ultimately show ?thesis by (auto simp: stopped_def fault_off_def real_off_def)
qed

section \<open>A boot of the bench board\<close>

lemma ready_idle: "ready e \<Longrightarrow> idle e" "ready e \<Longrightarrow> rx_poll e = e"
  by (auto simp: ready_def quiet_def low_def intro: poll_undisturbed)

lemma ready_Disable:
  assumes "ready e"
  shows "fst (Real_Disable b e) = MOTOR_RESULT_OK" "ready (snd (Real_Disable b e))"
proof -
  note d = Disable_spec [of e b]
  have w: "wired e" using ready_idle(1) [OF assms] quiet_wired by blast
  show "fst (Real_Disable b e) = MOTOR_RESULT_OK" using d w by simp
  have q: "rx_poll e = e" by (rule ready_idle(2) [OF assms])
  have q2: "rx_poll (MotorHwReal_DisableImmediate e) = MotorHwReal_DisableImmediate e"
    using assms by (intro poll_undisturbed) (auto simp: ready_def quiet_def low_def)
  have i: "idle (snd (Real_Disable b e))" using d w by simp
  show "ready (snd (Real_Disable b e))"
    unfolding ready_def using assms i q q2
    by (simp add: ready_def Real_Disable_def disable_finish_def Let_def MotorExecutor_ClearPendingCompletion_def
        MotorExecutor_ClearActivePlan_def MotorExecutor_SetPhysicalStatus_def
        MotorExecutor_LatchFailure_def MotorStopTimer_Cancel_def)
qed

lemma ready_queries:
  assumes "ready e"
  shows "fst (Real_IsHealthy b e)" "ready (snd (Real_IsHealthy b e))" "fst (Real_OutputIsDisabled b e)"
proof -
  have e: "idle e" "rx_initialized e" "st_initialized e" "st_healthy e" "tm_schedule e = []"
    "\<not> tim5_irq_enabled e" "MotorHwReal_IsDisabled e"
    using assms by (auto simp: ready_def quiet_def low_def)
  define e1 where "e1 = MotorExecutor_SetPhysicalStatus b e"
  have e1: "ready e1" "mx_physical_output_disabled (rx_motor e1)" "\<not> mx_logical_active (rx_motor e1)"
    using assms e by (simp_all add: e1_def ready_def) (simp_all add: MotorExecutor_SetPhysicalStatus_def)
  have "Real_IsHealthy b e = (True, e1)"
    using e1 e ready_idle(2) [OF e1(1)]
    by (simp add: Real_IsHealthy_def is_healthy_def ready_idle(2) [OF assms] Let_def flip: e1_def)
      (simp add: ready_def MotorStopTimer_IsHealthy_def MotorStopTimer_IsArmed_def quiet_def)
  then show "fst (Real_IsHealthy b e)" "ready (snd (Real_IsHealthy b e))" using e1(1) by simp_all
  show "fst (Real_OutputIsDisabled b e)"
    using e1(2) by (simp add: Real_OutputIsDisabled_def output_is_disabled_def ready_idle(2) [OF assms] Let_def flip: e1_def)
qed

definition reset_real_firmware :: "(unit real_motor, unit) firmware" where
  "reset_real_firmware = \<lparr>fw_runtime = \<lparr>rt_world = \<lparr>w_ctx = zero_context, w_exec = reset_motor,
     w_diag = zero_diagnostics\<rparr>, rt_delivered_pressure_sequence = 0\<rparr>,
     fw_uart2 = undefined, fw_uart6 = undefined\<rparr>"

lemma ready_boot_idle:
  assumes "ready (w_exec (rt_world r))" "\<not> AUTO_TARGET_ENABLED p"
  shows "mc_state (w_ctx (rt_world (ApplicationRuntime_CompleteBoot p (real_ops b) True t'
     (ApplicationRuntime_Initialize p (real_ops b) (Some g_sd700_bench_machine_config) t r)))) = IDLE"
proof -
  define e1 where "e1 = snd (Real_Disable b (w_exec (rt_world r)))"
  define e2 where "e2 = snd (Real_IsHealthy b e1)"
  define e3 where "e3 = snd (Real_Disable b e2)"
  have e1: "ready e1" unfolding e1_def by (rule ready_Disable(2) [OF assms(1)])
  have e2: "ready e2" "fst (Real_IsHealthy b e1)" unfolding e2_def using ready_queries [OF e1] by simp_all
  have e3: "ready e3" unfolding e3_def by (rule ready_Disable(2) [OF e2(1)])
  have valid: "Machine_ConfigIsValid p (Some g_sd700_bench_machine_config)"
    using assms(2) by (simp add: Machine_ConfigIsValid_def g_sd700_bench_machine_config_def INT32_MAX_def)
  show ?thesis
    using assms(2) e2(2) ready_Disable(1) [OF assms(1), of b] ready_Disable(1) [OF e2(1), of b]
      ready_queries(3) [OF e3, of b] valid
    by (simp add: ApplicationRuntime_CompleteBoot_def ApplicationRuntime_Initialize_def
        Machine_CompleteBoot_def Machine_Initialize_def Machine_DisableOrFault_def Let_def case_prod_beta
        real_ops_def flip: e1_def e2_def e3_def)
qed

lemma real_boots:
  "\<exists>f. main_boot (rb_policy bench_board) (real_ops bench_board) (Real_Initialize bench_board) ready_hal
      True 1 5 reset_real_firmware = Running f
    \<and> ingress_queue (u2_ingress (fw_uart2 f)) = [] \<and> u2_server (fw_uart2 f) = ModbusRtuServer_Initialize True
    \<and> ui_event_flags (u2_ingress (fw_uart2 f)) = 0"
proof -
  let ?r = "on_machine (\<lambda>w. w\<lparr>w_exec := snd (Real_Initialize bench_board (w_exec (rt_world
      (fw_runtime reset_real_firmware))))\<rparr>) (fw_runtime reset_real_firmware)"
  have s: "w_exec (rt_world (fw_runtime reset_real_firmware)) = reset_motor"
    by (simp add: reset_real_firmware_def)
  have m: "tm_schedule reset_motor = []" by (simp add: reset_motor_def)
  have auto: "\<not> AUTO_TARGET_ENABLED (rb_policy bench_board)"
    by (simp add: AUTO_TARGET_ENABLED_def bench_board_def)
  have "ready (w_exec (rt_world ?r))" using bench_initializes(2) [OF m, of "rb_policy bench_board"] by (simp add: s bench_same)
  note idle = ready_boot_idle [OF this auto, of bench_board 5 1]
  show ?thesis
    using idle
    by (simp add: main_boot_def Let_def case_prod_beta s bench_initializes(1) [OF m, of "rb_policy bench_board", unfolded bench_same] auto ready_hal_simps
        ingress_queue_initialize)
      (simp add: ModbusUartIngress_Initialize_def)
qed

lemma real_listens:
  assumes "length bs \<le> 63"
  shows "\<exists>f0 f. main_boot (rb_policy bench_board) (real_ops bench_board) (Real_Initialize bench_board) ready_hal
      True 1 5 reset_real_firmware = Running f0
    \<and> loop_reach (rb_policy bench_board) (real_ops bench_board) ready_hal real_irq f0 f \<and> listening bs f"
proof -
  obtain f0 where f0: "main_boot (rb_policy bench_board) (real_ops bench_board) (Real_Initialize bench_board)
      ready_hal True 1 5 reset_real_firmware = Running f0"
    "ingress_queue (u2_ingress (fw_uart2 f0)) = []" "u2_server (fw_uart2 f0) = ModbusRtuServer_Initialize True"
    "ui_event_flags (u2_ingress (fw_uart2 f0)) = 0"
    using real_boots by blast
  have ok: "firmware_ok (real_ok bench_board) real_off (rb_policy bench_board) f0"
    using real_fw.boot_ok [OF _ f0(1)] Initialize_quiet quiet_ok by blast
  have "\<not> srv_response_pending (u2_server (fw_uart2 f0))"
    using f0(3) by (simp add: ModbusRtuServer_Initialize_def)
  then have "listening [] f0"
    using f0 ok by (auto simp: listening_def firmware_ok_def uart2_ok_def)
  then show ?thesis
    using real_fw.receive_bytes [OF loop_reach.start ok, of "[]" bs] assms f0(1) by auto
qed

theorem real_output_off_in_fault_witness:
  "\<exists>f0. main_boot (rb_policy bench_board) (real_ops bench_board) (Real_Initialize bench_board) ready_hal
      True 1 5 reset_real_firmware = Running f0
    \<and> (mc_state (w_ctx (rt_world (fw_runtime f0))) = IDLE \<longrightarrow> hw_disabled (w_exec (rt_world (fw_runtime f0))))"
proof -
  obtain f0 where f0: "main_boot (rb_policy bench_board) (real_ops bench_board) (Real_Initialize bench_board)
      ready_hal True 1 5 reset_real_firmware = Running f0" using real_boots by blast
  then show ?thesis using real_output_off_in_fault [OF f0 loop_reach.start] by (auto simp: Let_def)
qed

theorem real_stop_within_one_pass_witness:
  "\<exists>f f'. stop_arrived f
    \<and> pass ready_hal real_irq (main_calls (rb_policy bench_board) (real_ops bench_board) ready_hal 7 7) f f'
    \<and> hw_disabled (w_exec (rt_world (fw_runtime f')))"
proof -
  have "length stop_frame \<le> 63" by (simp add: stop_frame_def)
  from real_listens [OF this] obtain f0 f where f:
    "main_boot (rb_policy bench_board) (real_ops bench_board) (Real_Initialize bench_board) ready_hal
      True 1 5 reset_real_firmware = Running f0"
    "loop_reach (rb_policy bench_board) (real_ops bench_board) ready_hal real_irq f0 f" "listening stop_frame f"
    by blast
  have arrived: "stop_arrived f" by (rule listening_stop [OF f(3)])
  obtain f' where p: "pass ready_hal real_irq
      (main_calls (rb_policy bench_board) (real_ops bench_board) ready_hal 7 7) f f'"
    using pass_exists by blast
  show ?thesis using real_stop_within_one_pass [OF f(1,2) arrived p] arrived p by blast
qed

end
