(* ===== verification/Binary32Ops.thy ===== *)
theory Binary32Ops
  imports Binary32
begin

text \<open>
  The further single-precision operations of the ForceServo code: quotients, square roots,
  \<open>fminf\<close> and \<open>fmaxf\<close>, \<open>floorf\<close>, \<open>truncf\<close>, the casts to integers, and the bit patterns that
  configurations travel and are compared in. A configuration is kept as bit patterns and read
  through \<open>f32_of_bits\<close>, so that the code's byte comparisons and digests see signed zeros.
\<close>

section \<open>Bit patterns\<close>

definition f32_of_bits :: "u32 \<Rightarrow> f32" where
  "f32_of_bits w =
    (let n = uint w; s = n div 2 ^ 31; e = n div 2 ^ 23 mod 256; m = n mod 2 ^ 23
     in if e = 255 then (if m \<noteq> 0 then F_NaN else if s = 0 then F_PInf else F_NInf)
        else
          (let a = (if e = 0 then of_int m * pow2 (- 149) else of_int (2 ^ 23 + m) * pow2 (e - 150))
           in Fin (if s = 0 then a else - a)))"

text \<open>The pattern of a value; a zero is positive, a NaN quiet.\<close>

definition f32_bits :: "f32 \<Rightarrow> u32" where
  "f32_bits x =
    (case x of
       F_NaN \<Rightarrow> 0x7FC00000
     | F_PInf \<Rightarrow> 0x7F800000
     | F_NInf \<Rightarrow> 0xFF800000
     | Fin q \<Rightarrow>
         (if q = 0 then 0
          else
            (let a = \<bar>q\<bar>; e = max (exponent a) (- 126); m = \<lfloor>a / pow2 (e - 23)\<rfloor>
             in of_int ((if q < 0 then 2 ^ 31 else 0)
                  + (if m < 2 ^ 23 then m else (e + 127) * 2 ^ 23 + (m - 2 ^ 23))))))"

text \<open>A constant of the source, and an array element read as a \<open>float\<close>.\<close>

abbreviation (input) lit :: "rat \<Rightarrow> u32" where
  "lit q \<equiv> f32_bits (rnd q)"

section \<open>Operations\<close>

text \<open>No divisor of the code is zero; the sign of a zero divisor is taken as positive.\<close>

fun f32_div :: "f32 \<Rightarrow> f32 \<Rightarrow> f32" where
  "f32_div (Fin a) (Fin b) = (if b = 0 then f32_inf_times a else rnd (a / b))"
| "f32_div F_NaN y = F_NaN"
| "f32_div x F_NaN = F_NaN"
| "f32_div (Fin a) y = Fin 0"
| "f32_div x (Fin b) = f32_inf_times (f32_sign x * (if b < 0 then - 1 else 1))"
| "f32_div x y = F_NaN"

definition f32_max :: "f32 \<Rightarrow> f32 \<Rightarrow> f32" where
  "f32_max x y = (if x = F_NaN then y else if y = F_NaN then x else if f32_lt x y then y else x)"

definition f32_min :: "f32 \<Rightarrow> f32 \<Rightarrow> f32" where
  "f32_min x y = (if x = F_NaN then y else if y = F_NaN then x else if f32_lt y x then y else x)"

definition f32_floor :: "f32 \<Rightarrow> f32" where
  "f32_floor x = (case x of Fin q \<Rightarrow> Fin (of_int \<lfloor>q\<rfloor>) | _ \<Rightarrow> x)"

definition rat_trunc :: "rat \<Rightarrow> int" where
  "rat_trunc q = (if 0 \<le> q then \<lfloor>q\<rfloor> else \<lceil>q\<rceil>)"

definition f32_trunc :: "f32 \<Rightarrow> f32" where
  "f32_trunc x = (case x of Fin q \<Rightarrow> Fin (of_int (rat_trunc q)) | _ \<Rightarrow> x)"

function isqrt :: "nat \<Rightarrow> nat" where
  "isqrt n = (if n = 0 then 0
              else (let r = 2 * isqrt (n div 4) in if (r + 1) * (r + 1) \<le> n then r + 1 else r))"
  by pat_completeness auto
termination by (relation "measure id") auto

declare isqrt.simps [simp del]

text \<open>The root in units \<open>u\<close> of its last place lies between \<open>m\<close> and \<open>m + 1\<close>.\<close>

definition sqrt_magnitude :: "rat \<Rightarrow> rat" where
  "sqrt_magnitude q =
    (let u = pow2 (exponent q div 2 - 23);
         v = q / (u * u);
         m = int (isqrt (nat \<lfloor>v\<rfloor>));
         h = of_int m + 1 / 2;
         r = (if v < h * h then m else if h * h < v then m + 1 else if even m then m else m + 1)
     in of_int r * u)"

definition f32_sqrt :: "f32 \<Rightarrow> f32" where
  "f32_sqrt x =
    (case x of
       Fin q \<Rightarrow> (if q < 0 then F_NaN else if q = 0 then Fin 0 else Fin (sqrt_magnitude q))
     | F_PInf \<Rightarrow> F_PInf
     | _ \<Rightarrow> F_NaN)"

text \<open>
  Casts truncate. Out of range they are undefined in C; the target's instruction saturates
  and gives 0 for a NaN, which is the meaning here.
\<close>

definition saturate :: "int \<Rightarrow> int \<Rightarrow> f32 \<Rightarrow> int" where
  "saturate lo hi x =
    (case x of F_NaN \<Rightarrow> 0 | F_PInf \<Rightarrow> hi | F_NInf \<Rightarrow> lo | Fin q \<Rightarrow> max lo (min hi (rat_trunc q)))"

definition f32_to_i32 :: "f32 \<Rightarrow> int" where
  "f32_to_i32 x = saturate (- (2 ^ 31)) (2 ^ 31 - 1) x"

definition f32_cast_u32 :: "f32 \<Rightarrow> u32" where
  "f32_cast_u32 x = of_int (saturate 0 (2 ^ 32 - 1) x)"

definition f32_cast_u16 :: "f32 \<Rightarrow> u16" where
  "f32_cast_u16 x = of_int (saturate 0 (2 ^ 32 - 1) x)"

section \<open>Facts\<close>

lemma isqrt_bounds: "isqrt n * isqrt n \<le> n \<and> n < (isqrt n + 1) * (isqrt n + 1)"
proof (induction n rule: isqrt.induct)
  case (1 n)
  show ?case
  proof (cases "n = 0")
    case True
    then show ?thesis by (simp add: isqrt.simps)
  next
    case False
    define r where "r = isqrt (n div 4)"
    have ih: "r * r \<le> n div 4" "n div 4 < (r + 1) * (r + 1)"
      using 1 [OF False] by (simp_all add: r_def)
    have lo: "(2 * r) * (2 * r) \<le> n" using ih(1) by linarith
    have "n < 4 * ((r + 1) * (r + 1))" using ih(2) by linarith
    then have hi: "n < (2 * r + 2) * (2 * r + 2)" by (simp add: algebra_simps)
    have "isqrt n = (if (2 * r + 1) * (2 * r + 1) \<le> n then 2 * r + 1 else 2 * r)"
      using False by (subst isqrt.simps) (simp add: r_def Let_def)
    with lo hi show ?thesis by (auto simp: algebra_simps)
  qed
qed

text \<open>Comparison with values that are not finite.\<close>

lemma f32_lt_simps [simp]:
  "\<not> f32_lt F_NaN y" "\<not> f32_lt x F_NaN" "f32_lt F_NInf y \<longleftrightarrow> y \<noteq> F_NaN \<and> y \<noteq> F_NInf"
  "f32_lt x F_PInf \<longleftrightarrow> x \<noteq> F_NaN \<and> x \<noteq> F_PInf" "\<not> f32_lt F_PInf y" "\<not> f32_lt x F_NInf"
  by (cases x; cases y; simp)+

lemma f32_le_simps [simp]:
  "\<not> f32_le F_NaN y" "\<not> f32_le x F_NaN" "f32_le F_NInf y \<longleftrightarrow> y \<noteq> F_NaN"
  "f32_le x F_PInf \<longleftrightarrow> x \<noteq> F_NaN" "f32_le F_PInf y \<longleftrightarrow> y = F_PInf" "f32_le x F_NInf \<longleftrightarrow> x = F_NInf"
  by (auto simp: f32_le_def f32_eq_def)

lemma f32_le_trans: "f32_le x y \<Longrightarrow> f32_le y z \<Longrightarrow> f32_le x z"
  by (cases x; cases y; cases z) auto

lemma f32_le_refl: "x \<noteq> F_NaN \<Longrightarrow> f32_le x x"
  by (cases x) auto

lemma f32_not_lt: "x \<noteq> F_NaN \<Longrightarrow> y \<noteq> F_NaN \<Longrightarrow> \<not> f32_lt x y \<longleftrightarrow> f32_le y x"
  by (cases x; cases y) auto

lemma f32_min_le:
  "y \<noteq> F_NaN \<Longrightarrow> f32_le (f32_min x y) y" "x \<noteq> F_NaN \<Longrightarrow> f32_le (f32_min x y) x"
  by (cases x; cases y; auto simp: f32_min_def)+

lemma f32_max_ge:
  "y \<noteq> F_NaN \<Longrightarrow> f32_le y (f32_max x y)" "x \<noteq> F_NaN \<Longrightarrow> f32_le x (f32_max x y)"
  by (cases x; cases y; auto simp: f32_max_def)+

lemma f32_min_glb: "f32_le z x \<Longrightarrow> f32_le z y \<Longrightarrow> f32_le z (f32_min x y)"
  by (auto simp: f32_min_def)

lemma f32_max_lub: "f32_le x z \<Longrightarrow> f32_le y z \<Longrightarrow> f32_le (f32_max x y) z"
  by (auto simp: f32_max_def)

text \<open>Rounding keeps signs.\<close>

lemma rnd_nonneg: "0 \<le> q \<Longrightarrow> f32_le (Fin 0) (rnd q)"
proof -
  have "0 \<le> round_half_even x" if "0 \<le> x" for x
    using that by (auto simp: round_half_even_def Let_def)
  then have "0 \<le> round_magnitude \<bar>q\<bar>"
    by (simp add: round_magnitude_def zero_le_mult_iff less_imp_le)
  then show "0 \<le> q \<Longrightarrow> f32_le (Fin 0) (rnd q)"
    by (auto simp: rnd_def Let_def)
qed

lemma rnd_neg: "rnd (- q) = f32_neg (rnd q)"
  by (simp add: rnd_def Let_def)

lemma rnd_nonpos: "q \<le> 0 \<Longrightarrow> f32_le (rnd q) (Fin 0)"
  using rnd_nonneg [of "- q"] by (cases "rnd q") (simp_all add: rnd_neg)

lemma rnd_not_NaN [simp]: "rnd q \<noteq> F_NaN"
  by (simp add: rnd_def Let_def)

lemma f32_add_nonneg:
  "f32_le (Fin 0) x \<Longrightarrow> f32_le (Fin 0) y \<Longrightarrow> f32_le (Fin 0) (f32_add x y)"
  by (cases x; cases y) (simp_all add: rnd_nonneg)

lemma f32_mul_nonneg:
  "f32_le (Fin 0) x \<Longrightarrow> f32_le (Fin 0) y \<Longrightarrow> f32_isfinite x \<Longrightarrow> f32_isfinite y
    \<Longrightarrow> f32_le (Fin 0) (f32_mul x y)"
  by (cases x; cases y) (simp_all add: rnd_nonneg f32_isfinite_def)

section \<open>Values and their bit patterns\<close>

lemma exponent_unique:
  assumes "pow2 e \<le> a" "a < pow2 (e + 1)"
  shows "exponent a = e"
proof -
  have "0 < a" using assms(1) pow2_pos [of e] by linarith
  note b = exponent_bounds [OF this]
  have "\<not> exponent a + 1 \<le> e" using pow2_mono [of "exponent a + 1" e] b assms(1) by linarith
  moreover have "\<not> e + 1 \<le> exponent a" using pow2_mono [of "e + 1" "exponent a"] b assms(2) by linarith
  ultimately show ?thesis by simp
qed

lemma pow2_add: "pow2 (e + f) = pow2 e * pow2 f"
proof (induction f rule: int_induct [where k = 0])
  case base
  then show ?case by (simp add: pow2_def)
next
  case (step1 i)
  then show ?case using pow2_add1 [of "e + i"] pow2_add1 [of i] by (simp add: add.assoc)
next
  case (step2 i)
  then show ?case using pow2_add1 [of "e + (i - 1)"] pow2_add1 [of "i - 1"] by simp
qed

lemma pow2_nat: "pow2 (int n) = 2 ^ n"
  by (simp add: pow2_def)

text \<open>The values with a bit pattern: integers of 24 bits, scaled.\<close>

definition representable :: "rat \<Rightarrow> bool" where
  "representable a \<longleftrightarrow> (\<exists>k e. a = of_int k * pow2 e \<and> \<bar>k\<bar> < 2 ^ 24 \<and> - 149 \<le> e \<and> e \<le> 104)"

lemma bits_magnitude:
  assumes "representable a" "0 < a"
  defines "e \<equiv> max (exponent a) (- 126)"
  obtains m where "a = of_int m * pow2 (e - 23)" "0 < m" "m < 2 ^ 24" "m < 2 ^ 23 \<Longrightarrow> e = - 126"
    "e \<le> 127"
proof -
  obtain k x where a: "a = of_int k * pow2 x" "\<bar>k\<bar> < 2 ^ 24" "- 149 \<le> x" "x \<le> 104"
    using assms(1) by (auto simp: representable_def)
  have k: "0 < k" using assms(2) a(1) pow2_pos [of x] by (auto simp: zero_less_mult_iff)
  note b = exponent_bounds [OF assms(2)]
  have "of_int k < (2 :: rat) ^ 24" using a(2) k by (metis abs_of_pos of_int_less_iff of_int_numeral of_int_power)
  then have "a < pow2 (x + 24)" by (simp add: a(1) pow2_add pow2_def [of 24] mult.commute)
  with b pow2_mono [of "x + 24" "exponent a"] have ex: "exponent a < x + 24" by linarith
  have le: "e - 23 \<le> x" using ex a(3) by (simp add: e_def)
  define m where "m = k * 2 ^ nat (x - (e - 23))"
  have am: "a = of_int m * pow2 (e - 23)"
    using le pow2_add [of "e - 23" "x - (e - 23)"] by (simp add: m_def a(1) pow2_def [of "x - (e - 23)"])
  have "pow2 (e + 1) = 2 ^ 24 * pow2 (e - 23)"
    using pow2_add [of "e - 23" 24] by (simp add: pow2_def [of 24] ac_simps)
  moreover have "a < pow2 (e + 1)" using b pow2_mono [of "exponent a + 1" "e + 1"] by (simp add: e_def)
  ultimately have "of_int m < (2 ^ 24 :: rat)" using am by simp
  then have m24: "m < 2 ^ 24" by (metis of_int_less_iff of_int_numeral of_int_power)
  have low: "e = - 126" if "m < 2 ^ 23"
  proof (rule ccontr)
    assume "e \<noteq> - 126"
    then have "pow2 e \<le> a" using b by (simp add: e_def split: if_splits)
    moreover have "pow2 e = 2 ^ 23 * pow2 (e - 23)"
      using pow2_add [of "e - 23" 23] by (simp add: pow2_def [of 23])
    ultimately have "(2 ^ 23 :: rat) \<le> of_int m" using am by simp
    then have "2 ^ 23 \<le> m" by (metis of_int_le_iff of_int_numeral of_int_power)
    with that show False by simp
  qed
  have "0 < m" "e \<le> 127" using k ex a(4) by (simp_all add: m_def e_def)
  with that [OF am _ m24 low] show thesis by blast
qed

lemma decode:
  assumes "0 \<le> m" "m < 2 ^ 24" "m < 2 ^ 23 \<Longrightarrow> e = - 126" "- 126 \<le> e" "e \<le> 127" "s = 0 \<or> s = 1"
  shows "f32_of_bits (of_int (s * 2 ^ 31 + (if m < 2 ^ 23 then m else (e + 127) * 2 ^ 23 + (m - 2 ^ 23))))
    = Fin ((if s = 0 then 1 else - 1) * (of_int m * pow2 (e - 23)))"
proof -
  define x where "x = (if m < 2 ^ 23 then 0 else e + 127)"
  define f where "f = (if m < 2 ^ 23 then m else m - 2 ^ 23)"
  have r: "0 \<le> f" "f < 8388608" "0 \<le> x" "x \<le> 254"
    using assms by (auto simp: f_def x_def)
  define n where "n = s * 2147483648 + (x * 8388608 + f)"
  have n: "0 \<le> n" "n < 4294967296" using r assms(6) by (auto simp: n_def)
  have "uint (of_int n :: u32) = n" using n by (simp add: uint_word_of_int_eq take_bit_int_eq_self)
  moreover have "n div 2147483648 = s" using r by (simp add: n_def)
  moreover have "n div 8388608 mod 256 = x" 
  proof -
    have "n div 8388608 = s * 256 + x" using r(1,2) by (simp add: n_def)
    then show ?thesis using r by simp
  qed
  moreover have "n mod 8388608 = f"
  proof -
    have "n = f + (s * 256 + x) * 8388608" by (simp add: n_def)
    then show ?thesis using r by (simp only: mod_mult_self1 mod_pos_pos_trivial)
  qed
  ultimately have "f32_of_bits (of_int n) = Fin ((if s = 0 then 1 else - 1) *
      (if x = 0 then of_int f * pow2 (- 149) else of_int (2 ^ 23 + f) * pow2 (x - 150)))"
    using r by (simp add: f32_of_bits_def Let_def)
  moreover have "(if x = 0 then of_int f * pow2 (- 149) else of_int (2 ^ 23 + f) * pow2 (x - 150))
      = of_int m * pow2 (e - 23)"
    using assms by (auto simp: x_def f_def)
  moreover have "n = s * 2 ^ 31 + (if m < 2 ^ 23 then m else (e + 127) * 2 ^ 23 + (m - 2 ^ 23))"
    by (simp add: n_def x_def f_def)
  ultimately show ?thesis by simp
qed

lemma f32_of_bits_bits:
  assumes "representable a"
  shows "f32_of_bits (f32_bits (Fin a)) = Fin a"
proof (cases "a = 0")
  case True
  then show ?thesis by (simp add: f32_bits_def f32_of_bits_def)
next
  case False
  define e where "e = max (exponent \<bar>a\<bar>) (- 126)"
  have "representable \<bar>a\<bar>"
  proof -
    obtain k x where a: "a = of_int k * pow2 x" "\<bar>k\<bar> < 2 ^ 24" "- 149 \<le> x" "x \<le> 104"
      using assms by (auto simp: representable_def)
    then have "\<bar>a\<bar> = of_int \<bar>k\<bar> * pow2 x" by (simp add: abs_mult abs_of_pos)
    with a show ?thesis unfolding representable_def by (metis abs_idempotent)
  qed
  from bits_magnitude [OF this] False obtain m where m: "\<bar>a\<bar> = of_int m * pow2 (e - 23)" "0 < m"
    "m < 2 ^ 24" "m < 2 ^ 23 \<Longrightarrow> e = - 126" "e \<le> 127" unfolding e_def by (metis zero_less_abs_iff)
  have e: "- 126 \<le> e" by (simp add: e_def)
  have fl: "\<lfloor>\<bar>a\<bar> / pow2 (e - 23)\<rfloor> = m"
    using pow2_pos [of "e - 23"] by (simp add: m(1) less_imp_neq [THEN not_sym])
  have "f32_bits (Fin a) = of_int ((if a < 0 then 1 else 0) * 2 ^ 31
      + (if m < 2 ^ 23 then m else (e + 127) * 2 ^ 23 + (m - 2 ^ 23)))"
    unfolding f32_bits_def f32.case Let_def e_def [symmetric] fl using False by simp
  also have "f32_of_bits \<dots> = Fin ((if a < 0 then - 1 else 1) * (of_int m * pow2 (e - 23)))"
    using decode [OF less_imp_le [OF m(2)] m(3,4) e m(5), of "if a < 0 then 1 else 0"]
    by (cases "a < 0") (simp_all del: of_int_add)
  also have "\<dots> = Fin a" unfolding m(1) [symmetric] by simp
  finally show ?thesis .
qed

lemma round_half_even_floor: "\<lfloor>x\<rfloor> \<le> round_half_even x \<and> round_half_even x \<le> \<lfloor>x\<rfloor> + 1"
  by (simp add: round_half_even_def Let_def)

lemma round_magnitude_representable:
  assumes "0 < a" "round_magnitude a < 2 ^ 128"
  shows "representable (round_magnitude a)"
proof -
  define e where "e = max (exponent a - 23) (- 149)"
  define n where "n = round_half_even (a / pow2 e)"
  have u: "round_magnitude a = of_int n * pow2 e" by (simp add: round_magnitude_def ulp_def e_def n_def)
  note b = exponent_bounds [OF assms(1)]
  have p: "0 < pow2 e" by simp
  have "exponent a + 1 \<le> e + 24" by (simp add: e_def)
  then have "a < pow2 (e + 24)" using b pow2_mono [of "exponent a + 1" "e + 24"] by linarith
  then have "a / pow2 e < 2 ^ 24" using p by (simp add: pow2_add pow2_def [of 24] pos_divide_less_eq mult.commute)
  then have "\<lfloor>a / pow2 e\<rfloor> < 2 ^ 24" by (simp add: floor_less_iff)
  moreover have "0 \<le> \<lfloor>a / pow2 e\<rfloor>" using assms(1) p by (simp add: zero_le_divide_iff less_imp_le)
  ultimately have n: "0 \<le> n" "n \<le> 2 ^ 24"
    using round_half_even_floor [of "a / pow2 e"] unfolding n_def by linarith+
  have big: "e < 104 \<or> e = 104 \<and> n < 2 ^ 24"
  proof (rule ccontr)
    assume no: "\<not> (e < 104 \<or> e = 104 \<and> n < 2 ^ 24)"
    have "2 ^ 128 \<le> of_int n * pow2 e"
    proof (cases "e = 104")
      case True
      with no n have "n = 2 ^ 24" by simp
      then show ?thesis by (simp add: True pow2_def)
    next
      case False
      with no have e: "105 \<le> e" "exponent a = e + 23" by (simp_all add: e_def)
      have "2 ^ 23 * pow2 e \<le> a" using b e(2) pow2_add [of e 23] by (simp add: pow2_def [of 23] mult.commute)
      then have "2 ^ 23 \<le> a / pow2 e" using p by (simp add: pos_le_divide_eq)
      then have "2 ^ 23 \<le> \<lfloor>a / pow2 e\<rfloor>" by (simp add: le_floor_iff)
      then have "2 ^ 23 \<le> n" using round_half_even_floor [of "a / pow2 e"] unfolding n_def by linarith
      then have "(2 ^ 23 :: rat) \<le> of_int n" by (metis of_int_le_iff of_int_numeral of_int_power)
      moreover have "2 ^ 105 \<le> pow2 e" using pow2_mono [OF e(1)] by (simp add: pow2_def [of 105])
      ultimately have "2 ^ 23 * 2 ^ 105 \<le> of_int n * pow2 e" by (intro mult_mono) simp_all
      then show ?thesis by simp
    qed
    with assms(2) u show False by simp
  qed
  show ?thesis
  proof (cases "n = 2 ^ 24")
    case True
    then have "round_magnitude a = of_int (2 ^ 23) * pow2 (e + 1)" using pow2_add1 [of e] by (simp add: u)
    with True big show ?thesis unfolding representable_def
      by (intro exI [of _ "2 ^ 23"] exI [of _ "e + 1"]) (simp add: e_def)
  next
    case False
    with n big show ?thesis unfolding representable_def
      by (intro exI [of _ n] exI [of _ e]) (auto simp: e_def u)
  qed
qed

lemma representable_minusI: "representable a \<Longrightarrow> representable (- a)"
proof -
  assume "representable a"
  then obtain k x where a: "a = of_int k * pow2 x" "\<bar>k\<bar> < 2 ^ 24" "- 149 \<le> x" "x \<le> 104"
    by (auto simp: representable_def)
  then show ?thesis unfolding representable_def by (intro exI [of _ "- k"] exI [of _ x]) simp
qed

lemma rnd_representable:
  assumes "rnd q = Fin r"
  shows "representable r"
proof (cases "q = 0")
  case True
  with assms have "r = of_int 0 * pow2 0" by (simp add: rnd_def)
  then show ?thesis unfolding representable_def by (metis abs_zero zero_less_numeral zero_less_power
        neg_le_0_iff_le zero_le_numeral)
next
  case False
  then have "0 < \<bar>q\<bar>" by simp
  moreover have "round_magnitude \<bar>q\<bar> < 2 ^ 128" "r = round_magnitude \<bar>q\<bar> \<or> r = - round_magnitude \<bar>q\<bar>"
    using assms False by (auto simp: rnd_def Let_def not_le split: if_splits)
  ultimately show ?thesis using round_magnitude_representable representable_minusI by metis
qed

text \<open>A constant of the source is its own bit pattern.\<close>

lemma fl_lit: "rnd q = Fin r \<Longrightarrow> f32_of_bits (lit q) = Fin r"
  by (simp add: f32_of_bits_bits rnd_representable)

lemma rnd_numeral [simp]:
  "numeral k < (2 :: int) ^ 24 \<Longrightarrow> rnd (numeral k) = Fin (numeral k)"
  "numeral k < (2 :: int) ^ 24 \<Longrightarrow> rnd (- numeral k) = Fin (- numeral k)"
  "rnd 0 = Fin 0" "rnd 1 = Fin 1"
  using rnd_of_int [of "numeral k"] rnd_of_int [of "- numeral k"] rnd_of_int [of 0] rnd_of_int [of 1]
  by simp_all

lemma fl_lit_numeral [simp]:
  "numeral k < (2 :: int) ^ 24 \<Longrightarrow> f32_of_bits (f32_bits (Fin (numeral k))) = Fin (numeral k)"
  "numeral k < (2 :: int) ^ 24 \<Longrightarrow> f32_of_bits (f32_bits (Fin (- numeral k))) = Fin (- numeral k)"
  "f32_of_bits (f32_bits (Fin 0)) = Fin 0" "f32_of_bits (f32_bits (Fin 1)) = Fin 1"
proof -
  have r: "f32_of_bits (f32_bits (Fin a)) = Fin a" if "rnd a = Fin a" for a
    by (rule f32_of_bits_bits [OF rnd_representable [OF that]])
  show "numeral k < (2 :: int) ^ 24 \<Longrightarrow> f32_of_bits (f32_bits (Fin (numeral k))) = Fin (numeral k)"
    "numeral k < (2 :: int) ^ 24 \<Longrightarrow> f32_of_bits (f32_bits (Fin (- numeral k))) = Fin (- numeral k)"
    "f32_of_bits (f32_bits (Fin 0)) = Fin 0" "f32_of_bits (f32_bits (Fin 1)) = Fin 1"
    by (rule r; simp)+
qed

text \<open>Rounding moves a value below \<open>2 ^ 15\<close> by at most half a unit of its last place.\<close>

lemma rnd_near:
  assumes "0 < q" "q < 2 ^ 15"
  obtains r where "rnd q = Fin r" "q - 1 / 1024 \<le> r" "r \<le> q + 1 / 1024"
proof -
  obtain r where r: "rnd q = Fin r" "\<bar>r - q\<bar> \<le> 1 / 1024" using rnd_close [OF assms] by blast
  then have "- (1 / 1024) \<le> r - q" "r - q \<le> 1 / 1024" by (simp_all only: abs_le_iff) linarith+
  with that [OF r(1)] show thesis by simp
qed

end
