(* ===== verification/ForceServoProfile.thy ===== *)
theory ForceServoProfile
  imports Binary32Ops BuildPolicy
begin

text \<open>
  Configuration and profile of the ForceServo builds: \<^verbatim>\<open>Application/force_servo.h\<close>,
  \<^verbatim>\<open>force_servo_profile.h\<close>, \<^verbatim>\<open>force_servo_output_profile.h\<close> and the checks, digests and
  admissions of \<^verbatim>\<open>force_servo.c\<close>. The fields are the bit patterns of the code's floats (\<open>fl\<close>
  reads one), so that byte comparisons and digests are comparisons of patterns. The tables
  of the code's X-macros are lists. The overridable ceilings have their firmware values; the
  overrides of host test builds are left out.
\<close>

abbreviation fl :: "u32 \<Rightarrow> f32" where
  "fl \<equiv> f32_of_bits"

text \<open>An integer or fractional constant of the source in a comparison or product of floats.\<close>

abbreviation fk :: "rat \<Rightarrow> f32" where
  "fk q \<equiv> rnd q"

section \<open>Build constants\<close>

definition FS_PRESS_OPERATING_CAP :: "build_policy \<Rightarrow> 'a :: ring_1" where
  "FS_PRESS_OPERATING_CAP p = (if bp_characterization p then 0 else if bp_commissioning p then 720 else 100)"

definition FS_INITIAL_KP :: "build_policy \<Rightarrow> 'a :: ring_1" where
  "FS_INITIAL_KP p = (if bp_characterization p then 10 else if bp_commissioning p then 10 else 1)"

definition FS_LIVE_PROFILE_ID :: "build_policy \<Rightarrow> 'a :: ring_1" where
  "FS_LIVE_PROFILE_ID p = (if bp_characterization p then (if bp_build_to_target p then 7 else 5)
    else if bp_commissioning p then 4 else 1)"

definition FS_COMMAND_CEILING :: "build_policy \<Rightarrow> 'a :: ring_1" where
  "FS_COMMAND_CEILING p = (if bp_characterization p then (if bp_build_to_target p then 12000 else 9600)
    else if bp_commissioning p then 9600 else 100)"

definition FS_PRESS_PROFILE_CEILING :: "build_policy \<Rightarrow> 'a :: ring_1" where
  "FS_PRESS_PROFILE_CEILING p = (FS_COMMAND_CEILING p)"

definition FS_BOOST_MS :: "build_policy \<Rightarrow> 'a :: ring_1" where
  "FS_BOOST_MS p = (if bp_characterization p then 4 else 0)"

definition FS_BOOST_TOTAL_MS :: "build_policy \<Rightarrow> 'a :: ring_1" where
  "FS_BOOST_TOTAL_MS p = (if bp_characterization p then 4 else 0)"

definition FS_BOOST_TAPER_MARGIN :: "build_policy \<Rightarrow> 'a :: ring_1" where
  "FS_BOOST_TAPER_MARGIN p = (if bp_characterization p then 30 else 0)"

definition FS_CONTINUOUS_CEILING :: "build_policy \<Rightarrow> 'a :: ring_1" where
  "FS_CONTINUOUS_CEILING p = (if bp_characterization p then (if bp_build_to_target p then 0 else 2400)
    else FS_PRESS_OPERATING_CAP p)"

definition FS_EXECUTOR_PRESS_CEILING :: "build_policy \<Rightarrow> 'a :: ring_1" where
  "FS_EXECUTOR_PRESS_CEILING p = (if bp_characterization p then (if bp_build_to_target p then 12000 else 9600)
    else FS_PRESS_OPERATING_CAP p)"

definition FS_APPROVED_PEAK_MS :: "build_policy \<Rightarrow> 'a :: ring_1" where
  "FS_APPROVED_PEAK_MS p = (if bp_characterization p then 4 else 0)"

definition FS_CONFIG_PRESS_MIN :: "build_policy \<Rightarrow> 'a :: ring_1" where
  "FS_CONFIG_PRESS_MIN p = (if bp_characterization p then 0 else 1)"

definition FS_CONFIG_SESSION_MS :: "build_policy \<Rightarrow> 'a :: ring_1" where
  "FS_CONFIG_SESSION_MS p = (if bp_characterization p then 0 else 45000)"

definition FS_CONFIG_SESSION_MIN :: "build_policy \<Rightarrow> 'a :: ring_1" where
  "FS_CONFIG_SESSION_MIN p = (if bp_characterization p then 0 else 1000)"

definition FS_CONFIG_TRACKING_MS :: "build_policy \<Rightarrow> 'a :: ring_1" where
  "FS_CONFIG_TRACKING_MS p = (if bp_characterization p then 5000 else 10000)"

definition FS_REFERENCE_RATE :: "build_policy \<Rightarrow> 'a :: ring_1" where
  "FS_REFERENCE_RATE p = (if bp_commissioning p then 200 else 20)"

definition FS_REFERENCE_ACCEL :: "build_policy \<Rightarrow> 'a :: ring_1" where
  "FS_REFERENCE_ACCEL p = (if bp_commissioning p then 1000 else 40)"

definition FS_FEEDBACK_GAP :: "build_policy \<Rightarrow> 'a :: ring_1" where
  "FS_FEEDBACK_GAP p = (if bp_commissioning p then 125 else 40)"

definition FS_LEASE :: "build_policy \<Rightarrow> 'a :: ring_1" where
  "FS_LEASE p = (if bp_commissioning p then 130 else 50)"

definition FS_LEGACY_OPERATING_MAX :: "build_policy \<Rightarrow> 'a :: ring_1" where
  "FS_LEGACY_OPERATING_MAX p = (if bp_characterization p then 3000 else 275)"

definition FS_LEGACY_RAW_TRIP :: "build_policy \<Rightarrow> 'a :: ring_1" where
  "FS_LEGACY_RAW_TRIP p = (if bp_characterization p then 3000 else 325)"

definition FS_SENSOR_UNIT :: "build_policy \<Rightarrow> 'a :: ring_1" where
  "FS_SENSOR_UNIT p = (if bp_characterization p then 2 else 0)"

definition FS_CONTACT_UNITS :: "build_policy \<Rightarrow> 'a :: ring_1" where
  "FS_CONTACT_UNITS p = (if bp_characterization p then (if bp_build_to_target p then 10 else 20) else 20)"

definition FS_LIMITS_SOURCE :: "build_policy \<Rightarrow> 'a :: ring_1" where
  "FS_LIMITS_SOURCE p = (if bp_characterization p then 3 else 1)"

definition FS_ASSIST_RISE :: "build_policy \<Rightarrow> 'a :: ring_1" where
  "FS_ASSIST_RISE p = (if bp_characterization p then 1 else 0)"

definition FS_ASSIST_END :: "build_policy \<Rightarrow> 'a :: ring_1" where
  "FS_ASSIST_END p = (if bp_characterization p then 2 else 0)"

definition FS_OFF_MS :: "build_policy \<Rightarrow> 'a :: ring_1" where
  "FS_OFF_MS p = (if bp_characterization p then 5000 else 0)"

definition FS_EXPERIMENT_BUDGET_MS :: "build_policy \<Rightarrow> 'a :: ring_1" where
  "FS_EXPERIMENT_BUDGET_MS p = (if bp_characterization p then 0 else 5000)"

definition FS_RESPONSE_UNITS :: "build_policy \<Rightarrow> 'a :: ring_1" where
  "FS_RESPONSE_UNITS p = (if bp_characterization p then 2 else 0)"

definition FS_EXCESSIVE_RISE :: "build_policy \<Rightarrow> 'a :: ring_1" where
  "FS_EXCESSIVE_RISE p = (if bp_characterization p then 25 else 0)"

abbreviation (input) FS_PEAK_PRESS :: rat where "FS_PEAK_PRESS \<equiv> 0"
abbreviation (input) FS_RELEASE_OPERATING_CAP :: rat where "FS_RELEASE_OPERATING_CAP \<equiv> 100"
abbreviation (input) FS_RELEASE_PROFILE_CEILING :: rat where "FS_RELEASE_PROFILE_CEILING \<equiv> 100"
abbreviation (input) FORCE_SERVO_REPRESENTABLE :: f32 where "FORCE_SERVO_REPRESENTABLE \<equiv> Fin 100000"
abbreviation (input) FORCE_SERVO_DEFAULT_TARGET :: u32 where "FORCE_SERVO_DEFAULT_TARGET \<equiv> 250"
abbreviation (input) FORCE_SERVO_COMMISSIONING_LEASE_MS :: u32 where
  "FORCE_SERVO_COMMISSIONING_LEASE_MS \<equiv> 130"
abbreviation (input) FORCE_SERVO_COMMISSIONING_AGE_MS :: u32 where
  "FORCE_SERVO_COMMISSIONING_AGE_MS \<equiv> 20"
abbreviation (input) FORCE_SERVO_COMMISSIONING_DEADTIME_MS :: u32 where
  "FORCE_SERVO_COMMISSIONING_DEADTIME_MS \<equiv> 2"
abbreviation (input) FORCE_SERVO_START_WAIT_MS :: u32 where "FORCE_SERVO_START_WAIT_MS \<equiv> 250"

definition FORCE_SERVO_SCHEMA :: "build_policy \<Rightarrow> u32" where
  "FORCE_SERVO_SCHEMA p =
    (if bp_characterization p then (if bp_build_to_target p then 0xF10D else 0xF109) else 0xF107)"

definition FORCE_SERVO_BUILD_ID :: "build_policy \<Rightarrow> u32" where
  "FORCE_SERVO_BUILD_ID p =
    (if bp_characterization p then (if bp_build_to_target p then 0x46530113 else 0x4653010B)
     else 0x46530109)"

section \<open>Configuration\<close>

record ForceServoConfig =
  fc_kp :: u32
  fc_ki :: u32
  fc_kd :: u32
  fc_d_filter_s :: u32
  fc_reference_rate :: u32
  fc_reference_acceleration :: u32
  fc_output_rate :: u32
  fc_press_cap :: u32
  fc_release_cap :: u32
  fc_integral_min :: u32
  fc_integral_max :: u32
  fc_tracking_gain :: u32
  fc_measurement_filter_s :: u32
  fc_control_min_ms :: u32
  fc_feedback_gap_ms :: u32
  fc_sample_age_ms :: u32
  fc_lease_ms :: u32
  fc_hold_enter :: u32
  fc_hold_exit :: u32
  fc_session_ms :: u32
  fc_saturation_ms :: u32
  fc_tracking_error :: u32
  fc_tracking_ms :: u32
  fc_reverse_deadtime_ms :: u32
  fc_hold_dwell_ms :: u32

text \<open>\<open>FORCE_SERVO_PARAMETERS\<close>: field, default, lower and upper bound.\<close>

definition FORCE_SERVO_PARAMETERS ::
  "build_policy \<Rightarrow> ((ForceServoConfig \<Rightarrow> u32) \<times> rat \<times> rat \<times> rat) list" where
  "FORCE_SERVO_PARAMETERS p =
    [(fc_kp, FS_INITIAL_KP p, 0, 1000),
     (fc_ki, 0, 0, 1000),
     (fc_kd, 0, 0, 100),
     (fc_d_filter_s, 2 / 100, 1 / 1000, 1),
     (fc_reference_rate, FS_REFERENCE_RATE p, 1 / 10, 200),
     (fc_reference_acceleration, FS_REFERENCE_ACCEL p, 1 / 10, 1000),
     (fc_output_rate, 1000, 1, 100000),
     (fc_press_cap, FS_PRESS_OPERATING_CAP p, FS_CONFIG_PRESS_MIN p, FS_PRESS_PROFILE_CEILING p),
     (fc_release_cap, FS_RELEASE_OPERATING_CAP, 1, FS_RELEASE_PROFILE_CEILING),
     (fc_integral_min, - 1000, - 5000, 0),
     (fc_integral_max, 1000, 0, 5000),
     (fc_tracking_gain, 5, 1 / 100, 100),
     (fc_measurement_filter_s, 0, 0, 1),
     (fc_control_min_ms, 5, 1, 50),
     (fc_feedback_gap_ms, FS_FEEDBACK_GAP p, 2, FS_FEEDBACK_GAP p),
     (fc_sample_age_ms, 20, 1, 20),
     (fc_lease_ms, FS_LEASE p, 3, FS_LEASE p),
     (fc_hold_enter, 5, 1 / 10, 20),
     (fc_hold_exit, 10, 2 / 10, 40),
     (fc_session_ms, FS_CONFIG_SESSION_MS p, FS_CONFIG_SESSION_MIN p, 60000),
     (fc_saturation_ms, 5000, 100, 30000),
     (fc_tracking_error, 50, 1, 275),
     (fc_tracking_ms, FS_CONFIG_TRACKING_MS p, 100, 30000),
     (fc_reverse_deadtime_ms, 2, 2, 100),
     (fc_hold_dwell_ms, 500, 0, 30000)]"

definition g_force_servo_default_config :: "build_policy \<Rightarrow> ForceServoConfig" where
  "g_force_servo_default_config p =
    \<lparr>fc_kp = lit (FS_INITIAL_KP p),
     fc_ki = lit (0),
     fc_kd = lit (0),
     fc_d_filter_s = lit (2 / 100),
     fc_reference_rate = lit (FS_REFERENCE_RATE p),
     fc_reference_acceleration = lit (FS_REFERENCE_ACCEL p),
     fc_output_rate = lit (1000),
     fc_press_cap = lit (FS_PRESS_OPERATING_CAP p),
     fc_release_cap = lit (FS_RELEASE_OPERATING_CAP),
     fc_integral_min = lit (- 1000),
     fc_integral_max = lit (1000),
     fc_tracking_gain = lit (5),
     fc_measurement_filter_s = lit (0),
     fc_control_min_ms = lit (5),
     fc_feedback_gap_ms = lit (FS_FEEDBACK_GAP p),
     fc_sample_age_ms = lit (20),
     fc_lease_ms = lit (FS_LEASE p),
     fc_hold_enter = lit (5),
     fc_hold_exit = lit (10),
     fc_session_ms = lit (FS_CONFIG_SESSION_MS p),
     fc_saturation_ms = lit (5000),
     fc_tracking_error = lit (50),
     fc_tracking_ms = lit (FS_CONFIG_TRACKING_MS p),
     fc_reverse_deadtime_ms = lit (2),
     fc_hold_dwell_ms = lit (500)\<rparr>"

definition ForceServo_ConfigValid :: "build_policy \<Rightarrow> ForceServoConfig \<Rightarrow> bool" where
  "ForceServo_ConfigValid p c \<longleftrightarrow>
    list_all (\<lambda>(n, d, l, h).
        f32_isfinite (fl (n c)) \<and> \<not> f32_lt (fl (n c)) (fk l) \<and> \<not> f32_lt (fk h) (fl (n c)))
      (FORCE_SERVO_PARAMETERS p)
    \<and> f32_lt (fl (fc_integral_min c)) (fl (fc_integral_max c))
    \<and> f32_lt (fl (fc_hold_enter c)) (fl (fc_hold_exit c))
    \<and> f32_lt (fl (fc_control_min_ms c)) (fl (fc_feedback_gap_ms c))
    \<and> f32_lt (fl (fc_feedback_gap_ms c)) (fl (fc_lease_ms c))
    \<and> f32_lt (fl (fc_sample_age_ms c)) (fl (fc_lease_ms c))
    \<and> f32_le (f32_mul (f32_mul (fl (fc_tracking_gain c)) (fl (fc_feedback_gap_ms c))) (fk (1 / 1000))) (Fin 1)
    \<and> (bp_characterization p \<and> f32_eq (fl (fc_session_ms c)) (Fin 0)
       \<or> f32_le (fl (fc_saturation_ms c)) (fl (fc_session_ms c))
         \<and> f32_le (fl (fc_tracking_ms c)) (fl (fc_session_ms c)))
    \<and> list_all (\<lambda>n. f32_eq (f32_floor (fl (n c))) (fl (n c)))
        [fc_control_min_ms, fc_feedback_gap_ms, fc_sample_age_ms, fc_lease_ms, fc_session_ms,
         fc_saturation_ms, fc_hold_dwell_ms, fc_tracking_ms, fc_reverse_deadtime_ms]"

text \<open>FNV-1a over the bytes of a field, low byte first.\<close>

definition fnv_byte :: "u32 \<Rightarrow> u32 \<Rightarrow> u32" where
  "fnv_byte byte h = (h XOR (byte AND 255)) * 16777619"

definition fnv_word :: "u32 \<Rightarrow> u32 \<Rightarrow> u32" where
  "fnv_word u h = fold (\<lambda>j h. fnv_byte (drop_bit (j * 8) u) h) [0, 1, 2, 3] h"

definition fnv :: "u32 list \<Rightarrow> u32" where
  "fnv us = fold fnv_word us 2166136261"

definition ForceServo_ConfigDigest :: "build_policy \<Rightarrow> ForceServoConfig \<Rightarrow> u32" where
  "ForceServo_ConfigDigest p c = fnv (map (\<lambda>(n, _). n c) (FORCE_SERVO_PARAMETERS p))"

section \<open>Profile\<close>

record ForceServoProfile =
  fp_id :: u32
  fp_unit :: u32
  fp_qualifications :: u32
  fp_raw_min :: u32
  fp_raw_trip :: u32
  fp_scale :: u32
  fp_offset :: u32
  fp_calibration_min :: u32
  fp_calibration_max :: u32
  fp_operating_max :: u32
  fp_force_trip :: u32
  fp_hardware_boundary :: u32
  fp_contact :: u32
  fp_continuous_press :: u32
  fp_release :: u32
  fp_peak_press :: u32
  fp_boost_ms :: u32
  fp_boost_total_ms :: u32
  fp_taper_margin :: u32
  fp_energized_ms :: u32
  fp_session_ms :: u32
  fp_capture_ms :: u32
  fp_build_ms :: u32
  fp_progress_window_ms :: u32
  fp_progress_units :: u32
  fp_no_response_ms :: u32
  fp_experiment_enabled :: u32
  fp_limits_source :: u32
  fp_assist_rise_ms :: u32
  fp_assist_end_ms :: u32
  fp_off_ms :: u32
  fp_response_units :: u32
  fp_excessive_rise_units :: u32

text \<open>\<open>FORCE_SERVO_PROFILE_FIELDS\<close>: field and default.\<close>

definition FORCE_SERVO_PROFILE_FIELDS :: "build_policy \<Rightarrow> ((ForceServoProfile \<Rightarrow> u32) \<times> rat) list" where
  "FORCE_SERVO_PROFILE_FIELDS p =
    [(fp_id, FS_LIVE_PROFILE_ID p),
     (fp_unit, FS_SENSOR_UNIT p),
     (fp_qualifications, 0),
     (fp_raw_min, 0),
     (fp_raw_trip, FS_LEGACY_RAW_TRIP p),
     (fp_scale, 1),
     (fp_offset, 0),
     (fp_calibration_min, 0),
     (fp_calibration_max, 0),
     (fp_operating_max, FS_LEGACY_OPERATING_MAX p),
     (fp_force_trip, FS_LEGACY_RAW_TRIP p),
     (fp_hardware_boundary, 0),
     (fp_contact, FS_CONTACT_UNITS p),
     (fp_continuous_press, FS_PRESS_OPERATING_CAP p),
     (fp_release, FS_RELEASE_OPERATING_CAP),
     (fp_peak_press, FS_PEAK_PRESS),
     (fp_boost_ms, FS_BOOST_MS p),
     (fp_boost_total_ms, FS_BOOST_TOTAL_MS p),
     (fp_taper_margin, FS_BOOST_TAPER_MARGIN p),
     (fp_energized_ms, FS_EXPERIMENT_BUDGET_MS p),
     (fp_session_ms, FS_EXPERIMENT_BUDGET_MS p),
     (fp_capture_ms, FS_EXPERIMENT_BUDGET_MS p),
     (fp_build_ms, FS_EXPERIMENT_BUDGET_MS p),
     (fp_progress_window_ms, 500),
     (fp_progress_units, 2),
     (fp_no_response_ms, 5000),
     (fp_experiment_enabled, 1),
     (fp_limits_source, FS_LIMITS_SOURCE p),
     (fp_assist_rise_ms, FS_ASSIST_RISE p),
     (fp_assist_end_ms, FS_ASSIST_END p),
     (fp_off_ms, FS_OFF_MS p),
     (fp_response_units, FS_RESPONSE_UNITS p),
     (fp_excessive_rise_units, FS_EXCESSIVE_RISE p)]"

definition g_force_servo_profile :: "build_policy \<Rightarrow> ForceServoProfile" where
  "g_force_servo_profile p =
    \<lparr>fp_id = lit (FS_LIVE_PROFILE_ID p),
     fp_unit = lit (FS_SENSOR_UNIT p),
     fp_qualifications = lit (0),
     fp_raw_min = lit (0),
     fp_raw_trip = lit (FS_LEGACY_RAW_TRIP p),
     fp_scale = lit (1),
     fp_offset = lit (0),
     fp_calibration_min = lit (0),
     fp_calibration_max = lit (0),
     fp_operating_max = lit (FS_LEGACY_OPERATING_MAX p),
     fp_force_trip = lit (FS_LEGACY_RAW_TRIP p),
     fp_hardware_boundary = lit (0),
     fp_contact = lit (FS_CONTACT_UNITS p),
     fp_continuous_press = lit (FS_PRESS_OPERATING_CAP p),
     fp_release = lit (FS_RELEASE_OPERATING_CAP),
     fp_peak_press = lit (FS_PEAK_PRESS),
     fp_boost_ms = lit (FS_BOOST_MS p),
     fp_boost_total_ms = lit (FS_BOOST_TOTAL_MS p),
     fp_taper_margin = lit (FS_BOOST_TAPER_MARGIN p),
     fp_energized_ms = lit (FS_EXPERIMENT_BUDGET_MS p),
     fp_session_ms = lit (FS_EXPERIMENT_BUDGET_MS p),
     fp_capture_ms = lit (FS_EXPERIMENT_BUDGET_MS p),
     fp_build_ms = lit (FS_EXPERIMENT_BUDGET_MS p),
     fp_progress_window_ms = lit (500),
     fp_progress_units = lit (2),
     fp_no_response_ms = lit (5000),
     fp_experiment_enabled = lit (1),
     fp_limits_source = lit (FS_LIMITS_SOURCE p),
     fp_assist_rise_ms = lit (FS_ASSIST_RISE p),
     fp_assist_end_ms = lit (FS_ASSIST_END p),
     fp_off_ms = lit (FS_OFF_MS p),
     fp_response_units = lit (FS_RESPONSE_UNITS p),
     fp_excessive_rise_units = lit (FS_EXCESSIVE_RISE p)\<rparr>"

text \<open>The fields the initialiser does not name are zero.\<close>

definition zero_profile :: ForceServoProfile where
  "zero_profile =
    \<lparr>fp_id = 0, fp_unit = 0, fp_qualifications = 0, fp_raw_min = 0,
     fp_raw_trip = 0, fp_scale = 0, fp_offset = 0, fp_calibration_min = 0,
     fp_calibration_max = 0, fp_operating_max = 0, fp_force_trip = 0, fp_hardware_boundary = 0,
     fp_contact = 0, fp_continuous_press = 0, fp_release = 0, fp_peak_press = 0,
     fp_boost_ms = 0, fp_boost_total_ms = 0, fp_taper_margin = 0, fp_energized_ms = 0,
     fp_session_ms = 0, fp_capture_ms = 0, fp_build_ms = 0, fp_progress_window_ms = 0,
     fp_progress_units = 0, fp_no_response_ms = 0, fp_experiment_enabled = 0, fp_limits_source = 0,
     fp_assist_rise_ms = 0, fp_assist_end_ms = 0, fp_off_ms = 0, fp_response_units = 0,
     fp_excessive_rise_units = 0\<rparr>"

definition fs_candidate :: "rat \<Rightarrow> rat \<Rightarrow> ForceServoProfile" where
  "fs_candidate cid cmd = zero_profile
    \<lparr>fp_id := lit cid, fp_unit := lit 0, fp_raw_trip := lit 325, fp_scale := lit 1,
     fp_operating_max := lit 275, fp_force_trip := lit 325, fp_contact := lit 20,
     fp_continuous_press := lit 2400, fp_release := lit 100, fp_peak_press := lit cmd,
     fp_progress_window_ms := lit 500, fp_progress_units := lit 2, fp_no_response_ms := lit 5000\<rparr>"

definition g_force_servo_candidates :: "ForceServoProfile list" where
  "g_force_servo_candidates = [fs_candidate 20 4800, fs_candidate 30 7200, fs_candidate 40 9600]"

definition ForceServo_FindProfile :: "build_policy \<Rightarrow> u16 \<Rightarrow> ForceServoProfile option" where
  "ForceServo_FindProfile p profile_id =
    (if profile_id = f32_cast_u16 (fl (fp_id (g_force_servo_profile p))) then Some (g_force_servo_profile p)
     else find (\<lambda>c. profile_id = f32_cast_u16 (fl (fp_id c))) g_force_servo_candidates)"

definition ForceServo_ProfileDigest :: "build_policy \<Rightarrow> ForceServoProfile option \<Rightarrow> u32" where
  "ForceServo_ProfileDigest p profile =
    (case profile of
       None \<Rightarrow> 0
     | Some q \<Rightarrow> fnv (map (\<lambda>(n, _). n q) (FORCE_SERVO_PROFILE_FIELDS p)))"

text \<open>The part of \<open>ForceServo_ProfileValid\<close> for the installed sensor of the characterization build.\<close>

definition installed_profile_valid :: "build_policy \<Rightarrow> ForceServoProfile \<Rightarrow> bool" where
  "installed_profile_valid p q \<longleftrightarrow>
    (let g = g_force_servo_profile p;
         fixed = q\<lparr>fp_peak_press := fp_peak_press g, fp_continuous_press := fp_continuous_press g\<rparr>
     in (\<not> bp_build_to_target p
           \<or> f32_eq (fl (fp_peak_press q)) (Fin 0) \<and> f32_eq (fl (fp_continuous_press q)) (Fin 0))
      \<and> fixed = g
      \<and> f32_le (Fin 0) (fl (fp_continuous_press q)) \<and> f32_le (fl (fp_continuous_press q)) (Fin 2400)
      \<and> f32_eq (f32_floor (fl (fp_continuous_press q))) (fl (fp_continuous_press q))
      \<and> f32_le (Fin 0) (fl (fp_peak_press q)) \<and> f32_le (fl (fp_peak_press q)) (Fin 9600)
      \<and> f32_eq (f32_floor (fl (fp_peak_press q))) (fl (fp_peak_press q)))"

text \<open>The conditions of \<open>ForceServo_ProfileValid\<close> that lead to \<open>return false\<close>, in their order.\<close>

definition profile_range_bad :: "ForceServoProfile \<Rightarrow> bool" where
  "profile_range_bad q \<longleftrightarrow>
    f32_lt (fl (fp_id q)) (Fin 1) \<or> f32_lt (Fin 65535) (fl (fp_id q))
    \<or> \<not> f32_eq (f32_floor (fl (fp_id q))) (fl (fp_id q))
    \<or> (\<not> f32_eq (fl (fp_unit q)) (Fin 0) \<and> \<not> f32_eq (fl (fp_unit q)) (Fin 1))
    \<or> f32_lt (fl (fp_qualifications q)) (Fin 0) \<or> f32_lt (Fin 15) (fl (fp_qualifications q))
    \<or> \<not> f32_eq (f32_floor (fl (fp_qualifications q))) (fl (fp_qualifications q))
    \<or> f32_lt (fl (fp_raw_min q)) (Fin 0) \<or> f32_lt (Fin 65535) (fl (fp_raw_trip q))
    \<or> f32_le (fl (fp_raw_trip q)) (fl (fp_raw_min q))
    \<or> \<not> f32_eq (f32_floor (fl (fp_raw_min q))) (fl (fp_raw_min q))
    \<or> \<not> f32_eq (f32_floor (fl (fp_raw_trip q))) (fl (fp_raw_trip q))
    \<or> f32_le (fl (fp_scale q)) (Fin 0) \<or> f32_le (fl (fp_operating_max q)) (Fin 0)
    \<or> f32_le (fl (fp_force_trip q)) (fl (fp_operating_max q))
    \<or> f32_lt FORCE_SERVO_REPRESENTABLE (fl (fp_force_trip q))
    \<or> f32_lt (fl (fp_contact q)) (Fin 0) \<or> f32_le (fl (fp_operating_max q)) (fl (fp_contact q))
    \<or> f32_lt (fl (fp_continuous_press q)) (Fin 1) \<or> f32_lt (Fin 2400) (fl (fp_continuous_press q))
    \<or> f32_lt (fl (fp_release q)) (Fin 1) \<or> f32_lt (fk FS_RELEASE_PROFILE_CEILING) (fl (fp_release q))
    \<or> f32_lt (fl (fp_peak_press q)) (Fin 0) \<or> f32_lt (Fin 9600) (fl (fp_peak_press q))
    \<or> f32_lt (fl (fp_boost_ms q)) (Fin 0) \<or> f32_lt (fl (fp_boost_total_ms q)) (Fin 0)
    \<or> f32_lt (fl (fp_taper_margin q)) (Fin 0)"

definition profile_flags_bad :: "ForceServoProfile \<Rightarrow> bool" where
  "profile_flags_bad q \<longleftrightarrow>
    (\<not> f32_eq (fl (fp_experiment_enabled q)) (Fin 0) \<and> \<not> f32_eq (fl (fp_experiment_enabled q)) (Fin 1))
    \<or> f32_lt (fl (fp_limits_source q)) (Fin 0) \<or> f32_lt (Fin 2) (fl (fp_limits_source q))
    \<or> \<not> f32_eq (f32_floor (fl (fp_limits_source q))) (fl (fp_limits_source q))
    \<or> f32_lt (fl (fp_assist_rise_ms q)) (Fin 0) \<or> f32_lt (fl (fp_assist_end_ms q)) (Fin 0)
    \<or> f32_lt (fl (fp_off_ms q)) (Fin 0) \<or> f32_lt (Fin 60000) (fl (fp_off_ms q))
    \<or> f32_lt (fl (fp_response_units q)) (Fin 0) \<or> f32_lt (fl (fp_excessive_rise_units q)) (Fin 0)"

definition disabled_candidate :: "ForceServoProfile \<Rightarrow> bool" where
  "disabled_candidate q \<longleftrightarrow>
    f32_eq (fl (fp_limits_source q)) (Fin 0) \<and> f32_eq (fl (fp_unit q)) (Fin 0)
    \<and> f32_eq (fl (fp_scale q)) (Fin 1) \<and> f32_eq (fl (fp_offset q)) (Fin 0)
    \<and> f32_lt (fl (fp_continuous_press q)) (fl (fp_peak_press q))
    \<and> f32_eq (fl (fp_energized_ms q)) (Fin 0) \<and> f32_eq (fl (fp_session_ms q)) (Fin 0)
    \<and> f32_eq (fl (fp_capture_ms q)) (Fin 0) \<and> f32_eq (fl (fp_build_ms q)) (Fin 0)
    \<and> f32_eq (fl (fp_boost_ms q)) (Fin 0) \<and> f32_eq (fl (fp_boost_total_ms q)) (Fin 0)
    \<and> f32_eq (fl (fp_assist_rise_ms q)) (Fin 0) \<and> f32_eq (fl (fp_assist_end_ms q)) (Fin 0)
    \<and> f32_eq (fl (fp_off_ms q)) (Fin 0)"

definition profile_boost_bad :: "ForceServoProfile \<Rightarrow> bool" where
  "profile_boost_bad q \<longleftrightarrow>
    f32_lt (Fin 0) (fl (fp_peak_press q))
    \<and> (f32_lt (fl (fp_boost_ms q)) (Fin 4) \<or> f32_lt (fl (fp_assist_rise_ms q)) (Fin 1)
       \<or> f32_le (fl (fp_assist_end_ms q)) (fl (fp_assist_rise_ms q))
       \<or> f32_lt (f32_sub (fl (fp_boost_ms q)) (Fin 2)) (fl (fp_assist_end_ms q))
       \<or> f32_lt (fl (fp_off_ms q)) (Fin 1) \<or> f32_le (fl (fp_taper_margin q)) (Fin 0)
       \<or> f32_le (fl (fp_response_units q)) (Fin 0)
       \<or> f32_le (fl (fp_excessive_rise_units q)) (fl (fp_response_units q)))"

definition profile_budget_bad :: "ForceServoProfile \<Rightarrow> bool" where
  "profile_budget_bad q \<longleftrightarrow>
    f32_lt (fl (fp_energized_ms q)) (Fin 1) \<or> f32_lt (Fin 60000) (fl (fp_energized_ms q))
    \<or> f32_lt (fl (fp_session_ms q)) (fl (fp_energized_ms q)) \<or> f32_lt (Fin 60000) (fl (fp_session_ms q))
    \<or> f32_lt (fl (fp_capture_ms q)) (Fin 1) \<or> f32_lt (fl (fp_energized_ms q)) (fl (fp_capture_ms q))
    \<or> f32_lt (fl (fp_build_ms q)) (Fin 1) \<or> f32_lt (fl (fp_energized_ms q)) (fl (fp_build_ms q))
    \<or> f32_lt (fl (fp_progress_window_ms q)) (Fin 1)
    \<or> f32_lt (fl (fp_no_response_ms q)) (fl (fp_progress_window_ms q))
    \<or> f32_le (fl (fp_progress_units q)) (Fin 0)
    \<or> f32_lt (fl (fp_session_ms q)) (fl (fp_no_response_ms q))
    \<or> f32_lt (fl (fp_energized_ms q)) (fl (fp_boost_ms q))
    \<or> f32_lt (Fin 60000) (fl (fp_boost_total_ms q))
    \<or> f32_lt (fl (fp_boost_total_ms q)) (fl (fp_boost_ms q))"

definition times_integral :: "ForceServoProfile \<Rightarrow> bool" where
  "times_integral q \<longleftrightarrow>
    list_all (\<lambda>n. f32_eq (f32_floor (fl (n q))) (fl (n q)))
      [fp_energized_ms, fp_session_ms, fp_capture_ms, fp_build_ms, fp_progress_window_ms,
       fp_no_response_ms, fp_boost_ms, fp_boost_total_ms, fp_assist_rise_ms, fp_assist_end_ms, fp_off_ms]"

definition calibrated :: "ForceServoProfile \<Rightarrow> bool" where
  "calibrated q \<longleftrightarrow>
    f32_lt (fl (fp_force_trip q)) (fl (fp_hardware_boundary q))
    \<and> f32_le (fl (fp_hardware_boundary q)) FORCE_SERVO_REPRESENTABLE
    \<and> f32_le (Fin 0) (fl (fp_calibration_min q))
    \<and> f32_lt (fl (fp_calibration_min q)) (fl (fp_operating_max q))
    \<and> f32_le (fl (fp_force_trip q)) (fl (fp_calibration_max q))
    \<and> f32_le (fl (fp_calibration_max q)) FORCE_SERVO_REPRESENTABLE
    \<and> f32_le (f32_add (f32_mul (fl (fp_raw_min q)) (fl (fp_scale q))) (fl (fp_offset q)))
         (fl (fp_calibration_min q))
    \<and> f32_le (fl (fp_force_trip q))
         (f32_add (f32_mul (fl (fp_raw_trip q)) (fl (fp_scale q))) (fl (fp_offset q)))"

definition ForceServo_ProfileValid :: "build_policy \<Rightarrow> ForceServoProfile option \<Rightarrow> bool" where
  "ForceServo_ProfileValid p profile =
    (case profile of
       None \<Rightarrow> False
     | Some q \<Rightarrow>
         if \<not> list_all (\<lambda>(n, _). f32_isfinite (fl (n q))) (FORCE_SERVO_PROFILE_FIELDS p) then False
         else if bp_characterization p \<and> f32_eq (fl (fp_unit q)) (Fin 2) then installed_profile_valid p q
         else if profile_range_bad q then False
         else if profile_flags_bad q then False
         else if f32_eq (fl (fp_experiment_enabled q)) (Fin 0) then disabled_candidate q
         else if f32_eq (fl (fp_limits_source q)) (Fin 0) then False
         else if profile_boost_bad q then False
         else if profile_budget_bad q then False
         else if \<not> times_integral q then False
         else if f32_eq (fl (fp_unit q)) (Fin 0)
         then f32_eq (fl (fp_scale q)) (Fin 1) \<and> f32_eq (fl (fp_offset q)) (Fin 0)
         else calibrated q)"

section \<open>Admission of targets and plans\<close>

datatype ForceServoRejection =
    FS_PROFILE_OK
  | FS_PROFILE_INVALID
  | FS_MISSING_SENSOR_RANGE
  | FS_MISSING_CALIBRATION
  | FS_MISSING_MECHANICAL_LIMIT
  | FS_MISSING_CURRENT_TIME_LIMIT
  | FS_TARGET_OUTSIDE_OPERATING_RANGE
  | FS_TARGET_OUTSIDE_CALIBRATION
  | FS_TRAJECTORY_EXCEEDS_BUDGET
  | FS_BOOST_UNQUALIFIED
  | FS_WRONG_TARGET_UNIT
  | FS_EXPERIMENT_LIMITS_UNREVIEWED
  | FS_COOLING_REQUIRED

definition missing_qualification :: "u32 \<Rightarrow> ForceServoRejection option" where
  "missing_qualification q =
    (if q AND 1 = 0 then Some FS_MISSING_SENSOR_RANGE
     else if q AND 2 = 0 then Some FS_MISSING_CALIBRATION
     else if q AND 4 = 0 then Some FS_MISSING_MECHANICAL_LIMIT
     else if q AND 8 = 0 then Some FS_MISSING_CURRENT_TIME_LIMIT
     else None)"

definition ForceServo_TargetAllowed ::
  "build_policy \<Rightarrow> ForceServoProfile option \<Rightarrow> f32 \<Rightarrow> bool \<Rightarrow> ForceServoRejection" where
  "ForceServo_TargetAllowed p profile t newtons =
    (case profile of
       None \<Rightarrow> FS_PROFILE_INVALID
     | Some q \<Rightarrow>
         if \<not> f32_isfinite (fl (fp_qualifications q)) \<or> f32_lt (fl (fp_qualifications q)) (Fin 0)
            \<or> f32_lt (Fin 15) (fl (fp_qualifications q))
         then FS_PROFILE_INVALID
         else if bp_characterization p \<and> f32_eq (fl (fp_unit q)) (Fin 2)
         then
           (if \<not> ForceServo_ProfileValid p profile then FS_PROFILE_INVALID
            else if \<not> newtons then FS_WRONG_TARGET_UNIT
            else if f32_isfinite t \<and> f32_le (Fin 1) t \<and> f32_le t (Fin 3000) \<and> f32_eq (f32_floor t) t
            then FS_PROFILE_OK else FS_TARGET_OUTSIDE_OPERATING_RANGE)
         else
           (case (if newtons \<or> f32_eq (fl (fp_unit q)) (Fin 1)
                  then missing_qualification (f32_cast_u32 (fl (fp_qualifications q))) else None) of
              Some rejection \<Rightarrow> rejection
            | None \<Rightarrow>
                if \<not> ForceServo_ProfileValid p profile then FS_PROFILE_INVALID
                else if newtons \<noteq> f32_eq (fl (fp_unit q)) (Fin 1) then FS_WRONG_TARGET_UNIT
                else if \<not> f32_isfinite t \<or> f32_le t (Fin 0) \<or> f32_lt (fl (fp_operating_max q)) t
                then FS_TARGET_OUTSIDE_OPERATING_RANGE
                else if f32_eq (fl (fp_unit q)) (Fin 1)
                        \<and> (f32_lt t (fl (fp_calibration_min q)) \<or> f32_lt (fl (fp_calibration_max q)) t)
                then FS_TARGET_OUTSIDE_CALIBRATION
                else FS_PROFILE_OK))"

text \<open>\<open>m\<close> is the object the last argument points to; it may be written although the result is false.\<close>

definition ForceServo_Measure ::
  "build_policy \<Rightarrow> ForceServoProfile \<Rightarrow> u32 \<Rightarrow> int \<Rightarrow> f32 \<Rightarrow> bool \<times> f32" where
  "ForceServo_Measure p q raw control m =
    (if bp_characterization p \<and> f32_eq (fl (fp_unit q)) (Fin 2)
     then
       (if \<not> ForceServo_ProfileValid p (Some q) \<or> raw > 3000 \<or> control \<noteq> sint raw then (False, m)
        else (True, f32_of_u32 raw))
     else if \<not> ForceServo_ProfileValid p (Some q) \<or> f32_lt (f32_of_u32 raw) (fl (fp_raw_min q))
             \<or> f32_le (fl (fp_raw_trip q)) (f32_of_u32 raw)
     then (False, m)
     else
       (let m = (if f32_eq (fl (fp_unit q)) (Fin 1)
                 then f32_add (f32_mul (f32_of_u32 raw) (fl (fp_scale q))) (fl (fp_offset q))
                 else f32_of_int control)
        in (f32_isfinite m \<and> f32_le (Fin 0) m \<and> f32_lt m (fl (fp_force_trip q))
              \<and> (\<not> f32_eq (fl (fp_unit q)) (Fin 1)
                 \<or> f32_le (fl (fp_calibration_min q)) m \<and> f32_le m (fl (fp_calibration_max q))), m)))"

definition ForceServo_BoostQualified :: "build_policy \<Rightarrow> ForceServoProfile \<Rightarrow> bool" where
  "ForceServo_BoostQualified p q =
    (if bp_characterization p \<and> f32_eq (fl (fp_unit q)) (Fin 2)
     then ForceServo_ProfileValid p (Some q) \<and> f32_lt (Fin 0) (fl (fp_peak_press q))
     else ForceServo_ProfileValid p (Some q) \<and> \<not> f32_eq (fl (fp_experiment_enabled q)) (Fin 0)
       \<and> (f32_eq (fl (fp_unit q)) (Fin 0) \<or> f32_eq (fl (fp_qualifications q)) (Fin 15))
       \<and> f32_lt (fl (fp_continuous_press q)) (fl (fp_peak_press q))
       \<and> f32_le (fl (fp_peak_press q)) (fk (FS_PRESS_PROFILE_CEILING p))
       \<and> f32_lt (Fin 0) (fl (fp_boost_ms q)) \<and> f32_le (fl (fp_boost_ms q)) (fl (fp_boost_total_ms q))
       \<and> f32_lt (Fin 0) (fl (fp_taper_margin q)))"

definition ForceServo_TrajectorySeconds :: "ForceServoConfig \<Rightarrow> f32 \<Rightarrow> f32 \<Rightarrow> f32" where
  "ForceServo_TrajectorySeconds c m t =
    (let distance = f32_abs (f32_sub t m)
     in f32_max (f32_div (f32_mul (fk (3 / 2)) distance) (fl (fc_reference_rate c)))
          (f32_sqrt (f32_div (f32_mul (Fin 6) distance) (fl (fc_reference_acceleration c)))))"

definition ForceServo_ProfileConfigValid :: "build_policy \<Rightarrow> ForceServoProfile \<Rightarrow> ForceServoConfig \<Rightarrow> bool" where
  "ForceServo_ProfileConfigValid p q c =
    (if bp_characterization p \<and> f32_eq (fl (fp_unit q)) (Fin 2)
     then
       (let g = g_force_servo_default_config p; fixed = c\<lparr>fc_press_cap := fc_press_cap g\<rparr>
        in ForceServo_ProfileValid p (Some q) \<and> ForceServo_ConfigValid p c \<and> fixed = g
          \<and> f32_eq (fl (fc_press_cap c)) (fl (fp_continuous_press q)))
     else ForceServo_ProfileValid p (Some q) \<and> ForceServo_ConfigValid p c
       \<and> f32_le (fl (fc_press_cap c)) (fl (fp_continuous_press q))
       \<and> f32_le (fl (fc_release_cap c)) (fl (fp_release q)))"

text \<open>The result, and the value of \<open>*seconds\<close> when it is written.\<close>

definition ForceServo_PlanAllowed ::
  "build_policy \<Rightarrow> ForceServoProfile \<Rightarrow> ForceServoConfig \<Rightarrow> f32 \<Rightarrow> f32 \<Rightarrow> f32
    \<Rightarrow> ForceServoRejection \<times> f32" where
  "ForceServo_PlanAllowed p q c m t seconds =
    (if f32_eq (fl (fp_experiment_enabled q)) (Fin 0) then (FS_EXPERIMENT_LIMITS_UNREVIEWED, seconds)
     else if \<not> ForceServo_ProfileConfigValid p q c \<or> \<not> f32_isfinite m \<or> f32_lt m (Fin 0)
       \<or> (f32_le (fl (fp_force_trip q)) m
          \<and> \<not> (bp_build_to_target p \<and> f32_eq m (Fin 3000) \<and> f32_eq t (Fin 3000)))
     then (FS_PROFILE_INVALID, seconds)
     else
       (let r = ForceServo_TargetAllowed p (Some q) t (\<not> f32_eq (fl (fp_unit q)) (Fin 0))
        in if r \<noteq> FS_PROFILE_OK then (r, seconds)
           else
             (let seconds = ForceServo_TrajectorySeconds c m t
              in if bp_characterization p \<and> f32_eq (fl (fp_unit q)) (Fin 2) then (FS_PROFILE_OK, seconds)
                 else
                   (let budget = f32_min (fl (fp_energized_ms q))
                          (f32_min (fl (fp_session_ms q)) (fl (fc_session_ms c)))
                    in if f32_lt budget
                            (f32_add (f32_mul seconds (Fin 1000)) (fl (fc_hold_dwell_ms c)))
                          \<or> f32_lt (fl (fp_build_ms q)) (f32_mul seconds (Fin 1000))
                       then (FS_TRAJECTORY_EXCEEDS_BUDGET, seconds)
                       else (FS_PROFILE_OK, seconds)))))"

section \<open>Characterization plans\<close>

record ForceCharacterizationPlan =
  cp_target_N :: u32
  cp_assist_percent :: u32
  cp_continuous_percent :: u32

definition ForceServo_PercentCommand :: "f32 \<Rightarrow> int" where
  "ForceServo_PercentCommand percent =
    f32_to_i32 (f32_floor (f32_add (f32_mul percent (Fin 240)) (fk (1 / 2))))"

definition ForceServo_CharacterizationPlanValid :: "build_policy \<Rightarrow> ForceCharacterizationPlan \<Rightarrow> bool" where
  "ForceServo_CharacterizationPlanValid p c \<longleftrightarrow>
    (let target = fl (cp_target_N c); assist = fl (cp_assist_percent c);
         continuous = fl (cp_continuous_percent c)
     in (\<not> bp_build_to_target p \<or> f32_eq assist (Fin 0) \<and> f32_eq continuous (Fin 0))
      \<and> f32_isfinite target \<and> f32_le (Fin 1) target \<and> f32_le target (Fin 3000)
      \<and> f32_eq (f32_floor target) target
      \<and> f32_isfinite assist \<and> f32_le (Fin 0) assist \<and> f32_le assist (Fin 40)
      \<and> f32_isfinite continuous \<and> f32_le (Fin 0) continuous \<and> f32_le continuous (Fin 10))"

definition ForceServo_CharacterizationDigest :: "ForceCharacterizationPlan \<Rightarrow> u32" where
  "ForceServo_CharacterizationDigest c =
    fnv [cp_target_N c, cp_assist_percent c, cp_continuous_percent c]"

section \<open>Contracts kept in the image\<close>

definition g_force_characterization_contract :: "build_policy \<Rightarrow> u32 list" where
  "g_force_characterization_contract p =
    [of_bool (bp_characterization p), 1, 3000, (if bp_build_to_target p then 0 else 40),
     (if bp_build_to_target p then 0 else 10), 240, 1, 2, 4, 4, 5000, FS_EXPERIMENT_BUDGET_MS p,
     30, 2, 25, 2]"

definition g_force_servo_contract :: "build_policy \<Rightarrow> u32 list" where
  "g_force_servo_contract p =
    [FORCE_SERVO_SCHEMA p, FORCE_SERVO_BUILD_ID p, of_bool (bp_commissioning p),
     FS_LEGACY_OPERATING_MAX p, FS_LEGACY_RAW_TRIP p, FS_EXPERIMENT_BUDGET_MS p,
     FS_PRESS_PROFILE_CEILING p, 100, FORCE_SERVO_DEFAULT_TARGET, FORCE_SERVO_START_WAIT_MS,
     FS_FEEDBACK_GAP p, FS_LEASE p, FS_PRESS_OPERATING_CAP p, 100, of_bool (bp_commissioning p),
     of_bool (bp_characterization p \<or> bp_commissioning p), FS_EXECUTOR_PRESS_CEILING p,
     FS_CONTINUOUS_CEILING p, FS_APPROVED_PEAK_MS p, 3]"

definition ForceServo_SequenceAfter :: "u64 \<Rightarrow> u64 \<Rightarrow> bool" where
  "ForceServo_SequenceAfter a b \<longleftrightarrow> (let d = a - b in d \<noteq> 0 \<and> d < 2 ^ 63)"

end
