(* ===== verification/ForceServo.thy ===== *)
theory ForceServo
  imports ForceServoProfile
begin

text \<open>
  The force controller of the ForceServo builds, \<^verbatim>\<open>Application/force_servo.c\<close>: a cubic
  reference trajectory, a filtered measurement, PID terms, amplitude and rate limits. A step is
  prepared, its output is limited and committed by the executor, and only then the integral
  advances (\<open>ForceServo_Commit\<close>). The objects behind the pointers are not NULL.
\<close>

section \<open>State\<close>

record ForceServo =
  fs_reference :: f32
  fs_reference_rate :: f32
  fs_filtered :: f32
  fs_derivative :: f32
  fs_integral :: f32
  fs_start :: f32
  fs_target :: f32
  fs_trajectory_s :: f32
  fs_elapsed_s :: f32
  fs_previous_committed :: f32
  fs_initialized :: bool

record ForceServoStep =
  sp_dt_s :: f32
  sp_reference :: f32
  sp_reference_rate :: f32
  sp_filtered :: f32
  sp_error :: f32
  sp_p :: f32
  sp_i :: f32
  sp_d :: f32
  sp_ff :: f32
  sp_raw_output :: f32
  sp_limited_output :: f32
  sp_next_integral :: f32
  sp_limits :: u32

abbreviation (input) FS_LIMIT_AMPLITUDE :: u32 where "FS_LIMIT_AMPLITUDE \<equiv> 1"
abbreviation (input) FS_LIMIT_RATE :: u32 where "FS_LIMIT_RATE \<equiv> 2"
abbreviation (input) FS_LIMIT_INTERLOCK :: u32 where "FS_LIMIT_INTERLOCK \<equiv> 4"
abbreviation (input) FS_LIMIT_QUANTIZATION :: u32 where "FS_LIMIT_QUANTIZATION \<equiv> 8"
abbreviation (input) FS_LIMIT_BOOST :: u32 where "FS_LIMIT_BOOST \<equiv> 16"

definition zero_servo :: ForceServo where
  "zero_servo =
    \<lparr>fs_reference = Fin 0, fs_reference_rate = Fin 0, fs_filtered = Fin 0, fs_derivative = Fin 0,
     fs_integral = Fin 0, fs_start = Fin 0, fs_target = Fin 0, fs_trajectory_s = Fin 0,
     fs_elapsed_s = Fin 0, fs_previous_committed = Fin 0, fs_initialized = False\<rparr>"

definition zero_step :: ForceServoStep where
  "zero_step =
    \<lparr>sp_dt_s = Fin 0, sp_reference = Fin 0, sp_reference_rate = Fin 0, sp_filtered = Fin 0,
     sp_error = Fin 0, sp_p = Fin 0, sp_i = Fin 0, sp_d = Fin 0, sp_ff = Fin 0,
     sp_raw_output = Fin 0, sp_limited_output = Fin 0, sp_next_integral = Fin 0, sp_limits = 0\<rparr>"

section \<open>Operations\<close>

definition clamp :: "f32 \<Rightarrow> f32 \<Rightarrow> f32 \<Rightarrow> f32" where
  "clamp x lo hi = f32_min hi (f32_max lo x)"

definition ForceServo_Init ::
  "build_policy \<Rightarrow> ForceServoConfig \<Rightarrow> f32 \<Rightarrow> f32 \<Rightarrow> ForceServo \<Rightarrow> bool \<times> ForceServo" where
  "ForceServo_Init p c m target s =
    (if \<not> ForceServo_ConfigValid p c \<or> \<not> f32_isfinite m \<or> f32_lt m (Fin 0)
        \<or> f32_lt FORCE_SERVO_REPRESENTABLE m \<or> \<not> f32_isfinite target \<or> f32_le target (Fin 0)
        \<or> f32_lt FORCE_SERVO_REPRESENTABLE target
     then (False, s)
     else (True, zero_servo\<lparr>fs_start := m, fs_filtered := m, fs_reference := m, fs_target := target,
             fs_trajectory_s := ForceServo_TrajectorySeconds c m target, fs_initialized := True\<rparr>))"

definition servo_finite :: "ForceServo \<Rightarrow> bool" where
  "servo_finite s \<longleftrightarrow>
    f32_isfinite (fs_reference s) \<and> f32_isfinite (fs_filtered s) \<and> f32_isfinite (fs_derivative s)
    \<and> f32_isfinite (fs_integral s) \<and> f32_isfinite (fs_elapsed_s s)
    \<and> f32_isfinite (fs_trajectory_s s) \<and> f32_isfinite (fs_previous_committed s)
    \<and> f32_isfinite (fs_start s) \<and> f32_isfinite (fs_target s)"

text \<open>The reference advances along the trajectory.\<close>

definition advance_reference :: "f32 \<Rightarrow> ForceServo \<Rightarrow> ForceServo" where
  "advance_reference dt s =
    (let elapsed = f32_min (f32_add (fs_elapsed_s s) dt) (fs_trajectory_s s);
         moving = f32_lt (Fin 0) (fs_trajectory_s s);
         x = (if moving then f32_div elapsed (fs_trajectory_s s) else Fin 1);
         distance = f32_sub (fs_target s) (fs_start s);
         reference = f32_add (fs_start s)
           (f32_mul (f32_mul (f32_mul distance x) x) (f32_sub (Fin 3) (f32_mul (Fin 2) x)));
         rate = (if moving
                 then f32_div (f32_mul (f32_mul (f32_mul distance (Fin 6)) x) (f32_sub (Fin 1) x))
                        (fs_trajectory_s s)
                 else Fin 0)
     in s\<lparr>fs_elapsed_s := elapsed, fs_reference := reference, fs_reference_rate := rate\<rparr>)"

text \<open>The filters of the measurement and of its derivative.\<close>

definition filter_measurement :: "ForceServoConfig \<Rightarrow> f32 \<Rightarrow> f32 \<Rightarrow> ForceServo \<Rightarrow> ForceServo" where
  "filter_measurement c m dt s =
    (let previous = fs_filtered s;
         filtered = f32_add previous
           (f32_mul (f32_div dt (f32_add (fl (fc_measurement_filter_s c)) dt)) (f32_sub m previous));
         derivative = f32_add (fs_derivative s)
           (f32_mul (f32_div dt (f32_add (fl (fc_d_filter_s c)) dt))
             (f32_sub (f32_div (f32_sub filtered previous) dt) (fs_derivative s)))
     in s\<lparr>fs_filtered := filtered, fs_derivative := derivative\<rparr>)"

text \<open>
  The limit on the change of the output. In commissioning builds only an increase of the
  magnitude is ramped, and a change of direction ramps from zero.
\<close>

definition limit_rate :: "build_policy \<Rightarrow> ForceServoConfig \<Rightarrow> f32 \<Rightarrow> f32 \<Rightarrow> f32 \<Rightarrow> f32" where
  "limit_rate p c dt previous amplitude =
    (let ramp = f32_mul (fl (fc_output_rate c)) dt
     in if bp_commissioning p
        then
          (let origin = (if f32_lt (Fin 0) (f32_mul amplitude previous) then previous else Fin 0)
           in if f32_le (Fin 0) amplitude then f32_min amplitude (f32_add origin ramp)
              else f32_max amplitude (f32_sub origin ramp))
        else clamp amplitude (f32_sub previous ramp) (f32_add previous ramp))"

text \<open>The caller's step is not read when the result is false; here it is then zero.\<close>

definition ForceServo_Prepare ::
  "build_policy \<Rightarrow> ForceServoConfig \<Rightarrow> f32 \<Rightarrow> f32 \<Rightarrow> ForceServo \<Rightarrow> bool \<times> ForceServo \<times> ForceServoStep" where
  "ForceServo_Prepare p c m dt s =
    (if \<not> fs_initialized s \<or> \<not> ForceServo_ConfigValid p c \<or> \<not> f32_isfinite m \<or> f32_lt m (Fin 0)
        \<or> f32_lt FORCE_SERVO_REPRESENTABLE m \<or> \<not> f32_isfinite dt
        \<or> f32_lt dt (f32_mul (fl (fc_control_min_ms c)) (fk (1 / 1000)))
        \<or> f32_lt (f32_mul (fl (fc_feedback_gap_ms c)) (fk (1 / 1000))) dt
     then (False, s, zero_step)
     else if \<not> servo_finite s then (False, s, zero_step)
     else
       (let s = filter_measurement c m dt (advance_reference dt s);
            error = f32_sub (fs_reference s) (fs_filtered s);
            p_term = f32_mul (fl (fc_kp c)) error;
            i_term = (if f32_eq (fl (fc_ki c)) (Fin 0) then Fin 0 else fs_integral s);
            d_term = (if f32_eq (fl (fc_kd c)) (Fin 0) then Fin 0
                      else f32_mul (f32_neg (fl (fc_kd c))) (fs_derivative s));
            raw = f32_add (f32_add (f32_add p_term i_term) d_term) (Fin 0);
            amplitude = clamp raw (f32_neg (fl (fc_release_cap c))) (fl (fc_press_cap c));
            limited = limit_rate p c dt (fs_previous_committed s) amplitude;
            limits = (if \<not> f32_eq amplitude raw then FS_LIMIT_AMPLITUDE else 0);
            limits = (if \<not> f32_eq limited amplitude then limits OR FS_LIMIT_RATE else limits)
        in (f32_isfinite raw \<and> f32_isfinite limited \<and> f32_isfinite (fs_derivative s), s,
            zero_step\<lparr>sp_dt_s := dt, sp_reference := fs_reference s,
              sp_reference_rate := fs_reference_rate s, sp_filtered := fs_filtered s,
              sp_error := error, sp_p := p_term, sp_i := i_term, sp_d := d_term, sp_ff := Fin 0,
              sp_raw_output := raw, sp_limited_output := limited, sp_limits := limits\<rparr>)))"

definition ForceServo_Commit ::
  "build_policy \<Rightarrow> ForceServoConfig \<Rightarrow> int \<Rightarrow> ForceServo \<Rightarrow> ForceServoStep
    \<Rightarrow> bool \<times> ForceServo \<times> ForceServoStep" where
  "ForceServo_Commit p c committed s step =
    (if \<not> ForceServo_ConfigValid p c \<or> \<not> f32_isfinite (sp_raw_output step)
        \<or> \<not> f32_isfinite (sp_error step) \<or> \<not> f32_isfinite (sp_dt_s step)
        \<or> f32_le (sp_dt_s step) (Fin 0)
        \<or> f32_lt (f32_mul (fl (fc_feedback_gap_ms c)) (fk (1 / 1000))) (sp_dt_s step)
        \<or> f32_lt (fl (fc_press_cap c)) (f32_of_int committed)
        \<or> f32_lt (f32_of_int committed) (f32_neg (fl (fc_release_cap c)))
     then (False, s, step)
     else
       (let tracking = f32_sub (f32_of_int committed) (sp_raw_output step);
            tracking = (if bp_commissioning p
                           \<and> sp_limits step AND (FS_LIMIT_AMPLITUDE OR FS_LIMIT_RATE OR FS_LIMIT_INTERLOCK) = 0
                           \<and> f32_eq (f32_of_int committed) (f32_trunc (sp_limited_output step))
                        then Fin 0 else tracking);
            next = (if f32_eq (fl (fc_ki c)) (Fin 0) then Fin 0
                    else f32_add (fs_integral s)
                      (f32_mul (sp_dt_s step)
                        (f32_add (f32_mul (fl (fc_ki c)) (sp_error step))
                          (f32_mul (fl (fc_tracking_gain c)) tracking))))
        in if \<not> f32_isfinite next then (False, s, step)
           else
             (let integral = clamp next (fl (fc_integral_min c)) (fl (fc_integral_max c))
              in (True, s\<lparr>fs_integral := integral, fs_previous_committed := f32_of_int committed\<rparr>,
                  step\<lparr>sp_next_integral := integral\<rparr>))))"

section \<open>Lemmas\<close>

text \<open>What a valid configuration bounds.\<close>

lemma config_parameter:
  assumes "ForceServo_ConfigValid p c" "(n, d, l, h) \<in> set (FORCE_SERVO_PARAMETERS p)"
  shows "f32_isfinite (fl (n c)) \<and> f32_le (fk l) (fl (n c)) \<and> f32_le (fl (n c)) (fk h)"
proof -
  have "f32_isfinite (fl (n c)) \<and> \<not> f32_lt (fl (n c)) (fk l) \<and> \<not> f32_lt (fk h) (fl (n c))"
    using assms unfolding ForceServo_ConfigValid_def list_all_iff by fastforce
  then show ?thesis by (auto simp: f32_isfinite_iff f32_not_lt)
qed

lemma config_caps:
  assumes "ForceServo_ConfigValid p c"
  obtains press release rate imin imax where
    "fl (fc_press_cap c) = Fin press" "fl (fc_release_cap c) = Fin release"
    "fl (fc_output_rate c) = Fin rate" "fl (fc_integral_min c) = Fin imin"
    "fl (fc_integral_max c) = Fin imax" "0 \<le> press" "0 \<le> release" "0 \<le> rate" "imin \<le> 0" "0 \<le> imax"
proof -
  have nonneg: "\<exists>x. fl (n c) = Fin x \<and> 0 \<le> x"
    if "(n, d, l, h) \<in> set (FORCE_SERVO_PARAMETERS p)" "0 \<le> l" for n d l h
  proof -
    note b = config_parameter [OF assms that(1)]
    then have "f32_le (Fin 0) (fl (n c))" using f32_le_trans [OF rnd_nonneg [OF that(2)]] by blast
    with b show ?thesis by (cases "fl (n c)") (auto simp: f32_isfinite_def)
  qed
  have "\<exists>x. fl (fc_integral_min c) = Fin x \<and> x \<le> 0"
  proof -
    have "(fc_integral_min, - 1000, - 5000, 0) \<in> set (FORCE_SERVO_PARAMETERS p)"
      by (simp add: FORCE_SERVO_PARAMETERS_def)
    from config_parameter [OF assms this] show ?thesis by (auto simp: f32_isfinite_iff)
  qed
  moreover have "\<exists>x. fl (fc_integral_max c) = Fin x \<and> 0 \<le> x"
    by (rule nonneg [of fc_integral_max 1000 0 5000]) (simp_all add: FORCE_SERVO_PARAMETERS_def)
  moreover have "\<exists>x. fl (fc_press_cap c) = Fin x \<and> 0 \<le> x"
    by (rule nonneg [of fc_press_cap "FS_PRESS_OPERATING_CAP p" "FS_CONFIG_PRESS_MIN p" "FS_PRESS_PROFILE_CEILING p"])
      (simp_all add: FORCE_SERVO_PARAMETERS_def FS_CONFIG_PRESS_MIN_def)
  moreover have "\<exists>x. fl (fc_release_cap c) = Fin x \<and> 0 \<le> x"
    by (rule nonneg [of fc_release_cap FS_RELEASE_OPERATING_CAP 1 FS_RELEASE_PROFILE_CEILING])
      (simp_all add: FORCE_SERVO_PARAMETERS_def)
  moreover have "\<exists>x. fl (fc_output_rate c) = Fin x \<and> 0 \<le> x"
    by (rule nonneg [of fc_output_rate 1000 1 100000]) (simp_all add: FORCE_SERVO_PARAMETERS_def)
  ultimately show thesis using that by blast
qed

text \<open>A clamp is within its limits whatever it is given, a NaN included.\<close>

lemma clamp_range:
  assumes "lo \<le> hi"
  obtains r where "clamp x (Fin lo) (Fin hi) = Fin r" "lo \<le> r" "r \<le> hi"
proof -
  have "\<exists>r. clamp x (Fin lo) (Fin hi) = Fin r \<and> lo \<le> r \<and> r \<le> hi"
    using assms by (cases x) (auto simp: clamp_def f32_min_def f32_max_def)
  with that show thesis by blast
qed

text \<open>With zero between the limits it keeps the sign and never increases the magnitude.\<close>

lemma clamp_towards_zero:
  assumes "clamp (Fin v) (Fin lo) (Fin hi) = Fin r" "lo \<le> 0" "0 \<le> hi"
  shows "(0 \<le> v \<longrightarrow> 0 \<le> r \<and> r \<le> v) \<and> (v \<le> 0 \<longrightarrow> v \<le> r \<and> r \<le> 0)"
  using assms by (auto simp: clamp_def f32_min_def f32_max_def split: if_splits)

lemma f32_min_between:
  "0 \<le> a \<Longrightarrow> f32_le (Fin 0) y \<Longrightarrow> \<exists>r. f32_min (Fin a) y = Fin r \<and> 0 \<le> r \<and> r \<le> a"
  by (cases y) (auto simp: f32_min_def)

lemma f32_max_between:
  "a \<le> 0 \<Longrightarrow> f32_le y (Fin 0) \<Longrightarrow> \<exists>r. f32_max (Fin a) y = Fin r \<and> a \<le> r \<and> r \<le> 0"
  by (cases y) (auto simp: f32_max_def)

text \<open>
  The ramped output keeps the sign of the amplitude and does not exceed it; it grows from the
  last output when that has the same sign, and otherwise from zero, by at most the ramp.
\<close>

lemma limit_rate_ramps:
  assumes "bp_commissioning p" "fl (fc_output_rate c) = Fin rate" "0 \<le> rate" "0 \<le> t"
    and previous: "f32_isfinite previous"
  obtains r base where "limit_rate p c (Fin t) previous (Fin a) = Fin r"
    "(0 \<le> a \<longrightarrow> 0 \<le> r \<and> r \<le> a) \<and> (a \<le> 0 \<longrightarrow> a \<le> r \<and> r \<le> 0)"
    "base = 0 \<or> previous = Fin base \<and> 0 < a * base"
    "0 \<le> a \<longrightarrow> f32_le (Fin r) (f32_add (Fin base) (f32_mul (Fin rate) (Fin t)))"
    "a \<le> 0 \<longrightarrow> f32_le (f32_sub (Fin base) (f32_mul (Fin rate) (Fin t))) (Fin r)"
proof -
  obtain v where v: "previous = Fin v" using previous by (auto simp: f32_isfinite_iff)
  define ramp where "ramp = f32_mul (Fin rate) (Fin t)"
  have ramp: "f32_le (Fin 0) ramp"
    using assms(3,4) by (simp add: ramp_def rnd_nonneg)
  define base where "base = (if f32_lt (Fin 0) (f32_mul (Fin a) previous) then v else 0)"
  have sign: "0 < a * v" if "f32_lt (Fin 0) (rnd (a * v))"
    using that rnd_nonpos [of "a * v"] by (cases "rnd (a * v)"; cases "0 < a * v") auto
  have origin: "(if f32_lt (Fin 0) (f32_mul (Fin a) previous) then previous else Fin 0) = Fin base"
    by (simp add: base_def v)
  have b: "base = 0 \<or> previous = Fin base \<and> 0 < a * base"
    using sign by (auto simp: base_def v)
  have up: "f32_le (Fin 0) (f32_add (Fin base) ramp)" if "0 \<le> a"
    using that ramp b by (intro f32_add_nonneg) (auto simp: zero_less_mult_iff)
  have down: "f32_le (f32_sub (Fin base) ramp) (Fin 0)" if "a \<le> 0"
    using that ramp b by (cases ramp) (auto simp: f32_sub_def rnd_nonpos zero_less_mult_iff)
  show thesis
  proof (cases "0 \<le> a")
    case True
    obtain r where r: "f32_min (Fin a) (f32_add (Fin base) ramp) = Fin r" "0 \<le> r" "r \<le> a"
      using f32_min_between [OF True up [OF True]] by blast
    then have "f32_le (Fin r) (f32_add (Fin base) ramp)"
      using up [OF True] by (cases "f32_add (Fin base) ramp") (auto simp: f32_min_def split: if_splits)
    moreover have "f32_le (f32_sub (Fin base) ramp) (Fin r)" if "a \<le> 0"
      using down [OF that] that True r by simp
    moreover have "limit_rate p c (Fin t) previous (Fin a) = Fin r"
      using True r(1) assms(1,2) by (simp add: limit_rate_def Let_def origin del: f32_mul.simps) (simp add: ramp_def)
    ultimately show thesis using that True r b by (auto simp: ramp_def)
  next
    case False
    then have a: "a < 0" by simp
    then obtain r where r: "f32_max (Fin a) (f32_sub (Fin base) ramp) = Fin r" "a \<le> r" "r \<le> 0"
      using f32_max_between [OF less_imp_le down] by force
    then have "f32_le (f32_sub (Fin base) ramp) (Fin r)"
      using down a by (cases "f32_sub (Fin base) ramp") (auto simp: f32_max_def split: if_splits)
    moreover have "limit_rate p c (Fin t) previous (Fin a) = Fin r"
      using False r(1) assms(1,2) by (simp add: limit_rate_def Let_def origin del: f32_mul.simps) (simp add: ramp_def)
    ultimately show thesis using that False r b by (auto simp: ramp_def)
  qed
qed

text \<open>What a successful preparation computed.\<close>

lemma reference_keeps [simp]:
  "fs_integral (filter_measurement c m dt (advance_reference dt s)) = fs_integral s"
  "fs_previous_committed (filter_measurement c m dt (advance_reference dt s)) = fs_previous_committed s"
  "fs_initialized (filter_measurement c m dt (advance_reference dt s)) = fs_initialized s"
  by (simp_all add: filter_measurement_def advance_reference_def Let_def)

lemma prepare_success:
  assumes "ForceServo_Prepare p c m dt s = (True, s', step)"
  shows "ForceServo_ConfigValid p c \<and> servo_finite s \<and> f32_isfinite (sp_raw_output step)
    \<and> f32_isfinite dt \<and> \<not> f32_lt dt (f32_mul (fl (fc_control_min_ms c)) (fk (1 / 1000)))
    \<and> sp_limited_output step = limit_rate p c dt (fs_previous_committed s)
        (clamp (sp_raw_output step) (f32_neg (fl (fc_release_cap c))) (fl (fc_press_cap c)))
    \<and> fs_integral s' = fs_integral s \<and> fs_previous_committed s' = fs_previous_committed s
    \<and> fs_initialized s'"
  using assms unfolding ForceServo_Prepare_def
  by (auto simp: Let_def simp del: de_Morgan_disj split: if_splits)

lemma prepare_dt:
  assumes "ForceServo_Prepare p c m dt s = (True, s', step)"
  obtains t where "dt = Fin t" "0 \<le> t"
proof -
  note ok = prepare_success [OF assms]
  have "(fc_control_min_ms, 5, 1, 50) \<in> set (FORCE_SERVO_PARAMETERS p)"
    by (simp add: FORCE_SERVO_PARAMETERS_def)
  from config_parameter [OF _ this] ok
  have "f32_isfinite (fl (fc_control_min_ms c))" "f32_le (fk 1) (fl (fc_control_min_ms c))" by auto
  moreover have "f32_le (Fin 0) (fk q)" if "0 \<le> q" for q by (simp add: rnd_nonneg that)
  ultimately have "f32_le (Fin 0) (fl (fc_control_min_ms c))"
    by (metis f32_le_trans zero_le_one)
  then obtain k where k: "fl (fc_control_min_ms c) = Fin k" "0 \<le> k"
    using \<open>f32_isfinite (fl (fc_control_min_ms c))\<close> by (auto simp: f32_isfinite_iff)
  obtain y where y: "fk (1 / 1000) = Fin y" "0 \<le> y"
    using rnd_close [of "1 / 1000"] rnd_nonneg [of "1 / 1000"] by auto
  have "f32_le (Fin 0) (f32_mul (Fin k) (Fin y))" using k y by (simp add: rnd_nonneg)
  moreover obtain t where "dt = Fin t" using ok by (auto simp: f32_isfinite_iff)
  ultimately show thesis
    using that ok k(1) y(1) by (cases "f32_mul (Fin k) (Fin y)") auto
qed

section \<open>Runs of the controller\<close>

text \<open>
  The control loop around the controller: each sample is prepared, the executor commits some
  integer number of millivolts (\<open>committed\<close> is any function of the step: saturation,
  interlock and quantization are its business), and the step is committed. A step that fails
  ends the session in the code; here the run goes on, so that the result covers both.
\<close>

record servo_input =
  si_measured :: f32
  si_dt :: f32
  si_committed :: "ForceServoStep \<Rightarrow> int"

definition servo_step :: "build_policy \<Rightarrow> ForceServoConfig \<Rightarrow> servo_input \<Rightarrow> ForceServo \<Rightarrow> ForceServo" where
  "servo_step p c x s =
    (let (ok, s, step) = ForceServo_Prepare p c (si_measured x) (si_dt x) s
     in if \<not> ok then s
        else fst (snd (ForceServo_Commit p c (si_committed x step) s step)))"

definition servo_run :: "build_policy \<Rightarrow> ForceServoConfig \<Rightarrow> ForceServo \<Rightarrow> servo_input list \<Rightarrow> ForceServo" where
  "servo_run p c s xs = fold (servo_step p c) xs s"

definition servo_ok :: "ForceServoConfig \<Rightarrow> ForceServo \<Rightarrow> bool" where
  "servo_ok c s \<longleftrightarrow> fs_initialized s
    \<and> f32_le (fl (fc_integral_min c)) (fs_integral s) \<and> f32_le (fs_integral s) (fl (fc_integral_max c))
    \<and> f32_le (f32_neg (fl (fc_release_cap c))) (fs_previous_committed s)
    \<and> f32_le (fs_previous_committed s) (fl (fc_press_cap c))"

lemma init_ok:
  assumes "ForceServo_Init p c m target s0 = (True, s)"
  shows "ForceServo_ConfigValid p c \<and> servo_ok c s"
proof -
  have valid: "ForceServo_ConfigValid p c"
    and s: "fs_integral s = Fin 0" "fs_previous_committed s = Fin 0" "fs_initialized s"
    using assms by (auto simp: ForceServo_Init_def zero_servo_def split: if_splits)
  from valid show ?thesis
    by (rule config_caps) (simp add: servo_ok_def s valid)
qed

lemma prepare_keeps:
  "fs_integral (fst (snd (ForceServo_Prepare p c m dt s))) = fs_integral s
    \<and> fs_previous_committed (fst (snd (ForceServo_Prepare p c m dt s))) = fs_previous_committed s
    \<and> fs_initialized (fst (snd (ForceServo_Prepare p c m dt s))) = fs_initialized s"
  by (simp add: ForceServo_Prepare_def Let_def)

lemma commit_ok:
  assumes "servo_ok c s" "ForceServo_ConfigValid p c"
  shows "servo_ok c (fst (snd (ForceServo_Commit p c committed s step)))"
  using assms(2)
proof (rule config_caps)
  fix press release rate imin imax
  assume c: "fl (fc_press_cap c) = Fin press" "fl (fc_release_cap c) = Fin release"
    "fl (fc_integral_min c) = Fin imin" "fl (fc_integral_max c) = Fin imax" "imin \<le> 0" "0 \<le> imax"
  have "imin \<le> imax" using c by linarith
  have "f32_le (Fin imin) (clamp x (Fin imin) (Fin imax)) \<and> f32_le (clamp x (Fin imin) (Fin imax)) (Fin imax)" for x
    by (rule clamp_range [OF \<open>imin \<le> imax\<close>, of x]) simp
  moreover have "f32_of_int committed \<noteq> F_NaN" by (simp add: f32_of_int_def)
  ultimately show ?thesis
    using assms(1) unfolding ForceServo_Commit_def servo_ok_def c
    by (auto simp: Let_def f32_not_lt)
qed

lemma servo_step_ok:
  assumes "servo_ok c s" "ForceServo_ConfigValid p c"
  shows "servo_ok c (servo_step p c x s)"
proof -
  obtain ok s' step where r: "ForceServo_Prepare p c (si_measured x) (si_dt x) s = (ok, s', step)"
    by (cases "ForceServo_Prepare p c (si_measured x) (si_dt x) s")
  then have "servo_ok c s'"
    using prepare_keeps [of p c "si_measured x" "si_dt x" s] assms(1) by (simp add: servo_ok_def)
  with r commit_ok [OF _ assms(2)] show ?thesis by (simp add: servo_step_def)
qed

lemma servo_run_ok: "servo_ok c s \<Longrightarrow> ForceServo_ConfigValid p c \<Longrightarrow> servo_ok c (servo_run p c s xs)"
  unfolding servo_run_def by (induction xs arbitrary: s) (simp_all add: servo_step_ok)

end
