(* ===== verification/MotorServo.thy ===== *)
theory MotorServo
  imports MotorCore ForceServo
begin

text \<open>
  The continuous mode of the real motor backend, \<^verbatim>\<open>motor_executor_real.c\<close> in the ForceServo
  builds without BuildToTarget: a session with an owner token, whose output is held only
  under a lease that every accepted sample renews, with a budget and a short boost.

  Its operations run with interrupts masked: until they leave, only the hardware of the stop
  timer moves (\<open>timer_hw\<close>), and a pending interrupt is taken when they leave (\<open>masked\<close>). For
  the same reason the tick they read is one value, \<open>now_ms\<close>, however often they read it: the
  interrupt that advances it is masked too. Session variables of type \<open>int32_t\<close> are integers.
\<close>

text \<open>\<open>FS_RELEASE_PROFILE_CEILING\<close> in the type of a command\<close>

abbreviation (input) FS_RELEASE_CEILING :: "'a :: numeral" where
  "FS_RELEASE_CEILING \<equiv> 100"

section \<open>State\<close>

record servo_vars =
  sv_open :: bool
  sv_generation :: u32
  sv_sequence :: u64
  sv_has_sequence :: bool
  sv_committed :: int
  sv_last_sign :: int
  sv_off_ms :: u32
  sv_budget_set :: bool
  sv_session_limited :: bool
  sv_boost_set :: bool
  sv_boost_used :: bool
  sv_boost_end :: bool
  sv_session_deadline :: u32
  sv_boost_deadline :: u32
  sv_receive_deadline :: u32
  sv_normal_cap :: int
  sv_boost_plan :: bool
  sv_boost_started :: u32
  sv_boost_rise :: u32
  sv_boost_end_ms :: u32
  sv_boost_initial :: int
  sv_boost_peak :: int
  sv_boost_lower :: int

record 'h servo_motor = "'h real_motor" +
  sx :: servo_vars

definition set_open :: "bool \<Rightarrow> 'h servo_motor \<Rightarrow> 'h servo_motor" where
  "set_open v e = e\<lparr>sx := (sx e)\<lparr>sv_open := v\<rparr>\<rparr>"

definition Servo_StopTimerExpiredFromIsr ::
  "MotorStopTimerEvent \<Rightarrow> 'h servo_motor \<Rightarrow> 'h servo_motor" where
  "Servo_StopTimerExpiredFromIsr event e =
    MotorExecutor_LatchCompletion event
      (set_open False (MotorStopTimer_Cancel (MotorHwReal_DisableImmediate e)))"

abbreviation sv_poll :: "'h servo_motor \<Rightarrow> 'h servo_motor" where
  "sv_poll \<equiv> poll Servo_StopTimerExpiredFromIsr"

text \<open>\<open>MotorAtomic_Enter ... MotorAtomic_Leave\<close> around a region\<close>

definition masked :: "('h servo_motor \<Rightarrow> 'r \<times> 'h servo_motor) \<Rightarrow> 'h servo_motor \<Rightarrow> 'r \<times> 'h servo_motor" where
  "masked f e = (case f e of (r, e) \<Rightarrow> (r, sv_poll e))"

section \<open>The operations shared with the other builds\<close>

definition Servo_PublishCompletion ::
  "'h real_board \<Rightarrow> MotorStopTimerEvent \<Rightarrow> 'h servo_motor \<Rightarrow> MotorResult \<times> 'h servo_motor" where
  "Servo_PublishCompletion b event e =
    (let (result, event, e) = publish_result b event e;
         e = set_completion
               (if mx_last_action (rx_motor e) = MOTOR_ACTION_CONTINUOUS \<and> event = MOTOR_STOP_TIMER_NORMAL
                then MOTOR_COMPLETION_LEASE else MotorExecutor_MapCompletion event) e
     in (result, MotorExecutor_ClearActivePlan e))"

definition Servo_PlanCommand ::
  "build_policy \<Rightarrow> MotorDirection \<Rightarrow> u32 \<Rightarrow> MotorResult \<times> u16 \<times> u16" where
  "Servo_PlanCommand p direction command_mv =
    (if bp_commissioning p
        \<and> (direction = MOTOR_DIRECTION_PRESS \<and> command_mv > FS_PRESS_PROFILE_CEILING p
           \<or> direction = MOTOR_DIRECTION_RELEASE \<and> command_mv > FS_RELEASE_CEILING)
     then (MOTOR_RESULT_INVALID, 0, 0)
     else Real_PlanCommand direction command_mv)"

text \<open>Nothing the initialisation calls reads \<open>s_servo_open\<close>, so that it may be reset first.\<close>

definition Servo_Initialize :: "'h real_board \<Rightarrow> 'h servo_motor \<Rightarrow> MotorResult \<times> 'h servo_motor" where
  "Servo_Initialize b e = Real_Initialize b (set_open False e)"

definition Servo_Disable :: "'h real_board \<Rightarrow> 'h servo_motor \<Rightarrow> MotorResult \<times> 'h servo_motor" where
  "Servo_Disable b = masked (\<lambda>e.
     disable_finish b (MotorStopTimer_Cancel (MotorHwReal_DisableImmediate (set_open False e))))"

definition Servo_Service ::
  "'h real_board \<Rightarrow> u32 \<Rightarrow> 'h servo_motor \<Rightarrow> MotorResult \<times> 'h servo_motor" where
  "Servo_Service b = motor_service sv_poll (Servo_PublishCompletion b)
     (\<lambda>e. mx_physical_output_disabled (rx_motor e)
        \<and> \<not> (sv_open (sx e) \<and> mx_last_action (rx_motor e) = MOTOR_ACTION_CONTINUOUS
             \<and> sv_committed (sx e) = 0)) b"

text \<open>\<open>pl\<close> is the interrupt when the caller runs unmasked, and \<open>timer_hw\<close> when it is masked.\<close>

definition Servo_ActiveRequestIsValid ::
  "('h servo_motor \<Rightarrow> 'h servo_motor) \<Rightarrow> 'h real_board \<Rightarrow> 'h servo_motor \<Rightarrow> bool \<times> 'h servo_motor" where
  "Servo_ActiveRequestIsValid pl b e =
    (let e = pl e
     in if mx_last_action (rx_motor e) = MOTOR_ACTION_CONTINUOUS \<and> \<not> rx_completion_event_pending e
        then
          (let (valid, e) = all_of [polled pl (\<lambda>e. sv_open (sx e)),
                 polled pl (\<lambda>e. mx_logical_active (rx_motor e)),
                 polled pl MotorStopTimer_IsHealthy, polled pl MotorStopTimer_IsArmed,
                 polled pl (\<lambda>e. MotorHwReal_OutputArmingAllowed b),
                 polled pl (\<lambda>e. MotorHwReal_IsDisabled e = (sv_committed (sx e) = 0)),
                 polled pl (\<lambda>e. MotorHwReal_MatchesPlan b (mx_planned_tim2_ccr3 (rx_motor e))
                                  (mx_planned_tim3_ccr3 (rx_motor e)) e)] e;
               e = pl e
           in if \<not> rx_completion_event_pending e
              then (let e = pl e in (valid \<and> sv_open (sx e), e))
              else active_request_valid pl b e)
        else active_request_valid pl b e)"

definition Servo_GuardOutput :: "'h real_board \<Rightarrow> 'h servo_motor \<Rightarrow> MotorResult \<times> 'h servo_motor" where
  "Servo_GuardOutput b = motor_guard sv_poll (Servo_ActiveRequestIsValid sv_poll b) b"

definition Servo_OutputIsDisabled :: "'h real_board \<Rightarrow> 'h servo_motor \<Rightarrow> bool \<times> 'h servo_motor" where
  "Servo_OutputIsDisabled = output_is_disabled sv_poll"

definition Servo_IsHealthy :: "'h real_board \<Rightarrow> 'h servo_motor \<Rightarrow> bool \<times> 'h servo_motor" where
  "Servo_IsHealthy b = is_healthy sv_poll (Servo_ActiveRequestIsValid sv_poll b) b"

definition Servo_GetSnapshot :: "'h real_board \<Rightarrow> 'h servo_motor \<Rightarrow> bool \<times> 'h servo_motor" where
  "Servo_GetSnapshot b e = (True, MotorExecutor_SetPhysicalStatus b (sv_poll e))"

section \<open>Sessions\<close>

text \<open>The owner token is written on success only.\<close>

definition MotorExecutor_BeginContinuous ::
  "'h real_board \<Rightarrow> 'h servo_motor \<Rightarrow> (MotorResult \<times> u32 option) \<times> 'h servo_motor" where
  "MotorExecutor_BeginContinuous b = masked (\<lambda>e.
     let e = timer_hw e
     in if rx_initialized e \<and> \<not> sv_open (sx e) \<and> \<not> mx_logical_active (rx_motor e)
          \<and> \<not> rx_completion_event_pending e \<and> MotorHwReal_IsDisabled e \<and> \<not> MotorStopTimer_IsArmed e
          \<and> MotorStopTimer_IsHealthy e \<and> MotorHwReal_OutputArmingAllowed b
        then
          (let generation = sv_generation (sx e) + 1;
               generation = (if generation = 0 then 1 else generation)
           in ((MOTOR_RESULT_OK, Some generation),
               e\<lparr>sx := (sx e)\<lparr>sv_generation := generation, sv_open := True, sv_has_sequence := False,
                    sv_committed := 0, sv_last_sign := 0, sv_budget_set := False,
                    sv_session_limited := False, sv_boost_set := False, sv_boost_used := False,
                    sv_boost_end := False, sv_boost_plan := False\<rparr>,
                 rx_motor := (rx_motor e)\<lparr>mx_boost_started_ms := 0, mx_boost_deadline_ms := 0,
                    mx_boost_planned_end_ms := 0, mx_last_action := MOTOR_ACTION_CONTINUOUS,
                    mx_last_completion := MOTOR_COMPLETION_NONE\<rparr>\<rparr>))
        else ((MOTOR_RESULT_INVALID, None), e))"

definition owns :: "u32 \<Rightarrow> servo_vars \<Rightarrow> bool" where
  "owns token s \<longleftrightarrow> sv_open s \<and> token = sv_generation s"

definition MotorExecutor_SetContinuousBudget ::
  "build_policy \<Rightarrow> u32 \<Rightarrow> u32 \<Rightarrow> u32 \<Rightarrow> int \<Rightarrow> 'h servo_motor \<Rightarrow> bool \<times> 'h servo_motor" where
  "MotorExecutor_SetContinuousBudget p token now duration cap = masked (\<lambda>e.
     let s = sx e;
         allowed = (owns token s \<and> \<not> sv_budget_set s \<and> \<not> sv_has_sequence s
           \<and> (3 \<le> duration \<and> duration \<le> 60000 \<or> bp_characterization p \<and> duration = 0)
           \<and> (cap > 0 \<or> bp_characterization p \<and> cap = 0) \<and> cap \<le> FS_CONTINUOUS_CEILING p)
     in (allowed,
         if allowed
         then e\<lparr>sx := s\<lparr>sv_budget_set := True, sv_session_limited := duration \<noteq> 0,
                   sv_session_deadline := now + duration, sv_normal_cap := cap\<rparr>\<rparr>
         else e))"

definition MotorExecutor_ArmContinuousBoost ::
  "'h real_board \<Rightarrow> u32 \<Rightarrow> u32 \<Rightarrow> u32 \<Rightarrow> 'h servo_motor \<Rightarrow> bool \<times> 'h servo_motor" where
  "MotorExecutor_ArmContinuousBoost b token now duration = masked (\<lambda>e.
     let s = sx e; p = rb_policy b
     in if owns token s \<and> sv_budget_set s \<and> \<not> sv_boost_used s \<and> 3 \<le> duration \<and> duration \<le> 60000
          \<and> (\<not> bp_commissioning p \<or> duration \<le> FS_APPROVED_PEAK_MS p)
          \<and> (\<not> sv_session_limited s \<or> sint (sv_session_deadline s - now) > sint duration)
        then
          (let (valid, e) = Servo_ActiveRequestIsValid timer_hw b e
           in (valid,
               if valid
               then e\<lparr>sx := (sx e)\<lparr>sv_boost_set := True, sv_boost_used := True,
                         sv_boost_deadline := now + duration, sv_boost_started := now\<rparr>,
                      rx_motor := (rx_motor e)\<lparr>mx_boost_started_ms := now,
                         mx_boost_deadline_ms := now + duration\<rparr>\<rparr>
               else e))
        else (False, e))"

definition MotorExecutor_EndContinuousBoost :: "u32 \<Rightarrow> 'h servo_motor \<Rightarrow> bool \<times> 'h servo_motor" where
  "MotorExecutor_EndContinuousBoost token = masked (\<lambda>e.
     let allowed = (owns token (sx e) \<and> sv_boost_set (sx e))
     in (allowed, if allowed then e\<lparr>sx := (sx e)\<lparr>sv_boost_end := True\<rparr>\<rparr> else e))"

text \<open>The two ways out of an operation: a refusal, and a failure that closes the session.\<close>

definition servo_done ::
  "'h real_board \<Rightarrow> MotorResult \<Rightarrow> 'h servo_motor \<Rightarrow> MotorResult \<times> 'h servo_motor" where
  "servo_done b result e = (result, MotorExecutor_SetPhysicalStatus b e)"

definition servo_fail :: "'h real_board \<Rightarrow> 'h servo_motor \<Rightarrow> MotorResult \<times> 'h servo_motor" where
  "servo_fail b e =
    (let e = MotorStopTimer_Cancel (MotorHwReal_DisableImmediate (set_open False e));
         e = (if \<not> rx_completion_event_pending e
              then MotorExecutor_LatchCompletion MOTOR_STOP_TIMER_ERROR e else e)
     in servo_done b MOTOR_RESULT_HARDWARE_ERROR e)"

text \<open>\<open>(int32_t)(deadline - now) < 2\<close>\<close>

definition due :: "u32 \<Rightarrow> u32 \<Rightarrow> bool" where
  "due deadline now \<longleftrightarrow> sint (deadline - now) < 2"

abbreviation sv_commit :: "'h servo_motor \<Rightarrow> bool \<times> 'h servo_motor" where
  "sv_commit \<equiv> MotorStopTimer_CommitArm Servo_StopTimerExpiredFromIsr"

text \<open>\<open>!s_servo_open || s_completion_event_pending\<close>\<close>

definition revoked :: "'h servo_motor \<Rightarrow> bool" where
  "revoked e \<longleftrightarrow> \<not> sv_open (sx e) \<or> rx_completion_event_pending e"

text \<open>
  \<open>ok_or_fail\<close> runs a step that answers whether it worked and goes to \<open>fail\<close> when it did not.
\<close>

definition ok_or_fail ::
  "'h real_board \<Rightarrow> bool \<times> 'h servo_motor \<Rightarrow> ('h servo_motor \<Rightarrow> MotorResult \<times> 'h servo_motor)
    \<Rightarrow> MotorResult \<times> 'h servo_motor" where
  "ok_or_fail b r k = (case r of (success, e) \<Rightarrow> if success then k e else servo_fail b e)"

section \<open>The boost\<close>

text \<open>The boost's rising command; the product is computed in 64 bits.\<close>

definition MotorExecutor_ContinuousBoostCommand :: "u32 \<Rightarrow> u32 \<Rightarrow> servo_vars \<Rightarrow> int" where
  "MotorExecutor_ContinuousBoostCommand token now s =
    (if \<not> owns token s \<or> \<not> sv_boost_plan s \<or> \<not> sv_boost_set s then 0
     else
       (let elapsed = (if sint (now - sv_boost_started s) < 0 then 0 else now - sv_boost_started s)
        in if elapsed \<ge> sv_boost_rise s then sv_boost_peak s
           else sv_boost_initial s
             + sint (ucast ((of_int (sv_boost_peak s - sv_boost_initial s) * ucast elapsed :: u64)
                            div ucast (sv_boost_rise s)) :: u32)))"

definition handoff_refused :: "build_policy \<Rightarrow> u32 \<Rightarrow> int \<Rightarrow> 'h servo_motor \<Rightarrow> bool" where
  "handoff_refused p now requested e \<longleftrightarrow>
    (let s = sx e
     in \<not> sv_budget_set s \<or> \<not> sv_boost_set s \<or> \<not> sv_has_sequence s
      \<or> requested < 0 \<or> requested > sv_normal_cap s \<or> requested > sv_committed s
      \<or> sv_committed s < 0 \<or> \<not> bp_characterization p \<and> sv_committed s = 0
      \<or> rx_completion_event_pending e
      \<or> due (sv_boost_deadline s) now \<or> due (sv_receive_deadline s) now
      \<or> sv_session_limited s \<and> due (sv_session_deadline s) now)"

text \<open>The lower output: off, or a smaller press command in place of the present one.\<close>

definition handoff_output ::
  "'h real_board \<Rightarrow> u32 \<Rightarrow> int \<Rightarrow> 'h servo_motor \<Rightarrow> bool \<times> u16 \<times> u16 \<times> 'h servo_motor" where
  "handoff_output b now requested e =
    (if requested = 0
     then
       (let e = MotorHwReal_DisableImmediate e
        in if \<not> MotorHwReal_IsDisabled e then (False, 0, 0, e)
           else (True, 0, 0, e\<lparr>sx := (sx e)\<lparr>sv_off_ms := now\<rparr>\<rparr>))
     else
       (let (result, t2, t3) = Servo_PlanCommand (rb_policy b) MOTOR_DIRECTION_PRESS (of_int requested)
        in if result \<noteq> MOTOR_RESULT_OK then (False, t2, t3, e)
           else
             (let (success, e) = MotorHwReal_Update b True t3 e
              in (success \<and> \<not> MotorHwReal_IsDisabled e, t2, t3, e))))"

text \<open>After the lower output is verified: the lease is set back to the receive deadline.\<close>

definition handoff_renew ::
  "'h real_board \<Rightarrow> u32 \<Rightarrow> int \<Rightarrow> u16 \<Rightarrow> u16 \<Rightarrow> 'h servo_motor \<Rightarrow> MotorResult \<times> 'h servo_motor" where
  "handoff_renew b now requested t2 t3 e =
    (let s = sx e
     in if due (sv_receive_deadline s) now \<or> sv_session_limited s \<and> due (sv_session_deadline s) now
        then servo_fail b e
        else
          (let remaining = sv_receive_deadline s - now;
               remaining = (if sv_session_limited s \<and> sv_session_deadline s - now < remaining
                            then sv_session_deadline s - now else remaining)
           in ok_or_fail b
                (MotorStopTimer_RenewLease (rb_policy b) Servo_StopTimerExpiredFromIsr remaining e)
                (\<lambda>e. ok_or_fail b (sv_commit e)
                  (\<lambda>e. if revoked e then servo_fail b e
                    else servo_done b MOTOR_RESULT_OK
                      (e\<lparr>sx := (sx e)\<lparr>sv_boost_set := False, sv_boost_end := False,
                            sv_boost_plan := False, sv_committed := requested\<rparr>,
                         rx_motor := (rx_motor e)\<lparr>mx_command_mv := of_int requested,
                            mx_planned_tim2_ccr3 := t2, mx_planned_tim3_ccr3 := t3,
                            mx_logical_deadline_ms := now + remaining,
                            mx_logical_backstop_ms := now + remaining,
                            mx_request_sequence := mx_request_sequence (rx_motor e) + 1\<rparr>\<rparr>)))))"

definition handoff_boost ::
  "'h real_board \<Rightarrow> u32 \<Rightarrow> u32 \<Rightarrow> int \<Rightarrow> 'h servo_motor \<Rightarrow> MotorResult \<times> 'h servo_motor" where
  "handoff_boost b token now requested e =
    (if \<not> owns token (sx e) then servo_done b MOTOR_RESULT_INVALID e
     else if handoff_refused (rb_policy b) now requested e then servo_fail b e
     else
       ok_or_fail b (Servo_ActiveRequestIsValid timer_hw b e)
         (\<lambda>e. ok_or_fail b (sv_commit e)
           (\<lambda>e. case handoff_output b now requested e of (success, t2, t3, e) \<Rightarrow>
              if \<not> success \<or> \<not> MotorHwReal_MatchesPlan b t2 t3 e then servo_fail b e
              else ok_or_fail b (sv_commit e)
                (\<lambda>e. if revoked e then servo_fail b e else handoff_renew b now requested t2 t3 e))))"

definition MotorExecutor_HandoffContinuousBoost ::
  "'h real_board \<Rightarrow> u32 \<Rightarrow> u32 \<Rightarrow> int \<Rightarrow> 'h servo_motor \<Rightarrow> MotorResult \<times> 'h servo_motor" where
  "MotorExecutor_HandoffContinuousBoost b token now requested =
    masked (handoff_boost b token now requested)"

definition MotorExecutor_SetContinuousBoostPlan ::
  "'h real_board \<Rightarrow> u32 \<Rightarrow> u32 \<Rightarrow> u32 \<Rightarrow> u32 \<Rightarrow> int \<Rightarrow> int \<Rightarrow> 'h servo_motor \<Rightarrow> bool \<times> 'h servo_motor" where
  "MotorExecutor_SetContinuousBoostPlan b token now rise end_ms peak lower = masked (\<lambda>e.
     let s = sx e; p = rb_policy b
     in if owns token s \<and> sv_boost_set s \<and> \<not> sv_boost_plan s
          \<and> 1 \<le> rise \<and> rise < end_ms \<and> end_ms \<le> sv_boost_deadline s - sv_boost_started s - 2
          \<and> sint (now - (sv_boost_started s + end_ms)) < 0
          \<and> (sv_committed s > 0
             \<or> bp_characterization p \<and> sv_committed s = 0 \<and> sv_last_sign s \<ge> 0)
          \<and> (peak > sv_normal_cap s \<or> bp_characterization p \<and> peak > 0)
          \<and> peak \<le> FS_EXECUTOR_PRESS_CEILING p \<and> lower \<ge> 0 \<and> lower \<le> sv_normal_cap s
        then
          (let (valid, e) = Servo_ActiveRequestIsValid timer_hw b e
           in (valid,
               if valid
               then (let s = sx e
                     in e\<lparr>sx := s\<lparr>sv_boost_plan := True,
                              sv_boost_initial := (if sv_committed s < peak then sv_committed s else peak),
                              sv_boost_peak := peak, sv_boost_lower := lower, sv_boost_rise := rise,
                              sv_boost_end_ms := sv_boost_started s + end_ms\<rparr>,
                          rx_motor := (rx_motor e)\<lparr>mx_boost_planned_end_ms := sv_boost_started s + end_ms\<rparr>\<rparr>)
               else e))
        else (False, e))"

text \<open>
  \<open>boost_step\<close> is one step of the rising output; \<open>committed\<close> and \<open>finished\<close> are the caller's
  variables, written through its pointers. The handoff is called with interrupts masked already.
\<close>

definition boost_step ::
  "'h real_board \<Rightarrow> int \<Rightarrow> 'h servo_motor \<Rightarrow> MotorResult \<times> 'h servo_motor" where
  "boost_step b requested e =
    (if requested = sv_committed (sx e) then servo_done b MOTOR_RESULT_OK e
     else
       (let (result, t2, t3) = Servo_PlanCommand (rb_policy b) MOTOR_DIRECTION_PRESS (of_int requested)
        in if result \<noteq> MOTOR_RESULT_OK then servo_fail b e
           else ok_or_fail b (if sv_committed (sx e) \<noteq> 0 then MotorHwReal_Update b True t3 e
                              else MotorHwReal_ApplyPress b t3 e)
             (\<lambda>e. if \<not> MotorHwReal_MatchesPlan b t2 t3 e then servo_fail b e
                else ok_or_fail b (sv_commit e)
                  (\<lambda>e. if revoked e then servo_fail b e
                    else servo_done b MOTOR_RESULT_OK
                      (e\<lparr>sx := (sx e)\<lparr>sv_committed := requested, sv_last_sign := 1\<rparr>,
                         rx_motor := (rx_motor e)\<lparr>mx_command_mv := of_int requested,
                            mx_planned_tim2_ccr3 := t2, mx_planned_tim3_ccr3 := t3,
                            mx_request_sequence := mx_request_sequence (rx_motor e) + 1\<rparr>\<rparr>)))))"

definition service_boost ::
  "'h real_board \<Rightarrow> u32 \<Rightarrow> u32 \<Rightarrow> int \<Rightarrow> bool \<Rightarrow> 'h servo_motor
    \<Rightarrow> (MotorResult \<times> int \<times> bool) \<times> 'h servo_motor" where
  "service_boost b token now actual finished e =
    (if \<not> owns token (sx e)
     then case servo_done b MOTOR_RESULT_INVALID e of (r, e) \<Rightarrow> ((r, actual, finished), e)
     else
       let s = sx e; failed = (\<lambda>(r, e). ((r, actual, False), e))
       in if \<not> sv_boost_plan s \<or> \<not> sv_boost_set s \<or> rx_completion_event_pending e
            \<or> due (sv_boost_deadline s) now \<or> due (sv_receive_deadline s) now
            \<or> sv_session_limited s \<and> due (sv_session_deadline s) now
          then failed (servo_fail b e)
          else
            case Servo_ActiveRequestIsValid timer_hw b e of (valid, e) \<Rightarrow>
              if \<not> valid then failed (servo_fail b e)
              else if sint (now - sv_boost_end_ms s) \<ge> 0
              then
                (let lower = (if sv_boost_lower s < sv_committed s then sv_boost_lower s else sv_committed s)
                 in case handoff_boost b token now lower e of (r, e) \<Rightarrow>
                      case servo_done b r e of (r, e) \<Rightarrow>
                        ((r, if r = MOTOR_RESULT_OK then lower else actual, r = MOTOR_RESULT_OK), e))
              else
                (let requested = MotorExecutor_ContinuousBoostCommand token now s
                 in if requested < sv_committed s \<or> requested > sv_boost_peak s \<or> requested < 0
                      \<or> \<not> bp_characterization (rb_policy b) \<and> requested = 0
                    then failed (servo_fail b e)
                    else
                      case ok_or_fail b (sv_commit e) (boost_step b requested) of (r, e) \<Rightarrow>
                        ((r, if r = MOTOR_RESULT_OK then sv_committed (sx e) else actual, False), e)))"

definition MotorExecutor_ServiceContinuousBoost ::
  "'h real_board \<Rightarrow> u32 \<Rightarrow> u32 \<Rightarrow> int \<Rightarrow> bool \<Rightarrow> 'h servo_motor
    \<Rightarrow> (MotorResult \<times> int \<times> bool) \<times> 'h servo_motor" where
  "MotorExecutor_ServiceContinuousBoost b token now actual finished =
    masked (service_boost b token now actual finished)"

section \<open>Updates\<close>

text \<open>The commands and timings an update may ask for, and the deadlines it must keep.\<close>

definition update_bounds_bad :: "build_policy \<Rightarrow> u32 \<Rightarrow> u32 \<Rightarrow> u32 \<Rightarrow> u32 \<Rightarrow> int \<Rightarrow> bool \<Rightarrow> bool" where
  "update_bounds_bad p age lease_ms max_age_ms deadtime_ms requested boost \<longleftrightarrow>
    bp_commissioning p
      \<and> (requested > FS_CONTINUOUS_CEILING p \<and> \<not> boost
         \<or> requested > FS_EXECUTOR_PRESS_CEILING p \<or> requested < - FS_RELEASE_CEILING
         \<or> lease_ms > FORCE_SERVO_COMMISSIONING_LEASE_MS
         \<or> max_age_ms > FORCE_SERVO_COMMISSIONING_AGE_MS
         \<or> deadtime_ms < FORCE_SERVO_COMMISSIONING_DEADTIME_MS)
    \<or> lease_ms < 3 \<or> \<not> bp_commissioning p \<and> lease_ms > 100
    \<or> max_age_ms \<ge> lease_ms \<or> age > max_age_ms \<or> age \<ge> lease_ms - 1
    \<or> deadtime_ms < 1 \<or> deadtime_ms > 100
    \<or> \<not> bp_commissioning p \<and> (requested > 5000 \<or> requested < - 800)"

definition update_refused ::
  "'h real_board \<Rightarrow> u32 \<Rightarrow> u32 \<Rightarrow> u32 \<Rightarrow> u32 \<Rightarrow> u32 \<Rightarrow> u32 \<Rightarrow> int \<Rightarrow> 'h servo_motor \<Rightarrow> bool" where
  "update_refused b token now age lease_ms max_age_ms deadtime_ms requested e \<longleftrightarrow>
    (let s = sx e
     in sv_budget_set s
        \<and> (sv_session_limited s \<and> sint (now - sv_session_deadline s) \<ge> 0
           \<or> sv_boost_set s \<and> sint (now - sv_boost_deadline s) \<ge> 0
           \<or> requested > sv_normal_cap s \<and> \<not> sv_boost_set s)
      \<or> sv_boost_plan s \<and> \<not> sv_boost_end s \<and> requested > MotorExecutor_ContinuousBoostCommand token now s
      \<or> rx_completion_event_pending e
      \<or> update_bounds_bad (rb_policy b) age lease_ms max_age_ms deadtime_ms requested (sv_boost_set s)
      \<or> \<not> MotorHwReal_OutputArmingAllowed b)"

text \<open>The running request of a session that has had an update before.\<close>

definition update_live :: "'h real_board \<Rightarrow> u32 \<Rightarrow> 'h servo_motor \<Rightarrow> bool \<times> 'h servo_motor" where
  "update_live b now e =
    (if \<not> sv_has_sequence (sx e) then (True, e)
     else
       (let e = timer_hw e
        in if \<not> MotorStopTimer_IsArmed e then (False, e)
           else
             (let (valid, e) = Servo_ActiveRequestIsValid timer_hw b e
              in (valid \<and> \<not> sint (now - mx_logical_deadline_ms (rx_motor e)) \<ge> 0, e))))"

text \<open>
  The change of direction: an output of the other direction is turned off first, and the new
  direction waits for the dead time. The answer is whether the output could be turned off,
  the command that may be given now, and whether the asked one was held back.
\<close>

definition update_interlock ::
  "u32 \<Rightarrow> u32 \<Rightarrow> int \<Rightarrow> 'h servo_motor \<Rightarrow> bool \<times> int \<times> bool \<times> 'h servo_motor" where
  "update_interlock now deadtime_ms requested e =
    (let s = sx e; sign = sgn requested
     in if sv_committed s \<noteq> 0 \<and> sign \<noteq> 0 \<and> sign \<noteq> sv_last_sign s
        then
          (let e = MotorHwReal_DisableImmediate e
           in if \<not> MotorHwReal_IsDisabled e then (False, requested, False, e)
              else (True, 0, True, e\<lparr>sx := (sx e)\<lparr>sv_committed := 0, sv_off_ms := now\<rparr>\<rparr>))
        else if sign \<noteq> 0 \<and> sv_last_sign s \<noteq> 0 \<and> sign \<noteq> sv_last_sign s
             \<and> now - sv_off_ms s < deadtime_ms
        then (True, 0, True, e)
        else (True, requested, False, e))"

definition update_output ::
  "'h real_board \<Rightarrow> u32 \<Rightarrow> int \<Rightarrow> 'h servo_motor \<Rightarrow> bool \<times> u16 \<times> u16 \<times> 'h servo_motor" where
  "update_output b now actual e =
    (if actual = 0
     then
       (let e = (if sv_committed (sx e) \<noteq> 0 then e\<lparr>sx := (sx e)\<lparr>sv_off_ms := now\<rparr>\<rparr> else e);
            e = MotorHwReal_DisableImmediate e
        in (MotorHwReal_IsDisabled e, 0, 0, e))
     else
       (let dir = (if actual > 0 then MOTOR_DIRECTION_PRESS else MOTOR_DIRECTION_RELEASE);
            (result, t2, t3) = Servo_PlanCommand (rb_policy b) dir (of_int \<bar>actual\<bar>)
        in if result \<noteq> MOTOR_RESULT_OK then (False, t2, t3, e)
           else
             (let (success, e) =
                    (if sv_committed (sx e) \<noteq> 0
                     then MotorHwReal_Update b (actual > 0) (if actual > 0 then t3 else t2) e
                     else if actual > 0 then MotorHwReal_ApplyPress b t3 e
                     else MotorHwReal_ApplyRelease b t2 e)
              in if \<not> success \<or> MotorHwReal_IsDisabled e then (False, t2, t3, e)
                 else (True, t2, t3, e\<lparr>sx := (sx e)\<lparr>sv_last_sign := (if actual > 0 then 1 else - 1)\<rparr>\<rparr>))))"

text \<open>What an accepted update records.\<close>

definition update_record ::
  "u64 \<Rightarrow> u32 \<Rightarrow> u32 \<Rightarrow> u32 \<Rightarrow> u32 \<Rightarrow> int \<Rightarrow> u16 \<Rightarrow> u16 \<Rightarrow> 'h servo_motor \<Rightarrow> 'h servo_motor" where
  "update_record sequence received_ms lease_ms now remaining actual t2 t3 e =
    e\<lparr>sx := (sx e)\<lparr>sv_receive_deadline := received_ms + lease_ms, sv_sequence := sequence,
          sv_has_sequence := True, sv_committed := actual\<rparr>,
      rx_motor := (rx_motor e)\<lparr>mx_last_action := MOTOR_ACTION_CONTINUOUS, mx_logical_active := True,
          mx_last_completion := MOTOR_COMPLETION_NONE,
          mx_direction := (if actual < 0 then MOTOR_DIRECTION_RELEASE else MOTOR_DIRECTION_PRESS),
          mx_command_mv := of_int \<bar>actual\<bar>, mx_requested_duration_ms := 0,
          mx_planned_tim2_ccr3 := t2, mx_planned_tim3_ccr3 := t3,
          mx_logical_deadline_ms := now + remaining, mx_logical_backstop_ms := now + remaining,
          mx_request_sequence := mx_request_sequence (rx_motor e) + 1\<rparr>\<rparr>"

text \<open>
  The end of an update, from the lease on: the lease of \<open>remaining\<close> milliseconds is started or
  renewed, the output installed and verified, and after a boost the lease set to
  \<open>normal_remaining\<close>.
\<close>

definition update_finish ::
  "'h real_board \<Rightarrow> u64 \<Rightarrow> u32 \<Rightarrow> u32 \<Rightarrow> u32 \<Rightarrow> int \<Rightarrow> bool \<Rightarrow> u32 \<Rightarrow> u32 \<Rightarrow> u16 \<Rightarrow> u16 \<Rightarrow> 'h servo_motor
    \<Rightarrow> MotorResult \<times> 'h servo_motor" where
  "update_finish b sequence received_ms lease_ms now actual end_boost remaining normal_remaining t2 t3 e =
    (if revoked e then servo_fail b e
     else if end_boost
     then
       ok_or_fail b (MotorStopTimer_RenewLease (rb_policy b) Servo_StopTimerExpiredFromIsr normal_remaining e)
         (\<lambda>e. ok_or_fail b (sv_commit e)
           (\<lambda>e. servo_done b MOTOR_RESULT_OK
             (update_record sequence received_ms lease_ms now normal_remaining actual t2 t3
               (e\<lparr>sx := (sx e)\<lparr>sv_boost_set := False, sv_boost_plan := False\<rparr>\<rparr>))))
     else servo_done b MOTOR_RESULT_OK
            (update_record sequence received_ms lease_ms now remaining actual t2 t3 e))"

definition update_install ::
  "'h real_board \<Rightarrow> u64 \<Rightarrow> u32 \<Rightarrow> u32 \<Rightarrow> u32 \<Rightarrow> int \<Rightarrow> bool \<Rightarrow> u32 \<Rightarrow> u32 \<Rightarrow> 'h servo_motor
    \<Rightarrow> MotorResult \<times> 'h servo_motor" where
  "update_install b sequence received_ms lease_ms now actual end_boost remaining normal_remaining e =
    (if revoked e then servo_fail b e
     else
       case update_output b now actual e of (success, t2, t3, e) \<Rightarrow>
         if \<not> success then servo_fail b e
         else ok_or_fail b (sv_commit e)
           (update_finish b sequence received_ms lease_ms now actual end_boost remaining normal_remaining t2 t3))"

definition update_commit ::
  "'h real_board \<Rightarrow> u64 \<Rightarrow> u32 \<Rightarrow> u32 \<Rightarrow> u32 \<Rightarrow> int \<Rightarrow> 'h servo_motor \<Rightarrow> MotorResult \<times> 'h servo_motor" where
  "update_commit b sequence received_ms lease_ms now actual e =
    (let s = sx e; p = rb_policy b;
         remaining = lease_ms - (now - received_ms);
         remaining = (if sv_session_limited s \<and> sv_session_deadline s - now < remaining
                      then sv_session_deadline s - now else remaining);
         normal_remaining = remaining;
         end_boost = (sv_boost_set s \<and> sv_boost_end s \<and> actual \<le> sv_normal_cap s);
         remaining = (if sv_boost_set s \<and> sv_boost_deadline s - now < remaining
                      then sv_boost_deadline s - now else remaining)
     in ok_or_fail b
          (if sv_has_sequence s
           then MotorStopTimer_RenewLease p Servo_StopTimerExpiredFromIsr remaining e
           else MotorStopTimer_ArmLease p Servo_StopTimerExpiredFromIsr remaining e)
          (update_install b sequence received_ms lease_ms now actual end_boost remaining normal_remaining))"

text \<open>A caller that does not own the session, or a sample that is not newer than the last.\<close>

definition update_stale :: "u32 \<Rightarrow> u64 \<Rightarrow> servo_vars \<Rightarrow> bool" where
  "update_stale token sequence s \<longleftrightarrow>
    (let distance = sequence - sv_sequence s
     in \<not> owns token s \<or> sv_has_sequence s \<and> (distance = 0 \<or> distance \<ge> 0x8000000000000000))"

text \<open>\<open>committed\<close> and \<open>interlocked\<close> are the caller's variables.\<close>

definition update_continuous ::
  "'h real_board \<Rightarrow> u32 \<Rightarrow> u64 \<Rightarrow> u32 \<Rightarrow> u32 \<Rightarrow> u32 \<Rightarrow> u32 \<Rightarrow> u32 \<Rightarrow> int \<Rightarrow> int \<Rightarrow> bool \<Rightarrow> 'h servo_motor
    \<Rightarrow> (MotorResult \<times> int \<times> bool) \<times> 'h servo_motor" where
  "update_continuous b token sequence received_ms now lease_ms max_age_ms deadtime_ms requested
      committed interlocked e =
    (let age = now - received_ms; result = (\<lambda>c i (r, e). ((r, c, i), e))
     in if update_stale token sequence (sx e)
        then result committed interlocked (servo_done b MOTOR_RESULT_INVALID e)
        else if update_refused b token now age lease_ms max_age_ms deadtime_ms requested e
        then result committed interlocked (servo_fail b e)
        else
          case update_live b now e of (live, e) \<Rightarrow>
            if \<not> live then result committed interlocked (servo_fail b e)
            else
              case update_interlock now deadtime_ms requested e of (success, actual, held, e) \<Rightarrow>
                if \<not> success then result committed held (servo_fail b e)
                else
                  case update_commit b sequence received_ms lease_ms now actual e of (r, e) \<Rightarrow>
                    ((r, if r = MOTOR_RESULT_OK then actual else committed, held), e))"

definition MotorExecutor_UpdateContinuous ::
  "'h real_board \<Rightarrow> u32 \<Rightarrow> u64 \<Rightarrow> u32 \<Rightarrow> u32 \<Rightarrow> u32 \<Rightarrow> u32 \<Rightarrow> u32 \<Rightarrow> int \<Rightarrow> int \<Rightarrow> bool \<Rightarrow> 'h servo_motor
    \<Rightarrow> (MotorResult \<times> int \<times> bool) \<times> 'h servo_motor" where
  "MotorExecutor_UpdateContinuous b token sequence received_ms now lease_ms max_age_ms deadtime_ms
      requested committed interlocked =
    masked (update_continuous b token sequence received_ms now lease_ms max_age_ms deadtime_ms
      requested committed interlocked)"

definition MotorExecutor_ContinuousExpired :: "'h servo_motor \<Rightarrow> bool \<times> 'h servo_motor" where
  "MotorExecutor_ContinuousExpired e =
    (let e = sv_poll e
     in if mx_last_action (rx_motor e) \<noteq> MOTOR_ACTION_CONTINUOUS then (False, e)
        else if \<not> sv_open (sx e) then (True, e)
        else (let e = sv_poll e in (rx_completion_event_pending e, e)))"

text \<open>
  The one-shot starts: refused while a session is open and in every build that may drive the
  motor in continuous mode; in the others no output may be armed, so that they fail.
\<close>

definition Servo_Start ::
  "'h real_board \<Rightarrow> MotorDirection \<Rightarrow> u32 \<Rightarrow> u32 \<Rightarrow> u32 \<Rightarrow> 'h servo_motor \<Rightarrow> MotorResult \<times> 'h servo_motor" where
  "Servo_Start b direction command_mv duration_ms backstop_ms e =
    (let e = sv_poll e
     in if sv_open (sx e) then (MOTOR_RESULT_BUSY, e)
        else if bp_commissioning (rb_policy b) then (MOTOR_RESULT_INVALID, e)
        else if mx_logical_active (rx_motor e) then (MOTOR_RESULT_BUSY, e)
        else if duration_ms = 0 \<or> backstop_ms \<le> duration_ms then (MOTOR_RESULT_INVALID, e)
        else
          (let (result, _) = Servo_PlanCommand (rb_policy b) direction command_mv
           in if result \<noteq> MOTOR_RESULT_OK then (result, e)
              else
                (let e = MotorExecutor_ClearFailure e;
                     e = MotorHwReal_DisableImmediate (sv_poll e);
                     e = MotorStopTimer_Cancel (sv_poll e);
                     e = MotorExecutor_SetPhysicalStatus b e
                 in if \<not> rx_initialized e \<or> \<not> mx_physical_output_disabled (rx_motor e)
                    then MotorExecutor_FailStart b MOTOR_RESULT_HARDWARE_ERROR
                           (MotorExecutor_LatchFailure MOTOR_RESULT_HARDWARE_ERROR 0 29 e)
                    else MotorExecutor_FailStart b MOTOR_RESULT_HARDWARE_ERROR
                           (MotorExecutor_LatchFailure MOTOR_RESULT_HARDWARE_ERROR 0 30 e))))"

end
