(* ===== verification/MotorServoSafety.thy ===== *)
theory MotorServoSafety
  imports MotorServo
begin

text \<open>
  The invariant of the continuous mode: the output is shut down with the timer disarmed, or a
  session is open and holds exactly its committed command under a running lease.
\<close>

section \<open>The invariant\<close>

text \<open>The stop timer counting towards the end of the lease, its interrupt enabled.\<close>

definition lease_armed :: "('h, 'a) stop_timer_scheme \<Rightarrow> bool" where
  "lease_armed e \<longleftrightarrow> st_armed e \<and> st_handler e \<and> tim5_irq_enabled e \<and> tim5_dier e = 3
    \<and> tim5_cr1 e AND TIM_CR1_CEN \<noteq> 0 \<and> tim5_cr1 e AND TIM_CR1_OPM = 0"

text \<open>The output is the committed command, as planned, on one leg; or off when it is zero.\<close>

definition output_held :: "'h real_board \<Rightarrow> 'h servo_motor \<Rightarrow> bool" where
  "output_held b e \<longleftrightarrow>
    (let c = sv_committed (sx e); m = rx_motor e; p = rb_policy b
     in if c = 0
        then MotorHwReal_IsDisabled e \<and> mx_planned_tim2_ccr3 m = 0 \<and> mx_planned_tim3_ccr3 m = 0
        else MotorHwReal_OutputArmingAllowed b
          \<and> Servo_PlanCommand p (if c > 0 then MOTOR_DIRECTION_PRESS else MOTOR_DIRECTION_RELEASE) (of_int \<bar>c\<bar>)
              = (MOTOR_RESULT_OK, mx_planned_tim2_ccr3 m, mx_planned_tim3_ccr3 m)
          \<and> MotorHwReal_ActiveCompareIsValid (c > 0)
              (if c > 0 then mx_planned_tim3_ccr3 m else mx_planned_tim2_ccr3 m) e)"

text \<open>The limits of the committed command.\<close>

definition command_limited :: "build_policy \<Rightarrow> servo_vars \<Rightarrow> bool" where
  "command_limited p s \<longleftrightarrow> (bp_commissioning p \<longrightarrow>
    - FS_RELEASE_CEILING \<le> sv_committed s \<and> sv_committed s \<le> FS_EXECUTOR_PRESS_CEILING p
    \<and> (sv_committed s > FS_CONTINUOUS_CEILING p \<longrightarrow> sv_boost_set s))"

definition held :: "'h real_board \<Rightarrow> 'h servo_motor \<Rightarrow> bool" where
  "held b e \<longleftrightarrow> lease_armed e \<and> pins_ok e \<and> \<not> rx_completion_event_pending e
    \<and> sv_open (sx e) \<and> sv_has_sequence (sx e) \<and> mx_logical_active (rx_motor e)
    \<and> mx_last_action (rx_motor e) = MOTOR_ACTION_CONTINUOUS
    \<and> output_held b e \<and> command_limited (rb_policy b) (sx e)"

text \<open>\<open>servo_mid\<close> holds while interrupts are masked, \<open>servo_ok\<close> when a pending one has been taken.\<close>

definition servo_mid :: "'h real_board \<Rightarrow> 'h servo_motor \<Rightarrow> bool" where
  "servo_mid b e \<longleftrightarrow> quiet e \<or> held b e"

definition servo_ok :: "'h real_board \<Rightarrow> 'h servo_motor \<Rightarrow> bool" where
  "servo_ok b e \<longleftrightarrow> quiet e \<or> held b e \<and> tim5_sr e AND 3 = 0"

text \<open>What a session remembers of its budget and its boost.\<close>

definition session_ok :: "build_policy \<Rightarrow> servo_vars \<Rightarrow> bool" where
  "session_ok p s \<longleftrightarrow> (sv_budget_set s \<longrightarrow> sv_normal_cap s \<le> FS_CONTINUOUS_CEILING p)
    \<and> (sv_boost_set s \<longrightarrow> sv_budget_set s)
    \<and> (sv_boost_plan s \<longrightarrow> sv_boost_peak s \<le> FS_EXECUTOR_PRESS_CEILING p)"

lemma servo_ok_mid: "servo_ok b e \<Longrightarrow> servo_mid b e"
  by (auto simp: servo_ok_def servo_mid_def)

section \<open>Frames\<close>

lemma sx_same:
  assumes "real_motor.more (e :: 'h servo_motor) = real_motor.more e'"
  shows "sx e = sx e'"
  using assms by (cases e; cases e'; simp)

lemmas stop_sx = sx_same [OF rx_same(5)]

lemma sx_simps [simp]:
  "sx (MotorStopTimer_Cancel e) = sx e" "sx (timer_hw e) = sx e"
  "sx (MotorHwReal_DisableImmediate e) = sx e" "sx (MotorExecutor_LatchFailure r s f e) = sx e"
  "sx (MotorExecutor_SetPhysicalStatus b e) = sx e" "sx (MotorExecutor_ClearActivePlan e) = sx e"
  "sx (MotorExecutor_ClearPendingCompletion e) = sx e" "sx (MotorExecutor_LatchCompletion ev e) = sx e"
  "sx (set_completion c e) = sx e" "sx (snd (MotorExecutor_TakeCompletion e)) = sx e"
  "sx (MotorExecutor_ClearFailure e) = sx e" "sx (set_open v e) = (sx e)\<lparr>sv_open := v\<rparr>"
proof -
  show "sx (MotorStopTimer_Cancel e) = sx e" "sx (timer_hw e) = sx e" "sx (MotorHwReal_DisableImmediate e) = sx e"
    by (rule stop_sx, simp)+
qed (simp_all add: MotorExecutor_LatchFailure_def MotorExecutor_ClearFailure_def
      MotorExecutor_SetPhysicalStatus_def MotorExecutor_ClearActivePlan_def
      MotorExecutor_ClearPendingCompletion_def MotorExecutor_LatchCompletion_def set_completion_def
      MotorExecutor_TakeCompletion_def set_open_def Let_def)

lemma set_open_simps [simp]:
  "quiet (set_open v e) = quiet e" "wired (set_open v e) = wired e" "pins_ok (set_open v e) = pins_ok e"
  "MotorHwReal_IsDisabled (set_open v e) = MotorHwReal_IsDisabled e"
  "rx_motor (set_open v e) = rx_motor e" "rx_initialized (set_open v e) = rx_initialized e"
  "rx_completion_event_pending (set_open v e) = rx_completion_event_pending e"
  "st_handler (set_open v e) = st_handler e" "st_initialized (set_open v e) = st_initialized e"
  by (simp_all add: set_open_def quiet_def low_def wired_def pins_ok_def MotorHwReal_IsDisabled_def)

lemma quiet_sx [simp]: "quiet (e\<lparr>sx := s\<rparr>) = quiet e" "wired (e\<lparr>sx := s\<rparr>) = wired e"
  by (simp_all add: quiet_def low_def wired_def pins_ok_def MotorHwReal_IsDisabled_def)

lemma session_closed [simp]: "session_ok p (s\<lparr>sv_open := v\<rparr>) = session_ok p s"
  by (simp add: session_ok_def)

interpretation servo_handler: motor_interrupt Servo_StopTimerExpiredFromIsr
  by unfold_locales
    (simp_all add: Servo_StopTimerExpiredFromIsr_def MotorExecutor_LatchCompletion_def
      MotorHwReal_IsDisabled_def [of "_\<lparr>rx_pending_completion_event := _, rx_completion_event_pending := _\<rparr>"]
      pins_ok_def [of "_\<lparr>rx_pending_completion_event := _, rx_completion_event_pending := _\<rparr>"]
      flip: MotorHwReal_IsDisabled_def pins_ok_def)

lemma expired_sx [simp]: "sx (Servo_StopTimerExpiredFromIsr ev e) = (sx e)\<lparr>sv_open := False\<rparr>"
  by (simp add: Servo_StopTimerExpiredFromIsr_def)

lemma stage_sx [simp]: "sx (e\<lparr>st_last_failure_stage := n\<rparr>) = sx e"
  "sx (e\<lparr>st_last_failure_stage := n, st_healthy := v\<rparr>) = sx e"
  by simp_all

lemma irq_sx:
  "sx (MotorStopTimer_IrqHandler Servo_StopTimerExpiredFromIsr e) = (if st_handler e then (sx e)\<lparr>sv_open := False\<rparr> else sx e)"
  by (simp add: MotorStopTimer_IrqHandler_def Let_def)

lemma poll_session [simp]: "session_ok p (sx (sv_poll e)) = session_ok p (sx e)"
  by (simp add: poll_def Let_def irq_sx)

text \<open>A pending interrupt is taken when the region ends.\<close>

lemma lease_timer_hw [simp]: "lease_armed e \<Longrightarrow> lease_armed (timer_hw e)"
proof -
  assume l: "lease_armed e"
  have "tim5_cr1 (timer_hw e) = tim5_cr1 e"
    using l by (simp add: lease_armed_def timer_hw_def Let_def split: list.split)
  then show ?thesis using l by (simp add: lease_armed_def)
qed

lemma output_timer_hw [simp]: "output_held b (timer_hw e) = output_held b e"
  by (simp add: output_held_def Let_def)

lemma held_timer_hw: "held b e \<Longrightarrow> held b (timer_hw e)"
  by (simp add: held_def)

lemma mid_timer_hw: "servo_mid b e \<Longrightarrow> servo_mid b (timer_hw e)"
  by (auto simp: servo_mid_def held_timer_hw quiet_def)

lemma held_wired: "held b e \<Longrightarrow> st_handler e \<and> wired e"
  by (auto simp: held_def lease_armed_def wired_def)

lemma mid_wired: "servo_mid b e \<Longrightarrow> wired e"
  by (auto simp: servo_mid_def dest: held_wired quiet_wired)

lemma mid_poll: "servo_mid b e \<Longrightarrow> servo_ok b (sv_poll e)"
proof (cases rule: servo_handler.poll_cases [of e])
  case quiet
  assume "servo_mid b e"
  then show ?thesis
    using quiet timer_hw_quiet_line [OF quiet(1)] held_timer_hw [of b e] servo_handler.quiet_poll [of e]
    by (auto simp: servo_mid_def servo_ok_def held_def lease_armed_def)
next
  case interrupt
  assume m: "servo_mid b e"
  then have "wired e" "st_handler e"
    using mid_wired [OF m] interrupt(1) by (auto simp: wired_def)
  then show ?thesis
    using servo_handler.IrqHandler_quiet [of "timer_hw e"] interrupt(2) by (simp add: servo_ok_def)
qed

lemma ok_poll: "servo_ok b e \<Longrightarrow> servo_ok b (sv_poll e)"
  by (rule mid_poll [OF servo_ok_mid])

lemma masked_simps [simp]: "fst (masked f e) = fst (f e)" "snd (masked f e) = sv_poll (snd (f e))"
  by (simp_all add: masked_def split: prod.split)

section \<open>Service, guard and queries\<close>

lemma status_output [simp]: "output_held b (MotorExecutor_SetPhysicalStatus b e) = output_held b e"
proof -
  have "sx (MotorExecutor_SetPhysicalStatus b e) = sx e" by simp
  then show ?thesis
    by (simp only: output_held_def Let_def)
      (simp add: MotorExecutor_SetPhysicalStatus_def MotorHwReal_ActiveCompareIsValid_def MotorHwReal_IsDisabled_def)
qed

lemma status_lease [simp]:
  "lease_armed (MotorExecutor_SetPhysicalStatus b e) = lease_armed e"
  "pins_ok (MotorExecutor_SetPhysicalStatus b e) = pins_ok e"
  "rx_completion_event_pending (MotorExecutor_SetPhysicalStatus b e) = rx_completion_event_pending e"
  "mx_last_action (rx_motor (MotorExecutor_SetPhysicalStatus b e)) = mx_last_action (rx_motor e)"
  "tim5_sr (MotorExecutor_SetPhysicalStatus b e) = tim5_sr e"
  by (simp_all add: MotorExecutor_SetPhysicalStatus_def lease_armed_def pins_ok_def)

lemma status_held [simp]: "held b (MotorExecutor_SetPhysicalStatus b e) = held b e"
  by (simp add: held_def)

lemma status_mid [simp]:
  "servo_mid b (MotorExecutor_SetPhysicalStatus b e) = servo_mid b e"
  "servo_ok b (MotorExecutor_SetPhysicalStatus b e) = servo_ok b e"
  by (simp_all add: servo_mid_def servo_ok_def)

lemma publish_result_sx [simp]: "sx (snd (snd (publish_result b event (e :: 'h servo_motor)))) = sx e"
  by (simp add: publish_result_def Let_def)

lemma Servo_publish_idle: "quiet e \<Longrightarrow> idle (snd (Servo_PublishCompletion b event e))"
  using publish_result_quiet [of e b event]
  by (simp add: Servo_PublishCompletion_def Let_def case_prod_beta)

lemma Servo_publish_sx [simp]: "sx (snd (Servo_PublishCompletion b event e)) = sx e"
  by (simp add: Servo_PublishCompletion_def Let_def case_prod_beta)

lemma Servo_valid_keeps:
  assumes "P e" "\<And>e. P e \<Longrightarrow> P (pl e)" "\<And>e. P e \<Longrightarrow> P (MotorExecutor_SetPhysicalStatus b e)"
  shows "P (snd (Servo_ActiveRequestIsValid pl b e))"
  using assms(1) active_request_valid_keeps [of P _ pl b, OF _ assms(2,3)]
  by (simp add: Servo_ActiveRequestIsValid_def Let_def case_prod_beta polled_def assms(2))

interpretation servo_core: motor_core Servo_StopTimerExpiredFromIsr b "Servo_PublishCompletion b"
    "Servo_ActiveRequestIsValid sv_poll b" "servo_ok b"
  for b :: "'h real_board"
proof unfold_locales
  fix e :: "'h servo_motor"
  show "servo_ok b e \<Longrightarrow> rx_completion_event_pending e \<Longrightarrow> quiet e"
    "servo_ok b e \<Longrightarrow> \<not> mx_logical_active (rx_motor e) \<Longrightarrow> quiet e"
    by (auto simp: servo_ok_def held_def)
  show "servo_ok b e \<Longrightarrow> wired e" by (rule mid_wired [OF servo_ok_mid])
  show "servo_ok b e \<Longrightarrow> servo_ok b (snd (Servo_ActiveRequestIsValid sv_poll b e))"
    by (rule Servo_valid_keeps [of "servo_ok b"]) (simp_all add: ok_poll)
  show "idle e \<Longrightarrow> idle (snd (Servo_ActiveRequestIsValid sv_poll b e))"
    by (rule Servo_valid_keeps [of idle]) simp_all
qed (simp_all add: ok_poll Servo_publish_idle, simp add: servo_ok_def)

text \<open>The session's facts are kept by whatever keeps the session's variables but for its closing.\<close>

lemma or_publish_session:
  assumes "\<And>e. session_ok p (sx (snd (k e))) = session_ok p (sx e)"
  shows "session_ok p (sx (snd (or_publish sv_poll (Servo_PublishCompletion b) k e))) = session_ok p (sx e)"
  by (cases "rx_completion_event_pending (sv_poll e)")
    (simp_all add: or_publish_def MotorExecutor_TakeCompletion_def assms)

lemma timer_abort_sx [simp]: "sx (snd (timer_abort (Servo_PublishCompletion b) r s f e)) = sx e"
  by (simp add: timer_abort_def Let_def)

lemma Service_session [simp]: "session_ok p (sx (snd (Servo_Service b t e))) = session_ok p (sx e)"
  unfolding Servo_Service_def motor_service_def
  by (intro or_publish_session trans [OF or_publish_session])
    (auto simp: service_idle_def service_active_def Let_def or_publish_session)

lemma guard_next_session:
  assumes "\<And>e. session_ok p (sx (snd (k e))) = session_ok p (sx e)"
  shows "session_ok p (sx (snd (guard_next sv_poll b k e))) = session_ok p (sx e)"
  by (simp add: guard_next_def Let_def MotorExecutor_GuardPendingCompletion_def assms)

lemma valid_session [simp]:
  "session_ok p (sx (snd (Servo_ActiveRequestIsValid sv_poll b e))) = session_ok p (sx e)"
  by (rule Servo_valid_keeps [of "\<lambda>e'. session_ok p (sx e') = session_ok p (sx e)"]) simp_all

lemma Guard_session [simp]: "session_ok p (sx (snd (Servo_GuardOutput b e))) = session_ok p (sx e)"
  unfolding Servo_GuardOutput_def motor_guard_def
  by (intro guard_next_session trans [OF guard_next_session])
    (auto simp: guard_active_def guard_idle_def Let_def case_prod_beta guard_next_session)

lemma query_session [simp]:
  "session_ok p (sx (snd (Servo_OutputIsDisabled b e))) = session_ok p (sx e)"
  "session_ok p (sx (snd (Servo_IsHealthy b e))) = session_ok p (sx e)"
  "session_ok p (sx (snd (Servo_GetSnapshot b e))) = session_ok p (sx e)"
  by (simp_all add: Servo_OutputIsDisabled_def output_is_disabled_def Servo_IsHealthy_def is_healthy_def
      Servo_GetSnapshot_def Let_def)

section \<open>The timer's operations\<close>

text \<open>What the timer's operations leave alone when they succeed.\<close>

definition same_output :: "'h servo_motor \<Rightarrow> 'h servo_motor \<Rightarrow> bool" where
  "same_output e e' \<longleftrightarrow> rx_motor e' = rx_motor e \<and> sx e' = sx e
    \<and> rx_completion_event_pending e' = rx_completion_event_pending e \<and> pins_ok e' = pins_ok e
    \<and> MotorHwReal_IsDisabled e' = MotorHwReal_IsDisabled e
    \<and> (\<forall>press duty. MotorHwReal_ActiveCompareIsValid press duty e' = MotorHwReal_ActiveCompareIsValid press duty e)"

lemma same_output_trans: "same_output e e' \<Longrightarrow> same_output e' e'' \<Longrightarrow> same_output e e''"
  by (simp add: same_output_def)

lemma same_output_held: "same_output e e' \<Longrightarrow> output_held b e' = output_held b e"
  by (simp add: same_output_def output_held_def Let_def)

lemma same_timer_hw: "same_output e (timer_hw e)"
  by (simp add: same_output_def)

abbreviation wireable :: "('h, 'a) stop_timer_scheme \<Rightarrow> bool" where
  "wireable e \<equiv> st_initialized e \<longrightarrow> st_handler e"

lemma irq_session [simp]:
  "session_ok p (sx (MotorStopTimer_IrqHandler Servo_StopTimerExpiredFromIsr e)) = session_ok p (sx e)"
  by (simp add: irq_sx)

lemma sv_commit_keeps [simp]:
  "st_handler (snd (sv_commit e)) = st_handler e" "st_initialized (snd (sv_commit e)) = st_initialized e"
  "session_ok p (sx (snd (sv_commit e))) = session_ok p (sx e)"
  by (simp_all add: MotorStopTimer_CommitArm_def Let_def servo_handler.IrqHandler_keeps)

text \<open>The timer set for a lease, before its interrupt is enabled.\<close>

definition lease_set :: "('h, 'a) stop_timer_scheme \<Rightarrow> bool" where
  "lease_set e \<longleftrightarrow> st_armed e \<and> st_handler e \<and> tim5_dier e = 3
    \<and> tim5_cr1 e AND TIM_CR1_CEN \<noteq> 0 \<and> tim5_cr1 e AND TIM_CR1_OPM = 0"

lemma armed_set: "lease_armed e \<Longrightarrow> lease_set e"
  by (simp add: lease_armed_def lease_set_def)

lemma sv_commit_spec:
  assumes "fst (sv_commit e)" "lease_set e"
  shows "lease_armed (snd (sv_commit e))" "same_output e (snd (sv_commit e))"
    "tim5_ccr1 (snd (sv_commit e)) = tim5_ccr1 e"
proof -
  define e1 where "e1 = timer_hw (e\<lparr>st_last_failure_stage := MOTOR_FAILURE_STAGE_NONE\<rparr>)"
  have eq: "snd (sv_commit e) = e1\<lparr>tim5_irq_enabled := True\<rparr>"
    using assms(1) by (auto simp: MotorStopTimer_CommitArm_def Let_def e1_def split: if_splits)
  have "tim5_cr1 e1 = tim5_cr1 e"
    using assms(2) by (simp add: e1_def lease_set_def timer_hw_def Let_def split: list.split)
  then show "lease_armed (snd (sv_commit e))"
    using assms(2) by (simp add: eq lease_armed_def lease_set_def) (simp add: e1_def)
  have "sx (e1\<lparr>tim5_irq_enabled := True\<rparr>) = sx e" "rx_motor (e1\<lparr>tim5_irq_enabled := True\<rparr>) = rx_motor e"
    "rx_completion_event_pending (e1\<lparr>tim5_irq_enabled := True\<rparr>) = rx_completion_event_pending e"
    by (simp_all add: e1_def)
  moreover have "MotorHwReal_IsDisabled (e1\<lparr>tim5_irq_enabled := True\<rparr>) = MotorHwReal_IsDisabled e"
    by (simp add: MotorHwReal_IsDisabled_def [of "e1\<lparr>tim5_irq_enabled := True\<rparr>"] flip: MotorHwReal_IsDisabled_def)
      (simp add: e1_def, simp add: MotorHwReal_IsDisabled_def)
  ultimately show "same_output e (snd (sv_commit e))"
    by (simp add: eq same_output_def) (simp add: e1_def)
  show "tim5_ccr1 (snd (sv_commit e)) = tim5_ccr1 e" by (simp add: eq) (simp add: e1_def)
qed

abbreviation sv_renew :: "build_policy \<Rightarrow> u32 \<Rightarrow> 'h servo_motor \<Rightarrow> bool \<times> 'h servo_motor" where
  "sv_renew p \<equiv> MotorStopTimer_RenewLease p Servo_StopTimerExpiredFromIsr"

abbreviation sv_arm :: "build_policy \<Rightarrow> u32 \<Rightarrow> 'h servo_motor \<Rightarrow> bool \<times> 'h servo_motor" where
  "sv_arm p \<equiv> MotorStopTimer_ArmLease p Servo_StopTimerExpiredFromIsr"

lemma compare_output [simp]:
  "same_output e (e\<lparr>tim5_ccr1 := c\<rparr>)" "lease_armed (e\<lparr>tim5_ccr1 := c\<rparr>) = lease_armed e"
  "sx (e\<lparr>tim5_ccr1 := c\<rparr>) = sx e"
  by (simp_all add: same_output_def lease_armed_def pins_ok_def MotorHwReal_IsDisabled_def
      MotorHwReal_ActiveCompareIsValid_def)

lemma sv_renew_keeps [simp]:
  "st_handler (snd (sv_renew p r e)) = st_handler e" "st_initialized (snd (sv_renew p r e)) = st_initialized e"
  "session_ok q (sx (snd (sv_renew p r e))) = session_ok q (sx e)"
  by (simp_all add: MotorStopTimer_RenewLease_def Let_def servo_handler.IrqHandler_keeps servo_handler.keeps)

text \<open>
  A renewed lease ends the asked number of milliseconds, less one, after a count the hardware
  has shown during the call.
\<close>

definition counts :: "('h, 'a) stop_timer_scheme \<Rightarrow> u32 set" where
  "counts e = insert (tim5_cnt e) (snd ` set (tm_schedule e))"

lemma timer_hw_counts: "counts (timer_hw e) \<subseteq> counts e"
  by (auto simp: timer_hw_def counts_def Let_def split: list.split)

lemma count_now: "tim5_cnt e \<in> counts e"
  by (simp add: counts_def)

lemma sv_commit_counts: "fst (sv_commit e) \<Longrightarrow> counts (snd (sv_commit e)) \<subseteq> counts e"
  using timer_hw_counts [of "e\<lparr>st_last_failure_stage := MOTOR_FAILURE_STAGE_NONE\<rparr>"]
  by (auto simp: MotorStopTimer_CommitArm_def Let_def counts_def split: if_splits)

lemma sv_renew_spec:
  assumes "fst (sv_renew p r e)" "lease_armed e"
  shows "lease_armed (snd (sv_renew p r e))" "same_output e (snd (sv_renew p r e))"
    "1 < r \<and> r \<le> MOTOR_STOP_MAX_LEASE_MS p"
    "\<exists>c \<in> counts e. tim5_ccr1 (snd (sv_renew p r e)) = c + (r - 1) * 10"
    "counts (snd (sv_renew p r e)) \<subseteq> counts e"
proof -
  define e1 where "e1 = (timer_hw (timer_hw e))\<lparr>tim5_ccr1 := tim5_cnt (timer_hw e) + (r - 1) * 10\<rparr>"
  have ok: "sv_renew p r e = sv_commit e1" "1 < r \<and> r \<le> MOTOR_STOP_MAX_LEASE_MS p"
    using assms(1) by (auto simp: MotorStopTimer_RenewLease_def e1_def Let_def not_le split: if_splits)
  have l: "lease_armed e1" using assms(2) by (simp add: e1_def)
  have s: "same_output e e1"
    unfolding e1_def
    by (rule same_output_trans [OF same_timer_hw same_output_trans [OF same_timer_hw compare_output(1)]])
  note c = sv_commit_spec [OF _ armed_set [OF l]] assms(1)
  show "lease_armed (snd (sv_renew p r e))" using c by (simp add: ok)
  show "same_output e (snd (sv_renew p r e))" using c same_output_trans [OF s] by (simp add: ok)
  show "1 < r \<and> r \<le> MOTOR_STOP_MAX_LEASE_MS p" by (rule ok(2))
  have "tim5_ccr1 (snd (sv_renew p r e)) = tim5_ccr1 e1" using c by (simp add: ok)
  then show "\<exists>c \<in> counts e. tim5_ccr1 (snd (sv_renew p r e)) = c + (r - 1) * 10"
    by (intro bexI [OF _ subsetD [OF timer_hw_counts count_now]]) (simp add: e1_def)
  have "counts e1 = counts (timer_hw (timer_hw e))" by (simp add: e1_def counts_def)
  then show "counts (snd (sv_renew p r e)) \<subseteq> counts e"
    using sv_commit_counts [of e1] timer_hw_counts [of e] timer_hw_counts [of "timer_hw e"] assms(1)
    by (auto simp: ok)
qed

lemma Cancel_same_output: "same_output e (MotorStopTimer_Cancel e)"
  by (simp add: same_output_def)
    (simp add: MotorStopTimer_Cancel_def MotorHwReal_ActiveCompareIsValid_def)

definition lease_start :: "u32 \<Rightarrow> 'h servo_motor \<Rightarrow> 'h servo_motor" where
  "lease_start r s =
    (let s = MotorStopTimer_Cancel s;
         s = s\<lparr>tim5_cr1 := TIM_CR1_URS, tim5_psc := st_prescaler s, tim5_arr := 0xFFFFFFFF,
               tim5_ccr1 := (r - 1) * 10, tim5_cnt := 0\<rparr>;
         s = tim5_update_event s;
         s = s\<lparr>tim5_sr := 0, tim5_dier := TIM_DIER_CC1IE OR TIM_DIER_UIE\<rparr>;
         s = s\<lparr>st_armed := True\<rparr>
     in s\<lparr>tim5_cr1 := tim5_cr1 s OR TIM_CR1_CEN\<rparr>)"

lemma sv_arm_split: "sv_arm p r e =
    (if \<not> st_initialized e \<or> \<not> st_healthy e \<or> st_armed e \<or> r \<le> 1 \<or> r > MOTOR_STOP_MAX_LEASE_MS p
     then (False, e) else sv_commit (lease_start r e))"
  by (simp add: MotorStopTimer_ArmLease_def lease_start_def Let_def)

lemma lease_start_timer [simp]:
  "st_handler (lease_start r e) = st_handler e" "st_initialized (lease_start r e) = st_initialized e"
  "tim5_ccr1 (lease_start r e) = (r - 1) * 10" "sx (lease_start r e) = sx e"
  by (simp_all add: lease_start_def tim5_update_event_def Let_def)

lemma lease_start_output: "same_output e (lease_start r e)"
proof (rule same_output_trans [OF Cancel_same_output])
  show "same_output (MotorStopTimer_Cancel e) (lease_start r e)"
    by (simp add: same_output_def lease_start_def tim5_update_event_def Let_def pins_ok_def
        MotorHwReal_IsDisabled_def MotorHwReal_ActiveCompareIsValid_def)
qed

lemma sv_arm_keeps [simp]:
  "st_handler (snd (sv_arm p r e)) = st_handler e" "st_initialized (snd (sv_arm p r e)) = st_initialized e"
  "session_ok q (sx (snd (sv_arm p r e))) = session_ok q (sx e)"
  by (simp_all add: sv_arm_split)

lemma sv_arm_spec:
  assumes "fst (sv_arm p r e)" "wired e"
  shows "lease_armed (snd (sv_arm p r e))" "same_output e (snd (sv_arm p r e))"
    "1 < r \<and> r \<le> MOTOR_STOP_MAX_LEASE_MS p" "tim5_ccr1 (snd (sv_arm p r e)) = (r - 1) * 10"
    "counts (snd (sv_arm p r e)) \<subseteq> insert 0 (counts e)"
proof -
  have ok: "sv_arm p r e = sv_commit (lease_start r e)" "1 < r \<and> r \<le> MOTOR_STOP_MAX_LEASE_MS p" "st_initialized e"
    using assms(1) by (auto simp: sv_arm_split not_le split: if_splits)
  have "lease_set (lease_start r e)"
    using ok(3) assms(2)
    by (simp add: lease_set_def wired_def) (simp add: lease_start_def tim5_update_event_def Let_def)
  note c = sv_commit_spec [OF _ this] assms(1)
  show "lease_armed (snd (sv_arm p r e))" "tim5_ccr1 (snd (sv_arm p r e)) = (r - 1) * 10"
    using c by (simp_all add: ok)
  show "same_output e (snd (sv_arm p r e))"
    using c same_output_trans [OF lease_start_output] by (simp add: ok)
  have "counts (lease_start r e) \<subseteq> insert 0 (counts e)"
    by (auto simp: counts_def lease_start_def tim5_update_event_def MotorStopTimer_Cancel_def Let_def)
  then show "counts (snd (sv_arm p r e)) \<subseteq> insert 0 (counts e)"
    using sv_commit_counts [of "lease_start r e"] assms(1) by (auto simp: ok)
  show "1 < r \<and> r \<le> MOTOR_STOP_MAX_LEASE_MS p" by (rule ok(2))
qed

section \<open>Failures and the output stage\<close>

lemma servo_fail_simps [simp]:
  "\<not> sv_open (sx (snd (servo_fail b e)))" "rx_completion_event_pending (snd (servo_fail b e))"
  "fst (servo_fail b e) = MOTOR_RESULT_HARDWARE_ERROR"
  "session_ok p (sx (snd (servo_fail b e))) = session_ok p (sx e)"
  "sx (snd (servo_fail b e)) = (sx e)\<lparr>sv_open := False\<rparr>"
proof -
  show "rx_completion_event_pending (snd (servo_fail b e))"
    by (simp add: servo_fail_def servo_done_def Let_def) (simp add: MotorExecutor_LatchCompletion_def)
qed (simp_all add: servo_fail_def servo_done_def Let_def)

lemma servo_fail_quiet: "wireable e \<Longrightarrow> quiet (snd (servo_fail b e))"
  by (simp add: servo_fail_def servo_done_def Let_def)

lemma servo_done_simps [simp]:
  "fst (servo_done b r e) = r" "snd (servo_done b r e) = MotorExecutor_SetPhysicalStatus b e"
  by (simp_all add: servo_done_def)

lemma Update_spec:
  assumes "pins_ok s"
  shows "applied press duty s (MotorHwReal_Update b press duty s)"
  using assms unfolding MotorHwReal_Update_def Let_def
  by (auto intro!: applied_fail) (simp_all add: applied_def)

lemma applied_servo:
  assumes "applied press duty (e :: 'h servo_motor) r"
  shows "rx_motor (snd r) = rx_motor e" "sx (snd r) = sx e" "lease_armed (snd r) = lease_armed e"
    "rx_completion_event_pending (snd r) = rx_completion_event_pending e"
    "st_handler (snd r) = st_handler e" "st_initialized (snd r) = st_initialized e"
    "tim5_ccr1 (snd r) = tim5_ccr1 e" "pins_ok (snd r)"
    "fst r \<Longrightarrow> MotorHwReal_ActiveCompareIsValid press duty (snd r)" "counts (snd r) = counts e"
proof -
  have m: "real_regs.more (snd r) = real_regs.more e" using assms by (simp add: applied_def)
  note t = same_more [OF m] and x = rx_same [OF same_more(13) [OF m]] sx_same [OF rx_same(5) [OF same_more(13) [OF m]]]
  show "rx_motor (snd r) = rx_motor e" "sx (snd r) = sx e" "lease_armed (snd r) = lease_armed e"
    "rx_completion_event_pending (snd r) = rx_completion_event_pending e"
    "st_handler (snd r) = st_handler e" "st_initialized (snd r) = st_initialized e"
    "tim5_ccr1 (snd r) = tim5_ccr1 e" "pins_ok (snd r)" "counts (snd r) = counts e"
    using t x assms by (simp_all add: lease_armed_def applied_def counts_def)
  show "MotorHwReal_ActiveCompareIsValid press duty (snd r)" if "fst r"
    using that assms by (simp add: applied_def)
qed

lemma disabled_servo [simp]:
  "lease_armed (MotorHwReal_DisableImmediate e) = lease_armed e"
  "tim5_ccr1 (MotorHwReal_DisableImmediate e) = tim5_ccr1 e"
  "counts (MotorHwReal_DisableImmediate e) = counts e"
  by (simp_all add: lease_armed_def counts_def)

section \<open>Updates\<close>

definition mid_inv :: "'h real_board \<Rightarrow> 'h servo_motor \<Rightarrow> bool" where
  "mid_inv b e \<longleftrightarrow> servo_mid b e \<and> session_ok (rb_policy b) (sx e)"

lemma mid_inv_status [simp]: "mid_inv b (MotorExecutor_SetPhysicalStatus b e) = mid_inv b e"
  by (simp add: mid_inv_def)

lemma fail_mid: "wireable e \<Longrightarrow> session_ok (rb_policy b) (sx e) \<Longrightarrow> mid_inv b (snd (servo_fail b e))"
  by (simp add: mid_inv_def servo_mid_def servo_fail_quiet)

lemma mid_inv_wireable: "mid_inv b e \<Longrightarrow> wireable e \<and> wired e \<and> pins_ok e \<and> session_ok (rb_policy b) (sx e)"
  using mid_wired [of b e] by (auto simp: mid_inv_def servo_mid_def held_def quiet_def low_def wired_def)

lemma ok_or_fail_mid:
  assumes "wireable (snd r)" "session_ok (rb_policy b) (sx (snd r))"
    and "fst r \<Longrightarrow> mid_inv b (snd (k (snd r)))"
  shows "mid_inv b (snd (ok_or_fail b r k))"
  using assms fail_mid [OF assms(1,2)] by (cases r) (simp add: ok_or_fail_def)

lemma ok_or_fail_ok:
  "fst (ok_or_fail b r k) = MOTOR_RESULT_OK \<Longrightarrow>
    fst r \<and> fst (k (snd r)) = MOTOR_RESULT_OK \<and> snd (ok_or_fail b r k) = snd (k (snd r))"
  by (cases r) (auto simp: ok_or_fail_def servo_fail_def servo_done_def Let_def split: if_splits)

lemma valid_mid:
  assumes "mid_inv b e"
  shows "mid_inv b (snd (Servo_ActiveRequestIsValid timer_hw b e))"
  by (rule Servo_valid_keeps [of "mid_inv b"]) (use assms in \<open>auto simp: mid_inv_def mid_timer_hw\<close>)

lemma valid_sx: "sx (snd (Servo_ActiveRequestIsValid timer_hw b e)) = sx e"
  by (rule Servo_valid_keeps [of "\<lambda>e'. sx e' = sx e"]) simp_all

text \<open>What a successful step of the output stage leaves.\<close>

definition stepped :: "'h servo_motor \<Rightarrow> 'h servo_motor \<Rightarrow> bool" where
  "stepped e e' \<longleftrightarrow> rx_motor e' = rx_motor e \<and> lease_armed e' = lease_armed e
    \<and> rx_completion_event_pending e' = rx_completion_event_pending e
    \<and> st_handler e' = st_handler e \<and> st_initialized e' = st_initialized e
    \<and> tim5_ccr1 e' = tim5_ccr1 e \<and> counts e' = counts e
    \<and> (\<exists>off sign. sx e' = (sx e)\<lparr>sv_off_ms := off, sv_last_sign := sign\<rparr>)"

definition installed :: "'h real_board \<Rightarrow> int \<Rightarrow> u16 \<Rightarrow> u16 \<Rightarrow> 'h servo_motor \<Rightarrow> bool" where
  "installed b c t2 t3 e \<longleftrightarrow> pins_ok e
    \<and> (if c = 0 then MotorHwReal_IsDisabled e \<and> t2 = 0 \<and> t3 = 0
       else MotorHwReal_OutputArmingAllowed b
        \<and> Servo_PlanCommand (rb_policy b) (if c > 0 then MOTOR_DIRECTION_PRESS else MOTOR_DIRECTION_RELEASE)
            (of_int \<bar>c\<bar>) = (MOTOR_RESULT_OK, t2, t3)
        \<and> MotorHwReal_ActiveCompareIsValid (c > 0) (if c > 0 then t3 else t2) e)"

lemma installed_same: "same_output e e' \<Longrightarrow> installed b c t2 t3 e \<Longrightarrow> installed b c t2 t3 e'"
  by (simp add: installed_def same_output_def)

lemma stepped_sx [simp]:
  "lease_armed (e\<lparr>sx := s\<rparr>) = lease_armed e" "counts (e\<lparr>sx := s\<rparr>) = counts e"
  "pins_ok (e\<lparr>sx := s\<rparr>) = pins_ok e" "MotorHwReal_IsDisabled (e\<lparr>sx := s\<rparr>) = MotorHwReal_IsDisabled e"
  "MotorHwReal_ActiveCompareIsValid press duty (e\<lparr>sx := s\<rparr>) = MotorHwReal_ActiveCompareIsValid press duty e"
  by (simp_all add: lease_armed_def counts_def pins_ok_def MotorHwReal_IsDisabled_def
      MotorHwReal_ActiveCompareIsValid_def)

lemma installed_sx [simp]: "installed b c t2 t3 (e\<lparr>sx := s\<rparr>) = installed b c t2 t3 e"
  by (simp add: installed_def)

lemma sv_shapes [simp]:
  "\<exists>off sign. s\<lparr>sv_off_ms := x\<rparr> = s\<lparr>sv_off_ms := off, sv_last_sign := sign\<rparr>"
  "\<exists>off sign. s\<lparr>sv_last_sign := l\<rparr> = s\<lparr>sv_off_ms := off, sv_last_sign := sign\<rparr>"
  "\<exists>off sign. s = s\<lparr>sv_off_ms := off, sv_last_sign := sign\<rparr>"
  by (rule exI [of _ x], rule exI [of _ "sv_last_sign s"], simp)
    (rule exI [of _ "sv_off_ms s"], rule exI [of _ l], simp,
     rule exI [of _ "sv_off_ms s"], rule exI [of _ "sv_last_sign s"], simp)

lemma update_output_spec:
  assumes "pins_ok e" "MotorHwReal_OutputArmingAllowed b" "update_output b now c e = (success, t2, t3, e')"
  shows "stepped e e'" "success \<Longrightarrow> installed b c t2 t3 e'"
proof -
  define d where "d = (if c > 0 then MOTOR_DIRECTION_PRESS else MOTOR_DIRECTION_RELEASE)"
  define plan where "plan = Servo_PlanCommand (rb_policy b) d (of_int \<bar>c\<bar>)"
  define press where "press = (c > 0)"
  define duty where "duty = (if press then snd (snd plan) else fst (snd plan))"
  define r where "r = (if sv_committed (sx e) \<noteq> 0 then MotorHwReal_Update b press duty e
      else MotorHwReal_Apply b press duty e)"
  have r: "applied press duty e r"
    unfolding r_def by (simp add: Update_spec [OF assms(1)] Apply_spec)
  have on: "update_output b now c e =
      (if fst plan \<noteq> MOTOR_RESULT_OK then (False, fst (snd plan), snd (snd plan), e)
       else if \<not> fst r \<or> MotorHwReal_IsDisabled (snd r) then (False, fst (snd plan), snd (snd plan), snd r)
       else (True, fst (snd plan), snd (snd plan),
          (snd r)\<lparr>sx := (sx (snd r))\<lparr>sv_last_sign := (if c > 0 then 1 else - 1)\<rparr>\<rparr>))" if "c \<noteq> 0"
    using that by (cases "c > 0"; cases "sv_committed (sx e) = 0"; auto simp: update_output_def Let_def
        case_prod_beta r_def plan_def d_def press_def duty_def MotorHwReal_ApplyPress_def
        MotorHwReal_ApplyRelease_def)
  note a = applied_servo [OF r]
  have "stepped e e' \<and> (success \<longrightarrow> installed b c t2 t3 e')"
  proof (cases "c = 0")
    case True
    then have "e' = MotorHwReal_DisableImmediate
        (if sv_committed (sx e) \<noteq> 0 then e\<lparr>sx := (sx e)\<lparr>sv_off_ms := now\<rparr>\<rparr> else e) \<and> t2 = 0 \<and> t3 = 0"
      using assms(3) by (auto simp: update_output_def Let_def)
    then show ?thesis
      using True by (auto simp: stepped_def installed_def)
  next
    case False
    show ?thesis
      using on [OF False] assms(2,3) a False
      by (cases plan) (auto simp: stepped_def installed_def plan_def d_def press_def duty_def split: if_splits)
  qed
  then show "stepped e e'" "success \<Longrightarrow> installed b c t2 t3 e'" by simp_all
qed

lemma session_shape [simp]:
  "session_ok p (s\<lparr>sv_off_ms := off\<rparr>) = session_ok p s"
  "session_ok p (s\<lparr>sv_last_sign := sign\<rparr>) = session_ok p s"
  "session_ok p (s\<lparr>sv_off_ms := off, sv_last_sign := sign\<rparr>) = session_ok p s"
  "session_ok p (s\<lparr>sv_committed := c\<rparr>) = session_ok p s"
  "session_ok p (s\<lparr>sv_committed := c, sv_off_ms := off\<rparr>) = session_ok p s"
  by (simp_all add: session_ok_def)

text \<open>The limits a command must keep to be recorded.\<close>

definition within_limits :: "build_policy \<Rightarrow> int \<Rightarrow> bool \<Rightarrow> bool" where
  "within_limits p c boost \<longleftrightarrow> (bp_commissioning p \<longrightarrow>
    - FS_RELEASE_CEILING \<le> c \<and> c \<le> FS_EXECUTOR_PRESS_CEILING p \<and> (c > FS_CONTINUOUS_CEILING p \<longrightarrow> boost))"

lemma ceilings: "(0 :: int) \<le> FS_CONTINUOUS_CEILING p" "(0 :: int) \<le> FS_EXECUTOR_PRESS_CEILING p"
  "(FS_CONTINUOUS_CEILING p :: int) \<le> FS_EXECUTOR_PRESS_CEILING p"
  by (simp_all add: FS_CONTINUOUS_CEILING_def FS_EXECUTOR_PRESS_CEILING_def FS_PRESS_OPERATING_CAP_def)

lemma update_record_simps [simp]:
  "lease_armed (update_record q rm l t r c t2 t3 e) = lease_armed e"
  "tim5_ccr1 (update_record q rm l t r c t2 t3 e) = tim5_ccr1 e"
  "session_ok p (sx (update_record q rm l t r c t2 t3 e)) = session_ok p (sx e)"
  "mx_logical_deadline_ms (rx_motor (update_record q rm l t r c t2 t3 e)) = t + r"
  "pins_ok (update_record q rm l t r c t2 t3 e) = pins_ok e"
  "MotorHwReal_IsDisabled (update_record q rm l t r c t2 t3 e) = MotorHwReal_IsDisabled e"
  "MotorHwReal_ActiveCompareIsValid press duty (update_record q rm l t r c t2 t3 e)
    = MotorHwReal_ActiveCompareIsValid press duty e"
  by (simp_all add: update_record_def lease_armed_def session_ok_def pins_ok_def
      MotorHwReal_IsDisabled_def MotorHwReal_ActiveCompareIsValid_def)

lemma update_record_fields:
  "sv_committed (sx (update_record q rm l t r c t2 t3 e)) = c"
  "mx_planned_tim2_ccr3 (rx_motor (update_record q rm l t r c t2 t3 e)) = t2"
  "mx_planned_tim3_ccr3 (rx_motor (update_record q rm l t r c t2 t3 e)) = t3"
  by (simp_all add: update_record_def)

lemma held_record:
  assumes "lease_armed e" "installed b c t2 t3 e" "\<not> revoked e"
    and "within_limits (rb_policy b) c (sv_boost_set (sx e))"
  shows "held b (update_record q rm l t r c t2 t3 e)"
proof -
  have "lease_armed (update_record q rm l t r c t2 t3 e)" using assms(1) by simp
  moreover have "output_held b (update_record q rm l t r c t2 t3 e)"
    using assms(2)
    by (cases "c > 0"; cases "c = 0"; simp add: output_held_def installed_def update_record_fields)
  moreover have "pins_ok (update_record q rm l t r c t2 t3 e)"
    using assms(2) by (simp add: installed_def)
  ultimately show ?thesis
    using assms(3,4)
    by (simp add: held_def revoked_def update_record_def command_limited_def within_limits_def)
qed

text \<open>When the lease of an accepted command ends.\<close>

definition lease_timed :: "build_policy \<Rightarrow> u32 set \<Rightarrow> u32 \<Rightarrow> u32 \<Rightarrow> 'h servo_motor \<Rightarrow> bool" where
  "lease_timed p seen t limit e \<longleftrightarrow>
    (\<exists>c \<in> seen. \<exists>r. 1 < r \<and> r \<le> limit \<and> r \<le> MOTOR_STOP_MAX_LEASE_MS p
      \<and> tim5_ccr1 e = c + (r - 1) * 10 \<and> mx_logical_deadline_ms (rx_motor e) = t + r)"

lemma lease_timed_status [simp]:
  "lease_timed p seen t limit (MotorExecutor_SetPhysicalStatus b e) = lease_timed p seen t limit e"
  by (simp add: lease_timed_def MotorExecutor_SetPhysicalStatus_def)

lemma lease_timed_record:
  assumes "\<exists>k \<in> seen. tim5_ccr1 e = k + (n - 1) * 10" "1 < n" "n \<le> limit" "n \<le> MOTOR_STOP_MAX_LEASE_MS p"
  shows "lease_timed p seen t limit (update_record q rm l t n c t2 t3 e)"
  using assms unfolding lease_timed_def by (metis update_record_simps(2,4))

text \<open>
  The count a lease is counted from: one the timer shows, or 0 when the update starts the timer.
\<close>

definition bases :: "'h servo_motor \<Rightarrow> u32 set" where
  "bases e = (if sv_has_sequence (sx e) then counts e else insert 0 (counts e))"

text \<open>The first step: the lease is started or renewed.\<close>

lemma lease_step:
  assumes "wired e" "sv_has_sequence (sx e) \<longrightarrow> lease_armed e"
    and "r = (if sv_has_sequence (sx e) then sv_renew p n e else sv_arm p n e)"
  shows "wireable (snd r)" "session_ok q (sx (snd r)) = session_ok q (sx e)"
    "fst r \<Longrightarrow> lease_armed (snd r) \<and> same_output e (snd r) \<and> 1 < n \<and> n \<le> MOTOR_STOP_MAX_LEASE_MS p
      \<and> counts (snd r) \<subseteq> bases e
      \<and> (\<exists>c \<in> bases e. tim5_ccr1 (snd r) = c + (n - 1) * 10)"
proof -
  show "wireable (snd r)" "session_ok q (sx (snd r)) = session_ok q (sx e)"
    using assms(1) by (simp_all add: assms(3) wired_def)
  assume ok: "fst r"
  show "lease_armed (snd r) \<and> same_output e (snd r) \<and> 1 < n \<and> n \<le> MOTOR_STOP_MAX_LEASE_MS p
      \<and> counts (snd r) \<subseteq> bases e
      \<and> (\<exists>c \<in> bases e. tim5_ccr1 (snd r) = c + (n - 1) * 10)"
  proof (cases "sv_has_sequence (sx e)")
    case True
    then show ?thesis
      using sv_renew_spec [of p n e] assms(2) ok by (auto simp: assms(3) bases_def)
  next
    case False
    then show ?thesis
      using sv_arm_spec [of p n e] assms(1) ok by (auto simp: assms(3) bases_def)
  qed
qed

text \<open>The last steps: the output is verified, and after a boost the lease is set back.\<close>

lemma update_finish_spec:
  assumes "lease_armed e" "installed b c t2 t3 e" "session_ok (rb_policy b) (sx e)"
    and "within_limits (rb_policy b) c (sv_boost_set (sx e))" "\<not> revoked e"
    and "end_boost \<Longrightarrow> sv_boost_set (sx e) \<and> c \<le> sv_normal_cap (sx e)"
    and "\<exists>k \<in> seen. tim5_ccr1 e = k + (n - 1) * 10" "1 < n \<and> n \<le> limit \<and> n \<le> MOTOR_STOP_MAX_LEASE_MS (rb_policy b)"
    and "m \<le> limit" "counts e \<subseteq> seen"
    and "res = update_finish b q rm l t c end_boost n m t2 t3 e"
  shows "mid_inv b (snd res)"
    "fst res = MOTOR_RESULT_OK \<Longrightarrow> held b (snd res) \<and> lease_timed (rb_policy b) seen t limit (snd res)"
proof -
  let ?p = "rb_policy b"
  note res = assms(11) [unfolded update_finish_def, simplified assms(5) not_False_eq_True if_False]
  have "mid_inv b (snd res) \<and> (fst res = MOTOR_RESULT_OK \<longrightarrow>
      held b (snd res) \<and> lease_timed ?p seen t limit (snd res))"
  proof (cases end_boost)
    case False
    have "held b (update_record q rm l t n c t2 t3 e)" by (rule held_record [OF assms(1,2,5,4)])
    moreover have "lease_timed ?p seen t limit (update_record q rm l t n c t2 t3 e)"
      using assms(7,8) by (intro lease_timed_record) simp_all
    ultimately show ?thesis
      using False assms(3) by (simp add: res mid_inv_def servo_mid_def)
  next
    case True
    define e1 where "e1 = snd (sv_renew ?p m e)"
    define e2 where "e2 = snd (sv_commit e1)"
    define e3 where "e3 = e2\<lparr>sx := (sx e2)\<lparr>sv_boost_set := False, sv_boost_plan := False\<rparr>\<rparr>"
    have w: "wireable e" using assms(1) by (simp add: lease_armed_def)
    have "held b (update_record q rm l t m c t2 t3 e3) \<and> session_ok ?p (sx e3)
        \<and> lease_timed ?p seen t limit (update_record q rm l t m c t2 t3 e3)"
      if "fst (sv_renew ?p m e)" "fst (sv_commit e1)"
    proof -
      note r = sv_renew_spec [OF that(1) assms(1), folded e1_def]
      note c = sv_commit_spec [OF that(2) armed_set [OF r(1)], folded e2_def]
      have same: "same_output e e2" by (rule same_output_trans [OF r(2) c(2)])
      have sx: "sx e2 = sx e" "rx_completion_event_pending e2 = rx_completion_event_pending e"
        using same by (simp_all add: same_output_def)
      have "c \<le> FS_CONTINUOUS_CEILING ?p" using assms(3,6) True by (auto simp: session_ok_def)
      then have "within_limits ?p c False" using assms(4) by (simp add: within_limits_def)
      moreover have "installed b c t2 t3 e3"
        using installed_same [OF same assms(2)]
        by (simp add: e3_def)
      ultimately have "held b (update_record q rm l t m c t2 t3 e3)"
        using c(1) assms(5) sx by (intro held_record) (simp_all add: e3_def revoked_def)
      moreover have "session_ok ?p (sx e3)"
        using assms(3) sx by (auto simp: e3_def session_ok_def)
      moreover have "lease_timed ?p seen t limit (update_record q rm l t m c t2 t3 e3)"
        using r(3,4) c(3) assms(9,10) by (intro lease_timed_record) (auto simp: e3_def)
      ultimately show ?thesis by simp
    qed
    then show ?thesis
      using True w assms(3) fail_mid [of e1 b] fail_mid [of e2 b]
      by (simp add: res ok_or_fail_def case_prod_beta mid_inv_def servo_mid_def
          flip: e1_def e2_def e3_def) (simp add: e1_def e2_def servo_fail_quiet)
  qed
  then show "mid_inv b (snd res)"
    "fst res = MOTOR_RESULT_OK \<Longrightarrow> held b (snd res) \<and> lease_timed ?p seen t limit (snd res)"
    by simp_all
qed

lemma update_install_spec:
  assumes "lease_armed e" "pins_ok e" "session_ok (rb_policy b) (sx e)" "MotorHwReal_OutputArmingAllowed b"
    and "within_limits (rb_policy b) c (sv_boost_set (sx e))"
    and "end_boost \<Longrightarrow> sv_boost_set (sx e) \<and> c \<le> sv_normal_cap (sx e)"
    and "\<exists>k \<in> seen. tim5_ccr1 e = k + (n - 1) * 10" "1 < n \<and> n \<le> limit \<and> n \<le> MOTOR_STOP_MAX_LEASE_MS (rb_policy b)"
    and "m \<le> limit" "counts e \<subseteq> seen" "res = update_install b q rm l t c end_boost n m e"
  shows "mid_inv b (snd res)"
    "fst res = MOTOR_RESULT_OK \<Longrightarrow> held b (snd res) \<and> lease_timed (rb_policy b) seen t limit (snd res)"
proof -
  let ?p = "rb_policy b"
  obtain ok t2 t3 e2 where out: "update_output b t c e = (ok, t2, t3, e2)"
    by (cases "update_output b t c e")
  note u = update_output_spec [OF assms(2,4) out]
  obtain off sign where sx: "sx e2 = (sx e)\<lparr>sv_off_ms := off, sv_last_sign := sign\<rparr>"
    using u(1) by (auto simp: stepped_def)
  have e2: "lease_armed e2" "tim5_ccr1 e2 = tim5_ccr1 e" "counts e2 = counts e" "wireable e2"
    using u(1) assms(1) by (auto simp: stepped_def lease_armed_def)
  have w: "wireable e" "session_ok ?p (sx e2)" using assms(1,3) by (simp_all add: lease_armed_def sx)
  define r3 where "r3 = sv_commit e2"
  define fin where "fin = update_finish b q rm l t c end_boost n m t2 t3"
  have fin: "mid_inv b (snd (fin (snd r3))) \<and> (fst (fin (snd r3)) = MOTOR_RESULT_OK \<longrightarrow>
      held b (snd (fin (snd r3))) \<and> lease_timed ?p seen t limit (snd (fin (snd r3))))" if "ok" "fst r3"
  proof (cases "revoked (snd r3)")
    case True
    then show ?thesis
      using e2(4) w(2) by (simp add: fin_def update_finish_def fail_mid r3_def)
  next
    case False
    note c = sv_commit_spec [OF that(2) [unfolded r3_def] armed_set [OF e2(1)], folded r3_def]
    have s: "sx (snd r3) = sx e2" using c(2) by (simp add: same_output_def)
    have k: "counts (snd r3) \<subseteq> seen" using sv_commit_counts [of e2] that(2) assms(10) e2(3) by (auto simp: r3_def)
    have "session_ok ?p (sx (snd r3))" "within_limits ?p c (sv_boost_set (sx (snd r3)))"
      "end_boost \<Longrightarrow> sv_boost_set (sx (snd r3)) \<and> c \<le> sv_normal_cap (sx (snd r3))"
      "\<exists>k \<in> seen. tim5_ccr1 (snd r3) = k + (n - 1) * 10"
      using w(2) assms(5-7) c(3) e2(2) by (simp_all add: s sx)
    from update_finish_spec [OF c(1) installed_same [OF c(2) u(2) [OF that(1)]] this(1,2) False this(3,4) assms(8,9) k refl]
    show ?thesis by (simp add: fin_def)
  qed
  have res: "res = (if revoked e then servo_fail b e else if \<not> ok then servo_fail b e2 else ok_or_fail b r3 fin)"
    using out by (simp add: assms(11) update_install_def r3_def fin_def)
  show "mid_inv b (snd res)"
    using fin w e2(4) assms(3) ok_or_fail_mid [of r3 b fin]
    by (simp add: res fail_mid r3_def)
  show "held b (snd res) \<and> lease_timed ?p seen t limit (snd res)" if "fst res = MOTOR_RESULT_OK"
    using that fin w(1) e2(4) ok_or_fail_ok [of b r3 fin]
    by (auto simp: res split: if_splits)
qed

lemma update_commit_spec:
  assumes "pins_ok e" "wired e" "sv_has_sequence (sx e) \<longrightarrow> lease_armed e"
    and "session_ok (rb_policy b) (sx e)" "MotorHwReal_OutputArmingAllowed b"
    and "within_limits (rb_policy b) c (sv_boost_set (sx e))"
    and "res = update_commit b q rm l t c e"
  shows "mid_inv b (snd res)"
    "fst res = MOTOR_RESULT_OK \<Longrightarrow>
      held b (snd res) \<and> lease_timed (rb_policy b) (bases e) t (l - (t - rm)) (snd res)"
proof -
  let ?p = "rb_policy b" and ?s = "sx e" and ?seen = "bases e" and ?limit = "l - (t - rm)"
  define m where "m = (if sv_session_limited ?s \<and> sv_session_deadline ?s - t < ?limit
      then sv_session_deadline ?s - t else ?limit)"
  define n where "n = (if sv_boost_set ?s \<and> sv_boost_deadline ?s - t < m then sv_boost_deadline ?s - t else m)"
  define end_boost where "end_boost \<longleftrightarrow> sv_boost_set ?s \<and> sv_boost_end ?s \<and> c \<le> sv_normal_cap ?s"
  have le: "m \<le> ?limit" "n \<le> ?limit" by (auto simp: m_def n_def)
  define r1 where "r1 = (if sv_has_sequence ?s then sv_renew ?p n e else sv_arm ?p n e)"
  define inst where "inst = update_install b q rm l t c end_boost n m"
  have res: "res = ok_or_fail b r1 inst"
    unfolding assms(7) update_commit_def Let_def r1_def inst_def n_def end_boost_def m_def by (rule refl)
  note s1 = lease_step [OF assms(2,3) r1_def]
  have inst: "mid_inv b (snd (inst (snd r1))) \<and> (fst (inst (snd r1)) = MOTOR_RESULT_OK \<longrightarrow>
      held b (snd (inst (snd r1))) \<and> lease_timed ?p ?seen t ?limit (snd (inst (snd r1))))" if "fst r1"
  proof -
    have s: "sx (snd r1) = sx e" "pins_ok (snd r1)" using s1(3) [OF that] assms(1) by (simp_all add: same_output_def)
    have "end_boost \<Longrightarrow> sv_boost_set (sx (snd r1)) \<and> c \<le> sv_normal_cap (sx (snd r1))"
      by (simp add: s end_boost_def)
    from update_install_spec [where seen = ?seen and n = n, OF _ s(2) _ assms(5) _ this _ _ le(1) _ refl] s1(3) [OF that] assms(4,6) le(2)
    show ?thesis by (simp add: inst_def s)
  qed
  show "mid_inv b (snd res)"
    unfolding res by (rule ok_or_fail_mid) (use s1(1,2) assms(4) inst in simp_all)
  show "held b (snd res) \<and> lease_timed ?p ?seen t ?limit (snd res)" if "fst res = MOTOR_RESULT_OK"
    using that ok_or_fail_ok [of b r1 inst] inst by (auto simp: res)
qed

lemma status_counts [simp]: "counts (MotorExecutor_SetPhysicalStatus b e) = counts e"
  by (simp add: MotorExecutor_SetPhysicalStatus_def counts_def)

lemma valid_counts: "counts (snd (Servo_ActiveRequestIsValid timer_hw b e)) \<subseteq> counts e"
  by (rule Servo_valid_keeps [of "\<lambda>e'. counts e' \<subseteq> counts e"])
    (simp_all add: subset_trans [OF timer_hw_counts])

lemma valid_held: "held b e \<Longrightarrow> held b (snd (Servo_ActiveRequestIsValid timer_hw b e))"
  by (rule Servo_valid_keeps [of "held b"]) (simp_all add: held_timer_hw)

lemma update_live_spec:
  assumes "mid_inv b e"
  shows "mid_inv b (snd (update_live b t e))" "sx (snd (update_live b t e)) = sx e"
    "counts (snd (update_live b t e)) \<subseteq> counts e"
    "fst (update_live b t e) \<Longrightarrow> sv_has_sequence (sx e) \<Longrightarrow> held b (snd (update_live b t e))"
proof -
  have m: "mid_inv b (timer_hw e)" using assms by (simp add: mid_inv_def mid_timer_hw)
  show "mid_inv b (snd (update_live b t e))"
    using assms m valid_mid [OF m] by (simp add: update_live_def Let_def case_prod_beta)
  show "sx (snd (update_live b t e)) = sx e"
    by (simp add: update_live_def Let_def case_prod_beta valid_sx)
  show "counts (snd (update_live b t e)) \<subseteq> counts e"
    using timer_hw_counts [of e] valid_counts [of b "timer_hw e"]
    by (auto simp: update_live_def Let_def case_prod_beta)
  show "held b (snd (update_live b t e))" if "fst (update_live b t e)" "sv_has_sequence (sx e)"
  proof -
    have "MotorStopTimer_IsArmed (timer_hw e)"
      using that by (auto simp: update_live_def Let_def case_prod_beta split: if_splits)
    then have "held b (timer_hw e)"
      using m by (auto simp: mid_inv_def servo_mid_def quiet_def MotorStopTimer_IsArmed_def)
    then show ?thesis
      using that(2) by (simp add: update_live_def Let_def case_prod_beta valid_held)
  qed
qed

lemma update_interlock_spec:
  assumes "update_interlock t dead c e = (ok, c', held_back, e')"
  shows "c' = c \<or> c' = 0" "pins_ok e \<Longrightarrow> pins_ok e'" "wired e' = wired e" "lease_armed e' = lease_armed e"
    "counts e' = counts e" "session_ok p (sx e') = session_ok p (sx e)"
    "sv_has_sequence (sx e') = sv_has_sequence (sx e)" "sv_boost_set (sx e') = sv_boost_set (sx e)" "ok"
  using assms by (auto simp: update_interlock_def Let_def split: if_splits)

lemma bounds_limits:
  assumes "\<not> update_bounds_bad p age l mx dead c boost"
  shows "within_limits p c boost" "within_limits p 0 boost"
  using assms ceilings [of p] by (auto simp: update_bounds_bad_def within_limits_def)

lemma update_refused_limits:
  assumes "\<not> update_refused b token t age l mx dead c e"
  shows "MotorHwReal_OutputArmingAllowed b" "within_limits (rb_policy b) c (sv_boost_set (sx e))"
    "within_limits (rb_policy b) 0 (sv_boost_set (sx e))" "3 \<le> l" "age \<le> mx" "age < l - 1"
    "bp_commissioning (rb_policy b) \<Longrightarrow> l \<le> 130 \<and> mx \<le> 20"
proof -
  have ok: "MotorHwReal_OutputArmingAllowed b"
    and nb: "\<not> update_bounds_bad (rb_policy b) age l mx dead c (sv_boost_set (sx e))"
    using assms by (simp_all add: update_refused_def Let_def)
  show "MotorHwReal_OutputArmingAllowed b" by (rule ok)
  show "within_limits (rb_policy b) c (sv_boost_set (sx e))" "within_limits (rb_policy b) 0 (sv_boost_set (sx e))"
    by (rule bounds_limits [OF nb])+
  show "3 \<le> l" "age \<le> mx" "age < l - 1"
    using nb by (simp_all add: update_bounds_bad_def not_less not_le)
  show "l \<le> 130 \<and> mx \<le> 20" if "bp_commissioning (rb_policy b)"
    using nb that by (simp add: update_bounds_bad_def not_less not_le)
qed

text \<open>
  An update, before its pending interrupt is taken: the invariant holds; an accepted one holds
  exactly the command it reports, under a lease that ends before the sample is too old.
\<close>

definition accepted_update :: "'h real_board \<Rightarrow> u32 set \<Rightarrow> u32 \<Rightarrow> u32 \<Rightarrow> u32 \<Rightarrow> 'h servo_motor \<Rightarrow> bool" where
  "accepted_update b seen rm t l e \<longleftrightarrow>
    held b e \<and> lease_timed (rb_policy b) seen t (l - (t - rm)) e"

lemma lease_timed_mono: "lease_timed p seen t limit e \<Longrightarrow> seen \<subseteq> seen' \<Longrightarrow> lease_timed p seen' t limit e"
  by (auto simp: lease_timed_def)

lemma update_continuous_split:
  assumes "update_interlock t dead c (snd (update_live b t e)) = (ok, c', held_back, e2)"
  shows "update_continuous b token q rm t l mx dead c committed interlocked e =
    (if update_stale token q (sx e)
     then ((MOTOR_RESULT_INVALID, committed, interlocked), MotorExecutor_SetPhysicalStatus b e)
     else if update_refused b token t (t - rm) l mx dead c e
     then ((fst (servo_fail b e), committed, interlocked), snd (servo_fail b e))
     else if \<not> fst (update_live b t e)
     then ((fst (servo_fail b (snd (update_live b t e))), committed, interlocked), snd (servo_fail b (snd (update_live b t e))))
     else ((fst (update_commit b q rm l t c' e2),
            if fst (update_commit b q rm l t c' e2) = MOTOR_RESULT_OK then c' else committed, held_back),
           snd (update_commit b q rm l t c' e2)))"
  using assms update_interlock_spec(9) [OF assms]
  by (simp add: update_continuous_def Let_def case_prod_beta split del: if_split cong: if_cong)

lemma update_continuous_spec:
  assumes "mid_inv b e"
    and "res = update_continuous b token q rm t l mx dead c committed interlocked e"
  shows "mid_inv b (snd res)"
    "fst (fst res) = MOTOR_RESULT_OK \<Longrightarrow> accepted_update b (bases e) rm t l (snd res)"
proof -
  let ?u = "update_live b t e" and ?e1 = "snd (update_live b t e)"
  obtain ok c' hb e2 where il: "update_interlock t dead c ?e1 = (ok, c', hb, e2)"
    by (cases "update_interlock t dead c ?e1")
  note i = update_interlock_spec [OF il]
  note w = mid_inv_wireable [OF assms(1)]
  note u = update_live_spec [OF assms(1), of t]
  note w1 = mid_inv_wireable [OF u(1)]
  define k where "k = update_commit b q rm l t c' e2"
  note res = assms(2) [unfolded update_continuous_split [OF il], folded k_def]
  have k: "mid_inv b (snd k) \<and> (fst k = MOTOR_RESULT_OK \<longrightarrow> accepted_update b (bases e) rm t l (snd k))"
    if r: "\<not> update_refused b token t (t - rm) l mx dead c e" and f: "fst ?u"
  proof -
    note lim = update_refused_limits [OF r]
    have "sv_has_sequence (sx e2) \<longrightarrow> lease_armed e2"
      using u(4) [OF f] i(4,7) by (auto simp: u(2) held_def)
    moreover have "within_limits (rb_policy b) c' (sv_boost_set (sx e2))"
      using i(1,8) lim(2,3) by (auto simp: u(2))
    ultimately have "mid_inv b (snd k)" "fst k = MOTOR_RESULT_OK \<Longrightarrow>
        held b (snd k) \<and> lease_timed (rb_policy b) (bases e2) t (l - (t - rm)) (snd k)"
      using update_commit_spec [of e2 b c' k q rm l t] w1 i(2,3,6) lim(1) by (simp_all add: k_def)
    moreover have "bases e2 \<subseteq> bases e" using u(3) i(5,7) by (auto simp: bases_def u(2))
    ultimately show ?thesis
      using lease_timed_mono [of "rb_policy b" "bases e2" t "l - (t - rm)" "snd k" "bases e"]
      by (simp add: accepted_update_def)
  qed
  show "mid_inv b (snd res)"
    using assms(1) w w1 k by (simp add: res fail_mid)
  show "accepted_update b (bases e) rm t l (snd res)" if "fst (fst res) = MOTOR_RESULT_OK"
    using that k by (simp add: res split: if_splits)
qed

end
