(* ===== verification/MotorServoBoost.thy ===== *)
theory MotorServoBoost
  imports MotorServoSafety MotorRealProps
begin

text \<open>
  Every other operation of the continuous mode keeps the invariant: opening a session, its
  budget, the boost - armed, planned, stepped, ended and handed over - and the calls that turn
  the output off.
\<close>

section \<open>Sessions\<close>

text \<open>What a bookkeeping step must leave alone.\<close>

lemma held_kept:
  assumes "held b e" "sv_open s = sv_open (sx e)" "sv_has_sequence s = sv_has_sequence (sx e)"
    and "sv_committed s = sv_committed (sx e)" "sv_boost_set (sx e) \<longrightarrow> sv_boost_set s"
    and "mx_logical_active m = mx_logical_active (rx_motor e)" "mx_last_action m = mx_last_action (rx_motor e)"
    and "mx_planned_tim2_ccr3 m = mx_planned_tim2_ccr3 (rx_motor e)"
    and "mx_planned_tim3_ccr3 m = mx_planned_tim3_ccr3 (rx_motor e)"
  shows "held b (e\<lparr>sx := s, rx_motor := m\<rparr>)"
  using assms
  by (auto simp: held_def output_held_def command_limited_def Let_def lease_armed_def pins_ok_def
      MotorHwReal_IsDisabled_def MotorHwReal_ActiveCompareIsValid_def)

lemma mid_kept:
  assumes "mid_inv b e" "session_ok (rb_policy b) s"
    and "sv_open s = sv_open (sx e)" "sv_has_sequence s = sv_has_sequence (sx e)"
    and "sv_committed s = sv_committed (sx e)" "sv_boost_set (sx e) \<longrightarrow> sv_boost_set s"
    and "mx_logical_active m = mx_logical_active (rx_motor e)" "mx_last_action m = mx_last_action (rx_motor e)"
    and "mx_planned_tim2_ccr3 m = mx_planned_tim2_ccr3 (rx_motor e)"
    and "mx_planned_tim3_ccr3 m = mx_planned_tim3_ccr3 (rx_motor e)"
  shows "mid_inv b (e\<lparr>sx := s, rx_motor := m\<rparr>)"
  using assms held_kept [OF _ assms(3-10)] by (auto simp: mid_inv_def servo_mid_def)

lemma mid_kept_sx:
  assumes "mid_inv b e" "session_ok (rb_policy b) s"
    and "sv_open s = sv_open (sx e)" "sv_has_sequence s = sv_has_sequence (sx e)"
    and "sv_committed s = sv_committed (sx e)" "sv_boost_set (sx e) \<longrightarrow> sv_boost_set s"
  shows "mid_inv b (e\<lparr>sx := s\<rparr>)"
  using mid_kept [OF assms, of "rx_motor e"] by simp

lemma masked_mid: "mid_inv b (snd (f e)) \<Longrightarrow> servo_ok b (snd (masked f e)) \<and> session_ok (rb_policy b) (sx (snd (masked f e)))"
  by (simp add: mid_inv_def mid_poll)

abbreviation servo_inv :: "'h real_board \<Rightarrow> 'h servo_motor \<Rightarrow> bool" where
  "servo_inv b e \<equiv> servo_ok b e \<and> session_ok (rb_policy b) (sx e)"

lemma inv_mid: "servo_inv b e \<Longrightarrow> mid_inv b e"
  by (simp add: mid_inv_def servo_ok_mid)

lemma Begin_inv:
  assumes "servo_inv b e"
  shows "servo_inv b (snd (MotorExecutor_BeginContinuous b e))"
proof -
  have m: "mid_inv b (timer_hw e)" using inv_mid [OF assms] by (simp add: mid_inv_def mid_timer_hw)
  then have "quiet (timer_hw e)" if "\<not> sv_open (sx e)"
    using that by (auto simp: mid_inv_def servo_mid_def held_def)
  then show ?thesis
    unfolding MotorExecutor_BeginContinuous_def
    by (intro masked_mid) (use m in \<open>simp add: Let_def mid_inv_def servo_mid_def session_ok_def\<close>)
qed

lemma Budget_inv:
  assumes "servo_inv b e"
  shows "servo_inv b (snd (MotorExecutor_SetContinuousBudget (rb_policy b) token now duration cap e))"
  unfolding MotorExecutor_SetContinuousBudget_def
  by (intro masked_mid)
    (use inv_mid [OF assms] assms in \<open>auto simp: Let_def session_ok_def intro!: mid_kept_sx\<close>)

section \<open>The boost\<close>

lemma Arm_inv:
  assumes "servo_inv b e"
  shows "servo_inv b (snd (MotorExecutor_ArmContinuousBoost b token now duration e))"
proof -
  let ?v = "snd (Servo_ActiveRequestIsValid timer_hw b e)"
  have m: "mid_inv b e" by (rule inv_mid [OF assms])
  note v = valid_mid [OF m] valid_sx [of b e]
  have "mid_inv b (?v\<lparr>sx := (sx ?v)\<lparr>sv_boost_set := True, sv_boost_used := True,
        sv_boost_deadline := now + duration, sv_boost_started := now\<rparr>,
      rx_motor := (rx_motor ?v)\<lparr>mx_boost_started_ms := now, mx_boost_deadline_ms := now + duration\<rparr>\<rparr>)" if "sv_budget_set (sx e)"
    using assms that v(1) by (intro mid_kept) (simp_all add: v(2) session_ok_def)
  then show ?thesis
    unfolding MotorExecutor_ArmContinuousBoost_def
    by (intro masked_mid) (use m v in \<open>simp add: Let_def case_prod_beta\<close>)
qed

lemma End_inv:
  assumes "servo_inv b e"
  shows "servo_inv b (snd (MotorExecutor_EndContinuousBoost token e))"
  unfolding MotorExecutor_EndContinuousBoost_def
  by (intro masked_mid)
    (use inv_mid [OF assms] assms in \<open>auto simp: Let_def session_ok_def intro!: mid_kept_sx\<close>)

lemma Plan_inv:
  assumes "servo_inv b e"
  shows "servo_inv b (snd (MotorExecutor_SetContinuousBoostPlan b token now rise end_ms peak lower e))"
proof -
  let ?v = "snd (Servo_ActiveRequestIsValid timer_hw b e)"
  have m: "mid_inv b e" by (rule inv_mid [OF assms])
  note v = valid_mid [OF m] valid_sx [of b e]
  have "mid_inv b (?v\<lparr>sx := (sx ?v)\<lparr>sv_boost_plan := True,
        sv_boost_initial := (if sv_committed (sx e) < peak then sv_committed (sx e) else peak),
        sv_boost_peak := peak, sv_boost_lower := lower, sv_boost_rise := rise,
        sv_boost_end_ms := sv_boost_started (sx e) + end_ms\<rparr>,
      rx_motor := (rx_motor ?v)\<lparr>mx_boost_planned_end_ms := sv_boost_started (sx e) + end_ms\<rparr>\<rparr>)"
    if "peak \<le> FS_EXECUTOR_PRESS_CEILING (rb_policy b)"
    using assms that v(1) by (intro mid_kept) (simp_all add: v(2) session_ok_def)
  then show ?thesis
    unfolding MotorExecutor_SetContinuousBoostPlan_def
    by (intro masked_mid) (use m v in \<open>simp add: Let_def case_prod_beta if_distrib [of snd] if_distrib [of "mid_inv b"] split del: if_split cong: if_cong\<close>)
qed

section \<open>The handoff\<close>

text \<open>An installed output under an armed lease may be recorded.\<close>

lemma held_set:
  assumes "lease_armed e" "installed b c t2 t3 e" "\<not> rx_completion_event_pending e"
    and "within_limits (rb_policy b) c (sv_boost_set s)"
    and "sv_open s" "sv_has_sequence s" "sv_committed s = c"
    and "mx_logical_active m" "mx_last_action m = MOTOR_ACTION_CONTINUOUS"
    and "mx_planned_tim2_ccr3 m = t2" "mx_planned_tim3_ccr3 m = t3"
  shows "held b (e\<lparr>sx := s, rx_motor := m\<rparr>)"
proof -
  have "output_held b (e\<lparr>sx := s, rx_motor := m\<rparr>)"
    using assms(2,7,10,11)
    by (cases "c > 0"; cases "c = 0"; simp add: output_held_def installed_def MotorHwReal_IsDisabled_def
        MotorHwReal_ActiveCompareIsValid_def)
  moreover have "lease_armed (e\<lparr>sx := s, rx_motor := m\<rparr>)" "pins_ok (e\<lparr>sx := s, rx_motor := m\<rparr>)"
    using assms(1,2) by (simp_all add: lease_armed_def installed_def pins_ok_def)
  ultimately show ?thesis
    using assms by (simp add: held_def command_limited_def within_limits_def)
qed

lemma normal_limits:
  assumes "session_ok p s" "sv_budget_set s" "0 \<le> c" "c \<le> sv_normal_cap s"
  shows "within_limits p c boost"
  using assms ceilings [of p] by (auto simp: session_ok_def within_limits_def)

lemma commit_armed: "fst (sv_commit e) \<Longrightarrow> st_armed e"
  by (simp add: MotorStopTimer_CommitArm_def Let_def split: if_splits)

lemma mid_armed_held: "mid_inv b e \<Longrightarrow> st_armed e \<Longrightarrow> held b e"
  by (auto simp: mid_inv_def servo_mid_def quiet_def)

lemma lease_timed_sx [simp]: "lease_timed p seen t limit (e\<lparr>sx := s, rx_motor := m\<rparr>) \<longleftrightarrow>
    (\<exists>c \<in> seen. \<exists>r. 1 < r \<and> r \<le> limit \<and> r \<le> MOTOR_STOP_MAX_LEASE_MS p
      \<and> tim5_ccr1 e = c + (r - 1) * 10 \<and> mx_logical_deadline_ms m = t + r)"
  by (simp add: lease_timed_def)

lemma handoff_output_spec:
  assumes "pins_ok e" "c \<noteq> 0 \<longrightarrow> 0 < c \<and> MotorHwReal_OutputArmingAllowed b"
    and "handoff_output b now c e = (success, t2, t3, e')"
  shows "stepped e e'" "success \<Longrightarrow> installed b c t2 t3 e'"
proof -
  define plan where "plan = Servo_PlanCommand (rb_policy b) MOTOR_DIRECTION_PRESS (of_int c)"
  define r where "r = MotorHwReal_Update b True (snd (snd plan)) e"
  have on: "handoff_output b now c e =
      (if fst plan \<noteq> MOTOR_RESULT_OK then (False, fst (snd plan), snd (snd plan), e)
       else (fst r \<and> \<not> MotorHwReal_IsDisabled (snd r), fst (snd plan), snd (snd plan), snd r))" if "c \<noteq> 0"
    using that by (simp add: handoff_output_def Let_def case_prod_beta r_def plan_def)
  note a = applied_servo [OF Update_spec [OF assms(1), of True "snd (snd plan)" b], folded r_def]
  have "stepped e e' \<and> (success \<longrightarrow> installed b c t2 t3 e')"
  proof (cases "c = 0")
    case True
    then show ?thesis
      using assms(3) by (simp add: handoff_output_def Let_def) (auto simp: stepped_def installed_def)
  next
    case False
    then have "installed b c (fst (snd plan)) (snd (snd plan)) (snd r)" if "fst r" "fst plan = MOTOR_RESULT_OK"
      using that assms(2) a by (cases plan) (simp add: installed_def flip: plan_def)
    moreover have "stepped e (snd r)" "stepped e e" using a by (simp_all add: stepped_def)
    ultimately show ?thesis
      using assms(3) on [OF False] by (auto split: if_splits)
  qed
  then show "stepped e e'" "success \<Longrightarrow> installed b c t2 t3 e'" by simp_all
qed

text \<open>The last step of the handoff, from a verified lower output on.\<close>

definition handed_over :: "'h real_board \<Rightarrow> u32 set \<Rightarrow> u32 \<Rightarrow> u32 \<Rightarrow> int \<Rightarrow> 'h servo_motor \<Rightarrow> bool" where
  "handed_over b seen now limit c e \<longleftrightarrow> held b e \<and> lease_timed (rb_policy b) seen now limit e
    \<and> sv_committed (sx e) = c \<and> \<not> sv_boost_set (sx e)"

lemma handed_over_mono:
  "handed_over b seen now limit c e \<Longrightarrow> seen \<subseteq> seen' \<Longrightarrow> handed_over b seen' now limit c e"
  by (auto simp: handed_over_def lease_timed_mono)

lemma handed_over_status [simp]:
  "handed_over b seen now limit c (MotorExecutor_SetPhysicalStatus b' e) \<longleftrightarrow>
    held b (MotorExecutor_SetPhysicalStatus b' e) \<and> lease_timed (rb_policy b) seen now limit (MotorExecutor_SetPhysicalStatus b' e)
    \<and> sv_committed (sx e) = c \<and> \<not> sv_boost_set (sx e)"
  by (simp add: handed_over_def)

lemma handoff_renew_spec:
  assumes "lease_armed e" "installed b c t2 t3 e" "session_ok (rb_policy b) (sx e)"
    and "sv_budget_set (sx e)" "0 \<le> c" "c \<le> sv_normal_cap (sx e)"
    and "sv_open (sx e)" "sv_has_sequence (sx e)"
    and "mx_logical_active (rx_motor e)" "mx_last_action (rx_motor e) = MOTOR_ACTION_CONTINUOUS"
    and "res = handoff_renew b now c t2 t3 e"
  shows "mid_inv b (snd res)"
    "fst res = MOTOR_RESULT_OK \<Longrightarrow>
      handed_over b (counts e) now (sv_receive_deadline (sx e) - now) c (snd res)"
proof -
  let ?p = "rb_policy b"
  define n where "n = (if sv_session_limited (sx e) \<and> sv_session_deadline (sx e) - now < sv_receive_deadline (sx e) - now
      then sv_session_deadline (sx e) - now else sv_receive_deadline (sx e) - now)"
  define put where "put e = e\<lparr>sx := (sx e)\<lparr>sv_boost_set := False, sv_boost_end := False,
        sv_boost_plan := False, sv_committed := c\<rparr>,
      rx_motor := (rx_motor e)\<lparr>mx_command_mv := of_int c,
        mx_planned_tim2_ccr3 := t2, mx_planned_tim3_ccr3 := t3,
        mx_logical_deadline_ms := now + n, mx_logical_backstop_ms := now + n,
        mx_request_sequence := mx_request_sequence (rx_motor e) + 1\<rparr>\<rparr>" for e :: "'a servo_motor"
  define r1 where "r1 = sv_renew ?p n e"
  define r2 where "r2 = sv_commit (snd r1)"
  define last where "last e = (if revoked e then servo_fail b e else servo_done b MOTOR_RESULT_OK (put e))"
    for e :: "'a servo_motor"
  have res: "res = (if due (sv_receive_deadline (sx e)) now
        \<or> sv_session_limited (sx e) \<and> due (sv_session_deadline (sx e)) now then servo_fail b e
      else ok_or_fail b r1 (\<lambda>e. ok_or_fail b (sv_commit e) last))"
    unfolding assms(11) handoff_renew_def Let_def r1_def last_def put_def n_def by (rule refl)
  have w: "wireable e" using assms(1) by (simp add: lease_armed_def)
  have fin: "handed_over b (counts e) now (sv_receive_deadline (sx e) - now) c (put (snd r2))
      \<and> session_ok ?p (sx (put (snd r2)))"
    if "fst r1" "fst r2" "\<not> revoked (snd r2)"
  proof -
    note r = sv_renew_spec [OF that(1) [unfolded r1_def] assms(1), folded r1_def]
    note k = sv_commit_spec [OF that(2) [unfolded r2_def] armed_set [OF r(1)], folded r2_def]
    have same: "same_output e (snd r2)" by (rule same_output_trans [OF r(2) k(2)])
    then have sx: "sx (snd r2) = sx e" "rx_motor (snd r2) = rx_motor e"
      by (simp_all add: same_output_def)
    have "held b (put (snd r2))"
      unfolding put_def
      by (rule held_set [OF k(1) installed_same [OF same assms(2)]])
        (use assms(7-10) that(3) normal_limits [OF assms(3-6)] in \<open>simp_all add: sx revoked_def\<close>)
    moreover have "n \<le> sv_receive_deadline (sx e) - now" by (auto simp: n_def)
    then have "lease_timed ?p (counts e) now (sv_receive_deadline (sx e) - now) (put (snd r2))"
      using r(3,4) k(3) by (auto simp: put_def)
    ultimately show ?thesis
      using assms(3) by (simp add: handed_over_def put_def sx session_ok_def)
  qed
  have end_mid: "mid_inv b (snd (last (snd r2)))" if "fst r1" "fst r2"
    using fin [OF that] w assms(3)
    by (simp add: last_def fail_mid r1_def r2_def mid_inv_def servo_mid_def handed_over_def split del: if_split cong: if_cong)
      (auto simp: servo_fail_quiet)
  have "mid_inv b (snd (ok_or_fail b (sv_commit (snd r1)) last))" if "fst r1"
    by (intro ok_or_fail_mid) (use w assms(3) end_mid [OF that] in \<open>simp_all add: r1_def r2_def\<close>)
  then have "mid_inv b (snd (ok_or_fail b r1 (\<lambda>e. ok_or_fail b (sv_commit e) last)))"
    using w assms(3) ok_or_fail_mid [of r1 b "\<lambda>e. ok_or_fail b (sv_commit e) last"] by (simp add: r1_def)
  then show "mid_inv b (snd res)" using w assms(3) by (simp add: res fail_mid)
  assume "fst res = MOTOR_RESULT_OK"
  then have "\<not> revoked (snd r2)" "fst r1" "fst r2" "snd res = snd (last (snd r2))"
    using ok_or_fail_ok [of b r1 "\<lambda>e. ok_or_fail b (sv_commit e) last"] ok_or_fail_ok [of b r2 last]
    by (auto simp: res last_def r2_def split: if_splits)
  then show "handed_over b (counts e) now (sv_receive_deadline (sx e) - now) c (snd res)"
    using fin by (simp add: last_def) (simp add: handed_over_def)
qed

text \<open>
  The handoff: it keeps the invariant, and when it succeeds the output is the smaller command
  it was asked for, under a lease that ends before the last sample is too old.
\<close>

lemma handoff_spec:
  assumes "mid_inv b e" "res = handoff_boost b token now c e"
  shows "mid_inv b (snd res)"
    "fst res = MOTOR_RESULT_OK \<Longrightarrow>
      owns token (sx e) \<and> \<not> handoff_refused (rb_policy b) now c e
      \<and> handed_over b (counts e) now (sv_receive_deadline (sx e) - now) c (snd res)"
proof -
  let ?p = "rb_policy b"
  define r1 where "r1 = Servo_ActiveRequestIsValid timer_hw b e"
  define r2 where "r2 = sv_commit (snd r1)"
  obtain ok t2 t3 e3 where out: "handoff_output b now c (snd r2) = (ok, t2, t3, e3)"
    by (cases "handoff_output b now c (snd r2)")
  define r4 where "r4 = sv_commit e3"
  define last where "last = handoff_renew b now c t2 t3"
  define after where "after e = (if revoked e then servo_fail b e else last e)" for e
  define step3 where "step3 = (if \<not> ok \<or> \<not> MotorHwReal_MatchesPlan b t2 t3 e3 then servo_fail b e3
      else ok_or_fail b r4 after)"
  define k2 where "k2 e = (case handoff_output b now c e of (success, t2, t3, e) \<Rightarrow>
      if \<not> success \<or> \<not> MotorHwReal_MatchesPlan b t2 t3 e then servo_fail b e
      else ok_or_fail b (sv_commit e)
        (\<lambda>e. if revoked e then servo_fail b e else handoff_renew b now c t2 t3 e))" for e :: "'a servo_motor"
  have k2: "k2 (snd r2) = step3"
    by (simp add: k2_def out step3_def r4_def after_def last_def split del: if_split cong: if_cong)
      (simp add: after_def [abs_def] last_def cong: if_cong)
  define k1 where "k1 e = ok_or_fail b (sv_commit e) k2" for e :: "'a servo_motor"
  have res: "res = (if \<not> owns token (sx e) then servo_done b MOTOR_RESULT_INVALID e
      else if handoff_refused ?p now c e then servo_fail b e else ok_or_fail b r1 k1)"
    by (simp only: assms(2) handoff_boost_def r1_def k1_def [abs_def] k2_def [abs_def])
  note w = mid_inv_wireable [OF assms(1)]
  have m1: "mid_inv b (snd r1)" "sx (snd r1) = sx e" "counts (snd r1) \<subseteq> counts e"
    using valid_mid [OF assms(1)] valid_counts by (simp_all add: r1_def valid_sx)
  note w1 = mid_inv_wireable [OF m1(1)]
  have goal: "mid_inv b (snd step3) \<and> (fst step3 = MOTOR_RESULT_OK \<longrightarrow>
      handed_over b (counts e) now (sv_receive_deadline (sx e) - now) c (snd step3))"
    if r: "\<not> handoff_refused ?p now c e" and "fst r2"
  proof -
    have h: "held b (snd r1)"
      using mid_armed_held [OF m1(1)] commit_armed [of "snd r1"] that(2) by (simp add: r2_def)
    then have l1: "lease_armed (snd r1)" by (simp add: held_def)
    note k = sv_commit_spec [OF that(2) [unfolded r2_def] armed_set [OF l1], folded r2_def]
    have s2: "sx (snd r2) = sx e" "rx_motor (snd r2) = rx_motor (snd r1)" "pins_ok (snd r2)"
      using k(2) h m1(2) by (simp_all add: same_output_def held_def)
    have c: "sv_budget_set (sx e)" "0 \<le> c" "c \<le> sv_normal_cap (sx e)" "c \<le> sv_committed (sx e)"
      using r by (auto simp: handoff_refused_def Let_def)
    have "c \<noteq> 0 \<longrightarrow> 0 < c \<and> MotorHwReal_OutputArmingAllowed b"
      using h c(2,4) m1(2) by (auto simp: held_def output_held_def Let_def split: if_splits)
    note o = handoff_output_spec [OF s2(3) this out]
    obtain off sign where sx3: "sx e3 = (sx e)\<lparr>sv_off_ms := off, sv_last_sign := sign\<rparr>"
      using o(1) s2(1) by (auto simp: stepped_def)
    have e3: "lease_armed e3" "wireable e3" "rx_motor e3 = rx_motor (snd r1)" "counts e3 = counts (snd r2)"
      using o(1) k(1) s2(2) by (auto simp: stepped_def lease_armed_def)
    have s3: "session_ok ?p (sx e3)" using w by (simp add: sx3)
    have fin: "mid_inv b (snd (last (snd r4))) \<and> (fst (last (snd r4)) = MOTOR_RESULT_OK \<longrightarrow>
        handed_over b (counts e) now (sv_receive_deadline (sx e) - now) c (snd (last (snd r4))))"
      if "fst r4" ok "\<not> revoked (snd r4)"
    proof -
      note k4 = sv_commit_spec [OF that(1) [unfolded r4_def] armed_set [OF e3(1)], folded r4_def]
      have s4: "sx (snd r4) = (sx e)\<lparr>sv_off_ms := off, sv_last_sign := sign\<rparr>" "rx_motor (snd r4) = rx_motor (snd r1)"
        using k4(2) sx3 e3(3) by (simp_all add: same_output_def)
      have seen: "counts (snd r4) \<subseteq> counts e"
        using sv_commit_counts [of e3] sv_commit_counts [of "snd r1"] that(1) \<open>fst r2\<close> e3(4) m1(3)
        by (auto simp: r4_def r2_def)
      have "sv_open (sx e)" "sv_has_sequence (sx e)" "mx_logical_active (rx_motor (snd r1))"
        "mx_last_action (rx_motor (snd r1)) = MOTOR_ACTION_CONTINUOUS"
        using h m1(2) by (simp_all add: held_def)
      with handoff_renew_spec [OF k4(1) installed_same [OF k4(2) o(2) [OF that(2)]], where res = "last (snd r4)" and now = now]
      show ?thesis
        using c w handed_over_mono [OF _ seen] by (auto simp: s4 last_def)
    qed
    have "mid_inv b (snd (after (snd r4)))" if "fst r4" ok
      using fin [OF that] e3(2) s3 by (simp add: after_def fail_mid r4_def)
    then have "mid_inv b (snd step3)"
      using e3(2) s3 ok_or_fail_mid [of r4 b after] by (simp add: step3_def fail_mid) (simp add: r4_def)
    moreover have "handed_over b (counts e) now (sv_receive_deadline (sx e) - now) c (snd step3)"
      if "fst step3 = MOTOR_RESULT_OK"
      using that fin ok_or_fail_ok [of b r4 after] by (auto simp: step3_def after_def split: if_splits)
    ultimately show ?thesis by simp
  qed
  have "mid_inv b (snd (ok_or_fail b r1 k1))" if "\<not> handoff_refused ?p now c e"
    using goal [OF that] w1 k2
    by (intro ok_or_fail_mid) (simp_all add: k1_def r2_def ok_or_fail_mid)
  then show "mid_inv b (snd res)" using assms(1) w by (simp add: res fail_mid)
  assume ok: "fst res = MOTOR_RESULT_OK"
  then have "owns token (sx e)" "\<not> handoff_refused ?p now c e" "fst (ok_or_fail b r1 k1) = MOTOR_RESULT_OK"
    by (auto simp: res split: if_splits)
  moreover from this have "fst r2" "fst step3 = MOTOR_RESULT_OK" "snd res = snd step3"
    using ok_or_fail_ok [of b r1 k1] ok_or_fail_ok [of b r2 k2] k2 by (auto simp: res k1_def r2_def)
  ultimately show "owns token (sx e) \<and> \<not> handoff_refused ?p now c e
      \<and> handed_over b (counts e) now (sv_receive_deadline (sx e) - now) c (snd res)"
    using goal by simp
qed

section \<open>The steps of the boost\<close>

lemma commit_held: "held b e \<Longrightarrow> fst (sv_commit e) \<Longrightarrow> held b (snd (sv_commit e))"
  using sv_commit_spec [of e] armed_set [of e] same_output_held [of e "snd (sv_commit e)" b]
  by (simp add: held_def same_output_def)

text \<open>What a step of the boost leaves alone: the lease and everything but the command.\<close>

definition same_lease :: "'h servo_motor \<Rightarrow> 'h servo_motor \<Rightarrow> bool" where
  "same_lease e e' \<longleftrightarrow> tim5_ccr1 e' = tim5_ccr1 e
    \<and> mx_logical_deadline_ms (rx_motor e') = mx_logical_deadline_ms (rx_motor e)
    \<and> (\<exists>c sign. sx e' = (sx e)\<lparr>sv_committed := c, sv_last_sign := sign\<rparr>)"

lemma same_sign [simp]: "\<exists>c sign. s = s\<lparr>sv_committed := c, sv_last_sign := sign\<rparr>"
  by (rule exI [of _ "sv_committed s"], rule exI [of _ "sv_last_sign s"]) simp

lemma same_lease_status [simp]:
  "same_lease e (MotorExecutor_SetPhysicalStatus b e') = same_lease e e'"
  by (simp add: same_lease_def) (simp add: MotorExecutor_SetPhysicalStatus_def)

lemma same_lease_refl [simp]: "same_lease e e"
  by (simp add: same_lease_def)

lemma boost_step_spec:
  assumes "held b e" "session_ok (rb_policy b) (sx e)" "sv_boost_set (sx e)"
    and "0 \<le> c" "c \<le> FS_EXECUTOR_PRESS_CEILING (rb_policy b)" "res = boost_step b c e"
  shows "mid_inv b (snd res)"
    "fst res = MOTOR_RESULT_OK \<Longrightarrow> held b (snd res) \<and> same_lease e (snd res) \<and> sv_committed (sx (snd res)) = c"
proof -
  let ?p = "rb_policy b"
  define plan where "plan = Servo_PlanCommand ?p MOTOR_DIRECTION_PRESS (of_int c)"
  define r where "r = (if sv_committed (sx e) \<noteq> 0 then MotorHwReal_Update b True (snd (snd plan)) e
      else MotorHwReal_ApplyPress b (snd (snd plan)) e)"
  define put where "put e = e\<lparr>sx := (sx e)\<lparr>sv_committed := c, sv_last_sign := 1\<rparr>,
      rx_motor := (rx_motor e)\<lparr>mx_command_mv := of_int c, mx_planned_tim2_ccr3 := fst (snd plan),
        mx_planned_tim3_ccr3 := snd (snd plan), mx_request_sequence := mx_request_sequence (rx_motor e) + 1\<rparr>\<rparr>"
    for e :: "'a servo_motor"
  define last where "last e = (if revoked e then servo_fail b e else servo_done b MOTOR_RESULT_OK (put e))"
    for e :: "'a servo_motor"
  define check where "check e = (if \<not> MotorHwReal_MatchesPlan b (fst (snd plan)) (snd (snd plan)) e
      then servo_fail b e else ok_or_fail b (sv_commit e) last)" for e :: "'a servo_motor"
  have res: "res = (if c = sv_committed (sx e) then servo_done b MOTOR_RESULT_OK e
      else if fst plan \<noteq> MOTOR_RESULT_OK then servo_fail b e else ok_or_fail b r check)"
    unfolding assms(6) boost_step_def Let_def case_prod_beta plan_def r_def check_def last_def put_def by (rule refl)
  have e: "lease_armed e" "pins_ok e" "wireable e" "sv_open (sx e)" "sv_has_sequence (sx e)"
    "mx_logical_active (rx_motor e)" "mx_last_action (rx_motor e) = MOTOR_ACTION_CONTINUOUS"
    using assms(1) by (simp_all add: held_def lease_armed_def)
  have "applied True (snd (snd plan)) e r"
    unfolding r_def by (simp add: Update_spec [OF e(2)] Apply_spec MotorHwReal_ApplyPress_def)
  note a = applied_servo [OF this]
  have l: "lease_armed (snd r)" "wireable (snd r)" using a e by simp_all
  have arming: "MotorHwReal_OutputArmingAllowed b" if "fst r" "fst plan = MOTOR_RESULT_OK"
    using that assms(1) Apply_accepts [of b True "snd (snd plan)" e]
    by (cases "sv_committed (sx e) = 0") (auto simp: held_def output_held_def r_def MotorHwReal_ApplyPress_def Let_def)
  have pos: "0 < c" if "fst plan = MOTOR_RESULT_OK"
    using that assms(4) by (cases "c = 0") (auto simp: plan_def Servo_PlanCommand_def Real_PlanCommand_def)
  have inst: "installed b c (fst (snd plan)) (snd (snd plan)) (snd r)" if "fst r" "fst plan = MOTOR_RESULT_OK"
    using that a pos arming by (cases plan) (simp add: installed_def flip: plan_def)
  define r2 where "r2 = sv_commit (snd r)"
  have fin: "held b (put (snd r2)) \<and> same_lease e (put (snd r2)) \<and> session_ok ?p (sx (put (snd r2)))"
    if "fst r" "fst plan = MOTOR_RESULT_OK" "fst r2" "\<not> revoked (snd r2)"
  proof -
    note k = sv_commit_spec [OF that(3) [unfolded r2_def] armed_set [OF l(1)], folded r2_def]
    have s: "sx (snd r2) = sx e" "rx_motor (snd r2) = rx_motor e" "tim5_ccr1 (snd r2) = tim5_ccr1 e"
      using k(2,3) a by (simp_all add: same_output_def)
    have "within_limits ?p c True" using assms(4,5) by (simp add: within_limits_def)
    then have "held b (put (snd r2))"
      unfolding put_def
      by (intro held_set [OF k(1) installed_same [OF k(2) inst [OF that(1,2)]]])
        (use e that(4) assms(3) in \<open>simp_all add: s revoked_def\<close>)
    moreover have "same_lease e (put (snd r2))" by (auto simp: same_lease_def put_def s)
    moreover have "session_ok ?p (sx (put (snd r2)))" using assms(2) by (simp add: put_def s session_ok_def)
    ultimately show ?thesis by simp
  qed
  have "mid_inv b (snd (last (snd r2)))" if "fst r" "fst plan = MOTOR_RESULT_OK" "fst r2"
    using fin [OF that] l a assms(2)
    by (cases "revoked (snd r2)") (simp_all add: last_def fail_mid mid_inv_def servo_mid_def, simp add: r2_def servo_fail_quiet)
  then have "mid_inv b (snd (check (snd r)))" if "fst r" "fst plan = MOTOR_RESULT_OK"
    using that l a assms(2) ok_or_fail_mid [of r2 b last]
    by (simp add: check_def fail_mid) (simp add: r2_def)
  then have "mid_inv b (snd (ok_or_fail b r check))" if "fst plan = MOTOR_RESULT_OK"
    using that l a assms(2) ok_or_fail_mid [of r b check] by simp
  then show "mid_inv b (snd res)"
    using assms(1,2) e(3) by (simp add: res fail_mid) (simp add: mid_inv_def servo_mid_def)
  assume ok: "fst res = MOTOR_RESULT_OK"
  show "held b (snd res) \<and> same_lease e (snd res) \<and> sv_committed (sx (snd res)) = c"
  proof (cases "c = sv_committed (sx e)")
    case True
    then show ?thesis using assms(1) by (simp add: res)
  next
    case False
    then have k: "fst plan = MOTOR_RESULT_OK" "fst (ok_or_fail b r check) = MOTOR_RESULT_OK"
      "snd res = snd (ok_or_fail b r check)"
      using ok by (auto simp: res split: if_splits)
    have f: "fst r" "fst (ok_or_fail b r2 last) = MOTOR_RESULT_OK" "snd res = snd (ok_or_fail b r2 last)"
      using ok_or_fail_ok [OF k(2)] k(3) by (auto simp: check_def r2_def split: if_splits)
    then have "fst r2" "\<not> revoked (snd r2)" "snd res = MotorExecutor_SetPhysicalStatus b (put (snd r2))"
      using ok_or_fail_ok [OF f(2)] by (auto simp: last_def split: if_splits)
    then show ?thesis
      using fin [OF f(1) k(1)] by simp (simp add: put_def)
  qed
qed

lemma same_lease_trans:
  assumes "same_lease e e'" "same_lease e' e''"
  shows "same_lease e e''"
proof -
  obtain c sign c' sign' where "sx e' = (sx e)\<lparr>sv_committed := c, sv_last_sign := sign\<rparr>"
    "sx e'' = (sx e')\<lparr>sv_committed := c', sv_last_sign := sign'\<rparr>"
    using assms by (auto simp: same_lease_def)
  then show ?thesis using assms by (auto simp: same_lease_def)
qed

lemma same_lease_hw: "same_lease e (timer_hw e)"
  by (simp add: same_lease_def)

lemma valid_same_lease: "same_lease e (snd (Servo_ActiveRequestIsValid timer_hw b e))"
  by (rule Servo_valid_keeps [of "same_lease e"]) (simp_all add: same_lease_trans [OF _ same_lease_hw])

lemma commit_same_lease:
  assumes "fst (sv_commit e)" "held b e"
  shows "same_lease e (snd (sv_commit e))"
  using sv_commit_spec(2,3) [OF assms(1)] armed_set [of e] assms(2)
  by (simp add: held_def same_lease_def same_output_def)

lemma command_within_peak:
  assumes "session_ok p s" "sv_boost_plan s" "c \<le> sv_boost_peak s"
  shows "c \<le> FS_EXECUTOR_PRESS_CEILING p"
  using assms by (simp add: session_ok_def)

definition boost_serviced :: "'h real_board \<Rightarrow> u32 \<Rightarrow> 'h servo_motor \<Rightarrow> int \<Rightarrow> bool \<Rightarrow> 'h servo_motor \<Rightarrow> bool" where
  "boost_serviced b now e a finished e' \<longleftrightarrow> held b e' \<and> a = sv_committed (sx e')
    \<and> (if finished
       then handed_over b (counts e) now (sv_receive_deadline (sx e) - now) a e'
         \<and> 0 \<le> a \<and> a \<le> sv_normal_cap (sx e) \<and> a \<le> sv_committed (sx e)
       else same_lease e e' \<and> sv_committed (sx e) \<le> a \<and> a \<le> sv_boost_peak (sx e))"

text \<open>
  A service of the boost: it keeps the invariant; while the boost lasts an accepted one leaves
  the lease alone, and at its end it hands over to the lower command.
\<close>

lemma service_boost_spec:
  assumes "mid_inv b e" "res = service_boost b token now actual finished e"
  shows "mid_inv b (snd res)"
    "fst (fst res) = MOTOR_RESULT_OK \<Longrightarrow> boost_serviced b now e (fst (snd (fst res))) (snd (snd (fst res))) (snd res)"
proof -
  let ?p = "rb_policy b" and ?s = "sx e"
  define v where "v = Servo_ActiveRequestIsValid timer_hw b e"
  define lower where "lower = (if sv_boost_lower ?s < sv_committed ?s then sv_boost_lower ?s else sv_committed ?s)"
  define c where "c = MotorExecutor_ContinuousBoostCommand token now ?s"
  define h where "h = handoff_boost b token now lower (snd v)"
  define r where "r = sv_commit (snd v)"
  define st where "st = ok_or_fail b r (boost_step b c)"
  define early where "early \<longleftrightarrow> \<not> sv_boost_plan ?s \<or> \<not> sv_boost_set ?s \<or> rx_completion_event_pending e
      \<or> due (sv_boost_deadline ?s) now \<or> due (sv_receive_deadline ?s) now
      \<or> sv_session_limited ?s \<and> due (sv_session_deadline ?s) now"
  define bad where "bad \<longleftrightarrow> c < sv_committed ?s \<or> c > sv_boost_peak ?s \<or> c < 0
      \<or> \<not> bp_characterization ?p \<and> c = 0"
  have res: "res = (if \<not> owns token ?s
      then ((MOTOR_RESULT_INVALID, actual, finished), MotorExecutor_SetPhysicalStatus b e)
      else if early then ((fst (servo_fail b e), actual, False), snd (servo_fail b e))
      else if \<not> fst v then ((fst (servo_fail b (snd v)), actual, False), snd (servo_fail b (snd v)))
      else if sint (now - sv_boost_end_ms ?s) \<ge> 0
      then ((fst h, if fst h = MOTOR_RESULT_OK then lower else actual, fst h = MOTOR_RESULT_OK),
            MotorExecutor_SetPhysicalStatus b (snd h))
      else if bad then ((fst (servo_fail b (snd v)), actual, False), snd (servo_fail b (snd v)))
      else ((fst st, if fst st = MOTOR_RESULT_OK then sv_committed (sx (snd st)) else actual, False), snd st))"
    unfolding assms(2) service_boost_def Let_def case_prod_beta early_def bad_def v_def lower_def c_def h_def r_def st_def
    by simp
  note w = mid_inv_wireable [OF assms(1)]
  have m: "mid_inv b (snd v)" "sx (snd v) = ?s" "counts (snd v) \<subseteq> counts e" "same_lease e (snd v)"
    using valid_mid [OF assms(1)] valid_counts valid_same_lease by (simp_all add: v_def valid_sx)
  note wv = mid_inv_wireable [OF m(1)]
  note h = handoff_spec [OF m(1) h_def]
  have st: "mid_inv b (snd st) \<and> (fst st = MOTOR_RESULT_OK \<longrightarrow> held b (snd st) \<and> same_lease e (snd st)
      \<and> sv_committed ?s \<le> sv_committed (sx (snd st)) \<and> sv_committed (sx (snd st)) \<le> sv_boost_peak ?s)"
    if e: "\<not> early" "\<not> bad"
  proof -
    have step: "mid_inv b (snd (boost_step b c (snd r))) \<and> (fst (boost_step b c (snd r)) = MOTOR_RESULT_OK \<longrightarrow>
        held b (snd (boost_step b c (snd r))) \<and> same_lease e (snd (boost_step b c (snd r)))
        \<and> sv_committed (sx (snd (boost_step b c (snd r)))) = c)" if "fst r"
    proof -
      have hv: "held b (snd v)"
        using mid_armed_held [OF m(1)] commit_armed [of "snd v"] that by (simp add: r_def)
      have hr: "held b (snd r)" "same_lease (snd v) (snd r)"
        using commit_held [OF hv] commit_same_lease [OF _ hv] that by (simp_all add: r_def)
      have "sx (snd r) = ?s"
        using sv_commit_spec(2) [of "snd v"] armed_set [of "snd v"] hv that m(2)
        by (simp add: r_def held_def same_output_def)
      moreover have "c \<le> FS_EXECUTOR_PRESS_CEILING ?p"
        using command_within_peak [of ?p ?s c] w e by (simp add: early_def bad_def)
      ultimately show ?thesis
        using boost_step_spec [OF hr(1) _ _ _ _ refl, of c] w e
          same_lease_trans [OF same_lease_trans [OF m(4) hr(2)]]
        by (auto simp: early_def bad_def)
    qed
    then show ?thesis
      using wv ok_or_fail_mid [of r b "boost_step b c"] ok_or_fail_ok [of b r "boost_step b c"]
      using e(2) by (auto simp: st_def r_def bad_def)
  qed
  show "mid_inv b (snd res)"
    using assms(1) w wv h(1) st by (simp add: res fail_mid)
  show "boost_serviced b now e (fst (snd (fst res))) (snd (snd (fst res))) (snd res)"
    if "fst (fst res) = MOTOR_RESULT_OK"
  proof -
    have ho: "held b (snd h) \<and> lease_timed ?p (counts e) now (sv_receive_deadline ?s - now) (snd h)
        \<and> sv_committed (sx (snd h)) = lower \<and> \<not> sv_boost_set (sx (snd h))
        \<and> 0 \<le> lower \<and> lower \<le> sv_normal_cap ?s \<and> lower \<le> sv_committed ?s" if "fst h = MOTOR_RESULT_OK"
      using h(2) [OF that] lease_timed_mono [OF _ m(3)]
      by (auto simp: m(2) handed_over_def handoff_refused_def Let_def)
    show ?thesis
      using that st ho by (simp add: res boost_serviced_def handed_over_def split: if_splits)
  qed
qed

lemma Update_inv:
  assumes "servo_inv b e"
  shows "servo_inv b (snd (MotorExecutor_UpdateContinuous b token q rm t l mx dead c committed il e))"
  unfolding MotorExecutor_UpdateContinuous_def
  by (rule masked_mid) (rule update_continuous_spec(1) [OF inv_mid [OF assms] refl])

lemma Handoff_inv:
  assumes "servo_inv b e"
  shows "servo_inv b (snd (MotorExecutor_HandoffContinuousBoost b token now c e))"
  unfolding MotorExecutor_HandoffContinuousBoost_def
  by (rule masked_mid) (rule handoff_spec(1) [OF inv_mid [OF assms] refl])

lemma ServiceBoost_inv:
  assumes "servo_inv b e"
  shows "servo_inv b (snd (MotorExecutor_ServiceContinuousBoost b token now actual finished e))"
  unfolding MotorExecutor_ServiceContinuousBoost_def
  by (rule masked_mid) (rule service_boost_spec(1) [OF inv_mid [OF assms] refl])

section \<open>The calls that turn the output off\<close>

lemma disable_finish_quiet:
  assumes "quiet e"
  shows "quiet (snd (disable_finish b e))" "fst (disable_finish b e) = MOTOR_RESULT_OK"
    "\<not> mx_logical_active (rx_motor (snd (disable_finish b e)))"
proof -
  let ?e = "MotorExecutor_SetPhysicalStatus b (MotorExecutor_ClearActivePlan ((MotorExecutor_ClearPendingCompletion e)
    \<lparr>rx_motor := (rx_motor (MotorExecutor_ClearPendingCompletion e))\<lparr>mx_last_action := MOTOR_ACTION_DISABLED,
      mx_command_mv := 0, mx_requested_duration_ms := 0, mx_logical_deadline_ms := 0, mx_logical_backstop_ms := 0\<rparr>\<rparr>))"
  have q: "quiet ?e" using assms by simp
  moreover have "mx_physical_output_disabled (rx_motor ?e) = MotorHwReal_IsDisabled ?e"
    by (simp add: MotorExecutor_SetPhysicalStatus_def MotorHwReal_IsDisabled_def)
  ultimately have "mx_physical_output_disabled (rx_motor ?e)" "\<not> MotorStopTimer_IsArmed ?e"
    by (simp_all add: quiet_def low_def MotorStopTimer_IsArmed_def)
  then have "disable_finish b e = (MOTOR_RESULT_OK, ?e)"
    by (simp add: disable_finish_def Let_def)
  then show "quiet (snd (disable_finish b e))" "fst (disable_finish b e) = MOTOR_RESULT_OK"
    "\<not> mx_logical_active (rx_motor (snd (disable_finish b e)))"
    using q by simp_all
qed

lemma disable_finish_sx [simp]: "sx (snd (disable_finish b (e :: 'h servo_motor))) = sx e"
proof -
  have "sx (e\<lparr>rx_motor := m\<rparr>) = sx e" for e :: "'h servo_motor" and m by simp
  then show ?thesis by (simp add: disable_finish_def Let_def)
qed

lemma Disable_inv:
  assumes "servo_inv b e"
  shows "servo_inv b (snd (Servo_Disable b e))"
  unfolding Servo_Disable_def
proof (rule masked_mid)
  have "wireable e" using mid_inv_wireable [OF inv_mid [OF assms]] by simp
  then show "mid_inv b (snd (disable_finish b (MotorStopTimer_Cancel (MotorHwReal_DisableImmediate (set_open False e)))))"
    using assms by (simp add: mid_inv_def servo_mid_def disable_finish_quiet)
qed

lemma FailStart_quiet:
  assumes "wireable (e :: 'h servo_motor)"
  shows "quiet (snd (MotorExecutor_FailStart b r e))" "sx (snd (MotorExecutor_FailStart b r e)) = sx e"
  using assms by (simp_all add: MotorExecutor_FailStart_def Let_def)

lemma failure_wireable [simp]:
  "st_handler (MotorExecutor_LatchFailure r s f e) = st_handler e"
  "st_initialized (MotorExecutor_LatchFailure r s f e) = st_initialized e"
  "st_handler (MotorExecutor_ClearFailure e) = st_handler e"
  "st_initialized (MotorExecutor_ClearFailure e) = st_initialized e"
  "st_handler (MotorExecutor_SetPhysicalStatus b e) = st_handler e"
  "st_initialized (MotorExecutor_SetPhysicalStatus b e) = st_initialized e"
  by (simp_all add: MotorExecutor_LatchFailure_def MotorExecutor_ClearFailure_def
      MotorExecutor_SetPhysicalStatus_def Let_def)

lemma Start_inv:
  assumes "servo_inv b e"
  shows "servo_inv b (snd (Servo_Start b d mv dur bstop e))"
proof -
  have p: "servo_inv b (sv_poll e)" using assms by (simp add: ok_poll)
  have w: "wireable (sv_poll e)" using mid_inv_wireable [OF inv_mid [OF p]] by simp
  define e0 where "e0 = MotorStopTimer_Cancel (sv_poll (MotorHwReal_DisableImmediate
      (sv_poll (MotorExecutor_ClearFailure (sv_poll e)))))"
  have "st_handler e0 = st_handler e" "st_initialized e0 = st_initialized e"
    "session_ok (rb_policy b) (sx e0) = session_ok (rb_policy b) (sx e)"
    by (simp_all add: e0_def)
  then have fail: "servo_inv b (snd (MotorExecutor_FailStart b r (MotorExecutor_LatchFailure r 0 n
      (MotorExecutor_SetPhysicalStatus b e0))))" for r n
    using w p by (simp add: servo_ok_def FailStart_quiet)
  show ?thesis
    using p fail by (simp add: Servo_Start_def Let_def case_prod_beta flip: e0_def)
qed

lemma Expired_inv: "servo_inv b e \<Longrightarrow> servo_inv b (snd (MotorExecutor_ContinuousExpired e))"
  by (simp add: MotorExecutor_ContinuousExpired_def Let_def ok_poll)

lemma Real_Initialize_sx: "sx (snd (Real_Initialize b (e :: 'h servo_motor))) = sx e"
proof -
  have hw: "sx (snd (MotorHwReal_InitializeDisabled b x)) = sx x" for x :: "'h servo_motor"
    by (rule sx_same [OF rx_same(5) [OF same_more(13) [OF InitializeDisabled_spec(3)]]])
  have "stop_timer.more (snd (MotorStopTimer_Initialize b True x)) = stop_timer.more x" for x :: "'h servo_motor"
    by (simp add: MotorStopTimer_Initialize_def tim5_update_event_def Let_def)
  then have timer: "sx (snd (MotorStopTimer_Initialize b True x)) = sx x" for x :: "'h servo_motor"
    by (rule sx_same [OF rx_same(5)])
  have [simp]: "sx (x\<lparr>rx_motor := m\<rparr>) = sx x" "sx (x\<lparr>rx_initialized := v\<rparr>) = sx x" for x :: "'h servo_motor" and m v
    by simp_all
  show ?thesis
    unfolding Real_Initialize_def Let_def case_prod_beta by (simp add: hw timer)
qed

lemma Initialize_inv:
  assumes "fst (Servo_Initialize b e) = MOTOR_RESULT_OK" "session_ok (rb_policy b) (sx e)"
  shows "servo_inv b (snd (Servo_Initialize b e))"
  using Initialize_quiet [of b "set_open False e"] assms Real_Initialize_sx [of b "set_open False e"]
  by (simp add: Servo_Initialize_def servo_ok_def)

lemma Service_inv:
  assumes "servo_inv b e"
  shows "servo_inv b (snd (Servo_Service b t e))"
proof -
  have "servo_ok b (snd (Servo_Service b t e))"
    unfolding Servo_Service_def by (rule servo_core.Service_ok) (use assms in simp)
  then show ?thesis using assms by simp
qed

lemma Guard_inv:
  assumes "servo_inv b e"
  shows "servo_inv b (snd (Servo_GuardOutput b e))"
proof -
  have "servo_ok b (snd (Servo_GuardOutput b e))"
    unfolding Servo_GuardOutput_def by (rule servo_core.Guard_ok) (use assms in simp)
  then show ?thesis using assms by simp
qed

lemma query_inv:
  assumes "servo_inv b e"
  shows "servo_inv b (snd (Servo_OutputIsDisabled b e))" "servo_inv b (snd (Servo_IsHealthy b e))"
    "servo_inv b (snd (Servo_GetSnapshot b e))"
proof -
  have "servo_ok b (snd (Servo_OutputIsDisabled b e))" "servo_ok b (snd (Servo_IsHealthy b e))"
    unfolding Servo_OutputIsDisabled_def Servo_IsHealthy_def
    using query_keeps [of "servo_ok b" e sv_poll b "Servo_ActiveRequestIsValid sv_poll b"] assms
    by (simp_all add: ok_poll Servo_valid_keeps [of "servo_ok b"])
  then show "servo_inv b (snd (Servo_OutputIsDisabled b e))" "servo_inv b (snd (Servo_IsHealthy b e))"
    "servo_inv b (snd (Servo_GetSnapshot b e))"
    using assms by (simp_all add: Servo_GetSnapshot_def ok_poll)
qed

end
