(* ===== verification/MotorServoProps.thy ===== *)
theory MotorServoProps
  imports MotorServoBoost
begin

text \<open>
  The properties of the continuous mode, over every run of it: any sequence of calls with any
  arguments after an initialisation, with the timer's hardware and interrupt acting between
  them and inside them at any time.
\<close>

section \<open>Runs\<close>

datatype continuous_call =
  Continuous_Disable
| Continuous_Service u32
| Continuous_GuardOutput
| Continuous_OutputIsDisabled
| Continuous_IsHealthy
| Continuous_GetSnapshot
| Continuous_Expired
| Continuous_Start MotorDirection u32 u32 u32
| Continuous_Begin
| Continuous_SetBudget u32 u32 u32 int
| Continuous_ArmBoost u32 u32 u32
| Continuous_EndBoost u32
| Continuous_SetBoostPlan u32 u32 u32 u32 int int
| Continuous_ServiceBoost u32 u32 int bool
| Continuous_HandoffBoost u32 u32 int
| Continuous_Update u32 u64 u32 u32 u32 u32 u32 int int bool

fun continuous_step :: "'h real_board \<Rightarrow> continuous_call \<Rightarrow> 'h servo_motor \<Rightarrow> 'h servo_motor" where
  "continuous_step b Continuous_Disable = snd \<circ> Servo_Disable b"
| "continuous_step b (Continuous_Service now) = snd \<circ> Servo_Service b now"
| "continuous_step b Continuous_GuardOutput = snd \<circ> Servo_GuardOutput b"
| "continuous_step b Continuous_OutputIsDisabled = snd \<circ> Servo_OutputIsDisabled b"
| "continuous_step b Continuous_IsHealthy = snd \<circ> Servo_IsHealthy b"
| "continuous_step b Continuous_GetSnapshot = snd \<circ> Servo_GetSnapshot b"
| "continuous_step b Continuous_Expired = snd \<circ> MotorExecutor_ContinuousExpired"
| "continuous_step b (Continuous_Start d mv dur bstop) = snd \<circ> Servo_Start b d mv dur bstop"
| "continuous_step b Continuous_Begin = snd \<circ> MotorExecutor_BeginContinuous b"
| "continuous_step b (Continuous_SetBudget token now dur cap) =
    snd \<circ> MotorExecutor_SetContinuousBudget (rb_policy b) token now dur cap"
| "continuous_step b (Continuous_ArmBoost token now dur) = snd \<circ> MotorExecutor_ArmContinuousBoost b token now dur"
| "continuous_step b (Continuous_EndBoost token) = snd \<circ> MotorExecutor_EndContinuousBoost token"
| "continuous_step b (Continuous_SetBoostPlan token now rise end_ms peak lower) =
    snd \<circ> MotorExecutor_SetContinuousBoostPlan b token now rise end_ms peak lower"
| "continuous_step b (Continuous_ServiceBoost token now actual finished) =
    snd \<circ> MotorExecutor_ServiceContinuousBoost b token now actual finished"
| "continuous_step b (Continuous_HandoffBoost token now c) =
    snd \<circ> MotorExecutor_HandoffContinuousBoost b token now c"
| "continuous_step b (Continuous_Update token q rm now l mx dead c committed il) =
    snd \<circ> MotorExecutor_UpdateContinuous b token q rm now l mx dead c committed il"

text \<open>The static variables at reset.\<close>

definition servo_reset :: servo_vars where
  "servo_reset = \<lparr>sv_open = False, sv_generation = 0, sv_sequence = 0, sv_has_sequence = False,
     sv_committed = 0, sv_last_sign = 0, sv_off_ms = 0, sv_budget_set = False,
     sv_session_limited = False, sv_boost_set = False, sv_boost_used = False, sv_boost_end = False,
     sv_session_deadline = 0, sv_boost_deadline = 0, sv_receive_deadline = 0, sv_normal_cap = 0,
     sv_boost_plan = False, sv_boost_started = 0, sv_boost_rise = 0, sv_boost_end_ms = 0,
     sv_boost_initial = 0, sv_boost_peak = 0, sv_boost_lower = 0\<rparr>"

inductive continuous_run :: "'h real_board \<Rightarrow> 'h servo_motor \<Rightarrow> bool" for b :: "'h real_board" where
  initialized: "sx e = servo_reset \<Longrightarrow> Servo_Initialize b e = (MOTOR_RESULT_OK, e') \<Longrightarrow> continuous_run b e'"
| call: "continuous_run b e \<Longrightarrow> continuous_run b (continuous_step b c e)"
| interrupt: "continuous_run b e \<Longrightarrow> continuous_run b (sv_poll (e\<lparr>tm_schedule := future\<rparr>))"

lemma step_inv: "servo_inv b e \<Longrightarrow> servo_inv b (continuous_step b c e)"
  by (cases c)
    (simp_all add: Disable_inv Service_inv Guard_inv query_inv Expired_inv Start_inv Begin_inv Budget_inv
      Arm_inv End_inv Plan_inv ServiceBoost_inv Handoff_inv Update_inv del: masked_simps)

lemma interrupt_inv:
  assumes "servo_inv b e"
  shows "servo_inv b (sv_poll (e\<lparr>tm_schedule := future\<rparr>))"
proof -
  have "held b (e\<lparr>tm_schedule := future\<rparr>) = held b e"
    by (simp add: held_def lease_armed_def pins_ok_def output_held_def MotorHwReal_IsDisabled_def
        MotorHwReal_ActiveCompareIsValid_def Let_def)
  moreover have "quiet (e\<lparr>tm_schedule := future\<rparr>) = quiet e"
    by (simp add: quiet_def low_def pins_ok_def MotorHwReal_IsDisabled_def)
  ultimately have "servo_mid b (e\<lparr>tm_schedule := future\<rparr>)"
    using assms by (auto simp: servo_ok_def servo_mid_def)
  then show ?thesis using assms by (simp add: mid_poll)
qed

lemma continuous_run_inv: "continuous_run b e \<Longrightarrow> servo_inv b e"
proof (induction rule: continuous_run.induct)
  case (initialized e e')
  then show ?case using Initialize_inv [of b e] by (simp add: servo_reset_def session_ok_def)
next
  case (call e c)
  show ?case by (rule step_inv [OF call.IH])
next
  case (interrupt e future)
  show ?case by (rule interrupt_inv [OF interrupt.IH])
qed

section \<open>What an accepted update is\<close>

text \<open>A held output, once a pending interrupt has been taken: ended, or held as it was.\<close>

lemma held_polled:
  assumes "held b e"
  shows "quiet (sv_poll e) \<and> \<not> sv_open (sx (sv_poll e))
    \<or> held b (sv_poll e) \<and> sx (sv_poll e) = sx e \<and> rx_motor (sv_poll e) = rx_motor e
      \<and> tim5_ccr1 (sv_poll e) = tim5_ccr1 e"
proof (cases rule: servo_handler.poll_cases [of e])
  case quiet
  then show ?thesis using held_timer_hw [OF assms] by simp
next
  case interrupt
  have "wired (timer_hw e)" "st_handler (timer_hw e)" using held_wired [OF assms] by simp_all
  then show ?thesis
    using servo_handler.IrqHandler_quiet [of "timer_hw e"] interrupt(2) by (simp add: irq_sx)
qed

lemma held_open: "held b e \<Longrightarrow> sv_open (sx e)"
  by (simp add: held_def)

text \<open>\<open>reaches\<close>: what holds of the session's variables if the operation succeeds.\<close>

definition reaches :: "(servo_vars \<Rightarrow> bool) \<Rightarrow> MotorResult \<times> 'h servo_motor \<Rightarrow> bool" where
  "reaches P res \<longleftrightarrow> (fst res = MOTOR_RESULT_OK \<longrightarrow> P (sx (snd res)))"

lemma reaches_simps [simp]:
  "reaches P (servo_fail b e)" "reaches P (servo_done b MOTOR_RESULT_OK e) = P (sx e)"
  by (simp_all add: reaches_def)

lemma reaches_ok: "(fst r \<Longrightarrow> reaches P (k (snd r))) \<Longrightarrow> reaches P (ok_or_fail b r k)"
  by (cases r) (auto simp: reaches_def dest!: ok_or_fail_ok)

lemma timer_sx:
  "fst (sv_commit e) \<Longrightarrow> sx (snd (sv_commit e)) = sx e"
  "fst (sv_renew p n e) \<Longrightarrow> sx (snd (sv_renew p n e)) = sx e"
  "fst (sv_arm p n e) \<Longrightarrow> sx (snd (sv_arm p n e)) = sx e"
proof -
  show c: "sx (snd (sv_commit e)) = sx e" if "fst (sv_commit e)" for e :: "'a servo_motor"
    using that by (auto simp: MotorStopTimer_CommitArm_def Let_def split: if_splits)
  show "sx (snd (sv_renew p n e)) = sx e" if "fst (sv_renew p n e)"
    using that c by (auto simp: MotorStopTimer_RenewLease_def Let_def split: if_splits)
  show "sx (snd (sv_arm p n e)) = sx e" if "fst (sv_arm p n e)"
    using that c by (auto simp: sv_arm_split split: if_splits)
qed

text \<open>
  What an accepted update records: the command and the sample, the direction of the last
  output, and the time at which an output was turned off.
\<close>

definition remembers :: "u32 \<Rightarrow> int \<Rightarrow> servo_vars \<Rightarrow> servo_vars \<Rightarrow> bool" where
  "remembers t c s s' \<longleftrightarrow> sv_last_sign s' = (if c = 0 then sv_last_sign s else sgn c)
    \<and> sv_off_ms s' = (if c = 0 \<and> sv_committed s \<noteq> 0 then t else sv_off_ms s)"

definition recorded :: "u32 \<Rightarrow> int \<Rightarrow> u64 \<Rightarrow> servo_vars \<Rightarrow> servo_vars \<Rightarrow> bool" where
  "recorded t c q s s' \<longleftrightarrow> remembers t c s s' \<and> sv_committed s' = c \<and> sv_sequence s' = q"

lemma record_sx:
  "remembers t c s (sx e) \<Longrightarrow> recorded t c q s (sx (update_record q rm l now r c t2 t3 e))"
  by (simp add: recorded_def remembers_def update_record_def)

lemma update_finish_records:
  assumes "remembers t c s (sx e)"
  shows "reaches (recorded t c q s) (update_finish b q rm l now c end_boost n m t2 t3 e)"
proof -
  have "recorded t c q s (sx (update_record q rm l now m c t2 t3
      (e'\<lparr>sx := (sx e)\<lparr>sv_boost_set := False, sv_boost_plan := False\<rparr>\<rparr>)))" for e'
    using assms by (intro record_sx) (simp add: remembers_def)
  then show ?thesis
    using assms by (auto simp: update_finish_def timer_sx record_sx intro!: reaches_ok)
qed

lemma update_output_remembers:
  assumes "update_output b t c e = (True, t2, t3, e')" "pins_ok e"
  shows "remembers t c (sx e) (sx e')"
proof -
  have "sx (snd (MotorHwReal_Update b press duty e)) = sx e" "sx (snd (MotorHwReal_Apply b press duty e)) = sx e"
    for press duty
    using applied_servo(2) [OF Update_spec [OF assms(2), of press duty b]]
      applied_servo(2) [OF Apply_spec [of press duty e b]] by simp_all
  then show ?thesis
    using assms(1)
    by (cases "c = 0"; cases "c > 0"; cases "sv_committed (sx e) = 0")
      (auto simp: update_output_def remembers_def Let_def case_prod_beta MotorHwReal_ApplyPress_def
        MotorHwReal_ApplyRelease_def split: if_splits)
qed

lemma update_install_records:
  assumes "pins_ok e"
  shows "reaches (recorded t c q (sx e)) (update_install b q rm l t c end_boost n m e)"
proof -
  obtain ok t2 t3 e' where o: "update_output b t c e = (ok, t2, t3, e')" by (cases "update_output b t c e")
  show ?thesis
    using update_output_remembers [of b t c e t2 t3 e'] o assms
    by (auto simp: update_install_def timer_sx intro!: reaches_ok update_finish_records)
qed

lemma update_commit_records:
  assumes "pins_ok e" "wired e" "sv_has_sequence (sx e) \<longrightarrow> lease_armed e"
  shows "reaches (recorded t c q (sx e)) (update_commit b q rm l t c e)"
proof -
  have "reaches (recorded t c q (sx e)) (update_install b q rm l t c end_boost n m (snd r))"
    if "r = (if sv_has_sequence (sx e) then sv_renew (rb_policy b) n e else sv_arm (rb_policy b) n e)" "fst r"
    for end_boost n m r
    using lease_step(3) [OF assms(2,3) that] assms(1) update_install_records [of "snd r"]
    by (simp add: same_output_def)
  then show ?thesis
    unfolding update_commit_def Let_def by (intro reaches_ok) (simp split del: if_split)
qed

text \<open>The facts of an accepted update, before the pending interrupt is taken.\<close>

lemma update_accepted:
  assumes "mid_inv b e" "update_continuous b token q rm t l mx dead c committed il0 e = ((MOTOR_RESULT_OK, a, il), e')"
  obtains e2 where "\<not> update_stale token q (sx e)" "\<not> update_refused b token t (t - rm) l mx dead c e"
    "accepted_update b (bases e) rm t l e'" "recorded t a q (sx e2) (sx e')"
    "update_interlock t dead c (snd (update_live b t e)) = (True, a, il, e2)"
proof -
  obtain ok c' hb e2 where i: "update_interlock t dead c (snd (update_live b t e)) = (ok, c', hb, e2)"
    by (cases "update_interlock t dead c (snd (update_live b t e))")
  note il = update_interlock_spec [OF i] and live = update_live_spec [OF assms(1), of t]
  define k where "k = update_commit b q rm l t c' e2"
  have k: "\<not> update_stale token q (sx e)" "\<not> update_refused b token t (t - rm) l mx dead c e"
    "fst k = MOTOR_RESULT_OK" "a = c'" "il = hb" "e' = snd k" "fst (update_live b t e)"
    using assms(2) by (auto simp: update_continuous_split [OF i] k_def split: if_splits)
  have "sv_has_sequence (sx e2) \<longrightarrow> lease_armed e2"
    using live(4) [OF k(7)] il(4,7) by (auto simp: live(2) held_def)
  then have "reaches (recorded t c' q (sx e2)) k"
    unfolding k_def using mid_inv_wireable [OF live(1)] il(2,3) by (intro update_commit_records) simp_all
  then have "recorded t a q (sx e2) (sx e')" using k by (simp add: reaches_def)
  moreover have "accepted_update b (bases e) rm t l e'"
    using update_continuous_spec(2) [OF assms(1) refl, of token q rm t l mx dead c committed il0] assms(2) by simp
  moreover have "update_interlock t dead c (snd (update_live b t e)) = (True, a, il, e2)"
    using i il(9) k(4,5) by simp
  ultimately show thesis using that k(1,2) by blast
qed

section \<open>Properties\<close>

text \<open>C9: In continuous mode the output is held only under a running lease: at every moment of every
  run the driver is shut down with the stop timer disarmed, or a session is open with an
  active request and no pending event, the timer counts with its interrupt enabled and no
  event missed, and the output is exactly the committed command - off when that is zero,
  and otherwise, with output arming allowed, the compare planned for it on the one leg of
  its direction; in the commissioning builds the command lies between the release ceiling
  and the press ceiling of the executor, and above the continuous ceiling only in a boost.\<close>

theorem continuous_output_only_under_lease:
  assumes "continuous_run b e"
  shows "hw_disabled e \<and> \<not> st_armed e \<or>
    (let m = rx_motor e; s = sx e; c = sv_committed s; p = rb_policy b in
      sv_open s \<and> sv_has_sequence s \<and> mx_logical_active m \<and> \<not> rx_completion_event_pending e
      \<and> tim5_cr1 e AND 1 = 1 \<and> tim5_irq_enabled e \<and> tim5_dier e = 3 \<and> tim5_sr e AND 3 = 0
      \<and> (if c = 0 then hw_disabled e
         else MotorHwReal_OutputArmingAllowed b \<and> gpiob_odr e AND 6 = 6
           \<and> (case Servo_PlanCommand p (if c > 0 then MOTOR_DIRECTION_PRESS else MOTOR_DIRECTION_RELEASE)
                (of_int \<bar>c\<bar>) of (r, t2, t3) \<Rightarrow>
              r = MOTOR_RESULT_OK \<and> tim2_ccr3 e = ucast t2 \<and> tim3_ccr3 e = ucast t3 \<and> (t2 = 0 \<or> t3 = 0)))
      \<and> (bp_commissioning p \<longrightarrow> - FS_RELEASE_CEILING \<le> c \<and> c \<le> FS_EXECUTOR_PRESS_CEILING p
          \<and> (c > FS_CONTINUOUS_CEILING p \<longrightarrow> sv_boost_set s)))"
proof -
  consider "quiet e" | "held b e" "tim5_sr e AND 3 = 0"
    using continuous_run_inv [OF assms] by (auto simp: servo_ok_def)
  then show ?thesis
  proof cases
    case 1
    then show ?thesis by (simp add: quiet_def low_def disabled_shut_down)
  next
    case 2
    have one: "x AND 1 = 1" if "x AND 1 \<noteq> 0" for x :: u32
      using that by (auto simp: and_one_eq)
    let ?c = "sv_committed (sx e)" and ?m = "rx_motor e"
    let ?d = "if ?c > 0 then MOTOR_DIRECTION_PRESS else MOTOR_DIRECTION_RELEASE"
    let ?plan = "Servo_PlanCommand (rb_policy b) ?d (of_int \<bar>?c\<bar>)"
    have on: "MotorHwReal_OutputArmingAllowed b \<and> gpiob_odr e AND 6 = 6
        \<and> ?plan = (MOTOR_RESULT_OK, mx_planned_tim2_ccr3 ?m, mx_planned_tim3_ccr3 ?m)
        \<and> tim2_ccr3 e = (if ?c > 0 then 0 else ucast (mx_planned_tim2_ccr3 ?m))
        \<and> tim3_ccr3 e = (if ?c > 0 then ucast (mx_planned_tim3_ccr3 ?m) else 0)" if "?c \<noteq> 0"
      using 2(1) that by (simp add: held_def output_held_def MotorHwReal_ActiveCompareIsValid_def Let_def)
    then have "if ?c > 0 then mx_planned_tim2_ccr3 ?m = 0 else mx_planned_tim3_ccr3 ?m = 0" if "?c \<noteq> 0"
      using that by (auto simp: Servo_PlanCommand_def Real_PlanCommand_def Let_def split: if_splits)
    then have "if ?c = 0 then hw_disabled e else MotorHwReal_OutputArmingAllowed b \<and> gpiob_odr e AND 6 = 6
        \<and> (case ?plan of (r, t2, t3) \<Rightarrow> r = MOTOR_RESULT_OK \<and> tim2_ccr3 e = ucast t2 \<and> tim3_ccr3 e = ucast t3
            \<and> (t2 = 0 \<or> t3 = 0))"
      using on 2(1) by (auto simp: held_def output_held_def disabled_shut_down Let_def split: if_splits)
    moreover have "tim5_cr1 e AND 1 = 1" using 2(1) by (intro one) (simp add: held_def lease_armed_def)
    ultimately show ?thesis
      using 2 by (simp add: held_def lease_armed_def command_limited_def Let_def)
  qed
qed

text \<open>C10: A continuous update is accepted only from the owner of the session, for a sample newer than
  the last one (in serial-number order) and not older than the maximum age, which is less
  than the lease (at most 20 ms and 130 ms in the commissioning builds). An accepted one
  commits exactly the asked command, or 0 where the direction interlock holds it back; and
  unless the timer has ended it already, its lease ends by itself a whole number of
  milliseconds, less one, after a count the timer shows during the call - or after its
  start at 0, for the first update of a session and for no other -, at most the lease less
  the sample's age and at most the maximum lease.\<close>

theorem continuous_update_accepted:
  assumes "continuous_run b e"
    and "MotorExecutor_UpdateContinuous b token q rm now l mx dead c c0 il0 e = ((MOTOR_RESULT_OK, a, il), e')"
  shows "sv_open (sx e) \<and> token = sv_generation (sx e)
    \<and> (sv_has_sequence (sx e) \<longrightarrow> 0 < q - sv_sequence (sx e) \<and> q - sv_sequence (sx e) < 2 ^ 63)
    \<and> now - rm \<le> mx \<and> mx < l \<and> (bp_commissioning (rb_policy b) \<longrightarrow> l \<le> 130 \<and> mx \<le> 20)
    \<and> a = (if il then 0 else c)
    \<and> (hw_disabled e' \<and> \<not> sv_open (sx e')
       \<or> sv_open (sx e') \<and> sv_committed (sx e') = a \<and> sv_sequence (sx e') = q
         \<and> (\<exists>k r. (k = 0 \<and> \<not> sv_has_sequence (sx e) \<or> k = tim5_cnt e \<or> k \<in> snd ` set (tm_schedule e))
              \<and> 1 < r \<and> r \<le> l - (now - rm) \<and> r \<le> MOTOR_STOP_MAX_LEASE_MS (rb_policy b)
              \<and> tim5_ccr1 e' = k + (r - 1) * 10 \<and> mx_logical_deadline_ms (rx_motor e') = now + r))"
proof -
  have m: "mid_inv b e" by (rule inv_mid [OF continuous_run_inv [OF assms(1)]])
  obtain e1 where u: "update_continuous b token q rm now l mx dead c c0 il0 e = ((MOTOR_RESULT_OK, a, il), e1)"
    and e': "e' = sv_poll e1"
    using assms(2) by (auto simp: MotorExecutor_UpdateContinuous_def masked_def split: prod.splits)
  obtain e2 where f: "\<not> update_stale token q (sx e)" "\<not> update_refused b token now (now - rm) l mx dead c e"
    "accepted_update b (bases e) rm now l e1" "recorded now a q (sx e2) (sx e1)"
    "update_interlock now dead c (snd (update_live b now e)) = (True, a, il, e2)"
    by (rule update_accepted [OF m u])
  note lim = update_refused_limits [OF f(2)]
  have "mx < l" using f(2) by (simp add: update_refused_def update_bounds_bad_def Let_def not_le)
  moreover have "a = (if il then 0 else c)"
    using f(5) by (auto simp: update_interlock_def Let_def split: if_splits)
  moreover have held: "held b e1" and timed: "lease_timed (rb_policy b) (bases e) now (l - (now - rm)) e1"
    using f(3) by (simp_all add: accepted_update_def)
  moreover have "owns token (sx e)"
    "sv_has_sequence (sx e) \<longrightarrow> 0 < q - sv_sequence (sx e) \<and> q - sv_sequence (sx e) < 2 ^ 63"
    using f(1) by (auto simp: update_stale_def Let_def word_gt_0 not_le)
  moreover have "hw_disabled e' \<and> \<not> sv_open (sx e')
       \<or> sv_open (sx e') \<and> sv_committed (sx e') = a \<and> sv_sequence (sx e') = q
         \<and> (\<exists>k r. (k = 0 \<and> \<not> sv_has_sequence (sx e) \<or> k = tim5_cnt e \<or> k \<in> snd ` set (tm_schedule e))
              \<and> 1 < r \<and> r \<le> l - (now - rm) \<and> r \<le> MOTOR_STOP_MAX_LEASE_MS (rb_policy b)
              \<and> tim5_ccr1 e' = k + (r - 1) * 10 \<and> mx_logical_deadline_ms (rx_motor e') = now + r)"
  proof (cases "sv_open (sx e')")
    case False
    then show ?thesis
      using held_polled [OF held] held_open [of b e'] by (auto simp: e' quiet_def low_def disabled_shut_down)
  next
    case True
    then have "sx e' = sx e1" "rx_motor e' = rx_motor e1" "tim5_ccr1 e' = tim5_ccr1 e1"
      using held_polled [OF held] by (auto simp: e')
    moreover obtain k r where "k \<in> bases e" "1 < r" "r \<le> l - (now - rm)"
      "r \<le> MOTOR_STOP_MAX_LEASE_MS (rb_policy b)" "tim5_ccr1 e1 = k + (r - 1) * 10"
      "mx_logical_deadline_ms (rx_motor e1) = now + r"
      using timed unfolding lease_timed_def by blast
    ultimately have "(k = 0 \<and> \<not> sv_has_sequence (sx e) \<or> k = tim5_cnt e \<or> k \<in> snd ` set (tm_schedule e))
        \<and> 1 < r \<and> r \<le> l - (now - rm) \<and> r \<le> MOTOR_STOP_MAX_LEASE_MS (rb_policy b)
        \<and> tim5_ccr1 e' = k + (r - 1) * 10 \<and> mx_logical_deadline_ms (rx_motor e') = now + r"
      "sv_committed (sx e') = a" "sv_sequence (sx e') = q"
      using f(4) by (auto simp: bases_def counts_def recorded_def split: if_splits)
    then show ?thesis using True by blast
  qed
  ultimately show ?thesis using lim(5,7) by (simp only: owns_def) blast
qed

text \<open>
  Failures: every way out of an operation but success goes through \<open>servo_fail\<close>.
\<close>

definition shut_and_closed :: "'h servo_motor \<Rightarrow> bool" where
  "shut_and_closed e \<longleftrightarrow> hw_disabled e \<and> \<not> st_armed e \<and> \<not> sv_open (sx e) \<and> rx_completion_event_pending e"

lemma closed_failure:
  assumes "mid_inv b e" "\<not> sv_open (sx e)" "rx_completion_event_pending e"
  shows "shut_and_closed (sv_poll e)"
proof -
  have q: "quiet e" using assms(1,2) by (auto simp: mid_inv_def servo_mid_def held_def)
  then have "\<not> tim5_irq_line (timer_hw e)"
    by (auto simp: quiet_def low_def tim5_irq_line_def)
  then have "sv_poll e = timer_hw e" by (simp add: poll_def Let_def)
  then show ?thesis
    using q assms(2,3) by (simp add: shut_and_closed_def quiet_def low_def disabled_shut_down)
qed

definition fails_closed :: "MotorResult \<times> 'h servo_motor \<Rightarrow> bool" where
  "fails_closed res \<longleftrightarrow> (fst res \<noteq> MOTOR_RESULT_OK \<longrightarrow>
    fst res = MOTOR_RESULT_HARDWARE_ERROR \<and> \<not> sv_open (sx (snd res)) \<and> rx_completion_event_pending (snd res))"

lemma fails_closed_simps [simp]: "fails_closed (servo_fail b e)" "fails_closed (servo_done b MOTOR_RESULT_OK e)"
  by (simp_all add: fails_closed_def)

lemma ok_or_fail_closed [intro!]: "(\<And>e. fails_closed (k e)) \<Longrightarrow> fails_closed (ok_or_fail b r k)"
  by (cases r) (simp add: ok_or_fail_def)

lemma update_commit_closed: "fails_closed (update_commit b q rm l t c e)"
  by (auto simp: update_commit_def update_install_def update_finish_def Let_def split: prod.split)

lemma handoff_closed: "owns token (sx e) \<Longrightarrow> fails_closed (handoff_boost b token now c e)"
  by (auto simp: handoff_boost_def handoff_renew_def Let_def split: prod.split)

lemma boost_step_closed: "fails_closed (boost_step b c e)"
  by (auto simp: boost_step_def Let_def split: prod.split)

lemma fails_shut: "mid_inv b (snd res) \<Longrightarrow> fails_closed res \<Longrightarrow> fst res \<noteq> MOTOR_RESULT_OK
    \<Longrightarrow> fst res = MOTOR_RESULT_HARDWARE_ERROR \<and> shut_and_closed (sv_poll (snd res))"
  using closed_failure [of b "snd res"] by (simp add: fails_closed_def)

lemma update_closed:
  assumes "\<not> update_stale token q (sx e)"
  shows "fails_closed (fst (fst (update_continuous b token q rm t l mx dead c c0 il0 e)),
      snd (update_continuous b token q rm t l mx dead c c0 il0 e))
    \<and> (fst (fst (update_continuous b token q rm t l mx dead c c0 il0 e)) \<noteq> MOTOR_RESULT_OK \<longrightarrow>
       fst (snd (fst (update_continuous b token q rm t l mx dead c c0 il0 e))) = c0)"
proof -
  obtain ok c' hb e2 where i: "update_interlock t dead c (snd (update_live b t e)) = (ok, c', hb, e2)"
    by (cases "update_interlock t dead c (snd (update_live b t e))")
  show ?thesis
    using assms update_commit_closed [of b q rm l t c' e2]
    by (simp add: update_continuous_split [OF i] fails_closed_def)
qed

lemma service_closed:
  assumes "owns token (sx e)"
  shows "fails_closed (fst (fst (service_boost b token now a0 f0 e)), snd (service_boost b token now a0 f0 e))
    \<and> (fst (fst (service_boost b token now a0 f0 e)) \<noteq> MOTOR_RESULT_OK \<longrightarrow>
       snd (fst (service_boost b token now a0 f0 e)) = (a0, False))"
proof -
  let ?v = "Servo_ActiveRequestIsValid timer_hw b e"
  have "fails_closed (handoff_boost b token now c (snd ?v))" for c
    using assms by (simp add: handoff_closed valid_sx)
  moreover have "fails_closed (ok_or_fail b (sv_commit (snd ?v)) (boost_step b c))" for c
    by (rule ok_or_fail_closed) (rule boost_step_closed)
  ultimately show ?thesis
    using assms by (simp add: service_boost_def fails_closed_def Let_def case_prod_beta)
qed

text \<open>C12: Every refusal and every failure of the continuous operations is safe. An update, a boost
  service or a handoff of a caller that does not own the session, and an update with a
  sample that is not newer, changes nothing: the state only has its status flags refreshed
  (and a pending interrupt taken), and the caller's variables are untouched. Any other
  unsuccessful one answers a hardware error with the driver shut down, the stop timer
  disarmed and the session closed, and leaves the event for the next service.\<close>

theorem continuous_failures_are_safe:
  assumes "continuous_run b e"
  shows "(case MotorExecutor_UpdateContinuous b token q rm now l mx dead c c0 il0 e of ((r, a, il), e') \<Rightarrow>
      if update_stale token q (sx e)
      then r = MOTOR_RESULT_INVALID \<and> a = c0 \<and> il = il0 \<and> e' = sv_poll (MotorExecutor_SetPhysicalStatus b e)
      else r = MOTOR_RESULT_OK \<or> r = MOTOR_RESULT_HARDWARE_ERROR \<and> a = c0 \<and> shut_and_closed e')
    \<and> (case MotorExecutor_ServiceContinuousBoost b token now a0 f0 e of ((r, a, f), e') \<Rightarrow>
      if \<not> owns token (sx e)
      then r = MOTOR_RESULT_INVALID \<and> a = a0 \<and> f = f0 \<and> e' = sv_poll (MotorExecutor_SetPhysicalStatus b e)
      else r = MOTOR_RESULT_OK \<or> r = MOTOR_RESULT_HARDWARE_ERROR \<and> a = a0 \<and> \<not> f \<and> shut_and_closed e')
    \<and> (case MotorExecutor_HandoffContinuousBoost b token now c e of (r, e') \<Rightarrow>
      if \<not> owns token (sx e)
      then r = MOTOR_RESULT_INVALID \<and> e' = sv_poll (MotorExecutor_SetPhysicalStatus b e)
      else r = MOTOR_RESULT_OK \<or> r = MOTOR_RESULT_HARDWARE_ERROR \<and> shut_and_closed e')"
proof -
  have m: "mid_inv b e" by (rule inv_mid [OF continuous_run_inv [OF assms]])
  obtain ru au iu eu where u: "update_continuous b token q rm now l mx dead c c0 il0 e = ((ru, au, iu), eu)"
    by (metis prod.exhaust)
  obtain rs as fs es where s: "service_boost b token now a0 f0 e = ((rs, as, fs), es)"
    by (metis prod.exhaust)
  obtain rh eh where h: "handoff_boost b token now c e = (rh, eh)"
    by (metis prod.exhaust)
  have "if update_stale token q (sx e)
      then ru = MOTOR_RESULT_INVALID \<and> au = c0 \<and> iu = il0 \<and> eu = MotorExecutor_SetPhysicalStatus b e
      else ru = MOTOR_RESULT_OK \<or> ru = MOTOR_RESULT_HARDWARE_ERROR \<and> au = c0 \<and> shut_and_closed (sv_poll eu)"
    using update_closed [of token q e b rm now l mx dead c c0 il0] update_continuous_spec(1) [OF m u [symmetric]]
      fails_shut [of b "(ru, eu)"] u
    by (auto simp: update_continuous_def servo_done_def)
  moreover have "if \<not> owns token (sx e)
      then rs = MOTOR_RESULT_INVALID \<and> as = a0 \<and> fs = f0 \<and> es = MotorExecutor_SetPhysicalStatus b e
      else rs = MOTOR_RESULT_OK \<or> rs = MOTOR_RESULT_HARDWARE_ERROR \<and> as = a0 \<and> \<not> fs \<and> shut_and_closed (sv_poll es)"
    using service_closed [of token e b now a0 f0] service_boost_spec(1) [OF m s [symmetric]]
      fails_shut [of b "(rs, es)"] s
    by (auto simp: service_boost_def servo_done_def)
  moreover have "if \<not> owns token (sx e) then rh = MOTOR_RESULT_INVALID \<and> eh = MotorExecutor_SetPhysicalStatus b e
      else rh = MOTOR_RESULT_OK \<or> rh = MOTOR_RESULT_HARDWARE_ERROR \<and> shut_and_closed (sv_poll eh)"
    using handoff_closed [of token e b now c] handoff_spec(1) [OF m h [symmetric]] fails_shut [of b "(rh, eh)"] h
    by (auto simp: handoff_boost_def servo_done_def)
  ultimately show ?thesis
    by (simp add: MotorExecutor_UpdateContinuous_def MotorExecutor_ServiceContinuousBoost_def
        MotorExecutor_HandoffContinuousBoost_def masked_def u s h split del: if_split split: if_split_asm)
qed

text \<open>C11: An update of a session never reverses the output without the dead time. Of
  \<open>MotorExecutor_UpdateContinuous\<close>: an accepted update that asks for the direction opposite to
  the last one, while an output is on or before the dead time has passed since it was turned
  off, is held back: it commits 0, reports the interlock and leaves the driver shut down;
  every other one commits exactly what it asked. It records the direction of an output it
  turns on, and the time at which an output is turned off. The service of a planned boost
  is not covered: it has no dead-time test of its own, and only the order in which the
  application calls it keeps it from following a release.\<close>

theorem continuous_reversal_waits:
  assumes "continuous_run b e"
    and "MotorExecutor_UpdateContinuous b token q rm now l mx dead c c0 il0 e = ((MOTOR_RESULT_OK, a, il), e')"
  shows "(let s = sx e; reverse = (sgn c \<noteq> 0 \<and> sgn c \<noteq> sv_last_sign s) in
      (if reverse \<and> (sv_committed s \<noteq> 0 \<or> sv_last_sign s \<noteq> 0 \<and> now - sv_off_ms s < dead)
       then a = 0 \<and> il else a = c \<and> \<not> il)
      \<and> (a = 0 \<longrightarrow> hw_disabled e')
      \<and> (sv_open (sx e') \<longrightarrow>
          sv_last_sign (sx e') = (if a = 0 then sv_last_sign s else sgn a)
          \<and> sv_off_ms (sx e') = (if a = 0 \<and> sv_committed s \<noteq> 0 then now else sv_off_ms s)))"
proof -
  have m: "mid_inv b e" by (rule inv_mid [OF continuous_run_inv [OF assms(1)]])
  obtain e1 where u: "update_continuous b token q rm now l mx dead c c0 il0 e = ((MOTOR_RESULT_OK, a, il), e1)"
    and e': "e' = sv_poll e1"
    using assms(2) by (auto simp: MotorExecutor_UpdateContinuous_def masked_def split: prod.splits)
  obtain e2 where f: "accepted_update b (bases e) rm now l e1" "recorded now a q (sx e2) (sx e1)"
    "update_interlock now dead c (snd (update_live b now e)) = (True, a, il, e2)"
    by (rule update_accepted [OF m u])
  have s: "sx (snd (update_live b now e)) = sx e" by (rule update_live_spec(2) [OF m])
  have held: "held b e1" using f(1) by (simp add: accepted_update_def)
  have i: "if sgn c \<noteq> 0 \<and> sgn c \<noteq> sv_last_sign (sx e)
        \<and> (sv_committed (sx e) \<noteq> 0 \<or> sv_last_sign (sx e) \<noteq> 0 \<and> now - sv_off_ms (sx e) < dead)
      then a = 0 \<and> il else a = c \<and> \<not> il"
    using f(3) by (auto simp: update_interlock_def s Let_def split: if_splits)
  have two: "sx e2 = sx e \<or> a = 0 \<and> sx e2 = (sx e)\<lparr>sv_committed := 0, sv_off_ms := now\<rparr> \<and> sv_committed (sx e) \<noteq> 0"
    using f(3) by (auto simp: update_interlock_def s Let_def split: if_splits)
  have off: "hw_disabled e'" if "a = 0"
    using held_polled [OF held] f(2) that
    by (auto simp: e' recorded_def quiet_def low_def disabled_shut_down held_def output_held_def Let_def)
  have "sx e' = sx e1" if "sv_open (sx e')" using held_polled [OF held] that by (auto simp: e')
  then have "sv_open (sx e') \<longrightarrow>
      sv_last_sign (sx e') = (if a = 0 then sv_last_sign (sx e) else sgn a)
      \<and> sv_off_ms (sx e') = (if a = 0 \<and> sv_committed (sx e) \<noteq> 0 then now else sv_off_ms (sx e))"
    using f(2) two by (auto simp: recorded_def remembers_def)
  then show ?thesis using i off unfolding Let_def by simp
qed

lemma serviced_finished:
  assumes "boost_serviced b now e a True e'"
  shows "lease_timed (rb_policy b) (counts e) now (sv_receive_deadline (sx e) - now) e'"
    "sv_committed (sx e') = a" "\<not> sv_boost_set (sx e')"
    "0 \<le> a" "a \<le> sv_normal_cap (sx e)" "a \<le> sv_committed (sx e)"
proof -
  have h: "handed_over b (counts e) now (sv_receive_deadline (sx e) - now) a e'"
    and a: "0 \<le> a" "a \<le> sv_normal_cap (sx e)" "a \<le> sv_committed (sx e)"
    using assms unfolding boost_serviced_def if_True by blast+
  show "lease_timed (rb_policy b) (counts e) now (sv_receive_deadline (sx e) - now) e'"
    "sv_committed (sx e') = a" "\<not> sv_boost_set (sx e')"
    using h unfolding handed_over_def by blast+
  show "0 \<le> a" "a \<le> sv_normal_cap (sx e)" "a \<le> sv_committed (sx e)" by (fact a)+
qed

text \<open>C13: The boost is a finite, pre-authorised output. An accepted service of it belongs to the
  owner of a planned boost. While the boost lasts it commits a command between the
  present one and the planned peak and leaves the end of the lease, the deadlines and the
  last sample as they are: a boost cannot outlive the sample that armed it. At its end it
  commits a command not above the present one and the normal cap, with the boost over and
  the lease ending before the last sample is too old. In both cases the timer may already
  have ended it, with the driver shut down.\<close>

theorem boost_is_bounded:
  assumes "continuous_run b e"
    and "MotorExecutor_ServiceContinuousBoost b token now a0 f0 e = ((MOTOR_RESULT_OK, a, finished), e')"
  shows "owns token (sx e) \<and> sv_boost_plan (sx e) \<and> sv_boost_set (sx e)
    \<and> (hw_disabled e' \<and> \<not> sv_open (sx e')
       \<or> sv_open (sx e') \<and> sv_committed (sx e') = a
         \<and> (if finished
            then \<not> sv_boost_set (sx e') \<and> 0 \<le> a \<and> a \<le> sv_normal_cap (sx e) \<and> a \<le> sv_committed (sx e)
              \<and> (\<exists>k r. (k = tim5_cnt e \<or> k \<in> snd ` set (tm_schedule e))
                  \<and> 1 < r \<and> r \<le> sv_receive_deadline (sx e) - now \<and> tim5_ccr1 e' = k + (r - 1) * 10)
            else sv_committed (sx e) \<le> a \<and> a \<le> sv_boost_peak (sx e) \<and> tim5_ccr1 e' = tim5_ccr1 e
              \<and> mx_logical_deadline_ms (rx_motor e') = mx_logical_deadline_ms (rx_motor e)
              \<and> sv_receive_deadline (sx e') = sv_receive_deadline (sx e)
              \<and> sv_boost_deadline (sx e') = sv_boost_deadline (sx e)
              \<and> sv_session_deadline (sx e') = sv_session_deadline (sx e)
              \<and> sv_sequence (sx e') = sv_sequence (sx e)))"
proof -
  have m: "mid_inv b e" by (rule inv_mid [OF continuous_run_inv [OF assms(1)]])
  obtain e1 where s: "service_boost b token now a0 f0 e = ((MOTOR_RESULT_OK, a, finished), e1)"
    and e': "e' = sv_poll e1"
    using assms(2) by (auto simp: MotorExecutor_ServiceContinuousBoost_def masked_def split: prod.splits)
  have own: "owns token (sx e)" "sv_boost_plan (sx e)" "sv_boost_set (sx e)"
    using s by (auto simp: service_boost_def servo_done_def servo_fail_def Let_def split: if_splits prod.splits)
  have b: "boost_serviced b now e a finished e1" using service_boost_spec(2) [OF m s [symmetric]] by simp
  then have held: "held b e1" by (simp add: boost_serviced_def)
  show ?thesis
  proof (cases "sv_open (sx e')")
    case False
    then show ?thesis
      using own held_polled [OF held] held_open [of b e'] by (auto simp: e' quiet_def low_def disabled_shut_down)
  next
    case True
    then have same: "sx e' = sx e1" "rx_motor e' = rx_motor e1" "tim5_ccr1 e' = tim5_ccr1 e1"
      using held_polled [OF held] by (auto simp: e')
    show ?thesis
    proof (cases finished)
      case False
      then show ?thesis using b True own same by (auto simp: boost_serviced_def same_lease_def)
    next
      case fin: True
      note f = serviced_finished [OF b [unfolded eqTrueI [OF fin]]]
      obtain k r where "k \<in> counts e" "1 < r" "r \<le> sv_receive_deadline (sx e) - now"
          "tim5_ccr1 e1 = k + (r - 1) * 10"
        using f(1) unfolding lease_timed_def by blast
      then have "\<exists>k r. (k = tim5_cnt e \<or> k \<in> snd ` set (tm_schedule e))
          \<and> 1 < r \<and> r \<le> sv_receive_deadline (sx e) - now \<and> tim5_ccr1 e' = k + (r - 1) * 10"
        unfolding same counts_def by blast
      then show ?thesis
        using own True f(2-6) unfolding same(1) by (subst if_P [OF fin]) (intro conjI disjI2; assumption)
    qed
  qed
qed

end
