(* ===== verification/MotorServoBench.thy ===== *)
theory MotorServoBench
  imports MotorServoProps
begin

text \<open>
  Runs of the continuous mode on the bench board in the characterization build, with an
  undisturbed timer: a session whose output is on, and one with an accepted boost service.
  They show that the properties' hypotheses can hold.
\<close>

section \<open>An undisturbed timer\<close>

definition calm :: "('h, 'a) stop_timer_scheme \<Rightarrow> bool" where
  "calm e \<longleftrightarrow> tm_schedule e = [] \<and> (tim5_irq_enabled e \<longrightarrow> tim5_sr e = 0)"

lemma calm_hw: "tm_schedule e = [] \<Longrightarrow> timer_hw e = e"
  by (simp add: timer_hw_def)

lemma calm_poll: "calm e \<Longrightarrow> sv_poll e = e"
  by (auto simp: calm_def poll_def calm_hw tim5_irq_line_def Let_def)

lemma calm_masked: "f e = (r, e') \<Longrightarrow> calm e' \<Longrightarrow> masked f e = (r, e')"
  by (simp add: masked_def calm_poll)

lemma calm_commit:
  assumes "tm_schedule e = []" "tim5_sr e = 0" "st_armed e" "st_healthy e"
  shows "sv_commit e = (True, e\<lparr>st_last_failure_stage := 0, tim5_irq_enabled := True\<rparr>)"
  using assms by (simp add: MotorStopTimer_CommitArm_def calm_hw Let_def)

lemma calm_arm:
  assumes "tm_schedule e = []" "st_initialized e" "st_healthy e" "\<not> st_armed e" "1 < r" "r \<le> MOTOR_STOP_MAX_LEASE_MS p"
  shows "sv_arm p r e = (True, (lease_start r e)\<lparr>st_last_failure_stage := 0, tim5_irq_enabled := True\<rparr>)"
proof -
  have "tm_schedule (lease_start r e) = []" "tim5_sr (lease_start r e) = 0" "st_armed (lease_start r e)" "st_healthy (lease_start r e)"
    using assms by (simp_all add: lease_start_def MotorStopTimer_Cancel_def tim5_update_event_def Let_def)
  from calm_commit [OF this] show ?thesis using assms by (simp add: sv_arm_split not_le [symmetric] not_less)
qed

section \<open>The board and the initialisation\<close>

definition lab_policy :: build_policy where
  "lab_policy = \<lparr>bp_mode = MODE_REAL_BENCH, bp_auto_target = False, bp_force_servo = True,
     bp_commissioning = True, bp_characterization = True, bp_build_to_target = False\<rparr>"

abbreviation lab :: "unit real_board" where
  "lab \<equiv> bench lab_policy"

lemma lab_arming: "MotorHwReal_OutputArmingAllowed lab" "rb_policy lab = lab_policy"
  by (simp_all add: MotorHwReal_OutputArmingAllowed_def bench_board_def lab_policy_def)

definition reset_servo :: "unit servo_motor" where
  "reset_servo = real_motor.extend reset_motor (servo_motor.fields servo_reset)"

text \<open>A session just opened, and nothing sent yet.\<close>

definition fresh :: "unit servo_motor \<Rightarrow> bool" where
  "fresh e \<longleftrightarrow> MotorHwReal_PwmConfigurationIsValid lab e \<and> quiet e \<and> calm e \<and> hr_initialized e \<and> st_initialized e \<and> st_healthy e
    \<and> \<not> rx_completion_event_pending e
    \<and> sx e = servo_reset\<lparr>sv_generation := 1, sv_open := True\<rparr>"

lemma Real_Initialize_pending:
  assumes "fst (Real_Initialize b e) = MOTOR_RESULT_OK"
  shows "\<not> rx_completion_event_pending (snd (Real_Initialize b e))"
proof -
  have hw: "rx_completion_event_pending (snd (MotorHwReal_InitializeDisabled b x)) = rx_completion_event_pending x"
    for x :: "('a, 'b) real_motor_scheme"
    by (rule rx_same(4) [OF same_more(13) [OF InitializeDisabled_spec(3)]])
  have "stop_timer.more (snd (MotorStopTimer_Initialize b True x)) = stop_timer.more x"
    for x :: "('a, 'b) real_motor_scheme"
    by (simp add: MotorStopTimer_Initialize_def tim5_update_event_def Let_def)
  then have "rx_completion_event_pending (snd (MotorStopTimer_Initialize b True x)) = rx_completion_event_pending x"
    for x :: "('a, 'b) real_motor_scheme" by (rule rx_same(4))
  then show ?thesis
    using assms hw
    by (auto simp: Real_Initialize_def MotorExecutor_SetPhysicalStatus_def MotorExecutor_ClearFailure_def
        MotorExecutor_ClearPendingCompletion_def Let_def case_prod_beta split: if_splits)
qed

lemma pwm_kept:
  assumes "MotorHwReal_PwmConfigurationIsValid b e"
  shows "MotorHwReal_PwmConfigurationIsValid b (MotorHwReal_DisableImmediate e)"
    "MotorHwReal_PwmConfigurationIsValid b (lease_start r e)"
    "MotorHwReal_PwmConfigurationIsValid b (MotorExecutor_SetPhysicalStatus b e)"
    "MotorHwReal_PwmConfigurationIsValid b (e\<lparr>st_last_failure_stage := y, tim5_irq_enabled := x\<rparr>)"
    "MotorHwReal_PwmConfigurationIsValid b (e\<lparr>sx := v\<rparr>)"
  using assms
  by (auto simp: MotorHwReal_PwmConfigurationIsValid_def MotorHwReal_TimerClockHz_def MotorHwReal_DisableImmediate_def
      MotorHw_ForceDisableImmediate_def write_bsrr_def write_tim_sr_def lease_start_def MotorStopTimer_Cancel_def
      tim5_update_event_def MotorExecutor_SetPhysicalStatus_def bit.conj_disj_distrib2 word_bw_assocs Let_def)

lemma pwm_fields [simp]:
  "MotorHwReal_PwmConfigurationIsValid b (r\<lparr>hr_initialized := h\<rparr>) = MotorHwReal_PwmConfigurationIsValid b r"
  "MotorHwReal_PwmConfigurationIsValid b (x\<lparr>rx_initialized := h\<rparr>) = MotorHwReal_PwmConfigurationIsValid b x"
  "MotorHwReal_PwmConfigurationIsValid b (x\<lparr>rx_motor := m\<rparr>) = MotorHwReal_PwmConfigurationIsValid b x"
  by (simp_all add: MotorHwReal_PwmConfigurationIsValid_def MotorHwReal_TimerClockHz_def)

lemma pwm_timer [simp]:
  "MotorHwReal_PwmConfigurationIsValid b (snd (MotorStopTimer_Initialize b f e)) = MotorHwReal_PwmConfigurationIsValid b e"
  unfolding MotorStopTimer_Initialize_def Let_def
  by (simp add: MotorHwReal_PwmConfigurationIsValid_def MotorHwReal_TimerClockHz_def MotorStopTimer_Cancel_def
      tim5_update_event_def Let_def)

lemma pwm_initialized:
  assumes "fst (Real_Initialize b e) = MOTOR_RESULT_OK"
  shows "MotorHwReal_PwmConfigurationIsValid b (snd (Real_Initialize b e))"
proof -
  have "MotorHwReal_PwmConfigurationIsValid b (snd (MotorHwReal_InitializeDisabled b x))"
    if "fst (MotorHwReal_InitializeDisabled b x)" for x :: "('a, 'b) real_motor_scheme"
    using that
    by (auto simp: MotorHwReal_InitializeDisabled_def fail_init_def Let_def case_prod_beta split: if_splits)
  then show ?thesis
    using assms
    by (auto simp: Real_Initialize_def MotorExecutor_SetPhysicalStatus_def MotorExecutor_ClearFailure_def
        MotorExecutor_ClearPendingCompletion_def Let_def case_prod_beta split: if_splits)
qed

lemma fresh_session: "\<exists>e. continuous_run lab e \<and> fresh e"
proof -
  define e where "e = snd (Servo_Initialize lab reset_servo)"
  have s: "tm_schedule (set_open False reset_servo) = []"
    by (simp add: reset_servo_def reset_motor_def set_open_def real_motor.defs servo_motor.defs)
  have z: "sx reset_servo = servo_reset" by (simp add: reset_servo_def real_motor.defs servo_motor.defs)
  note i = bench_initializes [OF s, of lab_policy]
  have run: "continuous_run lab e"
    using continuous_run.initialized [OF z, of lab e] i(1) by (cases "Servo_Initialize lab reset_servo")
      (simp add: Servo_Initialize_def e_def)
  have e: "ready e" "\<not> rx_completion_event_pending e" "sx e = servo_reset" "MotorHwReal_PwmConfigurationIsValid lab e"
    using i pwm_initialized [OF i(1)] Real_Initialize_pending [OF i(1)] Real_Initialize_sx [of lab "set_open False reset_servo"]
    by (simp_all add: e_def Servo_Initialize_def z) (simp add: servo_reset_def)
  have c: "calm e" "timer_hw e = e" "MotorHwReal_IsDisabled e" "\<not> MotorStopTimer_IsArmed e" "MotorStopTimer_IsHealthy e"
    "\<not> mx_logical_active (rx_motor e)" "rx_initialized e"
    using e(1) by (auto simp: ready_def calm_def quiet_def low_def calm_hw MotorStopTimer_IsArmed_def MotorStopTimer_IsHealthy_def)
  define e1 where "e1 = snd (MotorExecutor_BeginContinuous lab e)"
  have "continuous_run lab e1" using continuous_run.call [OF run, of Continuous_Begin] by (simp add: e1_def)
  moreover have "fresh e1"
    using e c lab_arming
    by (simp add: e1_def MotorExecutor_BeginContinuous_def)
      (simp add: Let_def servo_reset_def calm_poll calm_def fresh_def ready_def pwm_kept)
  ultimately show ?thesis by blast
qed

section \<open>An update\<close>

definition startable :: "unit servo_motor \<Rightarrow> bool" where
  "startable e \<longleftrightarrow> MotorHwReal_PwmConfigurationIsValid lab e \<and> quiet e \<and> tm_schedule e = [] \<and> hr_initialized e \<and> st_initialized e \<and> st_healthy e
    \<and> \<not> rx_completion_event_pending e
    \<and> (let s = sx e in owns 1 s \<and> \<not> sv_has_sequence s \<and> sv_committed s = 0 \<and> sv_last_sign s = 0
        \<and> \<not> sv_session_limited s \<and> \<not> sv_boost_set s \<and> \<not> sv_boost_plan s \<and> (sv_budget_set s \<longrightarrow> sv_normal_cap s = 1000))"

definition streaming :: "int \<Rightarrow> servo_vars \<Rightarrow> unit servo_motor \<Rightarrow> bool" where
  "streaming c s e \<longleftrightarrow> held lab e \<and> tm_schedule e = [] \<and> tim5_sr e = 0 \<and> st_initialized e \<and> st_healthy e
    \<and> MotorHwReal_PwmConfigurationIsValid lab e \<and> tim5_cnt e = 0 \<and> tim5_ccr1 e = 980
    \<and> mx_logical_deadline_ms (rx_motor e) = 200
    \<and> (\<exists>off. sx e = s\<lparr>sv_last_sign := sgn c, sv_off_ms := off, sv_receive_deadline := 200,
        sv_sequence := 1, sv_has_sequence := True, sv_committed := c\<rparr>)"

lemma lab_plan: "Servo_PlanCommand lab_policy MOTOR_DIRECTION_PRESS 1000 = (MOTOR_RESULT_OK, 0, 200)"
  by (simp add: Servo_PlanCommand_def Real_PlanCommand_def Real_DirectionIsValid_def lab_policy_def
      FS_PRESS_PROFILE_CEILING_def FS_COMMAND_CEILING_def)

lemma lab_output:
  assumes "c = 0 \<or> c = 1000" "hr_initialized e" "sv_committed (sx e) = 0"
  shows "fst (update_output lab t c e)"
proof (cases "c = 0")
  case False
  have "fst (MotorHwReal_Apply lab True 200 e)"
    by (rule bench_apply) (use assms(2) lab_arming in \<open>simp_all add: word_le_nat_alt\<close>)
  moreover have "applied True 200 e (MotorHwReal_Apply lab True 200 e)" by (rule Apply_spec)
  ultimately have "\<not> MotorHwReal_IsDisabled (snd (MotorHwReal_Apply lab True 200 e))"
    by (auto simp: applied_def dest: active_not_disabled)
  then show ?thesis
    using \<open>fst (MotorHwReal_Apply lab True 200 e)\<close> False assms
    by (simp add: update_output_def lab_arming lab_plan MotorHwReal_ApplyPress_def Let_def case_prod_beta)
qed (simp add: update_output_def Let_def)

lemma pwm_steps [simp]:
  "MotorHwReal_PwmConfigurationIsValid b (x\<lparr>hr_last_failure_stage := f\<rparr>) = MotorHwReal_PwmConfigurationIsValid b x"
  "MotorHwReal_PwmConfigurationIsValid b (x\<lparr>tim2_ccr3 := u, tim3_ccr3 := v\<rparr>) = MotorHwReal_PwmConfigurationIsValid b x"
  "MotorHwReal_PwmConfigurationIsValid b (x\<lparr>tim2_cnt := u, tim3_cnt := v\<rparr>) = MotorHwReal_PwmConfigurationIsValid b x"
  "MotorHwReal_PwmConfigurationIsValid b (update_event t x) = MotorHwReal_PwmConfigurationIsValid b x"
  "MotorHwReal_PwmConfigurationIsValid b (write_tim_sr t v x) = MotorHwReal_PwmConfigurationIsValid b x"
  "MotorHwReal_PwmConfigurationIsValid b (write_bsrr v x) = MotorHwReal_PwmConfigurationIsValid b x"
  by (cases t; simp add: MotorHwReal_PwmConfigurationIsValid_def MotorHwReal_TimerClockHz_def update_event_def
      write_tim_sr_def write_bsrr_def)+

lemma pwm_calls:
  assumes "MotorHwReal_PwmConfigurationIsValid (bench p) x"
  shows "MotorHwReal_PwmConfigurationIsValid (bench p) (MotorHwReal_DisableImmediate x)"
    "MotorHwReal_PwmConfigurationIsValid (bench p) (snd (hal_call t (rb_PWM_Stop bench_board c) x))"
    "MotorHwReal_PwmConfigurationIsValid (bench p) (snd (hal_call t (rb_PWM_Start bench_board c) x))"
  using assms
  by (cases t; auto simp: MotorHwReal_PwmConfigurationIsValid_def MotorHwReal_TimerClockHz_def hal_call_def read_tim_def
      write_tim_def bench_board_def MotorHwReal_DisableImmediate_def MotorHw_ForceDisableImmediate_def write_bsrr_def
      write_tim_sr_def bit.conj_disj_distrib2 word_bw_assocs Let_def)+

lemma pwm_applied:
  assumes "MotorHwReal_PwmConfigurationIsValid (bench p) e" "fst (MotorHwReal_Apply (bench p) press duty e)"
  shows "MotorHwReal_PwmConfigurationIsValid (bench p) (snd (MotorHwReal_Apply (bench p) press duty e))"
proof -
  have fail: "\<not> fst (MotorHwReal_FailApply n x)" for n and x :: "(unit, 'a) real_regs_scheme"
    by (simp add: MotorHwReal_FailApply_def Let_def)
  have compare: "MotorHwReal_PwmConfigurationIsValid (bench p) (snd (apply_compare press duty x))"
    if "fst (apply_compare press duty x)" "MotorHwReal_PwmConfigurationIsValid (bench p) x"
    for x :: "(unit, 'a) real_regs_scheme"
    using that by (auto simp: apply_compare_def fail Let_def split: if_splits)
  have carriers: "MotorHwReal_PwmConfigurationIsValid (bench p) (snd (apply_carriers (bench p) press duty x))"
    if "fst (apply_carriers (bench p) press duty x)" "MotorHwReal_PwmConfigurationIsValid (bench p) x"
    for x :: "(unit, 'a) real_regs_scheme"
    using that by (auto simp: apply_carriers_def fail case_prod_beta intro!: compare pwm_calls split: if_splits)
  show ?thesis
    using assms
    by (auto simp: MotorHwReal_Apply_def fail case_prod_beta Let_def intro!: carriers pwm_calls split: if_splits)
qed

lemma lab_output_timer:
  assumes "c = 0 \<or> c = 1000" "sv_committed (sx e) = 0" "update_output lab t c e = (True, t2, t3, e')"
    "MotorHwReal_PwmConfigurationIsValid lab e"
  shows "tm_schedule e' = tm_schedule e \<and> tim5_sr e' = tim5_sr e \<and> st_armed e' = st_armed e
    \<and> st_initialized e' = st_initialized e \<and> st_healthy e' = st_healthy e
    \<and> tim5_cnt e' = tim5_cnt e \<and> tim5_ccr1 e' = tim5_ccr1 e \<and> MotorHwReal_PwmConfigurationIsValid lab e'"
proof -
  have "real_regs.more (snd (MotorHwReal_Apply lab True 200 e)) = real_regs.more e"
    using Apply_spec [of True 200 e lab] by (simp add: applied_def)
  note m = same_more [OF this]
  show ?thesis
  proof (cases "c = 0")
    case True
    then have "e' = MotorHwReal_DisableImmediate e" using assms(2,3) by (simp add: update_output_def Let_def)
    then show ?thesis using pwm_kept(1) [OF assms(4)] by simp
  next
    case False
    have ok: "fst (MotorHwReal_Apply lab True 200 e)"
      using assms(3) False assms by (auto simp: update_output_def lab_arming lab_plan MotorHwReal_ApplyPress_def Let_def
          case_prod_beta split: if_splits)
    from False have "e' = (snd (MotorHwReal_Apply lab True 200 e))
        \<lparr>sx := (sx (snd (MotorHwReal_Apply lab True 200 e)))\<lparr>sv_last_sign := 1\<rparr>\<rparr>"
      using assms by (auto simp: update_output_def lab_arming lab_plan MotorHwReal_ApplyPress_def Let_def
          case_prod_beta split: if_splits)
    then show ?thesis using m pwm_kept(5) [OF pwm_applied [OF assms(4) ok]] by simp
  qed
qed

lemma bench_update:
  assumes e: "startable e" and c: "c = 0 \<or> c = 1000"
  shows "\<exists>e'. update_continuous lab 1 1 100 101 100 20 2 c 7 True e = ((MOTOR_RESULT_OK, c, False), e')
    \<and> streaming c (sx e) e'"
proof -
  let ?s = "sx e"
  have q: "quiet e" "mid_inv lab e" "\<not> st_armed e"
    using e by (auto simp: startable_def mid_inv_def servo_mid_def session_ok_def quiet_def Let_def lab_arming
        lab_policy_def FS_CONTINUOUS_CEILING_def)
  define e1 where "e1 = (lease_start 99 e)\<lparr>st_last_failure_stage := 0, tim5_irq_enabled := True\<rparr>"
  have arm: "sv_arm lab_policy 99 e = (True, e1)"
    unfolding e1_def using e q(3) by (intro calm_arm) (simp_all add: startable_def MOTOR_STOP_MAX_LEASE_MS_def lab_policy_def)
  have e1: "tm_schedule e1 = []" "tim5_sr e1 = 0" "st_armed e1" "st_initialized e1" "st_healthy e1"
    "hr_initialized e1" "sx e1 = ?s" "\<not> rx_completion_event_pending e1" "tim5_cnt e1 = 0" "tim5_ccr1 e1 = 980"
    using e by (simp_all add: e1_def startable_def)
      (simp_all add: lease_start_def MotorStopTimer_Cancel_def tim5_update_event_def Let_def)
  obtain t2 t3 e2 where out: "update_output lab 101 c e1 = (True, t2, t3, e2)"
    using lab_output [OF c e1(6), of 101] e e1(7) by (cases "update_output lab 101 c e1") (auto simp: startable_def Let_def)
  have com: "sv_committed (sx e1) = 0" using e e1(7) by (simp add: startable_def Let_def)
  have pwm: "MotorHwReal_PwmConfigurationIsValid lab e1"
    unfolding e1_def using e by (intro pwm_kept) (simp add: startable_def)
  note keeps = lab_output_timer [OF c com out pwm]
  note rem = update_output_remembers [OF out]
  define e3 where "e3 = e2\<lparr>st_last_failure_stage := 0, tim5_irq_enabled := True\<rparr>"
  have com2: "sv_commit e2 = (True, e3)"
    unfolding e3_def using keeps e1 by (intro calm_commit) simp_all
  have pins: "pins_ok e1" using q(1) lease_start_output [of e 99]
    by (simp add: e1_def same_output_def quiet_def low_def pins_ok_def)
  have st: "stepped e1 e2" by (rule update_output_spec(1) [OF pins lab_arming(1) out])
  then obtain off sign where sx2: "sx e2 = ?s\<lparr>sv_off_ms := off, sv_last_sign := sign\<rparr>"
    and pend: "\<not> rx_completion_event_pending e2"
    using e1(7,8) by (auto simp: stepped_def)
  have sign: "sign = sgn c"
    using rem [OF pins] c e by (auto simp: remembers_def sx2 e1(7) startable_def Let_def)
  define e4 where "e4 = MotorExecutor_SetPhysicalStatus lab (update_record 1 100 100 101 99 c t2 t3 e3)"
  have flags: "\<not> sv_boost_set ?s" "sv_open ?s" "\<not> sv_has_sequence ?s" "\<not> sv_session_limited ?s" "sv_committed ?s = 0"
    "sv_last_sign ?s = 0" "owns 1 ?s"
    using e by (simp_all add: startable_def owns_def Let_def)
  have fin: "update_finish lab 1 100 100 101 c False 99 99 t2 t3 e3 = (MOTOR_RESULT_OK, e4)"
    using flags pend by (simp add: update_finish_def revoked_def e3_def sx2 e4_def servo_done_def)
  have "update_commit lab 1 100 100 101 c e = (MOTOR_RESULT_OK, e4)"
    using flags arm out com2 fin e1(7,8)
    by (simp add: update_commit_def update_install_def ok_or_fail_def revoked_def Let_def lab_arming)
  moreover have "\<not> update_stale 1 1 ?s" using flags by (simp add: update_stale_def)
  moreover have "\<not> (99 :: u32) \<le> 1" by (simp add: word_le_nat_alt)
  then have "\<not> update_refused lab 1 101 (101 - 100) 100 20 2 c e"
    using e c lab_arming by (auto simp: update_refused_def update_bounds_bad_def startable_def Let_def lab_policy_def
        FS_CONTINUOUS_CEILING_def FS_EXECUTOR_PRESS_CEILING_def)
  moreover have live: "update_live lab 101 e = (True, e)" using flags by (simp add: update_live_def)
  moreover have "update_interlock 101 2 c (snd (update_live lab 101 e)) = (True, c, False, e)"
    using flags c by (auto simp: live update_interlock_def Let_def)
  ultimately have run: "update_continuous lab 1 1 100 101 100 20 2 c 7 True e = ((MOTOR_RESULT_OK, c, False), e4)"
    by (simp add: update_continuous_split)
  moreover have "held lab e4"
    using update_continuous_spec(2) [OF q(2) run [symmetric]] by (simp add: accepted_update_def)
  moreover have "sx e4 = ?s\<lparr>sv_last_sign := sign, sv_off_ms := off, sv_receive_deadline := 200,
      sv_sequence := 1, sv_has_sequence := True, sv_committed := c\<rparr>"
    by (simp add: e4_def) (simp add: update_record_def e3_def sx2)
  moreover have "MotorHwReal_PwmConfigurationIsValid lab e4"
    using keeps unfolding e4_def by (intro pwm_kept(3)) (simp add: update_record_def e3_def pwm_kept)
  moreover have "mx_logical_deadline_ms (rx_motor e4) = 200"
    by (simp add: e4_def MotorExecutor_SetPhysicalStatus_def update_record_def)
  moreover have "tm_schedule e4 = []" "tim5_sr e4 = 0" "st_initialized e4" "st_healthy e4" "tim5_cnt e4 = 0" "tim5_ccr1 e4 = 980"
    using keeps e1 by (simp_all add: e4_def MotorExecutor_SetPhysicalStatus_def update_record_def e3_def)
  ultimately show ?thesis
    using sign unfolding streaming_def by blast
qed

section \<open>The runs\<close>

lemma streaming_calm: "streaming c s e \<Longrightarrow> calm e"
  by (simp add: streaming_def calm_def)

lemma fresh_startable: "fresh e \<Longrightarrow> startable e"
  by (simp add: fresh_def startable_def calm_def owns_def servo_reset_def Let_def)

lemma bench_update_run:
  assumes "continuous_run lab e" "startable e" "c = 0 \<or> c = 1000"
  shows "\<exists>e'. MotorExecutor_UpdateContinuous lab 1 1 100 101 100 20 2 c 7 True e = ((MOTOR_RESULT_OK, c, False), e')
    \<and> continuous_run lab e' \<and> streaming c (sx e) e'"
proof -
  obtain e' where u: "update_continuous lab 1 1 100 101 100 20 2 c 7 True e = ((MOTOR_RESULT_OK, c, False), e')"
    and s: "streaming c (sx e) e'"
    using bench_update [OF assms(2,3)] by blast
  have "MotorExecutor_UpdateContinuous lab 1 1 100 101 100 20 2 c 7 True e = ((MOTOR_RESULT_OK, c, False), e')"
    unfolding MotorExecutor_UpdateContinuous_def by (rule calm_masked, rule u, rule streaming_calm [OF s])
  moreover from this have "continuous_run lab e'"
    using continuous_run.call [OF assms(1), of "Continuous_Update 1 1 100 101 100 20 2 c 7 True"] by simp
  ultimately show ?thesis using s by blast
qed

text \<open>A release asked for while pressing.\<close>

lemma lab_valid:
  assumes "held lab e" "tm_schedule e = []" "st_initialized e" "st_healthy e"
    "MotorHwReal_PwmConfigurationIsValid lab e" "sv_committed (sx e) = 1000"
  shows "Servo_ActiveRequestIsValid timer_hw lab e = (True, e)"
proof -
  have "\<not> MotorHwReal_IsDisabled e" "mx_planned_tim2_ccr3 (rx_motor e) = 0" "mx_planned_tim3_ccr3 (rx_motor e) = 200"
    "MotorHwReal_ActiveCompareIsValid True 200 e"
    using assms(1,6) by (auto simp: held_def output_held_def lab_arming lab_plan Let_def dest: active_not_disabled)
  then show ?thesis
    using assms lab_arming(1)
    by (simp add: Servo_ActiveRequestIsValid_def calm_hw polled_def held_def lease_armed_def
        MotorStopTimer_IsHealthy_def MotorStopTimer_IsArmed_def MotorHwReal_MatchesPlan_def Let_def)
qed

lemma calm_renew:
  assumes "tm_schedule e = []" "tim5_sr e = 0" "st_armed e" "st_initialized e" "st_healthy e" "tim5_cnt e = 0" "tim5_ccr1 e = 980"
    "tim5_cr1 e AND TIM_CR1_CEN \<noteq> 0"
  shows "sv_renew lab_policy 99 e = (True, e\<lparr>tim5_ccr1 := 980, st_last_failure_stage := 0, tim5_irq_enabled := True\<rparr>)"
proof -
  have "\<not> time_reached 0 980" "\<not> (99 :: u32) \<le> 1" by (simp_all add: time_reached_def word_le_nat_alt)
  then show ?thesis
    using assms calm_commit [of "e\<lparr>tim5_ccr1 := 980\<rparr>"]
    by (simp add: MotorStopTimer_RenewLease_def calm_hw MotorStopTimer_IsArmed_def MOTOR_STOP_MAX_LEASE_MS_def lab_policy_def Let_def)
qed

lemma bench_reversal:
  assumes e: "streaming 1000 s e" and s: "owns 1 s" "\<not> sv_session_limited s" "\<not> sv_boost_set s" "\<not> sv_boost_plan s"
    "\<not> sv_budget_set s"
  shows "\<exists>e'. update_continuous lab 1 2 101 102 100 20 2 (- 100) 7 False e = ((MOTOR_RESULT_OK, 0, True), e') \<and> calm e'"
proof -
  obtain off where v: "sx e = s\<lparr>sv_last_sign := 1, sv_off_ms := off, sv_receive_deadline := 200,
        sv_sequence := 1, sv_has_sequence := True, sv_committed := 1000\<rparr>"
    using e by (auto simp: streaming_def)
  have h: "held lab e" "tm_schedule e = []" "tim5_sr e = 0" "st_initialized e" "st_healthy e" "st_armed e"
    "MotorHwReal_PwmConfigurationIsValid lab e" "tim5_cnt e = 0" "tim5_ccr1 e = 980"
    "mx_logical_deadline_ms (rx_motor e) = 200" "\<not> rx_completion_event_pending e" "sv_open (sx e)" "tim5_cr1 e AND TIM_CR1_CEN \<noteq> 0"
    using e by (simp_all add: streaming_def held_def lease_armed_def)
  have stale: "\<not> update_stale 1 2 (sx e)"
    using s(1) by (simp add: update_stale_def owns_def v word_le_nat_alt)
  have "\<not> (99 :: u32) \<le> 1" by (simp add: word_le_nat_alt)
  then have ref: "\<not> update_refused lab 1 102 (102 - 101) 100 20 2 (- 100) e"
    using s h(11) lab_arming by (simp add: update_refused_def update_bounds_bad_def v Let_def lab_policy_def
        FS_CONTINUOUS_CEILING_def FS_EXECUTOR_PRESS_CEILING_def)
  have live: "update_live lab 102 e = (True, e)"
    using h lab_valid [OF h(1,2,4,5,7)] by (simp add: update_live_def calm_hw MotorStopTimer_IsArmed_def v)
  define e1 where "e1 = (MotorHwReal_DisableImmediate e)\<lparr>sx := (sx e)\<lparr>sv_committed := 0, sv_off_ms := 102\<rparr>\<rparr>"
  have il: "update_interlock 102 2 (- 100) e = (True, 0, True, e1)"
    by (simp add: update_interlock_def v e1_def Let_def)
  define e2 where "e2 = e1\<lparr>tim5_ccr1 := 980, st_last_failure_stage := 0, tim5_irq_enabled := True\<rparr>"
  have ren: "sv_renew lab_policy 99 e1 = (True, e2)"
    unfolding e2_def using h by (intro calm_renew) (simp_all add: e1_def)
  define e3 where "e3 = MotorHwReal_DisableImmediate e2"
  have out: "update_output lab 102 0 e2 = (True, 0, 0, e3)"
    by (simp add: update_output_def e3_def e2_def e1_def Let_def)
  define e4 where "e4 = e3\<lparr>st_last_failure_stage := 0, tim5_irq_enabled := True\<rparr>"
  have com: "sv_commit e3 = (True, e4)"
    unfolding e4_def using h by (intro calm_commit) (simp_all add: e3_def e2_def e1_def)
  define e5 where "e5 = MotorExecutor_SetPhysicalStatus lab (update_record 2 101 100 102 99 0 0 0 e4)"
  have x: "sx e4 = (sx e)\<lparr>sv_committed := 0, sv_off_ms := 102\<rparr>" "\<not> rx_completion_event_pending e4"
    using h by (simp_all add: e4_def e3_def e2_def e1_def)
  have fin: "update_finish lab 2 101 100 102 0 False 99 99 0 0 e4 = (MOTOR_RESULT_OK, e5)"
    using h(12) x by (simp add: update_finish_def revoked_def e5_def servo_done_def)
  have "update_commit lab 2 101 100 102 0 e1 = (MOTOR_RESULT_OK, e5)"
    using h(11,12) ren out com fin s v x
    by (simp add: update_commit_def update_install_def ok_or_fail_def revoked_def Let_def lab_arming e1_def [symmetric])
      (simp add: e1_def e2_def)
  then have "update_continuous lab 1 2 101 102 100 20 2 (- 100) 7 False e = ((MOTOR_RESULT_OK, 0, True), e5)"
    using stale ref live il by (simp add: update_continuous_split)
  moreover have "calm e5"
    using h by (simp add: e5_def calm_def MotorExecutor_SetPhysicalStatus_def update_record_def e4_def e3_def e2_def e1_def)
  ultimately show ?thesis by blast
qed

lemma bench_reversal_run:
  "\<exists>e e'. continuous_run lab e \<and> sv_committed (sx e) = 1000 \<and> sv_last_sign (sx e) = 1
    \<and> MotorExecutor_UpdateContinuous lab 1 2 101 102 100 20 2 (- 100) 7 False e = ((MOTOR_RESULT_OK, 0, True), e')"
proof -
  obtain e0 where e0: "continuous_run lab e0" "fresh e0" using fresh_session by blast
  obtain e where e: "continuous_run lab e" "streaming 1000 (sx e0) e"
    using bench_update_run [OF e0(1) fresh_startable [OF e0(2)], of 1000] by blast
  obtain e' where u: "update_continuous lab 1 2 101 102 100 20 2 (- 100) 7 False e = ((MOTOR_RESULT_OK, 0, True), e')" "calm e'"
    using bench_reversal [OF e(2)] e0(2) by (auto simp: fresh_def owns_def servo_reset_def)
  have "MotorExecutor_UpdateContinuous lab 1 2 101 102 100 20 2 (- 100) 7 False e = ((MOTOR_RESULT_OK, 0, True), e')"
    unfolding MotorExecutor_UpdateContinuous_def by (rule calm_masked, rule u(1), rule u(2))
  then show ?thesis using e by (auto simp: streaming_def)
qed

text \<open>A boost armed and planned over an output of 0, with an accepted service.\<close>

lemma bench_valid:
  assumes "held lab e" "tm_schedule e = []" "st_initialized e" "st_healthy e" "sv_committed (sx e) = 0"
  shows "Servo_ActiveRequestIsValid timer_hw lab e = (True, e)"
  using assms lab_arming(1)
  by (simp add: Servo_ActiveRequestIsValid_def calm_hw polled_def held_def output_held_def lease_armed_def
      MotorStopTimer_IsHealthy_def MotorStopTimer_IsArmed_def MotorHwReal_MatchesPlan_def Let_def)

lemma bench_boost_run:
  "\<exists>e e'. continuous_run lab e
    \<and> MotorExecutor_ServiceContinuousBoost lab 1 150 7 True e = ((MOTOR_RESULT_OK, 0, False), e')"
proof -
  obtain e0 where e0: "continuous_run lab e0" "fresh e0" using fresh_session by blast
  define e1 where "e1 = e0\<lparr>sx := (sx e0)\<lparr>sv_budget_set := True, sv_session_limited := False,
      sv_session_deadline := 0, sv_normal_cap := 1000\<rparr>\<rparr>"
  have "MotorExecutor_SetContinuousBudget lab_policy 1 0 0 1000 e0 = (True, e1)"
    unfolding MotorExecutor_SetContinuousBudget_def
    by (rule calm_masked) (use e0(2) in \<open>simp_all add: fresh_def e1_def owns_def servo_reset_def lab_policy_def
        FS_CONTINUOUS_CEILING_def calm_def Let_def\<close>)
  then have r1: "continuous_run lab e1"
    using continuous_run.call [OF e0(1), of "Continuous_SetBudget 1 0 0 1000"] lab_arming(2) by simp
  have "startable e1"
    using e0(2) by (simp add: e1_def fresh_def startable_def calm_def owns_def servo_reset_def pwm_kept Let_def)
  from bench_update_run [OF r1 this, of 0] obtain e2 where r2: "continuous_run lab e2" "streaming 0 (sx e1) e2"
    by auto
  obtain off where s2: "sx e2 = (sx e1)\<lparr>sv_last_sign := 0, sv_off_ms := off,
      sv_receive_deadline := 200, sv_sequence := 1, sv_has_sequence := True, sv_committed := 0\<rparr>"
    using r2(2) by (auto simp: streaming_def)
  have t: "tm_schedule e2 = []" "tim5_sr e2 = 0" "st_initialized e2" "st_healthy e2" "held lab e2"
    using r2(2) by (simp_all add: streaming_def)
  have own: "owns 1 (sx e2)" "sv_budget_set (sx e2)" "\<not> sv_boost_used (sx e2)" "\<not> sv_session_limited (sx e2)"
    "sv_committed (sx e2) = 0" "\<not> sv_boost_plan (sx e2)" "sv_normal_cap (sx e2) = 1000" "sv_has_sequence (sx e2)"
    "sv_receive_deadline (sx e2) = 200" "sv_last_sign (sx e2) \<ge> 0"
    using e0(2) s2 by (simp_all add: e1_def fresh_def owns_def servo_reset_def)
  define e3 where "e3 = e2\<lparr>sx := (sx e2)\<lparr>sv_boost_set := True, sv_boost_used := True,
      sv_boost_deadline := 154, sv_boost_started := 150\<rparr>,
      rx_motor := (rx_motor e2)\<lparr>mx_boost_started_ms := 150, mx_boost_deadline_ms := 154\<rparr>\<rparr>"
  have "MotorExecutor_ArmContinuousBoost lab 1 150 4 e2 = (True, e3)"
    unfolding MotorExecutor_ArmContinuousBoost_def
    by (rule calm_masked)
      (use own t bench_valid [OF t(5,1,3,4) own(5)] in \<open>simp_all add: e3_def lab_arming calm_def FS_APPROVED_PEAK_MS_def
        lab_policy_def word_le_nat_alt Let_def\<close>)
  then have r3: "continuous_run lab e3"
    using continuous_run.call [OF r2(1), of "Continuous_ArmBoost 1 150 4"] by simp
  have h3: "held lab e3" unfolding e3_def by (rule held_kept [OF t(5)]) simp_all
  define e4 where "e4 = e3\<lparr>sx := (sx e3)\<lparr>sv_boost_plan := True, sv_boost_initial := 0,
      sv_boost_peak := 2000, sv_boost_lower := 0, sv_boost_rise := 1, sv_boost_end_ms := 152\<rparr>,
      rx_motor := (rx_motor e3)\<lparr>mx_boost_planned_end_ms := 152\<rparr>\<rparr>"
  have t3: "tm_schedule e3 = []" "tim5_sr e3 = 0" "st_initialized e3" "st_healthy e3" "sv_committed (sx e3) = 0"
    using t own by (simp_all add: e3_def)
  have "MotorExecutor_SetContinuousBoostPlan lab 1 150 1 2 2000 0 e3 = (True, e4)"
    unfolding MotorExecutor_SetContinuousBoostPlan_def
    by (rule calm_masked)
      (use own t3 bench_valid [OF h3 t3(1,3,4,5)] in \<open>simp_all add: e4_def lab_arming calm_def FS_EXECUTOR_PRESS_CEILING_def
        lab_policy_def word_le_nat_alt owns_def Let_def, simp_all add: e3_def owns_def\<close>)
  then have r4: "continuous_run lab e4"
    using continuous_run.call [OF r3, of "Continuous_SetBoostPlan 1 150 1 2 2000 0"] by simp
  have h4: "held lab e4" unfolding e4_def by (rule held_kept [OF h3]) simp_all
  have t4: "tm_schedule e4 = []" "tim5_sr e4 = 0" "st_initialized e4" "st_healthy e4" "sv_committed (sx e4) = 0"
    using t3 by (simp_all add: e4_def)
  define e5 where "e5 = MotorExecutor_SetPhysicalStatus lab (e4\<lparr>st_last_failure_stage := 0, tim5_irq_enabled := True\<rparr>)"
  have armed: "st_armed e4" "\<not> rx_completion_event_pending e4" using h4 by (simp_all add: held_def lease_armed_def)
  have plan: "owns 1 (sx e4)" "sv_boost_plan (sx e4)" "sv_boost_set (sx e4)" "\<not> sv_session_limited (sx e4)"
    "sv_boost_deadline (sx e4) = 154" "sv_receive_deadline (sx e4) = 200" "sv_boost_end_ms (sx e4) = 152"
    "sv_boost_started (sx e4) = 150" "sv_boost_rise (sx e4) = 1" "sv_boost_initial (sx e4) = 0" "sv_boost_peak (sx e4) = 2000"
    using own by (simp_all add: e4_def e3_def owns_def)
  have "MotorExecutor_ContinuousBoostCommand 1 150 (sx e4) = 0"
    using plan by (simp add: MotorExecutor_ContinuousBoostCommand_def)
  then have "service_boost lab 1 150 7 True e4 = ((MOTOR_RESULT_OK, 0, False), e5)"
    using plan t4(5) armed bench_valid [OF h4 t4(1,3,4,5)] calm_commit [OF t4(1,2) armed(1) t4(4)]
    by (simp add: service_boost_def due_def ok_or_fail_def boost_step_def servo_done_def lab_policy_def Let_def e5_def)
  moreover have "calm e5"
    using t4 by (simp add: e5_def calm_def MotorExecutor_SetPhysicalStatus_def)
  ultimately have "MotorExecutor_ServiceContinuousBoost lab 1 150 7 True e4 = ((MOTOR_RESULT_OK, 0, False), e5)"
    unfolding MotorExecutor_ServiceContinuousBoost_def by (intro calm_masked)
  then show ?thesis using r4 by blast
qed

section \<open>Witnesses\<close>

theorem continuous_output_only_under_lease_witness:
  "\<exists>e. continuous_run lab e \<and> \<not> hw_disabled e \<and> sv_committed (sx e) = 1000
    \<and> tim5_irq_enabled e \<and> tim5_cr1 e AND 1 = 1 \<and> gpiob_odr e AND 6 = 6 \<and> tim2_ccr3 e = 0 \<and> tim3_ccr3 e = 200"
proof -
  obtain e0 where e0: "continuous_run lab e0" "fresh e0" using fresh_session by blast
  obtain e where e: "continuous_run lab e" "streaming 1000 (sx e0) e"
    using bench_update_run [OF e0(1) fresh_startable [OF e0(2)], of 1000] by blast
  have c: "sv_committed (sx e) = 1000" "st_armed e"
    using e(2) by (auto simp: streaming_def held_def lease_armed_def)
  have "gpiob_odr e AND 6 = 6 \<Longrightarrow> \<not> hw_disabled e" by (simp add: hw_disabled_def)
  then show ?thesis
    using continuous_output_only_under_lease [OF e(1)] c
    by (intro exI [of _ e]) (simp add: Let_def lab_arming lab_plan e(1))
qed

theorem continuous_update_accepted_witness:
  "\<exists>e e'. continuous_run lab e
    \<and> MotorExecutor_UpdateContinuous lab 1 1 100 101 100 20 2 1000 7 True e = ((MOTOR_RESULT_OK, 1000, False), e')
    \<and> sv_generation (sx e) = 1 \<and> (hw_disabled e' \<or> sv_sequence (sx e') = 1)"
proof -
  obtain e where e: "continuous_run lab e" "fresh e" using fresh_session by blast
  obtain e' where u: "MotorExecutor_UpdateContinuous lab 1 1 100 101 100 20 2 1000 7 True e = ((MOTOR_RESULT_OK, 1000, False), e')"
    using bench_update_run [OF e(1) fresh_startable [OF e(2)], of 1000] by blast
  show ?thesis using continuous_update_accepted [OF e(1) u] e(1) u by auto
qed

theorem continuous_failures_are_safe_witness:
  "\<exists>e. continuous_run lab e \<and> sv_committed (sx e) = 1000
    \<and> (case MotorExecutor_UpdateContinuous lab 2 9 100 101 100 20 2 1000 7 True e of ((r, a, il), e') \<Rightarrow>
        r = MOTOR_RESULT_INVALID \<and> a = 7 \<and> il \<and> e' = sv_poll (MotorExecutor_SetPhysicalStatus lab e))
    \<and> (case MotorExecutor_UpdateContinuous lab 1 2 100 101 100 20 2 9000 7 True e of ((r, a, il), e') \<Rightarrow>
        r = MOTOR_RESULT_HARDWARE_ERROR \<and> a = 7 \<and> shut_and_closed e')"
proof -
  obtain e0 where e0: "continuous_run lab e0" "fresh e0" using fresh_session by blast
  obtain e where e: "continuous_run lab e" "streaming 1000 (sx e0) e"
    using bench_update_run [OF e0(1) fresh_startable [OF e0(2)], of 1000] by blast
  have s: "sv_committed (sx e) = 1000" "sv_generation (sx e) = 1" "sv_open (sx e)" "sv_sequence (sx e) = 1" "\<not> sv_boost_set (sx e)"
    using e(2) e0(2) by (auto simp: streaming_def fresh_def servo_reset_def)
  have "update_stale 2 9 (sx e)" "\<not> update_stale 1 2 (sx e)"
    using s by (simp_all add: update_stale_def owns_def word_le_nat_alt)
  moreover have "update_refused lab 1 101 (101 - 100) 100 20 2 9000 e"
    using s lab_arming by (simp add: update_refused_def update_bounds_bad_def Let_def lab_policy_def FS_CONTINUOUS_CEILING_def)
  then have "fst (fst (MotorExecutor_UpdateContinuous lab 1 2 100 101 100 20 2 9000 7 True e)) \<noteq> MOTOR_RESULT_OK"
    using \<open>\<not> update_stale 1 2 (sx e)\<close>
    by (simp add: MotorExecutor_UpdateContinuous_def update_continuous_def servo_fail_def servo_done_def Let_def)
  ultimately show ?thesis
    using continuous_failures_are_safe [OF e(1), where token = 2 and q = 9 and rm = 100 and now = 101
        and l = 100 and mx = 20 and dead = 2 and c = 1000 and ?c0.0 = 7 and ?il0.0 = True]
      continuous_failures_are_safe [OF e(1), where token = 1 and q = 2 and rm = 100 and now = 101
        and l = 100 and mx = 20 and dead = 2 and c = 9000 and ?c0.0 = 7 and ?il0.0 = True] s(1) e(1)
    by (intro exI [of _ e]) (auto split: prod.splits)
qed

theorem continuous_reversal_waits_witness:
  "\<exists>e e'. continuous_run lab e \<and> sv_committed (sx e) = 1000 \<and> sv_last_sign (sx e) = 1
    \<and> MotorExecutor_UpdateContinuous lab 1 2 101 102 100 20 2 (- 100) 7 False e = ((MOTOR_RESULT_OK, 0, True), e')
    \<and> hw_disabled e'"
proof -
  obtain e e' where r: "continuous_run lab e" "sv_committed (sx e) = 1000" "sv_last_sign (sx e) = 1"
    "MotorExecutor_UpdateContinuous lab 1 2 101 102 100 20 2 (- 100) 7 False e = ((MOTOR_RESULT_OK, 0, True), e')"
    using bench_reversal_run by blast
  show ?thesis using continuous_reversal_waits [OF r(1,4)] r by (auto simp: Let_def)
qed

theorem boost_is_bounded_witness:
  "\<exists>e e'. continuous_run lab e
    \<and> MotorExecutor_ServiceContinuousBoost lab 1 150 7 True e = ((MOTOR_RESULT_OK, 0, False), e')
    \<and> sv_boost_plan (sx e) \<and> (hw_disabled e' \<or> tim5_ccr1 e' = tim5_ccr1 e)"
proof -
  obtain e e' where r: "continuous_run lab e"
      "MotorExecutor_ServiceContinuousBoost lab 1 150 7 True e = ((MOTOR_RESULT_OK, 0, False), e')"
    using bench_boost_run by blast
  show ?thesis using boost_is_bounded [OF r] r by auto
qed

end
