(* ===== verification/ForceMachineTypes.thy ===== *)
theory ForceMachineTypes
  imports Machine ForceServo
begin

text \<open>
  The data of the ForceServo application, \<^verbatim>\<open>Application/force_servo_machine.h\<close>, in the
  builds without BuildToTarget, and the motor executor it is linked with: the operations of
  the common interface and those of the continuous mode. The flat structs of the code are
  split here into the parts that change together; flags of type \<open>uint32_t\<close> that are only ever
  0 or 1 are booleans.
\<close>

section \<open>Diagnostics\<close>

abbreviation (input) FS_RUN_NONE :: u32 where "FS_RUN_NONE \<equiv> 0"
abbreviation (input) FS_RUN_OPERATOR_STOP :: u32 where "FS_RUN_OPERATOR_STOP \<equiv> 1"
abbreviation (input) FS_RUN_FAULT :: u32 where "FS_RUN_FAULT \<equiv> 2"
abbreviation (input) FS_RUN_TARGET_NOT_REACHED_WITHIN_SESSION :: u32 where
  "FS_RUN_TARGET_NOT_REACHED_WITHIN_SESSION \<equiv> 3"
abbreviation (input) FS_RUN_SESSION_COMPLETE :: u32 where "FS_RUN_SESSION_COMPLETE \<equiv> 4"
abbreviation (input) FS_RUN_BOUNDARY_TARGET_REACHED :: u32 where "FS_RUN_BOUNDARY_TARGET_REACHED \<equiv> 5"

text \<open>What \<open>publish\<close> writes\<close>

record DiagStatus =
  ds_schema :: u32
  ds_build_id :: u32
  ds_revision :: u32
  ds_now_ms :: u32
  ds_age_ms :: u32
  ds_session :: u32
  ds_config_version :: u32
  ds_config_digest :: u32
  ds_state :: MachineState
  ds_fault :: MachineFault
  ds_detail :: FaultDetail
  ds_lease_deadline :: u32
  ds_lease_active :: bool
  ds_tim2 :: u16
  ds_tim3 :: u16
  ds_locked :: bool
  ds_output_off :: bool
  ds_contact_threshold :: u32
  ds_session_started_ms :: u32
  ds_latest_sample_hi :: u32
  ds_latest_sample_lo :: u32
  ds_latest_received_ms :: u32
  ds_latest_raw :: u32
  ds_start_pending :: bool
  ds_start_requested_ms :: u32
  ds_last_command_result :: MachineCommandResult
  ds_profile_id :: u32
  ds_profile_digest :: u32
  ds_unit :: u32
  ds_energized_elapsed_ms :: u32
  ds_measured_valid :: bool
  ds_cooling_until_ms :: u32
  ds_cooling_active :: bool
  ds_plan_version :: u32
  ds_plan_digest :: u32
  ds_target :: f32
  ds_current_committed :: f32
  ds_measured :: f32
  ds_force_N :: f32

text \<open>The last control step\<close>

record DiagControl =
  dc_control_at_ms :: u32
  dc_sample_hi :: u32
  dc_sample_lo :: u32
  dc_received_ms :: u32
  dc_control_sequence :: u32
  dc_raw :: u32
  dc_limits :: u32
  dc_saturated_ms :: u32
  dc_tracking_ms :: u32
  dc_progress_status :: u32
  dc_no_response_ms :: u32
  dc_reference_complete :: bool
  dc_hold_ms :: u32
  dc_dt_s :: f32
  dc_filtered :: f32
  dc_reference :: f32
  dc_reference_rate :: f32
  dc_error :: f32
  dc_p :: f32
  dc_i :: f32
  dc_d :: f32
  dc_ff :: f32
  dc_raw_output :: f32
  dc_control_committed :: f32
  dc_next_integral :: f32
  dc_control_pressure :: f32
  dc_requested_output :: f32
  dc_post_limit_output :: f32
  dc_progress_delta :: f32

text \<open>The session\<close>

record DiagSession =
  dn_contact_count :: bool
  dn_contact_lost_count :: u32
  dn_contact_at_ms :: u32
  dn_contact_raw :: u32
  dn_contact_lost_raw :: u32
  dn_skipped_samples :: u32
  dn_rx_interval_min_ms :: u32
  dn_rx_interval_max_ms :: u32
  dn_delivered_interval_min_ms :: u32
  dn_delivered_interval_max_ms :: u32
  dn_session_peak_raw :: u32
  dn_session_peak_received_ms :: u32
  dn_rejection :: ForceServoRejection
  dn_run_reason :: u32
  dn_target_reached :: bool
  dn_target_reached_ms :: u32
  dn_planned_reference_s :: f32
  dn_session_peak_measured :: f32

text \<open>The boost (assist)\<close>

record DiagAssist =
  db_boost_active :: bool
  db_boost_deadline_ms :: u32
  db_boost_spent_ms :: u32
  db_boost_started_ms :: u32
  db_boost_duration_ms :: u32
  db_boost_elapsed_ms :: u32
  db_boost_end_ms :: u32
  db_boost_end_reason :: u32
  db_boost_peak_command :: u32
  db_boost_before_received_ms :: u32
  db_boost_after_received_ms :: u32
  db_boost_after_valid :: bool
  db_assist_admission :: u32
  db_assist_exit :: u32
  db_assist_requested_peak :: u32
  db_assist_peak_ccr :: u16
  db_assist_rise_ms :: u32
  db_assist_normal_end_ms :: u32
  db_assist_response_pending :: bool
  db_assist_after_result :: u32
  db_boost_after_sample_hi :: u32
  db_boost_after_sample_lo :: u32
  db_boost_handoff_command :: f32
  db_boost_pressure_before :: f32
  db_boost_pressure_after :: f32
  db_assist_pressure_peak :: f32
  db_assist_response_peak :: f32

record ForceServoDiagnostic =
  fd_status :: DiagStatus
  fd_control :: DiagControl
  fd_session :: DiagSession
  fd_assist :: DiagAssist

definition zero_diagnostic :: ForceServoDiagnostic where
  "zero_diagnostic =
    \<lparr>fd_status = \<lparr>ds_schema = 0, ds_build_id = 0, ds_revision = 0, ds_now_ms = 0, ds_age_ms = 0,
       ds_session = 0, ds_config_version = 0, ds_config_digest = 0, ds_state = BOOT_SAFE,
       ds_fault = FAULT_NONE, ds_detail = FAULT_DETAIL_NONE, ds_lease_deadline = 0,
       ds_lease_active = False, ds_tim2 = 0, ds_tim3 = 0, ds_locked = False, ds_output_off = False,
       ds_contact_threshold = 0, ds_session_started_ms = 0, ds_latest_sample_hi = 0,
       ds_latest_sample_lo = 0, ds_latest_received_ms = 0, ds_latest_raw = 0,
       ds_start_pending = False, ds_start_requested_ms = 0,
       ds_last_command_result = COMMAND_ACCEPTED, ds_profile_id = 0, ds_profile_digest = 0,
       ds_unit = 0, ds_energized_elapsed_ms = 0, ds_measured_valid = False,
       ds_cooling_until_ms = 0, ds_cooling_active = False, ds_plan_version = 0,
       ds_plan_digest = 0, ds_target = Fin 0, ds_current_committed = Fin 0, ds_measured = Fin 0,
       ds_force_N = Fin 0\<rparr>,
     fd_control = \<lparr>dc_control_at_ms = 0, dc_sample_hi = 0, dc_sample_lo = 0, dc_received_ms = 0,
       dc_control_sequence = 0, dc_raw = 0, dc_limits = 0, dc_saturated_ms = 0, dc_tracking_ms = 0,
       dc_progress_status = 0, dc_no_response_ms = 0, dc_reference_complete = False, dc_hold_ms = 0,
       dc_dt_s = Fin 0, dc_filtered = Fin 0, dc_reference = Fin 0, dc_reference_rate = Fin 0,
       dc_error = Fin 0, dc_p = Fin 0, dc_i = Fin 0, dc_d = Fin 0, dc_ff = Fin 0,
       dc_raw_output = Fin 0, dc_control_committed = Fin 0, dc_next_integral = Fin 0,
       dc_control_pressure = Fin 0, dc_requested_output = Fin 0, dc_post_limit_output = Fin 0,
       dc_progress_delta = Fin 0\<rparr>,
     fd_session = \<lparr>dn_contact_count = False, dn_contact_lost_count = 0, dn_contact_at_ms = 0,
       dn_contact_raw = 0, dn_contact_lost_raw = 0, dn_skipped_samples = 0,
       dn_rx_interval_min_ms = 0, dn_rx_interval_max_ms = 0, dn_delivered_interval_min_ms = 0,
       dn_delivered_interval_max_ms = 0, dn_session_peak_raw = 0, dn_session_peak_received_ms = 0,
       dn_rejection = FS_PROFILE_OK, dn_run_reason = 0, dn_target_reached = False,
       dn_target_reached_ms = 0, dn_planned_reference_s = Fin 0, dn_session_peak_measured = Fin 0\<rparr>,
     fd_assist = \<lparr>db_boost_active = False, db_boost_deadline_ms = 0, db_boost_spent_ms = 0,
       db_boost_started_ms = 0, db_boost_duration_ms = 0, db_boost_elapsed_ms = 0,
       db_boost_end_ms = 0, db_boost_end_reason = 0, db_boost_peak_command = 0,
       db_boost_before_received_ms = 0, db_boost_after_received_ms = 0, db_boost_after_valid = False,
       db_assist_admission = 0, db_assist_exit = 0, db_assist_requested_peak = 0,
       db_assist_peak_ccr = 0, db_assist_rise_ms = 0, db_assist_normal_end_ms = 0,
       db_assist_response_pending = False, db_assist_after_result = 0, db_boost_after_sample_hi = 0,
       db_boost_after_sample_lo = 0, db_boost_handoff_command = Fin 0,
       db_boost_pressure_before = Fin 0, db_boost_pressure_after = Fin 0,
       db_assist_pressure_peak = Fin 0, db_assist_response_peak = Fin 0\<rparr>\<rparr>"

section \<open>The machine\<close>

text \<open>The characterization plan and its transfer\<close>

record ForcePlanState =
  pl_plan :: ForceCharacterizationPlan
  pl_staging :: "u16 list"
  pl_ack :: "u16 list"
  pl_mask :: u16
  pl_read_mask :: u16
  pl_ack_mask :: u16
  pl_version :: u32
  pl_digest :: u32
  pl_staging_open :: bool
  pl_available :: bool
  pl_armed :: bool

text \<open>Two registers as a value, the high word first; the profile and configuration a plan sets up\<close>

definition word32 :: "u16 \<Rightarrow> u16 \<Rightarrow> u32" where
  "word32 hi lo = push_bit 16 (ucast hi) OR ucast lo"

definition plan_profile :: "build_policy \<Rightarrow> ForceCharacterizationPlan \<Rightarrow> ForceServoProfile" where
  "plan_profile p c = (g_force_servo_profile p)
    \<lparr>fp_continuous_press := f32_bits (f32_of_int (ForceServo_PercentCommand (fl (cp_continuous_percent c)))),
     fp_peak_press := f32_bits (f32_of_int (ForceServo_PercentCommand (fl (cp_assist_percent c))))\<rparr>"

definition plan_config :: "build_policy \<Rightarrow> ForceCharacterizationPlan \<Rightarrow> ForceServoConfig" where
  "plan_config p c = (g_force_servo_default_config p)\<lparr>fc_press_cap := fp_continuous_press (plan_profile p c)\<rparr>"

text \<open>The transfer of a configuration\<close>

record ForceStaging =
  cs_staging :: "u16 list"
  cs_mask :: u64
  cs_version :: u32
  cs_open :: bool

text \<open>Times and flags of the supervision of a session\<close>

record ForceSupervision =
  su_saturation_started_ms :: u32
  su_tracking_started_ms :: u32
  su_settle_after_ms :: u32
  su_progress_at_ms :: u32
  su_progress_good_ms :: u32
  su_hold_at_ms :: u32
  su_progress_anchor :: f32
  su_progress_start :: f32
  su_progress_commanded :: bool
  su_saturation_active :: bool
  su_tracking_active :: bool
  su_approach_wait :: bool
  su_ever_held :: bool

record ForceServoMachine =
  sm_plan :: ForcePlanState
  sm_config :: ForceServoConfig
  sm_profile :: ForceServoProfile
  sm_controller :: ForceServo
  sm_diagnostic :: ForceServoDiagnostic
  sm_frozen :: "u16 list"
  sm_staging :: ForceStaging
  sm_config_version :: u32
  sm_config_digest :: u32
  sm_token :: u32
  sm_session :: u32
  sm_session_started_ms :: u32
  sm_contact_at_ms :: u32
  sm_last_control_rx_ms :: u32
  sm_last_control_sequence :: u64
  sm_assist_end_sequence :: u64
  sm_start_requested_ms :: u32
  sm_supervision :: ForceSupervision
  sm_boost_handoff_request :: int
  sm_cooling_until_ms :: u32
  sm_required_off_ms :: u32
  sm_cooling_active :: bool
  sm_assist_initial_contact :: bool
  sm_boost_used :: bool
  sm_start_pending :: bool
  sm_active :: bool
  sm_contacted :: bool
  sm_have_sample :: bool

text \<open>\<open>MachineContext\<close> with the member \<open>servo\<close> of these builds\<close>

record ForceContext = MachineContext +
  mc_servo :: ForceServoMachine

record 'e force_world =
  fw_m :: ForceContext
  fw_e :: 'e

section \<open>Access\<close>

definition mch :: "(ForceContext \<Rightarrow> ForceContext) \<Rightarrow> 'e force_world \<Rightarrow> 'e force_world" where
  "mch f w = w\<lparr>fw_m := f (fw_m w)\<rparr>"

definition srv :: "(ForceServoMachine \<Rightarrow> ForceServoMachine) \<Rightarrow> ForceContext \<Rightarrow> ForceContext" where
  "srv f m = m\<lparr>mc_servo := f (mc_servo m)\<rparr>"

definition dg_status :: "(DiagStatus \<Rightarrow> DiagStatus) \<Rightarrow> ForceServoMachine \<Rightarrow> ForceServoMachine" where
  "dg_status f s = s\<lparr>sm_diagnostic := (sm_diagnostic s)\<lparr>fd_status := f (fd_status (sm_diagnostic s))\<rparr>\<rparr>"

definition dg_control :: "(DiagControl \<Rightarrow> DiagControl) \<Rightarrow> ForceServoMachine \<Rightarrow> ForceServoMachine" where
  "dg_control f s = s\<lparr>sm_diagnostic := (sm_diagnostic s)\<lparr>fd_control := f (fd_control (sm_diagnostic s))\<rparr>\<rparr>"

definition dg_session :: "(DiagSession \<Rightarrow> DiagSession) \<Rightarrow> ForceServoMachine \<Rightarrow> ForceServoMachine" where
  "dg_session f s = s\<lparr>sm_diagnostic := (sm_diagnostic s)\<lparr>fd_session := f (fd_session (sm_diagnostic s))\<rparr>\<rparr>"

definition dg_assist :: "(DiagAssist \<Rightarrow> DiagAssist) \<Rightarrow> ForceServoMachine \<Rightarrow> ForceServoMachine" where
  "dg_assist f s = s\<lparr>sm_diagnostic := (sm_diagnostic s)\<lparr>fd_assist := f (fd_assist (sm_diagnostic s))\<rparr>\<rparr>"

definition supervise :: "(ForceSupervision \<Rightarrow> ForceSupervision) \<Rightarrow> ForceServoMachine \<Rightarrow> ForceServoMachine" where
  "supervise f s = s\<lparr>sm_supervision := f (sm_supervision s)\<rparr>"

definition planning :: "(ForcePlanState \<Rightarrow> ForcePlanState) \<Rightarrow> ForceServoMachine \<Rightarrow> ForceServoMachine" where
  "planning f s = s\<lparr>sm_plan := f (sm_plan s)\<rparr>"

definition steer :: "(ForceServo \<Rightarrow> ForceServo) \<Rightarrow> ForceServoMachine \<Rightarrow> ForceServoMachine" where
  "steer f s = s\<lparr>sm_controller := f (sm_controller s)\<rparr>"

abbreviation servo_of :: "'e force_world \<Rightarrow> ForceServoMachine" where
  "servo_of w \<equiv> mc_servo (fw_m w)"
abbreviation control_of :: "'e force_world \<Rightarrow> DiagControl" where
  "control_of w \<equiv> fd_control (sm_diagnostic (servo_of w))"
abbreviation session_of :: "'e force_world \<Rightarrow> DiagSession" where
  "session_of w \<equiv> fd_session (sm_diagnostic (servo_of w))"
abbreviation assist_of :: "'e force_world \<Rightarrow> DiagAssist" where
  "assist_of w \<equiv> fd_assist (sm_diagnostic (servo_of w))"

section \<open>The executor\<close>

text \<open>
  The operations the application calls besides the common ones. Three of them are the calls it
  makes with interrupts masked; \<open>sq_Leave\<close> is \<open>MotorAtomic_Leave\<close>. The pointer that
  \<open>MotorExecutor_GetSnapshot\<close> returns designates \<open>ex_motor\<close>.
\<close>

record 'e servo_executor = "'e executor" +
  sq_MaskedSnapshot :: "'e \<Rightarrow> 'e"
  sq_MaskedRequestIsValid :: "'e \<Rightarrow> bool \<times> 'e"
  sq_MaskedOutputIsDisabled :: "'e \<Rightarrow> bool \<times> 'e"
  sq_Leave :: "'e \<Rightarrow> 'e"
  sq_ContinuousExpired :: "'e \<Rightarrow> bool \<times> 'e"
  sq_BeginContinuous :: "'e \<Rightarrow> (MotorResult \<times> u32 option) \<times> 'e"
  sq_SetContinuousBudget :: "u32 \<Rightarrow> u32 \<Rightarrow> u32 \<Rightarrow> int \<Rightarrow> 'e \<Rightarrow> bool \<times> 'e"
  sq_ArmContinuousBoost :: "u32 \<Rightarrow> u32 \<Rightarrow> u32 \<Rightarrow> 'e \<Rightarrow> bool \<times> 'e"
  sq_EndContinuousBoost :: "u32 \<Rightarrow> 'e \<Rightarrow> bool \<times> 'e"
  sq_SetContinuousBoostPlan :: "u32 \<Rightarrow> u32 \<Rightarrow> u32 \<Rightarrow> u32 \<Rightarrow> int \<Rightarrow> int \<Rightarrow> 'e \<Rightarrow> bool \<times> 'e"
  sq_ServiceContinuousBoost ::
    "u32 \<Rightarrow> u32 \<Rightarrow> int \<Rightarrow> bool \<Rightarrow> 'e \<Rightarrow> (MotorResult \<times> int \<times> bool) \<times> 'e"
  sq_ContinuousBoostCommand :: "u32 \<Rightarrow> u32 \<Rightarrow> 'e \<Rightarrow> int \<times> 'e"
  sq_HandoffContinuousBoost :: "u32 \<Rightarrow> u32 \<Rightarrow> int \<Rightarrow> 'e \<Rightarrow> MotorResult \<times> 'e"
  sq_UpdateContinuous ::
    "u32 \<Rightarrow> u64 \<Rightarrow> u32 \<Rightarrow> u32 \<Rightarrow> u32 \<Rightarrow> u32 \<Rightarrow> u32 \<Rightarrow> int \<Rightarrow> int \<Rightarrow> bool \<Rightarrow> 'e
      \<Rightarrow> (MotorResult \<times> int \<times> bool) \<times> 'e"

definition xq :: "('e \<Rightarrow> 'r \<times> 'e) \<Rightarrow> 'e force_world \<Rightarrow> 'r \<times> 'e force_world" where
  "xq f w = (case f (fw_e w) of (r, e) \<Rightarrow> (r, w\<lparr>fw_e := e\<rparr>))"

text \<open>\<open>MotorExecutor_GetSnapshot()\<close> and a member of what it points to\<close>

definition snapshot :: "'e servo_executor \<Rightarrow> (MotorExecutorSnapshot \<Rightarrow> 'r) \<Rightarrow> 'e force_world \<Rightarrow> 'r \<times> 'e force_world" where
  "snapshot ops f w = (case xq (ex_GetSnapshot ops) w of (_, w) \<Rightarrow> (f (ex_motor ops (fw_e w)), w))"

section \<open>What the application relies on\<close>

text \<open>
  \<open>inv\<close> is the executor's own invariant, kept by every operation; \<open>off\<close> says that the output is
  off and nothing can turn it on but a start or a new session. Disabling cannot fail.
\<close>

locale continuous_executor =
  fixes ops :: "'e servo_executor"
    and inv :: "'e \<Rightarrow> bool"
    and off :: "'e \<Rightarrow> bool"
  assumes disable: "inv e \<Longrightarrow> fst (ex_Disable ops e) = MOTOR_RESULT_OK
      \<and> inv (snd (ex_Disable ops e)) \<and> off (snd (ex_Disable ops e))"
    and query_inv: "inv e \<Longrightarrow> inv (snd (ex_IsHealthy ops e)) \<and> inv (snd (ex_OutputIsDisabled ops e))
      \<and> inv (snd (ex_ActiveRequestIsValid ops e)) \<and> inv (snd (ex_GetSnapshot ops e))
      \<and> inv (snd (sq_ContinuousExpired ops e)) \<and> inv (snd (sq_ContinuousBoostCommand ops token now e))"
    and query_off: "off e \<Longrightarrow> off (snd (ex_IsHealthy ops e)) \<and> off (snd (ex_OutputIsDisabled ops e))
      \<and> off (snd (ex_GetSnapshot ops e))"
    and masked_inv: "inv e \<Longrightarrow> inv (sq_Leave ops (sq_MaskedSnapshot ops e))
      \<and> inv (sq_Leave ops (snd (sq_MaskedRequestIsValid ops (sq_MaskedSnapshot ops e))))
      \<and> inv (sq_Leave ops (sq_MaskedSnapshot ops (snd (sq_MaskedOutputIsDisabled ops e))))
      \<and> inv (sq_Leave ops (snd (sq_MaskedOutputIsDisabled ops e)))
      \<and> inv (sq_Leave ops e)"
    and masked_off: "off e \<Longrightarrow> off (sq_Leave ops (sq_MaskedSnapshot ops e))
      \<and> off (sq_Leave ops (snd (sq_MaskedRequestIsValid ops (sq_MaskedSnapshot ops e))))
      \<and> off (sq_Leave ops (sq_MaskedSnapshot ops (snd (sq_MaskedOutputIsDisabled ops e))))
      \<and> off (sq_Leave ops (snd (sq_MaskedOutputIsDisabled ops e)))
      \<and> off (sq_Leave ops e)"
    and start_inv: "inv e \<Longrightarrow> inv (snd (ex_StartRun ops d mv dur bstop now e))"
    and session_inv: "inv e \<Longrightarrow> inv (snd (sq_BeginContinuous ops e))
      \<and> inv (snd (sq_SetContinuousBudget ops token now dur cap e))
      \<and> inv (snd (sq_UpdateContinuous ops token q rm now l mx dead c a il e))"
    and boost_inv: "inv e \<Longrightarrow> inv (snd (sq_ArmContinuousBoost ops token now dur e))
      \<and> inv (snd (sq_EndContinuousBoost ops token e))
      \<and> inv (snd (sq_SetContinuousBoostPlan ops token now rise end_ms peak lower e))
      \<and> inv (snd (sq_ServiceContinuousBoost ops token now a fin e))
      \<and> inv (snd (sq_HandoffContinuousBoost ops token now c e))"
    and service_inv: "inv e \<Longrightarrow> inv (snd (ex_Service ops now e)) \<and> inv (snd (ex_GuardOutput ops e))"
    and service_off: "inv e \<Longrightarrow> off e \<Longrightarrow> off (snd (ex_Service ops now e)) \<and> off (snd (ex_GuardOutput ops e))"

end
