(* ===== verification/ForceMachine.thy ===== *)
theory ForceMachine
  imports ForceMachineTypes
begin

text \<open>
  The ForceServo application, \<^verbatim>\<open>Application/force_servo_machine.c\<close>, in the builds without
  BuildToTarget: function by function, over the machine and the executor. The objects behind
  the pointers are not NULL. Conditions that call the executor are evaluated in the code's
  order, with short circuit; variables the code leaves uninitialised until a call has
  succeeded are zero. Names start with \<open>Force_\<close> where the ordinary application has the same
  function.
\<close>

section \<open>Diagnostics\<close>

text \<open>\<open>d->measured\<close> and \<open>d->measured_valid\<close> as \<open>publish\<close> computes them\<close>

definition published_status ::
  "build_policy \<Rightarrow> ForceContext \<Rightarrow> u32 \<Rightarrow> MotorExecutorSnapshot \<Rightarrow> bool \<Rightarrow> DiagStatus \<Rightarrow> DiagStatus" where
  "published_status p m now x lease d =
    (let s = mc_servo m; q = sm_profile s;
         (valid, measured) = ForceServo_Measure p q (ps_raw_pressure_counts (mc_pressure m))
            (ps_control_pressure_units (mc_pressure m)) (Fin 0);
         valid = (valid \<and> sm_have_sample s)
     in d\<lparr>ds_schema := FORCE_SERVO_SCHEMA p, ds_build_id := g_force_servo_contract p ! 1,
          ds_revision := ds_revision d + 1, ds_now_ms := now,
          ds_age_ms := now - dc_received_ms (fd_control (sm_diagnostic s)),
          ds_session := sm_session s, ds_config_version := sm_config_version s,
          ds_config_digest := sm_config_digest s, ds_state := mc_state m, ds_fault := mc_fault m,
          ds_detail := mc_fault_detail m,
          ds_latest_sample_hi := ucast (drop_bit 32 (ps_sequence (mc_pressure m))),
          ds_latest_sample_lo := ucast (ps_sequence (mc_pressure m)),
          ds_latest_received_ms := ps_received_at_ms (mc_pressure m),
          ds_latest_raw := ps_raw_pressure_counts (mc_pressure m),
          ds_target := f32_of_int (mc_target_pressure_units m),
          ds_contact_threshold := f32_cast_u32 (fl (fp_contact q)),
          ds_profile_id := f32_cast_u32 (fl (fp_id q)),
          ds_profile_digest := ForceServo_ProfileDigest p (Some q),
          ds_unit := f32_cast_u32 (fl (fp_unit q)),
          ds_plan_version := pl_version (sm_plan s), ds_plan_digest := pl_digest (sm_plan s),
          ds_measured_valid := valid, ds_measured := (if valid then measured else Fin 0),
          ds_force_N := (if valid \<and> \<not> f32_eq (fl (fp_unit q)) (Fin 0) then measured else Fin 0),
          ds_energized_elapsed_ms := (if sm_active s then now - sm_session_started_ms s
                                      else ds_energized_elapsed_ms d),
          ds_lease_deadline := mx_logical_deadline_ms x, ds_lease_active := lease,
          ds_locked := mx_physical_output_locked x, ds_output_off := mx_physical_output_disabled x,
          ds_tim2 := mx_planned_tim2_ccr3 x, ds_tim3 := mx_planned_tim3_ccr3 x,
          ds_current_committed :=
            (if mx_physical_output_disabled x then Fin 0
             else if mx_direction x = MOTOR_DIRECTION_PRESS then f32_of_u32 (mx_command_mv x)
             else f32_neg (f32_of_u32 (mx_command_mv x))),
          ds_session_started_ms := sm_session_started_ms s,
          ds_cooling_until_ms := sm_cooling_until_ms s,
          ds_cooling_active := sm_cooling_active s \<and> sint (now - sm_cooling_until_ms s) < 0,
          ds_start_pending := sm_start_pending s, ds_start_requested_ms := sm_start_requested_ms s,
          ds_last_command_result := mc_last_command_result m\<rparr>)"

definition publish :: "build_policy \<Rightarrow> 'e servo_executor \<Rightarrow> u32 \<Rightarrow> 'e force_world \<Rightarrow> 'e force_world" where
  "publish p ops now w =
    (let e = sq_MaskedSnapshot ops (fw_e w);
         (lease, e) = (if sm_contacted (servo_of w) \<and> mx_logical_active (ex_motor ops e)
                       then sq_MaskedRequestIsValid ops e else (False, e))
     in mch (\<lambda>m. srv (dg_status (published_status p m now (ex_motor ops e) lease)) m)
          (w\<lparr>fw_e := sq_Leave ops e\<rparr>))"

definition finish_boost :: "u32 \<Rightarrow> u32 \<Rightarrow> int \<Rightarrow> ForceContext \<Rightarrow> ForceContext" where
  "finish_boost now reason command m =
    (let d = fd_assist (sm_diagnostic (mc_servo m))
     in if \<not> db_boost_active d then m
        else
          (let elapsed = now - db_boost_started_ms d
           in srv (\<lambda>s. dg_assist (\<lambda>d. d\<lparr>db_boost_active := False, db_boost_end_ms := now,
                  db_boost_end_reason := reason,
                  db_boost_elapsed_ms := (if elapsed < db_boost_duration_ms d then elapsed
                                          else db_boost_duration_ms d),
                  db_boost_handoff_command := (if reason = 2 then f32_of_int command
                                               else db_boost_handoff_command d),
                  db_assist_response_pending := (reason = 2 \<or> db_assist_response_pending d)\<rparr>)
                (s\<lparr>sm_assist_end_sequence := ps_sequence (mc_pressure m)\<rparr>)) m))"

definition begin_cooling :: "u32 \<Rightarrow> ForceServoMachine \<Rightarrow> ForceServoMachine" where
  "begin_cooling now s =
    (if sm_active s \<and> sm_required_off_ms s \<noteq> 0
     then s\<lparr>sm_cooling_until_ms := now + sm_required_off_ms s, sm_cooling_active := True\<rparr> else s)"

definition record_assist_output ::
  "'e servo_executor \<Rightarrow> int \<Rightarrow> 'e force_world \<Rightarrow> 'e force_world" where
  "record_assist_output ops committed w =
    (if committed > 0 \<and> of_int committed > db_boost_peak_command (assist_of w)
     then
       (let (ccr, w) = snapshot ops mx_planned_tim3_ccr3 w
        in mch (srv (dg_assist (\<lambda>d. d\<lparr>db_boost_peak_command := of_int committed,
             db_assist_peak_ccr := ccr\<rparr>))) w)
     else w)"

section \<open>Faults\<close>

text \<open>\<open>s->controller.initialized=false; s->controller.integral=0;\<close>\<close>

definition release_controller :: "ForceServo \<Rightarrow> ForceServo" where
  "release_controller c = c\<lparr>fs_integral := Fin 0, fs_initialized := False\<rparr>"

definition run_reason_of :: "FaultDetail \<Rightarrow> DiagSession \<Rightarrow> u32" where
  "run_reason_of detail d =
    (if dn_run_reason d \<noteq> 0 then dn_run_reason d
     else if detail = FAULT_DETAIL_SESSION_TIMEOUT
     then (if dn_target_reached d then FS_RUN_SESSION_COMPLETE
           else FS_RUN_TARGET_NOT_REACHED_WITHIN_SESSION)
     else FS_RUN_FAULT)"

definition fault_context :: "MachineFault \<Rightarrow> FaultDetail \<Rightarrow> u32 \<Rightarrow> ForceContext \<Rightarrow> ForceContext" where
  "fault_context f detail now m =
    (let m = srv (planning (\<lambda>l. l\<lparr>pl_available := False, pl_armed := False\<rparr>)) m;
         m = srv (dg_session (\<lambda>d. d\<lparr>dn_run_reason := run_reason_of detail d\<rparr>)) m;
         m = srv (dg_assist (\<lambda>d. if db_boost_active d \<and> db_assist_exit d = 0
                     then d\<lparr>db_assist_exit := (if detail = FAULT_DETAIL_LEASE_EXPIRED then 7 else 6)\<rparr>
                     else d)) m;
         m = srv (begin_cooling now) (finish_boost now 3 0 m);
         m = srv (\<lambda>s. steer release_controller
               (dg_assist (\<lambda>d. d\<lparr>db_boost_active := False\<rparr>)
                 (s\<lparr>sm_start_pending := False, sm_active := False\<rparr>))) m;
         m = (if mc_state m \<noteq> FAULT then m\<lparr>mc_fault := f, mc_fault_detail := detail\<rparr> else m)
     in m\<lparr>mc_state := FAULT\<rparr>)"

definition Force_ReportFault ::
  "build_policy \<Rightarrow> 'e servo_executor \<Rightarrow> MachineFault \<Rightarrow> FaultDetail \<Rightarrow> u32 \<Rightarrow> 'e force_world \<Rightarrow> 'e force_world" where
  "Force_ReportFault p ops f detail now w =
    (let (_, w) = xq (ex_Disable ops) w
     in publish p ops now (mch (fault_context f detail now) w))"

section \<open>Boot and queries\<close>

definition Force_IsPressureFresh :: "ForceContext \<Rightarrow> u32 \<Rightarrow> bool" where
  "Force_IsPressureFresh m now \<longleftrightarrow>
    sm_have_sample (mc_servo m) \<and> ps_frame_valid (mc_pressure m) \<and> ps_control_units_valid (mc_pressure m)
    \<and> now - ps_received_at_ms (mc_pressure m) \<le> f32_cast_u32 (fl (fc_sample_age_ms (sm_config (mc_servo m))))"

abbreviation (input) fresh :: "u32 \<Rightarrow> 'e force_world \<Rightarrow> bool" where
  "fresh now w \<equiv> Force_IsPressureFresh (fw_m w) now"

definition Force_CompleteBoot ::
  "build_policy \<Rightarrow> 'e servo_executor \<Rightarrow> bool \<Rightarrow> u32 \<Rightarrow> 'e force_world \<Rightarrow> 'e force_world" where
  "Force_CompleteBoot p ops checks now w =
    (if mc_state (fw_m w) \<noteq> BOOT_SAFE then w
     else
       (let s = servo_of w;
            (ok, w) = (if checks \<and> mc_config_valid (fw_m w)
                          \<and> ForceServo_ProfileConfigValid p (sm_profile s) (sm_config s)
                       then all_of [xq (ex_OutputIsDisabled ops), xq (ex_IsHealthy ops)] w
                       else (False, w))
        in if \<not> ok
           then Force_ReportFault p ops FAULT_BOOT_FAULT FAULT_DETAIL_BOOT_CONFIGURATION now w
           else publish p ops now (mch (\<lambda>m. m\<lparr>mc_state := IDLE\<rparr>) w)))"

definition Force_ConfigureForcePi :: "ForcePiConfig \<Rightarrow> 'e force_world \<Rightarrow> MachineCommandResult \<times> 'e force_world" where
  "Force_ConfigureForcePi c w = (COMMAND_UNSUPPORTED, w)"

text \<open>\<open>ForceServo_Measure\<close> of the machine's latest sample\<close>

definition measure :: "build_policy \<Rightarrow> ForceContext \<Rightarrow> bool \<times> f32" where
  "measure p m = ForceServo_Measure p (sm_profile (mc_servo m)) (ps_raw_pressure_counts (mc_pressure m))
     (ps_control_pressure_units (mc_pressure m)) (Fin 0)"

section \<open>Sessions\<close>

text \<open>\<open>fminf(a, fminf(b, c))\<close> as a time\<close>

definition least_ms :: "u32 \<Rightarrow> u32 \<Rightarrow> u32 \<Rightarrow> u32" where
  "least_ms a b c = f32_cast_u32 (f32_min (fl a) (f32_min (fl b) (fl c)))"

text \<open>The continuous owner is opened: \<open>all_of\<close>'s last two steps start the budget and the lease.\<close>

definition open_session ::
  "'e servo_executor \<Rightarrow> u32 \<Rightarrow> 'e force_world \<Rightarrow> bool \<times> 'e force_world" where
  "open_session ops now w =
    (case xq (sq_BeginContinuous ops) w of ((result, token), w) \<Rightarrow>
      let w = mch (srv (\<lambda>s. s\<lparr>sm_token := (case token of None \<Rightarrow> sm_token s | Some t \<Rightarrow> t)\<rparr>)) w;
          s = servo_of w; c = sm_config s; sample = mc_pressure (fw_m w)
      in if result \<noteq> MOTOR_RESULT_OK then (False, w)
         else
           all_of
             [xq (sq_SetContinuousBudget ops (sm_token s) now
                (least_ms (fp_energized_ms (sm_profile s)) (fp_session_ms (sm_profile s)) (fc_session_ms c))
                (f32_to_i32 (fl (fc_press_cap c)))),
              (\<lambda>w. case xq (sq_UpdateContinuous ops (sm_token s) (ps_sequence sample)
                     (ps_received_at_ms sample) now (f32_cast_u32 (fl (fc_lease_ms c)))
                     (f32_cast_u32 (fl (fc_sample_age_ms c)))
                     (f32_cast_u32 (fl (fc_reverse_deadtime_ms c))) 0 0 False) w of
                   ((result, _), w) \<Rightarrow> (result = MOTOR_RESULT_OK, w))] w)"

text \<open>What \<open>contact\<close> notes of the sample before the controller starts.\<close>

definition note_contact :: "ForceContext \<Rightarrow> ForceContext" where
  "note_contact m =
    (let t = ps_received_at_ms (mc_pressure m)
     in srv (\<lambda>s. dg_session (\<lambda>d. d\<lparr>dn_contact_at_ms := t,
              dn_contact_raw := ps_raw_pressure_counts (mc_pressure m)\<rparr>)
            (s\<lparr>sm_contacted := True, sm_contact_at_ms := t\<rparr>)) (m\<lparr>mc_cycle_started_ms := t\<rparr>))"

definition contact :: "build_policy \<Rightarrow> 'e servo_executor \<Rightarrow> u32 \<Rightarrow> 'e force_world \<Rightarrow> bool \<times> 'e force_world" where
  "contact p ops now w =
    (let (result, w) = xq (ex_Disable ops) w
     in if result \<noteq> MOTOR_RESULT_OK then (False, w)
        else
          (let w = mch note_contact w; s = servo_of w;
               (valid, measured) = measure p (fw_m w)
           in if \<not> valid then (False, w)
              else
                (let w = mch (srv (dg_session (\<lambda>d. d\<lparr>dn_contact_count :=
                         f32_le (fl (fp_contact (sm_profile s))) measured\<rparr>))) w;
                     (started, c) = ForceServo_Init p (sm_config s) measured
                        (f32_of_int (mc_target_pressure_units (fw_m w))) (sm_controller s);
                     w = mch (srv (steer (\<lambda>_. c))) w
                 in if \<not> started then (False, w)
                    else
                      (case open_session ops now w of (opened, w) \<Rightarrow>
                         if \<not> opened then (False, w)
                         else (True, mch (\<lambda>m.
                           srv (\<lambda>s. dg_control (\<lambda>d. d\<lparr>dc_filtered := fs_filtered (sm_controller s),
                                  dc_reference := fs_reference (sm_controller s)\<rparr>)
                                (s\<lparr>sm_last_control_rx_ms := ps_received_at_ms (mc_pressure m),
                                   sm_last_control_sequence := ps_sequence (mc_pressure m)\<rparr>))
                              (m\<lparr>mc_state := FORCE_BUILD\<rparr>)) w)))))"

text \<open>What \<open>begin_session\<close> sets up before the executor is asked.\<close>

definition session_diagnostic ::
  "build_policy \<Rightarrow> f32 \<Rightarrow> u32 \<Rightarrow> ForceContext \<Rightarrow> ForceServoDiagnostic \<Rightarrow> ForceServoDiagnostic" where
  "session_diagnostic p measured now m d =
    (let spent = (if bp_characterization p then 0 else db_boost_spent_ms (fd_assist d));
         planned = dn_planned_reference_s (fd_session d); sample = mc_pressure m; z = zero_diagnostic;
         reached = f32_le (f32_of_int (mc_target_pressure_units m)) measured
     in z\<lparr>fd_control := (fd_control z)\<lparr>dc_raw := ps_raw_pressure_counts sample,
            dc_control_pressure := f32_of_int (ps_control_pressure_units sample),
            dc_received_ms := ps_received_at_ms sample,
            dc_sample_hi := ucast (drop_bit 32 (ps_sequence sample)),
            dc_sample_lo := ucast (ps_sequence sample)\<rparr>,
          fd_session := (fd_session z)\<lparr>dn_planned_reference_s := planned,
            dn_session_peak_measured := measured, dn_target_reached := reached,
            dn_target_reached_ms := (if reached then now else 0),
            dn_session_peak_raw := ps_raw_pressure_counts sample,
            dn_session_peak_received_ms := ps_received_at_ms sample\<rparr>,
          fd_assist := (fd_assist z)\<lparr>db_boost_spent_ms := spent\<rparr>\<rparr>)"

definition next_session :: "u32 \<Rightarrow> u32" where
  "next_session n = (if n + 1 = 0 then 1 else n + 1)"

definition session_context :: "build_policy \<Rightarrow> u32 \<Rightarrow> ForceContext \<Rightarrow> ForceContext" where
  "session_context p now m =
    (let measured = snd (measure p m); q = sm_profile (mc_servo m)
     in srv (\<lambda>s. supervise (\<lambda>u. u\<lparr>su_progress_at_ms := now, su_progress_good_ms := now,
               su_hold_at_ms := 0, su_progress_anchor := measured, su_progress_start := measured,
               su_progress_commanded := False, su_saturation_active := False,
               su_tracking_active := False, su_approach_wait := False, su_ever_held := False\<rparr>)
          (s\<lparr>sm_diagnostic := session_diagnostic p measured now m (sm_diagnostic s),
             sm_staging := (sm_staging s)\<lparr>cs_open := False\<rparr>,
             sm_session := next_session (sm_session s), sm_session_started_ms := now,
             sm_required_off_ms := f32_cast_u32 (fl (fp_off_ms q)),
             sm_assist_initial_contact := f32_le (fl (fp_contact q)) measured,
             sm_boost_used := False, sm_start_pending := False, sm_active := True,
             sm_contacted := False\<rparr>)) (m\<lparr>mc_state := FORCE_APPROACH\<rparr>))"

definition begin_session ::
  "build_policy \<Rightarrow> 'e servo_executor \<Rightarrow> u32 \<Rightarrow> 'e force_world \<Rightarrow> MachineCommandResult \<times> 'e force_world" where
  "begin_session p ops now w =
    (let w = mch (session_context p now) w; s = servo_of w;
         w = (if bp_commissioning p
                 \<or> f32_le (fl (fp_contact (sm_profile s))) (su_progress_start (sm_supervision s))
              then
                (let (ok, w) = contact p ops now w;
                     w = (if \<not> ok then Force_ReportFault p ops FAULT_MOTOR_FAULT
                                          FAULT_DETAIL_MOTOR_HARDWARE now w else w)
                 in mch (\<lambda>m. srv (\<lambda>s. dg_session (\<lambda>d. d\<lparr>dn_contact_at_ms := now\<rparr>)
                      (s\<lparr>sm_contact_at_ms := now\<rparr>)) (m\<lparr>mc_cycle_started_ms := now\<rparr>)) w)
              else w)
     in (if mc_state (fw_m w) = FAULT then COMMAND_EXECUTOR_FAILED else COMMAND_ACCEPTED, w))"

section \<open>Commands\<close>

definition stop_context :: "u32 \<Rightarrow> ForceContext \<Rightarrow> ForceContext" where
  "stop_context now m =
    (let m = srv (\<lambda>s. planning (\<lambda>l. l\<lparr>pl_available := False, pl_armed := False\<rparr>)
                   (s\<lparr>sm_start_pending := False\<rparr>)) m;
         m = srv (dg_session (\<lambda>d. if dn_run_reason d = 0
                     then d\<lparr>dn_run_reason := FS_RUN_OPERATOR_STOP\<rparr> else d)) m;
         m = srv (dg_assist (\<lambda>d. if db_boost_active d then d\<lparr>db_assist_exit := 5\<rparr> else d)) m;
         m = srv (begin_cooling now) (finish_boost now 3 0 m)
     in srv (\<lambda>s. steer release_controller
               (dg_assist (\<lambda>d. d\<lparr>db_boost_active := False\<rparr>)
                 (s\<lparr>sm_staging := (sm_staging s)\<lparr>cs_open := False\<rparr>, sm_active := False\<rparr>))) m)"

definition stop_command ::
  "build_policy \<Rightarrow> 'e servo_executor \<Rightarrow> u32 \<Rightarrow> 'e force_world \<Rightarrow> MachineCommandResult \<times> 'e force_world" where
  "stop_command p ops now w =
    (let (result, w) = xq (ex_Disable ops) (mch (stop_context now) w)
     in if result \<noteq> MOTOR_RESULT_OK
        then (COMMAND_EXECUTOR_FAILED,
              Force_ReportFault p ops FAULT_MOTOR_FAULT FAULT_DETAIL_MOTOR_HARDWARE now w)
        else (COMMAND_ACCEPTED,
              mch (\<lambda>m. if mc_state m \<noteq> FAULT then m\<lparr>mc_state := IDLE\<rparr> else m) w))"

definition reset_command ::
  "'e servo_executor \<Rightarrow> 'e force_world \<Rightarrow> MachineCommandResult \<times> 'e force_world" where
  "reset_command ops w =
    (let (ok, w) = (if mc_state (fw_m w) = FAULT
                    then all_of [xq (ex_OutputIsDisabled ops), xq (ex_IsHealthy ops)] w else (False, w))
     in if ok
        then (COMMAND_ACCEPTED, mch (\<lambda>m. m\<lparr>mc_state := IDLE, mc_fault := FAULT_NONE,
                mc_fault_detail := FAULT_DETAIL_NONE\<rparr>) w)
        else (COMMAND_NOT_ALLOWED, w))"

definition set_rejection :: "ForceServoRejection \<Rightarrow> ForceContext \<Rightarrow> ForceContext" where
  "set_rejection r = srv (dg_session (\<lambda>d. d\<lparr>dn_rejection := r\<rparr>))"

definition target_command ::
  "build_policy \<Rightarrow> 'e servo_executor \<Rightarrow> int \<Rightarrow> 'e force_world \<Rightarrow> MachineCommandResult \<times> 'e force_world" where
  "target_command p ops target w =
    (if bp_characterization p
     then (COMMAND_NOT_ALLOWED,
           mch (\<lambda>m. srv (planning (\<lambda>l. l\<lparr>pl_available := False, pl_armed := False\<rparr>))
             (m\<lparr>mc_target_valid := False\<rparr>)) w)
     else
       (let (ready, w) = (if mc_state (fw_m w) = IDLE \<and> \<not> sm_start_pending (servo_of w)
                          then xq (ex_OutputIsDisabled ops) w else (False, w))
        in if \<not> ready then (COMMAND_BUSY, w)
           else
             (let q = sm_profile (servo_of w);
                  r = ForceServo_TargetAllowed p (Some q) (f32_of_int target) (\<not> f32_eq (fl (fp_unit q)) (Fin 0));
                  w = mch (set_rejection r) w
              in if r \<noteq> FS_PROFILE_OK
                 then (COMMAND_INVALID_VALUE, mch (\<lambda>m. m\<lparr>mc_target_valid := False\<rparr>) w)
                 else (COMMAND_ACCEPTED,
                       mch (\<lambda>m. m\<lparr>mc_target_pressure_units := target, mc_target_valid := True\<rparr>) w))))"

text \<open>
  The conditions of FORCE_START beyond an idle machine that has cooled down. \<open>locked\<close> asks for
  the snapshot last.
\<close>

definition start_ready ::
  "build_policy \<Rightarrow> 'e servo_executor \<Rightarrow> u32 \<Rightarrow> 'e force_world \<Rightarrow> bool \<times> 'e force_world" where
  "start_ready p ops now w =
    (let s = servo_of w
     in if mc_target_valid (fw_m w)
          \<and> (bp_characterization p \<longrightarrow> pl_armed (sm_plan s) \<and> pl_available (sm_plan s))
          \<and> (\<not> bp_commissioning p \<longrightarrow> fresh now w)
          \<and> ForceServo_ProfileConfigValid p (sm_profile s) (sm_config s)
        then all_of [xq (ex_IsHealthy ops), xq (ex_OutputIsDisabled ops),
               snapshot ops (\<lambda>x. \<not> mx_physical_output_locked x)] w
        else (False, w))"

text \<open>\<open>rejection = ForceServo_PlanAllowed(...)\<close> with its last argument in the diagnostics\<close>

definition check_plan :: "build_policy \<Rightarrow> f32 \<Rightarrow> ForceContext \<Rightarrow> ForceServoRejection \<times> ForceContext" where
  "check_plan p measured m =
    (let s = mc_servo m; d = fd_session (sm_diagnostic s);
         (r, seconds) = ForceServo_PlanAllowed p (sm_profile s) (sm_config s) measured
            (f32_of_int (mc_target_pressure_units m)) (dn_planned_reference_s d)
     in (r, srv (dg_session (\<lambda>d. d\<lparr>dn_rejection := r, dn_planned_reference_s := seconds\<rparr>)) m))"

text \<open>In the commissioning builds START only asks: the next fresh sample starts the session.\<close>

definition request_start ::
  "build_policy \<Rightarrow> u32 \<Rightarrow> 'e force_world \<Rightarrow> MachineCommandResult \<times> 'e force_world" where
  "request_start p now w =
    (let (valid, measured) = measure p (fw_m w);
         (r, m) = (if \<not> sm_have_sample (servo_of w) \<or> \<not> valid
                   then (FS_PROFILE_INVALID, set_rejection FS_PROFILE_INVALID (fw_m w))
                   else check_plan p measured (fw_m w))
     in if r \<noteq> FS_PROFILE_OK then (COMMAND_NOT_READY, w\<lparr>fw_m := m\<rparr>)
        else (COMMAND_ACCEPTED, w\<lparr>fw_m :=
               srv (\<lambda>s. planning (\<lambda>l. l\<lparr>pl_available := False, pl_armed := False\<rparr>)
                 (s\<lparr>sm_staging := (sm_staging s)\<lparr>cs_open := False\<rparr>,
                    sm_start_requested_ms := now, sm_start_pending := True\<rparr>)) m\<rparr>))"

definition start_command ::
  "build_policy \<Rightarrow> 'e servo_executor \<Rightarrow> u32 \<Rightarrow> 'e force_world \<Rightarrow> MachineCommandResult \<times> 'e force_world" where
  "start_command p ops now w =
    (let s = servo_of w
     in if mc_state (fw_m w) \<noteq> IDLE \<or> sm_active s \<or> sm_start_pending s then (COMMAND_BUSY, w)
        else if sm_cooling_active s \<and> sint (now - sm_cooling_until_ms s) < 0
        then (COMMAND_NOT_READY, mch (set_rejection FS_COOLING_REQUIRED) w)
        else
          (let (ready, w) = start_ready p ops now w
           in if \<not> ready then (COMMAND_NOT_READY, w)
              else if bp_commissioning p then request_start p now w
              else if f32_le (fl (fp_raw_trip (sm_profile (servo_of w))))
                        (f32_of_u32 (ps_raw_pressure_counts (mc_pressure (fw_m w))))
              then (COMMAND_NOT_READY,
                    Force_ReportFault p ops FAULT_OVERPRESSURE FAULT_DETAIL_NONE now w)
              else begin_session p ops now w))"

definition Force_HandleCommand ::
  "build_policy \<Rightarrow> 'e servo_executor \<Rightarrow> MachineCommand \<Rightarrow> u32 \<Rightarrow> 'e force_world
    \<Rightarrow> MachineCommandResult \<times> 'e force_world" where
  "Force_HandleCommand p ops c now w =
    (let (r, w) =
       (case cmd_type c of
          CMD_STOP \<Rightarrow> stop_command p ops now w
        | CMD_JOG_STOP \<Rightarrow> stop_command p ops now w
        | CMD_FAULT_RESET \<Rightarrow> reset_command ops w
        | CMD_SET_TARGET \<Rightarrow> target_command p ops (cmd_target_pressure_units c) w
        | CMD_FORCE_START \<Rightarrow> start_command p ops now w
        | _ \<Rightarrow> (COMMAND_UNSUPPORTED, w))
     in (r, publish p ops now (mch (\<lambda>m. m\<lparr>mc_last_command_result := r\<rparr>) w)))"

section \<open>Deadlines\<close>

text \<open>A start that waits for its sample: the output must stay off, and the wait is limited.\<close>

definition check_pending_start ::
  "build_policy \<Rightarrow> 'e servo_executor \<Rightarrow> u32 \<Rightarrow> 'e force_world \<Rightarrow> 'e force_world" where
  "check_pending_start p ops now w =
    (let (quiet, w) = all_of [xq (ex_OutputIsDisabled ops), xq (ex_IsHealthy ops),
            snapshot ops (\<lambda>x. \<not> mx_logical_active x)] w
     in if \<not> quiet then Force_ReportFault p ops FAULT_MOTOR_FAULT FAULT_DETAIL_MOTOR_HARDWARE now w
        else if now - sm_start_requested_ms (servo_of w) \<ge> FORCE_SERVO_START_WAIT_MS
        then Force_ReportFault p ops FAULT_PRESSURE_SENSOR_FAULT FAULT_DETAIL_PRESSURE_TIMEOUT now w
        else w)"

definition session_limit :: "ForceServoMachine \<Rightarrow> u32" where
  "session_limit s =
    least_ms (fc_session_ms (sm_config s)) (fp_session_ms (sm_profile s)) (fp_energized_ms (sm_profile s))"

text \<open>The lease of the continuous owner has ended.\<close>

definition lease_lost :: "'e servo_executor \<Rightarrow> 'e force_world \<Rightarrow> bool \<times> 'e force_world" where
  "lease_lost ops w =
    any_of [xq (sq_ContinuousExpired ops),
            snapshot ops (\<lambda>x. mx_last_completion x = MOTOR_COMPLETION_LEASE),
            (\<lambda>w. case xq (ex_ActiveRequestIsValid ops) w of (valid, w) \<Rightarrow> (\<not> valid, w))] w"

definition Force_CheckPressureSafety ::
  "build_policy \<Rightarrow> 'e servo_executor \<Rightarrow> u32 \<Rightarrow> 'e force_world \<Rightarrow> 'e force_world" where
  "Force_CheckPressureSafety p ops now w =
    (let w = mch (srv (\<lambda>s. if sm_cooling_active s \<and> sint (now - sm_cooling_until_ms s) \<ge> 0
                          then s\<lparr>sm_cooling_active := False\<rparr> else s)) w;
         s = servo_of w; limit = session_limit s
     in if sm_start_pending s then check_pending_start p ops now w
        else if \<not> sm_active s then w
        else if limit \<noteq> 0 \<and> now - sm_session_started_ms s \<ge> limit
        then Force_ReportFault p ops FAULT_MOTION_TIMEOUT FAULT_DETAIL_SESSION_TIMEOUT now w
        else if f32_lt (Fin 0) (fl (fp_build_ms (sm_profile s))) \<and> sm_contacted s
             \<and> \<not> su_ever_held (sm_supervision s)
             \<and> now - sm_contact_at_ms s \<ge> f32_cast_u32 (fl (fp_build_ms (sm_profile s)))
        then Force_ReportFault p ops FAULT_MOTION_TIMEOUT FAULT_DETAIL_CYCLE_TIMEOUT now w
        else if now - ps_received_at_ms (mc_pressure (fw_m w))
                > f32_cast_u32 (fl (fc_feedback_gap_ms (sm_config s)))
        then Force_ReportFault p ops FAULT_PRESSURE_SENSOR_FAULT FAULT_DETAIL_PRESSURE_TIMEOUT now w
        else if sm_contacted s
        then (let (lost, w) = lease_lost ops w
              in if lost
                 then Force_ReportFault p ops FAULT_MOTOR_FAULT FAULT_DETAIL_LEASE_EXPIRED now w
                 else w)
        else w)"

text \<open>\<open>s->controller.previous_committed=(float)c;\<close>\<close>

definition track_output :: "int \<Rightarrow> ForceContext \<Rightarrow> ForceContext" where
  "track_output c = srv (steer (\<lambda>s. s\<lparr>fs_previous_committed := f32_of_int c\<rparr>))"

definition set_assist_exit :: "u32 \<Rightarrow> ForceContext \<Rightarrow> ForceContext" where
  "set_assist_exit n = srv (dg_assist (\<lambda>d. d\<lparr>db_assist_exit := n\<rparr>))"

definition service_assist ::
  "build_policy \<Rightarrow> 'e servo_executor \<Rightarrow> u32 \<Rightarrow> 'e force_world \<Rightarrow> 'e force_world" where
  "service_assist p ops now w =
    (if \<not> sm_active (servo_of w) \<or> \<not> db_boost_active (assist_of w) then w
     else
       (case xq (sq_ServiceContinuousBoost ops (sm_token (servo_of w)) now 0 False) w of
          ((result, actual, ended), w) \<Rightarrow>
            if result \<noteq> MOTOR_RESULT_OK
            then Force_ReportFault p ops FAULT_MOTOR_FAULT FAULT_DETAIL_LEASE_EXPIRED now
                   (mch (set_assist_exit 8) w)
            else
              (let w = mch (track_output actual) (record_assist_output ops actual w)
               in if ended then mch (\<lambda>m. finish_boost now 2 actual (set_assist_exit 1 m)) w else w)))"

section \<open>The control step\<close>

text \<open>\<open>fault(...); return\<close> after noting why an assist ended\<close>

abbreviation (input) numeric_fault ::
  "build_policy \<Rightarrow> 'e servo_executor \<Rightarrow> u32 \<Rightarrow> 'e force_world \<Rightarrow> 'e force_world" where
  "numeric_fault p ops \<equiv> Force_ReportFault p ops FAULT_INTERNAL_FAULT FAULT_DETAIL_NUMERIC"
abbreviation (input) hardware_fault ::
  "build_policy \<Rightarrow> 'e servo_executor \<Rightarrow> u32 \<Rightarrow> 'e force_world \<Rightarrow> 'e force_world" where
  "hardware_fault p ops \<equiv> Force_ReportFault p ops FAULT_MOTOR_FAULT FAULT_DETAIL_MOTOR_HARDWARE"

text \<open>The reason why a boost is admitted (1) or not.\<close>

definition assist_admission :: "build_policy \<Rightarrow> f32 \<Rightarrow> int \<Rightarrow> f32 \<Rightarrow> ForceServoMachine \<Rightarrow> u32" where
  "assist_admission p error requested margin s =
    (let q = sm_profile s; d = fd_assist (sm_diagnostic s);
         previous = fs_previous_committed (sm_controller s)
     in if \<not> ForceServo_BoostQualified p q then 2
        else if \<not> sm_assist_initial_contact s \<or> \<not> dn_contact_count (fd_session (sm_diagnostic s)) then 3
        else if f32_le margin (fl (fp_taper_margin q)) then 4
        else if su_ever_held (sm_supervision s) then 8
        else if (if bp_characterization p then f32_le error (Fin 0) \<or> f32_lt previous (Fin 0)
                 else requested \<le> 0 \<or> f32_le error (Fin 0) \<or> f32_le previous (Fin 0)) then 5
        else if db_boost_spent_ms d + f32_cast_u32 (fl (fp_boost_ms q))
                > f32_cast_u32 (fl (fp_boost_total_ms q)) then 6
        else 1)"

text \<open>The boost is armed and its plan set; its exposure is reserved before.\<close>

definition arm_assist ::
  "build_policy \<Rightarrow> 'e servo_executor \<Rightarrow> MachinePressureSample \<Rightarrow> f32 \<Rightarrow> int \<Rightarrow> u32 \<Rightarrow> 'e force_world
    \<Rightarrow> bool \<times> 'e force_world" where
  "arm_assist p ops sample measured requested now w =
    (let s = servo_of w; q = sm_profile s;
         w = mch (srv (\<lambda>s. dg_assist (\<lambda>d. d\<lparr>db_boost_spent_ms :=
                      db_boost_spent_ms d + f32_cast_u32 (fl (fp_boost_ms q))\<rparr>)
               (s\<lparr>sm_boost_handoff_request := requested, sm_boost_used := True\<rparr>))) w;
         (armed, w) = all_of
           [xq (sq_ArmContinuousBoost ops (sm_token s) now (f32_cast_u32 (fl (fp_boost_ms q)))),
            xq (sq_SetContinuousBoostPlan ops (sm_token s) now (f32_cast_u32 (fl (fp_assist_rise_ms q)))
              (f32_cast_u32 (fl (fp_assist_end_ms q))) (f32_to_i32 (fl (fp_peak_press q))) requested)] w
     in if \<not> armed then (False, hardware_fault p ops now w)
        else
          (let (x, w) = snapshot ops id w
           in (True, mch (srv (dg_assist (\<lambda>d. d\<lparr>db_boost_active := True,
                 db_boost_deadline_ms := mx_boost_deadline_ms x,
                 db_boost_started_ms := mx_boost_started_ms x,
                 db_boost_duration_ms := f32_cast_u32 (fl (fp_boost_ms q)),
                 db_boost_end_reason := 1, db_boost_pressure_before := measured,
                 db_assist_pressure_peak := measured, db_assist_response_peak := measured,
                 db_boost_before_received_ms := ps_received_at_ms sample,
                 db_assist_requested_peak := f32_cast_u32 (fl (fp_peak_press q)),
                 db_assist_rise_ms := f32_cast_u32 (fl (fp_assist_rise_ms q)),
                 db_assist_normal_end_ms := mx_boost_planned_end_ms x\<rparr>))) w)))"

definition admit_assist ::
  "build_policy \<Rightarrow> 'e servo_executor \<Rightarrow> MachinePressureSample \<Rightarrow> f32 \<Rightarrow> f32 \<Rightarrow> f32 \<Rightarrow> int \<Rightarrow> u32
    \<Rightarrow> 'e force_world \<Rightarrow> bool \<times> 'e force_world" where
  "admit_assist p ops sample measured margin error requested now w =
    (if sm_boost_used (servo_of w) then (True, w)
     else
       (let a = assist_admission p error requested margin (servo_of w);
            w = mch (srv (dg_assist (\<lambda>d. d\<lparr>db_assist_admission := a\<rparr>))) w; s = servo_of w
        in if a = 1
              \<and> (bp_characterization p
                 \<or> now - sm_session_started_ms s + f32_cast_u32 (fl (fp_boost_ms (sm_profile s)))
                   < session_limit s)
           then arm_assist p ops sample measured requested now w
           else (True, w)))"

text \<open>While a boost is active its command replaces the controller's, which tracks it.\<close>

definition boost_step_of :: "int \<Rightarrow> ForceServoStep \<Rightarrow> ForceServoStep" where
  "boost_step_of planned step =
    (let ff = f32_sub (f32_of_int planned) (sp_limited_output step)
     in step\<lparr>sp_ff := ff, sp_raw_output := f32_add (sp_raw_output step) ff,
          sp_limited_output := f32_of_int planned, sp_limits := sp_limits step OR FS_LIMIT_BOOST\<rparr>)"

definition add_limit :: "bool \<Rightarrow> u32 \<Rightarrow> ForceServoStep \<Rightarrow> ForceServoStep" where
  "add_limit b l step = (if b then step\<lparr>sp_limits := sp_limits step OR l\<rparr> else step)"

text \<open>What is recorded of the step.\<close>

definition record_step ::
  "MachinePressureSample \<Rightarrow> u32 \<Rightarrow> f32 \<Rightarrow> ForceServoStep \<Rightarrow> int \<Rightarrow> int \<Rightarrow> ForceServoMachine \<Rightarrow> ForceServoMachine" where
  "record_step sample now dt step requested committed s =
    dg_control (\<lambda>d. d\<lparr>dc_control_at_ms := now, dc_control_sequence := dc_control_sequence d + 1,
        dc_limits := sp_limits step, dc_dt_s := dt, dc_filtered := sp_filtered step,
        dc_reference := sp_reference step, dc_reference_rate := sp_reference_rate step,
        dc_error := sp_error step, dc_p := sp_p step, dc_i := sp_i step, dc_d := sp_d step,
        dc_ff := sp_ff step, dc_raw_output := sp_raw_output step,
        dc_control_committed := f32_of_int committed, dc_next_integral := sp_next_integral step,
        dc_requested_output := f32_of_int requested, dc_post_limit_output := sp_limited_output step\<rparr>)
      (s\<lparr>sm_last_control_rx_ms := ps_received_at_ms sample,
         sm_last_control_sequence := ps_sequence sample\<rparr>)"

text \<open>Saturation and tracking: since when, and for how long.\<close>

definition supervise_limits :: "u32 \<Rightarrow> bool \<Rightarrow> bool \<Rightarrow> ForceServoMachine \<Rightarrow> ForceServoMachine" where
  "supervise_limits now saturated tracking s =
    (let u = sm_supervision s;
         u = u\<lparr>su_saturation_started_ms :=
                 (if saturated \<and> \<not> su_saturation_active u then now else su_saturation_started_ms u),
               su_tracking_started_ms :=
                 (if tracking \<and> \<not> su_tracking_active u then now else su_tracking_started_ms u),
               su_saturation_active := saturated, su_tracking_active := tracking\<rparr>
     in dg_control (\<lambda>d. d\<lparr>dc_saturated_ms := (if saturated then now - su_saturation_started_ms u else 0),
             dc_tracking_ms := (if tracking then now - su_tracking_started_ms u else 0)\<rparr>)
          (supervise (\<lambda>_. u) s))"

text \<open>Progress of the measurement while the motor presses.\<close>

definition supervise_progress ::
  "u32 \<Rightarrow> f32 \<Rightarrow> bool \<Rightarrow> bool \<Rightarrow> ForceServoMachine \<Rightarrow> ForceServoMachine" where
  "supervise_progress now measured pressing saturated s =
    (if \<not> pressing
     then dg_control (\<lambda>d. d\<lparr>dc_progress_status := 0, dc_no_response_ms := 0\<rparr>)
            (supervise (\<lambda>u. u\<lparr>su_progress_commanded := False\<rparr>) s)
     else
       (let q = sm_profile s; window = f32_cast_u32 (fl (fp_progress_window_ms q)); u = sm_supervision s;
            u = (if \<not> su_progress_commanded u
                 then u\<lparr>su_progress_at_ms := now, su_progress_good_ms := now,
                        su_progress_anchor := measured, su_progress_start := measured\<rparr> else u);
            u = u\<lparr>su_progress_commanded := True\<rparr>;
            closes = now - su_progress_at_ms u \<ge> window;
            delta = f32_sub measured (su_progress_anchor u);
            u = (if closes \<and> f32_le (fl (fp_progress_units q)) delta
                 then u\<lparr>su_progress_good_ms := now, su_progress_anchor := measured\<rparr> else u);
            u = (if closes then u\<lparr>su_progress_at_ms := now\<rparr> else u);
            waited = now - su_progress_good_ms u;
            status = (if waited < window
                         \<and> f32_le (fl (fp_progress_units q)) (f32_sub measured (su_progress_start u))
                      then (if saturated then 1 else 3) else 2)
        in dg_control (\<lambda>d. d\<lparr>dc_progress_status := status, dc_no_response_ms := waited,
                dc_progress_delta := (if closes then delta else dc_progress_delta d)\<rparr>)
             (supervise (\<lambda>_. u) s)))"

definition trajectory_done :: "ForceServoMachine \<Rightarrow> bool" where
  "trajectory_done s \<longleftrightarrow>
    f32_le (fs_trajectory_s (sm_controller s)) (fs_elapsed_s (sm_controller s))"

text \<open>The end of the step: a stall or tracking fault, or the state the error asks for.\<close>

definition hold_or_build :: "u32 \<Rightarrow> f32 \<Rightarrow> ForceContext \<Rightarrow> ForceContext" where
  "hold_or_build now filtered m =
    (let s = mc_servo m;
         error = f32_abs (f32_sub (f32_of_int (mc_target_pressure_units m)) filtered)
     in if trajectory_done s \<and> f32_le error (fl (fc_hold_enter (sm_config s)))
        then
          (let since = (if mc_state m \<noteq> FORCE_HOLD then now else su_hold_at_ms (sm_supervision s))
           in srv (\<lambda>s. dg_control (\<lambda>d. d\<lparr>dc_hold_ms := now - since\<rparr>)
                  (supervise (\<lambda>u. u\<lparr>su_hold_at_ms := since, su_ever_held := True\<rparr>) s))
                (m\<lparr>mc_state := FORCE_HOLD\<rparr>))
        else if mc_state m \<noteq> FORCE_HOLD \<or> f32_lt (fl (fc_hold_exit (sm_config s))) error
        then srv (dg_control (\<lambda>d. d\<lparr>dc_hold_ms := 0\<rparr>)) (m\<lparr>mc_state := FORCE_BUILD\<rparr>)
        else m)"

definition finish_step ::
  "build_policy \<Rightarrow> 'e servo_executor \<Rightarrow> f32 \<Rightarrow> u32 \<Rightarrow> 'e force_world \<Rightarrow> 'e force_world" where
  "finish_step p ops filtered now w =
    (let s = servo_of w; d = control_of w;
         w = (if dc_no_response_ms d
                 \<ge> f32_cast_u32 (f32_min (fl (fc_saturation_ms (sm_config s)))
                      (fl (fp_no_response_ms (sm_profile s))))
              then Force_ReportFault p ops FAULT_MOTION_TIMEOUT FAULT_DETAIL_SATURATION_TIMEOUT now w
              else if dc_reference_complete d
                   \<and> dc_tracking_ms d \<ge> f32_cast_u32 (fl (fc_tracking_ms (sm_config s)))
                   \<and> dc_progress_status d \<noteq> 1 \<and> dc_progress_status d \<noteq> 3
              then Force_ReportFault p ops FAULT_MOTION_TIMEOUT FAULT_DETAIL_TRACKING_TIMEOUT now w
              else mch (hold_or_build now filtered) w)
     in publish p ops now w)"

text \<open>
  After the executor has accepted the command: the controller commits it, and the step is
  recorded and supervised. \<open>effective\<close> is the configuration with the cap in force.
\<close>

definition commit_step ::
  "build_policy \<Rightarrow> 'e servo_executor \<Rightarrow> MachinePressureSample \<Rightarrow> f32 \<Rightarrow> f32 \<Rightarrow> f32 \<Rightarrow> bool
    \<Rightarrow> ForceServoConfig \<Rightarrow> ForceServoStep \<Rightarrow> int \<Rightarrow> int \<Rightarrow> bool \<Rightarrow> u32 \<Rightarrow> 'e force_world \<Rightarrow> 'e force_world" where
  "commit_step p ops sample measured margin dt demand_exit effective step requested committed interlocked now w =
    (let step = add_limit interlocked FS_LIMIT_INTERLOCK step;
         step = add_limit (\<not> f32_eq (f32_of_int requested) (sp_limited_output step))
                  FS_LIMIT_QUANTIZATION step;
         (ok, c, step) = ForceServo_Commit p effective committed (sm_controller (servo_of w)) step;
         w = mch (srv (steer (\<lambda>_. c))) w
     in if \<not> ok then numeric_fault p ops now w
        else
          (let w = (if db_boost_active (assist_of w) then record_assist_output ops committed w else w);
               w = (if demand_exit then mch (finish_boost now 2 committed) w else w);
               saturated = (sp_limits step AND FS_LIMIT_AMPLITUDE \<noteq> 0);
               s = servo_of w;
               tracking = (trajectory_done s
                 \<and> f32_lt (fl (fc_tracking_error (sm_config s))) (f32_abs (sp_error step)));
               pressing = (committed > 0 \<and> f32_lt (fl (fc_hold_exit (sm_config s))) margin);
               w = mch (srv (\<lambda>s. dg_control (\<lambda>d. d\<lparr>dc_reference_complete := trajectory_done s\<rparr>)
                     (supervise_progress now measured pressing saturated
                       (supervise_limits now saturated tracking
                         (record_step sample now dt step requested committed s))))) w
           in finish_step p ops (sp_filtered step) now w))"

text \<open>The command of the boost in place of the controller's, or the controller's own.\<close>

definition plan_step ::
  "build_policy \<Rightarrow> 'e servo_executor \<Rightarrow> bool \<Rightarrow> ForceServoStep \<Rightarrow> int \<Rightarrow> u32 \<Rightarrow> 'e force_world
    \<Rightarrow> (bool \<times> ForceServoConfig \<times> ForceServoStep \<times> int) \<times> 'e force_world" where
  "plan_step p ops demand_exit step requested now w =
    (let s = servo_of w
     in if db_boost_active (assist_of w) \<and> \<not> demand_exit
        then
          (let (planned, w) = xq (sq_ContinuousBoostCommand ops (sm_token s) now) w
           in if planned < 0 \<or> \<not> bp_characterization p \<and> planned = 0
              then ((False, sm_config s, step, requested), w)
              else ((True, (sm_config s)\<lparr>fc_press_cap := fp_peak_press (sm_profile s)\<rparr>,
                     boost_step_of planned step, planned), w))
        else ((True, sm_config s, step, requested), w))"

text \<open>A step whose controller was prepared: the boost is ended or admitted, the output updated.\<close>

definition output_step ::
  "build_policy \<Rightarrow> 'e servo_executor \<Rightarrow> MachinePressureSample \<Rightarrow> f32 \<Rightarrow> f32 \<Rightarrow> f32 \<Rightarrow> ForceServoStep \<Rightarrow> u32
    \<Rightarrow> 'e force_world \<Rightarrow> 'e force_world" where
  "output_step p ops sample measured margin dt step now w =
    (let requested = f32_to_i32 (sp_limited_output step);
         demand_exit = (db_boost_active (assist_of w)
           \<and> (if bp_characterization p then f32_le (sp_error step) (Fin 0) else requested \<le> 0));
         (ok, w) = (if demand_exit
                    then xq (sq_EndContinuousBoost ops (sm_token (servo_of w))) (mch (set_assist_exit 3) w)
                    else (True, w))
     in if \<not> ok then hardware_fault p ops now w
        else
          (let (ok, w) = admit_assist p ops sample measured margin (sp_error step) requested now w
           in if \<not> ok then w
              else
                (case plan_step p ops demand_exit step requested now w of
                   ((ok, effective, step, requested), w) \<Rightarrow>
                     if \<not> ok then numeric_fault p ops now w
                     else
                       (let c = sm_config (servo_of w)
                        in case xq (sq_UpdateContinuous ops (sm_token (servo_of w)) (ps_sequence sample)
                               (ps_received_at_ms sample) now (f32_cast_u32 (fl (fc_lease_ms c)))
                               (f32_cast_u32 (fl (fc_sample_age_ms c)))
                               (f32_cast_u32 (fl (fc_reverse_deadtime_ms c))) requested 0 False) w of
                             ((result, committed, interlocked), w) \<Rightarrow>
                               if result \<noteq> MOTOR_RESULT_OK then hardware_fault p ops now w
                               else commit_step p ops sample measured margin dt demand_exit effective step
                                      requested committed interlocked now w))))"

definition control_step ::
  "build_policy \<Rightarrow> 'e servo_executor \<Rightarrow> MachinePressureSample \<Rightarrow> f32 \<Rightarrow> u32 \<Rightarrow> 'e force_world \<Rightarrow> 'e force_world" where
  "control_step p ops sample measured now w =
    (let s = servo_of w;
         margin = f32_sub (f32_of_int (mc_target_pressure_units (fw_m w))) measured;
         dt = f32_mul (f32_of_u32 (ps_received_at_ms sample - sm_last_control_rx_ms s)) (fk (1 / 1000));
         (ok, c, step) = ForceServo_Prepare p (sm_config s) measured dt (sm_controller s);
         w = mch (srv (steer (\<lambda>_. c))) w
     in if \<not> ok then numeric_fault p ops now w
        else output_step p ops sample measured margin dt step now w)"

section \<open>Samples\<close>

abbreviation (input) sensor_fault ::
  "build_policy \<Rightarrow> 'e servo_executor \<Rightarrow> FaultDetail \<Rightarrow> u32 \<Rightarrow> 'e force_world \<Rightarrow> 'e force_world" where
  "sensor_fault p ops \<equiv> Force_ReportFault p ops FAULT_PRESSURE_SENSOR_FAULT"

definition sample_malformed :: "build_policy \<Rightarrow> MachinePressureSample \<Rightarrow> bool" where
  "sample_malformed p sample \<longleftrightarrow>
    \<not> ps_frame_valid sample \<or> \<not> ps_control_units_valid sample \<or> ps_control_pressure_units sample < 0
    \<or> bp_characterization p
      \<and> (ps_raw_pressure_counts sample > 65535
         \<or> ps_control_pressure_units sample \<noteq> sint (ps_raw_pressure_counts sample))"

text \<open>\<open>s->active || s->start_pending\<close>\<close>

definition engaged :: "ForceServoMachine \<Rightarrow> bool" where
  "engaged s \<longleftrightarrow> sm_active s \<or> sm_start_pending s"

text \<open>The intervals between delivered samples, and the samples lost between them.\<close>

definition record_interval :: "u32 \<Rightarrow> u64 \<Rightarrow> DiagSession \<Rightarrow> DiagSession" where
  "record_interval gap lost d =
    d\<lparr>dn_skipped_samples := dn_skipped_samples d + (if lost > 0xFFFFFFFF then 0xFFFFFFFF else ucast lost),
      dn_delivered_interval_min_ms :=
        (if gap > 0 \<and> (dn_delivered_interval_min_ms d = 0 \<or> gap < dn_delivered_interval_min_ms d)
         then gap else dn_delivered_interval_min_ms d),
      dn_delivered_interval_max_ms :=
        (if gap > dn_delivered_interval_max_ms d then gap else dn_delivered_interval_max_ms d)\<rparr>"

text \<open>A boost is over: the first newer sample received after it is its result.\<close>

definition record_after :: "MachinePressureSample \<Rightarrow> f32 \<Rightarrow> u32 \<Rightarrow> ForceContext \<Rightarrow> ForceContext" where
  "record_after sample measured now m =
    (let s = mc_servo m; d = fd_assist (sm_diagnostic s)
     in if db_boost_end_reason d \<ge> 2 \<and> \<not> db_boost_after_valid d \<and> Force_IsPressureFresh m now
          \<and> ForceServo_SequenceAfter (ps_sequence sample) (sm_assist_end_sequence s)
          \<and> sint (ps_received_at_ms sample - db_boost_end_ms d) \<ge> 0
        then srv (dg_assist (\<lambda>d. d\<lparr>db_boost_pressure_after := measured,
               db_boost_after_received_ms := ps_received_at_ms sample, db_boost_after_valid := True,
               db_boost_after_sample_hi := ucast (drop_bit 32 (ps_sequence sample)),
               db_boost_after_sample_lo := ucast (ps_sequence sample)\<rparr>)) m
        else m)"

text \<open>The first time the target is reached in a session, and the peak of the measurement.\<close>

definition record_peak :: "MachinePressureSample \<Rightarrow> f32 \<Rightarrow> u32 \<Rightarrow> ForceContext \<Rightarrow> ForceContext" where
  "record_peak sample measured now m =
    (if sm_active (mc_servo m) \<and> Force_IsPressureFresh m now
     then
       srv (dg_session (\<lambda>d.
         let d = (if \<not> dn_target_reached d \<and> f32_le (f32_of_int (mc_target_pressure_units m)) measured
                  then d\<lparr>dn_target_reached := True, dn_target_reached_ms := ps_received_at_ms sample\<rparr>
                  else d)
         in if f32_lt (dn_session_peak_measured d) measured
            then d\<lparr>dn_session_peak_measured := measured\<rparr> else d)) m
     else m)"

text \<open>A start that waits: a fresh sample received after the request opens the session.\<close>

definition pending_start ::
  "build_policy \<Rightarrow> 'e servo_executor \<Rightarrow> MachinePressureSample \<Rightarrow> f32 \<Rightarrow> u32 \<Rightarrow> 'e force_world \<Rightarrow> 'e force_world" where
  "pending_start p ops sample measured now w =
    (let s = servo_of w; m = fw_m w; q = sm_profile s;
         rejected = Force_ReportFault p ops FAULT_MOTOR_FAULT FAULT_DETAIL_MOTOR_REQUEST_REJECTED now
     in if \<not> (fresh now w \<and> sint (ps_received_at_ms sample - sm_start_requested_ms s) \<ge> 0) then w
        else
          (let (ready, w) = (if mc_state m = IDLE \<and> mc_target_valid m \<and> mc_target_pressure_units m > 0
                    \<and> ForceServo_TargetAllowed p (Some q) (f32_of_int (mc_target_pressure_units m))
                        (\<not> f32_eq (fl (fp_unit q)) (Fin 0)) = FS_PROFILE_OK
                    \<and> ForceServo_ProfileConfigValid p q (sm_config s)
                  then all_of [xq (ex_IsHealthy ops), xq (ex_OutputIsDisabled ops),
                         snapshot ops (\<lambda>x. \<not> mx_physical_output_locked x)] w
                  else (False, w))
           in if \<not> ready then rejected w
              else
                (let (r, m) = check_plan p measured (fw_m w); w = w\<lparr>fw_m := m\<rparr>
                 in if r \<noteq> FS_PROFILE_OK then rejected w
                    else
                      (let (result, w) = begin_session p ops now w
                       in mch (\<lambda>m. m\<lparr>mc_last_command_result := result\<rparr>) w))))"

text \<open>Contact is noted once in a session.\<close>

definition latch_contact :: "build_policy \<Rightarrow> MachinePressureSample \<Rightarrow> f32 \<Rightarrow> ForceServoMachine \<Rightarrow> ForceServoMachine" where
  "latch_contact p sample measured s =
    (if sm_contacted s \<and> \<not> dn_contact_count (fd_session (sm_diagnostic s))
        \<and> f32_le (fl (fp_contact (sm_profile s))) measured
     then dg_session (\<lambda>d. d\<lparr>dn_contact_count := True, dn_contact_raw := ps_raw_pressure_counts sample\<rparr>)
            (s\<lparr>sm_assist_initial_contact := (bp_characterization p \<or> sm_assist_initial_contact s)\<rparr>)
     else s)"

text \<open>
  The stages of an active session's sample answer whether the handler goes on. The first checks
  the response to a boost that has ended: its sample must be newer than the boost.
\<close>

definition check_response ::
  "build_policy \<Rightarrow> 'e servo_executor \<Rightarrow> MachinePressureSample \<Rightarrow> f32 \<Rightarrow> u32 \<Rightarrow> 'e force_world \<Rightarrow> bool \<times> 'e force_world" where
  "check_response p ops sample measured now w =
    (let s = servo_of w; d = assist_of w
     in if \<not> db_assist_response_pending d then (True, w)
        else if \<not> ForceServo_SequenceAfter (ps_sequence sample) (sm_assist_end_sequence s)
                \<or> sint (ps_received_at_ms sample - db_boost_end_ms d) < 0
        then (False, publish p ops now w)
        else
          (let excessive = f32_le (fl (fp_excessive_rise_units (sm_profile s)))
                             (f32_sub measured (db_boost_pressure_before d));
               w = mch (srv (dg_assist (\<lambda>d. d\<lparr>
                     db_assist_response_peak := (if f32_lt (db_assist_response_peak d) measured
                       then measured else db_assist_response_peak d),
                     db_assist_response_pending := False,
                     db_assist_after_result := (if excessive then 2 else 1)\<rparr>))) w
           in if excessive
              then (False, Force_ReportFault p ops FAULT_MOTION_TIMEOUT
                     (if bp_characterization p then FAULT_DETAIL_POST_ASSIST_EXCESSIVE_RISE
                      else FAULT_DETAIL_ASSIST_EXCESSIVE_RISE) now w)
              else (True, w)))"

text \<open>The second watches a running boost: an excessive rise is a fault, a response hands it over.\<close>

definition watch_boost ::
  "build_policy \<Rightarrow> 'e servo_executor \<Rightarrow> f32 \<Rightarrow> u32 \<Rightarrow> 'e force_world \<Rightarrow> bool \<times> 'e force_world" where
  "watch_boost p ops measured now w =
    (let s = servo_of w; q = sm_profile s; d = assist_of w;
         rise = f32_sub measured (db_boost_pressure_before d)
     in if \<not> db_boost_active d then (True, w)
        else
          (let w = mch (srv (dg_assist (\<lambda>d. d\<lparr>
                     db_assist_pressure_peak := (if f32_lt (db_assist_pressure_peak d) measured
                       then measured else db_assist_pressure_peak d),
                     db_assist_response_peak := (if f32_lt (db_assist_response_peak d) measured
                       then measured else db_assist_response_peak d)\<rparr>))) w
           in if f32_le (fl (fp_excessive_rise_units q)) rise
              then (False, Force_ReportFault p ops FAULT_MOTION_TIMEOUT
                     FAULT_DETAIL_ASSIST_EXCESSIVE_RISE now (mch (set_assist_exit 4) w))
              else
                (let taper = (f32_le (f32_sub (f32_of_int (mc_target_pressure_units (fw_m w))) measured)
                         (fl (fp_taper_margin q))
                       \<or> f32_le (f32_sub (fs_reference (sm_controller s)) measured) (Fin 0)
                       \<or> mc_state (fw_m w) = FORCE_HOLD)
                 in if \<not> (f32_le (fl (fp_response_units q)) rise \<or> taper) then (True, w)
                    else
                      (let lower = (if taper then 0 else sm_boost_handoff_request s);
                           (command, w) = snapshot ops mx_command_mv w;
                           lower = (if of_int lower > command then sint command else lower);
                           w = mch (set_assist_exit (if taper then 3 else 2)) w;
                           (result, w) = xq (sq_HandoffContinuousBoost ops (sm_token s) now lower) w
                       in if result \<noteq> MOTOR_RESULT_OK
                          then (False, Force_ReportFault p ops FAULT_MOTOR_FAULT
                                 FAULT_DETAIL_LEASE_EXPIRED now (mch (set_assist_exit 8) w))
                          else (True, mch (\<lambda>m. track_output lower (finish_boost now 2 lower m)) w)))))"

text \<open>The third: the control grid, the record of the sample, and contact in an approach.\<close>

definition record_sample :: "MachinePressureSample \<Rightarrow> ForceServoMachine \<Rightarrow> ForceServoMachine" where
  "record_sample sample =
    dg_control (\<lambda>d. d\<lparr>dc_raw := ps_raw_pressure_counts sample,
      dc_sample_hi := ucast (drop_bit 32 (ps_sequence sample)),
      dc_control_pressure := f32_of_int (ps_control_pressure_units sample),
      dc_sample_lo := ucast (ps_sequence sample), dc_received_ms := ps_received_at_ms sample\<rparr>)"

definition control_sample ::
  "build_policy \<Rightarrow> 'e servo_executor \<Rightarrow> MachinePressureSample \<Rightarrow> f32 \<Rightarrow> u32 \<Rightarrow> 'e force_world \<Rightarrow> 'e force_world" where
  "control_sample p ops sample measured now w =
    (let s = servo_of w
     in if sm_contacted s
          \<and> ps_received_at_ms sample - sm_last_control_rx_ms s < f32_cast_u32 (fl (fc_control_min_ms (sm_config s)))
        then service_assist p ops now w
        else
          (let w = mch (srv (record_sample sample)) w
           in if \<not> sm_contacted s
              then
                (let (ok, w) = (if f32_le (fl (fp_contact (sm_profile s))) measured
                                then contact p ops now w else (True, w));
                     w = (if \<not> ok then hardware_fault p ops now w else w)
                 in publish p ops now w)
              else control_step p ops sample measured now w))"

definition active_sample ::
  "build_policy \<Rightarrow> 'e servo_executor \<Rightarrow> MachinePressureSample \<Rightarrow> f32 \<Rightarrow> u32 \<Rightarrow> 'e force_world \<Rightarrow> 'e force_world" where
  "active_sample p ops sample measured now w =
    (let s = servo_of w
     in if \<not> fresh now w then sensor_fault p ops FAULT_DETAIL_PRESSURE_TIMEOUT now w
        else if \<not> bp_characterization p \<and> sm_contacted s \<and> dn_contact_count (session_of w)
             \<and> f32_lt measured (fl (fp_contact (sm_profile s)))
        then sensor_fault p ops FAULT_DETAIL_CONTACT_LOST now
               (mch (srv (dg_session (\<lambda>d. d\<lparr>dn_contact_lost_count := dn_contact_lost_count d + 1,
                  dn_contact_lost_raw := ps_raw_pressure_counts sample\<rparr>))) w)
        else
          (let w = mch (srv (latch_contact p sample measured)) w;
               (go_on, w) = check_response p ops sample measured now w
           in if \<not> go_on then w
              else
                (let (go_on, w) = watch_boost p ops measured now w
                 in if \<not> go_on then w
                    else
                      (let w = (if db_boost_active (assist_of w)
                                   \<and> sint (now - db_assist_normal_end_ms (assist_of w)) \<ge> 0
                                then service_assist p ops now w else w)
                       in if \<not> sm_active (servo_of w) then w
                          else control_sample p ops sample measured now w))))"

text \<open>A sample whose measurement is valid.\<close>

definition measured_sample ::
  "build_policy \<Rightarrow> 'e servo_executor \<Rightarrow> MachinePressureSample \<Rightarrow> f32 \<Rightarrow> u32 \<Rightarrow> 'e force_world \<Rightarrow> 'e force_world" where
  "measured_sample p ops sample measured now w =
    (let w = mch (\<lambda>m. record_peak sample measured now (record_after sample measured now m)) w; s = servo_of w
     in if sm_start_pending s then publish p ops now (pending_start p ops sample measured now w)
        else if \<not> sm_active s then publish p ops now w
        else active_sample p ops sample measured now w)"

text \<open>
  The boundary target of the characterization build: the sensor's limit is the target, so that
  a sample at the limit ends the run as reached, by STOP, instead of as an overpressure.
\<close>

definition at_boundary :: "build_policy \<Rightarrow> MachinePressureSample \<Rightarrow> u32 \<Rightarrow> ForceContext \<Rightarrow> bool" where
  "at_boundary p sample now m \<longleftrightarrow>
    (let s = mc_servo m
     in bp_characterization p \<and> engaged s \<and> Force_IsPressureFresh m now
        \<and> (sm_start_pending s \<longrightarrow> sint (ps_received_at_ms sample - sm_start_requested_ms s) \<ge> 0)
        \<and> mc_target_pressure_units m = 3000 \<and> ps_raw_pressure_counts sample \<ge> 3000)"

definition boundary_context :: "MachinePressureSample \<Rightarrow> u32 \<Rightarrow> ForceServoMachine \<Rightarrow> ForceServoMachine" where
  "boundary_context sample now s =
    (let s = (if sm_start_pending s
              then s\<lparr>sm_diagnostic := zero_diagnostic\<lparr>fd_session := (fd_session zero_diagnostic)\<lparr>
                       dn_session_peak_raw := ps_raw_pressure_counts sample,
                       dn_session_peak_received_ms := ps_received_at_ms sample\<rparr>\<rparr>,
                     sm_session := next_session (sm_session s),
                     sm_session_started_ms := sm_start_requested_ms s,
                     sm_cooling_until_ms := now + 5000, sm_cooling_active := True\<rparr>
              else s)
     in dg_session (\<lambda>d. d\<lparr>dn_target_reached := True, dn_target_reached_ms := ps_received_at_ms sample,
          dn_session_peak_measured := f32_of_u32 (ps_raw_pressure_counts sample),
          dn_run_reason := FS_RUN_BOUNDARY_TARGET_REACHED\<rparr>) s)"

definition overpressure :: "ForceServoProfile \<Rightarrow> u32 \<Rightarrow> bool" where
  "overpressure q raw \<longleftrightarrow>
    f32_le (fl (fp_raw_trip q)) (f32_of_u32 raw)
    \<or> f32_eq (fl (fp_unit q)) (Fin 1)
      \<and> f32_le (fl (fp_force_trip q))
          (f32_add (f32_mul (f32_of_u32 raw) (fl (fp_scale q))) (fl (fp_offset q)))"

text \<open>What the handler notes of an accepted sample before it looks at the pressure.\<close>

definition store_sample :: "MachinePressureSample \<Rightarrow> u32 \<Rightarrow> ForceContext \<Rightarrow> ForceContext" where
  "store_sample sample now m =
    (let m = srv (\<lambda>s. s\<lparr>sm_have_sample := True\<rparr>) (m\<lparr>mc_pressure := sample\<rparr>)
     in if sm_active (mc_servo m) \<and> Force_IsPressureFresh m now
        then srv (dg_session (\<lambda>d. if ps_raw_pressure_counts sample > dn_session_peak_raw d
                  then d\<lparr>dn_session_peak_raw := ps_raw_pressure_counts sample,
                         dn_session_peak_received_ms := ps_received_at_ms sample\<rparr> else d)) m
        else m)"

definition accept_sample ::
  "build_policy \<Rightarrow> 'e servo_executor \<Rightarrow> MachinePressureSample \<Rightarrow> u32 \<Rightarrow> 'e force_world \<Rightarrow> 'e force_world" where
  "accept_sample p ops sample now w =
    (let w = mch (store_sample sample now) (Force_CheckPressureSafety p ops now w);
         q = sm_profile (servo_of w); raw = ps_raw_pressure_counts sample
     in if at_boundary p sample now (fw_m w)
        then snd (Force_HandleCommand p ops \<lparr>cmd_type = CMD_STOP, cmd_target_pressure_units = 0\<rparr> now
                    (mch (srv (boundary_context sample now)) w))
        else if overpressure q raw
        then Force_ReportFault p ops FAULT_OVERPRESSURE FAULT_DETAIL_NONE now w
        else
          (case ForceServo_Measure p q raw (ps_control_pressure_units sample) (Fin 0) of
             (valid, measured) \<Rightarrow>
               if \<not> valid
               then (if engaged (servo_of w)
                     then sensor_fault p ops FAULT_DETAIL_PRESSURE_INVALID now w else w)
               else measured_sample p ops sample measured now w))"

definition Force_HandlePressureSample ::
  "build_policy \<Rightarrow> 'e servo_executor \<Rightarrow> MachinePressureSample \<Rightarrow> u32 \<Rightarrow> 'e force_world \<Rightarrow> 'e force_world" where
  "Force_HandlePressureSample p ops sample now w =
    (let s = servo_of w; last = mc_pressure (fw_m w);
         gap = ps_received_at_ms sample - ps_received_at_ms last;
         lost = ps_sequence sample - ps_sequence last - 1;
         order_lost = sensor_fault p ops FAULT_DETAIL_PRESSURE_ORDER_LOST now
     in if sample_malformed p sample
        then (if engaged s then sensor_fault p ops FAULT_DETAIL_PRESSURE_INVALID now w else w)
        else if sm_have_sample s \<and> \<not> ForceServo_SequenceAfter (ps_sequence sample) (ps_sequence last)
        then (if engaged s \<and> ps_sequence sample \<noteq> ps_sequence last then order_lost w else w)
        else if sm_have_sample s \<and> gap \<ge> 0x80000000
        then (if engaged s then order_lost w else w)
        else accept_sample p ops sample now
               (if sm_have_sample s then mch (srv (dg_session (record_interval gap lost))) w else w))"

section \<open>Service\<close>

text \<open>The one-shot approach of the plain build: its end starts the settling time.\<close>

definition approach_ended ::
  "build_policy \<Rightarrow> 'e servo_executor \<Rightarrow> u32 \<Rightarrow> 'e force_world \<Rightarrow> 'e force_world" where
  "approach_ended p ops now w =
    (let x = ex_motor ops (fw_e w); m = fw_m w
     in if mx_logical_active x \<or> mc_motor_request_sequence m = 0 then w
        else if mx_request_sequence x \<noteq> mc_motor_request_sequence m
                \<or> mx_last_completion x \<noteq> MOTOR_COMPLETION_NORMAL
        then Force_ReportFault p ops FAULT_MOTION_TIMEOUT FAULT_DETAIL_APPROACH_TIMEOUT now w
        else mch (\<lambda>m. srv (supervise (\<lambda>u. u\<lparr>su_settle_after_ms := now + AUTO_TARGET_SETTLE_DELAY_MS,
                    su_approach_wait := True\<rparr>)) (m\<lparr>mc_motor_request_sequence := 0\<rparr>)) w)"

definition Force_HandleMotorService ::
  "build_policy \<Rightarrow> 'e servo_executor \<Rightarrow> u32 \<Rightarrow> 'e force_world \<Rightarrow> 'e force_world" where
  "Force_HandleMotorService p ops now w =
    (if \<not> sm_active (servo_of w) then w
     else
       (let (completion, w) = snapshot ops mx_last_completion w;
            w = (if sm_contacted (servo_of w)
                 then (if completion = MOTOR_COMPLETION_LEASE
                       then Force_ReportFault p ops FAULT_MOTOR_FAULT FAULT_DETAIL_LEASE_EXPIRED now w
                       else if completion \<noteq> MOTOR_COMPLETION_NONE
                       then hardware_fault p ops now w else w)
                 else approach_ended p ops now w)
        in publish p ops now w))"

text \<open>The next approach of the plain build, when the last one has settled.\<close>

definition next_approach ::
  "build_policy \<Rightarrow> 'e servo_executor \<Rightarrow> u32 \<Rightarrow> 'e force_world \<Rightarrow> 'e force_world" where
  "next_approach p ops now w =
    (let (idle, w) = (if sm_active (servo_of w) \<and> \<not> sm_contacted (servo_of w)
                      then snapshot ops (\<lambda>x. \<not> mx_logical_active x) w else (False, w));
         u = sm_supervision (servo_of w); c = mc_config (fw_m w)
     in if idle \<and> (\<not> su_approach_wait u
             \<or> sint (now - su_settle_after_ms u) \<ge> 0
               \<and> sint (ps_received_at_ms (mc_pressure (fw_m w)) - su_settle_after_ms u) \<ge> 0)
        then
          (let (result, w) = xq (ex_StartRun ops MOTOR_DIRECTION_PRESS (cf_first_approach_command_mv c)
                  (cf_first_approach_duration_ms c) (cf_first_approach_backstop_ms c) now) w
           in if result \<noteq> MOTOR_RESULT_OK
              then Force_ReportFault p ops FAULT_MOTOR_FAULT FAULT_DETAIL_MOTOR_REQUEST_REJECTED now w
              else (let (n, w) = snapshot ops mx_request_sequence w
                    in mch (\<lambda>m. m\<lparr>mc_motor_request_sequence := n\<rparr>) w))
        else w)"

definition Force_Tick :: "build_policy \<Rightarrow> 'e servo_executor \<Rightarrow> u32 \<Rightarrow> 'e force_world \<Rightarrow> 'e force_world" where
  "Force_Tick p ops now w =
    publish p ops now (next_approach p ops now
      (service_assist p ops now (Force_CheckPressureSafety p ops now w)))"

section \<open>Initialisation\<close>

text \<open>The zeroed machine with the linked configuration and profile.\<close>

definition initial_servo :: "build_policy \<Rightarrow> ForceServoMachine" where
  "initial_servo p =
    \<lparr>sm_plan = \<lparr>pl_plan = \<lparr>cp_target_N = 0, cp_assist_percent = 0, cp_continuous_percent = 0\<rparr>,
       pl_staging = replicate 10 0, pl_ack = replicate 4 0, pl_mask = 0, pl_read_mask = 0,
       pl_ack_mask = 0, pl_version = 0, pl_digest = 0, pl_staging_open = False,
       pl_available = False, pl_armed = False\<rparr>,
     sm_config = g_force_servo_default_config p, sm_profile = g_force_servo_profile p,
     sm_controller = zero_servo, sm_diagnostic = zero_diagnostic, sm_frozen = replicate 226 0,
     sm_staging = \<lparr>cs_staging = replicate 50 0, cs_mask = 0, cs_version = 0, cs_open = False\<rparr>,
     sm_config_version = 1, sm_config_digest = ForceServo_ConfigDigest p (g_force_servo_default_config p),
     sm_token = 0, sm_session = 0, sm_session_started_ms = 0, sm_contact_at_ms = 0,
     sm_last_control_rx_ms = 0, sm_last_control_sequence = 0, sm_assist_end_sequence = 0,
     sm_start_requested_ms = 0,
     sm_supervision = \<lparr>su_saturation_started_ms = 0, su_tracking_started_ms = 0,
       su_settle_after_ms = 0, su_progress_at_ms = 0, su_progress_good_ms = 0, su_hold_at_ms = 0,
       su_progress_anchor = Fin 0, su_progress_start = Fin 0, su_progress_commanded = False,
       su_saturation_active = False, su_tracking_active = False, su_approach_wait = False,
       su_ever_held = False\<rparr>,
     sm_boost_handoff_request = 0, sm_cooling_until_ms = 0, sm_required_off_ms = 0,
     sm_cooling_active = False, sm_assist_initial_contact = False, sm_boost_used = False,
     sm_start_pending = False, sm_active = False, sm_contacted = False, sm_have_sample = False\<rparr>"

text \<open>\<open>config\<close> is the object behind a pointer that may be NULL.\<close>

definition initial_context :: "build_policy \<Rightarrow> MachineConfig option \<Rightarrow> ForceContext" where
  "initial_context p config =
    (let m = MachineContext.extend zero_context (ForceContext.fields (initial_servo p));
         m = (case config of None \<Rightarrow> m | Some c \<Rightarrow> m\<lparr>mc_config := c\<rparr>);
         valid = (config = Some g_sd700_auto_target_machine_config
                  \<and> g_force_characterization_contract p ! 0 = of_bool (bp_characterization p));
         commissioning = (bp_commissioning p \<and> \<not> bp_characterization p)
     in m\<lparr>mc_state := BOOT_SAFE,
          mc_target_pressure_units :=
            (if commissioning then sint FORCE_SERVO_DEFAULT_TARGET else mc_target_pressure_units m),
          mc_target_valid := commissioning, mc_config_valid := valid\<rparr>)"

definition Force_Initialize ::
  "build_policy \<Rightarrow> 'e servo_executor \<Rightarrow> MachineConfig option \<Rightarrow> u32 \<Rightarrow> 'e \<Rightarrow> 'e force_world" where
  "Force_Initialize p ops config now e =
    (let (_, w) = xq (ex_Disable ops) \<lparr>fw_m = initial_context p config, fw_e = e\<rparr>
     in publish p ops now w)"

end
