(* ===== verification/ForceMachineInv.thy ===== *)
theory ForceMachineInv
  imports ForceMachine
begin

text \<open>
  What every operation of the ForceServo application keeps: the executor's invariant, its output
  off outside a session, and the agreement of the machine's state with its flags. The proofs
  rest on the contract of the executor only (locale \<open>continuous_executor\<close>).
\<close>

section \<open>Access\<close>

lemma access_simps [simp]:
  "fw_m (mch f w) = f (fw_m w)" "fw_e (mch f w) = fw_e w"
  "mc_servo (srv g m) = g (mc_servo m)" "mc_state (srv g m) = mc_state m"
  "mc_fault (srv g m) = mc_fault m" "mc_fault_detail (srv g m) = mc_fault_detail m"
  "mc_pressure (srv g m) = mc_pressure m" "mc_target_pressure_units (srv g m) = mc_target_pressure_units m"
  "mc_target_valid (srv g m) = mc_target_valid m"
  by (simp_all add: mch_def srv_def)

lemma flag_simps [simp]:
  "sm_active (dg_status f1 s) = sm_active s" "sm_start_pending (dg_status f1 s) = sm_start_pending s"
  "sm_active (dg_control f2 s) = sm_active s" "sm_start_pending (dg_control f2 s) = sm_start_pending s"
  "sm_active (dg_session f3 s) = sm_active s" "sm_start_pending (dg_session f3 s) = sm_start_pending s"
  "sm_active (dg_assist f4 s) = sm_active s" "sm_start_pending (dg_assist f4 s) = sm_start_pending s"
  "sm_active (supervise f5 s) = sm_active s" "sm_start_pending (supervise f5 s) = sm_start_pending s"
  "sm_active (planning f6 s) = sm_active s" "sm_start_pending (planning f6 s) = sm_start_pending s"
  "sm_active (steer f7 s) = sm_active s" "sm_start_pending (steer f7 s) = sm_start_pending s"
  "sm_active (begin_cooling now s) = sm_active s" "sm_start_pending (begin_cooling now s) = sm_start_pending s"
  by (simp_all add: dg_status_def dg_control_def dg_session_def dg_assist_def supervise_def
      planning_def steer_def begin_cooling_def)

lemma loaded_simps [simp]:
  "sm_plan (dg_status f1 s) = sm_plan s" "sm_profile (dg_status f1 s) = sm_profile s"
  "sm_config (dg_status f1 s) = sm_config s" "sm_config_digest (dg_status f1 s) = sm_config_digest s"
  "sm_plan (dg_control f2 s) = sm_plan s" "sm_profile (dg_control f2 s) = sm_profile s"
  "sm_config (dg_control f2 s) = sm_config s" "sm_config_digest (dg_control f2 s) = sm_config_digest s"
  "sm_plan (dg_session f3 s) = sm_plan s" "sm_profile (dg_session f3 s) = sm_profile s"
  "sm_config (dg_session f3 s) = sm_config s" "sm_config_digest (dg_session f3 s) = sm_config_digest s"
  "sm_plan (dg_assist f4 s) = sm_plan s" "sm_profile (dg_assist f4 s) = sm_profile s"
  "sm_config (dg_assist f4 s) = sm_config s" "sm_config_digest (dg_assist f4 s) = sm_config_digest s"
  "sm_plan (supervise f5 s) = sm_plan s" "sm_profile (supervise f5 s) = sm_profile s"
  "sm_config (supervise f5 s) = sm_config s" "sm_config_digest (supervise f5 s) = sm_config_digest s"
  "sm_plan (steer f7 s) = sm_plan s" "sm_profile (steer f7 s) = sm_profile s"
  "sm_config (steer f7 s) = sm_config s" "sm_config_digest (steer f7 s) = sm_config_digest s"
  "sm_plan (begin_cooling now s) = sm_plan s" "sm_profile (begin_cooling now s) = sm_profile s"
  "sm_config (begin_cooling now s) = sm_config s" "sm_config_digest (begin_cooling now s) = sm_config_digest s"
  "sm_plan (planning f6 s) = f6 (sm_plan s)" "sm_profile (planning f6 s) = sm_profile s"
  "sm_config (planning f6 s) = sm_config s" "sm_config_digest (planning f6 s) = sm_config_digest s"
  by (simp_all add: dg_status_def dg_control_def dg_session_def dg_assist_def supervise_def
      planning_def steer_def begin_cooling_def)

text \<open>The plan, and what runs under it\<close>

definition loaded ::
  "ForceContext \<Rightarrow> ForcePlanState \<times> ForceServoProfile \<times> ForceServoConfig \<times> u32 \<times> int" where
  "loaded m = (sm_plan (mc_servo m), sm_profile (mc_servo m), sm_config (mc_servo m),
     sm_config_digest (mc_servo m), mc_target_pressure_units m)"

text \<open>The part of the machine the safety of the output depends on.\<close>

definition core :: "ForceContext \<Rightarrow> MachineState \<times> MachineFault \<times> FaultDetail \<times> bool \<times> bool" where
  "core m = (mc_state m, mc_fault m, mc_fault_detail m, sm_active (mc_servo m), sm_start_pending (mc_servo m))"

lemma core_srv [simp]:
  "core (srv (dg_status f1) m) = core m" "core (srv (dg_control f2) m) = core m"
  "core (srv (dg_session f3) m) = core m" "core (srv (dg_assist f4) m) = core m"
  "core (srv (supervise f5) m) = core m" "core (srv (planning f6) m) = core m"
  "core (srv (steer f7) m) = core m" "core (srv (begin_cooling now) m) = core m"
  by (simp_all add: core_def)

lemma loaded_srv [simp]:
  "loaded (srv (dg_status f1) m) = loaded m" "loaded (srv (dg_control f2) m) = loaded m"
  "loaded (srv (dg_session f3) m) = loaded m" "loaded (srv (dg_assist f4) m) = loaded m"
  "loaded (srv (supervise f5) m) = loaded m" "loaded (srv (steer f7) m) = loaded m"
  "loaded (srv (begin_cooling now) m) = loaded m"
  by (simp_all add: loaded_def)

lemma core_finish_boost [simp]:
  "core (finish_boost now reason c m) = core m" "loaded (finish_boost now reason c m) = loaded m"
  by (simp_all add: finish_boost_def core_def loaded_def Let_def)

lemma core_updates [simp]:
  "core (track_output c m) = core m" "core (set_assist_exit n m) = core m"
  "core (set_rejection r m) = core m" "core (note_contact m) = core m"
  "core (snd (check_plan p x m)) = core m" "core (record_after sample x now m) = core m"
  "core (record_peak sample x now m) = core m" "core (store_sample sample now m) = core m"
  "core (srv (record_sample sample) m) = core m" "core (srv (latch_contact p sample x) m) = core m"
  "core (srv (boundary_context sample now) m) = core m"
  "loaded (track_output c m) = loaded m" "loaded (set_assist_exit n m) = loaded m"
  "loaded (set_rejection r m) = loaded m" "loaded (note_contact m) = loaded m"
  "loaded (snd (check_plan p x m)) = loaded m" "loaded (record_after sample x now m) = loaded m"
  "loaded (record_peak sample x now m) = loaded m" "loaded (store_sample sample now m) = loaded m"
  "loaded (srv (record_sample sample) m) = loaded m" "loaded (srv (latch_contact p sample x) m) = loaded m"
  "loaded (srv (boundary_context sample now) m) = loaded m"
  by (simp_all add: track_output_def set_assist_exit_def set_rejection_def note_contact_def check_plan_def
      record_after_def record_peak_def store_sample_def record_sample_def latch_contact_def
      boundary_context_def core_def loaded_def Let_def case_prod_beta)

lemma loaded_state [simp]:
  "loaded (m\<lparr>mc_state := s\<rparr>) = loaded m"
  "loaded (m\<lparr>mc_state := s, mc_fault := f, mc_fault_detail := d\<rparr>) = loaded m"
  "loaded (m\<lparr>mc_last_command_result := r\<rparr>) = loaded m" "loaded (m\<lparr>mc_target_valid := v\<rparr>) = loaded m"
  "loaded (m\<lparr>mc_motor_request_sequence := n\<rparr>) = loaded m"
  by (simp_all add: loaded_def)

section \<open>States and flags\<close>

definition driving :: "MachineState \<Rightarrow> bool" where
  "driving s \<longleftrightarrow> s = FORCE_APPROACH \<or> s = FORCE_BUILD \<or> s = FORCE_HOLD"

definition flags_ok :: "MachineState \<Rightarrow> bool \<Rightarrow> bool \<Rightarrow> bool" where
  "flags_ok s active pending \<longleftrightarrow> (active \<longleftrightarrow> driving s)
    \<and> (driving s \<or> s = BOOT_SAFE \<or> s = IDLE \<or> s = FAULT) \<and> (pending \<longrightarrow> s = IDLE)"

text \<open>
  A plan that is available was checked, and the machine runs under it; it is armed only when all
  of it has been read back and its version and digest acknowledged.
\<close>

definition plan_ok ::
  "build_policy \<Rightarrow> ForcePlanState \<times> ForceServoProfile \<times> ForceServoConfig \<times> u32 \<times> int \<Rightarrow> bool" where
  "plan_ok p = (\<lambda>(l, q, c, digest, target).
    (pl_available l \<longrightarrow> bp_characterization p
      \<and> ForceServo_CharacterizationPlanValid p (pl_plan l)
      \<and> pl_digest l = ForceServo_CharacterizationDigest (pl_plan l)
      \<and> q = plan_profile p (pl_plan l) \<and> c = plan_config p (pl_plan l)
      \<and> ForceServo_ProfileConfigValid p q c \<and> digest = ForceServo_ConfigDigest p c
      \<and> target = f32_to_i32 (fl (cp_target_N (pl_plan l))))
    \<and> (pl_armed l \<longrightarrow> pl_available l \<and> pl_read_mask l = 0xFFF \<and> pl_ack_mask l = 15
      \<and> word32 (pl_ack l ! 0) (pl_ack l ! 1) = pl_version l
      \<and> word32 (pl_ack l ! 2) (pl_ack l ! 3) = pl_digest l))"

lemma plan_revoked: "\<not> pl_available l \<Longrightarrow> \<not> pl_armed l \<Longrightarrow> plan_ok p (l, x)"
  by (cases x) (simp add: plan_ok_def)

definition force_ok :: "build_policy \<Rightarrow> ('e \<Rightarrow> bool) \<Rightarrow> ('e \<Rightarrow> bool) \<Rightarrow> 'e force_world \<Rightarrow> bool" where
  "force_ok p good off w \<longleftrightarrow> good (fw_e w) \<and> (\<not> sm_active (servo_of w) \<longrightarrow> off (fw_e w))
    \<and> flags_ok (mc_state (fw_m w)) (sm_active (servo_of w)) (sm_start_pending (servo_of w))
    \<and> plan_ok p (loaded (fw_m w))"

lemma ok_core:
  "force_ok p good off w \<Longrightarrow> core (f (fw_m w)) = core (fw_m w) \<and> loaded (f (fw_m w)) = loaded (fw_m w) \<Longrightarrow> force_ok p good off (mch f w)"
  by (simp add: force_ok_def core_def)

lemma ok_cong:
  "core (fw_m w') = core (fw_m w) \<Longrightarrow> loaded (fw_m w') = loaded (fw_m w) \<Longrightarrow> fw_e w' = fw_e w \<Longrightarrow> force_ok p good off w' = force_ok p good off w"
  by (simp add: force_ok_def core_def)

text \<open>In a session, and what a step of one may leave.\<close>

definition running :: "build_policy \<Rightarrow> ('e \<Rightarrow> bool) \<Rightarrow> ('e \<Rightarrow> bool) \<Rightarrow> 'e force_world \<Rightarrow> bool" where
  "running p good off w \<longleftrightarrow> force_ok p good off w \<and> sm_active (servo_of w)"

definition shut_down :: "build_policy \<Rightarrow> ('e \<Rightarrow> bool) \<Rightarrow> ('e \<Rightarrow> bool) \<Rightarrow> 'e force_world \<Rightarrow> bool" where
  "shut_down p good off w \<longleftrightarrow> force_ok p good off w \<and> mc_state (fw_m w) = FAULT"

lemma running_ok: "running p good off w \<Longrightarrow> force_ok p good off w"
  by (simp add: running_def)

lemma shut_down_ok: "shut_down p good off w \<Longrightarrow> force_ok p good off w"
  by (simp add: shut_down_def)

lemma shut_down_off:
  "shut_down p good off w \<Longrightarrow> \<not> sm_active (servo_of w) \<and> \<not> sm_start_pending (servo_of w) \<and> off (fw_e w)"
  by (auto simp: shut_down_def force_ok_def flags_ok_def driving_def)

lemma running_core:
  "running p good off w \<Longrightarrow> core (f (fw_m w)) = core (fw_m w) \<and> loaded (f (fw_m w)) = loaded (fw_m w) \<Longrightarrow> running p good off (mch f w)"
  by (simp add: running_def ok_core core_def)

lemma running_inv: "running p good off w \<Longrightarrow> good (fw_e w)"
  by (simp add: running_def force_ok_def)

text \<open>A stage of a handler answers whether the session goes on.\<close>

definition stage :: "build_policy \<Rightarrow> ('e \<Rightarrow> bool) \<Rightarrow> ('e \<Rightarrow> bool) \<Rightarrow> bool \<times> 'e force_world \<Rightarrow> bool" where
  "stage p good off r \<longleftrightarrow> force_ok p good off (snd r) \<and> (fst r \<longrightarrow> running p good off (snd r))"

lemma stage_simps [simp]:
  "stage p good off (True, w) = running p good off w" "stage p good off (False, w) = force_ok p good off w"
  by (auto simp: stage_def running_def)

text \<open>Queries leave the machine alone; \<open>asks\<close> also leaves the output off.\<close>

definition keeps :: "('e \<Rightarrow> bool) \<Rightarrow> ('e force_world \<Rightarrow> 'r \<times> 'e force_world) \<Rightarrow> bool" where
  "keeps good q \<longleftrightarrow> (\<forall>w. fw_m (snd (q w)) = fw_m w \<and> (good (fw_e w) \<longrightarrow> good (fw_e (snd (q w)))))"

definition asks :: "('e \<Rightarrow> bool) \<Rightarrow> ('e \<Rightarrow> bool) \<Rightarrow> ('e force_world \<Rightarrow> 'r \<times> 'e force_world) \<Rightarrow> bool" where
  "asks good off q \<longleftrightarrow> keeps good q \<and> keeps off q"

lemma keeps_all_of: "(\<And>q. q \<in> set qs \<Longrightarrow> keeps good q) \<Longrightarrow> keeps good (all_of qs)"
  by (induction qs) (simp_all add: keeps_def)

lemma keeps_any_of: "(\<And>q. q \<in> set qs \<Longrightarrow> keeps good q) \<Longrightarrow> keeps good (any_of qs)"
  by (induction qs) (simp_all add: keeps_def)

lemma asks_all_of: "(\<And>q. q \<in> set qs \<Longrightarrow> asks good off q) \<Longrightarrow> asks good off (all_of qs)"
  by (simp add: asks_def keeps_all_of)

lemma keeps_xq: "(\<And>e. good e \<Longrightarrow> good (snd (f e))) \<Longrightarrow> keeps good (xq f)"
  by (simp add: keeps_def xq_def case_prod_beta)

lemma keeps_snapshot: "keeps good (xq (ex_GetSnapshot ops)) \<Longrightarrow> keeps good (snapshot ops f)"
  by (simp add: keeps_def snapshot_def case_prod_beta)

lemma keeps_machine: "keeps good q \<Longrightarrow> fw_m (snd (q w)) = fw_m w"
  by (simp add: keeps_def)

lemma asks_machine: "asks good off q \<Longrightarrow> fw_m (snd (q w)) = fw_m w"
  by (simp add: asks_def keeps_def)

lemma asks_ok: "asks good off q \<Longrightarrow> force_ok p good off w \<Longrightarrow> force_ok p good off (snd (q w))"
  by (simp add: asks_def keeps_def force_ok_def)

lemma keeps_running: "keeps good q \<Longrightarrow> running p good off w \<Longrightarrow> running p good off (snd (q w))"
  by (auto simp: keeps_def running_def force_ok_def)

section \<open>What the operations leave alone\<close>

lemma query_machine [simp]:
  "fw_m (snd (xq f w)) = fw_m w" "fw_m (snd (snapshot ops g w)) = fw_m w"
  by (simp_all add: xq_def snapshot_def case_prod_beta)

lemma publish_core [simp]:
  "core (fw_m (publish p ops now w)) = core (fw_m w)" "loaded (fw_m (publish p ops now w)) = loaded (fw_m w)"
  by (simp_all add: publish_def Let_def case_prod_beta core_def)

lemma fault_context_core:
  "core (fault_context f detail now m) = (FAULT, if mc_state m = FAULT then mc_fault m else f,
     if mc_state m = FAULT then mc_fault_detail m else detail, False, False)"
proof -
  have "mc_state (finish_boost now 3 0 x) = mc_state x \<and> mc_fault (finish_boost now 3 0 x) = mc_fault x
      \<and> mc_fault_detail (finish_boost now 3 0 x) = mc_fault_detail x" for x
    using core_finish_boost [of now 3 0 x] by (simp add: core_def)
  then show ?thesis by (simp add: fault_context_def core_def Let_def)
qed

lemma fault_context_plan [simp]: "plan_ok p (loaded (fault_context f detail now m))"
proof -
  have "sm_plan (mc_servo (finish_boost now 3 0 x)) = sm_plan (mc_servo x)" for x
    using core_finish_boost(2) [of now 3 0 x] by (simp add: loaded_def)
  then show ?thesis unfolding loaded_def by (intro plan_revoked) (simp_all add: fault_context_def Let_def)
qed

text \<open>A fault stays with its first cause until it is reset.\<close>

lemma fault_core:
  "core (fw_m (Force_ReportFault p ops f d now w)) = (FAULT, if mc_state (fw_m w) = FAULT then mc_fault (fw_m w) else f,
     if mc_state (fw_m w) = FAULT then mc_fault_detail (fw_m w) else d, False, False)"
  by (simp add: Force_ReportFault_def Let_def case_prod_beta xq_def fault_context_core)

lemma stop_context_core:
  "core (stop_context now m) = (mc_state m, mc_fault m, mc_fault_detail m, False, False)"
proof -
  have "mc_state (finish_boost now 3 0 x) = mc_state x \<and> mc_fault (finish_boost now 3 0 x) = mc_fault x
      \<and> mc_fault_detail (finish_boost now 3 0 x) = mc_fault_detail x
      \<and> sm_start_pending (mc_servo (finish_boost now 3 0 x)) = sm_start_pending (mc_servo x)" for x
    using core_finish_boost [of now 3 0 x] by (simp add: core_def)
  then show ?thesis by (simp add: stop_context_def core_def Let_def)
qed

lemma stop_context_plan [simp]: "plan_ok p (loaded (stop_context now m))"
proof -
  have "sm_plan (mc_servo (finish_boost now 3 0 x)) = sm_plan (mc_servo x)" for x
    using core_finish_boost(2) [of now 3 0 x] by (simp add: loaded_def)
  then show ?thesis unfolding loaded_def by (intro plan_revoked) (simp_all add: stop_context_def Let_def)
qed

lemma session_context_core:
  "core (session_context p now m) = (FORCE_APPROACH, mc_fault m, mc_fault_detail m, True, False)"
  "loaded (session_context p now m) = loaded m"
  by (simp_all add: session_context_def core_def loaded_def Let_def)

lemma check_plan_flags:
  "mc_state (snd (check_plan p x m)) = mc_state m" "sm_active (mc_servo (snd (check_plan p x m))) = sm_active (mc_servo m)"
  "sm_start_pending (mc_servo (snd (check_plan p x m))) = sm_start_pending (mc_servo m)"
  using core_updates(5) [of p x m] by (simp_all add: core_def)

lemma initial_core:
  "core (initial_context p config) = (BOOT_SAFE, FAULT_NONE, FAULT_DETAIL_NONE, False, False)"
  "plan_ok p (loaded (initial_context p config))"
  by (simp_all add: initial_context_def core_def loaded_def plan_revoked initial_servo_def Let_def
      MachineContext.defs ForceContext.defs zero_context_def split: option.split)

section \<open>Operations\<close>

context continuous_executor
begin

lemma live: "running p inv off w \<Longrightarrow> inv (fw_e w)"
  by (rule running_inv)

lemma ok_live: "force_ok p inv off w \<Longrightarrow> inv (fw_e w)"
  by (simp add: force_ok_def)

lemma query_asks:
  "asks inv off (xq (ex_IsHealthy ops))" "asks inv off (xq (ex_OutputIsDisabled ops))"
  "asks inv off (snapshot ops f)"
  using query_inv query_off by (simp_all add: asks_def keeps_xq keeps_snapshot)

lemmas queries_ask = asks_all_of [of "[_, _]"] asks_all_of [of "[_, _, _]"]

lemma operation_keeps:
  "keeps inv (xq (ex_ActiveRequestIsValid ops))" "keeps inv (xq (sq_ContinuousExpired ops))"
  "keeps inv (xq (sq_ContinuousBoostCommand ops token now))"
  "keeps inv (snapshot ops f)" "keeps inv (xq (ex_StartRun ops dir mv dur bstop now))"
  "keeps inv (xq (sq_BeginContinuous ops))" "keeps inv (xq (sq_SetContinuousBudget ops token now dur cap))"
  "keeps inv (xq (sq_UpdateContinuous ops token q rm now l mx dead c a il))"
  "keeps inv (xq (sq_ArmContinuousBoost ops token now dur))" "keeps inv (xq (sq_EndContinuousBoost ops token))"
  "keeps inv (xq (sq_SetContinuousBoostPlan ops token now rise end_ms peak lower))"
  "keeps inv (xq (sq_ServiceContinuousBoost ops token now a fin))"
  "keeps inv (xq (sq_HandoffContinuousBoost ops token now c))"
  using query_inv start_inv session_inv boost_inv by (simp_all add: keeps_xq keeps_snapshot)

lemma publish_ok: "force_ok p inv off w \<Longrightarrow> force_ok p inv off (publish p ops now w)"
  using masked_inv [of "fw_e w"] masked_off [of "fw_e w"]
  by (simp add: publish_def Let_def force_ok_def case_prod_beta)

lemma publish_running: "running p inv off w \<Longrightarrow> running p inv off (publish p ops now w)"
  using publish_ok [of p w now] publish_core(1) [of p ops now w] by (simp add: running_def core_def)

lemma publish_shut_down: "shut_down p inv off w \<Longrightarrow> shut_down p inv off (publish p ops now w)"
  using publish_ok [of p w now] publish_core(1) [of p ops now w] by (simp add: shut_down_def core_def)

lemma fault_shuts_down:
  assumes "inv (fw_e w)"
  shows "shut_down p inv off (Force_ReportFault p ops f detail now w)"
  unfolding Force_ReportFault_def Let_def case_prod_beta
  by (rule publish_shut_down)
    (use disable [OF assms] fault_context_core [of f detail now "fw_m w"] in
      \<open>simp add: shut_down_def force_ok_def flags_ok_def driving_def core_def xq_def case_prod_beta\<close>)

lemma fault_ok: "inv (fw_e w) \<Longrightarrow> force_ok p inv off (Force_ReportFault p ops f detail now w)"
  by (rule shut_down_ok [OF fault_shuts_down])


subsection \<open>Sessions\<close>

lemma record_assist_running:
  "running p inv off w \<Longrightarrow> running p inv off (record_assist_output ops c w)"
  by (simp add: record_assist_output_def case_prod_beta running_core keeps_running [OF operation_keeps(4)])

lemma open_session_running:
  assumes "running p inv off w"
  shows "running p inv off (snd (open_session ops now w))"
  unfolding open_session_def Let_def case_prod_beta
  by (simp add: keeps_running operation_keeps running_core core_def loaded_def assms)

lemma contact_running:
  assumes "running p inv off w"
  shows "running p inv off (snd (contact p ops now w))"
    "fst (contact p ops now w) \<Longrightarrow> mc_state (fw_m (snd (contact p ops now w))) = FORCE_BUILD"
proof -
  have d: "running p inv off (snd (xq (ex_Disable ops) w'))" if "running p inv off w'" for w'
    using disable [OF live [OF that]] that
    by (auto simp: running_def force_ok_def xq_def case_prod_beta)
  have b: "running p inv off (mch (\<lambda>m. srv (\<lambda>s. dg_control (f s) (s\<lparr>sm_last_control_rx_ms := t m,
      sm_last_control_sequence := q m\<rparr>)) (m\<lparr>mc_state := FORCE_BUILD\<rparr>)) w')"
    if "running p inv off w'" for w' f t q
    using that by (auto simp: running_def force_ok_def flags_ok_def driving_def loaded_def)
  show "running p inv off (snd (contact p ops now w))"
    unfolding contact_def Let_def case_prod_beta
    by (simp add: d b assms running_core open_session_running)
  show "fst (contact p ops now w) \<Longrightarrow> mc_state (fw_m (snd (contact p ops now w))) = FORCE_BUILD"
    unfolding contact_def Let_def case_prod_beta by (auto split: if_splits)
qed

lemma begin_session_spec:
  assumes "inv (fw_e w)" "plan_ok p (loaded (fw_m w))"
  shows "if fst (begin_session p ops now w) = COMMAND_ACCEPTED then running p inv off (snd (begin_session p ops now w))
    else fst (begin_session p ops now w) = COMMAND_EXECUTOR_FAILED \<and> shut_down p inv off (snd (begin_session p ops now w))"
proof -
  let ?w = "mch (session_context p now) w"
  have r: "running p inv off ?w"
    using session_context_core [of p now "fw_m w"] assms
    by (simp add: running_def force_ok_def flags_ok_def driving_def core_def)
  have n: "mc_state (fw_m ?w) \<noteq> FAULT" using session_context_core [of p now "fw_m w"] by (simp add: core_def)
  define w2 where "w2 = (let (ok, w) = contact p ops now ?w
     in if \<not> ok then Force_ReportFault p ops FAULT_MOTOR_FAULT FAULT_DETAIL_MOTOR_HARDWARE now w else w)"
  have c: "if mc_state (fw_m w2) = FAULT then shut_down p inv off w2 else running p inv off w2"
    using contact_running [OF r, of now] fault_shuts_down [OF live [OF contact_running(1) [OF r, of now]],
        of p FAULT_MOTOR_FAULT FAULT_DETAIL_MOTOR_HARDWARE now]
    by (auto simp: w2_def case_prod_beta shut_down_def)
  define w3 where "w3 = (if bp_commissioning p \<or> f32_le (fl (fp_contact (sm_profile (servo_of ?w))))
       (su_progress_start (sm_supervision (servo_of ?w)))
     then mch (\<lambda>m. srv (\<lambda>s. dg_session (\<lambda>d. d\<lparr>dn_contact_at_ms := now\<rparr>) (s\<lparr>sm_contact_at_ms := now\<rparr>))
            (m\<lparr>mc_cycle_started_ms := now\<rparr>)) w2 else ?w)"
  have "if mc_state (fw_m w3) = FAULT then shut_down p inv off w3 else running p inv off w3"
    using c r n by (auto simp: w3_def shut_down_def running_def force_ok_def loaded_def)
  moreover have "begin_session p ops now w
      = (if mc_state (fw_m w3) = FAULT then COMMAND_EXECUTOR_FAILED else COMMAND_ACCEPTED, w3)"
    by (simp add: begin_session_def w3_def w2_def Let_def case_prod_beta)
  ultimately show ?thesis by (auto split: if_splits)
qed

lemma begin_session_ok: "inv (fw_e w) \<Longrightarrow> plan_ok p (loaded (fw_m w)) \<Longrightarrow> force_ok p inv off (snd (begin_session p ops now w))"
  using begin_session_spec [of w p now] by (auto simp: running_def shut_down_def split: if_splits)

subsection \<open>Commands\<close>

lemma stop_command_spec:
  assumes "inv (fw_e w)"
  shows "fst (stop_command p ops now w) = COMMAND_ACCEPTED"
    "force_ok p inv off (snd (stop_command p ops now w))"
    "core (fw_m (snd (stop_command p ops now w))) = (if mc_state (fw_m w) = FAULT then FAULT else IDLE,
       mc_fault (fw_m w), mc_fault_detail (fw_m w), False, False)"
  using disable [OF assms] stop_context_core [of now "fw_m w"]
  by (auto simp: stop_command_def Let_def case_prod_beta xq_def force_ok_def flags_ok_def driving_def core_def)

lemma reset_command_ok:
  assumes "force_ok p inv off w"
  shows "force_ok p inv off (snd (reset_command ops w))"
proof -
  define r where "r = (if mc_state (fw_m w) = FAULT
    then all_of [xq (ex_OutputIsDisabled ops), xq (ex_IsHealthy ops)] w else (False, w))"
  have a: "asks inv off (all_of [xq (ex_OutputIsDisabled ops), xq (ex_IsHealthy ops)])"
    by (rule asks_all_of) (auto simp: query_asks)
  have "force_ok p inv off (snd r)" "fst r \<Longrightarrow> mc_state (fw_m (snd r)) = FAULT"
    using asks_ok [OF a assms] asks_machine [OF a, of w] assms
    by (cases "mc_state (fw_m w) = FAULT"; simp add: r_def del: of_Cons)+
  then show ?thesis
    unfolding reset_command_def r_def [symmetric] Let_def case_prod_beta
    by (auto simp: force_ok_def flags_ok_def driving_def)
qed

lemma target_command_ok:
  assumes "force_ok p inv off w"
  shows "force_ok p inv off (snd (target_command p ops t w))"
proof (cases "bp_characterization p")
  case True
  then show ?thesis
    using assms by (simp add: target_command_def force_ok_def loaded_def plan_revoked)
next
  case False
  have plan: "plan_ok p (loaded m) = (\<not> pl_available (sm_plan (mc_servo m)) \<and> \<not> pl_armed (sm_plan (mc_servo m)))" for m
    using False by (auto simp: plan_ok_def loaded_def)
  have "force_ok p inv off (mch (\<lambda>m. m\<lparr>mc_target_pressure_units := u, mc_target_valid := v\<rparr>) w')"
    "force_ok p inv off (mch (\<lambda>m. m\<lparr>mc_target_valid := v\<rparr>) w')" if "force_ok p inv off w'" for u v w'
    using that unfolding force_ok_def plan by simp_all
  moreover have "force_ok p inv off (mch (set_rejection r) w')" if "force_ok p inv off w'" for r w'
    by (rule ok_core [OF that]) simp
  ultimately show ?thesis
    using asks_ok [OF query_asks(2) assms] False
    by (simp add: target_command_def Let_def case_prod_beta assms)
qed

lemma start_ready_asks: "asks inv off (start_ready p ops now)"
proof -
  have "asks inv off (all_of [xq (ex_IsHealthy ops), xq (ex_OutputIsDisabled ops),
      snapshot ops (\<lambda>x. \<not> mx_physical_output_locked x)])"
    by (rule asks_all_of) (auto simp: query_asks)
  then show ?thesis by (simp add: asks_def keeps_def start_ready_def Let_def)
qed

lemma ok_plan: "force_ok p inv off w \<Longrightarrow> plan_ok p (loaded (fw_m w))"
  by (simp add: force_ok_def)

lemma request_start_ok:
  assumes "force_ok p inv off w" "mc_state (fw_m w) = IDLE"
  shows "force_ok p inv off (snd (request_start p now w))"
proof -
  define x where "x = measure p (fw_m w)"
  define r where "r = (if \<not> sm_have_sample (servo_of w) \<or> \<not> fst x
    then (FS_PROFILE_INVALID, set_rejection FS_PROFILE_INVALID (fw_m w)) else check_plan p (snd x) (fw_m w))"
  have r: "core (snd r) = core (fw_m w)" "loaded (snd r) = loaded (fw_m w)" by (simp_all add: r_def)
  then have "force_ok p inv off (w\<lparr>fw_m := snd r\<rparr>)" using assms(1) by (simp add: force_ok_def core_def)
  moreover have "plan_ok p (loaded (srv (\<lambda>s. planning (\<lambda>l. l\<lparr>pl_available := False, pl_armed := False\<rparr>)
      (s\<lparr>sm_staging := g s, sm_start_requested_ms := now, sm_start_pending := True\<rparr>)) (snd r)))" for g
    by (simp add: loaded_def plan_revoked)
  ultimately show ?thesis
    unfolding request_start_def Let_def case_prod_beta x_def [symmetric] r_def [symmetric]
    using assms(2) r(1) by (simp add: force_ok_def flags_ok_def driving_def core_def del: loaded_srv)
qed

lemma start_command_ok:
  assumes "force_ok p inv off w"
  shows "force_ok p inv off (snd (start_command p ops now w))"
proof -
  have r: "force_ok p inv off (snd (start_ready p ops now w))" "fw_m (snd (start_ready p ops now w)) = fw_m w"
    using asks_ok [OF start_ready_asks assms] asks_machine [OF start_ready_asks] by blast+
  then have "inv (fw_e (snd (start_ready p ops now w)))" by (simp add: force_ok_def)
  then show ?thesis
    using r request_start_ok [OF r(1), of now]
    by (simp add: start_command_def Let_def case_prod_beta ok_core fault_ok begin_session_ok ok_plan assms)
qed

lemma HandleCommand_ok:
  assumes "force_ok p inv off w"
  shows "force_ok p inv off (snd (Force_HandleCommand p ops c now w))"
proof -
  have i: "inv (fw_e w)" using assms by (simp add: force_ok_def)
  have s: "force_ok p inv off (publish p ops now (mch (\<lambda>m. m\<lparr>mc_last_command_result := r\<rparr>) w'))"
    if "force_ok p inv off w'" for w' r
    by (rule publish_ok, rule ok_core [OF that]) (simp add: core_def)
  show ?thesis
    unfolding Force_HandleCommand_def Let_def case_prod_beta snd_conv
    by (cases "cmd_type c")
      (simp_all add: s assms stop_command_spec(2) [OF i] reset_command_ok target_command_ok start_command_ok)
qed

subsection \<open>Deadlines\<close>

lemma check_pending_start_ok:
  assumes "force_ok p inv off w"
  shows "force_ok p inv off (check_pending_start p ops now w)"
proof -
  define r where "r = all_of [xq (ex_OutputIsDisabled ops), xq (ex_IsHealthy ops),
      snapshot ops (\<lambda>x. \<not> mx_logical_active x)] w"
  have "asks inv off (all_of [xq (ex_OutputIsDisabled ops), xq (ex_IsHealthy ops),
      snapshot ops (\<lambda>x. \<not> mx_logical_active x)])"
    by (rule asks_all_of) (auto simp: query_asks)
  from asks_ok [OF this assms] have r: "force_ok p inv off (snd r)" by (simp add: r_def del: of_Cons)
  then have "inv (fw_e (snd r))" by (simp add: force_ok_def)
  then show ?thesis
    unfolding check_pending_start_def r_def [symmetric] Let_def case_prod_beta
    using r by (simp add: fault_ok)
qed

lemma lease_lost_keeps: "keeps inv (lease_lost ops)"
proof -
  have "keeps inv (\<lambda>w. case xq (ex_ActiveRequestIsValid ops) w of (valid, w) \<Rightarrow> (\<not> valid, w))"
    using operation_keeps(1) by (simp add: keeps_def case_prod_beta)
  then show ?thesis
    unfolding lease_lost_def by (intro keeps_any_of) (auto simp: operation_keeps)
qed

lemma CheckPressureSafety_ok:
  assumes "force_ok p inv off w"
  shows "force_ok p inv off (Force_CheckPressureSafety p ops now w)"
proof -
  define w1 where "w1 = mch (srv (\<lambda>s. if sm_cooling_active s \<and> sint (now - sm_cooling_until_ms s) \<ge> 0
    then s\<lparr>sm_cooling_active := False\<rparr> else s)) w"
  have 1: "force_ok p inv off w1" unfolding w1_def by (rule ok_core [OF assms]) (simp add: core_def loaded_def)
  then have i: "inv (fw_e w1)" by (simp add: force_ok_def)
  have l: "force_ok p inv off (snd (lease_lost ops w1))" if "sm_active (servo_of w1)"
    using keeps_running [OF lease_lost_keeps] 1 that by (simp add: running_def)
  then have "inv (fw_e (snd (lease_lost ops w1)))" if "sm_active (servo_of w1)"
    using that by (simp add: force_ok_def)
  then show ?thesis
    unfolding Force_CheckPressureSafety_def w1_def [symmetric] Let_def case_prod_beta
    using 1 l by (simp add: check_pending_start_ok fault_ok i)
qed

lemma service_assist_ok:
  assumes "force_ok p inv off w"
  shows "force_ok p inv off (service_assist p ops now w)"
proof (cases "sm_active (servo_of w)")
  case True
  define r where "r = xq (sq_ServiceContinuousBoost ops (sm_token (servo_of w)) now 0 False) w"
  have r: "running p inv off (snd r)"
    unfolding r_def by (rule keeps_running [OF operation_keeps(12)]) (simp add: running_def True assms)
  have a: "running p inv off (mch (track_output a) (record_assist_output ops a (snd r)))" for a
    by (rule running_core [OF record_assist_running [OF r]]) simp
  have e: "running p inv off (mch (\<lambda>m. finish_boost now 2 c (set_assist_exit 1 m)) w')" if "running p inv off w'" for c w'
    by (rule running_core [OF that]) simp
  show ?thesis
    unfolding service_assist_def r_def [symmetric] Let_def case_prod_beta
    using assms fault_ok [of "mch (set_assist_exit 8) (snd r)"] live [OF r] running_ok [OF a] running_ok [OF e [OF a]]
    by simp
next
  case False
  then show ?thesis using assms by (simp add: service_assist_def)
qed

subsection \<open>Samples\<close>

text \<open>A stage of a session's sample goes on in the session, or has ended well.\<close>

lemma check_response_stage:
  assumes "running p inv off w"
  shows "stage p inv off (check_response p ops sample x now w)"
proof -
  have "running p inv off (mch (srv (dg_assist f)) w)" for f
    by (rule running_core [OF assms]) simp
  then show ?thesis
    using running_ok [OF publish_running [OF assms]] live [OF assms] assms
    by (simp add: check_response_def Let_def fault_ok)
qed

lemma watch_boost_stage:
  assumes "running p inv off w"
  shows "stage p inv off (watch_boost p ops x now w)"
proof -
  have r: "running p inv off (mch (srv (dg_assist f)) w)" for f
    by (rule running_core [OF assms]) simp
  have h: "running p inv off (snd (xq (sq_HandoffContinuousBoost ops t now c)
      (mch (set_assist_exit n) (snd (snapshot ops mx_command_mv (mch (srv (dg_assist f)) w))))))" for t c n f
    by (intro keeps_running [OF operation_keeps(13)] running_core keeps_running [OF operation_keeps(4)] r) simp
  have d: "running p inv off (mch (\<lambda>m. track_output c (finish_boost now 2 c m)) w')" if "running p inv off w'" for c w'
    by (rule running_core [OF that]) simp
  show ?thesis
    using assms r by (simp add: watch_boost_def Let_def case_prod_beta fault_ok live [OF h] live [OF assms] d [OF h])
qed

lemma finish_step_ok:
  assumes "running p inv off w"
  shows "force_ok p inv off (finish_step p ops x now w)"
proof -
  have "running p inv off (mch (hold_or_build now x) w)"
    using assms by (auto simp: hold_or_build_def running_def force_ok_def flags_ok_def driving_def loaded_def Let_def)
  then show ?thesis
    unfolding finish_step_def Let_def
    by (intro publish_ok) (simp add: fault_ok live [of p] running_ok assms)
qed

lemma commit_step_ok:
  assumes "running p inv off w"
  shows "force_ok p inv off (commit_step p ops sample x margin dt de eff step rq c il now w)"
proof -
  define k where "k = ForceServo_Commit p eff c (sm_controller (servo_of w))
    (add_limit (\<not> f32_eq (f32_of_int rq) (sp_limited_output (add_limit il FS_LIMIT_INTERLOCK step)))
      FS_LIMIT_QUANTIZATION (add_limit il FS_LIMIT_INTERLOCK step))"
  have r: "running p inv off (mch (srv (steer (\<lambda>_. s))) w)" for s
    by (rule running_core [OF assms]) simp
  define w1 where "w1 = mch (srv (steer (\<lambda>_. fst (snd k)))) w"
  define w2 where "w2 = (if db_boost_active (assist_of w1) then record_assist_output ops c w1 else w1)"
  define w3 where "w3 = (if de then mch (finish_boost now 2 c) w2 else w2)"
  have "running p inv off w2" using r by (simp add: w2_def w1_def record_assist_running)
  then have 3: "running p inv off w3" by (simp add: w3_def running_core)
  have 4: "running p inv off (mch (srv (\<lambda>s. dg_control (\<lambda>d. d\<lparr>dc_reference_complete := trajectory_done s\<rparr>)
      (supervise_progress now x a b (supervise_limits now b d (record_step sample now dt st rq c s))))) w3)" for a b d st
    by (intro running_core [OF 3]) (simp add: core_def loaded_def supervise_progress_def supervise_limits_def record_step_def Let_def)
  show ?thesis
    unfolding commit_step_def k_def [symmetric] Let_def case_prod_beta w1_def [symmetric] w2_def [symmetric] w3_def [symmetric]
    using finish_step_ok [OF 4] fault_ok [of w1] live [OF r, of "fst (snd k)"] by (simp add: w1_def)
qed

lemma admit_assist_stage:
  assumes "running p inv off w"
  shows "stage p inv off (admit_assist p ops sample x margin error rq now w)"
proof -
  have arm: "stage p inv off (arm_assist p ops sample x rq now w')" if w': "running p inv off w'" for w'
  proof -
    let ?s = "servo_of w'"
    define w1 where "w1 = mch (srv (\<lambda>s. dg_assist (\<lambda>d. d\<lparr>db_boost_spent_ms :=
        db_boost_spent_ms d + f32_cast_u32 (fl (fp_boost_ms (sm_profile ?s)))\<rparr>)
        (s\<lparr>sm_boost_handoff_request := rq, sm_boost_used := True\<rparr>))) w'"
    define qs where "qs = [xq (sq_ArmContinuousBoost ops (sm_token ?s) now (f32_cast_u32 (fl (fp_boost_ms (sm_profile ?s))))),
      xq (sq_SetContinuousBoostPlan ops (sm_token ?s) now (f32_cast_u32 (fl (fp_assist_rise_ms (sm_profile ?s))))
        (f32_cast_u32 (fl (fp_assist_end_ms (sm_profile ?s)))) (f32_to_i32 (fl (fp_peak_press (sm_profile ?s)))) rq)]"
    have 1: "running p inv off w1" unfolding w1_def by (rule running_core [OF w']) (simp add: core_def loaded_def)
    have "keeps inv (all_of qs)" by (rule keeps_all_of) (auto simp: qs_def operation_keeps)
    then have 2: "running p inv off (snd (all_of qs w1))" by (rule keeps_running [OF _ 1])
    then have 3: "running p inv off (mch (srv (dg_assist f)) (snd (snapshot ops g (snd (all_of qs w1)))))"
      for f and g :: "MotorExecutorSnapshot \<Rightarrow> MotorExecutorSnapshot"
      by (intro running_core keeps_running [OF operation_keeps(4)]) simp_all
    show ?thesis
      unfolding arm_assist_def Let_def case_prod_beta w1_def [symmetric] qs_def [symmetric]
      using 3 fault_ok [OF live [OF 2]] by simp
  qed
  have "running p inv off (mch (srv (dg_assist f)) w)" for f
    by (rule running_core [OF assms]) simp
  then show ?thesis using assms arm by (simp add: admit_assist_def Let_def)
qed

lemma output_step_ok:
  assumes "running p inv off w"
  shows "force_ok p inv off (output_step p ops sample x margin dt step now w)"
proof -
  have upd: "force_ok p inv off (case xq (sq_UpdateContinuous ops t q rm now l mx dead c 0 False) w' of
      ((result, committed, il), w) \<Rightarrow> if result \<noteq> MOTOR_RESULT_OK
        then Force_ReportFault p ops FAULT_MOTOR_FAULT FAULT_DETAIL_MOTOR_HARDWARE now w
        else commit_step p ops sample x margin dt de eff st c committed il now w)"
    if "running p inv off w'" for w' t q rm l mx dead c de eff st
    using keeps_running [OF operation_keeps(8) that, of t q rm now l mx dead c 0 False]
    by (simp add: case_prod_beta fault_ok live [of p] commit_step_ok)
  have plan: "running p inv off (snd (plan_step p ops de st rq now w'))" if "running p inv off w'" for w' de st rq
    using keeps_running [OF operation_keeps(3) that] that
    by (simp add: plan_step_def Let_def case_prod_beta)
  define r where "r = (if db_boost_active (assist_of w)
      \<and> (if bp_characterization p then f32_le (sp_error step) (Fin 0) else f32_to_i32 (sp_limited_output step) \<le> 0)
    then xq (sq_EndContinuousBoost ops (sm_token (servo_of w))) (mch (set_assist_exit 3) w) else (True, w))"
  have "running p inv off (mch (set_assist_exit 3) w)" by (rule running_core [OF assms]) simp
  then have 1: "running p inv off (snd r)"
    using keeps_running [OF operation_keeps(10)] assms by (simp add: r_def)
  define a where "a = admit_assist p ops sample x margin (sp_error step) (f32_to_i32 (sp_limited_output step)) now (snd r)"
  have 2: "force_ok p inv off (snd a)" "fst a \<Longrightarrow> running p inv off (snd a)"
    unfolding a_def using admit_assist_stage [OF 1] by (simp_all add: stage_def)
  show ?thesis
    unfolding output_step_def Let_def case_prod_beta [of _ "if _ then _ else _"] r_def [symmetric]
    using 2 plan [OF 2(2)] upd [OF plan [OF 2(2)]] live [OF 1] live [OF plan [OF 2(2)]]
    by (simp add: a_def [symmetric] fault_ok case_prod_beta)
qed

lemma control_step_ok:
  assumes "running p inv off w"
  shows "force_ok p inv off (control_step p ops sample x now w)"
proof -
  have "running p inv off (mch (srv (steer (\<lambda>_. c))) w)" for c by (rule running_core [OF assms]) simp
  then show ?thesis
    using live [OF assms] by (simp add: control_step_def Let_def case_prod_beta fault_ok output_step_ok)
qed

lemma control_sample_ok:
  assumes "running p inv off w"
  shows "force_ok p inv off (control_sample p ops sample x now w)"
proof -
  have r: "running p inv off (mch (srv (record_sample sample)) w)" by (rule running_core [OF assms]) simp
  note c = contact_running(1) [OF r, of now]
  show ?thesis
    using service_assist_ok [OF running_ok [OF assms]] running_ok [OF c] running_ok [OF r] fault_ok [OF live [OF c]]
    by (simp add: control_sample_def Let_def case_prod_beta publish_ok control_step_ok r)
qed

lemma active_sample_ok:
  assumes "running p inv off w"
  shows "force_ok p inv off (active_sample p ops sample x now w)"
proof -
  have i: "inv (fw_e (mch f w))" for f using live [OF assms] by simp
  have r: "running p inv off (mch (srv (latch_contact p sample x)) w)" by (rule running_core [OF assms]) simp
  define c where "c = check_response p ops sample x now (mch (srv (latch_contact p sample x)) w)"
  have c: "force_ok p inv off (snd c)" "fst c \<Longrightarrow> running p inv off (snd c)"
    unfolding c_def using check_response_stage [OF r] by (simp_all add: stage_def)
  define v where "v = watch_boost p ops x now (snd c)"
  have v: "fst c \<Longrightarrow> force_ok p inv off (snd v)" "fst c \<Longrightarrow> fst v \<Longrightarrow> running p inv off (snd v)"
    unfolding v_def using watch_boost_stage [OF c(2)] by (simp_all add: stage_def)
  have k: "force_ok p inv off (if \<not> sm_active (servo_of w') then w' else control_sample p ops sample x now w')"
    if "force_ok p inv off w'" for w'
    using control_sample_ok [of p w' sample x now] that by (simp add: running_def)
  show ?thesis
    unfolding active_sample_def Let_def case_prod_beta c_def [symmetric] v_def [symmetric]
    using c v running_ok [OF v(2)] live [OF assms]
    by (simp add: fault_ok i k service_assist_ok)
qed

lemma pending_start_ok:
  assumes "force_ok p inv off w"
  shows "force_ok p inv off (pending_start p ops sample x now w)"
proof -
  define b where "b \<longleftrightarrow> mc_state (fw_m w) = IDLE \<and> mc_target_valid (fw_m w) \<and> mc_target_pressure_units (fw_m w) > 0
    \<and> ForceServo_TargetAllowed p (Some (sm_profile (servo_of w))) (f32_of_int (mc_target_pressure_units (fw_m w)))
        (\<not> f32_eq (fl (fp_unit (sm_profile (servo_of w)))) (Fin 0)) = FS_PROFILE_OK
    \<and> ForceServo_ProfileConfigValid p (sm_profile (servo_of w)) (sm_config (servo_of w))"
  define r where "r = (if b then all_of [xq (ex_IsHealthy ops), xq (ex_OutputIsDisabled ops),
      snapshot ops (\<lambda>x. \<not> mx_physical_output_locked x)] w else (False, w))"
  have a: "asks inv off (all_of [xq (ex_IsHealthy ops), xq (ex_OutputIsDisabled ops),
      snapshot ops (\<lambda>x. \<not> mx_physical_output_locked x)])"
    by (rule asks_all_of) (auto simp: query_asks)
  have "force_ok p inv off (snd r)" using asks_ok [OF a assms] assms by (simp add: r_def del: of_Cons)
  then have i: "inv (fw_e (snd r))" by (simp add: force_ok_def)
  have c: "loaded (fw_m (snd r)) = loaded (fw_m w)" using asks_machine [OF a, of w] by (simp add: r_def del: of_Cons)
  have "force_ok p inv off (mch (\<lambda>m. m\<lparr>mc_last_command_result := n\<rparr>) (snd (begin_session p ops now
      ((snd r)\<lparr>fw_m := snd (check_plan p x (fw_m (snd r)))\<rparr>))))" for n
    by (rule ok_core [OF begin_session_ok]) (use i c ok_plan [OF assms] in \<open>simp_all add: core_def\<close>)
  then show ?thesis
    unfolding pending_start_def Let_def b_def [symmetric] r_def [symmetric] case_prod_beta
    using i assms by (simp add: fault_ok)
qed

lemma measured_sample_ok:
  assumes "force_ok p inv off w"
  shows "force_ok p inv off (measured_sample p ops sample x now w)"
proof -
  define w1 where "w1 = mch (\<lambda>m. record_peak sample x now (record_after sample x now m)) w"
  have 1: "force_ok p inv off w1" unfolding w1_def by (rule ok_core [OF assms]) simp
  then have "running p inv off w1" if "sm_active (servo_of w1)" using that by (simp add: running_def)
  then show ?thesis
    unfolding measured_sample_def w1_def [symmetric] Let_def
    using 1 by (simp add: publish_ok pending_start_ok active_sample_ok)
qed

lemma accept_sample_ok:
  assumes "force_ok p inv off w"
  shows "force_ok p inv off (accept_sample p ops sample now w)"
proof -
  define w1 where "w1 = mch (store_sample sample now) (Force_CheckPressureSafety p ops now w)"
  have 1: "force_ok p inv off w1"
    unfolding w1_def by (rule ok_core [OF CheckPressureSafety_ok [OF assms]]) simp
  then have "inv (fw_e w1)" by (simp add: force_ok_def)
  moreover have "force_ok p inv off (mch (srv (boundary_context sample now)) w1)" by (rule ok_core [OF 1]) simp
  ultimately show ?thesis
    unfolding accept_sample_def w1_def [symmetric] Let_def case_prod_beta
    using 1 by (simp add: HandleCommand_ok fault_ok measured_sample_ok)
qed

lemma HandlePressureSample_ok:
  assumes "force_ok p inv off w"
  shows "force_ok p inv off (Force_HandlePressureSample p ops sample now w)"
proof -
  have "inv (fw_e w)" using assms by (simp add: force_ok_def)
  moreover have "force_ok p inv off (mch (srv (dg_session f)) w)" for f by (rule ok_core [OF assms]) simp
  ultimately show ?thesis
    using assms unfolding Force_HandlePressureSample_def Let_def by (simp add: fault_ok accept_sample_ok)
qed

subsection \<open>Service, boot and initialisation\<close>

lemma HandleMotorService_ok:
  assumes "force_ok p inv off w"
  shows "force_ok p inv off (Force_HandleMotorService p ops now w)"
proof (cases "sm_active (servo_of w)")
  case True
  define w1 where "w1 = snd (snapshot ops mx_last_completion w)"
  have 1: "running p inv off w1"
    unfolding w1_def by (rule keeps_running [OF operation_keeps(4)]) (simp add: running_def True assms)
  have "core (srv (supervise g) (m\<lparr>mc_motor_request_sequence := 0\<rparr>)) = core m" for g m
    by (simp add: core_def)
  then have "force_ok p inv off (approach_ended p ops now w1)"
    using 1 by (simp add: approach_ended_def Let_def fault_ok live [of p] running_ok ok_core)
  then show ?thesis
    unfolding Force_HandleMotorService_def Let_def case_prod_beta w1_def [symmetric]
    using 1 True by (simp add: publish_ok fault_ok live [of p] running_ok)
next
  case False
  then show ?thesis using assms by (simp add: Force_HandleMotorService_def)
qed

lemma next_approach_ok:
  assumes "force_ok p inv off w"
  shows "force_ok p inv off (next_approach p ops now w)"
proof (cases "sm_active (servo_of w) \<and> \<not> sm_contacted (servo_of w)")
  case True
  define w1 where "w1 = snd (snapshot ops (\<lambda>x. \<not> mx_logical_active x) w)"
  have 1: "running p inv off w1"
    unfolding w1_def by (rule keeps_running [OF operation_keeps(4)]) (use True assms in \<open>simp add: running_def\<close>)
  have 2: "running p inv off (snd (xq (ex_StartRun ops d mv dur bstop now) w1))" for d mv dur bstop
    by (rule keeps_running [OF operation_keeps(5) 1])
  have "core (m\<lparr>mc_motor_request_sequence := n\<rparr>) = core m" for n m by (simp add: core_def)
  then have "force_ok p inv off (mch (\<lambda>m. m\<lparr>mc_motor_request_sequence := n\<rparr>)
      (snd (snapshot ops f (snd (xq (ex_StartRun ops d mv dur bstop now) w1)))))"
    for n d mv dur bstop and f :: "MotorExecutorSnapshot \<Rightarrow> u32"
    by (intro running_ok running_core keeps_running [OF operation_keeps(4) 2]) simp
  then show ?thesis
    using True 1 by (simp add: next_approach_def Let_def case_prod_beta w1_def [symmetric] fault_ok live [OF 2] running_ok)
next
  case False
  then show ?thesis using assms by (auto simp: next_approach_def Let_def)
qed

lemma Tick_ok: "force_ok p inv off w \<Longrightarrow> force_ok p inv off (Force_Tick p ops now w)"
  by (simp add: Force_Tick_def publish_ok next_approach_ok service_assist_ok CheckPressureSafety_ok)

lemma CompleteBoot_ok:
  assumes "force_ok p inv off w"
  shows "force_ok p inv off (Force_CompleteBoot p ops checks now w)"
proof -
  define b where "b \<longleftrightarrow> checks \<and> mc_config_valid (fw_m w)
    \<and> ForceServo_ProfileConfigValid p (sm_profile (servo_of w)) (sm_config (servo_of w))"
  define r where "r = (if b then all_of [xq (ex_OutputIsDisabled ops), xq (ex_IsHealthy ops)] w else (False, w))"
  have a: "asks inv off (all_of [xq (ex_OutputIsDisabled ops), xq (ex_IsHealthy ops)])"
    by (rule asks_all_of) (auto simp: query_asks)
  have r: "force_ok p inv off (snd r)" "fw_m (snd r) = fw_m w"
    using asks_ok [OF a assms] asks_machine [OF a, of w] assms by (simp_all add: r_def del: of_Cons)
  have "force_ok p inv off (publish p ops now (mch (\<lambda>m. m\<lparr>mc_state := IDLE\<rparr>) (snd r)))" if "mc_state (fw_m w) = BOOT_SAFE"
    by (rule publish_ok) (use r that in \<open>auto simp: force_ok_def flags_ok_def driving_def\<close>)
  then show ?thesis
    unfolding Force_CompleteBoot_def Let_def b_def [symmetric] r_def [symmetric] case_prod_beta
    using r assms by (simp add: fault_ok ok_live [of p])
qed

lemma Initialize_ok:
  assumes "inv e"
  shows "force_ok p inv off (Force_Initialize p ops config now e)"
    "core (fw_m (Force_Initialize p ops config now e)) = (BOOT_SAFE, FAULT_NONE, FAULT_DETAIL_NONE, False, False)"
proof -
  show "force_ok p inv off (Force_Initialize p ops config now e)"
    unfolding Force_Initialize_def Let_def case_prod_beta
    by (rule publish_ok)
      (use disable [OF assms] initial_core [of p config] in
        \<open>simp add: force_ok_def flags_ok_def driving_def core_def xq_def case_prod_beta\<close>)
  show "core (fw_m (Force_Initialize p ops config now e)) = (BOOT_SAFE, FAULT_NONE, FAULT_DETAIL_NONE, False, False)"
    by (simp add: Force_Initialize_def Let_def case_prod_beta xq_def initial_core)
qed

end

end
