(* ===== verification/ForceMachineSpec.thy ===== *)
theory ForceMachineSpec
  imports ForceMachineInv
begin

text \<open>
  What the operations of the ForceServo application do beyond the invariant, again from the
  executor's contract: STOP, latched faults, the admission of a start, the opening of a session
  and the deadlines of a running one.
\<close>

context continuous_executor
begin

section \<open>What the operations do\<close>

lemma stop_spec:
  assumes "inv (fw_e w)" "cmd_type c = CMD_STOP \<or> cmd_type c = CMD_JOG_STOP" "Force_HandleCommand p ops c now w = (r, w')"
  shows "r = COMMAND_ACCEPTED \<and> off (fw_e w')
    \<and> core (fw_m w') = (if mc_state (fw_m w) = FAULT then FAULT else IDLE, mc_fault (fw_m w),
        mc_fault_detail (fw_m w), False, False)"
proof -
  note s = stop_command_spec [OF assms(1), of p now]
  have w': "r = COMMAND_ACCEPTED"
    "w' = publish p ops now (mch (\<lambda>m. m\<lparr>mc_last_command_result := COMMAND_ACCEPTED\<rparr>) (snd (stop_command p ops now w)))"
    using assms(2,3) s(1) by (auto simp: Force_HandleCommand_def Let_def case_prod_beta)
  have c: "core (fw_m w') = core (fw_m (snd (stop_command p ops now w)))"
    unfolding w'(2) publish_core by (simp add: core_def)
  have "force_ok p inv off w'"
    unfolding w'(2) by (intro publish_ok ok_core [OF s(2)]) (simp add: core_def)
  moreover have "\<not> sm_active (servo_of w')" using c s(3) by (simp add: core_def)
  ultimately show ?thesis using w'(1) c s(3) by (simp add: force_ok_def)
qed

lemma off_core:
  assumes "force_ok p inv off w" "mc_state (fw_m w) = FAULT"
  shows "core (fw_m w) = (FAULT, mc_fault (fw_m w), mc_fault_detail (fw_m w), False, False)"
  using assms by (auto simp: force_ok_def flags_ok_def driving_def core_def)

lemma latched_command:
  assumes "force_ok p inv off w" "mc_state (fw_m w) = FAULT" "cmd_type c \<noteq> CMD_FAULT_RESET"
  shows "core (fw_m (snd (Force_HandleCommand p ops c now w))) = core (fw_m w)"
proof -
  have i: "inv (fw_e w)" using assms(1) by (simp add: force_ok_def)
  have t: "core (fw_m (snd (target_command p ops t w))) = core (fw_m w)" for t
    using assms(2) by (simp add: target_command_def Let_def core_def)
  have s: "core (fw_m (snd (start_command p ops now w))) = core (fw_m w)"
    using assms(2) by (simp add: start_command_def)
  have p: "core (m\<lparr>mc_last_command_result := r\<rparr>) = core m" for r m by (simp add: core_def)
  show ?thesis
    unfolding Force_HandleCommand_def Let_def case_prod_beta snd_conv publish_core access_simps p
    using stop_command_spec(3) [OF i, of p now] off_core [OF assms(1,2)] assms(2,3) t s by (cases "cmd_type c") simp_all
qed

lemma latched_check:
  assumes "force_ok p inv off w" "mc_state (fw_m w) = FAULT"
  shows "core (fw_m (Force_CheckPressureSafety p ops now w)) = core (fw_m w)"
  using off_core [OF assms] by (simp add: Force_CheckPressureSafety_def Let_def core_def)

lemma latched_sample:
  assumes "force_ok p inv off w" "mc_state (fw_m w) = FAULT"
  shows "core (fw_m (Force_HandlePressureSample p ops sample now w)) = core (fw_m w)"
proof -
  have c: "\<not> engaged (servo_of w')" "\<not> sm_active (servo_of w')" "\<not> sm_start_pending (servo_of w')"
    "mc_state (fw_m w') = FAULT" if "core (fw_m w') = core (fw_m w)" for w' :: "'a force_world"
    using that off_core [OF assms] by (simp_all add: core_def engaged_def)
  have f: "core (fw_m (Force_ReportFault p ops f d now w')) = core (fw_m w)"
    if "core (fw_m w') = core (fw_m w)" for f d w'
    unfolding fault_core using that off_core [OF assms] by (simp add: core_def)
  have a: "core (fw_m (accept_sample p ops sample now w')) = core (fw_m w)"
    if w': "force_ok p inv off w'" "core (fw_m w') = core (fw_m w)" for w'
  proof -
    define w1 where "w1 = mch (store_sample sample now) (Force_CheckPressureSafety p ops now w')"
    have 1: "core (fw_m w1) = core (fw_m w)"
      using latched_check [OF w'(1) c(4) [OF w'(2)]] w'(2) by (simp add: w1_def)
    define w2 where "w2 x = mch (\<lambda>m. record_peak sample x now (record_after sample x now m)) w1" for x
    have "core (fw_m (w2 x)) = core (fw_m w)" for x by (simp add: w2_def 1)
    then have m: "core (fw_m (measured_sample p ops sample x now w1)) = core (fw_m w)" for x
      unfolding measured_sample_def w2_def [symmetric] Let_def by (simp add: c)
    have "\<not> at_boundary p sample now (fw_m w1)" using c(1) [OF 1] by (simp add: at_boundary_def Let_def)
    then show ?thesis
      unfolding accept_sample_def w1_def [symmetric] Let_def case_prod_beta
      using f [OF 1] c [OF 1] 1 m by simp
  qed
  have "force_ok p inv off (mch (srv (dg_session g)) w)" for g by (rule ok_core [OF assms(1)]) simp
  then show ?thesis
    unfolding Force_HandlePressureSample_def Let_def using c [OF refl] a assms(1) by simp
qed

lemma latched_service:
  assumes "force_ok p inv off w" "mc_state (fw_m w) = FAULT"
  shows "core (fw_m (Force_HandleMotorService p ops now w)) = core (fw_m w)"
    "core (fw_m (Force_Tick p ops now w)) = core (fw_m w)"
    "core (fw_m (Force_CompleteBoot p ops checks now w)) = core (fw_m w)"
proof -
  have n: "\<not> sm_active (servo_of (Force_CheckPressureSafety p ops now w))" "\<not> sm_active (servo_of w)"
    using latched_check [OF assms, of now] off_core [OF assms] by (simp_all add: core_def)
  show "core (fw_m (Force_Tick p ops now w)) = core (fw_m w)"
    unfolding Force_Tick_def publish_core
    using latched_check [OF assms, of now] n by (simp add: service_assist_def next_approach_def Let_def)
  show "core (fw_m (Force_HandleMotorService p ops now w)) = core (fw_m w)"
    using n by (simp add: Force_HandleMotorService_def)
  show "core (fw_m (Force_CompleteBoot p ops checks now w)) = core (fw_m w)"
    using assms(2) by (simp add: Force_CompleteBoot_def)
qed

end

end
