(* ===== verification/ForceExecutor.thy ===== *)
theory ForceExecutor
  imports ForceMachineSpec MotorServoProps
begin

text \<open>
  The executor the ForceServo application is linked with: the continuous mode of the real motor
  backend. It satisfies the application's contract, so that every fact of the application's
  locale holds of the linked program.
\<close>

text \<open>
  \<open>tick\<close> is \<^verbatim>\<open>MotorAtomic_Now\<close>: the time an operation that masks the interrupts goes by, read once
  they are masked. On the target it is the vendor's \<^verbatim>\<open>HAL_GetTick\<close>, whatever time the caller
  supplies; on the host it is the supplied one. Here it is any function of both the supplied
  time and the executor's state.
\<close>

type_synonym 'h clock = "u32 \<Rightarrow> 'h servo_motor \<Rightarrow> u32"

definition servo_ops :: "'h clock \<Rightarrow> 'h real_board \<Rightarrow> 'h servo_motor servo_executor" where
  "servo_ops tick b =
    \<lparr>ex_Disable = Servo_Disable b,
     ex_StartRun = (\<lambda>d mv dur bstop now. Servo_Start b d mv dur bstop),
     ex_StartPulse = (\<lambda>d mv dur bstop now. Servo_Start b d mv dur bstop),
     ex_Service = Servo_Service b,
     ex_GuardOutput = Servo_GuardOutput b,
     ex_IsHealthy = Servo_IsHealthy b,
     ex_ActiveRequestIsValid = Servo_ActiveRequestIsValid sv_poll b,
     ex_OutputIsDisabled = Servo_OutputIsDisabled b,
     ex_GetSnapshot = Servo_GetSnapshot b,
     ex_motor = rx_motor,
     ex_PlanCommand = Servo_PlanCommand (rb_policy b),
     sq_MaskedSnapshot = (\<lambda>e. MotorExecutor_SetPhysicalStatus b (timer_hw e)),
     sq_MaskedRequestIsValid = Servo_ActiveRequestIsValid timer_hw b,
     sq_MaskedOutputIsDisabled = output_is_disabled timer_hw b,
     sq_Leave = sv_poll,
     sq_ContinuousExpired = MotorExecutor_ContinuousExpired,
     sq_BeginContinuous = MotorExecutor_BeginContinuous b,
     sq_SetContinuousBudget = (\<lambda>token now duration cap e.
       MotorExecutor_SetContinuousBudget (rb_policy b) token (tick now e) duration cap e),
     sq_ArmContinuousBoost = (\<lambda>token now duration e.
       MotorExecutor_ArmContinuousBoost b token (tick now e) duration e),
     sq_EndContinuousBoost = MotorExecutor_EndContinuousBoost,
     sq_SetContinuousBoostPlan = (\<lambda>token now rise end_ms peak lower e.
       MotorExecutor_SetContinuousBoostPlan b token (tick now e) rise end_ms peak lower e),
     sq_ServiceContinuousBoost = (\<lambda>token now actual finished e.
       MotorExecutor_ServiceContinuousBoost b token (tick now e) actual finished e),
     sq_ContinuousBoostCommand = (\<lambda>token now e.
       let e = sv_poll e in (MotorExecutor_ContinuousBoostCommand token now (sx e), e)),
     sq_HandoffContinuousBoost = (\<lambda>token now requested e.
       MotorExecutor_HandoffContinuousBoost b token (tick now e) requested e),
     sq_UpdateContinuous = (\<lambda>token sequence received now lease max_age deadtime requested committed interlocked e.
       MotorExecutor_UpdateContinuous b token sequence received (tick now e) lease max_age deadtime requested
         committed interlocked e)\<rparr>"

text \<open>No request, no session, the driver shut down and the timer disarmed\<close>

definition servo_off :: "'h servo_motor \<Rightarrow> bool" where
  "servo_off e \<longleftrightarrow> idle e \<and> \<not> sv_open (sx e)"

section \<open>A closed session stays closed\<close>

definition shut :: "'h servo_motor \<Rightarrow> bool" where
  "shut e \<longleftrightarrow> \<not> sv_open (sx e)"

lemma shut_poll [simp]: "shut e \<Longrightarrow> shut (sv_poll e)"
  by (simp add: shut_def poll_def Let_def irq_sx)

lemma shut_same [simp]:
  "shut (MotorExecutor_SetPhysicalStatus b e) = shut e" "shut (MotorHwReal_DisableImmediate e) = shut e"
  "shut (MotorStopTimer_Cancel e) = shut e" "shut (timer_hw e) = shut e"
  "shut (MotorExecutor_LatchFailure r s f e) = shut e" "shut (set_completion c e) = shut e"
  "shut (snd (timer_abort (Servo_PublishCompletion b) r s f e)) = shut e"
  "shut (snd (Servo_PublishCompletion b event e)) = shut e"
  by (simp_all add: shut_def set_completion_def)

lemma or_publish_shut:
  "shut e \<Longrightarrow> (\<And>e. shut e \<Longrightarrow> shut (snd (k e))) \<Longrightarrow> shut (snd (or_publish sv_poll (Servo_PublishCompletion b) k e))"
  using shut_poll [of e] unfolding shut_def
  by (cases "rx_completion_event_pending (sv_poll e)")
    (simp_all add: or_publish_def MotorExecutor_TakeCompletion_def)

lemma guard_next_shut:
  "shut e \<Longrightarrow> (\<And>e. shut e \<Longrightarrow> shut (snd (k e))) \<Longrightarrow> shut (snd (guard_next sv_poll b k e))"
  by (simp add: guard_next_def Let_def MotorExecutor_GuardPendingCompletion_def)

lemma valid_shut: "shut e \<Longrightarrow> shut (snd (Servo_ActiveRequestIsValid sv_poll b e))"
  by (rule Servo_valid_keeps [of shut]) simp_all

lemma Service_shut:
  assumes "shut e"
  shows "shut (snd (Servo_Service b now e))"
  unfolding Servo_Service_def motor_service_def service_idle_def service_active_def
  by (intro or_publish_shut assms) (simp_all add: Let_def or_publish_shut)

lemma Guard_shut:
  assumes "shut e"
  shows "shut (snd (Servo_GuardOutput b e))"
  unfolding Servo_GuardOutput_def motor_guard_def guard_active_def guard_idle_def
  by (intro guard_next_shut assms) (simp_all add: Let_def case_prod_beta guard_next_shut valid_shut)

section \<open>The contract\<close>

lemma off_keeps:
  assumes "servo_off e" "\<And>e. servo_off e \<Longrightarrow> servo_off (pl e)"
  shows "servo_off (snd (Servo_ActiveRequestIsValid pl b e))" "servo_off (snd (output_is_disabled pl b e))"
    "servo_off (snd (is_healthy pl (Servo_ActiveRequestIsValid pl b) b e))"
proof -
  have s: "servo_off (MotorExecutor_SetPhysicalStatus b e)" if "servo_off e" for e :: "'a servo_motor"
    using that by (simp add: servo_off_def)
  show "servo_off (snd (Servo_ActiveRequestIsValid pl b e))"
    by (rule Servo_valid_keeps [of servo_off, OF assms(1)]) (simp_all add: assms(2) s)
  show "servo_off (snd (output_is_disabled pl b e))"
    "servo_off (snd (is_healthy pl (Servo_ActiveRequestIsValid pl b) b e))"
    using query_keeps [of servo_off e pl b "Servo_ActiveRequestIsValid pl b"] assms s
      Servo_valid_keeps [of servo_off] by blast+
qed

lemma off_poll: "servo_off e \<Longrightarrow> servo_off (sv_poll e)"
  using shut_poll [of e] by (simp add: servo_off_def shut_def)

lemma off_status: "servo_off (MotorExecutor_SetPhysicalStatus b e) = servo_off e"
  by (simp add: servo_off_def)

lemma off_timer_hw: "servo_off e \<Longrightarrow> servo_off (timer_hw e)"
  by (auto simp: servo_off_def quiet_def)

lemma Disable_off:
  assumes "servo_inv b e"
  shows "fst (Servo_Disable b e) = MOTOR_RESULT_OK" "servo_off (snd (Servo_Disable b e))"
proof -
  define e1 where "e1 = MotorStopTimer_Cancel (MotorHwReal_DisableImmediate (set_open False e))"
  have "wireable e" using mid_inv_wireable [OF inv_mid [OF assms]] by simp
  then have q: "quiet e1" by (simp add: e1_def)
  have "\<not> sv_open (sx e1)" by (simp add: e1_def set_open_def)
  then have o: "servo_off (snd (disable_finish b e1))"
    using disable_finish_quiet [OF q, of b] by (simp add: servo_off_def)
  show "fst (Servo_Disable b e) = MOTOR_RESULT_OK"
    using disable_finish_quiet(2) [OF q, of b] by (simp add: Servo_Disable_def e1_def)
  show "servo_off (snd (Servo_Disable b e))"
    using off_poll [OF o] by (simp add: Servo_Disable_def e1_def)
qed

lemma valid_inv: "servo_inv b e \<Longrightarrow> servo_inv b (snd (Servo_ActiveRequestIsValid sv_poll b e))"
  using Servo_valid_keeps [of "servo_ok b" e sv_poll b] by (simp add: ok_poll)

lemma masked_queries:
  assumes "servo_inv b e"
  shows "servo_inv b (sv_poll (MotorExecutor_SetPhysicalStatus b (timer_hw e)))"
    "servo_inv b (sv_poll (snd (Servo_ActiveRequestIsValid timer_hw b (MotorExecutor_SetPhysicalStatus b (timer_hw e)))))"
    "servo_inv b (sv_poll (MotorExecutor_SetPhysicalStatus b (timer_hw (snd (output_is_disabled timer_hw b e)))))"
    "servo_inv b (sv_poll (snd (output_is_disabled timer_hw b e)))"
    "servo_inv b (sv_poll e)"
proof -
  have hw: "mid_inv b (timer_hw e')" if "mid_inv b e'" for e'
    using that by (simp add: mid_inv_def mid_timer_hw)
  have m: "mid_inv b e" by (rule inv_mid [OF assms])
  have k: "servo_inv b (sv_poll e')" if "mid_inv b e'" for e'
    using that by (simp add: mid_inv_def mid_poll)
  show "servo_inv b (sv_poll (MotorExecutor_SetPhysicalStatus b (timer_hw e)))"
    "servo_inv b (sv_poll (snd (Servo_ActiveRequestIsValid timer_hw b (MotorExecutor_SetPhysicalStatus b (timer_hw e)))))"
    "servo_inv b (sv_poll (MotorExecutor_SetPhysicalStatus b (timer_hw (snd (output_is_disabled timer_hw b e)))))"
    "servo_inv b (sv_poll (snd (output_is_disabled timer_hw b e)))" "servo_inv b (sv_poll e)"
    by (rule k; simp add: hw m output_is_disabled_def Let_def Servo_valid_keeps [of "mid_inv b"])+
qed

interpretation force: continuous_executor "servo_ops tick b" "servo_inv b" servo_off
  for tick :: "'h clock" and b :: "'h real_board"
proof unfold_locales
  fix e :: "'h servo_motor" and now dur bstop token mv
  assume i: "servo_inv b e"
  show "fst (ex_Disable (servo_ops tick b) e) = MOTOR_RESULT_OK \<and> servo_inv b (snd (ex_Disable (servo_ops tick b) e))
      \<and> servo_off (snd (ex_Disable (servo_ops tick b) e))"
    using Disable_off [OF i] Disable_inv [OF i] by (simp add: servo_ops_def del: masked_simps)
  show "servo_inv b (snd (ex_IsHealthy (servo_ops tick b) e)) \<and> servo_inv b (snd (ex_OutputIsDisabled (servo_ops tick b) e))
      \<and> servo_inv b (snd (ex_ActiveRequestIsValid (servo_ops tick b) e)) \<and> servo_inv b (snd (ex_GetSnapshot (servo_ops tick b) e))
      \<and> servo_inv b (snd (sq_ContinuousExpired (servo_ops tick b) e))
      \<and> servo_inv b (snd (sq_ContinuousBoostCommand (servo_ops tick b) token now e))"
    using query_inv [OF i] valid_inv [OF i] Expired_inv [OF i] i by (simp add: servo_ops_def Let_def ok_poll)
  show "servo_inv b (sq_Leave (servo_ops tick b) (sq_MaskedSnapshot (servo_ops tick b) e))
      \<and> servo_inv b (sq_Leave (servo_ops tick b) (snd (sq_MaskedRequestIsValid (servo_ops tick b) (sq_MaskedSnapshot (servo_ops tick b) e))))
      \<and> servo_inv b (sq_Leave (servo_ops tick b) (sq_MaskedSnapshot (servo_ops tick b) (snd (sq_MaskedOutputIsDisabled (servo_ops tick b) e))))
      \<and> servo_inv b (sq_Leave (servo_ops tick b) (snd (sq_MaskedOutputIsDisabled (servo_ops tick b) e)))
      \<and> servo_inv b (sq_Leave (servo_ops tick b) e)"
    using masked_queries [OF i] by (simp add: servo_ops_def)
  show "servo_inv b (snd (ex_StartRun (servo_ops tick b) d mv dur bstop now e))" for d
    using Start_inv [OF i] by (simp add: servo_ops_def)
  show "servo_inv b (snd (ex_Service (servo_ops tick b) now e)) \<and> servo_inv b (snd (ex_GuardOutput (servo_ops tick b) e))"
    using Service_inv [OF i] Guard_inv [OF i] by (simp add: servo_ops_def)
  show "servo_off (snd (ex_Service (servo_ops tick b) now e)) \<and> servo_off (snd (ex_GuardOutput (servo_ops tick b) e))"
    if "servo_off e"
    using that Service_shut [of e b now] Guard_shut [of e b] servo_core.Service_idle [of e] servo_core.Guard_idle [of e]
    by (simp add: servo_ops_def servo_off_def shut_def Servo_Service_def Servo_GuardOutput_def)
next
  fix e :: "'h servo_motor" and now dur token q rm l mx dead c a il cap
  assume i: "servo_inv b e"
  show "servo_inv b (snd (sq_BeginContinuous (servo_ops tick b) e))
      \<and> servo_inv b (snd (sq_SetContinuousBudget (servo_ops tick b) token now dur cap e))
      \<and> servo_inv b (snd (sq_UpdateContinuous (servo_ops tick b) token q rm now l mx dead c a il e))"
    using Begin_inv [OF i] Budget_inv [OF i] Update_inv [OF i] by (simp add: servo_ops_def del: masked_simps)
next
  fix e :: "'h servo_motor" and now dur token rise end_ms peak lower a fin c
  assume i: "servo_inv b e"
  show "servo_inv b (snd (sq_ArmContinuousBoost (servo_ops tick b) token now dur e))
      \<and> servo_inv b (snd (sq_EndContinuousBoost (servo_ops tick b) token e))
      \<and> servo_inv b (snd (sq_SetContinuousBoostPlan (servo_ops tick b) token now rise end_ms peak lower e))
      \<and> servo_inv b (snd (sq_ServiceContinuousBoost (servo_ops tick b) token now a fin e))
      \<and> servo_inv b (snd (sq_HandoffContinuousBoost (servo_ops tick b) token now c e))"
    using Arm_inv [OF i] End_inv [OF i] Plan_inv [OF i] ServiceBoost_inv [OF i] Handoff_inv [OF i]
    by (simp add: servo_ops_def del: masked_simps)
next
  fix e :: "'h servo_motor"
  assume o: "servo_off e"
  show "servo_off (snd (ex_IsHealthy (servo_ops tick b) e)) \<and> servo_off (snd (ex_OutputIsDisabled (servo_ops tick b) e))
      \<and> servo_off (snd (ex_GetSnapshot (servo_ops tick b) e))"
    using off_keeps [OF o, of sv_poll b] off_poll [OF o]
    by (simp add: servo_ops_def off_poll Servo_IsHealthy_def Servo_OutputIsDisabled_def Servo_GetSnapshot_def)
      (simp add: servo_off_def)
  show "servo_off (sq_Leave (servo_ops tick b) (sq_MaskedSnapshot (servo_ops tick b) e))
      \<and> servo_off (sq_Leave (servo_ops tick b) (snd (sq_MaskedRequestIsValid (servo_ops tick b) (sq_MaskedSnapshot (servo_ops tick b) e))))
      \<and> servo_off (sq_Leave (servo_ops tick b) (sq_MaskedSnapshot (servo_ops tick b) (snd (sq_MaskedOutputIsDisabled (servo_ops tick b) e))))
      \<and> servo_off (sq_Leave (servo_ops tick b) (snd (sq_MaskedOutputIsDisabled (servo_ops tick b) e)))
      \<and> servo_off (sq_Leave (servo_ops tick b) e)"
    using o by (simp add: servo_ops_def off_poll off_keeps off_timer_hw off_status)
qed

end
