(* ===== verification/ForceProtocol.thy ===== *)
theory ForceProtocol
  imports ForceExecutor ModbusMap
begin

text \<open>
  The ForceServo registers, \<^verbatim>\<open>Transport/Modbus/force_servo_protocol.c\<close>: commands, the
  snapshot of the diagnostics, the transfer of a configuration (begin, words, commit) and, in the
  characterization build, of a plan (begin, words, commit, read back, acknowledge, arm). A region
  with interrupts masked is the masked queries followed by \<open>sq_Leave\<close>.
\<close>

section \<open>Addresses\<close>

abbreviation (input) FS_REG_PLAN_BEGIN :: u16 where "FS_REG_PLAN_BEGIN \<equiv> 0x0500"
abbreviation (input) FS_REG_PLAN_COMMIT :: u16 where "FS_REG_PLAN_COMMIT \<equiv> 0x0501"
abbreviation (input) FS_REG_PLAN_STAGE :: u16 where "FS_REG_PLAN_STAGE \<equiv> 0x0510"
abbreviation (input) FS_REG_PLAN_ACK :: u16 where "FS_REG_PLAN_ACK \<equiv> 0x0520"
abbreviation (input) FS_REG_PLAN_ARM :: u16 where "FS_REG_PLAN_ARM \<equiv> 0x0524"
abbreviation (input) FS_REG_PLAN_ACTIVE :: u16 where "FS_REG_PLAN_ACTIVE \<equiv> 0x0540"
abbreviation (input) FS_PLAN_READ_WORDS :: u16 where "FS_PLAN_READ_WORDS \<equiv> 12"
abbreviation (input) FS_REG_BEGIN :: u16 where "FS_REG_BEGIN \<equiv> 0x0100"
abbreviation (input) FS_REG_COMMIT :: u16 where "FS_REG_COMMIT \<equiv> 0x0101"
abbreviation (input) FS_REG_SNAPSHOT :: u16 where "FS_REG_SNAPSHOT \<equiv> 0x0102"
abbreviation (input) FS_REG_TARGET_N :: u16 where "FS_REG_TARGET_N \<equiv> 0x0103"
abbreviation (input) FS_REG_PROFILE_SELECT :: u16 where "FS_REG_PROFILE_SELECT \<equiv> 0x0104"
abbreviation (input) FS_REG_PROFILE :: u16 where "FS_REG_PROFILE \<equiv> 0x0180"
abbreviation (input) FS_REG_CONFIG :: u16 where "FS_REG_CONFIG \<equiv> 0x0110"
abbreviation (input) FS_REG_CANDIDATES :: u16 where "FS_REG_CANDIDATES \<equiv> 0x0400"
abbreviation (input) FS_INPUT_INFO :: u16 where "FS_INPUT_INFO \<equiv> 0x0100"
abbreviation (input) FS_INPUT_SNAPSHOT :: u16 where "FS_INPUT_SNAPSHOT \<equiv> 0x0200"
abbreviation (input) FS_COIL_START :: u16 where "FS_COIL_START \<equiv> 0x0010"
abbreviation (input) FS_COIL_RESET :: u16 where "FS_COIL_RESET \<equiv> 0x0011"

text \<open>25 parameters, 33 profile fields and 113 diagnostic fields of two words each\<close>

abbreviation (input) FORCE_SERVO_CONFIG_WORDS :: u16 where "FORCE_SERVO_CONFIG_WORDS \<equiv> 50"
abbreviation (input) FORCE_SERVO_PROFILE_WORDS :: u16 where "FORCE_SERVO_PROFILE_WORDS \<equiv> 66"
abbreviation (input) FORCE_SERVO_DIAG_WORDS :: u16 where "FORCE_SERVO_DIAG_WORDS \<equiv> 226"

section \<open>Words\<close>

text \<open>A 32-bit value as two registers, the high one first.\<close>

definition words_of :: "u32 \<Rightarrow> u16 list" where
  "words_of v = [ucast (drop_bit 16 v), ucast v]"

text \<open>Register \<open>i\<close> of a table of 32-bit values\<close>

definition table_word :: "u32 list \<Rightarrow> nat \<Rightarrow> u16" where
  "table_word us i = concat (map words_of us) ! i"

section \<open>The snapshot of the diagnostics\<close>

text \<open>\<open>FORCE_SERVO_DIAG_U32\<close> and \<open>FORCE_SERVO_DIAG_FLOAT\<close>, in the order of the wire.\<close>

definition ForceServoRejection_code :: "ForceServoRejection \<Rightarrow> u32" where
  "ForceServoRejection_code r =
    (case r of FS_PROFILE_OK \<Rightarrow> 0 | FS_PROFILE_INVALID \<Rightarrow> 1 | FS_MISSING_SENSOR_RANGE \<Rightarrow> 2
     | FS_MISSING_CALIBRATION \<Rightarrow> 3 | FS_MISSING_MECHANICAL_LIMIT \<Rightarrow> 4
     | FS_MISSING_CURRENT_TIME_LIMIT \<Rightarrow> 5 | FS_TARGET_OUTSIDE_OPERATING_RANGE \<Rightarrow> 6
     | FS_TARGET_OUTSIDE_CALIBRATION \<Rightarrow> 7 | FS_TRAJECTORY_EXCEEDS_BUDGET \<Rightarrow> 8
     | FS_BOOST_UNQUALIFIED \<Rightarrow> 9 | FS_WRONG_TARGET_UNIT \<Rightarrow> 10
     | FS_EXPERIMENT_LIMITS_UNREVIEWED \<Rightarrow> 11 | FS_COOLING_REQUIRED \<Rightarrow> 12)"

definition diagnostic_words :: "ForceServoDiagnostic \<Rightarrow> u32 list" where
  "diagnostic_words d =
    (let s = fd_status d; c = fd_control d; n = fd_session d; a = fd_assist d
     in [ds_schema s, ds_build_id s, ds_revision s, ds_now_ms s, dc_control_at_ms c,
         dc_sample_hi c, dc_sample_lo c, dc_received_ms c, ds_age_ms s, dc_control_sequence c,
         ds_session s, ds_config_version s, ds_config_digest s, ucast (MachineState_code (ds_state s)),
         ucast (MachineFault_code (ds_fault s)), ucast (FaultDetail_code (ds_detail s)),
         dc_raw c, dc_limits c, ds_lease_deadline s, of_bool (ds_lease_active s), ucast (ds_tim2 s),
         ucast (ds_tim3 s),
         of_bool (ds_locked s), of_bool (ds_output_off s), of_bool (dn_contact_count n),
         dn_contact_lost_count n, dn_contact_at_ms n,
         dn_contact_raw n, dn_contact_lost_raw n, ds_contact_threshold s, ds_session_started_ms s,
         dc_saturated_ms c, dc_tracking_ms c, dn_skipped_samples n, dn_rx_interval_min_ms n,
         dn_rx_interval_max_ms n, ds_latest_sample_hi s, ds_latest_sample_lo s,
         ds_latest_received_ms s, ds_latest_raw s, dn_delivered_interval_min_ms n,
         dn_delivered_interval_max_ms n,
         of_bool (ds_start_pending s), ds_start_requested_ms s,
         ucast (MachineCommandResult_code (ds_last_command_result s)),
         dn_session_peak_raw n, dn_session_peak_received_ms n,
         ds_profile_id s, ds_profile_digest s, ds_unit s, ForceServoRejection_code (dn_rejection n),
         dc_progress_status c, dc_no_response_ms c,
         of_bool (dc_reference_complete c), dc_hold_ms c, ds_energized_elapsed_ms s,
         of_bool (db_boost_active a), db_boost_deadline_ms a, db_boost_spent_ms a,
         of_bool (ds_measured_valid s),
         db_boost_started_ms a, db_boost_duration_ms a, db_boost_elapsed_ms a, db_boost_end_ms a,
         db_boost_end_reason a,
         db_boost_peak_command a, db_boost_before_received_ms a, db_boost_after_received_ms a,
         of_bool (db_boost_after_valid a),
         db_assist_admission a, db_assist_exit a, db_assist_requested_peak a, ucast (db_assist_peak_ccr a),
         db_assist_rise_ms a, db_assist_normal_end_ms a, ds_cooling_until_ms s,
         of_bool (ds_cooling_active s),
         of_bool (db_assist_response_pending a), db_assist_after_result a,
         db_boost_after_sample_hi a, db_boost_after_sample_lo a,
         dn_run_reason n, of_bool (dn_target_reached n), dn_target_reached_ms n, ds_plan_version s,
         ds_plan_digest s]
        @ map f32_bits
        [dc_dt_s c, dc_filtered c, ds_target s, dc_reference c, dc_reference_rate c, dc_error c,
         dc_p c, dc_i c, dc_d c, dc_ff c, dc_raw_output c, dc_control_committed c, dc_next_integral c,
         ds_current_committed s,
         dc_control_pressure c, dc_requested_output c, dc_post_limit_output c,
         ds_measured s, ds_force_N s, dn_planned_reference_s n, dc_progress_delta c,
         dn_session_peak_measured n,
         db_boost_handoff_command a, db_boost_pressure_before a, db_boost_pressure_after a,
         db_assist_pressure_peak a,
         db_assist_response_peak a])"

text \<open>Masking interrupts changes nothing here but the moment a pending one is taken.\<close>

definition freeze :: "'e servo_executor \<Rightarrow> 'e force_world \<Rightarrow> 'e force_world" where
  "freeze ops w =
    mch (srv (\<lambda>s. s\<lparr>sm_frozen := concat (map words_of (diagnostic_words (sm_diagnostic s)))\<rparr>))
      (w\<lparr>fw_e := sq_Leave ops (fw_e w)\<rparr>)"

section \<open>Writes\<close>

definition ForceServoProtocol_WriteAddress :: "build_policy \<Rightarrow> u8 \<Rightarrow> u16 \<Rightarrow> bool" where
  "ForceServoProtocol_WriteAddress p f a \<longleftrightarrow>
    f = 5 \<and> (a = FS_COIL_START \<or> a = FS_COIL_RESET)
    \<or> f = 6
      \<and> (a \<ge> FS_REG_BEGIN \<and> a \<le> FS_REG_PROFILE_SELECT
         \<or> a \<ge> FS_REG_CONFIG \<and> a < FS_REG_CONFIG + FORCE_SERVO_CONFIG_WORDS
         \<or> bp_characterization p
           \<and> (a = FS_REG_PLAN_BEGIN \<or> a = FS_REG_PLAN_COMMIT \<or> a = FS_REG_PLAN_ARM
              \<or> a \<ge> FS_REG_PLAN_STAGE \<and> a < FS_REG_PLAN_STAGE + 10
              \<or> a \<ge> FS_REG_PLAN_ACK \<and> a < FS_REG_PLAN_ACK + 4))"

text \<open>\<open>invalid:\<close>\<close>

definition plan_invalid :: "'e force_world \<Rightarrow> MachineCommandResult \<times> 'e force_world" where
  "plan_invalid w =
    (COMMAND_INVALID_VALUE,
     mch (\<lambda>m. srv (planning (\<lambda>l. l\<lparr>pl_staging_open := False, pl_available := False\<rparr>))
       (m\<lparr>mc_target_valid := False\<rparr>)) w)"

text \<open>The plan that has been staged, and what its commit sets up.\<close>

definition staged_plan :: "u16 list \<Rightarrow> ForceCharacterizationPlan" where
  "staged_plan ws = \<lparr>cp_target_N = word32 (ws ! 0) (ws ! 1), cp_assist_percent = word32 (ws ! 2) (ws ! 3),
     cp_continuous_percent = word32 (ws ! 4) (ws ! 5)\<rparr>"

definition install_plan :: "build_policy \<Rightarrow> ForceCharacterizationPlan \<Rightarrow> u32 \<Rightarrow> ForceContext \<Rightarrow> ForceContext" where
  "install_plan p c digest m =
    srv (\<lambda>s. planning (\<lambda>l. l\<lparr>pl_plan := c, pl_read_mask := 0, pl_ack_mask := 0,
              pl_version := pl_version l + 1, pl_digest := digest, pl_available := True\<rparr>)
          (s\<lparr>sm_config := plan_config p c, sm_profile := plan_profile p c, sm_controller := zero_servo,
             sm_config_version := pl_version (sm_plan s) + 2,
             sm_config_digest := ForceServo_ConfigDigest p (plan_config p c)\<rparr>))
      (m\<lparr>mc_target_pressure_units := f32_to_i32 (fl (cp_target_N c)), mc_target_valid := True\<rparr>)"

text \<open>An idle machine without a start and with its output off, asked for with interrupts masked.\<close>

definition masked_idle :: "'e servo_executor \<Rightarrow> bool \<Rightarrow> 'e force_world \<Rightarrow> bool \<times> 'e force_world" where
  "masked_idle ops inactive w =
    (let s = servo_of w
     in if mc_state (fw_m w) \<noteq> IDLE \<or> sm_active s \<or> sm_start_pending s then (False, w)
        else
          (let (off, w) = xq (sq_MaskedOutputIsDisabled ops) w
           in if \<not> off then (False, w)
              else if inactive
              then (let w = w\<lparr>fw_e := sq_MaskedSnapshot ops (fw_e w)\<rparr>
                    in (\<not> mx_logical_active (ex_motor ops (fw_e w)), w))
              else (True, w)))"

definition leave :: "'e servo_executor \<Rightarrow> 'e force_world \<Rightarrow> 'e force_world" where
  "leave ops w = w\<lparr>fw_e := sq_Leave ops (fw_e w)\<rparr>"

definition commit_plan ::
  "build_policy \<Rightarrow> 'e servo_executor \<Rightarrow> u32 \<Rightarrow> 'e force_world \<Rightarrow> MachineCommandResult \<times> 'e force_world" where
  "commit_plan p ops now w =
    (let l = sm_plan (servo_of w); ws = pl_staging l; c = staged_plan ws;
         w = mch (srv (planning (\<lambda>l. l\<lparr>pl_staging_open := False\<rparr>))) w;
         digest = word32 (ws ! 8) (ws ! 9)
     in if pl_mask l \<noteq> 0x3FF \<or> pl_version l = 0xFFFFFFFF
          \<or> word32 (ws ! 6) (ws ! 7) \<noteq> pl_version l \<or> \<not> ForceServo_CharacterizationPlanValid p c
          \<or> digest \<noteq> ForceServo_CharacterizationDigest c
          \<or> \<not> ForceServo_ProfileConfigValid p (plan_profile p c) (plan_config p c)
        then plan_invalid w
        else
          (let (idle, w) = masked_idle ops True w
           in if \<not> idle then plan_invalid (leave ops w)
              else (COMMAND_ACCEPTED, Force_Tick p ops now (leave ops (mch (install_plan p c digest) w)))))"

definition plan_write ::
  "build_policy \<Rightarrow> 'e servo_executor \<Rightarrow> u16 \<Rightarrow> u16 \<Rightarrow> u32 \<Rightarrow> 'e force_world \<Rightarrow> MachineCommandResult \<times> 'e force_world" where
  "plan_write p ops a v now w =
    (let w = mch (srv (planning (\<lambda>l. l\<lparr>pl_armed := False\<rparr>))) w; l = sm_plan (servo_of w);
         i = unat (a - FS_REG_PLAN_STAGE); j = unat (a - FS_REG_PLAN_ACK)
     in if a = FS_REG_PLAN_BEGIN \<and> v = 0xB501
        then (COMMAND_ACCEPTED,
              mch (\<lambda>m. srv (planning (\<lambda>l. l\<lparr>pl_mask := 0, pl_read_mask := 0, pl_ack_mask := 0,
                    pl_staging_open := True, pl_available := False\<rparr>)) (m\<lparr>mc_target_valid := False\<rparr>)) w)
        else if a \<ge> FS_REG_PLAN_STAGE \<and> a < FS_REG_PLAN_STAGE + 10 \<and> pl_staging_open l
        then (COMMAND_ACCEPTED,
              mch (srv (planning (\<lambda>l. l\<lparr>pl_staging := (pl_staging l)[i := v],
                    pl_mask := pl_mask l OR push_bit i 1\<rparr>))) w)
        else if a = FS_REG_PLAN_COMMIT \<and> v = 0xC501 \<and> pl_staging_open l
        then commit_plan p ops now w
        else if a \<ge> FS_REG_PLAN_ACK \<and> a < FS_REG_PLAN_ACK + 4 \<and> pl_available l
        then (COMMAND_ACCEPTED,
              mch (srv (planning (\<lambda>l. l\<lparr>pl_ack := (pl_ack l)[j := v],
                    pl_ack_mask := pl_ack_mask l OR push_bit j 1\<rparr>))) w)
        else if a = FS_REG_PLAN_ARM \<and> v = 0xA501 \<and> pl_available l
             \<and> pl_read_mask l = 0xFFF \<and> pl_ack_mask l = 15
             \<and> word32 (pl_ack l ! 0) (pl_ack l ! 1) = pl_version l
             \<and> word32 (pl_ack l ! 2) (pl_ack l ! 3) = pl_digest l
        then (COMMAND_ACCEPTED, mch (srv (planning (\<lambda>l. l\<lparr>pl_armed := True\<rparr>))) w)
        else plan_invalid w)"

section \<open>Configurations and targets\<close>

text \<open>The fields of \<open>ForceServoConfig\<close>, in the order of \<open>FORCE_SERVO_PARAMETERS\<close>, from staged words.\<close>

definition staged_config :: "u16 list \<Rightarrow> ForceServoConfig" where
  "staged_config ws =
    (let n = (\<lambda>i. word32 (ws ! (2 * i)) (ws ! (2 * i + 1)))
     in \<lparr>fc_kp = n 0, fc_ki = n 1, fc_kd = n 2, fc_d_filter_s = n 3, fc_reference_rate = n 4,
         fc_reference_acceleration = n 5, fc_output_rate = n 6, fc_press_cap = n 7,
         fc_release_cap = n 8, fc_integral_min = n 9, fc_integral_max = n 10,
         fc_tracking_gain = n 11, fc_measurement_filter_s = n 12, fc_control_min_ms = n 13,
         fc_feedback_gap_ms = n 14, fc_sample_age_ms = n 15, fc_lease_ms = n 16, fc_hold_enter = n 17,
         fc_hold_exit = n 18, fc_session_ms = n 19, fc_saturation_ms = n 20, fc_tracking_error = n 21,
         fc_tracking_ms = n 22, fc_reverse_deadtime_ms = n 23, fc_hold_dwell_ms = n 24\<rparr>)"

definition staging_upd :: "(ForceStaging \<Rightarrow> ForceStaging) \<Rightarrow> ForceServoMachine \<Rightarrow> ForceServoMachine" where
  "staging_upd f s = s\<lparr>sm_staging := f (sm_staging s)\<rparr>"

definition install_config :: "build_policy \<Rightarrow> ForceServoConfig \<Rightarrow> ForceServoMachine \<Rightarrow> ForceServoMachine" where
  "install_config p c s =
    staging_upd (\<lambda>g. g\<lparr>cs_open := False\<rparr>)
      (s\<lparr>sm_config := c, sm_controller := zero_servo,
         sm_config_version := next_session (sm_config_version s),
         sm_config_digest := ForceServo_ConfigDigest p c\<rparr>)"

definition commit_config ::
  "build_policy \<Rightarrow> 'e servo_executor \<Rightarrow> u16 \<Rightarrow> u32 \<Rightarrow> 'e force_world \<Rightarrow> MachineCommandResult \<times> 'e force_world" where
  "commit_config p ops v now w =
    (let s = servo_of w; g = sm_staging s; c = staged_config (cs_staging g)
     in if v \<noteq> 0xC101 \<or> cs_mask g \<noteq> push_bit 50 1 - 1 \<or> cs_version g \<noteq> sm_config_version s
        then (COMMAND_INVALID_VALUE, w)
        else if \<not> ForceServo_ProfileConfigValid p (sm_profile s) c
        then (COMMAND_INVALID_VALUE, mch (srv (staging_upd (\<lambda>g. g\<lparr>cs_open := False\<rparr>))) w)
        else
          (let (idle, w) = masked_idle ops False w
           in if \<not> idle then (COMMAND_BUSY, leave ops w)
              else (COMMAND_ACCEPTED,
                    Force_Tick p ops now (leave ops (mch (srv (install_config p c)) w)))))"

text \<open>\<open>selected->experiment_enabled\<close> is a float read as a condition.\<close>

definition select_profile ::
  "build_policy \<Rightarrow> 'e servo_executor \<Rightarrow> u16 \<Rightarrow> u32 \<Rightarrow> 'e force_world \<Rightarrow> MachineCommandResult \<times> 'e force_world" where
  "select_profile p ops v now w =
    (let s = servo_of w; refused = (\<lambda>r m. (set_rejection r m)\<lparr>mc_target_valid := False\<rparr>)
     in if v = f32_cast_u16 (fl (fp_id (sm_profile s)))
           \<and> \<not> f32_eq (fl (fp_experiment_enabled (sm_profile s))) (Fin 0)
        then (COMMAND_ACCEPTED, w)
        else
          (case ForceServo_FindProfile p v of
             None \<Rightarrow> (COMMAND_INVALID_VALUE, mch (refused FS_PROFILE_INVALID) w)
           | Some q \<Rightarrow>
               if f32_eq (fl (fp_experiment_enabled q)) (Fin 0)
               then (COMMAND_NOT_READY,
                     Force_Tick p ops now (mch (refused FS_EXPERIMENT_LIMITS_UNREVIEWED) w))
               else if \<not> ForceServo_ProfileConfigValid p q (sm_config s) then (COMMAND_INVALID_VALUE, w)
               else (COMMAND_ACCEPTED,
                     Force_Tick p ops now (mch (srv (\<lambda>s. staging_upd (\<lambda>g. g\<lparr>cs_open := False\<rparr>)
                       (s\<lparr>sm_profile := q\<rparr>))) w))))"

definition write_target ::
  "build_policy \<Rightarrow> 'e servo_executor \<Rightarrow> u16 \<Rightarrow> u32 \<Rightarrow> 'e force_world \<Rightarrow> MachineCommandResult \<times> 'e force_world" where
  "write_target p ops v now w =
    (let r = ForceServo_TargetAllowed p (Some (sm_profile (servo_of w))) (f32_of_int (uint v)) True;
         w = mch (set_rejection r) w
     in if r \<noteq> FS_PROFILE_OK
        then (COMMAND_INVALID_VALUE, Force_Tick p ops now (mch (\<lambda>m. m\<lparr>mc_target_valid := False\<rparr>) w))
        else Force_HandleCommand p ops
               \<lparr>cmd_type = CMD_SET_TARGET, cmd_target_pressure_units = uint v\<rparr> now w)"

definition config_write ::
  "build_policy \<Rightarrow> 'e servo_executor \<Rightarrow> u16 \<Rightarrow> u16 \<Rightarrow> u32 \<Rightarrow> 'e force_world \<Rightarrow> MachineCommandResult \<times> 'e force_world" where
  "config_write p ops a v now w =
    (let i = unat (a - FS_REG_CONFIG)
     in if a = FS_REG_PROFILE_SELECT then select_profile p ops v now w
        else if a = FS_REG_TARGET_N then write_target p ops v now w
        else if a = FS_REG_BEGIN
        then (if v \<noteq> 0xB101 then (COMMAND_INVALID_VALUE, w)
              else (COMMAND_ACCEPTED, mch (srv (\<lambda>s. staging_upd (\<lambda>g. g\<lparr>cs_mask := 0,
                      cs_version := sm_config_version s, cs_open := True\<rparr>) s)) w))
        else if \<not> cs_open (sm_staging (servo_of w)) then (COMMAND_NOT_READY, w)
        else if a \<ge> FS_REG_CONFIG
        then (COMMAND_ACCEPTED, mch (srv (staging_upd (\<lambda>g. g\<lparr>cs_staging := (cs_staging g)[i := v],
                cs_mask := cs_mask g OR push_bit i 1\<rparr>))) w)
        else if a = FS_REG_COMMIT then commit_config p ops v now w
        else (COMMAND_UNSUPPORTED, w))"

definition ForceServoProtocol_Write ::
  "build_policy \<Rightarrow> 'e servo_executor \<Rightarrow> u8 \<Rightarrow> u16 \<Rightarrow> u16 \<Rightarrow> u32 \<Rightarrow> 'e force_world
    \<Rightarrow> MachineCommandResult \<times> 'e force_world" where
  "ForceServoProtocol_Write p ops f a v now w =
    (if \<not> ForceServoProtocol_WriteAddress p f a then (COMMAND_UNSUPPORTED, w)
     else if f = 5
     then (if v \<noteq> 0xFF00 then (COMMAND_INVALID_VALUE, w)
           else Force_HandleCommand p ops
                  \<lparr>cmd_type = (if a = FS_COIL_START then CMD_FORCE_START else CMD_FAULT_RESET),
                   cmd_target_pressure_units = 0\<rparr> now w)
     else if a = FS_REG_SNAPSHOT
     then (if v \<noteq> 0xD101 then (COMMAND_INVALID_VALUE, w) else (COMMAND_ACCEPTED, freeze ops w))
     else
       (let s = servo_of w;
            (idle, w) = (if mc_state (fw_m w) \<noteq> IDLE \<or> sm_active s \<or> sm_start_pending s then (False, w)
                         else all_of [xq (ex_OutputIsDisabled ops),
                                snapshot ops (\<lambda>x. \<not> mx_logical_active x)] w)
        in if \<not> idle then (COMMAND_BUSY, w)
           else if bp_characterization p then plan_write p ops a v now w
           else config_write p ops a v now w))"

section \<open>Reads\<close>

definition profile_words :: "build_policy \<Rightarrow> ForceServoProfile \<Rightarrow> u32 list" where
  "profile_words p q = map (\<lambda>(n, _). n q) (FORCE_SERVO_PROFILE_FIELDS p)"

definition config_words :: "build_policy \<Rightarrow> ForceServoConfig \<Rightarrow> u32 list" where
  "config_words p c = map (\<lambda>(n, _). n c) (FORCE_SERVO_PARAMETERS p)"

text \<open>The twelve words of the active plan\<close>

definition plan_words :: "ForcePlanState \<Rightarrow> u16 list" where
  "plan_words l =
    (let c = pl_plan l
     in concat (map words_of [cp_target_N c, cp_assist_percent c, cp_continuous_percent c])
        @ [of_int (ForceServo_PercentCommand (fl (cp_assist_percent c))),
           of_int (ForceServo_PercentCommand (fl (cp_continuous_percent c)))]
        @ words_of (pl_version l) @ words_of (pl_digest l))"

text \<open>The value read, if the address is one of the protocol; reading the plan is noted.\<close>

definition read_holding :: "build_policy \<Rightarrow> u16 \<Rightarrow> ForceContext \<Rightarrow> u16 option \<times> ForceContext" where
  "read_holding p a m =
    (let s = mc_servo m; offset = (\<lambda>base. unat (a - base))
     in if bp_characterization p \<and> a \<ge> FS_REG_PLAN_ACTIVE \<and> a < FS_REG_PLAN_ACTIVE + FS_PLAN_READ_WORDS
        then (Some (plan_words (sm_plan s) ! offset FS_REG_PLAN_ACTIVE),
              srv (planning (\<lambda>l. l\<lparr>pl_read_mask :=
                pl_read_mask l OR push_bit (offset FS_REG_PLAN_ACTIVE) 1\<rparr>)) m)
        else if a \<ge> FS_REG_CANDIDATES \<and> a < FS_REG_CANDIDATES + 3 * FORCE_SERVO_PROFILE_WORDS
        then (Some (table_word (concat (map (profile_words p) g_force_servo_candidates))
                (offset FS_REG_CANDIDATES)), m)
        else if a \<ge> FS_REG_PROFILE \<and> a < FS_REG_PROFILE + FORCE_SERVO_PROFILE_WORDS
        then (Some (table_word (profile_words p (sm_profile s)) (offset FS_REG_PROFILE)), m)
        else if a = FS_REG_PROFILE_SELECT then (Some (f32_cast_u16 (fl (fp_id (sm_profile s)))), m)
        else if a = FS_REG_TARGET_N
        then (Some (if \<not> f32_eq (fl (fp_unit (sm_profile s))) (Fin 0) \<and> mc_target_valid m
                    then of_int (mc_target_pressure_units m) else 0), m)
        else if a \<ge> FS_REG_CONFIG \<and> a < FS_REG_CONFIG + FORCE_SERVO_CONFIG_WORDS
        then (Some (table_word (config_words p (sm_config s)) (offset FS_REG_CONFIG)), m)
        else (None, m))"

definition read_input :: "build_policy \<Rightarrow> 'e servo_executor \<Rightarrow> u16 \<Rightarrow> 'e force_world \<Rightarrow> u16 option \<times> 'e force_world" where
  "read_input p ops a w =
    (let s = servo_of w; i = a - FS_INPUT_INFO; pure = (\<lambda>v. (Some v, w))
     in if a \<ge> FS_INPUT_SNAPSHOT \<and> a < FS_INPUT_SNAPSHOT + FORCE_SERVO_DIAG_WORDS
        then pure (sm_frozen s ! unat (a - FS_INPUT_SNAPSHOT))
        else if i = 0 then pure (ucast (FORCE_SERVO_SCHEMA p))
        else if i = 1
        then (let (locked, w) = snapshot ops mx_physical_output_locked w in (Some (of_bool locked), w))
        else if i = 2 then pure FORCE_SERVO_CONFIG_WORDS
        else if i = 3 then pure FORCE_SERVO_DIAG_WORDS
        else if i = 4 then pure (ucast (drop_bit 16 (sm_config_version s)))
        else if i = 5 then pure (ucast (sm_config_version s))
        else if i = 6 then pure (ucast (drop_bit 16 (sm_config_digest s)))
        else if i = 7 then pure (ucast (sm_config_digest s))
        else (None, w))"

definition ForceServoProtocol_Read ::
  "build_policy \<Rightarrow> 'e servo_executor \<Rightarrow> bool \<Rightarrow> u16 \<Rightarrow> 'e force_world \<Rightarrow> u16 option \<times> 'e force_world" where
  "ForceServoProtocol_Read p ops holding a w =
    (if holding then (case read_holding p a (fw_m w) of (v, m) \<Rightarrow> (v, w\<lparr>fw_m := m\<rparr>))
     else read_input p ops a w)"

end
