(* ===== verification/ForceRun.thy ===== *)
theory ForceRun
  imports ForceProtocol Runtime
begin

text \<open>
  The linked ForceServo program as a sequence of calls: the application's entry points, the
  executor's service and guard, reads and writes of the protocol, and what the timer does
  between them. Every call keeps the invariant of the application.
\<close>

section \<open>The protocol keeps the invariant\<close>

lemma plan_kept:
  assumes "plan_ok p (l, x)" "\<not> pl_armed l'"
    "pl_available l' \<Longrightarrow> pl_available l \<and> pl_plan l' = pl_plan l \<and> pl_digest l' = pl_digest l"
  shows "plan_ok p (l', x)"
  using assms by (cases x) (auto simp: plan_ok_def)

lemma plan_arm:
  assumes "plan_ok p (l, x)" "pl_available l" "pl_read_mask l = 0xFFF" "pl_ack_mask l = 15"
    "word32 (pl_ack l ! 0) (pl_ack l ! 1) = pl_version l" "word32 (pl_ack l ! 2) (pl_ack l ! 3) = pl_digest l"
  shows "plan_ok p (l\<lparr>pl_armed := True\<rparr>, x)"
  using assms by (cases x) (simp add: plan_ok_def)

lemma plan_read:
  assumes "plan_ok p (l, x)" "i < 12"
  shows "plan_ok p (l\<lparr>pl_read_mask := pl_read_mask l OR push_bit i 1\<rparr>, x)"
proof -
  have "(0xFFF :: u16) OR push_bit i 1 = 0xFFF"
    using assms(2) by (auto simp: less_Suc_eq numeral_eq_Suc push_bit_eq_mult)
  then show ?thesis using assms(1) by (cases x) (auto simp: plan_ok_def)
qed

lemma plan_none:
  "\<not> bp_characterization p \<Longrightarrow> plan_ok p (loaded m) \<longleftrightarrow>
    \<not> pl_available (sm_plan (mc_servo m)) \<and> \<not> pl_armed (sm_plan (mc_servo m))"
  by (auto simp: plan_ok_def loaded_def)

lemma loaded_planning:
  "loaded (srv (planning f) m) = (f (fst (loaded m)), snd (loaded m))"
  "loaded (m\<lparr>mc_target_valid := v\<rparr>) = loaded m"
  by (simp_all add: loaded_def)

lemma install_plan_ok:
  assumes "bp_characterization p" "ForceServo_CharacterizationPlanValid p c" "digest = ForceServo_CharacterizationDigest c"
    "ForceServo_ProfileConfigValid p (plan_profile p c) (plan_config p c)" "\<not> pl_armed (sm_plan (mc_servo m))"
  shows "plan_ok p (loaded (install_plan p c digest m))" "core (install_plan p c digest m) = core m"
  using assms by (simp_all add: install_plan_def plan_ok_def loaded_def core_def)

lemma leave_mch: "leave ops (mch f w) = mch f (leave ops w)"
  by (simp add: leave_def mch_def)

context continuous_executor
begin

lemma leave_ok: "force_ok p inv off w \<Longrightarrow> force_ok p inv off (leave ops w)"
  using masked_inv [of "fw_e w"] masked_off [of "fw_e w"] by (simp add: leave_def force_ok_def)

lemma freeze_ok: "force_ok p inv off w \<Longrightarrow> force_ok p inv off (freeze ops w)"
  using leave_ok [of p w] by (simp add: freeze_def leave_def force_ok_def loaded_def)

lemma masked_idle_ok:
  assumes "force_ok p inv off w"
  shows "force_ok p inv off (leave ops (snd (masked_idle ops b w)))" "fw_m (snd (masked_idle ops b w)) = fw_m w"
  using leave_ok [OF assms] masked_inv [of "fw_e w"] masked_off [of "fw_e w"] assms
  by (auto simp: masked_idle_def Let_def case_prod_beta xq_def leave_def force_ok_def)

lemma invalid_ok:
  assumes "force_ok p inv off w" "\<not> pl_armed (sm_plan (servo_of w))"
  shows "force_ok p inv off (snd (plan_invalid w))"
  using assms by (auto simp: plan_invalid_def force_ok_def loaded_def plan_revoked)

lemma planning_ok:
  assumes "force_ok p inv off w" "\<not> pl_armed (f (sm_plan (servo_of w)))"
    "pl_available (f (sm_plan (servo_of w))) \<longrightarrow> pl_available (sm_plan (servo_of w))"
    "pl_plan (f (sm_plan (servo_of w))) = pl_plan (sm_plan (servo_of w))"
    "pl_digest (f (sm_plan (servo_of w))) = pl_digest (sm_plan (servo_of w))"
  shows "force_ok p inv off (mch (srv (planning f)) w)"
proof -
  have "plan_ok p (f (sm_plan (servo_of w)), snd (loaded (fw_m w)))"
    by (rule plan_kept [of p "sm_plan (servo_of w)"]) (use assms ok_plan [OF assms(1)] in \<open>simp_all add: loaded_def\<close>)
  then show ?thesis using assms(1) by (simp add: force_ok_def loaded_def)
qed

lemma commit_plan_ok:
  assumes "force_ok p inv off w" "\<not> pl_armed (sm_plan (servo_of w))" "bp_characterization p"
  shows "force_ok p inv off (snd (commit_plan p ops now w))"
proof -
  define c where "c = staged_plan (pl_staging (sm_plan (servo_of w)))"
  define w1 where "w1 = mch (srv (planning (\<lambda>l. l\<lparr>pl_staging_open := False\<rparr>))) w"
  have 1: "force_ok p inv off w1" "\<not> pl_armed (sm_plan (servo_of w1))"
    unfolding w1_def by (rule planning_ok [OF assms(1)]; use assms(2) in simp) (use assms(2) in simp)
  note i = masked_idle_ok [OF 1(1), of True]
  have "force_ok p inv off (mch (install_plan p c d) (leave ops (snd (masked_idle ops True w1))))"
    if "ForceServo_CharacterizationPlanValid p c" "d = ForceServo_CharacterizationDigest c"
      "ForceServo_ProfileConfigValid p (plan_profile p c) (plan_config p c)" for d
    using install_plan_ok [OF assms(3) that, of "fw_m w1"] i 1 by (simp add: force_ok_def core_def leave_def)
  then show ?thesis
    unfolding commit_plan_def Let_def case_prod_beta c_def [symmetric] w1_def [symmetric] leave_mch
    using 1 i by (simp add: invalid_ok Tick_ok leave_def)
qed

lemma plan_write_ok:
  assumes "force_ok p inv off w" "bp_characterization p"
  shows "force_ok p inv off (snd (plan_write p ops a v now w))"
proof -
  define w1 where "w1 = mch (srv (planning (\<lambda>l. l\<lparr>pl_armed := False\<rparr>))) w"
  have 1: "force_ok p inv off w1" "\<not> pl_armed (sm_plan (servo_of w1))"
    unfolding w1_def by (rule planning_ok [OF assms(1)]; simp) simp
  have k: "force_ok p inv off (mch (srv (planning f)) w1)"
    if "\<not> pl_armed (f (sm_plan (servo_of w1)))" "pl_available (f (sm_plan (servo_of w1))) = pl_available (sm_plan (servo_of w1))"
      "pl_plan (f (sm_plan (servo_of w1))) = pl_plan (sm_plan (servo_of w1))"
      "pl_digest (f (sm_plan (servo_of w1))) = pl_digest (sm_plan (servo_of w1))" for f
    by (rule planning_ok [OF 1(1)]) (use that in simp_all)
  have b: "force_ok p inv off (mch (\<lambda>m. srv (planning (\<lambda>l. l\<lparr>pl_mask := 0, pl_read_mask := 0, pl_ack_mask := 0,
      pl_staging_open := True, pl_available := False\<rparr>)) (m\<lparr>mc_target_valid := False\<rparr>)) w1)"
    using 1 by (simp add: force_ok_def loaded_def plan_revoked)
  have a: "force_ok p inv off (mch (srv (planning (\<lambda>l. l\<lparr>pl_armed := True\<rparr>))) w1)"
    if "pl_available l" "pl_read_mask l = 0xFFF" "pl_ack_mask l = 15"
      "word32 (pl_ack l ! 0) (pl_ack l ! 1) = pl_version l" "word32 (pl_ack l ! 2) (pl_ack l ! 3) = pl_digest l"
      "l = sm_plan (servo_of w1)" for l
    using 1(1) plan_arm [OF ok_plan [OF 1(1), unfolded loaded_def]] that by (simp add: force_ok_def loaded_def)
  show ?thesis
    unfolding plan_write_def w1_def [symmetric] Let_def
    using 1 assms(2) a [OF _ _ _ _ _ refl] by (simp add: b k invalid_ok commit_plan_ok)
qed

text \<open>Without characterization there is no plan to keep.\<close>

lemma plain_ok:
  assumes "\<not> bp_characterization p" "force_ok p inv off w" "core (f (fw_m w)) = core (fw_m w)"
    "sm_plan (mc_servo (f (fw_m w))) = sm_plan (servo_of w)"
  shows "force_ok p inv off (mch f w)"
  using assms by (simp add: force_ok_def core_def plan_none)

lemma select_profile_ok:
  assumes "force_ok p inv off w" "\<not> bp_characterization p"
  shows "force_ok p inv off (snd (select_profile p ops v now w))"
proof -
  have "force_ok p inv off (mch (\<lambda>m. (set_rejection r m)\<lparr>mc_target_valid := False\<rparr>) w)" for r
    by (rule plain_ok [OF assms(2,1)]) (simp_all add: core_def set_rejection_def)
  moreover have "force_ok p inv off (mch (srv (\<lambda>s. staging_upd (\<lambda>g. g\<lparr>cs_open := False\<rparr>) (s\<lparr>sm_profile := q\<rparr>))) w)" for q
    by (rule plain_ok [OF assms(2,1)]) (simp_all add: core_def staging_upd_def)
  ultimately show ?thesis
    using assms by (simp add: select_profile_def Let_def Tick_ok split: option.split)
qed

lemma write_target_ok:
  assumes "force_ok p inv off w" "\<not> bp_characterization p"
  shows "force_ok p inv off (snd (write_target p ops v now w))"
proof -
  have r: "force_ok p inv off (mch (set_rejection r) w)" for r by (rule ok_core [OF assms(1)]) simp
  have "force_ok p inv off (mch (\<lambda>m. m\<lparr>mc_target_valid := False\<rparr>) (mch (set_rejection r) w))" for r
    by (rule plain_ok [OF assms(2) r]) (simp_all add: core_def)
  then show ?thesis using r by (simp add: write_target_def Let_def Tick_ok HandleCommand_ok)
qed

lemma commit_config_ok:
  assumes "force_ok p inv off w" "\<not> bp_characterization p"
  shows "force_ok p inv off (snd (commit_config p ops v now w))"
proof -
  note i = masked_idle_ok [OF assms(1), of False]
  have c: "force_ok p inv off (mch (srv (install_config p c)) (leave ops (snd (masked_idle ops False w))))" for c
    by (rule plain_ok [OF assms(2) i(1)]) (simp_all add: core_def install_config_def staging_upd_def)
  moreover have "force_ok p inv off (mch (srv (staging_upd g)) w)" for g
    by (rule plain_ok [OF assms(2,1)]) (simp_all add: core_def staging_upd_def)
  ultimately show ?thesis
    unfolding commit_config_def Let_def case_prod_beta leave_mch using assms i(1) by (simp add: Tick_ok)
qed

lemma config_write_ok:
  assumes "force_ok p inv off w" "\<not> bp_characterization p"
  shows "force_ok p inv off (snd (config_write p ops a v now w))"
proof -
  have "force_ok p inv off (mch (srv (\<lambda>s. staging_upd (g s) s)) w)" for g
    by (rule plain_ok [OF assms(2,1)]) (simp_all add: core_def staging_upd_def)
  then show ?thesis
    using assms by (simp add: config_write_def Let_def select_profile_ok write_target_ok commit_config_ok)
qed

lemma Write_ok:
  assumes "force_ok p inv off w"
  shows "force_ok p inv off (snd (ForceServoProtocol_Write p ops f a v now w))"
proof -
  let ?q = "all_of [xq (ex_OutputIsDisabled ops), snapshot ops (\<lambda>x. \<not> mx_logical_active x)]"
  have "asks inv off ?q" by (rule asks_all_of) (auto simp: query_asks)
  from asks_ok [OF this assms] have q: "force_ok p inv off (snd (?q w))" .
  show ?thesis
    unfolding ForceServoProtocol_Write_def Let_def case_prod_beta
    using assms q by (simp add: HandleCommand_ok freeze_ok plan_write_ok config_write_ok del: of_Cons)
qed

lemma Read_ok:
  assumes "force_ok p inv off w"
  shows "force_ok p inv off (snd (ForceServoProtocol_Read p ops holding a w))"
proof (cases holding)
  case True
  have i: "unat (a - FS_REG_PLAN_ACTIVE) < 12" if "a \<ge> FS_REG_PLAN_ACTIVE" "a < FS_REG_PLAN_ACTIVE + FS_PLAN_READ_WORDS"
    using that unat_sub [of "FS_REG_PLAN_ACTIVE" a] by (simp add: word_le_nat_alt word_less_nat_alt)
  have "core (snd (read_holding p a m)) = core m" for m
    by (simp add: read_holding_def Let_def)
  moreover have "plan_ok p (loaded (snd (read_holding p a m)))" if "plan_ok p (loaded m)" for m
    using that plan_read [of p "sm_plan (mc_servo m)" _ "unat (a - FS_REG_PLAN_ACTIVE)"] i
    by (simp add: read_holding_def Let_def loaded_def)
  ultimately show ?thesis
    using True assms by (simp add: ForceServoProtocol_Read_def case_prod_beta force_ok_def core_def)
next
  case False
  then show ?thesis
    using asks_ok [OF query_asks(3) assms, of mx_physical_output_locked] assms
    by (simp add: ForceServoProtocol_Read_def read_input_def Let_def case_prod_beta)
qed

lemma executor_ok:
  assumes "force_ok p inv off w"
  shows "force_ok p inv off (w\<lparr>fw_e := snd (ex_Service ops now (fw_e w))\<rparr>)"
    "force_ok p inv off (w\<lparr>fw_e := snd (ex_GuardOutput ops (fw_e w))\<rparr>)"
  using assms service_inv [of "fw_e w" now] service_off [of "fw_e w" now] by (simp_all add: force_ok_def)

end

section \<open>The runtime of these builds\<close>

text \<open>
  The branches of \<^verbatim>\<open>Application/runtime.c\<close> and of the main loop of \<^verbatim>\<open>User/main.c\<close> for
  ForceServo: a snapshot of the pressure receiver is delivered once, whatever its number, and
  a STOP that has arrived is taken before the sample of the pass.
\<close>

record 'e force_runtime =
  fr_world :: "'e force_world"
  fr_delivered :: u64

definition on_force :: "('e force_world \<Rightarrow> 'e force_world) \<Rightarrow> 'e force_runtime \<Rightarrow> 'e force_runtime" where
  "on_force f r = r\<lparr>fr_world := f (fr_world r)\<rparr>"

definition note_intervals :: "u32 \<Rightarrow> u32 \<Rightarrow> ForceContext \<Rightarrow> ForceContext" where
  "note_intervals a b = srv (dg_session (\<lambda>d. d\<lparr>dn_rx_interval_min_ms := a, dn_rx_interval_max_ms := b\<rparr>))"

definition Force_ServicePressure ::
  "build_policy \<Rightarrow> 'e servo_executor \<Rightarrow> PressureReceiverSnapshot \<Rightarrow> u32 \<Rightarrow> 'e force_runtime \<Rightarrow> bool \<times> 'e force_runtime" where
  "Force_ServicePressure p ops pressure now r =
    (let have_sample = sm_have_sample (servo_of (fr_world r)); q = prs_sample_sequence pressure
     in if \<not> have_sample \<and> q = 0 \<or> have_sample \<and> q = fr_delivered r then (False, r)
        else (True, on_force (\<lambda>w. Force_HandlePressureSample p ops (delivered_sample pressure) now
                 (mch (note_intervals (prs_frame_interval_min_ms pressure) (prs_frame_interval_max_ms pressure)) w))
               (r\<lparr>fr_delivered := q\<rparr>)))"

definition Force_ServiceSafety ::
  "build_policy \<Rightarrow> 'e servo_executor \<Rightarrow> u32 \<Rightarrow> 'e force_world \<Rightarrow> 'e force_world" where
  "Force_ServiceSafety p ops now w =
    (case xq (ex_Service ops now) (Force_CheckPressureSafety p ops now w) of (result, w) \<Rightarrow>
       if result \<noteq> MOTOR_RESULT_OK
       then hardware_fault p ops now (snd (xq (ex_Disable ops) w))
       else Force_HandleMotorService p ops now w)"

definition Force_GuardOutput ::
  "build_policy \<Rightarrow> 'e servo_executor \<Rightarrow> u32 \<Rightarrow> 'e force_world \<Rightarrow> 'e force_world" where
  "Force_GuardOutput p ops now w =
    (case xq (ex_GuardOutput ops) w of (result, w) \<Rightarrow>
       if result \<noteq> MOTOR_RESULT_OK then hardware_fault p ops now w else w)"

text \<open>
  A pass of the main loop. What the Modbus link takes from its queues is the pass's input: a
  STOP that had arrived before the sample, a STOP that arrived since, and else one request at
  most: a write, or the registers a read asks for, in order, up to the first that is refused.
\<close>

datatype force_request =
  Request_Write u8 u16 u16
| Request_Read bool u16

record force_input =
  fi_early_stop :: "u32 option"
  fi_pressure :: "(PressureReceiverSnapshot \<times> u32) option"
  fi_now :: u32
  fi_late_stop :: bool
  fi_requests :: "force_request list"

definition stop_request :: "MachineCommand" where
  "stop_request = \<lparr>cmd_type = CMD_STOP, cmd_target_pressure_units = 0\<rparr>"

text \<open>
  A write goes to the protocol, or, at the addresses of the ordinary map, becomes a command. A
  read of the ordinary map changes nothing but the snapshot; the values it returns are not
  modelled for these builds.
\<close>

definition Force_ApplyWrite ::
  "build_policy \<Rightarrow> 'e servo_executor \<Rightarrow> u8 \<Rightarrow> u16 \<Rightarrow> u16 \<Rightarrow> u32 \<Rightarrow> 'e force_world
    \<Rightarrow> MachineCommandResult \<times> 'e force_world" where
  "Force_ApplyWrite p ops f a v now w =
    (if ForceServoProtocol_WriteAddress p f a then ForceServoProtocol_Write p ops f a v now w
     else if f = MODBUS_FUNCTION_WRITE_SINGLE_REGISTER \<and> a = MODBUS_HOLDING_TARGET_PRESSURE
     then Force_HandleCommand p ops (stop_request\<lparr>cmd_type := CMD_SET_TARGET, cmd_target_pressure_units := uint v\<rparr>) now w
     else if f = MODBUS_FUNCTION_WRITE_SINGLE_COIL \<and> a = MODBUS_COIL_AUTO_PRESSURE
     then (if v = MODBUS_SINGLE_COIL_ON
           then Force_HandleCommand p ops (stop_request\<lparr>cmd_type := CMD_AUTO_START\<rparr>) now w
           else if v = MODBUS_SINGLE_COIL_OFF then Force_HandleCommand p ops stop_request now w
           else (COMMAND_INVALID_VALUE, w))
     else if f = MODBUS_FUNCTION_WRITE_SINGLE_COIL
       \<and> (a = MODBUS_COIL_DIRECT_PRESS_PULSE \<or> a = MODBUS_COIL_DIRECT_RELEASE_PULSE)
     then (if v \<noteq> MODBUS_SINGLE_COIL_ON then (COMMAND_INVALID_VALUE, w)
           else Force_HandleCommand p ops (stop_request\<lparr>cmd_type :=
                  (if a = MODBUS_COIL_DIRECT_PRESS_PULSE then CMD_DIRECT_PRESS_PULSE
                   else CMD_DIRECT_RELEASE_PULSE)\<rparr>) now w)
     else (COMMAND_UNSUPPORTED, w))"

definition Force_Request ::
  "build_policy \<Rightarrow> 'e servo_executor \<Rightarrow> force_request \<Rightarrow> u32 \<Rightarrow> 'e force_world \<Rightarrow> 'e force_world" where
  "Force_Request p ops q now w =
    (case q of Request_Write f a v \<Rightarrow> snd (Force_ApplyWrite p ops f a v now w)
     | Request_Read holding a \<Rightarrow>
         (case ForceServoProtocol_Read p ops holding a w of (value, w) \<Rightarrow>
            if value = None \<and> \<not> holding then snd (xq (ex_GetSnapshot ops) w) else w))"

definition force_pass ::
  "build_policy \<Rightarrow> 'e servo_executor \<Rightarrow> force_input \<Rightarrow> 'e force_runtime \<Rightarrow> 'e force_runtime" where
  "force_pass p ops i r =
    (let r = (case fi_early_stop i of None \<Rightarrow> r
              | Some t \<Rightarrow> on_force (\<lambda>w. snd (Force_HandleCommand p ops stop_request t w)) r);
         r = (case fi_pressure i of None \<Rightarrow> r | Some (x, t) \<Rightarrow> snd (Force_ServicePressure p ops x t r));
         now = (case fi_pressure i of None \<Rightarrow> fi_now i | Some (x, t) \<Rightarrow> t)
     in on_force (\<lambda>w.
          let w = Force_GuardOutput p ops now (Force_ServiceSafety p ops now w);
              w = (if fi_late_stop i then snd (Force_HandleCommand p ops stop_request now w)
                   else fold (\<lambda>q. Force_Request p ops q now) (fi_requests i) w)
          in Force_Tick p ops now w) r)"

section \<open>Runs\<close>

datatype force_call =
  Call_CompleteBoot bool u32
| Call_Command MachineCommand u32
| Call_CheckPressureSafety u32
| Call_PressureSample MachinePressureSample u32
| Call_MotorService u32
| Call_Fault MachineFault FaultDetail u32
| Call_Tick u32
| Call_Disable
| Call_Intervals u32 u32
| Call_ExecutorService u32
| Call_GuardOutput
| Call_Request force_request u32
| Call_Timer "(u32 \<times> u32) list"

fun force_step :: "'h clock \<Rightarrow> 'h real_board \<Rightarrow> force_call \<Rightarrow> 'h servo_motor force_world \<Rightarrow> 'h servo_motor force_world" where
  "force_step tick b (Call_CompleteBoot checks now) w = Force_CompleteBoot (rb_policy b) (servo_ops tick b) checks now w"
| "force_step tick b (Call_Command c now) w = snd (Force_HandleCommand (rb_policy b) (servo_ops tick b) c now w)"
| "force_step tick b (Call_CheckPressureSafety now) w = Force_CheckPressureSafety (rb_policy b) (servo_ops tick b) now w"
| "force_step tick b (Call_PressureSample sample now) w = Force_HandlePressureSample (rb_policy b) (servo_ops tick b) sample now w"
| "force_step tick b (Call_MotorService now) w = Force_HandleMotorService (rb_policy b) (servo_ops tick b) now w"
| "force_step tick b (Call_Fault f d now) w = Force_ReportFault (rb_policy b) (servo_ops tick b) f d now w"
| "force_step tick b (Call_Tick now) w = Force_Tick (rb_policy b) (servo_ops tick b) now w"
| "force_step tick b Call_Disable w = w\<lparr>fw_e := snd (Servo_Disable b (fw_e w))\<rparr>"
| "force_step tick b (Call_Intervals x y) w = mch (note_intervals x y) w"
| "force_step tick b (Call_ExecutorService now) w = w\<lparr>fw_e := snd (Servo_Service b now (fw_e w))\<rparr>"
| "force_step tick b Call_GuardOutput w = w\<lparr>fw_e := snd (Servo_GuardOutput b (fw_e w))\<rparr>"
| "force_step tick b (Call_Request q now) w = Force_Request (rb_policy b) (servo_ops tick b) q now w"
| "force_step tick b (Call_Timer future) w = w\<lparr>fw_e := sv_poll ((fw_e w)\<lparr>tm_schedule := future\<rparr>)\<rparr>"

text \<open>
  From the initialisation of the motor and the machine on. The clock that an operation of the
  executor reads for itself is any one at every call.
\<close>

inductive force_run :: "'h real_board \<Rightarrow> 'h servo_motor force_world \<Rightarrow> bool" for b :: "'h real_board" where
  initialized: "sx e = servo_reset \<Longrightarrow> Servo_Initialize b e = (MOTOR_RESULT_OK, e')
    \<Longrightarrow> force_run b (Force_Initialize (rb_policy b) (servo_ops tick b) config now e')"
| call: "force_run b w \<Longrightarrow> force_run b (force_step tick b c w)"

context continuous_executor
begin

lemma Request_ok:
  assumes "force_ok p inv off w"
  shows "force_ok p inv off (Force_Request p ops q now w)"
proof -
  have "force_ok p inv off (snd (Force_ApplyWrite p ops f a v now w))" for f a v
    using assms by (simp add: Force_ApplyWrite_def Write_ok HandleCommand_ok)
  moreover have "force_ok p inv off (snd (xq (ex_GetSnapshot ops) w'))" if "force_ok p inv off w'" for w'
    using that query_inv [of "fw_e w'"] query_off [of "fw_e w'"] by (simp add: force_ok_def xq_def case_prod_beta)
  ultimately show ?thesis
    using assms by (cases q) (simp_all add: Force_Request_def case_prod_beta Read_ok)
qed

lemma disable_ok: "force_ok p inv off w \<Longrightarrow> force_ok p inv off (w\<lparr>fw_e := snd (ex_Disable ops (fw_e w))\<rparr>)"
  using disable [of "fw_e w"] by (simp add: force_ok_def)

lemma intervals_ok: "force_ok p inv off w \<Longrightarrow> force_ok p inv off (mch (note_intervals x y) w)"
  by (rule ok_core) (simp_all add: note_intervals_def)

end

abbreviation servo_safe :: "'h real_board \<Rightarrow> 'h servo_motor force_world \<Rightarrow> bool" where
  "servo_safe b \<equiv> force_ok (rb_policy b) (servo_inv b) servo_off"

lemma servo_ops_simps [simp]:
  "ex_Disable (servo_ops tick b) = Servo_Disable b" "ex_Service (servo_ops tick b) = Servo_Service b"
  "ex_GuardOutput (servo_ops tick b) = Servo_GuardOutput b"
  by (simp_all add: servo_ops_def)

lemma future_off: "servo_off (e\<lparr>tm_schedule := future\<rparr>) = servo_off e"
  by (simp add: servo_off_def quiet_def low_def pins_ok_def MotorHwReal_IsDisabled_def)

lemma force_step_ok:
  assumes "servo_safe b w"
  shows "servo_safe b (force_step tick b c w)"
proof (cases c)
  case (Call_Timer future)
  have "servo_inv b (sv_poll ((fw_e w)\<lparr>tm_schedule := future\<rparr>))"
    using interrupt_inv [of b "fw_e w" future] assms by (simp add: force_ok_def)
  then show ?thesis
    using assms off_poll [of "(fw_e w)\<lparr>tm_schedule := future\<rparr>"] by (simp add: Call_Timer force_ok_def future_off)
qed (use assms force.executor_ok [OF assms] force.disable_ok [OF assms] force.ok_live [OF assms] in
  \<open>simp_all add: force.CompleteBoot_ok force.HandleCommand_ok force.CheckPressureSafety_ok
    force.HandlePressureSample_ok force.HandleMotorService_ok force.fault_ok force.Tick_ok force.Request_ok
    force.intervals_ok\<close>)

lemma force_run_ok: "force_run b w \<Longrightarrow> servo_safe b w"
proof (induction rule: force_run.induct)
  case (initialized e e' config now)
  have "servo_inv b e'" using Initialize_inv [of b e] initialized by (simp add: servo_reset_def session_ok_def)
  then show ?case by (rule force.Initialize_ok(1))
next
  case (call w c)
  show ?case by (rule force_step_ok [OF call.IH])
qed

end
