(* ===== verification/ForceMachineProps.thy ===== *)
theory ForceMachineProps
  imports ForceRun
begin

text \<open>
  The properties of the ForceServo application, over every run of it: when the output may be on,
  what STOP, a fault, a deadline and a bad sample do, and what it takes to start a session.
\<close>

section \<open>Without a session\<close>

text \<open>An operation that neither has nor opens a session.\<close>

abbreviation active :: "'e force_world \<Rightarrow> bool" where
  "active w \<equiv> sm_active (servo_of w)"
abbreviation awaiting :: "'e force_world \<Rightarrow> bool" where
  "awaiting w \<equiv> sm_start_pending (servo_of w)"

lemma core_flags:
  assumes "core m = core m'"
  shows "sm_active (mc_servo m) = sm_active (mc_servo m')" "sm_start_pending (mc_servo m) = sm_start_pending (mc_servo m')"
    "mc_state m = mc_state m'" "mc_fault m = mc_fault m'" "mc_fault_detail m = mc_fault_detail m'"
  using assms by (simp_all add: core_def)

lemmas publish_flags [simp] = core_flags [OF publish_core(1)]

lemma fault_flags [simp]:
  "\<not> active (Force_ReportFault p ops f d now w)" "\<not> awaiting (Force_ReportFault p ops f d now w)"
  "mc_state (fw_m (Force_ReportFault p ops f d now w)) = FAULT"
  using fault_core [of p ops f d now w] by (simp_all add: core_def)

lemma all_machine:
  "(\<And>q w. q \<in> set qs \<Longrightarrow> fw_m (snd (q w)) = fw_m w) \<Longrightarrow> fw_m (snd (all_of qs w)) = fw_m w"
  by (induction qs arbitrary: w) simp_all

lemma any_machine:
  "(\<And>q w. q \<in> set qs \<Longrightarrow> fw_m (snd (q w)) = fw_m w) \<Longrightarrow> fw_m (snd (any_of qs w)) = fw_m w"
  by (induction qs arbitrary: w) simp_all

lemma queries_machine [simp]:
  "fw_m (snd (all_of [xq f, xq g] w)) = fw_m w" "fw_m (snd (all_of [xq f, xq g, snapshot ops h] w)) = fw_m w"
  "fw_m (snd (all_of [xq f, snapshot ops h] w)) = fw_m w" "fw_m (snd (lease_lost ops w)) = fw_m w"
  by (auto simp: lease_lost_def case_prod_beta intro!: all_machine any_machine simp del: of_Cons)

lemma leave_machine [simp]: "fw_m (leave ops w) = fw_m w"
  by (simp add: leave_def)

lemma masked_idle_machine [simp]: "fw_m (snd (masked_idle ops b w)) = fw_m w"
  by (simp add: masked_idle_def Let_def case_prod_beta)

lemma check_core:
  assumes "\<not> active w"
  shows "\<not> active (Force_CheckPressureSafety p ops now w)"
    "\<not> awaiting w \<Longrightarrow> core (fw_m (Force_CheckPressureSafety p ops now w)) = core (fw_m w)"
  using assms by (simp_all add: Force_CheckPressureSafety_def check_pending_start_def Let_def case_prod_beta core_def
      del: of_Cons)

lemma tick_core:
  assumes "\<not> active w"
  shows "\<not> active (Force_Tick p ops now w)"
    "\<not> awaiting w \<Longrightarrow> core (fw_m (Force_Tick p ops now w)) = core (fw_m w)"
proof -
  have "Force_Tick p ops now w = publish p ops now (Force_CheckPressureSafety p ops now w)"
    using check_core(1) [OF assms] by (simp add: Force_Tick_def service_assist_def next_approach_def Let_def)
  then show "\<not> active (Force_Tick p ops now w)"
    "\<not> awaiting w \<Longrightarrow> core (fw_m (Force_Tick p ops now w)) = core (fw_m w)"
    using check_core [OF assms] by simp_all
qed

lemma service_core: "\<not> active w \<Longrightarrow> Force_HandleMotorService p ops now w = w"
  by (simp add: Force_HandleMotorService_def)

lemma safety_core: "\<not> active w \<Longrightarrow> \<not> active (Force_ServiceSafety p ops now w)"
  using check_core(1) [of w p ops now]
  by (simp add: Force_ServiceSafety_def case_prod_beta service_core)

lemma guard_core: "\<not> active w \<Longrightarrow> \<not> active (Force_GuardOutput p ops now w)"
  by (simp add: Force_GuardOutput_def case_prod_beta)

lemma stop_flags:
  assumes "cmd_type c = CMD_STOP \<or> cmd_type c = CMD_JOG_STOP"
  shows "\<not> active (snd (Force_HandleCommand p ops c now w))" "\<not> awaiting (snd (Force_HandleCommand p ops c now w))"
proof -
  have "\<not> active (snd (stop_command p ops now w)) \<and> \<not> awaiting (snd (stop_command p ops now w))"
    using stop_context_core [of now "fw_m w"] by (simp add: stop_command_def Let_def case_prod_beta core_def)
  then show "\<not> active (snd (Force_HandleCommand p ops c now w))" "\<not> awaiting (snd (Force_HandleCommand p ops c now w))"
    using assms by (auto simp: Force_HandleCommand_def Let_def case_prod_beta)
qed

text \<open>Neither a session nor a start that waits: then a sample opens nothing.\<close>

definition quiescent :: "'e force_world \<Rightarrow> bool" where
  "quiescent w \<longleftrightarrow> \<not> active w \<and> \<not> awaiting w"

lemma quiescent_core: "core (fw_m w') = core (fw_m w) \<Longrightarrow> quiescent w' = quiescent w"
  by (simp add: quiescent_def core_def)

lemma quiescent_simps [simp]:
  "quiescent (Force_ReportFault p ops flt d now w)" "quiescent (publish p ops now w) = quiescent w"
  "core (f (fw_m w)) = core (fw_m w) \<Longrightarrow> quiescent (mch f w) = quiescent w"
  by (simp_all add: quiescent_def core_def)

lemma quiescent_check:
  "quiescent w \<Longrightarrow> core (fw_m (Force_CheckPressureSafety p ops now w)) = core (fw_m w)"
  by (rule check_core(2)) (simp_all add: quiescent_def)

lemma quiescent_tick: "quiescent w \<Longrightarrow> quiescent (Force_Tick p ops now w)"
  using iffD2 [OF quiescent_core [OF tick_core(2) [of w p ops now]]] by (simp add: quiescent_def)

lemma quiescent_stop: "cmd_type c = CMD_STOP \<Longrightarrow> quiescent (snd (Force_HandleCommand p ops c now w))"
  by (simp add: quiescent_def stop_flags)

lemma quiescent_accept:
  assumes "quiescent w"
  shows "quiescent (accept_sample p ops sample now w)"
proof -
  define w1 where "w1 = mch (store_sample sample now) (Force_CheckPressureSafety p ops now w)"
  have 1: "quiescent w1"
    using quiescent_core [OF quiescent_check [OF assms], of p ops now] assms by (simp add: w1_def)
  define w2 where "w2 x = mch (\<lambda>m. record_peak sample x now (record_after sample x now m)) w1" for x
  have "quiescent (w2 x)" for x using 1 by (simp add: w2_def)
  then have m: "quiescent (measured_sample p ops sample x now w1)" for x
    unfolding measured_sample_def w2_def [symmetric] Let_def by (simp add: quiescent_def)
  show ?thesis
    unfolding accept_sample_def w1_def [symmetric] Let_def case_prod_beta
    using 1 m by (simp add: quiescent_stop)
qed

lemma quiescent_sample: "quiescent w \<Longrightarrow> quiescent (Force_HandlePressureSample p ops sample now w)"
  unfolding Force_HandlePressureSample_def Let_def by (simp add: quiescent_accept)

lemma quiescent_safety: "quiescent w \<Longrightarrow> quiescent (Force_ServiceSafety p ops now w)"
  using quiescent_core [OF quiescent_check, of w p ops now] service_core [of w p ops now]
  by (simp add: Force_ServiceSafety_def case_prod_beta) (simp add: quiescent_def service_core)

lemma quiescent_guard: "quiescent w \<Longrightarrow> quiescent (Force_GuardOutput p ops now w)"
  by (simp add: Force_GuardOutput_def case_prod_beta) (simp add: quiescent_def)

section \<open>A pass of the main loop is a run\<close>

lemma run_sample: "force_run b w \<Longrightarrow> force_run b (Force_HandlePressureSample (rb_policy b) (servo_ops tick b) sample now w)"
  using force_run.call [of b w tick "Call_PressureSample sample now"] by simp

lemma run_intervals: "force_run b w \<Longrightarrow> force_run b (mch (note_intervals x y) w)"
  using force_run.call [of b w tick "Call_Intervals x y"] by simp

lemma run_command: "force_run b w \<Longrightarrow> force_run b (snd (Force_HandleCommand (rb_policy b) (servo_ops tick b) c now w))"
  using force_run.call [of b w tick "Call_Command c now"] by simp

lemma run_check: "force_run b w \<Longrightarrow> force_run b (Force_CheckPressureSafety (rb_policy b) (servo_ops tick b) now w)"
  using force_run.call [of b w tick "Call_CheckPressureSafety now"] by simp

lemma run_fault: "force_run b w \<Longrightarrow> force_run b (Force_ReportFault (rb_policy b) (servo_ops tick b) f d now w)"
  using force_run.call [of b w tick "Call_Fault f d now"] by simp

lemma run_executor:
  assumes "force_run b w"
  shows "force_run b (snd (xq (Servo_Service b now) w))" "force_run b (snd (xq (Servo_GuardOutput b) w))"
    "force_run b (snd (xq (Servo_Disable b) w))"
  using force_run.call [OF assms, where c = "Call_ExecutorService now"] force_run.call [OF assms, where c = Call_GuardOutput]
    force_run.call [OF assms, where c = Call_Disable] by (simp_all add: xq_def case_prod_beta)

lemma run_safety:
  assumes "force_run b w"
  shows "force_run b (Force_ServiceSafety (rb_policy b) (servo_ops tick b) now w)"
  using force_run.call [OF run_executor(1) [OF run_check [OF assms]], of tick "Call_MotorService now"]
  by (simp add: Force_ServiceSafety_def case_prod_beta run_fault run_executor run_check assms)

lemma run_guard: "force_run b w \<Longrightarrow> force_run b (Force_GuardOutput (rb_policy b) (servo_ops tick b) now w)"
  by (simp add: Force_GuardOutput_def case_prod_beta run_fault run_executor)

lemma run_tick: "force_run b w \<Longrightarrow> force_run b (Force_Tick (rb_policy b) (servo_ops tick b) now w)"
  using force_run.call [of b w tick "Call_Tick now"] by simp

lemma run_request: "force_run b w \<Longrightarrow> force_run b (Force_Request (rb_policy b) (servo_ops tick b) q now w)"
  using force_run.call [of b w tick "Call_Request q now"] by simp

lemma run_requests:
  "force_run b w \<Longrightarrow> force_run b (fold (\<lambda>q. Force_Request (rb_policy b) (servo_ops tick b) q now) qs w)"
  by (induction qs arbitrary: w) (simp_all add: run_request)

text \<open>The part of a pass before the last requests.\<close>

definition pass_front ::
  "build_policy \<Rightarrow> 'e servo_executor \<Rightarrow> force_input \<Rightarrow> 'e force_runtime \<Rightarrow> 'e force_world" where
  "pass_front p ops i r =
    (let r = (case fi_early_stop i of None \<Rightarrow> r
              | Some t \<Rightarrow> on_force (\<lambda>w. snd (Force_HandleCommand p ops stop_request t w)) r);
         r = (case fi_pressure i of None \<Rightarrow> r | Some (x, t) \<Rightarrow> snd (Force_ServicePressure p ops x t r));
         now = (case fi_pressure i of None \<Rightarrow> fi_now i | Some (x, t) \<Rightarrow> t)
     in Force_GuardOutput p ops now (Force_ServiceSafety p ops now (fr_world r)))"

lemma on_force_world [simp]: "fr_world (on_force f r) = f (fr_world r)"
  by (simp add: on_force_def)

lemma pass_world:
  "fr_world (force_pass p ops i r) =
    (let now = (case fi_pressure i of None \<Rightarrow> fi_now i | Some (x, t) \<Rightarrow> t); w = pass_front p ops i r
     in Force_Tick p ops now
          (if fi_late_stop i then snd (Force_HandleCommand p ops stop_request now w)
           else fold (\<lambda>q. Force_Request p ops q now) (fi_requests i) w))"
  by (simp add: force_pass_def pass_front_def Let_def)

lemma pressure_world:
  "fr_world (snd (Force_ServicePressure p ops x t r)) = fr_world r
    \<or> fr_world (snd (Force_ServicePressure p ops x t r)) = Force_HandlePressureSample p ops (delivered_sample x) t
        (mch (note_intervals (prs_frame_interval_min_ms x) (prs_frame_interval_max_ms x)) (fr_world r))"
  by (simp add: Force_ServicePressure_def Let_def)

lemma run_pressure:
  assumes "force_run b (fr_world r)"
  shows "force_run b (fr_world (snd (Force_ServicePressure (rb_policy b) (servo_ops tick b) x t r)))"
  using pressure_world [of "rb_policy b" "servo_ops tick b" x t r] run_sample [OF run_intervals [OF assms]] assms by metis

lemma run_front:
  assumes "force_run b (fr_world r)"
  shows "force_run b (pass_front (rb_policy b) (servo_ops tick b) i r)"
  using assms
  by (auto simp: pass_front_def Let_def intro!: run_guard run_safety run_pressure run_command split: option.split)

lemma run_pass:
  assumes "force_run b (fr_world r)"
  shows "force_run b (fr_world (force_pass (rb_policy b) (servo_ops tick b) i r))"
  unfolding pass_world Let_def using run_front [OF assms, of tick i]
  by (auto intro!: run_tick run_command run_requests split: option.split)

lemma quiescent_front:
  assumes "fi_early_stop i = Some t"
  shows "quiescent (pass_front p ops i r)"
proof -
  define r1 where "r1 = on_force (\<lambda>w. snd (Force_HandleCommand p ops stop_request t w)) r"
  have 1: "quiescent (fr_world r1)" by (simp add: r1_def quiescent_stop stop_request_def)
  have "quiescent (mch (note_intervals x y) (fr_world r1))" for x y using 1 by (simp add: note_intervals_def)
  then have "quiescent (fr_world (snd (Force_ServicePressure p ops x u r1)))" for x u
    using pressure_world [of p ops x u r1] quiescent_sample 1 by metis
  then show ?thesis
    unfolding pass_front_def Let_def using assms 1
    by (auto simp: r1_def [symmetric] intro!: quiescent_guard quiescent_safety split: option.split)
qed

section \<open>Properties\<close>

text \<open>The output off for good: driver shut down, timer disarmed, nothing running, no session.\<close>

definition released :: "'h servo_motor \<Rightarrow> bool" where
  "released e \<longleftrightarrow> hw_disabled e \<and> \<not> st_armed e \<and> \<not> mx_logical_active (rx_motor e) \<and> \<not> sv_open (sx e)"

lemma servo_off_released: "servo_off e \<Longrightarrow> released e"
  by (auto simp: servo_off_def released_def quiet_def low_def disabled_shut_down)

lemma safe_released: "servo_safe b w \<Longrightarrow> \<not> active w \<Longrightarrow> released (fw_e w)"
  by (simp add: force_ok_def servo_off_released)

text \<open>C3: The ForceServo application drives the motor only in a session: at every moment of every run
  - any order of boot, commands, protocol writes and reads, samples, safety checks, services,
  guards, ticks, reported faults and timer interrupts after the initialisation - the machine
  is in one of the states of a session exactly while one is active, a start waits only in
  IDLE, outside a session the driver is shut down with the stop timer disarmed and no
  continuous session open, and an output that is on belongs to an active session with the
  timer armed for its lease, and in the commissioning builds to a command within the ceilings.\<close>

theorem force_output_only_in_session:
  assumes "force_run b w"
  shows "let s = servo_of w; e = fw_e w; state = mc_state (fw_m w); p = rb_policy b in
    (sm_active s \<longleftrightarrow> state \<in> {FORCE_APPROACH, FORCE_BUILD, FORCE_HOLD})
    \<and> state \<in> {BOOT_SAFE, IDLE, FAULT, FORCE_APPROACH, FORCE_BUILD, FORCE_HOLD}
    \<and> (sm_start_pending s \<longrightarrow> state = IDLE)
    \<and> (\<not> sm_active s \<longrightarrow> released e)
    \<and> (\<not> hw_disabled e \<longrightarrow> sm_active s \<and> sv_open (sx e) \<and> st_armed e \<and> mx_logical_active (rx_motor e)
        \<and> (bp_commissioning p \<longrightarrow> - FS_RELEASE_CEILING \<le> sv_committed (sx e)
            \<and> sv_committed (sx e) \<le> FS_EXECUTOR_PRESS_CEILING p))"
proof -
  have ok: "servo_safe b w" by (rule force_run_ok [OF assms])
  then have f: "flags_ok (mc_state (fw_m w)) (active w) (awaiting w)" "servo_ok b (fw_e w)"
    by (simp_all add: force_ok_def)
  have "held b (fw_e w)" if "\<not> hw_disabled (fw_e w)"
    using f(2) that by (auto simp: servo_ok_def quiet_def low_def disabled_shut_down)
  moreover have "active w" if "\<not> hw_disabled (fw_e w)"
    using safe_released [OF ok] that by (auto simp: released_def)
  ultimately show ?thesis
    using f(1) safe_released [OF ok]
    by (auto simp: Let_def flags_ok_def ForceMachineInv.driving_def held_def lease_armed_def command_limited_def)
qed

text \<open>STOP always works in the ForceServo builds: from every reachable state it is accepted, and after
  it the output is off with no session open and no start waiting, the plan of a
  characterization is revoked, and the machine is idle, or still in the fault it was in.\<close>

theorem force_stop_always_works:
  assumes "force_run b w" "cmd_type c = CMD_STOP" "Force_HandleCommand (rb_policy b) (servo_ops tick b) c now w = (r, w')"
  shows "r = COMMAND_ACCEPTED \<and> released (fw_e w')
    \<and> \<not> sm_active (servo_of w') \<and> \<not> sm_start_pending (servo_of w')
    \<and> \<not> pl_available (sm_plan (servo_of w')) \<and> \<not> pl_armed (sm_plan (servo_of w'))
    \<and> mc_state (fw_m w') = (if mc_state (fw_m w) = FAULT then FAULT else IDLE)
    \<and> mc_fault (fw_m w') = mc_fault (fw_m w) \<and> mc_fault_detail (fw_m w') = mc_fault_detail (fw_m w)"
proof -
  have i: "servo_inv b (fw_e w)" by (rule force.ok_live [OF force_run_ok [OF assms(1)]])
  note s = force.stop_spec [OF i disjI1 [OF assms(2)] assms(3)]
  have "w' = publish (rb_policy b) (servo_ops tick b) now (mch (\<lambda>m. m\<lparr>mc_last_command_result := COMMAND_ACCEPTED\<rparr>)
      (snd (stop_command (rb_policy b) (servo_ops tick b) now w)))"
    using assms(2,3) s by (auto simp: Force_HandleCommand_def Let_def case_prod_beta)
  then have "loaded (fw_m w') = loaded (fw_m (snd (stop_command (rb_policy b) (servo_ops tick b) now w)))" by simp
  then have "sm_plan (servo_of w') = sm_plan (servo_of (snd (stop_command (rb_policy b) (servo_ops tick b) now w)))"
    by (simp add: loaded_def)
  moreover have "\<not> pl_available (sm_plan (mc_servo (stop_context now (fw_m w))))
      \<and> \<not> pl_armed (sm_plan (mc_servo (stop_context now (fw_m w))))"
    using stop_context_plan [of p now "fw_m w" for p]
    by (simp add: stop_context_def finish_boost_def begin_cooling_def Let_def)
  ultimately show ?thesis
    using s servo_off_released [of "fw_e w'"] Disable_off(1) [OF i]
    by (simp add: core_def stop_command_def Let_def case_prod_beta xq_def)
qed


text \<open>A call that does not ask for a fault reset\<close>

fun no_reset :: "force_call \<Rightarrow> bool" where
  "no_reset (Call_Command c now) = (cmd_type c \<noteq> CMD_FAULT_RESET)"
| "no_reset (Call_Request (Request_Write f a v) now) = (\<not> (f = 5 \<and> a = FS_COIL_RESET))"
| "no_reset _ = True"

lemma latched_write:
  assumes "servo_safe b w" "mc_state (fw_m w) = FAULT" "\<not> (f = 5 \<and> a = FS_COIL_RESET)"
  shows "core (fw_m (snd (Force_ApplyWrite (rb_policy b) (servo_ops tick b) f a v now w))) = core (fw_m w)"
proof -
  note c = force.latched_command [OF assms(1,2)]
  have "core (fw_m (freeze (servo_ops tick b) w)) = core (fw_m w)" by (simp add: freeze_def core_def)
  moreover have "a = FS_COIL_START" if "ForceServoProtocol_WriteAddress (rb_policy b) 5 a" "f = 5"
    using that assms(3) by (auto simp: ForceServoProtocol_WriteAddress_def)
  ultimately show ?thesis
    using assms(2,3) by (auto simp: Force_ApplyWrite_def ForceServoProtocol_Write_def stop_request_def c)
qed

lemma latched_read: "core (fw_m (snd (ForceServoProtocol_Read p ops holding a w))) = core (fw_m w)"
  by (simp add: ForceServoProtocol_Read_def read_holding_def read_input_def Let_def case_prod_beta)

lemma latched_step:
  assumes "servo_safe b w" "mc_state (fw_m w) = FAULT" "no_reset c"
  shows "core (fw_m (force_step tick b c w)) = core (fw_m w)"
proof (cases c)
  case (Call_Request q now)
  then show ?thesis
    using assms latched_write [OF assms(1,2)]
    by (cases q) (auto simp: Force_Request_def case_prod_beta latched_read)
next
  case (Call_Fault f d now)
  then show ?thesis using force.off_core [OF assms(1,2)] assms(2) by (simp add: fault_core)
qed (use assms force.latched_command [OF assms(1,2)] force.latched_check [OF assms(1,2)]
    force.latched_sample [OF assms(1,2)] force.latched_service [OF assms(1,2)] in \<open>simp_all add: note_intervals_def\<close>)

text \<open>C14: A fault of the ForceServo application is latched with its first cause: no sequence of calls
  without a fault reset - boot, other commands and writes, samples, further faults, ticks,
  timer interrupts - leaves FAULT or changes the recorded cause, and the output is off at
  every one of their ends. The executor's own clock is any one at each call. A fault reset, by
  command or by its coil, is the only way out, and the code lets it return to IDLE.\<close>

theorem force_fault_is_latched:
  assumes "force_run b w" "mc_state (fw_m w) = FAULT" "\<forall>c\<in>snd ` set cs. no_reset c"
  shows "let w' = fold (\<lambda>(tick, c). force_step tick b c) cs w in mc_state (fw_m w') = FAULT \<and> mc_fault (fw_m w') = mc_fault (fw_m w)
    \<and> mc_fault_detail (fw_m w') = mc_fault_detail (fw_m w) \<and> released (fw_e w')"
proof -
  have "servo_safe b (fold (\<lambda>(tick, c). force_step tick b c) cs w)
    \<and> core (fw_m (fold (\<lambda>(tick, c). force_step tick b c) cs w)) = core (fw_m w)"
    using force_run_ok [OF assms(1)] assms(2,3)
  proof (induction cs arbitrary: w)
    case (Cons tc cs)
    obtain tick c where tc: "tc = (tick, c)" by (cases tc)
    have 1: "servo_safe b (force_step tick b c w)" "core (fw_m (force_step tick b c w)) = core (fw_m w)"
      using force_step_ok [OF Cons.prems(1)] latched_step [OF Cons.prems(1,2)] Cons.prems(3) tc by simp_all
    then show ?case using Cons.IH [OF 1(1)] core_flags(3) [OF 1(2)] Cons.prems tc by simp
  qed simp
  then show ?thesis
    using assms(2) force.off_core [OF force_run_ok [OF assms(1)] assms(2)]
      safe_released [of b "fold (\<lambda>(tick, c). force_step tick b c) cs w"]
    by (simp add: core_def Let_def)
qed

section \<open>Starting\<close>

lemma start_ready_machine [simp]: "fw_m (snd (start_ready p ops now w)) = fw_m w"
  by (simp add: start_ready_def Let_def del: of_Cons)

lemma start_ready_true:
  assumes "fst (start_ready p ops now w)"
  shows "mc_target_valid (fw_m w)" "ForceServo_ProfileConfigValid p (sm_profile (servo_of w)) (sm_config (servo_of w))"
    "bp_characterization p \<Longrightarrow> pl_armed (sm_plan (servo_of w))" "\<not> bp_commissioning p \<Longrightarrow> fresh now w"
  using assms by (auto simp: start_ready_def Let_def simp del: of_Cons split: if_splits)

text \<open>The executor as START asks for it: healthy, its output disabled and not locked.\<close>

definition executor_ready :: "'h real_board \<Rightarrow> 'h servo_motor \<Rightarrow> bool" where
  "executor_ready b e \<longleftrightarrow>
    (let (healthy, e) = Servo_IsHealthy b e; (disabled, e) = Servo_OutputIsDisabled b e;
         (snapshot, e) = Servo_GetSnapshot b e
     in healthy \<and> disabled \<and> \<not> mx_physical_output_locked (rx_motor e))"

lemma start_ready_executor:
  assumes "fst (start_ready p (servo_ops tick b) now w)"
  shows "executor_ready b (fw_e w)"
  using assms
  by (auto simp: start_ready_def executor_ready_def servo_ops_def snapshot_def xq_def Let_def case_prod_beta
      split: if_splits)

text \<open>What an accepted request leaves: a start that waits, a plan that has been used up.\<close>

lemma request_start_accepted:
  assumes "fst (request_start p now w) = COMMAND_ACCEPTED"
  shows "sm_have_sample (servo_of w)" "fst (measure p (fw_m w))"
    "fst (ForceServo_PlanAllowed p (sm_profile (servo_of w)) (sm_config (servo_of w)) (snd (measure p (fw_m w)))
       (f32_of_int (mc_target_pressure_units (fw_m w))) (dn_planned_reference_s (session_of w))) = FS_PROFILE_OK"
    "awaiting (snd (request_start p now w))" "active (snd (request_start p now w)) = active w"
    "\<not> pl_armed (sm_plan (servo_of (snd (request_start p now w))))"
    "fw_e (snd (request_start p now w)) = fw_e w"
  using assms check_plan_flags [of p "snd (measure p (fw_m w))" "fw_m w"]
  by (auto simp: request_start_def check_plan_def Let_def case_prod_beta split: if_splits)

lemma start_command_accepted:
  assumes "fst (start_command p ops now w) = COMMAND_ACCEPTED"
  shows "mc_state (fw_m w) = IDLE" "\<not> active w" "\<not> awaiting w"
    "sm_cooling_active (servo_of w) \<longrightarrow> sint (now - sm_cooling_until_ms (servo_of w)) \<ge> 0"
    "fst (start_ready p ops now w)"
    "bp_commissioning p \<Longrightarrow> start_command p ops now w = request_start p now (snd (start_ready p ops now w))"
    "\<not> bp_commissioning p \<Longrightarrow> start_command p ops now w = begin_session p ops now (snd (start_ready p ops now w))"
    "\<not> bp_commissioning p \<Longrightarrow> \<not> f32_le (fl (fp_raw_trip (sm_profile (servo_of w))))
      (f32_of_u32 (ps_raw_pressure_counts (mc_pressure (fw_m w))))"
  using assms by (auto simp: start_command_def Let_def case_prod_beta split: if_splits)

text \<open>C16: What an accepted START of the ForceServo builds requires: an accepted FORCE_START finds an idle machine
  whose cooling time is over, a valid target, a configuration that passes the validation
  of its profile, and an executor that is healthy with its output disabled and not locked. In the commissioning builds it also finds a plan from the last measured
  sample to the target inside the envelope, and it only asks: the output stays off, no
  session is open, and the next fresh sample decides. In the characterization build the plan
  that is set up is valid, has its digest, has been read back in full, its version and
  digest have been acknowledged, it alone determines the profile, the configuration and the
  target, and its arming is used up by the request. In the other builds the sample is fresh
  and below the trip, and a session is open.\<close>

theorem force_start_requires:
  assumes "force_run b w" "cmd_type c = CMD_FORCE_START"
    "Force_HandleCommand (rb_policy b) (servo_ops tick b) c now w = (COMMAND_ACCEPTED, w')"
  shows "let s = servo_of w; m = fw_m w; l = sm_plan s; p = rb_policy b in
    mc_state m = IDLE \<and> \<not> sm_active s \<and> \<not> sm_start_pending s
    \<and> (sm_cooling_active s \<longrightarrow> sint (now - sm_cooling_until_ms s) \<ge> 0)
    \<and> mc_target_valid m \<and> ForceServo_ProfileConfigValid p (sm_profile s) (sm_config s)
    \<and> executor_ready b (fw_e w)
    \<and> (if bp_commissioning p
       then sm_have_sample s \<and> fst (measure p m)
         \<and> fst (ForceServo_PlanAllowed p (sm_profile s) (sm_config s) (snd (measure p m))
              (f32_of_int (mc_target_pressure_units m)) (dn_planned_reference_s (session_of w))) = FS_PROFILE_OK
         \<and> sm_start_pending (servo_of w') \<and> \<not> sm_active (servo_of w') \<and> released (fw_e w')
         \<and> \<not> pl_armed (sm_plan (servo_of w'))
       else Force_IsPressureFresh m now \<and> sm_active (servo_of w')
         \<and> \<not> f32_le (fl (fp_raw_trip (sm_profile s))) (f32_of_u32 (ps_raw_pressure_counts (mc_pressure m))))
    \<and> (bp_characterization p \<longrightarrow>
        ForceServo_CharacterizationPlanValid p (pl_plan l)
        \<and> pl_digest l = ForceServo_CharacterizationDigest (pl_plan l)
        \<and> pl_read_mask l = 0xFFF \<and> word32 (pl_ack l ! 0) (pl_ack l ! 1) = pl_version l
        \<and> word32 (pl_ack l ! 2) (pl_ack l ! 3) = pl_digest l
        \<and> sm_profile s = plan_profile p (pl_plan l) \<and> sm_config s = plan_config p (pl_plan l)
        \<and> mc_target_pressure_units m = f32_to_i32 (fl (cp_target_N (pl_plan l))))"
proof -
  let ?p = "rb_policy b" and ?o = "servo_ops tick b"
  have ok: "servo_safe b w" "servo_safe b w'"
    using force_run_ok [OF assms(1)] force_run_ok [OF run_command [OF assms(1), of tick c now]] assms(3) by simp_all
  define k where "k = start_command ?p ?o now w"
  have k: "fst k = COMMAND_ACCEPTED"
    "w' = publish ?p ?o now (mch (\<lambda>m. m\<lparr>mc_last_command_result := COMMAND_ACCEPTED\<rparr>) (snd k))"
    using assms(2,3) by (auto simp: Force_HandleCommand_def Let_def case_prod_beta k_def)
  note a = start_command_accepted [OF k(1) [unfolded k_def]] and t = start_ready_true [OF a(5)]
  have k': "core (fw_m w') = core (fw_m (snd k))" "loaded (fw_m w') = loaded (fw_m (snd k))"
    by (simp_all add: k(2)) (simp add: core_def)
  have "plan_ok ?p (loaded (fw_m w))" by (rule force.ok_plan [OF ok(1)])
  then have plan: "ForceServo_CharacterizationPlanValid ?p (pl_plan l)
        \<and> pl_digest l = ForceServo_CharacterizationDigest (pl_plan l)
        \<and> pl_read_mask l = 0xFFF \<and> word32 (pl_ack l ! 0) (pl_ack l ! 1) = pl_version l
        \<and> word32 (pl_ack l ! 2) (pl_ack l ! 3) = pl_digest l
        \<and> sm_profile (servo_of w) = plan_profile ?p (pl_plan l) \<and> sm_config (servo_of w) = plan_config ?p (pl_plan l)
        \<and> mc_target_pressure_units (fw_m w) = f32_to_i32 (fl (cp_target_N (pl_plan l)))"
    if "bp_characterization ?p" "l = sm_plan (servo_of w)" for l
    using t(3) that by (simp add: plan_ok_def loaded_def)
  have c: "sm_have_sample (servo_of w) \<and> fst (measure ?p (fw_m w))
         \<and> fst (ForceServo_PlanAllowed ?p (sm_profile (servo_of w)) (sm_config (servo_of w)) (snd (measure ?p (fw_m w)))
              (f32_of_int (mc_target_pressure_units (fw_m w))) (dn_planned_reference_s (session_of w))) = FS_PROFILE_OK
         \<and> awaiting w' \<and> \<not> active w' \<and> released (fw_e w') \<and> \<not> pl_armed (sm_plan (servo_of w'))"
    if "bp_commissioning ?p"
  proof -
    have r: "k = request_start ?p now (snd (start_ready ?p ?o now w))" by (simp add: k_def a(6) [OF that])
    note q = request_start_accepted [OF k(1) [unfolded r]]
    have "\<not> active w'" "awaiting w'" "\<not> pl_armed (sm_plan (servo_of w'))"
      using core_flags(1,2) [OF k'(1)] k'(2) q(4,5,6) a(2) by (simp_all add: r loaded_def)
    then show ?thesis using q(1-3) safe_released [OF ok(2)] by simp
  qed
  have n: "active w'" if "\<not> bp_commissioning ?p"
  proof -
    have r: "k = begin_session ?p ?o now (snd (start_ready ?p ?o now w))" by (simp add: k_def a(7) [OF that])
    have s: "servo_safe b (snd (start_ready ?p ?o now w))"
      by (rule asks_ok [OF force.start_ready_asks ok(1)])
    have "active (snd k)"
      using force.begin_session_spec [OF force.ok_live [OF s] force.ok_plan [OF s], of tick now] k(1)
      by (simp add: r [symmetric] running_def)
    then show ?thesis using core_flags(1) [OF k'(1)] by simp
  qed
  show ?thesis
    unfolding Let_def using a(1-4) t(1,2,4) a(8) c n start_ready_executor [OF a(5)] plan [OF _ refl] by (cases "bp_commissioning ?p") simp_all
qed

section \<open>Opening a session\<close>

lemma command_inactive:
  assumes "bp_commissioning p" "\<not> active w"
  shows "\<not> active (snd (Force_HandleCommand p ops c now w))"
proof -
  have s: "\<not> active (snd (stop_command p ops now w))"
    using stop_context_core [of now "fw_m w"] by (simp add: stop_command_def Let_def case_prod_beta core_def)
  have r: "\<not> active (snd (reset_command ops w))"
    using assms(2) by (simp add: reset_command_def Let_def case_prod_beta del: of_Cons)
  have t: "\<not> active (snd (target_command p ops x w))" for x
    using assms(2) by (simp add: target_command_def set_rejection_def Let_def case_prod_beta)
  have q: "\<not> active (snd (request_start p now w'))" if "\<not> active w'" for w' :: "'a force_world"
    using that check_plan_flags [of p "snd (measure p (fw_m w'))" "fw_m w'"]
    by (simp add: request_start_def set_rejection_def Let_def case_prod_beta)
  have a: "\<not> active (snd (start_command p ops now w))"
    using assms q [of "snd (start_ready p ops now w)"]
    by (simp add: start_command_def set_rejection_def Let_def case_prod_beta)
  show ?thesis
    unfolding Force_HandleCommand_def Let_def case_prod_beta using assms(2) s r t a
    by (cases "cmd_type c") simp_all
qed

lemma plan_write_inactive:
  assumes "\<not> active w"
  shows "\<not> active (snd (plan_write p ops a v now w))"
proof -
  have i: "\<not> active (snd (plan_invalid w'))" if "\<not> active w'" for w' :: "'a force_world"
    using that by (simp add: plan_invalid_def)
  have "\<not> active (Force_Tick p ops now (leave ops (mch (install_plan p c d) w')))" if "\<not> active w'"
    for c d and w' :: "'a force_world"
    by (rule tick_core(1)) (use that in \<open>simp add: install_plan_def\<close>)
  then have "\<not> active (snd (commit_plan p ops now w'))" if "\<not> active w'" for w' :: "'a force_world"
    using that by (simp add: commit_plan_def Let_def case_prod_beta i)
  then show ?thesis using assms by (simp add: plan_write_def Let_def i)
qed

lemma config_write_inactive:
  assumes "bp_commissioning p" "\<not> active w"
  shows "\<not> active (snd (config_write p ops a v now w))"
proof -
  have s: "sm_active (staging_upd g x) = sm_active x" for g x by (simp add: staging_upd_def)
  have r: "sm_active (mc_servo (set_rejection n m)) = sm_active (mc_servo m)" for n m by (simp add: set_rejection_def)
  have "sm_active (install_config p c x) = sm_active x" for c x by (simp add: install_config_def s)
  then have c: "\<not> active (snd (commit_config p ops x now w))" for x
    using assms(2) by (simp add: commit_config_def Let_def case_prod_beta s tick_core(1))
  have p: "\<not> active (snd (select_profile p ops v now w))"
    using assms(2) by (simp add: select_profile_def Let_def s r tick_core(1) split: option.split)
  have "\<not> active (snd (write_target p ops v now w))"
    using assms by (simp add: write_target_def Let_def r tick_core(1) command_inactive)
  then show ?thesis using assms(2) c p by (simp add: config_write_def Let_def s)
qed

lemma request_inactive:
  assumes "bp_commissioning p" "\<not> active w"
  shows "\<not> active (Force_Request p ops q now w)"
proof -
  have q: "\<not> active (snd (all_of [xq f, snapshot ops h] w))" for f and h :: "MotorExecutorSnapshot \<Rightarrow> bool"
    using assms(2) by (simp del: of_Cons)
  have "\<not> active (freeze ops w)" using assms(2) by (simp add: freeze_def)
  then have "\<not> active (snd (ForceServoProtocol_Write p ops f a v now w))" for f a v
    unfolding ForceServoProtocol_Write_def Let_def case_prod_beta
    using assms q by (simp add: command_inactive plan_write_inactive config_write_inactive del: of_Cons)
  then have "\<not> active (snd (Force_ApplyWrite p ops f a v now w))" for f a v
    using assms by (simp add: Force_ApplyWrite_def command_inactive)
  then show ?thesis
    using assms(2) core_flags(1) [OF latched_read [of p ops _ _ w]]
    by (cases q) (simp_all add: Force_Request_def case_prod_beta)
qed

text \<open>What opening depends on, and that noting a sample leaves it alone.\<close>

definition gate :: "ForceContext \<Rightarrow> u32 \<times> bool" where
  "gate m = (sm_start_requested_ms (mc_servo m), mc_target_valid m)"

lemma gate_simps [simp]:
  "gate (srv (dg_session f) m) = gate m" "gate (record_peak sample x now m) = gate m"
  "gate (record_after sample x now m) = gate m" "gate (store_sample sample now m) = gate m"
  by (simp_all add: gate_def record_peak_def record_after_def store_sample_def dg_session_def dg_assist_def Let_def)

lemma pressure_simps [simp]:
  "mc_pressure (record_peak sample x now m) = mc_pressure m" "mc_pressure (record_after sample x now m) = mc_pressure m"
  "mc_pressure (store_sample sample now m) = sample"
  by (simp_all add: record_peak_def record_after_def store_sample_def dg_session_def dg_assist_def Let_def)

lemma check_pending:
  assumes "awaiting w" "awaiting (Force_CheckPressureSafety p ops now w)"
  shows "gate (fw_m (Force_CheckPressureSafety p ops now w)) = gate (fw_m w)"
    "loaded (fw_m (Force_CheckPressureSafety p ops now w)) = loaded (fw_m w)"
    "core (fw_m (Force_CheckPressureSafety p ops now w)) = core (fw_m w)"
    "now - sm_start_requested_ms (servo_of w) < FORCE_SERVO_START_WAIT_MS"
proof -
  define w1 where "w1 = mch (srv (\<lambda>s. if sm_cooling_active s \<and> sint (now - sm_cooling_until_ms s) \<ge> 0
                          then s\<lparr>sm_cooling_active := False\<rparr> else s)) w"
  define q where "q = all_of [xq (ex_OutputIsDisabled ops), xq (ex_IsHealthy ops), snapshot ops (\<lambda>x. \<not> mx_logical_active x)] w1"
  have q: "fw_m (snd q) = fw_m w1" unfolding q_def by (rule queries_machine)
  have same: "gate (fw_m w1) = gate (fw_m w)" "loaded (fw_m w1) = loaded (fw_m w)" "core (fw_m w1) = core (fw_m w)"
    by (simp_all add: w1_def gate_def loaded_def core_def)
  have "awaiting w1" using assms(1) core_flags(2) [OF same(3)] by simp
  then have "Force_CheckPressureSafety p ops now w = check_pending_start p ops now w1"
    by (simp add: Force_CheckPressureSafety_def Let_def flip: w1_def)
  then have c: "Force_CheckPressureSafety p ops now w = snd q \<and> now - sm_start_requested_ms (servo_of w1) < FORCE_SERVO_START_WAIT_MS"
    using assms(2) q by (simp add: check_pending_start_def Let_def case_prod_beta not_le flip: q_def del: of_Cons split: if_splits)
  then show "gate (fw_m (Force_CheckPressureSafety p ops now w)) = gate (fw_m w)"
    "loaded (fw_m (Force_CheckPressureSafety p ops now w)) = loaded (fw_m w)"
    "core (fw_m (Force_CheckPressureSafety p ops now w)) = core (fw_m w)"
    "now - sm_start_requested_ms (servo_of w) < FORCE_SERVO_START_WAIT_MS"
    using q same by (simp_all add: gate_def)
qed

lemma PlanAllowed_seconds: "fst (ForceServo_PlanAllowed p q c m t s) = fst (ForceServo_PlanAllowed p q c m t s')"
  unfolding ForceServo_PlanAllowed_def Let_def by (simp only: if_distrib [of fst] fst_conv)

lemma pending_start_opens:
  assumes "\<not> active w" "active (pending_start p ops sample x now w)"
  shows "fresh now w \<and> sint (ps_received_at_ms sample - sm_start_requested_ms (servo_of w)) \<ge> 0"
    "mc_state (fw_m w) = IDLE \<and> mc_target_valid (fw_m w) \<and> mc_target_pressure_units (fw_m w) > 0
    \<and> ForceServo_ProfileConfigValid p (sm_profile (servo_of w)) (sm_config (servo_of w))"
    "fst (ForceServo_PlanAllowed p (sm_profile (servo_of w)) (sm_config (servo_of w)) x
        (f32_of_int (mc_target_pressure_units (fw_m w))) (dn_planned_reference_s (session_of w))) = FS_PROFILE_OK"
proof -
  let ?q = "all_of [xq (ex_IsHealthy ops), xq (ex_OutputIsDisabled ops), snapshot ops (\<lambda>x. \<not> mx_physical_output_locked x)] w"
  have m: "fw_m (snd ?q) = fw_m w" by (rule queries_machine)
  define a where "a \<longleftrightarrow> fresh now w \<and> sint (ps_received_at_ms sample - sm_start_requested_ms (servo_of w)) \<ge> 0"
  define g where "g \<longleftrightarrow> mc_state (fw_m w) = IDLE \<and> mc_target_valid (fw_m w) \<and> mc_target_pressure_units (fw_m w) > 0
    \<and> ForceServo_TargetAllowed p (Some (sm_profile (servo_of w))) (f32_of_int (mc_target_pressure_units (fw_m w)))
        (\<not> f32_eq (fl (fp_unit (sm_profile (servo_of w)))) (Fin 0)) = FS_PROFILE_OK
    \<and> ForceServo_ProfileConfigValid p (sm_profile (servo_of w)) (sm_config (servo_of w))"
  define k where "k = fst (check_plan p x (fw_m w))"
  have "a \<and> g \<and> k = FS_PROFILE_OK"
    using assms m unfolding pending_start_def Let_def a_def [symmetric] g_def [symmetric] case_prod_beta k_def
    by (cases a; cases g) (simp_all split: if_splits del: of_Cons)
  then show "fresh now w \<and> sint (ps_received_at_ms sample - sm_start_requested_ms (servo_of w)) \<ge> 0"
    "mc_state (fw_m w) = IDLE \<and> mc_target_valid (fw_m w) \<and> mc_target_pressure_units (fw_m w) > 0
    \<and> ForceServo_ProfileConfigValid p (sm_profile (servo_of w)) (sm_config (servo_of w))"
    "fst (ForceServo_PlanAllowed p (sm_profile (servo_of w)) (sm_config (servo_of w)) x
        (f32_of_int (mc_target_pressure_units (fw_m w))) (dn_planned_reference_s (session_of w))) = FS_PROFILE_OK"
    by (simp_all add: a_def g_def k_def check_plan_def Let_def case_prod_beta)
qed

lemma accept_sample_opens:
  assumes "\<not> active w" "active (accept_sample p ops sample now w)"
  shows "awaiting w" "mc_state (fw_m w) = IDLE" "now - sm_start_requested_ms (servo_of w) < FORCE_SERVO_START_WAIT_MS"
    "sint (ps_received_at_ms sample - sm_start_requested_ms (servo_of w)) \<ge> 0"
    "now - ps_received_at_ms sample \<le> f32_cast_u32 (fl (fc_sample_age_ms (sm_config (servo_of w))))"
    "\<not> overpressure (sm_profile (servo_of w)) (ps_raw_pressure_counts sample)"
    "mc_target_valid (fw_m w)" "mc_target_pressure_units (fw_m w) > 0"
    "ForceServo_ProfileConfigValid p (sm_profile (servo_of w)) (sm_config (servo_of w))"
    "\<exists>x s. ForceServo_Measure p (sm_profile (servo_of w)) (ps_raw_pressure_counts sample)
        (ps_control_pressure_units sample) (Fin 0) = (True, x)
      \<and> ForceServo_PlanAllowed p (sm_profile (servo_of w)) (sm_config (servo_of w)) x
        (f32_of_int (mc_target_pressure_units (fw_m w))) (Fin 0) = (FS_PROFILE_OK, s)"
proof -
  define w1 where "w1 = mch (store_sample sample now) (Force_CheckPressureSafety p ops now w)"
  define x where "x = snd (ForceServo_Measure p (sm_profile (servo_of w1)) (ps_raw_pressure_counts sample)
    (ps_control_pressure_units sample) (Fin 0))"
  define w2 where "w2 = mch (\<lambda>m. record_peak sample x now (record_after sample x now m)) w1"
  show aw: "awaiting w" using quiescent_accept [of w p ops sample now] assms by (auto simp: quiescent_def)
  have n1: "\<not> active w1"
    using check_core(1) [OF assms(1), of p ops now] by (simp add: w1_def store_sample_def)
  have n2: "\<not> active w2"
    using n1 by (simp add: w2_def record_peak_def record_after_def dg_session_def dg_assist_def Let_def)
  have stop: "\<not> active (snd (Force_HandleCommand p ops \<lparr>cmd_type = CMD_STOP, cmd_target_pressure_units = 0\<rparr> now v))" for v :: "'a force_world"
    using quiescent_stop [of "\<lparr>cmd_type = CMD_STOP, cmd_target_pressure_units = 0\<rparr>" p ops now v] by (simp add: quiescent_def)
  have k: "\<not> overpressure (sm_profile (servo_of w1)) (ps_raw_pressure_counts sample)
      \<and> fst (ForceServo_Measure p (sm_profile (servo_of w1)) (ps_raw_pressure_counts sample)
          (ps_control_pressure_units sample) (Fin 0))
      \<and> active (measured_sample p ops sample x now w1)"
    using assms(2) n1 unfolding accept_sample_def w1_def [symmetric] x_def Let_def case_prod_beta
    by (simp add: stop split: if_splits)
  then have m: "awaiting w2 \<and> active (pending_start p ops sample x now w2)"
    using n2 by (simp add: measured_sample_def Let_def flip: w2_def split: if_splits)
  have "core (fw_m w2) = core (fw_m (Force_CheckPressureSafety p ops now w))" by (simp add: w2_def w1_def)
  then have "awaiting (Force_CheckPressureSafety p ops now w)" using m core_flags(2) by metis
  note c = check_pending [OF aw this]
  have g: "gate (fw_m w2) = gate (fw_m w)" "loaded (fw_m w2) = loaded (fw_m w)" "core (fw_m w2) = core (fw_m w)"
    "loaded (fw_m w1) = loaded (fw_m w)"
    using c(1,2,3) by (simp_all add: w2_def w1_def)
  then have e: "sm_config (servo_of w2) = sm_config (servo_of w)" "sm_profile (servo_of w2) = sm_profile (servo_of w)"
    "sm_profile (servo_of w1) = sm_profile (servo_of w)"
    "mc_target_pressure_units (fw_m w2) = mc_target_pressure_units (fw_m w)"
    "mc_target_valid (fw_m w2) = mc_target_valid (fw_m w)"
    "sm_start_requested_ms (servo_of w2) = sm_start_requested_ms (servo_of w)" "mc_state (fw_m w2) = mc_state (fw_m w)"
    by (simp_all add: gate_def loaded_def core_def)
  note o = pending_start_opens [OF n2 conjunct2 [OF m], unfolded e]
  have p: "mc_pressure (fw_m w2) = sample" by (simp add: w2_def w1_def)
  show "mc_state (fw_m w) = IDLE" "mc_target_valid (fw_m w)" "mc_target_pressure_units (fw_m w) > 0"
    "sint (ps_received_at_ms sample - sm_start_requested_ms (servo_of w)) \<ge> 0"
    "ForceServo_ProfileConfigValid p (sm_profile (servo_of w)) (sm_config (servo_of w))"
    using o(1,2) by simp_all
  show "now - ps_received_at_ms sample \<le> f32_cast_u32 (fl (fc_sample_age_ms (sm_config (servo_of w))))"
    using o(1) by (simp add: Force_IsPressureFresh_def p e)
  show "now - sm_start_requested_ms (servo_of w) < FORCE_SERVO_START_WAIT_MS" by (rule c(4))
  show "\<not> overpressure (sm_profile (servo_of w)) (ps_raw_pressure_counts sample)" using k by (simp add: e)
  have "fst (ForceServo_PlanAllowed p (sm_profile (servo_of w)) (sm_config (servo_of w)) x
        (f32_of_int (mc_target_pressure_units (fw_m w))) (Fin 0)) = FS_PROFILE_OK"
    using o(3) PlanAllowed_seconds by metis
  then show "\<exists>x s. ForceServo_Measure p (sm_profile (servo_of w)) (ps_raw_pressure_counts sample)
        (ps_control_pressure_units sample) (Fin 0) = (True, x)
      \<and> ForceServo_PlanAllowed p (sm_profile (servo_of w)) (sm_config (servo_of w)) x
        (f32_of_int (mc_target_pressure_units (fw_m w))) (Fin 0) = (FS_PROFILE_OK, s)"
    using k by (simp add: x_def e prod_eq_iff)
qed

text \<open>C15: In the commissioning builds, the only ones that may drive the motor, a session is opened by one
  thing only: a pressure sample that is well-formed, newer than the last one, received after the START that waits and no
  older than the maximum age, while that START is less than 250 ms old. Its raw value is
  below the trip, its measured force valid, and the plan from it to a valid positive target
  inside the envelope of a valid configuration. No command, write, service, tick, fault or
  interrupt opens one.\<close>

theorem force_session_needs_fresh_sample:
  assumes "force_run b w" "bp_commissioning (rb_policy b)" "\<not> sm_active (servo_of w)"
    "sm_active (servo_of (force_step tick b c w))"
  shows "\<exists>sample now x seconds. c = Call_PressureSample sample now
    \<and> (let s = servo_of w; p = rb_policy b; last = mc_pressure (fw_m w); received = ps_received_at_ms sample in
      sm_start_pending s \<and> mc_state (fw_m w) = IDLE
      \<and> now - sm_start_requested_ms s < FORCE_SERVO_START_WAIT_MS
      \<and> \<not> sample_malformed p sample
      \<and> (if sm_have_sample s
         then ForceServo_SequenceAfter (ps_sequence sample) (ps_sequence last)
           \<and> received - ps_received_at_ms last < 0x80000000
         else True)
      \<and> sint (received - sm_start_requested_ms s) \<ge> 0
      \<and> now - received \<le> f32_cast_u32 (fl (fc_sample_age_ms (sm_config s)))
      \<and> \<not> overpressure (sm_profile s) (ps_raw_pressure_counts sample)
      \<and> ForceServo_Measure p (sm_profile s) (ps_raw_pressure_counts sample) (ps_control_pressure_units sample) (Fin 0)
          = (True, x)
      \<and> mc_target_valid (fw_m w) \<and> mc_target_pressure_units (fw_m w) > 0
      \<and> ForceServo_ProfileConfigValid p (sm_profile s) (sm_config s)
      \<and> ForceServo_PlanAllowed p (sm_profile s) (sm_config s) x
          (f32_of_int (mc_target_pressure_units (fw_m w))) (Fin 0) = (FS_PROFILE_OK, seconds))"
proof -
  let ?p = "rb_policy b"
  have boot: "\<not> active (Force_CompleteBoot ?p (servo_ops tick b) checks now w)" for checks now
    using assms(3) by (simp add: Force_CompleteBoot_def Let_def case_prod_beta del: of_Cons)
  have "\<exists>sample now. c = Call_PressureSample sample now"
    using assms(4) command_inactive [OF assms(2,3)] request_inactive [OF assms(2,3)] check_core(1) [OF assms(3)]
      tick_core(1) [OF assms(3)] service_core [OF assms(3)] boot assms(3)
    by (cases c) (simp_all add: note_intervals_def)
  then obtain sample now where c: "c = Call_PressureSample sample now" by blast
  let ?r = "\<lambda>w. mch (srv (dg_session (record_interval (ps_received_at_ms sample - ps_received_at_ms (mc_pressure (fw_m w)))
      (ps_sequence sample - ps_sequence (mc_pressure (fw_m w)) - 1)))) w"
  define v where "v = (if sm_have_sample (servo_of w) then ?r w else w)"
  have v: "gate (fw_m v) = gate (fw_m w)" "loaded (fw_m v) = loaded (fw_m w)" "core (fw_m v) = core (fw_m w)"
    by (simp_all add: v_def)
  have e: "sm_config (servo_of v) = sm_config (servo_of w)"
    "sm_profile (servo_of v) = sm_profile (servo_of w)"
    "mc_target_pressure_units (fw_m v) = mc_target_pressure_units (fw_m w)" "mc_target_valid (fw_m v) = mc_target_valid (fw_m w)"
    "sm_start_requested_ms (servo_of v) = sm_start_requested_ms (servo_of w)" "mc_state (fw_m v) = mc_state (fw_m w)"
    "active v = active w" "awaiting v = awaiting w"
    using v by (simp_all add: gate_def loaded_def core_def)
  have k: "\<not> sample_malformed ?p sample \<and> (sm_have_sample (servo_of w) \<longrightarrow>
      ForceServo_SequenceAfter (ps_sequence sample) (ps_sequence (mc_pressure (fw_m w)))
      \<and> ps_received_at_ms sample - ps_received_at_ms (mc_pressure (fw_m w)) < 0x80000000)
      \<and> active (accept_sample ?p (servo_ops tick b) sample now v)"
    using assms(3,4) unfolding c force_step.simps Force_HandlePressureSample_def Let_def v_def [symmetric]
    by (simp add: not_le split: if_splits)
  have n: "\<not> active v" using assms(3) by (simp add: e)
  note o = accept_sample_opens [OF n conjunct2 [OF conjunct2 [OF k]], unfolded e]
  obtain x seconds where "ForceServo_Measure ?p (sm_profile (servo_of w)) (ps_raw_pressure_counts sample)
        (ps_control_pressure_units sample) (Fin 0) = (True, x)"
      "ForceServo_PlanAllowed ?p (sm_profile (servo_of w)) (sm_config (servo_of w)) x
        (f32_of_int (mc_target_pressure_units (fw_m w))) (Fin 0) = (FS_PROFILE_OK, seconds)"
    using o(10) by blast
  then show ?thesis
    unfolding c Let_def using o(1-9) k
    by (intro exI [of _ sample] exI [of _ now] exI [of _ x] exI [of _ seconds]) simp
qed

end
