(* ===== verification/ForceServer.thy ===== *)
theory ForceServer
  imports ForceMachineProps ModbusServer
begin

text \<open>
  The write request of the Modbus server (\<^verbatim>\<open>Transport/Modbus/modbus_rtu_server.c\<close>) in the
  ForceServo builds, where the protocol's addresses are accepted beside the ordinary ones. The
  rest of the server is the same in every build (theory \<open>ModbusServer\<close>).
\<close>

definition Force_ProcessWrite ::
  "build_policy \<Rightarrow> 'e servo_executor \<Rightarrow> u32 \<Rightarrow> ModbusRtuServer \<Rightarrow> 'e force_world
    \<Rightarrow> ModbusRtuServer \<times> 'e force_world" where
  "Force_ProcessWrite p ops now_ms s w =
    (let function = srv_active_request s ! 1;
         address = ModbusRtuServer_ReadU16 (srv_active_request s) 2;
         value = ModbusRtuServer_ReadU16 (srv_active_request s) 4
     in if \<not> ForceServoProtocol_WriteAddress p function address
          \<and> (function = MODBUS_FUNCTION_WRITE_SINGLE_REGISTER
               \<and> address \<noteq> MODBUS_HOLDING_TARGET_PRESSURE
             \<or> function = MODBUS_FUNCTION_WRITE_SINGLE_COIL \<and> address \<noteq> MODBUS_COIL_AUTO_PRESSURE
               \<and> address \<noteq> MODBUS_COIL_DIRECT_RELEASE_PULSE \<and> address \<noteq> MODBUS_COIL_DIRECT_PRESS_PULSE)
        then (ModbusRtuServer_BuildException s function 0x02, w)
        else
          (let (result, w) = Force_ApplyWrite p ops function address value now_ms w
           in if result = COMMAND_ACCEPTED then (ModbusRtuServer_BuildWriteEcho s, w)
              else (ModbusRtuServer_BuildException s function
                      (ModbusRtuServer_MapCommandError result), w)))"

text \<open>The server's write is the call of \<open>force_run\<close> that writes, or none.\<close>

lemma process_write_machine:
  "snd (Force_ProcessWrite p ops now s w) = w
    \<or> snd (Force_ProcessWrite p ops now s w) = Force_Request p ops (Request_Write (srv_active_request s ! 1)
        (ModbusRtuServer_ReadU16 (srv_active_request s) 2) (ModbusRtuServer_ReadU16 (srv_active_request s) 4)) now w"
  by (simp add: Force_ProcessWrite_def Force_Request_def Let_def case_prod_beta)

lemma process_write_run:
  "force_run b w \<Longrightarrow> force_run b (snd (Force_ProcessWrite (rb_policy b) (servo_ops tick b) now s w))"
  using process_write_machine [of "rb_policy b" "servo_ops tick b" now s w] run_request by metis

end
