(* ===== verification/ForceServoProps.thy ===== *)
theory ForceServoProps
  imports ForceServo
begin

text \<open>
  Properties of the ForceServo configuration, profile and controller: the linked defaults pass
  the checks of the boot in every build, an admitted plan stays inside its envelope, a change
  of one byte changes a digest, and the witnesses of the controller's bounds.
\<close>

section \<open>The linked defaults\<close>

lemmas fs_constants = FS_INITIAL_KP_def FS_REFERENCE_RATE_def FS_REFERENCE_ACCEL_def
  FS_PRESS_OPERATING_CAP_def FS_CONFIG_PRESS_MIN_def FS_PRESS_PROFILE_CEILING_def
  FS_COMMAND_CEILING_def FS_FEEDBACK_GAP_def FS_LEASE_def FS_CONFIG_SESSION_MS_def
  FS_CONFIG_SESSION_MIN_def FS_CONFIG_TRACKING_MS_def FS_LIVE_PROFILE_ID_def FS_SENSOR_UNIT_def
  FS_LEGACY_RAW_TRIP_def FS_LEGACY_OPERATING_MAX_def FS_CONTACT_UNITS_def FS_BOOST_MS_def
  FS_BOOST_TOTAL_MS_def FS_BOOST_TAPER_MARGIN_def FS_EXPERIMENT_BUDGET_MS_def FS_LIMITS_SOURCE_def
  FS_ASSIST_RISE_def FS_ASSIST_END_def FS_OFF_MS_def FS_RESPONSE_UNITS_def FS_EXCESSIVE_RISE_def

lemma rnd_001: "rnd (1 / 1000) = Fin (8589935 / 2 ^ 33)"
proof -
  have e: "exponent (1 / 1000) = - 10" by (rule exponent_unique) (simp_all add: pow2_def)
  have "\<lfloor>8589934592 / (1000 :: rat)\<rfloor> = 8589934" by (simp add: floor_eq_iff)
  then show ?thesis
    by (simp add: rnd_def round_magnitude_def ulp_def e pow2_def round_half_even_def Let_def)
qed

lemma default_config_valid: "ForceServo_ConfigValid p (g_force_servo_default_config p)"
proof -
  obtain a where a: "rnd (1 / 50) = Fin a" "1 / 100 < a" "a < 1" by (rule rnd_near [of "1 / 50"]) auto
  obtain b where b: "rnd (1 / 10) = Fin b" "0 < b" "b < 1" by (rule rnd_near [of "1 / 10"]) auto
  obtain c where c: "rnd (1 / 5) = Fin c" "0 < c" "c < 1" by (rule rnd_near [of "1 / 5"]) auto
  obtain d where d: "rnd (1 / 100) = Fin d" "0 < d" "d < 1" by (rule rnd_near [of "1 / 100"]) auto
  obtain x where x: "rnd (625 * (8589935 / 2 ^ 33)) = Fin x" "x \<le> 1"
    by (rule rnd_near [of "625 * (8589935 / 2 ^ 33)"]) auto
  obtain y where y: "rnd (200 * (8589935 / 2 ^ 33)) = Fin y" "y \<le> 1"
    by (rule rnd_near [of "200 * (8589935 / 2 ^ 33)"]) auto
  show ?thesis
    using a b c d x y fl_lit [OF a(1)]
    by (cases "bp_characterization p"; cases "bp_commissioning p"; cases "bp_build_to_target p")
     (simp_all add: ForceServo_ConfigValid_def FORCE_SERVO_PARAMETERS_def g_force_servo_default_config_def
      f32_floor_def rnd_001 fs_constants)
qed
lemma default_profile_valid: "ForceServo_ProfileValid p (Some (g_force_servo_profile p))"
  by (cases "bp_characterization p"; cases "bp_commissioning p"; cases "bp_build_to_target p")
    (simp_all add: ForceServo_ProfileValid_def FORCE_SERVO_PROFILE_FIELDS_def g_force_servo_profile_def
      installed_profile_valid_def profile_range_bad_def profile_flags_bad_def profile_boost_bad_def
      profile_budget_bad_def times_integral_def f32_floor_def Let_def fs_constants)

lemma default_profile_config_valid:
  "ForceServo_ProfileConfigValid p (g_force_servo_profile p) (g_force_servo_default_config p)"
proof -
  have caps: "fl (fc_press_cap (g_force_servo_default_config p)) = fl (fp_continuous_press (g_force_servo_profile p))"
    "fl (fc_release_cap (g_force_servo_default_config p)) = fl (fp_release (g_force_servo_profile p))"
    by (simp_all add: g_force_servo_default_config_def g_force_servo_profile_def)
  have "fl (fp_continuous_press (g_force_servo_profile p)) \<noteq> F_NaN" "fl (fp_release (g_force_servo_profile p)) \<noteq> F_NaN"
    by (simp_all add: g_force_servo_profile_def FS_PRESS_OPERATING_CAP_def)
  with caps show ?thesis
    by (simp add: ForceServo_ProfileConfigValid_def default_config_valid default_profile_valid Let_def
        f32_eq_def f32_le_refl)
qed

lemma candidates_disabled:
  "list_all (\<lambda>q. f32_eq (fl (fp_experiment_enabled q)) (Fin 0)) g_force_servo_candidates"
  by (simp add: g_force_servo_candidates_def fs_candidate_def zero_profile_def f32_of_bits_def)

section \<open>Digests\<close>

lemma fnv_prime_inverse: "(h :: u32) * 16777619 * 899433627 = h"
proof -
  have "(16777619 * 899433627 :: u32) = 1" by simp
  then show ?thesis by (metis mult.assoc mult.right_neutral)
qed

lemma xor_cancel: "(h :: u32) XOR c = k XOR c \<longleftrightarrow> h = k"
proof
  assume "h XOR c = k XOR c"
  then have "(h XOR c) XOR c = (k XOR c) XOR c" by simp
  then show "h = k" by (simp add: xor.assoc)
qed simp

lemma fnv_byte_inj: "fnv_byte x h = fnv_byte y k \<longleftrightarrow> h XOR (x AND 255) = k XOR (y AND 255)"
  unfolding fnv_byte_def by (metis fnv_prime_inverse)

lemma fnv_byte_cancel [simp]: "fnv_byte x h = fnv_byte x k \<longleftrightarrow> h = k"
  by (simp add: fnv_byte_inj xor_cancel)

lemma fnv_byte_differ: "x AND 255 \<noteq> y AND 255 \<Longrightarrow> fnv_byte x h \<noteq> fnv_byte y h"
  unfolding fnv_byte_inj using xor_cancel [of "x AND 255" h "y AND 255"] by (simp add: xor.commute)

lemma fnv_byte_same: "x AND 255 = y AND 255 \<Longrightarrow> fnv_byte x h = fnv_byte y h"
  by (simp add: fnv_byte_def)

lemma fnv_word_bytes:
  "fnv_word u h = fnv_byte (drop_bit 24 u) (fnv_byte (drop_bit 16 u) (fnv_byte (drop_bit 8 u) (fnv_byte (drop_bit 0 u) h)))"
  by (simp add: fnv_word_def)

lemma fnv_word_cancel [simp]: "fnv_word u h = fnv_word u k \<longleftrightarrow> h = k"
  by (simp add: fnv_word_bytes)

lemma fnv_fold_cancel: "fold fnv_word us h = fold fnv_word us k \<longleftrightarrow> h = k"
  by (induction us arbitrary: h k) simp_all

lemma bit_255: "bit (255 :: u32) i \<longleftrightarrow> i < 8"
proof -
  have "(255 :: u32) = mask 8" by (simp add: mask_eq_exp_minus_1)
  then show ?thesis by (simp only: bit_mask_iff) auto
qed

text \<open>Two words that differ in one byte only.\<close>

lemma byte_change:
  fixes d :: u32
  assumes "d AND 255 = d" "i < 4" "j < 4"
  shows "drop_bit (8 * i) (u XOR push_bit (8 * j) d) AND 255
      = (drop_bit (8 * i) u AND 255) XOR (if i = j then d else 0)"
proof (rule bit_word_eqI)
  fix n assume n: "n < LENGTH(32)"
  have d: "bit d k \<Longrightarrow> k < 8" for k
    using assms(1) bit_255 [of k] by (metis bit_and_iff)
  show "bit (drop_bit (8 * i) (u XOR push_bit (8 * j) d) AND 255) n
      = bit ((drop_bit (8 * i) u AND 255) XOR (if i = j then d else 0)) n"
    using d [of n] d [of "8 * i + n - 8 * j"] n assms(2,3)
    unfolding bit_and_iff bit_255 bit_drop_bit_eq bit_xor_iff comp_def
    by (cases "n < 8"; cases "i = j") (auto simp: bit_push_bit_iff)
qed

lemma fnv_word_byte_change:
  fixes d :: u32
  assumes "j < 4" "d AND 255 = d" "d \<noteq> 0"
  shows "fnv_word (u XOR push_bit (8 * j) d) h \<noteq> fnv_word u h"
proof -
  let ?v = "u XOR push_bit (8 * j) d"
  have b: "drop_bit (8 * i) ?v AND 255 = drop_bit (8 * i) u AND 255 \<longleftrightarrow> i \<noteq> j" if "i < 4" for i
    using byte_change [OF assms(2) that assms(1), of u] assms(3) xor_cancel [of d "drop_bit (8 * i) u AND 255" 0]
    by (auto simp: xor.commute)
  have same: "fnv_byte (drop_bit (8 * i) ?v) k = fnv_byte (drop_bit (8 * i) u) k" if "i \<noteq> j" "i < 4" for i k
    using that b [of i] by (intro fnv_byte_same) simp
  have diff: "fnv_byte (drop_bit (8 * j) ?v) k \<noteq> fnv_byte (drop_bit (8 * j) u) k" for k
    using b [OF assms(1)] by (intro fnv_byte_differ) simp
  have "j = 0 \<or> j = 1 \<or> j = 2 \<or> j = 3" using assms(1) by linarith
  then show ?thesis
    using diff same [of 0] same [of 1] same [of 2] same [of 3]
    by (elim disjE) (simp_all add: fnv_word_bytes)
qed

section \<open>Properties\<close>

text \<open>In every build the linked configuration and profile pass the checks the boot makes of
  them, and none of the compiled candidate profiles is ever admitted for a plan, whatever the
  configuration, the measurement and the target.\<close>

theorem linked_defaults_admitted:
  "ForceServo_ProfileConfigValid p (g_force_servo_profile p) (g_force_servo_default_config p)
   \<and> list_all (\<lambda>q. fst (ForceServo_PlanAllowed p q c m t seconds) = FS_EXPERIMENT_LIMITS_UNREVIEWED)
       g_force_servo_candidates"
  using candidates_disabled
  by (auto simp: default_profile_config_valid list_all_iff ForceServo_PlanAllowed_def)

text \<open>A change confined to one byte of one parameter always changes the digest of the
  configuration, so that the digest exposes it.\<close>

theorem config_digest_detects:
  assumes "FORCE_SERVO_PARAMETERS p = xs @ (n, r) # ys"
    and "list_all (\<lambda>(m, _). m c' = m c) (xs @ ys)"
    and "n c' = n c XOR push_bit (8 * j) d" "j < 4" "d AND 255 = d" "d \<noteq> 0"
  shows "ForceServo_ConfigDigest p c' \<noteq> ForceServo_ConfigDigest p c"
proof -
  have same: "map (\<lambda>(m, _). m c') zs = map (\<lambda>(m, _). m c) zs" if "set zs \<subseteq> set (xs @ ys)" for zs
    using assms(2) that by (auto simp: list_all_iff)
  have xs: "map (\<lambda>(m, _). m c') xs = map (\<lambda>(m, _). m c) xs" by (rule same) simp
  have ys: "map (\<lambda>(m, _). m c') ys = map (\<lambda>(m, _). m c) ys" by (rule same) simp
  have "ForceServo_ConfigDigest p c0 = fold fnv_word (map (\<lambda>(m, _). m c0) ys)
      (fnv_word (n c0) (fold fnv_word (map (\<lambda>(m, _). m c0) xs) 2166136261))" for c0
    by (simp add: ForceServo_ConfigDigest_def fnv_def assms(1))
  then show ?thesis
    using fnv_word_byte_change [OF assms(4-6)] by (simp only: xs ys assms(3) fnv_fold_cancel not_False_eq_True)
qed

text \<open>What the checks of a profile bound, for the profiles other than the installed sensor's.\<close>

lemma profile_bounds:
  assumes "ForceServo_ProfileValid p (Some q)" "\<not> (bp_characterization p \<and> f32_eq (fl (fp_unit q)) (Fin 2))"
  shows "f32_lt (fl (fp_operating_max q)) (fl (fp_force_trip q))
    \<and> f32_le (fl (fp_force_trip q)) FORCE_SERVO_REPRESENTABLE
    \<and> f32_le (fl (fp_continuous_press q)) (Fin 2400) \<and> f32_le (fl (fp_peak_press q)) (Fin 9600)
    \<and> f32_le (fl (fp_release q)) (Fin 100)"
proof -
  have fin: "f32_isfinite (fl (n q))" if "(n, d) \<in> set (FORCE_SERVO_PROFILE_FIELDS p)" for n d
    using assms(1) that by (auto simp: ForceServo_ProfileValid_def list_all_iff split: if_splits)
  have f: "f32_isfinite (fl (fp_operating_max q))" "f32_isfinite (fl (fp_force_trip q))"
    "f32_isfinite (fl (fp_continuous_press q))" "f32_isfinite (fl (fp_peak_press q))"
    "f32_isfinite (fl (fp_release q))"
    using fin [of fp_operating_max "FS_LEGACY_OPERATING_MAX p"] fin [of fp_force_trip "FS_LEGACY_RAW_TRIP p"]
      fin [of fp_continuous_press "FS_PRESS_OPERATING_CAP p"] fin [of fp_peak_press FS_PEAK_PRESS]
      fin [of fp_release FS_RELEASE_OPERATING_CAP]
    by (simp_all add: FORCE_SERVO_PROFILE_FIELDS_def)
  have "\<not> profile_range_bad q"
    using assms by (auto simp: ForceServo_ProfileValid_def split: if_splits)
  then have "\<not> f32_le (fl (fp_force_trip q)) (fl (fp_operating_max q))"
    "\<not> f32_lt FORCE_SERVO_REPRESENTABLE (fl (fp_force_trip q))"
    "\<not> f32_lt (Fin 2400) (fl (fp_continuous_press q))" "\<not> f32_lt (Fin 9600) (fl (fp_peak_press q))"
    "\<not> f32_lt (Fin 100) (fl (fp_release q))"
    by (simp_all add: profile_range_bad_def)
  with f show ?thesis
    by (auto simp: f32_isfinite_iff not_le not_less)
qed

lemma missing_not_ok [simp]: "missing_qualification x \<noteq> Some FS_PROFILE_OK"
  by (simp add: missing_qualification_def)

lemma force_trip_finite:
  assumes "ForceServo_ProfileValid p (Some q)"
  shows "f32_isfinite (fl (fp_force_trip q))"
proof -
  have "f32_isfinite (fl (n q))" if "(n, d) \<in> set (FORCE_SERVO_PROFILE_FIELDS p)" for n d
    using assms that by (auto simp: ForceServo_ProfileValid_def list_all_iff split: if_splits)
  from this [of fp_force_trip "FS_LEGACY_RAW_TRIP p"] show ?thesis by (simp add: FORCE_SERVO_PROFILE_FIELDS_def)
qed

text \<open>C39: A plan that is admitted is inside its envelope: the profile is enabled, it and the
  configuration are valid, the configured press cap is at most the profile's continuous press,
  the measurement is finite, not negative and below the profile's force trip (but for the
  boundary of 3000 with the target 3000 in the build-to-target build), and the target is
  positive. For the installed sensor the target is a whole number of newtons from 1 to 3000;
  for every other profile it is at most the operating maximum, which lies below the force
  trip, the release cap is at most the profile's, and the planned time fits the build budget
  and, with the dwell time, the budgets of the session and of the energized time.\<close>

theorem plan_admission:
  assumes "ForceServo_PlanAllowed p q c m t s0 = (FS_PROFILE_OK, seconds)"
  shows "\<exists>mm tt. m = Fin mm \<and> t = Fin tt \<and> 0 \<le> mm \<and> 0 < tt
    \<and> \<not> f32_eq (fl (fp_experiment_enabled q)) (Fin 0)
    \<and> ForceServo_ProfileValid p (Some q) \<and> ForceServo_ConfigValid p c
    \<and> f32_le (fl (fc_press_cap c)) (fl (fp_continuous_press q))
    \<and> (f32_lt m (fl (fp_force_trip q)) \<or> bp_build_to_target p \<and> mm = 3000 \<and> tt = 3000)
    \<and> (if bp_characterization p \<and> f32_eq (fl (fp_unit q)) (Fin 2)
       then 1 \<le> tt \<and> tt \<le> 3000 \<and> tt = of_int \<lfloor>tt\<rfloor>
       else f32_le t (fl (fp_operating_max q)) \<and> f32_lt (fl (fp_operating_max q)) (fl (fp_force_trip q))
         \<and> f32_le (fl (fp_continuous_press q)) (Fin 2400)
         \<and> f32_le (fl (fc_release_cap c)) (fl (fp_release q))
         \<and> \<not> f32_lt (fl (fp_build_ms q)) (f32_mul seconds (Fin 1000))
         \<and> \<not> f32_lt (f32_min (fl (fp_energized_ms q)) (f32_min (fl (fp_session_ms q)) (fl (fc_session_ms c))))
               (f32_add (f32_mul seconds (Fin 1000)) (fl (fc_hold_dwell_ms c))))"
proof -
  let ?r = "ForceServo_TargetAllowed p (Some q) t (\<not> f32_eq (fl (fp_unit q)) (Fin 0))"
  let ?trip = "fl (fp_force_trip q)"
  have valid: "ForceServo_ProfileConfigValid p q c" "f32_isfinite m" "\<not> f32_lt m (Fin 0)" "?r = FS_PROFILE_OK"
    "\<not> f32_eq (fl (fp_experiment_enabled q)) (Fin 0)"
    "\<not> f32_le ?trip m \<or> bp_build_to_target p \<and> f32_eq m (Fin 3000) \<and> f32_eq t (Fin 3000)"
    using assms by (auto simp: ForceServo_PlanAllowed_def Let_def split: if_splits)
  obtain mm where mm: "m = Fin mm" "0 \<le> mm" using valid(2,3) by (auto simp: f32_isfinite_iff)
  have cfg: "ForceServo_ProfileValid p (Some q)" "ForceServo_ConfigValid p c"
    "f32_le (fl (fc_press_cap c)) (fl (fp_continuous_press q))"
    using valid(1) by (auto simp: ForceServo_ProfileConfigValid_def Let_def f32_le_def split: if_splits)
  have trip: "f32_lt m ?trip \<or> bp_build_to_target p \<and> mm = 3000 \<and> tt = 3000" if "t = Fin tt" for tt
    using valid(6) force_trip_finite [OF cfg(1)] mm that by (auto simp: f32_isfinite_iff)
  note common = mm cfg valid(5)
  show ?thesis
  proof (cases "bp_characterization p \<and> f32_eq (fl (fp_unit q)) (Fin 2)")
    case True
    then have "f32_isfinite t" "f32_le (Fin 1) t" "f32_le t (Fin 3000)" "f32_eq (f32_floor t) t"
      using valid(4) cfg by (auto simp: ForceServo_TargetAllowed_def split: if_splits)
    then obtain tt where "t = Fin tt" "1 \<le> tt" "tt \<le> 3000" "of_int \<lfloor>tt\<rfloor> = tt"
      by (auto simp: f32_isfinite_iff f32_floor_def)
    with True common trip [OF this(1)] show ?thesis by auto
  next
    case False
    then have "f32_isfinite t" "\<not> f32_le t (Fin 0)" "\<not> f32_lt (fl (fp_operating_max q)) t"
      using valid(4) by (auto simp: ForceServo_TargetAllowed_def split: if_splits option.splits)
    then obtain tt where t: "t = Fin tt" "0 < tt" "\<not> f32_lt (fl (fp_operating_max q)) (Fin tt)"
      by (auto simp: f32_isfinite_iff)
    note b = profile_bounds [OF cfg(1) False]
    then have "fl (fp_operating_max q) \<noteq> F_NaN" by auto
    then have le: "f32_le t (fl (fp_operating_max q))" using t by (simp add: f32_not_lt)
    have rel: "f32_le (fl (fc_release_cap c)) (fl (fp_release q))"
      using valid(1) False by (auto simp: ForceServo_ProfileConfigValid_def split: if_splits)
    have bud: "\<not> f32_lt (fl (fp_build_ms q)) (f32_mul seconds (Fin 1000))"
      "\<not> f32_lt (f32_min (fl (fp_energized_ms q)) (f32_min (fl (fp_session_ms q)) (fl (fc_session_ms c))))
         (f32_add (f32_mul seconds (Fin 1000)) (fl (fc_hold_dwell_ms c)))"
      using assms False valid by (auto simp: ForceServo_PlanAllowed_def Let_def split: if_splits)
    show ?thesis
      using le rel bud t(1,2) common b trip [OF t(1)] by (intro exI [of _ mm] exI [of _ tt]) (simp add: False)
  qed
qed

text \<open>The commissioning build.\<close>

definition commissioning :: build_policy where
  "commissioning = \<lparr>bp_mode = MODE_REAL_BENCH, bp_auto_target = False, bp_force_servo = True,
     bp_commissioning = True, bp_characterization = False, bp_build_to_target = False\<rparr>"

theorem config_digest_detects_witness:
  "ForceServo_ConfigDigest commissioning
     (g_force_servo_default_config commissioning\<lparr>fc_kp :=
        fc_kp (g_force_servo_default_config commissioning) XOR push_bit 16 3\<rparr>)
   \<noteq> ForceServo_ConfigDigest commissioning (g_force_servo_default_config commissioning)"
  by (rule config_digest_detects [where xs = "[]" and n = fc_kp and j = 2 and d = 3])
    (simp add: FORCE_SERVO_PARAMETERS_def, simp_all)

theorem plan_admission_witness:
  "fst (ForceServo_PlanAllowed commissioning (g_force_servo_profile commissioning)
      (g_force_servo_default_config commissioning) (Fin 250) (Fin 250) (Fin 0)) = FS_PROFILE_OK
   \<and> f32_le (Fin 250) (fl (fp_operating_max (g_force_servo_profile commissioning)))"
proof -
  let ?q = "g_force_servo_profile commissioning" and ?c = "g_force_servo_default_config commissioning"
  note valid = default_profile_config_valid [of commissioning] default_profile_valid [of commissioning]
  have unit: "fl (fp_unit ?q) = Fin 0" and char: "\<not> bp_characterization commissioning"
    by (simp_all add: g_force_servo_profile_def commissioning_def FS_SENSOR_UNIT_def)
  obtain k where "rnd (3 / 2) = Fin k" by (rule rnd_near [of "3 / 2"]) auto
  then have t: "ForceServo_TrajectorySeconds ?c (Fin 250) (Fin 250) = Fin 0"
    by (simp add: ForceServo_TrajectorySeconds_def f32_sub_def f32_sqrt_def f32_max_def commissioning_def
        g_force_servo_default_config_def FS_REFERENCE_RATE_def FS_REFERENCE_ACCEL_def Let_def)
  have plan: "ForceServo_PlanAllowed commissioning ?q ?c (Fin 250) (Fin 250) (Fin 0) = (FS_PROFILE_OK, Fin 0)"
    by (simp add: ForceServo_PlanAllowed_def ForceServo_TargetAllowed_def valid t unit char Let_def)
      (simp add: g_force_servo_profile_def g_force_servo_default_config_def commissioning_def fs_constants
        f32_min_def)
  from plan_admission [OF this] unit char show ?thesis by (auto simp: plan)
qed

text \<open>C36: In the builds that may drive the motor, every prepared output stays within the
  configured caps, has the sign of the controller's demand and never exceeds it, whatever the
  controller's state, the measurement and the rounding: a smaller demand is followed at once,
  a demand of the other direction never keeps the old one. Growth is ramped: the output is at
  most the configured rate times the time step (as the code rounds them) away from the last
  committed output, or from zero when that one has another sign.\<close>

theorem servo_output_limited:
  assumes "ForceServo_Prepare p c m dt s = (True, s', step)" "bp_commissioning p"
  shows "\<exists>press release raw out base. fl (fc_press_cap c) = Fin press \<and> fl (fc_release_cap c) = Fin release
    \<and> sp_raw_output step = Fin raw \<and> sp_limited_output step = Fin out
    \<and> - release \<le> out \<and> out \<le> press
    \<and> (0 \<le> raw \<longrightarrow> 0 \<le> out \<and> out \<le> raw) \<and> (raw \<le> 0 \<longrightarrow> raw \<le> out \<and> out \<le> 0)
    \<and> (base = 0 \<or> fs_previous_committed s = Fin base \<and> 0 < raw * base)
    \<and> (0 \<le> raw \<longrightarrow> f32_le (Fin out) (f32_add (Fin base) (f32_mul (fl (fc_output_rate c)) dt)))
    \<and> (raw \<le> 0 \<longrightarrow> f32_le (f32_sub (Fin base) (f32_mul (fl (fc_output_rate c)) dt)) (Fin out))"
proof -
  note ok = prepare_success [OF assms(1)]
  obtain t where t: "dt = Fin t" "0 \<le> t" using prepare_dt [OF assms(1)] .
  obtain raw where raw: "sp_raw_output step = Fin raw" using ok by (auto simp: f32_isfinite_iff)
  obtain press release rate imin imax where c: "fl (fc_press_cap c) = Fin press"
    "fl (fc_release_cap c) = Fin release" "fl (fc_output_rate c) = Fin rate" "0 \<le> press" "0 \<le> release" "0 \<le> rate"
    using config_caps ok by metis
  obtain a where a: "clamp (Fin raw) (Fin (- release)) (Fin press) = Fin a" "- release \<le> a" "a \<le> press"
    using clamp_range [of "- release" press "Fin raw"] c by auto
  have az: "(0 \<le> raw \<longrightarrow> 0 \<le> a \<and> a \<le> raw) \<and> (raw \<le> 0 \<longrightarrow> raw \<le> a \<and> a \<le> 0)"
    by (rule clamp_towards_zero [OF a(1)]) (use c in simp_all)
  have "f32_isfinite (fs_previous_committed s)" using ok by (simp add: servo_finite_def)
  then obtain out base where out: "limit_rate p c dt (fs_previous_committed s) (Fin a) = Fin out"
    "(0 \<le> a \<longrightarrow> 0 \<le> out \<and> out \<le> a) \<and> (a \<le> 0 \<longrightarrow> a \<le> out \<and> out \<le> 0)"
    "base = 0 \<or> fs_previous_committed s = Fin base \<and> 0 < a * base"
    "0 \<le> a \<longrightarrow> f32_le (Fin out) (f32_add (Fin base) (f32_mul (fl (fc_output_rate c)) dt))"
    "a \<le> 0 \<longrightarrow> f32_le (f32_sub (Fin base) (f32_mul (fl (fc_output_rate c)) dt)) (Fin out)"
    unfolding t(1) c(3) using limit_rate_ramps [OF assms(2) c(3,6) t(2)] by blast
  have "sp_limited_output step = Fin out"
    using ok out(1) by (simp add: raw c a(1))
  moreover have "- release \<le> out \<and> out \<le> press"
    using a(2,3) out(2) c(4,5) by (cases "0 \<le> a") auto
  moreover have "(0 \<le> raw \<longrightarrow> 0 \<le> out \<and> out \<le> raw) \<and> (raw \<le> 0 \<longrightarrow> raw \<le> out \<and> out \<le> 0)"
    using az out(2) by auto
  moreover have "base = 0 \<or> fs_previous_committed s = Fin base \<and> 0 < raw * base"
    using out(3) az by (auto simp: zero_less_mult_iff)
  ultimately show ?thesis using c(1,2) raw az out(4,5) by blast
qed

text \<open>C37: Over every run of a session the integral stays within its configured limits and the
  remembered output within the caps, whatever the samples, the time steps and the executor's
  commitments, failed steps included.\<close>

theorem servo_run_bounded:
  assumes "ForceServo_Init p c m target s0 = (True, s)"
  shows "\<exists>i u imin imax press release. fs_integral (servo_run p c s xs) = Fin i
    \<and> fs_previous_committed (servo_run p c s xs) = Fin u
    \<and> fl (fc_integral_min c) = Fin imin \<and> fl (fc_integral_max c) = Fin imax
    \<and> fl (fc_press_cap c) = Fin press \<and> fl (fc_release_cap c) = Fin release
    \<and> imin \<le> i \<and> i \<le> imax \<and> - release \<le> u \<and> u \<le> press"
proof -
  note init = init_ok [OF assms]
  then have valid: "ForceServo_ConfigValid p c" by simp
  then obtain press release rate imin imax where c: "fl (fc_press_cap c) = Fin press"
    "fl (fc_release_cap c) = Fin release" "fl (fc_integral_min c) = Fin imin" "fl (fc_integral_max c) = Fin imax"
    using config_caps by metis
  have "servo_ok c (servo_run p c s xs)" using init servo_run_ok by blast
  then have "f32_le (Fin imin) (fs_integral (servo_run p c s xs))"
    "f32_le (fs_integral (servo_run p c s xs)) (Fin imax)"
    "f32_le (Fin (- release)) (fs_previous_committed (servo_run p c s xs))"
    "f32_le (fs_previous_committed (servo_run p c s xs)) (Fin press)"
    by (simp_all add: servo_ok_def c)
  then show ?thesis
    using c by (cases "fs_integral (servo_run p c s xs)"; cases "fs_previous_committed (servo_run p c s xs)") auto
qed

lemma rnd_dyadic: "rnd (1 / 16) = Fin (1 / 16)" "rnd (125 / 2) = Fin (125 / 2)"
proof -
  have "exponent (1 / 16) = - 4" "exponent (125 / 2) = 5"
    by (rule exponent_unique; simp add: pow2_def)+
  then show "rnd (1 / 16) = Fin (1 / 16)" "rnd (125 / 2) = Fin (125 / 2)"
    by (simp_all add: rnd_def round_magnitude_def ulp_def pow2_def round_half_even_def Let_def)
qed

theorem servo_output_limited_witness:
  "\<exists>out. sp_limited_output (snd (snd (ForceServo_Prepare commissioning
        (g_force_servo_default_config commissioning) (Fin 240) (Fin (1 / 16))
        (zero_servo\<lparr>fs_start := Fin 250, fs_filtered := Fin 250, fs_reference := Fin 250,
           fs_target := Fin 250, fs_initialized := True\<rparr>)))) = Fin out
    \<and> 0 \<le> out \<and> out \<le> 125 / 2"
proof -
  let ?c = "g_force_servo_default_config commissioning"
  let ?s = "zero_servo\<lparr>fs_start := Fin 250, fs_filtered := Fin 250, fs_reference := Fin 250,
           fs_target := Fin 250, fs_initialized := True\<rparr>"
  have fl: "fl (fc_kp ?c) = Fin 10" "fl (fc_ki ?c) = Fin 0" "fl (fc_kd ?c) = Fin 0"
    "fl (fc_output_rate ?c) = Fin 1000" "fl (fc_press_cap ?c) = Fin 720" "fl (fc_release_cap ?c) = Fin 100"
    "fl (fc_measurement_filter_s ?c) = Fin 0" "fl (fc_control_min_ms ?c) = Fin 5"
    "fl (fc_feedback_gap_ms ?c) = Fin 125"
    by (simp_all add: g_force_servo_default_config_def commissioning_def fs_constants)
  obtain a where a: "rnd (1 / 50) = Fin a" "0 < a" "a < 1" by (rule rnd_near [of "1 / 50"]) auto
  have d: "fl (fc_d_filter_s ?c) = Fin a"
    using fl_lit [OF a(1)] by (simp add: g_force_servo_default_config_def a)
  obtain b where b: "rnd (a + 1 / 16) = Fin b" "1 / 32 < b" by (rule rnd_near [of "a + 1 / 16"]) (use a in auto)
  define v where "v = 1 / 16 / b"
  have v: "0 < v" "v < 2" using b(2) by (simp_all add: v_def field_simps)
  obtain k where k: "rnd v = Fin k" "k \<le> v + 1 / 1024" using rnd_near [of v] v by auto
  have k0: "0 \<le> k" "k < 3" using rnd_nonneg [of v] v k by simp_all
  have small: "\<exists>r. rnd (- x) = Fin (- r) \<and> 0 \<le> r \<and> r < 1000" if "0 \<le> x" "x < 999" for x
  proof (cases "x = 0")
    case False
    with that have "0 < x" "x < 2 ^ 15" by simp_all
    then obtain r where r: "rnd x = Fin r" "r \<le> x + 1 / 1024" by (rule rnd_near)
    moreover have "0 \<le> r" using rnd_nonneg [OF that(1)] r(1) by simp
    ultimately show ?thesis using that by (intro exI [of _ r]) (simp add: rnd_neg)
  qed simp
  obtain y where y: "rnd (- (160 * k)) = Fin (- y)" "0 \<le> y" "y < 1000"
    using small [of "160 * k"] k0 by auto
  obtain lo where lo: "rnd (5 * (8589935 / 2 ^ 33)) = Fin lo" "lo \<le> 1 / 16"
    by (rule rnd_near [of "5 * (8589935 / 2 ^ 33)"]) auto
  obtain hi where hi: "rnd (125 * (8589935 / 2 ^ 33)) = Fin hi" "1 / 16 \<le> hi"
    by (rule rnd_near [of "125 * (8589935 / 2 ^ 33)"]) auto
  have z: "f32_isfinite (rnd (- y))"
  proof (cases "y = 0")
    case False
    with y have "0 < y" "y < 2 ^ 15" by simp_all
    then obtain r where "rnd y = Fin r" by (rule rnd_near)
    then show ?thesis by (simp add: rnd_neg)
  qed simp
  have k': "rnd (1 / (16 * b)) = Fin k" using k(1) by (simp add: v_def)
  have y': "rnd (- (k * 160)) = Fin (- y)" using y by (simp add: mult.commute)
  have am: "clamp (Fin 100) (Fin (- 100)) (Fin 720) = Fin 100" by (simp add: clamp_def f32_max_def f32_min_def)
  have lim: "limit_rate commissioning ?c (Fin (1 / 16)) (Fin 0) (Fin 100) = Fin (125 / 2)"
    by (simp add: limit_rate_def Let_def commissioning_def f32_min_def rnd_dyadic
        fl [unfolded commissioning_def])
  have prep: "fst (ForceServo_Prepare commissioning ?c (Fin 240) (Fin (1 / 16)) ?s)
      \<and> sp_raw_output (snd (snd (ForceServo_Prepare commissioning ?c (Fin 240) (Fin (1 / 16)) ?s))) = Fin 100"
    using lo hi lim b(2) k0
    by (simp add: ForceServo_Prepare_def default_config_valid zero_servo_def servo_finite_def
      advance_reference_def filter_measurement_def Let_def fl d rnd_001 rnd_dyadic f32_sub_def f32_min_def b(1) k'
      y' z am)
  obtain s' step where r: "ForceServo_Prepare commissioning ?c (Fin 240) (Fin (1 / 16)) ?s = (True, s', step)"
    using prep by (metis prod.collapse)
  have "bp_commissioning commissioning" by (simp add: commissioning_def)
  then obtain out base where o: "sp_limited_output step = Fin out" "0 \<le> out"
    "base = 0 \<or> fs_previous_committed ?s = Fin base"
    "f32_le (Fin out) (f32_add (Fin base) (f32_mul (fl (fc_output_rate ?c)) (Fin (1 / 16))))"
    using servo_output_limited [OF r] prep r by auto
  have "base = 0" using o(3) by (simp add: zero_servo_def)
  then show ?thesis using o(1,2,4) r by (simp add: fl rnd_dyadic)
qed

theorem servo_run_bounded_witness:
  "\<exists>i u. (let c = g_force_servo_default_config commissioning;
       s = servo_run commissioning c (snd (ForceServo_Init commissioning c (Fin 240) (Fin 250) zero_servo))
         [\<lparr>si_measured = Fin 245, si_dt = Fin (1 / 16), si_committed = (\<lambda>_. 60)\<rparr>]
     in fs_integral s = Fin i \<and> fs_previous_committed s = Fin u \<and> - 1000 \<le> i \<and> i \<le> 1000
       \<and> - 100 \<le> u \<and> u \<le> 720)"
proof -
  let ?c = "g_force_servo_default_config commissioning"
  have "ForceServo_Init commissioning ?c (Fin 240) (Fin 250) zero_servo
      = (True, snd (ForceServo_Init commissioning ?c (Fin 240) (Fin 250) zero_servo))"
    by (simp add: ForceServo_Init_def default_config_valid)
  moreover have "fl (fc_integral_min ?c) = Fin (- 1000)" "fl (fc_integral_max ?c) = Fin 1000"
    "fl (fc_press_cap ?c) = Fin 720" "fl (fc_release_cap ?c) = Fin 100"
    by (simp_all add: g_force_servo_default_config_def commissioning_def fs_constants)
  ultimately show ?thesis
    using servo_run_bounded [of commissioning ?c "Fin 240" "Fin 250" zero_servo _
        "[\<lparr>si_measured = Fin 245, si_dt = Fin (1 / 16), si_committed = (\<lambda>_. 60)\<rparr>]"]
    by (force simp: Let_def)
qed

end
