(* ===== verification/ForceBench.thy ===== *)
theory ForceBench
  imports ForceMachineProps MotorServoBench ForceServoProps
begin

text \<open>
  A run of the ForceServo application on the bench board in a commissioning build with the linked
  profile: boot, a sample, START and a second sample, which opens a session. It shows that the
  hypotheses of the application's properties can hold.
\<close>

section \<open>The executor at rest\<close>

abbreviation board :: "unit real_board" where
  "board \<equiv> bench commissioning"

text \<open>The clock of the host: the supplied time.\<close>

abbreviation (input) supplied :: "unit clock" where
  "supplied \<equiv> \<lambda>now e. now"

abbreviation ops :: "unit servo_motor servo_executor" where
  "ops \<equiv> servo_ops supplied board"

lemma board_arming: "MotorHwReal_OutputArmingAllowed board" "rb_policy board = commissioning"
  by (simp_all add: MotorHwReal_OutputArmingAllowed_def bench_board_def commissioning_def)

definition rest :: "unit servo_motor \<Rightarrow> bool" where
  "rest e \<longleftrightarrow> idle e \<and> calm e \<and> rx_initialized e \<and> hr_initialized e \<and> st_initialized e \<and> st_healthy e
    \<and> \<not> rx_completion_event_pending e \<and> sx e = servo_reset"

lemma rest_calm: "rest e \<Longrightarrow> sv_poll e = e" "rest e \<Longrightarrow> timer_hw e = e"
  by (simp_all add: rest_def calm_poll) (simp add: calm_def calm_hw)

lemma rest_status [simp]: "rest (MotorExecutor_SetPhysicalStatus board e) = rest e"
  by (auto simp: rest_def calm_def) (simp_all add: MotorExecutor_SetPhysicalStatus_def)

lemma rest_snapshot:
  assumes "rest e"
  shows "\<not> mx_logical_active (rx_motor (MotorExecutor_SetPhysicalStatus board e))"
    "mx_physical_output_disabled (rx_motor (MotorExecutor_SetPhysicalStatus board e))"
    "\<not> mx_physical_output_locked (rx_motor (MotorExecutor_SetPhysicalStatus board e))"
  using assms by (simp_all add: rest_def quiet_def low_def MotorExecutor_SetPhysicalStatus_def board_arming)

lemma rest_queries:
  assumes "rest e"
  shows "fst (Servo_OutputIsDisabled board e)" "rest (snd (Servo_OutputIsDisabled board e))"
    "fst (Servo_IsHealthy board e)" "rest (snd (Servo_IsHealthy board e))"
    "rest (snd (Servo_GetSnapshot board e))" "rx_motor (snd (Servo_GetSnapshot board e)) = rx_motor (MotorExecutor_SetPhysicalStatus board e)"
proof -
  have s: "rest (MotorExecutor_SetPhysicalStatus board e)" using assms by simp
  show "fst (Servo_OutputIsDisabled board e)" "rest (snd (Servo_OutputIsDisabled board e))"
    "rest (snd (Servo_GetSnapshot board e))" "rx_motor (snd (Servo_GetSnapshot board e)) = rx_motor (MotorExecutor_SetPhysicalStatus board e)"
    using assms rest_snapshot [OF assms] rest_calm(1) [OF assms]
    by (simp_all add: Servo_OutputIsDisabled_def output_is_disabled_def Servo_GetSnapshot_def Let_def)
  have "rx_initialized (MotorExecutor_SetPhysicalStatus board e)" "MotorStopTimer_IsHealthy (MotorExecutor_SetPhysicalStatus board e)"
    "\<not> MotorStopTimer_IsArmed (MotorExecutor_SetPhysicalStatus board e)"
    using s by (simp_all add: rest_def quiet_def MotorStopTimer_IsHealthy_def MotorStopTimer_IsArmed_def)
  then show "fst (Servo_IsHealthy board e)" "rest (snd (Servo_IsHealthy board e))"
    using s rest_snapshot [OF assms] rest_calm(1) [OF assms] rest_calm(1) [OF s]
    by (simp_all add: Servo_IsHealthy_def is_healthy_def Let_def)
qed

lemma rest_disable:
  assumes "rest e"
  shows "fst (Servo_Disable board e) = MOTOR_RESULT_OK" "rest (snd (Servo_Disable board e))"
proof -
  define e1 where "e1 = MotorStopTimer_Cancel (MotorHwReal_DisableImmediate (set_open False e))"
  have z: "servo_reset\<lparr>sv_open := False\<rparr> = servo_reset" by (simp add: servo_reset_def)
  have "st_handler e" using assms by (simp add: rest_def quiet_def low_def)
  then have q: "quiet e1" by (simp add: e1_def set_open_def)
  have m: "rx_motor e1 = rx_motor e" "sx e1 = servo_reset" "rx_initialized e1" "\<not> rx_completion_event_pending e1"
    "hr_initialized e1" "st_initialized e1" "st_healthy e1"
    using assms by (simp_all add: e1_def rest_def set_open_def z)
      (simp add: MotorStopTimer_Cancel_def Let_def)
  have "tm_schedule e1 = []" "\<not> tim5_irq_enabled e1"
    using assms by (simp_all add: e1_def rest_def set_open_def calm_def MotorStopTimer_Cancel_def Let_def)
  then have 1: "rest e1" using q m assms by (simp add: rest_def calm_def)
  define e2 where "e2 = (MotorExecutor_ClearPendingCompletion e1)\<lparr>rx_motor := (rx_motor (MotorExecutor_ClearPendingCompletion e1))\<lparr>mx_last_action := MOTOR_ACTION_DISABLED, mx_command_mv := 0,
               mx_requested_duration_ms := 0, mx_logical_deadline_ms := 0, mx_logical_backstop_ms := 0\<rparr>\<rparr>"
  have 2: "rest (MotorExecutor_ClearActivePlan e2)"
    using 1 by (auto simp: e2_def rest_def calm_def MotorExecutor_ClearPendingCompletion_def MotorExecutor_ClearActivePlan_def)
  have "rest (MotorExecutor_SetPhysicalStatus board (MotorExecutor_ClearActivePlan e2))" using 2 by simp
  then have "\<not> st_armed (MotorExecutor_SetPhysicalStatus board (MotorExecutor_ClearActivePlan e2))"
    by (simp add: rest_def quiet_def)
  then have r: "disable_finish board e1 = (MOTOR_RESULT_OK, MotorExecutor_SetPhysicalStatus board (MotorExecutor_ClearActivePlan e2))"
    using rest_snapshot [OF 2] 2
    by (simp add: disable_finish_def Let_def MotorStopTimer_IsArmed_def flip: e2_def)
  have "calm (MotorExecutor_SetPhysicalStatus board (MotorExecutor_ClearActivePlan e2))"
    using 2 rest_status [of "MotorExecutor_ClearActivePlan e2"] by (auto simp: rest_def)
  then have "Servo_Disable board e = (MOTOR_RESULT_OK, MotorExecutor_SetPhysicalStatus board (MotorExecutor_ClearActivePlan e2))"
    unfolding Servo_Disable_def by (intro calm_masked) (simp_all add: r flip: e1_def)
  then show "fst (Servo_Disable board e) = MOTOR_RESULT_OK" "rest (snd (Servo_Disable board e))"
    using 2 by simp_all
qed

lemma rest_initialized:
  "fst (Servo_Initialize board reset_servo) = MOTOR_RESULT_OK" "rest (snd (Servo_Initialize board reset_servo))"
proof -
  have s: "tm_schedule (set_open False reset_servo) = []"
    by (simp add: reset_servo_def reset_motor_def set_open_def real_motor.defs servo_motor.defs)
  have z: "sx reset_servo = servo_reset" by (simp add: reset_servo_def real_motor.defs servo_motor.defs)
  note i = bench_initializes [OF s, of commissioning]
  show "fst (Servo_Initialize board reset_servo) = MOTOR_RESULT_OK" using i(1) by (simp add: Servo_Initialize_def)
  show "rest (snd (Servo_Initialize board reset_servo))"
    using i Real_Initialize_pending [OF i(1)] Real_Initialize_sx [of board "set_open False reset_servo"] z
    by (auto simp: Servo_Initialize_def rest_def ready_def calm_def quiet_def low_def set_open_def servo_reset_def)
qed

section \<open>A session opens\<close>

lemma rest_begin:
  assumes "rest e"
  obtains e' where "MotorExecutor_BeginContinuous board e = ((MOTOR_RESULT_OK, Some 1), e')"
    "quiet e'" "calm e'" "hr_initialized e'" "st_initialized e'" "st_healthy e'" "\<not> rx_completion_event_pending e'"
    "sx e' = servo_reset\<lparr>sv_generation := 1, sv_open := True\<rparr>"
proof -
  let ?f = "\<lambda>e. e\<lparr>sx := (sx e)\<lparr>sv_generation := 1, sv_open := True, sv_has_sequence := False,
                    sv_committed := 0, sv_last_sign := 0, sv_budget_set := False,
                    sv_session_limited := False, sv_boost_set := False, sv_boost_used := False,
                    sv_boost_end := False, sv_boost_plan := False\<rparr>,
                 rx_motor := (rx_motor e)\<lparr>mx_boost_started_ms := 0, mx_boost_deadline_ms := 0,
                    mx_boost_planned_end_ms := 0, mx_last_action := MOTOR_ACTION_CONTINUOUS,
                    mx_last_completion := MOTOR_COMPLETION_NONE\<rparr>\<rparr> :: unit servo_motor"
  have c: "timer_hw e = e" "MotorHwReal_IsDisabled e" "\<not> MotorStopTimer_IsArmed e" "MotorStopTimer_IsHealthy e"
    using assms rest_calm(2) by (simp_all add: rest_def quiet_def low_def MotorStopTimer_IsArmed_def MotorStopTimer_IsHealthy_def)
  have f: "calm (?f e)" using assms by (simp add: rest_def calm_def)
  have z: "sv_generation (sx e) = 0" "\<not> sv_open (sx e)" using assms by (simp_all add: rest_def servo_reset_def)
  have "MotorExecutor_BeginContinuous board e = ((MOTOR_RESULT_OK, Some 1), ?f e)"
    unfolding MotorExecutor_BeginContinuous_def
    by (rule calm_masked) (use c z f assms board_arming in \<open>simp_all add: rest_def Let_def\<close>)
  then show ?thesis
    by (rule that) (use assms f in \<open>auto simp: rest_def servo_reset_def quiet_def low_def pins_ok_def MotorHwReal_IsDisabled_def\<close>)
qed

lemma rest_opens:
  assumes "rest e"
  obtains e1 e2 where "MotorExecutor_BeginContinuous board e = ((MOTOR_RESULT_OK, Some 1), e1)"
    "MotorExecutor_SetContinuousBudget commissioning 1 1011 5000 720 e1 = (True, e2)"
    "fst (fst (MotorExecutor_UpdateContinuous board 1 2 1010 1011 130 20 2 0 0 False e2)) = MOTOR_RESULT_OK"
proof -
  obtain e1 where b: "MotorExecutor_BeginContinuous board e = ((MOTOR_RESULT_OK, Some 1), e1)"
    and e1: "quiet e1" "calm e1" "hr_initialized e1" "st_initialized e1" "st_healthy e1" "\<not> rx_completion_event_pending e1"
    "sx e1 = servo_reset\<lparr>sv_generation := 1, sv_open := True\<rparr>"
    by (rule rest_begin [OF assms(1)])
  define e2 where "e2 = e1\<lparr>sx := (sx e1)\<lparr>sv_budget_set := True, sv_session_limited := True,
      sv_session_deadline := 6011, sv_normal_cap := 720\<rparr>\<rparr>"
  have "MotorExecutor_SetContinuousBudget commissioning 1 1011 5000 720 e1 = (True, e2)"
    unfolding MotorExecutor_SetContinuousBudget_def
    by (rule calm_masked) (use e1 in \<open>simp_all add: owns_def servo_reset_def e2_def calm_def Let_def
        commissioning_def FS_CONTINUOUS_CEILING_def FS_PRESS_OPERATING_CAP_def\<close>)
  moreover have "fst (fst (MotorExecutor_UpdateContinuous board 1 2 1010 1011 130 20 2 0 0 False e2)) = MOTOR_RESULT_OK"
  proof -
    let ?s = "sx e2"
    have s: "\<not> sv_boost_set ?s" "sv_open ?s" "\<not> sv_has_sequence ?s" "sv_session_limited ?s" "sv_committed ?s = 0"
      "sv_last_sign ?s = 0" "owns 1 ?s" "\<not> sv_boost_plan ?s" "sv_session_deadline ?s = 6011" "sv_normal_cap ?s = 720"
      by (simp_all add: e2_def e1 servo_reset_def owns_def)
    define a1 where "a1 = (lease_start 129 e2)\<lparr>st_last_failure_stage := 0, tim5_irq_enabled := True\<rparr>"
    have arm: "sv_arm commissioning 129 e2 = (True, a1)"
      unfolding a1_def using e1
      by (intro calm_arm) (simp_all add: e2_def calm_def quiet_def MOTOR_STOP_MAX_LEASE_MS_def commissioning_def)
    have a1: "tm_schedule a1 = []" "tim5_sr a1 = 0" "st_armed a1" "st_healthy a1" "sx a1 = ?s" "\<not> rx_completion_event_pending a1"
      using e1 by (simp_all add: a1_def e2_def calm_def) (simp_all add: lease_start_def MotorStopTimer_Cancel_def tim5_update_event_def Let_def)
    define a2 where "a2 = MotorHwReal_DisableImmediate a1"
    have out: "update_output board 1011 0 a1 = (True, 0, 0, a2)"
      using s a1 by (simp add: update_output_def a2_def Let_def)
    define a3 where "a3 = a2\<lparr>st_last_failure_stage := 0, tim5_irq_enabled := True\<rparr>"
    have com: "sv_commit a2 = (True, a3)"
      unfolding a3_def using a1 by (intro calm_commit) (simp_all add: a2_def)
    have fin: "fst (update_finish board 2 1010 130 1011 0 False 129 129 0 0 a3) = MOTOR_RESULT_OK"
      using s a1 by (simp add: update_finish_def revoked_def a3_def a2_def servo_done_def)
    have "fst (update_commit board 2 1010 130 1011 0 e2) = MOTOR_RESULT_OK"
      using s arm out com fin a1
      by (simp add: update_commit_def update_install_def ok_or_fail_def revoked_def Let_def board_arming)
    moreover have "\<not> update_stale 1 2 ?s" using s by (simp add: update_stale_def)
    moreover have "\<not> update_refused board 1 1011 (1011 - 1010) 130 20 2 0 e2"
      using s e1 board_arming by (simp add: e2_def update_refused_def update_bounds_bad_def Let_def commissioning_def
          FS_CONTINUOUS_CEILING_def FS_EXECUTOR_PRESS_CEILING_def FS_PRESS_OPERATING_CAP_def word_le_nat_alt)
    moreover have live: "update_live board 1011 e2 = (True, e2)" using s by (simp add: update_live_def)
    moreover have "update_interlock 1011 2 0 (snd (update_live board 1011 e2)) = (True, 0, False, e2)"
      using s by (simp add: live update_interlock_def Let_def)
    ultimately show ?thesis
      by (simp add: MotorExecutor_UpdateContinuous_def masked_def case_prod_beta update_continuous_split)
  qed
  ultimately show ?thesis using b that by blast
qed

section \<open>The numbers of the linked profile\<close>

abbreviation (input) linked_profile :: ForceServoProfile where
  "linked_profile \<equiv> g_force_servo_profile commissioning"

abbreviation (input) linked_config :: ForceServoConfig where
  "linked_config \<equiv> g_force_servo_default_config commissioning"

lemma linked_numbers:
  "f32_of_int 250 = Fin 250" "f32_of_u32 250 = Fin 250"
  "fl (fp_unit linked_profile) = Fin 0" "fl (fp_raw_trip linked_profile) = Fin 325"
  "fl (fp_force_trip linked_profile) = Fin 325" "fl (fp_contact linked_profile) = Fin 20"
  "fl (fp_raw_min linked_profile) = Fin 0"
  "f32_cast_u32 (fl (fc_sample_age_ms linked_config)) = 20" "f32_cast_u32 (fl (fc_lease_ms linked_config)) = 130"
  "f32_cast_u32 (fl (fc_reverse_deadtime_ms linked_config)) = 2" "f32_to_i32 (fl (fc_press_cap linked_config)) = 720"
  "least_ms (fp_energized_ms linked_profile) (fp_session_ms linked_profile) (fc_session_ms linked_config) = 5000"
  by (simp_all add: g_force_servo_profile_def g_force_servo_default_config_def commissioning_def fs_constants
      f32_of_int_def f32_of_u32_def f32_cast_u32_def f32_to_i32_def least_ms_def f32_min_def saturate_def rat_trunc_def)

lemma linked_measure: "ForceServo_Measure commissioning linked_profile 250 250 (Fin 0) = (True, Fin 250)"
  by (simp add: ForceServo_Measure_def linked_numbers default_profile_valid)

lemma linked_plan:
  "fst (ForceServo_PlanAllowed commissioning linked_profile linked_config (Fin 250) (Fin 250) s) = FS_PROFILE_OK"
  "ForceServo_TargetAllowed commissioning (Some linked_profile) (Fin 250) False = FS_PROFILE_OK"
proof -
  obtain k where "rnd (3 / 2) = Fin k" by (rule rnd_near [of "3 / 2"]) auto
  then have t: "ForceServo_TrajectorySeconds linked_config (Fin 250) (Fin 250) = Fin 0"
    by (simp add: ForceServo_TrajectorySeconds_def f32_sub_def f32_sqrt_def f32_max_def commissioning_def
        g_force_servo_default_config_def FS_REFERENCE_RATE_def FS_REFERENCE_ACCEL_def Let_def)
  show a: "ForceServo_TargetAllowed commissioning (Some linked_profile) (Fin 250) False = FS_PROFILE_OK"
    by (simp add: ForceServo_TargetAllowed_def default_profile_valid linked_numbers)
      (simp add: g_force_servo_profile_def commissioning_def fs_constants)
  show "fst (ForceServo_PlanAllowed commissioning linked_profile linked_config (Fin 250) (Fin 250) s) = FS_PROFILE_OK"
    by (simp add: ForceServo_PlanAllowed_def default_profile_config_valid t a linked_numbers Let_def)
      (simp add: g_force_servo_profile_def g_force_servo_default_config_def commissioning_def fs_constants f32_min_def)
qed

section \<open>The run\<close>

abbreviation (input) bench_sample :: "u64 \<Rightarrow> u32 \<Rightarrow> MachinePressureSample" where
  "bench_sample n t \<equiv> \<lparr>ps_sequence = n, ps_received_at_ms = t, ps_raw_pressure_counts = 250, ps_frame = [],
     ps_control_pressure_units = 250, ps_frame_valid = True, ps_control_units_valid = True\<rparr>"

abbreviation (input) start_request :: MachineCommand where
  "start_request \<equiv> \<lparr>cmd_type = CMD_FORCE_START, cmd_target_pressure_units = 0\<rparr>"

definition bench_call :: "nat \<Rightarrow> force_call" where
  "bench_call n =
    (if n = 0 then Call_CompleteBoot True 1 else if n = 1 then Call_PressureSample (bench_sample 1 1000) 1001
     else if n = 2 then Call_Command start_request 1002 else Call_PressureSample (bench_sample 2 1010) 1011)"

primrec bench_world :: "nat \<Rightarrow> unit servo_motor force_world" where
  "bench_world 0 = Force_Initialize commissioning ops (Some g_sd700_auto_target_machine_config) 0
     (snd (Servo_Initialize board reset_servo))"
| "bench_world (Suc n) = force_step supplied board (bench_call n) (bench_world n)"

lemma bench_runs: "force_run board (bench_world n)"
proof (induction n)
  case 0
  obtain e where e: "Servo_Initialize board reset_servo = (MOTOR_RESULT_OK, e)"
    using rest_initialized(1) by (cases "Servo_Initialize board reset_servo") simp
  have z: "sx reset_servo = servo_reset" by (simp add: reset_servo_def real_motor.defs servo_motor.defs)
  show ?case using force_run.initialized [OF z e, of supplied "Some g_sd700_auto_target_machine_config" 0] by (simp add: e)
next
  case (Suc n)
  show ?case unfolding bench_world.simps by (rule force_run.call [OF Suc])
qed

text \<open>No session, with the linked profile, configuration and target, and the executor at rest.\<close>

definition standing :: "MachineState \<Rightarrow> bool \<Rightarrow> MachinePressureSample option \<Rightarrow> unit servo_motor force_world \<Rightarrow> bool" where
  "standing state waits sampled w \<longleftrightarrow> rest (fw_e w)
    \<and> (let m = fw_m w; s = mc_servo m in mc_state m = state \<and> sm_start_pending s = waits \<and> \<not> sm_active s
        \<and> \<not> sm_contacted s \<and> sm_profile s = linked_profile \<and> sm_config s = linked_config
        \<and> mc_target_pressure_units m = 250 \<and> mc_target_valid m \<and> \<not> sm_cooling_active s \<and> mc_config_valid m
        \<and> sm_have_sample s = (sampled \<noteq> None) \<and> (\<forall>x. sampled = Some x \<longrightarrow> mc_pressure m = x)
        \<and> (waits \<longrightarrow> sm_start_requested_ms s = 1002))"

lemma srv_config_valid [simp]: "mc_config_valid (srv f m) = mc_config_valid m"
  by (simp add: srv_def)

lemma rest_ops [simp]:
  "ex_Disable ops = Servo_Disable board" "ex_OutputIsDisabled ops = Servo_OutputIsDisabled board" "ex_IsHealthy ops = Servo_IsHealthy board"
  "ex_GetSnapshot ops = Servo_GetSnapshot board" "ex_motor ops = rx_motor" "sq_Leave ops = sv_poll"
  "sq_MaskedSnapshot ops = (\<lambda>e. MotorExecutor_SetPhysicalStatus board (timer_hw e))"
  "sq_BeginContinuous ops = MotorExecutor_BeginContinuous board"
  "sq_SetContinuousBudget ops = MotorExecutor_SetContinuousBudget commissioning"
  "sq_UpdateContinuous ops = MotorExecutor_UpdateContinuous board"
  by (simp_all add: servo_ops_def board_arming)

lemma rest_asks:
  assumes "rest (fw_e w)"
  shows "fst (xq (Servo_OutputIsDisabled board) w)" "rest (fw_e (snd (xq (Servo_OutputIsDisabled board) w)))"
    "fw_m (snd (xq (Servo_OutputIsDisabled board) w)) = fw_m w"
    "fst (xq (Servo_IsHealthy board) w)" "rest (fw_e (snd (xq (Servo_IsHealthy board) w)))"
    "fw_m (snd (xq (Servo_IsHealthy board) w)) = fw_m w"
    "fst (snapshot ops (\<lambda>x. \<not> mx_physical_output_locked x) w)" "fst (snapshot ops (\<lambda>x. \<not> mx_logical_active x) w)"
    "rest (fw_e (snd (snapshot ops f w)))" "fw_m (snd (snapshot ops f w)) = fw_m w"
  using rest_queries [OF assms] rest_snapshot [OF assms]
  by (simp_all add: xq_def snapshot_def case_prod_beta)

lemma rest_publish:
  assumes "rest (fw_e w)" "\<not> sm_contacted (servo_of w)"
  shows "rest (fw_e (publish commissioning ops now w))"
  using assms rest_calm [OF assms(1)] rest_calm [of "MotorExecutor_SetPhysicalStatus board (fw_e w)"]
  by (simp add: publish_def Let_def)

lemma standing_publish: "standing st pd sa w \<Longrightarrow> standing st pd sa (publish commissioning ops now w)"
  using rest_publish [of w now] by (simp add: standing_def Let_def) (simp add: publish_def dg_status_def srv_def Let_def case_prod_beta)

lemma world0: "standing BOOT_SAFE False None (bench_world 0)"
proof -
  let ?w = "\<lparr>fw_m = initial_context commissioning (Some g_sd700_auto_target_machine_config), fw_e = snd (Servo_Initialize board reset_servo)\<rparr>"
  have "rest (fw_e (snd (xq (ex_Disable ops) ?w)))"
    using rest_disable(2) [OF rest_initialized(2)] by (simp add: xq_def case_prod_beta)
  moreover have g: "g_force_characterization_contract commissioning ! 0 = of_bool (bp_characterization commissioning)"
    by (simp add: g_force_characterization_contract_def commissioning_def)
  moreover have c: "bp_commissioning commissioning" "\<not> bp_characterization commissioning" by (simp_all add: commissioning_def)
  ultimately have "standing BOOT_SAFE False None (snd (xq (ex_Disable ops) ?w))"
    using c by (simp add: standing_def Let_def xq_def case_prod_beta initial_context_def initial_servo_def
        ForceContext.defs MachineContext.defs zero_context_def)
  then show ?thesis
    using standing_publish by (simp add: Force_Initialize_def case_prod_beta)
qed

lemma world1: "standing IDLE False None (bench_world 1)"
proof -
  define w where "w = bench_world 0"
  have w: "standing BOOT_SAFE False None w" unfolding w_def by (rule world0)
  then have r: "rest (fw_e w)" by (simp add: standing_def)
  let ?q = "all_of [xq (Servo_OutputIsDisabled board), xq (Servo_IsHealthy board)] w"
  have q: "fst ?q" "rest (fw_e (snd ?q))" "fw_m (snd ?q) = fw_m w"
    using rest_asks [OF r] rest_asks [OF rest_asks(2) [OF r]] by simp_all
  have "standing IDLE False None (mch (\<lambda>m. m\<lparr>mc_state := IDLE\<rparr>) (snd ?q))"
    using w q by (simp add: standing_def Let_def)
  then have "standing IDLE False None (force_step supplied board (Call_CompleteBoot True 1) w)"
    using w q standing_publish
    by (simp add: Force_CompleteBoot_def standing_def [of BOOT_SAFE] default_profile_config_valid Let_def case_prod_beta del: of_Cons)
  then show ?thesis by (simp add: bench_call_def w_def)
qed

lemma standing_store:
  assumes "standing IDLE False None w"
  shows "standing IDLE False (Some (bench_sample 1 1000)) (force_step supplied board (Call_PressureSample (bench_sample 1 1000) 1001) w)"
proof -
  have c: "\<not> overpressure linked_profile 250" "\<not> bp_characterization commissioning"
    by (simp_all add: overpressure_def linked_numbers) (simp add: commissioning_def)
  define v where "v = mch (store_sample (bench_sample 1 1000) 1001) w"
  have safety: "Force_CheckPressureSafety commissioning ops 1001 w = w"
    using assms by (simp add: Force_CheckPressureSafety_def standing_def Let_def srv_def)
  define u where "u = mch (\<lambda>m. record_peak (bench_sample 1 1000) (Fin 250) 1001 (record_after (bench_sample 1 1000) (Fin 250) 1001 m)) v"
  have v: "standing IDLE False (Some (bench_sample 1 1000)) v" using assms by (simp add: v_def standing_def store_sample_def Let_def)
  then have u: "standing IDLE False (Some (bench_sample 1 1000)) u"
    by (simp add: u_def standing_def record_peak_def record_after_def dg_session_def dg_assist_def Let_def)
  have "measured_sample commissioning ops (bench_sample 1 1000) (Fin 250) 1001 v = publish commissioning ops 1001 u"
    unfolding measured_sample_def u_def [symmetric] Let_def using u by (simp add: standing_def Let_def)
  then have "accept_sample commissioning ops (bench_sample 1 1000) 1001 w = publish commissioning ops 1001 u"
    using v c by (simp add: accept_sample_def safety at_boundary_def standing_def linked_measure Let_def flip: v_def)
  then show ?thesis
    using assms c standing_publish [OF u]
    by (simp add: Force_HandlePressureSample_def standing_def [of IDLE False None] sample_malformed_def Let_def)
qed

lemma standing_start:
  assumes "standing IDLE False (Some (bench_sample 1 1000)) w"
  shows "fst (Force_HandleCommand commissioning ops start_request 1002 w) = COMMAND_ACCEPTED"
    "standing IDLE True (Some (bench_sample 1 1000)) (snd (Force_HandleCommand commissioning ops start_request 1002 w))"
proof -
  have r: "rest (fw_e w)" using assms by (simp add: standing_def)
  define q where "q = all_of [xq (Servo_IsHealthy board), xq (Servo_OutputIsDisabled board), snapshot ops (\<lambda>x. \<not> mx_physical_output_locked x)] w"
  have q: "fst q" "rest (fw_e (snd q))" "fw_m (snd q) = fw_m w"
    using rest_asks [OF r] rest_asks [OF rest_asks(5) [OF r]] rest_asks [OF rest_asks(2) [OF rest_asks(5) [OF r]]]
    by (simp_all add: q_def)
  have c: "bp_commissioning commissioning" "\<not> bp_characterization commissioning" by (simp_all add: commissioning_def)
  have s: "start_command commissioning ops 1002 w = request_start commissioning 1002 (snd q)"
    using assms q c by (simp add: start_command_def start_ready_def standing_def default_profile_config_valid Let_def
        case_prod_beta flip: q_def del: of_Cons)
  have m: "measure commissioning (fw_m w) = (True, Fin 250)"
    using assms by (simp add: measure_def standing_def linked_measure Let_def)
  have p: "fst (check_plan commissioning (Fin 250) (fw_m w)) = FS_PROFILE_OK"
    using assms linked_plan(1) by (simp add: check_plan_def standing_def linked_numbers Let_def case_prod_beta)
  define r where "r = request_start commissioning 1002 (snd q)"
  have r: "fst r = COMMAND_ACCEPTED" "standing IDLE True (Some (bench_sample 1 1000)) (snd r)"
    using assms q m p unfolding r_def
    by (simp_all add: request_start_def standing_def Let_def case_prod_beta)
      (simp add: check_plan_def dg_session_def planning_def srv_def Let_def case_prod_beta)
  then have "standing IDLE True (Some (bench_sample 1 1000)) (mch (\<lambda>m. m\<lparr>mc_last_command_result := fst r\<rparr>) (snd r))"
    by (simp add: standing_def Let_def)
  from standing_publish [OF this, of 1002] r(1)
  show "fst (Force_HandleCommand commissioning ops start_request 1002 w) = COMMAND_ACCEPTED"
    "standing IDLE True (Some (bench_sample 1 1000)) (snd (Force_HandleCommand commissioning ops start_request 1002 w))"
    by (simp_all add: Force_HandleCommand_def s Let_def case_prod_beta flip: r_def)
qed

lemma standing_contact:
  assumes "rest (fw_e w)" "sm_profile (servo_of w) = linked_profile" "sm_config (servo_of w) = linked_config"
    "mc_target_pressure_units (fw_m w) = 250" "mc_pressure (fw_m w) = bench_sample 2 1010"
  shows "fst (contact commissioning ops 1011 w)"
proof -
  define w1 where "w1 = mch note_contact (snd (xq (Servo_Disable board) w))"
  have d: "fst (xq (Servo_Disable board) w) = MOTOR_RESULT_OK" "rest (fw_e w1)"
    using rest_disable [OF assms(1)] by (simp_all add: w1_def xq_def case_prod_beta)
  have m: "measure commissioning (fw_m w1) = (True, Fin 250)"
    using assms(2,5) by (simp add: w1_def xq_def case_prod_beta note_contact_def measure_def linked_measure dg_session_def Let_def)
  obtain k where i: "ForceServo_Init commissioning linked_config (Fin 250) (Fin 250) x = (True, k)" for x
    by (simp add: ForceServo_Init_def default_config_valid)
  define w2 where "w2 = mch (srv (steer (\<lambda>_. k))) (mch (srv (dg_session (\<lambda>d. d\<lparr>dn_contact_count :=
      f32_le (fl (fp_contact (sm_profile (servo_of w1)))) (Fin 250)\<rparr>))) w1)"
  have w2: "rest (fw_e w2)" "sm_profile (servo_of w2) = linked_profile" "sm_config (servo_of w2) = linked_config"
    "mc_pressure (fw_m w2) = bench_sample 2 1010"
    using assms d by (simp_all add: w2_def w1_def xq_def case_prod_beta note_contact_def dg_session_def steer_def Let_def)
  obtain e1 e2 where o: "MotorExecutor_BeginContinuous board (fw_e w2) = ((MOTOR_RESULT_OK, Some 1), e1)"
    "MotorExecutor_SetContinuousBudget commissioning 1 1011 5000 720 e1 = (True, e2)"
    "fst (fst (MotorExecutor_UpdateContinuous board 1 2 1010 1011 130 20 2 0 0 False e2)) = MOTOR_RESULT_OK"
    by (rule rest_opens [OF w2(1)])
  have "fst (open_session ops 1011 w2)"
    using w2 o by (simp add: open_session_def xq_def linked_numbers case_prod_beta)
  moreover have "sm_config (servo_of w1) = linked_config" "mc_target_pressure_units (fw_m w1) = 250"
    using assms by (simp_all add: w1_def xq_def case_prod_beta note_contact_def dg_session_def Let_def)
  ultimately show ?thesis
    unfolding contact_def rest_ops Let_def case_prod_beta w1_def [symmetric]
    using d m i linked_numbers(1) by (simp flip: w2_def)
qed

lemma rest_inv: "rest e \<Longrightarrow> servo_inv board e"
  by (simp add: rest_def servo_ok_def session_ok_def servo_reset_def)

lemma begin_active:
  assumes "rest (fw_e w)" "plan_ok commissioning (loaded (fw_m w))" "fst (contact commissioning ops now (mch (session_context commissioning now) w))"
  shows "active (snd (begin_session commissioning ops now w))"
proof -
  define w1 where "w1 = mch (session_context commissioning now) w"
  have o: "servo_inv board (fw_e w)" "plan_ok commissioning (loaded (fw_m w))"
    using rest_inv [OF assms(1)] assms(2) by simp_all
  have "running commissioning (servo_inv board) servo_off w1"
    using session_context_core [of commissioning now "fw_m w"] o
    by (simp add: w1_def running_def force_ok_def flags_ok_def ForceMachineInv.driving_def core_def)
  then have r: "running commissioning (servo_inv board) servo_off (snd (contact commissioning ops now w1))"
    using force.contact_running(1) by blast
  then have "active (snd (contact commissioning ops now w1))" "mc_state (fw_m (snd (contact commissioning ops now w1))) \<noteq> FAULT"
    by (auto simp: running_def force_ok_def flags_ok_def ForceMachineInv.driving_def)
  moreover have "bp_commissioning commissioning" by (simp add: commissioning_def)
  ultimately show ?thesis using assms(3) by (simp add: begin_session_def Let_def case_prod_beta flip: w1_def)
qed

lemma standing_opens:
  assumes "standing IDLE True (Some (bench_sample 1 1000)) w" "servo_safe board w"
  shows "active (force_step supplied board (Call_PressureSample (bench_sample 2 1010) 1011) w)"
proof -
  let ?s = "bench_sample 2 1010"
  have c: "\<not> overpressure linked_profile 250" "\<not> bp_characterization commissioning"
    by (simp_all add: overpressure_def linked_numbers) (simp add: commissioning_def)
  define w0 where "w0 = mch (srv (dg_session (record_interval 10 0))) w"
  have w0: "standing IDLE True (Some (bench_sample 1 1000)) w0"
    using assms(1) by (simp add: w0_def standing_def dg_session_def Let_def)
  define w1 where "w1 = mch (srv (\<lambda>s. if sm_cooling_active s \<and> sint (1011 - sm_cooling_until_ms s) \<ge> 0
                          then s\<lparr>sm_cooling_active := False\<rparr> else s)) w0"
  have w1: "standing IDLE True (Some (bench_sample 1 1000)) w1"
    using w0 by (simp add: w1_def standing_def Let_def)
  then have r: "rest (fw_e w1)" by (simp add: standing_def)
  define q where "q = all_of [xq (Servo_OutputIsDisabled board), xq (Servo_IsHealthy board), snapshot ops (\<lambda>x. \<not> mx_logical_active x)] w1"
  have q: "fst q" "rest (fw_e (snd q))" "fw_m (snd q) = fw_m w1"
    using rest_asks [OF r] rest_asks [OF rest_asks(2) [OF r]] rest_asks [OF rest_asks(5) [OF rest_asks(2) [OF r]]]
    by (simp_all add: q_def)
  have safety: "Force_CheckPressureSafety commissioning ops 1011 w0 = snd q"
    unfolding Force_CheckPressureSafety_def Let_def w1_def [symmetric]
    using w1 q by (simp add: check_pending_start_def standing_def Let_def case_prod_beta flip: q_def del: of_Cons)
  define v where "v = mch (store_sample ?s 1011) (snd q)"
  have v: "standing IDLE True (Some ?s) v" using w1 q by (simp add: v_def standing_def store_sample_def Let_def)
  define u where "u = mch (\<lambda>m. record_peak ?s (Fin 250) 1011 (record_after ?s (Fin 250) 1011 m)) v"
  have u: "standing IDLE True (Some ?s) u"
    using v by (simp add: u_def standing_def record_peak_def record_after_def dg_session_def dg_assist_def Let_def)
  have "active (pending_start commissioning ops ?s (Fin 250) 1011 u)"
  proof -
    have ru: "rest (fw_e u)" using u by (simp add: standing_def)
    define k where "k = all_of [xq (Servo_IsHealthy board), xq (Servo_OutputIsDisabled board), snapshot ops (\<lambda>x. \<not> mx_physical_output_locked x)] u"
    have k: "fst k" "rest (fw_e (snd k))" "fw_m (snd k) = fw_m u"
      using rest_asks [OF ru] rest_asks [OF rest_asks(5) [OF ru]] rest_asks [OF rest_asks(2) [OF rest_asks(5) [OF ru]]]
      by (simp_all add: k_def)
    have p: "fst (check_plan commissioning (Fin 250) (fw_m u)) = FS_PROFILE_OK"
      using u linked_plan(1) by (simp add: check_plan_def standing_def linked_numbers Let_def case_prod_beta)
    define z where "z = (snd k)\<lparr>fw_m := snd (check_plan commissioning (Fin 250) (fw_m u))\<rparr>"
    have z: "rest (fw_e z)" "sm_profile (servo_of z) = linked_profile" "sm_config (servo_of z) = linked_config"
      "mc_target_pressure_units (fw_m z) = 250" "mc_pressure (fw_m z) = ?s"
      using k u by (simp_all add: z_def standing_def check_plan_def dg_session_def Let_def case_prod_beta)
    have "loaded (fw_m w1) = loaded (fw_m w0)" by (simp add: w1_def loaded_def)
    moreover have "loaded (fw_m z) = loaded (fw_m u)" "loaded (fw_m u) = loaded (fw_m v)" "loaded (fw_m v) = loaded (fw_m w1)"
      "loaded (fw_m w0) = loaded (fw_m w)"
      using q(3) by (simp_all add: z_def u_def v_def w0_def)
    ultimately have pz: "plan_ok commissioning (loaded (fw_m z))" using force.ok_plan [OF assms(2)] by simp
    have "fst (contact commissioning ops 1011 (mch (session_context commissioning 1011) z))"
      by (rule standing_contact) (use z in \<open>simp_all add: session_context_def supervise_def Let_def\<close>)
    then have "active (snd (begin_session commissioning ops 1011 z))" by (rule begin_active [OF z(1) pz])
    moreover have "Force_IsPressureFresh (fw_m u) 1011"
      using u by (simp add: Force_IsPressureFresh_def standing_def linked_numbers word_le_nat_alt Let_def)
    ultimately show ?thesis
      using u k p linked_plan(2)
      by (simp add: pending_start_def standing_def default_profile_config_valid linked_numbers Let_def case_prod_beta
          flip: k_def z_def del: of_Cons)
  qed
  then have "active (measured_sample commissioning ops ?s (Fin 250) 1011 v)"
    unfolding measured_sample_def u_def [symmetric] Let_def using u by (simp add: standing_def Let_def)
  then have "active (accept_sample commissioning ops ?s 1011 w0)"
    using v c by (simp add: accept_sample_def safety at_boundary_def standing_def linked_measure Let_def flip: v_def)
  then show ?thesis
    using assms(1) c
    by (simp add: Force_HandlePressureSample_def standing_def sample_malformed_def ForceServo_SequenceAfter_def Let_def flip: w0_def)
qed

lemma bench_worlds:
  "standing IDLE False (Some (bench_sample 1 1000)) (bench_world 2)"
  "fst (Force_HandleCommand commissioning ops start_request 1002 (bench_world 2)) = COMMAND_ACCEPTED"
  "standing IDLE True (Some (bench_sample 1 1000)) (bench_world 3)"
  "active (bench_world 4)"
proof -
  have n: "2 = Suc 1" "3 = Suc 2" "4 = Suc (3 :: nat)" by simp_all
  show 2: "standing IDLE False (Some (bench_sample 1 1000)) (bench_world 2)"
    unfolding n bench_world.simps using standing_store [OF world1] by (simp add: bench_call_def)
  show "fst (Force_HandleCommand commissioning ops start_request 1002 (bench_world 2)) = COMMAND_ACCEPTED"
    by (rule standing_start(1) [OF 2])
  show 3: "standing IDLE True (Some (bench_sample 1 1000)) (bench_world 3)"
    unfolding n(2) bench_world.simps using standing_start(2) [OF 2] by (simp add: bench_call_def)
  show "active (bench_world 4)"
    unfolding n(3) bench_world.simps using standing_opens [OF 3 force_run_ok [OF bench_runs]] by (simp add: bench_call_def)
qed

section \<open>Witnesses\<close>

theorem force_output_only_in_session_witness:
  "force_run board (bench_world 4) \<and> sm_active (servo_of (bench_world 4))
    \<and> mc_state (fw_m (bench_world 4)) \<in> {FORCE_APPROACH, FORCE_BUILD, FORCE_HOLD}"
  using force_output_only_in_session [OF bench_runs [of 4]] bench_worlds(4) bench_runs [of 4] by (simp add: Let_def)

theorem force_stop_always_works_witness:
  "sm_active (servo_of (bench_world 4))
    \<and> (case Force_HandleCommand commissioning ops stop_request 1012 (bench_world 4) of
        (r, w) \<Rightarrow> r = COMMAND_ACCEPTED \<and> \<not> sm_active (servo_of w) \<and> released (fw_e w))"
proof -
  obtain r w where h: "Force_HandleCommand commissioning ops stop_request 1012 (bench_world 4) = (r, w)"
    by (cases "Force_HandleCommand commissioning ops stop_request 1012 (bench_world 4)")
  show ?thesis
    using force_stop_always_works [OF bench_runs [of 4], where c = stop_request and tick = supplied and now = 1012
        and r = r and w' = w] h bench_worlds(4)
    by (simp add: stop_request_def)
qed


theorem force_fault_is_latched_witness:
  "let w = force_step supplied board (Call_Fault FAULT_MOTOR_FAULT FAULT_DETAIL_MOTOR_HARDWARE 1012) (bench_world 4);
      w' = fold (\<lambda>(tick, c). force_step tick board c) [(supplied, Call_Command start_request 1013),
             (supplied, Call_PressureSample (bench_sample 3 1020) 1021), (\<lambda>now e. now + 2, Call_Command stop_request 1022),
             (supplied, Call_Timer [])] w
    in mc_state (fw_m w') = FAULT \<and> mc_fault (fw_m w') = mc_fault (fw_m w)"
  using force_fault_is_latched [OF force_run.call [OF bench_runs [of 4],
        of supplied "Call_Fault FAULT_MOTOR_FAULT FAULT_DETAIL_MOTOR_HARDWARE 1012"],
      where cs = "[(supplied, Call_Command start_request 1013),
             (supplied, Call_PressureSample (bench_sample 3 1020) 1021), (\<lambda>now e. now + 2, Call_Command stop_request 1022),
             (supplied, Call_Timer [])]"]
  by (simp add: Let_def stop_request_def)

theorem force_start_requires_witness:
  "force_run board (bench_world 2)
    \<and> (case Force_HandleCommand commissioning ops start_request 1002 (bench_world 2) of
        (r, w) \<Rightarrow> r = COMMAND_ACCEPTED \<and> sm_start_pending (servo_of w) \<and> released (fw_e w))"
proof -
  obtain r w where h: "Force_HandleCommand commissioning ops start_request 1002 (bench_world 2) = (r, w)"
    by (cases "Force_HandleCommand commissioning ops start_request 1002 (bench_world 2)")
  moreover have "bp_commissioning commissioning" by (simp add: commissioning_def)
  ultimately show ?thesis
    using force_start_requires [OF bench_runs [of 2], where c = start_request and tick = supplied and now = 1002
        and w' = w] bench_worlds(2) bench_runs [of 2]
    by (simp add: Let_def)
qed

theorem force_session_needs_fresh_sample_witness:
  "\<not> sm_active (servo_of (bench_world 3)) \<and> sm_active (servo_of (bench_world 4))
    \<and> sm_start_pending (servo_of (bench_world 3))"
proof -
  have "bench_world 4 = force_step supplied board (bench_call 3) (bench_world 3)"
    using bench_world.simps(2) [of 3] by (simp add: eval_nat_numeral)
  moreover have "\<not> sm_active (servo_of (bench_world 3))" using bench_worlds(3) by (simp add: standing_def Let_def)
  moreover have "bp_commissioning commissioning" by (simp add: commissioning_def)
  ultimately show ?thesis
    using force_session_needs_fresh_sample [OF bench_runs [of 3], where c = "bench_call 3" and tick = supplied] bench_worlds(4)
    by (auto simp: Let_def)
qed

end
