(* ===== verification/SafeBoot.thy ===== *)
theory SafeBoot
  imports MotorHwReal
begin

text \<open>
  The hardware initialisation that runs before any backend exists:
  \<^verbatim>\<open>Board/Motor/motor_hw_init_disabled.c\<close> with \<^verbatim>\<open>Application/safe_boot.c\<close>, the idle loop of
  \<^verbatim>\<open>safe_idle.c\<close> and the fault handlers of \<^verbatim>\<open>User/stm32f4xx_it.c\<close>. The pins are configured by
  \<open>HAL_GPIO_Init\<close>, whose source is part of the repository and is modelled here too; the
  vendor's timer calls may do anything to the timer they are given.
\<close>

section \<open>HAL_GPIO_Init\<close>

record gpio_port =
  gp_MODER :: u32
  gp_OTYPER :: u32
  gp_OSPEEDR :: u32
  gp_PUPDR :: u32
  gp_AFR :: "u32 list"

record exti_regs =
  rcc_apb2enr :: u32
  syscfg_exticr :: "u32 list"
  exti_rtsr :: u32
  exti_ftsr :: u32
  exti_emr :: u32
  exti_imr :: u32

record gpio_init =
  gi_Pin :: u32
  gi_Mode :: u32
  gi_Pull :: u32
  gi_Speed :: u32
  gi_Alternate :: u32

abbreviation (input) GPIO_MODE :: u32 where "GPIO_MODE \<equiv> 0x3"
abbreviation (input) MODE_OUTPUT :: u32 where "MODE_OUTPUT \<equiv> 0x1"
abbreviation (input) MODE_AF :: u32 where "MODE_AF \<equiv> 0x2"
abbreviation (input) MODE_ANALOG :: u32 where "MODE_ANALOG \<equiv> 0x3"
abbreviation (input) OUTPUT_TYPE :: u32 where "OUTPUT_TYPE \<equiv> 0x10"
abbreviation (input) EXTI_MODE :: u32 where "EXTI_MODE \<equiv> 0x30000"
abbreviation (input) EXTI_IT :: u32 where "EXTI_IT \<equiv> 0x10000"
abbreviation (input) EXTI_EVT :: u32 where "EXTI_EVT \<equiv> 0x20000"
abbreviation (input) TRIGGER_RISING :: u32 where "TRIGGER_RISING \<equiv> 0x100000"
abbreviation (input) TRIGGER_FALLING :: u32 where "TRIGGER_FALLING \<equiv> 0x200000"
abbreviation (input) GPIO_MODE_OUTPUT_PP :: u32 where "GPIO_MODE_OUTPUT_PP \<equiv> 0x1"
abbreviation (input) GPIO_MODE_AF_PP :: u32 where "GPIO_MODE_AF_PP \<equiv> 0x2"
abbreviation (input) GPIO_NOPULL :: u32 where "GPIO_NOPULL \<equiv> 0x0"
abbreviation (input) GPIO_PULLDOWN :: u32 where "GPIO_PULLDOWN \<equiv> 0x2"
abbreviation (input) GPIO_SPEED_FREQ_HIGH :: u32 where "GPIO_SPEED_FREQ_HIGH \<equiv> 0x2"

text \<open>\<open>temp = reg; temp &= ~(mask << shift); temp |= value << shift; reg = temp;\<close>\<close>

definition set_field :: "u32 \<Rightarrow> u32 \<Rightarrow> nat \<Rightarrow> u32 \<Rightarrow> u32" where
  "set_field m v shift reg = (reg AND NOT (push_bit shift m)) OR push_bit shift v"

text \<open>The external interrupt part, taken when the mode asks for one.\<close>

definition gpio_exti :: "u32 \<Rightarrow> gpio_init \<Rightarrow> nat \<Rightarrow> u32 \<Rightarrow> exti_regs \<Rightarrow> exti_regs" where
  "gpio_exti port_index init position iocurrent x =
    (let x = x\<lparr>rcc_apb2enr := rcc_apb2enr x OR 0x4000\<rparr>;
         x = x\<lparr>syscfg_exticr := (syscfg_exticr x)[position div 4 :=
               set_field 0xF port_index (4 * (position mod 4)) (syscfg_exticr x ! (position div 4))]\<rparr>;
         toggle = (\<lambda>flag temp. if gi_Mode init AND flag \<noteq> 0
                     then (temp AND NOT iocurrent) OR iocurrent else temp AND NOT iocurrent);
         x = x\<lparr>exti_rtsr := toggle TRIGGER_RISING (exti_rtsr x)\<rparr>;
         x = x\<lparr>exti_ftsr := toggle TRIGGER_FALLING (exti_ftsr x)\<rparr>;
         x = x\<lparr>exti_emr := toggle EXTI_EVT (exti_emr x)\<rparr>
     in x\<lparr>exti_imr := toggle EXTI_IT (exti_imr x)\<rparr>)"

text \<open>One turn of the loop over the sixteen pins.\<close>

definition gpio_pin ::
  "u32 \<Rightarrow> gpio_init \<Rightarrow> nat \<Rightarrow> gpio_port \<times> exti_regs \<Rightarrow> gpio_port \<times> exti_regs" where
  "gpio_pin port_index init position st =
    (let (g, x) = st;
         ioposition = push_bit position 1;
         iocurrent = gi_Pin init AND ioposition;
         mode = gi_Mode init AND GPIO_MODE
     in if iocurrent = ioposition
        then
          (let g = (if mode = MODE_OUTPUT \<or> mode = MODE_AF
                    then g\<lparr>gp_OSPEEDR := set_field 0x3 (gi_Speed init) (position * 2) (gp_OSPEEDR g),
                           gp_OTYPER := set_field 0x1 (drop_bit 4 (gi_Mode init AND OUTPUT_TYPE))
                                          position (gp_OTYPER g)\<rparr>
                    else g);
               g = (if mode \<noteq> MODE_ANALOG
                    then g\<lparr>gp_PUPDR := set_field 0x3 (gi_Pull init) (position * 2) (gp_PUPDR g)\<rparr>
                    else g);
               g = (if mode = MODE_AF
                    then g\<lparr>gp_AFR := (gp_AFR g)[position div 8 :=
                           set_field 0xF (gi_Alternate init) (position mod 8 * 4)
                             (gp_AFR g ! (position div 8))]\<rparr>
                    else g);
               g = g\<lparr>gp_MODER := set_field 0x3 mode (position * 2) (gp_MODER g)\<rparr>
           in (g, if gi_Mode init AND EXTI_MODE \<noteq> 0
                  then gpio_exti port_index init position iocurrent x else x))
        else (g, x))"

definition HAL_GPIO_Init ::
  "u32 \<Rightarrow> gpio_init \<Rightarrow> gpio_port \<times> exti_regs \<Rightarrow> gpio_port \<times> exti_regs" where
  "HAL_GPIO_Init port_index init st = fold (gpio_pin port_index init) [0..<16] st"

section \<open>The initialisation\<close>

text \<open>The port of the motor pins within the registers.\<close>

definition gpiob :: "('h, 'a) real_regs_scheme \<Rightarrow> gpio_port" where
  "gpiob s = \<lparr>gp_MODER = gpiob_moder s, gp_OTYPER = gpiob_otyper s, gp_OSPEEDR = gpiob_ospeedr s,
              gp_PUPDR = gpiob_pupdr s, gp_AFR = gpiob_afr s\<rparr>"

definition set_gpiob :: "gpio_port \<Rightarrow> ('h, 'a) real_regs_scheme \<Rightarrow> ('h, 'a) real_regs_scheme" where
  "set_gpiob g s = s\<lparr>gpiob_moder := gp_MODER g, gpiob_otyper := gp_OTYPER g,
              gpiob_ospeedr := gp_OSPEEDR g, gpiob_pupdr := gp_PUPDR g, gpiob_afr := gp_AFR g\<rparr>"

definition init_gpiob ::
  "gpio_init \<Rightarrow> ('h, 'a) real_regs_scheme \<times> exti_regs \<Rightarrow> ('h, 'a) real_regs_scheme \<times> exti_regs" where
  "init_gpiob init st =
    (case st of (s, x) \<Rightarrow>
      (case HAL_GPIO_Init 1 init (gpiob s, x) of (g, x) \<Rightarrow> (set_gpiob g s, x)))"

definition MotorHw_ConfigureShutdownPins ::
  "('h, 'a) real_regs_scheme \<times> exti_regs \<Rightarrow> ('h, 'a) real_regs_scheme \<times> exti_regs" where
  "MotorHw_ConfigureShutdownPins st =
    init_gpiob \<lparr>gi_Pin = MOTOR_HW_SD_GPIO_PIN_MASK, gi_Mode = GPIO_MODE_OUTPUT_PP,
                gi_Pull = GPIO_PULLDOWN, gi_Speed = GPIO_SPEED_FREQ_HIGH, gi_Alternate = 0\<rparr>
      (apfst (write_bsrr (push_bit 16 MOTOR_HW_SD_GPIO_PIN_MASK)) st)"

definition MotorHw_ConfigurePwmPin ::
  "u32 \<Rightarrow> u32 \<Rightarrow> ('h, 'a) real_regs_scheme \<times> exti_regs \<Rightarrow> ('h, 'a) real_regs_scheme \<times> exti_regs" where
  "MotorHw_ConfigurePwmPin pin alternate =
    init_gpiob \<lparr>gi_Pin = pin, gi_Mode = GPIO_MODE_AF_PP, gi_Pull = GPIO_NOPULL,
                gi_Speed = GPIO_SPEED_FREQ_HIGH, gi_Alternate = alternate\<rparr>"

text \<open>The handle is a local of the function; both results are ignored.\<close>

definition MotorHw_ConfigurePwmTimer ::
  "'h real_board \<Rightarrow> pwm_timer \<Rightarrow> ('h, 'a) real_regs_scheme \<Rightarrow> ('h, 'a) real_regs_scheme" where
  "MotorHw_ConfigurePwmTimer b t s =
    (let base = \<lparr>tb_Instance = t, tb_Prescaler = MOTOR_HW_PWM_PRESCALER, tb_CounterMode = 0,
                tb_Period = MOTOR_HW_PWM_PERIOD_COUNTS, tb_ClockDivision = 0,
                tb_AutoReloadPreload = 0\<rparr>;
         channel = \<lparr>oc_OCMode = TIM_OCMODE_PWM1, oc_Pulse = 0, oc_OCPolarity = 0, oc_OCFastMode = 0\<rparr>;
         (_, timer, r) = rb_PWM_Init b base (read_tim t s);
         s = write_tim t r s;
         (_, _, r) = rb_PWM_ConfigChannel b channel TIM_CHANNEL_3 timer (read_tim t s)
     in write_tim t r s)"

definition MotorHw_InitDisabled ::
  "'h real_board \<Rightarrow> ('h, 'a) real_regs_scheme \<times> exti_regs \<Rightarrow> ('h, 'a) real_regs_scheme \<times> exti_regs" where
  "MotorHw_InitDisabled b st =
    (let st = apfst (\<lambda>s. s\<lparr>rcc_ahb1enr := rcc_ahb1enr s OR RCC_AHB1ENR_GPIOBEN\<rparr>) st;
         st = apfst (\<lambda>s. s\<lparr>rcc_apb1enr := rcc_apb1enr s OR RCC_APB1ENR_TIM2EN\<rparr>) st;
         st = apfst (\<lambda>s. s\<lparr>rcc_apb1enr := rcc_apb1enr s OR RCC_APB1ENR_TIM3EN\<rparr>) st;
         st = apfst MotorHw_ForceDisableImmediate st;
         st = MotorHw_ConfigureShutdownPins st;
         st = MotorHw_ConfigurePwmPin 0x400 1 st;
         st = MotorHw_ConfigurePwmPin 0x1 2 st;
         st = apfst (MotorHw_ConfigurePwmTimer b TIM2) st;
         st = apfst (MotorHw_ConfigurePwmTimer b TIM3) st
     in apfst MotorHw_ForceDisable st)"

definition SafeBoot_Initialize ::
  "'h real_board \<Rightarrow> ('h, 'a) real_regs_scheme \<times> exti_regs \<Rightarrow> ('h, 'a) real_regs_scheme \<times> exti_regs" where
  "SafeBoot_Initialize b st = MotorHw_InitDisabled b st"

text \<open>
  \<open>SafeIdle_Run\<close> and the fault handlers write these registers once and never return: the
  loops they end in touch no register.
\<close>

definition SafeIdle_Run :: "'a motor_hw_scheme \<Rightarrow> 'a motor_hw_scheme" where
  "SafeIdle_Run h = MotorHw_ForceDisable h"

definition fault_handler :: "'a motor_hw_scheme \<Rightarrow> 'a motor_hw_scheme" where
  "fault_handler h = MotorHw_ForceDisableImmediate h"

section \<open>What it leaves\<close>

text \<open>The driver stays shut down while its output pins are configured.\<close>

definition shutdown_held :: "('h, 'a) real_regs_scheme \<Rightarrow> bool" where
  "shutdown_held s \<longleftrightarrow>
    gpiob_odr s AND 0x6 = 0 \<and> gpiob_otyper s AND 0x6 = 0
    \<and> gpiob_moder s AND 0x3C = 0x14 \<and> gpiob_pupdr s AND 0x3C = 0x28"

text \<open>PB10 and PB0 are routed to the timers.\<close>

definition pwm_pins_routed :: "('h, 'a) real_regs_scheme \<Rightarrow> bool" where
  "pwm_pins_routed s \<longleftrightarrow>
    gpiob_moder s AND 0x300003 = 0x200002 \<and> gpiob_otyper s AND 0x401 = 0
    \<and> gpiob_pupdr s AND 0x300003 = 0
    \<and> gpiob_afr s ! 1 AND 0xF00 = 0x100 \<and> gpiob_afr s ! 0 AND 0xF = 0x2"

lemma upt16: "[0..<16] = [0, 1, 2, 3, 4, 5, 6, 7, 8, 9, 10, 11, 12, 13, 14, 15 :: nat]"
  by (simp add: upt_rec)

text \<open>What the loop does for the three pin masks the program uses.\<close>

lemma gpio_init_shutdown:
  "HAL_GPIO_Init i \<lparr>gi_Pin = 0x6, gi_Mode = 0x1, gi_Pull = 0x2, gi_Speed = 0x2, gi_Alternate = 0\<rparr> (g, x)
    = (g\<lparr>gp_MODER := set_field 0x3 0x1 4 (set_field 0x3 0x1 2 (gp_MODER g)),
        gp_OTYPER := set_field 0x1 0x0 2 (set_field 0x1 0x0 1 (gp_OTYPER g)),
        gp_OSPEEDR := set_field 0x3 0x2 4 (set_field 0x3 0x2 2 (gp_OSPEEDR g)),
        gp_PUPDR := set_field 0x3 0x2 4 (set_field 0x3 0x2 2 (gp_PUPDR g))\<rparr>, x)"
  by (simp add: HAL_GPIO_Init_def upt16 gpio_pin_def Let_def push_bit_eq_mult)

lemma gpio_init_pb10:
  "HAL_GPIO_Init i \<lparr>gi_Pin = 0x400, gi_Mode = 0x2, gi_Pull = 0x0, gi_Speed = 0x2, gi_Alternate = a\<rparr> (g, x)
    = (g\<lparr>gp_MODER := set_field 0x3 0x2 20 (gp_MODER g), gp_OTYPER := set_field 0x1 0x0 10 (gp_OTYPER g),
        gp_OSPEEDR := set_field 0x3 0x2 20 (gp_OSPEEDR g), gp_PUPDR := set_field 0x3 0x0 20 (gp_PUPDR g),
        gp_AFR := (gp_AFR g)[1 := set_field 0xF a 8 (gp_AFR g ! 1)]\<rparr>, x)"
  by (simp add: HAL_GPIO_Init_def upt16 gpio_pin_def Let_def push_bit_eq_mult)

lemma gpio_init_pb0:
  "HAL_GPIO_Init i \<lparr>gi_Pin = 0x1, gi_Mode = 0x2, gi_Pull = 0x0, gi_Speed = 0x2, gi_Alternate = a\<rparr> (g, x)
    = (g\<lparr>gp_MODER := set_field 0x3 0x2 0 (gp_MODER g), gp_OTYPER := set_field 0x1 0x0 0 (gp_OTYPER g),
        gp_OSPEEDR := set_field 0x3 0x2 0 (gp_OSPEEDR g), gp_PUPDR := set_field 0x3 0x0 0 (gp_PUPDR g),
        gp_AFR := (gp_AFR g)[0 := set_field 0xF a 0 (gp_AFR g ! 0)]\<rparr>, x)"
  by (simp add: HAL_GPIO_Init_def upt16 gpio_pin_def Let_def push_bit_eq_mult)

lemmas field_masks = set_field_def push_bit_eq_mult bit.conj_disj_distrib2 and.assoc

lemma hw_disabled_held: "hw_disabled s \<Longrightarrow> shutdown_held s"
  by (simp add: hw_disabled_def shutdown_held_def)

lemma ConfigureShutdownPins_holds:
  "shutdown_held (fst (MotorHw_ConfigureShutdownPins (s, x)))"
  by (simp add: MotorHw_ConfigureShutdownPins_def init_gpiob_def gpio_init_shutdown gpiob_def
      set_gpiob_def write_bsrr_def shutdown_held_def field_masks)

lemma ConfigurePwmPins:
  assumes "shutdown_held s" "length (gpiob_afr s) = 2"
    and st: "st = MotorHw_ConfigurePwmPin 0x1 2 (MotorHw_ConfigurePwmPin 0x400 1 (s, x))"
  shows "shutdown_held (fst st) \<and> pwm_pins_routed (fst st)"
  using assms(1,2) unfolding st
  by (simp add: MotorHw_ConfigurePwmPin_def init_gpiob_def gpio_init_pb10 gpio_init_pb0 gpiob_def
      set_gpiob_def shutdown_held_def pwm_pins_routed_def field_masks)

text \<open>The timers' configuration does not reach the port.\<close>

lemma ConfigurePwmTimer_port:
  "gpiob (MotorHw_ConfigurePwmTimer b t s) = gpiob s"
  by (cases t) (simp_all add: MotorHw_ConfigurePwmTimer_def write_tim_def gpiob_def split_beta Let_def)

lemma ForceDisable_keeps_routing:
  "pwm_pins_routed s \<Longrightarrow> pwm_pins_routed (MotorHw_ForceDisable s)"
  by (simp add: pwm_pins_routed_def MotorHw_ForceDisable_def MotorHw_ForceDisableImmediate_def
      write_bsrr_def Let_def field_masks)

lemma pwm_pins_routed_gpiob:
  "gpiob s' = gpiob s \<Longrightarrow> pwm_pins_routed s' = pwm_pins_routed s"
  by (simp add: pwm_pins_routed_def gpiob_def)

lemma init_gpiob_exti:
  "snd (MotorHw_ConfigureShutdownPins st) = snd st"
  "snd (MotorHw_ConfigurePwmPin 0x400 a st) = snd st"
  "snd (MotorHw_ConfigurePwmPin 0x1 a st) = snd st"
  by (cases st; simp add: MotorHw_ConfigureShutdownPins_def MotorHw_ConfigurePwmPin_def
      init_gpiob_def gpio_init_shutdown gpio_init_pb10 gpio_init_pb0)+

lemma ConfigureShutdownPins_afr:
  "length (gpiob_afr (fst (MotorHw_ConfigureShutdownPins (s, x)))) = length (gpiob_afr s)"
  by (simp add: MotorHw_ConfigureShutdownPins_def init_gpiob_def gpio_init_shutdown gpiob_def
      set_gpiob_def write_bsrr_def)

lemma ForceDisableImmediate_afr [simp]: "gpiob_afr (MotorHw_ForceDisableImmediate s) = gpiob_afr s"
  by (simp add: MotorHw_ForceDisableImmediate_def write_bsrr_def Let_def)

section \<open>Properties\<close>

text \<open>C35: The hardware initialisation leaves the driver shut down with its output pins routed
  to the timers, whatever the registers held before and whatever the vendor's timer calls do
  to their timers, and configures no external interrupt; the idle loop every failed boot ends
  in and the fault handlers shut the driver down from any registers.\<close>

theorem safe_boot_shuts_down:
  assumes "length (gpiob_afr s) = 2"
  shows "(case SafeBoot_Initialize b (s, x) of (s', x') \<Rightarrow>
      hw_disabled s' \<and> pwm_pins_routed s' \<and> x' = x
      \<and> hw_disabled (SafeIdle_Run s') \<and> hw_disabled (fault_handler s'))"
proof -
  define s0 where "s0 = MotorHw_ForceDisableImmediate
    (s\<lparr>rcc_ahb1enr := rcc_ahb1enr s OR RCC_AHB1ENR_GPIOBEN,
       rcc_apb1enr := rcc_apb1enr s OR RCC_APB1ENR_TIM2EN OR RCC_APB1ENR_TIM3EN\<rparr>)"
  define sx where "sx = MotorHw_ConfigureShutdownPins (s0, x)"
  define st where "st = MotorHw_ConfigurePwmPin 0x1 2 (MotorHw_ConfigurePwmPin 0x400 1 sx)"
  obtain s1 x1 where sx: "sx = (s1, x1)" by (cases sx)
  have "shutdown_held s1" "length (gpiob_afr s1) = 2"
    using ConfigureShutdownPins_holds [of s0 x] ConfigureShutdownPins_afr [of s0 x] assms sx
    by (simp_all add: sx_def s0_def)
  from ConfigurePwmPins [OF this] have "pwm_pins_routed (fst st)"
    by (simp add: st_def sx)
  then have "pwm_pins_routed (MotorHw_ConfigurePwmTimer b TIM3 (MotorHw_ConfigurePwmTimer b TIM2 (fst st)))"
    by (subst pwm_pins_routed_gpiob [of _ "fst st"]) (simp_all add: ConfigurePwmTimer_port)
  moreover have "snd st = x" by (simp add: st_def sx_def init_gpiob_exti)
  ultimately show ?thesis
    using ForceDisable_keeps_routing
    by (cases st) (simp add: SafeBoot_Initialize_def MotorHw_InitDisabled_def SafeIdle_Run_def
        fault_handler_def MotorHw_ForceDisable_def s0_def sx_def st_def or.assoc)
qed

definition idle_vendor :: "unit real_board" where
  "idle_vendor =
    \<lparr>rb_policy = \<lparr>bp_mode = MODE_REAL_BENCH, bp_auto_target = False, bp_force_servo = False,
       bp_commissioning = False, bp_characterization = False, bp_build_to_target = False\<rparr>,
     rb_arming_enabled = True, rb_GetPCLK1Freq = (\<lambda>_. 48000000),
     rb_PWM_Init = (\<lambda>_ r. (True, (), r)), rb_PWM_ConfigChannel = (\<lambda>_ _ h r. (True, h, r)),
     rb_PWM_Stop = (\<lambda>_ h r. (True, h, r)), rb_PWM_Start = (\<lambda>_ h r. (True, h, r))\<rparr>"

theorem safe_boot_shuts_down_witness:
  "\<exists>(s :: (unit, unit) real_regs_scheme) x. gpiob_afr s = [0, 0] \<and> gpiob_odr s = 0xFFFF
    \<and> (case SafeBoot_Initialize idle_vendor (s, x) of (s', x') \<Rightarrow>
        hw_disabled s' \<and> pwm_pins_routed s' \<and> x' = x
        \<and> hw_disabled (SafeIdle_Run s') \<and> hw_disabled (fault_handler s'))"
proof -
  fix s0 :: "(unit, unit) real_regs_scheme" and x :: exti_regs
  let ?s = "s0\<lparr>gpiob_afr := [0, 0], gpiob_odr := 0xFFFF\<rparr>"
  show ?thesis
    using safe_boot_shuts_down [where s = ?s and b = idle_vendor and x = x]
    by (intro exI [of _ ?s] exI [of _ x] conjI) simp_all
qed

end
