(* ===== verification/Spec2Isabelle.thy ===== *)
theory Spec2Isabelle
  imports Crc16 PressureReceiver UartIngress MotorLocked MachineRange ModbusPriority MainLoop RealFirmware
    MotorServoBench ForceServer ForceBench SafeBoot ForceServoProps
begin

text \<open>
  A verification development for the SD700 press-force controller firmware (STM32F411, C).

  \<^bold>\<open>The program.\<close> A pressure sensor sends frames on USART6; a receiver finds them in the byte
  stream and publishes samples. An application state machine reads the samples and asks a motor
  executor for output. The executor plans a command as a PWM compare, starts the output stage and
  leaves its end to a timer of its own (TIM5). A Modbus RTU server on USART2 takes commands and
  answers status reads; STOP overtakes every other request. The main loop calls these parts in a
  fixed order and guards the output once per pass.

  \<^bold>\<open>Three programs.\<close> The preprocessor selects one of three applications.
  \<^item> Without ForceServo (\<^verbatim>\<open>SD700_FORCE_SERVO_ENABLED\<close> 0) the application is \<^verbatim>\<open>machine.c\<close>: bounded
    one-shot requests, with the modes Locked (nothing is ever driven), ScopeTest and RealBench and
    the automatic press strategy AutoTarget. FAULT is left by a boot only.
  \<^item> With ForceServo \<^verbatim>\<open>machine.c\<close> is empty and \<^verbatim>\<open>force_servo_machine.c\<close> takes its place: sessions of
    continuous output under a lease that every accepted sample renews, a PID controller along a
    trajectory, a short boost, and a register protocol of its own. FAULT is left by a boot or by
    a fault reset.
  \<^item> With BuildToTarget, which the README names as the current firmware, a pulse source replaces
    the control step of the ForceServo machine and an accounted segment its continuous output.
    This program is \<^bold>\<open>not\<close> modelled, and no theorem speaks of it.
  The other flags are fields of a policy (\<open>BuildPolicy\<close>), an argument of the definitions: an
  \<open>#if\<close> on one of them is an \<open>if\<close> on it. A theory is about the first program or about the second,
  as said below, although the policies have the flags of all three; what is common to them is
  marked so.

  \<^bold>\<open>Theories common to the programs.\<close>
  \<^item> \<open>Prelude\<close>: machine integer types, wrap-safe time comparisons, shared lemmas. \<open>Binary32\<close>,
    \<open>Binary32Ops\<close>: IEEE single precision with rounding, for \<open>float\<close>.
  \<^item> \<open>Crc16\<close>, \<open>PressureFrame\<close>, \<open>PressureReceiver\<close>: \<^verbatim>\<open>Protocol/\<close> and
    \<^verbatim>\<open>Transport/Pressure/\<close>. The receiver, a byte-at-a-time machine, is a refinement of a
    declarative scan of the whole stream.
  \<^item> \<open>UartIngress\<close>: the ring between the receive interrupt and the main loop, as a bounded FIFO
    (locale \<open>bounded_fifo\<close>) and under every interleaving of the single accesses of both sides.
  \<^item> \<open>BuildPolicy\<close>: \<^verbatim>\<open>Application/motion_build_policy.h\<close>, which flags compile.
  \<^item> \<open>MotorHw\<close>, \<open>SafeBoot\<close>: the unconditional disable sequences, the hardware initialisation, the
    idle loop and the fault handlers, register by register. \<open>MotorHwReal\<close>, \<open>MotorStopTimer\<close>: the
    output stage and the stop timer. \<open>MotorCore\<close>: what the real executor guarantees whatever
    handles the timer's interrupt (locales \<open>stop_handler\<close>, \<open>motor_interrupt\<close>, \<open>motor_core\<close>).
  \<^item> \<open>ModbusServer\<close>, \<open>ModbusLink\<close>, \<open>ModbusUart2\<close>, \<open>PressureUart6\<close>: the server, the half-duplex
    link (locale \<open>rs485_driver\<close>) and the two ports. \<open>ModbusStream\<close> refines extraction to a parser
    on lists, \<open>ModbusReply\<close> refines the in-place responses to frames, \<open>ModbusPriority\<close> has the
    server's invariant and the priority of STOP. Receiving, queueing, framing and transmitting
    are common; requests are answered as in the first program.

  \<^bold>\<open>The first program.\<close>
  \<^item> \<open>MotorExecutor\<close>: the interface of the two backends and the contract a client relies on
    (locale \<open>motor_executor\<close>). \<open>MotorLocked\<close> is the locked backend, \<open>MotorReal\<close> the real one;
    \<open>MotorRealSafety\<close> has its invariant and \<open>MotorRealProps\<close> the properties over every run.
    Both interpret \<open>motor_executor\<close>.
  \<^item> \<open>MachineTypes\<close>, \<open>MachineConfigs\<close>, \<open>ForcePi\<close>, \<open>Machine\<close>, \<open>MachineControl\<close>: the data, the
    profiles, the PI strategy and the functions of \<^verbatim>\<open>Application/machine.c\<close>.
    \<open>MachineLemmas\<close>, \<open>MachineInv\<close>, \<open>MachineSafety\<close>, \<open>MachineCommands\<close> prove its invariant once
    for every backend, inside the contract; \<open>MachinePress\<close>, \<open>MachineTiming\<close>, \<open>MachineRange\<close>
    and \<open>MachineProps\<close> hold its bounds, its timed behaviour, the range of the control law's
    arithmetic and the properties. \<open>Runtime\<close> is \<^verbatim>\<open>Application/runtime.c\<close>. \<open>MachineFaultOff\<close> shows
    what a backend that cannot fail to stop adds (locale \<open>reliable_motor\<close>).
  \<^item> \<open>ModbusMap\<close>: the registers and coils. \<open>MainLoop\<close>: boot, main loop and interrupt callbacks of
    \<^verbatim>\<open>User/\<close>, composed as the code composes them (locale \<open>firmware_motor\<close>). \<open>RealFirmware\<close>: the
    same with the real backend and the stop timer's interrupt (locale \<open>reliable_firmware\<close>).

  \<^bold>\<open>The second program.\<close>
  \<^item> \<open>ForceServoProfile\<close>, \<open>ForceServo\<close>: configuration, profiles, admission of plans and the
    controller of \<^verbatim>\<open>Application/force_servo.c\<close>; \<open>ForceServoProps\<close> has the limits of the output,
    the clamp of the integral over every run and what an admitted plan guarantees.
  \<^item> \<open>MotorServo\<close>: the continuous mode of the real executor. \<open>MotorServoSafety\<close> and \<open>MotorServoBoost\<close>
    have the invariant of its sessions, \<open>MotorServoProps\<close> the properties over every run, and
    \<open>MotorServoBench\<close> concrete runs on a bench board, which the witnesses use.
  \<^item> \<open>ForceMachineTypes\<close>, \<open>ForceMachine\<close>: the data and the functions of
    \<^verbatim>\<open>Application/force_servo_machine.c\<close>, over the contract \<open>continuous_executor\<close>. \<open>ForceMachineInv\<close>
    and \<open>ForceMachineSpec\<close> prove inside it what every operation keeps and does; \<open>ForceExecutor\<close>
    interprets it on the continuous mode of the real executor.
  \<^item> \<open>ForceProtocol\<close>: \<^verbatim>\<open>Transport/Modbus/force_servo_protocol.c\<close>. \<open>ForceRun\<close>: the ForceServo branches
    of the runtime, of the register map and of the main loop, and the runs of the linked program.
    \<open>ForceServer\<close>: the server's write in these builds. \<open>ForceMachineProps\<close>: the properties over
    every run, and \<open>ForceBench\<close> a concrete session, which their witnesses use.

  \<^bold>\<open>How code becomes definitions.\<close> A definition has the name of the C function; a part of a long
  function that is a definition of its own has a lower-case name. A function that both programs
  define has the prefix \<open>Force_\<close> or \<open>Servo_\<close> in the second. Unsigned integers are words of
  their width and wrap; \<open>int32_t\<close> and \<open>int64_t\<close> are integers; \<open>MachineRange\<close> bounds those of the
  first program's control law (not every signed difference of its diagnostics). A \<open>float\<close> is a
  \<open>Binary32\<close> value and every operation rounds once; the build scripts do not forbid the compiler
  to fuse a multiplication with an addition, and such a build is not covered. Functions with
  effects take the state and return it. Pointers are the objects they point to; NULL is modelled
  where the code gives it a meaning. Buffers are lists of the C size. The vendor's drivers are
  arguments, and nothing is assumed about what they do to their own registers.

  \<^bold>\<open>Time and interrupts.\<close> \<open>now_ms\<close> is an argument of every step and arbitrary: no theorem
  assumes that time advances, unless it says so; the time the continuous executor reads for
  itself is an argument too (\<open>ForceExecutor\<close>). The UART interrupts run between any two calls
  of the main loop, any number of times, and the ring is also covered access by access. The stop
  timer's hardware is a list of what it will do at each point at which it can be observed
  (\<open>tm_schedule\<close>); it may interrupt inside the backend's functions, and no theorem assumes
  anything about the list. In a region with interrupts masked the hardware moves and the
  interrupt waits for the end. Loops are structural or have a measure; no definition uses fuel,
  and \<open>extraction_terminates\<close> bounds the one loop whose end is not obvious.

  \<^bold>\<open>What is shown.\<close> Of the first program: the output is driven only under an armed stop timer,
  exactly as planned, and it ends whatever the main loop does; a fault, a STOP, a settle or a hold
  leaves the driver shut down; a STOP on the wire acts within one pass; stale or invalid pressure,
  a late cycle, an overpressure and every failed start lead to FAULT. Of the second: the output is
  on only in a session, under a running lease that ends with the lifetime of the last sample, with
  the committed command within the ceilings; an accepted update waits out the dead time (the
  service of a boost has no such test); a session is opened by a fresh, admitted sample only; a
  STOP acts within its pass, and a fault stays until a reset, with the output off; the
  controller's output is limited and ramped. Of both: every byte of the streams is accounted for,
  every complete frame is found, responses on the wire are stable.

  \<^bold>\<open>Not modelled.\<close>
  \<^item> BuildToTarget: \<^verbatim>\<open>Application/force_build*.c\<close>, the segment operations of
    \<^verbatim>\<open>motor_executor_real.c\<close> (from line 1184 on), their two transitions of the stop timer and the
    conditional branches elsewhere.
  \<^item> In ForceServo builds: the values of the ordinary input and holding registers (their reads
    only refresh the snapshot), and the transport of the requests, which are the input of a pass
    (\<open>force_pass\<close>); the boot sequence of \<^verbatim>\<open>main\<close> is modelled for the first program only, and a
    run of the second starts at the initialisation of its executor and machine.
  \<^item> The vendor's HAL and CMSIS (but for \<open>HAL_GPIO_Init\<close>), start-up code, clock setup and the
    vendored middleware; the measured electrical behaviour of the board;
    \<^verbatim>\<open>Reference/LegacySource\<close>, which is not linked. A memory barrier is the identity: the
    interleavings are of whole accesses in program order. The frozen diagnostic words show
    a zero without its sign and one NaN pattern.
\<close>

end
